(* ===== verification/Prelude.thy ===== *)
theory Prelude
  imports Complex_Main "HOL-Library.AList" "HOL-Library.List_Lexorder"
    "HOL-Library.Char_ord" "HOL-Library.Sublist"
begin

text \<open>
  Shared vocabulary of the development: Python exceptions as values, the result
  monad, Python dictionaries as insertion-ordered association lists, and the string
  operations of the standard library that the sources use.

  A Python \<open>str\<close> is a HOL \<^typ>\<open>string\<close>: the character with code \<open>n\<close> stands for the
  code point \<open>n\<close>, so the model ranges over the code points below 256. Case mappings are
  modelled on the ASCII letters and leave the other code points alone.
\<close>

named_theorems result_simps "unfolding rules of the result monad"
named_theorems dict_simps "lookup and key rules of insertion-ordered dictionaries"

section \<open>Exceptions and results\<close>

text \<open>
  The exception classes the modelled code raises or inspects. \<open>Other n\<close> is a class named
  \<open>n\<close> that the code never tells apart.
\<close>

datatype exn_class =
    ValueError | TypeError | KeyError | IndexError | RecursionError
  | WorkflowValidationError | InvalidConnectionError | CycleDetectedError
  | NodeExecutionError
  | ExpressionSyntaxError | ExpressionEvalError | ExpressionTimeoutError | ExpressionSecurityError
  | CredentialNotFoundError | CredentialDecryptError | CredentialTypeNotFoundError
  | NodeTypeNotFoundError | SubWorkflowNotFoundError | SubWorkflowProjectMismatchError
  | NodeRegistryError | CredentialRegistryError
  | WebhookConflictError | UnsupportedMethodError
  | Other string

datatype exn = Exn (exn_cls: exn_class) (exn_msg: string)

type_synonym 'a result = "exn + 'a"

definition raise :: "exn_class \<Rightarrow> string \<Rightarrow> 'a result" where
  "raise c m = Inl (Exn c m)"

definition rbind :: "'e + 'a \<Rightarrow> ('a \<Rightarrow> 'e + 'b) \<Rightarrow> 'e + 'b" where
  "rbind r f = (case r of Inl e \<Rightarrow> Inl e | Inr x \<Rightarrow> f x)"

lemma rbind_Inl [simp]: "rbind (Inl e) f = Inl e"
  by (simp add: rbind_def)

lemma rbind_Inr [simp]: "rbind (Inr x) f = f x"
  by (simp add: rbind_def)

lemma rbind_eq_Inr [result_simps]:
  "rbind r f = Inr y \<longleftrightarrow> (\<exists>x. r = Inr x \<and> f x = Inr y)"
  by (cases r) auto

lemma rbind_eq_Inl [result_simps]:
  "rbind r f = Inl e \<longleftrightarrow> r = Inl e \<or> (\<exists>x. r = Inr x \<and> f x = Inl e)"
  by (cases r) auto

lemma rbind_assoc: "rbind (rbind r f) g = rbind r (\<lambda>x. rbind (f x) g)"
  by (cases r) auto

lemma rbind_cong [fundef_cong]:
  assumes "r = r'" and "\<And>x. r' = Inr x \<Longrightarrow> f x = g x"
  shows "rbind r f = rbind r' g"
  using assms by (cases r') auto

definition raises :: "exn_class \<Rightarrow> 'a result \<Rightarrow> bool" where
  "raises c r \<longleftrightarrow> (\<exists>m. r = raise c m)"

lemma raises_raise [simp]: "raises c (raise c' m) \<longleftrightarrow> c = c'"
  by (auto simp: raises_def raise_def)

lemma raises_Inr [simp]: "\<not> raises c (Inr x)"
  by (simp add: raises_def raise_def)

lemma raises_code [code]: "raises c (Inl e) \<longleftrightarrow> exn_cls e = c" "raises c (Inr x) \<longleftrightarrow> False"
  by (cases e, auto simp: raises_def raise_def)

definition returns :: "('a \<Rightarrow> bool) \<Rightarrow> 'a result \<Rightarrow> bool" where
  "returns P r = (case r of Inl _ \<Rightarrow> False | Inr x \<Rightarrow> P x)"

lemma returns_iff: "returns P r \<longleftrightarrow> (\<exists>x. r = Inr x \<and> P x)"
  by (cases r) (auto simp: returns_def)

lemma raise_neq_Inr [simp]: "raise c m \<noteq> Inr x" "Inr x \<noteq> raise c m"
  by (simp_all add: raise_def)

lemma rbind_raise [simp]: "rbind (raise c m) f = raise c m"
  by (simp add: raise_def)

lemma raise_eq_Inl [result_simps]: "raise c m = Inl e \<longleftrightarrow> e = Exn c m"
  by (auto simp: raise_def)

lemma if_None_eq_Some: "(if c then None else x) = Some y \<longleftrightarrow> \<not> c \<and> x = Some y"
  by simp

text \<open>A comprehension whose body may raise: the first exception stops it.\<close>

fun rmap :: "('a \<Rightarrow> 'e + 'b) \<Rightarrow> 'a list \<Rightarrow> 'e + 'b list" where
  "rmap f [] = Inr []"
| "rmap f (x # xs) = rbind (f x) (\<lambda>y. rbind (rmap f xs) (\<lambda>ys. Inr (y # ys)))"

text \<open>A loop that threads an accumulator and may raise.\<close>

fun rfold :: "('s \<Rightarrow> 'a \<Rightarrow> 'e + 's) \<Rightarrow> 's \<Rightarrow> 'a list \<Rightarrow> 'e + 's" where
  "rfold f s [] = Inr s"
| "rfold f s (x # xs) = rbind (f s x) (\<lambda>s'. rfold f s' xs)"

lemma rmap_Inr_length: "rmap f xs = Inr ys \<Longrightarrow> length ys = length xs"
  by (induction xs arbitrary: ys) (auto simp: result_simps)

lemma rmap_Inr_nth:
  "rmap f xs = Inr ys \<Longrightarrow> i < length xs \<Longrightarrow> f (xs ! i) = Inr (ys ! i)"
  by (induction xs arbitrary: ys i) (auto simp: result_simps nth_Cons split: nat.splits)

lemma rmap_Inl: "rmap f xs = Inl e \<Longrightarrow> \<exists>x \<in> set xs. f x = Inl e"
  by (induction xs) (auto simp: result_simps)

lemma rmap_total: "(\<And>x. x \<in> set xs \<Longrightarrow> f x = Inr (g x)) \<Longrightarrow> rmap f xs = Inr (map g xs)"
  by (induction xs) auto

lemma rmap_cong [fundef_cong]:
  assumes "xs = ys" and "\<And>x. x \<in> set ys \<Longrightarrow> f x = g x"
  shows "rmap f xs = rmap g ys"
  using assms(2) unfolding assms(1) by (induction ys) auto

lemma rfold_append: "rfold f s (xs @ ys) = rbind (rfold f s xs) (\<lambda>t. rfold f t ys)"
  by (induction xs arbitrary: s) (auto simp: rbind_def split: sum.splits)

lemma rfold_invariant:
  assumes "rfold f s xs = Inr t" and "P s"
    and "\<And>s x s'. x \<in> set xs \<Longrightarrow> P s \<Longrightarrow> f s x = Inr s' \<Longrightarrow> P s'"
  shows "P t"
  using assms by (induction xs arbitrary: s) (auto simp: result_simps)

section \<open>Dictionaries\<close>

text \<open>
  A Python \<open>dict\<close> keeps insertion order: writing an existing key keeps its position,
  writing a new one appends. This is what \<^const>\<open>AList.update\<close> does, with
  \<^const>\<open>AList.delete\<close> for deletion. \<^term>\<open>distinct (map fst d)\<close> is the
  representation invariant.
\<close>

type_synonym ('k, 'v) dict = "('k \<times> 'v) list"

abbreviation dict_ok :: "('k, 'v) dict \<Rightarrow> bool" where
  "dict_ok d \<equiv> distinct (map fst d)"

definition dict_get :: "('k, 'v) dict \<Rightarrow> 'k \<Rightarrow> 'v \<Rightarrow> 'v" where
  "dict_get d k dflt = (case map_of d k of None \<Rightarrow> dflt | Some v \<Rightarrow> v)"

definition dict_set :: "'k \<Rightarrow> 'v \<Rightarrow> ('k, 'v) dict \<Rightarrow> ('k, 'v) dict" where
  "dict_set k v d = AList.update k v d"

definition dict_del :: "'k \<Rightarrow> ('k, 'v) dict \<Rightarrow> ('k, 'v) dict" where
  "dict_del k d = AList.delete k d"

definition dict_setdefault :: "'k \<Rightarrow> 'v \<Rightarrow> ('k, 'v) dict \<Rightarrow> ('k, 'v) dict" where
  "dict_setdefault k v d = (case map_of d k of None \<Rightarrow> d @ [(k, v)] | Some _ \<Rightarrow> d)"

text \<open>\<open>{**a, **b}\<close>: the keys of \<open>a\<close> in order, then the new keys of \<open>b\<close>; \<open>b\<close> wins.\<close>

definition dict_merge :: "('k, 'v) dict \<Rightarrow> ('k, 'v) dict \<Rightarrow> ('k, 'v) dict" where
  "dict_merge a b = fold (\<lambda>(k, v) d. dict_set k v d) b a"

lemma map_of_dict_set [dict_simps]: "map_of (dict_set k v d) = (map_of d)(k \<mapsto> v)"
  by (simp add: dict_set_def update_conv')

lemma map_of_dict_del [dict_simps]: "map_of (dict_del k d) = (map_of d)(k := None)"
  by (simp add: dict_del_def delete_conv')

lemma map_of_dict_setdefault [dict_simps]:
  "map_of (dict_setdefault k v d) =
     (if map_of d k = None then (map_of d)(k \<mapsto> v) else map_of d)"
  by (auto simp: dict_setdefault_def map_add_def fun_eq_iff split: option.splits)

lemma dict_ok_set [simp]: "dict_ok d \<Longrightarrow> dict_ok (dict_set k v d)"
  by (simp add: dict_set_def distinct_update)

lemma dict_ok_del [simp]: "dict_ok d \<Longrightarrow> dict_ok (dict_del k d)"
  by (simp add: dict_del_def distinct_delete)

lemma dict_ok_setdefault [simp]: "dict_ok d \<Longrightarrow> dict_ok (dict_setdefault k v d)"
  by (auto simp: dict_setdefault_def map_of_eq_None_iff image_iff split: option.splits)

lemma keys_dict_set [dict_simps]: "fst ` set (dict_set k v d) = insert k (fst ` set d)"
  by (metis dict_set_def dom_map_of_conv_image_fst dom_fun_upd option.simps(3) update_conv')

lemma keys_dict_del [dict_simps]: "fst ` set (dict_del k d) = fst ` set d - {k}"
  by (auto simp: dict_del_def AList.delete_eq image_iff)

lemma dict_set_new: "map_of d k = None \<Longrightarrow> dict_set k v d = d @ [(k, v)]"
  by (induction d) (auto simp: dict_set_def split: if_splits)

lemma map_of_dict_merge [dict_simps]:
  "dict_ok b \<Longrightarrow> map_of (dict_merge a b) k = (case map_of b k of None \<Rightarrow> map_of a k | Some v \<Rightarrow> Some v)"
  unfolding dict_merge_def
proof (induction b arbitrary: a)
  case (Cons p b)
  obtain k' v where p: "p = (k', v)" by (cases p)
  from Cons.prems have "map_of b k' = None"
    by (auto simp: p map_of_eq_None_iff image_iff)
  with Cons p show ?case
    by (auto simp: dict_simps split: option.splits)
qed simp

lemma dict_ok_merge [simp]: "dict_ok a \<Longrightarrow> dict_ok (dict_merge a b)"
  unfolding dict_merge_def by (induction b arbitrary: a) auto

text \<open>
  The interface of a keyed table, with the laws its clients rely on; the dictionaries
  above provide it.
\<close>

locale keyed_table =
  fixes lookup :: "'t \<Rightarrow> 'k \<Rightarrow> 'v option"
    and insert_entry :: "'k \<Rightarrow> 'v \<Rightarrow> 't \<Rightarrow> 't"
    and delete_entry :: "'k \<Rightarrow> 't \<Rightarrow> 't"
    and table_ok :: "'t \<Rightarrow> bool"
  assumes lookup_insert: "lookup (insert_entry k v t) = (lookup t)(k \<mapsto> v)"
    and lookup_delete: "lookup (delete_entry k t) = (lookup t)(k := None)"
    and insert_ok: "table_ok t \<Longrightarrow> table_ok (insert_entry k v t)"
    and delete_ok: "table_ok t \<Longrightarrow> table_ok (delete_entry k t)"
begin

lemma insert_all_lookup:
  "lookup (fold (\<lambda>x. insert_entry (f x) (g x)) xs t) k =
     (case find (\<lambda>x. f x = k) (rev xs) of None \<Rightarrow> lookup t k | Some x \<Rightarrow> Some (g x))"
proof (induction xs rule: rev_induct)
  case (snoc x xs)
  then show ?case by (auto simp: lookup_insert split: option.splits)
qed simp

lemma delete_all_lookup:
  "lookup (fold delete_entry ks t) k = (if k \<in> set ks then None else lookup t k)"
  by (induction ks arbitrary: t) (auto simp: lookup_delete)

lemma insert_all_ok: "table_ok t \<Longrightarrow> table_ok (fold (\<lambda>x. insert_entry (f x) (g x)) xs t)"
  by (induction xs arbitrary: t) (auto simp: insert_ok)

lemma delete_all_ok: "table_ok t \<Longrightarrow> table_ok (fold delete_entry ks t)"
  by (induction ks arbitrary: t) (auto simp: delete_ok)

end

interpretation pydict: keyed_table map_of dict_set dict_del dict_ok
  by unfold_locales (simp_all add: dict_simps)

section \<open>Strings\<close>

definition py_isspace :: "char \<Rightarrow> bool" where
  "py_isspace c \<longleftrightarrow> (let n = of_char c :: nat in
     9 \<le> n \<and> n \<le> 13 \<or> 28 \<le> n \<and> n \<le> 32 \<or> n = 133 \<or> n = 160)"

definition lstrip_chars :: "(char \<Rightarrow> bool) \<Rightarrow> string \<Rightarrow> string" where
  "lstrip_chars p s = dropWhile p s"

definition rstrip_chars :: "(char \<Rightarrow> bool) \<Rightarrow> string \<Rightarrow> string" where
  "rstrip_chars p s = rev (dropWhile p (rev s))"

definition py_strip :: "string \<Rightarrow> string" where
  "py_strip s = rstrip_chars py_isspace (lstrip_chars py_isspace s)"

definition ascii_upper :: "char \<Rightarrow> char" where
  "ascii_upper c = (let n = of_char c :: nat in if 97 \<le> n \<and> n \<le> 122 then char_of (n - 32) else c)"

definition ascii_lower :: "char \<Rightarrow> char" where
  "ascii_lower c = (let n = of_char c :: nat in if 65 \<le> n \<and> n \<le> 90 then char_of (n + 32) else c)"

definition py_upper :: "string \<Rightarrow> string" where
  "py_upper s = map ascii_upper s"

definition py_lower :: "string \<Rightarrow> string" where
  "py_lower s = map ascii_lower s"

text \<open>\<open>s.split(c)\<close> for a one-character separator: always at least one part.\<close>

fun split_on :: "char \<Rightarrow> string \<Rightarrow> string list" where
  "split_on c [] = [[]]"
| "split_on c (x # xs) =
     (if x = c then [] # split_on c xs
      else (x # hd (split_on c xs)) # tl (split_on c xs))"

fun join :: "string \<Rightarrow> string list \<Rightarrow> string" where
  "join sep [] = []"
| "join sep [x] = x"
| "join sep (x # y # ys) = x @ sep @ join sep (y # ys)"

text \<open>\<open>s.find(p)\<close>: the first position at which \<open>p\<close> starts.\<close>

fun find_sub :: "string \<Rightarrow> string \<Rightarrow> nat option" where
  "find_sub p [] = (if p = [] then Some 0 else None)"
| "find_sub p (x # xs) =
     (if prefix p (x # xs) then Some 0 else map_option Suc (find_sub p xs))"

definition substring :: "string \<Rightarrow> string \<Rightarrow> bool" where
  "substring p s \<longleftrightarrow> find_sub p s \<noteq> None"

lemma split_on_not_Nil [simp]: "split_on c s \<noteq> []"
  by (cases s) auto

lemma split_on_no_sep: "p \<in> set (split_on c s) \<Longrightarrow> c \<notin> set p"
proof (induction s arbitrary: p)
  case (Cons x xs)
  have hd: "c \<notin> set (hd (split_on c xs))"
    by (rule Cons.IH) simp
  from Cons.prems have "p = [] \<or> p = x # hd (split_on c xs) \<and> x \<noteq> c \<or> p \<in> set (split_on c xs)"
    by (auto split: if_splits dest: list.set_sel(2) [rotated])
  with hd Cons.IH show ?case by auto
qed simp

lemma join_Cons: "ys \<noteq> [] \<Longrightarrow> join sep (y # ys) = y @ sep @ join sep ys"
  by (cases ys) auto

lemma join_split_on: "join [c] (split_on c s) = s"
proof (induction s)
  case (Cons x xs)
  obtain y ys where sp: "split_on c xs = y # ys" by (cases "split_on c xs") auto
  show ?case
  proof (cases "x = c")
    case True
    with Cons show ?thesis by (simp add: join_Cons)
  next
    case False
    with Cons sp show ?thesis by (cases ys) auto
  qed
qed simp

lemma split_on_join:
  "xs \<noteq> [] \<Longrightarrow> (\<forall>x \<in> set xs. c \<notin> set x) \<Longrightarrow> split_on c (join [c] xs) = xs"
proof (induction xs rule: induct_list012)
  case (2 x)
  then have "c \<notin> set x" by simp
  then show ?case by (induction x) auto
next
  case (3 x y ys)
  then have x: "c \<notin> set x" and rest: "split_on c (join [c] (y # ys)) = y # ys" by auto
  from x have "split_on c (x @ c # join [c] (y # ys)) = x # split_on c (join [c] (y # ys))"
    by (induction x) auto
  with rest show ?case by simp
qed simp

lemma find_sub_Some_le: "find_sub p s = Some i \<Longrightarrow> i + length p \<le> length s"
proof (induction s arbitrary: i)
  case (Cons x xs)
  then show ?case by (auto split: if_splits dest: prefix_length_le)
qed (auto split: if_splits)

lemma find_sub_Some: "find_sub p s = Some i \<Longrightarrow> prefix p (drop i s)"
  by (induction s arbitrary: i) (auto split: if_splits)

lemma find_sub_least: "find_sub p s = Some i \<Longrightarrow> j < i \<Longrightarrow> \<not> prefix p (drop j s)"
proof (induction s arbitrary: i j)
  case (Cons x xs)
  then show ?case by (cases j) (auto split: if_splits)
qed (auto split: if_splits)

lemma find_sub_None: "find_sub p s = None \<longleftrightarrow> \<not> sublist p s"
proof (induction s)
  case (Cons x xs)
  then show ?case by (auto simp: sublist_Cons_right)
qed auto

lemma substring_iff [simp]: "substring p s \<longleftrightarrow> sublist p s"
  by (simp add: substring_def find_sub_None)

subsection \<open>Numbers in strings\<close>

definition digit_char :: "nat \<Rightarrow> char" where
  "digit_char d = char_of (48 + d)"

fun show_nat :: "nat \<Rightarrow> string" where
  "show_nat n = (if n < 10 then [digit_char n] else show_nat (n div 10) @ [digit_char (n mod 10)])"

declare show_nat.simps [simp del]

definition show_int :: "int \<Rightarrow> string" where
  "show_int i = (if i < 0 then CHR ''-'' # show_nat (nat (- i)) else show_nat (nat i))"

definition is_ascii_digit :: "char \<Rightarrow> bool" where
  "is_ascii_digit c \<longleftrightarrow> (let n = of_char c :: nat in 48 \<le> n \<and> n \<le> 57)"

text \<open>
  \<open>str.isdigit\<close> is wider than the ASCII digits: below 256 it also holds of the superscripts
  \<open>2\<close>, \<open>3\<close> and \<open>1\<close> (code points 178, 179, 185), which \<open>int()\<close> rejects.
\<close>

definition py_isdigit_char :: "char \<Rightarrow> bool" where
  "py_isdigit_char c \<longleftrightarrow> is_ascii_digit c \<or> (of_char c :: nat) \<in> {178, 179, 185}"

definition py_isdigit :: "string \<Rightarrow> bool" where
  "py_isdigit s \<longleftrightarrow> s \<noteq> [] \<and> list_all py_isdigit_char s"

definition digit_val :: "char \<Rightarrow> nat" where
  "digit_val c = of_char c - 48"

fun nat_of_digits :: "nat \<Rightarrow> string \<Rightarrow> nat" where
  "nat_of_digits acc [] = acc"
| "nat_of_digits acc (c # cs) = nat_of_digits (10 * acc + digit_val c) cs"

text \<open>
  The digits of an \<open>int()\<close> literal: decimal digits, single underscores allowed between two
  digits. \<open>None\<close> is the ValueError.
\<close>

fun digits_underscored :: "string \<Rightarrow> string option" where
  "digits_underscored [] = None"
| "digits_underscored [c] = (if is_ascii_digit c then Some [c] else None)"
| "digits_underscored (c # d # cs) =
     (if \<not> is_ascii_digit c then None
      else map_option (Cons c) (digits_underscored (if d = CHR ''_'' then cs else d # cs)))"

definition py_int_of_string :: "string \<Rightarrow> int option" where
  "py_int_of_string s =
     (case py_strip s of
        [] \<Rightarrow> None
      | c # cs \<Rightarrow>
          (if c = CHR ''-'' then map_option (\<lambda>ds. - int (nat_of_digits 0 ds)) (digits_underscored cs)
           else if c = CHR ''+'' then map_option (\<lambda>ds. int (nat_of_digits 0 ds)) (digits_underscored cs)
           else map_option (\<lambda>ds. int (nat_of_digits 0 ds)) (digits_underscored (c # cs))))"

lemma show_nat_not_Nil [simp]: "show_nat n \<noteq> []"
  by (subst show_nat.simps) simp

lemma of_char_digit_char: "d < 10 \<Longrightarrow> of_char (digit_char d) = (48 + d :: nat)"
  by (simp add: digit_char_def)

lemma digit_char_digit: "d < 10 \<Longrightarrow> is_ascii_digit (digit_char d)"
  by (simp add: is_ascii_digit_def of_char_digit_char Let_def)

lemma digit_val_digit_char: "d < 10 \<Longrightarrow> digit_val (digit_char d) = d"
  by (simp add: digit_val_def of_char_digit_char)

lemma show_nat_digits: "list_all is_ascii_digit (show_nat n)"
proof (induction n rule: show_nat.induct)
  case (1 n)
  then show ?case
    by (subst show_nat.simps) (auto simp: digit_char_digit)
qed

lemma nat_of_digits_append: "nat_of_digits a (xs @ [c]) = 10 * nat_of_digits a xs + digit_val c"
  by (induction xs arbitrary: a) auto

lemma nat_of_digits_show_nat: "nat_of_digits 0 (show_nat n) = n"
proof (induction n rule: show_nat.induct)
  case (1 n)
  then show ?case
    by (subst show_nat.simps)
       (auto simp: nat_of_digits_append digit_val_digit_char)
qed

lemma show_nat_inject: "show_nat m = show_nat n \<longleftrightarrow> m = n"
  by (metis nat_of_digits_show_nat)

end
