(* ===== verification/Py_Value.thy ===== *)
theory Py_Value
  imports Prelude
begin

text \<open>
  JSON-shaped Python values and the operators of the language the nodes apply to them:
  truth value, equality, ordering, membership, length, \<open>str\<close>, \<open>repr\<close> and
  \<open>json.dumps(..., sort_keys=True)\<close>. Integers are unbounded; a float is the rational number
  it denotes (finite floats only), and its decimal text is a parameter \<open>fr\<close> of the functions
  that print it, since the shortest-repr algorithm is not part of the program.
\<close>

datatype json =
    JNull
  | JBool bool
  | JInt int
  | JFloat rat
  | JStr string
  | JArr "json list"
  | JObj "(string, json) dict"

type_synonym jobj = "(string, json) dict"

section \<open>Structure\<close>

fun type_name :: "json \<Rightarrow> string" where
  "type_name JNull = ''NoneType''"
| "type_name (JBool _) = ''bool''"
| "type_name (JInt _) = ''int''"
| "type_name (JFloat _) = ''float''"
| "type_name (JStr _) = ''str''"
| "type_name (JArr _) = ''list''"
| "type_name (JObj _) = ''dict''"

fun is_str :: "json \<Rightarrow> bool" where
  "is_str (JStr _) = True"
| "is_str _ = False"

fun is_arr :: "json \<Rightarrow> bool" where
  "is_arr (JArr _) = True"
| "is_arr _ = False"

fun is_obj :: "json \<Rightarrow> bool" where
  "is_obj (JObj _) = True"
| "is_obj _ = False"

text \<open>\<open>bool\<close>, \<open>int\<close> and \<open>float\<close> compare as numbers (\<open>bool\<close> is a subclass of \<open>int\<close>).\<close>

fun num_of :: "json \<Rightarrow> rat option" where
  "num_of (JBool b) = Some (if b then 1 else 0)"
| "num_of (JInt i) = Some (of_int i)"
| "num_of (JFloat q) = Some q"
| "num_of _ = None"

fun py_bool :: "json \<Rightarrow> bool" where
  "py_bool JNull = False"
| "py_bool (JBool b) = b"
| "py_bool (JInt i) = (i \<noteq> 0)"
| "py_bool (JFloat q) = (q \<noteq> 0)"
| "py_bool (JStr s) = (s \<noteq> [])"
| "py_bool (JArr xs) = (xs \<noteq> [])"
| "py_bool (JObj d) = (d \<noteq> [])"

text \<open>\<open>len(v)\<close>; \<open>None\<close> is the TypeError of a value without a length.\<close>

fun py_len :: "json \<Rightarrow> nat option" where
  "py_len (JStr s) = Some (length s)"
| "py_len (JArr xs) = Some (length xs)"
| "py_len (JObj d) = Some (length d)"
| "py_len _ = None"

text \<open>Every dictionary inside the value has distinct keys.\<close>

fun json_ok :: "json \<Rightarrow> bool" where
  "json_ok (JArr xs) = list_all json_ok xs"
| "json_ok (JObj d) = (dict_ok d \<and> list_all (\<lambda>p. json_ok (snd p)) d)"
| "json_ok _ = True"

section \<open>Equality\<close>

text \<open>
  \<open>a == b\<close>: numbers by value, lists elementwise, dictionaries regardless of the order of
  their keys, and otherwise only values of one type.
\<close>

function py_eq :: "json \<Rightarrow> json \<Rightarrow> bool"
  and py_eq_list :: "json list \<Rightarrow> json list \<Rightarrow> bool"
  and py_sub_dict :: "jobj \<Rightarrow> jobj \<Rightarrow> bool" where
  "py_eq a b =
     (case (num_of a, num_of b) of
        (Some x, Some y) \<Rightarrow> x = y
      | _ \<Rightarrow>
        (case (a, b) of
           (JNull, JNull) \<Rightarrow> True
         | (JStr s, JStr t) \<Rightarrow> s = t
         | (JArr xs, JArr ys) \<Rightarrow> py_eq_list xs ys
         | (JObj d, JObj e) \<Rightarrow> length d = length e \<and> py_sub_dict d e
         | _ \<Rightarrow> False))"
| "py_eq_list xs ys =
     (case (xs, ys) of
        ([], []) \<Rightarrow> True
      | (x # xs', y # ys') \<Rightarrow> py_eq x y \<and> py_eq_list xs' ys'
      | _ \<Rightarrow> False)"
| "py_sub_dict d e =
     (case d of
        [] \<Rightarrow> True
      | (k, v) # d' \<Rightarrow>
          (case map_of e k of None \<Rightarrow> False | Some w \<Rightarrow> py_eq v w \<and> py_sub_dict d' e))"
  by pat_completeness auto
termination
  by (relation "measure (\<lambda>s. case s of
        Inl (a, _) \<Rightarrow> 2 * size a
      | Inr (Inl (xs, _)) \<Rightarrow> Suc (2 * size_list size xs)
      | Inr (Inr (d, _)) \<Rightarrow> Suc (2 * size_list (size_prod (\<lambda>_. 0) size) d))")
     auto

declare py_eq.simps [simp del] py_eq_list.simps [simp del] py_sub_dict.simps [simp del]

lemma py_eq_num: "num_of a = Some x \<Longrightarrow> num_of b = Some y \<Longrightarrow> py_eq a b \<longleftrightarrow> x = y"
  by (simp add: py_eq.simps)

lemma py_eq_simps [simp]:
  "py_eq JNull b \<longleftrightarrow> b = JNull"
  "py_eq (JStr s) b \<longleftrightarrow> b = JStr s"
  "py_eq (JInt i) (JInt j) \<longleftrightarrow> i = j"
  "py_eq (JBool p) (JBool q) \<longleftrightarrow> p = q"
  "py_eq (JArr xs) (JArr ys) \<longleftrightarrow> py_eq_list xs ys"
  "py_eq (JObj d) (JObj e) \<longleftrightarrow> length d = length e \<and> py_sub_dict d e"
  by (auto simp: py_eq.simps split: json.splits)

lemma py_eq_list_simps [simp]:
  "py_eq_list [] []"
  "\<not> py_eq_list [] (y # ys)"
  "\<not> py_eq_list (x # xs) []"
  "py_eq_list (x # xs) (y # ys) \<longleftrightarrow> py_eq x y \<and> py_eq_list xs ys"
  by (simp_all add: py_eq_list.simps [of "[]"] py_eq_list.simps [of "_ # _"])

lemma py_sub_dict_simps [simp]:
  "py_sub_dict [] e"
  "py_sub_dict ((k, v) # d) e \<longleftrightarrow>
     (case map_of e k of None \<Rightarrow> False | Some w \<Rightarrow> py_eq v w \<and> py_sub_dict d e)"
  by (simp_all add: py_sub_dict.simps [of "[]"] py_sub_dict.simps [of "_ # _"])

lemma py_sub_dict_iff:
  "py_sub_dict d e \<longleftrightarrow> (\<forall>(k, v) \<in> set d. \<exists>w. map_of e k = Some w \<and> py_eq v w)"
  by (induction d) (auto split: option.splits)

lemma py_eq_list_iff: "py_eq_list xs ys \<longleftrightarrow> list_all2 py_eq xs ys"
proof (induction xs arbitrary: ys)
  case Nil
  then show ?case by (cases ys) auto
next
  case (Cons x xs)
  then show ?case by (cases ys) auto
qed

lemma py_eq_refl: "json_ok v \<Longrightarrow> py_eq v v"
proof (induction v)
  case (JArr xs)
  then show ?case by (auto simp: py_eq_list_iff list_all_iff list_all2_same)
next
  case (JObj d)
  have "\<exists>w. map_of d k = Some w \<and> py_eq v w" if kv: "(k, v) \<in> set d" for k v
  proof -
    from JObj.prems kv have "map_of d k = Some v" by simp
    moreover have "py_eq v v"
    proof (rule JObj.IH)
      show "(k, v) \<in> set d" by (rule kv)
      show "v \<in> Basic_BNFs.snds (k, v)" by (simp add: snds.simps)
      show "json_ok v" using JObj.prems kv by (auto simp: list_all_iff)
    qed
    ultimately show ?thesis by blast
  qed
  then show ?case by (auto simp: py_sub_dict_iff)
qed (auto simp: py_eq.simps)

section \<open>Ordering\<close>

datatype cmp_op = OpLt | OpLe | OpGt | OpGe

fun cmp_symbol :: "cmp_op \<Rightarrow> string" where
  "cmp_symbol OpLt = ''<''"
| "cmp_symbol OpLe = ''<=''"
| "cmp_symbol OpGt = ''>''"
| "cmp_symbol OpGe = ''>=''"

fun cmp_ord :: "cmp_op \<Rightarrow> 'a::linorder \<Rightarrow> 'a \<Rightarrow> bool" where
  "cmp_ord OpLt x y = (x < y)"
| "cmp_ord OpLe x y = (x \<le> y)"
| "cmp_ord OpGt x y = (x > y)"
| "cmp_ord OpGe x y = (x \<ge> y)"

definition cmp_unsupported :: "cmp_op \<Rightarrow> json \<Rightarrow> json \<Rightarrow> bool result" where
  "cmp_unsupported p a b = raise TypeError
     (CHR 0x27 # cmp_symbol p @ [CHR 0x27] @ '' not supported between instances of ''
      @ [CHR 0x27] @ type_name a @ [CHR 0x27] @ '' and '' @ [CHR 0x27] @ type_name b @ [CHR 0x27])"

text \<open>
  \<open>a < b\<close> and its kin: numbers by value, strings by code points, lists at the first pair of
  elements that are not equal (by length when there is none); anything else raises
  TypeError.
\<close>

function py_cmp :: "cmp_op \<Rightarrow> json \<Rightarrow> json \<Rightarrow> bool result"
  and py_cmp_list :: "cmp_op \<Rightarrow> json list \<Rightarrow> json list \<Rightarrow> bool result" where
  "py_cmp p a b =
     (case (num_of a, num_of b) of
        (Some x, Some y) \<Rightarrow> Inr (cmp_ord p x y)
      | _ \<Rightarrow>
        (case (a, b) of
           (JStr s, JStr t) \<Rightarrow> Inr (cmp_ord p s t)
         | (JArr xs, JArr ys) \<Rightarrow> py_cmp_list p xs ys
         | _ \<Rightarrow> cmp_unsupported p a b))"
| "py_cmp_list p xs ys =
     (case (xs, ys) of
        (x # xs', y # ys') \<Rightarrow> if py_eq x y then py_cmp_list p xs' ys' else py_cmp p x y
      | _ \<Rightarrow> Inr (cmp_ord p (length xs) (length ys)))"
  by pat_completeness auto
termination
  by (relation "measure (\<lambda>s. case s of
        Inl (_, a, _) \<Rightarrow> 2 * size a
      | Inr (_, xs, _) \<Rightarrow> Suc (2 * size_list size xs))")
     auto

declare py_cmp.simps [simp del] py_cmp_list.simps [simp del]

lemma py_cmp_num:
  "num_of a = Some x \<Longrightarrow> num_of b = Some y \<Longrightarrow> py_cmp p a b = Inr (cmp_ord p x y)"
  by (simp add: py_cmp.simps)

lemma py_cmp_str [simp]: "py_cmp p (JStr s) (JStr t) = Inr (cmp_ord p s t)"
  by (simp add: py_cmp.simps)

lemma py_cmp_int [simp]: "py_cmp p (JInt i) (JInt j) = Inr (cmp_ord p i j)"
  by (cases p) (simp_all add: py_cmp.simps)

lemma py_cmp_arr [simp]: "py_cmp p (JArr xs) (JArr ys) = py_cmp_list p xs ys"
  by (simp add: py_cmp.simps)

text \<open>Swapping the operands and the direction of a comparison changes nothing.\<close>

fun cmp_flip :: "cmp_op \<Rightarrow> cmp_op" where
  "cmp_flip OpLt = OpGt"
| "cmp_flip OpLe = OpGe"
| "cmp_flip OpGt = OpLt"
| "cmp_flip OpGe = OpLe"

lemma cmp_ord_flip: "cmp_ord (cmp_flip p) y x = cmp_ord p x y"
  by (cases p) auto

section \<open>Membership\<close>

text \<open>\<open>x in c\<close> for a container \<open>c\<close>.\<close>

fun py_contains :: "json \<Rightarrow> json \<Rightarrow> bool result" where
  "py_contains (JStr s) x =
     (case x of
        JStr t \<Rightarrow> Inr (substring t s)
      | _ \<Rightarrow> raise TypeError
               (CHR 0x27 # ''in <string>'' @ [CHR 0x27] @ '' requires string as left operand, not ''
                @ type_name x))"
| "py_contains (JArr xs) x = Inr (list_ex (\<lambda>e. py_eq x e) xs)"
| "py_contains (JObj d) x =
     (case x of
        JStr k \<Rightarrow> Inr (map_of d k \<noteq> None)
      | JArr _ \<Rightarrow> raise TypeError (''unhashable type: '' @ [CHR 0x27] @ ''list'' @ [CHR 0x27])
      | JObj _ \<Rightarrow> raise TypeError (''unhashable type: '' @ [CHR 0x27] @ ''dict'' @ [CHR 0x27])
      | _ \<Rightarrow> Inr False)"
| "py_contains c x = raise TypeError
     (''argument of type '' @ [CHR 0x27] @ type_name c @ [CHR 0x27] @ '' is not iterable'')"

section \<open>Text\<close>

definition hex_digit :: "nat \<Rightarrow> char" where
  "hex_digit n = (if n < 10 then char_of (48 + n) else char_of (87 + n))"

definition hex2 :: "char \<Rightarrow> string" where
  "hex2 c = (let n = of_char c :: nat in [hex_digit (n div 16), hex_digit (n mod 16)])"

definition repr_char :: "char \<Rightarrow> char \<Rightarrow> string" where
  "repr_char q c =
     (let n = of_char c :: nat in
      if c = q \<or> n = 92 then [CHR 0x5C, c]
      else if n = 10 then [CHR 0x5C, CHR ''n'']
      else if n = 13 then [CHR 0x5C, CHR ''r'']
      else if n = 9 then [CHR 0x5C, CHR ''t'']
      else if n < 32 \<or> 127 \<le> n \<and> n \<le> 160 \<or> n = 173 then [CHR 0x5C, CHR ''x''] @ hex2 c
      else [c])"

text \<open>\<open>repr\<close> of a string: single quotes unless the text has a single and no double quote.\<close>

definition repr_str :: "string \<Rightarrow> string" where
  "repr_str s =
     (let q = (if CHR 0x27 \<in> set s \<and> CHR 0x22 \<notin> set s then CHR 0x22 else CHR 0x27)
      in q # concat (map (repr_char q) s) @ [q])"

fun py_repr :: "(rat \<Rightarrow> string) \<Rightarrow> json \<Rightarrow> string" where
  "py_repr fr JNull = ''None''"
| "py_repr fr (JBool b) = (if b then ''True'' else ''False'')"
| "py_repr fr (JInt i) = show_int i"
| "py_repr fr (JFloat q) = fr q"
| "py_repr fr (JStr s) = repr_str s"
| "py_repr fr (JArr xs) = ''['' @ join '', '' (map (py_repr fr) xs) @ '']''"
| "py_repr fr (JObj d) =
     ''{'' @ join '', '' (map (\<lambda>p. repr_str (fst p) @ '': '' @ py_repr fr (snd p)) d) @ ''}''"

definition py_str :: "(rat \<Rightarrow> string) \<Rightarrow> json \<Rightarrow> string" where
  "py_str fr v = (case v of JStr s \<Rightarrow> s | _ \<Rightarrow> py_repr fr v)"

lemma py_str_JStr [simp]: "py_str fr (JStr s) = s"
  by (simp add: py_str_def)

text \<open>\<open>json.dumps(v, sort_keys=True)\<close> with the default separators and \<open>ensure_ascii\<close>.\<close>

definition dumps_char :: "char \<Rightarrow> string" where
  "dumps_char c =
     (let n = of_char c :: nat in
      if n = 34 \<or> n = 92 then [CHR 0x5C, c]
      else if n = 10 then [CHR 0x5C, CHR ''n'']
      else if n = 13 then [CHR 0x5C, CHR ''r'']
      else if n = 9 then [CHR 0x5C, CHR ''t'']
      else if n = 8 then [CHR 0x5C, CHR ''b'']
      else if n = 12 then [CHR 0x5C, CHR ''f'']
      else if n < 32 \<or> 127 < n then [CHR 0x5C, CHR ''u'', CHR ''0'', CHR ''0''] @ hex2 c
      else [c])"

definition dumps_str :: "string \<Rightarrow> string" where
  "dumps_str s = CHR 0x22 # concat (map dumps_char s) @ [CHR 0x22]"

fun json_dumps :: "(rat \<Rightarrow> string) \<Rightarrow> json \<Rightarrow> string" where
  "json_dumps fr JNull = ''null''"
| "json_dumps fr (JBool b) = (if b then ''true'' else ''false'')"
| "json_dumps fr (JInt i) = show_int i"
| "json_dumps fr (JFloat q) = fr q"
| "json_dumps fr (JStr s) = dumps_str s"
| "json_dumps fr (JArr xs) = ''['' @ join '', '' (map (json_dumps fr) xs) @ '']''"
| "json_dumps fr (JObj d) =
     ''{'' @ join '', '' (map snd (sort_key fst
        (map (\<lambda>p. (fst p, dumps_str (fst p) @ '': '' @ json_dumps fr (snd p))) d))) @ ''}''"

text \<open>\<open>int(v)\<close> for a number or a string (floats truncate toward zero); \<open>None\<close> is the ValueError.\<close>

definition trunc_rat :: "rat \<Rightarrow> int" where
  "trunc_rat q = (if q < 0 then \<lceil>q\<rceil> else \<lfloor>q\<rfloor>)"

lemma trunc_rat_of_int [simp]: "trunc_rat (of_int i) = i"
  by (simp add: trunc_rat_def)

text \<open>\<open>int(raw)\<close> of a JSON value; \<open>None\<close> is the exception.\<close>

fun int_of_json :: "json \<Rightarrow> int option" where
  "int_of_json (JBool b) = Some (if b then 1 else 0)"
| "int_of_json (JInt i) = Some i"
| "int_of_json (JFloat q) = Some (trunc_rat q)"
| "int_of_json (JStr s) = py_int_of_string s"
| "int_of_json _ = None"

text \<open>\<open>params.get(name) or dflt\<close>.\<close>

definition param_or :: "jobj \<Rightarrow> string \<Rightarrow> json \<Rightarrow> json" where
  "param_or params name dflt = (let v = dict_get params name JNull in if py_bool v then v else dflt)"

text \<open>\<open>raw is None or raw == ''\<close>.\<close>

definition is_blank :: "json \<Rightarrow> bool" where
  "is_blank raw \<longleftrightarrow> raw = JNull \<or> raw = JStr []"

end
