(* ===== verification/Paths.thy ===== *)
theory Paths
  imports Py_Value
begin

text \<open>
  Dotted-path access to JSON payloads, \<open>nodes/utils/paths.py\<close>: \<open>get_path\<close>, \<open>set_path\<close>,
  \<open>del_path\<close> and their helpers. The Python functions mutate \<open>data\<close> in place; the model
  returns the new value. A caller that sees an exception never looks at the half-written
  value again, so the error branch carries the exception only.
\<close>

section \<open>The operations\<close>

definition split_path :: "string \<Rightarrow> string list result" where
  "split_path path =
     (if path = [] then raise ValueError ''path must be a non-empty string''
      else let segments = split_on CHR ''.'' path in
        if list_ex (\<lambda>s. s = []) segments
        then raise ValueError (''path contains empty segment: '' @ repr_str path)
        else Inr segments)"

text \<open>\<open>segment.lstrip("-").isdigit()\<close>, and the \<open>int(segment)\<close> that follows it.\<close>

definition looks_like_index :: "string \<Rightarrow> bool" where
  "looks_like_index seg \<longleftrightarrow> py_isdigit (lstrip_chars (\<lambda>c. c = CHR ''-'') seg)"

definition segment_index :: "string \<Rightarrow> int result" where
  "segment_index seg =
     (case py_int_of_string seg of
        None \<Rightarrow> raise ValueError (''invalid literal for int() with base 10: '' @ repr_str seg)
      | Some i \<Rightarrow> Inr i)"

definition index_in_range :: "'a list \<Rightarrow> int \<Rightarrow> bool" where
  "index_in_range xs i \<longleftrightarrow> - int (length xs) \<le> i \<and> i < int (length xs)"

text \<open>The position a Python index denotes: negative indices count from the end.\<close>

definition index_pos :: "'a list \<Rightarrow> int \<Rightarrow> nat" where
  "index_pos xs i = nat (if i < 0 then int (length xs) + i else i)"

definition descend :: "json \<Rightarrow> string \<Rightarrow> json option result" where
  "descend container seg =
     (case container of
        JObj d \<Rightarrow> Inr (map_of d seg)
      | JArr xs \<Rightarrow>
          (if looks_like_index seg
           then rbind (segment_index seg) (\<lambda>i.
                  Inr (if index_in_range xs i then Some (xs ! index_pos xs i) else None))
           else Inr None)
      | _ \<Rightarrow> Inr None)"

definition cannot_assign :: "json \<Rightarrow> string \<Rightarrow> json result" where
  "cannot_assign container seg = raise TypeError
     (''cannot assign into '' @ type_name container @ '' at segment '' @ repr_str seg)"

definition assign :: "json \<Rightarrow> string \<Rightarrow> json \<Rightarrow> json result" where
  "assign container seg v =
     (case container of
        JObj d \<Rightarrow> Inr (JObj (dict_set seg v d))
      | JArr xs \<Rightarrow>
          (if looks_like_index seg
           then rbind (segment_index seg) (\<lambda>i.
                  if index_in_range xs i then Inr (JArr (xs[index_pos xs i := v]))
                  else cannot_assign container seg)
           else cannot_assign container seg)
      | _ \<Rightarrow> cannot_assign container seg)"

definition delete_seg :: "json \<Rightarrow> string \<Rightarrow> (bool \<times> json) result" where
  "delete_seg container seg =
     (case container of
        JObj d \<Rightarrow>
          Inr (if map_of d seg \<noteq> None then (True, JObj (dict_del seg d)) else (False, container))
      | JArr xs \<Rightarrow>
          (if looks_like_index seg
           then rbind (segment_index seg) (\<lambda>i.
                  Inr (if index_in_range xs i
                       then (True, JArr (take (index_pos xs i) xs @ drop (Suc (index_pos xs i)) xs))
                       else (False, container)))
           else Inr (False, container))
      | _ \<Rightarrow> Inr (False, container))"

text \<open>The loop of \<open>get_path\<close>; \<open>None\<close> is the \<open>_MISSING\<close> sentinel.\<close>

fun get_segments :: "json \<Rightarrow> string list \<Rightarrow> json option result" where
  "get_segments current [] = Inr (Some current)"
| "get_segments current (seg # segs) =
     rbind (descend current seg) (\<lambda>nxt.
       case nxt of None \<Rightarrow> Inr None | Some c \<Rightarrow> get_segments c segs)"

definition get_path_opt :: "jobj \<Rightarrow> string \<Rightarrow> json option result" where
  "get_path_opt data path = rbind (split_path path) (get_segments (JObj data))"

definition get_path :: "jobj \<Rightarrow> string \<Rightarrow> json \<Rightarrow> json result" where
  "get_path data path dflt =
     rbind (get_path_opt data path) (\<lambda>r. Inr (case r of None \<Rightarrow> dflt | Some v \<Rightarrow> v))"

text \<open>
  The loop of \<open>set_path\<close>. A segment whose value is missing or not a dictionary is replaced
  by a fresh dictionary before the walk goes on; the updated child is written back, which
  is what the in-place mutation of the shared child amounts to.
\<close>

fun set_segments :: "json \<Rightarrow> string list \<Rightarrow> json \<Rightarrow> json result" where
  "set_segments current [] v = Inr current"
| "set_segments current [seg] v = assign current seg v"
| "set_segments current (seg # s # segs) v =
     rbind (descend current seg) (\<lambda>nxt.
       case nxt of
         Some (JObj d) \<Rightarrow>
           rbind (set_segments (JObj d) (s # segs) v) (\<lambda>child. assign current seg child)
       | _ \<Rightarrow>
           rbind (assign current seg (JObj [])) (\<lambda>current'.
           rbind (set_segments (JObj []) (s # segs) v) (\<lambda>child. assign current' seg child)))"

definition set_path :: "jobj \<Rightarrow> string \<Rightarrow> json \<Rightarrow> jobj result" where
  "set_path data path v =
     rbind (split_path path) (\<lambda>segments.
     rbind (set_segments (JObj data) segments v) (\<lambda>r.
       case r of JObj d \<Rightarrow> Inr d | _ \<Rightarrow> Inr data))"

fun del_segments :: "json \<Rightarrow> string list \<Rightarrow> (bool \<times> json) result" where
  "del_segments current [] = Inr (False, current)"
| "del_segments current [seg] = delete_seg current seg"
| "del_segments current (seg # s # segs) =
     rbind (descend current seg) (\<lambda>nxt.
       case nxt of
         None \<Rightarrow> Inr (False, current)
       | Some c \<Rightarrow>
           rbind (del_segments c (s # segs)) (\<lambda>(deleted, child).
           rbind (assign current seg child) (\<lambda>current'. Inr (deleted, current'))))"

definition del_path :: "jobj \<Rightarrow> string \<Rightarrow> (bool \<times> jobj) result" where
  "del_path data path =
     rbind (split_path path) (\<lambda>segments.
     rbind (del_segments (JObj data) segments) (\<lambda>(deleted, r).
       case r of JObj d \<Rightarrow> Inr (deleted, d) | _ \<Rightarrow> Inr (deleted, data)))"

section \<open>Well-formed paths\<close>

definition path_ok :: "string \<Rightarrow> bool" where
  "path_ok path \<longleftrightarrow> [] \<notin> set (split_on CHR ''.'' path)"

lemma path_ok_not_Nil: "path_ok path \<Longrightarrow> path \<noteq> []"
  by (auto simp: path_ok_def)

lemma split_path_ok: "path_ok path \<Longrightarrow> split_path path = Inr (split_on CHR ''.'' path)"
  by (auto simp: split_path_def path_ok_def list_ex_iff)

lemma split_path_Inr_iff:
  "split_path path = Inr segs \<longleftrightarrow> path_ok path \<and> segs = split_on CHR ''.'' path"
  by (auto simp: split_path_def path_ok_def Let_def list_ex_iff split: if_splits)

lemma split_path_bad: "\<not> path_ok path \<Longrightarrow> \<exists>m. split_path path = Inl (Exn ValueError m)"
  by (auto simp: split_path_def path_ok_def Let_def raise_def list_ex_iff)

section \<open>Facts about the walks\<close>

lemma descend_JObj [simp]: "descend (JObj d) seg = Inr (map_of d seg)"
  by (simp add: descend_def)

lemma assign_JObj [simp]: "assign (JObj d) seg v = Inr (JObj (dict_set seg v d))"
  by (simp add: assign_def)

lemma dict_set_twice [simp]: "dict_set k v (dict_set k w d) = dict_set k v d"
  by (induction d) (auto simp: dict_set_def)

text \<open>Starting from a dictionary, \<open>set_path\<close> only ever meets dictionaries.\<close>

fun obj_set :: "jobj \<Rightarrow> string list \<Rightarrow> json \<Rightarrow> jobj" where
  "obj_set d [] v = d"
| "obj_set d [seg] v = dict_set seg v d"
| "obj_set d (seg # s # segs) v =
     dict_set seg (JObj (obj_set
       (case map_of d seg of Some (JObj e) \<Rightarrow> e | _ \<Rightarrow> []) (s # segs) v)) d"

lemma set_segments_JObj: "set_segments (JObj d) segs v = Inr (JObj (obj_set d segs v))"
proof (induction d segs v rule: obj_set.induct)
  case (3 d seg s segs v)
  then show ?case
    by (cases "map_of d seg") (auto split: json.splits)
qed auto

lemma set_path_eq: "path_ok path \<Longrightarrow> set_path d path v = Inr (obj_set d (split_on CHR ''.'' path) v)"
  by (simp add: set_path_def split_path_ok set_segments_JObj)

lemma get_segments_obj_set:
  "segs \<noteq> [] \<Longrightarrow> get_segments (JObj (obj_set d segs v)) segs = Inr (Some v)"
  by (induction d segs v rule: obj_set.induct) (auto simp: dict_simps)

lemma get_segments_obj_set_other:
  "hd segs \<noteq> hd segs' \<Longrightarrow> segs \<noteq> [] \<Longrightarrow> segs' \<noteq> [] \<Longrightarrow>
   get_segments (JObj (obj_set d segs v)) segs' = get_segments (JObj d) segs'"
  by (cases segs'; cases "(d, segs, v)" rule: obj_set.cases) (auto simp: dict_simps)

text \<open>
  Two paths that part ways after a common prefix: the write is invisible to the other path
  unless the prefix runs into a list, which the write would replace.
\<close>

fun no_list_on :: "json \<Rightarrow> string list \<Rightarrow> bool" where
  "no_list_on (JArr _) segs = False"
| "no_list_on (JObj d) (seg # segs) = (case map_of d seg of None \<Rightarrow> True | Some c \<Rightarrow> no_list_on c segs)"
| "no_list_on _ segs = True"

lemma get_segments_empty: "segs \<noteq> [] \<Longrightarrow> get_segments (JObj []) segs = Inr None"
  by (cases segs) auto

lemma get_segments_scalar:
  "segs \<noteq> [] \<Longrightarrow> \<not> is_arr c \<Longrightarrow> \<not> is_obj c \<Longrightarrow> get_segments c segs = Inr None"
  by (cases segs; cases c) (auto simp: descend_def)

lemma obj_set_Cons:
  "segs \<noteq> [] \<Longrightarrow> obj_set d (seg # segs) v =
     dict_set seg (JObj (obj_set (case map_of d seg of Some (JObj e) \<Rightarrow> e | _ \<Rightarrow> []) segs v)) d"
  by (cases segs) auto

lemma obj_set_frame:
  assumes "a \<noteq> b" and "no_list_on (JObj d) common"
  shows "get_segments (JObj (obj_set d (common @ a # ps) v)) (common @ b # qs)
         = get_segments (JObj d) (common @ b # qs)"
  using assms(2)
proof (induction common arbitrary: d)
  case Nil
  show ?case using assms(1) get_segments_obj_set_other [of "a # ps" "b # qs"] by simp
next
  case (Cons c common)
  let ?e = "case map_of d c of Some (JObj e) \<Rightarrow> e | _ \<Rightarrow> []"
  have nl: "no_list_on (JObj ?e) common"
    using Cons.prems by (cases common) (auto split: option.splits json.splits)
  have "get_segments (JObj (obj_set d ((c # common) @ a # ps) v)) ((c # common) @ b # qs)
        = get_segments (JObj (obj_set ?e (common @ a # ps) v)) (common @ b # qs)"
    by (simp add: obj_set_Cons dict_simps)
  also have "\<dots> = get_segments (JObj ?e) (common @ b # qs)"
    using nl by (rule Cons.IH)
  also have "\<dots> = get_segments (JObj d) ((c # common) @ b # qs)"
    using Cons.prems
    by (auto simp: get_segments_empty get_segments_scalar split: option.splits json.splits)
  finally show ?case .
qed

lemma dict_ok_obj_set: "dict_ok d \<Longrightarrow> dict_ok (obj_set d segs v)"
  by (induction d segs v rule: obj_set.induct) auto

lemma set_dict_set_subset: "set (dict_set k v d) \<subseteq> insert (k, v) (set d)"
  by (induction d) (auto simp: dict_set_def)

lemma set_dict_del_subset: "set (dict_del k d) \<subseteq> set d"
  by (auto simp: dict_del_def AList.delete_eq)

lemma json_ok_dict_set:
  assumes "json_ok (JObj d)" and "json_ok v"
  shows "json_ok (JObj (dict_set k v d))"
proof -
  have "json_ok (snd p)" if "p \<in> set (dict_set k v d)" for p
    using that assms set_dict_set_subset [of k v d] by (auto simp: list_all_iff)
  with assms show ?thesis by (simp add: list_all_iff)
qed

lemma json_ok_lookup: "json_ok (JObj d) \<Longrightarrow> map_of d k = Some v \<Longrightarrow> json_ok v"
  by (auto simp: list_all_iff dest: map_of_SomeD)

lemma json_ok_obj_set: "json_ok (JObj d) \<Longrightarrow> json_ok v \<Longrightarrow> json_ok (JObj (obj_set d segs v))"
proof (induction d segs v rule: obj_set.induct)
  case (3 d seg s segs v)
  have "json_ok (JObj (case map_of d seg of Some (JObj e) \<Rightarrow> e | _ \<Rightarrow> []))"
    using json_ok_lookup [OF "3.prems"(1)]
    by (auto simp del: json_ok.simps(2) simp: json_ok.simps(2) [of "[]"] split: option.splits json.splits)
  then have "json_ok (JObj (obj_set (case map_of d seg of Some (JObj e) \<Rightarrow> e | _ \<Rightarrow> []) (s # segs) v))"
    using "3.IH" "3.prems"(2) by blast
  then show ?case
    unfolding obj_set.simps using "3.prems"(1) by (intro json_ok_dict_set)
qed (auto intro: json_ok_dict_set simp del: json_ok.simps)

section \<open>Deletion\<close>

lemma dict_set_same: "map_of d k = Some v \<Longrightarrow> dict_set k v d = d"
  by (induction d) (auto simp: dict_set_def split: if_splits)

lemma assign_same: "descend c seg = Inr (Some v) \<Longrightarrow> assign c seg v = Inr c"
  by (cases c) (auto simp: descend_def assign_def dict_set_same result_simps split: if_splits)

lemma assign_after_descend: "descend c seg = Inr (Some v) \<Longrightarrow> \<exists>c'. assign c seg w = Inr c'"
  by (cases c) (auto simp: descend_def assign_def result_simps split: if_splits)

lemma delete_seg_flag:
  "delete_seg c seg = Inr (b, c') \<Longrightarrow> (b \<longleftrightarrow> descend c seg \<noteq> Inr None) \<and> (\<not> b \<longrightarrow> c' = c)"
  by (cases c) (auto simp: descend_def delete_seg_def result_simps split: if_splits)

lemma del_segments_flag:
  "del_segments c segs = Inr (b, c') \<Longrightarrow> segs \<noteq> [] \<Longrightarrow>
   (b \<longleftrightarrow> (\<exists>v. get_segments c segs = Inr (Some v))) \<and> (\<not> b \<longrightarrow> c' = c)"
proof (induction c segs arbitrary: b c' rule: del_segments.induct)
  case (2 c seg)
  then have flag: "(b \<longleftrightarrow> descend c seg \<noteq> Inr None) \<and> (\<not> b \<longrightarrow> c' = c)"
    by (auto dest: delete_seg_flag)
  have "\<exists>r. descend c seg = Inr r"
    using "2.prems"(1)
    by (cases c) (auto simp: descend_def delete_seg_def result_simps split: if_splits)
  with flag show ?case by (auto split: option.splits)
next
  case (3 c seg s segs)
  then obtain nxt where n: "descend c seg = Inr nxt" by (auto simp: result_simps)
  show ?case
  proof (cases nxt)
    case None
    with n 3 show ?thesis by auto
  next
    case (Some e)
    with n "3.prems"(1) obtain b' e' where d: "del_segments e (s # segs) = Inr (b', e')"
      and a: "assign c seg e' = Inr c'" "b' = b"
      by (auto simp: result_simps)
    have "(b \<longleftrightarrow> (\<exists>v. get_segments e (s # segs) = Inr (Some v))) \<and> (\<not> b \<longrightarrow> e' = e)"
      using "3.IH" [OF n Some] d a by auto
    with n Some a show ?thesis by (auto simp: assign_same)
  qed
qed simp

lemma del_segments_gone:
  "del_segments (JObj d) segs = Inr (b, c') \<Longrightarrow> segs \<noteq> [] \<Longrightarrow> no_list_on (JObj d) segs \<Longrightarrow>
   get_segments c' segs = Inr None"
proof (induction "JObj d" segs arbitrary: d b c' rule: del_segments.induct)
  case (2 seg)
  then show ?case by (auto simp: delete_seg_def dict_simps split: if_splits)
next
  case (3 seg s segs)
  show ?case
  proof (cases "map_of d seg")
    case None
    with 3 show ?thesis by auto
  next
    case (Some e)
    with "3.prems"(1) obtain e' where del: "del_segments e (s # segs) = Inr (b, e')"
      and c': "c' = JObj (dict_set seg e' d)"
      by (auto simp: result_simps)
    from Some "3.prems"(3) have nl: "no_list_on e (s # segs)" by simp
    have "get_segments e' (s # segs) = Inr None"
    proof (cases "is_obj e")
      case True
      then obtain de where "e = JObj de" by (cases e) auto
      with Some del nl show ?thesis by (intro "3.hyps" [where x = "Some e" and d = de]) auto
    next
      case False
      then have na: "\<not> is_arr e" using nl by (cases e) auto
      with False have g: "get_segments e (s # segs) = Inr None"
        by (intro get_segments_scalar) auto
      with del_segments_flag [OF del] show ?thesis by auto
    qed
    with c' show ?thesis by (simp add: dict_simps)
  qed
qed simp

lemma del_segments_obj: "del_segments (JObj d) segs = Inr (b, c') \<Longrightarrow> is_obj c'"
  by (cases "(JObj d, segs)" rule: del_segments.cases)
     (auto simp: delete_seg_def result_simps split: if_splits option.splits)

section \<open>Properties\<close>

text \<open>C38 (set/get round trip). For every payload and every dotted path, \<open>set_path\<close> either
  succeeds and a following \<open>get_path\<close> returns exactly the value written, keeping the
  payload well formed, or the path is malformed and it raises \<open>ValueError\<close>; it never
  raises \<open>TypeError\<close>.\<close>

theorem set_path_then_get_path:
  "if path_ok path
   then \<exists>d'. set_path d path v = Inr d' \<and> get_path d' path dflt = Inr v
             \<and> (if json_ok (JObj d) \<and> json_ok v then json_ok (JObj d') else True)
   else \<exists>m. set_path d path v = Inl (Exn ValueError m)"
proof (cases "path_ok path")
  case True
  then show ?thesis
    by (simp add: set_path_eq get_path_def get_path_opt_def split_path_ok get_segments_obj_set
        json_ok_obj_set del: json_ok.simps)
next
  case False
  then show ?thesis using split_path_bad [of path] by (auto simp: set_path_def)
qed

text \<open>Set frame. A write through one path is invisible through any path that branches off
  after a common prefix, provided the prefix does not run into a list.\<close>

theorem set_path_frame:
  assumes "path_ok p" and "path_ok q"
    and "split_on CHR ''.'' p = common @ a # ps" and "split_on CHR ''.'' q = common @ b # qs"
    and "a \<noteq> b" and "no_list_on (JObj d) common"
  shows "\<exists>d'. set_path d p v = Inr d' \<and> get_path d' q dflt = get_path d q dflt"
  using assms
  by (simp add: set_path_eq get_path_def get_path_opt_def split_path_ok obj_set_frame)

theorem set_path_frame_witness:
  "\<exists>d'. set_path [(''a'', JObj [(''y'', JInt 2)])] ''a.x'' (JInt 1) = Inr d'
        \<and> get_path d' ''a.y'' JNull = get_path [(''a'', JObj [(''y'', JInt 2)])] ''a.y'' JNull"
  by (rule set_path_frame [where common = "[''a'']" and a = "''x''" and b = "''y''" and ps = "[]" and qs = "[]"])
     (simp_all add: path_ok_def)

text \<open>\<open>del_path\<close> reports \<open>True\<close> exactly when the path resolves to a value,
  leaves the payload untouched when it reports \<open>False\<close>, and when the path runs through
  dictionaries only the value can no longer be read afterwards.\<close>

theorem del_path_spec:
  assumes "del_path d path = Inr (deleted, d')"
  shows "(deleted \<longleftrightarrow> (\<exists>v. get_path_opt d path = Inr (Some v)))
         \<and> (\<not> deleted \<longrightarrow> d' = d)
         \<and> (no_list_on (JObj d) (split_on CHR ''.'' path) \<longrightarrow> get_path_opt d' path = Inr None)"
proof -
  let ?segs = "split_on CHR ''.'' path"
  from assms obtain r where ok: "path_ok path"
    and r: "del_segments (JObj d) ?segs = Inr r"
    and post: "(case r of (b, c) \<Rightarrow> case c of JObj e \<Rightarrow> Inr (b, e) | _ \<Rightarrow> Inr (b, d))
               = (Inr (deleted, d') :: (bool \<times> jobj) result)"
    unfolding del_path_def by (auto simp: rbind_eq_Inr split_path_Inr_iff)
  obtain b c where bc: "r = (b, c)" by (cases r)
  with r have "is_obj c" by (auto dest: del_segments_obj)
  with bc post have "c = JObj d'" and "b = deleted" by (cases c; simp)+
  with r bc have del: "del_segments (JObj d) ?segs = Inr (deleted, JObj d')" by simp
  from del_segments_flag [OF del] del_segments_gone [OF del] ok show ?thesis
    by (auto simp: get_path_opt_def split_path_ok)
qed

theorem del_path_spec_witness:
  "del_path [(''a'', JObj [(''x'', JInt 1)])] ''a.x'' = Inr (True, [(''a'', JObj [])])
   \<and> get_path_opt [(''a'', JObj [])] ''a.x'' = Inr None"
proof -
  have d: "del_path [(''a'', JObj [(''x'', JInt 1)])] ''a.x'' = Inr (True, [(''a'', JObj [])])"
    by (simp add: del_path_def split_path_def delete_seg_def dict_del_def dict_set_def)
  show ?thesis using d del_path_spec [OF d] by (auto simp: path_ok_def)
qed

end
