(* ===== verification/Predicates.thy ===== *)
theory Predicates
  imports Py_Value
begin

text \<open>
  The predicate operators shared by the branching nodes, \<open>nodes/utils/predicates.py\<close>: the
  operator table, one handler per operator, and \<open>evaluate_predicate\<close>.
\<close>

definition PREDICATE_OPERATORS :: "string list" where
  "PREDICATE_OPERATORS =
     [''equals'', ''not_equals'', ''greater_than'', ''greater_than_or_equal'', ''less_than'',
      ''less_than_or_equal'', ''contains'', ''not_contains'', ''starts_with'', ''ends_with'',
      ''is_empty'', ''is_not_empty'', ''is_true'', ''is_false'']"

section \<open>Handlers\<close>

definition equals_h :: "json \<Rightarrow> json \<Rightarrow> bool result" where
  "equals_h left right = Inr (py_eq left right)"

definition not_equals_h :: "json \<Rightarrow> json \<Rightarrow> bool result" where
  "not_equals_h left right = Inr (\<not> py_eq left right)"

definition greater_than_h :: "json \<Rightarrow> json \<Rightarrow> bool result" where
  "greater_than_h left right = py_cmp OpGt left right"

definition greater_than_or_equal_h :: "json \<Rightarrow> json \<Rightarrow> bool result" where
  "greater_than_or_equal_h left right = py_cmp OpGe left right"

definition less_than_h :: "json \<Rightarrow> json \<Rightarrow> bool result" where
  "less_than_h left right = py_cmp OpLt left right"

definition less_than_or_equal_h :: "json \<Rightarrow> json \<Rightarrow> bool result" where
  "less_than_or_equal_h left right = py_cmp OpLe left right"

definition contains_h :: "json \<Rightarrow> json \<Rightarrow> bool result" where
  "contains_h left right = (if left = JNull then Inr False else py_contains left right)"

definition not_contains_h :: "json \<Rightarrow> json \<Rightarrow> bool result" where
  "not_contains_h left right = rbind (contains_h left right) (\<lambda>b. Inr (\<not> b))"

definition starts_with_h :: "json \<Rightarrow> json \<Rightarrow> bool result" where
  "starts_with_h left right =
     (case (left, right) of (JStr s, JStr p) \<Rightarrow> Inr (prefix p s) | _ \<Rightarrow> Inr False)"

definition ends_with_h :: "json \<Rightarrow> json \<Rightarrow> bool result" where
  "ends_with_h left right =
     (case (left, right) of (JStr s, JStr p) \<Rightarrow> Inr (suffix p s) | _ \<Rightarrow> Inr False)"

definition is_empty_h :: "json \<Rightarrow> json \<Rightarrow> bool result" where
  "is_empty_h left right =
     (if left = JNull then Inr True
      else Inr (case py_len left of None \<Rightarrow> False | Some n \<Rightarrow> n = 0))"

definition is_not_empty_h :: "json \<Rightarrow> json \<Rightarrow> bool result" where
  "is_not_empty_h left right = rbind (is_empty_h left right) (\<lambda>b. Inr (\<not> b))"

definition is_true_h :: "json \<Rightarrow> json \<Rightarrow> bool result" where
  "is_true_h left right = Inr (py_bool left)"

definition is_false_h :: "json \<Rightarrow> json \<Rightarrow> bool result" where
  "is_false_h left right = Inr (\<not> py_bool left)"

definition HANDLERS :: "(string, json \<Rightarrow> json \<Rightarrow> bool result) dict" where
  "HANDLERS =
     [(''equals'', equals_h), (''not_equals'', not_equals_h), (''greater_than'', greater_than_h),
      (''greater_than_or_equal'', greater_than_or_equal_h), (''less_than'', less_than_h),
      (''less_than_or_equal'', less_than_or_equal_h), (''contains'', contains_h),
      (''not_contains'', not_contains_h), (''starts_with'', starts_with_h),
      (''ends_with'', ends_with_h), (''is_empty'', is_empty_h),
      (''is_not_empty'', is_not_empty_h), (''is_true'', is_true_h), (''is_false'', is_false_h)]"

definition evaluate_predicate :: "json \<Rightarrow> string \<Rightarrow> json \<Rightarrow> bool result" where
  "evaluate_predicate left operator right =
     (case map_of HANDLERS operator of
        None \<Rightarrow> raise ValueError (''unknown predicate operator: '' @ repr_str operator)
      | Some handler \<Rightarrow> handler left right)"

lemmas handler_defs =
  equals_h_def not_equals_h_def greater_than_h_def greater_than_or_equal_h_def less_than_h_def
  less_than_or_equal_h_def contains_h_def not_contains_h_def starts_with_h_def ends_with_h_def
  is_empty_h_def is_not_empty_h_def is_true_h_def is_false_h_def

section \<open>Which calls raise\<close>

lemma py_cmp_type_error:
  "py_cmp p a b = Inl e \<Longrightarrow> exn_cls e = TypeError"
  "py_cmp_list p xs ys = Inl e \<Longrightarrow> exn_cls e = TypeError"
proof (induction p a b and p xs ys arbitrary: e and e rule: py_cmp_py_cmp_list.induct)
  case (1 p a b)
  then show ?case
    by (auto simp: py_cmp.simps [of p a b] cmp_unsupported_def raise_def split: option.splits json.splits)
next
  case (2 p xs ys)
  then show ?case
    by (auto simp: py_cmp_list.simps [of p xs ys] split: list.splits if_splits)
qed

lemma py_contains_type_error: "py_contains c x = Inl e \<Longrightarrow> exn_cls e = TypeError"
  by (cases c; cases x) (auto simp: raise_def)

lemma HANDLERS_type_error:
  "map_of HANDLERS operator = Some h \<Longrightarrow> h left right = Inl e \<Longrightarrow> exn_cls e = TypeError"
  by (auto simp: HANDLERS_def handler_defs result_simps
      dest: py_cmp_type_error py_contains_type_error split: if_splits json.splits)

lemma HANDLERS_keys: "map fst HANDLERS = PREDICATE_OPERATORS"
  by (simp add: HANDLERS_def PREDICATE_OPERATORS_def)

lemma HANDLERS_None: "map_of HANDLERS operator = None \<longleftrightarrow> operator \<notin> set PREDICATE_OPERATORS"
  by (simp add: map_of_eq_None_iff flip: HANDLERS_keys)

section \<open>Complementary comparisons\<close>

fun cmp_neg :: "cmp_op \<Rightarrow> cmp_op" where
  "cmp_neg OpLt = OpGe"
| "cmp_neg OpLe = OpGt"
| "cmp_neg OpGt = OpLe"
| "cmp_neg OpGe = OpLt"

lemma cmp_ord_neg: "cmp_ord (cmp_neg p) x y \<longleftrightarrow> \<not> cmp_ord p x y"
  by (cases p) auto

lemma cmp_neg_neg [simp]: "cmp_neg (cmp_neg p) = p"
  by (cases p) auto

lemma py_cmp_neg_Inr:
  "py_cmp p a b = Inr r \<Longrightarrow> py_cmp (cmp_neg p) a b = Inr (\<not> r)"
  "py_cmp_list p xs ys = Inr r \<Longrightarrow> py_cmp_list (cmp_neg p) xs ys = Inr (\<not> r)"
proof (induction p a b and p xs ys arbitrary: r and r rule: py_cmp_py_cmp_list.induct)
  case (1 p a b)
  show ?case
  proof (cases "\<exists>xs ys. a = JArr xs \<and> b = JArr ys")
    case True
    with 1 show ?thesis by auto
  next
    case False
    with "1.prems" show ?thesis
      by (auto simp: py_cmp.simps [of p a b] py_cmp.simps [of "cmp_neg p" a b] cmp_ord_neg
          cmp_unsupported_def raise_def split: option.splits json.splits)
  qed
next
  case (2 p xs ys)
  then show ?case
    by (auto simp: py_cmp_list.simps [of p xs ys] py_cmp_list.simps [of "cmp_neg p" xs ys] cmp_ord_neg
        split: list.splits if_splits)
qed

lemma py_cmp_neg: "py_cmp (cmp_neg p) a b = Inr r \<longleftrightarrow> py_cmp p a b = Inr (\<not> r)"
  using py_cmp_neg_Inr(1) [of p a b "\<not> r"] py_cmp_neg_Inr(1) [of "cmp_neg p" a b r] by auto

lemma evaluate_predicate_simps [simp]:
  "evaluate_predicate l ''equals'' r = equals_h l r"
  "evaluate_predicate l ''not_equals'' r = not_equals_h l r"
  "evaluate_predicate l ''greater_than'' r = py_cmp OpGt l r"
  "evaluate_predicate l ''greater_than_or_equal'' r = py_cmp OpGe l r"
  "evaluate_predicate l ''less_than'' r = py_cmp OpLt l r"
  "evaluate_predicate l ''less_than_or_equal'' r = py_cmp OpLe l r"
  "evaluate_predicate l ''contains'' r = contains_h l r"
  "evaluate_predicate l ''not_contains'' r = not_contains_h l r"
  "evaluate_predicate l ''is_empty'' r = is_empty_h l r"
  "evaluate_predicate l ''is_not_empty'' r = is_not_empty_h l r"
  "evaluate_predicate l ''is_true'' r = is_true_h l r"
  "evaluate_predicate l ''is_false'' r = is_false_h l r"
  by (simp_all add: evaluate_predicate_def HANDLERS_def greater_than_h_def greater_than_or_equal_h_def
      less_than_h_def less_than_or_equal_h_def)

text \<open>Two results are complementary: one returns \<open>b\<close> exactly when the other returns \<open>\<not> b\<close>.\<close>

definition complementary :: "bool result \<Rightarrow> bool result \<Rightarrow> bool" where
  "complementary x y \<longleftrightarrow> (\<forall>b. x = Inr b \<longleftrightarrow> y = Inr (\<not> b))"

lemma complementary_not: "complementary x (rbind x (\<lambda>b. Inr (\<not> b)))"
  by (cases x) (auto simp: complementary_def)

lemma complementary_cmp: "complementary (py_cmp p a b) (py_cmp (cmp_neg p) a b)"
  by (simp add: complementary_def py_cmp_neg)

lemma complementary_raises:
  "complementary x y \<Longrightarrow> (\<exists>e. x = Inl e) \<longleftrightarrow> (\<exists>e. y = Inl e)"
  by (cases x; cases y) (auto simp: complementary_def)

section \<open>Properties\<close>

text \<open>Operator table. \<open>evaluate_predicate\<close> knows exactly the operators of
  \<open>PREDICATE_OPERATORS\<close>: any other name raises \<open>ValueError\<close>, and a known operator never does
  (it returns a truth value or raises \<open>TypeError\<close>).\<close>

theorem evaluate_predicate_operators:
  "if operator \<in> set PREDICATE_OPERATORS
   then (\<exists>b. evaluate_predicate left operator right = Inr b)
        \<or> (\<exists>m. evaluate_predicate left operator right = Inl (Exn TypeError m))
   else evaluate_predicate left operator right
        = Inl (Exn ValueError (''unknown predicate operator: '' @ repr_str operator))"
proof (cases "map_of HANDLERS operator")
  case None
  then have "operator \<notin> set PREDICATE_OPERATORS" by (rule HANDLERS_None [THEN iffD1])
  then show ?thesis unfolding evaluate_predicate_def None raise_def by auto
next
  case (Some h)
  then have "operator \<in> set PREDICATE_OPERATORS"
    by (metis HANDLERS_None option.distinct(1))
  moreover have "(\<exists>b. h left right = Inr b) \<or> (\<exists>m. h left right = Inl (Exn TypeError m))"
    using HANDLERS_type_error [OF Some]
    by (metis exn.exhaust_sel sum.exhaust_sel)
  ultimately show ?thesis using Some by (simp add: evaluate_predicate_def)
qed

text \<open>Each operator and its negated twin split the inputs: when one
  returns a truth value the other returns its negation, and they raise on the same inputs.\<close>

theorem evaluate_predicate_complement:
  assumes "(p, q) \<in> {(''equals'', ''not_equals''), (''contains'', ''not_contains''),
                     (''is_empty'', ''is_not_empty''), (''is_true'', ''is_false''),
                     (''greater_than'', ''less_than_or_equal''),
                     (''less_than'', ''greater_than_or_equal'')}"
  shows "complementary (evaluate_predicate left p right) (evaluate_predicate left q right)"
proof -
  have "complementary (py_cmp OpGt left right) (py_cmp OpLe left right)"
    and "complementary (py_cmp OpLt left right) (py_cmp OpGe left right)"
    using complementary_cmp [of OpGt] complementary_cmp [of OpLt] by simp_all
  moreover have "complementary (equals_h left right) (not_equals_h left right)"
    and "complementary (is_true_h left right) (is_false_h left right)"
    by (auto simp: complementary_def handler_defs)
  moreover have "complementary (contains_h left right) (not_contains_h left right)"
    and "complementary (is_empty_h left right) (is_not_empty_h left right)"
    unfolding not_contains_h_def is_not_empty_h_def by (rule complementary_not)+
  ultimately show ?thesis using assms by (elim insertE emptyE) simp_all
qed

theorem evaluate_predicate_complement_witness:
  "evaluate_predicate (JInt 3) ''greater_than'' (JInt 2) = Inr True
   \<and> evaluate_predicate (JInt 3) ''less_than_or_equal'' (JInt 2) = Inr False"
  using evaluate_predicate_complement [of "''greater_than''" "''less_than_or_equal''" "JInt 3" "JInt 2"]
  by (simp add: complementary_def)

end
