(* ===== verification/Domain.thy ===== *)
theory Domain
  imports Py_Value
begin

text \<open>
  The domain objects of \<open>domain/workflow.py\<close>, \<open>domain/execution.py\<close> and
  \<open>domain/node_spec.py\<close>: one record per dataclass, one datatype per literal type, and the
  port-name constants of \<open>domain/constants.py\<close>. A function named \<open>mk_x\<close> is the dataclass
  constructor with its defaults. Time stamps are integers (microseconds), canvas
  coordinates and the backoff factor are rationals.
\<close>

section \<open>Constants\<close>

definition MAIN_PORT :: string where "MAIN_PORT = ''main''"

definition TRUE_PORT :: string where "TRUE_PORT = ''true''"

definition FALSE_PORT :: string where "FALSE_PORT = ''false''"

section \<open>Workflows\<close>

datatype port_kind = KindMain | KindAiTool | KindAiMemory | KindAiEmbedding | KindAiDocument | KindAiModel

record port =
  port_name :: string
  port_kind :: port_kind
  port_index :: int
  port_display_name :: "string option"
  port_required :: bool

definition mk_port :: "string \<Rightarrow> port" where
  "mk_port n = \<lparr>port_name = n, port_kind = KindMain, port_index = 0, port_display_name = None,
     port_required = False\<rparr>"

record retry_policy =
  max_attempts :: int
  backoff_factor :: rat
  base_delay_ms :: int
  max_delay_ms :: int

definition mk_retry_policy :: retry_policy where
  "mk_retry_policy = \<lparr>max_attempts = 1, backoff_factor = 2, base_delay_ms = 1000, max_delay_ms = 60000\<rparr>"

record node =
  node_id :: string
  node_name :: string
  node_type :: string
  type_version :: int
  parameters :: jobj
  credentials :: "(string, string) dict"
  position :: "rat \<times> rat"
  disabled :: bool
  node_notes :: "string option"
  continue_on_fail :: bool
  node_retry_policy :: "retry_policy option"

definition mk_node :: "string \<Rightarrow> string \<Rightarrow> string \<Rightarrow> node" where
  "mk_node i nm ty = \<lparr>node_id = i, node_name = nm, node_type = ty, type_version = 1, parameters = [],
     credentials = [], position = (0, 0), disabled = False, node_notes = None,
     continue_on_fail = False, node_retry_policy = None\<rparr>"

record connection =
  source_node :: string
  target_node :: string
  source_port :: string
  source_index :: int
  target_port :: string
  target_index :: int

definition mk_connection :: "string \<Rightarrow> string \<Rightarrow> connection" where
  "mk_connection s t = \<lparr>source_node = s, target_node = t, source_port = ''main'', source_index = 0,
     target_port = ''main'', target_index = 0\<rparr>"

datatype save_policy = SaveAll | SaveOnError | SaveNone

datatype caller_policy = CallerAny | CallerOwn | CallerNone

record workflow_settings =
  timezone :: string
  timeout_seconds :: int
  save_manual_executions :: bool
  save_trigger_executions_on :: save_policy
  error_workflow_id :: "string option"
  settings_caller_policy :: caller_policy

definition mk_workflow_settings :: workflow_settings where
  "mk_workflow_settings = \<lparr>timezone = ''UTC'', timeout_seconds = 3600, save_manual_executions = True,
     save_trigger_executions_on = SaveAll, error_workflow_id = None,
     settings_caller_policy = CallerOwn\<rparr>"

record workflow =
  wf_id :: string
  project_id :: string
  wf_name :: string
  wf_nodes :: "node list"
  connections :: "connection list"
  wf_settings :: workflow_settings
  wf_static_data :: jobj
  pin_data :: "(string, jobj list) dict"
  active :: bool
  archived :: bool
  tags :: "string list"
  version_id :: "string option"

definition mk_workflow :: "string \<Rightarrow> string \<Rightarrow> string \<Rightarrow> node list \<Rightarrow> connection list \<Rightarrow> workflow" where
  "mk_workflow i p nm ns cs = \<lparr>wf_id = i, project_id = p, wf_name = nm, wf_nodes = ns, connections = cs,
     wf_settings = mk_workflow_settings, wf_static_data = [], pin_data = [], active = False,
     archived = False, tags = [], version_id = None\<rparr>"

definition node_by_id :: "workflow \<Rightarrow> string \<Rightarrow> node option" where
  "node_by_id w i = find (\<lambda>n. node_id n = i) (wf_nodes w)"

section \<open>Executions\<close>

datatype execution_mode = ModeManual | ModeTrigger | ModeWebhook | ModeRetry | ModeTest

fun mode_str :: "execution_mode \<Rightarrow> string" where
  "mode_str ModeManual = ''manual''"
| "mode_str ModeTrigger = ''trigger''"
| "mode_str ModeWebhook = ''webhook''"
| "mode_str ModeRetry = ''retry''"
| "mode_str ModeTest = ''test''"

datatype execution_status =
  ExecNew | ExecRunning | ExecSuccess | ExecError | ExecWaiting | ExecCanceled

datatype data_storage = StorageDb | StorageFs | StorageS3

record paired_item =
  item_index :: int
  input_index :: int
  source_override :: "string option"

record binary_ref =
  filename :: "string option"
  mime_type :: string
  size_bytes :: int
  data_ref :: string

record node_error =
  err_message :: string
  err_description :: "string option"
  err_code :: "string option"

record item =
  item_json :: jobj
  item_binary :: "(string, binary_ref) dict"
  item_paired :: "paired_item list"
  item_error :: "node_error option"

definition mk_item :: "jobj \<Rightarrow> item" where
  "mk_item d = \<lparr>item_json = d, item_binary = [], item_paired = [], item_error = None\<rparr>"

datatype node_status = StatusSuccess | StatusError | StatusDisabled

record node_run_data =
  run_items :: "item list list"
  execution_time_ms :: int
  run_started_at :: int
  run_status :: node_status
  run_error :: "node_error option"

record execution =
  exec_id :: string
  exec_workflow_id :: string
  workflow_snapshot :: workflow
  exec_mode :: execution_mode
  exec_status :: execution_status
  exec_started_at :: int
  finished_at :: "int option"
  wait_till :: "int option"
  run_data :: "(string, node_run_data list) dict"
  exec_data_storage :: data_storage
  triggered_by :: "string option"

section \<open>Node specifications\<close>

datatype property_type =
    PString | PNumber | PBoolean | POptions | PMultiOptions | PJson | PDatetime | PColor
  | PExpression | PCredentials | PFixedCollection | PBinary

datatype node_category = CatTrigger | CatCore | CatIntegration | CatAi

record property_option =
  opt_value :: string
  opt_label :: string
  opt_description :: "string option"

record display_options =
  show_when :: "(string, json list) dict"
  hide_when :: "(string, json list) dict"

record property_schema =
  prop_name :: string
  prop_display_name :: string
  prop_type :: property_type
  prop_default :: json
  prop_required :: bool
  prop_description :: "string option"
  prop_options :: "property_option list option"
  prop_display_options :: "display_options option"
  prop_placeholder :: "string option"
  prop_type_options :: "jobj option"

definition mk_property :: "string \<Rightarrow> string \<Rightarrow> property_type \<Rightarrow> json \<Rightarrow> property_schema" where
  "mk_property n d t v = \<lparr>prop_name = n, prop_display_name = d, prop_type = t, prop_default = v,
     prop_required = False, prop_description = None, prop_options = None,
     prop_display_options = None, prop_placeholder = None, prop_type_options = None\<rparr>"

definition mk_option :: "string \<Rightarrow> string \<Rightarrow> property_option" where
  "mk_option v l = \<lparr>opt_value = v, opt_label = l, opt_description = None\<rparr>"

record credential_slot =
  slot_name :: string
  slot_credential_types :: "string list"
  slot_required :: bool
  slot_display_options :: "display_options option"

record node_spec =
  spec_type :: string
  spec_version :: int
  spec_display_name :: string
  spec_description :: string
  spec_icon :: string
  spec_category :: node_category
  spec_group :: "string list"
  spec_inputs :: "port list"
  spec_outputs :: "port list"
  spec_credentials :: "credential_slot list"
  spec_properties :: "property_schema list"
  supports_binary :: bool
  documentation_url :: "string option"

definition mk_spec :: "string \<Rightarrow> int \<Rightarrow> string \<Rightarrow> string \<Rightarrow> string \<Rightarrow> node_category \<Rightarrow> node_spec" where
  "mk_spec t v d desc icon cat = \<lparr>spec_type = t, spec_version = v, spec_display_name = d,
     spec_description = desc, spec_icon = icon, spec_category = cat, spec_group = [],
     spec_inputs = [mk_port ''main''], spec_outputs = [mk_port ''main''], spec_credentials = [],
     spec_properties = [], supports_binary = False, documentation_url = None\<rparr>"

section \<open>First facts\<close>

lemma node_by_id_Some: "node_by_id w i = Some n \<Longrightarrow> n \<in> set (wf_nodes w) \<and> node_id n = i"
  by (auto simp: node_by_id_def find_Some_iff)

lemma node_by_id_unique:
  assumes "distinct (map node_id (wf_nodes w))" and "n \<in> set (wf_nodes w)"
  shows "node_by_id w (node_id n) = Some n"
proof -
  have "node_by_id w (node_id n) \<noteq> None"
    using assms(2) by (auto simp: node_by_id_def find_None_iff)
  then obtain m where m: "node_by_id w (node_id n) = Some m" by auto
  with node_by_id_Some [OF m] assms have "m = n"
    by (auto simp: distinct_map inj_on_def)
  with m show ?thesis by simp
qed

end
