(* ===== verification/Workflow_Graph.thy ===== *)
theory Workflow_Graph
  imports Domain
begin

text \<open>
  The workflow graph of \<open>engine/graph.py\<close>: the node index, the adjacency maps, connection
  validation, Kahn's topological sort, and the \<open>WorkflowGraph\<close> constructor with its
  queries. The main results characterise the constructor completely: which of the three
  errors it raises, and that on success the order lists every node once with every parent
  before its children.
\<close>

section \<open>Edges and the graph object\<close>

record outgoing_edge =
  out_source_port :: string
  out_source_index :: int
  out_target_node_id :: string
  out_target_port :: string
  out_target_index :: int

record incoming_edge =
  in_source_node_id :: string
  in_source_port :: string
  in_source_index :: int
  in_target_port :: string
  in_target_index :: int

record workflow_graph =
  graph_workflow :: workflow
  nodes_by_id :: "(string, node) dict"
  graph_outgoing :: "(string, outgoing_edge list) dict"
  graph_incoming :: "(string, incoming_edge list) dict"
  graph_topo :: "string list"
  root_ids :: "string list"

section \<open>Node index and adjacency\<close>

definition index_step :: "(string, node) dict \<Rightarrow> node \<Rightarrow> (string, node) dict result" where
  "index_step index n =
     (if map_of index (node_id n) \<noteq> None
      then raise WorkflowValidationError (''duplicate node id in workflow: '' @ repr_str (node_id n))
      else Inr (dict_set (node_id n) n index))"

definition build_node_index :: "workflow \<Rightarrow> (string, node) dict result" where
  "build_node_index w = rfold index_step [] (wf_nodes w)"

definition validate_connection :: "connection \<Rightarrow> (string, node) dict \<Rightarrow> unit result" where
  "validate_connection conn nodes =
     (if map_of nodes (source_node conn) = None
      then raise InvalidConnectionError
             (''connection references unknown source node: '' @ repr_str (source_node conn))
      else if map_of nodes (target_node conn) = None
      then raise InvalidConnectionError
             (''connection references unknown target node: '' @ repr_str (target_node conn))
      else Inr ())"

text \<open>\<open>buckets[k].append(e)\<close> on a \<open>defaultdict(list)\<close>.\<close>

definition bucket_append :: "'k \<Rightarrow> 'e \<Rightarrow> ('k, 'e list) dict \<Rightarrow> ('k, 'e list) dict" where
  "bucket_append k e d = dict_set k (dict_get d k [] @ [e]) d"

definition outgoing_of :: "connection \<Rightarrow> outgoing_edge" where
  "outgoing_of conn = \<lparr>out_source_port = source_port conn, out_source_index = source_index conn,
     out_target_node_id = target_node conn, out_target_port = target_port conn,
     out_target_index = target_index conn\<rparr>"

definition incoming_of :: "connection \<Rightarrow> incoming_edge" where
  "incoming_of conn = \<lparr>in_source_node_id = source_node conn, in_source_port = source_port conn,
     in_source_index = source_index conn, in_target_port = target_port conn,
     in_target_index = target_index conn\<rparr>"

definition adjacency_step ::
    "(string, node) dict \<Rightarrow> (string, outgoing_edge list) dict \<times> (string, incoming_edge list) dict
      \<Rightarrow> connection \<Rightarrow> ((string, outgoing_edge list) dict \<times> (string, incoming_edge list) dict) result" where
  "adjacency_step nodes st conn =
     rbind (validate_connection conn nodes) (\<lambda>_.
       Inr (bucket_append (source_node conn) (outgoing_of conn) (fst st),
            bucket_append (target_node conn) (incoming_of conn) (snd st)))"

definition build_adjacency :: "workflow \<Rightarrow> (string, node) dict \<Rightarrow>
    ((string, outgoing_edge list) dict \<times> (string, incoming_edge list) dict) result" where
  "build_adjacency w nodes =
     rbind (rfold (adjacency_step nodes) ([], []) (connections w))
       (\<lambda>(outs, ins).
          Inr (map (\<lambda>(i, _). (i, dict_get outs i [])) nodes,
               map (\<lambda>(i, _). (i, dict_get ins i [])) nodes))"

section \<open>Kahn's topological sort\<close>

text \<open>A Python set of strings is the list of its elements without repetition.\<close>

definition source_ids :: "incoming_edge list \<Rightarrow> string list" where
  "source_ids es = remdups (map in_source_node_id es)"

definition initial_indegree :: "(string, incoming_edge list) dict \<Rightarrow> (string, int) dict" where
  "initial_indegree incoming = map (\<lambda>(i, es). (i, int (length (source_ids es)))) incoming"

text \<open>The unique-target child lists, with the \<open>seen_edge\<close> set of the source.\<close>

definition add_child :: "string \<Rightarrow> (string \<times> string) list \<times> (string, string list) dict \<Rightarrow> incoming_edge
    \<Rightarrow> (string \<times> string) list \<times> (string, string list) dict" where
  "add_child i st e =
     (let key = (in_source_node_id e, i) in
      if key \<in> set (fst st) then st
      else (key # fst st, bucket_append (in_source_node_id e) i (snd st)))"

definition build_children :: "(string, incoming_edge list) dict \<Rightarrow> (string, string list) dict" where
  "build_children incoming =
     snd (foldl (\<lambda>st (i, es). foldl (add_child i) st es) ([], []) incoming)"

text \<open>
  One pass of the inner loop: \<open>indegree[child] -= 1\<close>, and the child joins the queue when it
  reaches zero. Every child is a key of \<open>indegree\<close>, so the missing-key branch is never taken.
\<close>

definition relax_child :: "(string, int) dict \<times> string list \<Rightarrow> string \<Rightarrow> (string, int) dict \<times> string list" where
  "relax_child st child =
     (case map_of (fst st) child of
        None \<Rightarrow> st
      | Some n \<Rightarrow> (dict_set child (n - 1) (fst st), if n - 1 = 0 then snd st @ [child] else snd st))"

definition positive_count :: "(string, int) dict \<Rightarrow> nat" where
  "positive_count d = length (filter (\<lambda>p. 0 < snd p) d)"

lemma positive_count_set:
  "map_of d k = Some n \<Longrightarrow>
   positive_count (dict_set k (n - 1) d) + (if n = 1 then 1 else 0) = positive_count d"
  by (induction d) (auto simp: positive_count_def dict_set_def split: if_splits)

lemma relax_child_measure:
  "length (snd (relax_child st c)) + positive_count (fst (relax_child st c))
   = length (snd st) + positive_count (fst st)"
  using positive_count_set [of "fst st" c]
  by (auto simp: relax_child_def split: option.splits)

lemma relax_children_measure:
  "length (snd (foldl relax_child st cs)) + positive_count (fst (foldl relax_child st cs))
   = length (snd st) + positive_count (fst st)"
  by (induction cs arbitrary: st) (auto simp: relax_child_measure)

function kahn_loop :: "(string, string list) dict \<Rightarrow> (string, int) dict \<Rightarrow> string list \<Rightarrow> string list
    \<Rightarrow> (string, int) dict \<times> string list" where
  "kahn_loop children indegree [] order = (indegree, order)"
| "kahn_loop children indegree (current # queue) order =
     (let st = foldl relax_child (indegree, queue) (dict_get children current []) in
      kahn_loop children (fst st) (snd st) (order @ [current]))"
  by pat_completeness auto
termination
  by (relation "measure (\<lambda>(ch, indeg, q, ord). length q + positive_count indeg)")
     (auto simp: relax_children_measure)

definition kahn_topological_sort ::
    "(string, node) dict \<Rightarrow> (string, incoming_edge list) dict \<Rightarrow> string list result" where
  "kahn_topological_sort nodes incoming =
     (let indegree = initial_indegree incoming;
          queue = filter (\<lambda>i. map_of indegree i = Some 0) (map fst nodes);
          (indegree', order) = kahn_loop (build_children incoming) indegree queue []
      in if length order \<noteq> length nodes
         then raise CycleDetectedError
                (''cycle detected through nodes: ['' @
                 join '', '' (map repr_str (sort (map fst (filter (\<lambda>(i, n). 0 < n) indegree')))) @ '']'')
         else Inr order)"

definition workflow_graph_init :: "workflow \<Rightarrow> workflow_graph result" where
  "workflow_graph_init w =
     rbind (build_node_index w) (\<lambda>nodes.
     rbind (build_adjacency w nodes) (\<lambda>(outs, ins).
     rbind (kahn_topological_sort nodes ins) (\<lambda>topo.
       Inr \<lparr>graph_workflow = w, nodes_by_id = nodes, graph_outgoing = outs, graph_incoming = ins,
            graph_topo = topo, root_ids = filter (\<lambda>i. dict_get ins i [] = []) topo\<rparr>)))"

section \<open>Queries\<close>

definition graph_node :: "workflow_graph \<Rightarrow> string \<Rightarrow> node result" where
  "graph_node g i = (case map_of (nodes_by_id g) i of None \<Rightarrow> raise KeyError (repr_str i) | Some n \<Rightarrow> Inr n)"

definition has_node :: "workflow_graph \<Rightarrow> string \<Rightarrow> bool" where
  "has_node g i \<longleftrightarrow> map_of (nodes_by_id g) i \<noteq> None"

definition outgoing :: "workflow_graph \<Rightarrow> string \<Rightarrow> outgoing_edge list result" where
  "outgoing g i = (case map_of (graph_outgoing g) i of None \<Rightarrow> raise KeyError (repr_str i) | Some es \<Rightarrow> Inr es)"

definition incoming :: "workflow_graph \<Rightarrow> string \<Rightarrow> incoming_edge list result" where
  "incoming g i = (case map_of (graph_incoming g) i of None \<Rightarrow> raise KeyError (repr_str i) | Some es \<Rightarrow> Inr es)"

text \<open>First-seen order, as the keys of a dictionary filled with \<open>setdefault\<close>.\<close>

definition first_seen :: "string list \<Rightarrow> string list" where
  "first_seen xs = foldl (\<lambda>seen x. if x \<in> set seen then seen else seen @ [x]) [] xs"

definition parents :: "workflow_graph \<Rightarrow> string \<Rightarrow> string list result" where
  "parents g i = rbind (incoming g i) (\<lambda>es. Inr (first_seen (map in_source_node_id es)))"

definition children :: "workflow_graph \<Rightarrow> string \<Rightarrow> string list result" where
  "children g i = rbind (outgoing g i) (\<lambda>es. Inr (first_seen (map out_target_node_id es)))"

definition iter_nodes :: "workflow_graph \<Rightarrow> node list result" where
  "iter_nodes g = rmap (graph_node g) (graph_topo g)"

section \<open>What the builders compute\<close>

lemma index_fold:
  "rfold index_step index ns = Inr index' \<longleftrightarrow>
     distinct (map node_id ns) \<and> fst ` set index \<inter> node_id ` set ns = {}
     \<and> index' = index @ map (\<lambda>n. (node_id n, n)) ns"
proof (induction ns arbitrary: index)
  case (Cons n ns)
  show ?case
  proof (cases "map_of index (node_id n)")
    case None
    then have "node_id n \<notin> fst ` set index" by (simp add: map_of_eq_None_iff)
    with None Cons show ?thesis by (auto simp: index_step_def dict_set_new)
  next
    case (Some m)
    then have "node_id n \<in> fst ` set index" by (metis map_of_eq_None_iff option.distinct(1))
    with Some show ?thesis by (auto simp: index_step_def)
  qed
qed auto

lemma build_node_index_Inr:
  "build_node_index w = Inr index \<longleftrightarrow>
     distinct (map node_id (wf_nodes w)) \<and> index = map (\<lambda>n. (node_id n, n)) (wf_nodes w)"
  by (simp add: build_node_index_def index_fold)

lemma index_fold_Inl: "rfold index_step index ns = Inl e \<Longrightarrow> exn_cls e = WorkflowValidationError"
  by (induction ns arbitrary: index) (auto simp: index_step_def result_simps split: if_splits)

lemma build_node_index_Inl: "build_node_index w = Inl e \<Longrightarrow> exn_cls e = WorkflowValidationError"
  by (simp add: build_node_index_def index_fold_Inl)

lemma validate_connection_Inr:
  "validate_connection c nodes = Inr u \<longleftrightarrow>
     source_node c \<in> fst ` set nodes \<and> target_node c \<in> fst ` set nodes"
  by (auto simp: validate_connection_def map_of_eq_None_iff)

lemma dict_get_bucket_append:
  "dict_get (bucket_append k e d) k' [] = dict_get d k' [] @ (if k = k' then [e] else [])"
  by (simp add: bucket_append_def dict_get_def dict_simps)

definition connection_known :: "(string, node) dict \<Rightarrow> connection \<Rightarrow> bool" where
  "connection_known nodes c \<longleftrightarrow> source_node c \<in> fst ` set nodes \<and> target_node c \<in> fst ` set nodes"

lemma adjacency_step_Inr:
  "adjacency_step nodes st c = Inr st' \<longleftrightarrow> connection_known nodes c \<and>
     st' = (bucket_append (source_node c) (outgoing_of c) (fst st),
            bucket_append (target_node c) (incoming_of c) (snd st))"
  by (auto simp: adjacency_step_def rbind_eq_Inr validate_connection_Inr connection_known_def)

lemma adjacency_fold:
  "rfold (adjacency_step nodes) (outs, ins) cs = Inr (outs', ins') \<Longrightarrow>
     list_all (connection_known nodes) cs
     \<and> dict_get outs' i [] = dict_get outs i [] @ map outgoing_of (filter (\<lambda>c. source_node c = i) cs)
     \<and> dict_get ins' i [] = dict_get ins i [] @ map incoming_of (filter (\<lambda>c. target_node c = i) cs)"
proof (induction cs arbitrary: outs ins)
  case (Cons c cs)
  from Cons.prems have known: "connection_known nodes c"
    and rest: "rfold (adjacency_step nodes)
       (bucket_append (source_node c) (outgoing_of c) outs,
        bucket_append (target_node c) (incoming_of c) ins) cs = Inr (outs', ins')"
    by (auto simp: rbind_eq_Inr adjacency_step_Inr)
  from known Cons.IH [OF rest] show ?case by (auto simp: dict_get_bucket_append)
qed simp

lemma adjacency_fold_total:
  "list_all (connection_known nodes) cs \<Longrightarrow> \<exists>r. rfold (adjacency_step nodes) st cs = Inr r"
proof (induction cs arbitrary: st)
  case (Cons c cs)
  then obtain st' where "adjacency_step nodes st c = Inr st'"
    using adjacency_step_Inr [of nodes st c] by auto
  with Cons show ?case by auto
qed simp

lemma adjacency_fold_Inl:
  "rfold (adjacency_step nodes) st cs = Inl e \<Longrightarrow> exn_cls e = InvalidConnectionError"
proof (induction cs arbitrary: st)
  case (Cons c cs)
  have "adjacency_step nodes st c = Inl e \<Longrightarrow> exn_cls e = InvalidConnectionError"
    by (auto simp: adjacency_step_def rbind_eq_Inl validate_connection_def raise_def split: if_splits)
  with Cons show ?case by (auto simp: rbind_eq_Inl)
qed simp

definition outgoing_edges :: "workflow \<Rightarrow> string \<Rightarrow> outgoing_edge list" where
  "outgoing_edges w i = map outgoing_of (filter (\<lambda>c. source_node c = i) (connections w))"

definition incoming_edges :: "workflow \<Rightarrow> string \<Rightarrow> incoming_edge list" where
  "incoming_edges w i = map incoming_of (filter (\<lambda>c. target_node c = i) (connections w))"

lemma build_adjacency_Inr:
  assumes "build_adjacency w nodes = Inr (outs, ins)"
  shows "list_all (connection_known nodes) (connections w)"
    and "outs = map (\<lambda>(i, _). (i, outgoing_edges w i)) nodes"
    and "ins = map (\<lambda>(i, _). (i, incoming_edges w i)) nodes"
proof -
  from assms obtain o' i' where f: "rfold (adjacency_step nodes) ([], []) (connections w) = Inr (o', i')"
    and outs: "outs = map (\<lambda>(i, _). (i, dict_get o' i [])) nodes"
    and ins: "ins = map (\<lambda>(i, _). (i, dict_get i' i [])) nodes"
    by (auto simp: build_adjacency_def rbind_eq_Inr)
  note F = adjacency_fold [OF f]
  show "list_all (connection_known nodes) (connections w)" using F by blast
  have "dict_get o' i [] = outgoing_edges w i" and "dict_get i' i [] = incoming_edges w i" for i
    using F [of i] by (simp_all add: outgoing_edges_def incoming_edges_def dict_get_def)
  with outs ins show "outs = map (\<lambda>(i, _). (i, outgoing_edges w i)) nodes"
    and "ins = map (\<lambda>(i, _). (i, incoming_edges w i)) nodes" by simp_all
qed

lemma build_adjacency_total:
  "list_all (connection_known nodes) (connections w) \<Longrightarrow> \<exists>r. build_adjacency w nodes = Inr r"
  using adjacency_fold_total [of nodes "connections w" "([], [])"]
  by (auto simp: build_adjacency_def)

lemma build_adjacency_Inl: "build_adjacency w nodes = Inl e \<Longrightarrow> exn_cls e = InvalidConnectionError"
  by (auto simp: build_adjacency_def rbind_eq_Inl dest: adjacency_fold_Inl)

subsection \<open>The child lists\<close>

lemma source_ids_set [simp]: "set (source_ids es) = in_source_node_id ` set es"
  by (simp add: source_ids_def)

lemma add_child_fold:
  assumes "\<And>p. (p, i) \<notin> set seen"
  shows "set (fst (foldl (add_child i) (seen, ch) es)) = set seen \<union> (\<lambda>e. (in_source_node_id e, i)) ` set es
         \<and> dict_get (snd (foldl (add_child i) (seen, ch) es)) p []
           = dict_get ch p [] @ (if p \<in> in_source_node_id ` set es then [i] else [])"
proof (induction es rule: rev_induct)
  case (snoc e es)
  let ?st = "foldl (add_child i) (seen, ch) es"
  from snoc have set: "set (fst ?st) = set seen \<union> (\<lambda>e. (in_source_node_id e, i)) ` set es" by blast
  have mem: "(in_source_node_id e, i) \<in> set (fst ?st) \<longleftrightarrow> in_source_node_id e \<in> in_source_node_id ` set es"
    using assms by (auto simp: set)
  show ?case
    using snoc mem
    by (auto simp: add_child_def [of i ?st e] Let_def dict_get_bucket_append image_iff)
qed simp

lemma build_children_fold:
  assumes "dict_ok inc"
  shows "set (fst (foldl (\<lambda>st (i, es). foldl (add_child i) st es) ([], []) inc))
           \<subseteq> UNIV \<times> fst ` set inc
         \<and> dict_get (snd (foldl (\<lambda>st (i, es). foldl (add_child i) st es) ([], []) inc)) p []
           = map fst (filter (\<lambda>(i, es). p \<in> in_source_node_id ` set es) inc)"
  using assms
proof (induction inc rule: rev_induct)
  case Nil
  then show ?case by (simp add: dict_get_def)
next
  case (snoc x inc)
  obtain i es where x: "x = (i, es)" by (cases x)
  let ?st = "foldl (\<lambda>st (i, es). foldl (add_child i) st es) ([], []) inc"
  from snoc.prems x have i: "i \<notin> fst ` set inc" by auto
  from snoc.IH snoc.prems have seen: "set (fst ?st) \<subseteq> UNIV \<times> fst ` set inc"
    and dg: "dict_get (snd ?st) p [] = map fst (filter (\<lambda>(i, es). p \<in> in_source_node_id ` set es) inc)"
    by auto
  have none: "\<And>p. (p, i) \<notin> set (fst ?st)" using seen i by auto
  obtain sn ch where st: "?st = (sn, ch)" by (cases ?st)
  have none': "\<And>p. (p, i) \<notin> set sn" using none st by simp
  from add_child_fold [OF none', where es = es and ch = ch and p = p] seen dg st x show ?case by auto
qed

lemma dict_get_build_children:
  "dict_ok inc \<Longrightarrow> dict_get (build_children inc) p []
     = map fst (filter (\<lambda>(i, es). p \<in> in_source_node_id ` set es) inc)"
  using build_children_fold [of inc p] by (simp add: build_children_def)

section \<open>Correctness of the sort\<close>

text \<open>
  The loop invariant, over the node set \<open>V\<close> and the parent sets \<open>par\<close>: the counters hold the
  number of unfinished parents, the finished and queued nodes are exactly those without
  an unfinished parent, and every finished node comes after all of its parents.
\<close>

definition parents_first :: "(string \<Rightarrow> string set) \<Rightarrow> string list \<Rightarrow> bool" where
  "parents_first par order \<longleftrightarrow> (\<forall>i < length order. par (order ! i) \<subseteq> set (take i order))"

definition kahn_inv :: "string set \<Rightarrow> (string \<Rightarrow> string set) \<Rightarrow> (string, int) dict \<Rightarrow> string list
    \<Rightarrow> string list \<Rightarrow> bool" where
  "kahn_inv V par indegree queue order \<longleftrightarrow>
     distinct (order @ queue) \<and> set (order @ queue) \<subseteq> V
     \<and> (\<forall>n. map_of indegree n = (if n \<in> V then Some (int (card (par n - set order))) else None))
     \<and> (\<forall>n \<in> V. n \<in> set (order @ queue) \<longleftrightarrow> par n \<subseteq> set order)
     \<and> parents_first par order"

lemma relax_children:
  assumes "distinct cs" and "set cs \<subseteq> dom (map_of indegree)"
  shows "map_of (fst (foldl relax_child (indegree, q) cs)) n
           = (if n \<in> set cs then map_option (\<lambda>k. k - 1) (map_of indegree n) else map_of indegree n)
         \<and> snd (foldl relax_child (indegree, q) cs) = q @ filter (\<lambda>c. map_of indegree c = Some 1) cs"
  using assms
proof (induction cs arbitrary: n rule: rev_induct)
  case (snoc c cs)
  let ?st = "foldl relax_child (indegree, q) cs"
  from snoc have IH: "\<And>n. map_of (fst ?st) n
      = (if n \<in> set cs then map_option (\<lambda>k. k - 1) (map_of indegree n) else map_of indegree n)"
    and q: "snd ?st = q @ filter (\<lambda>c. map_of indegree c = Some 1) cs" by auto
  from snoc.prems obtain k where k: "map_of indegree c = Some k" and c: "c \<notin> set cs" by auto
  with IH [of c] have "map_of (fst ?st) c = Some k" by simp
  with k c IH q show ?case by (auto simp: relax_child_def [of ?st c] dict_simps)
qed simp

lemma kahn_inv_step:
  assumes inv: "kahn_inv V par indegree (current # queue) order"
    and ch: "distinct cs" "set cs = {n \<in> V. current \<in> par n}"
    and fin: "\<And>n. n \<in> V \<Longrightarrow> finite (par n)"
  shows "kahn_inv V par (fst (foldl relax_child (indegree, queue) cs))
           (snd (foldl relax_child (indegree, queue) cs)) (order @ [current])"
proof -
  let ?st = "foldl relax_child (indegree, queue) cs"
  let ?order = "order @ [current]"
  from inv have dist: "distinct (order @ current # queue)" and sub: "set (order @ current # queue) \<subseteq> V"
    and deg: "\<And>n. map_of indegree n = (if n \<in> V then Some (int (card (par n - set order))) else None)"
    and mem: "\<And>n. n \<in> V \<Longrightarrow> n \<in> set (order @ current # queue) \<longleftrightarrow> par n \<subseteq> set order"
    and pf: "parents_first par order"
    unfolding kahn_inv_def by blast+
  have dom: "set cs \<subseteq> dom (map_of indegree)" using ch(2) deg by (auto split: if_splits)
  have deg': "map_of (fst ?st) n
      = (if n \<in> set cs then map_option (\<lambda>k. k - 1) (map_of indegree n) else map_of indegree n)"
    and q': "snd ?st = queue @ filter (\<lambda>c. map_of indegree c = Some 1) cs" for n
    using relax_children [OF ch(1) dom, of queue n] by auto
  have card: "int (card (par n - set ?order)) = int (card (par n - set order)) - (if current \<in> par n then 1 else 0)"
    if n: "n \<in> V" for n
  proof (cases "current \<in> par n")
    case True
    have "current \<notin> set order" using dist by auto
    with True have cur: "current \<in> par n - set order" by blast
    have fin': "finite (par n - set order)" using fin [OF n] by simp
    have eq: "par n - set ?order = (par n - set order) - {current}" by auto
    from card_Suc_Diff1 [OF fin' cur] True show ?thesis unfolding eq by simp
  next
    case False
    then have "par n - set ?order = par n - set order" by auto
    with False show ?thesis by simp
  qed
  have one: "map_of indegree c = Some 1 \<longleftrightarrow> par c \<subseteq> set ?order" if c: "c \<in> set cs" for c
  proof -
    from c ch have cV: "c \<in> V" and cp: "current \<in> par c" by auto
    from card [OF cV] cp have "map_of indegree c = Some 1 \<longleftrightarrow> card (par c - set ?order) = 0"
      using deg [of c] cV by auto
    also have "\<dots> \<longleftrightarrow> par c \<subseteq> set ?order" using fin [OF cV] by auto
    finally show ?thesis .
  qed
  have fresh: "c \<notin> set (order @ current # queue)" if c: "c \<in> set cs" for c
  proof -
    from c ch have cV: "c \<in> V" and cp: "current \<in> par c" by auto
    have "current \<notin> set order" using dist by auto
    with cp have "\<not> par c \<subseteq> set order" by blast
    with mem [OF cV] show ?thesis by blast
  qed
  have "distinct (?order @ snd ?st)"
    using dist ch(1) fresh by (auto simp: q')
  moreover have "set (?order @ snd ?st) \<subseteq> V"
    using sub ch(2) by (auto simp: q')
  moreover have "map_of (fst ?st) n = (if n \<in> V then Some (int (card (par n - set ?order))) else None)" for n
    using deg' [of n] deg [of n] card [of n] ch(2) by auto
  moreover have "n \<in> set (?order @ snd ?st) \<longleftrightarrow> par n \<subseteq> set ?order" if n: "n \<in> V" for n
  proof (cases "n \<in> set cs")
    case True
    with one [OF True] fresh [OF True] show ?thesis by (auto simp: q')
  next
    case False
    then have "current \<notin> par n" using ch(2) n by auto
    then have "par n \<subseteq> set ?order \<longleftrightarrow> par n \<subseteq> set order" by auto
    with False mem [OF n] show ?thesis by (auto simp: q')
  qed
  moreover have "parents_first par ?order"
  proof -
    have "par current \<subseteq> set order" using mem [of current] sub by auto
    with pf show ?thesis
      by (auto simp: parents_first_def nth_append less_Suc_eq)
  qed
  ultimately show ?thesis unfolding kahn_inv_def by blast
qed

lemma kahn_loop_inv:
  assumes "kahn_inv V par indegree queue order"
    and "\<And>p. distinct (dict_get chs p []) \<and> set (dict_get chs p []) = {n \<in> V. p \<in> par n}"
    and "\<And>n. n \<in> V \<Longrightarrow> finite (par n)"
  shows "kahn_inv V par (fst (kahn_loop chs indegree queue order)) []
           (snd (kahn_loop chs indegree queue order))"
  using assms
proof (induction chs indegree queue order rule: kahn_loop.induct)
  case (1 chs indegree order)
  then show ?case by simp
next
  case (2 chs indegree current queue order)
  from "2.prems" have
    "kahn_inv V par (fst (foldl relax_child (indegree, queue) (dict_get chs current [])))
       (snd (foldl relax_child (indegree, queue) (dict_get chs current []))) (order @ [current])"
    by (intro kahn_inv_step) auto
  with 2 show ?case by (simp add: Let_def)
qed

definition edge_rel :: "string set \<Rightarrow> (string \<Rightarrow> string set) \<Rightarrow> (string \<times> string) set" where
  "edge_rel V par = {(p, n). n \<in> V \<and> p \<in> par n}"

lemma parents_first_acyclic:
  assumes "parents_first par order" and "distinct order" and "set order = V"
  shows "acyclic (edge_rel V par)"
proof -
  define pos where "pos x = length (takeWhile (\<lambda>y. y \<noteq> x) order)" for x
  have pos_nth: "pos (order ! i) = i" if "i < length order" for i
  proof -
    have "takeWhile (\<lambda>y. y \<noteq> order ! i) order = take i order"
      using that assms(2)
      by (intro takeWhile_eq_take_P_nth) (auto simp: nth_eq_iff_index_eq)
    with that show ?thesis by (simp add: pos_def)
  qed
  have "edge_rel V par \<subseteq> measure pos"
  proof
    fix e assume "e \<in> edge_rel V par"
    then obtain p n where e: "e = (p, n)" "n \<in> V" "p \<in> par n" by (auto simp: edge_rel_def)
    from e(2) assms(3) obtain i where i: "i < length order" "order ! i = n"
      by (auto simp: in_set_conv_nth)
    with assms(1) e(3) have "p \<in> set (take i order)" by (auto simp: parents_first_def)
    then obtain j where "j < i" "order ! j = p" using i(1) by (auto simp: in_set_conv_nth)
    with i e(1) show "e \<in> measure pos" using pos_nth [of i] pos_nth [of j] by auto
  qed
  then have "wf (edge_rel V par)" using wf_measure wf_subset by blast
  then show ?thesis by (rule wf_acyclic)
qed

lemma kahn_final_complete:
  assumes inv: "kahn_inv V par indegree [] order" and "finite V"
    and par: "\<And>n. n \<in> V \<Longrightarrow> par n \<subseteq> V" and ac: "acyclic (edge_rel V par)"
  shows "set order = V"
proof (rule ccontr)
  assume ne: "set order \<noteq> V"
  from inv have sub: "set order \<subseteq> V"
    and mem: "\<And>n. n \<in> V \<Longrightarrow> n \<in> set order \<longleftrightarrow> par n \<subseteq> set order"
    unfolding kahn_inv_def by auto
  have "edge_rel V par \<subseteq> V \<times> V" using par by (auto simp: edge_rel_def)
  then have "finite (edge_rel V par)" using \<open>finite V\<close> by (meson finite_SigmaI finite_subset)
  with ac have wf: "wf (edge_rel V par)" by (rule finite_acyclic_wf [rotated])
  from ne sub obtain x where "x \<in> V - set order" by blast
  with wf obtain n where n: "n \<in> V - set order"
    and min: "\<And>y. (y, n) \<in> edge_rel V par \<Longrightarrow> y \<notin> V - set order"
    by (metis wfE_min)
  have "par n \<subseteq> set order"
  proof
    fix y assume "y \<in> par n"
    with n par min [of y] show "y \<in> set order" by (auto simp: edge_rel_def)
  qed
  with mem n show False by blast
qed


section \<open>The sort on a workflow\<close>

definition node_ids :: "workflow \<Rightarrow> string list" where
  "node_ids w = map node_id (wf_nodes w)"

definition parent_set :: "workflow \<Rightarrow> string \<Rightarrow> string set" where
  "parent_set w i = source_node ` {c \<in> set (connections w). target_node c = i}"

text \<open>The relation the connections draw: \<open>(p, n)\<close> when an edge leads from \<open>p\<close> to \<open>n\<close>.\<close>

definition connection_rel :: "workflow \<Rightarrow> (string \<times> string) set" where
  "connection_rel w = (\<lambda>c. (source_node c, target_node c)) ` set (connections w)"

definition endpoints_known :: "workflow \<Rightarrow> bool" where
  "endpoints_known w \<longleftrightarrow>
     (\<forall>c \<in> set (connections w). source_node c \<in> set (node_ids w) \<and> target_node c \<in> set (node_ids w))"

definition index_of :: "workflow \<Rightarrow> (string, node) dict" where
  "index_of w = map (\<lambda>n. (node_id n, n)) (wf_nodes w)"

definition incoming_index :: "workflow \<Rightarrow> (string, incoming_edge list) dict" where
  "incoming_index w = map (\<lambda>i. (i, incoming_edges w i)) (node_ids w)"

definition outgoing_index :: "workflow \<Rightarrow> (string, outgoing_edge list) dict" where
  "outgoing_index w = map (\<lambda>i. (i, outgoing_edges w i)) (node_ids w)"

lemma fst_index_of [simp]: "map fst (index_of w) = node_ids w"
  by (simp add: index_of_def node_ids_def)

lemma fst_set_index_of [simp]: "fst ` set (index_of w) = set (node_ids w)"
  by (metis fst_index_of list.set_map)

lemma length_index_of [simp]: "length (index_of w) = length (node_ids w)"
  by (simp add: index_of_def node_ids_def)

lemma map_of_keyed: "map_of (map (\<lambda>i. (i, f i)) is) i = (if i \<in> set is then Some (f i) else None)"
  by (induction "is") auto

lemma incoming_sources [simp]: "in_source_node_id ` set (incoming_edges w i) = parent_set w i"
  by (auto simp: incoming_edges_def parent_set_def incoming_of_def image_iff)

lemma edge_rel_parent_set:
  "endpoints_known w \<Longrightarrow> edge_rel (set (node_ids w)) (parent_set w) = connection_rel w"
  by (auto simp: edge_rel_def parent_set_def connection_rel_def endpoints_known_def image_iff)

lemma parent_set_known: "endpoints_known w \<Longrightarrow> parent_set w i \<subseteq> set (node_ids w)"
  by (auto simp: parent_set_def endpoints_known_def)

lemma children_of_incoming:
  assumes "distinct (node_ids w)"
  shows "distinct (dict_get (build_children (incoming_index w)) p [])
    \<and> set (dict_get (build_children (incoming_index w)) p []) = {n \<in> set (node_ids w). p \<in> parent_set w n}"
proof -
  have keys: "map fst (incoming_index w) = node_ids w" by (simp add: incoming_index_def comp_def)
  have eq: "dict_get (build_children (incoming_index w)) p []
      = map fst (filter (\<lambda>(i, es). p \<in> in_source_node_id ` set es) (incoming_index w))"
    using assms keys by (intro dict_get_build_children) simp
  have "distinct (map fst (filter (\<lambda>(i, es). p \<in> in_source_node_id ` set es) (incoming_index w)))"
    using assms keys by (metis distinct_map_filter)
  moreover have "set (map fst (filter (\<lambda>(i, es). p \<in> in_source_node_id ` set es) (incoming_index w)))
      = {n \<in> set (node_ids w). p \<in> parent_set w n}"
    by (force simp: incoming_index_def simp del: incoming_sources simp flip: incoming_sources)
  ultimately show ?thesis unfolding eq by blast
qed

lemma initial_indegree_incoming:
  "map_of (initial_indegree (incoming_index w)) n =
     (if n \<in> set (node_ids w) then Some (int (card (parent_set w n))) else None)"
proof -
  have "initial_indegree (incoming_index w)
      = map (\<lambda>i. (i, int (length (source_ids (incoming_edges w i))))) (node_ids w)"
    by (simp add: initial_indegree_def incoming_index_def)
  moreover have "length (source_ids (incoming_edges w i)) = card (parent_set w i)" for i
    by (simp add: source_ids_def length_remdups_card_conv)
  ultimately show ?thesis by (simp add: map_of_keyed)
qed

lemma finite_parent_set [simp]: "finite (parent_set w i)"
  by (simp add: parent_set_def)

definition final_state :: "workflow \<Rightarrow> (string, int) dict \<times> string list" where
  "final_state w = kahn_loop (build_children (incoming_index w)) (initial_indegree (incoming_index w))
     (filter (\<lambda>i. map_of (initial_indegree (incoming_index w)) i = Some 0) (map fst (index_of w))) []"

lemma final_state_inv:
  assumes "distinct (node_ids w)"
  shows "kahn_inv (set (node_ids w)) (parent_set w) (fst (final_state w)) [] (snd (final_state w))"
  unfolding final_state_def
proof (rule kahn_loop_inv)
  let ?q = "filter (\<lambda>i. map_of (initial_indegree (incoming_index w)) i = Some 0) (map fst (index_of w))"
  have q: "?q = filter (\<lambda>i. parent_set w i = {}) (node_ids w)"
    unfolding fst_index_of by (intro filter_cong) (auto simp: initial_indegree_incoming)
  show "kahn_inv (set (node_ids w)) (parent_set w) (initial_indegree (incoming_index w)) ?q []"
    unfolding q kahn_inv_def using assms by (auto simp: initial_indegree_incoming parents_first_def)
qed (use children_of_incoming [OF assms] in auto)

lemma kahn_sort_eq:
  "kahn_topological_sort (index_of w) (incoming_index w) =
     (if length (snd (final_state w)) \<noteq> length (node_ids w)
      then raise CycleDetectedError
             (''cycle detected through nodes: ['' @
              join '', '' (map repr_str (sort (map fst (filter (\<lambda>(i, n). 0 < n) (fst (final_state w)))))) @ '']'')
      else Inr (snd (final_state w)))"
  unfolding kahn_topological_sort_def Let_def final_state_def by (simp only: case_prod_beta length_index_of)

lemma final_state_length:
  assumes "distinct (node_ids w)"
  shows "length (snd (final_state w)) = length (node_ids w) \<longleftrightarrow> set (snd (final_state w)) = set (node_ids w)"
proof -
  from final_state_inv [OF assms] have d: "distinct (snd (final_state w))"
    and s: "set (snd (final_state w)) \<subseteq> set (node_ids w)"
    by (auto simp: kahn_inv_def)
  show ?thesis
    using distinct_card [OF d] distinct_card [OF assms] s
    by (metis List.finite_set card_subset_eq)
qed

lemma final_state_complete:
  assumes "distinct (node_ids w)" and "endpoints_known w"
  shows "set (snd (final_state w)) = set (node_ids w) \<longleftrightarrow> acyclic (connection_rel w)"
proof
  assume "set (snd (final_state w)) = set (node_ids w)"
  then show "acyclic (connection_rel w)"
    using parents_first_acyclic [of "parent_set w" "snd (final_state w)" "set (node_ids w)"]
      final_state_inv [OF assms(1)] edge_rel_parent_set [OF assms(2)]
    by (auto simp: kahn_inv_def)
next
  assume "acyclic (connection_rel w)"
  then show "set (snd (final_state w)) = set (node_ids w)"
    using kahn_final_complete [OF final_state_inv [OF assms(1)]] edge_rel_parent_set [OF assms(2)]
      parent_set_known [OF assms(2)]
    by simp
qed

lemma kahn_sort_Inr:
  assumes "distinct (node_ids w)" and "endpoints_known w"
  shows "kahn_topological_sort (index_of w) (incoming_index w) = Inr topo \<longleftrightarrow>
     acyclic (connection_rel w) \<and> topo = snd (final_state w)"
  using final_state_complete [OF assms] final_state_length [OF assms(1)]
  by (auto simp: kahn_sort_eq)

lemma kahn_sort_Inl:
  "kahn_topological_sort (index_of w) (incoming_index w) = Inl e \<Longrightarrow> exn_cls e = CycleDetectedError"
  by (auto simp: kahn_sort_eq raise_def split: if_splits)

section \<open>The constructor\<close>

lemma build_adjacency_index:
  "build_adjacency w (index_of w) = Inr (outs, ins) \<longleftrightarrow>
     endpoints_known w \<and> outs = outgoing_index w \<and> ins = incoming_index w"
proof -
  have known: "list_all (connection_known (index_of w)) (connections w) \<longleftrightarrow> endpoints_known w"
    by (auto simp: list_all_iff connection_known_def endpoints_known_def)
  have eqs: "map (\<lambda>(i, _). (i, outgoing_edges w i)) (index_of w) = outgoing_index w"
    "map (\<lambda>(i, _). (i, incoming_edges w i)) (index_of w) = incoming_index w"
    by (simp_all add: index_of_def outgoing_index_def incoming_index_def node_ids_def)
  show ?thesis
  proof
    assume "build_adjacency w (index_of w) = Inr (outs, ins)"
    from build_adjacency_Inr [OF this] known eqs
    show "endpoints_known w \<and> outs = outgoing_index w \<and> ins = incoming_index w" by simp
  next
    assume R: "endpoints_known w \<and> outs = outgoing_index w \<and> ins = incoming_index w"
    with known obtain r where r: "build_adjacency w (index_of w) = Inr r"
      using build_adjacency_total by blast
    with build_adjacency_Inr [of w "index_of w" "fst r" "snd r"] eqs R
    show "build_adjacency w (index_of w) = Inr (outs, ins)" by (cases r) simp
  qed
qed

definition built_graph :: "workflow \<Rightarrow> workflow_graph" where
  "built_graph w = \<lparr>graph_workflow = w, nodes_by_id = index_of w, graph_outgoing = outgoing_index w,
     graph_incoming = incoming_index w, graph_topo = snd (final_state w),
     root_ids = filter (\<lambda>i. dict_get (incoming_index w) i [] = []) (snd (final_state w))\<rparr>"

lemma workflow_graph_init_Inr:
  "workflow_graph_init w = Inr g \<longleftrightarrow>
     distinct (node_ids w) \<and> endpoints_known w \<and> acyclic (connection_rel w) \<and> g = built_graph w"
proof (cases "distinct (node_ids w) \<and> endpoints_known w")
  case True
  then have "build_node_index w = Inr (index_of w)"
    and "build_adjacency w (index_of w) = Inr (outgoing_index w, incoming_index w)"
    by (simp add: build_node_index_Inr index_of_def node_ids_def) (simp add: True build_adjacency_index)
  then have "workflow_graph_init w = Inr g \<longleftrightarrow>
      (\<exists>topo. kahn_topological_sort (index_of w) (incoming_index w) = Inr topo
         \<and> g = built_graph w\<lparr>graph_topo := topo, root_ids := filter (\<lambda>i. dict_get (incoming_index w) i [] = []) topo\<rparr>)"
    by (simp only: workflow_graph_init_def rbind_Inr split_conv rbind_eq_Inr built_graph_def)
       (auto simp only: workflow_graph.simps sum.inject)
  with True kahn_sort_Inr [of w] show ?thesis by (auto simp: built_graph_def)
next
  case False
  have "workflow_graph_init w \<noteq> Inr g"
  proof
    assume "workflow_graph_init w = Inr g"
    then obtain outs ins where "build_node_index w = Inr (index_of w)" "distinct (node_ids w)"
      "build_adjacency w (index_of w) = Inr (outs, ins)"
      by (auto simp: workflow_graph_init_def rbind_eq_Inr build_node_index_Inr index_of_def node_ids_def
          simp del: split_paired_Ex)
    with False show False by (simp add: build_adjacency_index)
  qed
  with False show ?thesis by blast
qed

lemma workflow_graph_init_Inl:
  assumes "workflow_graph_init w = Inl e"
  shows "exn_cls e = (if \<not> distinct (node_ids w) then WorkflowValidationError
                      else if \<not> endpoints_known w then InvalidConnectionError
                      else CycleDetectedError)"
proof (cases "distinct (node_ids w)")
  case False
  then obtain e' where e': "build_node_index w = Inl e'"
    by (cases "build_node_index w") (auto simp: build_node_index_Inr node_ids_def)
  with assms have "e' = e" by (simp add: workflow_graph_init_def)
  with e' False show ?thesis using build_node_index_Inl by auto
next
  case True
  then have ix: "build_node_index w = Inr (index_of w)"
    by (simp add: build_node_index_Inr index_of_def node_ids_def)
  show ?thesis
  proof (cases "endpoints_known w")
    case False
    then obtain e' where e': "build_adjacency w (index_of w) = Inl e'"
      by (cases "build_adjacency w (index_of w)") (auto simp: build_adjacency_index)
    with assms ix have "e' = e" by (simp add: workflow_graph_init_def)
    with e' False True show ?thesis using build_adjacency_Inl by auto
  next
    case known: True
    then have "build_adjacency w (index_of w) = Inr (outgoing_index w, incoming_index w)"
      by (simp add: build_adjacency_index)
    with assms ix have "kahn_topological_sort (index_of w) (incoming_index w) = Inl e"
      by (auto simp: workflow_graph_init_def rbind_eq_Inl)
    with True known show ?thesis using kahn_sort_Inl by auto
  qed
qed


lemma built_graph_order:
  assumes "workflow_graph_init w = Inr g"
  shows "distinct (graph_topo g)" and "set (graph_topo g) = set (node_ids w)"
    and "parents_first (parent_set w) (graph_topo g)"
proof -
  from assms have d: "distinct (node_ids w)" and k: "endpoints_known w"
    and a: "acyclic (connection_rel w)" and g: "g = built_graph w"
    by (simp_all add: workflow_graph_init_Inr)
  from final_state_inv [OF d] final_state_complete [OF d k] a
  show "distinct (graph_topo g)" and "set (graph_topo g) = set (node_ids w)"
    and "parents_first (parent_set w) (graph_topo g)"
    by (auto simp: g built_graph_def kahn_inv_def)
qed

lemma map_of_node_index: "map_of (map (\<lambda>n. (node_id n, n)) ns) i = find (\<lambda>n. node_id n = i) ns"
  by (induction ns) auto

lemma built_graph_queries:
  assumes "workflow_graph_init w = Inr g"
  shows "graph_node g i = (if i \<in> set (node_ids w) then Inr (the (node_by_id w i)) else raise KeyError (repr_str i))"
    and "outgoing g i = (if i \<in> set (node_ids w) then Inr (outgoing_edges w i) else raise KeyError (repr_str i))"
    and "incoming g i = (if i \<in> set (node_ids w) then Inr (incoming_edges w i) else raise KeyError (repr_str i))"
proof -
  from assms have g: "g = built_graph w" by (simp add: workflow_graph_init_Inr)
  have ix: "map_of (index_of w) i = node_by_id w i"
    unfolding index_of_def node_by_id_def by (rule map_of_node_index)
  have dom: "node_by_id w i = None \<longleftrightarrow> i \<notin> set (node_ids w)"
    by (auto simp: node_by_id_def find_None_iff node_ids_def)
  show "graph_node g i = (if i \<in> set (node_ids w) then Inr (the (node_by_id w i)) else raise KeyError (repr_str i))"
    using dom by (auto simp: graph_node_def g built_graph_def ix split: option.splits)
  show "outgoing g i = (if i \<in> set (node_ids w) then Inr (outgoing_edges w i) else raise KeyError (repr_str i))"
    and "incoming g i = (if i \<in> set (node_ids w) then Inr (incoming_edges w i) else raise KeyError (repr_str i))"
    by (simp_all add: outgoing_def incoming_def g built_graph_def outgoing_index_def
        incoming_index_def map_of_keyed)
qed

lemma first_seen_fold:
  "distinct seen \<Longrightarrow>
   distinct (foldl (\<lambda>seen x. if x \<in> set seen then seen else seen @ [x]) seen xs)
   \<and> set (foldl (\<lambda>seen x. if x \<in> set seen then seen else seen @ [x]) seen xs) = set seen \<union> set xs"
  by (induction xs arbitrary: seen) auto

lemma first_seen_set [simp]: "set (first_seen xs) = set xs"
  using first_seen_fold [of "[]" xs] by (simp add: first_seen_def)

lemma first_seen_distinct [simp]: "distinct (first_seen xs)"
  using first_seen_fold [of "[]" xs] by (simp add: first_seen_def)

lemma parents_Inr:
  assumes "workflow_graph_init w = Inr g" and "parents g i = Inr ps"
  shows "i \<in> set (node_ids w) \<and> set ps = parent_set w i \<and> distinct ps"
  using assms(2) built_graph_queries(3) [OF assms(1), of i]
  by (auto simp: parents_def result_simps simp flip: incoming_sources split: if_splits)

lemma parents_total:
  assumes "workflow_graph_init w = Inr g" and "i \<in> set (node_ids w)"
  shows "\<exists>ps. parents g i = Inr ps"
  using assms built_graph_queries(3) [OF assms(1), of i] by (simp add: parents_def)

section \<open>The contract of a sorted graph\<close>

text \<open>
  What the executor relies on: a graph that was built lists every node once, knows the
  parents of each, and puts them earlier. The one lemma the executor needs follows from
  these laws alone: as long as some node is unfinished, some unfinished node is ready.
\<close>

locale sorted_graph =
  fixes build :: "'w \<Rightarrow> 'g result"
    and order_of :: "'g \<Rightarrow> string list"
    and parents_of :: "'g \<Rightarrow> string \<Rightarrow> string list result"
  assumes order_distinct: "build w = Inr g \<Longrightarrow> distinct (order_of g)"
    and parents_of_total: "build w = Inr g \<Longrightarrow> i \<in> set (order_of g) \<Longrightarrow> \<exists>ps. parents_of g i = Inr ps"
    and parents_earlier: "build w = Inr g \<Longrightarrow> k < length (order_of g)
      \<Longrightarrow> parents_of g (order_of g ! k) = Inr ps \<Longrightarrow> set ps \<subseteq> set (take k (order_of g))"
begin

lemma ready_exists:
  assumes g: "build w = Inr g" and unfinished: "\<not> set (order_of g) \<subseteq> done"
  shows "\<exists>n \<in> set (order_of g) - done. \<exists>ps. parents_of g n = Inr ps \<and> set ps \<subseteq> done"
proof -
  let ?P = "\<lambda>k. k < length (order_of g) \<and> order_of g ! k \<notin> done"
  from unfinished obtain x where "x \<in> set (order_of g)" "x \<notin> done" by blast
  then obtain j where j: "?P j" by (metis in_set_conv_nth)
  define k where "k = (LEAST k. ?P k)"
  from j have k: "?P k" unfolding k_def by (rule LeastI)
  have before: "order_of g ! l \<in> done" if "l < k" for l
    using not_less_Least [of l ?P] that k unfolding k_def [symmetric] by auto
  from k g obtain ps where ps: "parents_of g (order_of g ! k) = Inr ps"
    using parents_of_total nth_mem by blast
  have "set (take k (order_of g)) \<subseteq> done" using before by (auto simp: in_set_conv_nth)
  with parents_earlier [OF g _ ps] k have "set ps \<subseteq> done" by blast
  with k ps show ?thesis using nth_mem by blast
qed

lemma no_self_parent:
  assumes g: "build w = Inr g" and n: "n \<in> set (order_of g)" and ps: "parents_of g n = Inr ps"
  shows "n \<notin> set ps"
proof -
  from n obtain k where k: "k < length (order_of g)" "order_of g ! k = n" by (auto simp: in_set_conv_nth)
  with parents_earlier [OF g, of k ps] ps have "set ps \<subseteq> set (take k (order_of g))" by simp
  moreover have "n \<notin> set (take k (order_of g))"
    using order_distinct [OF g] k by (auto simp: in_set_conv_nth nth_eq_iff_index_eq)
  ultimately show ?thesis by blast
qed

end

interpretation wg: sorted_graph workflow_graph_init graph_topo parents
proof
  fix w g assume g: "workflow_graph_init w = Inr g"
  show "distinct (graph_topo g)" by (rule built_graph_order [OF g])
  show "\<exists>ps. parents g i = Inr ps" if "i \<in> set (graph_topo g)" for i
    using that built_graph_order(2) [OF g] parents_total [OF g] by simp
  show "set ps \<subseteq> set (take k (graph_topo g))"
    if "k < length (graph_topo g)" "parents g (graph_topo g ! k) = Inr ps" for k ps
    using that built_graph_order(3) [OF g] parents_Inr [OF g] by (simp add: parents_first_def)
qed

section \<open>Properties\<close>

text \<open>
  C13 (graph construction, complete): building the graph of a workflow raises
  \<open>WorkflowValidationError\<close> exactly when two nodes share an id, otherwise
  \<open>InvalidConnectionError\<close> exactly when a connection names an unknown node, otherwise
  \<open>CycleDetectedError\<close> exactly when the connections have a cycle, and succeeds in every
  other case.
\<close>
theorem workflow_graph_init_outcome:
  "if \<not> distinct (node_ids w) then raises WorkflowValidationError (workflow_graph_init w)
   else if \<not> endpoints_known w then raises InvalidConnectionError (workflow_graph_init w)
   else if \<not> acyclic (connection_rel w) then raises CycleDetectedError (workflow_graph_init w)
   else \<exists>g. workflow_graph_init w = Inr g"
proof (cases "workflow_graph_init w")
  case (Inl e)
  with workflow_graph_init_Inl [OF Inl] workflow_graph_init_Inr [of w] show ?thesis
    by (cases e) (auto simp: raises_def raise_def)
next
  case (Inr g)
  then show ?thesis by (auto simp: workflow_graph_init_Inr)
qed

text \<open>
  C14 (topological order): the order of a graph that was built lists every node of the
  workflow exactly once, and for every connection the source stands before the target.
  The roots are the nodes without an incoming connection.
\<close>
theorem workflow_graph_order:
  assumes "workflow_graph_init w = Inr g"
  shows "distinct (graph_topo g) \<and> set (graph_topo g) = set (node_ids w)
    \<and> (\<forall>c. c \<in> set (connections w) \<longrightarrow>
          (\<exists>i j. i < j \<and> j < length (graph_topo g)
             \<and> graph_topo g ! i = source_node c \<and> graph_topo g ! j = target_node c))
    \<and> set (root_ids g) = {i \<in> set (node_ids w). \<forall>c. c \<in> set (connections w) \<longrightarrow> target_node c \<noteq> i}"
proof -
  note o = built_graph_order [OF assms]
  from assms have k: "endpoints_known w" and g: "g = built_graph w"
    by (simp_all add: workflow_graph_init_Inr)
  have "\<exists>i j. i < j \<and> j < length (graph_topo g)
          \<and> graph_topo g ! i = source_node c \<and> graph_topo g ! j = target_node c"
    if c: "c \<in> set (connections w)" for c
  proof -
    from c k have "target_node c \<in> set (graph_topo g)" by (simp add: o(2) endpoints_known_def)
    then obtain j where j: "j < length (graph_topo g)" "graph_topo g ! j = target_node c"
      by (auto simp: in_set_conv_nth)
    have "source_node c \<in> parent_set w (graph_topo g ! j)" using c j by (auto simp: parent_set_def)
    with o(3) j have "source_node c \<in> set (take j (graph_topo g))" unfolding parents_first_def by blast
    then obtain i where "i < j" "graph_topo g ! i = source_node c" by (auto simp: in_set_conv_nth)
    with j show ?thesis by blast
  qed
  moreover have "set (root_ids g) = {i \<in> set (node_ids w). incoming_edges w i = []}"
  proof -
    have "set (root_ids g) = {i \<in> set (graph_topo g). dict_get (incoming_index w) i [] = []}"
      by (auto simp: g built_graph_def)
    then show ?thesis
      unfolding o(2) by (auto simp: incoming_index_def dict_get_def map_of_keyed)
  qed
  moreover have "incoming_edges w i = [] \<longleftrightarrow> (\<forall>c. c \<in> set (connections w) \<longrightarrow> target_node c \<noteq> i)" for i
    by (auto simp: incoming_edges_def filter_empty_conv)
  ultimately show ?thesis using o by simp
qed

definition diamond :: workflow where
  "diamond = mk_workflow ''w'' ''p'' ''diamond''
     [mk_node ''d'' ''D'' ''t'', mk_node ''a'' ''A'' ''t'', mk_node ''b'' ''B'' ''t'', mk_node ''c'' ''C'' ''t'']
     [mk_connection ''a'' ''b'', mk_connection ''a'' ''c'', mk_connection ''b'' ''d'', mk_connection ''c'' ''d'']"

theorem workflow_graph_order_witness:
  "\<exists>g. workflow_graph_init diamond = Inr g \<and> graph_topo g = [''a'', ''b'', ''c'', ''d''] \<and> root_ids g = [''a'']
     \<and> distinct (graph_topo g) \<and> set (graph_topo g) = set (node_ids diamond)"
proof -
  have "returns (\<lambda>g. graph_topo g = [''a'', ''b'', ''c'', ''d''] \<and> root_ids g = [''a''])
     (workflow_graph_init diamond)"
    by code_simp
  then have "\<exists>g. workflow_graph_init diamond = Inr g \<and> graph_topo g = [''a'', ''b'', ''c'', ''d'']
     \<and> root_ids g = [''a'']"
    unfolding returns_iff by blast
  then show ?thesis using workflow_graph_order [of diamond] by blast
qed

text \<open>
  On a built graph, \<open>outgoing\<close> and \<open>incoming\<close> return exactly the
  connections with that source and that target, in declaration order, \<open>node\<close> returns the
  node with that id, and all three raise \<open>KeyError\<close> on an unknown id.
\<close>
theorem workflow_graph_adjacency:
  assumes "workflow_graph_init w = Inr g"
  shows "(if i \<in> set (node_ids w)
          then outgoing g i = Inr (map outgoing_of (filter (\<lambda>c. source_node c = i) (connections w)))
             \<and> incoming g i = Inr (map incoming_of (filter (\<lambda>c. target_node c = i) (connections w)))
             \<and> (\<exists>n. graph_node g i = Inr n \<and> node_by_id w i = Some n \<and> node_id n = i)
          else raises KeyError (outgoing g i) \<and> raises KeyError (incoming g i)
             \<and> raises KeyError (graph_node g i))"
proof (cases "i \<in> set (node_ids w)")
  case True
  then obtain n where "node_by_id w i = Some n"
    by (cases "node_by_id w i") (auto simp: node_by_id_def find_None_iff node_ids_def)
  with True node_by_id_Some [OF this] built_graph_queries [OF assms, of i] show ?thesis
    by (simp add: outgoing_edges_def incoming_edges_def)
next
  case False
  with built_graph_queries [OF assms, of i] show ?thesis by (auto simp: raises_def)
qed

theorem workflow_graph_adjacency_witness:
  "\<exists>g. workflow_graph_init diamond = Inr g \<and> raises KeyError (outgoing g ''x'')
     \<and> outgoing g ''b'' = Inr [outgoing_of (mk_connection ''b'' ''d'')]"
proof -
  have "returns (\<lambda>g. True) (workflow_graph_init diamond)" by code_simp
  then obtain g where g: "workflow_graph_init diamond = Inr g" unfolding returns_iff by blast
  from workflow_graph_adjacency [OF g, of "''x''"] workflow_graph_adjacency [OF g, of "''b''"] g
  show ?thesis by (simp add: diamond_def mk_workflow_def mk_node_def mk_connection_def node_ids_def)
qed

end
