(* ===== verification/Regex.thy ===== *)
theory Regex
  imports Prelude
begin

text \<open>
  The part of Python's \<open>re\<close> module that the sources use: patterns built from character
  classes, greedy repetition of a class, concatenation, ordered alternation, an optional
  part and the word boundary, matched by backtracking in priority order, and \<open>sub\<close>.
\<close>

section \<open>Patterns and matching\<close>

datatype rx =
    Cls "char \<Rightarrow> bool"
  | AtLeast nat "char \<Rightarrow> bool"
  | Cat rx rx
  | Alt rx rx
  | Opt rx
  | WordBoundary

text \<open>A cursor: the character before the position, if any, and the text after it.\<close>

type_synonym cursor = "char option \<times> string"

text \<open>
  \<open>\w\<close> on the code points below 256: letters, decimal digits, the superscript and fraction
  numerals, and the underscore.
\<close>

definition is_word_char :: "char \<Rightarrow> bool" where
  "is_word_char c \<longleftrightarrow> (let n = of_char c :: nat in
     48 \<le> n \<and> n \<le> 57 \<or> 65 \<le> n \<and> n \<le> 90 \<or> 97 \<le> n \<and> n \<le> 122 \<or> n = 95
     \<or> n \<in> {170, 178, 179, 181, 185, 186, 188, 189, 190}
     \<or> 192 \<le> n \<and> n \<noteq> 215 \<and> n \<noteq> 247)"

definition word_before :: "char option \<Rightarrow> bool" where
  "word_before p = (case p of None \<Rightarrow> False | Some c \<Rightarrow> is_word_char c)"

definition word_after :: "string \<Rightarrow> bool" where
  "word_after s = (case s of [] \<Rightarrow> False | c # _ \<Rightarrow> is_word_char c)"

text \<open>The ends of a greedy \<open>P{n,}\<close>, longest first.\<close>

fun greedy_ends :: "nat \<Rightarrow> (char \<Rightarrow> bool) \<Rightarrow> char option \<Rightarrow> string \<Rightarrow> cursor list" where
  "greedy_ends n P p [] = (if n = 0 then [(p, [])] else [])"
| "greedy_ends n P p (c # cs) =
     (if P c then greedy_ends (n - 1) P (Some c) cs else []) @ (if n = 0 then [(p, c # cs)] else [])"

text \<open>All ends of a match that starts at the cursor, in the order a backtracking matcher tries them.\<close>

fun matches :: "rx \<Rightarrow> cursor \<Rightarrow> cursor list" where
  "matches (Cls P) (p, s) = (case s of [] \<Rightarrow> [] | c # cs \<Rightarrow> if P c then [(Some c, cs)] else [])"
| "matches (AtLeast n P) (p, s) = greedy_ends n P p s"
| "matches (Cat a b) st = concat (map (matches b) (matches a st))"
| "matches (Alt a b) st = matches a st @ matches b st"
| "matches (Opt a) st = matches a st @ [st]"
| "matches WordBoundary (p, s) = (if word_before p \<noteq> word_after s then [(p, s)] else [])"

text \<open>
  \<open>pattern.sub(marker, text)\<close> from a cursor on. Every pattern of the sources consumes at least
  one character, so the rule of \<open>re\<close> for empty matches is not needed: a match that consumes
  nothing counts as none.
\<close>

function rx_sub :: "rx \<Rightarrow> string \<Rightarrow> char option \<Rightarrow> string \<Rightarrow> string" where
  "rx_sub r m p [] = []"
| "rx_sub r m p (c # cs) =
     (case matches r (p, c # cs) of
        [] \<Rightarrow> c # rx_sub r m (Some c) cs
      | (p', s') # _ \<Rightarrow>
          if length s' < length (c # cs) then m @ rx_sub r m p' s' else c # rx_sub r m (Some c) cs)"
  by pat_completeness auto
termination by (relation "measure (\<lambda>(r, m, p, s). length s)") auto

section \<open>Building blocks\<close>

text \<open>A literal under \<open>(?i)\<close>, written in lower case.\<close>

fun lit_ci :: "string \<Rightarrow> rx" where
  "lit_ci [] = AtLeast 0 (\<lambda>_. False)"
| "lit_ci [x] = Cls (\<lambda>c. ascii_lower c = x)"
| "lit_ci (x # y # ys) = Cat (Cls (\<lambda>c. ascii_lower c = x)) (lit_ci (y # ys))"

definition is_ascii_alpha :: "char \<Rightarrow> bool" where
  "is_ascii_alpha c \<longleftrightarrow> (let n = of_char c :: nat in 65 \<le> n \<and> n \<le> 90 \<or> 97 \<le> n \<and> n \<le> 122)"

definition is_ascii_alnum :: "char \<Rightarrow> bool" where
  "is_ascii_alnum c \<longleftrightarrow> is_ascii_alpha c \<or> is_ascii_digit c"

section \<open>Laws of matching and substitution\<close>

lemma greedy_ends_suffix: "(p', s') \<in> set (greedy_ends n P p s) \<Longrightarrow> suffix s' s"
  by (induction n P p s rule: greedy_ends.induct) (auto simp: suffix_Cons split: if_splits)

lemma matches_suffix: "(p', s') \<in> set (matches r (p, s)) \<Longrightarrow> suffix s' s"
proof (induction r arbitrary: p s p' s')
  case (Cls P)
  then show ?case by (auto simp: suffix_Cons split: list.splits if_splits)
next
  case (Cat a b)
  then obtain q t where "(q, t) \<in> set (matches a (p, s))" "(p', s') \<in> set (matches b (q, t))" by auto
  with Cat.IH show ?case by (meson suffix_order.trans)
qed (auto split: if_splits intro: greedy_ends_suffix)

lemma greedy_ends_all:
  "list_all P s \<Longrightarrow> n \<le> length s \<Longrightarrow>
   \<exists>rest. greedy_ends n P p s = ((if s = [] then p else Some (last s)), []) # rest"
proof (induction n P p s rule: greedy_ends.induct)
  case (2 n P p c cs)
  then have "n - 1 \<le> length cs" by auto
  with 2 obtain rest where
    "greedy_ends (n - 1) P (Some c) cs = ((if cs = [] then Some c else Some (last cs)), []) # rest"
    by auto
  with 2 show ?case by auto
qed simp

lemma greedy_ends_none: "s = [] \<or> \<not> P (hd s) \<Longrightarrow> greedy_ends 0 P p s = [(p, s)]"
  by (cases s) auto

text \<open>A substitution adds nothing but the marker.\<close>

lemma rx_sub_chars: "set (rx_sub r m p s) \<subseteq> set s \<union> set m"
proof (induction "length s" arbitrary: p s rule: less_induct)
  case less
  show ?case
  proof (cases s)
    case (Cons c cs)
    have tail: "set (rx_sub r m (Some c) cs) \<subseteq> set cs \<union> set m" using less Cons by simp
    show ?thesis
    proof (cases "matches r (p, c # cs)")
      case Nil
      with tail Cons show ?thesis by auto
    next
      case (Cons q qs)
      obtain p' s' where q: "q = (p', s')" by (cases q)
      have "(p', s') \<in> set (matches r (p, c # cs))" by (simp add: Cons q)
      then have "suffix s' (c # cs)" by (rule matches_suffix)
      then have "set s' \<subseteq> set (c # cs)" by (rule set_mono_suffix)
      moreover have "set (rx_sub r m p' s') \<subseteq> set s' \<union> set m" if "length s' < length (c # cs)"
        using less that \<open>s = c # cs\<close> by simp
      ultimately show ?thesis using tail Cons q \<open>s = c # cs\<close> by auto
    qed
  qed simp
qed

lemma rx_sub_not_Nil: "s \<noteq> [] \<Longrightarrow> m \<noteq> [] \<Longrightarrow> rx_sub r m p s \<noteq> []"
  by (cases s) (auto split: list.splits)

lemma rx_sub_skip: "matches r (p, c # cs) = [] \<Longrightarrow> rx_sub r m p (c # cs) = c # rx_sub r m (Some c) cs"
  by simp

lemma rx_sub_whole: "matches r (p, c # cs) = (q, []) # rest \<Longrightarrow> rx_sub r m p (c # cs) = m"
  by simp

text \<open>A text without any match position is left alone.\<close>

fun no_match :: "rx \<Rightarrow> char option \<Rightarrow> string \<Rightarrow> bool" where
  "no_match r p [] = True"
| "no_match r p (c # cs) = (matches r (p, c # cs) = [] \<and> no_match r (Some c) cs)"

lemma rx_sub_no_match: "no_match r p s \<Longrightarrow> rx_sub r m p s = s"
  by (induction r p s rule: no_match.induct) auto

end
