(* ===== verification/Redaction.thy ===== *)
theory Redaction
  imports Regex
begin

text \<open>
  \<open>utils/redaction.py\<close>: the opaque messages of the credential errors, the five redaction
  patterns, \<open>scrub_text\<close> and \<open>safe_error_message\<close>. Every message the executor stores passes
  through here.
\<close>

section \<open>Patterns\<close>

definition OPAQUE_MESSAGES :: "(exn_class, string) dict" where
  "OPAQUE_MESSAGES =
     [(CredentialDecryptError, ''credential decryption failed''),
      (CredentialNotFoundError, ''credential not found''),
      (CredentialTypeNotFoundError, ''credential type not registered'')]"

definition assign_char :: "char \<Rightarrow> bool" where
  "assign_char c \<longleftrightarrow> c = CHR '':'' \<or> c = CHR ''=''"

definition scheme_char :: "char \<Rightarrow> bool" where
  "scheme_char c \<longleftrightarrow> is_ascii_alnum c \<or> c \<in> set ''+.-''"

definition userinfo_char :: "char \<Rightarrow> bool" where
  "userinfo_char c \<longleftrightarrow> c \<notin> set ''/@'' \<and> \<not> py_isspace c"

definition bearer_char :: "char \<Rightarrow> bool" where
  "bearer_char c \<longleftrightarrow> is_ascii_alnum c \<or> c \<in> set ''._-+/=''"

definition value_char :: "char \<Rightarrow> bool" where
  "value_char c \<longleftrightarrow> \<not> py_isspace c \<and> c \<notin> set '',;}'' \<and> (of_char c :: nat) \<notin> {34, 39}"

definition blob_char :: "char \<Rightarrow> bool" where
  "blob_char c \<longleftrightarrow> is_ascii_alnum c \<or> c \<in> set ''+/_=-''"

definition url_pattern :: rx where
  "url_pattern = Cat (Cls is_ascii_alpha) (Cat (AtLeast 0 scheme_char) (Cat (lit_ci ''://'')
     (Cat (AtLeast 1 userinfo_char) (Cat (Cls (\<lambda>c. c = CHR '':'')) (Cat (AtLeast 1 userinfo_char)
       (Cls (\<lambda>c. c = CHR ''@'')))))))"

definition auth_header_pattern :: rx where
  "auth_header_pattern = Cat WordBoundary
     (Cat (Alt (lit_ci ''authorization'') (Alt (lit_ci ''x-api-key'') (lit_ci ''x-auth-token'')))
       (Cat (AtLeast 0 py_isspace) (Cat (Cls assign_char) (Cat (AtLeast 0 py_isspace)
         (AtLeast 1 (\<lambda>c. \<not> py_isspace c))))))"

definition bearer_pattern :: rx where
  "bearer_pattern = Cat WordBoundary (Cat (lit_ci ''bearer'') (Cat (AtLeast 1 py_isspace)
     (AtLeast 8 bearer_char)))"

definition secret_key_rx :: rx where
  "secret_key_rx =
     Alt (Cat (lit_ci ''pass'') (Opt (lit_ci ''word'')))
     (Alt (lit_ci ''passwd'') (Alt (lit_ci ''secret'') (Alt (lit_ci ''token'')
     (Alt (Cat (lit_ci ''api'') (Cat (Opt (Cls (\<lambda>c. c \<in> set ''_-''))) (lit_ci ''key'')))
          (Cat (lit_ci ''private'') (Cat (Opt (Cls (\<lambda>c. c \<in> set ''_-''))) (lit_ci ''key'')))))))"

definition assignment_pattern :: rx where
  "assignment_pattern = Cat WordBoundary (Cat secret_key_rx (Cat (AtLeast 0 py_isspace)
     (Cat (Cls assign_char) (Cat (AtLeast 0 py_isspace) (AtLeast 1 value_char)))))"

definition blob_pattern :: rx where
  "blob_pattern = Cat WordBoundary (Cat (AtLeast 32 blob_char) WordBoundary)"

definition REDACTION_PATTERNS :: "rx list" where
  "REDACTION_PATTERNS =
     [url_pattern, auth_header_pattern, bearer_pattern, assignment_pattern, blob_pattern]"

definition REDACTION_MARKER :: string where
  "REDACTION_MARKER = ''[redacted]''"

definition scrub_text :: "string \<Rightarrow> string" where
  "scrub_text message = foldl (\<lambda>out pat. rx_sub pat REDACTION_MARKER None out) message REDACTION_PATTERNS"

definition safe_error_message :: "exn \<Rightarrow> string" where
  "safe_error_message exc =
     (case map_of OPAQUE_MESSAGES (exn_cls exc) of
        Some canned \<Rightarrow> canned
      | None \<Rightarrow> scrub_text (exn_msg exc))"

section \<open>What the filter guarantees\<close>

lemma marker_not_Nil [simp]: "REDACTION_MARKER \<noteq> []"
  by (simp add: REDACTION_MARKER_def)

lemma marker_value_chars: "list_all value_char REDACTION_MARKER"
  by code_simp

lemma marker_no_blob: "rx_sub blob_pattern m None REDACTION_MARKER = REDACTION_MARKER"
  by (rule rx_sub_no_match) code_simp

text \<open>The value part of an assignment is still a value after any substitution.\<close>

lemma rx_sub_value:
  assumes "list_all value_char s" and "s \<noteq> []"
  shows "list_all value_char (rx_sub r REDACTION_MARKER p s) \<and> rx_sub r REDACTION_MARKER p s \<noteq> []"
proof
  show "list_all value_char (rx_sub r REDACTION_MARKER p s)"
    using rx_sub_chars [of r REDACTION_MARKER p s] assms(1) marker_value_chars
    unfolding list_all_iff by blast
  show "rx_sub r REDACTION_MARKER p s \<noteq> []" using rx_sub_not_Nil [OF assms(2)] by simp
qed

text \<open>A prefix in which a pattern never starts, whatever follows.\<close>

fun inert :: "rx \<Rightarrow> char option \<Rightarrow> string \<Rightarrow> string \<Rightarrow> bool" where
  "inert r p [] s = True"
| "inert r p (c # cs) s = (matches r (p, c # cs @ s) = [] \<and> inert r (Some c) cs s)"

lemma rx_sub_inert:
  "inert r p u s \<Longrightarrow> rx_sub r m p (u @ s) = u @ rx_sub r m (if u = [] then p else Some (last u)) s"
  by (induction r p u s rule: inert.induct) auto

definition SECRET_KEYS :: "string list" where
  "SECRET_KEYS = [''password'', ''passwd'', ''pass'', ''secret'', ''token'', ''api_key'', ''api-key'',
     ''apikey'', ''private_key'', ''private-key'', ''privatekey'']"

lemmas rx_eval = Regex.matches.simps Let_def word_before_def word_after_def is_word_char_def is_ascii_alpha_def is_ascii_alnum_def
  is_ascii_digit_def ascii_lower_def scheme_char_def assign_char_def

lemma secret_keys_inert:
  assumes "key \<in> set SECRET_KEYS"
  shows "inert url_pattern None (key @ ''='') s"
    and "inert auth_header_pattern None (key @ ''='') s"
    and "inert bearer_pattern None (key @ ''='') s"
  using assms unfolding SECRET_KEYS_def
  by (auto simp: url_pattern_def auth_header_pattern_def bearer_pattern_def rx_eval)


lemma assignment_match:
  assumes "key \<in> set SECRET_KEYS" and "list_all value_char v" and "v \<noteq> []"
  shows "\<exists>q rest. matches assignment_pattern (None, key @ ''='' @ v) = (q, []) # rest"
proof -
  from assms(3) obtain c cs where v: "v = c # cs" by (cases v) auto
  with assms(2) have c: "\<not> py_isspace c" by (simp add: value_char_def)
  from assms(2) v obtain q rest where g: "greedy_ends (Suc 0) value_char (Some CHR ''='') (c # cs) = (q, []) # rest"
    using greedy_ends_all [of value_char v "Suc 0" "Some CHR ''=''"] by auto
  have sp: "\<not> py_isspace CHR ''=''" "\<not> py_isspace CHR ''w''" by code_simp+
  show ?thesis
    using assms(1) c g sp unfolding SECRET_KEYS_def v
    by (auto simp: assignment_pattern_def secret_key_rx_def rx_eval simp del: greedy_ends.simps
        simp: greedy_ends_none)
qed

text \<open>A pattern that needs a character the text does not have never matches.\<close>

definition dead :: "rx \<Rightarrow> string \<Rightarrow> bool" where
  "dead r s \<longleftrightarrow> (\<forall>p s'. suffix s' s \<longrightarrow> matches r (p, s') = [])"

lemma dead_Cls: "\<not> list_ex P s \<Longrightarrow> dead (Cls P) s"
  by (auto simp: dead_def list_ex_iff split: list.splits dest: set_mono_suffix)

lemma dead_AtLeast: "\<not> list_ex P s \<Longrightarrow> dead (AtLeast (Suc n) P) s"
  unfolding dead_def
proof (intro allI impI)
  fix p s' assume "\<not> list_ex P s" "suffix s' s"
  then show "matches (AtLeast (Suc n) P) (p, s') = []"
    by (cases s') (auto simp: list_ex_iff dest: set_mono_suffix)
qed

lemma dead_Cat_left: "dead a s \<Longrightarrow> dead (Cat a b) s"
  by (simp add: dead_def)

lemma dead_Cat_right: "dead b s \<Longrightarrow> dead (Cat a b) s"
  unfolding dead_def
proof (intro allI impI)
  fix p s' assume d: "\<forall>p s'. suffix s' s \<longrightarrow> matches b (p, s') = []" and s': "suffix s' s"
  have "matches b (q, t) = []" if "(q, t) \<in> set (matches a (p, s'))" for q t
    using d matches_suffix [OF that] s' suffix_order.trans by blast
  then show "matches (Cat a b) (p, s') = []" by auto
qed

lemma dead_no_match: "dead r s \<Longrightarrow> no_match r p s"
proof (induction s arbitrary: p)
  case (Cons c cs)
  then have "dead r cs" by (simp add: dead_def suffix_Cons)
  with Cons show ?case by (simp add: dead_def)
qed simp

lemma blob_match:
  assumes "list_all is_ascii_alnum s" and "32 \<le> length s"
  shows "\<exists>q rest. matches blob_pattern (None, s) = (q, []) # rest"
proof -
  from assms(1) have all: "list_all blob_char s" by (simp add: list_all_iff blob_char_def)
  from assms(2) have ne: "s \<noteq> []" by auto
  have w: "is_ascii_alnum c \<Longrightarrow> is_word_char c" for c
    by (auto simp: is_ascii_alnum_def is_ascii_alpha_def is_ascii_digit_def is_word_char_def Let_def)
  with assms(1) ne have "word_after s" and l: "is_word_char (last s)"
    by (auto simp: word_after_def list_all_iff split: list.splits)
  moreover from greedy_ends_all [OF all assms(2), of None] ne obtain rest
    where "greedy_ends 32 blob_char None s = (Some (last s), []) # rest" by auto
  ultimately show ?thesis
    by (simp add: blob_pattern_def word_before_def word_after_def)
qed

section \<open>Properties\<close>



text \<open>
  C23 (persisted error messages): the message stored for a credential error does not depend
  on the exception's text, and a long alphanumeric token, such as a key echoed by a
  library, is stored as the marker.
\<close>
theorem safe_error_message_opaque:
  assumes "list_all is_ascii_alnum s" and "32 \<le> length s"
  shows "safe_error_message (Exn CredentialDecryptError m) = ''credential decryption failed''
    \<and> safe_error_message (Exn CredentialNotFoundError m) = ''credential not found''
    \<and> safe_error_message (Exn CredentialTypeNotFoundError m) = ''credential type not registered''
    \<and> safe_error_message (Exn (Other cls) s) = REDACTION_MARKER"
proof -
  have no: "\<not> list_ex assign_char s" "\<not> list_ex py_isspace s"
    using assms(1) by (auto simp: list_all_iff list_ex_iff assign_char_def is_ascii_alnum_def
        is_ascii_alpha_def is_ascii_digit_def py_isspace_def Let_def)
  from no(1) have colon: "\<not> list_ex (\<lambda>c. c = CHR '':'') s" by (auto simp: list_ex_iff assign_char_def)
  have d1: "dead url_pattern s"
    unfolding url_pattern_def using dead_Cls [OF colon] by (intro dead_Cat_right dead_Cat_left)
  have d2: "dead auth_header_pattern s" and d4: "dead assignment_pattern s"
    unfolding auth_header_pattern_def assignment_pattern_def
    using dead_Cls [OF no(1)] by (simp_all add: dead_Cat_right dead_Cat_left)
  have d3: "dead bearer_pattern s"
    unfolding bearer_pattern_def using dead_AtLeast [OF no(2), of 0]
    by (simp add: dead_Cat_right dead_Cat_left)
  from blob_match [OF assms] obtain q rest where "matches blob_pattern (None, s) = (q, []) # rest" by blast
  moreover from assms(2) obtain c cs where "s = c # cs" by (cases s) auto
  ultimately have "rx_sub blob_pattern REDACTION_MARKER None s = REDACTION_MARKER"
    using rx_sub_whole by simp
  then have "scrub_text s = REDACTION_MARKER"
    by (simp add: scrub_text_def REDACTION_PATTERNS_def rx_sub_no_match dead_no_match d1 d2 d3 d4)
  then show ?thesis by (simp add: safe_error_message_def OPAQUE_MESSAGES_def)
qed

theorem safe_error_message_opaque_witness:
  "safe_error_message (Exn (Other ''E'') (replicate 40 CHR ''a'')) = ''[redacted]''"
  using safe_error_message_opaque [of "replicate 40 CHR ''a''"]
  by (simp add: REDACTION_MARKER_def list_all_iff is_ascii_alnum_def is_ascii_alpha_def Let_def)

end
