(* ===== verification/Expression.thy ===== *)
theory Expression
  imports Domain
begin

text \<open>
  The expression layer: the template tokenizer (\<open>expression/tokenizer.py\<close>), the proxies and
  the environment filter (\<open>expression/proxies.py\<close>), the sandbox glue around RestrictedPython
  (\<open>expression/sandbox.py\<close>) and the resolver (\<open>expression/resolver.py\<close>). The restricted
  compiler and the interpreter that runs its code objects are parameters.
\<close>

section \<open>Tokenizer\<close>

definition OPEN_TAG :: string where "OPEN_TAG = ''{{''"

definition CLOSE_TAG :: string where "CLOSE_TAG = ''}}''"

datatype chunk =
    LiteralChunk string
  | ExpressionChunk (chunk_source: string) (chunk_offset: nat)

text \<open>\<open>s.find(p, start)\<close>.\<close>

definition find_from :: "string \<Rightarrow> string \<Rightarrow> nat \<Rightarrow> nat option" where
  "find_from p s start = map_option (\<lambda>i. start + i) (find_sub p (drop start s))"

text \<open>\<open>s[i:j]\<close> for \<open>0 \<le> i\<close> and \<open>0 \<le> j\<close>.\<close>

definition slice :: "string \<Rightarrow> nat \<Rightarrow> nat \<Rightarrow> string" where
  "slice s i j = drop i (take j s)"

lemma find_from_bounds: "find_from p s start = Some i \<Longrightarrow> start \<le> i \<and> (start \<le> length s \<longrightarrow> i + length p \<le> length s)"
  using find_sub_Some_le [of p "drop start s"] by (auto simp: find_from_def)

definition unterminated_msg :: "string \<Rightarrow> nat \<Rightarrow> string" where
  "unterminated_msg template open_at =
     ''unterminated expression: missing '' @ [CHR 0x27] @ ''}}'' @ [CHR 0x27] @ '' after column ''
     @ show_nat (open_at + 1) @ '' in '' @ repr_str template"

definition empty_msg :: "string \<Rightarrow> nat \<Rightarrow> string" where
  "empty_msg template open_at =
     ''empty expression at column '' @ show_nat (open_at + 1) @ '' in '' @ repr_str template"

function tokenize_from :: "string \<Rightarrow> nat \<Rightarrow> chunk list result" where
  "tokenize_from template cursor =
     (if \<not> cursor < length template then Inr []
      else case find_from OPEN_TAG template cursor of
        None \<Rightarrow> Inr [LiteralChunk (drop cursor template)]
      | Some open_at \<Rightarrow>
          (let lead = (if cursor < open_at then [LiteralChunk (slice template cursor open_at)] else []) in
           case find_from CLOSE_TAG template (open_at + length OPEN_TAG) of
             None \<Rightarrow> raise ExpressionSyntaxError (unterminated_msg template open_at)
           | Some close_at \<Rightarrow>
               (let source = py_strip (slice template (open_at + length OPEN_TAG) close_at) in
                if source = [] then raise ExpressionSyntaxError (empty_msg template open_at)
                else rbind (tokenize_from template (close_at + length CLOSE_TAG)) (\<lambda>rest.
                       Inr (lead @ [ExpressionChunk source open_at] @ rest)))))"
  by pat_completeness auto
termination
  by (relation "measure (\<lambda>(t, c). length t - c)")
     (auto simp: OPEN_TAG_def CLOSE_TAG_def dest!: find_from_bounds)

declare tokenize_from.simps [simp del]

definition tokenize :: "string \<Rightarrow> chunk list result" where
  "tokenize template = tokenize_from template 0"

fun is_single_expression :: "chunk list \<Rightarrow> bool" where
  "is_single_expression [ExpressionChunk _ _] = True"
| "is_single_expression _ = False"

definition contains_expression :: "string \<Rightarrow> bool" where
  "contains_expression template = substring OPEN_TAG template"

section \<open>Proxies\<close>

text \<open>
  What an expression can name. An \<open>AttrDict\<close> is a dictionary with attribute access, a
  \<open>WeftlyflowDateTime\<close> an instant in microseconds since the epoch (UTC).
\<close>

datatype proxy = AttrDict jobj | InputProxy "item list" | WeftlyflowDateTime int

definition attr_get :: "jobj \<Rightarrow> string \<Rightarrow> json result" where
  "attr_get d name = (case map_of d name of
     None \<Rightarrow> raise (Other ''AttributeError'') (repr_str name) | Some v \<Rightarrow> Inr v)"

definition attr_del :: "jobj \<Rightarrow> string \<Rightarrow> jobj result" where
  "attr_del d name = (if map_of d name = None then raise (Other ''AttributeError'') (repr_str name)
     else Inr (dict_del name d))"

definition input_all :: "item list \<Rightarrow> jobj list" where
  "input_all items = map item_json items"

definition input_first :: "item list \<Rightarrow> jobj option" where
  "input_first items = (if items = [] then None else Some (item_json (hd items)))"

definition input_last :: "item list \<Rightarrow> jobj option" where
  "input_last items = (if items = [] then None else Some (item_json (last items)))"

definition input_item :: "item list \<Rightarrow> int \<Rightarrow> jobj option" where
  "input_item items index =
     (if 0 \<le> index \<and> index < int (length items) then Some (item_json (items ! nat index))
      else if - int (length items) \<le> index \<and> index < 0
      then Some (item_json (items ! nat (int (length items) + index)))
      else None)"

definition day_us :: int where "day_us = 86400000000"

definition wdt_today :: "int \<Rightarrow> int" where
  "wdt_today now = now - now mod day_us"

definition opt_json :: "string option \<Rightarrow> json" where
  "opt_json s = (case s of None \<Rightarrow> JNull | Some t \<Rightarrow> JStr t)"

definition binary_view :: "binary_ref \<Rightarrow> jobj" where
  "binary_view ref = [(''filename'', opt_json (filename ref)), (''mime_type'', JStr (mime_type ref)),
     (''size_bytes'', JInt (size_bytes ref))]"

definition build_proxies :: "item \<Rightarrow> item list \<Rightarrow> string \<Rightarrow> string \<Rightarrow> string \<Rightarrow> string \<Rightarrow> string
    \<Rightarrow> (string, string) dict \<Rightarrow> jobj option \<Rightarrow> int \<Rightarrow> int \<Rightarrow> (string, proxy) dict" where
  "build_proxies it inputs workflow_id workflow_name project execution_id execution_mode env_vars
     user_vars now1 now2 =
     [(''$json'', AttrDict (item_json it)),
      (''$binary'', AttrDict (map (\<lambda>(name, ref). (name, JObj (binary_view ref))) (item_binary it))),
      (''$input'', InputProxy inputs),
      (''$now'', WeftlyflowDateTime now1),
      (''$today'', WeftlyflowDateTime (wdt_today now2)),
      (''$env'', AttrDict (map (\<lambda>(k, v). (k, JStr v)) env_vars)),
      (''$vars'', AttrDict (case user_vars of None \<Rightarrow> [] | Some d \<Rightarrow> d)),
      (''$workflow'', AttrDict [(''id'', JStr workflow_id), (''name'', JStr workflow_name),
         (''project_id'', JStr project)]),
      (''$execution'', AttrDict [(''id'', JStr execution_id), (''mode'', JStr execution_mode)])]"

text \<open>A dict comprehension: later pairs overwrite earlier ones.\<close>

definition dict_of_pairs :: "('k \<times> 'v) list \<Rightarrow> ('k, 'v) dict" where
  "dict_of_pairs ps = fold (\<lambda>(k, v) d. dict_set k v d) ps []"

definition filter_env :: "(string, string) dict \<Rightarrow> string list option \<Rightarrow> string \<Rightarrow> (string, string) dict" where
  "filter_env raw_env allowlist pre =
     (case allowlist of
        Some names \<Rightarrow>
          dict_of_pairs (concat (map (\<lambda>name.
            case map_of raw_env name of None \<Rightarrow> [] | Some v \<Rightarrow> [(name, v)]) names))
      | None \<Rightarrow>
          dict_of_pairs (map (\<lambda>(k, v). (drop (length pre) k, v))
            (filter (\<lambda>(k, v). prefix pre k) raw_env)))"

section \<open>Sandbox glue\<close>

definition is_ident_start :: "char \<Rightarrow> bool" where
  "is_ident_start c \<longleftrightarrow> (let n = of_char c :: nat in
     65 \<le> n \<and> n \<le> 90 \<or> 97 \<le> n \<and> n \<le> 122 \<or> n = 95)"

text \<open>\<open>$name\<close> becomes \<open>DOLLAR_name\<close>: the dollar is replaced when an identifier follows.\<close>

fun rewrite_dollars :: "string \<Rightarrow> string" where
  "rewrite_dollars [] = []"
| "rewrite_dollars (c # cs) =
     (if c = CHR ''$'' \<and> cs \<noteq> [] \<and> is_ident_start (hd cs) then ''DOLLAR_'' @ rewrite_dollars cs
      else c # rewrite_dollars cs)"

definition rewrite_proxy_keys :: "(string, 'v) dict \<Rightarrow> (string, 'v) dict" where
  "rewrite_proxy_keys proxies =
     dict_of_pairs (map (\<lambda>(k, v). (if prefix ''$'' k then ''DOLLAR_'' @ drop 1 k else k, v)) proxies)"

definition ALLOWED_BUILTIN_NAMES :: "string list" where
  "ALLOWED_BUILTIN_NAMES =
     [''len'', ''range'', ''sum'', ''min'', ''max'', ''abs'', ''round'',
      ''str'', ''int'', ''float'', ''bool'', ''list'', ''dict'', ''tuple'', ''set'',
      ''sorted'', ''reversed'', ''enumerate'', ''zip'', ''any'', ''all'', ''map'', ''filter'',
      ''isinstance'', ''issubclass'', ''True'', ''False'', ''None'']"

definition FORBIDDEN_BUILTINS :: "string list" where
  "FORBIDDEN_BUILTINS =
     [''type'', ''setattr'', ''delattr'', ''__build_class__'',
      ''open'', ''compile'', ''exec'', ''eval'', ''__import__'', ''_getattr_'',
      ''globals'', ''locals'', ''vars'', ''dir'', ''getattr'']"

definition BLOCKED_ATTR_NAMES :: "string list" where
  "BLOCKED_ATTR_NAMES = [''format_map'', ''mro'']"

definition build_builtins_dict :: "(string, 'v) dict \<Rightarrow> (string \<Rightarrow> 'v option) \<Rightarrow> (string, 'v) dict" where
  "build_builtins_dict safe_builtins python_builtins =
     fold dict_del FORBIDDEN_BUILTINS
       (fold (\<lambda>name base. if map_of base name \<noteq> None then base
                          else case python_builtins name of None \<Rightarrow> base | Some v \<Rightarrow> dict_set name v base)
          ALLOWED_BUILTIN_NAMES safe_builtins)"

text \<open>
  The attribute gate: \<open>is_string\<close> says whether the object is a \<open>str\<close>, \<open>lookup\<close> is the
  interpreter's own \<open>getattr\<close> on it (with the default, when one was given).
\<close>

definition guarded_getattr :: "bool \<Rightarrow> (string \<Rightarrow> 'v result) \<Rightarrow> string \<Rightarrow> 'v result" where
  "guarded_getattr is_string lookup name =
     (if prefix ''_'' name \<or> suffix ''_'' name
      then raise ExpressionSecurityError (''access to '' @ repr_str name @ '' is not permitted in expressions'')
      else if name \<in> set BLOCKED_ATTR_NAMES
      then raise ExpressionSecurityError (''access to '' @ repr_str name @ '' is not permitted in expressions'')
      else if name = ''format'' \<and> is_string
      then raise ExpressionSecurityError ''str.format is not permitted in expressions''
      else lookup name)"

definition compile_expression :: "(string \<Rightarrow> string list \<times> 'code option) \<Rightarrow> string \<Rightarrow> 'code result" where
  "compile_expression compile_restricted source =
     (let (errors, code) = compile_restricted (rewrite_dollars source) in
      if errors \<noteq> []
      then raise ExpressionSecurityError
             (''expression rejected: '' @ join ''; '' errors @ '' - source='' @ repr_str source)
      else case code of
        None \<Rightarrow> raise ExpressionSyntaxError (''expression failed to compile: '' @ repr_str source)
      | Some c \<Rightarrow> Inr c)"

fun class_name :: "exn_class \<Rightarrow> string" where
  "class_name ValueError = ''ValueError''"
| "class_name TypeError = ''TypeError''"
| "class_name KeyError = ''KeyError''"
| "class_name IndexError = ''IndexError''"
| "class_name RecursionError = ''RecursionError''"
| "class_name WorkflowValidationError = ''WorkflowValidationError''"
| "class_name InvalidConnectionError = ''InvalidConnectionError''"
| "class_name CycleDetectedError = ''CycleDetectedError''"
| "class_name NodeExecutionError = ''NodeExecutionError''"
| "class_name ExpressionSyntaxError = ''ExpressionSyntaxError''"
| "class_name ExpressionEvalError = ''ExpressionEvalError''"
| "class_name ExpressionTimeoutError = ''ExpressionTimeoutError''"
| "class_name ExpressionSecurityError = ''ExpressionSecurityError''"
| "class_name CredentialNotFoundError = ''CredentialNotFoundError''"
| "class_name CredentialDecryptError = ''CredentialDecryptError''"
| "class_name CredentialTypeNotFoundError = ''CredentialTypeNotFoundError''"
| "class_name NodeTypeNotFoundError = ''NodeTypeNotFoundError''"
| "class_name SubWorkflowNotFoundError = ''SubWorkflowNotFoundError''"
| "class_name SubWorkflowProjectMismatchError = ''SubWorkflowProjectMismatchError''"
| "class_name NodeRegistryError = ''NodeRegistryError''"
| "class_name CredentialRegistryError = ''CredentialRegistryError''"
| "class_name WebhookConflictError = ''WebhookConflictError''"
| "class_name UnsupportedMethodError = ''UnsupportedMethodError''"
| "class_name (Other n) = n"

text \<open>
  \<open>evaluate\<close>: \<open>run\<close> is the interpreter on a code object and the rewritten proxies. Security
  and syntax errors pass, every other exception becomes an \<open>ExpressionEvalError\<close>.
\<close>

definition evaluate :: "('code \<Rightarrow> (string, proxy) dict \<Rightarrow> json result) \<Rightarrow> 'code \<Rightarrow> (string, proxy) dict
    \<Rightarrow> json result" where
  "evaluate run code proxies =
     (case run code (rewrite_proxy_keys proxies) of
        Inr v \<Rightarrow> Inr v
      | Inl e \<Rightarrow>
          if exn_cls e = ExpressionSecurityError \<or> exn_cls e = ExpressionSyntaxError then Inl e
          else raise ExpressionEvalError
                 (''expression failed at runtime: '' @ class_name (exn_cls e) @ '': '' @ exn_msg e))"

text \<open>\<open>expired\<close> says whether an evaluation misses the wall-clock budget.\<close>

definition evaluate_with_timeout :: "('code \<Rightarrow> (string, proxy) dict \<Rightarrow> json result)
    \<Rightarrow> ('code \<Rightarrow> (string, proxy) dict \<Rightarrow> bool) \<Rightarrow> string \<Rightarrow> 'code \<Rightarrow> (string, proxy) dict \<Rightarrow> json result" where
  "evaluate_with_timeout run expired budget code proxies =
     (if expired code proxies
      then raise ExpressionTimeoutError (''expression exceeded '' @ budget @ ''s wall-clock budget'')
      else evaluate run code proxies)"

definition evaluate_source :: "(string \<Rightarrow> string list \<times> 'code option)
    \<Rightarrow> ('code \<Rightarrow> (string, proxy) dict \<Rightarrow> json result) \<Rightarrow> ('code \<Rightarrow> (string, proxy) dict \<Rightarrow> bool)
    \<Rightarrow> string \<Rightarrow> (string, proxy) dict \<Rightarrow> string \<Rightarrow> json result" where
  "evaluate_source compile_restricted run expired budget proxies source =
     rbind (compile_expression compile_restricted source) (\<lambda>code.
       evaluate_with_timeout run expired budget code proxies)"

section \<open>Resolver\<close>

type_synonym evaluator = "(string, proxy) dict \<Rightarrow> string \<Rightarrow> json result"

definition chunk_text :: "(rat \<Rightarrow> string) \<Rightarrow> evaluator \<Rightarrow> (string, proxy) dict \<Rightarrow> chunk \<Rightarrow> string result" where
  "chunk_text fr ev proxies c =
     (case c of
        LiteralChunk t \<Rightarrow> Inr t
      | ExpressionChunk src _ \<Rightarrow>
          rbind (ev proxies src) (\<lambda>v. Inr (if v = JNull then [] else py_str fr v)))"

definition resolve :: "(rat \<Rightarrow> string) \<Rightarrow> evaluator \<Rightarrow> json \<Rightarrow> (string, proxy) dict \<Rightarrow> json result" where
  "resolve fr ev template proxies =
     (case template of
        JStr s \<Rightarrow>
          (if \<not> contains_expression s then Inr template
           else rbind (tokenize s) (\<lambda>chunks.
             if is_single_expression chunks then ev proxies (chunk_source (hd chunks))
             else rbind (rmap (chunk_text fr ev proxies) chunks) (\<lambda>parts. Inr (JStr (concat parts)))))
      | _ \<Rightarrow> Inr template)"

fun resolve_tree :: "(rat \<Rightarrow> string) \<Rightarrow> evaluator \<Rightarrow> json \<Rightarrow> (string, proxy) dict \<Rightarrow> json result" where
  "resolve_tree fr ev (JStr s) proxies = resolve fr ev (JStr s) proxies"
| "resolve_tree fr ev (JObj d) proxies =
     rbind (rmap (\<lambda>kv. rbind (resolve_tree fr ev (snd kv) proxies) (\<lambda>v. Inr (fst kv, v))) d)
       (\<lambda>d'. Inr (JObj d'))"
| "resolve_tree fr ev (JArr xs) proxies =
     rbind (rmap (\<lambda>x. resolve_tree fr ev x proxies) xs) (\<lambda>xs'. Inr (JArr xs'))"
| "resolve_tree fr ev v proxies = Inr v"

section \<open>Tokenizer: round trip\<close>

fun render_chunk :: "chunk \<Rightarrow> string" where
  "render_chunk (LiteralChunk t) = t"
| "render_chunk (ExpressionChunk src _) = ''{{ '' @ src @ '' }}''"

definition render_chunks :: "chunk list \<Rightarrow> string" where
  "render_chunks cs = concat (map render_chunk cs)"

text \<open>
  The chunk lists that a template can spell, starting at an offset: literals are not empty,
  do not follow each other, and have no opening tag in them or across their end; sources
  are stripped, not empty and have no closing tag.
\<close>

fun source_ok :: "string \<Rightarrow> bool" where
  "source_ok src \<longleftrightarrow> src \<noteq> [] \<and> py_strip src = src \<and> \<not> sublist CLOSE_TAG src"

fun chunks_ok :: "nat \<Rightarrow> chunk list \<Rightarrow> bool" where
  "chunks_ok off [] = True"
| "chunks_ok off (ExpressionChunk src col # cs) =
     (col = off \<and> source_ok src \<and> chunks_ok (off + length src + 6) cs)"
| "chunks_ok off [LiteralChunk t] = (t \<noteq> [] \<and> \<not> sublist OPEN_TAG t)"
| "chunks_ok off (LiteralChunk t # LiteralChunk u # cs) = False"
| "chunks_ok off (LiteralChunk t # ExpressionChunk src col # cs) =
     (t \<noteq> [] \<and> \<not> sublist OPEN_TAG t \<and> last t \<noteq> CHR ''{''
      \<and> chunks_ok (off + length t) (ExpressionChunk src col # cs))"

lemma find_sub_double:
  assumes "\<not> sublist [x, x] a" and "a = [] \<or> last a \<noteq> x"
  shows "find_sub [x, x] (a @ x # x # b) = Some (length a)"
  using assms
proof (induction a)
  case (Cons y a)
  from Cons.prems have "\<not> sublist [x, x] a" "a = [] \<or> last a \<noteq> x"
    by (auto simp: sublist_Cons_right split: if_splits)
  moreover have "\<not> prefix [x, x] ((y # a) @ x # x # b)"
    using Cons.prems by (cases a) (auto simp: sublist_Cons_right)
  ultimately show ?case using Cons.IH by simp
qed simp

lemma py_strip_padded: "py_strip src = src \<Longrightarrow> src \<noteq> [] \<Longrightarrow> py_strip ('' '' @ src @ '' '') = src"
proof -
  assume strip: "py_strip src = src" and ne: "src \<noteq> []"
  have sp: "py_isspace CHR '' ''" by code_simp
  have first: "\<not> py_isspace (hd src)"
  proof
    assume "py_isspace (hd src)"
    then have "length (dropWhile py_isspace src) < length src"
      using ne by (cases src) (auto intro: le_less_trans [OF length_dropWhile_le])
    then have "length (py_strip src) < length src"
      unfolding py_strip_def rstrip_chars_def lstrip_chars_def
      using length_dropWhile_le [of py_isspace "rev (dropWhile py_isspace src)"] by simp
    with strip show False by simp
  qed
  then have l: "dropWhile py_isspace (src @ '' '') = src @ '' ''" "dropWhile py_isspace src = src"
    using ne by (cases src; simp)+
  with strip have "rev (dropWhile py_isspace (rev src)) = src"
    by (simp add: py_strip_def rstrip_chars_def lstrip_chars_def)
  with l sp show ?thesis
    by (simp add: py_strip_def rstrip_chars_def lstrip_chars_def)
qed

lemma find_from_append: "find_from p (pre @ s) (length pre) = map_option (\<lambda>i. length pre + i) (find_sub p s)"
  by (simp add: find_from_def)

lemma tokenize_step:
  assumes t: "\<not> sublist OPEN_TAG t" "t = [] \<or> last t \<noteq> CHR ''{''" and src: "source_ok src"
    and template: "template = pre @ t @ ''{{ '' @ src @ '' }}'' @ rest"
  shows "tokenize_from template (length pre) =
    rbind (tokenize_from template (length pre + length t + length src + 6)) (\<lambda>r.
      Inr ((if t = [] then [] else [LiteralChunk t]) @ [ExpressionChunk src (length pre + length t)] @ r))"
proof -
  have "find_sub OPEN_TAG (t @ ''{{ '' @ src @ '' }}'' @ rest) = Some (length t)"
    using find_sub_double [of "CHR ''{''" t] t by (simp add: OPEN_TAG_def)
  then have o: "find_from OPEN_TAG template (length pre) = Some (length pre + length t)"
    unfolding template by (simp add: find_from_append)
  have "\<not> sublist CLOSE_TAG ('' '' @ src @ '' '')"
  proof -
    have "\<not> sublist ''}}'' (src @ '' '')" if "\<not> sublist ''}}'' src" for src
      using that by (induction src) (auto simp: sublist_Cons_right prefix_Cons)
    with src show ?thesis by (simp add: CLOSE_TAG_def sublist_Cons_right)
  qed
  then have "find_sub CLOSE_TAG (('' '' @ src @ '' '') @ ''}}'' @ rest) = Some (length src + 2)"
    using find_sub_double [of "CHR ''}''" "'' '' @ src @ '' ''"] by (simp add: CLOSE_TAG_def)
  then have c: "find_from CLOSE_TAG template (length pre + length t + length OPEN_TAG)
      = Some (length pre + length t + length src + 4)"
    using find_from_append [of CLOSE_TAG "pre @ t @ OPEN_TAG" "'' '' @ src @ '' }}'' @ rest"]
    unfolding template by (simp add: OPEN_TAG_def add.assoc)
  have "slice template (length pre + length t + length OPEN_TAG) (length pre + length t + length src + 4)
      = '' '' @ src @ '' ''"
    unfolding template slice_def OPEN_TAG_def by (simp add: eval_nat_numeral)
  with src py_strip_padded have inner:
    "py_strip (slice template (length pre + length t + length OPEN_TAG)
       (length pre + length t + length src + 4)) = src" by simp
  define n where "n = length pre + length t"
  have lead: "(if length pre < n then [LiteralChunk (slice template (length pre) n)] else [])
      = (if t = [] then [] else [LiteralChunk t])"
    unfolding n_def template slice_def by simp
  have len: "length CLOSE_TAG = 2" by (simp add: CLOSE_TAG_def)
  have lt: "length pre < length template" unfolding template by simp
  have ne: "src \<noteq> []" using src by simp
  show ?thesis
    unfolding tokenize_from.simps [of template "length pre"] o option.case n_def [symmetric] Let_def lead
      c [folded n_def] inner [folded n_def] len
    using lt ne by (simp add: ac_simps)
qed

lemma tokenize_from_render:
  "chunks_ok (length pre) cs \<Longrightarrow> tokenize_from (pre @ render_chunks cs) (length pre) = Inr cs"
proof (induction "length pre" cs arbitrary: pre rule: chunks_ok.induct)
  case 1
  then show ?case by (simp add: tokenize_from.simps render_chunks_def)
next
  case (2 src col cs)
  have "tokenize_from ((pre @ ''{{ '' @ src @ '' }}'') @ render_chunks cs) (length pre + length src + 6) = Inr cs"
    using "2.hyps" [of "pre @ ''{{ '' @ src @ '' }}''"] "2.prems" by (simp add: eval_nat_numeral)
  with "2.prems" tokenize_step [of "[]" src "pre @ render_chunks (ExpressionChunk src col # cs)" pre "render_chunks cs"]
  show ?case by (simp add: render_chunks_def OPEN_TAG_def)
next
  case (3 t)
  then have "find_sub OPEN_TAG t = None" by (simp add: find_sub_None)
  with 3 show ?case
    by (subst tokenize_from.simps) (simp add: render_chunks_def find_from_append)
next
  case (5 t src col cs)
  let ?rest = "render_chunks cs"
  have IH: "tokenize_from ((pre @ t) @ render_chunks (ExpressionChunk src col # cs)) (length (pre @ t))
      = Inr (ExpressionChunk src col # cs)"
    using "5.hyps" [of "pre @ t"] "5.prems" by simp
  let ?T = "pre @ render_chunks (LiteralChunk t # ExpressionChunk src col # cs)"
  have T: "?T = pre @ t @ ''{{ '' @ src @ '' }}'' @ ?rest" "?T = (pre @ t) @ [] @ ''{{ '' @ src @ '' }}'' @ ?rest"
    by (simp_all add: render_chunks_def)
  from "5.prems" have ok: "source_ok src" "t \<noteq> []" "\<not> sublist OPEN_TAG t" "last t \<noteq> CHR ''{''" by auto
  have "tokenize_from ?T (length (pre @ t)) = Inr (ExpressionChunk src col # cs)"
    using IH by (simp add: render_chunks_def)
  with tokenize_step [OF _ _ ok(1) T(2)] have "col = length pre + length t"
    "tokenize_from ?T (length pre + length t + length src + 6) = Inr cs"
    by (auto simp: OPEN_TAG_def rbind_eq_Inr)
  with tokenize_step [OF ok(3) _ ok(1) T(1)] ok show ?case by simp
qed simp

text \<open>
  C40 (tokenizer round trip): a template spelled from a list of literal and expression chunks
  is tokenized back into exactly these chunks, with the column of every expression.
\<close>
theorem tokenize_render:
  assumes "chunks_ok 0 cs"
  shows "tokenize (render_chunks cs) = Inr cs"
  using tokenize_from_render [of "[]" cs] assms by (simp add: tokenize_def)

theorem tokenize_render_witness:
  "tokenize ''Hi {{ $json.name }}!'' = Inr [LiteralChunk ''Hi '', ExpressionChunk ''$json.name'' 3, LiteralChunk ''!'']"
proof -
  have ok: "chunks_ok 0 [LiteralChunk ''Hi '', ExpressionChunk ''$json.name'' 3, LiteralChunk ''!'']"
    by code_simp
  have r: "render_chunks [LiteralChunk ''Hi '', ExpressionChunk ''$json.name'' 3, LiteralChunk ''!'']
      = ''Hi {{ $json.name }}!''"
    by (simp add: render_chunks_def)
  show ?thesis using tokenize_render [OF ok] unfolding r .
qed

section \<open>Resolver\<close>

text \<open>A value in which no string has an opening tag.\<close>

fun plain :: "json \<Rightarrow> bool" where
  "plain (JStr s) = (\<not> contains_expression s)"
| "plain (JArr xs) = list_all plain xs"
| "plain (JObj d) = list_all (\<lambda>p. plain (snd p)) d"
| "plain _ = True"

lemma rmap_id: "(\<And>x. x \<in> set xs \<Longrightarrow> f x = Inr x) \<Longrightarrow> rmap f xs = Inr xs"
  using rmap_total [of xs f "\<lambda>x. x"] by simp

lemma resolve_tree_id: "plain v \<Longrightarrow> resolve_tree fr ev v proxies = Inr v"
proof (induction v)
  case (JStr s)
  then show ?case by (simp add: resolve_def)
next
  case (JArr xs)
  then show ?case by (simp add: rmap_id list_all_iff)
next
  case (JObj d)
  have "rbind (resolve_tree fr ev (snd kv) proxies) (\<lambda>v. Inr (fst kv, v)) = Inr kv" if "kv \<in> set d" for kv
    using JObj.IH [OF that, of "snd kv"] JObj.prems that by (auto simp: list_all_iff snds.simps)
  then show ?case by (simp add: rmap_id)
qed simp_all

text \<open>
  Parameter resolution keeps the structure: a tree without \<open>{{\<close> is returned unchanged;
  resolving an object keeps its keys and their order and resolves the value of each key on
  its own; resolving a list keeps its length and order; and a string that is one
  expression yields the value of the expression itself, not its text.
\<close>
theorem resolve_tree_structure:
  "(plain v \<longrightarrow> resolve_tree fr ev v proxies = Inr v)
   \<and> (resolve_tree fr ev (JObj d) proxies = Inr w \<longrightarrow>
        (\<exists>d'. w = JObj d' \<and> map fst d' = map fst d
           \<and> (\<forall>i < length d. resolve_tree fr ev (snd (d ! i)) proxies = Inr (snd (d' ! i)))))
   \<and> (resolve_tree fr ev (JArr xs) proxies = Inr w \<longrightarrow>
        (\<exists>ys. w = JArr ys \<and> length ys = length xs
           \<and> (\<forall>i < length xs. resolve_tree fr ev (xs ! i) proxies = Inr (ys ! i))))
   \<and> (source_ok src \<longrightarrow> resolve_tree fr ev (JStr (''{{ '' @ src @ '' }}'')) proxies = ev proxies src)"
proof (intro conjI impI)
  show "resolve_tree fr ev v proxies = Inr v" if "plain v" by (rule resolve_tree_id [OF that])
next
  assume "resolve_tree fr ev (JObj d) proxies = Inr w"
  then obtain d' where w: "w = JObj d'" and d': "rmap (\<lambda>kv. rbind (resolve_tree fr ev (snd kv) proxies)
      (\<lambda>v. Inr (fst kv, v))) d = Inr d'" by (auto simp: rbind_eq_Inr)
  have "length d' = length d" by (rule rmap_Inr_length [OF d'])
  moreover have nth: "resolve_tree fr ev (snd (d ! i)) proxies = Inr (snd (d' ! i)) \<and> fst (d' ! i) = fst (d ! i)"
    if "i < length d" for i
    using rmap_Inr_nth [OF d' that] by (auto simp: rbind_eq_Inr) (metis fst_conv snd_conv)+
  ultimately have "map fst d' = map fst d" by (simp add: list_eq_iff_nth_eq)
  with w nth show "\<exists>d'. w = JObj d' \<and> map fst d' = map fst d
      \<and> (\<forall>i < length d. resolve_tree fr ev (snd (d ! i)) proxies = Inr (snd (d' ! i)))" by blast
next
  assume "resolve_tree fr ev (JArr xs) proxies = Inr w"
  then obtain ys where "w = JArr ys" and ys: "rmap (\<lambda>x. resolve_tree fr ev x proxies) xs = Inr ys"
    by (auto simp: rbind_eq_Inr)
  with rmap_Inr_length [OF ys] rmap_Inr_nth [OF ys]
  show "\<exists>ys. w = JArr ys \<and> length ys = length xs
      \<and> (\<forall>i < length xs. resolve_tree fr ev (xs ! i) proxies = Inr (ys ! i))" by auto
next
  assume src: "source_ok src"
  have "contains_expression (''{{ '' @ src @ '' }}'')" by (simp add: contains_expression_def OPEN_TAG_def)
  moreover have "tokenize (''{{ '' @ src @ '' }}'') = Inr [ExpressionChunk src 0]"
    using tokenize_from_render [of "[]" "[ExpressionChunk src 0]"] src
    by (simp add: tokenize_def render_chunks_def)
  ultimately show "resolve_tree fr ev (JStr (''{{ '' @ src @ '' }}'')) proxies = ev proxies src"
    by (simp add: resolve_def)
qed

theorem resolve_tree_structure_witness:
  "resolve_tree (\<lambda>_. []) (\<lambda>_ _. Inr (JInt 7)) (JObj [(''n'', JInt 1)]) [] = Inr (JObj [(''n'', JInt 1)])
   \<and> resolve_tree (\<lambda>_. []) (\<lambda>_ _. Inr (JInt 7)) (JStr (''{{ '' @ ''x'' @ '' }}'')) [] = Inr (JInt 7)"
proof -
  have src: "source_ok ''x''" by code_simp
  have pl: "plain (JObj [(''n'', JInt 1)])" by simp
  from resolve_tree_structure [of "JObj [(''n'', JInt 1)]" "\<lambda>_. []" "\<lambda>_ _. Inr (JInt 7)" "[]" "[]" JNull "[]" "''x''"]
    src pl
  show ?thesis by blast
qed

section \<open>Environment and builtins\<close>

lemma map_of_dict_of_pairs: "map_of (dict_of_pairs ps) k = map_of (rev ps) k"
  unfolding dict_of_pairs_def by (induction ps rule: rev_induct) (auto simp: dict_simps)

lemma map_of_none: "(\<And>v. (k, v) \<notin> set ps) \<Longrightarrow> map_of ps k = None"
  by (force simp: map_of_eq_None_iff)

lemma map_of_constant: "(\<And>v'. (k, v') \<in> set ps \<Longrightarrow> v' = v) \<Longrightarrow> (k, v) \<in> set ps \<Longrightarrow> map_of ps k = Some v"
  by (metis map_of_SomeD map_of_eq_None_iff image_eqI fst_conv not_None_eq)

text \<open>
  Only opted-in variables reach an expression: with an allow-list, the exposed
  environment has a variable exactly when it is on the list and set, with its own value;
  with the prefix scheme it has \<open>name\<close> exactly when \<open>prefix + name\<close> is set.
\<close>
theorem filter_env_exposes:
  "map_of (filter_env raw (Some names) pre) k = (if k \<in> set names then map_of raw k else None)
   \<and> (dict_ok raw \<longrightarrow> map_of (filter_env raw None pre) k = map_of raw (pre @ k))"
proof (intro conjI impI)
  let ?ps = "concat (map (\<lambda>name. case map_of raw name of None \<Rightarrow> [] | Some v \<Rightarrow> [(name, v)]) names)"
  have mem: "(k, v) \<in> set (rev ?ps) \<longleftrightarrow> k \<in> set names \<and> map_of raw k = Some v" for v
    by (auto split: option.splits)
  show "map_of (filter_env raw (Some names) pre) k = (if k \<in> set names then map_of raw k else None)"
  proof (cases "k \<in> set names \<and> map_of raw k \<noteq> None")
    case True
    then obtain v where "map_of raw k = Some v" by auto
    with True have "map_of (rev ?ps) k = Some v"
      by (intro map_of_constant; unfold mem) simp_all
    with True \<open>map_of raw k = Some v\<close> show ?thesis by (simp add: filter_env_def map_of_dict_of_pairs)
  next
    case False
    then have "map_of (rev ?ps) k = None" by (intro map_of_none; unfold mem) simp
    with False show ?thesis by (auto simp: filter_env_def map_of_dict_of_pairs)
  qed
next
  assume ok: "dict_ok raw"
  let ?ps = "map (\<lambda>(k, v). (drop (length pre) k, v)) (filter (\<lambda>(k, v). prefix pre k) raw)"
  have "(k, v) \<in> set (rev ?ps) \<longleftrightarrow> (pre @ k, v) \<in> set raw" for v
    by (auto simp: prefix_def image_iff)
  then have mem: "(k, v) \<in> set (rev ?ps) \<longleftrightarrow> map_of raw (pre @ k) = Some v" for v
    unfolding map_of_eq_Some_iff [OF ok] .
  show "map_of (filter_env raw None pre) k = map_of raw (pre @ k)"
  proof (cases "map_of raw (pre @ k)")
    case None
    then have "map_of (rev ?ps) k = None"
      by (intro map_of_none; unfold mem) simp
    with None show ?thesis by (simp add: filter_env_def map_of_dict_of_pairs)
  next
    case (Some v)
    then have "map_of (rev ?ps) k = Some v"
      by (intro map_of_constant; unfold mem) simp_all
    with Some show ?thesis by (simp add: filter_env_def map_of_dict_of_pairs)
  qed
qed

theorem filter_env_exposes_witness:
  "map_of (filter_env [(''WEFTLYFLOW_VAR_A'', ''1''), (''SECRET'', ''s'')] None ''WEFTLYFLOW_VAR_'') ''A'' = Some ''1''"
  using filter_env_exposes [of "[(''WEFTLYFLOW_VAR_A'', ''1''), (''SECRET'', ''s'')]" "[]" "''WEFTLYFLOW_VAR_''" "''A''"]
  by simp

lemma allowed_fold_lookup:
  "map_of (fold (\<lambda>name base. if map_of base name \<noteq> None then base
       else case py name of None \<Rightarrow> base | Some v \<Rightarrow> dict_set name v base) names base) k
   = (case map_of base k of Some v \<Rightarrow> Some v | None \<Rightarrow> if k \<in> set names then py k else None)"
  by (induction names arbitrary: base) (auto simp: dict_simps split: option.splits)

text \<open>
  Sandbox namespace: the namespace handed to an expression has no forbidden builtin, has
  every allowed builtin the interpreter offers, and takes every other name only from the
  restricted base set; and the attribute gate refuses every name that starts or ends with
  an underscore, \<open>mro\<close>, \<open>format_map\<close>, and \<open>format\<close> on strings.
\<close>
theorem sandbox_namespace:
  "map_of (build_builtins_dict safe py) name =
     (if name \<in> set FORBIDDEN_BUILTINS then None
      else case map_of safe name of
             Some v \<Rightarrow> Some v
           | None \<Rightarrow> if name \<in> set ALLOWED_BUILTIN_NAMES then py name else None)
   \<and> set ALLOWED_BUILTIN_NAMES \<inter> set FORBIDDEN_BUILTINS = {}
   \<and> (if prefix ''_'' name \<or> suffix ''_'' name \<or> name = ''mro'' \<or> name = ''format_map''
          \<or> name = ''format'' \<and> is_string
      then raises ExpressionSecurityError (guarded_getattr is_string lookup name)
      else guarded_getattr is_string lookup name = lookup name)"
proof (intro conjI)
  show "map_of (build_builtins_dict safe py) name =
     (if name \<in> set FORBIDDEN_BUILTINS then None
      else case map_of safe name of
             Some v \<Rightarrow> Some v
           | None \<Rightarrow> if name \<in> set ALLOWED_BUILTIN_NAMES then py name else None)"
    unfolding build_builtins_dict_def by (simp only: pydict.delete_all_lookup allowed_fold_lookup)
  show "set ALLOWED_BUILTIN_NAMES \<inter> set FORBIDDEN_BUILTINS = {}" by code_simp
  show "if prefix ''_'' name \<or> suffix ''_'' name \<or> name = ''mro'' \<or> name = ''format_map''
          \<or> name = ''format'' \<and> is_string
      then raises ExpressionSecurityError (guarded_getattr is_string lookup name)
      else guarded_getattr is_string lookup name = lookup name"
    unfolding guarded_getattr_def BLOCKED_ATTR_NAMES_def by (auto simp del: prefix_code)
qed

end
