(* ===== verification/Node_Registry.thy ===== *)
theory Node_Registry
  imports Expression
begin

text \<open>
  The execution context handed to nodes (\<open>engine/context.py\<close>), node classes
  (\<open>nodes/base.py\<close>) and the registry that maps \<open>(type, version)\<close> to a class
  (\<open>nodes/registry.py\<close>).
\<close>

section \<open>Execution context\<close>

text \<open>
  The process around a run: the exposed environment variables, the expression evaluator,
  the printer of floats, and the two instants an expression sees as \<open>$now\<close> and \<open>$today\<close>.
\<close>

record process_env =
  exposed_env :: "(string, string) dict"
  expr_eval :: evaluator
  float_repr :: "rat \<Rightarrow> string"
  instants :: "int \<times> int"

type_synonym credential_resolver = "string \<Rightarrow> string \<Rightarrow> (string \<times> jobj) result"

text \<open>Arguments: workflow id, items, parent execution id, project id.\<close>

type_synonym sub_workflow_runner = "string \<Rightarrow> item list \<Rightarrow> string \<Rightarrow> string \<Rightarrow> item list result"

record exec_ctx =
  ctx_workflow :: workflow
  ctx_execution_id :: string
  ctx_mode :: execution_mode
  ctx_node :: node
  ctx_inputs :: "(string, item list) dict"
  ctx_static_data :: jobj
  ctx_canceled :: bool
  ctx_credential_resolver :: "credential_resolver option"
  ctx_sub_workflow_runner :: "sub_workflow_runner option"
  ctx_process :: process_env

definition ctx_param :: "exec_ctx \<Rightarrow> string \<Rightarrow> json \<Rightarrow> json" where
  "ctx_param ctx name dflt = dict_get (parameters (ctx_node ctx)) name dflt"

definition get_input :: "exec_ctx \<Rightarrow> string \<Rightarrow> item list" where
  "get_input ctx prt = dict_get (ctx_inputs ctx) prt []"

definition proxies_for :: "exec_ctx \<Rightarrow> item option \<Rightarrow> (string, proxy) dict" where
  "proxies_for ctx it =
     (let inputs = get_input ctx MAIN_PORT;
          current = (case it of Some i \<Rightarrow> i
                     | None \<Rightarrow> if inputs \<noteq> [] then hd inputs else mk_item [])
      in build_proxies current inputs (wf_id (ctx_workflow ctx)) (wf_name (ctx_workflow ctx))
           (project_id (ctx_workflow ctx)) (ctx_execution_id ctx) (mode_str (ctx_mode ctx))
           (exposed_env (ctx_process ctx)) None
           (fst (instants (ctx_process ctx))) (snd (instants (ctx_process ctx))))"

definition resolved_param :: "exec_ctx \<Rightarrow> string \<Rightarrow> json \<Rightarrow> item option \<Rightarrow> json result" where
  "resolved_param ctx name dflt it =
     resolve (float_repr (ctx_process ctx)) (expr_eval (ctx_process ctx)) (ctx_param ctx name dflt)
       (proxies_for ctx it)"

definition resolved_params :: "exec_ctx \<Rightarrow> item option \<Rightarrow> jobj result" where
  "resolved_params ctx it =
     rbind (resolve_tree (float_repr (ctx_process ctx)) (expr_eval (ctx_process ctx))
              (JObj (parameters (ctx_node ctx))) (proxies_for ctx it))
       (\<lambda>v. case v of JObj d \<Rightarrow> Inr d | _ \<Rightarrow> raise (Other ''AssertionError'') [])"

definition load_credential :: "exec_ctx \<Rightarrow> string \<Rightarrow> (string \<times> jobj) option result" where
  "load_credential ctx slot =
     (case map_of (credentials (ctx_node ctx)) slot of
        None \<Rightarrow> Inr None
      | Some credential_id \<Rightarrow>
          if credential_id = [] then Inr None
          else case ctx_credential_resolver ctx of
            None \<Rightarrow> Inr None
          | Some res \<Rightarrow> rbind (res credential_id (project_id (ctx_workflow ctx))) (\<lambda>c. Inr (Some c)))"

section \<open>Node classes\<close>

datatype node_kind = ActionNode | TriggerNode | PollerNode

text \<open>
  \<open>cls_execute\<close> is the class's \<open>execute\<close>: from the context and the main input to one list of
  items per output port, or an exception, together with the static data it leaves behind.
\<close>

record node_class =
  cls_qualname :: string
  cls_kind :: node_kind
  cls_spec :: "node_spec option"
  cls_execute :: "exec_ctx \<Rightarrow> item list \<Rightarrow> item list list result \<times> jobj"

section \<open>Registry\<close>

record node_registry =
  by_key :: "(string \<times> int, node_class) dict"
  latest_version :: "(string, int) dict"

definition empty_registry :: node_registry where
  "empty_registry = \<lparr>by_key = [], latest_version = []\<rparr>"

definition spec_of :: "node_class \<Rightarrow> node_spec result" where
  "spec_of c = (case cls_spec c of
     None \<Rightarrow> raise NodeRegistryError (cls_qualname c @ '' is missing a NodeSpec class attribute'')
   | Some s \<Rightarrow> Inr s)"

definition register :: "node_class \<Rightarrow> bool \<Rightarrow> node_registry \<Rightarrow> node_registry result" where
  "register c replace reg =
     rbind (spec_of c) (\<lambda>spec.
       let key = (spec_type spec, spec_version spec) in
       if map_of (by_key reg) key \<noteq> None \<and> \<not> replace
       then raise NodeRegistryError
              (''node already registered: '' @ spec_type spec @ '' v'' @ show_int (spec_version spec))
       else let latest = dict_get (latest_version reg) (spec_type spec) 0 in
         Inr \<lparr>by_key = dict_set key c (by_key reg),
              latest_version = (if latest < spec_version spec
                then dict_set (spec_type spec) (spec_version spec) (latest_version reg)
                else latest_version reg)\<rparr>)"

definition reg_get :: "node_registry \<Rightarrow> string \<Rightarrow> int \<Rightarrow> node_class result" where
  "reg_get reg ty v = (case map_of (by_key reg) (ty, v) of
     None \<Rightarrow> raise KeyError (''('' @ repr_str ty @ '', '' @ show_int v @ '')'') | Some c \<Rightarrow> Inr c)"

definition reg_latest :: "node_registry \<Rightarrow> string \<Rightarrow> node_class result" where
  "reg_latest reg ty = (case map_of (latest_version reg) ty of
     None \<Rightarrow> raise NodeRegistryError (''no node registered with type '' @ repr_str ty)
   | Some v \<Rightarrow> reg_get reg ty v)"

definition catalog :: "node_registry \<Rightarrow> node_spec list result" where
  "catalog reg = rmap (\<lambda>kc. spec_of (snd kc)) (by_key reg)"

definition reg_contains :: "node_registry \<Rightarrow> string \<times> int \<Rightarrow> bool" where
  "reg_contains reg key \<longleftrightarrow> map_of (by_key reg) key \<noteq> None"

definition reg_len :: "node_registry \<Rightarrow> nat" where
  "reg_len reg = length (by_key reg)"

definition register_many :: "node_class list \<Rightarrow> bool \<Rightarrow> node_registry \<Rightarrow> node_registry result" where
  "register_many classes replace reg = rfold (\<lambda>r c. register c replace r) reg classes"

text \<open>\<open>load_builtins\<close> on the classes discovery yields: the number of new entries is returned.\<close>

definition load_builtins :: "node_class list \<Rightarrow> node_registry \<Rightarrow> (node_registry \<times> int) result" where
  "load_builtins discovered reg =
     rbind (register_many discovered False reg) (\<lambda>reg'.
       Inr (reg', int (reg_len reg') - int (reg_len reg)))"

section \<open>Invariant\<close>

text \<open>
  The keys are distinct and every entry sits under its own type and version; the latest
  version of a type is the largest positive version registered for it.
\<close>

definition registry_ok :: "node_registry \<Rightarrow> bool" where
  "registry_ok reg \<longleftrightarrow>
     dict_ok (by_key reg) \<and> dict_ok (latest_version reg)
     \<and> (\<forall>ty v c. map_of (by_key reg) (ty, v) = Some c \<longrightarrow>
          (\<exists>s. cls_spec c = Some s \<and> spec_type s = ty \<and> spec_version s = v))
     \<and> (\<forall>ty v. map_of (latest_version reg) ty = Some v \<longrightarrow> 0 < v \<and> map_of (by_key reg) (ty, v) \<noteq> None)
     \<and> (\<forall>ty v. 0 < v \<and> map_of (by_key reg) (ty, v) \<noteq> None \<longrightarrow>
          (\<exists>l. map_of (latest_version reg) ty = Some l \<and> v \<le> l))"

lemma empty_registry_ok: "registry_ok empty_registry"
  by (simp add: registry_ok_def empty_registry_def)

lemma register_Inr:
  "register c replace reg = Inr reg' \<longleftrightarrow>
     (\<exists>s. cls_spec c = Some s
        \<and> (map_of (by_key reg) (spec_type s, spec_version s) = None \<or> replace)
        \<and> reg' = \<lparr>by_key = dict_set (spec_type s, spec_version s) c (by_key reg),
              latest_version = (if dict_get (latest_version reg) (spec_type s) 0 < spec_version s
                then dict_set (spec_type s) (spec_version s) (latest_version reg)
                else latest_version reg)\<rparr>)"
proof (cases "cls_spec c")
  case None
  then show ?thesis by (simp add: register_def spec_of_def)
next
  case (Some s)
  then show ?thesis
    by (cases "map_of (by_key reg) (spec_type s, spec_version s)"; cases replace)
       (auto simp only: register_def spec_of_def Let_def option.case rbind_Inr if_True if_False
         raise_neq_Inr sum.inject option.inject option.distinct simp_thms)
qed

lemma register_ok:
  assumes ok: "registry_ok reg" and r: "register c replace reg = Inr reg'"
  shows "registry_ok reg'"
proof -
  from r obtain s where s: "cls_spec c = Some s"
    and b: "by_key reg' = dict_set (spec_type s, spec_version s) c (by_key reg)"
    and l: "latest_version reg' = (if dict_get (latest_version reg) (spec_type s) 0 < spec_version s
                then dict_set (spec_type s) (spec_version s) (latest_version reg)
                else latest_version reg)"
    unfolding register_Inr by auto
  let ?ty = "spec_type s" and ?v = "spec_version s"
  from ok have O: "dict_ok (by_key reg)" "dict_ok (latest_version reg)"
    and entries: "\<And>ty v c. map_of (by_key reg) (ty, v) = Some c \<Longrightarrow>
          (\<exists>s. cls_spec c = Some s \<and> spec_type s = ty \<and> spec_version s = v)"
    and lat: "\<And>ty v. map_of (latest_version reg) ty = Some v \<Longrightarrow> 0 < v \<and> map_of (by_key reg) (ty, v) \<noteq> None"
    and top: "\<And>ty v. 0 < v \<Longrightarrow> map_of (by_key reg) (ty, v) \<noteq> None \<Longrightarrow>
          (\<exists>l. map_of (latest_version reg) ty = Some l \<and> v \<le> l)"
    unfolding registry_ok_def by blast+
  have M: "map_of (by_key reg') = (map_of (by_key reg))((?ty, ?v) \<mapsto> c)" by (simp add: b dict_simps)
  have "dict_ok (by_key reg')" "dict_ok (latest_version reg')" using O by (simp_all add: b l)
  moreover have "\<exists>s. cls_spec c' = Some s \<and> spec_type s = ty \<and> spec_version s = v"
    if "map_of (by_key reg') (ty, v) = Some c'" for ty v c'
    using that s entries by (auto simp: M split: if_splits)
  moreover have "0 < v \<and> map_of (by_key reg') (ty, v) \<noteq> None"
    if "map_of (latest_version reg') ty = Some v" for ty v
  proof (cases "dict_get (latest_version reg) ?ty 0 < ?v \<and> ty = ?ty")
    case True
    with that have "v = ?v" by (simp add: l dict_simps)
    have "0 \<le> dict_get (latest_version reg) ?ty 0"
      using lat [of ?ty] by (auto simp: dict_get_def split: option.splits)
    with True \<open>v = ?v\<close> show ?thesis by (simp add: M)
  next
    case False
    with that have "map_of (latest_version reg) ty = Some v"
      by (auto simp: l dict_simps split: if_splits)
    then show ?thesis using lat by (auto simp: M)
  qed
  moreover have "\<exists>l. map_of (latest_version reg') ty = Some l \<and> v \<le> l"
    if "0 < v" "map_of (by_key reg') (ty, v) \<noteq> None" for ty v
  proof (cases "(ty, v) = (?ty, ?v)")
    case True
    with \<open>0 < v\<close> show ?thesis
      by (auto simp: l dict_simps dict_get_def split: option.splits)
  next
    case False
    with that have "map_of (by_key reg) (ty, v) \<noteq> None" by (auto simp: M)
    with top [OF \<open>0 < v\<close>] obtain k where "map_of (latest_version reg) ty = Some k" "v \<le> k" by blast
    then show ?thesis by (auto simp: l dict_simps dict_get_def)
  qed
  ultimately show ?thesis unfolding registry_ok_def by blast
qed

lemma register_many_ok:
  "registry_ok reg \<Longrightarrow> register_many cs replace reg = Inr reg' \<Longrightarrow> registry_ok reg'"
  unfolding register_many_def by (erule rfold_invariant) (auto intro: register_ok)

section \<open>Properties\<close>

text \<open>
  Registering into a well-formed registry keeps it well-formed;
  afterwards \<open>get\<close> returns the new class under its key and what it returned before under
  every other key, and \<open>latest\<close> returns a class of the largest version of its type.
\<close>
theorem register_spec:
  assumes "registry_ok reg" and "register c replace reg = Inr reg'" and "cls_spec c = Some s"
    and "0 < spec_version s"
  shows "registry_ok reg'
    \<and> reg_get reg' ty v = (if (ty, v) = (spec_type s, spec_version s) then Inr c else reg_get reg ty v)
    \<and> (\<exists>top sp. reg_latest reg' (spec_type s) = Inr top \<and> cls_spec top = Some sp
         \<and> spec_type sp = spec_type s
         \<and> (\<forall>u. reg_contains reg' (spec_type s, u) \<longrightarrow> u \<le> spec_version sp))"
proof (intro conjI)
  show ok: "registry_ok reg'" using register_ok assms by blast
  have M: "map_of (by_key reg') = (map_of (by_key reg))((spec_type s, spec_version s) \<mapsto> c)"
    using assms(2,3) unfolding register_Inr by (auto simp: dict_simps)
  then show "reg_get reg' ty v = (if (ty, v) = (spec_type s, spec_version s) then Inr c else reg_get reg ty v)"
    by (auto simp: reg_get_def)
  from ok assms(4) M obtain k where k: "map_of (latest_version reg') (spec_type s) = Some k"
    unfolding registry_ok_def by (metis fun_upd_same option.distinct(1))
  with ok obtain top where top: "map_of (by_key reg') (spec_type s, k) = Some top" and "0 < k"
    unfolding registry_ok_def by blast
  with ok obtain sp where sp: "cls_spec top = Some sp" "spec_type sp = spec_type s" "spec_version sp = k"
    unfolding registry_ok_def by blast
  have "u \<le> k" if "reg_contains reg' (spec_type s, u)" for u
  proof (cases "0 < u")
    case True
    with ok that have "\<exists>l. map_of (latest_version reg') (spec_type s) = Some l \<and> u \<le> l"
      unfolding registry_ok_def reg_contains_def by blast
    with k show ?thesis by auto
  qed (use \<open>0 < k\<close> in simp)
  moreover have "reg_latest reg' (spec_type s) = Inr top" by (simp add: reg_latest_def k reg_get_def top)
  ultimately show "\<exists>top sp. reg_latest reg' (spec_type s) = Inr top \<and> cls_spec top = Some sp
         \<and> spec_type sp = spec_type s
         \<and> (\<forall>u. reg_contains reg' (spec_type s, u) \<longrightarrow> u \<le> spec_version sp)"
    using sp by blast
qed

definition demo_class :: "int \<Rightarrow> node_class" where
  "demo_class v = \<lparr>cls_qualname = ''Demo'', cls_kind = ActionNode,
     cls_spec = Some (mk_spec ''demo'' v ''Demo'' ''d'' ''i'' CatCore),
     cls_execute = (\<lambda>ctx items. (Inr [items], ctx_static_data ctx))\<rparr>"

theorem register_spec_witness:
  "\<exists>reg'. register (demo_class 2) False empty_registry = Inr reg' \<and> reg_get reg' ''demo'' 2 = Inr (demo_class 2)"
proof -
  have "returns (\<lambda>_. True) (register (demo_class 2) False empty_registry)" by code_simp
  then obtain reg' where r: "register (demo_class 2) False empty_registry = Inr reg'"
    unfolding returns_iff by blast
  from register_spec [OF empty_registry_ok r, of "mk_spec ''demo'' 2 ''Demo'' ''d'' ''i'' CatCore" "''demo''" 2] r
  show ?thesis by (simp add: demo_class_def mk_spec_def)
qed

section \<open>Well-formed specifications\<close>

definition spec_key :: "node_spec \<Rightarrow> string \<times> int" where
  "spec_key s = (spec_type s, spec_version s)"

text \<open>The type name below the common prefix \<open>weftlyflow.\<close>; specifications that differ in it have different keys.\<close>

definition short_key :: "node_spec \<Rightarrow> string" where
  "short_key s = drop 11 (spec_type s)"

lemma distinct_short_keys: "distinct (map short_key ss) \<Longrightarrow> distinct (map spec_key ss)"
proof -
  assume d: "distinct (map short_key ss)"
  have "map short_key ss = map (drop 11 \<circ> fst) (map spec_key ss)"
    by (simp add: short_key_def spec_key_def comp_def)
  with d show "distinct (map spec_key ss)" by (simp only: distinct_map)
qed

text \<open>The credential types a node accepts, over all its slots.\<close>

definition slot_slugs :: "node_spec \<Rightarrow> string list" where
  "slot_slugs s = concat (map slot_credential_types (spec_credentials s))"

text \<open>
  Port and property names are unique, the version is positive, and the default of a choice
  property with a text default is one of its choices.
\<close>

definition property_ok :: "property_schema \<Rightarrow> bool" where
  "property_ok p \<longleftrightarrow>
     (case (prop_type p, prop_options p, prop_default p) of
        (POptions, Some os, JStr d) \<Rightarrow> list_ex (\<lambda>o'. opt_value o' = d) os \<or> d = []
      | (POptions, None, _) \<Rightarrow> False
      | _ \<Rightarrow> True)"

definition spec_ok :: "node_spec \<Rightarrow> bool" where
  "spec_ok s \<longleftrightarrow> 0 < spec_version s \<and> spec_type s \<noteq> []
     \<and> distinct (map port_name (spec_inputs s)) \<and> distinct (map port_name (spec_outputs s))
     \<and> distinct (map prop_name (spec_properties s)) \<and> list_all property_ok (spec_properties s)"

section \<open>Loading the catalogue\<close>

lemma register_new:
  assumes "cls_spec c = Some s" and "map_of (by_key reg) (spec_key s) = None"
  shows "\<exists>reg'. register c False reg = Inr reg' \<and> by_key reg' = by_key reg @ [(spec_key s, c)]"
  using assms by (auto simp: register_Inr dict_set_new spec_key_def)

lemma register_many_new:
  assumes "map cls_spec cs = map Some ss" and "distinct (map fst (by_key reg) @ map spec_key ss)"
  shows "\<exists>reg'. register_many cs False reg = Inr reg' \<and> by_key reg' = by_key reg @ zip (map spec_key ss) cs"
  using assms
proof (induction ss arbitrary: cs reg)
  case (Cons s ss)
  then obtain c cs' where cs: "cs = c # cs'" and c: "cls_spec c = Some s" and cs': "map cls_spec cs' = map Some ss"
    by (cases cs) auto
  have "spec_key s \<notin> set (map fst (by_key reg))" using Cons.prems(2) by auto
  then have "map_of (by_key reg) (spec_key s) = None" by (simp add: map_of_eq_None_iff)
  from register_new [OF c this] obtain reg1 where r1: "register c False reg = Inr reg1"
    "by_key reg1 = by_key reg @ [(spec_key s, c)]" by blast
  moreover have "distinct (map fst (by_key reg1) @ map spec_key ss)" using Cons.prems(2) r1(2) by auto
  from Cons.IH [OF cs' this] obtain reg2 where "register_many cs' False reg1 = Inr reg2"
    "by_key reg2 = by_key reg1 @ zip (map spec_key ss) cs'" by blast
  ultimately show ?case using cs by (simp add: register_many_def)
qed (simp add: register_many_def)

lemma load_catalog:
  assumes "map cls_spec cs = map Some ss" and "distinct (map spec_key ss)"
  shows "\<exists>reg. load_builtins cs empty_registry = Inr (reg, int (length ss)) \<and> registry_ok reg
    \<and> (\<forall>k < length ss. reg_get reg (spec_type (ss ! k)) (spec_version (ss ! k)) = Inr (cs ! k))"
proof -
  have len: "length cs = length ss" using arg_cong [OF assms(1), of length] by simp
  have "distinct (map fst (by_key empty_registry) @ map spec_key ss)"
    using assms(2) by (simp add: empty_registry_def)
  from register_many_new [OF assms(1) this] obtain reg where r: "register_many cs False empty_registry = Inr reg"
    and b: "by_key reg = zip (map spec_key ss) cs" by (auto simp: empty_registry_def)
  have "reg_get reg (spec_type (ss ! k)) (spec_version (ss ! k)) = Inr (cs ! k)" if "k < length ss" for k
  proof -
    have "map_of (by_key reg) (map spec_key ss ! k) = Some (cs ! k)"
      unfolding b using that len assms(2) by (intro map_of_zip_nth) simp_all
    then show ?thesis using that by (simp add: reg_get_def spec_key_def)
  qed
  moreover have "load_builtins cs empty_registry = Inr (reg, int (length ss))"
    using r b len by (simp add: load_builtins_def reg_len_def empty_registry_def)
  moreover have "registry_ok reg" using register_many_ok [OF empty_registry_ok r] .
  ultimately show ?thesis by blast
qed

end
