(* ===== verification/Executor.thy ===== *)
theory Executor
  imports Node_Registry Workflow_Graph Redaction
begin

text \<open>
  The workflow executor: \<open>engine/executor.py\<close> with the run state of \<open>engine/runtime.py\<close> and
  the lifecycle hooks of \<open>engine/hooks.py\<close>. The hooks return nothing to the engine, so they
  are the trace of their calls. The wall clock is a stream of readings (microseconds), and
  the float computation that turns a duration into milliseconds is a parameter.
\<close>

section \<open>Run state\<close>

text \<open>The calls of a \<open>LifecycleHooks\<close> implementation, with the arguments the engine passes.\<close>

datatype hook_event =
    OnExecutionStart exec_ctx
  | OnNodeStart exec_ctx
  | OnNodeEnd exec_ctx node_run_data
  | OnNodeError exec_ctx exn
  | OnExecutionEnd exec_ctx execution

text \<open>\<open>ticks\<close> counts the clock readings, \<open>hook_trace\<close> lists the hook calls so far.\<close>

record run_state =
  rs_workflow :: workflow
  rs_execution_id :: string
  rs_mode :: execution_mode
  rs_started_at :: int
  rs_run_data :: "(string, node_run_data list) dict"
  per_node_outputs :: "(string, item list list) dict"
  static_data :: jobj
  failed_node_id :: "string option"
  final_error :: "exn option"
  ticks :: nat
  hook_trace :: "hook_event list"

text \<open>A \<open>WorkflowExecutor\<close>, with the process it runs in.\<close>

record executor =
  ex_registry :: node_registry
  ex_credential_resolver :: "credential_resolver option"
  ex_sub_workflow_runner :: "sub_workflow_runner option"
  ex_process :: process_env
  ex_clock :: "nat \<Rightarrow> int"
  ex_millis :: "int \<Rightarrow> int"

definition now :: "executor \<Rightarrow> run_state \<Rightarrow> int \<times> run_state" where
  "now ex st = (ex_clock ex (ticks st), st\<lparr>ticks := Suc (ticks st)\<rparr>)"

definition emit :: "hook_event \<Rightarrow> run_state \<Rightarrow> run_state" where
  "emit e st = st\<lparr>hook_trace := hook_trace st @ [e]\<rparr>"

definition init_run_state :: "executor \<Rightarrow> workflow \<Rightarrow> string \<Rightarrow> execution_mode \<Rightarrow> run_state" where
  "init_run_state ex w eid mode = \<lparr>rs_workflow = w, rs_execution_id = eid, rs_mode = mode,
     rs_started_at = ex_clock ex 0, rs_run_data = [], per_node_outputs = [],
     static_data = wf_static_data w, failed_node_id = None, final_error = None,
     ticks = 1, hook_trace = []\<rparr>"

text \<open>\<open>run_data.per_node.setdefault(node_id, []).append(run_data)\<close>, and the output cache.\<close>

definition record_run :: "string \<Rightarrow> node_run_data \<Rightarrow> run_state \<Rightarrow> run_state" where
  "record_run i rd st = st\<lparr>
     rs_run_data := bucket_append i rd (rs_run_data st),
     per_node_outputs :=
       (if run_status rd \<noteq> StatusError \<or> run_items rd \<noteq> []
        then dict_set i (run_items rd) (per_node_outputs st) else per_node_outputs st)\<rparr>"

definition mark_failed :: "string \<Rightarrow> exn \<Rightarrow> run_state \<Rightarrow> run_state" where
  "mark_failed i e st = st\<lparr>failed_node_id := Some i, final_error := Some e\<rparr>"

text \<open>The test is a truth test on the id, so an empty id counts as no failure.\<close>

definition build_execution :: "executor \<Rightarrow> run_state \<Rightarrow> execution \<times> run_state" where
  "build_execution ex st =
     (let (t, st') = now ex st in
      (\<lparr>exec_id = rs_execution_id st, exec_workflow_id = wf_id (rs_workflow st),
        workflow_snapshot = rs_workflow st, exec_mode = rs_mode st,
        exec_status = (case failed_node_id st of
            None \<Rightarrow> ExecSuccess | Some i \<Rightarrow> if i = [] then ExecSuccess else ExecError),
        exec_started_at = rs_started_at st, finished_at = Some t, wait_till = None,
        run_data = rs_run_data st, exec_data_storage = StorageDb, triggered_by = None\<rparr>, st'))"

section \<open>Running one node\<close>

definition elapsed_ms :: "executor \<Rightarrow> int \<Rightarrow> run_state \<Rightarrow> int \<times> run_state" where
  "elapsed_ms ex started st = (let (t, st') = now ex st in (ex_millis ex (t - started), st'))"

definition elapsed :: "executor \<Rightarrow> int \<Rightarrow> item list list \<Rightarrow> node_status \<Rightarrow> run_state
    \<Rightarrow> node_run_data \<times> run_state" where
  "elapsed ex started items status st =
     (let (ms, st') = elapsed_ms ex started st in
      (\<lparr>run_items = items, execution_time_ms = ms, run_started_at = started, run_status = status,
        run_error = None\<rparr>, st'))"

definition disabled_run_data :: "executor \<Rightarrow> exec_ctx \<Rightarrow> int \<Rightarrow> run_state \<Rightarrow> node_run_data \<times> run_state" where
  "disabled_run_data ex ctx started st =
     (let pass_through = [get_input ctx MAIN_PORT]; (ms, st') = elapsed_ms ex started st in
      (\<lparr>run_items = pass_through, execution_time_ms = ms, run_started_at = started,
        run_status = StatusDisabled, run_error = None\<rparr>, st'))"

definition resolve_node :: "executor \<Rightarrow> node \<Rightarrow> node_class result" where
  "resolve_node ex n =
     (case reg_get (ex_registry ex) (node_type n) (type_version n) of
        Inl _ \<Rightarrow> raise NodeTypeNotFoundError
          (''no registered node for ('' @ repr_str (node_type n) @ '', v'' @ show_int (type_version n) @ '')'')
      | Inr c \<Rightarrow>
          if cls_kind c \<noteq> ActionNode
          then raise NodeTypeNotFoundError
                 (''node '' @ repr_str (node_type n) @ '' is registered as a trigger/poller; ''
                  @ ''only action nodes can be executed by WorkflowExecutor'')
          else Inr c)"

definition safe_error :: "exn \<Rightarrow> node_error" where
  "safe_error exc = \<lparr>err_message = safe_error_message exc, err_description = None,
     err_code = Some (class_name (exn_cls exc))\<rparr>"

definition handle_node_exception :: "executor \<Rightarrow> node \<Rightarrow> exec_ctx \<Rightarrow> exn \<Rightarrow> int \<Rightarrow> run_state
    \<Rightarrow> node_run_data \<times> run_state" where
  "handle_node_exception ex n ctx exc started st =
     (let safe_message = safe_error_message exc in
      if continue_on_fail n
      then elapsed ex started [[(mk_item [])\<lparr>item_error := Some (safe_error exc)\<rparr>]] StatusError st
      else
        (let wrapped = Exn NodeExecutionError safe_message;
             st1 = emit (OnNodeError ctx wrapped) st;
             st2 = mark_failed (node_id n) wrapped st1;
             (ms, st3) = elapsed_ms ex started st2 in
         (\<lparr>run_items = [], execution_time_ms = ms, run_started_at = started, run_status = StatusError,
           run_error = Some (safe_error exc)\<rparr>, st3)))"

definition run_one :: "executor \<Rightarrow> node \<Rightarrow> exec_ctx \<Rightarrow> run_state \<Rightarrow> node_run_data \<times> run_state" where
  "run_one ex n ctx st =
     (let (started, st1) = now ex st in
      if disabled n then disabled_run_data ex ctx started st1
      else case map_of (pin_data (ctx_workflow ctx)) (node_id n) of
        Some pinned \<Rightarrow> elapsed ex started [map mk_item pinned] StatusSuccess st1
      | None \<Rightarrow>
          (case resolve_node ex n of
             Inl exc \<Rightarrow> handle_node_exception ex n ctx exc started st1
           | Inr implementation \<Rightarrow>
               (let (out, sd) = cls_execute implementation ctx (get_input ctx MAIN_PORT);
                    st2 = st1\<lparr>static_data := sd\<rparr> in
                case out of
                  Inl exc \<Rightarrow> handle_node_exception ex n (ctx\<lparr>ctx_static_data := sd\<rparr>) exc started st2
                | Inr output \<Rightarrow> elapsed ex started output StatusSuccess st2)))"

section \<open>Scheduling\<close>

type_synonym node_inputs = "(string, (string, item list) dict) dict"

definition seed_inputs_for_roots :: "workflow_graph \<Rightarrow> item list \<Rightarrow> node_inputs" where
  "seed_inputs_for_roots g seed_items =
     foldl (\<lambda>inputs i. dict_set i (dict_set MAIN_PORT seed_items (dict_get inputs i [])) inputs) [] (root_ids g)"

definition compute_initial_pending :: "workflow_graph \<Rightarrow> (string, string list) dict result" where
  "compute_initial_pending g =
     rmap (\<lambda>i. rbind (incoming g i) (\<lambda>es. Inr (i, source_ids es))) (graph_topo g)"

definition items_for_source_index :: "item list list \<Rightarrow> int \<Rightarrow> item list" where
  "items_for_source_index outputs k =
     (if 0 \<le> k \<and> k < int (length outputs) then outputs ! nat k else [])"

text \<open>\<open>inputs.setdefault(target, {}).setdefault(port, []).extend(items)\<close>.\<close>

definition deliver :: "item list list \<Rightarrow> node_inputs \<Rightarrow> outgoing_edge \<Rightarrow> node_inputs" where
  "deliver outputs inputs e =
     (let port_items = items_for_source_index outputs (out_source_index e);
          bucket = dict_get inputs (out_target_node_id e) [] in
      dict_set (out_target_node_id e)
        (dict_set (out_target_port e) (dict_get bucket (out_target_port e) [] @ port_items) bucket) inputs)"

definition propagate_outputs :: "workflow_graph \<Rightarrow> string \<Rightarrow> item list list \<Rightarrow> node_inputs \<Rightarrow> node_inputs result" where
  "propagate_outputs g source outputs inputs =
     rbind (outgoing g source) (\<lambda>es. Inr (foldl (deliver outputs) inputs es))"

text \<open>One edge of the readiness loop on the pending sets and the queue.\<close>

definition advance_edge :: "string \<Rightarrow> (string, string list) dict \<times> string list \<Rightarrow> outgoing_edge
    \<Rightarrow> (string, string list) dict \<times> string list" where
  "advance_edge just_finished st e =
     (case map_of (fst st) (out_target_node_id e) of
        None \<Rightarrow> st
      | Some remaining \<Rightarrow>
          if remaining = [] then st
          else let remaining' = removeAll just_finished remaining in
            (dict_set (out_target_node_id e) remaining' (fst st),
             if remaining' = [] then snd st @ [out_target_node_id e] else snd st))"

definition advance_readiness :: "workflow_graph \<Rightarrow> string \<Rightarrow> (string, string list) dict \<Rightarrow> string list
    \<Rightarrow> ((string, string list) dict \<times> string list) result" where
  "advance_readiness g just_finished pend queue =
     rbind (outgoing g just_finished) (\<lambda>es. Inr (foldl (advance_edge just_finished) (pend, queue) es))"

definition node_ctx :: "executor \<Rightarrow> node \<Rightarrow> (string, item list) dict \<Rightarrow> run_state \<Rightarrow> exec_ctx" where
  "node_ctx ex n inputs st = \<lparr>ctx_workflow = rs_workflow st, ctx_execution_id = rs_execution_id st,
     ctx_mode = rs_mode st, ctx_node = n, ctx_inputs = inputs, ctx_static_data = static_data st,
     ctx_canceled = False, ctx_credential_resolver = ex_credential_resolver ex,
     ctx_sub_workflow_runner = ex_sub_workflow_runner ex, ctx_process = ex_process ex\<rparr>"

record loop_state =
  ready_queue :: "string list"
  inputs_by_node :: node_inputs
  pending :: "(string, string list) dict"
  lp_state :: run_state

text \<open>
  One turn of the loop up to the \<open>on_node_end\<close> hook, for the node popped from the queue. The
  context shares the run's static data, so the hook sees it as the node left it.
\<close>

definition node_turn :: "executor \<Rightarrow> string \<Rightarrow> node \<Rightarrow> (string, item list) dict \<Rightarrow> run_state
    \<Rightarrow> node_run_data \<times> run_state" where
  "node_turn ex i n inputs st =
     (let ctx = node_ctx ex n inputs st;
          (rd, st') = run_one ex n ctx (emit (OnNodeStart ctx) st) in
      (rd, emit (OnNodeEnd (ctx\<lparr>ctx_static_data := static_data st'\<rparr>) rd) (record_run i rd st')))"

text \<open>The body of the loop: a failed node stops here, any other one feeds its successors.\<close>

definition loop_body :: "executor \<Rightarrow> workflow_graph \<Rightarrow> string \<Rightarrow> loop_state \<Rightarrow> loop_state result" where
  "loop_body ex g i ls =
     rbind (graph_node g i) (\<lambda>n.
       let (rd, st) = node_turn ex i n (dict_get (inputs_by_node ls) i []) (lp_state ls) in
       if run_status rd = StatusError \<and> \<not> continue_on_fail n
       then Inr (ls\<lparr>lp_state := st\<rparr>)
       else
         rbind (propagate_outputs g i (run_items rd) (inputs_by_node ls)) (\<lambda>inputs'.
         rbind (advance_readiness g i (pending ls) (ready_queue ls)) (\<lambda>(pend', queue').
           Inr \<lparr>ready_queue = queue', inputs_by_node = inputs', pending = pend', lp_state = st\<rparr>)))"

section \<open>The loop terminates\<close>

definition waiting_count :: "(string, string list) dict \<Rightarrow> nat" where
  "waiting_count d = length (filter (\<lambda>p. snd p \<noteq> []) d)"

lemma waiting_count_set:
  "map_of d k = Some r \<Longrightarrow> r \<noteq> [] \<Longrightarrow>
   waiting_count (dict_set k r' d) + (if r' = [] then 1 else 0) = waiting_count d"
  by (induction d) (auto simp: waiting_count_def dict_set_def split: if_splits)

lemma advance_edge_measure:
  "length (snd (advance_edge j st e)) + waiting_count (fst (advance_edge j st e))
   = length (snd st) + waiting_count (fst st)"
proof (cases "map_of (fst st) (out_target_node_id e)")
  case (Some r)
  show ?thesis
  proof (cases "r = []")
    case False
    with waiting_count_set [OF Some False, of "removeAll j r"] Some show ?thesis
      by (auto simp: advance_edge_def Let_def)
  qed (simp add: advance_edge_def Some)
qed (simp add: advance_edge_def)

lemma advance_edges_measure:
  "length (snd (foldl (advance_edge j) st es)) + waiting_count (fst (foldl (advance_edge j) st es))
   = length (snd st) + waiting_count (fst st)"
  by (induction es arbitrary: st) (simp_all add: advance_edge_measure)

lemma loop_body_Inr:
  assumes "loop_body ex g i ls = Inr ls'"
  obtains n rd st where "graph_node g i = Inr n"
    and "node_turn ex i n (dict_get (inputs_by_node ls) i []) (lp_state ls) = (rd, st)"
    and "run_status rd = StatusError" "\<not> continue_on_fail n" and "ls' = ls\<lparr>lp_state := st\<rparr>"
  | n rd st es where "graph_node g i = Inr n"
    and "node_turn ex i n (dict_get (inputs_by_node ls) i []) (lp_state ls) = (rd, st)"
    and "\<not> (run_status rd = StatusError \<and> \<not> continue_on_fail n)" and "outgoing g i = Inr es"
    and "ls' = \<lparr>ready_queue = snd (foldl (advance_edge i) (pending ls, ready_queue ls) es),
                inputs_by_node = foldl (deliver (run_items rd)) (inputs_by_node ls) es,
                pending = fst (foldl (advance_edge i) (pending ls, ready_queue ls) es), lp_state = st\<rparr>"
proof -
  from assms obtain n where n: "graph_node g i = Inr n" unfolding loop_body_def rbind_eq_Inr by blast
  obtain rd st where t: "node_turn ex i n (dict_get (inputs_by_node ls) i []) (lp_state ls) = (rd, st)"
    by (cases "node_turn ex i n (dict_get (inputs_by_node ls) i []) (lp_state ls)") blast
  show thesis
  proof (cases "run_status rd = StatusError \<and> \<not> continue_on_fail n")
    case True
    with assms n t have "ls' = ls\<lparr>lp_state := st\<rparr>" by (simp add: loop_body_def)
    with n t True that(1) show thesis by blast
  next
    case False
    with assms n t have R: "rbind (propagate_outputs g i (run_items rd) (inputs_by_node ls)) (\<lambda>inputs'.
         rbind (advance_readiness g i (pending ls) (ready_queue ls)) (\<lambda>(pend', queue').
           Inr \<lparr>ready_queue = queue', inputs_by_node = inputs', pending = pend', lp_state = st\<rparr>)) = Inr ls'"
      by (simp only: loop_body_def rbind_Inr Let_def split_conv if_False)
    from R obtain es where es: "outgoing g i = Inr es"
      by (cases "outgoing g i") (simp_all add: propagate_outputs_def)
    from R have "ls' = \<lparr>ready_queue = snd (foldl (advance_edge i) (pending ls, ready_queue ls) es),
        inputs_by_node = foldl (deliver (run_items rd)) (inputs_by_node ls) es,
        pending = fst (foldl (advance_edge i) (pending ls, ready_queue ls) es), lp_state = st\<rparr>"
      by (simp add: propagate_outputs_def advance_readiness_def es case_prod_beta)
    with n t False es that(2) show thesis by blast
  qed
qed

lemma loop_body_measure:
  assumes "loop_body ex g i ls = Inr ls'"
  shows "length (ready_queue ls') + waiting_count (pending ls')
    = length (ready_queue ls) + waiting_count (pending ls)"
  using assms
proof (cases rule: loop_body_Inr)
  case (2 n rd st es)
  then show ?thesis using advance_edges_measure [of i "(pending ls, ready_queue ls)" es] by simp
qed simp

function exec_loop :: "executor \<Rightarrow> workflow_graph \<Rightarrow> loop_state \<Rightarrow> loop_state result" where
  "exec_loop ex g ls =
     (case ready_queue ls of
        [] \<Rightarrow> Inr ls
      | i # queue \<Rightarrow>
          if failed_node_id (lp_state ls) \<noteq> None then Inr ls
          else rbind (loop_body ex g i (ls\<lparr>ready_queue := queue\<rparr>)) (exec_loop ex g))"
  by pat_completeness auto
termination
  by (relation "measure (\<lambda>(ex, g, ls). length (ready_queue ls) + waiting_count (pending ls))")
     (auto dest!: loop_body_measure)

declare exec_loop.simps [simp del]

section \<open>A whole run\<close>

definition synthetic_node :: node where
  "synthetic_node = mk_node ''node_synthetic'' [] ''weftlyflow.noop''"

definition anchor_node :: "workflow \<Rightarrow> node" where
  "anchor_node w = (if wf_nodes w \<noteq> [] then hd (wf_nodes w) else synthetic_node)"

definition exit_context :: "executor \<Rightarrow> workflow \<Rightarrow> run_state \<Rightarrow> exec_ctx" where
  "exit_context ex w st = \<lparr>ctx_workflow = w, ctx_execution_id = rs_execution_id st,
     ctx_mode = rs_mode st, ctx_node = anchor_node w, ctx_inputs = [], ctx_static_data = static_data st,
     ctx_canceled = False, ctx_credential_resolver = None, ctx_sub_workflow_runner = None,
     ctx_process = ex_process ex\<rparr>"

text \<open>
  \<open>run\<close>: \<open>fresh_id\<close> is what \<open>new_execution_id()\<close> returns when no id (or an empty one) is given.
  The result has the execution and the final run state with its hook trace.
\<close>

definition run_workflow :: "executor \<Rightarrow> workflow \<Rightarrow> item list option \<Rightarrow> execution_mode \<Rightarrow> string option
    \<Rightarrow> string \<Rightarrow> (execution \<times> run_state) result" where
  "run_workflow ex w initial_items mode execution_id fresh_id =
     rbind (workflow_graph_init w) (\<lambda>g.
       let eid = (case execution_id of None \<Rightarrow> fresh_id | Some i \<Rightarrow> if i = [] then fresh_id else i);
           st0 = init_run_state ex w eid mode;
           seed_items = (case initial_items of None \<Rightarrow> [mk_item []] | Some xs \<Rightarrow> xs) in
       rbind (compute_initial_pending g) (\<lambda>pend.
         let st1 = emit (OnExecutionStart (node_ctx ex (anchor_node w) [] st0)) st0 in
         rbind (exec_loop ex g \<lparr>ready_queue = root_ids g, inputs_by_node = seed_inputs_for_roots g seed_items,
                  pending = pend, lp_state = st1\<rparr>) (\<lambda>ls.
           let (execution, st2) = build_execution ex (lp_state ls) in
           Inr (execution, emit (OnExecutionEnd (exit_context ex w st2) execution) st2))))"

end
