(* ===== verification/Executor_Props.thy ===== *)
theory Executor_Props
  imports Executor
begin

text \<open>
  Correctness of the executor: the loop invariant, and from it that a run of a valid
  workflow always ends with an execution record in which every node ran at most once and
  after all of its parents, every node ran unless a node failed for good, each node saw
  exactly the items its predecessors sent it, and the hooks were called in order.
\<close>

section \<open>One node\<close>

text \<open>
  What running a node yields, as a function of the node and its context alone: status,
  output lists, and the error of a fatal failure.
\<close>

definition failure_outcome :: "node \<Rightarrow> exn \<Rightarrow> node_status \<times> item list list \<times> node_error option" where
  "failure_outcome n exc =
     (if continue_on_fail n then (StatusError, [[(mk_item [])\<lparr>item_error := Some (safe_error exc)\<rparr>]], None)
      else (StatusError, [], Some (safe_error exc)))"

definition outcome :: "executor \<Rightarrow> node \<Rightarrow> exec_ctx \<Rightarrow> node_status \<times> item list list \<times> node_error option" where
  "outcome ex n ctx =
     (if disabled n then (StatusDisabled, [get_input ctx MAIN_PORT], None)
      else case map_of (pin_data (ctx_workflow ctx)) (node_id n) of
        Some pinned \<Rightarrow> (StatusSuccess, [map mk_item pinned], None)
      | None \<Rightarrow>
          (case rbind (resolve_node ex n) (\<lambda>c. fst (cls_execute c ctx (get_input ctx MAIN_PORT))) of
             Inl exc \<Rightarrow> failure_outcome n exc
           | Inr output \<Rightarrow> (StatusSuccess, output, None)))"

definition run_outcome :: "node_run_data \<Rightarrow> node_status \<times> item list list \<times> node_error option" where
  "run_outcome rd = (run_status rd, run_items rd, run_error rd)"

abbreviation fatal :: "node \<Rightarrow> node_run_data \<Rightarrow> bool" where
  "fatal n rd \<equiv> run_status rd = StatusError \<and> \<not> continue_on_fail n"

text \<open>The parts of the run state that running a node leaves alone.\<close>

definition same_run :: "run_state \<Rightarrow> run_state \<Rightarrow> bool" where
  "same_run st st' \<longleftrightarrow> rs_workflow st' = rs_workflow st \<and> rs_execution_id st' = rs_execution_id st
     \<and> rs_mode st' = rs_mode st \<and> rs_started_at st' = rs_started_at st"

lemma handle_node_exception_facts:
  assumes "handle_node_exception ex n ctx exc started st = (rd, st')"
  shows "run_outcome rd = failure_outcome n exc \<and> same_run st st' \<and> rs_run_data st' = rs_run_data st
    \<and> failed_node_id st' = (if fatal n rd then Some (node_id n) else failed_node_id st)
    \<and> hook_trace st' = hook_trace st @
        (if fatal n rd then [OnNodeError ctx (Exn NodeExecutionError (safe_error_message exc))] else [])"
  using assms
  by (auto simp: handle_node_exception_def elapsed_def elapsed_ms_def now_def emit_def mark_failed_def
      run_outcome_def failure_outcome_def same_run_def Let_def split: if_splits)

lemma run_one_facts:
  assumes "run_one ex n ctx st = (rd, st')"
  shows "run_outcome rd = outcome ex n ctx \<and> same_run st st' \<and> rs_run_data st' = rs_run_data st
    \<and> failed_node_id st' = (if fatal n rd then Some (node_id n) else failed_node_id st)
    \<and> (\<exists>c e. hook_trace st' = hook_trace st @ (if fatal n rd then [OnNodeError c e] else []))"
proof -
  let ?main = "get_input ctx MAIN_PORT"
  consider (off) "disabled n"
    | (pin) pinned where "\<not> disabled n" "map_of (pin_data (ctx_workflow ctx)) (node_id n) = Some pinned"
    | (unresolved) exc where "\<not> disabled n" "map_of (pin_data (ctx_workflow ctx)) (node_id n) = None"
        "resolve_node ex n = Inl exc"
    | (failed) c exc sd where "\<not> disabled n" "map_of (pin_data (ctx_workflow ctx)) (node_id n) = None"
        "resolve_node ex n = Inr c" "cls_execute c ctx ?main = (Inl exc, sd)"
    | (ok) c out sd where "\<not> disabled n" "map_of (pin_data (ctx_workflow ctx)) (node_id n) = None"
        "resolve_node ex n = Inr c" "cls_execute c ctx ?main = (Inr out, sd)"
    by (metis (no_types, opaque_lifting) not_None_eq obj_sumE surj_pair)
  then show ?thesis
  proof cases
    case off
    with assms show ?thesis
      by (auto simp: run_one_def disabled_run_data_def elapsed_ms_def now_def outcome_def run_outcome_def
          same_run_def Let_def)
  next
    case pin
    with assms show ?thesis
      by (auto simp: run_one_def elapsed_def elapsed_ms_def now_def outcome_def run_outcome_def
          same_run_def Let_def)
  next
    case unresolved
    with assms have h: "handle_node_exception ex n ctx exc (ex_clock ex (ticks st)) (st\<lparr>ticks := Suc (ticks st)\<rparr>)
        = (rd, st')" by (simp add: run_one_def now_def)
    from handle_node_exception_facts [OF h] unresolved show ?thesis
      by (auto simp: outcome_def same_run_def)
  next
    case failed
    with assms have h: "handle_node_exception ex n (ctx\<lparr>ctx_static_data := sd\<rparr>) exc (ex_clock ex (ticks st))
        (st\<lparr>ticks := Suc (ticks st), static_data := sd\<rparr>) = (rd, st')"
      by (simp add: run_one_def now_def)
    from handle_node_exception_facts [OF h] failed show ?thesis
      by (auto simp: outcome_def same_run_def)
  next
    case ok
    with assms show ?thesis
      by (auto simp: run_one_def elapsed_def elapsed_ms_def now_def outcome_def run_outcome_def
          same_run_def Let_def)
  qed
qed

lemma node_turn_facts:
  assumes "node_turn ex i n inputs st = (rd, st')"
  shows "run_outcome rd = outcome ex n (node_ctx ex n inputs st) \<and> same_run st st'
    \<and> rs_run_data st' = bucket_append i rd (rs_run_data st)
    \<and> failed_node_id st' = (if fatal n rd then Some (node_id n) else failed_node_id st)
    \<and> (\<exists>c e c'. hook_trace st' = hook_trace st @ [OnNodeStart (node_ctx ex n inputs st)]
          @ (if fatal n rd then [OnNodeError c e] else []) @ [OnNodeEnd c' rd])"
proof -
  define ctx where "ctx = node_ctx ex n inputs st"
  obtain st1 where r: "run_one ex n ctx (emit (OnNodeStart ctx) st) = (rd, st1)"
    and st': "st' = emit (OnNodeEnd (ctx\<lparr>ctx_static_data := static_data st1\<rparr>) rd) (record_run i rd st1)"
    using assms by (auto simp: node_turn_def ctx_def Let_def split: prod.splits)
  from run_one_facts [OF r] show ?thesis
    by (auto simp: st' emit_def record_run_def same_run_def ctx_def [symmetric])
qed

section \<open>Readiness and delivery\<close>

lemma advance_edges:
  "map_of (fst (foldl (advance_edge i) (pend, q) es)) n
     = (if n \<in> out_target_node_id ` set es then map_option (removeAll i) (map_of pend n) else map_of pend n)
   \<and> (\<exists>new. snd (foldl (advance_edge i) (pend, q) es) = q @ new \<and> distinct new
        \<and> set new = {n \<in> out_target_node_id ` set es. \<exists>r. map_of pend n = Some r \<and> r \<noteq> [] \<and> removeAll i r = []})"
proof (induction es arbitrary: n rule: rev_induct)
  case (snoc e es)
  let ?st = "foldl (advance_edge i) (pend, q) es" and ?t = "out_target_node_id e"
  from snoc have IH: "\<And>n. map_of (fst ?st) n = (if n \<in> out_target_node_id ` set es
      then map_option (removeAll i) (map_of pend n) else map_of pend n)" by blast
  from snoc obtain new where new: "snd ?st = q @ new" "distinct new"
    "set new = {n \<in> out_target_node_id ` set es. \<exists>r. map_of pend n = Some r \<and> r \<noteq> [] \<and> removeAll i r = []}"
    by blast
  show ?case
  proof (cases "map_of (fst ?st) ?t")
    case None
    then have "map_of pend ?t = None" using IH [of ?t] by (auto split: if_splits)
    with None IH new show ?thesis by (auto simp: advance_edge_def [of i ?st e])
  next
    case (Some r)
    then obtain r0 where r0: "map_of pend ?t = Some r0"
      and r: "r = (if ?t \<in> out_target_node_id ` set es then removeAll i r0 else r0)"
      using IH [of ?t] by (auto split: if_splits)
    show ?thesis
    proof (cases "r = []")
      case True
      with Some r r0 IH new show ?thesis
        by (auto simp: advance_edge_def [of i ?st e] split: if_splits)
    next
      case False
      show ?thesis
      proof (cases "?t \<in> out_target_node_id ` set es")
        case True
        with r False have "removeAll i r = r" "r \<noteq> []" by simp_all
        with True Some r r0 IH new False show ?thesis
          by (auto simp: advance_edge_def [of i ?st e] dict_simps Let_def)
      next
        case notin: False
        with r have "r = r0" by simp
        with notin Some r0 IH new False show ?thesis
          by (cases "removeAll i r0 = []") (auto simp: advance_edge_def [of i ?st e] dict_simps Let_def)
      qed
    qed
  qed
qed simp

definition port_items :: "node_inputs \<Rightarrow> string \<Rightarrow> string \<Rightarrow> item list" where
  "port_items inputs n p = dict_get (dict_get inputs n []) p []"

lemma port_items_deliver:
  "port_items (deliver outs inputs e) n p = port_items inputs n p @
     (if out_target_node_id e = n \<and> out_target_port e = p
      then items_for_source_index outs (out_source_index e) else [])"
  by (auto simp: port_items_def deliver_def Let_def dict_get_def dict_simps)

lemma port_items_delivers:
  "port_items (foldl (deliver outs) inputs es) n p = port_items inputs n p @
     concat (map (\<lambda>e. items_for_source_index outs (out_source_index e))
       (filter (\<lambda>e. out_target_node_id e = n \<and> out_target_port e = p) es))"
  by (induction es arbitrary: inputs) (auto simp: port_items_deliver)

lemma port_items_seed:
  "port_items (seed_inputs_for_roots g seed) n p = (if n \<in> set (root_ids g) \<and> p = MAIN_PORT then seed else [])"
proof -
  have "port_items (foldl (\<lambda>inputs i. dict_set i (dict_set MAIN_PORT seed (dict_get inputs i [])) inputs) d is) n p
      = (if n \<in> set is \<and> p = MAIN_PORT then seed else port_items d n p)" for d "is"
    by (induction "is" arbitrary: d) (auto simp: port_items_def dict_get_def dict_simps)
  then show ?thesis by (simp add: seed_inputs_for_roots_def port_items_def dict_get_def)
qed

section \<open>Invariant of the loop\<close>

text \<open>The items node \<open>m\<close> sends to port \<open>p\<close> of node \<open>n\<close>, and all items that reach that port.\<close>

definition sent :: "workflow \<Rightarrow> string \<Rightarrow> node_run_data list \<Rightarrow> string \<Rightarrow> string \<Rightarrow> item list" where
  "sent w m rds n p = concat (map (\<lambda>c. items_for_source_index (run_items (last rds)) (source_index c))
     (filter (\<lambda>c. source_node c = m \<and> target_node c = n \<and> target_port c = p) (connections w)))"

definition input_spec :: "workflow \<Rightarrow> item list \<Rightarrow> (string, node_run_data list) dict \<Rightarrow> string \<Rightarrow> string \<Rightarrow> item list" where
  "input_spec w seed rdata n p =
     (if parent_set w n = {} \<and> p = MAIN_PORT then seed else [])
     @ concat (map (\<lambda>(m, rds). sent w m rds n p) rdata)"

text \<open>
  One recorded run and the hook calls made for it: the node saw the items its predecessors
  sent, its outcome is the one its context determines, and the hooks were called in order.
\<close>

definition turn_ok :: "executor \<Rightarrow> workflow \<Rightarrow> item list \<Rightarrow> (string, node_run_data list) dict
    \<Rightarrow> string \<times> node_run_data list \<Rightarrow> hook_event list \<Rightarrow> bool" where
  "turn_ok ex w seed rdata entry evs \<longleftrightarrow>
     (\<exists>ctx rd c e c'. snd entry = [rd] \<and> node_by_id w (fst entry) = Some (ctx_node ctx)
        \<and> ctx_workflow ctx = w
        \<and> (\<forall>p. get_input ctx p = input_spec w seed rdata (fst entry) p)
        \<and> run_outcome rd = outcome ex (ctx_node ctx) ctx
        \<and> evs = [OnNodeStart ctx] @ (if fatal (ctx_node ctx) rd then [OnNodeError c e] else [])
                @ [OnNodeEnd c' rd])"

definition entry_fatal :: "workflow \<Rightarrow> string \<times> node_run_data list \<Rightarrow> bool" where
  "entry_fatal w entry \<longleftrightarrow> (\<exists>n rd. node_by_id w (fst entry) = Some n \<and> snd entry = [rd] \<and> fatal n rd)"

text \<open>What always holds of the run data, the queue, the hook trace and the failure mark.\<close>

definition history_inv :: "executor \<Rightarrow> workflow \<Rightarrow> item list \<Rightarrow> hook_event \<Rightarrow> loop_state \<Rightarrow> bool" where
  "history_inv ex w seed start ls \<longleftrightarrow>
     (let st = lp_state ls; rdata = rs_run_data st; ran = map fst rdata in
      rs_workflow st = w
      \<and> distinct (ran @ ready_queue ls) \<and> set (ran @ ready_queue ls) \<subseteq> set (node_ids w)
      \<and> parents_first (parent_set w) ran
      \<and> (\<exists>evss. hook_trace st = start # concat evss \<and> list_all2 (turn_ok ex w seed rdata) rdata evss)
      \<and> (failed_node_id st = None \<longrightarrow> (\<forall>entry \<in> set rdata. \<not> entry_fatal w entry))
      \<and> (\<forall>i. failed_node_id st = Some i \<longrightarrow> rdata \<noteq> [] \<and> fst (last rdata) = i \<and> entry_fatal w (last rdata)
           \<and> (\<forall>entry \<in> set (butlast rdata). \<not> entry_fatal w entry)))"

text \<open>What holds between turns while no node has failed.\<close>

definition ready_inv :: "workflow \<Rightarrow> item list \<Rightarrow> loop_state \<Rightarrow> bool" where
  "ready_inv w seed ls \<longleftrightarrow>
     (let rdata = rs_run_data (lp_state ls); ran = map fst rdata in
      (\<forall>n \<in> set (node_ids w). (\<exists>r. map_of (pending ls) n = Some r \<and> set r = parent_set w n - set ran)
         \<and> (n \<in> set (ran @ ready_queue ls) \<longleftrightarrow> parent_set w n \<subseteq> set ran))
      \<and> (\<forall>n \<in> set (node_ids w). \<forall>p. port_items (inputs_by_node ls) n p = input_spec w seed rdata n p))"

lemma sent_non_parent: "m \<notin> parent_set w n \<Longrightarrow> sent w m rds n p = []"
  by (auto simp: sent_def parent_set_def filter_empty_conv)

lemma input_spec_snoc: "input_spec w seed (rdata @ [(m, rds)]) n p = input_spec w seed rdata n p @ sent w m rds n p"
  by (simp add: input_spec_def)

lemma turn_ok_snoc:
  assumes "m \<notin> parent_set w (fst entry)"
  shows "turn_ok ex w seed (rdata @ [(m, rds)]) entry evs \<longleftrightarrow> turn_ok ex w seed rdata entry evs"
  using assms by (simp add: turn_ok_def input_spec_snoc sent_non_parent)

lemma parents_first_subset:
  "parents_first par order \<Longrightarrow> n \<in> set order \<Longrightarrow> par n \<subseteq> set order"
  by (auto simp: parents_first_def in_set_conv_nth dest: in_set_takeD)

lemma parents_first_snoc:
  "parents_first par (order @ [i]) \<longleftrightarrow> parents_first par order \<and> par i \<subseteq> set order"
  by (auto simp: parents_first_def nth_append less_Suc_eq)

lemma history_step:
  assumes hist: "history_inv ex w seed start ls" and rdy: "ready_inv w seed ls"
    and q: "ready_queue ls = i # q" and nf: "failed_node_id (lp_state ls) = None"
    and n: "node_by_id w i = Some n"
    and t: "node_turn ex i n (dict_get (inputs_by_node ls) i []) (lp_state ls) = (rd, st)"
    and ls': "lp_state ls' = st" "distinct (ready_queue ls')"
      "set (ready_queue ls') \<inter> set (map fst (rs_run_data (lp_state ls)) @ [i]) = {}"
      "set (ready_queue ls') \<subseteq> set (node_ids w)"
  shows "history_inv ex w seed start ls' \<and> rs_run_data st = rs_run_data (lp_state ls) @ [(i, [rd])]"
proof -
  let ?st = "lp_state ls"
  define rdata where "rdata = rs_run_data ?st"
  define ctx where "ctx = node_ctx ex n (dict_get (inputs_by_node ls) i []) ?st"
  from hist obtain evss where w: "rs_workflow ?st = w"
    and dist: "distinct (map fst rdata @ i # q)" and sub: "set (map fst rdata @ i # q) \<subseteq> set (node_ids w)"
    and pf: "parents_first (parent_set w) (map fst rdata)"
    and tr: "hook_trace ?st = start # concat evss" and ok: "list_all2 (turn_ok ex w seed rdata) rdata evss"
    and clean: "\<forall>entry \<in> set rdata. \<not> entry_fatal w entry"
    unfolding history_inv_def Let_def q rdata_def using nf by auto
  have i: "i \<in> set (node_ids w)" "i \<notin> set (map fst rdata)" using sub dist by auto
  have ni: "node_id n = i" using node_by_id_Some [OF n] by simp
  from rdy i have par: "parent_set w i \<subseteq> set (map fst rdata)"
    and inp: "\<And>p. port_items (inputs_by_node ls) i p = input_spec w seed rdata i p"
    unfolding ready_inv_def Let_def rdata_def q by auto
  have "map_of rdata i = None" using i(2) by (simp add: map_of_eq_None_iff)
  then have app: "bucket_append i rd rdata = rdata @ [(i, [rd])]"
    by (simp add: bucket_append_def dict_get_def dict_set_new)
  from node_turn_facts [OF t] obtain c e c' where out: "run_outcome rd = outcome ex n ctx"
    and same: "same_run ?st st" and rd': "rs_run_data st = rdata @ [(i, [rd])]"
    and fl: "failed_node_id st = (if fatal n rd then Some i else None)"
    and tr': "hook_trace st = start # concat (evss @ [[OnNodeStart ctx]
          @ (if fatal n rd then [OnNodeError c e] else []) @ [OnNodeEnd c' rd]])"
    unfolding ctx_def [symmetric] rdata_def [symmetric] app tr nf ni by auto
  have not_par: "i \<notin> parent_set w m" if "m \<in> set (map fst rdata)" for m
    using parents_first_subset [OF pf that] i(2) by blast
  have "turn_ok ex w seed (rdata @ [(i, [rd])]) entry evs"
    if "turn_ok ex w seed rdata entry evs" "entry \<in> set rdata" for entry evs
    using that not_par [of "fst entry"] by (simp add: turn_ok_snoc)
  with ok have ok1: "list_all2 (turn_ok ex w seed (rdata @ [(i, [rd])])) rdata evss"
    by (auto intro: list_all2_mono simp: list_all2_conv_all_nth)
  have self: "i \<notin> parent_set w i" using par i(2) by blast
  have "ctx_node ctx = n" "ctx_workflow ctx = w" by (simp_all add: ctx_def node_ctx_def w)
  moreover have "get_input ctx p = input_spec w seed (rdata @ [(i, [rd])]) i p" for p
    using inp [of p] self
    by (simp add: get_input_def ctx_def node_ctx_def port_items_def input_spec_snoc sent_non_parent)
  ultimately have ok2: "turn_ok ex w seed (rdata @ [(i, [rd])]) (i, [rd]) ([OnNodeStart ctx]
          @ (if fatal n rd then [OnNodeError c e] else []) @ [OnNodeEnd c' rd])"
    unfolding turn_ok_def using n out
    by (rule_tac x = ctx in exI, rule_tac x = rd in exI, rule_tac x = c in exI, rule_tac x = e in exI,
        rule_tac x = c' in exI) simp
  have ef: "entry_fatal w (i, [rd]) \<longleftrightarrow> fatal n rd" by (simp add: entry_fatal_def n)
  have "history_inv ex w seed start ls'"
    unfolding history_inv_def Let_def ls'(1) rd'
  proof (intro conjI)
    show "rs_workflow st = w" using same w by (simp add: same_run_def)
    show "distinct (map fst (rdata @ [(i, [rd])]) @ ready_queue ls')"
      using dist i ls' by (auto simp: rdata_def)
    show "set (map fst (rdata @ [(i, [rd])]) @ ready_queue ls') \<subseteq> set (node_ids w)" using sub ls'(4) by auto
    show "parents_first (parent_set w) (map fst (rdata @ [(i, [rd])]))"
      using pf par by (simp add: parents_first_snoc)
    show "\<exists>evss. hook_trace st = start # concat evss
        \<and> list_all2 (turn_ok ex w seed (rdata @ [(i, [rd])])) (rdata @ [(i, [rd])]) evss"
      using tr' ok1 ok2 by (intro exI conjI) (assumption, simp add: list_all2_appendI)
    show "failed_node_id st = None \<longrightarrow> (\<forall>entry \<in> set (rdata @ [(i, [rd])]). \<not> entry_fatal w entry)"
      using fl ef clean by auto
    show "\<forall>j. failed_node_id st = Some j \<longrightarrow> rdata @ [(i, [rd])] \<noteq> [] \<and> fst (last (rdata @ [(i, [rd])])) = j
        \<and> entry_fatal w (last (rdata @ [(i, [rd])]))
        \<and> (\<forall>entry \<in> set (butlast (rdata @ [(i, [rd])])). \<not> entry_fatal w entry)"
      using fl ef clean by auto
  qed
  with rd' show ?thesis by (simp add: rdata_def)
qed

lemma ready_step:
  assumes hist: "history_inv ex w seed start ls" and rdy: "ready_inv w seed ls" and known: "endpoints_known w"
    and q: "ready_queue ls = i # q"
    and rd: "rs_run_data st = rs_run_data (lp_state ls) @ [(i, [rd])]"
    and ls': "ls' = \<lparr>ready_queue = snd (foldl (advance_edge i) (pending ls, q) (outgoing_edges w i)),
        inputs_by_node = foldl (deliver (run_items rd)) (inputs_by_node ls) (outgoing_edges w i),
        pending = fst (foldl (advance_edge i) (pending ls, q) (outgoing_edges w i)), lp_state = st\<rparr>"
  shows "ready_inv w seed ls' \<and> distinct (ready_queue ls')
    \<and> set (ready_queue ls') \<inter> set (map fst (rs_run_data (lp_state ls)) @ [i]) = {}
    \<and> set (ready_queue ls') \<subseteq> set (node_ids w)"
proof -
  define ran where "ran = map fst (rs_run_data (lp_state ls))"
  have dist: "distinct (ran @ i # q)" and sub: "set (ran @ i # q) \<subseteq> set (node_ids w)"
    using hist unfolding history_inv_def Let_def q ran_def by auto
  from rdy have pend: "\<And>n. n \<in> set (node_ids w) \<Longrightarrow> \<exists>r. map_of (pending ls) n = Some r \<and> set r = parent_set w n - set ran"
    and mem: "\<And>n. n \<in> set (node_ids w) \<Longrightarrow> n \<in> set (ran @ i # q) \<longleftrightarrow> parent_set w n \<subseteq> set ran"
    and inp: "\<And>n p. n \<in> set (node_ids w) \<Longrightarrow>
      port_items (inputs_by_node ls) n p = input_spec w seed (rs_run_data (lp_state ls)) n p"
    unfolding ready_inv_def Let_def q ran_def by auto
  have tgt: "out_target_node_id ` set (outgoing_edges w i) = {n \<in> set (node_ids w). i \<in> parent_set w n}"
    using known by (force simp: outgoing_edges_def outgoing_of_def parent_set_def endpoints_known_def)
  note adv = advance_edges [of i "pending ls" q "outgoing_edges w i", unfolded tgt mem_Collect_eq]
  have pend': "\<And>n. map_of (pending ls') n = (if n \<in> set (node_ids w) \<and> i \<in> parent_set w n
        then map_option (removeAll i) (map_of (pending ls) n) else map_of (pending ls) n)"
    using adv by (simp add: ls')
  from adv [of "[]"] obtain new where queue': "ready_queue ls' = q @ new" "distinct new"
    and new: "set new = {n \<in> set (node_ids w). i \<in> parent_set w n
        \<and> (\<exists>r. map_of (pending ls) n = Some r \<and> r \<noteq> [] \<and> removeAll i r = [])}"
    unfolding ls' loop_state.simps by (elim conjE exE) (simp add: conj_assoc)
  have new_iff: "n \<in> set new \<longleftrightarrow> i \<in> parent_set w n \<and> parent_set w n \<subseteq> insert i (set ran)"
    if n: "n \<in> set (node_ids w)" for n
  proof -
    from pend [OF n] obtain r where r: "map_of (pending ls) n = Some r" "set r = parent_set w n - set ran" by blast
    have "r \<noteq> [] \<longleftrightarrow> set r \<noteq> {}" and "removeAll i r = [] \<longleftrightarrow> set r \<subseteq> {i}"
      by (auto simp: removeAll_filter_not_eq filter_empty_conv)
    moreover have "i \<notin> set ran" using dist by auto
    ultimately show ?thesis using n r unfolding new by auto
  qed
  have fresh: "n \<notin> set (ran @ i # q)" if "n \<in> set new" for n
  proof -
    from that new have n: "n \<in> set (node_ids w)" and "i \<in> parent_set w n" by auto
    moreover have "i \<notin> set ran" using dist by auto
    ultimately show ?thesis using mem [OF n] by blast
  qed
  have "\<exists>r. map_of (pending ls') n = Some r \<and> set r = parent_set w n - set (ran @ [i])"
    if n: "n \<in> set (node_ids w)" for n
    using pend [OF n] n by (auto simp: pend')
  moreover have "n \<in> set ((ran @ [i]) @ ready_queue ls') \<longleftrightarrow> parent_set w n \<subseteq> set (ran @ [i])"
    if n: "n \<in> set (node_ids w)" for n
    using mem [OF n] new_iff [OF n] by (auto simp: queue')
  moreover have "port_items (inputs_by_node ls') n p = input_spec w seed (rs_run_data st) n p"
    if n: "n \<in> set (node_ids w)" for n p
  proof -
    have "filter (\<lambda>e. out_target_node_id e = n \<and> out_target_port e = p) (outgoing_edges w i)
        = map outgoing_of (filter (\<lambda>c. source_node c = i \<and> target_node c = n \<and> target_port c = p) (connections w))"
      by (simp add: outgoing_edges_def filter_map outgoing_of_def comp_def conj_ac)
    then show ?thesis
      unfolding ls' rd by (simp add: port_items_delivers inp [OF n] input_spec_snoc sent_def outgoing_of_def comp_def)
  qed
  ultimately have "ready_inv w seed ls'"
    unfolding ready_inv_def Let_def by (simp add: ls' rd ran_def)
  moreover have "distinct (ready_queue ls')" using dist queue' fresh by auto
  moreover have "set (ready_queue ls') \<inter> set (ran @ [i]) = {}" using dist queue'(1) fresh by auto
  moreover have "set (ready_queue ls') \<subseteq> set (node_ids w)" using sub queue'(1) new by auto
  ultimately show ?thesis by (simp add: ran_def)
qed

definition loop_inv :: "executor \<Rightarrow> workflow \<Rightarrow> item list \<Rightarrow> hook_event \<Rightarrow> loop_state \<Rightarrow> bool" where
  "loop_inv ex w seed start ls \<longleftrightarrow> history_inv ex w seed start ls
     \<and> (failed_node_id (lp_state ls) = None \<longrightarrow> ready_inv w seed ls)"

lemma loop_body_inv:
  assumes g: "workflow_graph_init w = Inr g" and inv: "loop_inv ex w seed start ls"
    and q: "ready_queue ls = i # q" and nf: "failed_node_id (lp_state ls) = None"
  shows "\<exists>ls'. loop_body ex g i (ls\<lparr>ready_queue := q\<rparr>) = Inr ls' \<and> loop_inv ex w seed start ls'"
proof -
  from inv nf have hist: "history_inv ex w seed start ls" and rdy: "ready_inv w seed ls"
    by (simp_all add: loop_inv_def)
  from g have known: "endpoints_known w" by (simp add: workflow_graph_init_Inr)
  from hist q have i: "i \<in> set (node_ids w)" and dist: "distinct (map fst (rs_run_data (lp_state ls)) @ i # q)"
    and sub: "set q \<subseteq> set (node_ids w)"
    by (auto simp: history_inv_def Let_def)
  then obtain n where n: "node_by_id w i = Some n"
    by (cases "node_by_id w i") (auto simp: node_by_id_def find_None_iff node_ids_def)
  have gn: "graph_node g i = Inr n" and out: "outgoing g i = Inr (outgoing_edges w i)"
    using built_graph_queries [OF g, of i] i n by simp_all
  obtain rd st where t: "node_turn ex i n (dict_get (inputs_by_node ls) i []) (lp_state ls) = (rd, st)"
    by (cases "node_turn ex i n (dict_get (inputs_by_node ls) i []) (lp_state ls)") blast
  note step = history_step [OF hist rdy q nf n t]
  show ?thesis
  proof (cases "fatal n rd")
    case True
    define ls' where "ls' = ls\<lparr>ready_queue := q, lp_state := st\<rparr>"
    have "history_inv ex w seed start ls'" using step [of ls'] dist sub by (auto simp: ls'_def)
    moreover have "failed_node_id st \<noteq> None" using node_turn_facts [OF t] True by auto
    moreover have "loop_body ex g i (ls\<lparr>ready_queue := q\<rparr>) = Inr ls'"
      using True by (simp add: loop_body_def gn t ls'_def)
    ultimately show ?thesis by (auto simp: loop_inv_def ls'_def)
  next
    case False
    define ls' where "ls' = \<lparr>ready_queue = snd (foldl (advance_edge i) (pending ls, q) (outgoing_edges w i)),
        inputs_by_node = foldl (deliver (run_items rd)) (inputs_by_node ls) (outgoing_edges w i),
        pending = fst (foldl (advance_edge i) (pending ls, q) (outgoing_edges w i)), lp_state = st\<rparr>"
    have rdst: "rs_run_data st = rs_run_data (lp_state ls) @ [(i, [rd])]"
      using step [of "ls\<lparr>ready_queue := q, lp_state := st\<rparr>"] dist sub by auto
    from ready_step [OF hist rdy known q rdst ls'_def] have R: "ready_inv w seed ls'"
      and Q: "distinct (ready_queue ls')" "set (ready_queue ls') \<subseteq> set (node_ids w)"
        "set (ready_queue ls') \<inter> set (map fst (rs_run_data (lp_state ls)) @ [i]) = {}" by auto
    have "history_inv ex w seed start ls'" using step [of ls'] Q by (simp add: ls'_def)
    moreover have "loop_body ex g i (ls\<lparr>ready_queue := q\<rparr>) = Inr ls'"
      unfolding loop_body_def gn ls'_def using False
      by (auto simp: t propagate_outputs_def advance_readiness_def out case_prod_beta)
    ultimately show ?thesis using R by (auto simp: loop_inv_def)
  qed
qed

lemma exec_loop_inv:
  assumes g: "workflow_graph_init w = Inr g" and "loop_inv ex w seed start ls"
  shows "\<exists>ls'. exec_loop ex g ls = Inr ls' \<and> loop_inv ex w seed start ls'
    \<and> (ready_queue ls' = [] \<or> failed_node_id (lp_state ls') \<noteq> None)"
  using assms(2)
proof (induction "length (ready_queue ls) + waiting_count (pending ls)" arbitrary: ls rule: less_induct)
  case less
  show ?case
  proof (cases "ready_queue ls")
    case Nil
    with less.prems show ?thesis by (subst exec_loop.simps) simp
  next
    case (Cons i q)
    show ?thesis
    proof (cases "failed_node_id (lp_state ls)")
      case None
      from loop_body_inv [OF g less.prems Cons None] obtain ls1
        where b: "loop_body ex g i (ls\<lparr>ready_queue := q\<rparr>) = Inr ls1" and inv1: "loop_inv ex w seed start ls1"
        by blast
      from loop_body_measure [OF b] have "length (ready_queue ls1) + waiting_count (pending ls1)
          < length (ready_queue ls) + waiting_count (pending ls)" by (simp add: Cons)
      from less.hyps [OF this inv1] show ?thesis
        by (subst exec_loop.simps) (simp add: Cons None b)
    next
      case (Some j)
      with less.prems Cons show ?thesis by (subst exec_loop.simps) simp
    qed
  qed
qed

section \<open>From the start to the end of a run\<close>

lemma list_all2_member: "list_all2 P xs ys \<Longrightarrow> x \<in> set xs \<Longrightarrow> \<exists>y \<in> set ys. P x y"
  by (metis in_set_conv_nth list_all2_conv_all_nth)

lemma initial_pending:
  assumes g: "workflow_graph_init w = Inr g"
  shows "compute_initial_pending g = Inr (map (\<lambda>i. (i, source_ids (incoming_edges w i))) (graph_topo g))"
  unfolding compute_initial_pending_def
proof (rule rmap_total)
  fix i assume "i \<in> set (graph_topo g)"
  then have "incoming g i = Inr (incoming_edges w i)"
    using built_graph_queries(3) [OF g] built_graph_order(2) [OF g] by simp
  then show "rbind (incoming g i) (\<lambda>es. Inr (i, source_ids es)) = Inr (i, source_ids (incoming_edges w i))" by simp
qed

lemma root_ids_set:
  assumes g: "workflow_graph_init w = Inr g"
  shows "set (root_ids g) = {i \<in> set (node_ids w). parent_set w i = {}}" and "distinct (root_ids g)"
proof -
  from g have gb: "g = built_graph w" by (simp add: workflow_graph_init_Inr)
  have "set (root_ids g) = {i \<in> set (graph_topo g). dict_get (incoming_index w) i [] = []}"
    by (auto simp: gb built_graph_def)
  also have "\<dots> = {i \<in> set (node_ids w). incoming_edges w i = []}"
    unfolding built_graph_order(2) [OF g] by (auto simp: incoming_index_def dict_get_def map_of_keyed)
  also have "\<dots> = {i \<in> set (node_ids w). parent_set w i = {}}"
    by (auto simp: incoming_edges_def parent_set_def filter_empty_conv)
  finally show "set (root_ids g) = {i \<in> set (node_ids w). parent_set w i = {}}" .
  show "distinct (root_ids g)" using built_graph_order(1) [OF g] by (simp add: gb built_graph_def)
qed

lemma loop_inv_start:
  assumes g: "workflow_graph_init w = Inr g"
  shows "loop_inv ex w seed start \<lparr>ready_queue = root_ids g, inputs_by_node = seed_inputs_for_roots g seed,
     pending = map (\<lambda>i. (i, source_ids (incoming_edges w i))) (graph_topo g),
     lp_state = emit start (init_run_state ex w eid mode)\<rparr>"
proof -
  have "map_of (map (\<lambda>i. (i, source_ids (incoming_edges w i))) (graph_topo g)) n
      = (if n \<in> set (node_ids w) then Some (source_ids (incoming_edges w n)) else None)" for n
    by (simp add: map_of_keyed built_graph_order(2) [OF g])
  moreover have "input_spec w seed [] n p = (if parent_set w n = {} \<and> p = MAIN_PORT then seed else [])" for n p
    by (simp add: input_spec_def)
  moreover have "port_items (seed_inputs_for_roots g seed) n p
      = (if parent_set w n = {} \<and> p = MAIN_PORT \<and> n \<in> set (node_ids w) then seed else [])" for n p
    by (auto simp: port_items_seed root_ids_set [OF g])
  ultimately show ?thesis
    using root_ids_set [OF g]
    unfolding loop_inv_def history_inv_def ready_inv_def Let_def
    by (auto simp: emit_def init_run_state_def parents_first_def)
qed

definition seed_of :: "item list option \<Rightarrow> item list" where
  "seed_of initial_items = (case initial_items of None \<Rightarrow> [mk_item []] | Some xs \<Rightarrow> xs)"

text \<open>What a finished run hands back, in terms of the last loop state.\<close>

definition run_result :: "executor \<Rightarrow> workflow \<Rightarrow> item list option \<Rightarrow> loop_state \<Rightarrow> hook_event
    \<Rightarrow> execution \<Rightarrow> run_state \<Rightarrow> bool" where
  "run_result ex w initial_items ls start execution st \<longleftrightarrow>
     loop_inv ex w (seed_of initial_items) start ls
     \<and> (ready_queue ls = [] \<or> failed_node_id (lp_state ls) \<noteq> None)
     \<and> (\<exists>c. start = OnExecutionStart c)
     \<and> run_data execution = rs_run_data (lp_state ls) \<and> finished_at execution \<noteq> None
     \<and> workflow_snapshot execution = w
     \<and> exec_status execution = (case failed_node_id (lp_state ls) of
            None \<Rightarrow> ExecSuccess | Some i \<Rightarrow> if i = [] then ExecSuccess else ExecError)
     \<and> (\<exists>c. hook_trace st = hook_trace (lp_state ls) @ [OnExecutionEnd c execution])"

lemma build_execution_facts:
  assumes "build_execution ex st = (execution, st')"
  shows "run_data execution = rs_run_data st" "finished_at execution \<noteq> None"
    "workflow_snapshot execution = rs_workflow st" "hook_trace st' = hook_trace st"
    "exec_status execution = (case failed_node_id st of
        None \<Rightarrow> ExecSuccess | Some i \<Rightarrow> if i = [] then ExecSuccess else ExecError)"
  using assms by (auto simp: build_execution_def now_def)

lemma run_workflow_facts:
  assumes g: "workflow_graph_init w = Inr g"
  shows "\<exists>execution st ls start. run_workflow ex w initial_items mode eid fresh = Inr (execution, st)
    \<and> run_result ex w initial_items ls start execution st"
proof -
  define id' where "id' = (case eid of None \<Rightarrow> fresh | Some i \<Rightarrow> if i = [] then fresh else i)"
  define st0 where "st0 = init_run_state ex w id' mode"
  define start where "start = OnExecutionStart (node_ctx ex (anchor_node w) [] st0)"
  let ?seed = "seed_of initial_items"
  let ?ls0 = "\<lparr>ready_queue = root_ids g, inputs_by_node = seed_inputs_for_roots g ?seed,
     pending = map (\<lambda>i. (i, source_ids (incoming_edges w i))) (graph_topo g), lp_state = emit start st0\<rparr>"
  have "loop_inv ex w ?seed start ?ls0" unfolding st0_def by (rule loop_inv_start [OF g])
  from exec_loop_inv [OF g this] obtain ls where l: "exec_loop ex g ?ls0 = Inr ls"
    and inv: "loop_inv ex w ?seed start ls" and fin: "ready_queue ls = [] \<or> failed_node_id (lp_state ls) \<noteq> None"
    by blast
  obtain execution st2 where b: "build_execution ex (lp_state ls) = (execution, st2)"
    by (cases "build_execution ex (lp_state ls)") blast
  define st where "st = emit (OnExecutionEnd (exit_context ex w st2) execution) st2"
  have "run_workflow ex w initial_items mode eid fresh = Inr (execution, st)"
    by (simp only: run_workflow_def g rbind_Inr Let_def initial_pending [OF g] id'_def [symmetric]
        st0_def [symmetric] start_def [symmetric] seed_of_def [symmetric] l b split_conv st_def)
  moreover have "rs_workflow (lp_state ls) = w"
    using inv by (simp add: loop_inv_def history_inv_def Let_def)
  then have "run_result ex w initial_items ls start execution st"
    using inv fin build_execution_facts [OF b]
    by (auto simp: run_result_def start_def st_def emit_def)
  ultimately show ?thesis by blast
qed

lemma run_workflow_Inr:
  assumes "run_workflow ex w initial_items mode eid fresh = Inr (execution, st)"
  obtains g ls start where "workflow_graph_init w = Inr g"
    and "run_result ex w initial_items ls start execution st"
proof -
  from assms obtain g where g: "workflow_graph_init w = Inr g"
    by (cases "workflow_graph_init w") (simp_all add: run_workflow_def)
  with run_workflow_facts [OF g, of ex initial_items mode eid fresh] assms that show thesis by auto
qed

lemma parent_set_parents:
  assumes g: "workflow_graph_init w = Inr g" and "parents g n = Inr ps"
  shows "set ps = parent_set w n"
  using parents_Inr [OF assms] by simp

text \<open>A run that stops without a failure has run every node, by the contract of the graph.\<close>

lemma finished_complete:
  assumes g: "workflow_graph_init w = Inr g" and inv: "loop_inv ex w seed start ls"
    and fin: "ready_queue ls = []" "failed_node_id (lp_state ls) = None"
  shows "set (map fst (rs_run_data (lp_state ls))) = set (node_ids w)"
proof (rule ccontr)
  let ?ran = "set (map fst (rs_run_data (lp_state ls)))"
  assume "?ran \<noteq> set (node_ids w)"
  moreover have "?ran \<subseteq> set (node_ids w)"
    using inv by (simp add: loop_inv_def history_inv_def Let_def)
  ultimately have "\<not> set (graph_topo g) \<subseteq> ?ran" using built_graph_order(2) [OF g] by blast
  from wg.ready_exists [OF g this] obtain n ps where n: "n \<in> set (graph_topo g) - ?ran"
    and ps: "parents g n = Inr ps" "set ps \<subseteq> ?ran" by blast
  from inv fin have "\<forall>n \<in> set (node_ids w). n \<in> ?ran \<longleftrightarrow> parent_set w n \<subseteq> ?ran"
    by (simp add: loop_inv_def ready_inv_def Let_def)
  with n ps parent_set_parents [OF g ps(1)] built_graph_order(2) [OF g] show False by blast
qed

section \<open>Properties\<close>

text \<open>
  C1 (a run always ends): running a workflow either raises the error of the graph
  constructor, before any node ran, or returns a finished execution of that workflow,
  whatever the nodes do; node exceptions never escape.
\<close>
theorem run_workflow_total:
  "case workflow_graph_init w of
     Inl e \<Rightarrow> run_workflow ex w initial_items mode eid fresh = Inl e
   | Inr g \<Rightarrow> \<exists>execution st. run_workflow ex w initial_items mode eid fresh = Inr (execution, st)
       \<and> workflow_snapshot execution = w \<and> finished_at execution \<noteq> None
       \<and> exec_status execution \<in> {ExecSuccess, ExecError}"
proof (cases "workflow_graph_init w")
  case (Inl e)
  then show ?thesis by (simp add: run_workflow_def)
next
  case (Inr g)
  from run_workflow_facts [OF Inr, of ex initial_items mode eid fresh] obtain execution st ls start
    where "run_workflow ex w initial_items mode eid fresh = Inr (execution, st)"
      and "run_result ex w initial_items ls start execution st" by blast
  then show ?thesis
    unfolding Inr sum.case
    by (intro exI [of _ execution] exI [of _ st]) (auto simp: run_result_def split: option.splits)
qed

text \<open>
  C2 (scheduling): in the run data of a finished run every node occurs at most once and with
  exactly one run, only nodes of the workflow occur, and a node that ran comes after the
  source of every connection that leads to it.
\<close>
theorem run_workflow_order:
  assumes "run_workflow ex w initial_items mode eid fresh = Inr (execution, st)"
  shows "distinct (map fst (run_data execution))
    \<and> set (map fst (run_data execution)) \<subseteq> set (node_ids w)
    \<and> (\<forall>i rds. (i, rds) \<in> set (run_data execution) \<longrightarrow> length rds = 1)
    \<and> (\<forall>c k. c \<in> set (connections w) \<longrightarrow> k < length (run_data execution) \<longrightarrow>
         fst (run_data execution ! k) = target_node c \<longrightarrow>
         (\<exists>j < k. fst (run_data execution ! j) = source_node c))"
proof -
  from assms obtain g ls start where res: "run_result ex w initial_items ls start execution st"
    by (rule run_workflow_Inr)
  define rdata where "rdata = run_data execution"
  from res obtain evss where d: "distinct (map fst rdata)" and sub: "set (map fst rdata) \<subseteq> set (node_ids w)"
    and pf: "parents_first (parent_set w) (map fst rdata)"
    and ok: "list_all2 (turn_ok ex w (seed_of initial_items) rdata) rdata evss"
    by (auto simp: run_result_def loop_inv_def history_inv_def Let_def rdata_def)
  have one: "length rds = 1" if "(i, rds) \<in> set rdata" for i rds
  proof -
    from that ok obtain evs where "turn_ok ex w (seed_of initial_items) rdata (i, rds) evs"
      by (auto simp: list_all2_conv_all_nth in_set_conv_nth)
    then show ?thesis by (auto simp: turn_ok_def)
  qed
  have "\<exists>j < k. fst (rdata ! j) = source_node c"
    if c: "c \<in> set (connections w)" and k: "k < length rdata" "fst (rdata ! k) = target_node c" for c k
  proof -
    from c k have "source_node c \<in> parent_set w (map fst rdata ! k)" by (auto simp: parent_set_def)
    with pf k have "source_node c \<in> set (take k (map fst rdata))" unfolding parents_first_def by (metis length_map subsetD)
    with k show ?thesis by (auto simp: in_set_conv_nth)
  qed
  with d sub one show ?thesis unfolding rdata_def by blast
qed

text \<open>
  C3 (completion): when no recorded run is fatal (an error on a node without
  \<open>continue_on_fail\<close>), every node of the workflow has run and the execution succeeded;
  otherwise the fatal run is the last one, no other is fatal, and the execution has status
  error, except that a failing node whose id is the empty string is reported as success.
\<close>
theorem run_workflow_completion:
  assumes "run_workflow ex w initial_items mode eid fresh = Inr (execution, st)"
  shows "if \<exists>entry \<in> set (run_data execution). entry_fatal w entry
    then entry_fatal w (last (run_data execution))
      \<and> (\<forall>entry \<in> set (butlast (run_data execution)). \<not> entry_fatal w entry)
      \<and> exec_status execution = (if fst (last (run_data execution)) = [] then ExecSuccess else ExecError)
    else set (map fst (run_data execution)) = set (node_ids w) \<and> exec_status execution = ExecSuccess"
proof -
  from assms obtain g ls start where g: "workflow_graph_init w = Inr g"
    and res: "run_result ex w initial_items ls start execution st" by (rule run_workflow_Inr)
  from res have inv: "loop_inv ex w (seed_of initial_items) start ls"
    and rd: "run_data execution = rs_run_data (lp_state ls)"
    and fin: "ready_queue ls = [] \<or> failed_node_id (lp_state ls) \<noteq> None"
    and stat: "exec_status execution = (case failed_node_id (lp_state ls) of
            None \<Rightarrow> ExecSuccess | Some i \<Rightarrow> if i = [] then ExecSuccess else ExecError)"
    unfolding run_result_def by auto
  show ?thesis
  proof (cases "failed_node_id (lp_state ls)")
    case None
    with inv have "\<forall>entry \<in> set (run_data execution). \<not> entry_fatal w entry"
      by (simp add: loop_inv_def history_inv_def Let_def rd)
    with None fin stat finished_complete [OF g inv] rd show ?thesis by simp
  next
    case (Some i)
    with inv have "run_data execution \<noteq> []" "fst (last (run_data execution)) = i"
      "entry_fatal w (last (run_data execution))"
      "\<forall>entry \<in> set (butlast (run_data execution)). \<not> entry_fatal w entry"
      by (simp_all add: loop_inv_def history_inv_def Let_def rd)
    moreover from this(1,3) have "\<exists>entry \<in> set (run_data execution). entry_fatal w entry" by force
    ultimately show ?thesis using stat Some by simp
  qed
qed

text \<open>
  C4 (data flow): for every recorded run of a node the hooks saw a context whose items on each
  input port are exactly the seed items, when the node is a root and the port is the main
  one, followed by what its predecessors sent to that port, in the order in which they
  ran; and status, outputs and error of the run are the ones this context determines.
\<close>
theorem run_workflow_dataflow:
  assumes "run_workflow ex w initial_items mode eid fresh = Inr (execution, st)"
    and "(i, rds) \<in> set (run_data execution)"
  shows "\<exists>ctx rd. OnNodeStart ctx \<in> set (hook_trace st) \<and> rds = [rd]
    \<and> node_by_id w i = Some (ctx_node ctx)
    \<and> (\<forall>p. get_input ctx p = input_spec w (seed_of initial_items) (run_data execution) i p)
    \<and> (run_status rd, run_items rd, run_error rd) = outcome ex (ctx_node ctx) ctx"
proof -
  from assms(1) obtain g ls start where res: "run_result ex w initial_items ls start execution st"
    by (rule run_workflow_Inr)
  define rdata where "rdata = run_data execution"
  from res obtain evss c where tr: "hook_trace st = start # concat evss @ [OnExecutionEnd c execution]"
    and ok: "list_all2 (turn_ok ex w (seed_of initial_items) rdata) rdata evss"
    by (auto simp: run_result_def loop_inv_def history_inv_def Let_def rdata_def)
  from assms(2) ok obtain evs where "turn_ok ex w (seed_of initial_items) rdata (i, rds) evs" "evs \<in> set evss"
    using list_all2_member [OF ok] by (auto simp: rdata_def)
  then show ?thesis unfolding turn_ok_def rdata_def [symmetric] run_outcome_def tr by fastforce
qed


section \<open>Concrete runs\<close>

definition demo_process :: process_env where
  "demo_process = \<lparr>exposed_env = [], expr_eval = (\<lambda>_ _. Inr JNull), float_repr = (\<lambda>_. []), instants = (0, 0)\<rparr>"

text \<open>A class whose \<open>execute\<close> always raises.\<close>

definition broken_class :: node_class where
  "broken_class = (demo_class 1)\<lparr>cls_spec := Some (mk_spec ''broken'' 1 ''Broken'' ''d'' ''i'' CatCore),
     cls_execute := (\<lambda>ctx items. (raise CredentialNotFoundError ''cr_1'', ctx_static_data ctx))\<rparr>"

definition demo_executor :: executor where
  "demo_executor = \<lparr>ex_registry = \<lparr>by_key = [((''demo'', 1), demo_class 1), ((''broken'', 1), broken_class)],
       latest_version = [(''demo'', 1), (''broken'', 1)]\<rparr>,
     ex_credential_resolver = None, ex_sub_workflow_runner = None, ex_process = demo_process,
     ex_clock = (\<lambda>t. int t), ex_millis = (\<lambda>d. d)\<rparr>"

text \<open>Two nodes in a row; the second one always fails.\<close>

definition demo_workflow :: "string \<Rightarrow> workflow" where
  "demo_workflow i = mk_workflow ''w'' ''p'' ''demo'' [mk_node ''a'' ''A'' ''demo'', mk_node i ''B'' ''broken'']
     [mk_connection ''a'' i]"

definition demo_run :: "string \<Rightarrow> (execution \<times> run_state) result" where
  "demo_run i = run_workflow demo_executor (demo_workflow i) None ModeManual None ''ex_1''"

lemma demo_run_b: "returns (\<lambda>r. map fst (run_data (fst r)) = [''a'', ''b''] \<and> exec_status (fst r) = ExecError) (demo_run ''b'')"
  by code_simp

theorem run_workflow_order_witness:
  "\<exists>execution st. demo_run ''b'' = Inr (execution, st) \<and> distinct (map fst (run_data execution))"
proof -
  from demo_run_b obtain execution st where r: "demo_run ''b'' = Inr (execution, st)"
    unfolding returns_iff by auto
  from run_workflow_order [OF r [unfolded demo_run_def]] r show ?thesis by blast
qed

theorem run_workflow_completion_witness:
  "\<exists>execution st. demo_run ''b'' = Inr (execution, st) \<and> exec_status execution = ExecError
     \<and> entry_fatal (demo_workflow ''b'') (last (run_data execution))"
proof -
  from demo_run_b obtain execution st where r: "demo_run ''b'' = Inr (execution, st)"
    and e: "exec_status execution = ExecError"
    unfolding returns_iff by auto
  from run_workflow_completion [OF r [unfolded demo_run_def]] r e show ?thesis
    by (cases "\<exists>entry \<in> set (run_data execution). entry_fatal (demo_workflow ''b'') entry") auto
qed

theorem run_workflow_dataflow_witness:
  "\<exists>execution st ctx rds. demo_run ''b'' = Inr (execution, st) \<and> (''b'', rds) \<in> set (run_data execution)
     \<and> get_input ctx MAIN_PORT = input_spec (demo_workflow ''b'') [mk_item []] (run_data execution) ''b'' MAIN_PORT"
proof -
  from demo_run_b obtain execution st where r: "demo_run ''b'' = Inr (execution, st)"
    and ks: "map fst (run_data execution) = [''a'', ''b'']"
    unfolding returns_iff by auto
  from ks have "''b'' \<in> fst ` set (run_data execution)" by (metis list.set_intros(1,2) list.set_map)
  then obtain rds where e: "(''b'', rds) \<in> set (run_data execution)" by auto
  from run_workflow_dataflow [OF r [unfolded demo_run_def] e] r e show ?thesis
    by (auto simp: seed_of_def)
qed


text \<open>
  An empty node id hides a failure: the status is computed by a truth test on the id
  of the failed node, so a run whose failing node has the id \<open>''\<close> stops early and is still
  reported as a success.
\<close>
theorem empty_id_failure_reported_success:
  "returns (\<lambda>r. exec_status (fst r) = ExecSuccess \<and> failed_node_id (snd r) = Some []
      \<and> (\<exists>entry \<in> set (run_data (fst r)). entry_fatal (demo_workflow []) entry)) (demo_run [])"
proof -
  have "returns (\<lambda>r. exec_status (fst r) = ExecSuccess \<and> failed_node_id (snd r) = Some []
      \<and> list_ex (\<lambda>(i, rds). i = [] \<and> map run_status rds = [StatusError]) (run_data (fst r))) (demo_run [])"
    by code_simp
  then obtain r rds where r: "demo_run [] = Inr r" "exec_status (fst r) = ExecSuccess"
    "failed_node_id (snd r) = Some []" "([], rds) \<in> set (run_data (fst r))" "map run_status rds = [StatusError]"
    unfolding returns_iff list_ex_iff by auto
  have "node_by_id (demo_workflow []) [] = Some (mk_node [] ''B'' ''broken'')"
    "\<not> continue_on_fail (mk_node [] ''B'' ''broken'')"
    by (simp_all add: node_by_id_def demo_workflow_def mk_workflow_def mk_node_def)
  with r(5) have "entry_fatal (demo_workflow []) ([], rds)"
    by (auto simp: entry_fatal_def map_eq_Cons_conv)
  with r show ?thesis unfolding returns_iff by blast
qed

end
