(* ===== verification/Sub_Workflow.thy ===== *)
theory Sub_Workflow
  imports Executor_Props
begin

text \<open>
  \<open>engine/subworkflow.py\<close>: the inline runner that executes a child workflow with a fresh
  executor and returns the items of its terminal nodes. A workflow may call itself, so the
  recursion is bounded by the interpreter's stack: the depth is an argument, and at depth
  zero the call raises \<open>RecursionError\<close>, as the interpreter does.
\<close>

section \<open>Runner\<close>

text \<open>The fields of an \<open>InlineSubWorkflowRunner\<close>, with the process its executors run in.\<close>

record inline_runner =
  ir_registry :: node_registry
  ir_loader :: "string \<Rightarrow> string \<Rightarrow> workflow option result"
  ir_credential_resolver :: "credential_resolver option"
  ir_process :: process_env
  ir_clock :: "nat \<Rightarrow> int"
  ir_millis :: "int \<Rightarrow> int"
  ir_fresh_id :: string

definition collect_terminal_items :: "execution \<Rightarrow> item list" where
  "collect_terminal_items execution =
     (let sources_with_main_out = map source_node
            (filter (\<lambda>c. source_port c = MAIN_PORT) (connections (workflow_snapshot execution))) in
      foldl (\<lambda>collected (i, runs).
          if i \<in> set sources_with_main_out \<or> runs = [] then collected
          else let last_run = last runs in
            if run_items last_run \<noteq> [] then collected @ hd (run_items last_run) else collected)
        [] (run_data execution))"

definition child_executor :: "inline_runner \<Rightarrow> sub_workflow_runner \<Rightarrow> executor" where
  "child_executor r self = \<lparr>ex_registry = ir_registry r, ex_credential_resolver = ir_credential_resolver r,
     ex_sub_workflow_runner = Some self, ex_process = ir_process r, ex_clock = ir_clock r,
     ex_millis = ir_millis r\<rparr>"

fun runner_run :: "nat \<Rightarrow> inline_runner \<Rightarrow> sub_workflow_runner" where
  "runner_run 0 r workflow_id items parent_execution_id project =
     raise RecursionError ''maximum recursion depth exceeded''"
| "runner_run (Suc depth) r workflow_id items parent_execution_id project =
     rbind (ir_loader r workflow_id project) (\<lambda>loaded.
       case loaded of
         None \<Rightarrow> raise SubWorkflowNotFoundError
           (''Sub-workflow '' @ repr_str workflow_id @ '' not found in project '' @ repr_str project)
       | Some child \<Rightarrow>
           if project_id child \<noteq> project
           then raise SubWorkflowProjectMismatchError
                  (''Sub-workflow '' @ repr_str workflow_id @ '' belongs to project ''
                   @ repr_str (project_id child) @ '', not '' @ repr_str project)
           else rbind (run_workflow (child_executor r (runner_run depth r)) child (Some items) ModeManual None
                         (ir_fresh_id r))
                  (\<lambda>(execution, _). Inr (collect_terminal_items execution)))"

section \<open>What a call returns\<close>

definition is_terminal :: "workflow \<Rightarrow> string \<Rightarrow> bool" where
  "is_terminal w i \<longleftrightarrow> (\<forall>c \<in> set (connections w). source_port c = MAIN_PORT \<longrightarrow> source_node c \<noteq> i)"

definition first_output :: "node_run_data list \<Rightarrow> item list" where
  "first_output runs = (if runs = [] \<or> run_items (last runs) = [] then [] else hd (run_items (last runs)))"

lemma collect_terminal_items_eq:
  "collect_terminal_items execution =
     concat (map (\<lambda>(i, runs). first_output runs)
       (filter (\<lambda>(i, runs). is_terminal (workflow_snapshot execution) i) (run_data execution)))"
proof -
  let ?w = "workflow_snapshot execution"
  define M where "M = set (map source_node (filter (\<lambda>c. source_port c = MAIN_PORT) (connections ?w)))"
  have tm: "i \<in> M \<longleftrightarrow> \<not> is_terminal ?w i" for i by (auto simp: is_terminal_def M_def)
  have "foldl (\<lambda>collected (i, runs).
          if i \<in> M \<or> runs = [] then collected
          else let last_run = last runs in
            if run_items last_run \<noteq> [] then collected @ hd (run_items last_run) else collected) acc rd
      = acc @ concat (map (\<lambda>(i, runs). first_output runs) (filter (\<lambda>(i, runs). is_terminal ?w i) rd))"
    for acc rd
    by (induction rd arbitrary: acc) (auto simp: tm first_output_def Let_def split: prod.splits)
  then show ?thesis by (simp only: collect_terminal_items_def M_def Let_def append_Nil)
qed

text \<open>
  C15 (sub-workflow isolation and result): a call that returns ran a workflow the loader
  found, of the caller's own project, and returns the items on the first output of the
  terminal nodes that ran, in the order they ran. A child that is missing or belongs to
  another project raises without running anything.
\<close>
theorem runner_run_result:
  assumes "ir_loader r wid project = Inr loaded"
  shows "if loaded = None then raises SubWorkflowNotFoundError (runner_run (Suc depth) r wid items peid project)
    else if project_id (the loaded) \<noteq> project
    then raises SubWorkflowProjectMismatchError (runner_run (Suc depth) r wid items peid project)
    else case run_workflow (child_executor r (runner_run depth r)) (the loaded) (Some items) ModeManual None
                (ir_fresh_id r) of
        Inl e \<Rightarrow> runner_run (Suc depth) r wid items peid project = Inl e
      | Inr (execution, _) \<Rightarrow> runner_run (Suc depth) r wid items peid project =
          Inr (concat (map (\<lambda>(i, runs). first_output runs)
                 (filter (\<lambda>(i, runs). is_terminal (the loaded) i) (run_data execution))))"
proof (cases loaded)
  case None
  with assms show ?thesis by simp
next
  case (Some child)
  show ?thesis
  proof (cases "project_id child = project")
    case False
    with assms Some show ?thesis by simp
  next
    case True
    let ?run = "run_workflow (child_executor r (runner_run depth r)) child (Some items) ModeManual None (ir_fresh_id r)"
    show ?thesis
    proof (cases ?run)
      case (Inl e)
      with assms Some True show ?thesis by simp
    next
      case (Inr es)
      obtain execution st where es: "es = (execution, st)" by (cases es)
      from Inr es have "run_workflow (child_executor r (runner_run depth r)) child (Some items) ModeManual None
          (ir_fresh_id r) = Inr (execution, st)" by simp
      then obtain g ls start where "run_result (child_executor r (runner_run depth r)) child (Some items) ls start execution st"
        by (rule run_workflow_Inr)
      then have "workflow_snapshot execution = child" by (simp add: run_result_def)
      with assms Some True Inr es show ?thesis by (simp add: collect_terminal_items_eq)
    qed
  qed
qed

definition demo_runner :: inline_runner where
  "demo_runner = \<lparr>ir_registry = ex_registry demo_executor,
     ir_loader = (\<lambda>wid project. Inr (if wid = ''w'' then Some (demo_workflow ''b'') else None)),
     ir_credential_resolver = None, ir_process = demo_process, ir_clock = (\<lambda>t. int t),
     ir_millis = (\<lambda>d. d), ir_fresh_id = ''ex_2''\<rparr>"

theorem runner_run_result_witness:
  "raises SubWorkflowNotFoundError (runner_run (Suc 9) demo_runner ''x'' [] ''e'' ''p'')
   \<and> raises SubWorkflowProjectMismatchError (runner_run (Suc 9) demo_runner ''w'' [] ''e'' ''q'')"
proof
  have "ir_loader demo_runner ''x'' ''p'' = Inr None" by (simp add: demo_runner_def)
  from runner_run_result [OF this, of 9 "[]" "''e''"]
  show "raises SubWorkflowNotFoundError (runner_run (Suc 9) demo_runner ''x'' [] ''e'' ''p'')"
    by (simp only: simp_thms if_True)
next
  have "ir_loader demo_runner ''w'' ''q'' = Inr (Some (demo_workflow ''b''))" by (simp add: demo_runner_def)
  moreover have "project_id (demo_workflow ''b'') \<noteq> ''q''" by (simp add: demo_workflow_def mk_workflow_def)
  ultimately show "raises SubWorkflowProjectMismatchError (runner_run (Suc 9) demo_runner ''w'' [] ''e'' ''q'')"
    using runner_run_result [of demo_runner "''w''" "''q''" "Some (demo_workflow ''b'')" 9 "[]" "''e''"]
    by (simp only: option.sel option.distinct simp_thms if_True if_False)
qed

end
