(* ===== verification/Core_Specs.thy ===== *)
theory Core_Specs
  imports Node_Registry
begin

text \<open>
  The node specifications of the built-in core tier, \<open>nodes/core/*/node.py\<close>: one
  \<^typ>\<open>node_spec\<close> per node class, field by field as in the source (a dash in a descriptive
  text is a hyphen here), the catalogue they form, and that all of them are well-formed.
\<close>

section \<open>Specifications\<close>

definition OPERATOR_OPTIONS :: "property_option list" where
  "OPERATOR_OPTIONS =
     [mk_option ''equals'' ''Equals'', mk_option ''not_equals'' ''Not Equals'',
       mk_option ''greater_than'' ''Greater Than'', mk_option ''greater_than_or_equal'' ''Greater Than Or Equal'',
       mk_option ''less_than'' ''Less Than'', mk_option ''less_than_or_equal'' ''Less Than Or Equal'',
       mk_option ''contains'' ''Contains'', mk_option ''not_contains'' ''Not Contains'',
       mk_option ''starts_with'' ''Starts With'', mk_option ''ends_with'' ''Ends With'',
       mk_option ''is_empty'' ''Is Empty'', mk_option ''is_not_empty'' ''Is Not Empty'',
       mk_option ''is_true'' ''Is True'', mk_option ''is_false'' ''Is False'']"

definition code_spec :: node_spec where
  "code_spec =
   (mk_spec ''weftlyflow.code'' 1 ''Code''
     ''Run a sandboxed Python snippet. Phase-1 build is an identity stub.'' ''icons/code.svg'' CatCore)\<lparr>spec_group := [''transform'',
       ''advanced''],
     spec_inputs := [mk_port ''main''],
     spec_outputs := [mk_port ''main''],
     spec_properties :=
      [(mk_property ''mode'' ''Mode'' POptions (JStr ''run_once_for_all''))\<lparr>prop_options := Some [mk_option ''run_once_for_all'' ''Run once for all items'',
        mk_option ''run_once_per_item'' ''Run once per item'']\<rparr>,
       (mk_property ''code'' ''Code'' PString (JStr []))\<lparr>prop_description := Some ''Python snippet - ignored in Phase 1; sandbox lands in Phase 4.'',
         prop_type_options := Some [(''rows'', JInt 10), (''language'', JStr ''python'')]\<rparr>]\<rparr>"

definition compare_datasets_spec :: node_spec where
  "compare_datasets_spec =
   (mk_spec ''weftlyflow.compare_datasets'' 1 ''Compare Datasets''
     ''Diff two input streams by key into A-only / B-only / same / different.'' ''icons/compare-datasets.svg'' CatCore)\<lparr>spec_group := [''logic''],
     spec_inputs := [(mk_port ''main'')\<lparr>port_index := 0, port_display_name := Some ''Input A''\<rparr>,
       (mk_port ''input_2'')\<lparr>port_index := 1, port_display_name := Some ''Input B''\<rparr>],
     spec_outputs := [(mk_port ''in_a_only'')\<lparr>port_index := 0,
       port_display_name := Some ''In A only''\<rparr>,
       (mk_port ''in_b_only'')\<lparr>port_index := 1, port_display_name := Some ''In B only''\<rparr>,
       (mk_port ''both_same'')\<lparr>port_index := 2, port_display_name := Some ''Both (same)''\<rparr>,
       (mk_port ''both_different'')\<lparr>port_index := 3,
         port_display_name := Some ''Both (different)''\<rparr>],
     spec_properties :=
      [(mk_property ''key'' ''Join key'' PString (JStr ''id''))\<lparr>prop_required := True,
        prop_description := Some ''Dotted path used to match items across inputs.''\<rparr>]\<rparr>"

definition datetime_ops_spec :: node_spec where
  "datetime_ops_spec =
   (mk_spec ''weftlyflow.datetime_ops'' 1 ''DateTime Ops''
     ''Parse, format, or shift ISO-8601 timestamps.'' ''icons/datetime.svg'' CatCore)\<lparr>spec_group := [''transform''],
     spec_inputs := [mk_port ''main''],
     spec_outputs := [mk_port ''main''],
     spec_properties :=
      [(mk_property ''operation'' ''Operation'' POptions (JStr ''now''))\<lparr>prop_options := Some [mk_option ''now'' ''now'',
        mk_option ''parse'' ''parse'', mk_option ''format'' ''format'', mk_option ''add'' ''add'',
        mk_option ''subtract'' ''subtract'', mk_option ''diff_seconds'' ''diff_seconds'']\<rparr>,
       (mk_property ''source'' ''Source field'' PString (JStr []))\<lparr>prop_description := Some ''Dotted path to an ISO-8601 string on the input item.''\<rparr>,
       mk_property ''source_b'' ''Second source (diff_seconds)'' PString (JStr []),
       (mk_property ''unit'' ''Unit (add/subtract)'' POptions (JStr ''seconds''))\<lparr>prop_options := Some [mk_option ''seconds'' ''seconds'',
         mk_option ''minutes'' ''minutes'', mk_option ''hours'' ''hours'', mk_option ''days'' ''days'',
         mk_option ''weeks'' ''weeks'']\<rparr>,
       mk_property ''amount'' ''Amount (add/subtract)'' PNumber (JInt 0),
       mk_property ''format'' ''Format (strftime)'' PString (JStr ''%Y-%m-%dT%H:%M:%S%z''),
       mk_property ''timezone'' ''Timezone (IANA)'' PString (JStr ''UTC''),
       mk_property ''output_field'' ''Output field'' PString (JStr ''at'')]\<rparr>"

definition evaluate_expression_spec :: node_spec where
  "evaluate_expression_spec =
   (mk_spec ''weftlyflow.evaluate_expression'' 1 ''Evaluate Expression''
     ''Evaluate a {{ ... }} expression against each item and store the result.'' ''icons/evaluate.svg'' CatCore)\<lparr>spec_group := [''transform''],
     spec_inputs := [mk_port ''main''],
     spec_outputs := [mk_port ''main''],
     spec_properties :=
      [(mk_property ''expression'' ''Expression'' PExpression JNull)\<lparr>prop_required := True,
        prop_placeholder := Some ''{{ $json.price * 1.2 }}''\<rparr>,
       (mk_property ''output_field'' ''Output field'' PString (JStr ''result''))\<lparr>prop_description := Some (''Dotted path written into each item. Defaults to ''
         @ [CHR 0x27] @ ''result'' @ [CHR 0x27] @ ''.'')\<rparr>]\<rparr>"

definition execution_data_spec :: node_spec where
  "execution_data_spec =
   (mk_spec ''weftlyflow.execution_data'' 1 ''Execution Data''
     ''Merge execution id / workflow id / mode into each item.'' ''icons/info.svg'' CatCore)\<lparr>spec_group := [''utility''],
     spec_inputs := [mk_port ''main''],
     spec_outputs := [mk_port ''main''],
     spec_properties :=
      [(mk_property ''prefix'' ''Field prefix'' PString (JStr ''_execution''))\<lparr>prop_description := Some ''Name of the subkey that holds the metadata. Set to an empty string to merge at the top level.''\<rparr>]\<rparr>"

definition filter_spec :: node_spec where
  "filter_spec =
   (mk_spec ''weftlyflow.filter'' 1 ''Filter''
     ''Drop items that fail the configured predicate.'' ''icons/filter.svg'' CatCore)\<lparr>spec_group := [''logic''],
     spec_inputs := [mk_port ''main''],
     spec_outputs := [mk_port ''main''],
     spec_properties :=
      [(mk_property ''expression'' ''Expression'' PExpression (JStr []))\<lparr>prop_description := Some ''Optional {{ ... }} template. When set, overrides the field/operator/value triple.''\<rparr>,
       (mk_property ''field'' ''Field'' PString (JStr []))\<lparr>prop_placeholder := Some ''status''\<rparr>,
       (mk_property ''operator'' ''Operator'' POptions (JStr ''equals''))\<lparr>prop_options := Some OPERATOR_OPTIONS\<rparr>,
       mk_property ''value'' ''Value'' PString JNull,
       mk_property ''keep_on_error'' ''Keep items on evaluation error'' PBoolean (JBool False)]\<rparr>"

definition function_call_spec :: node_spec where
  "function_call_spec =
   (mk_spec ''weftlyflow.function_call'' 1 ''Function Call''
     (''Run another workflow and emit its output as this node'' @ [CHR 0x27]
       @ ''s output.'') ''icons/function-call.svg'' CatCore)\<lparr>spec_group := [''logic''],
     spec_inputs := [mk_port ''main''],
     spec_outputs := [mk_port ''main''],
     spec_properties :=
      [(mk_property ''workflow_id'' ''Workflow ID'' PString (JStr []))\<lparr>prop_required := True,
        prop_description := Some ''Target workflow identifier. Supports {{ expressions }}.''\<rparr>,
       (mk_property ''forward'' ''Forward items'' POptions (JStr ''main''))\<lparr>prop_description := Some (''Whether to forward this node''
         @ [CHR 0x27] @ ''s input to the child workflow.''),
         prop_options := Some [mk_option ''main'' ''Main input'',
         mk_option ''none'' ''None (empty)'']\<rparr>]\<rparr>"

definition html_parse_spec :: node_spec where
  "html_parse_spec =
   (mk_spec ''weftlyflow.html_parse'' 1 ''HTML Parse''
     ''Extract values from HTML using CSS selectors.'' ''icons/html-parse.svg'' CatCore)\<lparr>spec_group := [''transform''],
     spec_inputs := [mk_port ''main''],
     spec_outputs := [mk_port ''main''],
     spec_properties :=
      [(mk_property ''source_path'' ''HTML source path'' PString (JStr ''html''))\<lparr>prop_description := Some ''Dotted path in the item that holds the HTML string.''\<rparr>,
       (mk_property ''extractions'' ''Extractions'' PFixedCollection (JArr []))\<lparr>prop_description := Some (''List of `{''
         @ [CHR 0x22] @ ''name'' @ [CHR 0x22] @ '': '' @ [CHR 0x22] @ ''title'' @ [CHR 0x22] @ '', ''
         @ [CHR 0x22] @ ''selector'' @ [CHR 0x22] @ '': '' @ [CHR 0x22] @ ''h1'' @ [CHR 0x22] @ '', ''
         @ [CHR 0x22] @ ''return'' @ [CHR 0x22] @ '': '' @ [CHR 0x22] @ ''text'' @ [CHR 0x22] @ '', ''
         @ [CHR 0x22] @ ''return_all'' @ [CHR 0x22] @ '': false, '' @ [CHR 0x22] @ ''attribute_name''
         @ [CHR 0x22] @ '': '' @ [CHR 0x22] @ [CHR 0x22] @ ''}`.'')\<rparr>]\<rparr>"

definition http_request_spec :: node_spec where
  "http_request_spec =
   (mk_spec ''weftlyflow.http_request'' 1 ''HTTP Request''
     ''Issue an HTTP request with optional credentials and expression URL.'' ''icons/http-request.svg'' CatCore)\<lparr>spec_group := [''core'',
       ''http''],
     spec_credentials := [\<lparr>slot_name = ''auth'', slot_credential_types = [''weftlyflow.bearer_token'',
       ''weftlyflow.basic_auth'', ''weftlyflow.api_key_header'', ''weftlyflow.api_key_query'',
       ''weftlyflow.oauth2_generic''], slot_required = False, slot_display_options = None\<rparr>],
     spec_properties :=
      [(mk_property ''url'' ''URL'' PString JNull)\<lparr>prop_required := True\<rparr>,
       (mk_property ''method'' ''Method'' POptions (JStr ''GET''))\<lparr>prop_options := Some [mk_option ''GET'' ''GET'',
         mk_option ''POST'' ''POST'', mk_option ''PUT'' ''PUT'', mk_option ''PATCH'' ''PATCH'',
         mk_option ''DELETE'' ''DELETE'', mk_option ''HEAD'' ''HEAD'',
         mk_option ''OPTIONS'' ''OPTIONS'']\<rparr>,
       mk_property ''headers'' ''Headers'' PJson (JObj []),
       mk_property ''query'' ''Query parameters'' PJson (JObj []),
       (mk_property ''body_type'' ''Body type'' POptions (JStr ''none''))\<lparr>prop_options := Some [mk_option ''none'' ''none'',
         mk_option ''json'' ''json'', mk_option ''form'' ''form'', mk_option ''text'' ''text'']\<rparr>,
       mk_property ''body'' ''Body'' PJson JNull,
       mk_property ''timeout'' ''Timeout (s)'' PNumber (JFloat 30),
       (mk_property ''response_format'' ''Response format'' POptions (JStr ''json''))\<lparr>prop_options := Some [mk_option ''json'' ''json'',
         mk_option ''text'' ''text'']\<rparr>]\<rparr>"

definition if_spec :: node_spec where
  "if_spec =
   (mk_spec ''weftlyflow.if'' 1 ''If''
     ''Route items to true/false based on a predicate.'' ''icons/if.svg'' CatCore)\<lparr>spec_group := [''logic''],
     spec_inputs := [mk_port ''main''],
     spec_outputs := [mk_port ''true'',
       mk_port ''false''],
     spec_properties :=
      [(mk_property ''field'' ''Field'' PString JNull)\<lparr>prop_required := True,
        prop_description := Some (''Dotted path evaluated against each item'' @ [CHR 0x27]
        @ ''s JSON payload.''), prop_placeholder := Some ''user.age''\<rparr>,
       (mk_property ''operator'' ''Operator'' POptions (JStr ''equals''))\<lparr>prop_required := True,
         prop_options := Some OPERATOR_OPTIONS\<rparr>,
       (mk_property ''value'' ''Value'' PString JNull)\<lparr>prop_description := Some ''Right-hand side for binary operators.''\<rparr>,
       (mk_property ''combine_mode'' ''Combine conditions'' POptions (JStr ''all''))\<lparr>prop_options := Some [mk_option ''all'' ''All (AND)'',
         mk_option ''any'' ''Any (OR)'']\<rparr>]\<rparr>"

definition manual_trigger_spec :: node_spec where
  "manual_trigger_spec =
   (mk_spec ''weftlyflow.manual_trigger'' 1 ''Manual Trigger''
     ''Start the workflow on demand from the editor or the API.'' ''icons/manual-trigger.svg'' CatTrigger)\<lparr>spec_group := [''trigger''],
     spec_inputs := [],
     spec_outputs := [mk_port ''main'']\<rparr>"

definition merge_spec :: node_spec where
  "merge_spec =
   (mk_spec ''weftlyflow.merge'' 1 ''Merge''
     ''Combine items from two inputs (append, zip by position, or join by key).'' ''icons/merge.svg'' CatCore)\<lparr>spec_group := [''logic''],
     spec_inputs := [(mk_port ''main'')\<lparr>port_index := 0, port_display_name := Some ''Input A''\<rparr>,
       (mk_port ''input_2'')\<lparr>port_index := 1, port_display_name := Some ''Input B''\<rparr>],
     spec_outputs := [mk_port ''main''],
     spec_properties :=
      [(mk_property ''mode'' ''Mode'' POptions (JStr ''append''))\<lparr>prop_options := Some [mk_option ''append'' ''append'',
        mk_option ''combine_by_position'' ''combine_by_position'',
        mk_option ''combine_by_key'' ''combine_by_key'']\<rparr>,
       (mk_property ''key'' ''Join key'' PString (JStr []))\<lparr>prop_description := Some ''Dotted path evaluated on each item. Required for combine_by_key.''\<rparr>]\<rparr>"

definition no_op_spec :: node_spec where
  "no_op_spec =
   (mk_spec ''weftlyflow.no_op'' 1 ''No Op''
     ''Pass items through unchanged.'' ''icons/no-op.svg'' CatCore)\<lparr>spec_group := [''utility''],
     spec_inputs := [mk_port ''main''],
     spec_outputs := [mk_port ''main'']\<rparr>"

definition read_binary_file_spec :: node_spec where
  "read_binary_file_spec =
   (mk_spec ''weftlyflow.read_binary_file'' 1 ''Read Binary File''
     (''Load a file from disk and attach it to the item'' @ [CHR 0x27]
       @ ''s binary map.'') ''icons/read-binary-file.svg'' CatCore)\<lparr>spec_group := [''files''],
     spec_inputs := [mk_port ''main''],
     spec_outputs := [mk_port ''main''],
     spec_properties :=
      [(mk_property ''path'' ''File path'' PString (JStr []))\<lparr>prop_required := True,
        prop_description := Some ''Absolute path to the file. Supports {{ expressions }}.''\<rparr>,
       (mk_property ''binary_property'' ''Binary property name'' PString (JStr ''data''))\<lparr>prop_description := Some ''Key under item.binary to attach the reference.''\<rparr>]\<rparr>"

definition rename_keys_spec :: node_spec where
  "rename_keys_spec =
   (mk_spec ''weftlyflow.rename_keys'' 1 ''Rename Keys''
     (''Rename keys in each item'' @ [CHR 0x27]
       @ ''s JSON payload using dotted paths.'') ''icons/rename-keys.svg'' CatCore)\<lparr>spec_group := [''transform''],
     spec_inputs := [mk_port ''main''],
     spec_outputs := [mk_port ''main''],
     spec_properties :=
      [(mk_property ''mappings'' ''Mappings'' PJson (JArr []))\<lparr>prop_description := Some (''List of `{''
        @ [CHR 0x22] @ ''from'' @ [CHR 0x22] @ '': '' @ [CHR 0x22] @ ''user.firstName'' @ [CHR 0x22] @ '', ''
        @ [CHR 0x22] @ ''to'' @ [CHR 0x22] @ '': '' @ [CHR 0x22] @ ''user.first_name'' @ [CHR 0x22]
        @ ''}`. Paths are dotted, same as the If/Set nodes.'')\<rparr>,
       (mk_property ''drop_missing'' ''Skip missing source keys'' PBoolean (JBool True))\<lparr>prop_description := Some ''When True, renaming a missing key is a no-op. When False, the node raises on missing source keys.''\<rparr>]\<rparr>"

definition schedule_trigger_spec :: node_spec where
  "schedule_trigger_spec =
   (mk_spec ''weftlyflow.schedule_trigger'' 1 ''Schedule Trigger''
     ''Start the workflow on a cron expression or fixed interval.'' ''icons/schedule-trigger.svg'' CatTrigger)\<lparr>spec_group := [''trigger''],
     spec_inputs := [],
     spec_outputs := [mk_port ''main''],
     spec_properties :=
      [(mk_property ''kind'' ''Schedule kind'' POptions (JStr ''interval''))\<lparr>prop_required := True,
        prop_options := Some [mk_option ''cron'' ''cron'', mk_option ''interval'' ''interval'']\<rparr>,
       (mk_property ''cron_expression'' ''Cron expression'' PString (JStr []))\<lparr>prop_description := Some ''Standard 5-field cron. Required when kind == cron.''\<rparr>,
       (mk_property ''interval_seconds'' ''Interval (seconds)'' PNumber (JInt 60))\<lparr>prop_description := Some ''Run every N seconds. Required when kind == interval.''\<rparr>,
       (mk_property ''timezone'' ''Timezone'' PString (JStr ''UTC''))\<lparr>prop_description := Some ''IANA tz name. Defaults to UTC.''\<rparr>]\<rparr>"

definition set_spec :: node_spec where
  "set_spec =
   (mk_spec ''weftlyflow.set'' 1 ''Set''
     ''Add, overwrite, or remove fields on items.'' ''icons/set.svg'' CatCore)\<lparr>spec_group := [''transform''],
     spec_inputs := [mk_port ''main''],
     spec_outputs := [mk_port ''main''],
     spec_properties :=
      [(mk_property ''assignments'' ''Fields to set'' PFixedCollection (JArr []))\<lparr>prop_description := Some ''Each entry: {name: <dotted path>, value: <any>}.''\<rparr>,
       (mk_property ''removals'' ''Fields to remove'' PMultiOptions (JArr []))\<lparr>prop_description := Some ''List of dotted paths to delete from every item.''\<rparr>,
       (mk_property ''keep_only_set'' ''Keep only fields set here'' PBoolean (JBool False))\<lparr>prop_description := Some (''Start from {} instead of copying the item''
         @ [CHR 0x27] @ ''s json.'')\<rparr>]\<rparr>"

definition split_in_batches_spec :: node_spec where
  "split_in_batches_spec =
   (mk_spec ''weftlyflow.split_in_batches'' 1 ''Split In Batches''
     ''Iterate a list of items in fixed-size chunks across invocations.'' ''icons/split-in-batches.svg'' CatCore)\<lparr>spec_group := [''logic''],
     spec_inputs := [mk_port ''main''],
     spec_outputs := [(mk_port ''batch'')\<lparr>port_index := 0, port_display_name := Some ''Batch''\<rparr>,
       (mk_port ''done'')\<lparr>port_index := 1, port_display_name := Some ''Done''\<rparr>],
     spec_properties :=
      [(mk_property ''batch_size'' ''Batch size'' PNumber (JInt 10))\<lparr>prop_required := True,
        prop_description := Some (''Number of items to emit per call on the '' @ [CHR 0x27] @ ''batch''
        @ [CHR 0x27] @ '' port.'')\<rparr>,
       (mk_property ''reset'' ''Reset cursor'' PBoolean (JBool False))\<lparr>prop_description := Some ''Start the iteration from the beginning of the input list.''\<rparr>]\<rparr>"

definition stop_and_error_spec :: node_spec where
  "stop_and_error_spec =
   (mk_spec ''weftlyflow.stop_and_error'' 1 ''Stop & Error''
     ''Halt the execution with a configurable error message.'' ''icons/stop.svg'' CatCore)\<lparr>spec_group := [''logic''],
     spec_inputs := [mk_port ''main''],
     spec_outputs := [],
     spec_properties :=
      [(mk_property ''message'' ''Message'' PExpression (JStr ''Workflow stopped by Stop & Error node.''))\<lparr>prop_required := True\<rparr>,
       mk_property ''code'' ''Error code'' PString (JStr ''stop_and_error'')]\<rparr>"

definition switch_spec :: node_spec where
  "switch_spec =
   (mk_spec ''weftlyflow.switch'' 1 ''Switch''
     ''Route items to one of several output ports based on a field value.'' ''icons/switch.svg'' CatCore)\<lparr>spec_group := [''logic''],
     spec_inputs := [mk_port ''main''],
     spec_outputs := [(mk_port ''case_1'')\<lparr>port_index := 1\<rparr>,
       (mk_port ''case_2'')\<lparr>port_index := 2\<rparr>,
       (mk_port ''case_3'')\<lparr>port_index := 3\<rparr>,
       (mk_port ''case_4'')\<lparr>port_index := 4\<rparr>,
       (mk_port ''case_5'')\<lparr>port_index := 5\<rparr>,
       (mk_port ''case_6'')\<lparr>port_index := 6\<rparr>,
       (mk_port ''default'')\<lparr>port_index := 6\<rparr>],
     spec_properties :=
      [(mk_property ''field'' ''Field'' PString JNull)\<lparr>prop_required := True,
        prop_placeholder := Some ''status''\<rparr>,
       (mk_property ''cases'' ''Cases'' PJson (JArr []))\<lparr>prop_description := Some (''List of `{''
         @ [CHR 0x22] @ ''value'' @ [CHR 0x22] @ '': ..., '' @ [CHR 0x22] @ ''port'' @ [CHR 0x22] @ '': ''
         @ [CHR 0x22] @ ''case_1'' @ [CHR 0x22]
         @ ''}`. Items matching the first case flow through its port.'')\<rparr>,
       mk_property ''fallback_port'' ''Fallback port'' PString (JStr ''default'')]\<rparr>"

definition transform_spec :: node_spec where
  "transform_spec =
   (mk_spec ''weftlyflow.transform'' 1 ''Transform''
     ''Compute new fields per item using {{ expressions }}.'' ''icons/transform.svg'' CatCore)\<lparr>spec_group := [''transform''],
     spec_inputs := [mk_port ''main''],
     spec_outputs := [mk_port ''main''],
     spec_properties :=
      [(mk_property ''assignments'' ''Assignments'' PFixedCollection (JArr []))\<lparr>prop_description := Some (''List of `{''
        @ [CHR 0x22] @ ''name'' @ [CHR 0x22] @ '': '' @ [CHR 0x22] @ ''user.upper'' @ [CHR 0x22] @ '', ''
        @ [CHR 0x22] @ ''value'' @ [CHR 0x22] @ '': '' @ [CHR 0x22] @ ''{{ $json.name.upper() }}'' @ [CHR 0x22]
        @ ''}`. Expressions are re-evaluated per item.'')\<rparr>,
       (mk_property ''mode'' ''Mode'' POptions (JStr ''merge''))\<lparr>prop_description := Some ([CHR 0x27]
         @ ''merge'' @ [CHR 0x27] @ '' keeps existing fields, '' @ [CHR 0x27] @ ''replace'' @ [CHR 0x27]
         @ '' emits only the computed fields.''), prop_options := Some [mk_option ''merge'' ''Merge'',
         mk_option ''replace'' ''Replace'']\<rparr>]\<rparr>"

definition wait_spec :: node_spec where
  "wait_spec =
   (mk_spec ''weftlyflow.wait'' 1 ''Wait''
     ''Pause execution for a duration or until a given datetime.'' ''icons/wait.svg'' CatCore)\<lparr>spec_group := [''logic''],
     spec_inputs := [mk_port ''main''],
     spec_outputs := [mk_port ''main''],
     spec_properties :=
      [(mk_property ''mode'' ''Mode'' POptions (JStr ''duration''))\<lparr>prop_options := Some [mk_option ''duration'' ''Duration'',
        mk_option ''until'' ''Until datetime'']\<rparr>,
       (mk_property ''seconds'' ''Seconds'' PNumber (JFloat 1))\<lparr>prop_description := Some ''Duration to wait when mode=duration.''\<rparr>,
       (mk_property ''until_datetime'' ''Until datetime (ISO-8601)'' PString (JStr []))\<lparr>prop_description := Some ''Absolute time to wait until when mode=until.''\<rparr>]\<rparr>"

definition webhook_trigger_spec :: node_spec where
  "webhook_trigger_spec =
   (mk_spec ''weftlyflow.webhook_trigger'' 1 ''Webhook Trigger''
     ''Start the workflow when an HTTP request arrives at the registered path.'' ''icons/webhook-trigger.svg'' CatTrigger)\<lparr>spec_group := [''trigger''],
     spec_inputs := [],
     spec_outputs := [mk_port ''main''],
     spec_properties :=
      [(mk_property ''path'' ''Path'' PString (JStr []))\<lparr>prop_description := Some ''Path suffix this trigger listens on. Leave empty to use the workflow/node id.''\<rparr>,
       (mk_property ''method'' ''HTTP Method'' POptions (JStr ''POST''))\<lparr>prop_required := True,
         prop_options := Some [mk_option ''GET'' ''GET'', mk_option ''POST'' ''POST'',
         mk_option ''PUT'' ''PUT'', mk_option ''PATCH'' ''PATCH'', mk_option ''DELETE'' ''DELETE'',
         mk_option ''HEAD'' ''HEAD'', mk_option ''OPTIONS'' ''OPTIONS'']\<rparr>,
       (mk_property ''response_mode'' ''Response mode'' POptions (JStr ''immediately''))\<lparr>prop_description := Some ''Return 202 immediately, or wait for the workflow to finish.'',
         prop_options := Some [mk_option ''immediately'' ''immediately'',
         mk_option ''when_finished'' ''when_finished'']\<rparr>]\<rparr>"

definition write_binary_file_spec :: node_spec where
  "write_binary_file_spec =
   (mk_spec ''weftlyflow.write_binary_file'' 1 ''Write Binary File''
     ''Copy item.binary bytes to a target path on disk.'' ''icons/write-binary-file.svg'' CatCore)\<lparr>spec_group := [''files''],
     spec_inputs := [mk_port ''main''],
     spec_outputs := [mk_port ''main''],
     spec_properties :=
      [(mk_property ''path'' ''Destination path'' PString (JStr []))\<lparr>prop_required := True,
        prop_description := Some ''Absolute output path. Supports {{ expressions }}.''\<rparr>,
       (mk_property ''binary_property'' ''Binary property name'' PString (JStr ''data''))\<lparr>prop_description := Some ''Key under item.binary to read the source bytes from.''\<rparr>,
       (mk_property ''overwrite'' ''Overwrite'' PBoolean (JBool True))\<lparr>prop_description := Some ''Overwrite the destination if it already exists.''\<rparr>]\<rparr>"

definition xml_parse_spec :: node_spec where
  "xml_parse_spec =
   (mk_spec ''weftlyflow.xml_parse'' 1 ''XML Parse''
     ''Convert an XML string into a JSON-shaped dict.'' ''icons/xml-parse.svg'' CatCore)\<lparr>spec_group := [''transform''],
     spec_inputs := [mk_port ''main''],
     spec_outputs := [mk_port ''main''],
     spec_properties :=
      [(mk_property ''source_path'' ''XML source path'' PString (JStr ''xml''))\<lparr>prop_description := Some ''Dotted path in the item that holds the XML string.''\<rparr>,
       (mk_property ''destination_path'' ''Destination path'' PString (JStr ''parsed''))\<lparr>prop_description := Some ''Dotted path where the parsed dict is written.''\<rparr>]\<rparr>"

definition core_catalog :: "node_spec list" where
  "core_catalog =
     [code_spec, compare_datasets_spec, datetime_ops_spec, evaluate_expression_spec,
      execution_data_spec, filter_spec, function_call_spec, html_parse_spec,
      http_request_spec, if_spec, manual_trigger_spec, merge_spec,
      no_op_spec, read_binary_file_spec, rename_keys_spec, schedule_trigger_spec,
      set_spec, split_in_batches_spec, stop_and_error_spec, switch_spec,
      transform_spec, wait_spec, webhook_trigger_spec, write_binary_file_spec,
      xml_parse_spec]"

lemmas core_spec_defs =
  code_spec_def compare_datasets_spec_def datetime_ops_spec_def evaluate_expression_spec_def
  execution_data_spec_def filter_spec_def function_call_spec_def html_parse_spec_def
  http_request_spec_def if_spec_def manual_trigger_spec_def merge_spec_def
  no_op_spec_def read_binary_file_spec_def rename_keys_spec_def schedule_trigger_spec_def
  set_spec_def split_in_batches_spec_def stop_and_error_spec_def switch_spec_def
  transform_spec_def wait_spec_def webhook_trigger_spec_def write_binary_file_spec_def
  xml_parse_spec_def

section \<open>Well-formedness of the catalogue\<close>

lemma core_specs_ok: "list_all spec_ok core_catalog"
  by code_simp

lemma core_catalog_names:
  "map short_key core_catalog =
     [''code'', ''compare_datasets'', ''datetime_ops'', ''evaluate_expression'', ''execution_data'',
         ''filter'', ''function_call'', ''html_parse'', ''http_request'', ''if'', ''manual_trigger'',
         ''merge'', ''no_op'', ''read_binary_file'', ''rename_keys'', ''schedule_trigger'', ''set'',
         ''split_in_batches'', ''stop_and_error'', ''switch'', ''transform'', ''wait'', ''webhook_trigger'',
         ''write_binary_file'', ''xml_parse'']"
  by code_simp

lemma core_catalog_slots:
  "concat (map slot_slugs core_catalog) =
     [''weftlyflow.bearer_token'', ''weftlyflow.basic_auth'', ''weftlyflow.api_key_header'',
         ''weftlyflow.api_key_query'', ''weftlyflow.oauth2_generic'']"
  by code_simp

lemma core_catalog_length: "length core_catalog = 25"
  by (simp add: core_catalog_def)

end
