(* ===== verification/Core_Nodes.thy ===== *)
theory Core_Nodes
  imports Core_Specs Paths Predicates Executor
begin

text \<open>
  The data-flow nodes of the core tier, \<open>nodes/core/*/node.py\<close>: what \<open>execute\<close> returns for
  filter, if, switch, merge, set, rename keys, transform, split in batches, compare
  datasets, evaluate expression, execution data, function call, stop and error, no-op,
  manual trigger and webhook trigger, each with the helpers of its module. Values are
  immutable here: a node that stores a parameter value in several items stores copies.
\<close>

section \<open>Shared helpers\<close>

text \<open>\<open>str(v)\<close> in the process of the context.\<close>

definition ctx_str :: "exec_ctx \<Rightarrow> json \<Rightarrow> string" where
  "ctx_str ctx v = py_str (float_repr (ctx_process ctx)) v"

definition str_param :: "exec_ctx \<Rightarrow> string \<Rightarrow> json \<Rightarrow> string" where
  "str_param ctx name dflt = ctx_str ctx (ctx_param ctx name dflt)"

definition bool_param :: "exec_ctx \<Rightarrow> string \<Rightarrow> bool \<Rightarrow> bool" where
  "bool_param ctx name dflt = py_bool (ctx_param ctx name (JBool dflt))"

text \<open>A class whose \<open>execute\<close> does not touch the static data.\<close>

type_synonym node_execute = "exec_ctx \<Rightarrow> item list \<Rightarrow> item list list result"

definition pure_execute :: "node_execute \<Rightarrow> exec_ctx \<Rightarrow> item list \<Rightarrow> item list list result \<times> jobj" where
  "pure_execute f ctx items = (f ctx items, ctx_static_data ctx)"

definition node_repr :: "exec_ctx \<Rightarrow> json \<Rightarrow> string" where
  "node_repr ctx v = py_repr (float_repr (ctx_process ctx)) v"

definition is_operator :: "json \<Rightarrow> bool" where
  "is_operator v = (case v of JStr s \<Rightarrow> s \<in> set PREDICATE_OPERATORS | _ \<Rightarrow> False)"

text \<open>\<open>evaluate_predicate\<close> on an operator parameter that may be any value.\<close>

definition predicate_param :: "exec_ctx \<Rightarrow> json \<Rightarrow> json \<Rightarrow> json \<Rightarrow> bool result" where
  "predicate_param ctx left operator right =
     (case operator of
        JStr s \<Rightarrow> evaluate_predicate left s right
      | v \<Rightarrow> raise ValueError (''unknown predicate operator: '' @ node_repr ctx v))"

section \<open>Filter\<close>

definition is_expression_error :: "exn_class \<Rightarrow> bool" where
  "is_expression_error c \<longleftrightarrow>
     c \<in> {ExpressionSyntaxError, ExpressionEvalError, ExpressionTimeoutError, ExpressionSecurityError}"

definition filter_keeps :: "exec_ctx \<Rightarrow> string \<Rightarrow> string \<Rightarrow> json \<Rightarrow> json \<Rightarrow> bool \<Rightarrow> item \<Rightarrow> bool result" where
  "filter_keeps ctx expression field operator right keep_on_error it =
     (case (if expression \<noteq> []
            then rbind (resolved_param ctx ''expression'' JNull (Some it)) (\<lambda>v. Inr (py_bool v))
            else rbind (get_path (item_json it) field JNull) (\<lambda>left. predicate_param ctx left operator right)) of
        Inl e \<Rightarrow> if is_expression_error (exn_cls e) then Inr keep_on_error else Inl e
      | Inr b \<Rightarrow> Inr b)"

text \<open>The items whose test returns true; the first exception stops the loop.\<close>

fun rfilter :: "('a \<Rightarrow> bool result) \<Rightarrow> 'a list \<Rightarrow> 'a list result" where
  "rfilter p [] = Inr []"
| "rfilter p (x # xs) = rbind (p x) (\<lambda>b. rbind (rfilter p xs) (\<lambda>ys. Inr (if b then x # ys else ys)))"

definition filter_execute :: node_execute where
  "filter_execute ctx items =
     (let expression = py_strip (str_param ctx ''expression'' (JStr []));
          field = py_strip (str_param ctx ''field'' (JStr []));
          operator = ctx_param ctx ''operator'' (JStr ''equals'');
          right = ctx_param ctx ''value'' JNull;
          keep_on_error = bool_param ctx ''keep_on_error'' False in
      if expression = [] \<and> field = []
      then raise ValueError (''Filter node requires either '' @ repr_str ''expression'' @ '' or ''
             @ repr_str ''field'' @ '' to be set'')
      else if expression = [] \<and> \<not> is_operator operator
      then raise ValueError (''Filter node received unknown operator: '' @ node_repr ctx operator)
      else rbind (rfilter (filter_keeps ctx expression field operator right keep_on_error) items)
             (\<lambda>kept. Inr [kept]))"

section \<open>If\<close>

fun rpartition :: "('a \<Rightarrow> bool result) \<Rightarrow> 'a list \<Rightarrow> ('a list \<times> 'a list) result" where
  "rpartition p [] = Inr ([], [])"
| "rpartition p (x # xs) = rbind (p x) (\<lambda>b. rbind (rpartition p xs) (\<lambda>(ts, fs).
     Inr (if b then (x # ts, fs) else (ts, x # fs))))"

definition if_execute :: node_execute where
  "if_execute ctx items =
     (let field = str_param ctx ''field'' (JStr []);
          operator = ctx_param ctx ''operator'' (JStr ''equals'');
          right = ctx_param ctx ''value'' JNull in
      if field = []
      then raise ValueError (''If node requires a non-empty '' @ repr_str ''field'' @ '' parameter'')
      else if \<not> is_operator operator
      then raise ValueError (''If node received unknown operator: '' @ node_repr ctx operator)
      else rbind (rpartition (\<lambda>it. rbind (get_path (item_json it) field JNull) (\<lambda>left.
                    predicate_param ctx left operator right)) items)
             (\<lambda>(true_items, false_items). Inr [true_items, false_items]))"

section \<open>Switch\<close>

definition coerce_cases :: "json \<Rightarrow> (json \<times> string) list" where
  "coerce_cases raw =
     (case raw of
        JArr entries \<Rightarrow> concat (map (\<lambda>entry.
          case entry of
            JObj d \<Rightarrow> (case map_of d ''port'' of
                Some (JStr prt) \<Rightarrow> [(dict_get d ''value'' JNull, prt)]
              | _ \<Rightarrow> [])
          | _ \<Rightarrow> []) entries)
      | _ \<Rightarrow> [])"

definition values_match :: "exec_ctx \<Rightarrow> json \<Rightarrow> json \<Rightarrow> bool" where
  "values_match ctx left right \<longleftrightarrow>
     py_eq left right \<or> (is_str left \<noteq> is_str right \<and> ctx_str ctx left = ctx_str ctx right)"

fun switch_target :: "exec_ctx \<Rightarrow> string list \<Rightarrow> string \<Rightarrow> json \<Rightarrow> (json \<times> string) list \<Rightarrow> string result" where
  "switch_target ctx known fallback left [] = Inr fallback"
| "switch_target ctx known fallback left ((v, prt) # cases) =
     (if prt \<notin> set known
      then raise ValueError (''Switch case references unknown port '' @ repr_str prt)
      else if values_match ctx left v then Inr prt
      else switch_target ctx known fallback left cases)"

definition switch_execute :: node_execute where
  "switch_execute ctx items =
     (let field = py_strip (str_param ctx ''field'' (JStr [])) in
      if field = []
      then raise ValueError (''Switch node requires a non-empty '' @ repr_str ''field'' @ '' parameter'')
      else
        (let cases = coerce_cases (ctx_param ctx ''cases'' (JArr []));
             fallback = str_param ctx ''fallback_port'' (JStr ''default'');
             known_ports = map port_name (spec_outputs switch_spec) in
         if fallback \<notin> set known_ports
         then raise ValueError (''Switch fallback_port '' @ repr_str fallback @ '' is not a declared output'')
         else
           rbind (rfold (\<lambda>buckets it.
                    rbind (get_path (item_json it) field JNull) (\<lambda>left.
                    rbind (switch_target ctx known_ports fallback left cases) (\<lambda>target.
                      Inr (bucket_append target it buckets))))
                  (map (\<lambda>name. (name, [])) known_ports) items)
             (\<lambda>buckets. Inr (map (\<lambda>name. dict_get buckets name []) known_ports))))"

section \<open>Merge\<close>

definition INPUT_B :: string where "INPUT_B = ''input_2''"

text \<open>\<open>_hashable\<close>, and the identity of the result as a dictionary key.\<close>

definition hashable :: "exec_ctx \<Rightarrow> json \<Rightarrow> json" where
  "hashable ctx v = (if is_arr v \<or> is_obj v then JStr (json_dumps (float_repr (ctx_process ctx)) v) else v)"

datatype dict_key = NoneKey | NumKey rat | StrKey string

fun key_of :: "json \<Rightarrow> dict_key" where
  "key_of (JStr s) = StrKey s"
| "key_of (JBool b) = NumKey (if b then 1 else 0)"
| "key_of (JInt i) = NumKey (of_int i)"
| "key_of (JFloat q) = NumKey q"
| "key_of _ = NoneKey"

definition join_key :: "exec_ctx \<Rightarrow> string \<Rightarrow> item \<Rightarrow> dict_key result" where
  "join_key ctx key it = rbind (get_path (item_json it) key JNull) (\<lambda>v. Inr (key_of (hashable ctx v)))"

definition merge_items :: "item \<Rightarrow> item \<Rightarrow> item" where
  "merge_items l r = mk_item (dict_merge (item_json l) (item_json r))"

definition combine_by_position :: "item list \<Rightarrow> item list \<Rightarrow> item list" where
  "combine_by_position left right =
     map (\<lambda>i. merge_items (left ! i) (right ! i)) [0..<min (length left) (length right)]"

definition combine_by_key :: "exec_ctx \<Rightarrow> item list \<Rightarrow> item list \<Rightarrow> string \<Rightarrow> item list result" where
  "combine_by_key ctx left right key =
     rbind (rfold (\<lambda>index it. rbind (join_key ctx key it) (\<lambda>k. Inr (bucket_append k it index))) [] right)
       (\<lambda>index. rbind (rmap (\<lambda>l. rbind (join_key ctx key l) (\<lambda>needle.
                   Inr (map (merge_items l) (dict_get index needle [])))) left)
                 (\<lambda>rows. Inr (concat rows)))"

definition MERGE_MODES :: "string list" where
  "MERGE_MODES = [''append'', ''combine_by_position'', ''combine_by_key'']"

definition merge_execute :: node_execute where
  "merge_execute ctx items =
     (let mode = str_param ctx ''mode'' (JStr ''append'') in
      if mode \<notin> set MERGE_MODES
      then raise ValueError (''Merge node received unknown mode '' @ repr_str mode)
      else
        (let left = get_input ctx MAIN_PORT; right = get_input ctx INPUT_B in
         if mode = ''append'' then Inr [left @ right]
         else if mode = ''combine_by_position'' then Inr [combine_by_position left right]
         else
           (let key = py_strip (str_param ctx ''key'' (JStr [])) in
            if key = []
            then raise ValueError (''Merge node requires '' @ repr_str ''key'' @ '' for combine_by_key mode'')
            else rbind (combine_by_key ctx left right key) (\<lambda>out. Inr [out]))))"

section \<open>Compare datasets\<close>

definition index_by_key :: "exec_ctx \<Rightarrow> string \<Rightarrow> item list \<Rightarrow> (dict_key, item) dict result" where
  "index_by_key ctx key items =
     rfold (\<lambda>index it. rbind (join_key ctx key it) (\<lambda>k. Inr (dict_set k it index))) [] items"

definition compare_indices :: "(dict_key, item) dict \<Rightarrow> (dict_key, item) dict \<Rightarrow> item list list" where
  "compare_indices left_index right_index =
     (let a_only = map snd (filter (\<lambda>(k, _). map_of right_index k = None) left_index);
          both = concat (map (\<lambda>(k, l). case map_of right_index k of None \<Rightarrow> [] | Some r \<Rightarrow> [(l, r)]) left_index);
          same = map fst (filter (\<lambda>(l, r). py_eq (JObj (item_json l)) (JObj (item_json r))) both);
          diff = map (\<lambda>(l, r). mk_item [(''a'', JObj (item_json l)), (''b'', JObj (item_json r))])
                   (filter (\<lambda>(l, r). \<not> py_eq (JObj (item_json l)) (JObj (item_json r))) both);
          b_only = map snd (filter (\<lambda>(k, _). map_of left_index k = None) right_index)
      in [a_only, b_only, same, diff])"

definition compare_datasets_execute :: node_execute where
  "compare_datasets_execute ctx items =
     (let key = py_strip (str_param ctx ''key'' (JStr [])) in
      if key = []
      then raise ValueError (''Compare Datasets: '' @ repr_str ''key'' @ '' is required'')
      else
        rbind (index_by_key ctx key (get_input ctx MAIN_PORT)) (\<lambda>left_index.
        rbind (index_by_key ctx key (get_input ctx INPUT_B)) (\<lambda>right_index.
          Inr (compare_indices left_index right_index))))"

section \<open>Set\<close>

definition coerce_assignments :: "json \<Rightarrow> (string \<times> json) list" where
  "coerce_assignments raw =
     (case raw of
        JArr entries \<Rightarrow> concat (map (\<lambda>entry.
          case entry of
            JObj d \<Rightarrow> (case map_of d ''name'' of
                Some (JStr name) \<Rightarrow> if name = [] then [] else [(name, dict_get d ''value'' JNull)]
              | _ \<Rightarrow> [])
          | _ \<Rightarrow> []) entries)
      | _ \<Rightarrow> [])"

definition coerce_removals :: "json \<Rightarrow> string list" where
  "coerce_removals raw =
     (case raw of
        JArr entries \<Rightarrow> concat (map (\<lambda>entry.
          case entry of JStr path \<Rightarrow> if path = [] then [] else [path] | _ \<Rightarrow> []) entries)
      | _ \<Rightarrow> [])"

definition set_apply :: "item \<Rightarrow> (string \<times> json) list \<Rightarrow> string list \<Rightarrow> bool \<Rightarrow> item result" where
  "set_apply it assignments removals keep_only =
     rbind (rfold (\<lambda>base (name, v). set_path base name v) (if keep_only then [] else item_json it) assignments)
       (\<lambda>base. rbind (rfold (\<lambda>base path. rbind (del_path base path) (\<lambda>(_, base'). Inr base')) base removals)
          (\<lambda>base'. Inr (it\<lparr>item_json := base'\<rparr>)))"

definition set_execute :: node_execute where
  "set_execute ctx items =
     (let assignments = coerce_assignments (ctx_param ctx ''assignments'' (JArr []));
          removals = coerce_removals (ctx_param ctx ''removals'' (JArr []));
          keep_only = bool_param ctx ''keep_only_set'' False in
      rbind (rmap (\<lambda>it. set_apply it assignments removals keep_only) items) (\<lambda>out. Inr [out]))"

section \<open>Rename keys\<close>

definition coerce_mappings :: "json \<Rightarrow> (string \<times> string) list" where
  "coerce_mappings raw =
     (case raw of
        JArr entries \<Rightarrow> concat (map (\<lambda>entry.
          case entry of
            JObj d \<Rightarrow> (case (map_of d ''from'', map_of d ''to'') of
                (Some (JStr src), Some (JStr dst)) \<Rightarrow> if src \<noteq> [] \<and> dst \<noteq> [] then [(src, dst)] else []
              | _ \<Rightarrow> [])
          | _ \<Rightarrow> []) entries)
      | _ \<Rightarrow> [])"

definition rename_one :: "bool \<Rightarrow> jobj \<Rightarrow> string \<times> string \<Rightarrow> jobj result" where
  "rename_one drop_missing payload m =
     (let (source, target) = m in
      if source = target then Inr payload
      else rbind (get_path_opt payload source) (\<lambda>found.
        case found of
          None \<Rightarrow>
            if \<not> drop_missing
            then raise KeyError (repr_str (''Rename Keys: missing source key '' @ repr_str source))
            else Inr payload
        | Some v \<Rightarrow>
            rbind (del_path payload source) (\<lambda>(_, payload'). set_path payload' target v)))"

definition rename_keys_execute :: node_execute where
  "rename_keys_execute ctx items =
     (let mappings = coerce_mappings (ctx_param ctx ''mappings'' (JArr []));
          drop_missing = bool_param ctx ''drop_missing'' True in
      if mappings = [] then Inr [items]
      else rbind (rmap (\<lambda>it. rbind (rfold (rename_one drop_missing) (item_json it) mappings)
                     (\<lambda>payload. Inr (it\<lparr>item_json := payload\<rparr>))) items)
             (\<lambda>out. Inr [out]))"

section \<open>Transform\<close>

definition TRANSFORM_MODES :: "string list" where
  "TRANSFORM_MODES = [''merge'', ''replace'']"

text \<open>
  The names come from the filtered list of raw assignments, the values from the unfiltered
  list of resolved ones; both are walked in step.
\<close>

definition transform_one :: "exec_ctx \<Rightarrow> (string \<times> json) list \<Rightarrow> string \<Rightarrow> item \<Rightarrow> item result" where
  "transform_one ctx assignments mode it =
     rbind (resolved_params ctx (Some it)) (\<lambda>resolved.
       let resolved_entries = (case map_of resolved ''assignments'' of Some (JArr es) \<Rightarrow> es | _ \<Rightarrow> []) in
       rbind (rfold (\<lambda>base ((name, _), entry).
                case entry of JObj d \<Rightarrow> set_path base name (dict_get d ''value'' JNull) | _ \<Rightarrow> Inr base)
              (if mode = ''replace'' then [] else item_json it) (zip assignments resolved_entries))
         (\<lambda>base. Inr (it\<lparr>item_json := base\<rparr>)))"

definition transform_execute :: node_execute where
  "transform_execute ctx items =
     (let mode = str_param ctx ''mode'' (JStr ''merge'') in
      if mode \<notin> set TRANSFORM_MODES then raise ValueError (''Transform: unknown mode '' @ repr_str mode)
      else
        (let assignments = coerce_assignments (ctx_param ctx ''assignments'' (JArr [])) in
         if assignments = [] then Inr [items]
         else rbind (rmap (transform_one ctx assignments mode) items) (\<lambda>out. Inr [out])))"

section \<open>Split in batches\<close>

definition batch_state_key :: "string \<Rightarrow> string" where
  "batch_state_key i = ''split_in_batches:'' @ i @ '':cursor''"

definition int_error :: "exec_ctx \<Rightarrow> json \<Rightarrow> 'a result" where
  "int_error ctx v =
     (if is_str v then raise ValueError (''invalid literal for int() with base 10: '' @ node_repr ctx v)
      else raise TypeError (''int() argument must be a string, a bytes-like object or a real number, not ''
             @ repr_str (type_name v)))"

definition coerce_batch_size :: "json \<Rightarrow> int result" where
  "coerce_batch_size raw =
     (case int_of_json raw of
        None \<Rightarrow> raise ValueError (''Split In Batches: '' @ repr_str ''batch_size'' @ '' must be an integer'')
      | Some v \<Rightarrow>
          if v < 1
          then raise ValueError (''Split In Batches: '' @ repr_str ''batch_size'' @ '' must be >= 1'')
          else Inr v)"

text \<open>\<open>xs[i:j]\<close> with Python's rules for negative bounds.\<close>

definition py_bound :: "nat \<Rightarrow> int \<Rightarrow> nat" where
  "py_bound n i = nat (max 0 (min (int n) (if i < 0 then int n + i else i)))"

definition py_slice :: "'a list \<Rightarrow> int \<Rightarrow> int \<Rightarrow> 'a list" where
  "py_slice xs i j = drop (py_bound (length xs) i) (take (py_bound (length xs) j) xs)"

text \<open>
  The cursor is written to the static data before it is read, so the static data changes on
  every path once the batch size is valid. \<open>int()\<close> of a stored cursor that is not a number
  raises.
\<close>

definition split_in_batches_execute :: "exec_ctx \<Rightarrow> item list \<Rightarrow> item list list result \<times> jobj" where
  "split_in_batches_execute ctx items =
     (let sd = ctx_static_data ctx in
      case coerce_batch_size (ctx_param ctx ''batch_size'' (JInt 10)) of
        Inl e \<Rightarrow> (Inl e, sd)
      | Inr batch_size \<Rightarrow>
          (let reset = bool_param ctx ''reset'' False;
               key = batch_state_key (node_id (ctx_node ctx));
               sd1 = (if reset \<or> map_of sd key = None then dict_set key (JInt 0) sd else sd) in
           case int_of_json (dict_get sd1 key JNull) of
             None \<Rightarrow> (int_error ctx (dict_get sd1 key JNull), sd1)
           | Some cursor \<Rightarrow>
               if int (length items) \<le> cursor
               then (Inr [[], items], dict_set key (JInt 0) sd1)
               else (Inr [py_slice items cursor (cursor + batch_size), []],
                     dict_set key (JInt (cursor + batch_size)) sd1)))"

section \<open>Evaluate expression, execution data\<close>

definition seed_items :: "item list \<Rightarrow> item list" where
  "seed_items items = (if items = [] then [mk_item []] else items)"

definition evaluate_expression_execute :: node_execute where
  "evaluate_expression_execute ctx items =
     (let template = str_param ctx ''expression'' (JStr []) in
      if py_strip template = []
      then raise ValueError (''Evaluate Expression: '' @ repr_str ''expression'' @ '' is required'')
      else
        (let raw_field = str_param ctx ''output_field'' (JStr ''result'');
             output_field = (if raw_field = [] then ''result'' else raw_field) in
         rbind (rmap (\<lambda>it.
                  rbind (resolved_param ctx ''expression'' JNull (Some it)) (\<lambda>v.
                  rbind (set_path (item_json it) output_field v) (\<lambda>payload.
                    Inr (it\<lparr>item_json := payload, item_error := None\<rparr>)))) (seed_items items))
           (\<lambda>out. Inr [out])))"

definition execution_meta :: "exec_ctx \<Rightarrow> jobj" where
  "execution_meta ctx = [(''execution_id'', JStr (ctx_execution_id ctx)),
     (''workflow_id'', JStr (wf_id (ctx_workflow ctx))),
     (''project_id'', JStr (project_id (ctx_workflow ctx))),
     (''mode'', JStr (mode_str (ctx_mode ctx)))]"

definition execution_data_execute :: node_execute where
  "execution_data_execute ctx items =
     (let pre = py_strip (str_param ctx ''prefix'' (JStr ''_execution''));
          meta = execution_meta ctx in
      Inr [map (\<lambda>it. it\<lparr>item_json :=
             (if pre \<noteq> [] then dict_set pre (JObj meta) (item_json it)
              else foldl (\<lambda>payload (k, v). dict_setdefault k v payload) (item_json it) meta),
             item_error := None\<rparr>) (seed_items items)])"

section \<open>Function call\<close>

definition FORWARD_MODES :: "string list" where
  "FORWARD_MODES = [''main'', ''none'']"

definition function_call_execute :: node_execute where
  "function_call_execute ctx items =
     (case ctx_sub_workflow_runner ctx of
        None \<Rightarrow> raise ValueError
          (''Function Call: ExecutionContext has no sub_workflow_runner - ''
           @ ''the runtime must wire one before this node can execute.'')
      | Some runner \<Rightarrow>
          rbind (resolved_param ctx ''workflow_id'' JNull None) (\<lambda>raw.
            let workflow_id = py_strip (if py_bool raw then ctx_str ctx raw else []) in
            if workflow_id = []
            then raise ValueError (''Function Call: '' @ repr_str ''workflow_id'' @ '' is required'')
            else
              (let forward = str_param ctx ''forward'' (JStr ''main'') in
               if forward \<notin> set FORWARD_MODES
               then raise ValueError (''Function Call: unknown forward mode '' @ repr_str forward)
               else rbind (runner workflow_id (if forward = ''main'' then items else [])
                             (ctx_execution_id ctx) (project_id (ctx_workflow ctx)))
                      (\<lambda>result. Inr [result]))))"

section \<open>Stop and error, pass-through, triggers\<close>

definition stop_and_error_execute :: node_execute where
  "stop_and_error_execute ctx items =
     rbind (resolved_param ctx ''message'' JNull (Some (if items = [] then mk_item [] else hd items))) (\<lambda>m.
       raise NodeExecutionError (ctx_str ctx m))"

definition no_op_execute :: node_execute where
  "no_op_execute ctx items = Inr [items]"

definition manual_trigger_execute :: node_execute where
  "manual_trigger_execute ctx items = Inr [items]"

definition flatten_request_item :: "item \<Rightarrow> item" where
  "flatten_request_item it =
     (case map_of (item_json it) ''request'' of
        Some (JObj request) \<Rightarrow> it\<lparr>item_json :=
          [(''method'', dict_get request ''method'' JNull), (''path'', dict_get request ''path'' JNull),
           (''headers'', dict_get request ''headers'' (JObj [])), (''query'', dict_get request ''query'' (JObj [])),
           (''query_all'', dict_get request ''query_all'' (JObj [])), (''body'', dict_get request ''body'' JNull)]\<rparr>
      | _ \<Rightarrow> it)"

definition webhook_trigger_execute :: node_execute where
  "webhook_trigger_execute ctx items = Inr [map flatten_request_item items]"

text \<open>\<open>fired_at\<close> is the ISO text of the current time.\<close>

definition schedule_trigger_execute :: "string \<Rightarrow> node_execute" where
  "schedule_trigger_execute fired_at ctx items =
     Inr [[mk_item (if items = [] then [(''fired_at'', JStr fired_at)]
           else [(''fired_at'', JStr fired_at), (''seed'', JArr (map (\<lambda>it. JObj (item_json it)) items))])]]"

section \<open>Node classes\<close>

definition mk_class :: "string \<Rightarrow> node_spec \<Rightarrow> (exec_ctx \<Rightarrow> item list \<Rightarrow> item list list result \<times> jobj) \<Rightarrow> node_class" where
  "mk_class name spec ex = \<lparr>cls_qualname = name, cls_kind = ActionNode, cls_spec = Some spec, cls_execute = ex\<rparr>"

definition core_classes :: "string \<Rightarrow> node_class list" where
  "core_classes fired_at =
     [mk_class ''FilterNode'' filter_spec (pure_execute filter_execute),
      mk_class ''IfNode'' if_spec (pure_execute if_execute),
      mk_class ''SwitchNode'' switch_spec (pure_execute switch_execute),
      mk_class ''MergeNode'' merge_spec (pure_execute merge_execute),
      mk_class ''CompareDatasetsNode'' compare_datasets_spec (pure_execute compare_datasets_execute),
      mk_class ''SetNode'' set_spec (pure_execute set_execute),
      mk_class ''RenameKeysNode'' rename_keys_spec (pure_execute rename_keys_execute),
      mk_class ''TransformNode'' transform_spec (pure_execute transform_execute),
      mk_class ''SplitInBatchesNode'' split_in_batches_spec split_in_batches_execute,
      mk_class ''EvaluateExpressionNode'' evaluate_expression_spec (pure_execute evaluate_expression_execute),
      mk_class ''ExecutionDataNode'' execution_data_spec (pure_execute execution_data_execute),
      mk_class ''FunctionCallNode'' function_call_spec (pure_execute function_call_execute),
      mk_class ''StopAndErrorNode'' stop_and_error_spec (pure_execute stop_and_error_execute),
      mk_class ''NoOpNode'' no_op_spec (pure_execute no_op_execute),
      mk_class ''ManualTriggerNode'' manual_trigger_spec (pure_execute manual_trigger_execute),
      mk_class ''WebhookTriggerNode'' webhook_trigger_spec (pure_execute webhook_trigger_execute),
      mk_class ''ScheduleTriggerNode'' schedule_trigger_spec (pure_execute (schedule_trigger_execute fired_at))]"

end
