(* ===== verification/Core_Nodes_Props.thy ===== *)
theory Core_Nodes_Props
  imports Core_Nodes Executor_Props "HOL-Library.Multiset"
begin

text \<open>
  Correctness of the core nodes: the contract every node class has with the engine (one list
  of items per declared output port), and what the routing, joining, editing and batching
  nodes compute.
\<close>

section \<open>The contract between nodes and the engine\<close>

text \<open>
  The engine routes the list at position \<open>k\<close> of a node's output along the edges with source
  index \<open>k\<close>. A node keeps its side when it returns one list per declared output port.
\<close>

locale node_contract =
  fixes spec :: node_spec
    and execute :: "exec_ctx \<Rightarrow> item list \<Rightarrow> item list list result \<times> jobj"
  assumes one_list_per_port: "fst (execute ctx items) = Inr outs \<Longrightarrow> length outs = length (spec_outputs spec)"
begin

lemma undeclared_port_empty:
  assumes "fst (execute ctx items) = Inr outs" and "\<not> (0 \<le> k \<and> k < int (length (spec_outputs spec)))"
  shows "items_for_source_index outs k = []"
  using assms one_list_per_port [OF assms(1)] by (auto simp: items_for_source_index_def)

lemma declared_port_delivered:
  assumes "fst (execute ctx items) = Inr outs" and "0 \<le> k" "k < int (length (spec_outputs spec))"
  shows "nat k < length outs \<and> items_for_source_index outs k = outs ! nat k"
  using assms one_list_per_port [OF assms(1)] by (simp add: items_for_source_index_def nat_less_iff)

end

lemmas spec_shape = core_spec_defs mk_spec_def

lemma one_output_contract:
  assumes "\<And>ctx items outs. f ctx items = Inr outs \<Longrightarrow> length outs = length (spec_outputs spec)"
  shows "node_contract spec (pure_execute f)"
  using assms by unfold_locales (auto simp: pure_execute_def)

interpretation filter_node: node_contract filter_spec "pure_execute filter_execute"
  by (rule one_output_contract)
     (auto simp: filter_execute_def Let_def filter_spec_def mk_spec_def rbind_eq_Inr split: if_splits)

interpretation if_node: node_contract if_spec "pure_execute if_execute"
  by (rule one_output_contract)
     (auto simp: if_execute_def Let_def if_spec_def mk_spec_def rbind_eq_Inr split: if_splits)

interpretation switch_node: node_contract switch_spec "pure_execute switch_execute"
  by (rule one_output_contract)
     (auto simp: switch_execute_def Let_def rbind_eq_Inr split: if_splits)

interpretation merge_node: node_contract merge_spec "pure_execute merge_execute"
  by (rule one_output_contract)
     (auto simp: merge_execute_def Let_def merge_spec_def mk_spec_def rbind_eq_Inr split: if_splits)

interpretation compare_datasets_node: node_contract compare_datasets_spec "pure_execute compare_datasets_execute"
  by (rule one_output_contract)
     (auto simp: compare_datasets_execute_def compare_indices_def Let_def compare_datasets_spec_def
       mk_spec_def rbind_eq_Inr split: if_splits)

interpretation set_node: node_contract set_spec "pure_execute set_execute"
  by (rule one_output_contract) (auto simp: set_execute_def Let_def set_spec_def mk_spec_def rbind_eq_Inr)

interpretation rename_keys_node: node_contract rename_keys_spec "pure_execute rename_keys_execute"
  by (rule one_output_contract)
     (auto simp: rename_keys_execute_def Let_def rename_keys_spec_def mk_spec_def rbind_eq_Inr split: if_splits)

interpretation transform_node: node_contract transform_spec "pure_execute transform_execute"
  by (rule one_output_contract)
     (auto simp: transform_execute_def Let_def transform_spec_def mk_spec_def rbind_eq_Inr split: if_splits)

interpretation split_in_batches_node: node_contract split_in_batches_spec split_in_batches_execute
  by unfold_locales
     (auto simp: split_in_batches_execute_def Let_def split_in_batches_spec_def mk_spec_def int_error_def
       split: sum.splits option.splits if_splits)

interpretation evaluate_expression_node: node_contract evaluate_expression_spec "pure_execute evaluate_expression_execute"
  by (rule one_output_contract)
     (auto simp: evaluate_expression_execute_def Let_def evaluate_expression_spec_def mk_spec_def rbind_eq_Inr
       split: if_splits)

interpretation execution_data_node: node_contract execution_data_spec "pure_execute execution_data_execute"
  by (rule one_output_contract)
     (auto simp: execution_data_execute_def Let_def execution_data_spec_def mk_spec_def)

interpretation function_call_node: node_contract function_call_spec "pure_execute function_call_execute"
  by (rule one_output_contract)
     (auto simp: function_call_execute_def Let_def function_call_spec_def mk_spec_def rbind_eq_Inr
       split: option.splits if_splits)

interpretation stop_and_error_node: node_contract stop_and_error_spec "pure_execute stop_and_error_execute"
  by (rule one_output_contract) (auto simp: stop_and_error_execute_def rbind_eq_Inr)

interpretation no_op_node: node_contract no_op_spec "pure_execute no_op_execute"
  by (rule one_output_contract) (auto simp: no_op_execute_def no_op_spec_def mk_spec_def)

interpretation manual_trigger_node: node_contract manual_trigger_spec "pure_execute manual_trigger_execute"
  by (rule one_output_contract) (auto simp: manual_trigger_execute_def manual_trigger_spec_def mk_spec_def)

interpretation webhook_trigger_node: node_contract webhook_trigger_spec "pure_execute webhook_trigger_execute"
  by (rule one_output_contract) (auto simp: webhook_trigger_execute_def webhook_trigger_spec_def mk_spec_def)

interpretation schedule_trigger_node: node_contract schedule_trigger_spec "pure_execute (schedule_trigger_execute t)" for t
  by (rule one_output_contract) (auto simp: schedule_trigger_execute_def schedule_trigger_spec_def mk_spec_def)

section \<open>Routing\<close>

lemma rfilter_Inr:
  "rfilter p xs = Inr ys \<Longrightarrow> ys = filter (\<lambda>x. p x = Inr True) xs \<and> (\<forall>x \<in> set xs. \<exists>b. p x = Inr b)"
  by (induction xs arbitrary: ys) (auto simp: rbind_eq_Inr split: if_splits)

lemma rpartition_Inr:
  "rpartition p xs = Inr (ts, fs) \<Longrightarrow>
     ts = filter (\<lambda>x. p x = Inr True) xs \<and> fs = filter (\<lambda>x. p x = Inr False) xs
     \<and> mset ts + mset fs = mset xs"
proof (induction xs arbitrary: ts fs)
  case (Cons x xs)
  from Cons.prems obtain b ts' fs' where b: "p x = Inr b" and rest: "rpartition p xs = Inr (ts', fs')"
    and eq: "(ts, fs) = (if b then (x # ts', fs') else (ts', x # fs'))"
    by (auto simp: rbind_eq_Inr)
  from Cons.IH [OF rest] b eq show ?case by (cases b) auto
qed simp

text \<open>The test the filter node applies, with its parameters as it reads them.\<close>

definition filter_test :: "exec_ctx \<Rightarrow> item \<Rightarrow> bool result" where
  "filter_test ctx it = filter_keeps ctx (py_strip (str_param ctx ''expression'' (JStr [])))
     (py_strip (str_param ctx ''field'' (JStr []))) (ctx_param ctx ''operator'' (JStr ''equals''))
     (ctx_param ctx ''value'' JNull) (bool_param ctx ''keep_on_error'' False) it"

text \<open>
  When the filter node returns, it returns the items that pass the test,
  in order; when the if node returns, every item is on exactly one of the two ports, true
  when the predicate holds and false when it does not, in order.
\<close>
theorem filter_if_route:
  "(filter_execute ctx items = Inr outs \<longrightarrow> outs = [filter (\<lambda>it. filter_test ctx it = Inr True) items])
   \<and> (if_execute ctx items = Inr outs \<longrightarrow>
        (let test = (\<lambda>it. rbind (get_path (item_json it) (str_param ctx ''field'' (JStr [])) JNull) (\<lambda>left.
                       predicate_param ctx left (ctx_param ctx ''operator'' (JStr ''equals''))
                         (ctx_param ctx ''value'' JNull))) in
         outs = [filter (\<lambda>it. test it = Inr True) items, filter (\<lambda>it. test it = Inr False) items]
         \<and> mset (concat outs) = mset items))"
proof (intro conjI impI)
  assume "filter_execute ctx items = Inr outs"
  then show "outs = [filter (\<lambda>it. filter_test ctx it = Inr True) items]"
    by (auto simp: filter_execute_def filter_test_def Let_def rbind_eq_Inr dest!: rfilter_Inr split: if_splits)
next
  assume "if_execute ctx items = Inr outs"
  then show "let test = (\<lambda>it. rbind (get_path (item_json it) (str_param ctx ''field'' (JStr [])) JNull) (\<lambda>left.
                       predicate_param ctx left (ctx_param ctx ''operator'' (JStr ''equals''))
                         (ctx_param ctx ''value'' JNull))) in
         outs = [filter (\<lambda>it. test it = Inr True) items, filter (\<lambda>it. test it = Inr False) items]
         \<and> mset (concat outs) = mset items"
    by (auto simp: if_execute_def Let_def rbind_eq_Inr dest!: rpartition_Inr split: if_splits)
qed

lemma bucket_fold:
  assumes "rfold (\<lambda>buckets it. rbind (target it) (\<lambda>t. Inr (bucket_append t it buckets))) b0 xs = Inr b"
  shows "dict_get b name [] = dict_get b0 name [] @ filter (\<lambda>it. target it = Inr name) xs
    \<and> (\<forall>x \<in> set xs. \<exists>t. target x = Inr t)"
  using assms
proof (induction xs arbitrary: b0)
  case (Cons x xs)
  from Cons.prems obtain t where t: "target x = Inr t"
    and rest: "rfold (\<lambda>buckets it. rbind (target it) (\<lambda>t. Inr (bucket_append t it buckets)))
       (bucket_append t x b0) xs = Inr b"
    by (auto simp: rbind_eq_Inr)
  from Cons.IH [OF rest] t show ?case by (auto simp: dict_get_bucket_append)
qed simp

text \<open>An item list split by a function into the buckets of a duplicate-free list of names.\<close>

lemma mset_buckets:
  "distinct names \<Longrightarrow> (\<And>x. x \<in> set xs \<Longrightarrow> f x \<in> set names) \<Longrightarrow>
   mset (concat (map (\<lambda>n. filter (\<lambda>x. f x = n) xs) names)) = mset xs"
proof (induction names arbitrary: xs)
  case (Cons n names)
  have "mset (concat (map (\<lambda>m. filter (\<lambda>x. f x = m) (filter (\<lambda>x. f x \<noteq> n) xs)) names))
      = mset (filter (\<lambda>x. f x \<noteq> n) xs)"
    using Cons.prems by (intro Cons.IH) auto
  moreover have "map (\<lambda>m. filter (\<lambda>x. f x = m) (filter (\<lambda>x. f x \<noteq> n) xs)) names
      = map (\<lambda>m. filter (\<lambda>x. f x = m) xs) names"
    using Cons.prems(1) by (auto intro!: filter_cong)
  moreover have "mset (filter (\<lambda>x. f x = n) xs) + mset (filter (\<lambda>x. f x \<noteq> n) xs) = mset xs"
    by (metis mset_filter multiset_partition)
  ultimately show ?case by (simp del: filter_filter)
next
  case Nil
  then show ?case by (cases xs) auto
qed

definition switch_case_of :: "exec_ctx \<Rightarrow> item \<Rightarrow> string result" where
  "switch_case_of ctx it =
     rbind (get_path (item_json it) (py_strip (str_param ctx ''field'' (JStr []))) JNull) (\<lambda>left.
       switch_target ctx (map port_name (spec_outputs switch_spec))
         (str_param ctx ''fallback_port'' (JStr ''default'')) left
         (coerce_cases (ctx_param ctx ''cases'' (JArr []))))"

lemma switch_target_known:
  "switch_target ctx known fallback left cs = Inr t \<Longrightarrow> fallback \<in> set known \<Longrightarrow> t \<in> set known"
  by (induction cs) (auto split: if_splits)

lemma switch_ports_distinct: "distinct (map port_name (spec_outputs switch_spec))"
  by code_simp

lemma switch_execute_Inr:
  assumes "switch_execute ctx items = Inr outs"
  shows "outs = map (\<lambda>name. filter (\<lambda>it. switch_case_of ctx it = Inr name) items) (map port_name (spec_outputs switch_spec))
    \<and> (\<forall>it \<in> set items. \<exists>t \<in> set (map port_name (spec_outputs switch_spec)). switch_case_of ctx it = Inr t)"
proof -
  let ?known = "map port_name (spec_outputs switch_spec)"
  let ?fb = "str_param ctx ''fallback_port'' (JStr ''default'')"
  from assms have fb: "?fb \<in> set ?known" by (auto simp: switch_execute_def Let_def split: if_splits)
  from assms obtain b where b: "rfold (\<lambda>buckets it. rbind (switch_case_of ctx it) (\<lambda>t. Inr (bucket_append t it buckets)))
      (map (\<lambda>name. (name, [])) ?known) items = Inr b" and outs: "outs = map (\<lambda>name. dict_get b name []) ?known"
    by (auto simp: switch_execute_def Let_def switch_case_of_def rbind_assoc rbind_eq_Inr split: if_splits)
  have "dict_get (map (\<lambda>name. (name, [])) ks) name [] = []" for name and ks :: "string list"
    by (induction ks) (auto simp: dict_get_def)
  from bucket_fold [OF b, unfolded this] outs have "outs = map (\<lambda>name. filter (\<lambda>it. switch_case_of ctx it = Inr name) items) ?known"
    and total: "\<forall>x \<in> set items. \<exists>t. switch_case_of ctx x = Inr t" by auto
  moreover have "t \<in> set ?known" if "switch_case_of ctx it = Inr t" for it t
    using that fb unfolding switch_case_of_def rbind_eq_Inr by (auto dest: switch_target_known)
  ultimately show ?thesis by blast
qed

text \<open>
  When the switch node returns, the \<open>k\<close>-th list holds, in order, the items whose
  first matching case (or the fallback) names the \<open>k\<close>-th declared port, and every item is in
  exactly one list.
\<close>
theorem switch_routes:
  assumes "switch_execute ctx items = Inr outs"
  shows "(\<forall>k < length (spec_outputs switch_spec).
       outs ! k = filter (\<lambda>it. switch_case_of ctx it = Inr (port_name (spec_outputs switch_spec ! k))) items)
    \<and> length outs = length (spec_outputs switch_spec) \<and> mset (concat outs) = mset items"
proof -
  let ?known = "map port_name (spec_outputs switch_spec)"
  note S = switch_execute_Inr [OF assms]
  define f where "f it = projr (switch_case_of ctx it)" for it
  have eq: "filter (\<lambda>it. switch_case_of ctx it = Inr name) items = filter (\<lambda>it. f it = name) items" for name
    using S by (intro filter_cong) (auto simp: f_def)
  have "mset (concat (map (\<lambda>name. filter (\<lambda>it. f it = name) items) ?known)) = mset items"
    using S switch_ports_distinct by (intro mset_buckets) (auto simp: f_def)
  then have "mset (concat outs) = mset items"
    unfolding S [THEN conjunct1] eq .
  with S show ?thesis by simp
qed

definition demo_ctx :: "jobj \<Rightarrow> (string, item list) dict \<Rightarrow> jobj \<Rightarrow> exec_ctx" where
  "demo_ctx params inputs sd = \<lparr>ctx_workflow = demo_workflow ''b'', ctx_execution_id = ''ex_1'',
     ctx_mode = ModeManual, ctx_node = (mk_node ''n'' ''N'' ''t'')\<lparr>parameters := params\<rparr>, ctx_inputs = inputs,
     ctx_static_data = sd, ctx_canceled = False, ctx_credential_resolver = None,
     ctx_sub_workflow_runner = None, ctx_process = demo_process\<rparr>"

abbreviation row :: "int \<Rightarrow> item" where
  "row n \<equiv> mk_item [(''n'', JInt n)]"

theorem filter_if_route_witness:
  "let ctx = demo_ctx [(''field'', JStr ''n''), (''operator'', JStr ''less_than''), (''value'', JInt 2)] [] [] in
   if_execute ctx [row 1, row 5, row 0] = Inr [[row 1, row 0], [row 5]]
   \<and> mset (concat [[row 1, row 0], [row 5]]) = mset [row 1, row 5, row 0]"
proof -
  define ctx where "ctx = demo_ctx [(''field'', JStr ''n''), (''operator'', JStr ''less_than''), (''value'', JInt 2)] [] []"
  have "if_execute ctx [row 1, row 5, row 0] = Inr [[row 1, row 0], [row 5]]"
    unfolding ctx_def by code_simp
  with filter_if_route [of ctx "[row 1, row 5, row 0]" "[[row 1, row 0], [row 5]]"] show ?thesis
    unfolding ctx_def [symmetric] Let_def by blast
qed

theorem switch_routes_witness:
  "let ctx = demo_ctx [(''field'', JStr ''n''),
       (''cases'', JArr [JObj [(''value'', JStr ''1''), (''port'', JStr ''case_2'')]])] [] [] in
   switch_execute ctx [row 1, row 5] = Inr [[], [row 1], [], [], [], [], [row 5]]
   \<and> mset (concat [[], [row 1], [], [], [], [], [row 5]]) = mset [row 1, row 5]"
proof -
  define ctx where "ctx = demo_ctx [(''field'', JStr ''n''),
       (''cases'', JArr [JObj [(''value'', JStr ''1''), (''port'', JStr ''case_2'')]])] [] []"
  have run: "switch_execute ctx [row 1, row 5] = Inr [[], [row 1], [], [], [], [], [row 5]]"
    unfolding ctx_def by code_simp
  from switch_routes [OF run] run show ?thesis unfolding ctx_def [symmetric] Let_def by blast
qed

section \<open>Joins\<close>

text \<open>The join key of an item, for items whose key can be read.\<close>

definition the_key :: "exec_ctx \<Rightarrow> string \<Rightarrow> item \<Rightarrow> dict_key" where
  "the_key ctx key it = projr (join_key ctx key it)"

lemma join_key_total:
  "rbind (join_key ctx key it) f = Inr y \<Longrightarrow> join_key ctx key it = Inr (the_key ctx key it) \<and> f (the_key ctx key it) = Inr y"
  by (auto simp: rbind_eq_Inr the_key_def)



section \<open>Comparing datasets\<close>

lemma index_by_key_fold:
  assumes "rfold (\<lambda>index it. rbind (join_key ctx key it) (\<lambda>k. Inr (dict_set k it index))) ix0 items = Inr ix"
  shows "ix = fold (\<lambda>it. dict_set (the_key ctx key it) it) items ix0"
  using assms by (induction items arbitrary: ix0) (auto simp: rbind_eq_Inr the_key_def)

lemma index_by_key_Inr:
  assumes "index_by_key ctx key items = Inr ix"
  shows "dict_ok ix" and "map_of ix k = find (\<lambda>it. the_key ctx key it = k) (rev items)"
proof -
  have ix: "ix = fold (\<lambda>it. dict_set (the_key ctx key it) it) items []"
    using index_by_key_fold [of ctx key "[]" items ix] assms by (simp add: index_by_key_def)
  show "dict_ok ix" unfolding ix by (rule pydict.insert_all_ok) simp
  show "map_of ix k = find (\<lambda>it. the_key ctx key it = k) (rev items)"
    unfolding ix pydict.insert_all_lookup [where f = "the_key ctx key" and g = "\<lambda>x. x"]
    by (cases "find (\<lambda>it. the_key ctx key it = k) (rev items)") auto
qed

lemma concat_option_length:
  "length (concat (map (\<lambda>(k, l). case f k of None \<Rightarrow> [] | Some r \<Rightarrow> [(l, r)]) xs))
   + length (filter (\<lambda>(k, _). f k = None) xs) = length xs"
  by (induction xs) (auto split: option.splits)

text \<open>
  Compare datasets: when the node returns, it returns four lists. Each side counts once
  per key, with the last item of that key; the first list holds the left keys that the
  right side lacks, the second the right keys that the left side lacks, and every other
  left key is in exactly one of the last two lists.
\<close>
theorem compare_datasets_partition:
  assumes "compare_datasets_execute ctx items = Inr outs"
  shows "\<exists>L R a b same diff key. outs = [a, b, same, diff] \<and> dict_ok L \<and> dict_ok R
    \<and> (\<forall>k. map_of L k = find (\<lambda>it. the_key ctx key it = k) (rev (get_input ctx MAIN_PORT)))
    \<and> (\<forall>k. map_of R k = find (\<lambda>it. the_key ctx key it = k) (rev (get_input ctx INPUT_B)))
    \<and> a = map snd (filter (\<lambda>(k, _). map_of R k = None) L)
    \<and> b = map snd (filter (\<lambda>(k, _). map_of L k = None) R)
    \<and> length a + length same + length diff = length L"
proof -
  let ?key = "py_strip (str_param ctx ''key'' (JStr []))"
  from assms obtain L R where L: "index_by_key ctx ?key (get_input ctx MAIN_PORT) = Inr L"
    and R: "index_by_key ctx ?key (get_input ctx INPUT_B) = Inr R" and outs: "outs = compare_indices L R"
    by (auto simp: compare_datasets_execute_def Let_def rbind_eq_Inr split: if_splits)
  define both where "both = concat (map (\<lambda>(k, l). case map_of R k of None \<Rightarrow> [] | Some r \<Rightarrow> [(l, r)]) L)"
  let ?eq = "\<lambda>(l, r). py_eq (JObj (item_json l)) (JObj (item_json r))"
  have "length (filter ?eq both) + length (filter (\<lambda>p. \<not> ?eq p) both) = length both"
    by (rule sum_length_filter_compl)
  then have "length (filter (\<lambda>(k, _). map_of R k = None) L) + length (filter ?eq both)
      + length (filter (\<lambda>(l, r). \<not> py_eq (JObj (item_json l)) (JObj (item_json r))) both) = length L"
    using concat_option_length [of "map_of R" L] by (simp add: both_def case_prod_unfold)
  then show ?thesis
    unfolding outs compare_indices_def Let_def both_def [symmetric]
    using index_by_key_Inr [OF L] index_by_key_Inr [OF R]
    by (intro exI [of _ L] exI [of _ R] exI conjI) (rule refl | simp | blast)+
qed

theorem compare_datasets_partition_witness:
  "compare_datasets_execute (demo_ctx [(''key'', JStr ''n'')] [(''main'', [row 1, row 2]), (''input_2'', [row 2, row 3])] []) []
     = Inr [[row 1], [row 3], [row 2], []]
   \<and> (\<exists>a b c d. [[row 1], [row 3], [row 2], []] = [a, b, c, d])"
proof -
  have run: "compare_datasets_execute (demo_ctx [(''key'', JStr ''n'')]
      [(''main'', [row 1, row 2]), (''input_2'', [row 2, row 3])] []) [] = Inr [[row 1], [row 3], [row 2], []]"
    by code_simp
  from compare_datasets_partition [OF run] run show ?thesis by blast
qed

section \<open>Batches\<close>

text \<open>Successive runs of the node on the same items, the static data carried along.\<close>

fun run_batches :: "nat \<Rightarrow> exec_ctx \<Rightarrow> item list \<Rightarrow> item list list result list \<times> jobj" where
  "run_batches 0 ctx items = ([], ctx_static_data ctx)"
| "run_batches (Suc n) ctx items =
     (let (r, sd) = split_in_batches_execute ctx items;
          (rs, sd') = run_batches n (ctx\<lparr>ctx_static_data := sd\<rparr>) items in (r # rs, sd'))"

definition cursor_of :: "exec_ctx \<Rightarrow> json" where
  "cursor_of ctx = dict_get (ctx_static_data ctx) (batch_state_key (node_id (ctx_node ctx))) (JInt 0)"

lemma batch_step:
  assumes b: "coerce_batch_size (ctx_param ctx ''batch_size'' (JInt 10)) = Inr b"
    and nr: "\<not> bool_param ctx ''reset'' False" and c: "cursor_of ctx = JInt (int c)"
  shows "\<exists>sd. split_in_batches_execute ctx items =
      (Inr (if length items \<le> c then [[], items] else [take (nat b) (drop c items), []]), sd)
    \<and> dict_get sd (batch_state_key (node_id (ctx_node ctx))) (JInt 0)
        = JInt (if length items \<le> c then 0 else int c + b)"
proof -
  let ?key = "batch_state_key (node_id (ctx_node ctx))"
  have b1: "1 \<le> b" using b by (auto simp: coerce_batch_size_def split: option.splits if_splits)
  define sd1 where "sd1 = (if map_of (ctx_static_data ctx) ?key = None
      then dict_set ?key (JInt 0) (ctx_static_data ctx) else ctx_static_data ctx)"
  have g: "dict_get sd1 ?key JNull = JInt (int c)"
    using c by (auto simp: cursor_of_def sd1_def dict_get_def dict_simps split: option.splits if_splits)
  have sl: "py_slice items (int c) (int c + b) = take (nat b) (drop c items)" if "c < length items"
  proof -
    have "py_bound (length items) (int c) = c" using that by (simp add: py_bound_def)
    moreover have "py_bound (length items) (int c + b) = min (length items) (c + nat b)"
      using b1 by (auto simp: py_bound_def nat_add_distrib min_def)
    moreover have "take (min (length items) n) items = take n items" for n by (simp add: min_def)
    ultimately show ?thesis by (simp add: py_slice_def take_drop add.commute)
  qed
  have "split_in_batches_execute ctx items =
      (if length items \<le> c then (Inr [[], items], dict_set ?key (JInt 0) sd1)
       else (Inr [py_slice items (int c) (int c + b), []], dict_set ?key (JInt (int c + b)) sd1))"
    unfolding split_in_batches_execute_def Let_def b sum.case
    using nr g by (simp add: sd1_def [symmetric] flip: sd1_def)
  then show ?thesis using sl by (auto simp: dict_get_def dict_simps)
qed

lemma batches_from:
  assumes "coerce_batch_size (ctx_param ctx ''batch_size'' (JInt 10)) = Inr b"
    and "\<not> bool_param ctx ''reset'' False" and "cursor_of ctx = JInt (int c)"
  shows "\<exists>batches sd. run_batches (Suc (length batches)) ctx items
      = (map (\<lambda>x. Inr [x, []]) batches @ [Inr [[], items]], sd)
    \<and> concat batches = drop c items \<and> (\<forall>x \<in> set batches. x \<noteq> [] \<and> int (length x) \<le> b)
    \<and> dict_get sd (batch_state_key (node_id (ctx_node ctx))) (JInt 0) = JInt 0"
  using assms
proof (induction "length items - c" arbitrary: c ctx rule: less_induct)
  case less
  from batch_step [OF less.prems, of items] obtain sd where
    step: "split_in_batches_execute ctx items =
      (Inr (if length items \<le> c then [[], items] else [take (nat b) (drop c items), []]), sd)"
    and cur: "dict_get sd (batch_state_key (node_id (ctx_node ctx))) (JInt 0)
        = JInt (if length items \<le> c then 0 else int c + b)" by blast
  have b1: "1 \<le> b" using less.prems(1) by (auto simp: coerce_batch_size_def split: option.splits if_splits)
  show ?case
  proof (cases "length items \<le> c")
    case True
    with step cur show ?thesis by (intro exI [of _ "[]"] exI [of _ sd]) simp
  next
    case False
    let ?ctx = "ctx\<lparr>ctx_static_data := sd\<rparr>"
    have "length items - (c + nat b) < length items - c" using False b1 by simp
    moreover have "coerce_batch_size (ctx_param ?ctx ''batch_size'' (JInt 10)) = Inr b"
      "\<not> bool_param ?ctx ''reset'' False"
      using less.prems by (simp_all add: ctx_param_def bool_param_def)
    moreover have "cursor_of ?ctx = JInt (int (c + nat b))"
      using cur False b1 by (simp add: cursor_of_def)
    ultimately obtain batches sd' where
      rest: "run_batches (Suc (length batches)) ?ctx items = (map (\<lambda>x. Inr [x, []]) batches @ [Inr [[], items]], sd')"
      and cc: "concat batches = drop (c + nat b) items" and sz: "\<forall>x \<in> set batches. x \<noteq> [] \<and> int (length x) \<le> b"
      and z: "dict_get sd' (batch_state_key (node_id (ctx_node ?ctx))) (JInt 0) = JInt 0"
      using less.hyps by blast
    let ?bs = "take (nat b) (drop c items) # batches"
    have "run_batches (Suc n) ctx items = (Inr [take (nat b) (drop c items), []] # rs, sd')"
      if "run_batches n ?ctx items = (rs, sd')" for n rs
      using that step False by simp
    from this [OF rest] have "run_batches (Suc (length ?bs)) ctx items
        = (map (\<lambda>x. Inr [x, []]) ?bs @ [Inr [[], items]], sd')" by (simp only: list.size list.map append_Cons add_0_right add_Suc_right)
    moreover have "take (nat b) (drop c items) @ drop (nat b) (drop c items) = drop c items"
      by (rule append_take_drop_id)
    then have "concat ?bs = drop c items" using cc by (simp add: add.commute)
    moreover have "\<forall>x \<in> set ?bs. x \<noteq> [] \<and> int (length x) \<le> b" using sz False b1 by auto
    ultimately show ?thesis using z by (intro exI [of _ ?bs] exI [of _ sd']) simp
  qed
qed

text \<open>
  C34 (batching terminates and loses nothing): run repeatedly on the same items from a fresh
  cursor, the split node emits non-empty batches of at most the configured size whose
  concatenation is the item list, then signals done with all items, and leaves the cursor
  at zero for the next round.
\<close>
theorem split_in_batches_complete:
  assumes "coerce_batch_size (ctx_param ctx ''batch_size'' (JInt 10)) = Inr b"
    and "\<not> bool_param ctx ''reset'' False" and "cursor_of ctx = JInt 0"
  shows "\<exists>batches sd. run_batches (Suc (length batches)) ctx items
      = (map (\<lambda>x. Inr [x, []]) batches @ [Inr [[], items]], sd)
    \<and> concat batches = items \<and> (\<forall>x \<in> set batches. x \<noteq> [] \<and> int (length x) \<le> b)
    \<and> dict_get sd (batch_state_key (node_id (ctx_node ctx))) (JInt 0) = JInt 0"
  using batches_from [OF assms(1,2), of 0 items] assms(3) by simp

theorem split_in_batches_complete_witness:
  "\<exists>batches sd. run_batches (Suc (length batches)) (demo_ctx [(''batch_size'', JInt 2)] [] []) [row 1, row 2, row 3]
     = (map (\<lambda>x. Inr [x, []]) batches @ [Inr [[], [row 1, row 2, row 3]]], sd)
   \<and> concat batches = [row 1, row 2, row 3]"
proof -
  let ?ctx = "demo_ctx [(''batch_size'', JInt 2)] [] []"
  have "coerce_batch_size (ctx_param ?ctx ''batch_size'' (JInt 10)) = Inr 2"
    "\<not> bool_param ?ctx ''reset'' False" "cursor_of ?ctx = JInt 0"
    by (code_simp, code_simp, code_simp)
  from split_in_batches_complete [OF this, of "[row 1, row 2, row 3]"] show ?thesis by blast
qed

section \<open>Editing\<close>

lemma set_path_Inr: "set_path d path v = Inr d' \<Longrightarrow> path_ok path \<and> d' = obj_set d (split_on CHR ''.'' path) v"
proof -
  assume s: "set_path d path v = Inr d'"
  then have "path_ok path" by (auto simp: set_path_def rbind_eq_Inr split_path_Inr_iff)
  with s show ?thesis by (simp add: set_path_eq)
qed

lemma get_path_obj_set:
  "path_ok path \<Longrightarrow> get_path (obj_set d (split_on CHR ''.'' path) v) path dflt = Inr v"
  by (simp add: get_path_def get_path_opt_def split_path_ok get_segments_obj_set)

text \<open>
  Set node: when the set node returns and removes nothing, it returns one item per input
  item; reading the path of the last assignment in any of them yields the assigned value;
  and the binary attachments, pairing and error of every item are kept.
\<close>
theorem set_execute_assigns:
  assumes "set_execute ctx items = Inr outs"
    and "coerce_removals (ctx_param ctx ''removals'' (JArr [])) = []"
    and "coerce_assignments (ctx_param ctx ''assignments'' (JArr [])) = earlier @ [(name, v)]"
  shows "\<exists>out. outs = [out] \<and> length out = length items
    \<and> (\<forall>i < length items. get_path (item_json (out ! i)) name dflt = Inr v
         \<and> item_binary (out ! i) = item_binary (items ! i) \<and> item_paired (out ! i) = item_paired (items ! i)
         \<and> item_error (out ! i) = item_error (items ! i))"
proof -
  let ?keep = "bool_param ctx ''keep_only_set'' False"
  from assms obtain out where outs: "outs = [out]"
    and m: "rmap (\<lambda>it. set_apply it (earlier @ [(name, v)]) [] ?keep) items = Inr out"
    by (auto simp: set_execute_def Let_def rbind_eq_Inr)
  have "get_path (item_json (out ! i)) name dflt = Inr v
         \<and> item_binary (out ! i) = item_binary (items ! i) \<and> item_paired (out ! i) = item_paired (items ! i)
         \<and> item_error (out ! i) = item_error (items ! i)" if i: "i < length items" for i
  proof -
    from rmap_Inr_nth [OF m i] obtain base d where "set_path base name v = Inr d"
      and o: "out ! i = (items ! i)\<lparr>item_json := d\<rparr>"
      by (auto simp: set_apply_def rfold_append rbind_eq_Inr)
    then show ?thesis by (auto dest!: set_path_Inr simp: get_path_obj_set)
  qed
  with outs rmap_Inr_length [OF m] show ?thesis by blast
qed

definition set_demo :: exec_ctx where
  "set_demo = demo_ctx [(''assignments'', JArr [JObj [(''name'', JStr ''a.b''), (''value'', JInt 7)]])] [] []"

theorem set_execute_assigns_witness:
  "\<exists>out. set_execute set_demo [row 1, row 2] = Inr [out] \<and> length out = 2
     \<and> get_path (item_json (out ! 1)) ''a.b'' JNull = Inr (JInt 7)"
proof -
  have "returns (\<lambda>_. True) (set_execute set_demo [row 1, row 2])" by code_simp
  then obtain outs where run: "set_execute set_demo [row 1, row 2] = Inr outs" unfolding returns_iff by blast
  have rem: "coerce_removals (ctx_param set_demo ''removals'' (JArr [])) = []" by code_simp
  have asg: "coerce_assignments (ctx_param set_demo ''assignments'' (JArr [])) = [] @ [(''a.b'', JInt 7)]" by code_simp
  from set_execute_assigns [OF run rem asg, of JNull] run show ?thesis by auto
qed

text \<open>
  Transform misaligns values: the transform node pairs the names of the valid assignments
  with the values of all assignments, so an invalid entry shifts the values: here the
  entry for \<open>a\<close> has the value 1, and the item gets the value 5 of the entry before it.
\<close>
theorem transform_misaligned:
  "transform_execute
     (demo_ctx [(''assignments'', JArr [JObj [(''name'', JStr []), (''value'', JInt 5)],
                                        JObj [(''name'', JStr ''a''), (''value'', JInt 1)]])] [] [])
     [mk_item []] = Inr [[mk_item [(''a'', JInt 5)]]]"
  by code_simp

text \<open>
  Switch port numbers: the declared index of the switch node's \<open>k\<close>-th case port is one
  more than its position, and two of its ports have the same index, while the engine
  selects the output list by position.
\<close>
theorem switch_port_indices:
  "list_all (\<lambda>k. port_index (spec_outputs switch_spec ! k) = int k + 1) [0..<6]
   \<and> port_index (spec_outputs switch_spec ! 5) = port_index (spec_outputs switch_spec ! 6)
   \<and> items_for_source_index outs 0 = (if outs = [] then [] else outs ! 0)"
proof -
  have "list_all (\<lambda>k. port_index (spec_outputs switch_spec ! k) = int k + 1) [0..<6]
   \<and> port_index (spec_outputs switch_spec ! 5) = port_index (spec_outputs switch_spec ! 6)"
    by code_simp
  then show ?thesis by (cases outs) (simp_all add: items_for_source_index_def)
qed

section \<open>Every node keeps the contract\<close>

lemmas core_contracts =
  filter_node.one_list_per_port if_node.one_list_per_port switch_node.one_list_per_port
  merge_node.one_list_per_port compare_datasets_node.one_list_per_port set_node.one_list_per_port
  rename_keys_node.one_list_per_port transform_node.one_list_per_port
  split_in_batches_node.one_list_per_port evaluate_expression_node.one_list_per_port
  execution_data_node.one_list_per_port function_call_node.one_list_per_port
  stop_and_error_node.one_list_per_port no_op_node.one_list_per_port
  manual_trigger_node.one_list_per_port webhook_trigger_node.one_list_per_port
  schedule_trigger_node.one_list_per_port

text \<open>
  C32 (one list per port): whenever the \<open>execute\<close> of a modelled core node returns, it returns
  exactly one list of items per output port its specification declares, for every context
  and input.
\<close>
theorem core_nodes_output_arity:
  assumes "c \<in> set (core_classes fired_at)" and "cls_spec c = Some s"
    and "fst (cls_execute c ctx items) = Inr outs"
  shows "length outs = length (spec_outputs s)"
  using assms unfolding core_classes_def set_simps
  by (elim insertE emptyE) (simp_all add: mk_class_def core_contracts)

theorem core_nodes_output_arity_witness:
  "fst (cls_execute (mk_class ''NoOpNode'' no_op_spec (pure_execute no_op_execute)) (demo_ctx [] [] []) [row 1]) = Inr [[row 1]]
   \<and> length [[row 1]] = length (spec_outputs no_op_spec)"
proof -
  let ?c = "mk_class ''NoOpNode'' no_op_spec (pure_execute no_op_execute)"
  have "?c \<in> set (core_classes [])" by (simp add: core_classes_def)
  moreover have "cls_spec ?c = Some no_op_spec" by (simp add: mk_class_def)
  moreover have "fst (cls_execute ?c (demo_ctx [] [] []) [row 1]) = Inr [[row 1]]"
    by (simp add: mk_class_def pure_execute_def no_op_execute_def)
  ultimately show ?thesis using core_nodes_output_arity by blast
qed

end
