(* ===== verification/Webhooks.thy ===== *)
theory Webhooks
  imports Regex Domain
begin

text \<open>
  The webhook layer: path normalisation (\<open>webhooks/paths.py\<close>), the route table
  (\<open>webhooks/registry.py\<close>), the request parser (\<open>webhooks/parser.py\<close>) and the request that is
  handed to the execution queue (\<open>webhooks/handler.py\<close>). A set of route keys is the list of
  its elements in insertion order; Python leaves that order open.
\<close>

section \<open>Paths\<close>

definition path_char :: "char \<Rightarrow> bool" where
  "path_char c \<longleftrightarrow> is_ascii_alnum c \<or> c \<in> set ''._-/''"

definition segment_rx :: rx where
  "segment_rx = AtLeast 1 (\<lambda>c. \<not> path_char c)"

definition strip_of :: "char \<Rightarrow> string \<Rightarrow> string" where
  "strip_of x s = rstrip_chars (\<lambda>c. c = x) (lstrip_chars (\<lambda>c. c = x) s)"

definition normalise_path :: "string \<Rightarrow> string result" where
  "normalise_path path =
     (let cleaned = rstrip_chars (\<lambda>c. c = CHR ''/'') (lstrip_chars (\<lambda>c. c = CHR ''/'') (py_strip path));
          cleaned = rx_sub segment_rx ''-'' None cleaned;
          cleaned = strip_of CHR ''-'' cleaned in
      if cleaned = []
      then raise ValueError ''webhook path must contain at least one non-whitespace segment''
      else Inr cleaned)"

definition static_path :: "string \<Rightarrow> string \<Rightarrow> string option \<Rightarrow> string result" where
  "static_path workflow_id i user_path =
     (case user_path of
        Some p \<Rightarrow> if p \<noteq> [] \<and> py_strip p \<noteq> [] then normalise_path p
                   else normalise_path (workflow_id @ ''/'' @ i)
      | None \<Rightarrow> normalise_path (workflow_id @ ''/'' @ i))"

text \<open>The hexadecimal text of a fresh UUID is an argument.\<close>

definition dynamic_path :: "string \<Rightarrow> string" where
  "dynamic_path uuid_hex = ''u/'' @ uuid_hex"

section \<open>Route table\<close>

definition SUPPORTED_METHODS :: "string list" where
  "SUPPORTED_METHODS = [''GET'', ''POST'', ''PUT'', ''PATCH'', ''DELETE'', ''HEAD'', ''OPTIONS'']"

record webhook_entry =
  wh_id :: string
  wh_workflow_id :: string
  wh_node_id :: string
  wh_project_id :: string
  wh_path :: string
  wh_method :: string
  is_dynamic :: bool
  response_mode :: string

record webhook_registry =
  wr_by_key :: "(string \<times> string, webhook_entry) dict"
  wr_by_workflow :: "(string, (string \<times> string) list) dict"

definition empty_webhooks :: webhook_registry where
  "empty_webhooks = \<lparr>wr_by_key = [], wr_by_workflow = []\<rparr>"

definition normalise_method :: "string \<Rightarrow> string result" where
  "normalise_method meth =
     (let upper = py_upper (py_strip meth) in
      if upper \<notin> set SUPPORTED_METHODS
      then raise UnsupportedMethodError (''unsupported HTTP method for webhook: '' @ repr_str meth)
      else Inr upper)"

definition route_key :: "string \<Rightarrow> string \<Rightarrow> (string \<times> string) result" where
  "route_key path meth =
     rbind (normalise_path path) (\<lambda>p. rbind (normalise_method meth) (\<lambda>m. Inr (p, m)))"

definition wr_register :: "webhook_entry \<Rightarrow> webhook_registry \<Rightarrow> webhook_registry result" where
  "wr_register entry reg =
     rbind (route_key (wh_path entry) (wh_method entry)) (\<lambda>key.
       let normalized = entry\<lparr>wh_path := fst key, wh_method := snd key\<rparr>;
           stored = Inr (reg\<lparr>wr_by_key := dict_set key normalized (wr_by_key reg),
              wr_by_workflow := dict_set (wh_workflow_id entry)
                (List.insert key (dict_get (wr_by_workflow reg) (wh_workflow_id entry) [])) (wr_by_workflow reg)\<rparr>) in
       case map_of (wr_by_key reg) key of
         None \<Rightarrow> stored
       | Some existing \<Rightarrow>
           if wh_id existing \<noteq> wh_id entry
           then raise WebhookConflictError
                  (''webhook '' @ snd key @ '' /'' @ fst key @ '' already registered by ''
                   @ wh_workflow_id existing @ ''/'' @ wh_node_id existing)
           else stored)"

text \<open>Forget a key of a workflow, and the workflow with its last key.\<close>

definition drop_workflow_key :: "string \<Rightarrow> string \<times> string \<Rightarrow> (string, (string \<times> string) list) dict
    \<Rightarrow> (string, (string \<times> string) list) dict" where
  "drop_workflow_key wid key by_wf =
     (case map_of by_wf wid of
        None \<Rightarrow> by_wf
      | Some ks \<Rightarrow> if removeAll key ks = [] then dict_del wid by_wf
                   else dict_set wid (removeAll key ks) by_wf)"

definition wr_unregister :: "string \<Rightarrow> string \<Rightarrow> webhook_registry
    \<Rightarrow> (webhook_entry option \<times> webhook_registry) result" where
  "wr_unregister path meth reg =
     rbind (route_key path meth) (\<lambda>key.
       Inr (case map_of (wr_by_key reg) key of
              None \<Rightarrow> (None, reg)
            | Some entry \<Rightarrow> (Some entry, reg\<lparr>wr_by_key := dict_del key (wr_by_key reg),
                wr_by_workflow := drop_workflow_key (wh_workflow_id entry) key (wr_by_workflow reg)\<rparr>)))"

definition wr_unregister_workflow :: "string \<Rightarrow> webhook_registry \<Rightarrow> webhook_entry list \<times> webhook_registry" where
  "wr_unregister_workflow wid reg =
     (let keys = dict_get (wr_by_workflow reg) wid [];
          removed = concat (map (\<lambda>k. case map_of (wr_by_key reg) k of None \<Rightarrow> [] | Some e \<Rightarrow> [e]) keys) in
      (removed, reg\<lparr>wr_by_key := fold dict_del keys (wr_by_key reg),
         wr_by_workflow := dict_del wid (wr_by_workflow reg)\<rparr>))"

text \<open>Only the ValueError of a bad path is caught; the method error is not a ValueError.\<close>

definition wr_match :: "webhook_registry \<Rightarrow> string \<Rightarrow> string \<Rightarrow> webhook_entry option result" where
  "wr_match reg path meth =
     (case route_key path meth of
        Inl e \<Rightarrow> if exn_cls e = ValueError then Inr None else Inl e
      | Inr key \<Rightarrow> Inr (map_of (wr_by_key reg) key))"

definition list_for_workflow :: "webhook_registry \<Rightarrow> string \<Rightarrow> webhook_entry list" where
  "list_for_workflow reg wid =
     concat (map (\<lambda>k. case map_of (wr_by_key reg) k of None \<Rightarrow> [] | Some e \<Rightarrow> [e])
       (dict_get (wr_by_workflow reg) wid []))"

definition all_entries :: "webhook_registry \<Rightarrow> webhook_entry list" where
  "all_entries reg = map snd (wr_by_key reg)"

text \<open>
  \<open>load\<close> on the cleared table: the table it leaves behind, and the count or the first error;
  entries before a failing one stay registered.
\<close>

fun load_from :: "webhook_registry \<Rightarrow> nat \<Rightarrow> webhook_entry list \<Rightarrow> webhook_registry \<times> nat result" where
  "load_from reg count [] = (reg, Inr count)"
| "load_from reg count (e # es) =
     (case wr_register e reg of
        Inl x \<Rightarrow> (reg, Inl x)
      | Inr reg' \<Rightarrow> load_from reg' (Suc count) es)"

definition wr_load :: "webhook_entry list \<Rightarrow> webhook_registry \<times> nat result" where
  "wr_load entries = load_from empty_webhooks 0 entries"

section \<open>Requests\<close>

record parsed_request =
  pr_method :: string
  pr_path :: string
  pr_headers :: "(string, string) dict"
  pr_query :: "(string, string) dict"
  pr_query_all :: "(string, string list) dict"
  pr_body :: json

definition collect_pairs :: "(string \<times> string) list \<Rightarrow> (string, string list) dict" where
  "collect_pairs ps = foldl (\<lambda>out (k, v). dict_set k (dict_get out k [] @ [v]) out) [] ps"

definition collapse_headers :: "(string \<times> string) list \<Rightarrow> (string, string) dict" where
  "collapse_headers headers =
     map (\<lambda>(name, values). (name, join '', '' values)) (collect_pairs (map (\<lambda>(n, v). (py_lower n, v)) headers))"

text \<open>
  A body is its list of bytes. \<open>utf8\<close> decodes it and \<open>loads\<close> parses JSON text, \<open>None\<close> being
  the exception of either.
\<close>

definition parse_body :: "(nat list \<Rightarrow> string option) \<Rightarrow> (string \<Rightarrow> json option) \<Rightarrow> nat list \<Rightarrow> string \<Rightarrow> json" where
  "parse_body utf8 loads body content_type =
     (if body = [] then JNull
      else
        (let ct_lower = py_lower content_type;
             is_json = substring ''application/json'' ct_lower \<or> substring ''+json'' ct_lower;
             parsed = (if is_json then (case utf8 body of None \<Rightarrow> None | Some t \<Rightarrow> loads t) else None) in
         case parsed of
           Some v \<Rightarrow> v
         | None \<Rightarrow>
             (case utf8 body of
                Some t \<Rightarrow> JObj [(''raw'', JStr t)]
              | None \<Rightarrow> JObj [(''raw_bytes_length'', JInt (int (length body)))])))"

definition parse_request :: "(nat list \<Rightarrow> string option) \<Rightarrow> (string \<Rightarrow> json option) \<Rightarrow> string \<Rightarrow> string
    \<Rightarrow> (string \<times> string) list \<Rightarrow> (string \<times> string) list \<Rightarrow> nat list \<Rightarrow> parsed_request" where
  "parse_request utf8 loads meth path headers query_items body =
     (let headers_dict = collapse_headers headers;
          query_all = collect_pairs query_items;
          query_flat = map (\<lambda>(k, vs). (k, last vs)) query_all in
      \<lparr>pr_method = py_upper meth, pr_path = path, pr_headers = headers_dict, pr_query = query_flat,
       pr_query_all = query_all,
       pr_body = parse_body utf8 loads body (dict_get headers_dict ''content-type'' [])\<rparr>)"

record execution_request =
  er_execution_id :: string
  er_workflow_id :: string
  er_project_id :: string
  er_mode :: execution_mode
  er_triggered_by :: "string option"
  er_initial_items :: "jobj list"

definition build_request :: "string \<Rightarrow> string \<Rightarrow> string \<Rightarrow> string \<Rightarrow> jobj \<Rightarrow> string \<Rightarrow> execution_request" where
  "build_request eid wid project i payload trig =
     \<lparr>er_execution_id = eid, er_workflow_id = wid, er_project_id = project, er_mode = ModeWebhook,
      er_triggered_by = Some trig,
      er_initial_items = [[(''node_id'', JStr i), (''request'', JObj payload)]]\<rparr>"

section \<open>Normal paths\<close>

lemma greedy_ends_longest: "\<exists>q rest. greedy_ends 0 P p s = (q, dropWhile P s) # rest"
proof (induction s arbitrary: p)
  case (Cons c cs)
  from Cons.IH [of "Some c"] show ?case by auto
qed simp

lemma sub_segments_chars: "list_all path_char (rx_sub segment_rx ''-'' p s)"
proof (induction "length s" arbitrary: p s rule: less_induct)
  case less
  show ?case
  proof (cases s)
    case (Cons c cs)
    have dash: "path_char CHR ''-''" by (simp add: path_char_def)
    show ?thesis
    proof (cases "path_char c")
      case True
      with less Cons show ?thesis by (simp add: segment_rx_def)
    next
      case False
      from greedy_ends_longest [of "\<lambda>c. \<not> path_char c" "Some c" cs] obtain q rest
        where "matches segment_rx (p, s) = (q, dropWhile (\<lambda>c. \<not> path_char c) cs) # rest"
        using False by (auto simp: segment_rx_def Cons)
      moreover have "length (dropWhile (\<lambda>c. \<not> path_char c) cs) < length s"
        using length_dropWhile_le [of "\<lambda>c. \<not> path_char c" cs] by (simp add: Cons)
      ultimately show ?thesis using less.hyps dash by (simp add: Cons)
    qed
  qed simp
qed

lemma sub_segments_id: "list_all path_char s \<Longrightarrow> rx_sub segment_rx ''-'' p s = s"
  by (induction s arbitrary: p) (simp_all add: segment_rx_def)

lemma path_char_not_space: "path_char c \<Longrightarrow> \<not> py_isspace c"
  by (auto simp: path_char_def is_ascii_alnum_def is_ascii_alpha_def is_ascii_digit_def py_isspace_def Let_def)

text \<open>Stripping what surrounds a text whose ends do not match.\<close>

lemma strip_around:
  assumes "s \<noteq> []" "\<not> P (hd s)" "\<not> P (last s)" "list_all P a" "list_all P b"
  shows "rstrip_chars P (lstrip_chars P (a @ s @ b)) = s"
proof -
  have "dropWhile P (a @ s @ b) = s @ b"
    using assms by (cases s) (auto simp: list_all_iff dropWhile_append)
  moreover have "dropWhile P (rev (s @ b)) = rev s"
    using assms by (cases s rule: rev_cases) (auto simp: list_all_iff dropWhile_append)
  ultimately show ?thesis by (simp add: rstrip_chars_def lstrip_chars_def)
qed

lemmas strip_none = strip_around [where a = "[]" and b = "[]", simplified]

lemma strip_of_set: "set (strip_of x s) \<subseteq> set s"
  unfolding strip_of_def rstrip_chars_def lstrip_chars_def
  by (metis set_rev set_dropWhileD subsetI)

lemma strip_of_ends: "strip_of x s \<noteq> [] \<Longrightarrow> hd (strip_of x s) \<noteq> x \<and> last (strip_of x s) \<noteq> x"
proof -
  define t where "t = dropWhile (\<lambda>c. c = x) s"
  define u where "u = dropWhile (\<lambda>c. c = x) (rev t)"
  assume "strip_of x s \<noteq> []"
  then have u: "u \<noteq> []" and eq: "strip_of x s = rev u"
    by (simp_all add: strip_of_def rstrip_chars_def lstrip_chars_def t_def u_def)
  have "hd u \<noteq> x" using u hd_dropWhile [of "\<lambda>c. c = x" "rev t"] by (simp add: u_def)
  then have l: "last (strip_of x s) \<noteq> x" using u by (simp add: eq last_rev)
  have t: "t \<noteq> []" using u by (auto simp: u_def)
  obtain v where "rev t = v @ u" unfolding u_def by (metis takeWhile_dropWhile_id)
  then have "t = rev u @ rev v" by (metis rev_append rev_rev_ident)
  then have "hd t = hd (rev u)" using u by simp
  moreover have "hd t \<noteq> x" using t hd_dropWhile [of "\<lambda>c. c = x" s] by (simp add: t_def)
  ultimately show ?thesis using l eq by simp
qed

section \<open>The route table\<close>

text \<open>
  Every entry is stored under its own path and method and listed for its workflow; every
  listed key has an entry of that workflow; no workflow has an empty list.
\<close>

definition webhook_ok :: "webhook_registry \<Rightarrow> bool" where
  "webhook_ok reg \<longleftrightarrow>
     dict_ok (wr_by_key reg) \<and> dict_ok (wr_by_workflow reg)
     \<and> (\<forall>k e. map_of (wr_by_key reg) k = Some e \<longrightarrow>
          k = (wh_path e, wh_method e)
          \<and> (\<exists>ks. map_of (wr_by_workflow reg) (wh_workflow_id e) = Some ks \<and> k \<in> set ks))
     \<and> (\<forall>wid ks. map_of (wr_by_workflow reg) wid = Some ks \<longrightarrow>
          ks \<noteq> [] \<and> (\<forall>k \<in> set ks. \<exists>e. map_of (wr_by_key reg) k = Some e \<and> wh_workflow_id e = wid))"

lemma webhook_okD:
  assumes "webhook_ok reg"
  shows "dict_ok (wr_by_key reg)" "dict_ok (wr_by_workflow reg)"
    and "map_of (wr_by_key reg) k = Some e \<Longrightarrow> k = (wh_path e, wh_method e)"
    and "map_of (wr_by_key reg) k = Some e \<Longrightarrow>
      \<exists>ks. map_of (wr_by_workflow reg) (wh_workflow_id e) = Some ks \<and> k \<in> set ks"
    and "map_of (wr_by_workflow reg) wid = Some ks \<Longrightarrow> ks \<noteq> []"
    and "map_of (wr_by_workflow reg) wid = Some ks \<Longrightarrow> k \<in> set ks \<Longrightarrow>
      \<exists>e. map_of (wr_by_key reg) k = Some e \<and> wh_workflow_id e = wid"
  using assms unfolding webhook_ok_def by blast+

lemma webhook_okI:
  assumes "dict_ok (wr_by_key reg)" "dict_ok (wr_by_workflow reg)"
    and "\<And>k e. map_of (wr_by_key reg) k = Some e \<Longrightarrow> k = (wh_path e, wh_method e)"
    and "\<And>k e. map_of (wr_by_key reg) k = Some e \<Longrightarrow>
      \<exists>ks. map_of (wr_by_workflow reg) (wh_workflow_id e) = Some ks \<and> k \<in> set ks"
    and "\<And>wid ks. map_of (wr_by_workflow reg) wid = Some ks \<Longrightarrow> ks \<noteq> []"
    and "\<And>wid ks k. map_of (wr_by_workflow reg) wid = Some ks \<Longrightarrow> k \<in> set ks \<Longrightarrow>
      \<exists>e. map_of (wr_by_key reg) k = Some e \<and> wh_workflow_id e = wid"
  shows "webhook_ok reg"
  using assms unfolding webhook_ok_def by blast

lemma dict_get_set: "k \<in> set (dict_get d x []) \<longleftrightarrow> (\<exists>ks. map_of d x = Some ks \<and> k \<in> set ks)"
  by (cases "map_of d x") (simp_all add: dict_get_def)

lemma workflow_keys:
  assumes "webhook_ok reg"
  shows "k \<in> set (dict_get (wr_by_workflow reg) wid []) \<longleftrightarrow>
    (\<exists>e. map_of (wr_by_key reg) k = Some e \<and> wh_workflow_id e = wid)"
  using webhook_okD(4,6) [OF assms] unfolding dict_get_set by blast

lemma empty_webhooks_ok: "webhook_ok empty_webhooks"
  by (simp add: webhook_ok_def empty_webhooks_def)

definition normalized :: "webhook_entry \<Rightarrow> string \<times> string \<Rightarrow> webhook_entry" where
  "normalized e key = e\<lparr>wh_path := fst key, wh_method := snd key\<rparr>"

lemma wr_register_Inr:
  assumes "wr_register e reg = Inr reg'"
  obtains key where "route_key (wh_path e) (wh_method e) = Inr key"
    and "\<forall>old. map_of (wr_by_key reg) key = Some old \<longrightarrow> wh_id old = wh_id e"
    and "wr_by_key reg' = dict_set key (normalized e key) (wr_by_key reg)"
    and "wr_by_workflow reg' = dict_set (wh_workflow_id e)
       (List.insert key (dict_get (wr_by_workflow reg) (wh_workflow_id e) [])) (wr_by_workflow reg)"
proof -
  from assms obtain key where key: "route_key (wh_path e) (wh_method e) = Inr key"
    by (cases "route_key (wh_path e) (wh_method e)") (simp_all add: wr_register_def)
  show thesis
  proof (cases "map_of (wr_by_key reg) key")
    case None
    with assms key show thesis by (intro that) (auto simp: wr_register_def normalized_def Let_def)
  next
    case (Some old)
    with assms key have "wh_id old = wh_id e" by (auto simp: wr_register_def Let_def split: if_splits)
    with assms key Some show thesis by (intro that) (auto simp: wr_register_def normalized_def Let_def)
  qed
qed

lemma wr_register_ok:
  assumes ok: "webhook_ok reg" and r: "wr_register e reg = Inr reg'"
    and owner: "\<And>k old. map_of (wr_by_key reg) k = Some old \<Longrightarrow> wh_id old = wh_id e \<Longrightarrow>
      wh_workflow_id old = wh_workflow_id e"
  shows "webhook_ok reg'"
proof -
  from r obtain key where "route_key (wh_path e) (wh_method e) = Inr key"
    and same: "\<forall>old. map_of (wr_by_key reg) key = Some old \<longrightarrow> wh_id old = wh_id e"
    and b: "wr_by_key reg' = dict_set key (normalized e key) (wr_by_key reg)"
    and w: "wr_by_workflow reg' = dict_set (wh_workflow_id e)
       (List.insert key (dict_get (wr_by_workflow reg) (wh_workflow_id e) [])) (wr_by_workflow reg)"
    by (rule wr_register_Inr)
  let ?wid = "wh_workflow_id e"
  have wid: "wh_workflow_id (normalized e key) = ?wid" by (simp add: normalized_def)
  have W: "map_of (wr_by_workflow reg') wid = (if wid = ?wid
      then Some (List.insert key (dict_get (wr_by_workflow reg) ?wid [])) else map_of (wr_by_workflow reg) wid)" for wid
    by (simp add: w dict_simps)
  have B: "map_of (wr_by_key reg') k = (if k = key then Some (normalized e key) else map_of (wr_by_key reg) k)" for k
    by (simp add: b dict_simps)
  have ks: "k \<in> set (dict_get (wr_by_workflow reg) wid []) \<Longrightarrow>
      \<exists>e. map_of (wr_by_key reg) k = Some e \<and> wh_workflow_id e = wid" for k wid
    by (simp add: workflow_keys [OF ok])
  show ?thesis
  proof (rule webhook_okI)
    show "dict_ok (wr_by_key reg')" "dict_ok (wr_by_workflow reg')"
      using webhook_okD(1,2) [OF ok] by (simp_all add: b w)
    show "k = (wh_path e', wh_method e')" if "map_of (wr_by_key reg') k = Some e'" for k e'
      using that webhook_okD(3) [OF ok] by (auto simp: B normalized_def split: if_splits)
    show "\<exists>ks. map_of (wr_by_workflow reg') (wh_workflow_id e') = Some ks \<and> k \<in> set ks"
      if "map_of (wr_by_key reg') k = Some e'" for k e'
    proof (cases "k = key")
      case True
      with that wid show ?thesis by (auto simp: B W)
    next
      case False
      with that have "map_of (wr_by_key reg) k = Some e'" by (simp add: B)
      from webhook_okD(4) [OF ok this] show ?thesis by (auto simp: W dict_get_def)
    qed
    show "ks \<noteq> []" if "map_of (wr_by_workflow reg') wid = Some ks" for wid ks
      using that webhook_okD(5) [OF ok] by (auto simp: W List.insert_def split: if_splits)
    show "\<exists>e'. map_of (wr_by_key reg') k = Some e' \<and> wh_workflow_id e' = wid'"
      if "map_of (wr_by_workflow reg') wid' = Some ks'" "k \<in> set ks'" for wid' ks' k
    proof (cases "k = key")
      case True
      have "wid' = ?wid"
      proof (rule ccontr)
        assume "wid' \<noteq> ?wid"
        with that True have "map_of (wr_by_workflow reg) wid' = Some ks'" "key \<in> set ks'" by (simp_all add: W)
        from webhook_okD(6) [OF ok this] obtain old where "map_of (wr_by_key reg) key = Some old"
          "wh_workflow_id old = wid'" by blast
        with same owner \<open>wid' \<noteq> ?wid\<close> show False by metis
      qed
      with True wid show ?thesis by (simp add: B)
    next
      case False
      with that have "k \<in> set (dict_get (wr_by_workflow reg) wid' [])"
        by (auto simp: W dict_get_def split: if_splits)
      from ks [OF this] False show ?thesis by (simp add: B)
    qed
  qed
qed

lemma wr_unregister_ok:
  assumes ok: "webhook_ok reg" and r: "wr_unregister path meth reg = Inr (res, reg')"
  shows "webhook_ok reg'"
proof -
  from r obtain key where key: "route_key path meth = Inr key"
    by (cases "route_key path meth") (simp_all add: wr_unregister_def)
  show ?thesis
  proof (cases "map_of (wr_by_key reg) key")
    case None
    with r key ok show ?thesis by (simp add: wr_unregister_def)
  next
    case (Some e)
    let ?wid = "wh_workflow_id e"
    from webhook_okD(4) [OF ok Some] obtain ks
      where ks: "map_of (wr_by_workflow reg) ?wid = Some ks" "key \<in> set ks" by blast
    have reg': "reg' = reg\<lparr>wr_by_key := dict_del key (wr_by_key reg),
        wr_by_workflow := drop_workflow_key ?wid key (wr_by_workflow reg)\<rparr>"
      using r key Some by (simp add: wr_unregister_def)
    have W: "map_of (wr_by_workflow reg') wid =
        (if wid = ?wid then (if removeAll key ks = [] then None else Some (removeAll key ks))
         else map_of (wr_by_workflow reg) wid)" for wid
      by (simp add: reg' drop_workflow_key_def ks(1) dict_simps)
    have B: "map_of (wr_by_key reg') k = (if k = key then None else map_of (wr_by_key reg) k)" for k
      by (simp add: reg' dict_simps)
    show ?thesis
    proof (rule webhook_okI)
      show "dict_ok (wr_by_key reg')" "dict_ok (wr_by_workflow reg')"
        using webhook_okD(1,2) [OF ok] by (simp_all add: reg' drop_workflow_key_def ks(1))
      show "k = (wh_path e', wh_method e')" if "map_of (wr_by_key reg') k = Some e'" for k e'
        using that webhook_okD(3) [OF ok] by (auto simp: B split: if_splits)
      show "\<exists>ks. map_of (wr_by_workflow reg') (wh_workflow_id e') = Some ks \<and> k \<in> set ks"
        if "map_of (wr_by_key reg') k = Some e'" for k e'
      proof -
        from that have k: "k \<noteq> key" "map_of (wr_by_key reg) k = Some e'" by (auto simp: B split: if_splits)
        from webhook_okD(4) [OF ok k(2)] obtain ks' where ks':
          "map_of (wr_by_workflow reg) (wh_workflow_id e') = Some ks'" "k \<in> set ks'" by blast
        show ?thesis
        proof (cases "wh_workflow_id e' = ?wid")
          case True
          with ks' ks(1) have "k \<in> set (removeAll key ks)" using k(1) by simp
          then show ?thesis using True by (metis W empty_iff empty_set)
        qed (use ks' in \<open>simp add: W\<close>)
      qed
      show "ks' \<noteq> []" if "map_of (wr_by_workflow reg') wid = Some ks'" for wid ks'
        using that webhook_okD(5) [OF ok] by (auto simp: W split: if_splits)
      show "\<exists>e'. map_of (wr_by_key reg') k = Some e' \<and> wh_workflow_id e' = wid'"
        if "map_of (wr_by_workflow reg') wid' = Some ks'" "k \<in> set ks'" for wid' ks' k
      proof (cases "wid' = ?wid")
        case True
        with that have "k \<noteq> key" "k \<in> set ks" by (auto simp: W split: if_splits)
        with webhook_okD(6) [OF ok ks(1)] True show ?thesis by (simp add: B)
      next
        case False
        with that have "map_of (wr_by_workflow reg) wid' = Some ks'" by (simp add: W)
        from webhook_okD(6) [OF ok this that(2)] False Some show ?thesis by (auto simp: B)
      qed
    qed
  qed
qed

lemma fold_dict_del:
  "dict_ok d \<Longrightarrow> dict_ok (fold dict_del ks d) \<and>
    map_of (fold dict_del ks d) k = (if k \<in> set ks then None else map_of d k)"
  by (induction ks arbitrary: d) (auto simp: dict_simps)

lemma unregister_workflow_table:
  assumes ok: "webhook_ok reg"
  shows "map_of (wr_by_key (snd (wr_unregister_workflow wid reg))) k =
      (case map_of (wr_by_key reg) k of None \<Rightarrow> None
       | Some e \<Rightarrow> if wh_workflow_id e = wid then None else Some e)"
  using fold_dict_del [OF webhook_okD(1) [OF ok]]
  by (auto simp: wr_unregister_workflow_def Let_def workflow_keys [OF ok] split: option.splits)

lemma wr_unregister_workflow_ok:
  assumes ok: "webhook_ok reg"
  shows "webhook_ok (snd (wr_unregister_workflow wid reg))"
proof (rule webhook_okI)
  let ?reg = "snd (wr_unregister_workflow wid reg)"
  note B = unregister_workflow_table [OF ok, of wid]
  have W: "map_of (wr_by_workflow ?reg) x = (if x = wid then None else map_of (wr_by_workflow reg) x)" for x
    by (simp add: wr_unregister_workflow_def Let_def dict_simps)
  show "dict_ok (wr_by_key ?reg)" "dict_ok (wr_by_workflow ?reg)"
    using webhook_okD(1,2) [OF ok] fold_dict_del [OF webhook_okD(1) [OF ok]]
    by (simp_all add: wr_unregister_workflow_def Let_def)
  show "k = (wh_path e, wh_method e)" if "map_of (wr_by_key ?reg) k = Some e" for k e
    using that webhook_okD(3) [OF ok] by (auto simp: B split: option.splits if_splits)
  show "\<exists>ks. map_of (wr_by_workflow ?reg) (wh_workflow_id e) = Some ks \<and> k \<in> set ks"
    if "map_of (wr_by_key ?reg) k = Some e" for k e
    using that webhook_okD(4) [OF ok] by (auto simp: B W split: option.splits if_splits)
  show "ks \<noteq> []" if "map_of (wr_by_workflow ?reg) x = Some ks" for x ks
    using that webhook_okD(5) [OF ok] by (auto simp: W split: if_splits)
  show "\<exists>e. map_of (wr_by_key ?reg) k = Some e \<and> wh_workflow_id e = x"
    if "map_of (wr_by_workflow ?reg) x = Some ks" "k \<in> set ks" for x ks k
    using that webhook_okD(6) [OF ok, of x ks k] by (auto simp: B W split: if_splits)
qed

lemma in_lookups:
  "x \<in> set (concat (map (\<lambda>k. case f k of None \<Rightarrow> [] | Some e \<Rightarrow> [e]) ks)) \<longleftrightarrow> (\<exists>k \<in> set ks. f k = Some x)"
  by (induction ks) (auto split: option.splits)

lemma in_values: "x \<in> set (map snd d) \<longleftrightarrow> (\<exists>k. (k, x) \<in> set d)"
  by force

lemma unregister_route:
  assumes ok: "webhook_ok reg" and key: "route_key path meth = Inr key"
  shows "returns (\<lambda>(res, reg'). wr_match reg path meth = Inr res \<and> webhook_ok reg'
        \<and> (\<forall>k. map_of (wr_by_key reg') k = (if k = key then None else map_of (wr_by_key reg) k)))
        (wr_unregister path meth reg)"
proof -
  define res where "res = map_of (wr_by_key reg) key"
  define reg' where "reg' = (case res of None \<Rightarrow> reg
    | Some e \<Rightarrow> reg\<lparr>wr_by_key := dict_del key (wr_by_key reg),
        wr_by_workflow := drop_workflow_key (wh_workflow_id e) key (wr_by_workflow reg)\<rparr>)"
  have r: "wr_unregister path meth reg = Inr (res, reg')"
    by (cases "map_of (wr_by_key reg) key") (simp_all add: wr_unregister_def key res_def reg'_def)
  have "map_of (wr_by_key reg') k = (if k = key then None else map_of (wr_by_key reg) k)" for k
    by (cases "map_of (wr_by_key reg) key") (simp_all add: res_def reg'_def dict_simps)
  moreover have "wr_match reg path meth = Inr res" by (simp add: wr_match_def key res_def)
  moreover have "webhook_ok reg'" by (rule wr_unregister_ok [OF ok r])
  ultimately show ?thesis by (simp add: r returns_def)
qed

lemma in_all_entries:
  assumes "webhook_ok reg"
  shows "e \<in> set (all_entries reg) \<longleftrightarrow> (\<exists>k. map_of (wr_by_key reg) k = Some e)"
  unfolding all_entries_def in_values map_of_eq_Some_iff [OF webhook_okD(1) [OF assms]] ..

lemma in_list_for_workflow:
  assumes "webhook_ok reg"
  shows "e \<in> set (list_for_workflow reg wid) \<longleftrightarrow> (\<exists>k. map_of (wr_by_key reg) k = Some e \<and> wh_workflow_id e = wid)"
  unfolding list_for_workflow_def in_lookups Bex_def workflow_keys [OF assms] by (metis option.inject)

lemma route_key_cases:
  "(\<exists>p m. normalise_path path = Inr p \<and> normalise_method meth = Inr m \<and> route_key path meth = Inr (p, m))
   \<or> (raises ValueError (normalise_path path) \<and> raises ValueError (route_key path meth))
   \<or> (raises UnsupportedMethodError (normalise_method meth) \<and> raises UnsupportedMethodError (route_key path meth))"
  by (auto simp: route_key_def normalise_path_def normalise_method_def raises_def raise_def Let_def)

lemma wr_register_outcome:
  "wr_register e reg =
     (case route_key (wh_path e) (wh_method e) of
        Inl x \<Rightarrow> Inl x
      | Inr key \<Rightarrow>
          if \<exists>old. map_of (wr_by_key reg) key = Some old \<and> wh_id old \<noteq> wh_id e
          then raise WebhookConflictError
            (''webhook '' @ snd key @ '' /'' @ fst key @ '' already registered by ''
             @ wh_workflow_id (the (map_of (wr_by_key reg) key)) @ ''/'' @ wh_node_id (the (map_of (wr_by_key reg) key)))
          else Inr (reg\<lparr>wr_by_key := dict_set key (normalized e key) (wr_by_key reg),
              wr_by_workflow := dict_set (wh_workflow_id e)
                (List.insert key (dict_get (wr_by_workflow reg) (wh_workflow_id e) [])) (wr_by_workflow reg)\<rparr>))"
  by (simp add: wr_register_def normalized_def Let_def split: sum.splits option.splits)

section \<open>Grouping of headers and query items\<close>

definition values_of :: "string \<Rightarrow> (string \<times> string) list \<Rightarrow> string list" where
  "values_of k ps = map snd (filter (\<lambda>p. fst p = k) ps)"

lemma collect_pairs_snoc:
  "collect_pairs (ps @ [(k, v)]) = dict_set k (dict_get (collect_pairs ps) k [] @ [v]) (collect_pairs ps)"
  by (simp add: collect_pairs_def)

lemma collect_pairs_lookup:
  "map_of (collect_pairs ps) k = (if values_of k ps = [] then None else Some (values_of k ps))"
proof (induction ps rule: rev_induct)
  case Nil
  show ?case by (simp add: collect_pairs_def values_of_def)
next
  case (snoc p ps)
  then show ?case
    by (cases p) (auto simp: collect_pairs_snoc dict_simps dict_get_def values_of_def)
qed

lemma map_of_map_values: "map_of (map (\<lambda>(k, v). (k, f v)) d) k = map_option f (map_of d k)"
  by (induction d) auto

section \<open>Properties\<close>

definition demo_hook :: webhook_entry where
  "demo_hook = \<lparr>wh_id = ''wh1'', wh_workflow_id = ''wf1'', wh_node_id = ''n1'', wh_project_id = ''pr1'',
     wh_path = ''/orders/ '', wh_method = ''post'', is_dynamic = False, response_mode = ''immediately''\<rparr>"

definition demo_hooks :: webhook_registry where
  "demo_hooks = (let e = normalized demo_hook (''orders'', ''POST'') in
     \<lparr>wr_by_key = [((''orders'', ''POST''), e)], wr_by_workflow = [(''wf1'', [(''orders'', ''POST'')])]\<rparr>)"

lemma demo_hooks_registered: "wr_register demo_hook empty_webhooks = Inr demo_hooks"
  by code_simp

lemma demo_hooks_ok: "webhook_ok demo_hooks"
  by (rule wr_register_ok [OF empty_webhooks_ok demo_hooks_registered]) (simp add: empty_webhooks_def)



text \<open>
  C25 (functional). On a consistent table, unregistering a route returns the entry that a match would find and
  removes that entry only; unregistering a workflow returns the entries that the table lists
  for it, which are all of its entries, and leaves exactly those of the other workflows. Both
  keep the two indexes consistent.
\<close>
theorem webhook_unregister:
  assumes "webhook_ok reg"
  shows "(\<forall>path meth key. route_key path meth = Inr key \<longrightarrow>
      returns (\<lambda>(res, reg'). wr_match reg path meth = Inr res \<and> webhook_ok reg'
        \<and> (\<forall>k. map_of (wr_by_key reg') k = (if k = key then None else map_of (wr_by_key reg) k)))
        (wr_unregister path meth reg))
    \<and> webhook_ok (snd (wr_unregister_workflow wid reg))
    \<and> fst (wr_unregister_workflow wid reg) = list_for_workflow reg wid
    \<and> set (list_for_workflow reg wid) = {e \<in> set (all_entries reg). wh_workflow_id e = wid}
    \<and> set (all_entries (snd (wr_unregister_workflow wid reg))) = {e \<in> set (all_entries reg). wh_workflow_id e \<noteq> wid}"
proof (intro conjI allI impI)
  have kept: "(case r of None \<Rightarrow> None | Some e \<Rightarrow> if wh_workflow_id e = wid then None else Some e) = Some x \<longleftrightarrow>
      r = Some x \<and> wh_workflow_id x \<noteq> wid" for r and x :: webhook_entry
    by (cases r) auto
  show "returns (\<lambda>(res, reg'). wr_match reg path meth = Inr res \<and> webhook_ok reg'
        \<and> (\<forall>k. map_of (wr_by_key reg') k = (if k = key then None else map_of (wr_by_key reg) k)))
        (wr_unregister path meth reg)" if "route_key path meth = Inr key" for path meth key
    using that by (rule unregister_route [OF assms])
  show "webhook_ok (snd (wr_unregister_workflow wid reg))" by (rule wr_unregister_workflow_ok [OF assms])
  show "fst (wr_unregister_workflow wid reg) = list_for_workflow reg wid"
    by (simp add: wr_unregister_workflow_def list_for_workflow_def Let_def)
  show "set (list_for_workflow reg wid) = {e \<in> set (all_entries reg). wh_workflow_id e = wid}"
    unfolding set_eq_iff mem_Collect_eq in_all_entries [OF assms] in_list_for_workflow [OF assms] by blast
  show "set (all_entries (snd (wr_unregister_workflow wid reg))) = {e \<in> set (all_entries reg). wh_workflow_id e \<noteq> wid}"
    unfolding set_eq_iff mem_Collect_eq in_all_entries [OF assms] in_all_entries [OF wr_unregister_workflow_ok [OF assms]]
      unregister_workflow_table [OF assms] kept by blast
qed

theorem webhook_unregister_witness:
  "returns (\<lambda>(res, reg'). wr_match demo_hooks ''orders'' ''POST'' = Inr res \<and> webhook_ok reg'
        \<and> (\<forall>k. map_of (wr_by_key reg') k = (if k = (''orders'', ''POST'') then None else map_of (wr_by_key demo_hooks) k)))
        (wr_unregister ''orders'' ''POST'' demo_hooks)
   \<and> set (all_entries (snd (wr_unregister_workflow ''wf1'' demo_hooks)))
      = {e \<in> set (all_entries demo_hooks). wh_workflow_id e \<noteq> ''wf1''}"
proof -
  have "route_key ''orders'' ''POST'' = Inr (''orders'', ''POST'')" by code_simp
  then show ?thesis using webhook_unregister [OF demo_hooks_ok, of "''wf1''"] by blast
qed

text \<open>
  A normalised path is non-empty, has only letters, digits and the characters
  dot, underscore, hyphen and slash, and neither starts nor ends with a hyphen; a refusal is a
  ValueError. A path of such characters whose ends are neither hyphens nor slashes is its own
  normal form, whatever slashes surround it.
\<close>
theorem normalise_path_canonical:
  "(case normalise_path path of
      Inl x \<Rightarrow> exn_cls x = ValueError
    | Inr p \<Rightarrow> p \<noteq> [] \<and> list_all path_char p \<and> hd p \<noteq> CHR ''-'' \<and> last p \<noteq> CHR ''-'')
   \<and> (s \<noteq> [] \<and> list_all path_char s \<and> hd s \<notin> set ''-/'' \<and> last s \<notin> set ''-/'' \<longrightarrow>
        normalise_path (replicate m CHR ''/'' @ s @ replicate n CHR ''/'') = Inr s)"
proof (intro conjI impI)
  define t where "t = rx_sub segment_rx ''-'' None
    (rstrip_chars (\<lambda>c. c = CHR ''/'') (lstrip_chars (\<lambda>c. c = CHR ''/'') (py_strip path)))"
  have eq: "normalise_path path = (if strip_of CHR ''-'' t = []
      then raise ValueError ''webhook path must contain at least one non-whitespace segment''
      else Inr (strip_of CHR ''-'' t))"
    by (simp add: normalise_path_def t_def Let_def)
  have "list_all path_char (strip_of CHR ''-'' t)"
    using sub_segments_chars strip_of_set unfolding t_def list_all_iff by blast
  then show "case normalise_path path of
      Inl x \<Rightarrow> exn_cls x = ValueError
    | Inr p \<Rightarrow> p \<noteq> [] \<and> list_all path_char p \<and> hd p \<noteq> CHR ''-'' \<and> last p \<noteq> CHR ''-''"
    using strip_of_ends [of "CHR ''-''" t] by (simp add: eq raise_def)
next
  assume s: "s \<noteq> [] \<and> list_all path_char s \<and> hd s \<notin> set ''-/'' \<and> last s \<notin> set ''-/''"
  then have ns: "s \<noteq> []" and ends: "hd s \<noteq> CHR ''-''" "last s \<noteq> CHR ''-''" "hd s \<noteq> CHR ''/''" "last s \<noteq> CHR ''/''"
    and chars: "list_all path_char s" by auto
  let ?p = "replicate m CHR ''/'' @ s @ replicate n CHR ''/''"
  have "list_all path_char ?p" using chars by (auto simp: list_all_iff path_char_def)
  then have "\<not> py_isspace (hd ?p)" "\<not> py_isspace (last ?p)" using ns
    by (metis append_is_Nil_conv hd_in_set last_in_set list_all_iff path_char_not_space)+
  then have "py_strip ?p = ?p" unfolding py_strip_def by (rule strip_none [rotated]) (simp add: ns)
  moreover have "rstrip_chars (\<lambda>c. c = CHR ''/'') (lstrip_chars (\<lambda>c. c = CHR ''/'') ?p) = s"
    by (rule strip_around) (simp_all add: ns ends list_all_iff)
  moreover have "strip_of CHR ''-'' s = s" unfolding strip_of_def by (rule strip_none) (simp_all add: ns ends)
  ultimately show "normalise_path ?p = Inr s"
    using sub_segments_id [OF chars] ns by (simp add: normalise_path_def Let_def)
qed

theorem normalise_path_canonical_witness:
  "normalise_path (replicate 2 CHR ''/'' @ ''orders/v1.new'' @ replicate 1 CHR ''/'') = Inr ''orders/v1.new''"
proof -
  have "''orders/v1.new'' \<noteq> [] \<and> list_all path_char ''orders/v1.new''
      \<and> hd ''orders/v1.new'' \<notin> set ''-/'' \<and> last ''orders/v1.new'' \<notin> set ''-/''" by code_simp
  then show ?thesis using normalise_path_canonical [of "''a''" "''orders/v1.new''" 2 1] by blast
qed

text \<open>
  A parsed request lists under each query key all of its values in request order, and
  in the flat view the last of them; a header is found under its lower-case name with its
  values joined in request order. The body is absent exactly when it is empty; it is the parsed
  document when the content type says JSON and the text parses, the raw text when it decodes
  otherwise, and its length when it does not.
\<close>
theorem parse_request_fields:
  "let r = parse_request utf8 loads meth path headers query_items body;
       hs = map (\<lambda>(n, v). (py_lower n, v)) headers;
       ct = py_lower (join '', '' (values_of ''content-type'' hs)) in
     pr_method r = py_upper meth \<and> pr_path r = path
     \<and> (\<forall>k. map_of (pr_query_all r) k
           = (if values_of k query_items = [] then None else Some (values_of k query_items)))
     \<and> (\<forall>k. map_of (pr_query r) k
           = (if values_of k query_items = [] then None else Some (last (values_of k query_items))))
     \<and> (\<forall>n. map_of (pr_headers r) n
           = (if values_of n hs = [] then None else Some (join '', '' (values_of n hs))))
     \<and> pr_body r =
         (if body = [] then JNull
          else case utf8 body of
            None \<Rightarrow> JObj [(''raw_bytes_length'', JInt (int (length body)))]
          | Some t \<Rightarrow>
              (case (if substring ''application/json'' ct \<or> substring ''+json'' ct then loads t else None) of
                 Some v \<Rightarrow> v
               | None \<Rightarrow> JObj [(''raw'', JStr t)]))"
proof -
  define hs where "hs = map (\<lambda>(n, v). (py_lower n, v)) headers"
  have headers: "map_of (collapse_headers headers) n
      = (if values_of n hs = [] then None else Some (join '', '' (values_of n hs)))" for n
    by (simp add: collapse_headers_def map_of_map_values collect_pairs_lookup flip: hs_def)
  have "dict_get (collapse_headers headers) ''content-type'' [] = join '', '' (values_of ''content-type'' hs)"
    by (cases "values_of ''content-type'' hs") (simp_all add: dict_get_def headers)
  then show ?thesis
    by (simp add: parse_request_def Let_def headers map_of_map_values collect_pairs_lookup parse_body_def
      flip: hs_def split: option.split)
qed

section \<open>Divergences\<close>

text \<open>
  Stripping hyphens last can expose a slash, so normalising twice may differ from normalising
  once; a match on an unsupported method raises instead of finding nothing; and registering an
  id again for another workflow leaves the route listed for the first one, so that dropping the
  first workflow removes the route of the second.
\<close>

lemma normalise_path_not_idempotent:
  "normalise_path ''-/a'' = Inr ''/a'' \<and> normalise_path ''/a'' = Inr ''a''"
  by code_simp

lemma match_raises_on_method: "raises UnsupportedMethodError (wr_match demo_hooks ''orders'' ''TRACE'')"
  by code_simp

lemma register_other_workflow_stale:
  "returns (\<lambda>reg. all_entries (snd (wr_unregister_workflow ''wf1'' reg)) = [])
     (wr_register (demo_hook\<lparr>wh_workflow_id := ''wf2''\<rparr>) demo_hooks)"
  by code_simp

end
