(* ===== verification/Kv_Client.thy ===== *)
theory Kv_Client
  imports Prelude
begin

text \<open>
  The key-value client that the leader lock, the idempotency guard and the nonce store share
  (a Redis client in production). It is not part of the program: \<open>kv_client\<close> has the four calls
  the sources make, on a client state of any type, and \<open>kv_laws\<close> states the documented contract
  in terms of the keys that are visible: \<open>SET NX\<close> writes exactly when the key is absent, a failed
  write or delete may or may not have happened, reads and \<open>EXPIRE\<close> change no value.
\<close>

record 'c kv_client =
  kv_set_nx :: "string \<Rightarrow> string \<Rightarrow> int \<Rightarrow> 'c \<Rightarrow> bool result \<times> 'c"
  kv_get :: "string \<Rightarrow> 'c \<Rightarrow> string option result"
  kv_expire :: "string \<Rightarrow> int \<Rightarrow> 'c \<Rightarrow> unit result \<times> 'c"
  kv_delete :: "string \<Rightarrow> 'c \<Rightarrow> unit result \<times> 'c"

definition kv_laws :: "'c kv_client \<Rightarrow> ('c \<Rightarrow> string \<Rightarrow> string option) \<Rightarrow> bool" where
  "kv_laws cl view \<longleftrightarrow>
     (\<forall>k v t c b c'. kv_set_nx cl k v t c = (Inr b, c') \<longrightarrow>
        (b \<longleftrightarrow> view c k = None) \<and> view c' = (if b then (view c)(k := Some v) else view c))
     \<and> (\<forall>k v t c e c'. kv_set_nx cl k v t c = (Inl e, c') \<longrightarrow>
        view c' = view c \<or> view c k = None \<and> view c' = (view c)(k := Some v))
     \<and> (\<forall>k c r. kv_get cl k c = Inr r \<longrightarrow> r = view c k)
     \<and> (\<forall>k t c r c'. kv_expire cl k t c = (r, c') \<longrightarrow> view c' = view c)
     \<and> (\<forall>k c u c'. kv_delete cl k c = (Inr u, c') \<longrightarrow> view c' = (view c)(k := None))
     \<and> (\<forall>k c e c'. kv_delete cl k c = (Inl e, c') \<longrightarrow> view c' = view c \<or> view c' = (view c)(k := None))"

lemma kv_lawsD:
  assumes "kv_laws cl view"
  shows "kv_set_nx cl k v t c = (Inr b, c') \<Longrightarrow> b \<longleftrightarrow> view c k = None"
    and "kv_set_nx cl k v t c = (Inr b, c') \<Longrightarrow> view c' = (if b then (view c)(k := Some v) else view c)"
    and "kv_set_nx cl k v t c = (Inl e, c') \<Longrightarrow>
      view c' = view c \<or> view c k = None \<and> view c' = (view c)(k := Some v)"
    and "kv_get cl k c = Inr r \<Longrightarrow> r = view c k"
    and "kv_expire cl k s c = (u, c') \<Longrightarrow> view c' = view c"
    and "kv_delete cl k c = (Inr x, c') \<Longrightarrow> view c' = (view c)(k := None)"
    and "kv_delete cl k c = (Inl e, c') \<Longrightarrow> view c' = view c \<or> view c' = (view c)(k := None)"
proof -
  note laws = assms [unfolded kv_laws_def]
  note set_ok = laws [THEN conjunct1, rule_format] and more = laws [THEN conjunct2]
  note set_fails = more [THEN conjunct1, rule_format] and get = more [THEN conjunct2, THEN conjunct1, rule_format]
    and rest = more [THEN conjunct2, THEN conjunct2]
  note expire = rest [THEN conjunct1, rule_format] and del = rest [THEN conjunct2, THEN conjunct1, rule_format]
    and del_fails = rest [THEN conjunct2, THEN conjunct2, rule_format]
  show "kv_set_nx cl k v t c = (Inr b, c') \<Longrightarrow> b \<longleftrightarrow> view c k = None"
    by (rule set_ok [THEN conjunct1])
  show "kv_set_nx cl k v t c = (Inr b, c') \<Longrightarrow> view c' = (if b then (view c)(k := Some v) else view c)"
    by (rule set_ok [THEN conjunct2])
  show "kv_set_nx cl k v t c = (Inl e, c') \<Longrightarrow>
      view c' = view c \<or> view c k = None \<and> view c' = (view c)(k := Some v)" by (rule set_fails)
  show "kv_get cl k c = Inr r \<Longrightarrow> r = view c k" by (rule get)
  show "kv_expire cl k s c = (u, c') \<Longrightarrow> view c' = view c" by (rule expire)
  show "kv_delete cl k c = (Inr x, c') \<Longrightarrow> view c' = (view c)(k := None)" by (rule del)
  show "kv_delete cl k c = (Inl e, c') \<Longrightarrow> view c' = view c \<or> view c' = (view c)(k := None)" by (rule del_fails)
qed

text \<open>A client that never fails, on a dictionary.\<close>

definition dict_client :: "(string, string) dict kv_client" where
  "dict_client = \<lparr>
     kv_set_nx = (\<lambda>k v t c. if map_of c k = None then (Inr True, dict_set k v c) else (Inr False, c)),
     kv_get = (\<lambda>k c. Inr (map_of c k)),
     kv_expire = (\<lambda>k t c. (Inr (), c)),
     kv_delete = (\<lambda>k c. (Inr (), dict_del k c))\<rparr>"

lemma dict_client_laws: "kv_laws dict_client map_of"
  by (auto simp: kv_laws_def dict_client_def dict_simps split: if_splits)

end
