(* ===== verification/Triggers.thy ===== *)
theory Triggers
  imports Webhooks
begin

text \<open>
  Activation of workflows (\<open>triggers/manager.py\<close>, \<open>triggers/scheduler.py\<close>): which trigger
  nodes are registered where, what is written to the two trigger tables, how the state is torn
  down and how it is rebuilt at start-up. The manager works on the webhook table of
  \<open>Webhooks\<close>, the in-process scheduler and the queue.

  The database session is a parameter: the operations of \<open>sql_session\<close> on a state of any type.
  \<open>sql_laws\<close> says what the code relies on: an accepted insert adds the row, a delete removes the
  rows of its condition, and neither touches the other table. An insert or a commit may fail.
\<close>

section \<open>Schedules\<close>

definition SCHEDULE_KIND_CRON :: string where "SCHEDULE_KIND_CRON = ''cron''"

definition SCHEDULE_KIND_INTERVAL :: string where "SCHEDULE_KIND_INTERVAL = ''interval''"

definition SCHEDULE_KINDS :: "string list" where
  "SCHEDULE_KINDS = [SCHEDULE_KIND_CRON, SCHEDULE_KIND_INTERVAL]"

record schedule_spec =
  ss_kind :: string
  cron_expression :: "string option"
  interval_seconds :: "int option"
  ss_timezone :: string

definition spec_validate :: "schedule_spec \<Rightarrow> unit result" where
  "spec_validate spec =
     (if ss_kind spec \<notin> set SCHEDULE_KINDS
      then raise ValueError (''unknown schedule kind '' @ repr_str (ss_kind spec))
      else if ss_kind spec = SCHEDULE_KIND_CRON \<and> (cron_expression spec = None \<or> cron_expression spec = Some [])
      then raise ValueError ''cron schedule requires a cron_expression''
      else if ss_kind spec = SCHEDULE_KIND_INTERVAL \<and> (interval_seconds spec = None \<or> interval_seconds spec = Some 0)
      then raise ValueError ''interval schedule requires interval_seconds''
      else Inr ())"

record schedule_row =
  sr_id :: string
  sr_workflow_id :: string
  sr_node_id :: string
  sr_project_id :: string
  sr_spec :: schedule_spec

text \<open>The in-process scheduler: a job is the row its callback closes over.\<close>

type_synonym job_table = "(string, schedule_row) dict"

definition add_job :: "string \<Rightarrow> schedule_spec \<Rightarrow> schedule_row \<Rightarrow> job_table \<Rightarrow> job_table result" where
  "add_job job_id spec callback jobs =
     rbind (spec_validate spec) (\<lambda>_. Inr (dict_set job_id callback jobs))"

definition remove_job :: "string \<Rightarrow> job_table \<Rightarrow> job_table" where
  "remove_job job_id jobs = dict_del job_id jobs"

definition has_job :: "string \<Rightarrow> job_table \<Rightarrow> bool" where
  "has_job job_id jobs \<longleftrightarrow> map_of jobs job_id \<noteq> None"

section \<open>Parameters of trigger nodes\<close>

definition optional_str :: "(rat \<Rightarrow> string) \<Rightarrow> json \<Rightarrow> string option" where
  "optional_str fr v = (if v = JNull \<or> v = JStr [] then None else Some (py_str fr v))"

definition optional_int :: "(rat \<Rightarrow> string) \<Rightarrow> json \<Rightarrow> int option result" where
  "optional_int fr v =
     (if v = JNull \<or> v = JStr [] then Inr None
      else case int_of_json v of
        None \<Rightarrow> raise ValueError (''interval_seconds must be an integer, got '' @ py_repr fr v)
      | Some i \<Rightarrow> Inr (Some i))"

definition schedule_spec_from_params :: "(rat \<Rightarrow> string) \<Rightarrow> jobj \<Rightarrow> schedule_spec result" where
  "schedule_spec_from_params fr params =
     (let kind = py_str fr (dict_get params ''kind'' (JStr SCHEDULE_KIND_INTERVAL));
          cron = optional_str fr (dict_get params ''cron_expression'' JNull) in
      rbind (optional_int fr (dict_get params ''interval_seconds'' JNull)) (\<lambda>secs.
        Inr \<lparr>ss_kind = kind, cron_expression = cron, interval_seconds = secs,
             ss_timezone = py_str fr (dict_get params ''timezone'' (JStr ''UTC''))\<rparr>))"

text \<open>
  The \<open>path\<close> parameter as the user path of \<open>static_path\<close>: a false value counts as absent, and a
  true value that is not a string has no \<open>strip\<close>.
\<close>

definition path_param :: "json \<Rightarrow> string option result" where
  "path_param v =
     (case v of
        JStr s \<Rightarrow> Inr (Some s)
      | _ \<Rightarrow> if py_bool v
             then raise (Other ''AttributeError'')
                    (repr_str (type_name v) @ '' object has no attribute '' @ repr_str ''strip'')
             else Inr None)"

definition schedule_job_id :: "string \<Rightarrow> string \<Rightarrow> string" where
  "schedule_job_id workflow_id i = ''schedule:'' @ workflow_id @ '':'' @ i"

definition WEBHOOK_BACKED_TRIGGER_TYPES :: "string list" where
  "WEBHOOK_BACKED_TRIGGER_TYPES = [''weftlyflow.webhook_trigger'', ''weftlyflow.trigger_chat'']"

definition SCHEDULE_TRIGGER_TYPE :: string where
  "SCHEDULE_TRIGGER_TYPE = ''weftlyflow.schedule_trigger''"

definition is_trigger_type :: "string \<Rightarrow> bool" where
  "is_trigger_type t \<longleftrightarrow> t \<in> set WEBHOOK_BACKED_TRIGGER_TYPES \<or> t = SCHEDULE_TRIGGER_TYPE"

section \<open>The manager\<close>

text \<open>\<open>insert_\<close>: add the row and flush, with the exception of a refused flush.\<close>

record 's sql_session =
  insert_webhook :: "webhook_entry \<Rightarrow> 's \<Rightarrow> exn option \<times> 's"
  select_webhooks :: "'s \<Rightarrow> webhook_entry list"
  delete_webhooks :: "(webhook_entry \<Rightarrow> bool) \<Rightarrow> 's \<Rightarrow> 's"
  insert_schedule :: "schedule_row \<Rightarrow> 's \<Rightarrow> exn option \<times> 's"
  select_schedules :: "'s \<Rightarrow> schedule_row list"
  delete_schedules :: "(schedule_row \<Rightarrow> bool) \<Rightarrow> 's \<Rightarrow> 's"
  sql_commit :: "'s \<Rightarrow> exn option"

text \<open>
  The manager's world: the rows as the session sees them, the webhook table, the scheduler's
  jobs, the leadership flag, the requests handed to the queue, and the number of fresh ids
  taken so far from the supply \<open>ids\<close>.
\<close>

record 's trigger_state =
  tm_db :: 's
  tm_registry :: webhook_registry
  tm_jobs :: job_table
  tm_leader :: bool
  tm_queue :: "execution_request list"
  tm_fresh :: nat

record activation_result =
  webhooks_registered :: "string list"
  schedules_registered :: "string list"
  act_errors :: "string list"

text \<open>What surrounds the manager: the printer of floats, the id supply and the session.\<close>

record 's trigger_env =
  te_float_repr :: "rat \<Rightarrow> string"
  te_ids :: "nat \<Rightarrow> string"
  te_session :: "'s sql_session"

definition webhook_entity :: "'s trigger_env \<Rightarrow> workflow \<Rightarrow> node \<Rightarrow> string \<Rightarrow> string \<Rightarrow> webhook_entry" where
  "webhook_entity env w n i path =
     (let params = parameters n; fr = te_float_repr env in
      \<lparr>wh_id = i, wh_workflow_id = wf_id w, wh_node_id = node_id n, wh_project_id = project_id w,
       wh_path = path, wh_method = py_upper (py_str fr (dict_get params ''method'' (JStr ''POST''))),
       is_dynamic = False,
       response_mode = py_str fr (dict_get params ''response_mode'' (JStr ''immediately''))\<rparr>)"

definition register_webhook :: "'s trigger_env \<Rightarrow> workflow \<Rightarrow> node \<Rightarrow> 's trigger_state
    \<Rightarrow> string result \<times> 's trigger_state" where
  "register_webhook env w n st =
     (case rbind (path_param (dict_get (parameters n) ''path'' JNull)) (static_path (wf_id w) (node_id n)) of
        Inl e \<Rightarrow> (Inl e, st)
      | Inr path \<Rightarrow>
          (let entity = webhook_entity env w n (te_ids env (tm_fresh st)) path;
               (err, db) = insert_webhook (te_session env) entity (tm_db st);
               st1 = st\<lparr>tm_db := db, tm_fresh := Suc (tm_fresh st)\<rparr> in
           case err of
             Some e \<Rightarrow> (Inl e, st1)
           | None \<Rightarrow>
               (case wr_register entity (tm_registry st) of
                  Inl e \<Rightarrow> (Inl e, st1)
                | Inr reg \<Rightarrow> (Inr path, st1\<lparr>tm_registry := reg\<rparr>))))"

definition register_schedule :: "'s trigger_env \<Rightarrow> workflow \<Rightarrow> node \<Rightarrow> 's trigger_state
    \<Rightarrow> string result \<times> 's trigger_state" where
  "register_schedule env w n st =
     (case rbind (schedule_spec_from_params (te_float_repr env) (parameters n))
             (\<lambda>spec. rbind (spec_validate spec) (\<lambda>_. Inr spec)) of
        Inl e \<Rightarrow> (Inl e, st)
      | Inr spec \<Rightarrow>
          (let entity = \<lparr>sr_id = ''ts_'' @ drop 3 (te_ids env (tm_fresh st)), sr_workflow_id = wf_id w,
                 sr_node_id = node_id n, sr_project_id = project_id w, sr_spec = spec\<rparr>;
               (err, db) = insert_schedule (te_session env) entity (tm_db st);
               st1 = st\<lparr>tm_db := db, tm_fresh := Suc (tm_fresh st)\<rparr> in
           case err of
             Some e \<Rightarrow> (Inl e, st1)
           | None \<Rightarrow>
               (let job_id = schedule_job_id (wf_id w) (node_id n) in
                case add_job job_id spec entity (tm_jobs st) of
                  Inl e \<Rightarrow> (Inl e, st1)
                | Inr jobs \<Rightarrow> (Inr job_id, st1\<lparr>tm_jobs := jobs\<rparr>))))"

text \<open>One turn of the loop over the nodes: any exception becomes an error message.\<close>

definition activate_node :: "'s trigger_env \<Rightarrow> workflow \<Rightarrow> activation_result \<times> 's trigger_state \<Rightarrow> node
    \<Rightarrow> activation_result \<times> 's trigger_state" where
  "activate_node env w acc n =
     (let (res, st) = acc;
          failed = (\<lambda>e. res\<lparr>act_errors := act_errors res @ [node_id n @ '': '' @ exn_msg e]\<rparr>) in
      if disabled n then (res, st)
      else if node_type n \<in> set WEBHOOK_BACKED_TRIGGER_TYPES then
        (case register_webhook env w n st of
           (Inl e, st') \<Rightarrow> (failed e, st')
         | (Inr path, st') \<Rightarrow> (res\<lparr>webhooks_registered := webhooks_registered res @ [path]\<rparr>, st'))
      else if node_type n = SCHEDULE_TRIGGER_TYPE then
        (case register_schedule env w n st of
           (Inl e, st') \<Rightarrow> (failed e, st')
         | (Inr job_id, st') \<Rightarrow> (res\<lparr>schedules_registered := schedules_registered res @ [job_id]\<rparr>, st'))
      else (res, st))"

text \<open>The session discards its rows when the block is left with an exception.\<close>

definition activate :: "'s trigger_env \<Rightarrow> workflow \<Rightarrow> 's trigger_state
    \<Rightarrow> activation_result result \<times> 's trigger_state" where
  "activate env w st =
     (let (res, st') = foldl (activate_node env w)
            (\<lparr>webhooks_registered = [], schedules_registered = [], act_errors = []\<rparr>, st) (wf_nodes w) in
      case sql_commit (te_session env) (tm_db st') of
        Some e \<Rightarrow> (Inl e, st'\<lparr>tm_db := tm_db st\<rparr>)
      | None \<Rightarrow> (Inr res, st'))"

fun unregister_rows :: "webhook_entry list \<Rightarrow> webhook_registry \<Rightarrow> exn option \<times> webhook_registry" where
  "unregister_rows [] reg = (None, reg)"
| "unregister_rows (r # rs) reg =
     (case wr_unregister (wh_path r) (wh_method r) reg of
        Inl e \<Rightarrow> (Some e, reg)
      | Inr (_, reg') \<Rightarrow> unregister_rows rs reg')"

definition webhooks_for_workflow :: "'s sql_session \<Rightarrow> string \<Rightarrow> 's \<Rightarrow> webhook_entry list" where
  "webhooks_for_workflow ses wid db = filter (\<lambda>r. wh_workflow_id r = wid) (select_webhooks ses db)"

definition schedules_for_workflow :: "'s sql_session \<Rightarrow> string \<Rightarrow> 's \<Rightarrow> schedule_row list" where
  "schedules_for_workflow ses wid db = filter (\<lambda>r. sr_workflow_id r = wid) (select_schedules ses db)"

definition deactivate :: "'s trigger_env \<Rightarrow> workflow \<Rightarrow> 's trigger_state \<Rightarrow> unit result \<times> 's trigger_state" where
  "deactivate env w st =
     (let ses = te_session env;
          (err, reg) = unregister_rows (webhooks_for_workflow ses (wf_id w) (tm_db st)) (tm_registry st);
          st1 = st\<lparr>tm_registry := reg\<rparr> in
      case err of
        Some e \<Rightarrow> (Inl e, st1)
      | None \<Rightarrow>
          (let db1 = delete_webhooks ses (\<lambda>r. wh_workflow_id r = wf_id w) (tm_db st);
               jobs = foldl (\<lambda>js r. remove_job (schedule_job_id (sr_workflow_id r) (sr_node_id r)) js)
                        (tm_jobs st) (schedules_for_workflow ses (wf_id w) db1);
               db2 = delete_schedules ses (\<lambda>r. sr_workflow_id r = wf_id w) db1;
               st2 = st1\<lparr>tm_jobs := jobs\<rparr> in
           case sql_commit ses db2 of
             Some e \<Rightarrow> (Inl e, st2)
           | None \<Rightarrow> (Inr (), st2\<lparr>tm_db := db2\<rparr>)))"

fun add_row_jobs :: "schedule_row list \<Rightarrow> job_table \<Rightarrow> exn option \<times> job_table" where
  "add_row_jobs [] jobs = (None, jobs)"
| "add_row_jobs (r # rs) jobs =
     (case add_job (schedule_job_id (sr_workflow_id r) (sr_node_id r)) (sr_spec r) r jobs of
        Inl e \<Rightarrow> (Some e, jobs)
      | Inr jobs' \<Rightarrow> add_row_jobs rs jobs')"

definition warm_up :: "'s trigger_env \<Rightarrow> 's trigger_state \<Rightarrow> nat result \<times> 's trigger_state" where
  "warm_up env st =
     (let webhooks = select_webhooks (te_session env) (tm_db st);
          (reg, loaded) = wr_load webhooks;
          st1 = st\<lparr>tm_registry := reg\<rparr> in
      case loaded of
        Inl e \<Rightarrow> (Inl e, st1)
      | Inr _ \<Rightarrow>
          (let rows = select_schedules (te_session env) (tm_db st);
               (err, jobs) = add_row_jobs rows (tm_jobs st);
               st2 = st1\<lparr>tm_jobs := jobs\<rparr> in
           case err of
             Some e \<Rightarrow> (Inl e, st2)
           | None \<Rightarrow> (Inr (length webhooks + length rows), st2)))"

text \<open>A tick of a job: only the leader enqueues.\<close>

definition fire :: "string \<Rightarrow> schedule_row \<Rightarrow> 's trigger_state \<Rightarrow> 's trigger_state" where
  "fire execution_id row st =
     (if \<not> tm_leader st then st
      else st\<lparr>tm_queue := tm_queue st @
        [\<lparr>er_execution_id = execution_id, er_workflow_id = sr_workflow_id row, er_project_id = sr_project_id row,
          er_mode = ModeTrigger, er_triggered_by = Some (''schedule:'' @ sr_node_id row),
          er_initial_items = [[(''node_id'', JStr (sr_node_id row))]]\<rparr>]\<rparr>)"

definition fire_now :: "string \<Rightarrow> string \<Rightarrow> 's trigger_state \<Rightarrow> 's trigger_state result" where
  "fire_now execution_id job_id st =
     (case map_of (tm_jobs st) job_id of
        None \<Rightarrow> raise KeyError (repr_str job_id)
      | Some row \<Rightarrow> Inr (fire execution_id row st))"

text \<open>The trigger part of the activation endpoint of the server.\<close>

definition activate_triggers :: "'s trigger_env \<Rightarrow> workflow \<Rightarrow> 's trigger_state
    \<Rightarrow> string list result \<times> 's trigger_state" where
  "activate_triggers env w st =
     (case deactivate env w st of
        (Inl e, st1) \<Rightarrow> (Inl e, st1)
      | (Inr _, st1) \<Rightarrow>
          (case activate env w st1 of
             (Inl e, st2) \<Rightarrow> (Inl e, st2)
           | (Inr res, st2) \<Rightarrow>
               if act_errors res \<noteq> []
               then (case deactivate env w st2 of
                       (Inl e, st3) \<Rightarrow> (Inl e, st3)
                     | (Inr _, st3) \<Rightarrow> (Inr (act_errors res), st3))
               else (Inr [], st2)))"

section \<open>Invariant\<close>

definition sql_laws :: "'s sql_session \<Rightarrow> bool" where
  "sql_laws ses \<longleftrightarrow>
     (\<forall>r db db'. insert_webhook ses r db = (None, db') \<longrightarrow>
        set (select_webhooks ses db') = insert r (set (select_webhooks ses db))
        \<and> set (select_schedules ses db') = set (select_schedules ses db))
     \<and> (\<forall>r db db'. insert_schedule ses r db = (None, db') \<longrightarrow>
        set (select_schedules ses db') = insert r (set (select_schedules ses db))
        \<and> set (select_webhooks ses db') = set (select_webhooks ses db))
     \<and> (\<forall>p db. set (select_webhooks ses (delete_webhooks ses p db)) = {r \<in> set (select_webhooks ses db). \<not> p r}
        \<and> set (select_schedules ses (delete_webhooks ses p db)) = set (select_schedules ses db))
     \<and> (\<forall>p db. set (select_schedules ses (delete_schedules ses p db)) = {r \<in> set (select_schedules ses db). \<not> p r}
        \<and> set (select_webhooks ses (delete_schedules ses p db)) = set (select_webhooks ses db))"

lemma sql_lawsD:
  assumes "sql_laws ses"
  shows "insert_webhook ses r db = (None, db') \<Longrightarrow>
      set (select_webhooks ses db') = insert r (set (select_webhooks ses db))"
    and "insert_webhook ses r db = (None, db') \<Longrightarrow> set (select_schedules ses db') = set (select_schedules ses db)"
    and "insert_schedule ses sr db = (None, db') \<Longrightarrow>
      set (select_schedules ses db') = insert sr (set (select_schedules ses db))"
    and "insert_schedule ses sr db = (None, db') \<Longrightarrow> set (select_webhooks ses db') = set (select_webhooks ses db)"
    and "set (select_webhooks ses (delete_webhooks ses p db)) = {r \<in> set (select_webhooks ses db). \<not> p r}"
    and "set (select_schedules ses (delete_webhooks ses p db)) = set (select_schedules ses db)"
    and "set (select_schedules ses (delete_schedules ses q db)) = {r \<in> set (select_schedules ses db). \<not> q r}"
    and "set (select_webhooks ses (delete_schedules ses q db)) = set (select_webhooks ses db)"
proof -
  note laws = assms [unfolded sql_laws_def]
  note w = laws [THEN conjunct1, rule_format] and s = laws [THEN conjunct2, THEN conjunct1, rule_format]
    and d = laws [THEN conjunct2, THEN conjunct2, THEN conjunct1, rule_format]
    and e = laws [THEN conjunct2, THEN conjunct2, THEN conjunct2, rule_format]
  show "insert_webhook ses r db = (None, db') \<Longrightarrow>
      set (select_webhooks ses db') = insert r (set (select_webhooks ses db))"
    and "insert_webhook ses r db = (None, db') \<Longrightarrow> set (select_schedules ses db') = set (select_schedules ses db)"
    by (rule w [THEN conjunct1], assumption, rule w [THEN conjunct2], assumption)
  show "insert_schedule ses sr db = (None, db') \<Longrightarrow>
      set (select_schedules ses db') = insert sr (set (select_schedules ses db))"
    and "insert_schedule ses sr db = (None, db') \<Longrightarrow> set (select_webhooks ses db') = set (select_webhooks ses db)"
    by (rule s [THEN conjunct1], assumption, rule s [THEN conjunct2], assumption)
  show "set (select_webhooks ses (delete_webhooks ses p db)) = {r \<in> set (select_webhooks ses db). \<not> p r}"
    and "set (select_schedules ses (delete_webhooks ses p db)) = set (select_schedules ses db)"
    and "set (select_schedules ses (delete_schedules ses q db)) = {r \<in> set (select_schedules ses db). \<not> q r}"
    and "set (select_webhooks ses (delete_schedules ses q db)) = set (select_webhooks ses db)"
    by (rule d [THEN conjunct1] d [THEN conjunct2] e [THEN conjunct1] e [THEN conjunct2])+
qed

abbreviation job_of :: "schedule_row \<Rightarrow> string" where
  "job_of r \<equiv> schedule_job_id (sr_workflow_id r) (sr_node_id r)"

text \<open>
  The rows and the in-process tables tell the same story: a row's route is served by the entry
  made from it and every served entry comes from a row (whose id belongs to one workflow); a row has a job, and every job is
  the job of a row with a valid schedule. Workflow ids have no colon, as generated ids do not.
\<close>

definition routes_ok :: "webhook_entry set \<Rightarrow> webhook_registry \<Rightarrow> bool" where
  "routes_ok rows reg \<longleftrightarrow>
     webhook_ok reg
     \<and> (\<forall>r \<in> rows. \<forall>r' \<in> rows. wh_id r = wh_id r' \<longrightarrow> wh_workflow_id r = wh_workflow_id r')
     \<and> (\<forall>r \<in> rows. \<exists>key. route_key (wh_path r) (wh_method r) = Inr key
          \<and> map_of (wr_by_key reg) key = Some (normalized r key))
     \<and> (\<forall>key e. map_of (wr_by_key reg) key = Some e \<longrightarrow>
          (\<exists>r \<in> rows. route_key (wh_path r) (wh_method r) = Inr key \<and> e = normalized r key))"

definition jobs_ok :: "schedule_row set \<Rightarrow> job_table \<Rightarrow> bool" where
  "jobs_ok rows jobs \<longleftrightarrow>
     dict_ok jobs
     \<and> (\<forall>r \<in> rows. map_of jobs (job_of r) \<noteq> None \<and> spec_validate (sr_spec r) = Inr ()
          \<and> CHR '':'' \<notin> set (sr_workflow_id r))
     \<and> (\<forall>j r. map_of jobs j = Some r \<longrightarrow> r \<in> rows \<and> j = job_of r)"

definition triggers_ok :: "'s trigger_env \<Rightarrow> 's trigger_state \<Rightarrow> bool" where
  "triggers_ok env st \<longleftrightarrow>
     routes_ok (set (select_webhooks (te_session env) (tm_db st))) (tm_registry st)
     \<and> jobs_ok (set (select_schedules (te_session env) (tm_db st))) (tm_jobs st)"

lemma normalized_sel [simp]:
  "wh_id (normalized r key) = wh_id r" "wh_workflow_id (normalized r key) = wh_workflow_id r"
  "wh_node_id (normalized r key) = wh_node_id r"
  by (simp_all add: normalized_def)

section \<open>Deactivation\<close>

lemma wr_unregister_total:
  assumes "webhook_ok reg" and "route_key p m = Inr key"
  obtains res reg' where "wr_unregister p m reg = Inr (res, reg')" "webhook_ok reg'"
    "\<And>k. map_of (wr_by_key reg') k = (if k = key then None else map_of (wr_by_key reg) k)"
proof -
  from unregister_route [OF assms] obtain x where x: "wr_unregister p m reg = Inr x"
    and P: "case x of (res, reg') \<Rightarrow> wr_match reg p m = Inr res \<and> webhook_ok reg'
        \<and> (\<forall>k. map_of (wr_by_key reg') k = (if k = key then None else map_of (wr_by_key reg) k))"
    unfolding returns_iff by blast
  obtain res reg' where xr: "x = (res, reg')" by (cases x)
  from P [unfolded xr split_conv] show thesis using x [unfolded xr] that by blast
qed

lemma unregister_rows_spec:
  assumes "webhook_ok reg" and "\<And>r. r \<in> set rs \<Longrightarrow> \<exists>key. route_key (wh_path r) (wh_method r) = Inr key"
  shows "\<exists>reg'. unregister_rows rs reg = (None, reg') \<and> webhook_ok reg'
    \<and> (\<forall>k. map_of (wr_by_key reg') k =
         (if \<exists>r \<in> set rs. route_key (wh_path r) (wh_method r) = Inr k then None else map_of (wr_by_key reg) k))"
  using assms
proof (induction rs arbitrary: reg)
  case (Cons r rs)
  from Cons.prems(2) obtain key where key: "route_key (wh_path r) (wh_method r) = Inr key"
    using list.set_intros(1) by metis
  from wr_unregister_total [OF Cons.prems(1) key] obtain res reg1 where
    r1: "wr_unregister (wh_path r) (wh_method r) reg = Inr (res, reg1)" and ok: "webhook_ok reg1"
    and B: "\<And>k. map_of (wr_by_key reg1) k = (if k = key then None else map_of (wr_by_key reg) k)" by metis
  from Cons.IH [OF ok] Cons.prems(2) obtain reg' where "unregister_rows rs reg1 = (None, reg')" "webhook_ok reg'"
    "\<forall>k. map_of (wr_by_key reg') k =
         (if \<exists>r \<in> set rs. route_key (wh_path r) (wh_method r) = Inr k then None else map_of (wr_by_key reg1) k)"
    by (metis list.set_intros(2))
  then show ?case using r1 by (intro exI [of _ reg']) (simp add: B key)
qed simp

lemma job_id_inj:
  assumes "schedule_job_id w i = schedule_job_id w' i'" and "CHR '':'' \<notin> set w" "CHR '':'' \<notin> set w'"
  shows "w = w' \<and> i = i'"
proof -
  from assms(1) have e: "w @ CHR '':'' # i = w' @ CHR '':'' # i'" by (simp add: schedule_job_id_def)
  have "takeWhile (\<lambda>c. c \<noteq> CHR '':'') (w @ CHR '':'' # i) = w"
    "takeWhile (\<lambda>c. c \<noteq> CHR '':'') (w' @ CHR '':'' # i') = w'"
    using assms(2,3) by (auto simp: takeWhile_append takeWhile_eq_all_conv)
  with e have "w = w'" by metis
  with e show ?thesis by simp
qed

lemma remove_jobs_spec:
  "dict_ok jobs \<Longrightarrow> dict_ok (foldl (\<lambda>js r. remove_job (f r) js) jobs rs)
    \<and> map_of (foldl (\<lambda>js r. remove_job (f r) js) jobs rs) j = (if j \<in> f ` set rs then None else map_of jobs j)"
  by (induction rs arbitrary: jobs) (auto simp: remove_job_def dict_simps)

lemma routes_okD:
  assumes "routes_ok rows reg"
  shows "webhook_ok reg"
    and "r \<in> rows \<Longrightarrow> \<exists>key. route_key (wh_path r) (wh_method r) = Inr key
          \<and> map_of (wr_by_key reg) key = Some (normalized r key)"
    and "map_of (wr_by_key reg) key = Some e \<Longrightarrow>
          \<exists>r \<in> rows. route_key (wh_path r) (wh_method r) = Inr key \<and> e = normalized r key"
    and "r \<in> rows \<Longrightarrow> r' \<in> rows \<Longrightarrow> wh_id r = wh_id r' \<Longrightarrow> wh_workflow_id r = wh_workflow_id r'"
  using assms unfolding routes_ok_def by blast+

lemma jobs_okD:
  assumes "jobs_ok rows jobs"
  shows "dict_ok jobs" and "r \<in> rows \<Longrightarrow> map_of jobs (job_of r) \<noteq> None"
    and "r \<in> rows \<Longrightarrow> spec_validate (sr_spec r) = Inr ()" and "r \<in> rows \<Longrightarrow> CHR '':'' \<notin> set (sr_workflow_id r)"
    and "map_of jobs j = Some r \<Longrightarrow> r \<in> rows" and "map_of jobs j = Some r \<Longrightarrow> j = job_of r"
  using assms unfolding jobs_ok_def by blast+

text \<open>The table has exactly the entries made from the rows.\<close>

lemma routes_ok_entries:
  assumes "routes_ok rows reg"
  shows "map_of (wr_by_key reg) k = Some e \<longleftrightarrow>
    (\<exists>r \<in> rows. route_key (wh_path r) (wh_method r) = Inr k \<and> e = normalized r k)"
  using routes_okD(2,3) [OF assms] by (metis sum.inject(2))

text \<open>Two rows on one route belong to one workflow.\<close>

lemma routes_ok_owner:
  assumes "routes_ok rows reg" "r \<in> rows" "r' \<in> rows"
    and "route_key (wh_path r) (wh_method r) = Inr key" "route_key (wh_path r') (wh_method r') = Inr key"
  shows "wh_workflow_id r = wh_workflow_id r'"
  using routes_okD(2) [OF assms(1,2)] routes_okD(2) [OF assms(1,3)] assms(4,5)
  by (metis normalized_sel(2) option.inject sum.inject(2))

lemma routes_ok_unregister:
  assumes ok: "routes_ok rows reg" and rs: "set rs = {r \<in> rows. wh_workflow_id r = wid}"
  shows "\<exists>reg'. unregister_rows rs reg = (None, reg') \<and> routes_ok {r \<in> rows. wh_workflow_id r \<noteq> wid} reg'"
proof -
  have rk: "\<exists>key. route_key (wh_path r) (wh_method r) = Inr key" if "r \<in> set rs" for r
    using that routes_okD(2) [OF ok] unfolding rs by blast
  from unregister_rows_spec [OF routes_okD(1) [OF ok] rk] obtain reg' where
    u: "unregister_rows rs reg = (None, reg')" and wok: "webhook_ok reg'"
    and B: "\<And>k. map_of (wr_by_key reg') k =
         (if \<exists>r \<in> set rs. route_key (wh_path r) (wh_method r) = Inr k then None else map_of (wr_by_key reg) k)"
    by metis
  have "routes_ok {r \<in> rows. wh_workflow_id r \<noteq> wid} reg'"
    unfolding routes_ok_def
  proof (intro conjI ballI allI impI)
    show "webhook_ok reg'" by (rule wok)
    show "wh_workflow_id r = wh_workflow_id r'" if "r \<in> {r \<in> rows. wh_workflow_id r \<noteq> wid}"
        "r' \<in> {r \<in> rows. wh_workflow_id r \<noteq> wid}" "wh_id r = wh_id r'" for r r'
      using that routes_okD(4) [OF ok] by blast
  next
    fix r assume r: "r \<in> {r \<in> rows. wh_workflow_id r \<noteq> wid}"
    then obtain key where key: "route_key (wh_path r) (wh_method r) = Inr key"
      "map_of (wr_by_key reg) key = Some (normalized r key)" using routes_okD(2) [OF ok] by blast
    have "\<not> (\<exists>r' \<in> set rs. route_key (wh_path r') (wh_method r') = Inr key)"
      using routes_ok_owner [OF ok _ _ key(1)] r unfolding rs by blast
    then have "map_of (wr_by_key reg') key = Some (normalized r key)"
      using key(2) unfolding B if_None_eq_Some by blast
    with key(1) show "\<exists>key. route_key (wh_path r) (wh_method r) = Inr key
        \<and> map_of (wr_by_key reg') key = Some (normalized r key)" by blast
  next
    fix key e assume "map_of (wr_by_key reg') key = Some e"
    then have n: "\<not> (\<exists>r \<in> set rs. route_key (wh_path r) (wh_method r) = Inr key)"
      and e': "map_of (wr_by_key reg) key = Some e" unfolding B if_None_eq_Some by blast+
    from routes_okD(3) [OF ok e'] n show "\<exists>r \<in> {r \<in> rows. wh_workflow_id r \<noteq> wid}.
        route_key (wh_path r) (wh_method r) = Inr key \<and> e = normalized r key" unfolding rs by blast
  qed
  with u show ?thesis by blast
qed

lemma jobs_ok_remove:
  assumes ok: "jobs_ok rows jobs" and rs: "set rs = {r \<in> rows. sr_workflow_id r = wid}"
  shows "jobs_ok {r \<in> rows. sr_workflow_id r \<noteq> wid} (foldl (\<lambda>js r. remove_job (job_of r) js) jobs rs)"
proof -
  let ?jobs = "foldl (\<lambda>js r. remove_job (job_of r) js) jobs rs"
  note R = remove_jobs_spec [OF jobs_okD(1) [OF ok], of job_of rs]
  have M: "map_of ?jobs j = (if j \<in> job_of ` set rs then None else map_of jobs j)" for j
    using R by blast
  have other: "job_of r \<notin> job_of ` set rs" if "r \<in> rows" "sr_workflow_id r \<noteq> wid" for r
    using that job_id_inj [of "sr_workflow_id r" "sr_node_id r"] jobs_okD(4) [OF ok] unfolding rs by blast
  show ?thesis
    unfolding jobs_ok_def
  proof (intro conjI ballI allI impI)
    show "dict_ok ?jobs" using R by blast
    fix r assume r: "r \<in> {r \<in> rows. sr_workflow_id r \<noteq> wid}"
    show "map_of ?jobs (job_of r) \<noteq> None" using r other jobs_okD(2) [OF ok] by (simp add: M)
    show "spec_validate (sr_spec r) = Inr ()" using r jobs_okD(3) [OF ok] by blast
    show "CHR '':'' \<notin> set (sr_workflow_id r)" using r jobs_okD(4) [OF ok] by blast
  next
    fix j r assume j: "map_of ?jobs j = Some r"
    then have n: "j \<notin> job_of ` set rs" and j': "map_of jobs j = Some r" unfolding M if_None_eq_Some by blast+
    show "j = job_of r" by (rule jobs_okD(6) [OF ok j'])
    then show "r \<in> {r \<in> rows. sr_workflow_id r \<noteq> wid}"
      using n jobs_okD(5) [OF ok j'] unfolding rs by blast
  qed
qed

lemma deactivate_ok:
  assumes laws: "sql_laws (te_session env)" and ok: "triggers_ok env st"
  shows "\<exists>reg. let ses = te_session env;
      db = delete_schedules ses (\<lambda>r. sr_workflow_id r = wf_id w)
             (delete_webhooks ses (\<lambda>r. wh_workflow_id r = wf_id w) (tm_db st));
      jobs = foldl (\<lambda>js r. remove_job (job_of r) js) (tm_jobs st)
        (schedules_for_workflow ses (wf_id w) (delete_webhooks ses (\<lambda>r. wh_workflow_id r = wf_id w) (tm_db st)));
      st' = st\<lparr>tm_registry := reg, tm_jobs := jobs\<rparr> in
    deactivate env w st =
      (case sql_commit ses db of Some e \<Rightarrow> (Inl e, st') | None \<Rightarrow> (Inr (), st'\<lparr>tm_db := db\<rparr>))
    \<and> set (select_webhooks ses db) = {r \<in> set (select_webhooks ses (tm_db st)). wh_workflow_id r \<noteq> wf_id w}
    \<and> set (select_schedules ses db) = {r \<in> set (select_schedules ses (tm_db st)). sr_workflow_id r \<noteq> wf_id w}
    \<and> triggers_ok env (st'\<lparr>tm_db := db\<rparr>)"
proof -
  let ?ses = "te_session env" and ?wid = "wf_id w"
  define db1 where "db1 = delete_webhooks ?ses (\<lambda>r. wh_workflow_id r = ?wid) (tm_db st)"
  define db2 where "db2 = delete_schedules ?ses (\<lambda>r. sr_workflow_id r = ?wid) db1"
  define ws where "ws = set (select_webhooks ?ses (tm_db st))"
  define ss where "ss = set (select_schedules ?ses (tm_db st))"
  note L = sql_lawsD [OF laws]
  have rows: "set (select_webhooks ?ses db2) = {r \<in> ws. wh_workflow_id r \<noteq> ?wid}"
    "set (select_schedules ?ses db2) = {r \<in> ss. sr_workflow_id r \<noteq> ?wid}"
    unfolding db2_def db1_def ws_def ss_def L(5-8) by blast+
  have "routes_ok ws (tm_registry st)" and jok: "jobs_ok ss (tm_jobs st)"
    using ok unfolding triggers_ok_def ws_def ss_def by blast+
  then obtain reg where u: "unregister_rows (webhooks_for_workflow ?ses ?wid (tm_db st)) (tm_registry st) = (None, reg)"
    and reg: "routes_ok {r \<in> ws. wh_workflow_id r \<noteq> ?wid} reg"
    using routes_ok_unregister [of ws "tm_registry st" "webhooks_for_workflow ?ses ?wid (tm_db st)" ?wid]
    unfolding webhooks_for_workflow_def set_filter ws_def by blast
  define jobs where "jobs = foldl (\<lambda>js r. remove_job (job_of r) js) (tm_jobs st) (schedules_for_workflow ?ses ?wid db1)"
  have "set (schedules_for_workflow ?ses ?wid db1) = {r \<in> ss. sr_workflow_id r = ?wid}"
    unfolding schedules_for_workflow_def set_filter ss_def db1_def L(6) by blast
  from jobs_ok_remove [OF jok this] have jobs: "jobs_ok {r \<in> ss. sr_workflow_id r \<noteq> ?wid} jobs"
    unfolding jobs_def .
  show ?thesis
    unfolding Let_def db1_def [symmetric] db2_def [symmetric] ws_def [symmetric] ss_def [symmetric]
      jobs_def [symmetric]
  proof (intro exI [of _ reg] conjI)
    show "deactivate env w st = (case sql_commit ?ses db2 of
        Some e \<Rightarrow> (Inl e, st\<lparr>tm_registry := reg, tm_jobs := jobs\<rparr>)
      | None \<Rightarrow> (Inr (), st\<lparr>tm_registry := reg, tm_jobs := jobs, tm_db := db2\<rparr>))"
      unfolding deactivate_def Let_def u split_conv option.case db1_def [symmetric] db2_def [symmetric]
        jobs_def [symmetric] by (cases "sql_commit ?ses db2") simp_all
    show "triggers_ok env (st\<lparr>tm_registry := reg, tm_jobs := jobs, tm_db := db2\<rparr>)"
      unfolding triggers_ok_def by (simp add: rows) (use reg jobs in blast)
  qed (rule rows)+
qed

section \<open>Start-up\<close>

text \<open>Loading rows of which each owns its route in a table \<open>T\<close> copies these routes of \<open>T\<close>.\<close>

lemma load_from_rows:
  assumes "\<And>r. r \<in> set rs \<Longrightarrow> \<exists>key. route_key (wh_path r) (wh_method r) = Inr key \<and> T key = Some (normalized r key)"
    and "\<And>k e. map_of (wr_by_key reg) k = Some e \<Longrightarrow> T k = Some e" and "webhook_ok reg"
    and owner: "\<And>k k' e e'. T k = Some e \<Longrightarrow> T k' = Some e' \<Longrightarrow> wh_id e = wh_id e' \<Longrightarrow>
      wh_workflow_id e = wh_workflow_id e'"
  shows "\<exists>reg'. load_from reg n rs = (reg', Inr (n + length rs)) \<and> webhook_ok reg'
    \<and> (\<forall>k. map_of (wr_by_key reg') k =
         (if \<exists>r \<in> set rs. route_key (wh_path r) (wh_method r) = Inr k then T k else map_of (wr_by_key reg) k))"
  using assms(1-3)
proof (induction rs arbitrary: reg n)
  case (Cons r rs)
  obtain key where key: "route_key (wh_path r) (wh_method r) = Inr key" "T key = Some (normalized r key)"
    using Cons.prems(1) list.set_intros(1) by metis
  have "\<not> (\<exists>old. map_of (wr_by_key reg) key = Some old \<and> wh_id old \<noteq> wh_id r)"
    using Cons.prems(2) [of key] key(2) normalized_sel(1) by (metis option.inject)
  then obtain reg1 where r1: "wr_register r reg = Inr reg1"
    and t1: "wr_by_key reg1 = dict_set key (normalized r key) (wr_by_key reg)"
    by (simp add: wr_register_outcome key(1))
  have "wh_workflow_id old = wh_workflow_id r" if "map_of (wr_by_key reg) k = Some old" "wh_id old = wh_id r" for k old
    using owner [OF Cons.prems(2) [OF that(1)] key(2)] that(2) normalized_sel by metis
  then have ok1: "webhook_ok reg1" using wr_register_ok [OF Cons.prems(3) r1] by blast
  have B: "map_of (wr_by_key reg1) k = (if k = key then T k else map_of (wr_by_key reg) k)" for k
    by (simp add: t1 dict_simps key(2))
  have "T k = Some e" if "map_of (wr_by_key reg1) k = Some e" for k e
    using that Cons.prems(2) [of k e] unfolding B by (cases "k = key") simp_all
  from Cons.IH [OF _ this ok1, of "Suc n"] Cons.prems(1) obtain reg' where
    "load_from reg1 (Suc n) rs = (reg', Inr (Suc n + length rs))" "webhook_ok reg'"
    and B': "\<forall>k. map_of (wr_by_key reg') k =
         (if \<exists>r \<in> set rs. route_key (wh_path r) (wh_method r) = Inr k then T k else map_of (wr_by_key reg1) k)"
    by (metis list.set_intros(2))
  then show ?case using r1 key by (intro exI [of _ reg']) (simp add: B)
qed simp

lemma routes_ok_load:
  assumes ok: "routes_ok (set rs) reg"
  shows "\<exists>reg'. wr_load rs = (reg', Inr (length rs)) \<and> routes_ok (set rs) reg'
    \<and> (\<forall>k. map_of (wr_by_key reg') k = map_of (wr_by_key reg) k)"
proof -
  have owner: "wh_workflow_id e = wh_workflow_id e'" if "map_of (wr_by_key reg) k = Some e"
      "map_of (wr_by_key reg) k' = Some e'" "wh_id e = wh_id e'" for k k' e e'
    using routes_okD(3) [OF ok that(1)] routes_okD(3) [OF ok that(2)] routes_okD(4) [OF ok] that(3)
    by (metis normalized_sel(1,2))
  have empty: "map_of (wr_by_key empty_webhooks) k = None" for k by (simp add: empty_webhooks_def)
  then have sub: "map_of (wr_by_key empty_webhooks) k = Some e \<Longrightarrow> map_of (wr_by_key reg) k = Some e" for k e by simp
  have "\<exists>reg'. load_from empty_webhooks 0 rs = (reg', Inr (0 + length rs)) \<and> webhook_ok reg'
    \<and> (\<forall>k. map_of (wr_by_key reg') k =
         (if \<exists>r \<in> set rs. route_key (wh_path r) (wh_method r) = Inr k then map_of (wr_by_key reg) k
          else map_of (wr_by_key empty_webhooks) k))"
    by (rule load_from_rows) (fact routes_okD(2) [OF ok] sub empty_webhooks_ok owner)+
  then obtain reg' where
    l: "load_from empty_webhooks 0 rs = (reg', Inr (0 + length rs))" and w: "webhook_ok reg'"
    and B: "\<forall>k. map_of (wr_by_key reg') k =
         (if \<exists>r \<in> set rs. route_key (wh_path r) (wh_method r) = Inr k then map_of (wr_by_key reg) k
          else map_of (wr_by_key empty_webhooks) k)" by blast
  have M: "map_of (wr_by_key reg') k = map_of (wr_by_key reg) k" for k
  proof (cases "\<exists>r \<in> set rs. route_key (wh_path r) (wh_method r) = Inr k")
    case False
    with routes_okD(3) [OF ok, of k] have "map_of (wr_by_key reg) k = None" by (metis not_Some_eq)
    with False show ?thesis by (simp only: B [rule_format] empty if_False)
  qed (simp only: B [rule_format] if_True)
  have "routes_ok (set rs) reg'"
    unfolding routes_ok_def M using w ok unfolding routes_ok_def by blast
  with l M show ?thesis unfolding wr_load_def add_0 by blast
qed

lemma add_row_jobs_spec:
  assumes "\<And>r. r \<in> set rs \<Longrightarrow> spec_validate (sr_spec r) = Inr ()" and "dict_ok jobs"
  shows "\<exists>jobs'. add_row_jobs rs jobs = (None, jobs') \<and> dict_ok jobs'
    \<and> (\<forall>j. (map_of jobs' j \<noteq> None) = (map_of jobs j \<noteq> None \<or> j \<in> job_of ` set rs))
    \<and> (\<forall>j r. map_of jobs' j = Some r \<longrightarrow> map_of jobs j = Some r \<or> r \<in> set rs \<and> j = job_of r)"
  using assms
proof (induction rs arbitrary: jobs)
  case (Cons r rs)
  then have "add_row_jobs (r # rs) jobs = add_row_jobs rs (dict_set (job_of r) r jobs)" by (simp add: add_job_def)
  moreover from Cons.IH [of "dict_set (job_of r) r jobs"] Cons.prems obtain jobs' where
    "add_row_jobs rs (dict_set (job_of r) r jobs) = (None, jobs')" "dict_ok jobs'"
    and a: "\<And>j. (map_of jobs' j \<noteq> None) = (map_of (dict_set (job_of r) r jobs) j \<noteq> None \<or> j \<in> job_of ` set rs)"
    and b: "\<And>j r'. map_of jobs' j = Some r' \<Longrightarrow>
      map_of (dict_set (job_of r) r jobs) j = Some r' \<or> r' \<in> set rs \<and> j = job_of r'" by force
  moreover have "(map_of jobs' j \<noteq> None) = (map_of jobs j \<noteq> None \<or> j \<in> job_of ` set (r # rs))" for j
    unfolding a by (auto simp: dict_simps)
  moreover have "map_of jobs j = Some r' \<or> r' \<in> set (r # rs) \<and> j = job_of r'" if "map_of jobs' j = Some r'" for j r'
    using b [OF that] by (cases "j = job_of r") (auto simp: dict_simps)
  ultimately show ?case by (intro exI [of _ jobs']) simp
qed simp

section \<open>Activation\<close>

definition fresh_ids :: "'s trigger_env \<Rightarrow> 's trigger_state \<Rightarrow> bool" where
  "fresh_ids env st \<longleftrightarrow>
     (\<forall>k \<ge> tm_fresh st. te_ids env k \<notin> wh_id ` set (select_webhooks (te_session env) (tm_db st)))"

text \<open>An enabled trigger node of \<open>w\<close> is served: its route leads to it, or its job exists.\<close>

definition served :: "'s trigger_env \<Rightarrow> workflow \<Rightarrow> 's trigger_state \<Rightarrow> node \<Rightarrow> bool" where
  "served env w st n \<longleftrightarrow>
     (node_type n \<in> set WEBHOOK_BACKED_TRIGGER_TYPES \<longrightarrow>
        (\<exists>path key e. rbind (path_param (dict_get (parameters n) ''path'' JNull)) (static_path (wf_id w) (node_id n)) = Inr path
           \<and> route_key path (py_upper (py_str (te_float_repr env) (dict_get (parameters n) ''method'' (JStr ''POST'')))) = Inr key
           \<and> map_of (wr_by_key (tm_registry st)) key = Some e
           \<and> wh_workflow_id e = wf_id w \<and> wh_node_id e = node_id n))
     \<and> (node_type n = SCHEDULE_TRIGGER_TYPE \<longrightarrow> has_job (schedule_job_id (wf_id w) (node_id n)) (tm_jobs st))"

text \<open>One state serves everything another one serves.\<close>

definition extends :: "'s trigger_state \<Rightarrow> 's trigger_state \<Rightarrow> bool" where
  "extends st st' \<longleftrightarrow>
     (\<forall>k e. map_of (wr_by_key (tm_registry st)) k = Some e \<longrightarrow> map_of (wr_by_key (tm_registry st')) k = Some e)
     \<and> (\<forall>j. has_job j (tm_jobs st) \<longrightarrow> has_job j (tm_jobs st'))"

lemma extends_refl: "extends st st"
  by (simp add: extends_def)

lemma extends_trans: "extends a b \<Longrightarrow> extends b c \<Longrightarrow> extends a c"
  unfolding extends_def by blast

lemma served_extends: "served env w st n \<Longrightarrow> extends st st' \<Longrightarrow> served env w st' n"
  unfolding served_def extends_def by blast

lemma routes_ok_register:
  assumes ok: "routes_ok rows reg" and new: "wh_id r \<notin> wh_id ` rows" and reg: "wr_register r reg = Inr reg'"
  shows "routes_ok (insert r rows) reg'"
    and "\<exists>key. route_key (wh_path r) (wh_method r) = Inr key \<and> map_of (wr_by_key reg) key = None
      \<and> (\<forall>k. map_of (wr_by_key reg') k = (if k = key then Some (normalized r key) else map_of (wr_by_key reg) k))"
proof -
  from reg obtain key where key: "route_key (wh_path r) (wh_method r) = Inr key"
    and same: "\<forall>old. map_of (wr_by_key reg) key = Some old \<longrightarrow> wh_id old = wh_id r"
    and b: "wr_by_key reg' = dict_set key (normalized r key) (wr_by_key reg)" by (rule wr_register_Inr)
  have ids: "wh_id e \<noteq> wh_id r" if "map_of (wr_by_key reg) k = Some e" for k e
    using routes_okD(3) [OF ok that] new normalized_sel(1) by (metis image_eqI)
  have none: "map_of (wr_by_key reg) key = None" using same ids by (metis not_Some_eq)
  have B: "map_of (wr_by_key reg') k = (if k = key then Some (normalized r key) else map_of (wr_by_key reg) k)" for k
    by (simp add: b dict_simps)
  show "\<exists>key. route_key (wh_path r) (wh_method r) = Inr key \<and> map_of (wr_by_key reg) key = None
      \<and> (\<forall>k. map_of (wr_by_key reg') k = (if k = key then Some (normalized r key) else map_of (wr_by_key reg) k))"
    using key none B by blast
  have wok: "webhook_ok reg'"
    using wr_register_ok [OF routes_okD(1) [OF ok] reg] ids by blast
  show "routes_ok (insert r rows) reg'"
    unfolding routes_ok_def
  proof (intro conjI ballI allI impI)
    show "webhook_ok reg'" by (rule wok)
    show "wh_workflow_id a = wh_workflow_id a'"
      if "a \<in> insert r rows" "a' \<in> insert r rows" "wh_id a = wh_id a'" for a a'
      using that new routes_okD(4) [OF ok] by (metis image_eqI insertE)
  next
    fix a assume "a \<in> insert r rows"
    then consider "a = r" | "a \<in> rows" by blast
    then show "\<exists>key. route_key (wh_path a) (wh_method a) = Inr key
        \<and> map_of (wr_by_key reg') key = Some (normalized a key)"
    proof cases
      case 1
      with key B show ?thesis by metis
    next
      case 2
      from routes_okD(2) [OF ok this] none B show ?thesis by (metis option.distinct(1))
    qed
  next
    fix k e assume e: "map_of (wr_by_key reg') k = Some e"
    show "\<exists>a \<in> insert r rows. route_key (wh_path a) (wh_method a) = Inr k \<and> e = normalized a k"
    proof (cases "k = key")
      case True
      with e key B show ?thesis by (metis insertI1 option.inject)
    next
      case False
      with e have "map_of (wr_by_key reg) k = Some e" by (simp only: B if_False)
      from routes_okD(3) [OF ok this] show ?thesis by blast
    qed
  qed
qed

lemma jobs_ok_add:
  assumes ok: "jobs_ok rows jobs" and "spec_validate (sr_spec r) = Inr ()" "CHR '':'' \<notin> set (sr_workflow_id r)"
  shows "jobs_ok (insert r rows) (dict_set (job_of r) r jobs)"
  unfolding jobs_ok_def
proof (intro conjI ballI allI impI)
  show "dict_ok (dict_set (job_of r) r jobs)" using jobs_okD(1) [OF ok] by simp
  fix a assume a: "a \<in> insert r rows"
  show "map_of (dict_set (job_of r) r jobs) (job_of a) \<noteq> None"
    using a jobs_okD(2) [OF ok] by (auto simp: dict_simps)
  show "spec_validate (sr_spec a) = Inr ()" using a assms(2) jobs_okD(3) [OF ok] by blast
  show "CHR '':'' \<notin> set (sr_workflow_id a)" using a assms(3) jobs_okD(4) [OF ok] by blast
next
  fix j a assume a: "map_of (dict_set (job_of r) r jobs) j = Some a"
  show "a \<in> insert r rows" "j = job_of a"
    using a jobs_okD(5,6) [OF ok] by (cases "j = job_of r"; simp add: dict_simps)+
qed

lemma register_webhook_Inr:
  assumes "register_webhook env w n st = (Inr path, st')"
  obtains db reg where
    "rbind (path_param (dict_get (parameters n) ''path'' JNull)) (static_path (wf_id w) (node_id n)) = Inr path"
    and "insert_webhook (te_session env) (webhook_entity env w n (te_ids env (tm_fresh st)) path) (tm_db st) = (None, db)"
    and "wr_register (webhook_entity env w n (te_ids env (tm_fresh st)) path) (tm_registry st) = Inr reg"
    and "st' = st\<lparr>tm_db := db, tm_fresh := Suc (tm_fresh st), tm_registry := reg\<rparr>"
proof (cases "rbind (path_param (dict_get (parameters n) ''path'' JNull)) (static_path (wf_id w) (node_id n))")
  case (Inr p)
  obtain err db where i: "insert_webhook (te_session env) (webhook_entity env w n (te_ids env (tm_fresh st)) p) (tm_db st) = (err, db)"
    by fastforce
  show thesis
    using assms Inr i that
    by (cases err; cases "wr_register (webhook_entity env w n (te_ids env (tm_fresh st)) p) (tm_registry st)")
      (simp_all add: register_webhook_def Let_def)
qed (use assms in \<open>simp add: register_webhook_def\<close>)

lemma register_schedule_Inr:
  assumes "register_schedule env w n st = (Inr job_id, st')"
  obtains db row where "spec_validate (sr_spec row) = Inr ()" and "sr_workflow_id row = wf_id w"
    and "sr_node_id row = node_id n" and "insert_schedule (te_session env) row (tm_db st) = (None, db)"
    and "st' = st\<lparr>tm_db := db, tm_fresh := Suc (tm_fresh st), tm_jobs := dict_set (job_of row) row (tm_jobs st)\<rparr>"
proof (cases "rbind (schedule_spec_from_params (te_float_repr env) (parameters n))
             (\<lambda>spec. rbind (spec_validate spec) (\<lambda>_. Inr spec))")
  case (Inr spec)
  then have v: "spec_validate spec = Inr ()" by (auto simp: result_simps)
  define row where "row = \<lparr>sr_id = ''ts_'' @ drop 3 (te_ids env (tm_fresh st)), sr_workflow_id = wf_id w,
    sr_node_id = node_id n, sr_project_id = project_id w, sr_spec = spec\<rparr>"
  obtain err db where i: "insert_schedule (te_session env) row (tm_db st) = (err, db)" by fastforce
  have "register_schedule env w n st =
      (case err of Some e \<Rightarrow> (Inl e, st\<lparr>tm_db := db, tm_fresh := Suc (tm_fresh st)\<rparr>)
       | None \<Rightarrow> (Inr (job_of row), st\<lparr>tm_db := db, tm_fresh := Suc (tm_fresh st),
           tm_jobs := dict_set (job_of row) row (tm_jobs st)\<rparr>))"
    using i v by (cases err) (simp_all add: register_schedule_def Inr Let_def add_job_def row_def)
  with assms i v show thesis by (intro that [of row db]) (auto simp: row_def split: option.splits)
qed (use assms in \<open>simp add: register_schedule_def\<close>)

definition activation_inv :: "'s trigger_env \<Rightarrow> 's trigger_state \<Rightarrow> bool" where
  "activation_inv env st \<longleftrightarrow> triggers_ok env st \<and> fresh_ids env st"

lemma register_webhook_ok:
  assumes laws: "sql_laws (te_session env)" and inj: "inj (te_ids env)" and inv: "activation_inv env st"
    and r: "register_webhook env w n st = (Inr path, st')" and type: "node_type n \<in> set WEBHOOK_BACKED_TRIGGER_TYPES"
  shows "activation_inv env st' \<and> extends st st' \<and> served env w st' n"
proof -
  from r obtain db reg where path: "rbind (path_param (dict_get (parameters n) ''path'' JNull)) (static_path (wf_id w) (node_id n)) = Inr path"
    and ins: "insert_webhook (te_session env) (webhook_entity env w n (te_ids env (tm_fresh st)) path) (tm_db st) = (None, db)"
    and reg: "wr_register (webhook_entity env w n (te_ids env (tm_fresh st)) path) (tm_registry st) = Inr reg"
    and st': "st' = st\<lparr>tm_db := db, tm_fresh := Suc (tm_fresh st), tm_registry := reg\<rparr>"
    by (rule register_webhook_Inr)
  define r where "r = webhook_entity env w n (te_ids env (tm_fresh st)) path"
  define rows where "rows = set (select_webhooks (te_session env) (tm_db st))"
  note ins = ins [folded r_def] and reg = reg [folded r_def]
  have rsel: "wh_id r = te_ids env (tm_fresh st)" "wh_workflow_id r = wf_id w" "wh_node_id r = node_id n" "wh_path r = path"
      "wh_method r = py_upper (py_str (te_float_repr env) (dict_get (parameters n) ''method'' (JStr ''POST'')))"
    by (simp_all add: r_def webhook_entity_def Let_def)
  have ok: "routes_ok rows (tm_registry st)" "jobs_ok (set (select_schedules (te_session env) (tm_db st))) (tm_jobs st)"
    and fresh: "\<forall>k \<ge> tm_fresh st. te_ids env k \<notin> wh_id ` rows"
    using inv unfolding activation_inv_def triggers_ok_def fresh_ids_def rows_def by blast+
  have rows': "set (select_webhooks (te_session env) db) = insert r rows"
    "set (select_schedules (te_session env) db) = set (select_schedules (te_session env) (tm_db st))"
    using sql_lawsD(1,2) [OF laws ins] unfolding rows_def by blast+
  have new: "wh_id r \<notin> wh_id ` rows" using fresh rsel(1) by simp
  note R = routes_ok_register [OF ok(1) new reg]
  from R(2) obtain key where key: "route_key (wh_path r) (wh_method r) = Inr key" "map_of (wr_by_key (tm_registry st)) key = None"
    and B: "\<And>k. map_of (wr_by_key reg) k = (if k = key then Some (normalized r key) else map_of (wr_by_key (tm_registry st)) k)"
    by blast
  have "te_ids env k \<notin> wh_id ` insert r rows" if "Suc (tm_fresh st) \<le> k" for k
    using that fresh inj rsel(1) by (auto dest: injD)
  then have "activation_inv env st'"
    using R(1) ok(2) unfolding activation_inv_def triggers_ok_def fresh_ids_def st' by (simp add: rows')
  moreover have "map_of (wr_by_key reg) k = Some e" if "map_of (wr_by_key (tm_registry st)) k = Some e" for k e
    using that key(2) by (cases "k = key") (simp_all add: B)
  then have "extends st st'" unfolding extends_def st' by simp
  moreover have "served env w st' n"
  proof -
    have "map_of (wr_by_key (tm_registry st')) key = Some (normalized r key)" unfolding st' by (simp add: B)
    moreover have "node_type n \<noteq> SCHEDULE_TRIGGER_TYPE"
      using type by (auto simp: WEBHOOK_BACKED_TRIGGER_TYPES_def SCHEDULE_TRIGGER_TYPE_def)
    ultimately show ?thesis
      unfolding served_def using path key(1) rsel normalized_sel by metis
  qed
  ultimately show ?thesis by blast
qed

lemma register_schedule_ok:
  assumes laws: "sql_laws (te_session env)" and inv: "activation_inv env st" and colon: "CHR '':'' \<notin> set (wf_id w)"
    and r: "register_schedule env w n st = (Inr job_id, st')" and type: "node_type n = SCHEDULE_TRIGGER_TYPE"
  shows "activation_inv env st' \<and> extends st st' \<and> served env w st' n"
proof -
  from r obtain db row where row: "spec_validate (sr_spec row) = Inr ()" "sr_workflow_id row = wf_id w"
    "sr_node_id row = node_id n" and ins: "insert_schedule (te_session env) row (tm_db st) = (None, db)"
    and st': "st' = st\<lparr>tm_db := db, tm_fresh := Suc (tm_fresh st), tm_jobs := dict_set (job_of row) row (tm_jobs st)\<rparr>"
    by (rule register_schedule_Inr)
  have "jobs_ok (set (select_schedules (te_session env) (tm_db st))) (tm_jobs st)"
    using inv unfolding activation_inv_def triggers_ok_def by blast
  from jobs_ok_add [OF this row(1)] colon have
    "jobs_ok (insert row (set (select_schedules (te_session env) (tm_db st)))) (dict_set (job_of row) row (tm_jobs st))"
    by (simp add: row(2))
  then have "activation_inv env st'"
    using inv unfolding activation_inv_def triggers_ok_def fresh_ids_def st'
    by (simp add: sql_lawsD(3,4) [OF laws ins])
  moreover have "extends st st'" unfolding extends_def st' by (simp add: has_job_def dict_simps)
  moreover have "served env w st' n"
    using type unfolding served_def st'
    by (simp add: has_job_def dict_simps row(2,3) WEBHOOK_BACKED_TRIGGER_TYPES_def SCHEDULE_TRIGGER_TYPE_def)
  ultimately show ?thesis by blast
qed

lemma activate_node_step:
  assumes laws: "sql_laws (te_session env)" and inj: "inj (te_ids env)" and colon: "CHR '':'' \<notin> set (wf_id w)"
    and step: "activate_node env w (res, st) n = (res', st')" and ne: "act_errors res' = []"
  shows "act_errors res = []"
    and "activation_inv env st \<Longrightarrow>
      activation_inv env st' \<and> extends st st' \<and> (\<not> disabled n \<longrightarrow> served env w st' n)"
proof -
  consider (skip) "disabled n \<or> node_type n \<notin> set WEBHOOK_BACKED_TRIGGER_TYPES \<and> node_type n \<noteq> SCHEDULE_TRIGGER_TYPE"
      "res' = res" "st' = st"
    | (webhook) path where "node_type n \<in> set WEBHOOK_BACKED_TRIGGER_TYPES"
      "register_webhook env w n st = (Inr path, st')" "act_errors res' = act_errors res"
    | (schedule) job where "node_type n = SCHEDULE_TRIGGER_TYPE"
      "register_schedule env w n st = (Inr job, st')" "act_errors res' = act_errors res"
    using step ne unfolding activate_node_def Let_def split_conv
    by (auto split: if_splits prod.splits sum.splits)
  note c = this
  show "act_errors res = []" using c ne by cases simp_all
  assume inv: "activation_inv env st"
  from c show "activation_inv env st' \<and> extends st st' \<and> (\<not> disabled n \<longrightarrow> served env w st' n)"
  proof cases
    case skip
    then show ?thesis using inv by (auto simp: extends_refl served_def)
  next
    case webhook
    then show ?thesis using register_webhook_ok [OF laws inj inv] by blast
  next
    case schedule
    then show ?thesis using register_schedule_ok [OF laws inv colon] by blast
  qed
qed

lemma activate_nodes:
  assumes laws: "sql_laws (te_session env)" and inj: "inj (te_ids env)" and colon: "CHR '':'' \<notin> set (wf_id w)"
    and "foldl (activate_node env w) (res, st) ns = (res', st')" and "act_errors res' = []" "activation_inv env st"
  shows "act_errors res = [] \<and> activation_inv env st' \<and> extends st st'
    \<and> (\<forall>n \<in> set ns. \<not> disabled n \<longrightarrow> served env w st' n)"
  using assms(4-6)
proof (induction ns arbitrary: res' st' rule: rev_induct)
  case Nil
  then show ?case by (simp add: extends_refl)
next
  case (snoc n ns)
  obtain res1 st1 where f: "foldl (activate_node env w) (res, st) ns = (res1, st1)" by fastforce
  with snoc.prems(1) have step: "activate_node env w (res1, st1) n = (res', st')" by simp
  note S = activate_node_step [OF laws inj colon step snoc.prems(2)]
  from snoc.IH [OF f S(1) snoc.prems(3)] S(2) show ?case
    using extends_trans [of st st1 st'] served_extends [of env w st1 _ st'] by (auto simp del: split_paired_All)
qed

lemma activate_ok:
  assumes "sql_laws (te_session env)" and "triggers_ok env st" and "fresh_ids env st" and "inj (te_ids env)"
    and "CHR '':'' \<notin> set (wf_id w)" and "activate env w st = (Inr res, st')" and "act_errors res = []"
  shows "triggers_ok env st' \<and> extends st st' \<and> (\<forall>n \<in> set (wf_nodes w). \<not> disabled n \<longrightarrow> served env w st' n)"
proof -
  obtain res1 st1 where f: "foldl (activate_node env w)
      (\<lparr>webhooks_registered = [], schedules_registered = [], act_errors = []\<rparr>, st) (wf_nodes w) = (res1, st1)"
    by fastforce
  from assms(6) have "res1 = res" "st1 = st'"
    unfolding activate_def Let_def f by (auto split: option.splits)
  with activate_nodes [OF assms(1,4,5) f] assms(2,3,7) show ?thesis
    unfolding activation_inv_def by blast
qed

section \<open>Properties\<close>

text \<open>
  Activating a workflow without an error serves every enabled trigger node of it: the
  normalised route of a webhook node leads to that node, a schedule node has its job. Every
  route and job that was served before still is, and the rows, the route table and the jobs
  keep telling the same story. The hypotheses: the session follows its laws, generated ids are
  new, and the workflow id has no colon.
\<close>
theorem activate_serves:
  assumes "sql_laws (te_session env)" and "triggers_ok env st" and "fresh_ids env st" and "inj (te_ids env)"
    and "CHR '':'' \<notin> set (wf_id w)" and "activate env w st = (Inr res, st')" and "act_errors res = []"
  shows "triggers_ok env st' \<and> extends st st' \<and> (\<forall>n \<in> set (wf_nodes w). \<not> disabled n \<longrightarrow> served env w st' n)"
  using activate_ok [OF assms] .

text \<open>
  C18 (invariant). Deactivating a workflow, where the commit is accepted, leaves no row, no route and no job of
  it; every row of another workflow stays, with its route and its job, and the rows, the route
  table and the jobs keep telling the same story.
\<close>
theorem deactivate_clears:
  assumes "sql_laws (te_session env)" and "triggers_ok env st"
    and "deactivate env w st = (Inr (), st')"
  shows "triggers_ok env st'
    \<and> set (select_webhooks (te_session env) (tm_db st'))
        = {r \<in> set (select_webhooks (te_session env) (tm_db st)). wh_workflow_id r \<noteq> wf_id w}
    \<and> set (select_schedules (te_session env) (tm_db st'))
        = {r \<in> set (select_schedules (te_session env) (tm_db st)). sr_workflow_id r \<noteq> wf_id w}
    \<and> (\<forall>k e. map_of (wr_by_key (tm_registry st')) k = Some e \<longleftrightarrow>
          map_of (wr_by_key (tm_registry st)) k = Some e \<and> wh_workflow_id e \<noteq> wf_id w)"
proof -
  from deactivate_ok [OF assms(1,2), of w] assms(3) have
    ok: "triggers_ok env st'"
    and W: "set (select_webhooks (te_session env) (tm_db st'))
        = {r \<in> set (select_webhooks (te_session env) (tm_db st)). wh_workflow_id r \<noteq> wf_id w}"
    and S: "set (select_schedules (te_session env) (tm_db st'))
        = {r \<in> set (select_schedules (te_session env) (tm_db st)). sr_workflow_id r \<noteq> wf_id w}"
    by (auto simp: Let_def simp del: split_paired_All split_paired_Ex split: option.splits)
  have r: "routes_ok (set (select_webhooks (te_session env) (tm_db st))) (tm_registry st)"
    and r': "routes_ok (set (select_webhooks (te_session env) (tm_db st'))) (tm_registry st')"
    using assms(2) ok unfolding triggers_ok_def by blast+
  have "map_of (wr_by_key (tm_registry st')) k = Some e \<longleftrightarrow>
      map_of (wr_by_key (tm_registry st)) k = Some e \<and> wh_workflow_id e \<noteq> wf_id w" for k e
    using routes_ok_entries [OF r, of k e] routes_ok_entries [OF r', of k e] unfolding W by auto
  with ok W S show ?thesis by blast
qed

text \<open>
  C19 (roundtrip). A restart restores the triggers: from the rows of a consistent state, \<open>warm_up\<close> on an empty
  scheduler and any route table returns the number of rows and leaves a consistent state in
  which every request matches the same entry and the same jobs exist.
\<close>
theorem warm_up_restores:
  assumes "triggers_ok env st" and "tm_db st0 = tm_db st" and "tm_jobs st0 = []"
  shows "\<exists>st'. warm_up env st0 = (Inr (length (select_webhooks (te_session env) (tm_db st))
        + length (select_schedules (te_session env) (tm_db st))), st')
    \<and> triggers_ok env st'
    \<and> (\<forall>path meth. wr_match (tm_registry st') path meth = wr_match (tm_registry st) path meth)
    \<and> (\<forall>j. has_job j (tm_jobs st') = has_job j (tm_jobs st))"
proof -
  define ws where "ws = select_webhooks (te_session env) (tm_db st)"
  define ss where "ss = select_schedules (te_session env) (tm_db st)"
  have r: "routes_ok (set ws) (tm_registry st)" and j: "jobs_ok (set ss) (tm_jobs st)"
    using assms(1) unfolding triggers_ok_def ws_def ss_def by blast+
  from routes_ok_load [OF r] obtain reg where l: "wr_load ws = (reg, Inr (length ws))"
    and ok: "routes_ok (set ws) reg" and M: "\<forall>k. map_of (wr_by_key reg) k = map_of (wr_by_key (tm_registry st)) k"
    by blast
  have "\<exists>jobs. add_row_jobs ss [] = (None, jobs) \<and> dict_ok jobs
    \<and> (\<forall>j. (map_of jobs j \<noteq> None) = (map_of ([] :: job_table) j \<noteq> None \<or> j \<in> job_of ` set ss))
    \<and> (\<forall>j r. map_of jobs j = Some r \<longrightarrow> map_of [] j = Some r \<or> r \<in> set ss \<and> j = job_of r)"
    by (rule add_row_jobs_spec [OF jobs_okD(3) [OF j]]) simp_all
  then obtain jobs where a: "add_row_jobs ss [] = (None, jobs)" and d: "dict_ok jobs"
    and dom: "\<forall>j. (map_of jobs j \<noteq> None) = (map_of ([] :: job_table) j \<noteq> None \<or> j \<in> job_of ` set ss)"
    and ran: "\<forall>j r. map_of jobs j = Some r \<longrightarrow> map_of [] j = Some r \<or> r \<in> set ss \<and> j = job_of r"
    by blast
  have jok: "jobs_ok (set ss) jobs"
    using d dom ran jobs_okD(3,4) [OF j] unfolding jobs_ok_def by auto
  have "has_job x jobs = has_job x (tm_jobs st)" for x
    using jobs_okD(2,5,6) [OF j] jobs_okD(2,5,6) [OF jok] unfolding has_job_def by (metis not_Some_eq)
  moreover have "wr_match reg path meth = wr_match (tm_registry st) path meth" for path meth
    unfolding wr_match_def by (cases "route_key path meth") (simp_all add: M [rule_format])
  moreover have "warm_up env st0 = (Inr (length ws + length ss), st0\<lparr>tm_registry := reg, tm_jobs := jobs\<rparr>)"
    unfolding warm_up_def Let_def assms(2,3) ws_def [symmetric] ss_def [symmetric] by (simp add: l a)
  moreover have "triggers_ok env (st0\<lparr>tm_registry := reg, tm_jobs := jobs\<rparr>)"
    unfolding triggers_ok_def using ok jok by (simp add: assms(2) flip: ws_def ss_def)
  ultimately show ?thesis unfolding ws_def ss_def by auto
qed

section \<open>A concrete session\<close>

text \<open>Two tables of rows with the declared unique constraint on the route.\<close>

definition demo_session :: "(webhook_entry list \<times> schedule_row list) sql_session" where
  "demo_session = \<lparr>
     insert_webhook = (\<lambda>r db.
       if list_ex (\<lambda>r'. wh_path r' = wh_path r \<and> wh_method r' = wh_method r) (fst db)
       then (Some (Exn (Other ''IntegrityError'') ''UNIQUE constraint failed''), db)
       else (None, (fst db @ [r], snd db))),
     select_webhooks = fst,
     delete_webhooks = (\<lambda>p db. (filter (\<lambda>r. \<not> p r) (fst db), snd db)),
     insert_schedule = (\<lambda>r db. (None, (fst db, snd db @ [r]))),
     select_schedules = snd,
     delete_schedules = (\<lambda>p db. (fst db, filter (\<lambda>r. \<not> p r) (snd db))),
     sql_commit = (\<lambda>_. None)\<rparr>"

definition demo_env :: "(webhook_entry list \<times> schedule_row list) trigger_env" where
  "demo_env = \<lparr>te_float_repr = (\<lambda>_. []), te_ids = (\<lambda>k. ''wh_'' @ replicate k CHR ''x''),
     te_session = demo_session\<rparr>"

definition demo_triggers :: "(webhook_entry list \<times> schedule_row list) trigger_state" where
  "demo_triggers = \<lparr>tm_db = ([], []), tm_registry = empty_webhooks, tm_jobs = [], tm_leader = True,
     tm_queue = [], tm_fresh = 0\<rparr>"

definition demo_trigger_node :: "string \<Rightarrow> string \<Rightarrow> jobj \<Rightarrow> node" where
  "demo_trigger_node i t params = (mk_node i i t)\<lparr>parameters := params\<rparr>"

definition demo_trigger_workflow :: "string \<Rightarrow> string \<Rightarrow> workflow" where
  "demo_trigger_workflow i path = mk_workflow i ''pr1'' ''demo''
     [demo_trigger_node ''hook'' ''weftlyflow.webhook_trigger'' [(''path'', JStr path)],
      demo_trigger_node ''tick'' ''weftlyflow.schedule_trigger'' [(''interval_seconds'', JInt 60)]] []"

definition demo_activated :: "(webhook_entry list \<times> schedule_row list) trigger_state" where
  "demo_activated = snd (activate demo_env (demo_trigger_workflow ''wf1'' ''orders'') demo_triggers)"

lemma demo_laws: "sql_laws (te_session demo_env)"
  by (simp add: sql_laws_def demo_env_def demo_session_def split: if_splits)

lemma demo_inj: "inj (te_ids demo_env)"
  by (rule injI) (simp add: demo_env_def)

lemma demo_triggers_ok: "triggers_ok demo_env demo_triggers \<and> fresh_ids demo_env demo_triggers"
  by (simp add: triggers_ok_def routes_ok_def jobs_ok_def fresh_ids_def demo_triggers_def demo_env_def
    demo_session_def empty_webhooks_ok) (simp add: empty_webhooks_def)

lemma demo_activation:
  "activate demo_env (demo_trigger_workflow ''wf1'' ''orders'') demo_triggers =
     (Inr \<lparr>webhooks_registered = [''orders''], schedules_registered = [''schedule:wf1:tick''], act_errors = []\<rparr>,
      demo_activated)"
proof -
  have "returns (\<lambda>res. res = \<lparr>webhooks_registered = [''orders''], schedules_registered = [''schedule:wf1:tick''],
      act_errors = []\<rparr>) (fst (activate demo_env (demo_trigger_workflow ''wf1'' ''orders'') demo_triggers))" by code_simp
  then show ?thesis unfolding returns_iff demo_activated_def by (metis prod.collapse)
qed

theorem activate_serves_witness:
  "triggers_ok demo_env demo_activated \<and> extends demo_triggers demo_activated
   \<and> list_all (\<lambda>n. disabled n \<or> served demo_env (demo_trigger_workflow ''wf1'' ''orders'') demo_activated n)
        (wf_nodes (demo_trigger_workflow ''wf1'' ''orders''))"
proof -
  have "CHR '':'' \<notin> set (wf_id (demo_trigger_workflow ''wf1'' ''orders''))" by (simp add: demo_trigger_workflow_def mk_workflow_def)
  from activate_serves [OF demo_laws _ _ demo_inj this demo_activation] demo_triggers_ok show ?thesis
    unfolding list_all_iff by (simp, blast)
qed

lemma demo_activated_ok: "triggers_ok demo_env demo_activated"
proof -
  have "CHR '':'' \<notin> set (wf_id (demo_trigger_workflow ''wf1'' ''orders''))" by (simp add: demo_trigger_workflow_def mk_workflow_def)
  from activate_ok [OF demo_laws _ _ demo_inj this demo_activation] demo_triggers_ok show ?thesis by simp
qed

theorem deactivate_clears_witness:
  "set (select_webhooks demo_session (tm_db (snd (deactivate demo_env (demo_trigger_workflow ''wf1'' ''orders'') demo_activated))))
     = {r \<in> set (select_webhooks demo_session (tm_db demo_activated)). wh_workflow_id r \<noteq> ''wf1''}
   \<and> select_webhooks demo_session (tm_db demo_activated) \<noteq> []"
proof -
  let ?w = "demo_trigger_workflow ''wf1'' ''orders''"
  have "returns (\<lambda>_. True) (fst (deactivate demo_env ?w demo_activated))" by code_simp
  then have "deactivate demo_env ?w demo_activated = (Inr (), snd (deactivate demo_env ?w demo_activated))"
    unfolding returns_iff by (metis (full_types) prod.collapse unit.exhaust)
  from deactivate_clears [OF demo_laws demo_activated_ok this]
  have "set (select_webhooks demo_session (tm_db (snd (deactivate demo_env ?w demo_activated))))
     = {r \<in> set (select_webhooks demo_session (tm_db demo_activated)). wh_workflow_id r \<noteq> ''wf1''}"
    by (simp add: demo_env_def demo_trigger_workflow_def mk_workflow_def)
  moreover have "select_webhooks demo_session (tm_db demo_activated) \<noteq> []" by code_simp
  ultimately show ?thesis by blast
qed

theorem warm_up_restores_witness:
  "\<exists>st'. warm_up demo_env (demo_activated\<lparr>tm_registry := empty_webhooks, tm_jobs := []\<rparr>) = (Inr 2, st')
    \<and> (\<forall>path meth. wr_match (tm_registry st') path meth = wr_match (tm_registry demo_activated) path meth)"
proof -
  have "length (select_webhooks (te_session demo_env) (tm_db demo_activated))
      + length (select_schedules (te_session demo_env) (tm_db demo_activated)) = 2" by code_simp
  with warm_up_restores [OF demo_activated_ok, of "demo_activated\<lparr>tm_registry := empty_webhooks, tm_jobs := []\<rparr>"]
  show ?thesis by auto
qed

section \<open>Divergences\<close>

text \<open>
  A webhook row is written before its route is registered, with the method only upper-cased. A
  workflow whose method is not supported keeps its row when the registration fails; tearing
  the row down raises, for ever, and so does the next start-up.
\<close>

definition demo_bad_method :: workflow where
  "demo_bad_method = mk_workflow ''wf2'' ''pr1'' ''demo''
     [demo_trigger_node ''hook'' ''weftlyflow.webhook_trigger'' [(''path'', JStr ''x''), (''method'', JStr ''TRACE'')]] []"

lemma bad_method_blocks_start_up:
  "let st = snd (activate_triggers demo_env demo_bad_method demo_activated) in
     raises UnsupportedMethodError (fst (activate_triggers demo_env demo_bad_method demo_activated))
     \<and> raises UnsupportedMethodError (fst (deactivate demo_env demo_bad_method st))
     \<and> raises UnsupportedMethodError (fst (warm_up demo_env st))"
  by code_simp

text \<open>
  The table compares stored paths, the registry normalised ones. The path \<open>-/orders\<close> is stored as
  \<open>/orders\<close>, passes the constraint beside \<open>orders\<close>, is refused by the registry, and the
  roll-back of the failed activation then removes the route of the other workflow.
\<close>

lemma failed_activation_removes_other_route:
  "let st = snd (activate_triggers demo_env (demo_trigger_workflow ''wf2'' ''-/orders'') demo_activated) in
     returns (\<lambda>r. r \<noteq> None) (wr_match (tm_registry demo_activated) ''orders'' ''POST'')
     \<and> returns (\<lambda>r. r = None) (wr_match (tm_registry st) ''orders'' ''POST'')
     \<and> returns (\<lambda>errors. errors \<noteq> []) (fst (activate_triggers demo_env (demo_trigger_workflow ''wf2'' ''-/orders'') demo_activated))"
  by code_simp

end
