(* ===== verification/Leader.thy ===== *)
theory Leader
  imports Kv_Client
begin

text \<open>
  Leader election (\<open>triggers/leader.py\<close>): the contract both locks share, as a locale, its two
  implementations, and the system of all instances that share one client, as a step relation.
  Keys and values are text, so \<open>_decode\<close> is the identity.
\<close>

definition LEADER_LOCK_KEY :: string where "LEADER_LOCK_KEY = ''weftlyflow:leader:lock''"

definition LEADER_LOCK_TTL_SECONDS :: int where "LEADER_LOCK_TTL_SECONDS = 30"

section \<open>Redis lock\<close>

text \<open>\<open>held\<close> is the flag of the instance; every operation returns it with the client state.\<close>

record redis_lock =
  lock_key :: string
  lock_ttl :: int
  instance_id :: string
  lock_held :: bool

definition redis_lock_init :: "string \<Rightarrow> redis_lock" where
  "redis_lock_init i = \<lparr>lock_key = LEADER_LOCK_KEY, lock_ttl = LEADER_LOCK_TTL_SECONDS, instance_id = i,
     lock_held = False\<rparr>"

definition redis_acquire :: "'c kv_client \<Rightarrow> redis_lock \<times> 'c \<Rightarrow> bool \<times> redis_lock \<times> 'c" where
  "redis_acquire cl s =
     (let (l, c) = s; (r, c') = kv_set_nx cl (lock_key l) (instance_id l) (lock_ttl l) c in
      case r of
        Inl _ \<Rightarrow> (False, l\<lparr>lock_held := False\<rparr>, c')
      | Inr acquired \<Rightarrow> (acquired, l\<lparr>lock_held := acquired\<rparr>, c'))"

definition redis_refresh :: "'c kv_client \<Rightarrow> redis_lock \<times> 'c \<Rightarrow> bool \<times> redis_lock \<times> 'c" where
  "redis_refresh cl s =
     (let (l, c) = s in
      case kv_get cl (lock_key l) c of
        Inl _ \<Rightarrow> (False, l, c)
      | Inr None \<Rightarrow> redis_acquire cl (l, c)
      | Inr (Some current) \<Rightarrow>
          if current \<noteq> instance_id l then (False, l\<lparr>lock_held := False\<rparr>, c)
          else (case kv_expire cl (lock_key l) (lock_ttl l) c of
                  (Inl _, c') \<Rightarrow> (lock_held l, l, c')
                | (Inr _, c') \<Rightarrow> (True, l\<lparr>lock_held := True\<rparr>, c')))"

definition redis_release :: "'c kv_client \<Rightarrow> redis_lock \<times> 'c \<Rightarrow> redis_lock \<times> 'c" where
  "redis_release cl s =
     (let (l, c) = s in
      if \<not> lock_held l then (l, c)
      else (l\<lparr>lock_held := False\<rparr>,
            (case kv_get cl (lock_key l) c of
               Inr (Some current) \<Rightarrow> if current = instance_id l then snd (kv_delete cl (lock_key l) c) else c
             | _ \<Rightarrow> c)))"

definition redis_is_leader :: "redis_lock \<times> 'c \<Rightarrow> bool" where
  "redis_is_leader s = lock_held (fst s)"

section \<open>In-process lock\<close>

record memory_lock =
  mem_instance_id :: string
  mem_held :: bool

definition memory_acquire :: "memory_lock \<Rightarrow> bool \<times> memory_lock" where
  "memory_acquire l = (True, l\<lparr>mem_held := True\<rparr>)"

definition memory_refresh :: "memory_lock \<Rightarrow> bool \<times> memory_lock" where
  "memory_refresh l = (mem_held l, l)"

definition memory_release :: "memory_lock \<Rightarrow> memory_lock" where
  "memory_release l = l\<lparr>mem_held := False\<rparr>"

section \<open>The shared contract\<close>

text \<open>
  What a caller may rely on with either lock: the answer of \<open>acquire\<close> is the state of leadership
  afterwards, a positive answer of \<open>refresh\<close> means leadership, and \<open>release\<close> ends it.
\<close>

locale leader_lock =
  fixes acquire :: "'l \<Rightarrow> bool \<times> 'l" and refresh :: "'l \<Rightarrow> bool \<times> 'l" and release :: "'l \<Rightarrow> 'l"
    and is_leader :: "'l \<Rightarrow> bool"
  assumes acquire_answer: "acquire l = (b, l') \<Longrightarrow> is_leader l' = b"
    and refresh_answer: "refresh l = (True, l') \<Longrightarrow> is_leader l'"
    and release_ends: "\<not> is_leader (release l)"
begin

text \<open>A protected action runs under leadership only: acquire, act when it succeeded, release.\<close>

lemma acquire_iff: "fst (acquire l) \<longleftrightarrow> is_leader (snd (acquire l))"
  using acquire_answer [of l "fst (acquire l)" "snd (acquire l)"] by simp

lemma release_after_acquire: "\<not> is_leader (release (snd (acquire l)))"
  by (rule release_ends)

lemma not_leader_after_failed_acquire: "acquire l = (False, l') \<Longrightarrow> \<not> is_leader l'"
  using acquire_answer by blast

end

interpretation memlock: leader_lock memory_acquire memory_refresh memory_release mem_held
  by unfold_locales (auto simp: memory_acquire_def memory_refresh_def memory_release_def)

lemma redis_acquire_answer: "redis_acquire cl s = (b, s') \<Longrightarrow> redis_is_leader s' = b"
  by (auto simp: redis_acquire_def redis_is_leader_def Let_def split: prod.splits sum.splits)

lemma redis_refresh_answer: "redis_refresh cl s = (True, s') \<Longrightarrow> redis_is_leader s'"
  using redis_acquire_answer [of cl s True s']
  by (auto simp: redis_refresh_def redis_is_leader_def Let_def
    split: prod.splits sum.splits option.splits if_splits)

lemma redis_release_ends: "\<not> redis_is_leader (redis_release cl s)"
  by (cases s) (simp add: redis_release_def redis_is_leader_def)

interpretation redislock: leader_lock "redis_acquire cl" "redis_refresh cl" "redis_release cl" redis_is_leader
  for cl :: "'c kv_client"
  by (rule leader_lock.intro) (fact redis_acquire_answer redis_refresh_answer redis_release_ends)+

section \<open>All instances together\<close>

text \<open>Every instance has its own lock object; they share the client.\<close>

record 'c cluster =
  shared_client :: 'c
  locks :: "string \<Rightarrow> redis_lock"

definition set_lock :: "string \<Rightarrow> redis_lock \<times> 'c \<Rightarrow> 'c cluster \<Rightarrow> 'c cluster" where
  "set_lock i lc s = s\<lparr>shared_client := snd lc, locks := (locks s)(i := fst lc)\<rparr>"

inductive cluster_step :: "'c kv_client \<Rightarrow> 'c cluster \<Rightarrow> 'c cluster \<Rightarrow> bool" for cl where
  step_acquire: "cluster_step cl s (set_lock i (snd (redis_acquire cl (locks s i, shared_client s))) s)"
| step_refresh: "cluster_step cl s (set_lock i (snd (redis_refresh cl (locks s i, shared_client s))) s)"
| step_release: "cluster_step cl s (set_lock i (redis_release cl (locks s i, shared_client s)) s)"

inductive cluster_reach :: "'c kv_client \<Rightarrow> 'c cluster \<Rightarrow> bool" for cl where
  reach_start: "locks s = redis_lock_init \<Longrightarrow> cluster_reach cl s"
| reach_step: "cluster_reach cl s \<Longrightarrow> cluster_step cl s s' \<Longrightarrow> cluster_reach cl s'"

definition cluster_inv :: "('c \<Rightarrow> string \<Rightarrow> string option) \<Rightarrow> 'c cluster \<Rightarrow> bool" where
  "cluster_inv view s \<longleftrightarrow>
     (\<forall>i. instance_id (locks s i) = i \<and> lock_key (locks s i) = LEADER_LOCK_KEY
        \<and> (lock_held (locks s i) \<longrightarrow> view (shared_client s) LEADER_LOCK_KEY = Some i))"

text \<open>What an operation of instance \<open>i\<close> does to its own flag and to the key.\<close>

definition lock_effect :: "('c \<Rightarrow> string \<Rightarrow> string option) \<Rightarrow> redis_lock \<times> 'c \<Rightarrow> redis_lock \<times> 'c \<Rightarrow> bool" where
  "lock_effect view s s' \<longleftrightarrow>
     instance_id (fst s') = instance_id (fst s) \<and> lock_key (fst s') = lock_key (fst s)
     \<and> (lock_held (fst s') \<longrightarrow> view (snd s') (lock_key (fst s)) = Some (instance_id (fst s)))
     \<and> (view (snd s') (lock_key (fst s)) \<noteq> view (snd s) (lock_key (fst s)) \<longrightarrow>
          view (snd s) (lock_key (fst s)) \<in> {None, Some (instance_id (fst s))})"

lemma redis_acquire_effect:
  assumes laws: "kv_laws cl view"
  shows "lock_effect view (l, c) (snd (redis_acquire cl (l, c)))"
proof -
  obtain r c' where r: "kv_set_nx cl (lock_key l) (instance_id l) (lock_ttl l) c = (r, c')" by fastforce
  show ?thesis
  proof (cases r)
    case (Inl e)
    with kv_lawsD(3) [OF laws r [unfolded Inl]] show ?thesis
      by (auto simp: lock_effect_def redis_acquire_def r)
  next
    case (Inr b)
    with kv_lawsD(1,2) [OF laws r [unfolded Inr]] show ?thesis
      by (auto simp: lock_effect_def redis_acquire_def r)
  qed
qed

lemma redis_refresh_effect:
  assumes laws: "kv_laws cl view" and held: "lock_held l \<Longrightarrow> view c (lock_key l) = Some (instance_id l)"
  shows "lock_effect view (l, c) (snd (redis_refresh cl (l, c)))"
proof (cases "kv_get cl (lock_key l) c")
  case (Inl e)
  then show ?thesis using held by (auto simp: lock_effect_def redis_refresh_def)
next
  case (Inr v)
  note v = kv_lawsD(4) [OF laws Inr]
  obtain r c' where r: "kv_expire cl (lock_key l) (lock_ttl l) c = (r, c')" by fastforce
  show ?thesis
  proof (cases v)
    case None
    then have "redis_refresh cl (l, c) = redis_acquire cl (l, c)" by (simp add: redis_refresh_def Inr)
    with redis_acquire_effect [OF laws] show ?thesis by simp
  next
    case (Some current)
    then have vw: "view c (lock_key l) = Some current" using v by simp
    have "redis_refresh cl (l, c) = (if current \<noteq> instance_id l then (False, l\<lparr>lock_held := False\<rparr>, c)
        else case r of Inl _ \<Rightarrow> (lock_held l, l, c') | Inr _ \<Rightarrow> (True, l\<lparr>lock_held := True\<rparr>, c'))"
      using Some by (simp add: redis_refresh_def Inr r split: sum.split)
    then show ?thesis using vw kv_lawsD(5) [OF laws r] by (cases r) (auto simp: lock_effect_def)
  qed
qed

lemma redis_release_effect:
  assumes laws: "kv_laws cl view" and held: "lock_held l \<Longrightarrow> view c (lock_key l) = Some (instance_id l)"
  shows "lock_effect view (l, c) (redis_release cl (l, c))"
  using held by (auto simp: lock_effect_def redis_release_def split: sum.splits option.splits)

lemma cluster_step_inv:
  assumes laws: "kv_laws cl view" and step: "cluster_step cl s s'" and inv: "cluster_inv view s"
  shows "cluster_inv view s'"
proof -
  have other: "cluster_inv view (set_lock i lc s)" if "lock_effect view (locks s i, shared_client s) lc" for i lc
    using that inv unfolding cluster_inv_def lock_effect_def set_lock_def
    by (auto simp: fun_upd_def)
  have held: "lock_held (locks s i) \<Longrightarrow> view (shared_client s) (lock_key (locks s i)) = Some (instance_id (locks s i))" for i
    using inv by (simp add: cluster_inv_def)
  from step show ?thesis
  proof cases
    case (step_acquire i)
    with other redis_acquire_effect [OF laws] show ?thesis by metis
  next
    case (step_refresh i)
    with other redis_refresh_effect [OF laws held] show ?thesis by metis
  next
    case (step_release i)
    with other redis_release_effect [OF laws held] show ?thesis by metis
  qed
qed

lemma cluster_reach_inv: "cluster_reach cl s \<Longrightarrow> kv_laws cl view \<Longrightarrow> cluster_inv view s"
proof (induction rule: cluster_reach.induct)
  case (reach_start s)
  then show ?case by (simp add: cluster_inv_def redis_lock_init_def)
next
  case (reach_step s s')
  then show ?case using cluster_step_inv by blast
qed

text \<open>A \<open>refresh\<close> whose client answers leaves the flag and the key in line, whatever they were.\<close>

lemma refresh_in_line:
  assumes laws: "kv_laws cl view" and get: "kv_get cl (lock_key l) c = Inr r"
    and set: "\<forall>k v t. \<exists>x. fst (kv_set_nx cl k v t c) = Inr x" and ex: "\<forall>k t. fst (kv_expire cl k t c) = Inr ()"
    and ref: "redis_refresh cl (l, c) = (b, l', c')"
  shows "b = redis_is_leader (l', c') \<and> b = (view c' (lock_key l) = Some (instance_id l))"
proof -
  note r = kv_lawsD(4) [OF laws get]
  obtain c1 where e: "kv_expire cl (lock_key l) (lock_ttl l) c = (Inr (), c1)" using ex by (metis prod.collapse)
  obtain x c2 where sx: "kv_set_nx cl (lock_key l) (instance_id l) (lock_ttl l) c = (Inr x, c2)"
    using set by (metis prod.collapse)
  show ?thesis
    using ref get r kv_lawsD(1,2) [OF laws sx] kv_lawsD(5) [OF laws e]
    by (cases r) (auto simp: redis_refresh_def redis_acquire_def redis_is_leader_def sx e split: if_splits)
qed

section \<open>Properties\<close>


definition demo_cluster :: "(string, string) dict cluster" where
  "demo_cluster = set_lock ''a'' (snd (redis_acquire dict_client (redis_lock_init ''a'', [])))
     \<lparr>shared_client = [], locks = redis_lock_init\<rparr>"


text \<open>
  The leader itself loses the flag when it calls \<open>acquire\<close> again: the key exists, so the write is
  refused although the key names this instance.
\<close>

lemma acquire_by_holder_drops_leadership:
  "let s = snd (redis_acquire dict_client (redis_lock_init ''a'', [])) in
     redis_is_leader s \<and> \<not> redis_is_leader (snd (redis_acquire dict_client s))"
  by code_simp

end
