(* ===== verification/Auth.thy ===== *)
theory Auth
  imports Kv_Client
begin

text \<open>
  Authorisation scopes (\<open>auth/scopes.py\<close>) and the one-shot nonce stores of the single-sign-on
  callback (\<open>auth/sso/nonce_store.py\<close>). Instants of the monotonic clock are integers (ticks). The
  lock of the in-memory store makes its operation atomic; the contract of both stores is a locale.
\<close>

section \<open>Scopes\<close>

definition MEMBER_SCOPES :: "string list" where
  "MEMBER_SCOPES = [''workflow:read'', ''workflow:write'', ''workflow:execute'', ''execution:read'',
     ''execution:write'', ''credential:read'', ''credential:write'']"

definition ADMIN_SCOPES :: "string list" where
  "ADMIN_SCOPES = MEMBER_SCOPES @ [''user:manage'']"

definition SCOPE_WILDCARD :: string where "SCOPE_WILDCARD = ''*''"

definition ROLE_SCOPES :: "(string, string list) dict" where
  "ROLE_SCOPES = [(''owner'', [SCOPE_WILDCARD]), (''admin'', ADMIN_SCOPES), (''member'', MEMBER_SCOPES)]"

record user_view =
  user_id :: string
  user_email :: string
  display_name :: "string option"
  global_role :: string
  default_project_id :: "string option"
  is_active :: bool

definition scopes_for :: "string \<Rightarrow> string list" where
  "scopes_for role = dict_get ROLE_SCOPES role []"

definition has_scope :: "user_view \<Rightarrow> string \<Rightarrow> bool" where
  "has_scope user scope =
     (if \<not> is_active user then False
      else let granted = dict_get ROLE_SCOPES (global_role user) [] in
        SCOPE_WILDCARD \<in> set granted \<or> scope \<in> set granted)"

section \<open>Nonce stores\<close>

text \<open>The in-memory store is its dictionary from nonces to expiry instants.\<close>

type_synonym nonce_table = "(string, int) dict"

definition memory_consume :: "int \<Rightarrow> string \<Rightarrow> int \<Rightarrow> nonce_table \<Rightarrow> bool \<times> nonce_table" where
  "memory_consume now nonce ttl_seconds seen =
     (let seen' = (if seen \<noteq> [] then filter (\<lambda>(k, expiry). expiry > now) seen else seen) in
      if map_of seen' nonce \<noteq> None then (False, seen')
      else (True, dict_set nonce (now + ttl_seconds) seen'))"

definition NONCE_KEY_PREFIX :: string where "NONCE_KEY_PREFIX = ''weftlyflow:sso:nonce:''"

text \<open>An exception of the client reaches the caller.\<close>

definition redis_consume :: "'c kv_client \<Rightarrow> string \<Rightarrow> int \<Rightarrow> 'c \<Rightarrow> bool result \<times> 'c" where
  "redis_consume cl nonce ttl_seconds c = kv_set_nx cl (NONCE_KEY_PREFIX @ nonce) ''1'' ttl_seconds c"

section \<open>The contract of a nonce store\<close>

text \<open>
  \<open>live s n\<close>: the store remembers \<open>n\<close>. A call answers whether the nonce was unknown, and the store
  remembers it afterwards; \<open>ok\<close> is the representation invariant.
\<close>

locale nonce_store =
  fixes consume :: "string \<Rightarrow> 's \<Rightarrow> bool \<times> 's" and live :: "'s \<Rightarrow> string \<Rightarrow> bool" and ok :: "'s \<Rightarrow> bool"
  assumes consume_answer: "ok s \<Longrightarrow> consume n s = (b, s') \<Longrightarrow> b \<longleftrightarrow> \<not> live s n"
    and consume_remembers: "ok s \<Longrightarrow> consume n s = (b, s') \<Longrightarrow> live s' m \<longleftrightarrow> m = n \<or> live s m"
    and consume_ok: "ok s \<Longrightarrow> consume n s = (b, s') \<Longrightarrow> ok s'"
begin

fun consume_all :: "string list \<Rightarrow> 's \<Rightarrow> bool list" where
  "consume_all [] s = []"
| "consume_all (n # ns) s = fst (consume n s) # consume_all ns (snd (consume n s))"

text \<open>Of any calls in a row, exactly the first one with a nonce the store does not know is accepted.\<close>

lemma consume_all_iff:
  "ok s \<Longrightarrow> i < length ns \<Longrightarrow> consume_all ns s ! i \<longleftrightarrow> \<not> live s (ns ! i) \<and> ns ! i \<notin> set (take i ns)"
proof (induction ns arbitrary: i s)
  case (Cons n ns)
  obtain b s' where c: "consume n s = (b, s')" by fastforce
  note a = consume_answer [OF Cons.prems(1) c] and r = consume_remembers [OF Cons.prems(1) c]
  show ?case
  proof (cases i)
    case 0
    then show ?thesis by (simp add: c a)
  next
    case (Suc j)
    with Cons.IH [OF consume_ok [OF Cons.prems(1) c], of j] Cons.prems(2) show ?thesis by (auto simp: c r)
  qed
qed simp

end

definition nonce_live :: "int \<Rightarrow> nonce_table \<Rightarrow> string \<Rightarrow> bool" where
  "nonce_live now seen n \<longleftrightarrow> (\<exists>expiry. map_of seen n = Some expiry \<and> expiry > now)"

lemma map_of_evict:
  "dict_ok d \<Longrightarrow> map_of (filter (\<lambda>(k, expiry). expiry > (now :: int)) d) k
     = (case map_of d k of None \<Rightarrow> None | Some expiry \<Rightarrow> if expiry > now then Some expiry else None)"
  by (induction d) (auto split: option.splits simp: map_of_eq_None_iff image_iff)

lemma memory_consume_eq:
  assumes "dict_ok seen"
  shows "fst (memory_consume now n ttl seen) \<longleftrightarrow> \<not> nonce_live now seen n"
    and "dict_ok (snd (memory_consume now n ttl seen))"
    and "map_of (snd (memory_consume now n ttl seen)) m =
      (if m = n \<and> \<not> nonce_live now seen n then Some (now + ttl)
       else if nonce_live now seen m then map_of seen m else None)"
proof -
  define seen' where "seen' = filter (\<lambda>(k, expiry). expiry > now) seen"
  have e: "memory_consume now n ttl seen =
      (if map_of seen' n \<noteq> None then (False, seen') else (True, dict_set n (now + ttl) seen'))"
    by (auto simp: memory_consume_def seen'_def)
  have l: "map_of seen' m = (if nonce_live now seen m then map_of seen m else None)" for m
    using map_of_evict [OF assms] by (auto simp: seen'_def nonce_live_def split: option.splits)
  then have n: "map_of seen' m \<noteq> None \<longleftrightarrow> nonce_live now seen m" for m by (auto simp: nonce_live_def)
  have "dict_ok seen'" using assms by (simp add: seen'_def distinct_map_filter)
  then show "dict_ok (snd (memory_consume now n ttl seen))" by (simp add: e)
  show "fst (memory_consume now n ttl seen) \<longleftrightarrow> \<not> nonce_live now seen n" by (simp add: e flip: n)
  show "map_of (snd (memory_consume now n ttl seen)) m =
      (if m = n \<and> \<not> nonce_live now seen n then Some (now + ttl)
       else if nonce_live now seen m then map_of seen m else None)"
    using n [of n] by (auto simp: e l dict_simps nonce_live_def)
qed

interpretation memnonce: nonce_store "\<lambda>n. memory_consume now n (int (Suc k))" "nonce_live now" dict_ok
  for now k
proof
  fix seen :: nonce_table and n b seen' m
  assume ok: "dict_ok seen" and c: "memory_consume now n (int (Suc k)) seen = (b, seen')"
  note E = memory_consume_eq [OF ok, of now n "int (Suc k)", unfolded c fst_conv snd_conv]
  show "b \<longleftrightarrow> \<not> nonce_live now seen n" by (rule E(1))
  show "dict_ok seen'" by (rule E(2))
  show "nonce_live now seen' m \<longleftrightarrow> m = n \<or> nonce_live now seen m"
    using E(3) [of m] by (auto simp: nonce_live_def)
qed

lemma redis_nonce_store:
  assumes laws: "kv_laws cl view" and answers: "\<And>k v t c. \<exists>x. fst (kv_set_nx cl k v t c) = Inr x"
  shows "nonce_store (\<lambda>n c. (fst (redis_consume cl n ttl c) = Inr True, snd (redis_consume cl n ttl c)))
    (\<lambda>c n. view c (NONCE_KEY_PREFIX @ n) \<noteq> None) (\<lambda>_. True)"
proof
  fix c n b c' m
  assume r: "(fst (redis_consume cl n ttl c) = Inr True, snd (redis_consume cl n ttl c)) = (b, c')"
  obtain x where "fst (redis_consume cl n ttl c) = Inr x" using answers unfolding redis_consume_def by blast
  with r have k: "kv_set_nx cl (NONCE_KEY_PREFIX @ n) ''1'' ttl c = (Inr b, c')"
    by (auto simp: redis_consume_def prod_eq_iff)
  show "b \<longleftrightarrow> \<not> view c (NONCE_KEY_PREFIX @ n) \<noteq> None" using kv_lawsD(1) [OF laws k] by simp
  show "view c' (NONCE_KEY_PREFIX @ m) \<noteq> None \<longleftrightarrow> m = n \<or> view c (NONCE_KEY_PREFIX @ m) \<noteq> None"
    using kv_lawsD(1,2) [OF laws k] by auto
qed simp

section \<open>A history of calls\<close>

text \<open>
  The specification of a nonce store over time remembers every accepted call \<open>(t, n, ttl)\<close>; a call
  is accepted unless an accepted one with its nonce is still within its time to live. The store
  runs the same calls on its table, which forgets what has expired.
\<close>

type_synonym nonce_call = "int \<times> string \<times> int"

definition in_ttl :: "int \<Rightarrow> string \<Rightarrow> nonce_call \<Rightarrow> bool" where
  "in_ttl t n c \<longleftrightarrow> fst (snd c) = n \<and> t < fst c + snd (snd c)"

fun nonce_spec :: "nonce_call list \<Rightarrow> nonce_call list \<Rightarrow> bool list" where
  "nonce_spec accepted [] = []"
| "nonce_spec accepted ((t, n, ttl) # cs) =
     (let fresh = \<not> list_ex (in_ttl t n) accepted in
      fresh # nonce_spec (if fresh then (t, n, ttl) # accepted else accepted) cs)"

fun nonce_run :: "nonce_table \<Rightarrow> nonce_call list \<Rightarrow> bool list" where
  "nonce_run seen [] = []"
| "nonce_run seen ((t, n, ttl) # cs) =
     fst (memory_consume t n ttl seen) # nonce_run (snd (memory_consume t n ttl seen)) cs"

definition nonce_sim :: "int \<Rightarrow> nonce_table \<Rightarrow> nonce_call list \<Rightarrow> bool" where
  "nonce_sim now seen accepted \<longleftrightarrow>
     dict_ok seen \<and> (\<forall>t \<ge> now. \<forall>n. nonce_live t seen n \<longleftrightarrow> list_ex (in_ttl t n) accepted)"

lemma nonce_sim_step:
  assumes sim: "nonce_sim now seen accepted" and t: "now \<le> t"
  shows "fst (memory_consume t n ttl seen) \<longleftrightarrow> \<not> list_ex (in_ttl t n) accepted"
    and "nonce_sim t (snd (memory_consume t n ttl seen))
      (if list_ex (in_ttl t n) accepted then accepted else (t, n, ttl) # accepted)"
proof -
  have ok: "dict_ok seen" and L: "\<And>t' m. now \<le> t' \<Longrightarrow> nonce_live t' seen m \<longleftrightarrow> list_ex (in_ttl t' m) accepted"
    using sim by (auto simp: nonce_sim_def)
  note E = memory_consume_eq [OF ok, of t n ttl]
  show "fst (memory_consume t n ttl seen) \<longleftrightarrow> \<not> list_ex (in_ttl t n) accepted"
    using E(1) L [OF t] by simp
  have "nonce_live t' (snd (memory_consume t n ttl seen)) m \<longleftrightarrow>
      list_ex (in_ttl t' m) (if list_ex (in_ttl t n) accepted then accepted else (t, n, ttl) # accepted)"
    if t': "t \<le> t'" for t' m
  proof -
    have "nonce_live t' seen m \<longleftrightarrow> list_ex (in_ttl t' m) accepted" using L t t' by simp
    moreover have "nonce_live t' seen m \<Longrightarrow> nonce_live t seen m" using t' by (auto simp: nonce_live_def)
    ultimately show ?thesis
      using E(3) [of m] L [OF t, of n] by (auto simp: nonce_live_def in_ttl_def split: if_splits)
  qed
  with E(2) show "nonce_sim t (snd (memory_consume t n ttl seen))
      (if list_ex (in_ttl t n) accepted then accepted else (t, n, ttl) # accepted)"
    by (simp add: nonce_sim_def)
qed

lemma nonce_run_refines:
  "nonce_sim now seen accepted \<Longrightarrow> sorted (map fst cs) \<Longrightarrow> (\<forall>c \<in> set cs. now \<le> fst c) \<Longrightarrow>
   nonce_run seen cs = nonce_spec accepted cs"
proof (induction cs arbitrary: now seen accepted)
  case (Cons c cs)
  obtain t n ttl where c: "c = (t, n, ttl)" by (cases c) auto
  note S = nonce_sim_step [OF Cons.prems(1), of t n ttl]
  from Cons.prems c have "now \<le> t" "sorted (map fst cs)" "\<forall>c \<in> set cs. t \<le> fst c" by auto
  with Cons.IH [OF S(2)] S(1) show ?case by (auto simp: c Let_def)
qed simp

lemma nonce_spec_length: "length (nonce_spec accepted cs) = length cs"
  by (induction accepted cs rule: nonce_spec.induct) (simp_all add: Let_def)

lemma nonce_spec_no_replay:
  "i < j \<Longrightarrow> j < length cs \<Longrightarrow> cs ! i = (t, n, ttl) \<Longrightarrow> cs ! j = (t', n, ttl') \<Longrightarrow>
   nonce_spec accepted cs ! i \<Longrightarrow> nonce_spec accepted cs ! j \<Longrightarrow> t + ttl \<le> t'"
proof (induction accepted cs arbitrary: i j rule: nonce_spec.induct)
  case (2 accepted t0 n0 ttl0 cs)
  have later: "\<not> list_ex (in_ttl t' n) acc" if "k < length cs" "cs ! k = (t', n, ttl')" "nonce_spec acc cs ! k" for acc k
    using that
  proof (induction acc cs arbitrary: k rule: nonce_spec.induct)
    case (2 acc a b d cs)
    then show ?case by (cases k) (auto simp: Let_def split: if_splits)
  qed simp
  obtain j' where j: "j = Suc j'" using 2(2) by (cases j) auto
  show ?case
  proof (cases i)
    case 0
    with 2(2-) j have "nonce_spec ((t, n, ttl) # accepted) cs ! j'" "j' < length cs" "cs ! j' = (t', n, ttl')"
      by (auto simp: Let_def split: if_splits)
    from later [OF this(2,3,1)] show ?thesis by (simp add: in_ttl_def)
  next
    case (Suc i')
    with 2 j show ?thesis by (auto simp: Let_def)
  qed
qed simp

lemma nonce_spec_first:
  "j < length cs \<Longrightarrow> \<forall>i < j. fst (snd (cs ! i)) \<noteq> fst (snd (cs ! j)) \<Longrightarrow>
   \<forall>c \<in> set accepted. fst (snd c) \<noteq> fst (snd (cs ! j)) \<Longrightarrow> nonce_spec accepted cs ! j"
proof (induction accepted cs arbitrary: j rule: nonce_spec.induct)
  case (2 accepted t n ttl cs)
  show ?case
  proof (cases j)
    case 0
    with 2(4) show ?thesis by (auto simp: Let_def list_ex_iff in_ttl_def)
  next
    case (Suc k)
    have ne: "n \<noteq> fst (snd (cs ! k))" using 2(3) Suc by (metis fst_conv nth_Cons_0 nth_Cons_Suc snd_conv zero_less_Suc)
    have "\<forall>i < k. fst (snd (cs ! i)) \<noteq> fst (snd (cs ! k))"
      using 2(3) Suc by (metis Suc_less_eq nth_Cons_Suc)
    with 2(1) [OF refl, of k] 2(2,4) ne Suc show ?thesis by (auto simp: Let_def)
  qed
qed simp

section \<open>Properties\<close>

text \<open>
  C21 (refinement). For every sequence of calls at non-decreasing instants, the answers of the in-memory store are
  those of the specification that remembers every accepted call: evicting expired entries is
  invisible. So a nonce is never accepted twice within its time to live, and it is accepted
  when it was never used before.
\<close>
theorem nonce_store_refines:
  assumes "sorted (map fst cs)"
  shows "nonce_run [] cs = nonce_spec [] cs
    \<and> (\<forall>i j t n ttl t' ttl'. i < j \<and> j < length cs \<and> cs ! i = (t, n, ttl) \<and> cs ! j = (t', n, ttl')
          \<and> nonce_run [] cs ! i \<and> nonce_run [] cs ! j \<longrightarrow> t + ttl \<le> t')
    \<and> (\<forall>j. j < length cs \<and> (\<forall>i < j. fst (snd (cs ! i)) \<noteq> fst (snd (cs ! j))) \<longrightarrow> nonce_run [] cs ! j)"
proof (intro conjI allI impI)
  define now where "now = (case cs of [] \<Rightarrow> 0 | c # _ \<Rightarrow> fst c)"
  have "\<forall>c \<in> set cs. now \<le> fst c" using assms by (cases cs) (auto simp: now_def)
  then show eq: "nonce_run [] cs = nonce_spec [] cs"
    using nonce_run_refines [of now "[]" "[]" cs] assms by (simp add: nonce_sim_def nonce_live_def)
  show "t + ttl \<le> t'" if "i < j \<and> j < length cs \<and> cs ! i = (t, n, ttl) \<and> cs ! j = (t', n, ttl')
          \<and> nonce_run [] cs ! i \<and> nonce_run [] cs ! j" for i j t n ttl t' ttl'
    using nonce_spec_no_replay [of i j cs t n ttl t' ttl' "[]"] that by (simp add: eq)
  show "nonce_run [] cs ! j" if "j < length cs \<and> (\<forall>i < j. fst (snd (cs ! i)) \<noteq> fst (snd (cs ! j)))" for j
    using nonce_spec_first [of j cs "[]"] that by (simp add: eq)
qed

theorem nonce_store_refines_witness:
  "nonce_run [] [(0, ''a'', 600), (5, ''a'', 600), (700, ''a'', 600)]
     = nonce_spec [] [(0, ''a'', 600), (5, ''a'', 600), (700, ''a'', 600)]
   \<and> nonce_run [] [(0, ''a'', 600), (5, ''a'', 600), (700, ''a'', 600)] = [True, False, True]"
proof -
  have "nonce_run [] [(0, ''a'', 600), (5, ''a'', 600), (700, ''a'', 600)] = [True, False, True]" by code_simp
  moreover have "sorted (map fst [(0 :: int, ''a'', 600 :: int), (5, ''a'', 600), (700, ''a'', 600)])" by simp
  ultimately show ?thesis using nonce_store_refines by blast
qed

text \<open>
  Authorisation: an inactive user has no scope and a user whose role is unknown has none
  either; an owner has every scope, a member exactly the seven scopes on workflows,
  executions and credentials, and an administrator these and user management.
\<close>
theorem has_scope_roles:
  "has_scope user scope \<longleftrightarrow>
     is_active user
     \<and> (global_role user = ''owner''
        \<or> global_role user \<in> {''admin'', ''member''} \<and>
            scope \<in> {''workflow:read'', ''workflow:write'', ''workflow:execute'', ''execution:read'',
              ''execution:write'', ''credential:read'', ''credential:write''}
        \<or> global_role user = ''admin'' \<and> scope = ''user:manage'')"
proof -
  have "SCOPE_WILDCARD \<in> set (dict_get ROLE_SCOPES role []) \<or> scope \<in> set (dict_get ROLE_SCOPES role []) \<longleftrightarrow>
      role = ''owner'' \<or> role \<in> {''admin'', ''member''} \<and> scope \<in> set MEMBER_SCOPES
      \<or> role = ''admin'' \<and> scope = ''user:manage''" for role
  proof -
    have "dict_get ROLE_SCOPES role [] = (if role = ''owner'' then [''*''] else if role = ''admin'' then ADMIN_SCOPES
        else if role = ''member'' then MEMBER_SCOPES else [])"
      by (simp add: ROLE_SCOPES_def dict_get_def SCOPE_WILDCARD_def)
    moreover have "''*'' \<notin> set ADMIN_SCOPES" "''*'' \<notin> set MEMBER_SCOPES" by code_simp+
    ultimately show ?thesis by (auto simp: SCOPE_WILDCARD_def ADMIN_SCOPES_def)
  qed
  then show ?thesis by (simp add: has_scope_def MEMBER_SCOPES_def)
qed

end
