(* ===== verification/Worker.thy ===== *)
theory Worker
  imports Sub_Workflow Triggers Kv_Client
begin

text \<open>
  The worker: the routine that runs a queued request and persists the result
  (\<open>worker/execution.py\<close>), the idempotency guard (\<open>worker/idempotency.py\<close>), the task that combines
  them (\<open>worker/tasks.py\<close>), and the two producers of requests, the poll tick
  (\<open>triggers/poller.py\<close>) and the webhook ingress (\<open>server/routers/webhooks_ingress.py\<close>,
  \<open>webhooks/handler.py\<close>). The repositories are parameters: looking a workflow up in a project,
  saving an execution, committing.
\<close>

section \<open>Running a request\<close>

record 'db worker_env =
  we_get_workflow :: "string \<Rightarrow> string \<Rightarrow> 'db \<Rightarrow> workflow option result"
  we_save :: "execution \<Rightarrow> string \<Rightarrow> 'db \<Rightarrow> exn option \<times> 'db"
  we_commit :: "'db \<Rightarrow> exn option"
  we_registry :: node_registry
  we_credential_resolver :: "credential_resolver option"
  we_process :: process_env
  we_clock :: "nat \<Rightarrow> int"
  we_millis :: "int \<Rightarrow> int"
  we_fresh_id :: string
  we_depth :: nat

text \<open>The runner looks children up in sessions of its own, on the same database.\<close>

definition worker_runner :: "'db worker_env \<Rightarrow> 'db \<Rightarrow> inline_runner" where
  "worker_runner env db = \<lparr>ir_registry = we_registry env,
     ir_loader = (\<lambda>wid pid. we_get_workflow env wid pid db),
     ir_credential_resolver = we_credential_resolver env, ir_process = we_process env,
     ir_clock = we_clock env, ir_millis = we_millis env, ir_fresh_id = we_fresh_id env\<rparr>"

definition request_items :: "execution_request \<Rightarrow> item list" where
  "request_items request =
     (let items = map mk_item (er_initial_items request) in if items \<noteq> [] then items else [mk_item []])"

definition run_execution :: "'db worker_env \<Rightarrow> execution_request \<Rightarrow> 'db \<Rightarrow> execution option result \<times> 'db" where
  "run_execution env request db =
     (case we_get_workflow env (er_workflow_id request) (er_project_id request) db of
        Inl e \<Rightarrow> (Inl e, db)
      | Inr None \<Rightarrow> (Inr None, db)
      | Inr (Some w) \<Rightarrow>
          (let runner = worker_runner env db;
               ex = child_executor runner (runner_run (we_depth env) runner) in
           case run_workflow ex w (Some (request_items request)) (er_mode request)
                  (Some (er_execution_id request)) (we_fresh_id env) of
             Inl e \<Rightarrow> (Inl e, db)
           | Inr (execution, _) \<Rightarrow>
               (let persisted = execution\<lparr>triggered_by := er_triggered_by request\<rparr> in
                case we_save env persisted (er_project_id request) db of
                  (Some e, _) \<Rightarrow> (Inl e, db)
                | (None, db') \<Rightarrow>
                    (case we_commit env db' of
                       Some e \<Rightarrow> (Inl e, db)
                     | None \<Rightarrow> (Inr (Some persisted), db')))))"

section \<open>Idempotency guard\<close>

record idempotency_guard =
  ig_prefix :: string
  ig_ttl :: int

definition mk_guard :: idempotency_guard where
  "mk_guard = \<lparr>ig_prefix = ''weftlyflow:execution:'', ig_ttl = 60 * 60\<rparr>"

definition guard_key :: "idempotency_guard \<Rightarrow> string \<Rightarrow> string" where
  "guard_key g execution_id = ig_prefix g @ execution_id"

text \<open>An unreachable client lets the task run.\<close>

definition guard_claim :: "'c kv_client \<Rightarrow> idempotency_guard \<Rightarrow> string \<Rightarrow> string \<Rightarrow> 'c \<Rightarrow> bool \<times> 'c" where
  "guard_claim cl g execution_id owner c =
     (case kv_set_nx cl (guard_key g execution_id) owner (ig_ttl g) c of
        (Inl _, c') \<Rightarrow> (True, c')
      | (Inr acquired, c') \<Rightarrow> (acquired, c'))"

definition guard_release :: "'c kv_client \<Rightarrow> idempotency_guard \<Rightarrow> string \<Rightarrow> 'c \<Rightarrow> 'c" where
  "guard_release cl g execution_id c = snd (kv_delete cl (guard_key g execution_id) c)"

text \<open>The guard without a client always claims and never releases.\<close>

definition null_claim :: "string \<Rightarrow> string \<Rightarrow> bool" where
  "null_claim execution_id owner = True"

section \<open>The task\<close>

text \<open>The summary returned: the id, and a status or the reason why nothing ran.\<close>

datatype task_status = Skipped | MissingWorkflow | Ran execution_status

text \<open>\<open>None\<close> for the client is the guard that does nothing.\<close>

definition execute_workflow :: "'db worker_env \<Rightarrow> 'c kv_client option \<Rightarrow> string \<Rightarrow> execution_request \<Rightarrow> 'db \<times> 'c
    \<Rightarrow> (string \<times> task_status) result \<times> 'db \<times> 'c" where
  "execute_workflow env client owner request s =
     (let (db, c) = s; eid = er_execution_id request;
          (won, c1) = (case client of None \<Rightarrow> (null_claim eid owner, c) | Some cl \<Rightarrow> guard_claim cl mk_guard eid owner c) in
      if \<not> won then (Inr (eid, Skipped), db, c1)
      else
        (let (r, db') = run_execution env request db;
             c2 = (case client of None \<Rightarrow> c1 | Some cl \<Rightarrow> guard_release cl mk_guard eid c1) in
         (case r of
            Inl e \<Rightarrow> Inl e
          | Inr None \<Rightarrow> Inr (eid, MissingWorkflow)
          | Inr (Some execution) \<Rightarrow> Inr (exec_id execution, Ran (exec_status execution)), db', c2)))"

section \<open>Producers of requests\<close>

text \<open>\<open>poll\<close> is the node's method; \<open>build\<close> makes the request from the harvested items.\<close>

definition run_poll_tick :: "item list option result \<Rightarrow> (item list \<Rightarrow> execution_request) \<Rightarrow> execution_request list
    \<Rightarrow> nat result \<times> execution_request list" where
  "run_poll_tick polled build queue =
     (case polled of
        Inl e \<Rightarrow> (Inl e, queue)
      | Inr None \<Rightarrow> (Inr 0, queue)
      | Inr (Some items) \<Rightarrow>
          if items = [] then (Inr 0, queue) else (Inr (length items), queue @ [build items]))"

definition enqueue_from_webhook :: "string \<Rightarrow> string \<Rightarrow> string \<Rightarrow> string \<Rightarrow> jobj \<Rightarrow> string \<Rightarrow> execution_request list
    \<Rightarrow> string \<times> execution_request list" where
  "enqueue_from_webhook execution_id wid pid i payload trig queue =
     (execution_id, queue @ [build_request execution_id wid pid i payload trig])"

definition str_dict :: "(string, string) dict \<Rightarrow> json" where
  "str_dict d = JObj (map (\<lambda>(k, v). (k, JStr v)) d)"

definition request_payload :: "parsed_request \<Rightarrow> jobj" where
  "request_payload parsed =
     [(''method'', JStr (pr_method parsed)), (''path'', JStr (pr_path parsed)),
      (''headers'', str_dict (pr_headers parsed)), (''query'', str_dict (pr_query parsed)),
      (''query_all'', JObj (map (\<lambda>(k, vs). (k, JArr (map JStr vs))) (pr_query_all parsed))),
      (''body'', pr_body parsed)]"

datatype http_response = NotFound string | Accepted string

text \<open>The request as the server hands it over, with the reserved execution id.\<close>

record http_request =
  rq_method :: string
  rq_headers :: "(string \<times> string) list"
  rq_query :: "(string \<times> string) list"
  rq_body :: "nat list"

definition ingest_webhook :: "(nat list \<Rightarrow> string option) \<Rightarrow> (string \<Rightarrow> json option) \<Rightarrow> string \<Rightarrow> string \<Rightarrow> http_request
    \<Rightarrow> webhook_registry \<Rightarrow> execution_request list \<Rightarrow> http_response result \<times> execution_request list" where
  "ingest_webhook utf8 loads execution_id path request reg queue =
     (case wr_match reg path (rq_method request) of
        Inl e \<Rightarrow> (Inl e, queue)
      | Inr None \<Rightarrow> (Inr (NotFound (''no webhook registered for '' @ rq_method request @ '' /webhook/'' @ path)), queue)
      | Inr (Some entry) \<Rightarrow>
          (let parsed = parse_request utf8 loads (rq_method request) path (rq_headers request) (rq_query request) (rq_body request);
               (eid, queue') = enqueue_from_webhook execution_id (wh_workflow_id entry) (wh_project_id entry) (wh_node_id entry)
                 (request_payload parsed) (''webhook:'' @ wh_id entry) queue in
           (Inr (Accepted eid), queue')))"

section \<open>A run keeps its identity\<close>

definition run_identity :: "run_state \<Rightarrow> workflow \<times> string \<times> execution_mode" where
  "run_identity st = (rs_workflow st, rs_execution_id st, rs_mode st)"

lemma run_identity_simps [simp]:
  "run_identity (snd (now ex st)) = run_identity st"
  "run_identity (emit e st) = run_identity st"
  "run_identity (mark_failed i exc st) = run_identity st"
  "run_identity (record_run i rd st) = run_identity st"
  "run_identity (st\<lparr>static_data := sd\<rparr>) = run_identity st"
  by (simp_all add: run_identity_def now_def emit_def mark_failed_def record_run_def)

lemma run_identity_elapsed [simp]:
  "run_identity (snd (elapsed ex t items status st)) = run_identity st"
  "run_identity (snd (disabled_run_data ex ctx t st)) = run_identity st"
  by (simp_all add: elapsed_def disabled_run_data_def elapsed_ms_def case_prod_beta)

lemma run_identity_exception [simp]:
  "run_identity (snd (handle_node_exception ex n ctx exc t st)) = run_identity st"
  by (simp add: handle_node_exception_def elapsed_ms_def Let_def case_prod_beta)

lemma run_identity_run_one [simp]: "run_identity (snd (run_one ex n ctx st)) = run_identity st"
  by (simp add: run_one_def Let_def case_prod_beta split: option.split sum.split)

lemma run_identity_turn: "node_turn ex i n inputs st = (rd, st') \<Longrightarrow> run_identity st' = run_identity st"
  using run_identity_run_one [of ex n "node_ctx ex n inputs st" "emit (OnNodeStart (node_ctx ex n inputs st)) st"]
  by (auto simp: node_turn_def Let_def case_prod_beta)

lemma run_identity_body:
  assumes "loop_body ex g i ls = Inr ls'"
  shows "run_identity (lp_state ls') = run_identity (lp_state ls)"
  using assms by (cases rule: loop_body_Inr) (simp_all add: run_identity_turn)

lemma run_identity_loop:
  "exec_loop ex g ls = Inr ls' \<Longrightarrow> run_identity (lp_state ls') = run_identity (lp_state ls)"
proof (induction ex g ls arbitrary: ls' rule: exec_loop.induct)
  case (1 ex g ls)
  show ?case
  proof (cases "ready_queue ls")
    case (Cons i queue)
    show ?thesis
    proof (cases "failed_node_id (lp_state ls) = None")
      case True
      with 1(2) Cons obtain ls1 where b: "loop_body ex g i (ls\<lparr>ready_queue := queue\<rparr>) = Inr ls1"
        and e: "exec_loop ex g ls1 = Inr ls'" by (auto simp: exec_loop.simps [of ex g ls] result_simps)
      from 1(1) [OF Cons _ b e] True run_identity_body [OF b] show ?thesis by simp
    qed (use 1(2) Cons in \<open>simp add: exec_loop.simps [of ex g ls]\<close>)
  qed (use 1(2) in \<open>simp add: exec_loop.simps [of ex g ls]\<close>)
qed

lemma run_workflow_identity:
  assumes "run_workflow ex w items mode (Some eid) fresh = Inr (execution, st)" and "eid \<noteq> []"
  shows "exec_id execution = eid" "exec_workflow_id execution = wf_id w" "exec_mode execution = mode"
    "workflow_snapshot execution = w"
proof -
  from assms obtain g pend ls st2 where l: "exec_loop ex g \<lparr>ready_queue = root_ids g,
        inputs_by_node = seed_inputs_for_roots g (case items of None \<Rightarrow> [mk_item []] | Some xs \<Rightarrow> xs), pending = pend,
        lp_state = emit (OnExecutionStart (node_ctx ex (anchor_node w) [] (init_run_state ex w eid mode)))
          (init_run_state ex w eid mode)\<rparr> = Inr ls"
    and b: "build_execution ex (lp_state ls) = (execution, st2)"
    by (auto simp: run_workflow_def result_simps Let_def case_prod_beta) (metis prod.collapse)
  from run_identity_loop [OF l] have "run_identity (lp_state ls) = (w, eid, mode)"
    by (simp add: run_identity_def init_run_state_def emit_def)
  with b show "exec_id execution = eid" "exec_workflow_id execution = wf_id w" "exec_mode execution = mode"
    "workflow_snapshot execution = w"
    by (auto simp: build_execution_def run_identity_def now_def)
qed

section \<open>Properties\<close>

text \<open>
  A queued request whose workflow is not in its project runs and stores nothing. Otherwise, when
  the graph of the workflow is invalid, the error of the graph reaches the caller and
  nothing is stored; else the workflow runs once and what is saved, under the project of the
  request, is its finished execution with the reserved id, the mode and the origin of the
  request; it is returned exactly when saving and committing succeed, and an exception of
  either leaves the database as it was.
\<close>
theorem run_execution_result:
  assumes "we_get_workflow env (er_workflow_id rq) (er_project_id rq) db = Inr loaded"
    and "er_execution_id rq \<noteq> []"
  shows "case loaded of
      None \<Rightarrow> run_execution env rq db = (Inr None, db)
    | Some w \<Rightarrow>
        (case workflow_graph_init w of
           Inl e \<Rightarrow> run_execution env rq db = (Inl e, db)
         | Inr g \<Rightarrow> \<exists>execution.
             exec_id execution = er_execution_id rq \<and> exec_workflow_id execution = wf_id w
             \<and> exec_mode execution = er_mode rq \<and> triggered_by execution = er_triggered_by rq
             \<and> workflow_snapshot execution = w \<and> finished_at execution \<noteq> None
             \<and> exec_status execution \<in> {ExecSuccess, ExecError}
             \<and> run_execution env rq db =
                 (case we_save env execution (er_project_id rq) db of
                    (Some e, _) \<Rightarrow> (Inl e, db)
                  | (None, db') \<Rightarrow>
                      (case we_commit env db' of Some e \<Rightarrow> (Inl e, db) | None \<Rightarrow> (Inr (Some execution), db'))))"
proof (cases loaded)
  case None
  then show ?thesis using assms by (simp add: run_execution_def)
next
  case (Some w)
  define runner where "runner = worker_runner env db"
  define ex where "ex = child_executor runner (runner_run (we_depth env) runner)"
  let ?run = "run_workflow ex w (Some (request_items rq)) (er_mode rq) (Some (er_execution_id rq)) (we_fresh_id env)"
  show ?thesis
  proof (cases "workflow_graph_init w")
    case (Inl e)
    then have "?run = Inl e" by (simp add: run_workflow_def)
    then show ?thesis using assms Some Inl by (simp add: run_execution_def Let_def flip: runner_def ex_def)
  next
    case (Inr g)
    from run_workflow_facts [OF Inr, of ex "Some (request_items rq)" "er_mode rq" "Some (er_execution_id rq)" "we_fresh_id env"]
    obtain execution st ls start where r: "?run = Inr (execution, st)"
      and res: "run_result ex w (Some (request_items rq)) ls start execution st" by blast
    note ids = run_workflow_identity [OF r assms(2)]
    define persisted where "persisted = execution\<lparr>triggered_by := er_triggered_by rq\<rparr>"
    have "run_execution env rq db =
        (case we_save env persisted (er_project_id rq) db of
           (Some e, _) \<Rightarrow> (Inl e, db)
         | (None, db') \<Rightarrow> (case we_commit env db' of Some e \<Rightarrow> (Inl e, db) | None \<Rightarrow> (Inr (Some persisted), db')))"
      unfolding persisted_def using assms Some r by (simp add: run_execution_def Let_def flip: runner_def ex_def)
    moreover have "finished_at persisted \<noteq> None" "exec_status persisted \<in> {ExecSuccess, ExecError}"
      using res by (auto simp: run_result_def persisted_def split: option.splits)
    ultimately show ?thesis
      using ids unfolding Some Inr sum.case option.case
      by (intro exI [of _ persisted]) (simp add: persisted_def)
  qed
qed

text \<open>
  C16 (safety). The idempotency guard, on a client that answers and keeps its contract: a delivery whose id is
  claimed is skipped, and neither the database nor any claim changes; a delivery whose id is
  free runs the request once, with the claim held, and drops the claim afterwards, on success
  and on failure alike, leaving every other claim alone.
\<close>
theorem execute_workflow_guarded:
  assumes "kv_laws cl view" and "\<forall>k v t c. \<exists>b. fst (kv_set_nx cl k v t c) = Inr b" and "\<forall>k c. fst (kv_delete cl k c) = Inr ()"
  shows "let key = guard_key mk_guard (er_execution_id rq);
      (res, db', c') = execute_workflow env (Some cl) owner rq (db, c) in
    if view c key \<noteq> None
    then res = Inr (er_execution_id rq, Skipped) \<and> db' = db \<and> view c' = view c
    else db' = snd (run_execution env rq db)
      \<and> res = (case fst (run_execution env rq db) of
          Inl e \<Rightarrow> Inl e
        | Inr None \<Rightarrow> Inr (er_execution_id rq, MissingWorkflow)
        | Inr (Some execution) \<Rightarrow> Inr (exec_id execution, Ran (exec_status execution)))
      \<and> view c' = view c"
proof -
  define key where "key = guard_key mk_guard (er_execution_id rq)"
  obtain b c1 where s: "kv_set_nx cl key owner (ig_ttl mk_guard) c = (Inr b, c1)"
    using assms(2) by (metis prod.collapse)
  note L = kv_lawsD(1,2) [OF assms(1) s]
  have claim: "guard_claim cl mk_guard (er_execution_id rq) owner c = (b, c1)"
    by (simp add: guard_claim_def s flip: key_def)
  show ?thesis
  proof (cases "view c key = None")
    case False
    with L claim show ?thesis by (simp add: execute_workflow_def flip: key_def)
  next
    case True
    define c2 where "c2 = guard_release cl mk_guard (er_execution_id rq) c1"
    have "kv_delete cl key c1 = (Inr (), c2)"
      using assms(3) unfolding c2_def guard_release_def key_def [symmetric] by (metis prod.collapse)
    from kv_lawsD(6) [OF assms(1) this] L True have "view c2 = view c" by (auto simp: fun_eq_iff)
    with claim True L show ?thesis
      by (simp add: execute_workflow_def case_prod_beta flip: key_def c2_def split: sum.split option.split)
  qed
qed

definition demo_worker :: "execution list worker_env" where
  "demo_worker = \<lparr>
     we_get_workflow = (\<lambda>wid pid db. Inr (if wid = ''w'' \<and> pid = ''p'' then Some (demo_workflow ''b'') else None)),
     we_save = (\<lambda>e pid db. (None, db @ [e])), we_commit = (\<lambda>db. None),
     we_registry = ex_registry demo_executor, we_credential_resolver = None, we_process = demo_process,
     we_clock = (\<lambda>t. int t), we_millis = (\<lambda>d. d), we_fresh_id = ''ex_2'', we_depth = 9\<rparr>"

definition demo_request :: execution_request where
  "demo_request = \<lparr>er_execution_id = ''ex_9'', er_workflow_id = ''w'', er_project_id = ''p'', er_mode = ModeWebhook,
     er_triggered_by = Some ''webhook:wh1'', er_initial_items = []\<rparr>"

theorem run_execution_result_witness:
  "\<exists>execution. exec_id execution = ''ex_9'' \<and> exec_mode execution = ModeWebhook
     \<and> triggered_by execution = Some ''webhook:wh1''
     \<and> run_execution demo_worker demo_request [] = (Inr (Some execution), [execution])"
proof -
  have g: "we_get_workflow demo_worker (er_workflow_id demo_request) (er_project_id demo_request) []
      = Inr (Some (demo_workflow ''b''))"
    by (simp add: demo_worker_def demo_request_def)
  have "returns (\<lambda>_. True) (workflow_graph_init (demo_workflow ''b''))" by code_simp
  then obtain gr where i: "workflow_graph_init (demo_workflow ''b'') = Inr gr" unfolding returns_iff by blast
  have "er_execution_id demo_request \<noteq> []" by (simp add: demo_request_def)
  from run_execution_result [OF g this] obtain execution where
    "exec_id execution = er_execution_id demo_request" "exec_mode execution = er_mode demo_request"
    "triggered_by execution = er_triggered_by demo_request"
    "run_execution demo_worker demo_request [] =
       (case we_save demo_worker execution (er_project_id demo_request) [] of
          (Some e, _) \<Rightarrow> (Inl e, [])
        | (None, db') \<Rightarrow> (case we_commit demo_worker db' of Some e \<Rightarrow> (Inl e, []) | None \<Rightarrow> (Inr (Some execution), db')))"
    unfolding option.case i sum.case by blast
  then show ?thesis by (intro exI [of _ execution]) (simp add: demo_worker_def demo_request_def)
qed

theorem execute_workflow_guarded_witness:
  "fst (execute_workflow demo_worker (Some dict_client) ''worker:1'' demo_request
      ([], [(guard_key mk_guard ''ex_9'', ''worker:2'')])) = Inr (''ex_9'', Skipped)"
proof -
  have a: "\<forall>k v t c. \<exists>b. fst (kv_set_nx dict_client k v t c) = Inr b" "\<forall>k c. fst (kv_delete dict_client k c) = Inr ()"
    by (auto simp: dict_client_def)
  show ?thesis
    using execute_workflow_guarded [OF dict_client_laws a, of demo_request demo_worker "''worker:1''" "[]"
        "[(guard_key mk_guard ''ex_9'', ''worker:2'')]"]
    by (simp add: Let_def case_prod_beta demo_request_def)
qed

section \<open>From an activated workflow to its request\<close>



end
