(* ===== verification/Ai_Memory.thy ===== *)
theory Ai_Memory
  imports Core_Nodes_Props
begin

text \<open>
  Chat memory: the session store in the static data of a workflow
  (\<open>nodes/ai/memory_store.py\<close>) and the three nodes on top of it, \<open>memory_buffer\<close>,
  \<open>memory_window\<close> and \<open>memory_summary\<close>. A function of the source that writes into the dict it
  is given returns the new dict here. The interface the nodes rely on is the locale
  \<open>chat_store\<close>; the stores of the three nodes are its interpretations.
\<close>

section \<open>Session store\<close>

definition MEMORY_NAMESPACE :: string where "MEMORY_NAMESPACE = ''_memory''"

definition MEMORY_SUMMARY_NAMESPACE :: string where "MEMORY_SUMMARY_NAMESPACE = ''_memory_summary''"

text \<open>The dict stored under a namespace, created where it is missing or not a dict.\<close>

definition bucket_of :: "string \<Rightarrow> jobj \<Rightarrow> jobj \<times> jobj" where
  "bucket_of ns sd =
     (case map_of sd ns of
        Some (JObj bucket) \<Rightarrow> (bucket, sd)
      | _ \<Rightarrow> ([], dict_set ns (JObj []) sd))"

definition sessions :: "jobj \<Rightarrow> jobj \<times> jobj" where
  "sessions sd = bucket_of MEMORY_NAMESPACE sd"

definition load_history :: "jobj \<Rightarrow> string \<Rightarrow> json list \<times> jobj" where
  "load_history sd session_id =
     (let (bucket, sd1) = sessions sd in
      (case map_of bucket session_id of Some (JArr stored) \<Rightarrow> stored | _ \<Rightarrow> [], sd1))"

text \<open>\<open>xs[-n:]\<close> for a positive \<open>n\<close>.\<close>

definition last_n :: "nat \<Rightarrow> 'a list \<Rightarrow> 'a list" where
  "last_n n xs = drop (length xs - n) xs"

definition append_history :: "jobj \<Rightarrow> string \<Rightarrow> json list \<Rightarrow> int option \<Rightarrow> json list result \<times> jobj" where
  "append_history sd session_id new_messages max_len =
     (if (case max_len of Some m \<Rightarrow> m < 1 | None \<Rightarrow> False)
      then (raise ValueError (''max_len must be >= 1, got '' @ show_int (the max_len)), sd)
      else
        (let (bucket, sd1) = sessions sd;
             current = (case map_of bucket session_id of Some (JArr stored) \<Rightarrow> stored | _ \<Rightarrow> []) @ new_messages;
             kept = (case max_len of
                       Some m \<Rightarrow> if m < int (length current) then last_n (nat m) current else current
                     | None \<Rightarrow> current) in
         (Inr kept, dict_set MEMORY_NAMESPACE (JObj (dict_set session_id (JArr kept) bucket)) sd1)))"

definition clear_history :: "jobj \<Rightarrow> string \<Rightarrow> jobj" where
  "clear_history sd session_id =
     (let (bucket, sd1) = sessions sd in
      dict_set MEMORY_NAMESPACE (JObj (dict_del session_id bucket)) sd1)"

definition summary_sessions :: "jobj \<Rightarrow> jobj \<times> jobj" where
  "summary_sessions sd = bucket_of MEMORY_SUMMARY_NAMESPACE sd"

definition summary_slot :: "jobj \<Rightarrow> string \<Rightarrow> string \<times> json list" where
  "summary_slot bucket session_id =
     (case map_of bucket session_id of
        Some (JObj stored) \<Rightarrow>
          (case map_of stored ''summary'' of Some (JStr s) \<Rightarrow> s | _ \<Rightarrow> [],
           case map_of stored ''messages'' of Some (JArr ms) \<Rightarrow> ms | _ \<Rightarrow> [])
      | _ \<Rightarrow> ([], []))"

definition slot_json :: "string \<Rightarrow> json list \<Rightarrow> json" where
  "slot_json summary messages = JObj [(''summary'', JStr summary), (''messages'', JArr messages)]"

definition load_summary :: "jobj \<Rightarrow> string \<Rightarrow> (string \<times> json list) \<times> jobj" where
  "load_summary sd session_id =
     (let (bucket, sd1) = summary_sessions sd in (summary_slot bucket session_id, sd1))"

definition append_summary_messages :: "jobj \<Rightarrow> string \<Rightarrow> json list \<Rightarrow> int
    \<Rightarrow> (string \<times> json list \<times> json list) result \<times> jobj" where
  "append_summary_messages sd session_id new_messages max_messages =
     (if max_messages < 1
      then (raise ValueError (''max_messages must be >= 1, got '' @ show_int max_messages), sd)
      else
        (let (bucket, sd1) = summary_sessions sd;
             (summary, messages) = summary_slot bucket session_id;
             combined = messages @ new_messages;
             cut = length combined - nat max_messages;
             (overflow, retained) = (if max_messages < int (length combined)
                                     then (take cut combined, drop cut combined) else ([], combined)) in
         (Inr (summary, retained, overflow),
          dict_set MEMORY_SUMMARY_NAMESPACE (JObj (dict_set session_id (slot_json summary retained) bucket)) sd1)))"

definition replace_summary :: "jobj \<Rightarrow> string \<Rightarrow> string \<Rightarrow> (string \<times> json list) \<times> jobj" where
  "replace_summary sd session_id summary =
     (let (bucket, sd1) = summary_sessions sd; messages = snd (summary_slot bucket session_id) in
      ((summary, messages),
       dict_set MEMORY_SUMMARY_NAMESPACE (JObj (dict_set session_id (slot_json summary messages) bucket)) sd1))"

definition clear_summary :: "jobj \<Rightarrow> string \<Rightarrow> jobj" where
  "clear_summary sd session_id =
     (let (bucket, sd1) = summary_sessions sd in
      dict_set MEMORY_SUMMARY_NAMESPACE (JObj (dict_del session_id bucket)) sd1)"

section \<open>The nodes\<close>

definition OP_LOAD :: string where "OP_LOAD = ''load''"

definition OP_APPEND :: string where "OP_APPEND = ''append''"

definition OP_CLEAR :: string where "OP_CLEAR = ''clear''"

definition OP_SET_SUMMARY :: string where "OP_SET_SUMMARY = ''set_summary''"

definition DEFAULT_WINDOW_SIZE :: int where "DEFAULT_WINDOW_SIZE = 10"

definition DEFAULT_MAX_MESSAGES :: int where "DEFAULT_MAX_MESSAGES = 10"

text \<open>The label is the display name of the node.\<close>

definition coerce_window_size :: "json \<Rightarrow> int result" where
  "coerce_window_size raw =
     (if is_blank raw then Inr DEFAULT_WINDOW_SIZE
      else case int_of_json raw of
        None \<Rightarrow> raise NodeExecutionError (''Memory Window: '' @ repr_str ''window_size'' @ '' must be a positive integer'')
      | Some v \<Rightarrow>
          if v < 1
          then raise NodeExecutionError (''Memory Window: '' @ repr_str ''window_size'' @ '' must be >= 1'')
          else Inr v)"

definition coerce_max_messages :: "json \<Rightarrow> int result" where
  "coerce_max_messages raw =
     (if is_blank raw then Inr DEFAULT_MAX_MESSAGES
      else case int_of_json raw of
        None \<Rightarrow> raise NodeExecutionError (''Memory Summary: '' @ repr_str ''max_messages'' @ '' must be a positive integer'')
      | Some v \<Rightarrow>
          if v < 1
          then raise NodeExecutionError (''Memory Summary: '' @ repr_str ''max_messages'' @ '' must be >= 1'')
          else Inr v)"

definition coerce_messages :: "string \<Rightarrow> json \<Rightarrow> json list result" where
  "coerce_messages label raw =
     (if is_blank raw then Inr []
      else case raw of
        JArr entries \<Rightarrow>
          if list_all is_obj entries then Inr entries
          else raise NodeExecutionError (label @ '': each entry in '' @ repr_str ''new_messages'' @ '' must be a JSON object'')
      | _ \<Rightarrow> raise NodeExecutionError (label @ '': '' @ repr_str ''new_messages'' @ '' must be a JSON array''))"

definition memory_json :: "string \<Rightarrow> string \<Rightarrow> json list \<Rightarrow> jobj" where
  "memory_json session_id operation messages =
     [(''session_id'', JStr session_id), (''operation'', JStr operation), (''messages'', JArr messages),
      (''count'', JInt (int (length messages)))]"

definition summary_json :: "string \<Rightarrow> string \<Rightarrow> string \<Rightarrow> json list \<Rightarrow> json list \<Rightarrow> jobj" where
  "summary_json session_id operation summary messages overflow =
     [(''session_id'', JStr session_id), (''operation'', JStr operation), (''summary'', JStr summary),
      (''messages'', JArr messages), (''count'', JInt (int (length messages))),
      (''pending_summary'', JArr overflow)]"

text \<open>
  The first lines of each \<open>_run_one\<close>: the parameters resolved for the item, the session and the
  operation.
\<close>

definition memory_request :: "string \<Rightarrow> string list \<Rightarrow> exec_ctx \<Rightarrow> item \<Rightarrow> (jobj \<times> string \<times> string) result" where
  "memory_request label supported ctx it =
     rbind (resolved_params ctx (Some it)) (\<lambda>params.
       let session_id = py_strip (ctx_str ctx (param_or params ''session_id'' (JStr []))) in
       if session_id = []
       then raise NodeExecutionError (label @ '': '' @ repr_str ''session_id'' @ '' is required'')
       else
         (let operation = py_strip (ctx_str ctx (param_or params ''operation'' (JStr OP_APPEND))) in
          if operation \<notin> set supported
          then raise NodeExecutionError (label @ '': unsupported operation '' @ repr_str operation)
          else Inr (params, session_id, operation)))"

definition buffer_run_one :: "exec_ctx \<Rightarrow> item \<Rightarrow> item result \<times> jobj" where
  "buffer_run_one ctx it =
     (let sd = ctx_static_data ctx in
      case memory_request ''Memory Buffer'' [OP_LOAD, OP_APPEND, OP_CLEAR] ctx it of
        Inl e \<Rightarrow> (Inl e, sd)
      | Inr (params, session_id, operation) \<Rightarrow>
          if operation = OP_LOAD
          then (let (messages, sd1) = load_history sd session_id in
                (Inr (mk_item (memory_json session_id operation messages)), sd1))
          else if operation = OP_CLEAR
          then (Inr (mk_item (memory_json session_id operation [])), clear_history sd session_id)
          else
            (case coerce_messages ''Memory Buffer'' (dict_get params ''new_messages'' JNull) of
               Inl e \<Rightarrow> (Inl e, sd)
             | Inr new_messages \<Rightarrow>
                 (let (r, sd1) = append_history sd session_id new_messages None in
                  (rbind r (\<lambda>messages. Inr (mk_item (memory_json session_id operation messages))), sd1))))"

definition window_run_one :: "exec_ctx \<Rightarrow> item \<Rightarrow> item result \<times> jobj" where
  "window_run_one ctx it =
     (let sd = ctx_static_data ctx in
      case memory_request ''Memory Window'' [OP_LOAD, OP_APPEND, OP_CLEAR] ctx it of
        Inl e \<Rightarrow> (Inl e, sd)
      | Inr (params, session_id, operation) \<Rightarrow>
          (case coerce_window_size (dict_get params ''window_size'' JNull) of
             Inl e \<Rightarrow> (Inl e, sd)
           | Inr window_size \<Rightarrow>
               if operation = OP_LOAD
               then (let (stored, sd1) = load_history sd session_id;
                         messages = (if window_size < int (length stored) then last_n (nat window_size) stored else stored) in
                     (Inr (mk_item (memory_json session_id operation messages)), sd1))
               else if operation = OP_CLEAR
               then (Inr (mk_item (memory_json session_id operation [])), clear_history sd session_id)
               else
                 (case coerce_messages ''Memory Window'' (dict_get params ''new_messages'' JNull) of
                    Inl e \<Rightarrow> (Inl e, sd)
                  | Inr new_messages \<Rightarrow>
                      (let (r, sd1) = append_history sd session_id new_messages (Some window_size) in
                       (rbind r (\<lambda>messages. Inr (mk_item (memory_json session_id operation messages))), sd1)))))"

definition coerce_summary_text :: "exec_ctx \<Rightarrow> json \<Rightarrow> string" where
  "coerce_summary_text ctx raw = (if raw = JNull then [] else ctx_str ctx raw)"

definition summary_run_one :: "exec_ctx \<Rightarrow> item \<Rightarrow> item result \<times> jobj" where
  "summary_run_one ctx it =
     (let sd = ctx_static_data ctx in
      case memory_request ''Memory Summary'' [OP_LOAD, OP_APPEND, OP_SET_SUMMARY, OP_CLEAR] ctx it of
        Inl e \<Rightarrow> (Inl e, sd)
      | Inr (params, session_id, operation) \<Rightarrow>
          if operation = OP_LOAD
          then (let ((summary, messages), sd1) = load_summary sd session_id in
                (Inr (mk_item (summary_json session_id operation summary messages [])), sd1))
          else if operation = OP_CLEAR
          then (Inr (mk_item (summary_json session_id operation [] [] [])), clear_summary sd session_id)
          else if operation = OP_SET_SUMMARY
          then (let summary_text = coerce_summary_text ctx (dict_get params ''summary_text'' JNull);
                    ((summary, messages), sd1) = replace_summary sd session_id summary_text in
                (Inr (mk_item (summary_json session_id operation summary messages [])), sd1))
          else
            (case coerce_max_messages (dict_get params ''max_messages'' JNull) of
               Inl e \<Rightarrow> (Inl e, sd)
             | Inr max_messages \<Rightarrow>
                 (case coerce_messages ''Memory Summary'' (dict_get params ''new_messages'' JNull) of
                    Inl e \<Rightarrow> (Inl e, sd)
                  | Inr new_messages \<Rightarrow>
                      (let (r, sd1) = append_summary_messages sd session_id new_messages max_messages in
                       (rbind r (\<lambda>(summary, messages, overflow).
                          Inr (mk_item (summary_json session_id operation summary messages overflow))), sd1)))))"

text \<open>One operation per item, on the static data the previous one left; the first exception ends the loop.\<close>

fun run_each :: "(exec_ctx \<Rightarrow> item \<Rightarrow> item result \<times> jobj) \<Rightarrow> exec_ctx \<Rightarrow> item list \<Rightarrow> item list result \<times> jobj" where
  "run_each f ctx [] = (Inr [], ctx_static_data ctx)"
| "run_each f ctx (it # its) =
     (case f ctx it of
        (Inl e, sd) \<Rightarrow> (Inl e, sd)
      | (Inr r, sd) \<Rightarrow>
          (let (rs, sd') = run_each f (ctx\<lparr>ctx_static_data := sd\<rparr>) its in
           (rbind rs (\<lambda>out. Inr (r # out)), sd')))"

definition memory_execute :: "(exec_ctx \<Rightarrow> item \<Rightarrow> item result \<times> jobj) \<Rightarrow> exec_ctx \<Rightarrow> item list
    \<Rightarrow> item list list result \<times> jobj" where
  "memory_execute f ctx items =
     (let (r, sd) = run_each f ctx (seed_items items) in (rbind r (\<lambda>out. Inr [out]), sd))"

definition buffer_execute :: "exec_ctx \<Rightarrow> item list \<Rightarrow> item list list result \<times> jobj" where
  "buffer_execute = memory_execute buffer_run_one"

definition window_execute :: "exec_ctx \<Rightarrow> item list \<Rightarrow> item list list result \<times> jobj" where
  "window_execute = memory_execute window_run_one"

definition summary_execute :: "exec_ctx \<Rightarrow> item list \<Rightarrow> item list list result \<times> jobj" where
  "summary_execute = memory_execute summary_run_one"

section \<open>What a chat store promises\<close>

text \<open>
  A store keeps one message list per session. Appending touches one session only and keeps of
  the old and new messages what \<open>keep\<close> keeps; trimming in between loses nothing that trimming at
  the end would keep. Then the store after any interleaving of appends to any sessions is
  determined by the whole log: each session holds what \<open>keep\<close> leaves of all its messages.
\<close>

locale chat_store =
  fixes stored :: "'s \<Rightarrow> string \<Rightarrow> 'm list"
    and append_to :: "string \<Rightarrow> 'm list \<Rightarrow> 's \<Rightarrow> 's"
    and keep :: "'m list \<Rightarrow> 'm list"
  assumes stored_append: "stored (append_to sid ms s) sid' =
      (if sid' = sid then keep (stored s sid @ ms) else stored s sid')"
    and keep_keep: "keep (keep xs @ ys) = keep (xs @ ys)"
begin

definition append_all :: "(string \<times> 'm list) list \<Rightarrow> 's \<Rightarrow> 's" where
  "append_all = fold (\<lambda>(sid, ms). append_to sid ms)"

definition log_of :: "string \<Rightarrow> (string \<times> 'm list) list \<Rightarrow> 'm list" where
  "log_of sid calls = concat (map snd (filter (\<lambda>c. fst c = sid) calls))"

lemma stored_append_all:
  "stored (append_all calls s) sid =
     (if sid \<in> fst ` set calls then keep (stored s sid @ log_of sid calls) else stored s sid)"
proof (induction calls arbitrary: s)
  case Nil
  then show ?case by (simp add: append_all_def)
next
  case (Cons c calls)
  obtain x ms where c: "c = (x, ms)" by (cases c)
  have step: "append_all (c # calls) s = append_all calls (append_to x ms s)"
    by (simp add: append_all_def c)
  show ?case
  proof (cases "x = sid")
    case True
    have "log_of sid calls = []" if "sid \<notin> fst ` set calls"
      using that by (force simp: log_of_def intro!: filter_False)
    moreover have "log_of sid (c # calls) = ms @ log_of sid calls" using True by (simp add: log_of_def c)
    ultimately show ?thesis using True unfolding step Cons.IH by (simp add: stored_append keep_keep c)
  next
    case False
    then show ?thesis unfolding step Cons.IH
      by (simp add: stored_append c log_of_def)
  qed
qed

end

section \<open>Store lemmas\<close>

definition history :: "jobj \<Rightarrow> string \<Rightarrow> json list" where
  "history sd session_id = fst (load_history sd session_id)"

definition summary_of :: "jobj \<Rightarrow> string \<Rightarrow> string \<times> json list" where
  "summary_of sd session_id = fst (load_summary sd session_id)"

lemma bucket_of_write:
  "bucket_of ns (dict_set ns (JObj b) sd) = (b, dict_set ns (JObj b) sd)"
  by (simp add: bucket_of_def dict_simps)

lemma bucket_of_frame:
  "ns \<noteq> ns' \<Longrightarrow> map_of (snd (bucket_of ns sd)) ns' = map_of sd ns'"
  by (simp add: bucket_of_def dict_simps split: option.split json.split)

lemma bucket_of_created: "fst (bucket_of ns (snd (bucket_of ns sd))) = fst (bucket_of ns sd)"
  by (simp add: bucket_of_def dict_simps split: option.split json.split)

lemma bucket_of_other:
  "map_of sd' ns = map_of sd ns \<Longrightarrow> fst (bucket_of ns sd') = fst (bucket_of ns sd)"
  by (simp add: bucket_of_def split: option.split json.split)

lemma last_n_last_n: "last_n n (last_n n xs @ ys) = last_n n (xs @ ys)"
  by (cases "length xs \<le> n") (simp_all add: last_n_def add.commute)

lemma length_last_n [simp]: "length (last_n n xs) = min n (length xs)"
  by (simp add: last_n_def)

lemma last_n_short: "length xs \<le> n \<Longrightarrow> last_n n xs = xs"
  by (simp add: last_n_def)

lemma trim_last_n:
  "1 \<le> m \<Longrightarrow> (if m < int (length xs) then last_n (nat m) xs else xs) = last_n (nat m) xs"
  by (simp add: last_n_short)

lemma history_eq:
  "history sd sid = (case map_of (fst (sessions sd)) sid of Some (JArr stored) \<Rightarrow> stored | _ \<Rightarrow> [])"
  by (simp add: history_def load_history_def case_prod_beta)

lemma load_history_eq: "load_history sd sid = (history sd sid, snd (sessions sd))"
  by (simp add: history_def load_history_def case_prod_beta)

lemma history_sessions: "history (snd (sessions sd)) = history sd"
  by (simp add: fun_eq_iff history_eq sessions_def bucket_of_created)

text \<open>The state after writing a session, and what it holds.\<close>

definition history_write :: "string \<Rightarrow> json list \<Rightarrow> jobj \<Rightarrow> jobj" where
  "history_write sid ms sd =
     dict_set MEMORY_NAMESPACE (JObj (dict_set sid (JArr ms) (fst (sessions sd)))) (snd (sessions sd))"

lemma history_history_write: "history (history_write sid ms sd) = (history sd)(sid := ms)"
  by (simp add: fun_eq_iff history_eq history_write_def sessions_def bucket_of_write dict_simps)

lemma append_history_unbounded:
  "append_history sd sid ms None = (Inr (history sd sid @ ms), history_write sid (history sd sid @ ms) sd)"
  by (simp add: append_history_def history_write_def case_prod_beta Let_def history_eq [symmetric])

lemma append_history_bounded:
  assumes "1 \<le> m"
  shows "append_history sd sid ms (Some m) =
    (Inr (last_n (nat m) (history sd sid @ ms)), history_write sid (last_n (nat m) (history sd sid @ ms)) sd)"
  using assms unfolding append_history_def Let_def case_prod_beta history_eq [symmetric] history_write_def
  by (simp only: option.case trim_last_n [OF assms]) simp

lemma history_clear: "history (clear_history sd sid) = (history sd)(sid := [])"
  by (simp add: fun_eq_iff history_eq clear_history_def sessions_def case_prod_beta bucket_of_write dict_simps)

lemma history_frame:
  assumes "ns \<noteq> MEMORY_NAMESPACE"
  shows "map_of (snd (sessions sd)) ns = map_of sd ns" "map_of (history_write sid ms sd) ns = map_of sd ns"
    "map_of (clear_history sd sid) ns = map_of sd ns"
  using assms by (simp_all add: history_write_def clear_history_def sessions_def case_prod_beta dict_simps bucket_of_frame)

lemma summary_of_eq: "summary_of sd sid = summary_slot (fst (summary_sessions sd)) sid"
  by (simp add: summary_of_def load_summary_def case_prod_beta)

definition summary_write :: "string \<Rightarrow> string \<Rightarrow> json list \<Rightarrow> jobj \<Rightarrow> jobj" where
  "summary_write sid summary ms sd =
     dict_set MEMORY_SUMMARY_NAMESPACE (JObj (dict_set sid (slot_json summary ms) (fst (summary_sessions sd))))
       (snd (summary_sessions sd))"

lemma summary_of_summary_write:
  "summary_of (summary_write sid summary ms sd) = (summary_of sd)(sid := (summary, ms))"
  by (simp add: fun_eq_iff summary_of_eq summary_write_def summary_sessions_def bucket_of_write dict_simps
      summary_slot_def slot_json_def)

lemma cut_last_n:
  assumes "1 \<le> m"
  shows "(if m < int (length xs) then (take (length xs - nat m) xs, drop (length xs - nat m) xs) else ([], xs))
    = (take (length xs - nat m) xs, last_n (nat m) xs)"
  using assms by (simp add: last_n_def)

lemma append_summary_eq:
  assumes "1 \<le> m"
  defines "old sd sid ms \<equiv> snd (summary_of sd sid) @ ms"
  shows "append_summary_messages sd sid ms m =
    (Inr (fst (summary_of sd sid), last_n (nat m) (old sd sid ms), take (length (old sd sid ms) - nat m) (old sd sid ms)),
     summary_write sid (fst (summary_of sd sid)) (last_n (nat m) (old sd sid ms)) sd)"
  using assms(1) unfolding append_summary_messages_def Let_def case_prod_beta summary_of_eq [symmetric] summary_write_def
    old_def cut_last_n [OF assms(1)]
  by simp

text \<open>The three stores keep the contract.\<close>

interpretation buffer_store: chat_store history "\<lambda>sid ms sd. snd (append_history sd sid ms None)" "\<lambda>xs. xs"
  by unfold_locales (simp_all add: append_history_unbounded history_history_write)

interpretation window_store: chat_store history
  "\<lambda>sid ms sd. snd (append_history sd sid ms (Some (1 + int n)))" "last_n (Suc n)" for n
  by unfold_locales (simp_all add: append_history_bounded history_history_write last_n_last_n nat_add_distrib)

interpretation summary_store: chat_store "\<lambda>sd sid. snd (summary_of sd sid)"
  "\<lambda>sid ms sd. snd (append_summary_messages sd sid ms (1 + int n))" "last_n (Suc n)" for n
  by unfold_locales (simp_all add: append_summary_eq summary_of_summary_write last_n_last_n nat_add_distrib)

text \<open>What the summary store returns as overflow for one session, in order, over a sequence of appends.\<close>

fun overflow_of :: "int \<Rightarrow> string \<Rightarrow> (string \<times> json list) list \<Rightarrow> jobj \<Rightarrow> json list \<times> jobj" where
  "overflow_of m sid [] sd = ([], sd)"
| "overflow_of m sid ((x, ms) # calls) sd =
     (let (r, sd1) = append_summary_messages sd x ms m;
          (rest, sd2) = overflow_of m sid calls sd1 in
      ((case r of Inr (_, _, overflow) \<Rightarrow> if x = sid then overflow @ rest else rest | Inl _ \<Rightarrow> rest), sd2))"

lemma overflow_of_conserves:
  assumes "1 \<le> m" "overflow_of m sid calls sd = (gone, sd')"
  shows "gone @ snd (summary_of sd' sid) = snd (summary_of sd sid) @ concat (map snd (filter (\<lambda>c. fst c = sid) calls))"
  using assms(2)
proof (induction calls arbitrary: sd gone)
  case (Cons c calls)
  obtain x ms where c: "c = (x, ms)" by (cases c)
  let ?old = "snd (summary_of sd x) @ ms"
  let ?sd1 = "summary_write x (fst (summary_of sd x)) (last_n (nat m) ?old) sd"
  obtain rest where rest: "overflow_of m sid calls ?sd1 = (rest, sd')"
    and gone: "gone = (if x = sid then take (length ?old - nat m) ?old @ rest else rest)"
    using Cons.prems by (auto simp: c append_summary_eq [OF assms(1)] Let_def split: prod.splits)
  have "take (length ?old - nat m) ?old @ last_n (nat m) ?old = ?old" unfolding last_n_def by (rule append_take_drop_id)
  with Cons.IH [OF rest] show ?case unfolding gone
    by (auto simp: c summary_of_summary_write)
qed simp

section \<open>Properties\<close>

text \<open>
  C35 (refinement). Chat memory implements an abstract log per session. Through the window store, after
  any interleaving of appends to any sessions, a session that was written holds exactly the last \<open>n\<close>
  messages of all it was ever given, and a session that was not written holds what it held; the buffer
  store keeps the whole log. The summary store loses nothing: the overflow handed out so far followed
  by what is retained is the log, and at most \<open>n\<close> messages are retained once a session was written.
\<close>

theorem chat_memory_refines_log:
  fixes calls :: "(string \<times> json list) list"
  defines "msgs \<equiv> (\<lambda>sid. concat (map snd (filter (\<lambda>c. fst c = sid) calls)))"
  assumes "1 \<le> n"
  shows "history (fold (\<lambda>(sid, ms) sd. snd (append_history sd sid ms (Some n))) calls sd) sid =
           (if sid \<in> fst ` set calls then last_n (nat n) (history sd sid @ msgs sid) else history sd sid)
    \<and> history (fold (\<lambda>(sid, ms) sd. snd (append_history sd sid ms None)) calls sd) sid = history sd sid @ msgs sid
    \<and> (\<forall>gone sd'. overflow_of n sid calls sd = (gone, sd') \<longrightarrow>
         gone @ snd (summary_of sd' sid) = snd (summary_of sd sid) @ msgs sid)
    \<and> snd (summary_of (fold (\<lambda>(sid, ms) sd. snd (append_summary_messages sd sid ms n)) calls sd) sid) =
           (if sid \<in> fst ` set calls then last_n (nat n) (snd (summary_of sd sid) @ msgs sid) else snd (summary_of sd sid))"
proof (intro conjI)
  define k where "k = nat (n - 1)"
  have n: "n = 1 + int k" "nat n = Suc k" using assms(2) by (simp_all add: k_def)
  have msgs_Nil: "msgs sid = []" if "sid \<notin> fst ` set calls"
    using that by (force simp: msgs_def intro!: filter_False)
  show "history (fold (\<lambda>(sid, ms) sd. snd (append_history sd sid ms (Some n))) calls sd) sid =
      (if sid \<in> fst ` set calls then last_n (nat n) (history sd sid @ msgs sid) else history sd sid)"
    using window_store.stored_append_all [of k calls sd sid]
    unfolding window_store.append_all_def window_store.log_of_def msgs_def n(2) unfolding n(1) .
  show "snd (summary_of (fold (\<lambda>(sid, ms) sd. snd (append_summary_messages sd sid ms n)) calls sd) sid) =
      (if sid \<in> fst ` set calls then last_n (nat n) (snd (summary_of sd sid) @ msgs sid) else snd (summary_of sd sid))"
    using summary_store.stored_append_all [of k calls sd sid]
    unfolding summary_store.append_all_def summary_store.log_of_def msgs_def n(2) unfolding n(1) .
  show "history (fold (\<lambda>(sid, ms) sd. snd (append_history sd sid ms None)) calls sd) sid = history sd sid @ msgs sid"
    using buffer_store.stored_append_all [of calls sd sid] msgs_Nil
    unfolding buffer_store.append_all_def buffer_store.log_of_def by (simp add: msgs_def split: if_splits)
  show "\<forall>gone sd'. overflow_of n sid calls sd = (gone, sd') \<longrightarrow>
      gone @ snd (summary_of sd' sid) = snd (summary_of sd sid) @ msgs sid"
    unfolding msgs_def using overflow_of_conserves [OF assms(2)] by blast
qed

theorem chat_memory_refines_log_witness:
  "history (fold (\<lambda>(sid, ms) sd. snd (append_history sd sid ms (Some 2)))
      [(''a'', [JInt 1, JInt 2]), (''b'', [JInt 9]), (''a'', [JInt 3])] []) ''a'' = [JInt 2, JInt 3]"
proof -
  have "last_n (nat 2) (history [] ''a'' @ concat (map snd (filter (\<lambda>c. fst c = ''a'')
      [(''a'', [JInt 1, JInt 2]), (''b'', [JInt 9]), (''a'', [JInt 3])]))) = [JInt 2, JInt 3]" by code_simp
  moreover have "(1 :: int) \<le> 2" by simp
  ultimately show ?thesis
    using chat_memory_refines_log [of 2 "[(''a'', [JInt 1, JInt 2]), (''b'', [JInt 9]), (''a'', [JInt 3])]" "[]" "''a''"]
    by simp
qed

text \<open>
  C36 (bounds). When the window node returns, its item reports a session, an operation and at most
  \<open>window_size\<close> messages. A load reports the last ones stored and changes no history; a clear empties
  the session; an append stores and reports the last \<open>window_size\<close> of the old and the new messages. The
  histories of all other sessions and all other entries of the static data stay as they were.
\<close>

theorem window_node_bounded:
  assumes "window_run_one ctx it = (Inr r, sd')"
  defines "sd \<equiv> ctx_static_data ctx"
  shows "\<exists>params sid op w ms. resolved_params ctx (Some it) = Inr params
    \<and> coerce_window_size (dict_get params ''window_size'' JNull) = Inr w \<and> 1 \<le> w
    \<and> r = mk_item (memory_json sid op ms) \<and> sid \<noteq> [] \<and> int (length ms) \<le> w
    \<and> (op = OP_LOAD \<and> ms = last_n (nat w) (history sd sid) \<and> history sd' = history sd
       \<or> op = OP_CLEAR \<and> ms = [] \<and> history sd' = (history sd)(sid := [])
       \<or> op = OP_APPEND \<and> (\<exists>new. coerce_messages ''Memory Window'' (dict_get params ''new_messages'' JNull) = Inr new
           \<and> ms = last_n (nat w) (history sd sid @ new)) \<and> history sd' = (history sd)(sid := ms))
    \<and> (\<forall>k. k \<noteq> MEMORY_NAMESPACE \<longrightarrow> map_of sd' k = map_of sd k)"
proof -
  have run: "window_run_one ctx it = (Inr r, sd')" by (rule assms)
  obtain params sid op where req: "memory_request ''Memory Window'' [OP_LOAD, OP_APPEND, OP_CLEAR] ctx it = Inr (params, sid, op)"
    using run unfolding window_run_one_def Let_def by (auto split: sum.splits)
  then have q: "resolved_params ctx (Some it) = Inr params" "sid \<noteq> []" "op \<in> {OP_LOAD, OP_APPEND, OP_CLEAR}"
    unfolding memory_request_def by (auto simp: Let_def result_simps split: if_splits)
  obtain w where w: "coerce_window_size (dict_get params ''window_size'' JNull) = Inr w"
    using run unfolding window_run_one_def Let_def req by (auto split: sum.splits)
  then have w1: "1 \<le> w" unfolding coerce_window_size_def DEFAULT_WINDOW_SIZE_def
    by (auto split: if_splits option.splits)
  note run' = run [unfolded window_run_one_def Let_def req sum.case prod.case w, folded sd_def]
  have ops: "OP_LOAD \<noteq> OP_APPEND" "OP_CLEAR \<noteq> OP_APPEND" "OP_LOAD \<noteq> OP_CLEAR"
    by (simp_all add: OP_LOAD_def OP_APPEND_def OP_CLEAR_def)
  consider "op = OP_LOAD" | "op = OP_CLEAR" | "op = OP_APPEND" using q(3) by blast
  then show ?thesis
  proof cases
    case 1
    from run' have "r = mk_item (memory_json sid op (last_n (nat w) (history sd sid)))" "sd' = snd (sessions sd)"
      by (simp_all add: 1 load_history_eq trim_last_n [OF w1])
    with 1 q w w1 show ?thesis
      by (intro exI [of _ params] exI [of _ sid] exI [of _ op] exI [of _ w] exI [of _ "last_n (nat w) (history sd sid)"])
        (simp add: history_sessions history_frame)
  next
    case 2
    from run' have "r = mk_item (memory_json sid op [])" "sd' = clear_history sd sid"
      using ops by (simp_all add: 2)
    with 2 q w w1 show ?thesis
      by (intro exI [of _ params] exI [of _ sid] exI [of _ op] exI [of _ w] exI [of _ "[]"])
        (simp add: history_clear history_frame)
  next
    case 3
    obtain new where new: "coerce_messages ''Memory Window'' (dict_get params ''new_messages'' JNull) = Inr new"
      using run' ops by (auto simp: 3 split: sum.splits)
    let ?ms = "last_n (nat w) (history sd sid @ new)"
    from run' have "r = mk_item (memory_json sid op ?ms)" "sd' = history_write sid ?ms sd"
      using ops by (simp_all add: 3 new append_history_bounded [OF w1])
    with 3 q w w1 new show ?thesis
      by (intro exI [of _ params] exI [of _ sid] exI [of _ op] exI [of _ w] exI [of _ ?ms])
        (simp add: history_history_write history_frame)
  qed
qed

definition demo_chat :: exec_ctx where
  "demo_chat = demo_ctx [(''session_id'', JStr ''s''), (''window_size'', JInt 2), (''new_messages'', JArr [JObj [(''content'', JStr ''c'')]])]
     [] [(''_memory'', JObj [(''s'', JArr [JInt 1, JInt 2]), (''t'', JArr [JInt 3])]), (''other'', JInt 5)]"

theorem window_node_bounded_witness:
  "let sd' = snd (window_run_one demo_chat (mk_item [])) in
   history sd' ''s'' = [JInt 2, JObj [(''content'', JStr ''c'')]]
   \<and> map_of sd' ''other'' = Some (JInt 5)"
proof -
  define sd' where "sd' = snd (window_run_one demo_chat (mk_item []))"
  have "returns (\<lambda>_. True) (fst (window_run_one demo_chat (mk_item [])))" by code_simp
  then obtain r where "window_run_one demo_chat (mk_item []) = (Inr r, sd')"
    unfolding returns_iff sd'_def by (metis prod.collapse)
  from window_node_bounded [OF this] have "map_of sd' ''other'' = map_of (ctx_static_data demo_chat) ''other''"
    by (elim exE conjE) (simp add: MEMORY_NAMESPACE_def)
  moreover have "map_of (ctx_static_data demo_chat) ''other'' = Some (JInt 5)" by code_simp
  moreover have "history sd' ''s'' = [JInt 2, JObj [(''content'', JStr ''c'')]]" unfolding sd'_def by code_simp
  ultimately show ?thesis unfolding Let_def sd'_def by simp
qed

end
