(* ===== verification/Text_Splitter.thy ===== *)
theory Text_Splitter
  imports Ai_Memory
begin

text \<open>
  The recursive text splitter (\<open>nodes/ai/text_splitter/splitter.py\<close>) and its node
  (\<open>nodes/ai/text_splitter/node.py\<close>). Lengths are naturals here; \<open>split_text\<close> checks the integers of
  the call before it uses them. The lemmas show that the pieces are bounded and spell the text,
  that the chunks cover the text with the overlaps as the only repetition, and how long a chunk can
  get.
\<close>

section \<open>Splitter\<close>

definition NEWLINE :: string where "NEWLINE = [CHR 0x0A]"

definition DEFAULT_SEPARATORS :: "string list" where
  "DEFAULT_SEPARATORS = [NEWLINE @ NEWLINE, NEWLINE, ''. '', '' '', []]"

text \<open>\<open>text.split(sep)\<close> for a separator that is not empty.\<close>

function py_split :: "string \<Rightarrow> string \<Rightarrow> string list" where
  "py_split sep text =
     (case find_sub sep text of
        None \<Rightarrow> [text]
      | Some i \<Rightarrow> if sep = [] then [text] else take i text # py_split sep (drop (i + length sep) text))"
  by auto
termination
proof (relation "measure (\<lambda>(sep, text). length text)", goal_cases)
  case (2 sep t i)
  then have "i + length sep \<le> length t" "0 < length sep" by (auto dest: find_sub_Some_le)
  then have "length t - (i + length sep) < length t" by linarith
  then show ?case by simp
qed simp

declare py_split.simps [simp del]

text \<open>Every part but the last keeps its separator.\<close>

definition split_on_sep :: "string \<Rightarrow> string \<Rightarrow> string list" where
  "split_on_sep text separator =
     (if separator = [] then map (\<lambda>c. [c]) text
      else let parts = py_split separator text in map (\<lambda>part. part @ separator) (butlast parts) @ [last parts])"

fun pick_separator :: "string \<Rightarrow> string list \<Rightarrow> string \<times> string list" where
  "pick_separator text [] = ([], [])"
| "pick_separator text (sep # seps) =
     (if sep = [] \<or> substring sep text then (sep, seps) else pick_separator text seps)"

text \<open>
  The loop of \<open>_hard_slice\<close> from a position on. A step of zero would not end in the source;
  \<open>split_text\<close> refuses such an overlap, so the equation for it is never used.
\<close>

function hard_slice :: "string \<Rightarrow> nat \<Rightarrow> nat \<Rightarrow> string list" where
  "hard_slice text chunk_size step =
     (if text = [] \<or> step = 0 then [] else take chunk_size text # hard_slice (drop step text) chunk_size step)"
  by auto
termination
  by (relation "measure (\<lambda>(text, _, _). length text)") auto

declare hard_slice.simps [simp del]

lemma pick_separator_shorter:
  "snd (pick_separator text seps) \<noteq> [] \<Longrightarrow> length (snd (pick_separator text seps)) < length seps"
  by (induction seps) (auto split: if_splits)

function bound_pieces :: "nat \<Rightarrow> nat \<Rightarrow> string list \<Rightarrow> string \<Rightarrow> string list" where
  "bound_pieces chunk_size chunk_overlap separators text =
     (let (separator, remainder) = pick_separator text separators in
      concat (map (\<lambda>piece.
          if piece = [] then []
          else if length piece \<le> chunk_size then [piece]
          else if remainder \<noteq> [] then bound_pieces chunk_size chunk_overlap remainder piece
          else hard_slice piece chunk_size (chunk_size - chunk_overlap))
        (split_on_sep text separator)))"
  by auto
termination
proof (relation "measure (\<lambda>(_, _, separators, _). length separators)", goal_cases)
  case (2 chunk_size chunk_overlap separators t r separator remainder piece)
  then show ?case using pick_separator_shorter [of t separators] by (metis in_measure prod.case snd_conv)
qed simp

declare bound_pieces.simps [simp del]

text \<open>\<open>_seed_with_overlap\<close>: the loop runs over the reversed pieces of the chunk just emitted.\<close>

fun seed_loop :: "nat \<Rightarrow> string list \<Rightarrow> string list \<Rightarrow> nat \<Rightarrow> string list \<times> nat" where
  "seed_loop chunk_overlap [] seed seed_len = (seed, seed_len)"
| "seed_loop chunk_overlap (piece # rest) seed seed_len =
     (if chunk_overlap < seed_len + length piece \<and> seed \<noteq> [] then (seed, seed_len)
      else if chunk_overlap \<le> seed_len + length piece then (piece # seed, seed_len + length piece)
      else seed_loop chunk_overlap rest (piece # seed) (seed_len + length piece))"

definition seed_with_overlap :: "string list \<Rightarrow> nat \<Rightarrow> string list \<times> nat" where
  "seed_with_overlap prior chunk_overlap =
     (if chunk_overlap = 0 then ([], 0) else seed_loop chunk_overlap (rev prior) [] 0)"

text \<open>The state of the loop: chunks emitted, pieces of the current chunk, their total length.\<close>

definition merge_step :: "nat \<Rightarrow> nat \<Rightarrow> string list \<times> string list \<times> nat \<Rightarrow> string \<Rightarrow> string list \<times> string list \<times> nat" where
  "merge_step chunk_size chunk_overlap s piece =
     (let (chunks, current, current_len) = s;
          (chunks, current, current_len) =
            (if current \<noteq> [] \<and> chunk_size < current_len + length piece
             then (let (seed, seed_len) = seed_with_overlap current chunk_overlap in (chunks @ [concat current], seed, seed_len))
             else (chunks, current, current_len)) in
      (chunks, current @ [piece], current_len + length piece))"

definition merge_pieces :: "nat \<Rightarrow> nat \<Rightarrow> string list \<Rightarrow> string list" where
  "merge_pieces chunk_size chunk_overlap pieces =
     (let (chunks, current, _) = foldl (merge_step chunk_size chunk_overlap) ([], [], 0) pieces;
          chunks = (if current \<noteq> [] then chunks @ [concat current] else chunks) in
      filter (\<lambda>c. c \<noteq> []) chunks)"

definition split_text :: "string \<Rightarrow> int \<Rightarrow> int \<Rightarrow> string list option \<Rightarrow> string list result" where
  "split_text text chunk_size chunk_overlap separators =
     (if chunk_size \<le> 0 then raise ValueError (''chunk_size must be > 0, got '' @ show_int chunk_size)
      else if chunk_overlap < 0 then raise ValueError (''chunk_overlap must be >= 0, got '' @ show_int chunk_overlap)
      else if chunk_size \<le> chunk_overlap
      then raise ValueError (''chunk_overlap ('' @ show_int chunk_overlap @ '') must be < chunk_size (''
             @ show_int chunk_size @ '')'')
      else if text = [] then Inr []
      else
        (let seps = (case separators of Some (s # ss) \<Rightarrow> s # ss | _ \<Rightarrow> DEFAULT_SEPARATORS) in
         Inr (merge_pieces (nat chunk_size) (nat chunk_overlap)
                (bound_pieces (nat chunk_size) (nat chunk_overlap) seps text))))"

section \<open>Node\<close>

definition coerce_int :: "json \<Rightarrow> int \<Rightarrow> string \<Rightarrow> int result" where
  "coerce_int raw dflt name =
     (if is_blank raw then Inr dflt
      else case int_of_json raw of
        None \<Rightarrow> raise NodeExecutionError (''Text Splitter: '' @ name @ '' must be an integer'')
      | Some v \<Rightarrow> Inr v)"

fun str_entries :: "json list \<Rightarrow> string list option" where
  "str_entries [] = Some []"
| "str_entries (JStr s # vs) = map_option ((#) s) (str_entries vs)"
| "str_entries (_ # vs) = None"

definition coerce_separators :: "json \<Rightarrow> string list option result" where
  "coerce_separators raw =
     (if is_blank raw then Inr None
      else case raw of
        JArr entries \<Rightarrow>
          (case str_entries entries of
             None \<Rightarrow> raise NodeExecutionError ''Text Splitter: every separator must be a string''
           | Some [] \<Rightarrow> Inr None
           | Some seps \<Rightarrow> Inr (Some seps))
      | _ \<Rightarrow> raise NodeExecutionError (''Text Splitter: '' @ repr_str ''separators'' @ '' must be a JSON array of strings''))"

definition chunk_item :: "item \<Rightarrow> nat \<Rightarrow> nat \<Rightarrow> string \<Rightarrow> item" where
  "chunk_item it n_chunks idx chunk =
     it\<lparr>item_json := dict_set ''chunk_total'' (JInt (int n_chunks)) (dict_set ''chunk_index'' (JInt (int idx))
       (dict_set ''chunk'' (JStr chunk) (item_json it)))\<rparr>"

definition split_one :: "exec_ctx \<Rightarrow> item \<Rightarrow> item list result" where
  "split_one ctx it =
     rbind (resolved_params ctx (Some it)) (\<lambda>params.
     let text_field = ctx_str ctx (param_or params ''text_field'' (JStr ''text'')) in
     rbind (coerce_int (dict_get params ''chunk_size'' JNull) 1000 ''chunk_size'') (\<lambda>chunk_size.
     rbind (coerce_int (dict_get params ''chunk_overlap'' JNull) 100 ''chunk_overlap'') (\<lambda>chunk_overlap.
     rbind (coerce_separators (dict_get params ''separators'' JNull)) (\<lambda>separators.
     let mode = ctx_str ctx (param_or params ''output_mode'' (JStr ''per_chunk''));
         text = ctx_str ctx (dict_get (item_json it) text_field (JStr [])) in
     case split_text text chunk_size chunk_overlap separators of
       Inl e \<Rightarrow> raise NodeExecutionError (''Text Splitter: '' @ exn_msg e)
     | Inr chunks \<Rightarrow>
         if mode = ''list''
         then Inr [it\<lparr>item_json := dict_set ''chunk_total'' (JInt (int (length chunks)))
                        (dict_set ''chunks'' (JArr (map JStr chunks)) (item_json it))\<rparr>]
         else if mode \<noteq> ''per_chunk''
         then raise NodeExecutionError (''Text Splitter: unknown output_mode '' @ repr_str mode)
         else Inr (map (\<lambda>(idx, chunk). chunk_item it (length chunks) idx chunk) (enumerate 0 chunks))))))"

definition text_splitter_execute :: node_execute where
  "text_splitter_execute ctx items = rbind (rmap (split_one ctx) items) (\<lambda>outs. Inr [concat outs])"

section \<open>Pieces\<close>

lemma py_split_not_Nil [simp]: "py_split sep t \<noteq> []"
  by (subst py_split.simps) (simp split: option.split)

lemma join_py_split: "sep \<noteq> [] \<Longrightarrow> join sep (py_split sep t) = t"
proof (induction sep t rule: py_split.induct)
  case (1 sep t)
  show ?case
  proof (cases "find_sub sep t")
    case None
    then show ?thesis by (simp add: py_split.simps)
  next
    case (Some i)
    have "prefix sep (drop i t)" using Some by (rule find_sub_Some)
    then have "drop i t = sep @ drop (i + length sep) t"
      unfolding prefix_def by (metis add.commute append_eq_conv_conj drop_drop)
    then have "t = take i t @ sep @ drop (i + length sep) t" by (metis append_take_drop_id)
    with 1 Some show ?thesis by (simp add: py_split.simps [of sep t] join_Cons)
  qed
qed

lemma concat_butlast_last: "ps \<noteq> [] \<Longrightarrow> concat (map (\<lambda>p. p @ sep) (butlast ps)) @ last ps = join sep ps"
  by (induction ps rule: list_nonempty_induct) (simp_all add: join_Cons)

lemma concat_split_on_sep: "concat (split_on_sep t sep) = t"
  using concat_butlast_last [OF py_split_not_Nil, of sep sep t] join_py_split [of sep t]
  by (simp add: split_on_sep_def Let_def)

lemma pick_separator_remainder:
  "[] \<in> set seps \<Longrightarrow> fst (pick_separator t seps) = [] \<or> [] \<in> set (snd (pick_separator t seps))"
  by (induction seps) auto

lemma concat_hard_slice: "0 < n \<Longrightarrow> step = n \<Longrightarrow> concat (hard_slice t n step) = t"
  by (induction t n step rule: hard_slice.induct) (subst hard_slice.simps, simp)

lemma concat_concat_map: "concat (concat (map f xs)) = concat (map (\<lambda>x. concat (f x)) xs)"
  by (induction xs) simp_all

lemma hard_slice_pieces:
  "0 < n \<Longrightarrow> p \<in> set (hard_slice t n step) \<Longrightarrow> p \<noteq> [] \<and> length p \<le> n"
  by (induction t n step rule: hard_slice.induct) (subst (asm) hard_slice.simps, auto split: if_splits)

lemma bound_pieces_bounded:
  "0 < n \<Longrightarrow> p \<in> set (bound_pieces n ov seps t) \<Longrightarrow> p \<noteq> [] \<and> length p \<le> n"
proof (induction n ov seps t rule: bound_pieces.induct)
  case (1 n ov seps t)
  obtain sep rem where pick: "pick_separator t seps = (sep, rem)" by fastforce
  obtain piece where piece: "piece \<in> set (split_on_sep t sep)" "piece \<noteq> []"
    and p: "p \<in> set (if length piece \<le> n then [piece] else if rem \<noteq> [] then bound_pieces n ov rem piece
                     else hard_slice piece n (n - ov))"
    using 1(3) unfolding bound_pieces.simps [of n ov seps t] pick by (auto split: if_splits)
  show ?case
    using p piece 1(1) [OF pick [symmetric] refl piece] 1(2) hard_slice_pieces [OF 1(2), of p piece "n - ov"]
    by (simp split: if_splits)
qed

text \<open>The pieces spell the text when no hard slice overlaps: the separators end in the empty one, or there is no overlap.\<close>

lemma concat_bound_pieces:
  "0 < n \<Longrightarrow> ov = 0 \<or> [] \<in> set seps \<Longrightarrow> concat (bound_pieces n ov seps t) = t"
proof (induction n ov seps t rule: bound_pieces.induct)
  case (1 n ov seps t)
  obtain sep rem where pick: "pick_separator t seps = (sep, rem)" by fastforce
  define f where "f piece =
     (if piece = [] then [] else if length piece \<le> n then [piece]
      else if rem \<noteq> [] then bound_pieces n ov rem piece else hard_slice piece n (n - ov))" for piece
  have spell: "concat (f piece) = piece" if "piece \<in> set (split_on_sep t sep)" for piece
  proof (cases "length piece \<le> n")
    case True
    then show ?thesis by (simp add: f_def)
  next
    case False
    have single: "sep \<noteq> []"
      using that False 1(2) by (auto simp: split_on_sep_def split: if_splits)
    then have rem: "ov = 0 \<or> [] \<in> set rem"
      using 1(3) pick_separator_remainder [of seps t] pick by auto
    show ?thesis
    proof (cases "rem = []")
      case True
      then show ?thesis using rem False 1(2) by (simp add: f_def concat_hard_slice)
    next
      case nonempty: False
      have "concat (bound_pieces n ov rem piece) = piece"
        using 1(1) [OF pick [symmetric] refl that] nonempty False 1(2) rem by (cases piece) auto
      then show ?thesis using nonempty False by (simp add: f_def)
    qed
  qed
  have "bound_pieces n ov seps t = concat (map f (split_on_sep t sep))"
    unfolding f_def by (subst bound_pieces.simps) (simp only: pick Let_def prod.case)
  then have "concat (bound_pieces n ov seps t) = concat (map (\<lambda>p. concat (f p)) (split_on_sep t sep))"
    by (simp add: concat_concat_map)
  also have "\<dots> = concat (split_on_sep t sep)" using spell by (simp cong: map_cong)
  finally show ?case by (simp add: concat_split_on_sep)
qed

section \<open>Merging\<close>

text \<open>
  The chunks still to come, from the current pieces and the pieces not yet read; the loop with its
  accumulator computes it.
\<close>

fun merge_rest :: "nat \<Rightarrow> nat \<Rightarrow> string list \<Rightarrow> nat \<Rightarrow> string list \<Rightarrow> string list" where
  "merge_rest n ov current len [] = (if current \<noteq> [] then [concat current] else [])"
| "merge_rest n ov current len (p # ps) =
     (if current \<noteq> [] \<and> n < len + length p
      then (let (seed, total_len) = seed_with_overlap current ov in
            concat current # merge_rest n ov (seed @ [p]) (total_len + length p) ps)
      else merge_rest n ov (current @ [p]) (len + length p) ps)"

lemma foldl_merge_step:
  "(let (chunks', current', _) = foldl (merge_step n ov) (chunks, current, len) ps in
    if current' \<noteq> [] then chunks' @ [concat current'] else chunks') = chunks @ merge_rest n ov current len ps"
proof (induction ps arbitrary: chunks current len)
  case (Cons p ps)
  obtain seed l where "seed_with_overlap current ov = (seed, l)" by fastforce
  with Cons.IH show ?case by (simp add: merge_step_def)
qed simp

lemma merge_pieces_eq: "merge_pieces n ov ps = filter (\<lambda>c. c \<noteq> []) (merge_rest n ov [] 0 ps)"
  using foldl_merge_step [of n ov "[]" "[]" 0 ps] by (simp add: merge_pieces_def case_prod_beta Let_def)

text \<open>The seed is a suffix of the pieces just emitted, no longer than the overlap or a single piece.\<close>

lemma seed_loop_suffix:
  "seed_loop ov rs seed len = (seed', len') \<Longrightarrow> len = length (concat seed) \<Longrightarrow>
   \<exists>pre. rev rs @ seed = pre @ seed' \<and> len' = length (concat seed')"
proof (induction ov rs seed len rule: seed_loop.induct)
  case (2 ov p rest seed len)
  show ?case using 2 by (auto split: if_splits)
qed simp

lemma seed_with_overlap_suffix:
  assumes "seed_with_overlap prior ov = (seed, len)"
  shows "\<exists>pre. prior = pre @ seed" "len = length (concat seed)" "ov = 0 \<Longrightarrow> seed = []"
  using assms seed_loop_suffix [of ov "rev prior" "[]" 0 seed len]
  by (auto simp: seed_with_overlap_def split: if_splits)

lemma seed_loop_length:
  "seed_loop ov rs seed len = (seed', len') \<Longrightarrow> \<forall>p \<in> set rs. length p \<le> n \<Longrightarrow> ov \<le> n \<Longrightarrow>
   len \<le> n \<Longrightarrow> seed = [] \<longrightarrow> len = 0 \<Longrightarrow> len' \<le> n"
proof (induction ov rs seed len rule: seed_loop.induct)
  case (2 ov p rest seed len)
  show ?case using 2 by (cases seed) (auto split: if_splits)
qed simp

lemma seed_with_overlap_length:
  assumes "seed_with_overlap prior ov = (seed, len)" "\<forall>p \<in> set prior. length p \<le> n" "ov \<le> n"
  shows "len \<le> n"
  using assms seed_loop_length [of ov "rev prior" "[]" 0 seed len n]
  by (auto simp: seed_with_overlap_def split: if_splits)

lemma merge_rest_length:
  assumes "\<forall>p \<in> set current. length p \<le> n" "\<forall>p \<in> set ps. length p \<le> n" "ov \<le> n"
    "len = length (concat current)" "len \<le> (if ov = 0 then n else 2 * n)" "c \<in> set (merge_rest n ov current len ps)"
  shows "length c \<le> (if ov = 0 then n else 2 * n)"
  using assms
proof (induction ps arbitrary: current len)
  case (Cons p ps)
  obtain seed l where seed: "seed_with_overlap current ov = (seed, l)" by fastforce
  note S = seed_with_overlap_suffix [OF seed]
  have l: "l \<le> n" "ov = 0 \<Longrightarrow> l = 0"
    using seed_with_overlap_length [OF seed Cons.prems(1,3)] S by auto
  have sub: "\<forall>p \<in> set seed. length p \<le> n" using S(1) Cons.prems(1) by auto
  have p: "length p \<le> n" using Cons.prems(2) by simp
  show ?case
  proof (cases "current \<noteq> [] \<and> n < len + length p")
    case True
    have "length c \<le> (if ov = 0 then n else 2 * n)" if "c \<in> set (merge_rest n ov (seed @ [p]) (l + length p) ps)"
    proof (rule Cons.IH [OF _ _ Cons.prems(3) _ _ that])
      show "l + length p \<le> (if ov = 0 then n else 2 * n)" using l p by auto
    qed (use sub p S(2) Cons.prems(2) in auto)
    with True Cons.prems(4,5,6) seed show ?thesis by (auto simp del: length_concat)
  next
    case False
    with Cons.prems p show ?thesis
      by (intro Cons.IH [of "current @ [p]" "len + length p"]) (auto split: if_splits)
  qed
qed (auto simp del: length_concat split: if_splits)

text \<open>
  Chunks cover a text when the first is a prefix of it, and the others cover what starts within or
  right after that prefix and goes on past it: read in order, they spell the text and repeat only
  the overlaps.
\<close>

fun overlap_cover :: "string list \<Rightarrow> string \<Rightarrow> bool" where
  "overlap_cover [] t \<longleftrightarrow> t = []"
| "overlap_cover [c] t \<longleftrightarrow> c = t"
| "overlap_cover (c # cs) t \<longleftrightarrow>
     (\<exists>k \<in> set [0..<Suc (length c)]. prefix c t \<and> length c < length t \<and> overlap_cover cs (drop k t))"

lemma overlap_cover_Cons:
  assumes "overlap_cover cs (y @ z)" "z \<noteq> []" "cs \<noteq> []"
  shows "overlap_cover ((x @ y) # cs) (x @ y @ z)"
proof -
  have "length x \<in> set [0..<Suc (length (x @ y))]" "drop (length x) (x @ y @ z) = y @ z" by auto
  with assms show ?thesis by (cases cs) (auto simp del: set_upt intro!: bexI [of _ "length x"])
qed

lemma merge_rest_not_Nil: "current \<noteq> [] \<or> ps \<noteq> [] \<Longrightarrow> merge_rest n ov current len ps \<noteq> []"
  by (induction ps arbitrary: current len) (auto split: prod.splits)

lemma merge_rest_cover:
  "\<forall>p \<in> set ps. p \<noteq> [] \<Longrightarrow> overlap_cover (merge_rest n ov current len ps) (concat current @ concat ps)"
proof (induction ps arbitrary: current len)
  case (Cons p ps)
  obtain seed l where seed: "seed_with_overlap current ov = (seed, l)" by fastforce
  then obtain pre where pre: "current = pre @ seed" using seed_with_overlap_suffix by blast
  have p: "p @ concat ps \<noteq> []" using Cons.prems by simp
  have "overlap_cover (merge_rest n ov (seed @ [p]) (l + length p) ps) (concat seed @ p @ concat ps)"
    using Cons.IH [of "seed @ [p]"] Cons.prems by simp
  from overlap_cover_Cons [OF this p merge_rest_not_Nil, of "concat pre"]
  have "overlap_cover (concat current # merge_rest n ov (seed @ [p]) (l + length p) ps) (concat current @ p @ concat ps)"
    by (simp add: pre)
  moreover have "overlap_cover (merge_rest n ov (current @ [p]) (len + length p) ps) (concat current @ p @ concat ps)"
    using Cons.IH [of "current @ [p]"] Cons.prems by simp
  ultimately show ?case by (simp add: seed)
qed simp

lemma merge_rest_concat: "concat (merge_rest n 0 current len ps) = concat current @ concat ps"
  by (induction ps arbitrary: current len) (simp_all add: seed_with_overlap_def)

lemma merge_rest_nonempty:
  "\<forall>p \<in> set (current @ ps). p \<noteq> [] \<Longrightarrow> c \<in> set (merge_rest n ov current len ps) \<Longrightarrow> c \<noteq> []"
proof (induction ps arbitrary: current len)
  case (Cons p ps)
  obtain seed l where seed: "seed_with_overlap current ov = (seed, l)" by fastforce
  then have "set seed \<subseteq> set current" using seed_with_overlap_suffix by fastforce
  with Cons.prems Cons.IH [of "seed @ [p]" "l + length p"] Cons.IH [of "current @ [p]" "len + length p"] seed
  show ?case by (cases current) (auto split: if_splits)
qed (cases current, auto)

section \<open>Properties\<close>



text \<open>
  The documented bound is the chunk size itself. The seed of the next chunk takes at least one whole
  piece, whatever its length, and the next piece is added without a test: a chunk can be longer.
\<close>

lemma chunk_longer_than_size:
  "split_text ''aaaaaaaa bbbbbbbb'' 10 2 None = Inr [''aaaaaaaa '', ''aaaaaaaa bbbbbbbb'']"
  by code_simp

end
