(* ===== verification/Requests.thy ===== *)
theory Requests
  imports Py_Value
begin

text \<open>
  What the request builders of the integrations share (\<open>nodes/integrations/*/operations.py\<close>): the
  projections of a value after an \<open>isinstance\<close> test, the text of a parameter, percent-encoding of path
  segments, and the rules that carry a postcondition through a builder. \<open>request_spec\<close> is the tuple
  \<open>RequestSpec\<close> of the builders: method, path, body and query.
\<close>

section \<open>Values after a type test\<close>

text \<open>\<open>isinstance(v, bool)\<close>, \<open>isinstance(v, int)\<close> (a bool is an int) and \<open>isinstance(v, float)\<close>.\<close>

definition is_bool :: "json \<Rightarrow> bool" where
  "is_bool v = (case v of JBool _ \<Rightarrow> True | _ \<Rightarrow> False)"

definition is_int :: "json \<Rightarrow> bool" where
  "is_int v = (case v of JBool _ \<Rightarrow> True | JInt _ \<Rightarrow> True | _ \<Rightarrow> False)"

definition is_float :: "json \<Rightarrow> bool" where
  "is_float v = (case v of JFloat _ \<Rightarrow> True | _ \<Rightarrow> False)"

text \<open>
  The value of a variable once the code has tested its type; the last equation of each is for the
  types the test excludes.
\<close>

fun obj_of :: "json \<Rightarrow> jobj" where
  "obj_of (JObj d) = d"
| "obj_of _ = []"

fun arr_of :: "json \<Rightarrow> json list" where
  "arr_of (JArr xs) = xs"
| "arr_of _ = []"

fun str_of :: "json \<Rightarrow> string" where
  "str_of (JStr s) = s"
| "str_of _ = []"

fun int_val :: "json \<Rightarrow> int" where
  "int_val (JInt i) = i"
| "int_val (JBool b) = (if b then 1 else 0)"
| "int_val _ = 0"

text \<open>\<open>str(params.get(key) or "").strip()\<close>, the way a text parameter is read.\<close>

definition text_param :: "(rat \<Rightarrow> string) \<Rightarrow> jobj \<Rightarrow> string \<Rightarrow> string" where
  "text_param fr params key = py_strip (py_str fr (param_or params key (JStr [])))"

text \<open>\<open>int(s)\<close> of a string outside of a \<open>try\<close>.\<close>

definition int_of_str :: "string \<Rightarrow> int result" where
  "int_of_str s = (case py_int_of_string s of
     None \<Rightarrow> raise ValueError (''invalid literal for int() with base 10: '' @ repr_str s) | Some v \<Rightarrow> Inr v)"

text \<open>\<open>d[key]\<close>.\<close>

definition lookup :: "(string, 'a) dict \<Rightarrow> string \<Rightarrow> 'a result" where
  "lookup d key = (case map_of d key of None \<Rightarrow> raise KeyError (repr_str key) | Some v \<Rightarrow> Inr v)"

text \<open>A dict built from pairs: a later pair overrides.\<close>

definition dict_of_pairs :: "(string \<times> json) list \<Rightarrow> jobj" where
  "dict_of_pairs ps = foldl (\<lambda>d (k, v). dict_set k v d) [] ps"

section \<open>Percent-encoding\<close>

text \<open>
  \<open>urllib.parse.quote(s, safe)\<close>: letters, digits, \<open>_.-~\<close> and the safe characters stay, every other
  character becomes the escapes of its UTF-8 bytes (characters up to 255 have one or two).
\<close>

definition hex_upper :: "nat \<Rightarrow> char" where
  "hex_upper n = (if n < 10 then char_of (48 + n) else char_of (55 + n))"

definition escape_byte :: "nat \<Rightarrow> string" where
  "escape_byte b = [CHR ''%'', hex_upper (b div 16), hex_upper (b mod 16)]"

definition utf8_bytes :: "char \<Rightarrow> nat list" where
  "utf8_bytes c = (let n = of_char c in if n < 128 then [n] else [192 + n div 64, 128 + n mod 64])"

definition always_safe :: "char \<Rightarrow> bool" where
  "always_safe c \<longleftrightarrow> (let n = (of_char c :: nat) in
     48 \<le> n \<and> n \<le> 57 \<or> 65 \<le> n \<and> n \<le> 90 \<or> 97 \<le> n \<and> n \<le> 122) \<or> c \<in> set ''_.-~''"

definition url_quote :: "string \<Rightarrow> string \<Rightarrow> string" where
  "url_quote safe s = concat (map (\<lambda>c. if always_safe c \<or> c \<in> set safe then [c]
     else concat (map escape_byte (utf8_bytes c))) s)"

section \<open>Requests\<close>

type_synonym request_spec = "string \<times> string \<times> jobj option \<times> jobj"

text \<open>The number of slashes of a path, and the methods the builders use.\<close>

definition slashes :: "string \<Rightarrow> nat" where
  "slashes s = length (filter (\<lambda>c. c = CHR ''/'') s)"

definition METHODS :: "string list" where
  "METHODS = [''GET'', ''POST'', ''PUT'', ''PATCH'', ''DELETE'', ''HEAD'']"

text \<open>A request is well-shaped when its method is known and its path has the given number of slashes, if one is given.\<close>

definition request_ok :: "nat option \<Rightarrow> string \<times> string \<times> 'a \<Rightarrow> bool" where
  "request_ok k r \<longleftrightarrow> fst r \<in> set METHODS \<and> (case k of None \<Rightarrow> True | Some n \<Rightarrow> slashes (fst (snd r)) = n)"

section \<open>Postconditions\<close>

text \<open>
  \<open>ensures P r\<close>: the computation raises nothing but \<open>ValueError\<close>, the class the nodes translate, and
  what it returns satisfies \<open>P\<close>. There is one rule per construct of a builder; where a value only
  passes through, the rule for the binding forgets it.
\<close>

definition ensures :: "('a \<Rightarrow> bool) \<Rightarrow> 'a result \<Rightarrow> bool" where
  "ensures P r = (case r of Inl e \<Rightarrow> exn_cls e = ValueError | Inr x \<Rightarrow> P x)"

lemma ensures_Inr: "P x \<Longrightarrow> ensures P (Inr x)"
  by (simp add: ensures_def)

lemma ensures_raise: "ensures P (raise ValueError m)"
  by (simp add: ensures_def raise_def)

lemma ensures_weaken: "ensures Q r \<Longrightarrow> (\<And>x. Q x \<Longrightarrow> P x) \<Longrightarrow> ensures P r"
  by (auto simp: ensures_def split: sum.splits)

lemma ensures_bind: "ensures Q r \<Longrightarrow> (\<And>x. Q x \<Longrightarrow> ensures P (f x)) \<Longrightarrow> ensures P (rbind r f)"
  by (cases r) (simp_all add: ensures_def)

lemma ensures_bind_any: "ensures (\<lambda>_. True) r \<Longrightarrow> (\<And>x. ensures P (f x)) \<Longrightarrow> ensures P (rbind r f)"
  by (rule ensures_bind)

lemma ensures_if: "(c \<Longrightarrow> ensures P a) \<Longrightarrow> (\<not> c \<Longrightarrow> ensures P b) \<Longrightarrow> ensures P (if c then a else b)"
  by simp

lemma ensures_let: "(\<And>x. x = e \<Longrightarrow> ensures P (f x)) \<Longrightarrow> ensures P (let x = e in f x)"
  by (simp add: Let_def)

lemma ensures_option:
  "ensures P a \<Longrightarrow> (\<And>v. e = Some v \<Longrightarrow> ensures P (f v)) \<Longrightarrow> ensures P (case e of None \<Rightarrow> a | Some v \<Rightarrow> f v)"
  by (simp split: option.split)

lemma ensures_prod: "(\<And>a b. e = (a, b) \<Longrightarrow> ensures P (f a b)) \<Longrightarrow> ensures P (case e of (a, b) \<Rightarrow> f a b)"
  by (simp split: prod.split)

lemma ensures_rfold: "(\<And>s x. ensures (\<lambda>_. True) (f s x)) \<Longrightarrow> ensures (\<lambda>_. True) (rfold f s xs)"
  by (induction xs arbitrary: s) (auto intro: ensures_Inr ensures_bind)

lemma ensures_rmap: "(\<And>x. ensures (\<lambda>_. True) (f x)) \<Longrightarrow> ensures (\<lambda>_. True) (rmap f xs)"
  by (induction xs) (auto intro!: ensures_Inr intro: ensures_bind)

lemma ensures_int_of_str: "ensures (\<lambda>_. True) (int_of_str s)"
  unfolding int_of_str_def by (rule ensures_option ensures_raise ensures_Inr TrueI)+

lemma ensures_lookup: "map_of d key \<noteq> None \<Longrightarrow> ensures (\<lambda>_. True) (lookup d key)"
  by (auto simp: lookup_def ensures_def)

text \<open>A text parameter that is not empty is present.\<close>

lemma text_param_present: "text_param fr params key \<noteq> [] \<Longrightarrow> map_of params key \<noteq> None"
  by (rule notI)
    (simp add: text_param_def param_or_def dict_get_def Let_def py_strip_def lstrip_chars_def rstrip_chars_def)

lemma hd_text_param_present:
  "key = hd xs \<Longrightarrow> xs = filter (\<lambda>key. text_param fr params key \<noteq> []) ks \<Longrightarrow> xs \<noteq> [] \<Longrightarrow> map_of params key \<noteq> None"
  using hd_in_set [of xs] text_param_present [of fr params key] by simp

lemmas ensures_rules = ensures_lookup ensures_raise ensures_if ensures_let ensures_option ensures_prod ensures_int_of_str
  ensures_rfold ensures_rmap ensures_bind_any ensures_Inr TrueI

lemma ensures_not_ValueError: "ensures P r \<Longrightarrow> r = Inl e \<Longrightarrow> exn_cls e = ValueError"
  by (simp add: ensures_def)

lemma ensures_returns: "ensures P r \<Longrightarrow> r = Inr x \<Longrightarrow> P x"
  by (simp add: ensures_def)

section \<open>Encoded segments\<close>

lemma slashes_simps [simp]:
  "slashes [] = 0" "slashes (c # s) = (if c = CHR ''/'' then 1 else 0) + slashes s"
  "slashes (s @ t) = slashes s + slashes t"
  by (simp_all add: slashes_def)

lemma slashes_0_iff: "slashes s = 0 \<longleftrightarrow> CHR ''/'' \<notin> set s"
  by (auto simp: slashes_def filter_empty_conv)

lemma hex_upper_no_slash: "n < 16 \<Longrightarrow> hex_upper n \<noteq> CHR ''/''"
  by (simp add: hex_upper_def char_of_eq_iff take_bit_eq_mod)

lemma escape_byte_no_slash: "b < 256 \<Longrightarrow> CHR ''/'' \<notin> set (escape_byte b)"
  using hex_upper_no_slash [of "b div 16"] hex_upper_no_slash [of "b mod 16"]
  by (auto simp: escape_byte_def less_mult_imp_div_less)

lemma utf8_bytes_lt: "b \<in> set (utf8_bytes c) \<Longrightarrow> b < 256"
proof -
  define n where "n = (of_char c :: nat)"
  have n: "n < 256" by (simp add: n_def)
  then have "n div 64 < 64" "n mod 64 < 64" by simp_all
  with n show "b \<in> set (utf8_bytes c) \<Longrightarrow> b < 256"
    unfolding utf8_bytes_def n_def [symmetric] Let_def by (auto split: if_splits)
qed

text \<open>An encoded value adds no slash to a path.\<close>

lemma slashes_url_quote [simp]: "slashes (url_quote [] s) = 0"
proof -
  have "CHR ''/'' \<notin> set (concat (map escape_byte (utf8_bytes c)))" for c
    using escape_byte_no_slash utf8_bytes_lt by fastforce
  moreover have "\<not> always_safe CHR ''/''" by code_simp
  ultimately show ?thesis unfolding slashes_0_iff url_quote_def by (auto split: if_splits)
qed

lemma slashes_show_int [simp]: "slashes (show_int i) = 0"
proof -
  have "CHR ''/'' \<notin> set (show_nat n)" for n
    using show_nat_digits [of n] by (auto simp: list_all_iff is_ascii_digit_def)
  then show ?thesis by (simp add: slashes_0_iff show_int_def)
qed

section \<open>What a node relies on\<close>

text \<open>
  A node calls \<open>build_request\<close> for the operation and turns \<open>ValueError\<close> into its own error. The
  interface: an operation is refused unless it is declared, nothing but \<open>ValueError\<close> is raised, and
  the request of a declared operation has the shape declared for it. \<open>shape\<close> lists the operations.
\<close>

locale request_builder =
  fixes build :: "string \<Rightarrow> jobj \<Rightarrow> (string \<times> string \<times> 'a) result"
    and shape :: "(string, nat option) dict"
  assumes unsupported: "map_of shape operation = None \<Longrightarrow> raises ValueError (build operation params)"
    and supported: "map_of shape operation = Some k \<Longrightarrow> ensures (request_ok k) (build operation params)"
begin

definition target :: "string \<Rightarrow> jobj \<Rightarrow> (string \<times> string) result" where
  "target operation params = rbind (build operation params) (\<lambda>r. Inr (fst r, fst (snd r)))"

definition node_target :: "string \<Rightarrow> jobj \<Rightarrow> (string \<times> string) result" where
  "node_target operation params =
     (case target operation params of
        Inl e \<Rightarrow> if exn_cls e = ValueError then raise NodeExecutionError (exn_msg e) else Inl e
      | Inr r \<Rightarrow> Inr r)"

lemma node_target_errors: "node_target operation params = Inl e \<Longrightarrow> exn_cls e = NodeExecutionError"
proof -
  have "exn_cls e' = ValueError" if "build operation params = Inl e'" for e'
    using that unsupported [of operation params] supported [of operation _ params]
    by (cases "map_of shape operation") (auto simp: raises_code intro: ensures_not_ValueError)
  then show "node_target operation params = Inl e \<Longrightarrow> exn_cls e = NodeExecutionError"
    by (auto simp: node_target_def target_def rbind_def raise_def split: sum.splits if_splits)
qed

lemma node_target_returns:
  assumes "node_target operation params = Inr (meth, path)"
  shows "\<exists>k. map_of shape operation = Some k \<and> meth \<in> set METHODS \<and> (\<forall>n. k = Some n \<longrightarrow> slashes path = n)"
proof -
  obtain r where r: "build operation params = Inr r" "meth = fst r" "path = fst (snd r)"
    using assms by (auto simp: node_target_def target_def rbind_def raise_def split: sum.splits if_splits)
  obtain k where "map_of shape operation = Some k"
    using unsupported [of operation params] r(1) by (cases "map_of shape operation") auto
  with ensures_returns [OF supported [OF this] r(1)] r show ?thesis
    by (auto simp: request_ok_def split: option.splits)
qed

end

text \<open>A dispatch over a table of builders is such a builder when each entry keeps the shape declared for its operation.\<close>

lemma map_of_list_all2:
  "list_all2 (\<lambda>x y. fst x = fst y \<and> R (snd x) (snd y)) xs ys \<Longrightarrow>
   (map_of ys k = None \<longrightarrow> map_of xs k = None) \<and> (\<forall>v. map_of ys k = Some v \<longrightarrow> (\<exists>u. map_of xs k = Some u \<and> R u v))"
  by (induction rule: list_all2_induct) auto

lemma request_builder_table:
  assumes "\<And>operation params. build operation params =
      (case map_of table operation of None \<Rightarrow> raise ValueError (msg operation) | Some b \<Rightarrow> call b params)"
    and "list_all2 (\<lambda>x y. fst x = fst y \<and> (\<forall>params. ensures (request_ok (snd y)) (call (snd x) params))) table shape"
  shows "request_builder build shape"
proof
  note m = map_of_list_all2 [where R = "\<lambda>b k. \<forall>params. ensures (request_ok k) (call b params)", OF assms(2)]
  fix operation params k
  show "map_of shape operation = None \<Longrightarrow> raises ValueError (build operation params)"
    using m [of operation] by (simp add: assms(1))
  show "map_of shape operation = Some k \<Longrightarrow> ensures (request_ok k) (build operation params)"
    using m [of operation] by (auto simp: assms(1))
qed

end
