(* ===== verification/Builders_1.thy ===== *)
theory Builders_1
  imports Requests
begin

text \<open>
  Request builders of the integrations \<open>activecampaign\<close>, \<open>airtable\<close>, \<open>algolia\<close>, \<open>alpaca\<close>, \<open>asana\<close>, \<open>asc\<close>, \<open>aws_s3\<close>, \<open>backblaze_b2\<close>
  (\<open>nodes/integrations/<name>/operations.py\<close>), one definition per function of the module, prefixed
  with the name of the integration; constants of \<open>constants.py\<close> stand with their values, and an em dash
  in a message is a hyphen. \<open>fr\<close> prints a float. Each lemma \<open><function>_ok\<close> states what the function
  ensures: it raises nothing but \<open>ValueError\<close>, an identifier it returns has no slash, a number is
  within its bounds, a request has a known method and a path with a fixed number of slashes. The
  interpretation shows that the module keeps the interface of the nodes.
\<close>

section \<open>Activecampaign\<close>

definition activecampaign_coerce_page_size :: "json \<Rightarrow> int result" where
  "activecampaign_coerce_page_size raw =
     (if is_blank raw then Inr 20
     else (case int_of_json raw of
       None \<Rightarrow> raise ValueError ''ActiveCampaign: 'limit' must be a positive integer''
     | Some value \<Rightarrow>
       if value < 1 then raise ValueError ''ActiveCampaign: 'limit' must be >= 1''
       else Inr (min value 100)))"

definition activecampaign_coerce_non_negative_int :: "json \<Rightarrow> string \<Rightarrow> int result" where
  "activecampaign_coerce_non_negative_int raw field =
     (case int_of_json raw of
       None \<Rightarrow> raise ValueError (''ActiveCampaign: '' @ repr_str field @ '' must be a non-negative integer'')
     | Some value \<Rightarrow>
       Inr (max 0 value))"

definition activecampaign_build_list_contacts :: "(rat \<Rightarrow> string) \<Rightarrow> jobj \<Rightarrow> request_spec result" where
  "activecampaign_build_list_contacts fr params =
     rbind (activecampaign_coerce_page_size (dict_get params ''limit'' JNull)) (\<lambda>r1.
     let query = [(''limit'', JInt r1)] in
     let offset = dict_get params ''offset'' JNull in
     rbind (if offset \<noteq> JNull \<and> offset \<noteq> JStr [] then (rbind (activecampaign_coerce_non_negative_int offset
         ''offset'') (\<lambda>r2.
       Inr (dict_set ''offset'' (JInt r2) query))) else Inr query) (\<lambda>query.
     let email = text_param fr params ''email'' in
     let query = (if email \<noteq> [] then dict_set ''email'' (JStr email) query else query) in
     let search = text_param fr params ''search'' in
     let query = (if search \<noteq> [] then dict_set ''search'' (JStr search) query else query) in
     let list_id = text_param fr params ''list_id'' in
     let query = (if list_id \<noteq> [] then dict_set ''listid'' (JStr list_id) query else query) in
     Inr (''GET'', ''/contacts'', None, query)))"

definition activecampaign_required :: "(rat \<Rightarrow> string) \<Rightarrow> jobj \<Rightarrow> string \<Rightarrow> string result" where
  "activecampaign_required fr params key =
     (let value = text_param fr params key in
     if value = [] then raise ValueError (''ActiveCampaign: '' @ repr_str key @ '' is required'')
     else Inr value)"

definition activecampaign_build_get_contact :: "(rat \<Rightarrow> string) \<Rightarrow> jobj \<Rightarrow> request_spec result" where
  "activecampaign_build_get_contact fr params =
     rbind (activecampaign_required fr params ''contact_id'') (\<lambda>contact_id.
     Inr (''GET'', ''/contacts/'' @ url_quote [] contact_id, None, []))"

definition activecampaign_coerce_document :: "json \<Rightarrow> jobj result" where
  "activecampaign_coerce_document raw =
     (if raw = JNull then raise ValueError ''ActiveCampaign: 'document' is required''
     else if \<not> is_obj raw then raise ValueError ''ActiveCampaign: 'document' must be a JSON object''
     else if \<not> py_bool raw then raise ValueError ''ActiveCampaign: 'document' must be a non-empty object''
     else Inr (obj_of raw))"

definition activecampaign_build_create_contact :: "(rat \<Rightarrow> string) \<Rightarrow> jobj \<Rightarrow> request_spec result" where
  "activecampaign_build_create_contact fr params =
     rbind (activecampaign_coerce_document (dict_get params ''document'' JNull)) (\<lambda>document.
     let email = text_param fr document ''email'' in
     if email = [] then raise ValueError ''ActiveCampaign: 'document.email' is required''
     else let body = [(''contact'', JObj document)] in
     Inr (''POST'', ''/contacts'', Some body, []))"

definition activecampaign_build_update_contact :: "(rat \<Rightarrow> string) \<Rightarrow> jobj \<Rightarrow> request_spec result" where
  "activecampaign_build_update_contact fr params =
     rbind (activecampaign_required fr params ''contact_id'') (\<lambda>contact_id.
     rbind (activecampaign_coerce_document (dict_get params ''document'' JNull)) (\<lambda>document.
     let body = [(''contact'', JObj document)] in
     Inr (''PUT'', ''/contacts/'' @ url_quote [] contact_id, Some body, [])))"

definition activecampaign_build_delete_contact :: "(rat \<Rightarrow> string) \<Rightarrow> jobj \<Rightarrow> request_spec result" where
  "activecampaign_build_delete_contact fr params =
     rbind (activecampaign_required fr params ''contact_id'') (\<lambda>contact_id.
     Inr (''DELETE'', ''/contacts/'' @ url_quote [] contact_id, None, []))"

definition activecampaign_coerce_list_status :: "json \<Rightarrow> int result" where
  "activecampaign_coerce_list_status raw =
     (case int_of_json raw of
       None \<Rightarrow> raise ValueError ''ActiveCampaign: 'status' must be 1 (subscribe) or 2 (unsubscribe)''
     | Some value \<Rightarrow>
       if value \<notin> set [1, 2] then raise ValueError
           ''ActiveCampaign: 'status' must be 1 (subscribe) or 2 (unsubscribe)''
       else Inr value)"

definition activecampaign_build_add_contact_to_list :: "(rat \<Rightarrow> string) \<Rightarrow> jobj \<Rightarrow> request_spec result" where
  "activecampaign_build_add_contact_to_list fr params =
     rbind (activecampaign_required fr params ''contact_id'') (\<lambda>contact_id.
     rbind (activecampaign_required fr params ''list_id'') (\<lambda>list_id.
     let status_raw = dict_get params ''status'' JNull in
     rbind (if is_blank status_raw then Inr 1 else activecampaign_coerce_list_status status_raw) (\<lambda>status.
     let body = [(''contactList'', JObj [(''list'', JStr list_id), (''contact'', JStr contact_id), (''status'',
         JInt status)])] in
     Inr (''POST'', ''/contactLists'', Some body, []))))"

definition activecampaign_build_add_tag_to_contact :: "(rat \<Rightarrow> string) \<Rightarrow> jobj \<Rightarrow> request_spec result" where
  "activecampaign_build_add_tag_to_contact fr params =
     rbind (activecampaign_required fr params ''contact_id'') (\<lambda>contact_id.
     rbind (activecampaign_required fr params ''tag_id'') (\<lambda>tag_id.
     let body = [(''contactTag'', JObj [(''contact'', JStr contact_id), (''tag'', JStr tag_id)])] in
     Inr (''POST'', ''/contactTags'', Some body, [])))"

definition activecampaign_build_list_tags :: "(rat \<Rightarrow> string) \<Rightarrow> jobj \<Rightarrow> request_spec result" where
  "activecampaign_build_list_tags fr params =
     rbind (activecampaign_coerce_page_size (dict_get params ''limit'' JNull)) (\<lambda>r1.
     let query = [(''limit'', JInt r1)] in
     let offset = dict_get params ''offset'' JNull in
     rbind (if offset \<noteq> JNull \<and> offset \<noteq> JStr [] then (rbind (activecampaign_coerce_non_negative_int offset
         ''offset'') (\<lambda>r2.
       Inr (dict_set ''offset'' (JInt r2) query))) else Inr query) (\<lambda>query.
     let search = text_param fr params ''search'' in
     let query = (if search \<noteq> [] then dict_set ''search'' (JStr search) query else query) in
     Inr (''GET'', ''/tags'', None, query)))"

definition activecampaign_BUILDERS :: "(rat \<Rightarrow> string) \<Rightarrow> (string, jobj \<Rightarrow> request_spec result) dict" where
  "activecampaign_BUILDERS fr =
     [(''list_contacts'', activecampaign_build_list_contacts fr),
      (''get_contact'', activecampaign_build_get_contact fr),
      (''create_contact'', activecampaign_build_create_contact fr),
      (''update_contact'', activecampaign_build_update_contact fr),
      (''delete_contact'', activecampaign_build_delete_contact fr),
      (''add_contact_to_list'', activecampaign_build_add_contact_to_list fr),
      (''add_tag_to_contact'', activecampaign_build_add_tag_to_contact fr),
      (''list_tags'', activecampaign_build_list_tags fr)]"

definition activecampaign_build_request :: "(rat \<Rightarrow> string) \<Rightarrow> string \<Rightarrow> jobj \<Rightarrow> request_spec result" where
  "activecampaign_build_request fr operation params =
     (case map_of (activecampaign_BUILDERS fr) operation of
        None \<Rightarrow> raise ValueError (''ActiveCampaign: unsupported operation '' @ repr_str operation)
      | Some builder \<Rightarrow> builder params)"

lemma activecampaign_coerce_page_size_ok: "ensures (\<lambda>v. 1 \<le> v \<and> v \<le> 100) (activecampaign_coerce_page_size raw)"
  unfolding activecampaign_coerce_page_size_def
  by (rule ensures_rules | simp)+

lemma activecampaign_coerce_non_negative_int_ok: "ensures (\<lambda>v. 0 \<le> v) (activecampaign_coerce_non_negative_int raw field)"
  unfolding activecampaign_coerce_non_negative_int_def
  by (rule ensures_rules | simp)+

lemma activecampaign_build_list_contacts_ok: "ensures (request_ok (Some 1)) (activecampaign_build_list_contacts fr params)"
  unfolding activecampaign_build_list_contacts_def
  by (rule activecampaign_coerce_page_size_ok [THEN ensures_bind] activecampaign_coerce_page_size_ok [THEN ensures_weaken] activecampaign_coerce_non_negative_int_ok [THEN ensures_bind] activecampaign_coerce_non_negative_int_ok [THEN ensures_weaken] ensures_rules | simp add: request_ok_def METHODS_def)+

lemma activecampaign_required_ok: "ensures (\<lambda>_. True) (activecampaign_required fr params key)"
  unfolding activecampaign_required_def
  by (rule ensures_rules | simp)+

lemma activecampaign_build_get_contact_ok: "ensures (request_ok (Some 2)) (activecampaign_build_get_contact fr params)"
  unfolding activecampaign_build_get_contact_def
  by (rule activecampaign_required_ok [THEN ensures_bind] activecampaign_required_ok [THEN ensures_weaken] ensures_rules | simp add: request_ok_def METHODS_def)+

lemma activecampaign_coerce_document_ok: "ensures (\<lambda>_. True) (activecampaign_coerce_document raw)"
  unfolding activecampaign_coerce_document_def
  by (rule ensures_rules | simp)+

lemma activecampaign_build_create_contact_ok: "ensures (request_ok (Some 1)) (activecampaign_build_create_contact fr params)"
  unfolding activecampaign_build_create_contact_def
  by (rule activecampaign_coerce_document_ok [THEN ensures_bind] activecampaign_coerce_document_ok [THEN ensures_weaken] ensures_rules | simp add: request_ok_def METHODS_def)+

lemma activecampaign_build_update_contact_ok: "ensures (request_ok (Some 2)) (activecampaign_build_update_contact fr params)"
  unfolding activecampaign_build_update_contact_def
  by (rule activecampaign_required_ok [THEN ensures_bind] activecampaign_required_ok [THEN ensures_weaken] activecampaign_coerce_document_ok [THEN ensures_bind] activecampaign_coerce_document_ok [THEN ensures_weaken] ensures_rules | simp add: request_ok_def METHODS_def)+

lemma activecampaign_build_delete_contact_ok: "ensures (request_ok (Some 2)) (activecampaign_build_delete_contact fr params)"
  unfolding activecampaign_build_delete_contact_def
  by (rule activecampaign_required_ok [THEN ensures_bind] activecampaign_required_ok [THEN ensures_weaken] ensures_rules | simp add: request_ok_def METHODS_def)+

lemma activecampaign_coerce_list_status_ok: "ensures (\<lambda>_. True) (activecampaign_coerce_list_status raw)"
  unfolding activecampaign_coerce_list_status_def
  by (rule ensures_rules | simp)+

lemma activecampaign_build_add_contact_to_list_ok: "ensures (request_ok (Some 1)) (activecampaign_build_add_contact_to_list fr params)"
  unfolding activecampaign_build_add_contact_to_list_def
  by (rule activecampaign_required_ok [THEN ensures_bind] activecampaign_required_ok [THEN ensures_weaken] activecampaign_coerce_list_status_ok [THEN ensures_bind] activecampaign_coerce_list_status_ok [THEN ensures_weaken] ensures_rules | simp add: request_ok_def METHODS_def)+

lemma activecampaign_build_add_tag_to_contact_ok: "ensures (request_ok (Some 1)) (activecampaign_build_add_tag_to_contact fr params)"
  unfolding activecampaign_build_add_tag_to_contact_def
  by (rule activecampaign_required_ok [THEN ensures_bind] activecampaign_required_ok [THEN ensures_weaken] ensures_rules | simp add: request_ok_def METHODS_def)+

lemma activecampaign_build_list_tags_ok: "ensures (request_ok (Some 1)) (activecampaign_build_list_tags fr params)"
  unfolding activecampaign_build_list_tags_def
  by (rule activecampaign_coerce_page_size_ok [THEN ensures_bind] activecampaign_coerce_page_size_ok [THEN ensures_weaken] activecampaign_coerce_non_negative_int_ok [THEN ensures_bind] activecampaign_coerce_non_negative_int_ok [THEN ensures_weaken] ensures_rules | simp add: request_ok_def METHODS_def)+

definition activecampaign_shape :: "(string, nat option) dict" where
  "activecampaign_shape =
     [(''list_contacts'', Some 1), (''get_contact'', Some 2), (''create_contact'', Some 1),
         (''update_contact'', Some 2), (''delete_contact'', Some 2), (''add_contact_to_list'', Some 1),
         (''add_tag_to_contact'', Some 1), (''list_tags'', Some 1)]"

interpretation activecampaign: request_builder "activecampaign_build_request fr" activecampaign_shape for fr
  by (rule request_builder_table [OF activecampaign_build_request_def])
    (simp_all del: One_nat_def add: activecampaign_BUILDERS_def activecampaign_shape_def
      activecampaign_build_list_contacts_ok activecampaign_build_get_contact_ok activecampaign_build_create_contact_ok
      activecampaign_build_update_contact_ok activecampaign_build_delete_contact_ok activecampaign_build_add_contact_to_list_ok
      activecampaign_build_add_tag_to_contact_ok activecampaign_build_list_tags_ok)

section \<open>Airtable\<close>

definition airtable_required :: "(rat \<Rightarrow> string) \<Rightarrow> jobj \<Rightarrow> string \<Rightarrow> string result" where
  "airtable_required fr params key =
     (let value = text_param fr params key in
     if value = [] then raise ValueError (''Airtable: '' @ repr_str key @ '' is required'')
     else Inr value)"

definition airtable_table_path :: "(rat \<Rightarrow> string) \<Rightarrow> jobj \<Rightarrow> string result" where
  "airtable_table_path fr params =
     rbind (airtable_required fr params ''base_id'') (\<lambda>base_id.
     rbind (airtable_required fr params ''table'') (\<lambda>table.
     Inr (''/v0'' @ ''/'' @ url_quote [] base_id @ ''/'' @ url_quote [] table)))"

definition airtable_coerce_positive_int :: "json \<Rightarrow> string \<Rightarrow> int result" where
  "airtable_coerce_positive_int raw field =
     (case int_of_json raw of
       None \<Rightarrow> raise ValueError (''Airtable: '' @ repr_str field @ '' must be a positive integer'')
     | Some value \<Rightarrow>
       if value < 1 then raise ValueError (''Airtable: '' @ repr_str field @ '' must be >= 1'')
       else Inr value)"

definition airtable_coerce_page_size :: "json \<Rightarrow> int result" where
  "airtable_coerce_page_size raw =
     (if raw = JNull \<or> raw = JStr [] then Inr 100
     else rbind (airtable_coerce_positive_int raw ''page_size'') (\<lambda>value.
     Inr (min value 100)))"

definition airtable_build_list_records :: "(rat \<Rightarrow> string) \<Rightarrow> jobj \<Rightarrow> request_spec result" where
  "airtable_build_list_records fr params =
     rbind (airtable_table_path fr params) (\<lambda>path.
     rbind (airtable_coerce_page_size (dict_get params ''page_size'' JNull)) (\<lambda>r2.
     let query = [(''pageSize'', JInt r2)] in
     let view = text_param fr params ''view'' in
     let query = (if view \<noteq> [] then dict_set ''view'' (JStr view) query else query) in
     let filter_formula = text_param fr params ''filter_by_formula'' in
     let query = (if filter_formula \<noteq> [] then dict_set ''filterByFormula'' (JStr filter_formula) query else
         query) in
     let offset = text_param fr params ''offset'' in
     let query = (if offset \<noteq> [] then dict_set ''offset'' (JStr offset) query else query) in
     let max_records = dict_get params ''max_records'' JNull in
     rbind (if \<not> is_blank max_records then (rbind (airtable_coerce_positive_int max_records ''max_records'')
         (\<lambda>r3.
       Inr (dict_set ''maxRecords'' (JInt r3) query))) else Inr query) (\<lambda>query.
     Inr (''GET'', path, None, query))))"

definition airtable_build_get_record :: "(rat \<Rightarrow> string) \<Rightarrow> jobj \<Rightarrow> request_spec result" where
  "airtable_build_get_record fr params =
     rbind (airtable_required fr params ''record_id'') (\<lambda>record_id.
     rbind (airtable_table_path fr params) (\<lambda>r2.
     let path = r2 @ ''/'' @ url_quote [] record_id in
     Inr (''GET'', path, None, [])))"

definition airtable_coerce_records :: "json \<Rightarrow> jobj list result" where
  "airtable_coerce_records raw =
     (if \<not> is_arr raw \<or> \<not> py_bool raw then raise ValueError
         ''Airtable: 'records' must contain at least one record''
     else if 10 < (int (length (arr_of raw))) then raise ValueError
         ''Airtable: create_records accepts at most 10 records''
     else let out = ([] :: jobj list) in
     rbind (rfold (\<lambda>out record.
         if \<not> is_obj record then raise ValueError ''Airtable: each record must be an object''
         else let fields = dict_get (obj_of record) ''fields'' record in
         if \<not> is_obj fields then raise ValueError ''Airtable: each record's 'fields' must be an object''
         else Inr (out @ [[(''fields'', fields)]])) out (arr_of raw)) (\<lambda>out.
     Inr out))"

definition airtable_build_create_records :: "(rat \<Rightarrow> string) \<Rightarrow> jobj \<Rightarrow> request_spec result" where
  "airtable_build_create_records fr params =
     rbind (airtable_coerce_records (dict_get params ''records'' JNull)) (\<lambda>records.
     let body = [(''records'', JArr (map JObj records))] in
     let typecast = dict_get params ''typecast'' JNull in
     let body = (if is_bool typecast then dict_set ''typecast'' typecast body else body) in
     rbind (airtable_table_path fr params) (\<lambda>r2.
     Inr (''POST'', r2, Some body, [])))"

definition airtable_build_update_record :: "(rat \<Rightarrow> string) \<Rightarrow> jobj \<Rightarrow> request_spec result" where
  "airtable_build_update_record fr params =
     rbind (airtable_required fr params ''record_id'') (\<lambda>record_id.
     let fields = dict_get params ''fields'' JNull in
     if \<not> is_obj fields then raise ValueError ''Airtable: 'fields' must be a JSON object''
     else let body = [(''fields'', fields)] in
     let typecast = dict_get params ''typecast'' JNull in
     let body = (if is_bool typecast then dict_set ''typecast'' typecast body else body) in
     rbind (airtable_table_path fr params) (\<lambda>r2.
     let path = r2 @ ''/'' @ url_quote [] record_id in
     Inr (''PATCH'', path, Some body, [])))"

definition airtable_build_delete_record :: "(rat \<Rightarrow> string) \<Rightarrow> jobj \<Rightarrow> request_spec result" where
  "airtable_build_delete_record fr params =
     rbind (airtable_required fr params ''record_id'') (\<lambda>record_id.
     rbind (airtable_table_path fr params) (\<lambda>r2.
     let path = r2 @ ''/'' @ url_quote [] record_id in
     Inr (''DELETE'', path, None, [])))"

definition airtable_BUILDERS :: "(rat \<Rightarrow> string) \<Rightarrow> (string, jobj \<Rightarrow> request_spec result) dict" where
  "airtable_BUILDERS fr =
     [(''list_records'', airtable_build_list_records fr),
      (''get_record'', airtable_build_get_record fr),
      (''create_records'', airtable_build_create_records fr),
      (''update_record'', airtable_build_update_record fr),
      (''delete_record'', airtable_build_delete_record fr)]"

definition airtable_build_request :: "(rat \<Rightarrow> string) \<Rightarrow> string \<Rightarrow> jobj \<Rightarrow> request_spec result" where
  "airtable_build_request fr operation params =
     (case map_of (airtable_BUILDERS fr) operation of
        None \<Rightarrow> raise ValueError (''Airtable: unsupported operation '' @ repr_str operation)
      | Some builder \<Rightarrow> builder params)"

lemma airtable_required_ok: "ensures (\<lambda>_. True) (airtable_required fr params key)"
  unfolding airtable_required_def
  by (rule ensures_rules | simp)+

lemma airtable_table_path_ok: "ensures (\<lambda>s. slashes s = 3) (airtable_table_path fr params)"
  unfolding airtable_table_path_def
  by (rule airtable_required_ok [THEN ensures_bind] airtable_required_ok [THEN ensures_weaken] ensures_rules | simp)+

lemma airtable_coerce_positive_int_ok: "ensures (\<lambda>v. 1 \<le> v) (airtable_coerce_positive_int raw field)"
  unfolding airtable_coerce_positive_int_def
  by (rule ensures_rules | simp)+

lemma airtable_coerce_page_size_ok: "ensures (\<lambda>v. v \<le> 100) (airtable_coerce_page_size raw)"
  unfolding airtable_coerce_page_size_def
  by (rule airtable_coerce_positive_int_ok [THEN ensures_bind] airtable_coerce_positive_int_ok [THEN ensures_weaken] ensures_rules | simp)+

lemma airtable_build_list_records_ok: "ensures (request_ok (Some 3)) (airtable_build_list_records fr params)"
  unfolding airtable_build_list_records_def
  by (rule airtable_table_path_ok [THEN ensures_bind] airtable_table_path_ok [THEN ensures_weaken] airtable_coerce_page_size_ok [THEN ensures_bind] airtable_coerce_page_size_ok [THEN ensures_weaken] airtable_coerce_positive_int_ok [THEN ensures_bind] airtable_coerce_positive_int_ok [THEN ensures_weaken] ensures_rules | simp add: request_ok_def METHODS_def)+

lemma airtable_build_get_record_ok: "ensures (request_ok (Some 4)) (airtable_build_get_record fr params)"
  unfolding airtable_build_get_record_def
  by (rule airtable_required_ok [THEN ensures_bind] airtable_required_ok [THEN ensures_weaken] airtable_table_path_ok [THEN ensures_bind] airtable_table_path_ok [THEN ensures_weaken] ensures_rules | simp add: request_ok_def METHODS_def)+

lemma airtable_coerce_records_ok: "ensures (\<lambda>_. True) (airtable_coerce_records raw)"
  unfolding airtable_coerce_records_def
  by (rule ensures_rules | simp)+

lemma airtable_build_create_records_ok: "ensures (request_ok (Some 3)) (airtable_build_create_records fr params)"
  unfolding airtable_build_create_records_def
  by (rule airtable_coerce_records_ok [THEN ensures_bind] airtable_coerce_records_ok [THEN ensures_weaken] airtable_table_path_ok [THEN ensures_bind] airtable_table_path_ok [THEN ensures_weaken] ensures_rules | simp add: request_ok_def METHODS_def)+

lemma airtable_build_update_record_ok: "ensures (request_ok (Some 4)) (airtable_build_update_record fr params)"
  unfolding airtable_build_update_record_def
  by (rule airtable_required_ok [THEN ensures_bind] airtable_required_ok [THEN ensures_weaken] airtable_table_path_ok [THEN ensures_bind] airtable_table_path_ok [THEN ensures_weaken] ensures_rules | simp add: request_ok_def METHODS_def)+

lemma airtable_build_delete_record_ok: "ensures (request_ok (Some 4)) (airtable_build_delete_record fr params)"
  unfolding airtable_build_delete_record_def
  by (rule airtable_required_ok [THEN ensures_bind] airtable_required_ok [THEN ensures_weaken] airtable_table_path_ok [THEN ensures_bind] airtable_table_path_ok [THEN ensures_weaken] ensures_rules | simp add: request_ok_def METHODS_def)+

definition airtable_shape :: "(string, nat option) dict" where
  "airtable_shape =
     [(''list_records'', Some 3), (''get_record'', Some 4), (''create_records'', Some 3), (''update_record'',
         Some 4), (''delete_record'', Some 4)]"

interpretation airtable: request_builder "airtable_build_request fr" airtable_shape for fr
  by (rule request_builder_table [OF airtable_build_request_def])
    (simp_all del: One_nat_def add: airtable_BUILDERS_def airtable_shape_def
      airtable_build_list_records_ok airtable_build_get_record_ok airtable_build_create_records_ok
      airtable_build_update_record_ok airtable_build_delete_record_ok)

section \<open>Algolia\<close>

definition algolia_required :: "(rat \<Rightarrow> string) \<Rightarrow> jobj \<Rightarrow> string \<Rightarrow> string result" where
  "algolia_required fr params key =
     (let value = text_param fr params key in
     if value = [] then raise ValueError (''Algolia: '' @ repr_str key @ '' is required'')
     else Inr value)"

definition algolia_coerce_limit :: "json \<Rightarrow> int result" where
  "algolia_coerce_limit raw =
     (if is_blank raw then Inr 20
     else (case int_of_json raw of
       None \<Rightarrow> raise ValueError ''Algolia: 'hits_per_page' must be a positive integer''
     | Some value \<Rightarrow>
       if value < 1 then raise ValueError ''Algolia: 'hits_per_page' must be >= 1''
       else Inr (min value 1000)))"

definition algolia_build_search :: "(rat \<Rightarrow> string) \<Rightarrow> jobj \<Rightarrow> (string \<times> string \<times> (jobj option) \<times> jobj \<times> bool)
    result" where
  "algolia_build_search fr params =
     rbind (algolia_required fr params ''index_name'') (\<lambda>index_name.
     rbind (algolia_coerce_limit (dict_get params ''hits_per_page'' JNull)) (\<lambda>r2.
     let body = [(''query'', JStr (py_str fr (param_or params ''query'' (JStr [])))), (''hitsPerPage'', JInt
         r2)] in
     let page = dict_get params ''page'' JNull in
     rbind (if page \<noteq> JNull \<and> page \<noteq> JStr [] then ((case int_of_json page of
         None \<Rightarrow> raise ValueError ''Algolia: 'page' must be an integer''
       | Some page_value \<Rightarrow>
         if page_value < 0 then raise ValueError ''Algolia: 'page' must be >= 0''
         else Inr (dict_set ''page'' (JInt page_value) body))) else Inr body) (\<lambda>body.
     let filters = text_param fr params ''filters'' in
     let body = (if filters \<noteq> [] then dict_set ''filters'' (JStr filters) body else body) in
     let extra = dict_get params ''extra_params'' JNull in
     rbind (if extra \<noteq> JNull then (if \<not> is_obj extra then raise ValueError
         ''Algolia: 'extra_params' must be a JSON object''
       else Inr (dict_merge body (obj_of extra))) else Inr body) (\<lambda>body.
     let path = ''/1'' @ ''/indexes/'' @ url_quote [] index_name @ ''/query'' in
     Inr (''POST'', path, Some body, [], False)))))"

definition algolia_build_add_object :: "(rat \<Rightarrow> string) \<Rightarrow> jobj \<Rightarrow> (string \<times> string \<times> (jobj option) \<times> jobj \<times> bool)
    result" where
  "algolia_build_add_object fr params =
     rbind (algolia_required fr params ''index_name'') (\<lambda>index_name.
     let obj = dict_get params ''object'' JNull in
     if \<not> is_obj obj \<or> \<not> py_bool obj then raise ValueError ''Algolia: 'object' must be a non-empty JSON object''
     else let path = ''/1'' @ ''/indexes/'' @ url_quote [] index_name in
     Inr (''POST'', path, Some (obj_of obj), [], True))"

definition algolia_build_update_object :: "(rat \<Rightarrow> string) \<Rightarrow> jobj \<Rightarrow> (string \<times> string \<times> (jobj option) \<times> jobj \<times>
    bool) result" where
  "algolia_build_update_object fr params =
     rbind (algolia_required fr params ''index_name'') (\<lambda>index_name.
     rbind (algolia_required fr params ''object_id'') (\<lambda>object_id.
     let obj = dict_get params ''object'' JNull in
     if \<not> is_obj obj \<or> \<not> py_bool obj then raise ValueError ''Algolia: 'object' must be a non-empty JSON object''
     else let body = obj_of obj in
     let body = dict_set ''objectID'' (JStr object_id) body in
     let path = ''/1'' @ ''/indexes/'' @ url_quote [] index_name @ ''/'' @ url_quote [] object_id in
     Inr (''PUT'', path, Some body, [], True)))"

definition algolia_build_get_object :: "(rat \<Rightarrow> string) \<Rightarrow> jobj \<Rightarrow> (string \<times> string \<times> (jobj option) \<times> jobj \<times> bool)
    result" where
  "algolia_build_get_object fr params =
     rbind (algolia_required fr params ''index_name'') (\<lambda>index_name.
     rbind (algolia_required fr params ''object_id'') (\<lambda>object_id.
     let path = ''/1'' @ ''/indexes/'' @ url_quote [] index_name @ ''/'' @ url_quote [] object_id in
     Inr (''GET'', path, None, [], False)))"

definition algolia_build_delete_object :: "(rat \<Rightarrow> string) \<Rightarrow> jobj \<Rightarrow> (string \<times> string \<times> (jobj option) \<times> jobj \<times>
    bool) result" where
  "algolia_build_delete_object fr params =
     rbind (algolia_required fr params ''index_name'') (\<lambda>index_name.
     rbind (algolia_required fr params ''object_id'') (\<lambda>object_id.
     let path = ''/1'' @ ''/indexes/'' @ url_quote [] index_name @ ''/'' @ url_quote [] object_id in
     Inr (''DELETE'', path, None, [], True)))"

definition algolia_build_list_indices :: "jobj \<Rightarrow> string \<times> string \<times> (jobj option) \<times> jobj \<times> bool" where
  "algolia_build_list_indices unused =
     (''GET'', ''/1/indexes'', None, [], False)"

definition algolia_BUILDERS :: "(rat \<Rightarrow> string) \<Rightarrow> (string, jobj \<Rightarrow> (string \<times> string \<times> (jobj option) \<times> jobj \<times>
    bool) result) dict" where
  "algolia_BUILDERS fr =
     [(''search'', algolia_build_search fr),
      (''add_object'', algolia_build_add_object fr),
      (''update_object'', algolia_build_update_object fr),
      (''get_object'', algolia_build_get_object fr),
      (''delete_object'', algolia_build_delete_object fr),
      (''list_indices'', \<lambda>params. Inr (algolia_build_list_indices params))]"

definition algolia_build_request :: "(rat \<Rightarrow> string) \<Rightarrow> string \<Rightarrow> jobj \<Rightarrow> (string \<times> string \<times> (jobj option) \<times> jobj \<times>
    bool) result" where
  "algolia_build_request fr operation params =
     (case map_of (algolia_BUILDERS fr) operation of
        None \<Rightarrow> raise ValueError (''Algolia: unsupported operation '' @ repr_str operation)
      | Some builder \<Rightarrow> builder params)"

lemma algolia_required_ok: "ensures (\<lambda>_. True) (algolia_required fr params key)"
  unfolding algolia_required_def
  by (rule ensures_rules | simp)+

lemma algolia_coerce_limit_ok: "ensures (\<lambda>v. 1 \<le> v \<and> v \<le> 1000) (algolia_coerce_limit raw)"
  unfolding algolia_coerce_limit_def
  by (rule ensures_rules | simp)+

lemma algolia_build_search_ok: "ensures (request_ok (Some 4)) (algolia_build_search fr params)"
  unfolding algolia_build_search_def
  by (rule algolia_required_ok [THEN ensures_bind] algolia_required_ok [THEN ensures_weaken] algolia_coerce_limit_ok [THEN ensures_bind] algolia_coerce_limit_ok [THEN ensures_weaken] ensures_rules | simp add: request_ok_def METHODS_def)+

lemma algolia_build_add_object_ok: "ensures (request_ok (Some 3)) (algolia_build_add_object fr params)"
  unfolding algolia_build_add_object_def
  by (rule algolia_required_ok [THEN ensures_bind] algolia_required_ok [THEN ensures_weaken] ensures_rules | simp add: request_ok_def METHODS_def)+

lemma algolia_build_update_object_ok: "ensures (request_ok (Some 4)) (algolia_build_update_object fr params)"
  unfolding algolia_build_update_object_def
  by (rule algolia_required_ok [THEN ensures_bind] algolia_required_ok [THEN ensures_weaken] ensures_rules | simp add: request_ok_def METHODS_def)+

lemma algolia_build_get_object_ok: "ensures (request_ok (Some 4)) (algolia_build_get_object fr params)"
  unfolding algolia_build_get_object_def
  by (rule algolia_required_ok [THEN ensures_bind] algolia_required_ok [THEN ensures_weaken] ensures_rules | simp add: request_ok_def METHODS_def)+

lemma algolia_build_delete_object_ok: "ensures (request_ok (Some 4)) (algolia_build_delete_object fr params)"
  unfolding algolia_build_delete_object_def
  by (rule algolia_required_ok [THEN ensures_bind] algolia_required_ok [THEN ensures_weaken] ensures_rules | simp add: request_ok_def METHODS_def)+

lemma algolia_build_list_indices_ok: "ensures (request_ok (Some 2)) (Inr (algolia_build_list_indices unused))"
  by (rule ensures_Inr) (simp add: algolia_build_list_indices_def request_ok_def METHODS_def Let_def)

definition algolia_shape :: "(string, nat option) dict" where
  "algolia_shape =
     [(''search'', Some 4), (''add_object'', Some 3), (''update_object'', Some 4), (''get_object'', Some 4),
         (''delete_object'', Some 4), (''list_indices'', Some 2)]"

interpretation algolia: request_builder "algolia_build_request fr" algolia_shape for fr
  by (rule request_builder_table [OF algolia_build_request_def])
    (simp_all del: One_nat_def add: algolia_BUILDERS_def algolia_shape_def
      algolia_build_search_ok algolia_build_add_object_ok algolia_build_update_object_ok
      algolia_build_get_object_ok algolia_build_delete_object_ok algolia_build_list_indices_ok)

section \<open>Alpaca\<close>

definition alpaca_build_get_account :: "jobj \<Rightarrow> string \<times> string \<times> (jobj option)" where
  "alpaca_build_get_account params =
     (''GET'', ''/v2/account'', None)"

definition alpaca_build_list_positions :: "jobj \<Rightarrow> string \<times> string \<times> (jobj option)" where
  "alpaca_build_list_positions params =
     (''GET'', ''/v2/positions'', None)"

definition alpaca_build_get_clock :: "jobj \<Rightarrow> string \<times> string \<times> (jobj option)" where
  "alpaca_build_get_clock params =
     (''GET'', ''/v2/clock'', None)"

definition alpaca_required_str :: "(rat \<Rightarrow> string) \<Rightarrow> jobj \<Rightarrow> string \<Rightarrow> string result" where
  "alpaca_required_str fr params key =
     (let value = text_param fr params key in
     if value = [] then raise ValueError (''Alpaca: '' @ repr_str key @ '' is required'')
     else Inr value)"

definition alpaca_build_place_order :: "(rat \<Rightarrow> string) \<Rightarrow> jobj \<Rightarrow> (string \<times> string \<times> (jobj option)) result" where
  "alpaca_build_place_order fr params =
     rbind (alpaca_required_str fr params ''symbol'') (\<lambda>r1.
     let symbol = py_upper r1 in
     let side = py_lower (text_param fr params ''side'') in
     if side \<notin> set [''buy'', ''sell''] then raise ValueError (''Alpaca: 'side' must be 'buy' or 'sell' - got ''
         @ repr_str side)
     else let order_type = py_lower (py_strip (py_str fr (param_or params ''order_type'' (JStr ''market'')))) in
     if order_type \<notin> set [''market'', ''limit''] then raise ValueError
         (''Alpaca: 'order_type' must be 'market' or 'limit' - got '' @ repr_str order_type)
     else let tif = py_lower (py_strip (py_str fr (param_or params ''time_in_force'' (JStr ''day'')))) in
     if tif \<notin> set [''day'', ''gtc'', ''ioc'', ''fok''] then raise ValueError
         (''Alpaca: 'time_in_force' must be one of day/gtc/ioc/fok - got '' @ repr_str tif)
     else let qty = text_param fr params ''qty'' in
     let notional = text_param fr params ''notional'' in
     if qty = [] \<and> notional = [] then raise ValueError (''Alpaca: orders require 'qty' or 'notional'' @ [CHR
         0x27])
     else let body = [(''symbol'', JStr symbol), (''side'', JStr side), (''type'', JStr order_type),
         (''time_in_force'', JStr tif)] in
     let body = (if qty \<noteq> [] then dict_set ''qty'' (JStr qty) body else body) in
     let body = (if notional \<noteq> [] then dict_set ''notional'' (JStr notional) body else body) in
     rbind (if order_type = ''limit'' then (rbind (alpaca_required_str fr params ''limit_price'') (\<lambda>r2.
       Inr (dict_set ''limit_price'' (JStr r2) body))) else Inr body) (\<lambda>body.
     let client_order_id = text_param fr params ''client_order_id'' in
     let body = (if client_order_id \<noteq> [] then dict_set ''client_order_id'' (JStr client_order_id) body else
         body) in
     Inr (''POST'', ''/v2/orders'', Some body)))"

definition alpaca_BUILDERS :: "(rat \<Rightarrow> string) \<Rightarrow> (string, jobj \<Rightarrow> (string \<times> string \<times> (jobj option)) result) dict"
    where
  "alpaca_BUILDERS fr =
     [(''get_account'', \<lambda>params. Inr (alpaca_build_get_account params)),
      (''list_positions'', \<lambda>params. Inr (alpaca_build_list_positions params)),
      (''place_order'', alpaca_build_place_order fr),
      (''get_clock'', \<lambda>params. Inr (alpaca_build_get_clock params))]"

definition alpaca_build_request :: "(rat \<Rightarrow> string) \<Rightarrow> string \<Rightarrow> jobj \<Rightarrow> (string \<times> string \<times> (jobj option)) result"
    where
  "alpaca_build_request fr operation params =
     (case map_of (alpaca_BUILDERS fr) operation of
        None \<Rightarrow> raise ValueError (''Alpaca: unsupported operation '' @ repr_str operation)
      | Some builder \<Rightarrow> builder params)"

lemma alpaca_build_get_account_ok: "ensures (request_ok (Some 2)) (Inr (alpaca_build_get_account params))"
  by (rule ensures_Inr) (simp add: alpaca_build_get_account_def request_ok_def METHODS_def Let_def)

lemma alpaca_build_list_positions_ok: "ensures (request_ok (Some 2)) (Inr (alpaca_build_list_positions params))"
  by (rule ensures_Inr) (simp add: alpaca_build_list_positions_def request_ok_def METHODS_def Let_def)

lemma alpaca_build_get_clock_ok: "ensures (request_ok (Some 2)) (Inr (alpaca_build_get_clock params))"
  by (rule ensures_Inr) (simp add: alpaca_build_get_clock_def request_ok_def METHODS_def Let_def)

lemma alpaca_required_str_ok: "ensures (\<lambda>_. True) (alpaca_required_str fr params key)"
  unfolding alpaca_required_str_def
  by (rule ensures_rules | simp)+

lemma alpaca_build_place_order_ok: "ensures (request_ok (Some 2)) (alpaca_build_place_order fr params)"
  unfolding alpaca_build_place_order_def
  by (rule alpaca_required_str_ok [THEN ensures_bind] alpaca_required_str_ok [THEN ensures_weaken] ensures_rules | simp add: request_ok_def METHODS_def)+

definition alpaca_shape :: "(string, nat option) dict" where
  "alpaca_shape =
     [(''get_account'', Some 2), (''list_positions'', Some 2), (''place_order'', Some 2), (''get_clock'', Some
         2)]"

interpretation alpaca: request_builder "alpaca_build_request fr" alpaca_shape for fr
  by (rule request_builder_table [OF alpaca_build_request_def])
    (simp_all del: One_nat_def add: alpaca_BUILDERS_def alpaca_shape_def
      alpaca_build_get_account_ok alpaca_build_list_positions_ok alpaca_build_place_order_ok
      alpaca_build_get_clock_ok)

section \<open>Asana\<close>

definition asana_coerce_string_list :: "(rat \<Rightarrow> string) \<Rightarrow> json \<Rightarrow> string \<Rightarrow> string list result" where
  "asana_coerce_string_list fr raw field =
     (if raw = JNull \<or> raw = JStr [] then Inr []
     else if is_str raw then Inr (map (\<lambda>part. py_strip part) (filter (\<lambda>part. py_strip part \<noteq> []) (split_on CHR
         '','' (str_of raw))))
     else if is_arr raw then Inr (map (\<lambda>part. py_strip (py_str fr part)) (filter (\<lambda>part. py_strip (py_str fr
         part) \<noteq> []) (arr_of raw)))
     else raise ValueError (''Asana: '' @ repr_str field @ '' must be a string or list of strings''))"

definition asana_coerce_page_size :: "json \<Rightarrow> int result" where
  "asana_coerce_page_size raw =
     (if is_blank raw then Inr 50
     else (case int_of_json raw of
       None \<Rightarrow> raise ValueError ''Asana: 'limit' must be a positive integer''
     | Some value \<Rightarrow>
       if value < 1 then raise ValueError ''Asana: 'limit' must be >= 1''
       else Inr (min value 100)))"

definition asana_build_list_tasks :: "(rat \<Rightarrow> string) \<Rightarrow> jobj \<Rightarrow> request_spec result" where
  "asana_build_list_tasks fr params =
     (let project = text_param fr params ''project'' in
     let assignee = text_param fr params ''assignee'' in
     let workspace = text_param fr params ''workspace'' in
     if project = [] \<and> (\<not> (assignee \<noteq> [] \<and> workspace \<noteq> [])) then raise ValueError
         ''Asana: list_tasks requires 'project' OR ('assignee' AND 'workspace')''
     else rbind (asana_coerce_page_size (dict_get params ''limit'' JNull)) (\<lambda>r1.
     let query = [(''limit'', JInt r1)] in
     let query = (if project \<noteq> [] then dict_set ''project'' (JStr project) query else query) in
     let query = (if assignee \<noteq> [] then dict_set ''assignee'' (JStr assignee) query else query) in
     let query = (if workspace \<noteq> [] then dict_set ''workspace'' (JStr workspace) query else query) in
     let completed_since = text_param fr params ''completed_since'' in
     let query = (if completed_since \<noteq> [] then dict_set ''completed_since'' (JStr completed_since) query else
         query) in
     let offset = text_param fr params ''offset'' in
     let query = (if offset \<noteq> [] then dict_set ''offset'' (JStr offset) query else query) in
     rbind (asana_coerce_string_list fr (dict_get params ''opt_fields'' JNull) ''opt_fields'') (\<lambda>fields.
     let query = (if fields \<noteq> [] then dict_set ''opt_fields'' (JStr (join '','' fields)) query else query) in
     Inr (''GET'', ''/tasks'', None, query))))"

definition asana_required_id :: "(rat \<Rightarrow> string) \<Rightarrow> jobj \<Rightarrow> string \<Rightarrow> string result" where
  "asana_required_id fr params key =
     (let raw = dict_get params key JNull in
     if is_blank raw then raise ValueError (''Asana: '' @ repr_str key @ '' is required'')
     else Inr (url_quote [] (py_strip (py_str fr raw))))"

definition asana_build_get_task :: "(rat \<Rightarrow> string) \<Rightarrow> jobj \<Rightarrow> request_spec result" where
  "asana_build_get_task fr params =
     rbind (asana_required_id fr params ''task_id'') (\<lambda>task_id.
     rbind (asana_coerce_string_list fr (dict_get params ''opt_fields'' JNull) ''opt_fields'') (\<lambda>fields.
     let query = ([] :: jobj) in
     let query = (if fields \<noteq> [] then dict_set ''opt_fields'' (JStr (join '','' fields)) query else query) in
     Inr (''GET'', ''/tasks/'' @ task_id, None, query)))"

definition asana_build_create_task :: "(rat \<Rightarrow> string) \<Rightarrow> jobj \<Rightarrow> request_spec result" where
  "asana_build_create_task fr params =
     (let document = dict_get params ''document'' JNull in
     if \<not> is_obj document \<or> \<not> py_bool document then raise ValueError
         ''Asana: 'document' must be a non-empty JSON object''
     else if text_param fr (obj_of document) ''name'' = [] then raise ValueError
         (''Asana: create_task requires 'document.name'' @ [CHR 0x27])
     else Inr (''POST'', ''/tasks'', Some [(''data'', JObj (obj_of document))], []))"

definition asana_build_update_task :: "(rat \<Rightarrow> string) \<Rightarrow> jobj \<Rightarrow> request_spec result" where
  "asana_build_update_task fr params =
     rbind (asana_required_id fr params ''task_id'') (\<lambda>task_id.
     let document = dict_get params ''document'' JNull in
     if \<not> is_obj document \<or> \<not> py_bool document then raise ValueError
         ''Asana: 'document' must be a non-empty JSON object''
     else Inr (''PUT'', ''/tasks/'' @ task_id, Some [(''data'', JObj (obj_of document))], []))"

definition asana_build_delete_task :: "(rat \<Rightarrow> string) \<Rightarrow> jobj \<Rightarrow> request_spec result" where
  "asana_build_delete_task fr params =
     rbind (asana_required_id fr params ''task_id'') (\<lambda>task_id.
     Inr (''DELETE'', ''/tasks/'' @ task_id, None, []))"

definition asana_build_add_comment :: "(rat \<Rightarrow> string) \<Rightarrow> jobj \<Rightarrow> request_spec result" where
  "asana_build_add_comment fr params =
     rbind (asana_required_id fr params ''task_id'') (\<lambda>task_id.
     let text = text_param fr params ''text'' in
     let html_text = text_param fr params ''html_text'' in
     if text = [] \<and> html_text = [] then raise ValueError (''Asana: add_comment requires 'text' or 'html_text''
         @ [CHR 0x27])
     else let body = ([] :: jobj) in
     let body = (if html_text \<noteq> [] then dict_set ''html_text'' (JStr html_text) body else dict_set ''text''
         (JStr text) body) in
     let is_pinned = dict_get params ''is_pinned'' JNull in
     let body = (if is_pinned \<noteq> JNull then dict_set ''is_pinned'' (JBool (py_bool is_pinned)) body else body) in
     Inr (''POST'', ''/tasks/'' @ task_id @ ''/stories'', Some [(''data'', JObj body)], []))"

definition asana_BUILDERS :: "(rat \<Rightarrow> string) \<Rightarrow> (string, jobj \<Rightarrow> request_spec result) dict" where
  "asana_BUILDERS fr =
     [(''list_tasks'', asana_build_list_tasks fr),
      (''get_task'', asana_build_get_task fr),
      (''create_task'', asana_build_create_task fr),
      (''update_task'', asana_build_update_task fr),
      (''delete_task'', asana_build_delete_task fr),
      (''add_comment'', asana_build_add_comment fr)]"

definition asana_build_request :: "(rat \<Rightarrow> string) \<Rightarrow> string \<Rightarrow> jobj \<Rightarrow> request_spec result" where
  "asana_build_request fr operation params =
     (case map_of (asana_BUILDERS fr) operation of
        None \<Rightarrow> raise ValueError (''Asana: unsupported operation '' @ repr_str operation)
      | Some builder \<Rightarrow> builder params)"

lemma asana_coerce_string_list_ok: "ensures (\<lambda>_. True) (asana_coerce_string_list fr raw field)"
  unfolding asana_coerce_string_list_def
  by (rule ensures_rules | simp)+

lemma asana_coerce_page_size_ok: "ensures (\<lambda>v. 1 \<le> v \<and> v \<le> 100) (asana_coerce_page_size raw)"
  unfolding asana_coerce_page_size_def
  by (rule ensures_rules | simp)+

lemma asana_build_list_tasks_ok: "ensures (request_ok (Some 1)) (asana_build_list_tasks fr params)"
  unfolding asana_build_list_tasks_def
  by (rule asana_coerce_string_list_ok [THEN ensures_bind] asana_coerce_string_list_ok [THEN ensures_weaken] asana_coerce_page_size_ok [THEN ensures_bind] asana_coerce_page_size_ok [THEN ensures_weaken] ensures_rules | simp add: request_ok_def METHODS_def)+

lemma asana_required_id_ok: "ensures (\<lambda>s. slashes s = 0) (asana_required_id fr params key)"
  unfolding asana_required_id_def
  by (rule ensures_rules | simp)+

lemma asana_build_get_task_ok: "ensures (request_ok (Some 2)) (asana_build_get_task fr params)"
  unfolding asana_build_get_task_def
  by (rule asana_required_id_ok [THEN ensures_bind] asana_required_id_ok [THEN ensures_weaken] asana_coerce_string_list_ok [THEN ensures_bind] asana_coerce_string_list_ok [THEN ensures_weaken] ensures_rules | simp add: request_ok_def METHODS_def)+

lemma asana_build_create_task_ok: "ensures (request_ok (Some 1)) (asana_build_create_task fr params)"
  unfolding asana_build_create_task_def
  by (rule ensures_rules | simp add: request_ok_def METHODS_def)+

lemma asana_build_update_task_ok: "ensures (request_ok (Some 2)) (asana_build_update_task fr params)"
  unfolding asana_build_update_task_def
  by (rule asana_required_id_ok [THEN ensures_bind] asana_required_id_ok [THEN ensures_weaken] ensures_rules | simp add: request_ok_def METHODS_def)+

lemma asana_build_delete_task_ok: "ensures (request_ok (Some 2)) (asana_build_delete_task fr params)"
  unfolding asana_build_delete_task_def
  by (rule asana_required_id_ok [THEN ensures_bind] asana_required_id_ok [THEN ensures_weaken] ensures_rules | simp add: request_ok_def METHODS_def)+

lemma asana_build_add_comment_ok: "ensures (request_ok (Some 3)) (asana_build_add_comment fr params)"
  unfolding asana_build_add_comment_def
  by (rule asana_required_id_ok [THEN ensures_bind] asana_required_id_ok [THEN ensures_weaken] ensures_rules | simp add: request_ok_def METHODS_def)+

definition asana_shape :: "(string, nat option) dict" where
  "asana_shape =
     [(''list_tasks'', Some 1), (''get_task'', Some 2), (''create_task'', Some 1), (''update_task'', Some 2),
         (''delete_task'', Some 2), (''add_comment'', Some 3)]"

interpretation asana: request_builder "asana_build_request fr" asana_shape for fr
  by (rule request_builder_table [OF asana_build_request_def])
    (simp_all del: One_nat_def add: asana_BUILDERS_def asana_shape_def
      asana_build_list_tasks_ok asana_build_get_task_ok asana_build_create_task_ok
      asana_build_update_task_ok asana_build_delete_task_ok asana_build_add_comment_ok)

section \<open>Asc\<close>

definition asc_limit_query :: "(rat \<Rightarrow> string) \<Rightarrow> jobj \<Rightarrow> jobj result" where
  "asc_limit_query fr params =
     (let limit = text_param fr params ''limit'' in
     if limit = [] then Inr []
     else (case py_int_of_string limit of
       None \<Rightarrow> raise ValueError (''ASC: 'limit' must be an integer - got '' @ repr_str limit)
     | Some value \<Rightarrow>
       if value < 1 \<or> 200 < value then raise ValueError ''ASC: 'limit' must be between 1 and 200''
       else Inr [(''limit'', JStr (show_int value))]))"

definition asc_build_list_apps :: "(rat \<Rightarrow> string) \<Rightarrow> jobj \<Rightarrow> (string \<times> string \<times> jobj) result" where
  "asc_build_list_apps fr params =
     rbind (asc_limit_query fr params) (\<lambda>r1.
     Inr (''GET'', ''/v1/apps'', r1))"

definition asc_required_str :: "(rat \<Rightarrow> string) \<Rightarrow> jobj \<Rightarrow> string \<Rightarrow> string result" where
  "asc_required_str fr params key =
     (let value = text_param fr params key in
     if value = [] then raise ValueError (''ASC: '' @ repr_str key @ '' is required'')
     else Inr value)"

definition asc_build_get_app :: "(rat \<Rightarrow> string) \<Rightarrow> jobj \<Rightarrow> (string \<times> string \<times> jobj) result" where
  "asc_build_get_app fr params =
     rbind (asc_required_str fr params ''app_id'') (\<lambda>app_id.
     Inr (''GET'', ''/v1/apps/'' @ app_id, []))"

definition asc_build_list_builds :: "(rat \<Rightarrow> string) \<Rightarrow> jobj \<Rightarrow> (string \<times> string \<times> jobj) result" where
  "asc_build_list_builds fr params =
     rbind (asc_limit_query fr params) (\<lambda>query.
     let app_id = text_param fr params ''app_id'' in
     let query = (if app_id \<noteq> [] then dict_set ''filter[app]'' (JStr app_id) query else query) in
     Inr (''GET'', ''/v1/builds'', query))"

definition asc_build_list_beta_testers :: "(rat \<Rightarrow> string) \<Rightarrow> jobj \<Rightarrow> (string \<times> string \<times> jobj) result" where
  "asc_build_list_beta_testers fr params =
     rbind (asc_limit_query fr params) (\<lambda>r1.
     Inr (''GET'', ''/v1/betaTesters'', r1))"

definition asc_BUILDERS :: "(rat \<Rightarrow> string) \<Rightarrow> (string, jobj \<Rightarrow> (string \<times> string \<times> jobj) result) dict" where
  "asc_BUILDERS fr =
     [(''list_apps'', asc_build_list_apps fr),
      (''get_app'', asc_build_get_app fr),
      (''list_builds'', asc_build_list_builds fr),
      (''list_beta_testers'', asc_build_list_beta_testers fr)]"

definition asc_build_request :: "(rat \<Rightarrow> string) \<Rightarrow> string \<Rightarrow> jobj \<Rightarrow> (string \<times> string \<times> jobj) result" where
  "asc_build_request fr operation params =
     (case map_of (asc_BUILDERS fr) operation of
        None \<Rightarrow> raise ValueError (''ASC: unsupported operation '' @ repr_str operation)
      | Some builder \<Rightarrow> builder params)"

lemma asc_limit_query_ok: "ensures (\<lambda>_. True) (asc_limit_query fr params)"
  unfolding asc_limit_query_def
  by (rule ensures_rules | simp)+

lemma asc_build_list_apps_ok: "ensures (request_ok (Some 2)) (asc_build_list_apps fr params)"
  unfolding asc_build_list_apps_def
  by (rule asc_limit_query_ok [THEN ensures_bind] asc_limit_query_ok [THEN ensures_weaken] ensures_rules | simp add: request_ok_def METHODS_def)+

lemma asc_required_str_ok: "ensures (\<lambda>_. True) (asc_required_str fr params key)"
  unfolding asc_required_str_def
  by (rule ensures_rules | simp)+

lemma asc_build_get_app_ok: "ensures (request_ok None) (asc_build_get_app fr params)"
  unfolding asc_build_get_app_def
  by (rule asc_required_str_ok [THEN ensures_bind] asc_required_str_ok [THEN ensures_weaken] ensures_rules | simp add: request_ok_def METHODS_def)+

lemma asc_build_list_builds_ok: "ensures (request_ok (Some 2)) (asc_build_list_builds fr params)"
  unfolding asc_build_list_builds_def
  by (rule asc_limit_query_ok [THEN ensures_bind] asc_limit_query_ok [THEN ensures_weaken] ensures_rules | simp add: request_ok_def METHODS_def)+

lemma asc_build_list_beta_testers_ok: "ensures (request_ok (Some 2)) (asc_build_list_beta_testers fr params)"
  unfolding asc_build_list_beta_testers_def
  by (rule asc_limit_query_ok [THEN ensures_bind] asc_limit_query_ok [THEN ensures_weaken] ensures_rules | simp add: request_ok_def METHODS_def)+

definition asc_shape :: "(string, nat option) dict" where
  "asc_shape =
     [(''list_apps'', Some 2), (''get_app'', None), (''list_builds'', Some 2), (''list_beta_testers'', Some 2)]"

interpretation asc: request_builder "asc_build_request fr" asc_shape for fr
  by (rule request_builder_table [OF asc_build_request_def])
    (simp_all del: One_nat_def add: asc_BUILDERS_def asc_shape_def
      asc_build_list_apps_ok asc_build_get_app_ok asc_build_list_builds_ok
      asc_build_list_beta_testers_ok)

section \<open>Aws s3\<close>

definition aws_s3_build_list_buckets :: "jobj \<Rightarrow> string \<times> string \<times> jobj \<times> jobj \<times> string" where
  "aws_s3_build_list_buckets params =
     (''GET'', ''/'', [], [], [])"

definition aws_s3_required :: "(rat \<Rightarrow> string) \<Rightarrow> jobj \<Rightarrow> string \<Rightarrow> string result" where
  "aws_s3_required fr params key =
     (let value = text_param fr params key in
     if value = [] then raise ValueError (''AWS S3: '' @ repr_str key @ '' is required'')
     else Inr value)"

definition aws_s3_coerce_max_keys :: "json \<Rightarrow> int result" where
  "aws_s3_coerce_max_keys raw =
     (if is_blank raw then Inr 1000
     else (case int_of_json raw of
       None \<Rightarrow> raise ValueError ''AWS S3: 'max_keys' must be a positive integer''
     | Some value \<Rightarrow>
       if value < 1 then raise ValueError ''AWS S3: 'max_keys' must be >= 1''
       else Inr (min value 1000)))"

definition aws_s3_build_list_objects :: "(rat \<Rightarrow> string) \<Rightarrow> jobj \<Rightarrow> (string \<times> string \<times> jobj \<times> jobj \<times> string)
    result" where
  "aws_s3_build_list_objects fr params =
     rbind (aws_s3_required fr params ''bucket'') (\<lambda>bucket.
     rbind (aws_s3_coerce_max_keys (dict_get params ''max_keys'' JNull)) (\<lambda>r2.
     let query = [(''list-type'', JStr ''2''), (''max-keys'', JStr (show_int r2))] in
     let prefix = text_param fr params ''prefix'' in
     let query = (if prefix \<noteq> [] then dict_set ''prefix'' (JStr prefix) query else query) in
     let delimiter = text_param fr params ''delimiter'' in
     let query = (if delimiter \<noteq> [] then dict_set ''delimiter'' (JStr delimiter) query else query) in
     let continuation = text_param fr params ''continuation_token'' in
     let query = (if continuation \<noteq> [] then dict_set ''continuation-token'' (JStr continuation) query else
         query) in
     Inr (''GET'', ''/'', query, [], bucket)))"

definition aws_s3_object_path :: "string \<Rightarrow> string" where
  "aws_s3_object_path key =
     ''/'' @ (lstrip_chars (\<lambda>c. c \<in> set ''/'') key)"

definition aws_s3_build_head_object :: "(rat \<Rightarrow> string) \<Rightarrow> jobj \<Rightarrow> (string \<times> string \<times> jobj \<times> jobj \<times> string)
    result" where
  "aws_s3_build_head_object fr params =
     rbind (aws_s3_required fr params ''bucket'') (\<lambda>bucket.
     rbind (aws_s3_required fr params ''key'') (\<lambda>key.
     Inr (''HEAD'', aws_s3_object_path key, [], [], bucket)))"

definition aws_s3_build_get_object :: "(rat \<Rightarrow> string) \<Rightarrow> jobj \<Rightarrow> (string \<times> string \<times> jobj \<times> jobj \<times> string) result"
    where
  "aws_s3_build_get_object fr params =
     rbind (aws_s3_required fr params ''bucket'') (\<lambda>bucket.
     rbind (aws_s3_required fr params ''key'') (\<lambda>key.
     Inr (''GET'', aws_s3_object_path key, [], [], bucket)))"

definition aws_s3_build_delete_object :: "(rat \<Rightarrow> string) \<Rightarrow> jobj \<Rightarrow> (string \<times> string \<times> jobj \<times> jobj \<times> string)
    result" where
  "aws_s3_build_delete_object fr params =
     rbind (aws_s3_required fr params ''bucket'') (\<lambda>bucket.
     rbind (aws_s3_required fr params ''key'') (\<lambda>key.
     Inr (''DELETE'', aws_s3_object_path key, [], [], bucket)))"

definition aws_s3_build_copy_object :: "(rat \<Rightarrow> string) \<Rightarrow> jobj \<Rightarrow> (string \<times> string \<times> jobj \<times> jobj \<times> string)
    result" where
  "aws_s3_build_copy_object fr params =
     rbind (aws_s3_required fr params ''bucket'') (\<lambda>bucket.
     rbind (aws_s3_required fr params ''key'') (\<lambda>key.
     rbind (aws_s3_required fr params ''source_bucket'') (\<lambda>source_bucket.
     rbind (aws_s3_required fr params ''source_key'') (\<lambda>source_key.
     let headers = [(''x-amz-copy-source'', JStr (''/'' @ source_bucket @ ''/'' @ lstrip_chars (\<lambda>c. c \<in> set
         ''/'') source_key))] in
     Inr (''PUT'', aws_s3_object_path key, [], headers, bucket)))))"

definition aws_s3_BUILDERS :: "(rat \<Rightarrow> string) \<Rightarrow> (string, jobj \<Rightarrow> (string \<times> string \<times> jobj \<times> jobj \<times> string)
    result) dict" where
  "aws_s3_BUILDERS fr =
     [(''list_buckets'', \<lambda>params. Inr (aws_s3_build_list_buckets params)),
      (''list_objects'', aws_s3_build_list_objects fr),
      (''head_object'', aws_s3_build_head_object fr),
      (''get_object'', aws_s3_build_get_object fr),
      (''delete_object'', aws_s3_build_delete_object fr),
      (''copy_object'', aws_s3_build_copy_object fr)]"

definition aws_s3_build_request :: "(rat \<Rightarrow> string) \<Rightarrow> string \<Rightarrow> jobj \<Rightarrow> (string \<times> string \<times> jobj \<times> jobj \<times> string)
    result" where
  "aws_s3_build_request fr operation params =
     (case map_of (aws_s3_BUILDERS fr) operation of
        None \<Rightarrow> raise ValueError (''AWS S3: unsupported operation '' @ repr_str operation)
      | Some builder \<Rightarrow> builder params)"

lemma aws_s3_build_list_buckets_ok: "ensures (request_ok (Some 1)) (Inr (aws_s3_build_list_buckets params))"
  by (rule ensures_Inr) (simp add: aws_s3_build_list_buckets_def request_ok_def METHODS_def Let_def)

lemma aws_s3_required_ok: "ensures (\<lambda>_. True) (aws_s3_required fr params key)"
  unfolding aws_s3_required_def
  by (rule ensures_rules | simp)+

lemma aws_s3_coerce_max_keys_ok: "ensures (\<lambda>v. 1 \<le> v \<and> v \<le> 1000) (aws_s3_coerce_max_keys raw)"
  unfolding aws_s3_coerce_max_keys_def
  by (rule ensures_rules | simp)+

lemma aws_s3_build_list_objects_ok: "ensures (request_ok (Some 1)) (aws_s3_build_list_objects fr params)"
  unfolding aws_s3_build_list_objects_def
  by (rule aws_s3_required_ok [THEN ensures_bind] aws_s3_required_ok [THEN ensures_weaken] aws_s3_coerce_max_keys_ok [THEN ensures_bind] aws_s3_coerce_max_keys_ok [THEN ensures_weaken] ensures_rules | simp add: request_ok_def METHODS_def)+

lemma aws_s3_build_head_object_ok: "ensures (request_ok None) (aws_s3_build_head_object fr params)"
  unfolding aws_s3_build_head_object_def
  by (rule aws_s3_required_ok [THEN ensures_bind] aws_s3_required_ok [THEN ensures_weaken] ensures_rules | simp add: request_ok_def METHODS_def)+

lemma aws_s3_build_get_object_ok: "ensures (request_ok None) (aws_s3_build_get_object fr params)"
  unfolding aws_s3_build_get_object_def
  by (rule aws_s3_required_ok [THEN ensures_bind] aws_s3_required_ok [THEN ensures_weaken] ensures_rules | simp add: request_ok_def METHODS_def)+

lemma aws_s3_build_delete_object_ok: "ensures (request_ok None) (aws_s3_build_delete_object fr params)"
  unfolding aws_s3_build_delete_object_def
  by (rule aws_s3_required_ok [THEN ensures_bind] aws_s3_required_ok [THEN ensures_weaken] ensures_rules | simp add: request_ok_def METHODS_def)+

lemma aws_s3_build_copy_object_ok: "ensures (request_ok None) (aws_s3_build_copy_object fr params)"
  unfolding aws_s3_build_copy_object_def
  by (rule aws_s3_required_ok [THEN ensures_bind] aws_s3_required_ok [THEN ensures_weaken] ensures_rules | simp add: request_ok_def METHODS_def)+

definition aws_s3_shape :: "(string, nat option) dict" where
  "aws_s3_shape =
     [(''list_buckets'', Some 1), (''list_objects'', Some 1), (''head_object'', None), (''get_object'', None),
         (''delete_object'', None), (''copy_object'', None)]"

interpretation aws_s3: request_builder "aws_s3_build_request fr" aws_s3_shape for fr
  by (rule request_builder_table [OF aws_s3_build_request_def])
    (simp_all del: One_nat_def add: aws_s3_BUILDERS_def aws_s3_shape_def
      aws_s3_build_list_buckets_ok aws_s3_build_list_objects_ok aws_s3_build_head_object_ok
      aws_s3_build_get_object_ok aws_s3_build_delete_object_ok aws_s3_build_copy_object_ok)

section \<open>Backblaze b2\<close>

definition backblaze_b2_required :: "(rat \<Rightarrow> string) \<Rightarrow> jobj \<Rightarrow> string \<Rightarrow> string result" where
  "backblaze_b2_required fr params key =
     (let value = text_param fr params key in
     if value = [] then raise ValueError (''Backblaze B2: '' @ repr_str key @ '' is required'')
     else Inr value)"

definition backblaze_b2_build_list_buckets :: "(rat \<Rightarrow> string) \<Rightarrow> jobj \<Rightarrow> (string \<times> jobj) result" where
  "backblaze_b2_build_list_buckets fr params =
     rbind (backblaze_b2_required fr params ''account_id'') (\<lambda>account_id.
     let body = [(''accountId'', JStr account_id)] in
     let bucket_id = text_param fr params ''bucket_id'' in
     let body = (if bucket_id \<noteq> [] then dict_set ''bucketId'' (JStr bucket_id) body else body) in
     let bucket_name = text_param fr params ''bucket'' in
     let body = (if bucket_name \<noteq> [] then dict_set ''bucketName'' (JStr bucket_name) body else body) in
     Inr (''/b2api/v3/b2_list_buckets'', body))"

definition backblaze_b2_coerce_max_file_count :: "json \<Rightarrow> int result" where
  "backblaze_b2_coerce_max_file_count raw =
     (if is_blank raw then Inr 100
     else (case int_of_json raw of
       None \<Rightarrow> raise ValueError ''Backblaze B2: 'max_file_count' must be a positive integer''
     | Some value \<Rightarrow>
       if value < 1 then raise ValueError ''Backblaze B2: 'max_file_count' must be >= 1''
       else Inr (min value 10000)))"

definition backblaze_b2_build_list_file_names :: "(rat \<Rightarrow> string) \<Rightarrow> jobj \<Rightarrow> (string \<times> jobj) result" where
  "backblaze_b2_build_list_file_names fr params =
     rbind (backblaze_b2_required fr params ''bucket_id'') (\<lambda>bucket_id.
     rbind (backblaze_b2_coerce_max_file_count (dict_get params ''max_file_count'' JNull)) (\<lambda>r2.
     let body = [(''bucketId'', JStr bucket_id), (''maxFileCount'', JInt r2)] in
     let prefix = text_param fr params ''prefix'' in
     let body = (if prefix \<noteq> [] then dict_set ''prefix'' (JStr prefix) body else body) in
     let start_file_name = text_param fr params ''start_file_name'' in
     let body = (if start_file_name \<noteq> [] then dict_set ''startFileName'' (JStr start_file_name) body else body)
         in
     let delimiter = text_param fr params ''delimiter'' in
     let body = (if delimiter \<noteq> [] then dict_set ''delimiter'' (JStr delimiter) body else body) in
     Inr (''/b2api/v3/b2_list_file_names'', body)))"

definition backblaze_b2_build_get_upload_url :: "(rat \<Rightarrow> string) \<Rightarrow> jobj \<Rightarrow> (string \<times> jobj) result" where
  "backblaze_b2_build_get_upload_url fr params =
     rbind (backblaze_b2_required fr params ''bucket_id'') (\<lambda>bucket_id.
     Inr (''/b2api/v3/b2_get_upload_url'', [(''bucketId'', JStr bucket_id)]))"

definition backblaze_b2_build_delete_file_version :: "(rat \<Rightarrow> string) \<Rightarrow> jobj \<Rightarrow> (string \<times> jobj) result" where
  "backblaze_b2_build_delete_file_version fr params =
     rbind (backblaze_b2_required fr params ''file_id'') (\<lambda>file_id.
     rbind (backblaze_b2_required fr params ''file_name'') (\<lambda>file_name.
     Inr (''/b2api/v3/b2_delete_file_version'', [(''fileId'', JStr file_id), (''fileName'', JStr file_name)])))"

definition backblaze_b2_BUILDERS :: "(rat \<Rightarrow> string) \<Rightarrow> (string, jobj \<Rightarrow> (string \<times> jobj) result) dict" where
  "backblaze_b2_BUILDERS fr =
     [(''list_buckets'', backblaze_b2_build_list_buckets fr),
      (''list_file_names'', backblaze_b2_build_list_file_names fr),
      (''get_upload_url'', backblaze_b2_build_get_upload_url fr),
      (''delete_file_version'', backblaze_b2_build_delete_file_version fr)]"

definition backblaze_b2_build_request :: "(rat \<Rightarrow> string) \<Rightarrow> string \<Rightarrow> jobj \<Rightarrow> (string \<times> jobj) result" where
  "backblaze_b2_build_request fr operation params =
     (case map_of (backblaze_b2_BUILDERS fr) operation of
        None \<Rightarrow> raise ValueError (''Backblaze B2: unsupported operation '' @ repr_str operation)
      | Some builder \<Rightarrow> builder params)"

lemma backblaze_b2_required_ok: "ensures (\<lambda>_. True) (backblaze_b2_required fr params key)"
  unfolding backblaze_b2_required_def
  by (rule ensures_rules | simp)+

lemma backblaze_b2_build_list_buckets_ok: "ensures (\<lambda>_. True) (backblaze_b2_build_list_buckets fr params)"
  unfolding backblaze_b2_build_list_buckets_def
  by (rule backblaze_b2_required_ok [THEN ensures_bind] backblaze_b2_required_ok [THEN ensures_weaken] ensures_rules | simp)+

lemma backblaze_b2_coerce_max_file_count_ok: "ensures (\<lambda>v. 1 \<le> v \<and> v \<le> 10000) (backblaze_b2_coerce_max_file_count raw)"
  unfolding backblaze_b2_coerce_max_file_count_def
  by (rule ensures_rules | simp)+

lemma backblaze_b2_build_list_file_names_ok: "ensures (\<lambda>_. True) (backblaze_b2_build_list_file_names fr params)"
  unfolding backblaze_b2_build_list_file_names_def
  by (rule backblaze_b2_required_ok [THEN ensures_bind] backblaze_b2_required_ok [THEN ensures_weaken] backblaze_b2_coerce_max_file_count_ok [THEN ensures_bind] backblaze_b2_coerce_max_file_count_ok [THEN ensures_weaken] ensures_rules | simp)+

lemma backblaze_b2_build_get_upload_url_ok: "ensures (\<lambda>_. True) (backblaze_b2_build_get_upload_url fr params)"
  unfolding backblaze_b2_build_get_upload_url_def
  by (rule backblaze_b2_required_ok [THEN ensures_bind] backblaze_b2_required_ok [THEN ensures_weaken] ensures_rules | simp)+

lemma backblaze_b2_build_delete_file_version_ok: "ensures (\<lambda>_. True) (backblaze_b2_build_delete_file_version fr params)"
  unfolding backblaze_b2_build_delete_file_version_def
  by (rule backblaze_b2_required_ok [THEN ensures_bind] backblaze_b2_required_ok [THEN ensures_weaken] ensures_rules | simp)+


end
