(* ===== verification/Builders_2.thy ===== *)
theory Builders_2
  imports Requests
begin

text \<open>
  Request builders of the integrations \<open>binance\<close>, \<open>box\<close>, \<open>brevo\<close>, \<open>clickup\<close>, \<open>cloudinary\<close>, \<open>coinbase\<close>, \<open>contentful\<close>, \<open>discord\<close>
  (\<open>nodes/integrations/<name>/operations.py\<close>), one definition per function of the module, prefixed
  with the name of the integration; constants of \<open>constants.py\<close> stand with their values, and an em dash
  in a message is a hyphen. \<open>fr\<close> prints a float. Each lemma \<open><function>_ok\<close> states what the function
  ensures: it raises nothing but \<open>ValueError\<close>, an identifier it returns has no slash, a number is
  within its bounds, a request has a known method and a path with a fixed number of slashes. The
  interpretation shows that the module keeps the interface of the nodes.
\<close>

section \<open>Binance\<close>

definition binance_is_signed :: "string \<Rightarrow> bool" where
  "binance_is_signed operation =
     (operation \<in> set [''account_info'', ''place_order'', ''cancel_order''])"

definition binance_build_account_info :: "jobj \<Rightarrow> string \<times> string \<times> jobj" where
  "binance_build_account_info params =
     (''GET'', ''/api/v3/account'', [])"

definition binance_build_get_ticker_price :: "(rat \<Rightarrow> string) \<Rightarrow> jobj \<Rightarrow> string \<times> string \<times> jobj" where
  "binance_build_get_ticker_price fr params =
     (let query = ([] :: jobj) in
     let symbol = py_upper (text_param fr params ''symbol'') in
     let query = (if symbol \<noteq> [] then dict_set ''symbol'' (JStr symbol) query else query) in
     (''GET'', ''/api/v3/ticker/price'', query))"

definition binance_required_str :: "(rat \<Rightarrow> string) \<Rightarrow> jobj \<Rightarrow> string \<Rightarrow> string result" where
  "binance_required_str fr params key =
     (let value = text_param fr params key in
     if value = [] then raise ValueError (''Binance: '' @ repr_str key @ '' is required'')
     else Inr value)"

definition binance_build_place_order :: "(rat \<Rightarrow> string) \<Rightarrow> jobj \<Rightarrow> (string \<times> string \<times> jobj) result" where
  "binance_build_place_order fr params =
     rbind (binance_required_str fr params ''symbol'') (\<lambda>r1.
     let symbol = py_upper r1 in
     let side = py_lower (text_param fr params ''side'') in
     if side \<notin> set [''buy'', ''sell''] then raise ValueError
         (''Binance: 'side' must be 'buy' or 'sell' - got '' @ repr_str side)
     else let order_type = py_lower (py_strip (py_str fr (param_or params ''order_type'' (JStr ''limit'')))) in
     if order_type \<notin> set [''limit'', ''market''] then raise ValueError
         (''Binance: 'order_type' must be 'limit' or 'market' - got '' @ repr_str order_type)
     else let query = [(''symbol'', JStr symbol), (''side'', JStr (py_upper side)), (''type'', JStr (py_upper
         order_type))] in
     let quantity = text_param fr params ''quantity'' in
     let quote_qty = text_param fr params ''quote_order_qty'' in
     rbind (if order_type = ''limit'' then (rbind (binance_required_str fr params ''price'') (\<lambda>r2.
       let query = dict_set ''price'' (JStr r2) query in
       if quantity = [] then raise ValueError ''Binance: 'quantity' is required for limit orders''
       else let query = dict_set ''quantity'' (JStr quantity) query in
       let tif = py_upper (py_strip (py_str fr (param_or params ''time_in_force'' (JStr ''GTC'')))) in
       Inr (dict_set ''timeInForce'' (JStr tif) query))) else (if quantity = [] \<and> quote_qty = [] then raise
           ValueError (''Binance: market orders require 'quantity' or 'quote_order_qty'' @ [CHR 0x27])
       else let query = (if quantity \<noteq> [] then dict_set ''quantity'' (JStr quantity) query else query) in
       Inr (if quote_qty \<noteq> [] then dict_set ''quoteOrderQty'' (JStr quote_qty) query else query))) (\<lambda>query.
     let client_order_id = text_param fr params ''client_order_id'' in
     let query = (if client_order_id \<noteq> [] then dict_set ''newClientOrderId'' (JStr client_order_id) query else
         query) in
     Inr (''POST'', ''/api/v3/order'', query)))"

definition binance_build_cancel_order :: "(rat \<Rightarrow> string) \<Rightarrow> jobj \<Rightarrow> (string \<times> string \<times> jobj) result" where
  "binance_build_cancel_order fr params =
     rbind (binance_required_str fr params ''symbol'') (\<lambda>r1.
     let symbol = py_upper r1 in
     let order_id = text_param fr params ''order_id'' in
     let orig_client_id = text_param fr params ''orig_client_order_id'' in
     if order_id = [] \<and> orig_client_id = [] then raise ValueError
         (''Binance: cancel requires 'order_id' or 'orig_client_order_id'' @ [CHR 0x27])
     else let query = [(''symbol'', JStr symbol)] in
     let query = (if order_id \<noteq> [] then dict_set ''orderId'' (JStr order_id) query else query) in
     let query = (if orig_client_id \<noteq> [] then dict_set ''origClientOrderId'' (JStr orig_client_id) query else
         query) in
     Inr (''DELETE'', ''/api/v3/order'', query))"

definition binance_BUILDERS :: "(rat \<Rightarrow> string) \<Rightarrow> (string, jobj \<Rightarrow> (string \<times> string \<times> jobj) result) dict" where
  "binance_BUILDERS fr =
     [(''account_info'', \<lambda>params. Inr (binance_build_account_info params)),
      (''get_ticker_price'', \<lambda>params. Inr (binance_build_get_ticker_price fr params)),
      (''place_order'', binance_build_place_order fr),
      (''cancel_order'', binance_build_cancel_order fr)]"

definition binance_build_request :: "(rat \<Rightarrow> string) \<Rightarrow> string \<Rightarrow> jobj \<Rightarrow> (string \<times> string \<times> jobj) result" where
  "binance_build_request fr operation params =
     (case map_of (binance_BUILDERS fr) operation of
        None \<Rightarrow> raise ValueError (''Binance: unsupported operation '' @ repr_str operation)
      | Some builder \<Rightarrow> builder params)"

lemma binance_build_account_info_ok: "ensures (request_ok (Some 3)) (Inr (binance_build_account_info params))"
  by (rule ensures_Inr) (simp add: binance_build_account_info_def request_ok_def METHODS_def Let_def)

lemma binance_build_get_ticker_price_ok: "ensures (request_ok (Some 4)) (Inr (binance_build_get_ticker_price fr params))"
  by (rule ensures_Inr) (simp add: binance_build_get_ticker_price_def request_ok_def METHODS_def Let_def)

lemma binance_required_str_ok: "ensures (\<lambda>_. True) (binance_required_str fr params key)"
  unfolding binance_required_str_def
  by (rule ensures_rules | simp)+

lemma binance_build_place_order_ok: "ensures (request_ok (Some 3)) (binance_build_place_order fr params)"
  unfolding binance_build_place_order_def
  by (rule binance_required_str_ok [THEN ensures_bind] binance_required_str_ok [THEN ensures_weaken] ensures_rules | simp add: request_ok_def METHODS_def)+

lemma binance_build_cancel_order_ok: "ensures (request_ok (Some 3)) (binance_build_cancel_order fr params)"
  unfolding binance_build_cancel_order_def
  by (rule binance_required_str_ok [THEN ensures_bind] binance_required_str_ok [THEN ensures_weaken] ensures_rules | simp add: request_ok_def METHODS_def)+

definition binance_shape :: "(string, nat option) dict" where
  "binance_shape =
     [(''account_info'', Some 3), (''get_ticker_price'', Some 4), (''place_order'', Some 3), (''cancel_order'',
         Some 3)]"

interpretation binance: request_builder "binance_build_request fr" binance_shape for fr
  by (rule request_builder_table [OF binance_build_request_def])
    (simp_all del: One_nat_def add: binance_BUILDERS_def binance_shape_def
      binance_build_account_info_ok binance_build_get_ticker_price_ok binance_build_place_order_ok
      binance_build_cancel_order_ok)

section \<open>Box\<close>

definition box_coerce_string_list :: "(rat \<Rightarrow> string) \<Rightarrow> json \<Rightarrow> string \<Rightarrow> string list result" where
  "box_coerce_string_list fr raw field =
     (if raw = JNull \<or> raw = JStr [] then Inr []
     else if is_str raw then Inr (map (\<lambda>part. py_strip part) (filter (\<lambda>part. py_strip part \<noteq> []) (split_on CHR
         '','' (str_of raw))))
     else if is_arr raw then Inr (map (\<lambda>part. py_strip (py_str fr part)) (filter (\<lambda>part. py_strip (py_str fr
         part) \<noteq> []) (arr_of raw)))
     else raise ValueError (''Box: '' @ repr_str field @ '' must be a string or list of strings''))"

definition box_coerce_page_size :: "json \<Rightarrow> int result" where
  "box_coerce_page_size raw =
     (if is_blank raw then Inr 100
     else (case int_of_json raw of
       None \<Rightarrow> raise ValueError ''Box: 'limit' must be a positive integer''
     | Some value \<Rightarrow>
       if value < 1 then raise ValueError ''Box: 'limit' must be >= 1''
       else Inr (min value 1000)))"

definition box_coerce_non_negative_int :: "json \<Rightarrow> string \<Rightarrow> int result" where
  "box_coerce_non_negative_int raw field =
     (case int_of_json raw of
       None \<Rightarrow> raise ValueError (''Box: '' @ repr_str field @ '' must be a non-negative integer'')
     | Some value \<Rightarrow>
       Inr (max 0 value))"

definition box_build_list_folder :: "(rat \<Rightarrow> string) \<Rightarrow> jobj \<Rightarrow> request_spec result" where
  "box_build_list_folder fr params =
     (let folder_id = (if py_strip (py_str fr (param_or params ''folder_id'' (JStr ''0''))) \<noteq> [] then py_strip
         (py_str fr (param_or params ''folder_id'' (JStr ''0''))) else ''0'') in
     rbind (box_coerce_page_size (dict_get params ''limit'' JNull)) (\<lambda>r1.
     let query = [(''limit'', JInt r1)] in
     let offset = dict_get params ''offset'' JNull in
     rbind (if offset \<noteq> JNull \<and> offset \<noteq> JStr [] then (rbind (box_coerce_non_negative_int offset ''offset'')
         (\<lambda>r2.
       Inr (dict_set ''offset'' (JInt r2) query))) else Inr query) (\<lambda>query.
     rbind (box_coerce_string_list fr (dict_get params ''fields'' JNull) ''fields'') (\<lambda>fields.
     let query = (if fields \<noteq> [] then dict_set ''fields'' (JStr (join '','' fields)) query else query) in
     Inr (''GET'', ''/folders/'' @ url_quote [] folder_id @ ''/items'', None, query)))))"

definition box_required :: "(rat \<Rightarrow> string) \<Rightarrow> jobj \<Rightarrow> string \<Rightarrow> string result" where
  "box_required fr params key =
     (let value = text_param fr params key in
     if value = [] then raise ValueError (''Box: '' @ repr_str key @ '' is required'')
     else Inr value)"

definition box_build_get_file :: "(rat \<Rightarrow> string) \<Rightarrow> jobj \<Rightarrow> request_spec result" where
  "box_build_get_file fr params =
     rbind (box_required fr params ''file_id'') (\<lambda>file_id.
     rbind (box_coerce_string_list fr (dict_get params ''fields'' JNull) ''fields'') (\<lambda>fields.
     let query = ([] :: jobj) in
     let query = (if fields \<noteq> [] then dict_set ''fields'' (JStr (join '','' fields)) query else query) in
     Inr (''GET'', ''/files/'' @ url_quote [] file_id, None, query)))"

definition box_build_delete_file :: "(rat \<Rightarrow> string) \<Rightarrow> jobj \<Rightarrow> request_spec result" where
  "box_build_delete_file fr params =
     rbind (box_required fr params ''file_id'') (\<lambda>file_id.
     Inr (''DELETE'', ''/files/'' @ url_quote [] file_id, None, []))"

definition box_build_create_folder :: "(rat \<Rightarrow> string) \<Rightarrow> jobj \<Rightarrow> request_spec result" where
  "box_build_create_folder fr params =
     rbind (box_required fr params ''name'') (\<lambda>name.
     let parent_id = (if py_strip (py_str fr (param_or params ''parent_id'' (JStr ''0''))) \<noteq> [] then py_strip
         (py_str fr (param_or params ''parent_id'' (JStr ''0''))) else ''0'') in
     let body = [(''name'', JStr name), (''parent'', JObj [(''id'', JStr parent_id)])] in
     Inr (''POST'', ''/folders'', Some body, []))"

definition box_build_copy_file :: "(rat \<Rightarrow> string) \<Rightarrow> jobj \<Rightarrow> request_spec result" where
  "box_build_copy_file fr params =
     rbind (box_required fr params ''file_id'') (\<lambda>file_id.
     rbind (box_required fr params ''parent_id'') (\<lambda>parent_id.
     let body = [(''parent'', JObj [(''id'', JStr parent_id)])] in
     let new_name = text_param fr params ''new_name'' in
     let body = (if new_name \<noteq> [] then dict_set ''name'' (JStr new_name) body else body) in
     Inr (''POST'', ''/files/'' @ url_quote [] file_id @ ''/copy'', Some body, [])))"

definition box_build_search :: "(rat \<Rightarrow> string) \<Rightarrow> jobj \<Rightarrow> request_spec result" where
  "box_build_search fr params =
     rbind (box_required fr params ''query'') (\<lambda>query_text.
     rbind (box_coerce_page_size (dict_get params ''limit'' JNull)) (\<lambda>r2.
     let query = [(''query'', JStr query_text), (''limit'', JInt r2)] in
     rbind (box_coerce_string_list fr (dict_get params ''content_types'' JNull) ''content_types'')
         (\<lambda>content_types.
     let query = (if content_types \<noteq> [] then dict_set ''content_types'' (JStr (join '','' content_types)) query
         else query) in
     rbind (box_coerce_string_list fr (dict_get params ''ancestor_folder_ids'' JNull) ''ancestor_folder_ids'')
         (\<lambda>ancestor_ids.
     let query = (if ancestor_ids \<noteq> [] then dict_set ''ancestor_folder_ids'' (JStr (join '','' ancestor_ids))
         query else query) in
     rbind (box_coerce_string_list fr (dict_get params ''file_extensions'' JNull) ''file_extensions'')
         (\<lambda>file_extensions.
     let query = (if file_extensions \<noteq> [] then dict_set ''file_extensions'' (JStr (join '','' file_extensions))
         query else query) in
     Inr (''GET'', ''/search'', None, query))))))"

definition box_build_list_users :: "(rat \<Rightarrow> string) \<Rightarrow> jobj \<Rightarrow> request_spec result" where
  "box_build_list_users fr params =
     rbind (box_coerce_page_size (dict_get params ''limit'' JNull)) (\<lambda>r1.
     let query = [(''limit'', JInt r1)] in
     let filter_term = text_param fr params ''filter_term'' in
     let query = (if filter_term \<noteq> [] then dict_set ''filter_term'' (JStr filter_term) query else query) in
     let user_type = text_param fr params ''user_type'' in
     let query = (if user_type \<noteq> [] then dict_set ''user_type'' (JStr user_type) query else query) in
     Inr (''GET'', ''/users'', None, query))"

definition box_BUILDERS :: "(rat \<Rightarrow> string) \<Rightarrow> (string, jobj \<Rightarrow> request_spec result) dict" where
  "box_BUILDERS fr =
     [(''list_folder'', box_build_list_folder fr),
      (''get_file'', box_build_get_file fr),
      (''delete_file'', box_build_delete_file fr),
      (''create_folder'', box_build_create_folder fr),
      (''copy_file'', box_build_copy_file fr),
      (''search'', box_build_search fr),
      (''list_users'', box_build_list_users fr)]"

definition box_build_request :: "(rat \<Rightarrow> string) \<Rightarrow> string \<Rightarrow> jobj \<Rightarrow> request_spec result" where
  "box_build_request fr operation params =
     (case map_of (box_BUILDERS fr) operation of
        None \<Rightarrow> raise ValueError (''Box: unsupported operation '' @ repr_str operation)
      | Some builder \<Rightarrow> builder params)"

lemma box_coerce_string_list_ok: "ensures (\<lambda>_. True) (box_coerce_string_list fr raw field)"
  unfolding box_coerce_string_list_def
  by (rule ensures_rules | simp)+

lemma box_coerce_page_size_ok: "ensures (\<lambda>v. 1 \<le> v \<and> v \<le> 1000) (box_coerce_page_size raw)"
  unfolding box_coerce_page_size_def
  by (rule ensures_rules | simp)+

lemma box_coerce_non_negative_int_ok: "ensures (\<lambda>v. 0 \<le> v) (box_coerce_non_negative_int raw field)"
  unfolding box_coerce_non_negative_int_def
  by (rule ensures_rules | simp)+

lemma box_build_list_folder_ok: "ensures (request_ok (Some 3)) (box_build_list_folder fr params)"
  unfolding box_build_list_folder_def
  by (rule box_coerce_string_list_ok [THEN ensures_bind] box_coerce_string_list_ok [THEN ensures_weaken] box_coerce_page_size_ok [THEN ensures_bind] box_coerce_page_size_ok [THEN ensures_weaken] box_coerce_non_negative_int_ok [THEN ensures_bind] box_coerce_non_negative_int_ok [THEN ensures_weaken] ensures_rules | simp add: request_ok_def METHODS_def)+

lemma box_required_ok: "ensures (\<lambda>_. True) (box_required fr params key)"
  unfolding box_required_def
  by (rule ensures_rules | simp)+

lemma box_build_get_file_ok: "ensures (request_ok (Some 2)) (box_build_get_file fr params)"
  unfolding box_build_get_file_def
  by (rule box_required_ok [THEN ensures_bind] box_required_ok [THEN ensures_weaken] box_coerce_string_list_ok [THEN ensures_bind] box_coerce_string_list_ok [THEN ensures_weaken] ensures_rules | simp add: request_ok_def METHODS_def)+

lemma box_build_delete_file_ok: "ensures (request_ok (Some 2)) (box_build_delete_file fr params)"
  unfolding box_build_delete_file_def
  by (rule box_required_ok [THEN ensures_bind] box_required_ok [THEN ensures_weaken] ensures_rules | simp add: request_ok_def METHODS_def)+

lemma box_build_create_folder_ok: "ensures (request_ok (Some 1)) (box_build_create_folder fr params)"
  unfolding box_build_create_folder_def
  by (rule box_required_ok [THEN ensures_bind] box_required_ok [THEN ensures_weaken] ensures_rules | simp add: request_ok_def METHODS_def)+

lemma box_build_copy_file_ok: "ensures (request_ok (Some 3)) (box_build_copy_file fr params)"
  unfolding box_build_copy_file_def
  by (rule box_required_ok [THEN ensures_bind] box_required_ok [THEN ensures_weaken] ensures_rules | simp add: request_ok_def METHODS_def)+

lemma box_build_search_ok: "ensures (request_ok (Some 1)) (box_build_search fr params)"
  unfolding box_build_search_def
  by (rule box_required_ok [THEN ensures_bind] box_required_ok [THEN ensures_weaken] box_coerce_string_list_ok [THEN ensures_bind] box_coerce_string_list_ok [THEN ensures_weaken] box_coerce_page_size_ok [THEN ensures_bind] box_coerce_page_size_ok [THEN ensures_weaken] ensures_rules | simp add: request_ok_def METHODS_def)+

lemma box_build_list_users_ok: "ensures (request_ok (Some 1)) (box_build_list_users fr params)"
  unfolding box_build_list_users_def
  by (rule box_coerce_page_size_ok [THEN ensures_bind] box_coerce_page_size_ok [THEN ensures_weaken] ensures_rules | simp add: request_ok_def METHODS_def)+

definition box_shape :: "(string, nat option) dict" where
  "box_shape =
     [(''list_folder'', Some 3), (''get_file'', Some 2), (''delete_file'', Some 2), (''create_folder'', Some
         1), (''copy_file'', Some 3), (''search'', Some 1), (''list_users'', Some 1)]"

interpretation box: request_builder "box_build_request fr" box_shape for fr
  by (rule request_builder_table [OF box_build_request_def])
    (simp_all del: One_nat_def add: box_BUILDERS_def box_shape_def
      box_build_list_folder_ok box_build_get_file_ok box_build_delete_file_ok
      box_build_create_folder_ok box_build_copy_file_ok box_build_search_ok
      box_build_list_users_ok)

section \<open>Brevo\<close>

definition brevo_coerce_sender :: "(rat \<Rightarrow> string) \<Rightarrow> json \<Rightarrow> jobj result" where
  "brevo_coerce_sender fr raw =
     (if raw = JNull \<or> raw = JStr [] then raise ValueError ''Brevo: 'sender' is required''
     else if is_str raw then (let email = py_strip (str_of raw) in
       if email = [] then raise ValueError ''Brevo: 'sender' is required''
       else Inr [(''email'', JStr email)])
     else if is_obj raw then (let email = text_param fr (obj_of raw) ''email'' in
       if email = [] then raise ValueError ''Brevo: 'sender.email' is required''
       else let sender = [(''email'', JStr email)] in
       let name = text_param fr (obj_of raw) ''name'' in
       Inr (if name \<noteq> [] then dict_set ''name'' (JStr name) sender else sender))
     else raise ValueError ''Brevo: 'sender' must be a string or {email, name?} object'')"

definition brevo_coerce_recipients :: "(rat \<Rightarrow> string) \<Rightarrow> json \<Rightarrow> string \<Rightarrow> jobj list result" where
  "brevo_coerce_recipients fr raw field =
     (if raw = JNull \<or> raw = JStr [] then raise ValueError (''Brevo: '' @ repr_str field @ '' is required'')
     else if is_str raw then (let emails = map (\<lambda>part. py_strip part) (filter (\<lambda>part. py_strip part \<noteq> [])
         (split_on CHR '','' (str_of raw))) in
       if emails = [] then raise ValueError (''Brevo: '' @ repr_str field @ '' is empty'')
       else Inr (map (\<lambda>email. [(''email'', JStr email)]) emails))
     else if is_arr raw then (let out = ([] :: jobj list) in
       rbind (rfold (\<lambda>out entry.
           if is_str entry then (let email = py_strip (str_of entry) in
             Inr (if email \<noteq> [] then out @ [[(''email'', JStr email)]] else out)) else (if is_obj entry then
                 (let email = text_param fr (obj_of entry) ''email'' in
               if email = [] then raise ValueError (''Brevo: '' @ repr_str field @ ('' entry missing 'email'' @
                   [CHR 0x27]))
               else let recipient = [(''email'', JStr email)] in
               let name = text_param fr (obj_of entry) ''name'' in
               let recipient = (if name \<noteq> [] then dict_set ''name'' (JStr name) recipient else recipient) in
               Inr (out @ [recipient]))
             else raise ValueError (''Brevo: '' @ repr_str field @ '' entries must be strings or objects'')))
                 out (arr_of raw)) (\<lambda>out.
       if out = [] then raise ValueError (''Brevo: '' @ repr_str field @ '' is empty'')
       else Inr out))
     else raise ValueError (''Brevo: '' @ repr_str field @ '' must be a string, list, or object''))"

definition brevo_coerce_tags :: "(rat \<Rightarrow> string) \<Rightarrow> json \<Rightarrow> string list result" where
  "brevo_coerce_tags fr raw =
     (if is_str raw then Inr (map (\<lambda>part. py_strip part) (filter (\<lambda>part. py_strip part \<noteq> []) (split_on CHR
         '','' (str_of raw))))
     else if is_arr raw then Inr (map (\<lambda>part. py_strip (py_str fr part)) (filter (\<lambda>part. py_strip (py_str fr
         part) \<noteq> []) (arr_of raw)))
     else raise ValueError ''Brevo: 'tags' must be a string or list of strings'')"

definition brevo_build_send_email :: "(rat \<Rightarrow> string) \<Rightarrow> jobj \<Rightarrow> request_spec result" where
  "brevo_build_send_email fr params =
     rbind (brevo_coerce_sender fr (dict_get params ''sender'' JNull)) (\<lambda>sender.
     rbind (brevo_coerce_recipients fr (dict_get params ''to'' JNull) ''to'') (\<lambda>recipients.
     let subject = text_param fr params ''subject'' in
     let html_content = py_str fr (param_or params ''html_content'' (JStr [])) in
     let text_content = py_str fr (param_or params ''text_content'' (JStr [])) in
     if subject = [] then raise ValueError ''Brevo: 'subject' is required for send_email''
     else if html_content = [] \<and> text_content = [] then raise ValueError
         ''Brevo: one of 'html_content' or 'text_content' is required''
     else let body = [(''sender'', JObj sender), (''to'', JArr (map JObj recipients)), (''subject'', JStr
         subject)] in
     let body = (if html_content \<noteq> [] then dict_set ''htmlContent'' (JStr html_content) body else body) in
     let body = (if text_content \<noteq> [] then dict_set ''textContent'' (JStr text_content) body else body) in
     let reply_to = dict_get params ''reply_to'' JNull in
     rbind (if reply_to \<noteq> JNull \<and> reply_to \<noteq> JStr [] then (rbind (brevo_coerce_sender fr reply_to) (\<lambda>r3.
       Inr (dict_set ''replyTo'' (JObj r3) body))) else Inr body) (\<lambda>body.
     let cc = dict_get params ''cc'' JNull in
     rbind (if \<not> is_blank cc then (rbind (brevo_coerce_recipients fr cc ''cc'') (\<lambda>r4.
       Inr (dict_set ''cc'' (JArr (map JObj r4)) body))) else Inr body) (\<lambda>body.
     let bcc = dict_get params ''bcc'' JNull in
     rbind (if \<not> is_blank bcc then (rbind (brevo_coerce_recipients fr bcc ''bcc'') (\<lambda>r5.
       Inr (dict_set ''bcc'' (JArr (map JObj r5)) body))) else Inr body) (\<lambda>body.
     let tags = dict_get params ''tags'' JNull in
     rbind (if \<not> is_blank tags then (rbind (brevo_coerce_tags fr tags) (\<lambda>r6.
       Inr (dict_set ''tags'' (JArr (map JStr r6)) body))) else Inr body) (\<lambda>body.
     Inr (''POST'', ''/v3/smtp/email'', Some body, [])))))))"

definition brevo_required :: "(rat \<Rightarrow> string) \<Rightarrow> jobj \<Rightarrow> string \<Rightarrow> string result" where
  "brevo_required fr params key =
     (let value = text_param fr params key in
     if value = [] then raise ValueError (''Brevo: '' @ repr_str key @ '' is required'')
     else Inr value)"

definition brevo_coerce_int_list :: "(rat \<Rightarrow> string) \<Rightarrow> json \<Rightarrow> string \<Rightarrow> int list result" where
  "brevo_coerce_int_list fr raw field =
     rbind (if is_str raw then Inr (map (\<lambda>part. py_strip part) (filter (\<lambda>part. py_strip part \<noteq> []) (split_on
         CHR '','' (str_of raw)))) else (if is_arr raw then Inr (map (\<lambda>part. py_strip (py_str fr part)) (filter
         (\<lambda>part. py_strip (py_str fr part) \<noteq> []) (arr_of raw)))
       else raise ValueError (''Brevo: '' @ repr_str field @ '' must be a string, list, or integer''))) (\<lambda>items.
     let out = ([] :: int list) in
     rbind (rfold (\<lambda>out item.
         (case py_int_of_string item of
           None \<Rightarrow> raise ValueError (''Brevo: '' @ repr_str field @ '' entries must be integers'')
         | Some number \<Rightarrow>
           Inr (out @ [number]))) out items) (\<lambda>out.
     Inr out))"

definition brevo_build_create_contact :: "(rat \<Rightarrow> string) \<Rightarrow> jobj \<Rightarrow> request_spec result" where
  "brevo_build_create_contact fr params =
     rbind (brevo_required fr params ''email'') (\<lambda>email.
     let body = [(''email'', JStr email)] in
     let attributes = dict_get params ''attributes'' JNull in
     rbind (if attributes \<noteq> JNull then (if \<not> is_obj attributes then raise ValueError
         ''Brevo: 'attributes' must be a JSON object''
       else Inr (dict_set ''attributes'' attributes body)) else Inr body) (\<lambda>body.
     let list_ids = dict_get params ''list_ids'' JNull in
     rbind (if \<not> is_blank list_ids then (rbind (brevo_coerce_int_list fr list_ids ''list_ids'') (\<lambda>r2.
       Inr (dict_set ''listIds'' (JArr (map JInt r2)) body))) else Inr body) (\<lambda>body.
     let update_enabled = dict_get params ''update_enabled'' JNull in
     let body = (if update_enabled \<noteq> JNull then dict_set ''updateEnabled'' (JBool (py_bool update_enabled))
         body else body) in
     Inr (''POST'', ''/v3/contacts'', Some body, []))))"

definition brevo_build_update_contact :: "(rat \<Rightarrow> string) \<Rightarrow> jobj \<Rightarrow> request_spec result" where
  "brevo_build_update_contact fr params =
     rbind (brevo_required fr params ''email'') (\<lambda>email.
     let body = ([] :: jobj) in
     let attributes = dict_get params ''attributes'' JNull in
     rbind (if attributes \<noteq> JNull then (if \<not> is_obj attributes then raise ValueError
         ''Brevo: 'attributes' must be a JSON object''
       else Inr (dict_set ''attributes'' attributes body)) else Inr body) (\<lambda>body.
     let list_ids = dict_get params ''list_ids'' JNull in
     rbind (if \<not> is_blank list_ids then (rbind (brevo_coerce_int_list fr list_ids ''list_ids'') (\<lambda>r2.
       Inr (dict_set ''listIds'' (JArr (map JInt r2)) body))) else Inr body) (\<lambda>body.
     let unlink_list_ids = dict_get params ''unlink_list_ids'' JNull in
     rbind (if \<not> is_blank unlink_list_ids then (rbind (brevo_coerce_int_list fr unlink_list_ids
         ''unlink_list_ids'') (\<lambda>r3.
       Inr (dict_set ''unlinkListIds'' (JArr (map JInt r3)) body))) else Inr body) (\<lambda>body.
     if body = [] then raise ValueError
         (''Brevo: update_contact needs at least one of 'attributes', 'list_ids', 'unlink_list_ids'' @ [CHR
         0x27])
     else let path = ''/v3'' @ ''/contacts/'' @ url_quote [] email in
     Inr (''PUT'', path, Some body, [])))))"

definition brevo_build_get_contact :: "(rat \<Rightarrow> string) \<Rightarrow> jobj \<Rightarrow> request_spec result" where
  "brevo_build_get_contact fr params =
     rbind (brevo_required fr params ''email'') (\<lambda>email.
     let path = ''/v3'' @ ''/contacts/'' @ url_quote [] email in
     Inr (''GET'', path, None, []))"

definition brevo_required_id :: "jobj \<Rightarrow> string \<Rightarrow> string result" where
  "brevo_required_id params key =
     (let raw = dict_get params key JNull in
     if raw = JNull \<or> raw = JStr [] then raise ValueError (''Brevo: '' @ repr_str key @ '' is required'')
     else (case int_of_json raw of
       None \<Rightarrow> raise ValueError (''Brevo: '' @ repr_str key @ '' must be an integer'')
     | Some numeric \<Rightarrow>
       if numeric < 1 then raise ValueError (''Brevo: '' @ repr_str key @ '' must be >= 1'')
       else Inr (show_int numeric)))"

definition brevo_coerce_email_list :: "(rat \<Rightarrow> string) \<Rightarrow> json \<Rightarrow> string list result" where
  "brevo_coerce_email_list fr raw =
     rbind (if is_str raw then Inr (map (\<lambda>part. py_strip part) (filter (\<lambda>part. py_strip part \<noteq> []) (split_on
         CHR '','' (str_of raw)))) else (if is_arr raw then Inr (map (\<lambda>part. py_strip (py_str fr part)) (filter
         (\<lambda>part. py_strip (py_str fr part) \<noteq> []) (arr_of raw)))
       else raise ValueError ''Brevo: 'emails' must be a string or list of strings'')) (\<lambda>emails.
     if emails = [] then raise ValueError ''Brevo: 'emails' is empty''
     else Inr emails)"

definition brevo_build_add_contact_to_list :: "(rat \<Rightarrow> string) \<Rightarrow> jobj \<Rightarrow> request_spec result" where
  "brevo_build_add_contact_to_list fr params =
     rbind (brevo_required_id params ''list_id'') (\<lambda>list_id.
     let emails_raw = dict_get params ''emails'' JNull in
     if is_blank emails_raw then raise ValueError ''Brevo: 'emails' is required for add_contact_to_list''
     else rbind (brevo_coerce_email_list fr emails_raw) (\<lambda>emails.
     let path = ''/v3'' @ ''/contacts/lists/'' @ list_id @ ''/contacts/add'' in
     Inr (''POST'', path, Some [(''emails'', JArr (map JStr emails))], [])))"

definition brevo_build_get_account :: "jobj \<Rightarrow> request_spec" where
  "brevo_build_get_account unused =
     (''GET'', ''/v3/account'', None, [])"

definition brevo_BUILDERS :: "(rat \<Rightarrow> string) \<Rightarrow> (string, jobj \<Rightarrow> request_spec result) dict" where
  "brevo_BUILDERS fr =
     [(''send_email'', brevo_build_send_email fr),
      (''create_contact'', brevo_build_create_contact fr),
      (''update_contact'', brevo_build_update_contact fr),
      (''get_contact'', brevo_build_get_contact fr),
      (''add_contact_to_list'', brevo_build_add_contact_to_list fr),
      (''get_account'', \<lambda>params. Inr (brevo_build_get_account params))]"

definition brevo_build_request :: "(rat \<Rightarrow> string) \<Rightarrow> string \<Rightarrow> jobj \<Rightarrow> request_spec result" where
  "brevo_build_request fr operation params =
     (case map_of (brevo_BUILDERS fr) operation of
        None \<Rightarrow> raise ValueError (''Brevo: unsupported operation '' @ repr_str operation)
      | Some builder \<Rightarrow> builder params)"

lemma brevo_coerce_sender_ok: "ensures (\<lambda>_. True) (brevo_coerce_sender fr raw)"
  unfolding brevo_coerce_sender_def
  by (rule ensures_rules | simp)+

lemma brevo_coerce_recipients_ok: "ensures (\<lambda>_. True) (brevo_coerce_recipients fr raw field)"
  unfolding brevo_coerce_recipients_def
  by (rule ensures_rules | simp)+

lemma brevo_coerce_tags_ok: "ensures (\<lambda>_. True) (brevo_coerce_tags fr raw)"
  unfolding brevo_coerce_tags_def
  by (rule ensures_rules | simp)+

lemma brevo_build_send_email_ok: "ensures (request_ok (Some 3)) (brevo_build_send_email fr params)"
  unfolding brevo_build_send_email_def
  by (rule brevo_coerce_sender_ok [THEN ensures_bind] brevo_coerce_sender_ok [THEN ensures_weaken] brevo_coerce_recipients_ok [THEN ensures_bind] brevo_coerce_recipients_ok [THEN ensures_weaken] brevo_coerce_tags_ok [THEN ensures_bind] brevo_coerce_tags_ok [THEN ensures_weaken] ensures_rules | simp add: request_ok_def METHODS_def)+

lemma brevo_required_ok: "ensures (\<lambda>_. True) (brevo_required fr params key)"
  unfolding brevo_required_def
  by (rule ensures_rules | simp)+

lemma brevo_coerce_int_list_ok: "ensures (\<lambda>_. True) (brevo_coerce_int_list fr raw field)"
  unfolding brevo_coerce_int_list_def
  by (rule ensures_rules | simp)+

lemma brevo_build_create_contact_ok: "ensures (request_ok (Some 2)) (brevo_build_create_contact fr params)"
  unfolding brevo_build_create_contact_def
  by (rule brevo_required_ok [THEN ensures_bind] brevo_required_ok [THEN ensures_weaken] brevo_coerce_int_list_ok [THEN ensures_bind] brevo_coerce_int_list_ok [THEN ensures_weaken] ensures_rules | simp add: request_ok_def METHODS_def)+

lemma brevo_build_update_contact_ok: "ensures (request_ok (Some 3)) (brevo_build_update_contact fr params)"
  unfolding brevo_build_update_contact_def
  by (rule brevo_required_ok [THEN ensures_bind] brevo_required_ok [THEN ensures_weaken] brevo_coerce_int_list_ok [THEN ensures_bind] brevo_coerce_int_list_ok [THEN ensures_weaken] ensures_rules | simp add: request_ok_def METHODS_def)+

lemma brevo_build_get_contact_ok: "ensures (request_ok (Some 3)) (brevo_build_get_contact fr params)"
  unfolding brevo_build_get_contact_def
  by (rule brevo_required_ok [THEN ensures_bind] brevo_required_ok [THEN ensures_weaken] ensures_rules | simp add: request_ok_def METHODS_def)+

lemma brevo_required_id_ok: "ensures (\<lambda>s. slashes s = 0) (brevo_required_id params key)"
  unfolding brevo_required_id_def
  by (rule ensures_rules | simp)+

lemma brevo_coerce_email_list_ok: "ensures (\<lambda>_. True) (brevo_coerce_email_list fr raw)"
  unfolding brevo_coerce_email_list_def
  by (rule ensures_rules | simp)+

lemma brevo_build_add_contact_to_list_ok: "ensures (request_ok (Some 6)) (brevo_build_add_contact_to_list fr params)"
  unfolding brevo_build_add_contact_to_list_def
  by (rule brevo_required_id_ok [THEN ensures_bind] brevo_required_id_ok [THEN ensures_weaken] brevo_coerce_email_list_ok [THEN ensures_bind] brevo_coerce_email_list_ok [THEN ensures_weaken] ensures_rules | simp add: request_ok_def METHODS_def)+

lemma brevo_build_get_account_ok: "ensures (request_ok (Some 2)) (Inr (brevo_build_get_account unused))"
  by (rule ensures_Inr) (simp add: brevo_build_get_account_def request_ok_def METHODS_def Let_def)

definition brevo_shape :: "(string, nat option) dict" where
  "brevo_shape =
     [(''send_email'', Some 3), (''create_contact'', Some 2), (''update_contact'', Some 3), (''get_contact'',
         Some 3), (''add_contact_to_list'', Some 6), (''get_account'', Some 2)]"

interpretation brevo: request_builder "brevo_build_request fr" brevo_shape for fr
  by (rule request_builder_table [OF brevo_build_request_def])
    (simp_all del: One_nat_def add: brevo_BUILDERS_def brevo_shape_def
      brevo_build_send_email_ok brevo_build_create_contact_ok brevo_build_update_contact_ok
      brevo_build_get_contact_ok brevo_build_add_contact_to_list_ok brevo_build_get_account_ok)

section \<open>Clickup\<close>

definition clickup_required :: "(rat \<Rightarrow> string) \<Rightarrow> jobj \<Rightarrow> string \<Rightarrow> string result" where
  "clickup_required fr params key =
     (let value = text_param fr params key in
     if value = [] then raise ValueError (''ClickUp: '' @ repr_str key @ '' is required'')
     else Inr value)"

definition clickup_coerce_int_list :: "json \<Rightarrow> string \<Rightarrow> int list result" where
  "clickup_coerce_int_list raw field =
     (if \<not> is_arr raw then raise ValueError (''ClickUp: '' @ repr_str field @ '' must be a list of user ids'')
     else let out = ([] :: int list) in
     rbind (rfold (\<lambda>out value.
         (case int_of_json value of
           None \<Rightarrow> raise ValueError (''ClickUp: '' @ repr_str field @ '' entries must be integer user ids'')
         | Some number \<Rightarrow>
           Inr (out @ [number]))) out (arr_of raw)) (\<lambda>out.
     Inr out))"

definition clickup_coerce_priority :: "json \<Rightarrow> int result" where
  "clickup_coerce_priority raw =
     (case int_of_json raw of
       None \<Rightarrow> raise ValueError ''ClickUp: 'priority' must be an integer in 1..4''
     | Some value \<Rightarrow>
       if value < 1 \<or> 4 < value then raise ValueError ''ClickUp: 'priority' must be in 1..4''
       else Inr value)"

definition clickup_build_create_task :: "(rat \<Rightarrow> string) \<Rightarrow> jobj \<Rightarrow> request_spec result" where
  "clickup_build_create_task fr params =
     rbind (clickup_required fr params ''list_id'') (\<lambda>list_id.
     rbind (clickup_required fr params ''name'') (\<lambda>name.
     let body = [(''name'', JStr name)] in
     let description = py_str fr (param_or params ''description'' (JStr [])) in
     let body = (if description \<noteq> [] then dict_set ''description'' (JStr description) body else body) in
     let assignees = dict_get params ''assignees'' JNull in
     rbind (if assignees \<noteq> JNull then (rbind (clickup_coerce_int_list assignees ''assignees'') (\<lambda>r3.
       Inr (dict_set ''assignees'' (JArr (map JInt r3)) body))) else Inr body) (\<lambda>body.
     let status = text_param fr params ''status'' in
     let body = (if status \<noteq> [] then dict_set ''status'' (JStr status) body else body) in
     let priority = dict_get params ''priority'' JNull in
     rbind (if \<not> is_blank priority then (rbind (clickup_coerce_priority priority) (\<lambda>r4.
       Inr (dict_set ''priority'' (JInt r4) body))) else Inr body) (\<lambda>body.
     let extras = dict_get params ''extra_fields'' JNull in
     rbind (if extras \<noteq> JNull then (if \<not> is_obj extras then raise ValueError
         ''ClickUp: 'extra_fields' must be a JSON object''
       else Inr (dict_merge body (obj_of extras))) else Inr body) (\<lambda>body.
     let path = ''/api/v2'' @ ''/list/'' @ url_quote [] list_id @ ''/task'' in
     Inr (''POST'', path, Some body, []))))))"

definition clickup_build_get_task :: "(rat \<Rightarrow> string) \<Rightarrow> jobj \<Rightarrow> request_spec result" where
  "clickup_build_get_task fr params =
     rbind (clickup_required fr params ''task_id'') (\<lambda>task_id.
     let path = ''/api/v2'' @ ''/task/'' @ url_quote [] task_id in
     Inr (''GET'', path, None, []))"

definition clickup_build_update_task :: "(rat \<Rightarrow> string) \<Rightarrow> jobj \<Rightarrow> request_spec result" where
  "clickup_build_update_task fr params =
     rbind (clickup_required fr params ''task_id'') (\<lambda>task_id.
     let updates = dict_get params ''fields'' JNull in
     if \<not> is_obj updates \<or> \<not> py_bool updates then raise ValueError
         ''ClickUp: 'fields' must be a non-empty JSON object''
     else rbind (rfold (\<lambda>_ key.
         if key \<notin> set [''name'', ''description'', ''status'', ''priority'', ''due_date'', ''due_date_time'',
             ''time_estimate'', ''start_date'', ''start_date_time'', ''assignees'', ''archived'', ''parent'']
             then raise ValueError (''ClickUp: unknown task field '' @ repr_str key)
         else Inr ()) () (map fst (obj_of updates))) (\<lambda>_.
     let path = ''/api/v2'' @ ''/task/'' @ url_quote [] task_id in
     Inr (''PUT'', path, Some (obj_of updates), [])))"

definition clickup_build_delete_task :: "(rat \<Rightarrow> string) \<Rightarrow> jobj \<Rightarrow> request_spec result" where
  "clickup_build_delete_task fr params =
     rbind (clickup_required fr params ''task_id'') (\<lambda>task_id.
     let path = ''/api/v2'' @ ''/task/'' @ url_quote [] task_id in
     Inr (''DELETE'', path, None, []))"

definition clickup_coerce_string_list :: "(rat \<Rightarrow> string) \<Rightarrow> json \<Rightarrow> string \<Rightarrow> string list result" where
  "clickup_coerce_string_list fr raw field =
     (if raw = JNull \<or> raw = JStr [] then Inr []
     else if is_str raw then Inr (map (\<lambda>part. py_strip part) (filter (\<lambda>part. py_strip part \<noteq> []) (split_on CHR
         '','' (str_of raw))))
     else if is_arr raw then Inr (map (\<lambda>part. py_strip (py_str fr part)) (filter (\<lambda>part. py_strip (py_str fr
         part) \<noteq> []) (arr_of raw)))
     else raise ValueError (''ClickUp: '' @ repr_str field @ '' must be a string or list of strings''))"

definition clickup_coerce_non_negative_int :: "json \<Rightarrow> string \<Rightarrow> int result" where
  "clickup_coerce_non_negative_int raw field =
     (case int_of_json raw of
       None \<Rightarrow> raise ValueError (''ClickUp: '' @ repr_str field @ '' must be a non-negative integer'')
     | Some value \<Rightarrow>
       if value < 0 then raise ValueError (''ClickUp: '' @ repr_str field @ '' must be >= 0'')
       else Inr value)"

definition clickup_build_list_tasks :: "(rat \<Rightarrow> string) \<Rightarrow> jobj \<Rightarrow> request_spec result" where
  "clickup_build_list_tasks fr params =
     rbind (clickup_required fr params ''list_id'') (\<lambda>list_id.
     let query = ([] :: jobj) in
     let archived = dict_get params ''archived'' JNull in
     let query = (if is_bool archived then dict_set ''archived'' (JStr (if py_bool archived then ''true'' else
         ''false'')) query else query) in
     let page = dict_get params ''page'' JNull in
     rbind (if \<not> is_blank page then (rbind (clickup_coerce_non_negative_int page ''page'') (\<lambda>r2.
       Inr (dict_set ''page'' (JInt r2) query))) else Inr query) (\<lambda>query.
     let order_by = text_param fr params ''order_by'' in
     let query = (if order_by \<noteq> [] then dict_set ''order_by'' (JStr order_by) query else query) in
     let subtasks = dict_get params ''subtasks'' JNull in
     let query = (if is_bool subtasks then dict_set ''subtasks'' (JStr (if py_bool subtasks then ''true'' else
         ''false'')) query else query) in
     rbind (clickup_coerce_string_list fr (dict_get params ''statuses'' JNull) ''statuses'') (\<lambda>statuses.
     let query = (if statuses \<noteq> [] then dict_set ''statuses[]'' (JArr (map JStr statuses)) query else query) in
     let path = ''/api/v2'' @ ''/list/'' @ url_quote [] list_id @ ''/task'' in
     Inr (''GET'', path, None, query))))"

definition clickup_BUILDERS :: "(rat \<Rightarrow> string) \<Rightarrow> (string, jobj \<Rightarrow> request_spec result) dict" where
  "clickup_BUILDERS fr =
     [(''create_task'', clickup_build_create_task fr),
      (''get_task'', clickup_build_get_task fr),
      (''update_task'', clickup_build_update_task fr),
      (''delete_task'', clickup_build_delete_task fr),
      (''list_tasks'', clickup_build_list_tasks fr)]"

definition clickup_build_request :: "(rat \<Rightarrow> string) \<Rightarrow> string \<Rightarrow> jobj \<Rightarrow> request_spec result" where
  "clickup_build_request fr operation params =
     (case map_of (clickup_BUILDERS fr) operation of
        None \<Rightarrow> raise ValueError (''ClickUp: unsupported operation '' @ repr_str operation)
      | Some builder \<Rightarrow> builder params)"

lemma clickup_required_ok: "ensures (\<lambda>_. True) (clickup_required fr params key)"
  unfolding clickup_required_def
  by (rule ensures_rules | simp)+

lemma clickup_coerce_int_list_ok: "ensures (\<lambda>_. True) (clickup_coerce_int_list raw field)"
  unfolding clickup_coerce_int_list_def
  by (rule ensures_rules | simp)+

lemma clickup_coerce_priority_ok: "ensures (\<lambda>v. 1 \<le> v \<and> v \<le> 4) (clickup_coerce_priority raw)"
  unfolding clickup_coerce_priority_def
  by (rule ensures_rules | simp)+

lemma clickup_build_create_task_ok: "ensures (request_ok (Some 5)) (clickup_build_create_task fr params)"
  unfolding clickup_build_create_task_def
  by (rule clickup_required_ok [THEN ensures_bind] clickup_required_ok [THEN ensures_weaken] clickup_coerce_int_list_ok [THEN ensures_bind] clickup_coerce_int_list_ok [THEN ensures_weaken] clickup_coerce_priority_ok [THEN ensures_bind] clickup_coerce_priority_ok [THEN ensures_weaken] ensures_rules | simp add: request_ok_def METHODS_def)+

lemma clickup_build_get_task_ok: "ensures (request_ok (Some 4)) (clickup_build_get_task fr params)"
  unfolding clickup_build_get_task_def
  by (rule clickup_required_ok [THEN ensures_bind] clickup_required_ok [THEN ensures_weaken] ensures_rules | simp add: request_ok_def METHODS_def)+

lemma clickup_build_update_task_ok: "ensures (request_ok (Some 4)) (clickup_build_update_task fr params)"
  unfolding clickup_build_update_task_def
  by (rule clickup_required_ok [THEN ensures_bind] clickup_required_ok [THEN ensures_weaken] ensures_rules | simp add: request_ok_def METHODS_def)+

lemma clickup_build_delete_task_ok: "ensures (request_ok (Some 4)) (clickup_build_delete_task fr params)"
  unfolding clickup_build_delete_task_def
  by (rule clickup_required_ok [THEN ensures_bind] clickup_required_ok [THEN ensures_weaken] ensures_rules | simp add: request_ok_def METHODS_def)+

lemma clickup_coerce_string_list_ok: "ensures (\<lambda>_. True) (clickup_coerce_string_list fr raw field)"
  unfolding clickup_coerce_string_list_def
  by (rule ensures_rules | simp)+

lemma clickup_coerce_non_negative_int_ok: "ensures (\<lambda>v. 0 \<le> v) (clickup_coerce_non_negative_int raw field)"
  unfolding clickup_coerce_non_negative_int_def
  by (rule ensures_rules | simp)+

lemma clickup_build_list_tasks_ok: "ensures (request_ok (Some 5)) (clickup_build_list_tasks fr params)"
  unfolding clickup_build_list_tasks_def
  by (rule clickup_required_ok [THEN ensures_bind] clickup_required_ok [THEN ensures_weaken] clickup_coerce_string_list_ok [THEN ensures_bind] clickup_coerce_string_list_ok [THEN ensures_weaken] clickup_coerce_non_negative_int_ok [THEN ensures_bind] clickup_coerce_non_negative_int_ok [THEN ensures_weaken] ensures_rules | simp add: request_ok_def METHODS_def)+

definition clickup_shape :: "(string, nat option) dict" where
  "clickup_shape =
     [(''create_task'', Some 5), (''get_task'', Some 4), (''update_task'', Some 4), (''delete_task'', Some 4),
         (''list_tasks'', Some 5)]"

interpretation clickup: request_builder "clickup_build_request fr" clickup_shape for fr
  by (rule request_builder_table [OF clickup_build_request_def])
    (simp_all del: One_nat_def add: clickup_BUILDERS_def clickup_shape_def
      clickup_build_create_task_ok clickup_build_get_task_ok clickup_build_update_task_ok
      clickup_build_delete_task_ok clickup_build_list_tasks_ok)

section \<open>Cloudinary\<close>

definition cloudinary_resource_type :: "(rat \<Rightarrow> string) \<Rightarrow> jobj \<Rightarrow> string result" where
  "cloudinary_resource_type fr params =
     (let resource = py_lower (py_strip (py_str fr (param_or params ''resource_type'' (JStr ''image'')))) in
     if resource \<notin> set [''image'', ''video'', ''raw''] then raise ValueError
         (''Cloudinary: 'resource_type' must be one of '' @ ''['image', 'video', 'raw']'' @ '' - got '' @
         repr_str resource)
     else Inr resource)"

definition cloudinary_required_str :: "(rat \<Rightarrow> string) \<Rightarrow> jobj \<Rightarrow> string \<Rightarrow> string result" where
  "cloudinary_required_str fr params key =
     (let value = text_param fr params key in
     if value = [] then raise ValueError (''Cloudinary: '' @ repr_str key @ '' is required'')
     else Inr value)"

definition cloudinary_build_upload :: "(rat \<Rightarrow> string) \<Rightarrow> string \<Rightarrow> jobj \<Rightarrow> (string \<times> string \<times> jobj \<times> jobj) result"
    where
  "cloudinary_build_upload fr cloud_name params =
     rbind (cloudinary_resource_type fr params) (\<lambda>resource.
     rbind (cloudinary_required_str fr params ''file'') (\<lambda>file_ref.
     let body = [(''file'', JStr file_ref)] in
     let public_id = text_param fr params ''public_id'' in
     let body = (if public_id \<noteq> [] then dict_set ''public_id'' (JStr public_id) body else body) in
     let folder = text_param fr params ''folder'' in
     let body = (if folder \<noteq> [] then dict_set ''folder'' (JStr folder) body else body) in
     let tags = dict_get params ''tags'' JNull in
     let body = (if is_arr tags \<and> py_bool tags then dict_set ''tags'' (JStr (join '','' (map (\<lambda>tag. py_str fr
         tag) (arr_of tags)))) body else (if is_str tags \<and> py_strip (str_of tags) \<noteq> [] then dict_set ''tags''
         (JStr (py_strip (str_of tags))) body else body)) in
     let context = dict_get params ''context'' JNull in
     let body = (if is_obj context \<and> py_bool context then dict_set ''context'' (JStr (join ''|'' (map (\<lambda>(k, v).
         k @ ''='' @ py_str fr v) (obj_of context)))) body else (if is_str context \<and> py_strip (str_of context)
         \<noteq> [] then dict_set ''context'' (JStr (py_strip (str_of context))) body else body)) in
     Inr (''POST'', ''/v1_1/'' @ cloud_name @ ''/'' @ resource @ ''/upload'', body, [])))"

definition cloudinary_build_destroy :: "(rat \<Rightarrow> string) \<Rightarrow> string \<Rightarrow> jobj \<Rightarrow> (string \<times> string \<times> jobj \<times> jobj)
    result" where
  "cloudinary_build_destroy fr cloud_name params =
     rbind (cloudinary_resource_type fr params) (\<lambda>resource.
     rbind (cloudinary_required_str fr params ''public_id'') (\<lambda>public_id.
     let body = [(''public_id'', JStr public_id)] in
     let invalidate = dict_get params ''invalidate'' JNull in
     let body = (if is_bool invalidate \<and> py_bool invalidate then dict_set ''invalidate'' (JStr ''true'') body
         else body) in
     Inr (''POST'', ''/v1_1/'' @ cloud_name @ ''/'' @ resource @ ''/destroy'', body, [])))"

definition cloudinary_build_list_resources :: "(rat \<Rightarrow> string) \<Rightarrow> string \<Rightarrow> jobj \<Rightarrow> (string \<times> string \<times> jobj \<times> jobj)
    result" where
  "cloudinary_build_list_resources fr cloud_name params =
     rbind (cloudinary_resource_type fr params) (\<lambda>resource.
     let query = ([] :: jobj) in
     let max_results = text_param fr params ''max_results'' in
     let query = (if max_results \<noteq> [] then dict_set ''max_results'' (JStr max_results) query else query) in
     let prefix = text_param fr params ''prefix'' in
     let query = (if prefix \<noteq> [] then dict_set ''prefix'' (JStr prefix) query else query) in
     let next_cursor = text_param fr params ''next_cursor'' in
     let query = (if next_cursor \<noteq> [] then dict_set ''next_cursor'' (JStr next_cursor) query else query) in
     Inr (''GET'', ''/v1_1/'' @ cloud_name @ ''/resources/'' @ resource, [], query))"

definition cloudinary_build_get_resource :: "(rat \<Rightarrow> string) \<Rightarrow> string \<Rightarrow> jobj \<Rightarrow> (string \<times> string \<times> jobj \<times> jobj)
    result" where
  "cloudinary_build_get_resource fr cloud_name params =
     rbind (cloudinary_resource_type fr params) (\<lambda>resource.
     rbind (cloudinary_required_str fr params ''public_id'') (\<lambda>public_id.
     let delivery_type = py_strip (py_str fr (param_or params ''delivery_type'' (JStr ''upload''))) in
     Inr (''GET'', ''/v1_1/'' @ cloud_name @ ''/resources/'' @ resource @ ''/'' @ delivery_type @ ''/'' @
         public_id, [], [])))"

definition cloudinary_BUILDERS :: "(rat \<Rightarrow> string) \<Rightarrow> (string, string \<Rightarrow> jobj \<Rightarrow> (string \<times> string \<times> jobj \<times> jobj)
    result) dict" where
  "cloudinary_BUILDERS fr =
     [(''upload'', cloudinary_build_upload fr),
      (''destroy'', cloudinary_build_destroy fr),
      (''list_resources'', cloudinary_build_list_resources fr),
      (''get_resource'', cloudinary_build_get_resource fr)]"

definition cloudinary_build_request :: "(rat \<Rightarrow> string) \<Rightarrow> string \<Rightarrow> string \<Rightarrow> jobj \<Rightarrow> (string \<times> string \<times> jobj \<times>
    jobj) result" where
  "cloudinary_build_request fr operation cloud_name params =
     (if py_strip cloud_name = [] then raise ValueError ''Cloudinary: cloud_name is required''
     else (case map_of (cloudinary_BUILDERS fr) operation of
        None \<Rightarrow> raise ValueError (''Cloudinary: unsupported operation '' @ repr_str operation)
      | Some builder \<Rightarrow> builder (py_strip cloud_name) params))"

lemma cloudinary_resource_type_ok: "ensures (\<lambda>_. True) (cloudinary_resource_type fr params)"
  unfolding cloudinary_resource_type_def
  by (rule ensures_rules | simp)+

lemma cloudinary_required_str_ok: "ensures (\<lambda>_. True) (cloudinary_required_str fr params key)"
  unfolding cloudinary_required_str_def
  by (rule ensures_rules | simp)+

lemma cloudinary_build_upload_ok: "ensures (request_ok None) (cloudinary_build_upload fr cloud_name params)"
  unfolding cloudinary_build_upload_def
  by (rule cloudinary_resource_type_ok [THEN ensures_bind] cloudinary_resource_type_ok [THEN ensures_weaken] cloudinary_required_str_ok [THEN ensures_bind] cloudinary_required_str_ok [THEN ensures_weaken] ensures_rules | simp add: request_ok_def METHODS_def)+

lemma cloudinary_build_destroy_ok: "ensures (request_ok None) (cloudinary_build_destroy fr cloud_name params)"
  unfolding cloudinary_build_destroy_def
  by (rule cloudinary_resource_type_ok [THEN ensures_bind] cloudinary_resource_type_ok [THEN ensures_weaken] cloudinary_required_str_ok [THEN ensures_bind] cloudinary_required_str_ok [THEN ensures_weaken] ensures_rules | simp add: request_ok_def METHODS_def)+

lemma cloudinary_build_list_resources_ok: "ensures (request_ok None) (cloudinary_build_list_resources fr cloud_name params)"
  unfolding cloudinary_build_list_resources_def
  by (rule cloudinary_resource_type_ok [THEN ensures_bind] cloudinary_resource_type_ok [THEN ensures_weaken] ensures_rules | simp add: request_ok_def METHODS_def)+

lemma cloudinary_build_get_resource_ok: "ensures (request_ok None) (cloudinary_build_get_resource fr cloud_name params)"
  unfolding cloudinary_build_get_resource_def
  by (rule cloudinary_resource_type_ok [THEN ensures_bind] cloudinary_resource_type_ok [THEN ensures_weaken] cloudinary_required_str_ok [THEN ensures_bind] cloudinary_required_str_ok [THEN ensures_weaken] ensures_rules | simp add: request_ok_def METHODS_def)+


section \<open>Coinbase\<close>

definition coinbase_build_list_accounts :: "jobj \<Rightarrow> request_spec" where
  "coinbase_build_list_accounts params =
     (''GET'', ''/accounts'', None, [])"

definition coinbase_required_str :: "(rat \<Rightarrow> string) \<Rightarrow> jobj \<Rightarrow> string \<Rightarrow> string result" where
  "coinbase_required_str fr params key =
     (let value = text_param fr params key in
     if value = [] then raise ValueError (''Coinbase: '' @ repr_str key @ '' is required'')
     else Inr value)"

definition coinbase_build_get_product_ticker :: "(rat \<Rightarrow> string) \<Rightarrow> jobj \<Rightarrow> request_spec result" where
  "coinbase_build_get_product_ticker fr params =
     rbind (coinbase_required_str fr params ''product_id'') (\<lambda>product_id.
     Inr (''GET'', ''/products/'' @ product_id @ ''/ticker'', None, []))"

definition coinbase_build_place_order :: "(rat \<Rightarrow> string) \<Rightarrow> jobj \<Rightarrow> request_spec result" where
  "coinbase_build_place_order fr params =
     (let side = py_lower (text_param fr params ''side'') in
     if side \<notin> set [''buy'', ''sell''] then raise ValueError
         (''Coinbase: 'side' must be 'buy' or 'sell' - got '' @ repr_str side)
     else let order_type = py_lower (py_strip (py_str fr (param_or params ''order_type'' (JStr ''limit'')))) in
     if order_type \<notin> set [''limit'', ''market''] then raise ValueError
         (''Coinbase: 'order_type' must be 'limit' or 'market' - got '' @ repr_str order_type)
     else rbind (coinbase_required_str fr params ''product_id'') (\<lambda>r1.
     let body = [(''product_id'', JStr r1), (''side'', JStr side), (''type'', JStr order_type)] in
     let client_oid = text_param fr params ''client_oid'' in
     let body = (if client_oid \<noteq> [] then dict_set ''client_oid'' (JStr client_oid) body else body) in
     rbind (if order_type = ''limit'' then (rbind (coinbase_required_str fr params ''price'') (\<lambda>r2.
       let body = dict_set ''price'' (JStr r2) body in
       rbind (coinbase_required_str fr params ''size'') (\<lambda>r3.
       let body = dict_set ''size'' (JStr r3) body in
       let tif = text_param fr params ''time_in_force'' in
       Inr (if tif \<noteq> [] then dict_set ''time_in_force'' (JStr tif) body else body)))) else (let size =
           text_param fr params ''size'' in
       let funds = text_param fr params ''funds'' in
       if size = [] \<and> funds = [] then raise ValueError
           (''Coinbase: market orders require either 'size' or 'funds'' @ [CHR 0x27])
       else let body = (if size \<noteq> [] then dict_set ''size'' (JStr size) body else body) in
       Inr (if funds \<noteq> [] then dict_set ''funds'' (JStr funds) body else body))) (\<lambda>body.
     Inr (''POST'', ''/orders'', Some body, []))))"

definition coinbase_build_cancel_order :: "(rat \<Rightarrow> string) \<Rightarrow> jobj \<Rightarrow> request_spec result" where
  "coinbase_build_cancel_order fr params =
     rbind (coinbase_required_str fr params ''order_id'') (\<lambda>order_id.
     Inr (''DELETE'', ''/orders/'' @ order_id, None, []))"

definition coinbase_BUILDERS :: "(rat \<Rightarrow> string) \<Rightarrow> (string, jobj \<Rightarrow> request_spec result) dict" where
  "coinbase_BUILDERS fr =
     [(''list_accounts'', \<lambda>params. Inr (coinbase_build_list_accounts params)),
      (''get_product_ticker'', coinbase_build_get_product_ticker fr),
      (''place_order'', coinbase_build_place_order fr),
      (''cancel_order'', coinbase_build_cancel_order fr)]"

definition coinbase_build_request :: "(rat \<Rightarrow> string) \<Rightarrow> string \<Rightarrow> jobj \<Rightarrow> request_spec result" where
  "coinbase_build_request fr operation params =
     (case map_of (coinbase_BUILDERS fr) operation of
        None \<Rightarrow> raise ValueError (''Coinbase: unsupported operation '' @ repr_str operation)
      | Some builder \<Rightarrow> builder params)"

lemma coinbase_build_list_accounts_ok: "ensures (request_ok (Some 1)) (Inr (coinbase_build_list_accounts params))"
  by (rule ensures_Inr) (simp add: coinbase_build_list_accounts_def request_ok_def METHODS_def Let_def)

lemma coinbase_required_str_ok: "ensures (\<lambda>_. True) (coinbase_required_str fr params key)"
  unfolding coinbase_required_str_def
  by (rule ensures_rules | simp)+

lemma coinbase_build_get_product_ticker_ok: "ensures (request_ok None) (coinbase_build_get_product_ticker fr params)"
  unfolding coinbase_build_get_product_ticker_def
  by (rule coinbase_required_str_ok [THEN ensures_bind] coinbase_required_str_ok [THEN ensures_weaken] ensures_rules | simp add: request_ok_def METHODS_def)+

lemma coinbase_build_place_order_ok: "ensures (request_ok (Some 1)) (coinbase_build_place_order fr params)"
  unfolding coinbase_build_place_order_def
  by (rule coinbase_required_str_ok [THEN ensures_bind] coinbase_required_str_ok [THEN ensures_weaken] ensures_rules | simp add: request_ok_def METHODS_def)+

lemma coinbase_build_cancel_order_ok: "ensures (request_ok None) (coinbase_build_cancel_order fr params)"
  unfolding coinbase_build_cancel_order_def
  by (rule coinbase_required_str_ok [THEN ensures_bind] coinbase_required_str_ok [THEN ensures_weaken] ensures_rules | simp add: request_ok_def METHODS_def)+

definition coinbase_shape :: "(string, nat option) dict" where
  "coinbase_shape =
     [(''list_accounts'', Some 1), (''get_product_ticker'', None), (''place_order'', Some 1),
         (''cancel_order'', None)]"

interpretation coinbase: request_builder "coinbase_build_request fr" coinbase_shape for fr
  by (rule request_builder_table [OF coinbase_build_request_def])
    (simp_all del: One_nat_def add: coinbase_BUILDERS_def coinbase_shape_def
      coinbase_build_list_accounts_ok coinbase_build_get_product_ticker_ok coinbase_build_place_order_ok
      coinbase_build_cancel_order_ok)

section \<open>Contentful\<close>

definition contentful_space_env_prefix :: "string \<Rightarrow> string \<Rightarrow> string" where
  "contentful_space_env_prefix space_id environment =
     ''/spaces/'' @ url_quote [] space_id @ ''/environments/'' @ url_quote [] environment"

definition contentful_required :: "(rat \<Rightarrow> string) \<Rightarrow> jobj \<Rightarrow> string \<Rightarrow> string result" where
  "contentful_required fr params key =
     (let value = text_param fr params key in
     if value = [] then raise ValueError (''Contentful: '' @ repr_str key @ '' is required'')
     else Inr value)"

definition contentful_build_get_entry :: "(rat \<Rightarrow> string) \<Rightarrow> jobj \<Rightarrow> string \<Rightarrow> string \<Rightarrow> (string \<times> string \<times> (jobj
    option) \<times> jobj \<times> (int option)) result" where
  "contentful_build_get_entry fr params space_id environment =
     rbind (contentful_required fr params ''entry_id'') (\<lambda>entry_id.
     let path = contentful_space_env_prefix space_id environment @ ''/entries/'' @ url_quote [] entry_id in
     Inr (''GET'', path, None, [], None))"

definition contentful_stringify :: "(rat \<Rightarrow> string) \<Rightarrow> json \<Rightarrow> string" where
  "contentful_stringify fr value =
     (if is_bool value then (if py_bool value then ''true'' else ''false'')
     else py_str fr value)"

definition contentful_build_list_entries :: "(rat \<Rightarrow> string) \<Rightarrow> jobj \<Rightarrow> string \<Rightarrow> string \<Rightarrow> string \<times> string \<times> (jobj
    option) \<times> jobj \<times> (int option)" where
  "contentful_build_list_entries fr params space_id environment =
     (let query = ([] :: jobj) in
     let raw_filters = dict_get params ''filters'' JNull in
     if is_obj raw_filters then (let query = foldl (\<lambda>query (key, value).
           if is_blank value then query
           else dict_set key (JStr (contentful_stringify fr value)) query) query (obj_of raw_filters) in
       let query = foldl (\<lambda>query key.
           let value = dict_get params key JNull in
           if is_blank value then query
           else let query_key = (if key = ''content_type'' then ''content_type'' else key) in
           dict_set query_key (JStr (contentful_stringify fr value)) query) query [''content_type'', ''limit'',
               ''skip'', ''order''] in
       let path = contentful_space_env_prefix space_id environment @ ''/entries'' in
       (''GET'', path, None, query, None))
     else (let query = foldl (\<lambda>query key.
           let value = dict_get params key JNull in
           if is_blank value then query
           else let query_key = (if key = ''content_type'' then ''content_type'' else key) in
           dict_set query_key (JStr (contentful_stringify fr value)) query) query [''content_type'', ''limit'',
               ''skip'', ''order''] in
       let path = contentful_space_env_prefix space_id environment @ ''/entries'' in
       (''GET'', path, None, query, None)))"

definition contentful_build_create_entry :: "(rat \<Rightarrow> string) \<Rightarrow> jobj \<Rightarrow> string \<Rightarrow> string \<Rightarrow> (string \<times> string \<times> (jobj
    option) \<times> jobj \<times> (int option)) result" where
  "contentful_build_create_entry fr params space_id environment =
     rbind (contentful_required fr params ''content_type'') (\<lambda>content_type.
     let fields = dict_get params ''fields'' JNull in
     if \<not> is_obj fields \<or> \<not> py_bool fields then raise ValueError
         ''Contentful: 'fields' is required and must be a JSON object''
     else let body = [(''fields'', fields)] in
     let path = contentful_space_env_prefix space_id environment @ ''/entries'' in
     let query = [(''content_type'', JStr content_type)] in
     Inr (''POST'', path, Some body, query, None))"

definition contentful_required_int :: "jobj \<Rightarrow> string \<Rightarrow> int result" where
  "contentful_required_int params key =
     (let raw = dict_get params key JNull in
     if is_blank raw then raise ValueError (''Contentful: '' @ repr_str key @ '' is required'')
     else (case int_of_json raw of
       None \<Rightarrow> raise ValueError (''Contentful: '' @ repr_str key @ '' must be an integer'')
     | Some number \<Rightarrow>
       Inr number))"

definition contentful_build_update_entry :: "(rat \<Rightarrow> string) \<Rightarrow> jobj \<Rightarrow> string \<Rightarrow> string \<Rightarrow> (string \<times> string \<times> (jobj
    option) \<times> jobj \<times> (int option)) result" where
  "contentful_build_update_entry fr params space_id environment =
     rbind (contentful_required fr params ''entry_id'') (\<lambda>entry_id.
     rbind (contentful_required_int params ''version'') (\<lambda>version.
     let fields = dict_get params ''fields'' JNull in
     if \<not> is_obj fields \<or> \<not> py_bool fields then raise ValueError
         ''Contentful: 'fields' is required and must be a JSON object''
     else let body = [(''fields'', fields)] in
     let path = contentful_space_env_prefix space_id environment @ ''/entries/'' @ url_quote [] entry_id in
     Inr (''PUT'', path, Some body, [], Some version)))"

definition contentful_build_publish_entry :: "(rat \<Rightarrow> string) \<Rightarrow> jobj \<Rightarrow> string \<Rightarrow> string \<Rightarrow> (string \<times> string \<times>
    (jobj option) \<times> jobj \<times> (int option)) result" where
  "contentful_build_publish_entry fr params space_id environment =
     rbind (contentful_required fr params ''entry_id'') (\<lambda>entry_id.
     rbind (contentful_required_int params ''version'') (\<lambda>version.
     let path = contentful_space_env_prefix space_id environment @ ''/entries/'' @ url_quote [] entry_id @
         ''/published'' in
     Inr (''PUT'', path, None, [], Some version)))"

definition contentful_build_delete_entry :: "(rat \<Rightarrow> string) \<Rightarrow> jobj \<Rightarrow> string \<Rightarrow> string \<Rightarrow> (string \<times> string \<times> (jobj
    option) \<times> jobj \<times> (int option)) result" where
  "contentful_build_delete_entry fr params space_id environment =
     rbind (contentful_required fr params ''entry_id'') (\<lambda>entry_id.
     rbind (contentful_required_int params ''version'') (\<lambda>version.
     let path = contentful_space_env_prefix space_id environment @ ''/entries/'' @ url_quote [] entry_id in
     Inr (''DELETE'', path, None, [], Some version)))"

definition contentful_build_get_asset :: "(rat \<Rightarrow> string) \<Rightarrow> jobj \<Rightarrow> string \<Rightarrow> string \<Rightarrow> (string \<times> string \<times> (jobj
    option) \<times> jobj \<times> (int option)) result" where
  "contentful_build_get_asset fr params space_id environment =
     rbind (contentful_required fr params ''asset_id'') (\<lambda>asset_id.
     let path = contentful_space_env_prefix space_id environment @ ''/assets/'' @ url_quote [] asset_id in
     Inr (''GET'', path, None, [], None))"

definition contentful_BUILDERS :: "(rat \<Rightarrow> string) \<Rightarrow> (string, jobj \<Rightarrow> string \<Rightarrow> string \<Rightarrow> (string \<times> string \<times> (jobj
    option) \<times> jobj \<times> (int option)) result) dict" where
  "contentful_BUILDERS fr =
     [(''get_entry'', contentful_build_get_entry fr),
      (''list_entries'', \<lambda>params space_id environment. Inr (contentful_build_list_entries fr params space_id
          environment)),
      (''create_entry'', contentful_build_create_entry fr),
      (''update_entry'', contentful_build_update_entry fr),
      (''publish_entry'', contentful_build_publish_entry fr),
      (''delete_entry'', contentful_build_delete_entry fr),
      (''get_asset'', contentful_build_get_asset fr)]"

definition contentful_build_request :: "(rat \<Rightarrow> string) \<Rightarrow> string \<Rightarrow> jobj \<Rightarrow> string \<Rightarrow> string \<Rightarrow> (string \<times> string \<times>
    (jobj option) \<times> jobj \<times> (int option)) result" where
  "contentful_build_request fr operation params space_id environment =
     (if space_id = [] then raise ValueError ''Contentful: 'space_id' is required''
     else if environment = [] then raise ValueError ''Contentful: 'environment' is required''
     else (case map_of (contentful_BUILDERS fr) operation of
        None \<Rightarrow> raise ValueError (''Contentful: unsupported operation '' @ repr_str operation)
      | Some builder \<Rightarrow> builder params space_id environment))"

lemma contentful_space_env_prefix_ok: "slashes (contentful_space_env_prefix space_id environment) = 4"
  by (simp add: contentful_space_env_prefix_def Let_def)

lemma contentful_required_ok: "ensures (\<lambda>_. True) (contentful_required fr params key)"
  unfolding contentful_required_def
  by (rule ensures_rules | simp)+

lemma contentful_build_get_entry_ok: "ensures (request_ok (Some 6)) (contentful_build_get_entry fr params space_id environment)"
  unfolding contentful_build_get_entry_def
  by (rule contentful_required_ok [THEN ensures_bind] contentful_required_ok [THEN ensures_weaken] ensures_rules | simp add: request_ok_def METHODS_def contentful_space_env_prefix_ok)+

lemma contentful_build_list_entries_ok: "ensures (request_ok (Some 5)) (Inr (contentful_build_list_entries fr params space_id environment))"
  by (rule ensures_Inr) (simp add: contentful_build_list_entries_def request_ok_def METHODS_def Let_def contentful_space_env_prefix_ok)

lemma contentful_build_create_entry_ok: "ensures (request_ok (Some 5)) (contentful_build_create_entry fr params space_id environment)"
  unfolding contentful_build_create_entry_def
  by (rule contentful_required_ok [THEN ensures_bind] contentful_required_ok [THEN ensures_weaken] ensures_rules | simp add: request_ok_def METHODS_def contentful_space_env_prefix_ok)+

lemma contentful_required_int_ok: "ensures (\<lambda>_. True) (contentful_required_int params key)"
  unfolding contentful_required_int_def
  by (rule ensures_rules | simp)+

lemma contentful_build_update_entry_ok: "ensures (request_ok (Some 6)) (contentful_build_update_entry fr params space_id environment)"
  unfolding contentful_build_update_entry_def
  by (rule contentful_required_ok [THEN ensures_bind] contentful_required_ok [THEN ensures_weaken] contentful_required_int_ok [THEN ensures_bind] contentful_required_int_ok [THEN ensures_weaken] ensures_rules | simp add: request_ok_def METHODS_def contentful_space_env_prefix_ok)+

lemma contentful_build_publish_entry_ok: "ensures (request_ok (Some 7)) (contentful_build_publish_entry fr params space_id environment)"
  unfolding contentful_build_publish_entry_def
  by (rule contentful_required_ok [THEN ensures_bind] contentful_required_ok [THEN ensures_weaken] contentful_required_int_ok [THEN ensures_bind] contentful_required_int_ok [THEN ensures_weaken] ensures_rules | simp add: request_ok_def METHODS_def contentful_space_env_prefix_ok)+

lemma contentful_build_delete_entry_ok: "ensures (request_ok (Some 6)) (contentful_build_delete_entry fr params space_id environment)"
  unfolding contentful_build_delete_entry_def
  by (rule contentful_required_ok [THEN ensures_bind] contentful_required_ok [THEN ensures_weaken] contentful_required_int_ok [THEN ensures_bind] contentful_required_int_ok [THEN ensures_weaken] ensures_rules | simp add: request_ok_def METHODS_def contentful_space_env_prefix_ok)+

lemma contentful_build_get_asset_ok: "ensures (request_ok (Some 6)) (contentful_build_get_asset fr params space_id environment)"
  unfolding contentful_build_get_asset_def
  by (rule contentful_required_ok [THEN ensures_bind] contentful_required_ok [THEN ensures_weaken] ensures_rules | simp add: request_ok_def METHODS_def contentful_space_env_prefix_ok)+


section \<open>Discord\<close>

definition discord_required :: "(rat \<Rightarrow> string) \<Rightarrow> jobj \<Rightarrow> string \<Rightarrow> string result" where
  "discord_required fr params key =
     (let value = text_param fr params key in
     if value = [] then raise ValueError (''Discord: '' @ repr_str key @ '' is required'')
     else Inr value)"

definition discord_message_body :: "(rat \<Rightarrow> string) \<Rightarrow> jobj \<Rightarrow> bool \<Rightarrow> jobj result" where
  "discord_message_body fr params require_body =
     (let body = ([] :: jobj) in
     let content = text_param fr params ''content'' in
     rbind (if content \<noteq> [] then (if 2000 < (int (length content)) then raise ValueError
         ''Discord: 'content' exceeds 2000 characters''
       else Inr (dict_set ''content'' (JStr content) body)) else Inr body) (\<lambda>body.
     let embeds = dict_get params ''embeds'' JNull in
     rbind (if embeds \<noteq> JNull then (if \<not> is_arr embeds then raise ValueError
         ''Discord: 'embeds' must be a list''
       else Inr (dict_set ''embeds'' (JArr (map JObj (map (\<lambda>e. obj_of e) (filter (\<lambda>e. is_obj e) (arr_of
           embeds))))) body)) else Inr body) (\<lambda>body.
     if require_body \<and> body = [] then raise ValueError
         ''Discord: at least one of 'content' or 'embeds' is required''
     else let tts = dict_get params ''tts'' JNull in
     Inr (if is_bool tts then dict_set ''tts'' tts body else body))))"

definition discord_build_send_message :: "(rat \<Rightarrow> string) \<Rightarrow> jobj \<Rightarrow> (string \<times> string \<times> (jobj option)) result"
    where
  "discord_build_send_message fr params =
     rbind (discord_required fr params ''channel_id'') (\<lambda>channel_id.
     rbind (discord_message_body fr params True) (\<lambda>body.
     let path = ''/api/v10'' @ ''/channels/'' @ channel_id @ ''/messages'' in
     Inr (''POST'', path, Some body)))"

definition discord_build_get_channel :: "(rat \<Rightarrow> string) \<Rightarrow> jobj \<Rightarrow> (string \<times> string \<times> (jobj option)) result" where
  "discord_build_get_channel fr params =
     rbind (discord_required fr params ''channel_id'') (\<lambda>channel_id.
     Inr (''GET'', ''/api/v10'' @ ''/channels/'' @ channel_id, None))"

definition discord_build_edit_message :: "(rat \<Rightarrow> string) \<Rightarrow> jobj \<Rightarrow> (string \<times> string \<times> (jobj option)) result"
    where
  "discord_build_edit_message fr params =
     rbind (discord_required fr params ''channel_id'') (\<lambda>channel_id.
     rbind (discord_required fr params ''message_id'') (\<lambda>message_id.
     rbind (discord_message_body fr params True) (\<lambda>body.
     let path = ''/api/v10'' @ ''/channels/'' @ channel_id @ ''/messages/'' @ message_id in
     Inr (''PATCH'', path, Some body))))"

definition discord_build_delete_message :: "(rat \<Rightarrow> string) \<Rightarrow> jobj \<Rightarrow> (string \<times> string \<times> (jobj option)) result"
    where
  "discord_build_delete_message fr params =
     rbind (discord_required fr params ''channel_id'') (\<lambda>channel_id.
     rbind (discord_required fr params ''message_id'') (\<lambda>message_id.
     let path = ''/api/v10'' @ ''/channels/'' @ channel_id @ ''/messages/'' @ message_id in
     Inr (''DELETE'', path, None)))"

definition discord_BUILDERS :: "(rat \<Rightarrow> string) \<Rightarrow> (string, jobj \<Rightarrow> (string \<times> string \<times> (jobj option)) result)
    dict" where
  "discord_BUILDERS fr =
     [(''send_message'', discord_build_send_message fr),
      (''get_channel'', discord_build_get_channel fr),
      (''edit_message'', discord_build_edit_message fr),
      (''delete_message'', discord_build_delete_message fr)]"

definition discord_build_request :: "(rat \<Rightarrow> string) \<Rightarrow> string \<Rightarrow> jobj \<Rightarrow> (string \<times> string \<times> (jobj option)) result"
    where
  "discord_build_request fr operation params =
     (case map_of (discord_BUILDERS fr) operation of
        None \<Rightarrow> raise ValueError (''Discord: unsupported operation '' @ repr_str operation)
      | Some builder \<Rightarrow> builder params)"

lemma discord_required_ok: "ensures (\<lambda>_. True) (discord_required fr params key)"
  unfolding discord_required_def
  by (rule ensures_rules | simp)+

lemma discord_message_body_ok: "ensures (\<lambda>_. True) (discord_message_body fr params require_body)"
  unfolding discord_message_body_def
  by (rule ensures_rules | simp)+

lemma discord_build_send_message_ok: "ensures (request_ok None) (discord_build_send_message fr params)"
  unfolding discord_build_send_message_def
  by (rule discord_required_ok [THEN ensures_bind] discord_required_ok [THEN ensures_weaken] discord_message_body_ok [THEN ensures_bind] discord_message_body_ok [THEN ensures_weaken] ensures_rules | simp add: request_ok_def METHODS_def)+

lemma discord_build_get_channel_ok: "ensures (request_ok None) (discord_build_get_channel fr params)"
  unfolding discord_build_get_channel_def
  by (rule discord_required_ok [THEN ensures_bind] discord_required_ok [THEN ensures_weaken] ensures_rules | simp add: request_ok_def METHODS_def)+

lemma discord_build_edit_message_ok: "ensures (request_ok None) (discord_build_edit_message fr params)"
  unfolding discord_build_edit_message_def
  by (rule discord_required_ok [THEN ensures_bind] discord_required_ok [THEN ensures_weaken] discord_message_body_ok [THEN ensures_bind] discord_message_body_ok [THEN ensures_weaken] ensures_rules | simp add: request_ok_def METHODS_def)+

lemma discord_build_delete_message_ok: "ensures (request_ok None) (discord_build_delete_message fr params)"
  unfolding discord_build_delete_message_def
  by (rule discord_required_ok [THEN ensures_bind] discord_required_ok [THEN ensures_weaken] ensures_rules | simp add: request_ok_def METHODS_def)+

definition discord_shape :: "(string, nat option) dict" where
  "discord_shape =
     [(''send_message'', None), (''get_channel'', None), (''edit_message'', None), (''delete_message'', None)]"

interpretation discord: request_builder "discord_build_request fr" discord_shape for fr
  by (rule request_builder_table [OF discord_build_request_def])
    (simp_all del: One_nat_def add: discord_BUILDERS_def discord_shape_def
      discord_build_send_message_ok discord_build_get_channel_ok discord_build_edit_message_ok
      discord_build_delete_message_ok)

end
