(* ===== verification/Builders_3.thy ===== *)
theory Builders_3
  imports Requests
begin

text \<open>
  Request builders of the integrations \<open>docusign\<close>, \<open>facebook\<close>, \<open>ga4\<close>, \<open>gcs\<close>, \<open>ghost\<close>, \<open>github\<close>, \<open>gitlab\<close>, \<open>google_sheets\<close>
  (\<open>nodes/integrations/<name>/operations.py\<close>), one definition per function of the module, prefixed
  with the name of the integration; constants of \<open>constants.py\<close> stand with their values, and an em dash
  in a message is a hyphen. \<open>fr\<close> prints a float. Each lemma \<open><function>_ok\<close> states what the function
  ensures: it raises nothing but \<open>ValueError\<close>, an identifier it returns has no slash, a number is
  within its bounds, a request has a known method and a path with a fixed number of slashes. The
  interpretation shows that the module keeps the interface of the nodes.
\<close>

section \<open>Docusign\<close>

definition docusign_build_list_envelopes :: "(rat \<Rightarrow> string) \<Rightarrow> string \<Rightarrow> jobj \<Rightarrow> request_spec" where
  "docusign_build_list_envelopes fr account_id params =
     (let query = ([] :: jobj) in
     let from_date = text_param fr params ''from_date'' in
     let query = (if from_date \<noteq> [] then dict_set ''from_date'' (JStr from_date) query else query) in
     let status = py_lower (text_param fr params ''status'') in
     let query = (if status \<noteq> [] then dict_set ''status'' (JStr status) query else query) in
     (''GET'', ''/v2.1/accounts/'' @ account_id @ ''/envelopes'', None, query))"

definition docusign_required_str :: "(rat \<Rightarrow> string) \<Rightarrow> jobj \<Rightarrow> string \<Rightarrow> string result" where
  "docusign_required_str fr params key =
     (let value = text_param fr params key in
     if value = [] then raise ValueError (''DocuSign: '' @ repr_str key @ '' is required'')
     else Inr value)"

definition docusign_build_get_envelope :: "(rat \<Rightarrow> string) \<Rightarrow> string \<Rightarrow> jobj \<Rightarrow> request_spec result" where
  "docusign_build_get_envelope fr account_id params =
     rbind (docusign_required_str fr params ''envelope_id'') (\<lambda>envelope_id.
     Inr (''GET'', ''/v2.1/accounts/'' @ account_id @ ''/envelopes/'' @ envelope_id, None, []))"

definition docusign_build_create_envelope :: "(rat \<Rightarrow> string) \<Rightarrow> string \<Rightarrow> jobj \<Rightarrow> request_spec result" where
  "docusign_build_create_envelope fr account_id params =
     rbind (docusign_required_str fr params ''email_subject'') (\<lambda>email_subject.
     let status = py_lower (py_strip (py_str fr (param_or params ''status'' (JStr ''sent'')))) in
     if status \<notin> set [''sent'', ''created''] then raise ValueError (''DocuSign: 'status' must be one of '' @
         ''['created', 'sent']'' @ '' - got '' @ repr_str status)
     else let template_id = text_param fr params ''template_id'' in
     let body = [(''emailSubject'', JStr email_subject), (''status'', JStr status)] in
     let message = text_param fr params ''email_message'' in
     let body = (if message \<noteq> [] then dict_set ''emailBlurb'' (JStr message) body else body) in
     rbind (if template_id \<noteq> [] then (let body = dict_set ''templateId'' (JStr template_id) body in
       let template_roles = dict_get params ''template_roles'' JNull in
       Inr (if is_arr template_roles \<and> py_bool template_roles then dict_set ''templateRoles'' template_roles
           body else body)) else (let documents = dict_get params ''documents'' JNull in
       if \<not> is_arr documents \<or> \<not> py_bool documents then raise ValueError
           ''DocuSign: create_envelope requires 'template_id' or a non-empty 'documents' list''
       else let body = dict_set ''documents'' documents body in
       let recipients = dict_get params ''recipients'' JNull in
       Inr (if is_obj recipients then dict_set ''recipients'' recipients body else body))) (\<lambda>body.
     Inr (''POST'', ''/v2.1/accounts/'' @ account_id @ ''/envelopes'', Some body, [])))"

definition docusign_build_list_templates :: "string \<Rightarrow> jobj \<Rightarrow> request_spec" where
  "docusign_build_list_templates account_id params =
     (''GET'', ''/v2.1/accounts/'' @ account_id @ ''/templates'', None, [])"

definition docusign_BUILDERS :: "(rat \<Rightarrow> string) \<Rightarrow> (string, string \<Rightarrow> jobj \<Rightarrow> request_spec result) dict" where
  "docusign_BUILDERS fr =
     [(''list_envelopes'', \<lambda>account_id params. Inr (docusign_build_list_envelopes fr account_id params)),
      (''get_envelope'', docusign_build_get_envelope fr),
      (''create_envelope'', docusign_build_create_envelope fr),
      (''list_templates'', \<lambda>account_id params. Inr (docusign_build_list_templates account_id params))]"

definition docusign_build_request :: "(rat \<Rightarrow> string) \<Rightarrow> string \<Rightarrow> string \<Rightarrow> jobj \<Rightarrow> request_spec result" where
  "docusign_build_request fr operation account_id params =
     (if py_strip account_id = [] then raise ValueError ''DocuSign: account_id is required''
     else (case map_of (docusign_BUILDERS fr) operation of
        None \<Rightarrow> raise ValueError (''DocuSign: unsupported operation '' @ repr_str operation)
      | Some builder \<Rightarrow> builder (py_strip account_id) params))"

lemma docusign_build_list_envelopes_ok: "ensures (request_ok None) (Inr (docusign_build_list_envelopes fr account_id params))"
  by (rule ensures_Inr) (simp add: docusign_build_list_envelopes_def request_ok_def METHODS_def Let_def)

lemma docusign_required_str_ok: "ensures (\<lambda>_. True) (docusign_required_str fr params key)"
  unfolding docusign_required_str_def
  by (rule ensures_rules | simp)+

lemma docusign_build_get_envelope_ok: "ensures (request_ok None) (docusign_build_get_envelope fr account_id params)"
  unfolding docusign_build_get_envelope_def
  by (rule docusign_required_str_ok [THEN ensures_bind] docusign_required_str_ok [THEN ensures_weaken] ensures_rules | simp add: request_ok_def METHODS_def)+

lemma docusign_build_create_envelope_ok: "ensures (request_ok None) (docusign_build_create_envelope fr account_id params)"
  unfolding docusign_build_create_envelope_def
  by (rule docusign_required_str_ok [THEN ensures_bind] docusign_required_str_ok [THEN ensures_weaken] ensures_rules | simp add: request_ok_def METHODS_def)+

lemma docusign_build_list_templates_ok: "ensures (request_ok None) (Inr (docusign_build_list_templates account_id params))"
  by (rule ensures_Inr) (simp add: docusign_build_list_templates_def request_ok_def METHODS_def Let_def)


section \<open>Facebook\<close>

definition facebook_build_get_me :: "(rat \<Rightarrow> string) \<Rightarrow> jobj \<Rightarrow> request_spec" where
  "facebook_build_get_me fr params =
     (let query = ([] :: jobj) in
     let fields = text_param fr params ''fields'' in
     let query = (if fields \<noteq> [] then dict_set ''fields'' (JStr fields) query else query) in
     (''GET'', ''/me'', None, query))"

definition facebook_required :: "(rat \<Rightarrow> string) \<Rightarrow> jobj \<Rightarrow> string \<Rightarrow> string result" where
  "facebook_required fr params key =
     (let value = text_param fr params key in
     if value = [] then raise ValueError (''Facebook: '' @ repr_str key @ '' is required'')
     else Inr value)"

definition facebook_build_get_node :: "(rat \<Rightarrow> string) \<Rightarrow> jobj \<Rightarrow> request_spec result" where
  "facebook_build_get_node fr params =
     rbind (facebook_required fr params ''node_id'') (\<lambda>node_id.
     let query = ([] :: jobj) in
     let fields = text_param fr params ''fields'' in
     let query = (if fields \<noteq> [] then dict_set ''fields'' (JStr fields) query else query) in
     Inr (''GET'', ''/'' @ url_quote [] node_id, None, query))"

definition facebook_coerce_positive_int :: "json \<Rightarrow> string \<Rightarrow> int result" where
  "facebook_coerce_positive_int raw field =
     (case int_of_json raw of
       None \<Rightarrow> raise ValueError (''Facebook: '' @ repr_str field @ '' must be a positive integer'')
     | Some value \<Rightarrow>
       if value < 1 then raise ValueError (''Facebook: '' @ repr_str field @ '' must be >= 1'')
       else Inr value)"

definition facebook_build_list_edge :: "(rat \<Rightarrow> string) \<Rightarrow> jobj \<Rightarrow> request_spec result" where
  "facebook_build_list_edge fr params =
     rbind (facebook_required fr params ''node_id'') (\<lambda>node_id.
     rbind (facebook_required fr params ''edge'') (\<lambda>edge.
     let query = ([] :: jobj) in
     let fields = text_param fr params ''fields'' in
     let query = (if fields \<noteq> [] then dict_set ''fields'' (JStr fields) query else query) in
     let limit = dict_get params ''limit'' JNull in
     rbind (if limit \<noteq> JNull \<and> limit \<noteq> JStr [] then (rbind (facebook_coerce_positive_int limit ''limit'') (\<lambda>r3.
       Inr (dict_set ''limit'' (JInt r3) query))) else Inr query) (\<lambda>query.
     let after = text_param fr params ''after'' in
     let query = (if after \<noteq> [] then dict_set ''after'' (JStr after) query else query) in
     let before = text_param fr params ''before'' in
     let query = (if before \<noteq> [] then dict_set ''before'' (JStr before) query else query) in
     let path = ''/'' @ url_quote [] node_id @ ''/'' @ url_quote [] edge in
     Inr (''GET'', path, None, query))))"

definition facebook_coerce_body :: "json \<Rightarrow> jobj result" where
  "facebook_coerce_body raw =
     (if raw = JNull \<or> raw = JStr [] then raise ValueError ''Facebook: 'body' is required''
     else if \<not> is_obj raw then raise ValueError ''Facebook: 'body' must be a JSON object''
     else Inr (obj_of raw))"

definition facebook_build_create_edge :: "(rat \<Rightarrow> string) \<Rightarrow> jobj \<Rightarrow> request_spec result" where
  "facebook_build_create_edge fr params =
     rbind (facebook_required fr params ''node_id'') (\<lambda>node_id.
     rbind (facebook_required fr params ''edge'') (\<lambda>edge.
     rbind (facebook_coerce_body (dict_get params ''body'' JNull)) (\<lambda>body.
     let path = ''/'' @ url_quote [] node_id @ ''/'' @ url_quote [] edge in
     Inr (''POST'', path, Some body, []))))"

definition facebook_build_delete_node :: "(rat \<Rightarrow> string) \<Rightarrow> jobj \<Rightarrow> request_spec result" where
  "facebook_build_delete_node fr params =
     rbind (facebook_required fr params ''node_id'') (\<lambda>node_id.
     Inr (''DELETE'', ''/'' @ url_quote [] node_id, None, []))"

definition facebook_BUILDERS :: "(rat \<Rightarrow> string) \<Rightarrow> (string, jobj \<Rightarrow> request_spec result) dict" where
  "facebook_BUILDERS fr =
     [(''get_me'', \<lambda>params. Inr (facebook_build_get_me fr params)),
      (''get_node'', facebook_build_get_node fr),
      (''list_edge'', facebook_build_list_edge fr),
      (''create_edge'', facebook_build_create_edge fr),
      (''delete_node'', facebook_build_delete_node fr)]"

definition facebook_build_request :: "(rat \<Rightarrow> string) \<Rightarrow> string \<Rightarrow> jobj \<Rightarrow> request_spec result" where
  "facebook_build_request fr operation params =
     (case map_of (facebook_BUILDERS fr) operation of
        None \<Rightarrow> raise ValueError (''Facebook: unsupported operation '' @ repr_str operation)
      | Some builder \<Rightarrow> builder params)"

lemma facebook_build_get_me_ok: "ensures (request_ok (Some 1)) (Inr (facebook_build_get_me fr params))"
  by (rule ensures_Inr) (simp add: facebook_build_get_me_def request_ok_def METHODS_def Let_def)

lemma facebook_required_ok: "ensures (\<lambda>_. True) (facebook_required fr params key)"
  unfolding facebook_required_def
  by (rule ensures_rules | simp)+

lemma facebook_build_get_node_ok: "ensures (request_ok (Some 1)) (facebook_build_get_node fr params)"
  unfolding facebook_build_get_node_def
  by (rule facebook_required_ok [THEN ensures_bind] facebook_required_ok [THEN ensures_weaken] ensures_rules | simp add: request_ok_def METHODS_def)+

lemma facebook_coerce_positive_int_ok: "ensures (\<lambda>v. 1 \<le> v) (facebook_coerce_positive_int raw field)"
  unfolding facebook_coerce_positive_int_def
  by (rule ensures_rules | simp)+

lemma facebook_build_list_edge_ok: "ensures (request_ok (Some 2)) (facebook_build_list_edge fr params)"
  unfolding facebook_build_list_edge_def
  by (rule facebook_required_ok [THEN ensures_bind] facebook_required_ok [THEN ensures_weaken] facebook_coerce_positive_int_ok [THEN ensures_bind] facebook_coerce_positive_int_ok [THEN ensures_weaken] ensures_rules | simp add: request_ok_def METHODS_def)+

lemma facebook_coerce_body_ok: "ensures (\<lambda>_. True) (facebook_coerce_body raw)"
  unfolding facebook_coerce_body_def
  by (rule ensures_rules | simp)+

lemma facebook_build_create_edge_ok: "ensures (request_ok (Some 2)) (facebook_build_create_edge fr params)"
  unfolding facebook_build_create_edge_def
  by (rule facebook_required_ok [THEN ensures_bind] facebook_required_ok [THEN ensures_weaken] facebook_coerce_body_ok [THEN ensures_bind] facebook_coerce_body_ok [THEN ensures_weaken] ensures_rules | simp add: request_ok_def METHODS_def)+

lemma facebook_build_delete_node_ok: "ensures (request_ok (Some 1)) (facebook_build_delete_node fr params)"
  unfolding facebook_build_delete_node_def
  by (rule facebook_required_ok [THEN ensures_bind] facebook_required_ok [THEN ensures_weaken] ensures_rules | simp add: request_ok_def METHODS_def)+

definition facebook_shape :: "(string, nat option) dict" where
  "facebook_shape =
     [(''get_me'', Some 1), (''get_node'', Some 1), (''list_edge'', Some 2), (''create_edge'', Some 2),
         (''delete_node'', Some 1)]"

interpretation facebook: request_builder "facebook_build_request fr" facebook_shape for fr
  by (rule request_builder_table [OF facebook_build_request_def])
    (simp_all del: One_nat_def add: facebook_BUILDERS_def facebook_shape_def
      facebook_build_get_me_ok facebook_build_get_node_ok facebook_build_list_edge_ok
      facebook_build_create_edge_ok facebook_build_delete_node_ok)

section \<open>Ga4\<close>

definition ga4_required_str :: "(rat \<Rightarrow> string) \<Rightarrow> jobj \<Rightarrow> string \<Rightarrow> string result" where
  "ga4_required_str fr params key =
     (let value = text_param fr params key in
     if value = [] then raise ValueError (''GA4: '' @ repr_str key @ '' is required'')
     else Inr value)"

definition ga4_base_envelope :: "(rat \<Rightarrow> string) \<Rightarrow> jobj \<Rightarrow> jobj result" where
  "ga4_base_envelope fr params =
     rbind (ga4_required_str fr params ''client_id'') (\<lambda>client_id.
     let out = [(''client_id'', JStr client_id)] in
     let user_id = text_param fr params ''user_id'' in
     let out = (if user_id \<noteq> [] then dict_set ''user_id'' (JStr user_id) out else out) in
     let timestamp = dict_get params ''timestamp_micros'' JNull in
     let out = (if is_int timestamp \<and> 0 < (int_val timestamp) then dict_set ''timestamp_micros'' timestamp out
         else out) in
     let non_personalized = dict_get params ''non_personalized_ads'' JNull in
     Inr (if is_bool non_personalized then dict_set ''non_personalized_ads'' non_personalized out else out))"

definition ga4_single_event :: "(rat \<Rightarrow> string) \<Rightarrow> jobj \<Rightarrow> jobj result" where
  "ga4_single_event fr params =
     rbind (ga4_required_str fr params ''event_name'') (\<lambda>name.
     let event = [(''name'', JStr name)] in
     let event_params = dict_get params ''event_params'' JNull in
     Inr (if is_obj event_params then dict_set ''params'' (JObj (obj_of event_params)) event else dict_set
         ''params'' (JObj []) event))"

definition ga4_build_track_event :: "(rat \<Rightarrow> string) \<Rightarrow> jobj \<Rightarrow> (string \<times> string \<times> jobj \<times> jobj) result" where
  "ga4_build_track_event fr params =
     rbind (ga4_base_envelope fr params) (\<lambda>body.
     rbind (ga4_single_event fr params) (\<lambda>r2.
     let body = dict_set ''events'' (JArr (map JObj [r2])) body in
     Inr (''POST'', ''/mp/collect'', body, [])))"

definition ga4_coerce_event :: "(rat \<Rightarrow> string) \<Rightarrow> json \<Rightarrow> jobj result" where
  "ga4_coerce_event fr raw =
     (if \<not> is_obj raw then raise ValueError ''GA4: each entry in 'events' must be a dict''
     else let name = text_param fr (obj_of raw) ''name'' in
     if name = [] then raise ValueError (''GA4: each event needs a non-empty 'name'' @ [CHR 0x27])
     else let event_params = dict_get (obj_of raw) ''params'' JNull in
     Inr [(''name'', JStr name), (''params'', JObj (if is_obj event_params then obj_of event_params else []))])"

definition ga4_build_track_events :: "(rat \<Rightarrow> string) \<Rightarrow> jobj \<Rightarrow> (string \<times> string \<times> jobj \<times> jobj) result" where
  "ga4_build_track_events fr params =
     (let events = dict_get params ''events'' JNull in
     if \<not> is_arr events \<or> \<not> py_bool events then raise ValueError
         ''GA4: 'events' must be a non-empty list for track_events''
     else rbind (ga4_base_envelope fr params) (\<lambda>body.
     rbind (rmap (\<lambda>e. ga4_coerce_event fr e) (arr_of events)) (\<lambda>r3.
     let body = dict_set ''events'' (JArr (map JObj r3)) body in
     Inr (''POST'', ''/mp/collect'', body, []))))"

definition ga4_build_validate_event :: "(rat \<Rightarrow> string) \<Rightarrow> jobj \<Rightarrow> (string \<times> string \<times> jobj \<times> jobj) result" where
  "ga4_build_validate_event fr params =
     rbind (ga4_base_envelope fr params) (\<lambda>body.
     rbind (ga4_single_event fr params) (\<lambda>r2.
     let body = dict_set ''events'' (JArr (map JObj [r2])) body in
     Inr (''POST'', ''/debug/mp/collect'', body, [])))"

definition ga4_build_user_properties :: "(rat \<Rightarrow> string) \<Rightarrow> jobj \<Rightarrow> (string \<times> string \<times> jobj \<times> jobj) result" where
  "ga4_build_user_properties fr params =
     (let user_properties = dict_get params ''user_properties'' JNull in
     if \<not> is_obj user_properties \<or> \<not> py_bool user_properties then raise ValueError
         ''GA4: 'user_properties' dict is required for user_properties''
     else rbind (ga4_base_envelope fr params) (\<lambda>body.
     let body = dict_set ''user_properties'' (JObj (dict_of_pairs (map (\<lambda>(k, v). (k, JObj [(''value'', v)]))
         (obj_of user_properties)))) body in
     let body = dict_set ''events'' (JArr (map JObj [[(''name'', JStr ''session_start''), (''params'', JObj
         [])]])) body in
     Inr (''POST'', ''/mp/collect'', body, [])))"

definition ga4_BUILDERS :: "(rat \<Rightarrow> string) \<Rightarrow> (string, jobj \<Rightarrow> (string \<times> string \<times> jobj \<times> jobj) result) dict" where
  "ga4_BUILDERS fr =
     [(''track_event'', ga4_build_track_event fr),
      (''track_events'', ga4_build_track_events fr),
      (''validate_event'', ga4_build_validate_event fr),
      (''user_properties'', ga4_build_user_properties fr)]"

definition ga4_build_request :: "(rat \<Rightarrow> string) \<Rightarrow> string \<Rightarrow> jobj \<Rightarrow> (string \<times> string \<times> jobj \<times> jobj) result" where
  "ga4_build_request fr operation params =
     (case map_of (ga4_BUILDERS fr) operation of
        None \<Rightarrow> raise ValueError (''GA4: unsupported operation '' @ repr_str operation)
      | Some builder \<Rightarrow> builder params)"

lemma ga4_required_str_ok: "ensures (\<lambda>_. True) (ga4_required_str fr params key)"
  unfolding ga4_required_str_def
  by (rule ensures_rules | simp)+

lemma ga4_base_envelope_ok: "ensures (\<lambda>_. True) (ga4_base_envelope fr params)"
  unfolding ga4_base_envelope_def
  by (rule ga4_required_str_ok [THEN ensures_bind] ga4_required_str_ok [THEN ensures_weaken] ensures_rules | simp)+

lemma ga4_single_event_ok: "ensures (\<lambda>_. True) (ga4_single_event fr params)"
  unfolding ga4_single_event_def
  by (rule ga4_required_str_ok [THEN ensures_bind] ga4_required_str_ok [THEN ensures_weaken] ensures_rules | simp)+

lemma ga4_build_track_event_ok: "ensures (request_ok (Some 2)) (ga4_build_track_event fr params)"
  unfolding ga4_build_track_event_def
  by (rule ga4_base_envelope_ok [THEN ensures_bind] ga4_base_envelope_ok [THEN ensures_weaken] ga4_single_event_ok [THEN ensures_bind] ga4_single_event_ok [THEN ensures_weaken] ensures_rules | simp add: request_ok_def METHODS_def)+

lemma ga4_coerce_event_ok: "ensures (\<lambda>_. True) (ga4_coerce_event fr raw)"
  unfolding ga4_coerce_event_def
  by (rule ensures_rules | simp)+

lemma ga4_build_track_events_ok: "ensures (request_ok (Some 2)) (ga4_build_track_events fr params)"
  unfolding ga4_build_track_events_def
  by (rule ga4_base_envelope_ok [THEN ensures_bind] ga4_base_envelope_ok [THEN ensures_weaken] ga4_coerce_event_ok [THEN ensures_bind] ga4_coerce_event_ok [THEN ensures_weaken] ensures_rules | simp add: request_ok_def METHODS_def)+

lemma ga4_build_validate_event_ok: "ensures (request_ok (Some 3)) (ga4_build_validate_event fr params)"
  unfolding ga4_build_validate_event_def
  by (rule ga4_base_envelope_ok [THEN ensures_bind] ga4_base_envelope_ok [THEN ensures_weaken] ga4_single_event_ok [THEN ensures_bind] ga4_single_event_ok [THEN ensures_weaken] ensures_rules | simp add: request_ok_def METHODS_def)+

lemma ga4_build_user_properties_ok: "ensures (request_ok (Some 2)) (ga4_build_user_properties fr params)"
  unfolding ga4_build_user_properties_def
  by (rule ga4_base_envelope_ok [THEN ensures_bind] ga4_base_envelope_ok [THEN ensures_weaken] ensures_rules | simp add: request_ok_def METHODS_def)+

definition ga4_shape :: "(string, nat option) dict" where
  "ga4_shape =
     [(''track_event'', Some 2), (''track_events'', Some 2), (''validate_event'', Some 3),
         (''user_properties'', Some 2)]"

interpretation ga4: request_builder "ga4_build_request fr" ga4_shape for fr
  by (rule request_builder_table [OF ga4_build_request_def])
    (simp_all del: One_nat_def add: ga4_BUILDERS_def ga4_shape_def
      ga4_build_track_event_ok ga4_build_track_events_ok ga4_build_validate_event_ok
      ga4_build_user_properties_ok)

section \<open>Gcs\<close>

definition gcs_required_str :: "(rat \<Rightarrow> string) \<Rightarrow> jobj \<Rightarrow> string \<Rightarrow> string result" where
  "gcs_required_str fr params key =
     (let value = text_param fr params key in
     if value = [] then raise ValueError (''GCS: '' @ repr_str key @ '' is required'')
     else Inr value)"

definition gcs_build_list_buckets :: "(rat \<Rightarrow> string) \<Rightarrow> jobj \<Rightarrow> (string \<times> string \<times> jobj) result" where
  "gcs_build_list_buckets fr params =
     rbind (gcs_required_str fr params ''project'') (\<lambda>project.
     let query = [(''project'', JStr project)] in
     let page_token = text_param fr params ''page_token'' in
     let query = (if page_token \<noteq> [] then dict_set ''pageToken'' (JStr page_token) query else query) in
     let prefix = text_param fr params ''prefix'' in
     let query = (if prefix \<noteq> [] then dict_set ''prefix'' (JStr prefix) query else query) in
     Inr (''GET'', ''/storage/v1/b'', query))"

definition gcs_build_list_objects :: "(rat \<Rightarrow> string) \<Rightarrow> jobj \<Rightarrow> (string \<times> string \<times> jobj) result" where
  "gcs_build_list_objects fr params =
     rbind (gcs_required_str fr params ''bucket'') (\<lambda>bucket.
     let query = ([] :: jobj) in
     let prefix = text_param fr params ''prefix'' in
     let query = (if prefix \<noteq> [] then dict_set ''prefix'' (JStr prefix) query else query) in
     let page_token = text_param fr params ''page_token'' in
     let query = (if page_token \<noteq> [] then dict_set ''pageToken'' (JStr page_token) query else query) in
     let delimiter = text_param fr params ''delimiter'' in
     let query = (if delimiter \<noteq> [] then dict_set ''delimiter'' (JStr delimiter) query else query) in
     Inr (''GET'', ''/storage/v1/b/'' @ url_quote [] bucket @ ''/o'', query))"

definition gcs_build_get_object :: "(rat \<Rightarrow> string) \<Rightarrow> jobj \<Rightarrow> (string \<times> string \<times> jobj) result" where
  "gcs_build_get_object fr params =
     rbind (gcs_required_str fr params ''bucket'') (\<lambda>bucket.
     rbind (gcs_required_str fr params ''object_name'') (\<lambda>object_name.
     let query = ([] :: jobj) in
     let alt = text_param fr params ''alt'' in
     let query = (if alt \<noteq> [] then dict_set ''alt'' (JStr alt) query else query) in
     Inr (''GET'', ''/storage/v1/b/'' @ url_quote [] bucket @ ''/o/'' @ url_quote [] object_name, query)))"

definition gcs_build_delete_object :: "(rat \<Rightarrow> string) \<Rightarrow> jobj \<Rightarrow> (string \<times> string \<times> jobj) result" where
  "gcs_build_delete_object fr params =
     rbind (gcs_required_str fr params ''bucket'') (\<lambda>bucket.
     rbind (gcs_required_str fr params ''object_name'') (\<lambda>object_name.
     Inr (''DELETE'', ''/storage/v1/b/'' @ url_quote [] bucket @ ''/o/'' @ url_quote [] object_name, [])))"

definition gcs_BUILDERS :: "(rat \<Rightarrow> string) \<Rightarrow> (string, jobj \<Rightarrow> (string \<times> string \<times> jobj) result) dict" where
  "gcs_BUILDERS fr =
     [(''list_buckets'', gcs_build_list_buckets fr),
      (''list_objects'', gcs_build_list_objects fr),
      (''get_object'', gcs_build_get_object fr),
      (''delete_object'', gcs_build_delete_object fr)]"

definition gcs_build_request :: "(rat \<Rightarrow> string) \<Rightarrow> string \<Rightarrow> jobj \<Rightarrow> (string \<times> string \<times> jobj) result" where
  "gcs_build_request fr operation params =
     (case map_of (gcs_BUILDERS fr) operation of
        None \<Rightarrow> raise ValueError (''GCS: unsupported operation '' @ repr_str operation)
      | Some builder \<Rightarrow> builder params)"

lemma gcs_required_str_ok: "ensures (\<lambda>_. True) (gcs_required_str fr params key)"
  unfolding gcs_required_str_def
  by (rule ensures_rules | simp)+

lemma gcs_build_list_buckets_ok: "ensures (request_ok (Some 3)) (gcs_build_list_buckets fr params)"
  unfolding gcs_build_list_buckets_def
  by (rule gcs_required_str_ok [THEN ensures_bind] gcs_required_str_ok [THEN ensures_weaken] ensures_rules | simp add: request_ok_def METHODS_def)+

lemma gcs_build_list_objects_ok: "ensures (request_ok (Some 5)) (gcs_build_list_objects fr params)"
  unfolding gcs_build_list_objects_def
  by (rule gcs_required_str_ok [THEN ensures_bind] gcs_required_str_ok [THEN ensures_weaken] ensures_rules | simp add: request_ok_def METHODS_def)+

lemma gcs_build_get_object_ok: "ensures (request_ok (Some 6)) (gcs_build_get_object fr params)"
  unfolding gcs_build_get_object_def
  by (rule gcs_required_str_ok [THEN ensures_bind] gcs_required_str_ok [THEN ensures_weaken] ensures_rules | simp add: request_ok_def METHODS_def)+

lemma gcs_build_delete_object_ok: "ensures (request_ok (Some 6)) (gcs_build_delete_object fr params)"
  unfolding gcs_build_delete_object_def
  by (rule gcs_required_str_ok [THEN ensures_bind] gcs_required_str_ok [THEN ensures_weaken] ensures_rules | simp add: request_ok_def METHODS_def)+

definition gcs_shape :: "(string, nat option) dict" where
  "gcs_shape =
     [(''list_buckets'', Some 3), (''list_objects'', Some 5), (''get_object'', Some 6), (''delete_object'',
         Some 6)]"

interpretation gcs: request_builder "gcs_build_request fr" gcs_shape for fr
  by (rule request_builder_table [OF gcs_build_request_def])
    (simp_all del: One_nat_def add: gcs_BUILDERS_def gcs_shape_def
      gcs_build_list_buckets_ok gcs_build_list_objects_ok gcs_build_get_object_ok
      gcs_build_delete_object_ok)

section \<open>Ghost\<close>

definition ghost_stringify :: "(rat \<Rightarrow> string) \<Rightarrow> json \<Rightarrow> string" where
  "ghost_stringify fr value =
     (if is_bool value then (if py_bool value then ''true'' else ''false'')
     else py_str fr value)"

definition ghost_collect_list_query :: "(rat \<Rightarrow> string) \<Rightarrow> jobj \<Rightarrow> jobj" where
  "ghost_collect_list_query fr params =
     (let query = ([] :: jobj) in
     let query = foldl (\<lambda>query key.
         let value = dict_get params key JNull in
         (if \<not> is_blank value then dict_set key (JStr (ghost_stringify fr value)) query else query)) query
             [''limit'', ''page'', ''filter'', ''order'', ''include'', ''fields''] in
     query)"

definition ghost_build_list_posts :: "(rat \<Rightarrow> string) \<Rightarrow> jobj \<Rightarrow> request_spec" where
  "ghost_build_list_posts fr params =
     (let query = ghost_collect_list_query fr params in
     (''GET'', ''/ghost/api/admin/posts/'', None, query))"

definition ghost_required :: "(rat \<Rightarrow> string) \<Rightarrow> jobj \<Rightarrow> string \<Rightarrow> string result" where
  "ghost_required fr params key =
     (let value = text_param fr params key in
     if value = [] then raise ValueError (''Ghost: '' @ repr_str key @ '' is required'')
     else Inr value)"

definition ghost_build_get_post :: "(rat \<Rightarrow> string) \<Rightarrow> jobj \<Rightarrow> request_spec result" where
  "ghost_build_get_post fr params =
     rbind (ghost_required fr params ''post_id'') (\<lambda>post_id.
     let query = ([] :: jobj) in
     let include = text_param fr params ''include'' in
     let query = (if include \<noteq> [] then dict_set ''include'' (JStr include) query else query) in
     Inr (''GET'', ''/ghost/api/admin'' @ ''/posts/'' @ url_quote [] post_id @ ''/'', None, query))"

definition ghost_merge_optional_post_fields :: "jobj \<Rightarrow> jobj \<Rightarrow> jobj" where
  "ghost_merge_optional_post_fields post params =
     (let post = foldl (\<lambda>post key.
         let value = dict_get params key JNull in
         if is_blank value then post
         else dict_set key value post) post [''html'', ''lexical'', ''status'', ''slug'', ''custom_excerpt'',
             ''featured'', ''visibility''] in
     let tags = dict_get params ''tags'' JNull in
     (if is_arr tags \<and> py_bool tags then dict_set ''tags'' tags post else post))"

definition ghost_build_create_post :: "(rat \<Rightarrow> string) \<Rightarrow> jobj \<Rightarrow> request_spec result" where
  "ghost_build_create_post fr params =
     rbind (ghost_required fr params ''title'') (\<lambda>title.
     let post = [(''title'', JStr title)] in
     let post = ghost_merge_optional_post_fields post params in
     Inr (''POST'', ''/ghost/api/admin/posts/'', Some [(''posts'', JArr (map JObj [post]))], []))"

definition ghost_build_update_post :: "(rat \<Rightarrow> string) \<Rightarrow> jobj \<Rightarrow> request_spec result" where
  "ghost_build_update_post fr params =
     rbind (ghost_required fr params ''post_id'') (\<lambda>post_id.
     let updated_at = text_param fr params ''updated_at'' in
     if updated_at = [] then raise ValueError
         ''Ghost: 'updated_at' is required for updates (optimistic concurrency)''
     else let post = [(''updated_at'', JStr updated_at)] in
     let post = ghost_merge_optional_post_fields post params in
     if int (length post) = 1 then raise ValueError
         (''Ghost: update requires at least one field besides 'updated_at'' @ [CHR 0x27])
     else let path = ''/ghost/api/admin'' @ ''/posts/'' @ url_quote [] post_id @ ''/'' in
     Inr (''PUT'', path, Some [(''posts'', JArr (map JObj [post]))], []))"

definition ghost_build_delete_post :: "(rat \<Rightarrow> string) \<Rightarrow> jobj \<Rightarrow> request_spec result" where
  "ghost_build_delete_post fr params =
     rbind (ghost_required fr params ''post_id'') (\<lambda>post_id.
     let path = ''/ghost/api/admin'' @ ''/posts/'' @ url_quote [] post_id @ ''/'' in
     Inr (''DELETE'', path, None, []))"

definition ghost_build_list_members :: "(rat \<Rightarrow> string) \<Rightarrow> jobj \<Rightarrow> request_spec" where
  "ghost_build_list_members fr params =
     (let query = ghost_collect_list_query fr params in
     (''GET'', ''/ghost/api/admin/members/'', None, query))"

definition ghost_build_create_member :: "(rat \<Rightarrow> string) \<Rightarrow> jobj \<Rightarrow> request_spec result" where
  "ghost_build_create_member fr params =
     rbind (ghost_required fr params ''email'') (\<lambda>email.
     let member = [(''email'', JStr email)] in
     let name = text_param fr params ''name'' in
     let member = (if name \<noteq> [] then dict_set ''name'' (JStr name) member else member) in
     let note = text_param fr params ''note'' in
     let member = (if note \<noteq> [] then dict_set ''note'' (JStr note) member else member) in
     let labels = dict_get params ''labels'' JNull in
     let member = (if is_arr labels \<and> py_bool labels then dict_set ''labels'' (JArr (map JStr (map (\<lambda>lbl.
         py_str fr lbl) (arr_of labels)))) member else member) in
     Inr (''POST'', ''/ghost/api/admin/members/'', Some [(''members'', JArr (map JObj [member]))], []))"

definition ghost_BUILDERS :: "(rat \<Rightarrow> string) \<Rightarrow> (string, jobj \<Rightarrow> request_spec result) dict" where
  "ghost_BUILDERS fr =
     [(''list_posts'', \<lambda>params. Inr (ghost_build_list_posts fr params)),
      (''get_post'', ghost_build_get_post fr),
      (''create_post'', ghost_build_create_post fr),
      (''update_post'', ghost_build_update_post fr),
      (''delete_post'', ghost_build_delete_post fr),
      (''list_members'', \<lambda>params. Inr (ghost_build_list_members fr params)),
      (''create_member'', ghost_build_create_member fr)]"

definition ghost_build_request :: "(rat \<Rightarrow> string) \<Rightarrow> string \<Rightarrow> jobj \<Rightarrow> request_spec result" where
  "ghost_build_request fr operation params =
     (case map_of (ghost_BUILDERS fr) operation of
        None \<Rightarrow> raise ValueError (''Ghost: unsupported operation '' @ repr_str operation)
      | Some builder \<Rightarrow> builder params)"

lemma ghost_build_list_posts_ok: "ensures (request_ok (Some 5)) (Inr (ghost_build_list_posts fr params))"
  by (rule ensures_Inr) (simp add: ghost_build_list_posts_def request_ok_def METHODS_def Let_def)

lemma ghost_required_ok: "ensures (\<lambda>_. True) (ghost_required fr params key)"
  unfolding ghost_required_def
  by (rule ensures_rules | simp)+

lemma ghost_build_get_post_ok: "ensures (request_ok (Some 6)) (ghost_build_get_post fr params)"
  unfolding ghost_build_get_post_def
  by (rule ghost_required_ok [THEN ensures_bind] ghost_required_ok [THEN ensures_weaken] ensures_rules | simp add: request_ok_def METHODS_def)+

lemma ghost_build_create_post_ok: "ensures (request_ok (Some 5)) (ghost_build_create_post fr params)"
  unfolding ghost_build_create_post_def
  by (rule ghost_required_ok [THEN ensures_bind] ghost_required_ok [THEN ensures_weaken] ensures_rules | simp add: request_ok_def METHODS_def)+

lemma ghost_build_update_post_ok: "ensures (request_ok (Some 6)) (ghost_build_update_post fr params)"
  unfolding ghost_build_update_post_def
  by (rule ghost_required_ok [THEN ensures_bind] ghost_required_ok [THEN ensures_weaken] ensures_rules | simp add: request_ok_def METHODS_def)+

lemma ghost_build_delete_post_ok: "ensures (request_ok (Some 6)) (ghost_build_delete_post fr params)"
  unfolding ghost_build_delete_post_def
  by (rule ghost_required_ok [THEN ensures_bind] ghost_required_ok [THEN ensures_weaken] ensures_rules | simp add: request_ok_def METHODS_def)+

lemma ghost_build_list_members_ok: "ensures (request_ok (Some 5)) (Inr (ghost_build_list_members fr params))"
  by (rule ensures_Inr) (simp add: ghost_build_list_members_def request_ok_def METHODS_def Let_def)

lemma ghost_build_create_member_ok: "ensures (request_ok (Some 5)) (ghost_build_create_member fr params)"
  unfolding ghost_build_create_member_def
  by (rule ghost_required_ok [THEN ensures_bind] ghost_required_ok [THEN ensures_weaken] ensures_rules | simp add: request_ok_def METHODS_def)+

definition ghost_shape :: "(string, nat option) dict" where
  "ghost_shape =
     [(''list_posts'', Some 5), (''get_post'', Some 6), (''create_post'', Some 5), (''update_post'', Some 6),
         (''delete_post'', Some 6), (''list_members'', Some 5), (''create_member'', Some 5)]"

interpretation ghost: request_builder "ghost_build_request fr" ghost_shape for fr
  by (rule request_builder_table [OF ghost_build_request_def])
    (simp_all del: One_nat_def add: ghost_BUILDERS_def ghost_shape_def
      ghost_build_list_posts_ok ghost_build_get_post_ok ghost_build_create_post_ok
      ghost_build_update_post_ok ghost_build_delete_post_ok ghost_build_list_members_ok
      ghost_build_create_member_ok)

section \<open>Github\<close>

definition github_owner_and_repo :: "(rat \<Rightarrow> string) \<Rightarrow> jobj \<Rightarrow> (string \<times> string) result" where
  "github_owner_and_repo fr params =
     (let owner = text_param fr params ''owner'' in
     let repo = text_param fr params ''repo'' in
     if owner = [] \<or> repo = [] then raise ValueError ''GitHub: 'owner' and 'repo' are required''
     else Inr (owner, repo))"

definition github_coerce_string_list :: "(rat \<Rightarrow> string) \<Rightarrow> json \<Rightarrow> string \<Rightarrow> string list result" where
  "github_coerce_string_list fr raw field =
     (if raw = JNull \<or> raw = JStr [] then Inr []
     else if is_str raw then Inr (map (\<lambda>item. py_strip item) (filter (\<lambda>item. py_strip item \<noteq> []) (split_on CHR
         '','' (str_of raw))))
     else if is_arr raw then Inr (map (\<lambda>item. py_strip (py_str fr item)) (filter (\<lambda>item. py_strip (py_str fr
         item) \<noteq> []) (arr_of raw)))
     else raise ValueError (''GitHub: '' @ repr_str field @ '' must be a string or list of strings''))"

definition github_build_create_issue :: "(rat \<Rightarrow> string) \<Rightarrow> jobj \<Rightarrow> request_spec result" where
  "github_build_create_issue fr params =
     rbind (github_owner_and_repo fr params) (\<lambda>(owner, repo).
     let title = text_param fr params ''title'' in
     if title = [] then raise ValueError (''GitHub: create_issue requires 'title'' @ [CHR 0x27])
     else let body = [(''title'', JStr title)] in
     let text = dict_get params ''body'' JNull in
     let body = (if is_str text \<and> py_strip (str_of text) \<noteq> [] then dict_set ''body'' text body else body) in
     rbind (github_coerce_string_list fr (dict_get params ''labels'' JNull) ''labels'') (\<lambda>labels.
     let body = (if labels \<noteq> [] then dict_set ''labels'' (JArr (map JStr labels)) body else body) in
     rbind (github_coerce_string_list fr (dict_get params ''assignees'' JNull) ''assignees'') (\<lambda>assignees.
     let body = (if assignees \<noteq> [] then dict_set ''assignees'' (JArr (map JStr assignees)) body else body) in
     Inr (''POST'', ''/repos/'' @ owner @ ''/'' @ repo @ ''/issues'', Some body, []))))"

definition github_coerce_positive_int :: "json \<Rightarrow> string \<Rightarrow> int result" where
  "github_coerce_positive_int raw field =
     (case int_of_json raw of
       None \<Rightarrow> raise ValueError (''GitHub: '' @ repr_str field @ '' must be a positive integer'')
     | Some value \<Rightarrow>
       if value < 1 then raise ValueError (''GitHub: '' @ repr_str field @ '' must be >= 1'')
       else Inr value)"

definition github_coerce_per_page :: "json \<Rightarrow> int result" where
  "github_coerce_per_page raw =
     (if raw = JNull \<or> raw = JStr [] then Inr 30
     else rbind (github_coerce_positive_int raw ''per_page'') (\<lambda>value.
     Inr (min value 100)))"

definition github_build_list_issues :: "(rat \<Rightarrow> string) \<Rightarrow> jobj \<Rightarrow> request_spec result" where
  "github_build_list_issues fr params =
     rbind (github_owner_and_repo fr params) (\<lambda>(owner, repo).
     let state = py_strip (py_str fr (param_or params ''state'' (JStr ''open''))) in
     if state \<notin> set [''open'', ''closed'', ''all''] then raise ValueError (''GitHub: invalid issue state '' @
         repr_str state @ '' - must be one of '' @ ''['all', 'closed', 'open']'')
     else rbind (github_coerce_per_page (dict_get params ''per_page'' JNull)) (\<lambda>r2.
     let query = [(''state'', JStr state), (''per_page'', JInt r2)] in
     rbind (github_coerce_string_list fr (dict_get params ''labels'' JNull) ''labels'') (\<lambda>labels.
     let query = (if labels \<noteq> [] then dict_set ''labels'' (JStr (join '','' labels)) query else query) in
     let page = dict_get params ''page'' JNull in
     rbind (if page \<noteq> JNull \<and> py_strip (py_str fr page) \<noteq> [] then (rbind (github_coerce_positive_int page
         ''page'') (\<lambda>r4.
       Inr (dict_set ''page'' (JInt r4) query))) else Inr query) (\<lambda>query.
     Inr (''GET'', ''/repos/'' @ owner @ ''/'' @ repo @ ''/issues'', None, query)))))"

definition github_build_get_repo :: "(rat \<Rightarrow> string) \<Rightarrow> jobj \<Rightarrow> request_spec result" where
  "github_build_get_repo fr params =
     rbind (github_owner_and_repo fr params) (\<lambda>(owner, repo).
     Inr (''GET'', ''/repos/'' @ owner @ ''/'' @ repo, None, []))"

definition github_build_create_comment :: "(rat \<Rightarrow> string) \<Rightarrow> jobj \<Rightarrow> request_spec result" where
  "github_build_create_comment fr params =
     rbind (github_owner_and_repo fr params) (\<lambda>(owner, repo).
     rbind (github_coerce_positive_int (dict_get params ''issue_number'' JNull) ''issue_number'')
         (\<lambda>issue_number.
     let body_text = text_param fr params ''body'' in
     if body_text = [] then raise ValueError (''GitHub: create_comment requires 'body'' @ [CHR 0x27])
     else Inr (''POST'', ''/repos/'' @ owner @ ''/'' @ repo @ ''/issues/'' @ show_int issue_number @
         ''/comments'', Some [(''body'', JStr body_text)], [])))"

definition github_BUILDERS :: "(rat \<Rightarrow> string) \<Rightarrow> (string, jobj \<Rightarrow> request_spec result) dict" where
  "github_BUILDERS fr =
     [(''create_issue'', github_build_create_issue fr),
      (''list_issues'', github_build_list_issues fr),
      (''get_repo'', github_build_get_repo fr),
      (''create_comment'', github_build_create_comment fr)]"

definition github_build_request :: "(rat \<Rightarrow> string) \<Rightarrow> string \<Rightarrow> jobj \<Rightarrow> request_spec result" where
  "github_build_request fr operation params =
     (case map_of (github_BUILDERS fr) operation of
        None \<Rightarrow> raise ValueError (''GitHub: unsupported operation '' @ repr_str operation)
      | Some builder \<Rightarrow> builder params)"

lemma github_owner_and_repo_ok: "ensures (\<lambda>_. True) (github_owner_and_repo fr params)"
  unfolding github_owner_and_repo_def
  by (rule ensures_rules | simp)+

lemma github_coerce_string_list_ok: "ensures (\<lambda>_. True) (github_coerce_string_list fr raw field)"
  unfolding github_coerce_string_list_def
  by (rule ensures_rules | simp)+

lemma github_build_create_issue_ok: "ensures (request_ok None) (github_build_create_issue fr params)"
  unfolding github_build_create_issue_def
  by (rule github_owner_and_repo_ok [THEN ensures_bind] github_owner_and_repo_ok [THEN ensures_weaken] github_coerce_string_list_ok [THEN ensures_bind] github_coerce_string_list_ok [THEN ensures_weaken] ensures_rules | simp add: request_ok_def METHODS_def)+

lemma github_coerce_positive_int_ok: "ensures (\<lambda>v. 1 \<le> v) (github_coerce_positive_int raw field)"
  unfolding github_coerce_positive_int_def
  by (rule ensures_rules | simp)+

lemma github_coerce_per_page_ok: "ensures (\<lambda>v. v \<le> 100) (github_coerce_per_page raw)"
  unfolding github_coerce_per_page_def
  by (rule github_coerce_positive_int_ok [THEN ensures_bind] github_coerce_positive_int_ok [THEN ensures_weaken] ensures_rules | simp)+

lemma github_build_list_issues_ok: "ensures (request_ok None) (github_build_list_issues fr params)"
  unfolding github_build_list_issues_def
  by (rule github_owner_and_repo_ok [THEN ensures_bind] github_owner_and_repo_ok [THEN ensures_weaken] github_coerce_string_list_ok [THEN ensures_bind] github_coerce_string_list_ok [THEN ensures_weaken] github_coerce_per_page_ok [THEN ensures_bind] github_coerce_per_page_ok [THEN ensures_weaken] github_coerce_positive_int_ok [THEN ensures_bind] github_coerce_positive_int_ok [THEN ensures_weaken] ensures_rules | simp add: request_ok_def METHODS_def)+

lemma github_build_get_repo_ok: "ensures (request_ok None) (github_build_get_repo fr params)"
  unfolding github_build_get_repo_def
  by (rule github_owner_and_repo_ok [THEN ensures_bind] github_owner_and_repo_ok [THEN ensures_weaken] ensures_rules | simp add: request_ok_def METHODS_def)+

lemma github_build_create_comment_ok: "ensures (request_ok None) (github_build_create_comment fr params)"
  unfolding github_build_create_comment_def
  by (rule github_owner_and_repo_ok [THEN ensures_bind] github_owner_and_repo_ok [THEN ensures_weaken] github_coerce_positive_int_ok [THEN ensures_bind] github_coerce_positive_int_ok [THEN ensures_weaken] ensures_rules | simp add: request_ok_def METHODS_def)+

definition github_shape :: "(string, nat option) dict" where
  "github_shape =
     [(''create_issue'', None), (''list_issues'', None), (''get_repo'', None), (''create_comment'', None)]"

interpretation github: request_builder "github_build_request fr" github_shape for fr
  by (rule request_builder_table [OF github_build_request_def])
    (simp_all del: One_nat_def add: github_BUILDERS_def github_shape_def
      github_build_create_issue_ok github_build_list_issues_ok github_build_get_repo_ok
      github_build_create_comment_ok)

section \<open>Gitlab\<close>

definition gitlab_required :: "(rat \<Rightarrow> string) \<Rightarrow> jobj \<Rightarrow> string \<Rightarrow> string result" where
  "gitlab_required fr params key =
     (let value = text_param fr params key in
     if value = [] then raise ValueError (''GitLab: '' @ repr_str key @ '' is required'')
     else Inr value)"

definition gitlab_required_project :: "(rat \<Rightarrow> string) \<Rightarrow> jobj \<Rightarrow> string result" where
  "gitlab_required_project fr params =
     rbind (gitlab_required fr params ''project_id'') (\<lambda>value.
     Inr (url_quote [] value))"

definition gitlab_required_iid :: "jobj \<Rightarrow> string result" where
  "gitlab_required_iid params =
     (let raw = dict_get params ''issue_iid'' JNull in
     if raw = JNull \<or> raw = JStr [] then raise ValueError ''GitLab: 'issue_iid' is required''
     else (case int_of_json raw of
       None \<Rightarrow> raise ValueError ''GitLab: 'issue_iid' must be an integer''
     | Some iid \<Rightarrow>
       if iid < 1 then raise ValueError ''GitLab: 'issue_iid' must be >= 1''
       else Inr (show_int iid)))"

definition gitlab_build_get_issue :: "(rat \<Rightarrow> string) \<Rightarrow> jobj \<Rightarrow> request_spec result" where
  "gitlab_build_get_issue fr params =
     rbind (gitlab_required_project fr params) (\<lambda>project.
     rbind (gitlab_required_iid params) (\<lambda>iid.
     let path = ''/api/v4'' @ ''/projects/'' @ project @ ''/issues/'' @ iid in
     Inr (''GET'', path, None, [])))"

definition gitlab_coerce_string_list :: "(rat \<Rightarrow> string) \<Rightarrow> json \<Rightarrow> string \<Rightarrow> string list result" where
  "gitlab_coerce_string_list fr raw field =
     (if raw = JNull \<or> raw = JStr [] then Inr []
     else if is_str raw then Inr (map (\<lambda>part. py_strip part) (filter (\<lambda>part. py_strip part \<noteq> []) (split_on CHR
         '','' (str_of raw))))
     else if is_arr raw then Inr (map (\<lambda>part. py_strip (py_str fr part)) (filter (\<lambda>part. py_strip (py_str fr
         part) \<noteq> []) (arr_of raw)))
     else raise ValueError (''GitLab: '' @ repr_str field @ '' must be a string or list of strings''))"

definition gitlab_coerce_int_list :: "json \<Rightarrow> string \<Rightarrow> int list result" where
  "gitlab_coerce_int_list raw field =
     (if \<not> is_arr raw then raise ValueError (''GitLab: '' @ repr_str field @ '' must be a list of integers'')
     else let out = ([] :: int list) in
     rbind (rfold (\<lambda>out value.
         (case int_of_json value of
           None \<Rightarrow> raise ValueError (''GitLab: '' @ repr_str field @ '' entries must be integers'')
         | Some number \<Rightarrow>
           Inr (out @ [number]))) out (arr_of raw)) (\<lambda>out.
     Inr out))"

definition gitlab_build_create_issue :: "(rat \<Rightarrow> string) \<Rightarrow> jobj \<Rightarrow> request_spec result" where
  "gitlab_build_create_issue fr params =
     rbind (gitlab_required_project fr params) (\<lambda>project.
     rbind (gitlab_required fr params ''title'') (\<lambda>title.
     let body = [(''title'', JStr title)] in
     let description = py_str fr (param_or params ''description'' (JStr [])) in
     let body = (if description \<noteq> [] then dict_set ''description'' (JStr description) body else body) in
     rbind (gitlab_coerce_string_list fr (dict_get params ''labels'' JNull) ''labels'') (\<lambda>labels.
     let body = (if labels \<noteq> [] then dict_set ''labels'' (JStr (join '','' labels)) body else body) in
     let assignee_ids = dict_get params ''assignee_ids'' JNull in
     rbind (if assignee_ids \<noteq> JNull then (rbind (gitlab_coerce_int_list assignee_ids ''assignee_ids'') (\<lambda>r4.
       Inr (dict_set ''assignee_ids'' (JArr (map JInt r4)) body))) else Inr body) (\<lambda>body.
     let path = ''/api/v4'' @ ''/projects/'' @ project @ ''/issues'' in
     Inr (''POST'', path, Some body, [])))))"

definition gitlab_build_update_issue :: "(rat \<Rightarrow> string) \<Rightarrow> jobj \<Rightarrow> request_spec result" where
  "gitlab_build_update_issue fr params =
     rbind (gitlab_required_project fr params) (\<lambda>project.
     rbind (gitlab_required_iid params) (\<lambda>iid.
     let updates = dict_get params ''fields'' JNull in
     if \<not> is_obj updates \<or> \<not> py_bool updates then raise ValueError
         ''GitLab: 'fields' must be a non-empty JSON object''
     else rbind (rfold (\<lambda>_ key.
         if key \<notin> set [''title'', ''description'', ''assignee_ids'', ''labels'', ''state_event'',
             ''milestone_id'', ''due_date'', ''discussion_locked'', ''confidential''] then raise ValueError
             (''GitLab: unknown issue field '' @ repr_str key)
         else Inr ()) () (map fst (obj_of updates))) (\<lambda>_.
     let path = ''/api/v4'' @ ''/projects/'' @ project @ ''/issues/'' @ iid in
     Inr (''PUT'', path, Some (obj_of updates), []))))"

definition gitlab_coerce_limit :: "json \<Rightarrow> int result" where
  "gitlab_coerce_limit raw =
     (if is_blank raw then Inr 20
     else (case int_of_json raw of
       None \<Rightarrow> raise ValueError ''GitLab: 'per_page' must be a positive integer''
     | Some value \<Rightarrow>
       if value < 1 then raise ValueError ''GitLab: 'per_page' must be >= 1''
       else Inr (min value 100)))"

definition gitlab_build_list_issues :: "(rat \<Rightarrow> string) \<Rightarrow> jobj \<Rightarrow> request_spec result" where
  "gitlab_build_list_issues fr params =
     rbind (gitlab_required_project fr params) (\<lambda>project.
     rbind (gitlab_coerce_limit (dict_get params ''per_page'' JNull)) (\<lambda>r2.
     let query = [(''per_page'', JInt r2)] in
     let state = py_lower (text_param fr params ''state'') in
     rbind (if state \<noteq> [] then (if state \<notin> set [''opened'', ''closed'', ''all''] then raise ValueError
         (''GitLab: invalid issue state '' @ repr_str state)
       else Inr (dict_set ''state'' (JStr state) query)) else Inr query) (\<lambda>query.
     rbind (gitlab_coerce_string_list fr (dict_get params ''labels'' JNull) ''labels'') (\<lambda>labels.
     let query = (if labels \<noteq> [] then dict_set ''labels'' (JStr (join '','' labels)) query else query) in
     let search = text_param fr params ''search'' in
     let query = (if search \<noteq> [] then dict_set ''search'' (JStr search) query else query) in
     let path = ''/api/v4'' @ ''/projects/'' @ project @ ''/issues'' in
     Inr (''GET'', path, None, query)))))"

definition gitlab_build_add_comment :: "(rat \<Rightarrow> string) \<Rightarrow> jobj \<Rightarrow> request_spec result" where
  "gitlab_build_add_comment fr params =
     rbind (gitlab_required_project fr params) (\<lambda>project.
     rbind (gitlab_required_iid params) (\<lambda>iid.
     let body_text = py_str fr (param_or params ''body'' (JStr [])) in
     if py_strip body_text = [] then raise ValueError ''GitLab: 'body' is required for add_comment''
     else let path = ''/api/v4'' @ ''/projects/'' @ project @ ''/issues/'' @ iid @ ''/notes'' in
     Inr (''POST'', path, Some [(''body'', JStr body_text)], [])))"

definition gitlab_build_list_merge_requests :: "(rat \<Rightarrow> string) \<Rightarrow> jobj \<Rightarrow> request_spec result" where
  "gitlab_build_list_merge_requests fr params =
     rbind (gitlab_required_project fr params) (\<lambda>project.
     rbind (gitlab_coerce_limit (dict_get params ''per_page'' JNull)) (\<lambda>r2.
     let query = [(''per_page'', JInt r2)] in
     let state = py_lower (text_param fr params ''state'') in
     rbind (if state \<noteq> [] then (if state \<notin> set [''opened'', ''closed'', ''merged'', ''all''] then raise
         ValueError (''GitLab: invalid merge-request state '' @ repr_str state)
       else Inr (dict_set ''state'' (JStr state) query)) else Inr query) (\<lambda>query.
     let target_branch = text_param fr params ''target_branch'' in
     let query = (if target_branch \<noteq> [] then dict_set ''target_branch'' (JStr target_branch) query else query)
         in
     let path = ''/api/v4'' @ ''/projects/'' @ project @ ''/merge_requests'' in
     Inr (''GET'', path, None, query))))"

definition gitlab_BUILDERS :: "(rat \<Rightarrow> string) \<Rightarrow> (string, jobj \<Rightarrow> request_spec result) dict" where
  "gitlab_BUILDERS fr =
     [(''get_issue'', gitlab_build_get_issue fr),
      (''create_issue'', gitlab_build_create_issue fr),
      (''update_issue'', gitlab_build_update_issue fr),
      (''list_issues'', gitlab_build_list_issues fr),
      (''add_comment'', gitlab_build_add_comment fr),
      (''list_merge_requests'', gitlab_build_list_merge_requests fr)]"

definition gitlab_build_request :: "(rat \<Rightarrow> string) \<Rightarrow> string \<Rightarrow> jobj \<Rightarrow> request_spec result" where
  "gitlab_build_request fr operation params =
     (case map_of (gitlab_BUILDERS fr) operation of
        None \<Rightarrow> raise ValueError (''GitLab: unsupported operation '' @ repr_str operation)
      | Some builder \<Rightarrow> builder params)"

lemma gitlab_required_ok: "ensures (\<lambda>_. True) (gitlab_required fr params key)"
  unfolding gitlab_required_def
  by (rule ensures_rules | simp)+

lemma gitlab_required_project_ok: "ensures (\<lambda>s. slashes s = 0) (gitlab_required_project fr params)"
  unfolding gitlab_required_project_def
  by (rule gitlab_required_ok [THEN ensures_bind] gitlab_required_ok [THEN ensures_weaken] ensures_rules | simp)+

lemma gitlab_required_iid_ok: "ensures (\<lambda>s. slashes s = 0) (gitlab_required_iid params)"
  unfolding gitlab_required_iid_def
  by (rule ensures_rules | simp)+

lemma gitlab_build_get_issue_ok: "ensures (request_ok (Some 6)) (gitlab_build_get_issue fr params)"
  unfolding gitlab_build_get_issue_def
  by (rule gitlab_required_project_ok [THEN ensures_bind] gitlab_required_project_ok [THEN ensures_weaken] gitlab_required_iid_ok [THEN ensures_bind] gitlab_required_iid_ok [THEN ensures_weaken] ensures_rules | simp add: request_ok_def METHODS_def)+

lemma gitlab_coerce_string_list_ok: "ensures (\<lambda>_. True) (gitlab_coerce_string_list fr raw field)"
  unfolding gitlab_coerce_string_list_def
  by (rule ensures_rules | simp)+

lemma gitlab_coerce_int_list_ok: "ensures (\<lambda>_. True) (gitlab_coerce_int_list raw field)"
  unfolding gitlab_coerce_int_list_def
  by (rule ensures_rules | simp)+

lemma gitlab_build_create_issue_ok: "ensures (request_ok (Some 5)) (gitlab_build_create_issue fr params)"
  unfolding gitlab_build_create_issue_def
  by (rule gitlab_required_project_ok [THEN ensures_bind] gitlab_required_project_ok [THEN ensures_weaken] gitlab_required_ok [THEN ensures_bind] gitlab_required_ok [THEN ensures_weaken] gitlab_coerce_string_list_ok [THEN ensures_bind] gitlab_coerce_string_list_ok [THEN ensures_weaken] gitlab_coerce_int_list_ok [THEN ensures_bind] gitlab_coerce_int_list_ok [THEN ensures_weaken] ensures_rules | simp add: request_ok_def METHODS_def)+

lemma gitlab_build_update_issue_ok: "ensures (request_ok (Some 6)) (gitlab_build_update_issue fr params)"
  unfolding gitlab_build_update_issue_def
  by (rule gitlab_required_project_ok [THEN ensures_bind] gitlab_required_project_ok [THEN ensures_weaken] gitlab_required_iid_ok [THEN ensures_bind] gitlab_required_iid_ok [THEN ensures_weaken] ensures_rules | simp add: request_ok_def METHODS_def)+

lemma gitlab_coerce_limit_ok: "ensures (\<lambda>v. 1 \<le> v \<and> v \<le> 100) (gitlab_coerce_limit raw)"
  unfolding gitlab_coerce_limit_def
  by (rule ensures_rules | simp)+

lemma gitlab_build_list_issues_ok: "ensures (request_ok (Some 5)) (gitlab_build_list_issues fr params)"
  unfolding gitlab_build_list_issues_def
  by (rule gitlab_required_project_ok [THEN ensures_bind] gitlab_required_project_ok [THEN ensures_weaken] gitlab_coerce_string_list_ok [THEN ensures_bind] gitlab_coerce_string_list_ok [THEN ensures_weaken] gitlab_coerce_limit_ok [THEN ensures_bind] gitlab_coerce_limit_ok [THEN ensures_weaken] ensures_rules | simp add: request_ok_def METHODS_def)+

lemma gitlab_build_add_comment_ok: "ensures (request_ok (Some 7)) (gitlab_build_add_comment fr params)"
  unfolding gitlab_build_add_comment_def
  by (rule gitlab_required_project_ok [THEN ensures_bind] gitlab_required_project_ok [THEN ensures_weaken] gitlab_required_iid_ok [THEN ensures_bind] gitlab_required_iid_ok [THEN ensures_weaken] ensures_rules | simp add: request_ok_def METHODS_def)+

lemma gitlab_build_list_merge_requests_ok: "ensures (request_ok (Some 5)) (gitlab_build_list_merge_requests fr params)"
  unfolding gitlab_build_list_merge_requests_def
  by (rule gitlab_required_project_ok [THEN ensures_bind] gitlab_required_project_ok [THEN ensures_weaken] gitlab_coerce_limit_ok [THEN ensures_bind] gitlab_coerce_limit_ok [THEN ensures_weaken] ensures_rules | simp add: request_ok_def METHODS_def)+

definition gitlab_shape :: "(string, nat option) dict" where
  "gitlab_shape =
     [(''get_issue'', Some 6), (''create_issue'', Some 5), (''update_issue'', Some 6), (''list_issues'', Some
         5), (''add_comment'', Some 7), (''list_merge_requests'', Some 5)]"

interpretation gitlab: request_builder "gitlab_build_request fr" gitlab_shape for fr
  by (rule request_builder_table [OF gitlab_build_request_def])
    (simp_all del: One_nat_def add: gitlab_BUILDERS_def gitlab_shape_def
      gitlab_build_get_issue_ok gitlab_build_create_issue_ok gitlab_build_update_issue_ok
      gitlab_build_list_issues_ok gitlab_build_add_comment_ok gitlab_build_list_merge_requests_ok)

section \<open>Google sheets\<close>

definition google_sheets_required :: "(rat \<Rightarrow> string) \<Rightarrow> jobj \<Rightarrow> string \<Rightarrow> string result" where
  "google_sheets_required fr params key =
     (let value = text_param fr params key in
     if value = [] then raise ValueError (''Google Sheets: '' @ repr_str key @ '' is required'')
     else Inr value)"

definition google_sheets_build_read_range :: "(rat \<Rightarrow> string) \<Rightarrow> jobj \<Rightarrow> request_spec result" where
  "google_sheets_build_read_range fr params =
     rbind (google_sheets_required fr params ''spreadsheet_id'') (\<lambda>spreadsheet_id.
     rbind (google_sheets_required fr params ''range'') (\<lambda>cell_range.
     let path = ''/v4/spreadsheets/'' @ url_quote [] spreadsheet_id @ ''/values/'' @ url_quote [] cell_range in
     Inr (''GET'', path, None, [])))"

definition google_sheets_coerce_values :: "json \<Rightarrow> json list list result" where
  "google_sheets_coerce_values raw =
     (if raw = JNull \<or> raw = JStr [] then raise ValueError
         ''Google Sheets: 'values' is required (list of rows)''
     else if \<not> is_arr raw then raise ValueError ''Google Sheets: 'values' must be a list of rows''
     else let rows = ([] :: json list list) in
     let rows = foldl (\<lambda>rows row.
         (if is_arr row then rows @ [arr_of row] else rows @ [[row]])) rows (arr_of raw) in
     if rows = [] then raise ValueError ''Google Sheets: 'values' must contain at least one row''
     else Inr rows)"

definition google_sheets_coerce_value_input :: "(rat \<Rightarrow> string) \<Rightarrow> json \<Rightarrow> string result" where
  "google_sheets_coerce_value_input fr raw =
     (if raw = JNull \<or> raw = JStr [] then Inr ''USER_ENTERED''
     else let value = py_upper (py_strip (py_str fr raw)) in
     if value \<notin> set [''USER_ENTERED'', ''RAW''] then raise ValueError
         (''Google Sheets: invalid value_input_option '' @ repr_str value @ '' - must be one of '' @
         ''['RAW', 'USER_ENTERED']'')
     else Inr value)"

definition google_sheets_build_append_row :: "(rat \<Rightarrow> string) \<Rightarrow> jobj \<Rightarrow> request_spec result" where
  "google_sheets_build_append_row fr params =
     rbind (google_sheets_required fr params ''spreadsheet_id'') (\<lambda>spreadsheet_id.
     rbind (google_sheets_required fr params ''range'') (\<lambda>cell_range.
     rbind (google_sheets_coerce_values (dict_get params ''values'' JNull)) (\<lambda>values.
     rbind (google_sheets_coerce_value_input fr (dict_get params ''value_input_option'' JNull))
         (\<lambda>value_input_option.
     let path = ''/v4/spreadsheets/'' @ url_quote [] spreadsheet_id @ ''/values/'' @ url_quote [] cell_range @
         '':append'' in
     let body = [(''range'', JStr cell_range), (''majorDimension'', JStr ''ROWS''), (''values'', JArr (map (\<lambda>x.
         JArr x) values))] in
     let query = [(''valueInputOption'', JStr value_input_option)] in
     Inr (''POST'', path, Some body, query)))))"

definition google_sheets_build_update_range :: "(rat \<Rightarrow> string) \<Rightarrow> jobj \<Rightarrow> request_spec result" where
  "google_sheets_build_update_range fr params =
     rbind (google_sheets_required fr params ''spreadsheet_id'') (\<lambda>spreadsheet_id.
     rbind (google_sheets_required fr params ''range'') (\<lambda>cell_range.
     rbind (google_sheets_coerce_values (dict_get params ''values'' JNull)) (\<lambda>values.
     rbind (google_sheets_coerce_value_input fr (dict_get params ''value_input_option'' JNull))
         (\<lambda>value_input_option.
     let path = ''/v4/spreadsheets/'' @ url_quote [] spreadsheet_id @ ''/values/'' @ url_quote [] cell_range in
     let body = [(''range'', JStr cell_range), (''majorDimension'', JStr ''ROWS''), (''values'', JArr (map (\<lambda>x.
         JArr x) values))] in
     let query = [(''valueInputOption'', JStr value_input_option)] in
     Inr (''PUT'', path, Some body, query)))))"

definition google_sheets_BUILDERS :: "(rat \<Rightarrow> string) \<Rightarrow> (string, jobj \<Rightarrow> request_spec result) dict" where
  "google_sheets_BUILDERS fr =
     [(''read_range'', google_sheets_build_read_range fr),
      (''append_row'', google_sheets_build_append_row fr),
      (''update_range'', google_sheets_build_update_range fr)]"

definition google_sheets_build_request :: "(rat \<Rightarrow> string) \<Rightarrow> string \<Rightarrow> jobj \<Rightarrow> request_spec result" where
  "google_sheets_build_request fr operation params =
     (case map_of (google_sheets_BUILDERS fr) operation of
        None \<Rightarrow> raise ValueError (''Google Sheets: unsupported operation '' @ repr_str operation)
      | Some builder \<Rightarrow> builder params)"

lemma google_sheets_required_ok: "ensures (\<lambda>_. True) (google_sheets_required fr params key)"
  unfolding google_sheets_required_def
  by (rule ensures_rules | simp)+

lemma google_sheets_build_read_range_ok: "ensures (request_ok (Some 5)) (google_sheets_build_read_range fr params)"
  unfolding google_sheets_build_read_range_def
  by (rule google_sheets_required_ok [THEN ensures_bind] google_sheets_required_ok [THEN ensures_weaken] ensures_rules | simp add: request_ok_def METHODS_def)+

lemma google_sheets_coerce_values_ok: "ensures (\<lambda>_. True) (google_sheets_coerce_values raw)"
  unfolding google_sheets_coerce_values_def
  by (rule ensures_rules | simp)+

lemma google_sheets_coerce_value_input_ok: "ensures (\<lambda>_. True) (google_sheets_coerce_value_input fr raw)"
  unfolding google_sheets_coerce_value_input_def
  by (rule ensures_rules | simp)+

lemma google_sheets_build_append_row_ok: "ensures (request_ok (Some 5)) (google_sheets_build_append_row fr params)"
  unfolding google_sheets_build_append_row_def
  by (rule google_sheets_required_ok [THEN ensures_bind] google_sheets_required_ok [THEN ensures_weaken] google_sheets_coerce_values_ok [THEN ensures_bind] google_sheets_coerce_values_ok [THEN ensures_weaken] google_sheets_coerce_value_input_ok [THEN ensures_bind] google_sheets_coerce_value_input_ok [THEN ensures_weaken] ensures_rules | simp add: request_ok_def METHODS_def)+

lemma google_sheets_build_update_range_ok: "ensures (request_ok (Some 5)) (google_sheets_build_update_range fr params)"
  unfolding google_sheets_build_update_range_def
  by (rule google_sheets_required_ok [THEN ensures_bind] google_sheets_required_ok [THEN ensures_weaken] google_sheets_coerce_values_ok [THEN ensures_bind] google_sheets_coerce_values_ok [THEN ensures_weaken] google_sheets_coerce_value_input_ok [THEN ensures_bind] google_sheets_coerce_value_input_ok [THEN ensures_weaken] ensures_rules | simp add: request_ok_def METHODS_def)+

definition google_sheets_shape :: "(string, nat option) dict" where
  "google_sheets_shape =
     [(''read_range'', Some 5), (''append_row'', Some 5), (''update_range'', Some 5)]"

interpretation google_sheets: request_builder "google_sheets_build_request fr" google_sheets_shape for fr
  by (rule request_builder_table [OF google_sheets_build_request_def])
    (simp_all del: One_nat_def add: google_sheets_BUILDERS_def google_sheets_shape_def
      google_sheets_build_read_range_ok google_sheets_build_append_row_ok google_sheets_build_update_range_ok)

end
