(* ===== verification/Builders_4.thy ===== *)
theory Builders_4
  imports Requests
begin

text \<open>
  Request builders of the integrations \<open>harvest\<close>, \<open>hubspot\<close>, \<open>intercom\<close>, \<open>jira\<close>, \<open>mapbox\<close>, \<open>mattermost\<close>, \<open>mongodb_atlas\<close>, \<open>netsuite\<close>
  (\<open>nodes/integrations/<name>/operations.py\<close>), one definition per function of the module, prefixed
  with the name of the integration; constants of \<open>constants.py\<close> stand with their values, and an em dash
  in a message is a hyphen. \<open>fr\<close> prints a float. Each lemma \<open><function>_ok\<close> states what the function
  ensures: it raises nothing but \<open>ValueError\<close>, an identifier it returns has no slash, a number is
  within its bounds, a request has a known method and a path with a fixed number of slashes. The
  interpretation shows that the module keeps the interface of the nodes.
\<close>

section \<open>Harvest\<close>

definition harvest_paging :: "(rat \<Rightarrow> string) \<Rightarrow> jobj \<Rightarrow> jobj" where
  "harvest_paging fr params =
     (let out = ([] :: jobj) in
     let page = dict_get params ''page'' JNull in
     let out = (if is_int page \<and> 0 < (int_val page) then dict_set ''page'' (JStr (py_str fr page)) out else
         out) in
     let per_page = dict_get params ''per_page'' JNull in
     (if is_int per_page \<and> 0 < (int_val per_page) then dict_set ''per_page'' (JStr (py_str fr per_page)) out
         else out))"

definition harvest_build_list_time_entries :: "(rat \<Rightarrow> string) \<Rightarrow> jobj \<Rightarrow> request_spec" where
  "harvest_build_list_time_entries fr params =
     (let query = harvest_paging fr params in
     let query = foldl (\<lambda>query key.
         let value = dict_get params key JNull in
         (if is_str value \<and> py_strip (str_of value) \<noteq> [] then dict_set key (JStr (py_strip (str_of value)))
             query else (if is_int value then dict_set key (JStr (py_str fr value)) query else query))) query
             [''user_id'', ''project_id'', ''client_id'', ''from'', ''to''] in
     (''GET'', ''/v2/time_entries'', None, query))"

definition harvest_as_id :: "(rat \<Rightarrow> string) \<Rightarrow> json \<Rightarrow> json result" where
  "harvest_as_id fr value =
     (if is_int value then Inr value
     else let text = py_strip (py_str fr value) in
     if py_isdigit text then (rbind (int_of_str text) (\<lambda>r1.
       Inr (JInt r1)))
     else Inr (JStr text))"

definition harvest_required_scalar :: "(rat \<Rightarrow> string) \<Rightarrow> jobj \<Rightarrow> string \<Rightarrow> json result" where
  "harvest_required_scalar fr params key =
     (let raw = dict_get params key JNull in
     if is_int raw then Inr raw
     else let value = py_strip (py_str fr (if py_bool raw then raw else JStr [])) in
     if value = [] then raise ValueError (''Harvest: '' @ repr_str key @ '' is required'')
     else harvest_as_id fr (JStr value))"

definition harvest_required_str :: "(rat \<Rightarrow> string) \<Rightarrow> jobj \<Rightarrow> string \<Rightarrow> string result" where
  "harvest_required_str fr params key =
     (let value = text_param fr params key in
     if value = [] then raise ValueError (''Harvest: '' @ repr_str key @ '' is required'')
     else Inr value)"

definition harvest_build_create_time_entry :: "(rat \<Rightarrow> string) \<Rightarrow> jobj \<Rightarrow> request_spec result" where
  "harvest_build_create_time_entry fr params =
     rbind (harvest_required_scalar fr params ''project_id'') (\<lambda>r1.
     rbind (harvest_required_scalar fr params ''task_id'') (\<lambda>r2.
     rbind (harvest_required_str fr params ''spent_date'') (\<lambda>r3.
     let body = [(''project_id'', r1), (''task_id'', r2), (''spent_date'', JStr r3)] in
     let hours = dict_get params ''hours'' JNull in
     let body = (if is_int hours \<or> is_float hours then dict_set ''hours'' hours body else body) in
     let started = text_param fr params ''started_time'' in
     let ended = text_param fr params ''ended_time'' in
     let body = (if started \<noteq> [] then dict_set ''started_time'' (JStr started) body else body) in
     let body = (if ended \<noteq> [] then dict_set ''ended_time'' (JStr ended) body else body) in
     let notes = text_param fr params ''notes'' in
     let body = (if notes \<noteq> [] then dict_set ''notes'' (JStr notes) body else body) in
     let user_id = dict_get params ''user_id'' JNull in
     rbind (if (is_int user_id \<or> is_str user_id) \<and> py_strip (py_str fr user_id) \<noteq> [] then (rbind (harvest_as_id
         fr user_id) (\<lambda>r4.
       Inr (dict_set ''user_id'' r4 body))) else Inr body) (\<lambda>body.
     if map_of body ''hours'' = None \<and> map_of body ''started_time'' = None then raise ValueError
         ''Harvest: supply either 'hours' or 'started_time' for create_time_entry''
     else Inr (''POST'', ''/v2/time_entries'', Some body, [])))))"

definition harvest_build_list_projects :: "(rat \<Rightarrow> string) \<Rightarrow> jobj \<Rightarrow> request_spec" where
  "harvest_build_list_projects fr params =
     (let query = harvest_paging fr params in
     let query = foldl (\<lambda>query key.
         let value = dict_get params key JNull in
         (if is_bool value then dict_set key (JStr (if py_bool value then ''true'' else ''false'')) query else
             (if is_str value \<and> py_strip (str_of value) \<noteq> [] then dict_set key (JStr (py_strip (str_of value)))
             query else (if is_int value then dict_set key (JStr (py_str fr value)) query else query)))) query
             [''is_active'', ''client_id'', ''updated_since''] in
     (''GET'', ''/v2/projects'', None, query))"

definition harvest_build_get_user_me :: "jobj \<Rightarrow> request_spec" where
  "harvest_build_get_user_me params =
     (''GET'', ''/v2/users/me'', None, [])"

definition harvest_BUILDERS :: "(rat \<Rightarrow> string) \<Rightarrow> (string, jobj \<Rightarrow> request_spec result) dict" where
  "harvest_BUILDERS fr =
     [(''list_time_entries'', \<lambda>params. Inr (harvest_build_list_time_entries fr params)),
      (''create_time_entry'', harvest_build_create_time_entry fr),
      (''list_projects'', \<lambda>params. Inr (harvest_build_list_projects fr params)),
      (''get_user_me'', \<lambda>params. Inr (harvest_build_get_user_me params))]"

definition harvest_build_request :: "(rat \<Rightarrow> string) \<Rightarrow> string \<Rightarrow> jobj \<Rightarrow> request_spec result" where
  "harvest_build_request fr operation params =
     (case map_of (harvest_BUILDERS fr) operation of
        None \<Rightarrow> raise ValueError (''Harvest: unsupported operation '' @ repr_str operation)
      | Some builder \<Rightarrow> builder params)"

lemma harvest_build_list_time_entries_ok: "ensures (request_ok (Some 2)) (Inr (harvest_build_list_time_entries fr params))"
  by (rule ensures_Inr) (simp add: harvest_build_list_time_entries_def request_ok_def METHODS_def Let_def)

lemma harvest_as_id_ok: "ensures (\<lambda>_. True) (harvest_as_id fr value)"
  unfolding harvest_as_id_def
  by (rule ensures_rules | simp)+

lemma harvest_required_scalar_ok: "ensures (\<lambda>_. True) (harvest_required_scalar fr params key)"
  unfolding harvest_required_scalar_def
  by (rule harvest_as_id_ok [THEN ensures_bind] harvest_as_id_ok [THEN ensures_weaken] ensures_rules | simp)+

lemma harvest_required_str_ok: "ensures (\<lambda>_. True) (harvest_required_str fr params key)"
  unfolding harvest_required_str_def
  by (rule ensures_rules | simp)+

lemma harvest_build_create_time_entry_ok: "ensures (request_ok (Some 2)) (harvest_build_create_time_entry fr params)"
  unfolding harvest_build_create_time_entry_def
  by (rule harvest_required_scalar_ok [THEN ensures_bind] harvest_required_scalar_ok [THEN ensures_weaken] harvest_required_str_ok [THEN ensures_bind] harvest_required_str_ok [THEN ensures_weaken] harvest_as_id_ok [THEN ensures_bind] harvest_as_id_ok [THEN ensures_weaken] ensures_rules | simp add: request_ok_def METHODS_def)+

lemma harvest_build_list_projects_ok: "ensures (request_ok (Some 2)) (Inr (harvest_build_list_projects fr params))"
  by (rule ensures_Inr) (simp add: harvest_build_list_projects_def request_ok_def METHODS_def Let_def)

lemma harvest_build_get_user_me_ok: "ensures (request_ok (Some 3)) (Inr (harvest_build_get_user_me params))"
  by (rule ensures_Inr) (simp add: harvest_build_get_user_me_def request_ok_def METHODS_def Let_def)

definition harvest_shape :: "(string, nat option) dict" where
  "harvest_shape =
     [(''list_time_entries'', Some 2), (''create_time_entry'', Some 2), (''list_projects'', Some 2),
         (''get_user_me'', Some 3)]"

interpretation harvest: request_builder "harvest_build_request fr" harvest_shape for fr
  by (rule request_builder_table [OF harvest_build_request_def])
    (simp_all del: One_nat_def add: harvest_BUILDERS_def harvest_shape_def
      harvest_build_list_time_entries_ok harvest_build_create_time_entry_ok harvest_build_list_projects_ok
      harvest_build_get_user_me_ok)

section \<open>Hubspot\<close>

definition hubspot_required_properties :: "jobj \<Rightarrow> jobj result" where
  "hubspot_required_properties params =
     (let raw = dict_get params ''properties'' JNull in
     if \<not> is_obj raw \<or> \<not> py_bool raw then raise ValueError
         ''HubSpot: 'properties' must be a non-empty JSON object''
     else Inr (obj_of raw))"

definition hubspot_build_create_contact :: "jobj \<Rightarrow> request_spec result" where
  "hubspot_build_create_contact params =
     rbind (hubspot_required_properties params) (\<lambda>properties.
     Inr (''POST'', ''/crm/v3/objects/contacts'', Some [(''properties'', JObj properties)], []))"

definition hubspot_required :: "(rat \<Rightarrow> string) \<Rightarrow> jobj \<Rightarrow> string \<Rightarrow> string result" where
  "hubspot_required fr params key =
     (let value = text_param fr params key in
     if value = [] then raise ValueError (''HubSpot: '' @ repr_str key @ '' is required'')
     else Inr value)"

definition hubspot_build_update_contact :: "(rat \<Rightarrow> string) \<Rightarrow> jobj \<Rightarrow> request_spec result" where
  "hubspot_build_update_contact fr params =
     rbind (hubspot_required fr params ''contact_id'') (\<lambda>contact_id.
     rbind (hubspot_required_properties params) (\<lambda>properties.
     let path = ''/crm/v3/objects/contacts'' @ ''/'' @ url_quote [] contact_id in
     Inr (''PATCH'', path, Some [(''properties'', JObj properties)], [])))"

definition hubspot_coerce_string_list :: "(rat \<Rightarrow> string) \<Rightarrow> json \<Rightarrow> string list result" where
  "hubspot_coerce_string_list fr raw =
     (if raw = JNull \<or> raw = JStr [] then Inr []
     else if is_str raw then Inr (map (\<lambda>part. py_strip part) (filter (\<lambda>part. py_strip part \<noteq> []) (split_on CHR
         '','' (str_of raw))))
     else if is_arr raw then Inr (map (\<lambda>part. py_strip (py_str fr part)) (filter (\<lambda>part. py_strip (py_str fr
         part) \<noteq> []) (arr_of raw)))
     else raise ValueError ''HubSpot: 'properties' must be a string or list of strings'')"

definition hubspot_build_get_contact :: "(rat \<Rightarrow> string) \<Rightarrow> jobj \<Rightarrow> request_spec result" where
  "hubspot_build_get_contact fr params =
     rbind (hubspot_required fr params ''contact_id'') (\<lambda>contact_id.
     let path = ''/crm/v3/objects/contacts'' @ ''/'' @ url_quote [] contact_id in
     let query = ([] :: jobj) in
     rbind (hubspot_coerce_string_list fr (dict_get params ''properties'' JNull)) (\<lambda>fields.
     let query = (if fields \<noteq> [] then dict_set ''properties'' (JStr (join '','' fields)) query else query) in
     Inr (''GET'', path, None, query)))"

definition hubspot_build_delete_contact :: "(rat \<Rightarrow> string) \<Rightarrow> jobj \<Rightarrow> request_spec result" where
  "hubspot_build_delete_contact fr params =
     rbind (hubspot_required fr params ''contact_id'') (\<lambda>contact_id.
     let path = ''/crm/v3/objects/contacts'' @ ''/'' @ url_quote [] contact_id in
     Inr (''DELETE'', path, None, []))"

definition hubspot_coerce_limit :: "json \<Rightarrow> int result" where
  "hubspot_coerce_limit raw =
     (if is_blank raw then Inr 10
     else (case int_of_json raw of
       None \<Rightarrow> raise ValueError ''HubSpot: 'limit' must be a positive integer''
     | Some value \<Rightarrow>
       if value < 1 then raise ValueError ''HubSpot: 'limit' must be >= 1''
       else Inr (min value 100)))"

definition hubspot_build_search_contacts :: "(rat \<Rightarrow> string) \<Rightarrow> jobj \<Rightarrow> request_spec result" where
  "hubspot_build_search_contacts fr params =
     (let body = ([] :: jobj) in
     let query_text = text_param fr params ''query'' in
     let body = (if query_text \<noteq> [] then dict_set ''query'' (JStr query_text) body else body) in
     let filter_groups = dict_get params ''filter_groups'' JNull in
     rbind (if filter_groups \<noteq> JNull then (if \<not> is_arr filter_groups then raise ValueError
         ''HubSpot: 'filter_groups' must be a list''
       else Inr (dict_set ''filterGroups'' filter_groups body)) else Inr body) (\<lambda>body.
     let sorts = dict_get params ''sorts'' JNull in
     rbind (if sorts \<noteq> JNull then (if \<not> is_arr sorts then raise ValueError ''HubSpot: 'sorts' must be a list''
       else Inr (dict_set ''sorts'' sorts body)) else Inr body) (\<lambda>body.
     rbind (hubspot_coerce_string_list fr (dict_get params ''properties'' JNull)) (\<lambda>fields.
     let body = (if fields \<noteq> [] then dict_set ''properties'' (JArr (map JStr fields)) body else body) in
     let limit = dict_get params ''limit'' JNull in
     rbind (hubspot_coerce_limit limit) (\<lambda>r2.
     let body = dict_set ''limit'' (JInt r2) body in
     let after = text_param fr params ''after'' in
     let body = (if after \<noteq> [] then dict_set ''after'' (JStr after) body else body) in
     Inr (''POST'', ''/crm/v3/objects/contacts/search'', Some body, []))))))"

definition hubspot_BUILDERS :: "(rat \<Rightarrow> string) \<Rightarrow> (string, jobj \<Rightarrow> request_spec result) dict" where
  "hubspot_BUILDERS fr =
     [(''create_contact'', hubspot_build_create_contact),
      (''update_contact'', hubspot_build_update_contact fr),
      (''get_contact'', hubspot_build_get_contact fr),
      (''delete_contact'', hubspot_build_delete_contact fr),
      (''search_contacts'', hubspot_build_search_contacts fr)]"

definition hubspot_build_request :: "(rat \<Rightarrow> string) \<Rightarrow> string \<Rightarrow> jobj \<Rightarrow> request_spec result" where
  "hubspot_build_request fr operation params =
     (case map_of (hubspot_BUILDERS fr) operation of
        None \<Rightarrow> raise ValueError (''HubSpot: unsupported operation '' @ repr_str operation)
      | Some builder \<Rightarrow> builder params)"

lemma hubspot_required_properties_ok: "ensures (\<lambda>_. True) (hubspot_required_properties params)"
  unfolding hubspot_required_properties_def
  by (rule ensures_rules | simp)+

lemma hubspot_build_create_contact_ok: "ensures (request_ok (Some 4)) (hubspot_build_create_contact params)"
  unfolding hubspot_build_create_contact_def
  by (rule hubspot_required_properties_ok [THEN ensures_bind] hubspot_required_properties_ok [THEN ensures_weaken] ensures_rules | simp add: request_ok_def METHODS_def)+

lemma hubspot_required_ok: "ensures (\<lambda>_. True) (hubspot_required fr params key)"
  unfolding hubspot_required_def
  by (rule ensures_rules | simp)+

lemma hubspot_build_update_contact_ok: "ensures (request_ok (Some 5)) (hubspot_build_update_contact fr params)"
  unfolding hubspot_build_update_contact_def
  by (rule hubspot_required_ok [THEN ensures_bind] hubspot_required_ok [THEN ensures_weaken] hubspot_required_properties_ok [THEN ensures_bind] hubspot_required_properties_ok [THEN ensures_weaken] ensures_rules | simp add: request_ok_def METHODS_def)+

lemma hubspot_coerce_string_list_ok: "ensures (\<lambda>_. True) (hubspot_coerce_string_list fr raw)"
  unfolding hubspot_coerce_string_list_def
  by (rule ensures_rules | simp)+

lemma hubspot_build_get_contact_ok: "ensures (request_ok (Some 5)) (hubspot_build_get_contact fr params)"
  unfolding hubspot_build_get_contact_def
  by (rule hubspot_required_ok [THEN ensures_bind] hubspot_required_ok [THEN ensures_weaken] hubspot_coerce_string_list_ok [THEN ensures_bind] hubspot_coerce_string_list_ok [THEN ensures_weaken] ensures_rules | simp add: request_ok_def METHODS_def)+

lemma hubspot_build_delete_contact_ok: "ensures (request_ok (Some 5)) (hubspot_build_delete_contact fr params)"
  unfolding hubspot_build_delete_contact_def
  by (rule hubspot_required_ok [THEN ensures_bind] hubspot_required_ok [THEN ensures_weaken] ensures_rules | simp add: request_ok_def METHODS_def)+

lemma hubspot_coerce_limit_ok: "ensures (\<lambda>v. 1 \<le> v \<and> v \<le> 100) (hubspot_coerce_limit raw)"
  unfolding hubspot_coerce_limit_def
  by (rule ensures_rules | simp)+

lemma hubspot_build_search_contacts_ok: "ensures (request_ok (Some 5)) (hubspot_build_search_contacts fr params)"
  unfolding hubspot_build_search_contacts_def
  by (rule hubspot_coerce_string_list_ok [THEN ensures_bind] hubspot_coerce_string_list_ok [THEN ensures_weaken] hubspot_coerce_limit_ok [THEN ensures_bind] hubspot_coerce_limit_ok [THEN ensures_weaken] ensures_rules | simp add: request_ok_def METHODS_def)+

definition hubspot_shape :: "(string, nat option) dict" where
  "hubspot_shape =
     [(''create_contact'', Some 4), (''update_contact'', Some 5), (''get_contact'', Some 5),
         (''delete_contact'', Some 5), (''search_contacts'', Some 5)]"

interpretation hubspot: request_builder "hubspot_build_request fr" hubspot_shape for fr
  by (rule request_builder_table [OF hubspot_build_request_def])
    (simp_all del: One_nat_def add: hubspot_BUILDERS_def hubspot_shape_def
      hubspot_build_create_contact_ok hubspot_build_update_contact_ok hubspot_build_get_contact_ok
      hubspot_build_delete_contact_ok hubspot_build_search_contacts_ok)

section \<open>Intercom\<close>

definition intercom_build_create_contact :: "(rat \<Rightarrow> string) \<Rightarrow> jobj \<Rightarrow> request_spec result" where
  "intercom_build_create_contact fr params =
     (let role = (if py_lower (py_strip (py_str fr (param_or params ''role'' (JStr ''user'')))) \<noteq> [] then
         py_lower (py_strip (py_str fr (param_or params ''role'' (JStr ''user'')))) else ''user'') in
     if role \<notin> set [''user'', ''lead''] then raise ValueError (''Intercom: invalid contact role '' @ repr_str
         role)
     else let body = [(''role'', JStr role)] in
     let email = text_param fr params ''email'' in
     let external_id = text_param fr params ''external_id'' in
     let phone = text_param fr params ''phone'' in
     if email = [] \<and> external_id = [] \<and> phone = [] then raise ValueError
         ''Intercom: one of 'email', 'external_id', or 'phone' is required''
     else let body = (if email \<noteq> [] then dict_set ''email'' (JStr email) body else body) in
     let body = (if external_id \<noteq> [] then dict_set ''external_id'' (JStr external_id) body else body) in
     let body = (if phone \<noteq> [] then dict_set ''phone'' (JStr phone) body else body) in
     let name = text_param fr params ''name'' in
     let body = (if name \<noteq> [] then dict_set ''name'' (JStr name) body else body) in
     let custom_attributes = dict_get params ''custom_attributes'' JNull in
     rbind (if custom_attributes \<noteq> JNull then (if \<not> is_obj custom_attributes then raise ValueError
         ''Intercom: 'custom_attributes' must be a JSON object''
       else Inr (dict_set ''custom_attributes'' custom_attributes body)) else Inr body) (\<lambda>body.
     Inr (''POST'', ''/contacts'', Some body, [])))"

definition intercom_required :: "(rat \<Rightarrow> string) \<Rightarrow> jobj \<Rightarrow> string \<Rightarrow> string result" where
  "intercom_required fr params key =
     (let value = text_param fr params key in
     if value = [] then raise ValueError (''Intercom: '' @ repr_str key @ '' is required'')
     else Inr value)"

definition intercom_build_update_contact :: "(rat \<Rightarrow> string) \<Rightarrow> jobj \<Rightarrow> request_spec result" where
  "intercom_build_update_contact fr params =
     rbind (intercom_required fr params ''contact_id'') (\<lambda>contact_id.
     let updates = dict_get params ''fields'' JNull in
     if \<not> is_obj updates \<or> \<not> py_bool updates then raise ValueError
         ''Intercom: 'fields' must be a non-empty JSON object''
     else let path = ''/contacts/'' @ url_quote [] contact_id in
     Inr (''PUT'', path, Some (obj_of updates), []))"

definition intercom_build_get_contact :: "(rat \<Rightarrow> string) \<Rightarrow> jobj \<Rightarrow> request_spec result" where
  "intercom_build_get_contact fr params =
     rbind (intercom_required fr params ''contact_id'') (\<lambda>contact_id.
     let path = ''/contacts/'' @ url_quote [] contact_id in
     Inr (''GET'', path, None, []))"

definition intercom_coerce_limit :: "json \<Rightarrow> int result" where
  "intercom_coerce_limit raw =
     (if is_blank raw then Inr 25
     else (case int_of_json raw of
       None \<Rightarrow> raise ValueError ''Intercom: 'per_page' must be a positive integer''
     | Some value \<Rightarrow>
       if value < 1 then raise ValueError ''Intercom: 'per_page' must be >= 1''
       else Inr (min value 150)))"

definition intercom_build_search_contacts :: "jobj \<Rightarrow> request_spec result" where
  "intercom_build_search_contacts params =
     (let query_obj = dict_get params ''query'' JNull in
     if \<not> is_obj query_obj \<or> \<not> py_bool query_obj then raise ValueError
         ''Intercom: 'query' must be a non-empty JSON object''
     else rbind (intercom_coerce_limit (dict_get params ''per_page'' JNull)) (\<lambda>r1.
     let body = [(''query'', query_obj), (''pagination'', JObj [(''per_page'', JInt r1)])] in
     Inr (''POST'', ''/contacts/search'', Some body, [])))"

definition intercom_build_create_conversation :: "(rat \<Rightarrow> string) \<Rightarrow> jobj \<Rightarrow> request_spec result" where
  "intercom_build_create_conversation fr params =
     rbind (intercom_required fr params ''contact_id'') (\<lambda>contact_id.
     let contact_type = (if py_lower (py_strip (py_str fr (param_or params ''contact_type'' (JStr ''user''))))
         \<noteq> [] then py_lower (py_strip (py_str fr (param_or params ''contact_type'' (JStr ''user'')))) else
         ''user'') in
     if contact_type \<notin> set [''user'', ''lead''] then raise ValueError (''Intercom: invalid contact type '' @
         repr_str contact_type)
     else let message_body = py_str fr (param_or params ''body'' (JStr [])) in
     if py_strip message_body = [] then raise ValueError
         ''Intercom: 'body' is required for create_conversation''
     else let payload = [(''from'', JObj [(''type'', JStr contact_type), (''id'', JStr contact_id)]),
         (''body'', JStr message_body)] in
     Inr (''POST'', ''/conversations'', Some payload, []))"

definition intercom_build_reply_conversation :: "(rat \<Rightarrow> string) \<Rightarrow> jobj \<Rightarrow> request_spec result" where
  "intercom_build_reply_conversation fr params =
     rbind (intercom_required fr params ''conversation_id'') (\<lambda>conversation_id.
     let reply_type = (if py_lower (py_strip (py_str fr (param_or params ''reply_type'' (JStr ''user'')))) \<noteq> []
         then py_lower (py_strip (py_str fr (param_or params ''reply_type'' (JStr ''user'')))) else ''user'') in
     if reply_type \<notin> set [''user'', ''admin''] then raise ValueError (''Intercom: invalid reply type '' @
         repr_str reply_type)
     else let message_type = (if py_lower (py_strip (py_str fr (param_or params ''message_type'' (JStr
         ''comment'')))) \<noteq> [] then py_lower (py_strip (py_str fr (param_or params ''message_type'' (JStr
         ''comment'')))) else ''comment'') in
     if message_type \<notin> set [''comment'', ''note'', ''quick_reply'', ''close''] then raise ValueError
         (''Intercom: invalid reply message_type '' @ repr_str message_type)
     else let message_body = py_str fr (param_or params ''body'' (JStr [])) in
     if py_strip message_body = [] then raise ValueError ''Intercom: 'body' is required for reply_conversation''
     else let payload = [(''message_type'', JStr message_type), (''type'', JStr reply_type), (''body'', JStr
         message_body)] in
     let admin_id = text_param fr params ''admin_id'' in
     let user_id = text_param fr params ''user_id'' in
     rbind (if reply_type = ''admin'' then (if admin_id = [] then raise ValueError
         (''Intercom: 'admin_id' is required when reply_type='admin'' @ [CHR 0x27])
       else Inr (dict_set ''admin_id'' (JStr admin_id) payload)) else Inr (if user_id \<noteq> [] then dict_set
           ''user_id'' (JStr user_id) payload else payload)) (\<lambda>payload.
     let path = ''/conversations/'' @ url_quote [] conversation_id @ ''/reply'' in
     Inr (''POST'', path, Some payload, [])))"

definition intercom_BUILDERS :: "(rat \<Rightarrow> string) \<Rightarrow> (string, jobj \<Rightarrow> request_spec result) dict" where
  "intercom_BUILDERS fr =
     [(''create_contact'', intercom_build_create_contact fr),
      (''update_contact'', intercom_build_update_contact fr),
      (''get_contact'', intercom_build_get_contact fr),
      (''search_contacts'', intercom_build_search_contacts),
      (''create_conversation'', intercom_build_create_conversation fr),
      (''reply_conversation'', intercom_build_reply_conversation fr)]"

definition intercom_build_request :: "(rat \<Rightarrow> string) \<Rightarrow> string \<Rightarrow> jobj \<Rightarrow> request_spec result" where
  "intercom_build_request fr operation params =
     (case map_of (intercom_BUILDERS fr) operation of
        None \<Rightarrow> raise ValueError (''Intercom: unsupported operation '' @ repr_str operation)
      | Some builder \<Rightarrow> builder params)"

lemma intercom_build_create_contact_ok: "ensures (request_ok (Some 1)) (intercom_build_create_contact fr params)"
  unfolding intercom_build_create_contact_def
  by (rule ensures_rules | simp add: request_ok_def METHODS_def)+

lemma intercom_required_ok: "ensures (\<lambda>_. True) (intercom_required fr params key)"
  unfolding intercom_required_def
  by (rule ensures_rules | simp)+

lemma intercom_build_update_contact_ok: "ensures (request_ok (Some 2)) (intercom_build_update_contact fr params)"
  unfolding intercom_build_update_contact_def
  by (rule intercom_required_ok [THEN ensures_bind] intercom_required_ok [THEN ensures_weaken] ensures_rules | simp add: request_ok_def METHODS_def)+

lemma intercom_build_get_contact_ok: "ensures (request_ok (Some 2)) (intercom_build_get_contact fr params)"
  unfolding intercom_build_get_contact_def
  by (rule intercom_required_ok [THEN ensures_bind] intercom_required_ok [THEN ensures_weaken] ensures_rules | simp add: request_ok_def METHODS_def)+

lemma intercom_coerce_limit_ok: "ensures (\<lambda>v. 1 \<le> v \<and> v \<le> 150) (intercom_coerce_limit raw)"
  unfolding intercom_coerce_limit_def
  by (rule ensures_rules | simp)+

lemma intercom_build_search_contacts_ok: "ensures (request_ok (Some 2)) (intercom_build_search_contacts params)"
  unfolding intercom_build_search_contacts_def
  by (rule intercom_coerce_limit_ok [THEN ensures_bind] intercom_coerce_limit_ok [THEN ensures_weaken] ensures_rules | simp add: request_ok_def METHODS_def)+

lemma intercom_build_create_conversation_ok: "ensures (request_ok (Some 1)) (intercom_build_create_conversation fr params)"
  unfolding intercom_build_create_conversation_def
  by (rule intercom_required_ok [THEN ensures_bind] intercom_required_ok [THEN ensures_weaken] ensures_rules | simp add: request_ok_def METHODS_def)+

lemma intercom_build_reply_conversation_ok: "ensures (request_ok (Some 3)) (intercom_build_reply_conversation fr params)"
  unfolding intercom_build_reply_conversation_def
  by (rule intercom_required_ok [THEN ensures_bind] intercom_required_ok [THEN ensures_weaken] ensures_rules | simp add: request_ok_def METHODS_def)+

definition intercom_shape :: "(string, nat option) dict" where
  "intercom_shape =
     [(''create_contact'', Some 1), (''update_contact'', Some 2), (''get_contact'', Some 2),
         (''search_contacts'', Some 2), (''create_conversation'', Some 1), (''reply_conversation'', Some 3)]"

interpretation intercom: request_builder "intercom_build_request fr" intercom_shape for fr
  by (rule request_builder_table [OF intercom_build_request_def])
    (simp_all del: One_nat_def add: intercom_BUILDERS_def intercom_shape_def
      intercom_build_create_contact_ok intercom_build_update_contact_ok intercom_build_get_contact_ok
      intercom_build_search_contacts_ok intercom_build_create_conversation_ok intercom_build_reply_conversation_ok)

section \<open>Jira\<close>

definition jira_required :: "(rat \<Rightarrow> string) \<Rightarrow> jobj \<Rightarrow> string \<Rightarrow> string result" where
  "jira_required fr params key =
     (let value = text_param fr params key in
     if value = [] then raise ValueError (''Jira: '' @ repr_str key @ '' is required'')
     else Inr value)"

definition jira_coerce_string_list :: "(rat \<Rightarrow> string) \<Rightarrow> json \<Rightarrow> string \<Rightarrow> string list result" where
  "jira_coerce_string_list fr raw field =
     (if raw = JNull \<or> raw = JStr [] then Inr []
     else if is_str raw then Inr (map (\<lambda>part. py_strip part) (filter (\<lambda>part. py_strip part \<noteq> []) (split_on CHR
         '','' (str_of raw))))
     else if is_arr raw then Inr (map (\<lambda>part. py_strip (py_str fr part)) (filter (\<lambda>part. py_strip (py_str fr
         part) \<noteq> []) (arr_of raw)))
     else raise ValueError (''Jira: '' @ repr_str field @ '' must be a string or list of strings''))"

definition jira_build_get_issue :: "(rat \<Rightarrow> string) \<Rightarrow> jobj \<Rightarrow> request_spec result" where
  "jira_build_get_issue fr params =
     rbind (jira_required fr params ''issue_key'') (\<lambda>issue_key.
     let path = ''/rest/api/3'' @ ''/issue/'' @ url_quote [] issue_key in
     let query = ([] :: jobj) in
     rbind (jira_coerce_string_list fr (dict_get params ''fields'' JNull) ''fields'') (\<lambda>fields.
     let query = (if fields \<noteq> [] then dict_set ''fields'' (JStr (join '','' fields)) query else query) in
     rbind (jira_coerce_string_list fr (dict_get params ''expand'' JNull) ''expand'') (\<lambda>expand.
     let query = (if expand \<noteq> [] then dict_set ''expand'' (JStr (join '','' expand)) query else query) in
     Inr (''GET'', path, None, query))))"

definition jira_build_create_issue :: "(rat \<Rightarrow> string) \<Rightarrow> jobj \<Rightarrow> request_spec result" where
  "jira_build_create_issue fr params =
     rbind (jira_required fr params ''project_key'') (\<lambda>project_key.
     rbind (jira_required fr params ''summary'') (\<lambda>summary.
     rbind (jira_required fr params ''issue_type'') (\<lambda>issue_type.
     let fields = [(''project'', JObj [(''key'', JStr project_key)]), (''summary'', JStr summary),
         (''issuetype'', JObj [(''name'', JStr issue_type)])] in
     let extra = dict_get params ''extra_fields'' JNull in
     rbind (if extra \<noteq> JNull then (if \<not> is_obj extra then raise ValueError
         ''Jira: 'extra_fields' must be a JSON object''
       else Inr (dict_merge fields (obj_of extra))) else Inr fields) (\<lambda>fields.
     Inr (''POST'', ''/rest/api/3/issue'', Some [(''fields'', JObj fields)], [])))))"

definition jira_build_update_issue :: "(rat \<Rightarrow> string) \<Rightarrow> jobj \<Rightarrow> request_spec result" where
  "jira_build_update_issue fr params =
     rbind (jira_required fr params ''issue_key'') (\<lambda>issue_key.
     let fields = dict_get params ''fields'' JNull in
     if \<not> is_obj fields \<or> \<not> py_bool fields then raise ValueError
         ''Jira: 'fields' must be a non-empty JSON object''
     else let path = ''/rest/api/3'' @ ''/issue/'' @ url_quote [] issue_key in
     Inr (''PUT'', path, Some [(''fields'', fields)], []))"

definition jira_build_delete_issue :: "(rat \<Rightarrow> string) \<Rightarrow> jobj \<Rightarrow> request_spec result" where
  "jira_build_delete_issue fr params =
     rbind (jira_required fr params ''issue_key'') (\<lambda>issue_key.
     let path = ''/rest/api/3'' @ ''/issue/'' @ url_quote [] issue_key in
     let query = ([] :: jobj) in
     let delete_subtasks = dict_get params ''delete_subtasks'' JNull in
     let query = (if is_bool delete_subtasks then dict_set ''deleteSubtasks'' (JStr (if py_bool delete_subtasks
         then ''true'' else ''false'')) query else query) in
     Inr (''DELETE'', path, None, query))"

definition jira_coerce_limit :: "json \<Rightarrow> int result" where
  "jira_coerce_limit raw =
     (if is_blank raw then Inr 50
     else (case int_of_json raw of
       None \<Rightarrow> raise ValueError ''Jira: 'max_results' must be a positive integer''
     | Some value \<Rightarrow>
       if value < 1 then raise ValueError ''Jira: 'max_results' must be >= 1''
       else Inr (min value 100)))"

definition jira_coerce_non_negative_int :: "json \<Rightarrow> string \<Rightarrow> int result" where
  "jira_coerce_non_negative_int raw field =
     (case int_of_json raw of
       None \<Rightarrow> raise ValueError (''Jira: '' @ repr_str field @ '' must be a non-negative integer'')
     | Some value \<Rightarrow>
       if value < 0 then raise ValueError (''Jira: '' @ repr_str field @ '' must be >= 0'')
       else Inr value)"

definition jira_build_search_issues :: "(rat \<Rightarrow> string) \<Rightarrow> jobj \<Rightarrow> request_spec result" where
  "jira_build_search_issues fr params =
     (let jql = text_param fr params ''jql'' in
     if jql = [] then raise ValueError ''Jira: 'jql' is required for search_issues''
     else rbind (jira_coerce_limit (dict_get params ''max_results'' JNull)) (\<lambda>r1.
     let body = [(''jql'', JStr jql), (''maxResults'', JInt r1)] in
     let start_at = dict_get params ''start_at'' JNull in
     rbind (if \<not> is_blank start_at then (rbind (jira_coerce_non_negative_int start_at ''start_at'') (\<lambda>r2.
       Inr (dict_set ''startAt'' (JInt r2) body))) else Inr body) (\<lambda>body.
     rbind (jira_coerce_string_list fr (dict_get params ''fields'' JNull) ''fields'') (\<lambda>fields.
     let body = (if fields \<noteq> [] then dict_set ''fields'' (JArr (map JStr fields)) body else body) in
     Inr (''POST'', ''/rest/api/3/search'', Some body, [])))))"

definition jira_build_add_comment :: "(rat \<Rightarrow> string) \<Rightarrow> jobj \<Rightarrow> request_spec result" where
  "jira_build_add_comment fr params =
     rbind (jira_required fr params ''issue_key'') (\<lambda>issue_key.
     let body_text = py_str fr (param_or params ''body'' (JStr [])) in
     if py_strip body_text = [] then raise ValueError ''Jira: 'body' is required for add_comment''
     else let path = ''/rest/api/3'' @ ''/issue/'' @ url_quote [] issue_key @ ''/comment'' in
     let comment_doc = [(''body'', JObj [(''type'', JStr ''doc''), (''version'', JInt 1), (''content'', JArr
         (map JObj [[(''type'', JStr ''paragraph''), (''content'', JArr (map JObj [[(''type'', JStr ''text''),
         (''text'', JStr body_text)]]))]]))])] in
     Inr (''POST'', path, Some comment_doc, []))"

definition jira_BUILDERS :: "(rat \<Rightarrow> string) \<Rightarrow> (string, jobj \<Rightarrow> request_spec result) dict" where
  "jira_BUILDERS fr =
     [(''get_issue'', jira_build_get_issue fr),
      (''create_issue'', jira_build_create_issue fr),
      (''update_issue'', jira_build_update_issue fr),
      (''delete_issue'', jira_build_delete_issue fr),
      (''search_issues'', jira_build_search_issues fr),
      (''add_comment'', jira_build_add_comment fr)]"

definition jira_build_request :: "(rat \<Rightarrow> string) \<Rightarrow> string \<Rightarrow> jobj \<Rightarrow> request_spec result" where
  "jira_build_request fr operation params =
     (case map_of (jira_BUILDERS fr) operation of
        None \<Rightarrow> raise ValueError (''Jira: unsupported operation '' @ repr_str operation)
      | Some builder \<Rightarrow> builder params)"

lemma jira_required_ok: "ensures (\<lambda>_. True) (jira_required fr params key)"
  unfolding jira_required_def
  by (rule ensures_rules | simp)+

lemma jira_coerce_string_list_ok: "ensures (\<lambda>_. True) (jira_coerce_string_list fr raw field)"
  unfolding jira_coerce_string_list_def
  by (rule ensures_rules | simp)+

lemma jira_build_get_issue_ok: "ensures (request_ok (Some 5)) (jira_build_get_issue fr params)"
  unfolding jira_build_get_issue_def
  by (rule jira_required_ok [THEN ensures_bind] jira_required_ok [THEN ensures_weaken] jira_coerce_string_list_ok [THEN ensures_bind] jira_coerce_string_list_ok [THEN ensures_weaken] ensures_rules | simp add: request_ok_def METHODS_def)+

lemma jira_build_create_issue_ok: "ensures (request_ok (Some 4)) (jira_build_create_issue fr params)"
  unfolding jira_build_create_issue_def
  by (rule jira_required_ok [THEN ensures_bind] jira_required_ok [THEN ensures_weaken] ensures_rules | simp add: request_ok_def METHODS_def)+

lemma jira_build_update_issue_ok: "ensures (request_ok (Some 5)) (jira_build_update_issue fr params)"
  unfolding jira_build_update_issue_def
  by (rule jira_required_ok [THEN ensures_bind] jira_required_ok [THEN ensures_weaken] ensures_rules | simp add: request_ok_def METHODS_def)+

lemma jira_build_delete_issue_ok: "ensures (request_ok (Some 5)) (jira_build_delete_issue fr params)"
  unfolding jira_build_delete_issue_def
  by (rule jira_required_ok [THEN ensures_bind] jira_required_ok [THEN ensures_weaken] ensures_rules | simp add: request_ok_def METHODS_def)+

lemma jira_coerce_limit_ok: "ensures (\<lambda>v. 1 \<le> v \<and> v \<le> 100) (jira_coerce_limit raw)"
  unfolding jira_coerce_limit_def
  by (rule ensures_rules | simp)+

lemma jira_coerce_non_negative_int_ok: "ensures (\<lambda>v. 0 \<le> v) (jira_coerce_non_negative_int raw field)"
  unfolding jira_coerce_non_negative_int_def
  by (rule ensures_rules | simp)+

lemma jira_build_search_issues_ok: "ensures (request_ok (Some 4)) (jira_build_search_issues fr params)"
  unfolding jira_build_search_issues_def
  by (rule jira_coerce_string_list_ok [THEN ensures_bind] jira_coerce_string_list_ok [THEN ensures_weaken] jira_coerce_limit_ok [THEN ensures_bind] jira_coerce_limit_ok [THEN ensures_weaken] jira_coerce_non_negative_int_ok [THEN ensures_bind] jira_coerce_non_negative_int_ok [THEN ensures_weaken] ensures_rules | simp add: request_ok_def METHODS_def)+

lemma jira_build_add_comment_ok: "ensures (request_ok (Some 6)) (jira_build_add_comment fr params)"
  unfolding jira_build_add_comment_def
  by (rule jira_required_ok [THEN ensures_bind] jira_required_ok [THEN ensures_weaken] ensures_rules | simp add: request_ok_def METHODS_def)+

definition jira_shape :: "(string, nat option) dict" where
  "jira_shape =
     [(''get_issue'', Some 5), (''create_issue'', Some 4), (''update_issue'', Some 5), (''delete_issue'', Some
         5), (''search_issues'', Some 4), (''add_comment'', Some 6)]"

interpretation jira: request_builder "jira_build_request fr" jira_shape for fr
  by (rule request_builder_table [OF jira_build_request_def])
    (simp_all del: One_nat_def add: jira_BUILDERS_def jira_shape_def
      jira_build_get_issue_ok jira_build_create_issue_ok jira_build_update_issue_ok
      jira_build_delete_issue_ok jira_build_search_issues_ok jira_build_add_comment_ok)

section \<open>Mapbox\<close>

definition mapbox_required :: "(rat \<Rightarrow> string) \<Rightarrow> jobj \<Rightarrow> string \<Rightarrow> string result" where
  "mapbox_required fr params key =
     (let value = text_param fr params key in
     if value = [] then raise ValueError (''Mapbox: '' @ repr_str key @ '' is required'')
     else Inr value)"

definition mapbox_stringify :: "(rat \<Rightarrow> string) \<Rightarrow> json \<Rightarrow> string" where
  "mapbox_stringify fr value =
     (if is_bool value then (if py_bool value then ''true'' else ''false'')
     else py_str fr value)"

definition mapbox_build_forward_geocode :: "(rat \<Rightarrow> string) \<Rightarrow> jobj \<Rightarrow> request_spec result" where
  "mapbox_build_forward_geocode fr params =
     rbind (mapbox_required fr params ''search_text'') (\<lambda>search.
     let endpoint = py_strip (py_str fr (param_or params ''endpoint'' (JStr ''mapbox.places''))) in
     let query = ([] :: jobj) in
     let query = foldl (\<lambda>query key.
         let value = dict_get params key JNull in
         (if \<not> is_blank value then dict_set key (JStr (mapbox_stringify fr value)) query else query)) query
             [''limit'', ''language'', ''country'', ''proximity'', ''bbox'', ''types'', ''autocomplete''] in
     let path = ''/geocoding/v5/'' @ endpoint @ ''/'' @ url_quote [] search @ ''.json'' in
     Inr (''GET'', path, None, query))"

definition mapbox_build_reverse_geocode :: "(rat \<Rightarrow> string) \<Rightarrow> jobj \<Rightarrow> request_spec result" where
  "mapbox_build_reverse_geocode fr params =
     rbind (mapbox_required fr params ''longitude'') (\<lambda>longitude.
     rbind (mapbox_required fr params ''latitude'') (\<lambda>latitude.
     let endpoint = py_strip (py_str fr (param_or params ''endpoint'' (JStr ''mapbox.places''))) in
     let query = ([] :: jobj) in
     let query = foldl (\<lambda>query key.
         let value = dict_get params key JNull in
         (if \<not> is_blank value then dict_set key (JStr (mapbox_stringify fr value)) query else query)) query
             [''language'', ''types'', ''limit''] in
     let path = ''/geocoding/v5/'' @ endpoint @ ''/'' @ longitude @ '','' @ latitude @ ''.json'' in
     Inr (''GET'', path, None, query)))"

definition mapbox_build_directions :: "(rat \<Rightarrow> string) \<Rightarrow> jobj \<Rightarrow> request_spec result" where
  "mapbox_build_directions fr params =
     (let profile = py_strip (py_str fr (param_or params ''profile'' (JStr ''mapbox/driving''))) in
     rbind (mapbox_required fr params ''coordinates'') (\<lambda>coordinates.
     let query = ([] :: jobj) in
     let query = foldl (\<lambda>query key.
         let value = dict_get params key JNull in
         (if \<not> is_blank value then dict_set key (JStr (mapbox_stringify fr value)) query else query)) query
             [''alternatives'', ''geometries'', ''overview'', ''steps'', ''annotations'', ''language'',
             ''exclude''] in
     let path = ''/directions/v5/'' @ profile @ ''/'' @ coordinates in
     Inr (''GET'', path, None, query)))"

definition mapbox_build_matrix :: "(rat \<Rightarrow> string) \<Rightarrow> jobj \<Rightarrow> request_spec result" where
  "mapbox_build_matrix fr params =
     (let profile = py_strip (py_str fr (param_or params ''profile'' (JStr ''mapbox/driving''))) in
     rbind (mapbox_required fr params ''coordinates'') (\<lambda>coordinates.
     let query = ([] :: jobj) in
     let query = foldl (\<lambda>query key.
         let value = dict_get params key JNull in
         (if \<not> is_blank value then dict_set key (JStr (mapbox_stringify fr value)) query else query)) query
             [''annotations'', ''sources'', ''destinations''] in
     let path = ''/directions-matrix/v1/'' @ profile @ ''/'' @ coordinates in
     Inr (''GET'', path, None, query)))"

definition mapbox_build_isochrone :: "(rat \<Rightarrow> string) \<Rightarrow> jobj \<Rightarrow> request_spec result" where
  "mapbox_build_isochrone fr params =
     (let profile = py_strip (py_str fr (param_or params ''profile'' (JStr ''mapbox/driving''))) in
     rbind (mapbox_required fr params ''coordinates'') (\<lambda>coordinates.
     let query = ([] :: jobj) in
     let contours_minutes = dict_get params ''contours_minutes'' JNull in
     let contours_meters = dict_get params ''contours_meters'' JNull in
     if is_blank contours_minutes \<and> is_blank contours_meters then raise ValueError
         ''Mapbox: one of 'contours_minutes' or 'contours_meters' is required''
     else let query = (if \<not> is_blank contours_minutes then dict_set ''contours_minutes'' (JStr
         (mapbox_stringify fr contours_minutes)) query else query) in
     let query = (if \<not> is_blank contours_meters then dict_set ''contours_meters'' (JStr (mapbox_stringify fr
         contours_meters)) query else query) in
     let query = foldl (\<lambda>query key.
         let value = dict_get params key JNull in
         (if \<not> is_blank value then dict_set key (JStr (mapbox_stringify fr value)) query else query)) query
             [''contours_colors'', ''polygons'', ''denoise'', ''generalize''] in
     let path = ''/isochrone/v1/'' @ profile @ ''/'' @ coordinates in
     Inr (''GET'', path, None, query)))"

definition mapbox_BUILDERS :: "(rat \<Rightarrow> string) \<Rightarrow> (string, jobj \<Rightarrow> request_spec result) dict" where
  "mapbox_BUILDERS fr =
     [(''forward_geocode'', mapbox_build_forward_geocode fr),
      (''reverse_geocode'', mapbox_build_reverse_geocode fr),
      (''directions'', mapbox_build_directions fr),
      (''matrix'', mapbox_build_matrix fr),
      (''isochrone'', mapbox_build_isochrone fr)]"

definition mapbox_build_request :: "(rat \<Rightarrow> string) \<Rightarrow> string \<Rightarrow> jobj \<Rightarrow> request_spec result" where
  "mapbox_build_request fr operation params =
     (case map_of (mapbox_BUILDERS fr) operation of
        None \<Rightarrow> raise ValueError (''Mapbox: unsupported operation '' @ repr_str operation)
      | Some builder \<Rightarrow> builder params)"

lemma mapbox_required_ok: "ensures (\<lambda>_. True) (mapbox_required fr params key)"
  unfolding mapbox_required_def
  by (rule ensures_rules | simp)+

lemma mapbox_build_forward_geocode_ok: "ensures (request_ok None) (mapbox_build_forward_geocode fr params)"
  unfolding mapbox_build_forward_geocode_def
  by (rule mapbox_required_ok [THEN ensures_bind] mapbox_required_ok [THEN ensures_weaken] ensures_rules | simp add: request_ok_def METHODS_def)+

lemma mapbox_build_reverse_geocode_ok: "ensures (request_ok None) (mapbox_build_reverse_geocode fr params)"
  unfolding mapbox_build_reverse_geocode_def
  by (rule mapbox_required_ok [THEN ensures_bind] mapbox_required_ok [THEN ensures_weaken] ensures_rules | simp add: request_ok_def METHODS_def)+

lemma mapbox_build_directions_ok: "ensures (request_ok None) (mapbox_build_directions fr params)"
  unfolding mapbox_build_directions_def
  by (rule mapbox_required_ok [THEN ensures_bind] mapbox_required_ok [THEN ensures_weaken] ensures_rules | simp add: request_ok_def METHODS_def)+

lemma mapbox_build_matrix_ok: "ensures (request_ok None) (mapbox_build_matrix fr params)"
  unfolding mapbox_build_matrix_def
  by (rule mapbox_required_ok [THEN ensures_bind] mapbox_required_ok [THEN ensures_weaken] ensures_rules | simp add: request_ok_def METHODS_def)+

lemma mapbox_build_isochrone_ok: "ensures (request_ok None) (mapbox_build_isochrone fr params)"
  unfolding mapbox_build_isochrone_def
  by (rule mapbox_required_ok [THEN ensures_bind] mapbox_required_ok [THEN ensures_weaken] ensures_rules | simp add: request_ok_def METHODS_def)+

definition mapbox_shape :: "(string, nat option) dict" where
  "mapbox_shape =
     [(''forward_geocode'', None), (''reverse_geocode'', None), (''directions'', None), (''matrix'', None),
         (''isochrone'', None)]"

interpretation mapbox: request_builder "mapbox_build_request fr" mapbox_shape for fr
  by (rule request_builder_table [OF mapbox_build_request_def])
    (simp_all del: One_nat_def add: mapbox_BUILDERS_def mapbox_shape_def
      mapbox_build_forward_geocode_ok mapbox_build_reverse_geocode_ok mapbox_build_directions_ok
      mapbox_build_matrix_ok mapbox_build_isochrone_ok)

section \<open>Mattermost\<close>

definition mattermost_required :: "(rat \<Rightarrow> string) \<Rightarrow> jobj \<Rightarrow> string \<Rightarrow> string result" where
  "mattermost_required fr params key =
     (let value = text_param fr params key in
     if value = [] then raise ValueError (''Mattermost: '' @ repr_str key @ '' is required'')
     else Inr value)"

definition mattermost_coerce_string_list :: "(rat \<Rightarrow> string) \<Rightarrow> json \<Rightarrow> string \<Rightarrow> string list result" where
  "mattermost_coerce_string_list fr raw field =
     (if raw = JNull \<or> raw = JStr [] then Inr []
     else if is_str raw then Inr (map (\<lambda>part. py_strip part) (filter (\<lambda>part. py_strip part \<noteq> []) (split_on CHR
         '','' (str_of raw))))
     else if is_arr raw then Inr (map (\<lambda>part. py_strip (py_str fr part)) (filter (\<lambda>part. py_strip (py_str fr
         part) \<noteq> []) (arr_of raw)))
     else raise ValueError (''Mattermost: '' @ repr_str field @ '' must be a string or list of strings''))"

definition mattermost_build_post_message :: "(rat \<Rightarrow> string) \<Rightarrow> jobj \<Rightarrow> request_spec result" where
  "mattermost_build_post_message fr params =
     rbind (mattermost_required fr params ''channel_id'') (\<lambda>channel_id.
     let message = py_str fr (param_or params ''message'' (JStr [])) in
     if py_strip message = [] then raise ValueError ''Mattermost: 'message' is required for post_message''
     else let body = [(''channel_id'', JStr channel_id), (''message'', JStr message)] in
     let root_id = text_param fr params ''root_id'' in
     let body = (if root_id \<noteq> [] then dict_set ''root_id'' (JStr root_id) body else body) in
     let props = dict_get params ''props'' JNull in
     rbind (if props \<noteq> JNull then (if \<not> is_obj props then raise ValueError
         ''Mattermost: 'props' must be a JSON object''
       else Inr (dict_set ''props'' props body)) else Inr body) (\<lambda>body.
     rbind (mattermost_coerce_string_list fr (dict_get params ''file_ids'' JNull) ''file_ids'') (\<lambda>file_ids.
     let body = (if file_ids \<noteq> [] then dict_set ''file_ids'' (JArr (map JStr file_ids)) body else body) in
     Inr (''POST'', ''/posts'', Some body, []))))"

definition mattermost_build_update_post :: "(rat \<Rightarrow> string) \<Rightarrow> jobj \<Rightarrow> request_spec result" where
  "mattermost_build_update_post fr params =
     rbind (mattermost_required fr params ''post_id'') (\<lambda>post_id.
     let updates = dict_get params ''fields'' JNull in
     if \<not> is_obj updates \<or> \<not> py_bool updates then raise ValueError
         ''Mattermost: 'fields' must be a non-empty JSON object''
     else let body = dict_set ''id'' (JStr post_id) (obj_of updates) in
     Inr (''PUT'', ''/posts/'' @ url_quote [] post_id, Some body, []))"

definition mattermost_build_delete_post :: "(rat \<Rightarrow> string) \<Rightarrow> jobj \<Rightarrow> request_spec result" where
  "mattermost_build_delete_post fr params =
     rbind (mattermost_required fr params ''post_id'') (\<lambda>post_id.
     Inr (''DELETE'', ''/posts/'' @ url_quote [] post_id, None, []))"

definition mattermost_build_get_channel :: "(rat \<Rightarrow> string) \<Rightarrow> jobj \<Rightarrow> request_spec result" where
  "mattermost_build_get_channel fr params =
     rbind (mattermost_required fr params ''channel_id'') (\<lambda>channel_id.
     Inr (''GET'', ''/channels/'' @ url_quote [] channel_id, None, []))"

definition mattermost_build_list_channels_for_user :: "(rat \<Rightarrow> string) \<Rightarrow> jobj \<Rightarrow> request_spec result" where
  "mattermost_build_list_channels_for_user fr params =
     (let user_id = (if py_strip (py_str fr (param_or params ''user_id'' (JStr ''me''))) \<noteq> [] then py_strip
         (py_str fr (param_or params ''user_id'' (JStr ''me''))) else ''me'') in
     rbind (mattermost_required fr params ''team_id'') (\<lambda>team_id.
     let path = ''/users/'' @ url_quote [] user_id @ ''/teams/'' @ url_quote [] team_id @ ''/channels'' in
     Inr (''GET'', path, None, [])))"

definition mattermost_build_get_user_by_username :: "(rat \<Rightarrow> string) \<Rightarrow> jobj \<Rightarrow> request_spec result" where
  "mattermost_build_get_user_by_username fr params =
     rbind (mattermost_required fr params ''username'') (\<lambda>username.
     Inr (''GET'', ''/users/username/'' @ url_quote [] username, None, []))"

definition mattermost_BUILDERS :: "(rat \<Rightarrow> string) \<Rightarrow> (string, jobj \<Rightarrow> request_spec result) dict" where
  "mattermost_BUILDERS fr =
     [(''post_message'', mattermost_build_post_message fr),
      (''update_post'', mattermost_build_update_post fr),
      (''delete_post'', mattermost_build_delete_post fr),
      (''get_channel'', mattermost_build_get_channel fr),
      (''list_channels_for_user'', mattermost_build_list_channels_for_user fr),
      (''get_user_by_username'', mattermost_build_get_user_by_username fr)]"

definition mattermost_build_request :: "(rat \<Rightarrow> string) \<Rightarrow> string \<Rightarrow> jobj \<Rightarrow> request_spec result" where
  "mattermost_build_request fr operation params =
     (case map_of (mattermost_BUILDERS fr) operation of
        None \<Rightarrow> raise ValueError (''Mattermost: unsupported operation '' @ repr_str operation)
      | Some builder \<Rightarrow> builder params)"

lemma mattermost_required_ok: "ensures (\<lambda>_. True) (mattermost_required fr params key)"
  unfolding mattermost_required_def
  by (rule ensures_rules | simp)+

lemma mattermost_coerce_string_list_ok: "ensures (\<lambda>_. True) (mattermost_coerce_string_list fr raw field)"
  unfolding mattermost_coerce_string_list_def
  by (rule ensures_rules | simp)+

lemma mattermost_build_post_message_ok: "ensures (request_ok (Some 1)) (mattermost_build_post_message fr params)"
  unfolding mattermost_build_post_message_def
  by (rule mattermost_required_ok [THEN ensures_bind] mattermost_required_ok [THEN ensures_weaken] mattermost_coerce_string_list_ok [THEN ensures_bind] mattermost_coerce_string_list_ok [THEN ensures_weaken] ensures_rules | simp add: request_ok_def METHODS_def)+

lemma mattermost_build_update_post_ok: "ensures (request_ok (Some 2)) (mattermost_build_update_post fr params)"
  unfolding mattermost_build_update_post_def
  by (rule mattermost_required_ok [THEN ensures_bind] mattermost_required_ok [THEN ensures_weaken] ensures_rules | simp add: request_ok_def METHODS_def)+

lemma mattermost_build_delete_post_ok: "ensures (request_ok (Some 2)) (mattermost_build_delete_post fr params)"
  unfolding mattermost_build_delete_post_def
  by (rule mattermost_required_ok [THEN ensures_bind] mattermost_required_ok [THEN ensures_weaken] ensures_rules | simp add: request_ok_def METHODS_def)+

lemma mattermost_build_get_channel_ok: "ensures (request_ok (Some 2)) (mattermost_build_get_channel fr params)"
  unfolding mattermost_build_get_channel_def
  by (rule mattermost_required_ok [THEN ensures_bind] mattermost_required_ok [THEN ensures_weaken] ensures_rules | simp add: request_ok_def METHODS_def)+

lemma mattermost_build_list_channels_for_user_ok: "ensures (request_ok (Some 5)) (mattermost_build_list_channels_for_user fr params)"
  unfolding mattermost_build_list_channels_for_user_def
  by (rule mattermost_required_ok [THEN ensures_bind] mattermost_required_ok [THEN ensures_weaken] ensures_rules | simp add: request_ok_def METHODS_def)+

lemma mattermost_build_get_user_by_username_ok: "ensures (request_ok (Some 3)) (mattermost_build_get_user_by_username fr params)"
  unfolding mattermost_build_get_user_by_username_def
  by (rule mattermost_required_ok [THEN ensures_bind] mattermost_required_ok [THEN ensures_weaken] ensures_rules | simp add: request_ok_def METHODS_def)+

definition mattermost_shape :: "(string, nat option) dict" where
  "mattermost_shape =
     [(''post_message'', Some 1), (''update_post'', Some 2), (''delete_post'', Some 2), (''get_channel'', Some
         2), (''list_channels_for_user'', Some 5), (''get_user_by_username'', Some 3)]"

interpretation mattermost: request_builder "mattermost_build_request fr" mattermost_shape for fr
  by (rule request_builder_table [OF mattermost_build_request_def])
    (simp_all del: One_nat_def add: mattermost_BUILDERS_def mattermost_shape_def
      mattermost_build_post_message_ok mattermost_build_update_post_ok mattermost_build_delete_post_ok
      mattermost_build_get_channel_ok mattermost_build_list_channels_for_user_ok mattermost_build_get_user_by_username_ok)

section \<open>Mongodb atlas\<close>

definition mongodb_atlas_paging :: "(rat \<Rightarrow> string) \<Rightarrow> jobj \<Rightarrow> jobj" where
  "mongodb_atlas_paging fr params =
     (let out = ([] :: jobj) in
     let page_num = dict_get params ''page_num'' JNull in
     let out = (if is_int page_num \<and> 0 < (int_val page_num) then dict_set ''pageNum'' (JStr (py_str fr
         page_num)) out else out) in
     let items_per_page = dict_get params ''items_per_page'' JNull in
     (if is_int items_per_page \<and> 0 < (int_val items_per_page) then dict_set ''itemsPerPage'' (JStr (py_str fr
         items_per_page)) out else out))"

definition mongodb_atlas_build_list_projects :: "(rat \<Rightarrow> string) \<Rightarrow> jobj \<Rightarrow> request_spec" where
  "mongodb_atlas_build_list_projects fr params =
     (''GET'', ''/groups'', None, mongodb_atlas_paging fr params)"

definition mongodb_atlas_required_str :: "(rat \<Rightarrow> string) \<Rightarrow> jobj \<Rightarrow> string \<Rightarrow> string result" where
  "mongodb_atlas_required_str fr params key =
     (let value = text_param fr params key in
     if value = [] then raise ValueError (''MongoDB Atlas: '' @ repr_str key @ '' is required'')
     else Inr value)"

definition mongodb_atlas_build_list_clusters :: "(rat \<Rightarrow> string) \<Rightarrow> jobj \<Rightarrow> request_spec result" where
  "mongodb_atlas_build_list_clusters fr params =
     rbind (mongodb_atlas_required_str fr params ''group_id'') (\<lambda>group_id.
     Inr (''GET'', ''/groups/'' @ group_id @ ''/clusters'', None, mongodb_atlas_paging fr params))"

definition mongodb_atlas_build_get_cluster :: "(rat \<Rightarrow> string) \<Rightarrow> jobj \<Rightarrow> request_spec result" where
  "mongodb_atlas_build_get_cluster fr params =
     rbind (mongodb_atlas_required_str fr params ''group_id'') (\<lambda>group_id.
     rbind (mongodb_atlas_required_str fr params ''cluster_name'') (\<lambda>cluster_name.
     Inr (''GET'', ''/groups/'' @ group_id @ ''/clusters/'' @ cluster_name, None, [])))"

definition mongodb_atlas_build_list_db_users :: "(rat \<Rightarrow> string) \<Rightarrow> jobj \<Rightarrow> request_spec result" where
  "mongodb_atlas_build_list_db_users fr params =
     rbind (mongodb_atlas_required_str fr params ''group_id'') (\<lambda>group_id.
     Inr (''GET'', ''/groups/'' @ group_id @ ''/databaseUsers'', None, mongodb_atlas_paging fr params))"

definition mongodb_atlas_BUILDERS :: "(rat \<Rightarrow> string) \<Rightarrow> (string, jobj \<Rightarrow> request_spec result) dict" where
  "mongodb_atlas_BUILDERS fr =
     [(''list_projects'', \<lambda>params. Inr (mongodb_atlas_build_list_projects fr params)),
      (''list_clusters'', mongodb_atlas_build_list_clusters fr),
      (''get_cluster'', mongodb_atlas_build_get_cluster fr),
      (''list_db_users'', mongodb_atlas_build_list_db_users fr)]"

definition mongodb_atlas_build_request :: "(rat \<Rightarrow> string) \<Rightarrow> string \<Rightarrow> jobj \<Rightarrow> request_spec result" where
  "mongodb_atlas_build_request fr operation params =
     (case map_of (mongodb_atlas_BUILDERS fr) operation of
        None \<Rightarrow> raise ValueError (''MongoDB Atlas: unsupported operation '' @ repr_str operation)
      | Some builder \<Rightarrow> builder params)"

lemma mongodb_atlas_build_list_projects_ok: "ensures (request_ok (Some 1)) (Inr (mongodb_atlas_build_list_projects fr params))"
  by (rule ensures_Inr) (simp add: mongodb_atlas_build_list_projects_def request_ok_def METHODS_def Let_def)

lemma mongodb_atlas_required_str_ok: "ensures (\<lambda>_. True) (mongodb_atlas_required_str fr params key)"
  unfolding mongodb_atlas_required_str_def
  by (rule ensures_rules | simp)+

lemma mongodb_atlas_build_list_clusters_ok: "ensures (request_ok None) (mongodb_atlas_build_list_clusters fr params)"
  unfolding mongodb_atlas_build_list_clusters_def
  by (rule mongodb_atlas_required_str_ok [THEN ensures_bind] mongodb_atlas_required_str_ok [THEN ensures_weaken] ensures_rules | simp add: request_ok_def METHODS_def)+

lemma mongodb_atlas_build_get_cluster_ok: "ensures (request_ok None) (mongodb_atlas_build_get_cluster fr params)"
  unfolding mongodb_atlas_build_get_cluster_def
  by (rule mongodb_atlas_required_str_ok [THEN ensures_bind] mongodb_atlas_required_str_ok [THEN ensures_weaken] ensures_rules | simp add: request_ok_def METHODS_def)+

lemma mongodb_atlas_build_list_db_users_ok: "ensures (request_ok None) (mongodb_atlas_build_list_db_users fr params)"
  unfolding mongodb_atlas_build_list_db_users_def
  by (rule mongodb_atlas_required_str_ok [THEN ensures_bind] mongodb_atlas_required_str_ok [THEN ensures_weaken] ensures_rules | simp add: request_ok_def METHODS_def)+

definition mongodb_atlas_shape :: "(string, nat option) dict" where
  "mongodb_atlas_shape =
     [(''list_projects'', Some 1), (''list_clusters'', None), (''get_cluster'', None), (''list_db_users'',
         None)]"

interpretation mongodb_atlas: request_builder "mongodb_atlas_build_request fr" mongodb_atlas_shape for fr
  by (rule request_builder_table [OF mongodb_atlas_build_request_def])
    (simp_all del: One_nat_def add: mongodb_atlas_BUILDERS_def mongodb_atlas_shape_def
      mongodb_atlas_build_list_projects_ok mongodb_atlas_build_list_clusters_ok mongodb_atlas_build_get_cluster_ok
      mongodb_atlas_build_list_db_users_ok)

section \<open>Netsuite\<close>

definition netsuite_required :: "(rat \<Rightarrow> string) \<Rightarrow> jobj \<Rightarrow> string \<Rightarrow> string result" where
  "netsuite_required fr params key =
     (let value = text_param fr params key in
     if value = [] then raise ValueError (''NetSuite: '' @ repr_str key @ '' is required'')
     else Inr value)"

definition netsuite_coerce_positive_int :: "json \<Rightarrow> string \<Rightarrow> int result" where
  "netsuite_coerce_positive_int raw field =
     (case int_of_json raw of
       None \<Rightarrow> raise ValueError (''NetSuite: '' @ repr_str field @ '' must be a positive integer'')
     | Some value \<Rightarrow>
       if value < 1 then raise ValueError (''NetSuite: '' @ repr_str field @ '' must be >= 1'')
       else Inr value)"

definition netsuite_coerce_non_negative_int :: "json \<Rightarrow> string \<Rightarrow> int result" where
  "netsuite_coerce_non_negative_int raw field =
     (case int_of_json raw of
       None \<Rightarrow> raise ValueError (''NetSuite: '' @ repr_str field @ '' must be a non-negative integer'')
     | Some value \<Rightarrow>
       if value < 0 then raise ValueError (''NetSuite: '' @ repr_str field @ '' must be >= 0'')
       else Inr value)"

definition netsuite_build_suiteql_query :: "(rat \<Rightarrow> string) \<Rightarrow> jobj \<Rightarrow> (string \<times> string \<times> (jobj option) \<times> jobj \<times>
    jobj) result" where
  "netsuite_build_suiteql_query fr params =
     rbind (netsuite_required fr params ''query'') (\<lambda>query_sql.
     let body = [(''q'', JStr query_sql)] in
     let qs = ([] :: jobj) in
     let limit = dict_get params ''limit'' JNull in
     rbind (if limit \<noteq> JNull \<and> limit \<noteq> JStr [] then (rbind (netsuite_coerce_positive_int limit ''limit'') (\<lambda>r2.
       Inr (dict_set ''limit'' (JInt r2) qs))) else Inr qs) (\<lambda>qs.
     let offset = dict_get params ''offset'' JNull in
     rbind (if offset \<noteq> JNull \<and> offset \<noteq> JStr [] then (rbind (netsuite_coerce_non_negative_int offset
         ''offset'') (\<lambda>r3.
       Inr (dict_set ''offset'' (JInt r3) qs))) else Inr qs) (\<lambda>qs.
     let headers = [(''Prefer'', JStr ''transient'')] in
     Inr (''POST'', ''/services/rest/query/v1/suiteql'', Some body, qs, headers))))"

definition netsuite_build_record_get :: "(rat \<Rightarrow> string) \<Rightarrow> jobj \<Rightarrow> (string \<times> string \<times> (jobj option) \<times> jobj \<times>
    jobj) result" where
  "netsuite_build_record_get fr params =
     rbind (netsuite_required fr params ''record_type'') (\<lambda>record_type.
     rbind (netsuite_required fr params ''record_id'') (\<lambda>record_id.
     let path = ''/services/rest/record/v1'' @ ''/'' @ url_quote [] record_type @ ''/'' @ url_quote []
         record_id in
     Inr (''GET'', path, None, [], [])))"

definition netsuite_coerce_document :: "json \<Rightarrow> jobj result" where
  "netsuite_coerce_document raw =
     (if raw = JNull \<or> raw = JStr [] then raise ValueError ''NetSuite: 'document' is required''
     else if \<not> is_obj raw then raise ValueError ''NetSuite: 'document' must be a JSON object''
     else Inr (obj_of raw))"

definition netsuite_build_record_create :: "(rat \<Rightarrow> string) \<Rightarrow> jobj \<Rightarrow> (string \<times> string \<times> (jobj option) \<times> jobj \<times>
    jobj) result" where
  "netsuite_build_record_create fr params =
     rbind (netsuite_required fr params ''record_type'') (\<lambda>record_type.
     rbind (netsuite_coerce_document (dict_get params ''document'' JNull)) (\<lambda>document.
     let path = ''/services/rest/record/v1'' @ ''/'' @ url_quote [] record_type in
     Inr (''POST'', path, Some document, [], [])))"

definition netsuite_build_record_delete :: "(rat \<Rightarrow> string) \<Rightarrow> jobj \<Rightarrow> (string \<times> string \<times> (jobj option) \<times> jobj \<times>
    jobj) result" where
  "netsuite_build_record_delete fr params =
     rbind (netsuite_required fr params ''record_type'') (\<lambda>record_type.
     rbind (netsuite_required fr params ''record_id'') (\<lambda>record_id.
     let path = ''/services/rest/record/v1'' @ ''/'' @ url_quote [] record_type @ ''/'' @ url_quote []
         record_id in
     Inr (''DELETE'', path, None, [], [])))"

definition netsuite_BUILDERS :: "(rat \<Rightarrow> string) \<Rightarrow> (string, jobj \<Rightarrow> (string \<times> string \<times> (jobj option) \<times> jobj \<times>
    jobj) result) dict" where
  "netsuite_BUILDERS fr =
     [(''suiteql_query'', netsuite_build_suiteql_query fr),
      (''record_get'', netsuite_build_record_get fr),
      (''record_create'', netsuite_build_record_create fr),
      (''record_delete'', netsuite_build_record_delete fr)]"

definition netsuite_build_request :: "(rat \<Rightarrow> string) \<Rightarrow> string \<Rightarrow> jobj \<Rightarrow> (string \<times> string \<times> (jobj option) \<times> jobj
    \<times> jobj) result" where
  "netsuite_build_request fr operation params =
     (case map_of (netsuite_BUILDERS fr) operation of
        None \<Rightarrow> raise ValueError (''NetSuite: unsupported operation '' @ repr_str operation)
      | Some builder \<Rightarrow> builder params)"

lemma netsuite_required_ok: "ensures (\<lambda>_. True) (netsuite_required fr params key)"
  unfolding netsuite_required_def
  by (rule ensures_rules | simp)+

lemma netsuite_coerce_positive_int_ok: "ensures (\<lambda>v. 1 \<le> v) (netsuite_coerce_positive_int raw field)"
  unfolding netsuite_coerce_positive_int_def
  by (rule ensures_rules | simp)+

lemma netsuite_coerce_non_negative_int_ok: "ensures (\<lambda>v. 0 \<le> v) (netsuite_coerce_non_negative_int raw field)"
  unfolding netsuite_coerce_non_negative_int_def
  by (rule ensures_rules | simp)+

lemma netsuite_build_suiteql_query_ok: "ensures (request_ok (Some 5)) (netsuite_build_suiteql_query fr params)"
  unfolding netsuite_build_suiteql_query_def
  by (rule netsuite_required_ok [THEN ensures_bind] netsuite_required_ok [THEN ensures_weaken] netsuite_coerce_positive_int_ok [THEN ensures_bind] netsuite_coerce_positive_int_ok [THEN ensures_weaken] netsuite_coerce_non_negative_int_ok [THEN ensures_bind] netsuite_coerce_non_negative_int_ok [THEN ensures_weaken] ensures_rules | simp add: request_ok_def METHODS_def)+

lemma netsuite_build_record_get_ok: "ensures (request_ok (Some 6)) (netsuite_build_record_get fr params)"
  unfolding netsuite_build_record_get_def
  by (rule netsuite_required_ok [THEN ensures_bind] netsuite_required_ok [THEN ensures_weaken] ensures_rules | simp add: request_ok_def METHODS_def)+

lemma netsuite_coerce_document_ok: "ensures (\<lambda>_. True) (netsuite_coerce_document raw)"
  unfolding netsuite_coerce_document_def
  by (rule ensures_rules | simp)+

lemma netsuite_build_record_create_ok: "ensures (request_ok (Some 5)) (netsuite_build_record_create fr params)"
  unfolding netsuite_build_record_create_def
  by (rule netsuite_required_ok [THEN ensures_bind] netsuite_required_ok [THEN ensures_weaken] netsuite_coerce_document_ok [THEN ensures_bind] netsuite_coerce_document_ok [THEN ensures_weaken] ensures_rules | simp add: request_ok_def METHODS_def)+

lemma netsuite_build_record_delete_ok: "ensures (request_ok (Some 6)) (netsuite_build_record_delete fr params)"
  unfolding netsuite_build_record_delete_def
  by (rule netsuite_required_ok [THEN ensures_bind] netsuite_required_ok [THEN ensures_weaken] ensures_rules | simp add: request_ok_def METHODS_def)+

definition netsuite_shape :: "(string, nat option) dict" where
  "netsuite_shape =
     [(''suiteql_query'', Some 5), (''record_get'', Some 6), (''record_create'', Some 5), (''record_delete'',
         Some 6)]"

interpretation netsuite: request_builder "netsuite_build_request fr" netsuite_shape for fr
  by (rule request_builder_table [OF netsuite_build_request_def])
    (simp_all del: One_nat_def add: netsuite_BUILDERS_def netsuite_shape_def
      netsuite_build_suiteql_query_ok netsuite_build_record_get_ok netsuite_build_record_create_ok
      netsuite_build_record_delete_ok)

end
