(* ===== verification/Builders_5.thy ===== *)
theory Builders_5
  imports Requests
begin

text \<open>
  Request builders of the integrations \<open>notion\<close>, \<open>okta\<close>, \<open>ollama\<close>, \<open>onedrive\<close>, \<open>pagerduty\<close>, \<open>pipedrive\<close>, \<open>plaid\<close>, \<open>pushover\<close>
  (\<open>nodes/integrations/<name>/operations.py\<close>), one definition per function of the module, prefixed
  with the name of the integration; constants of \<open>constants.py\<close> stand with their values, and an em dash
  in a message is a hyphen. \<open>fr\<close> prints a float. Each lemma \<open><function>_ok\<close> states what the function
  ensures: it raises nothing but \<open>ValueError\<close>, an identifier it returns has no slash, a number is
  within its bounds, a request has a known method and a path with a fixed number of slashes. The
  interpretation shows that the module keeps the interface of the nodes.
\<close>

section \<open>Notion\<close>

definition notion_required :: "(rat \<Rightarrow> string) \<Rightarrow> jobj \<Rightarrow> string \<Rightarrow> string result" where
  "notion_required fr params key =
     (let value = text_param fr params key in
     if value = [] then raise ValueError (''Notion: '' @ repr_str key @ '' is required'')
     else Inr value)"

definition notion_coerce_page_size :: "json \<Rightarrow> int result" where
  "notion_coerce_page_size raw =
     (if raw = JNull \<or> raw = JStr [] then Inr 100
     else (case int_of_json raw of
       None \<Rightarrow> raise ValueError ''Notion: 'page_size' must be a positive integer''
     | Some value \<Rightarrow>
       if value < 1 then raise ValueError ''Notion: 'page_size' must be >= 1''
       else Inr (min value 100)))"

definition notion_build_query_database :: "(rat \<Rightarrow> string) \<Rightarrow> jobj \<Rightarrow> (string \<times> string \<times> (jobj option)) result"
    where
  "notion_build_query_database fr params =
     rbind (notion_required fr params ''database_id'') (\<lambda>database_id.
     let body = ([] :: jobj) in
     let filter_payload = dict_get params ''filter'' JNull in
     let body = (if is_obj filter_payload then dict_set ''filter'' filter_payload body else body) in
     let sorts_payload = dict_get params ''sorts'' JNull in
     let body = (if is_arr sorts_payload then dict_set ''sorts'' (JArr (map JObj (map (\<lambda>s. obj_of s) (filter
         (\<lambda>s. is_obj s) (arr_of sorts_payload))))) body else body) in
     rbind (notion_coerce_page_size (dict_get params ''page_size'' JNull)) (\<lambda>page_size.
     let body = dict_set ''page_size'' (JInt page_size) body in
     let start_cursor = text_param fr params ''start_cursor'' in
     let body = (if start_cursor \<noteq> [] then dict_set ''start_cursor'' (JStr start_cursor) body else body) in
     Inr (''POST'', ''/v1/databases/'' @ database_id @ ''/query'', Some body)))"

definition notion_build_create_page :: "(rat \<Rightarrow> string) \<Rightarrow> jobj \<Rightarrow> (string \<times> string \<times> (jobj option)) result" where
  "notion_build_create_page fr params =
     (let parent_db = text_param fr params ''parent_database_id'' in
     let parent_page = text_param fr params ''parent_page_id'' in
     if parent_db = [] \<and> parent_page = [] then raise ValueError
         (''Notion: create_page requires 'parent_database_id' or 'parent_page_id'' @ [CHR 0x27])
     else let parent = (if parent_db \<noteq> [] then [(''database_id'', JStr parent_db)] else [(''page_id'', JStr
         parent_page)]) in
     let properties = dict_get params ''properties'' JNull in
     if \<not> is_obj properties then raise ValueError ''Notion: 'properties' must be a JSON object''
     else let body = [(''parent'', JObj parent), (''properties'', properties)] in
     let children = dict_get params ''children'' JNull in
     let body = (if is_arr children then dict_set ''children'' (JArr (map JObj (map (\<lambda>c. obj_of c) (filter (\<lambda>c.
         is_obj c) (arr_of children))))) body else body) in
     Inr (''POST'', ''/v1/pages'', Some body))"

definition notion_build_retrieve_page :: "(rat \<Rightarrow> string) \<Rightarrow> jobj \<Rightarrow> (string \<times> string \<times> (jobj option)) result"
    where
  "notion_build_retrieve_page fr params =
     rbind (notion_required fr params ''page_id'') (\<lambda>page_id.
     Inr (''GET'', ''/v1/pages/'' @ page_id, None))"

definition notion_BUILDERS :: "(rat \<Rightarrow> string) \<Rightarrow> (string, jobj \<Rightarrow> (string \<times> string \<times> (jobj option)) result) dict"
    where
  "notion_BUILDERS fr =
     [(''query_database'', notion_build_query_database fr),
      (''create_page'', notion_build_create_page fr),
      (''retrieve_page'', notion_build_retrieve_page fr)]"

definition notion_build_request :: "(rat \<Rightarrow> string) \<Rightarrow> string \<Rightarrow> jobj \<Rightarrow> (string \<times> string \<times> (jobj option)) result"
    where
  "notion_build_request fr operation params =
     (case map_of (notion_BUILDERS fr) operation of
        None \<Rightarrow> raise ValueError (''Notion: unsupported operation '' @ repr_str operation)
      | Some builder \<Rightarrow> builder params)"

lemma notion_required_ok: "ensures (\<lambda>_. True) (notion_required fr params key)"
  unfolding notion_required_def
  by (rule ensures_rules | simp)+

lemma notion_coerce_page_size_ok: "ensures (\<lambda>v. 1 \<le> v \<and> v \<le> 100) (notion_coerce_page_size raw)"
  unfolding notion_coerce_page_size_def
  by (rule ensures_rules | simp)+

lemma notion_build_query_database_ok: "ensures (request_ok None) (notion_build_query_database fr params)"
  unfolding notion_build_query_database_def
  by (rule notion_required_ok [THEN ensures_bind] notion_required_ok [THEN ensures_weaken] notion_coerce_page_size_ok [THEN ensures_bind] notion_coerce_page_size_ok [THEN ensures_weaken] ensures_rules | simp add: request_ok_def METHODS_def)+

lemma notion_build_create_page_ok: "ensures (request_ok (Some 2)) (notion_build_create_page fr params)"
  unfolding notion_build_create_page_def
  by (rule ensures_rules | simp add: request_ok_def METHODS_def)+

lemma notion_build_retrieve_page_ok: "ensures (request_ok None) (notion_build_retrieve_page fr params)"
  unfolding notion_build_retrieve_page_def
  by (rule notion_required_ok [THEN ensures_bind] notion_required_ok [THEN ensures_weaken] ensures_rules | simp add: request_ok_def METHODS_def)+

definition notion_shape :: "(string, nat option) dict" where
  "notion_shape =
     [(''query_database'', None), (''create_page'', Some 2), (''retrieve_page'', None)]"

interpretation notion: request_builder "notion_build_request fr" notion_shape for fr
  by (rule request_builder_table [OF notion_build_request_def])
    (simp_all del: One_nat_def add: notion_BUILDERS_def notion_shape_def
      notion_build_query_database_ok notion_build_create_page_ok notion_build_retrieve_page_ok)

section \<open>Okta\<close>

definition okta_coerce_limit :: "json \<Rightarrow> int result" where
  "okta_coerce_limit raw =
     (if is_blank raw then Inr 50
     else (case int_of_json raw of
       None \<Rightarrow> raise ValueError ''Okta: 'limit' must be a positive integer''
     | Some value \<Rightarrow>
       if value < 1 then raise ValueError ''Okta: 'limit' must be >= 1''
       else Inr (min value 200)))"

definition okta_build_list_users :: "(rat \<Rightarrow> string) \<Rightarrow> jobj \<Rightarrow> request_spec result" where
  "okta_build_list_users fr params =
     rbind (okta_coerce_limit (dict_get params ''limit'' JNull)) (\<lambda>r1.
     let query = [(''limit'', JInt r1)] in
     let search = text_param fr params ''search'' in
     let query = (if search \<noteq> [] then dict_set ''search'' (JStr search) query else query) in
     let filter_expr = text_param fr params ''filter'' in
     let query = (if filter_expr \<noteq> [] then dict_set ''filter'' (JStr filter_expr) query else query) in
     let after = text_param fr params ''after'' in
     let query = (if after \<noteq> [] then dict_set ''after'' (JStr after) query else query) in
     Inr (''GET'', ''/users'', None, query))"

definition okta_required :: "(rat \<Rightarrow> string) \<Rightarrow> jobj \<Rightarrow> string \<Rightarrow> string result" where
  "okta_required fr params key =
     (let value = text_param fr params key in
     if value = [] then raise ValueError (''Okta: '' @ repr_str key @ '' is required'')
     else Inr value)"

definition okta_build_get_user :: "(rat \<Rightarrow> string) \<Rightarrow> jobj \<Rightarrow> request_spec result" where
  "okta_build_get_user fr params =
     rbind (okta_required fr params ''user_id'') (\<lambda>user_id.
     Inr (''GET'', ''/users/'' @ url_quote [] user_id, None, []))"

definition okta_coerce_string_list :: "(rat \<Rightarrow> string) \<Rightarrow> json \<Rightarrow> string \<Rightarrow> string list result" where
  "okta_coerce_string_list fr raw field =
     (if raw = JNull \<or> raw = JStr [] then Inr []
     else if is_str raw then Inr (map (\<lambda>part. py_strip part) (filter (\<lambda>part. py_strip part \<noteq> []) (split_on CHR
         '','' (str_of raw))))
     else if is_arr raw then Inr (map (\<lambda>part. py_strip (py_str fr part)) (filter (\<lambda>part. py_strip (py_str fr
         part) \<noteq> []) (arr_of raw)))
     else raise ValueError (''Okta: '' @ repr_str field @ '' must be a string or list of strings''))"

definition okta_coerce_bool :: "(rat \<Rightarrow> string) \<Rightarrow> json \<Rightarrow> string result" where
  "okta_coerce_bool fr raw =
     (if is_bool raw then Inr (if py_bool raw then ''true'' else ''false'')
     else if is_blank raw then Inr ''true''
     else let text = py_lower (py_strip (py_str fr raw)) in
     if text \<in> set [''true'', ''1'', ''yes''] then Inr ''true''
     else if text \<in> set [''false'', ''0'', ''no''] then Inr ''false''
     else raise ValueError (''Okta: boolean flag must be true/false, got '' @ py_repr fr raw))"

definition okta_build_create_user :: "(rat \<Rightarrow> string) \<Rightarrow> jobj \<Rightarrow> request_spec result" where
  "okta_build_create_user fr params =
     (let profile = dict_get params ''profile'' JNull in
     if \<not> is_obj profile \<or> \<not> py_bool profile then raise ValueError
         ''Okta: 'profile' must be a non-empty JSON object''
     else let missing = filter (\<lambda>f. \<not> py_bool (dict_get (obj_of profile) f JNull)) [''firstName'',
         ''lastName'', ''email'', ''login''] in
     if missing \<noteq> [] then raise ValueError (''Okta: 'profile' is missing required field(s) '' @ py_repr fr
         (JArr (map JStr missing)))
     else let body = [(''profile'', JObj (obj_of profile))] in
     let password = text_param fr params ''password'' in
     let body = (if password \<noteq> [] then dict_set ''credentials'' (JObj [(''password'', JObj [(''value'', JStr
         password)])]) body else body) in
     rbind (okta_coerce_string_list fr (dict_get params ''group_ids'' JNull) ''group_ids'') (\<lambda>groups.
     let body = (if groups \<noteq> [] then dict_set ''groupIds'' (JArr (map JStr groups)) body else body) in
     rbind (okta_coerce_bool fr (dict_get params ''activate'' JNull)) (\<lambda>r2.
     let query = [(''activate'', JStr r2)] in
     Inr (''POST'', ''/users'', Some body, query))))"

definition okta_build_update_user :: "(rat \<Rightarrow> string) \<Rightarrow> jobj \<Rightarrow> request_spec result" where
  "okta_build_update_user fr params =
     rbind (okta_required fr params ''user_id'') (\<lambda>user_id.
     let profile = dict_get params ''profile'' JNull in
     if \<not> is_obj profile \<or> \<not> py_bool profile then raise ValueError
         ''Okta: 'profile' must be a non-empty JSON object''
     else let unknown = filter (\<lambda>k. k \<notin> set [''firstName'', ''lastName'', ''email'', ''secondEmail'',
         ''login'', ''mobilePhone'', ''displayName'', ''nickName'', ''title'', ''department'',
         ''organization'']) (map fst (obj_of profile)) in
     if unknown \<noteq> [] then raise ValueError (''Okta: unknown profile field(s) '' @ py_repr fr (JArr (map JStr
         unknown)))
     else let body = [(''profile'', JObj (obj_of profile))] in
     Inr (''POST'', ''/users/'' @ url_quote [] user_id, Some body, []))"

definition okta_build_deactivate_user :: "(rat \<Rightarrow> string) \<Rightarrow> jobj \<Rightarrow> request_spec result" where
  "okta_build_deactivate_user fr params =
     rbind (okta_required fr params ''user_id'') (\<lambda>user_id.
     let query = ([] :: jobj) in
     let send_email = dict_get params ''send_email'' JNull in
     rbind (if send_email \<noteq> JNull then (rbind (okta_coerce_bool fr send_email) (\<lambda>r2.
       Inr (dict_set ''sendEmail'' (JStr r2) query))) else Inr query) (\<lambda>query.
     let path = ''/users/'' @ url_quote [] user_id @ ''/lifecycle/deactivate'' in
     Inr (''POST'', path, None, query)))"

definition okta_build_list_groups :: "(rat \<Rightarrow> string) \<Rightarrow> jobj \<Rightarrow> request_spec result" where
  "okta_build_list_groups fr params =
     rbind (okta_coerce_limit (dict_get params ''limit'' JNull)) (\<lambda>r1.
     let query = [(''limit'', JInt r1)] in
     let q = text_param fr params ''q'' in
     let query = (if q \<noteq> [] then dict_set ''q'' (JStr q) query else query) in
     let filter_expr = text_param fr params ''filter'' in
     let query = (if filter_expr \<noteq> [] then dict_set ''filter'' (JStr filter_expr) query else query) in
     let after = text_param fr params ''after'' in
     let query = (if after \<noteq> [] then dict_set ''after'' (JStr after) query else query) in
     Inr (''GET'', ''/groups'', None, query))"

definition okta_BUILDERS :: "(rat \<Rightarrow> string) \<Rightarrow> (string, jobj \<Rightarrow> request_spec result) dict" where
  "okta_BUILDERS fr =
     [(''list_users'', okta_build_list_users fr),
      (''get_user'', okta_build_get_user fr),
      (''create_user'', okta_build_create_user fr),
      (''update_user'', okta_build_update_user fr),
      (''deactivate_user'', okta_build_deactivate_user fr),
      (''list_groups'', okta_build_list_groups fr)]"

definition okta_build_request :: "(rat \<Rightarrow> string) \<Rightarrow> string \<Rightarrow> jobj \<Rightarrow> request_spec result" where
  "okta_build_request fr operation params =
     (case map_of (okta_BUILDERS fr) operation of
        None \<Rightarrow> raise ValueError (''Okta: unsupported operation '' @ repr_str operation)
      | Some builder \<Rightarrow> builder params)"

lemma okta_coerce_limit_ok: "ensures (\<lambda>v. 1 \<le> v \<and> v \<le> 200) (okta_coerce_limit raw)"
  unfolding okta_coerce_limit_def
  by (rule ensures_rules | simp)+

lemma okta_build_list_users_ok: "ensures (request_ok (Some 1)) (okta_build_list_users fr params)"
  unfolding okta_build_list_users_def
  by (rule okta_coerce_limit_ok [THEN ensures_bind] okta_coerce_limit_ok [THEN ensures_weaken] ensures_rules | simp add: request_ok_def METHODS_def)+

lemma okta_required_ok: "ensures (\<lambda>_. True) (okta_required fr params key)"
  unfolding okta_required_def
  by (rule ensures_rules | simp)+

lemma okta_build_get_user_ok: "ensures (request_ok (Some 2)) (okta_build_get_user fr params)"
  unfolding okta_build_get_user_def
  by (rule okta_required_ok [THEN ensures_bind] okta_required_ok [THEN ensures_weaken] ensures_rules | simp add: request_ok_def METHODS_def)+

lemma okta_coerce_string_list_ok: "ensures (\<lambda>_. True) (okta_coerce_string_list fr raw field)"
  unfolding okta_coerce_string_list_def
  by (rule ensures_rules | simp)+

lemma okta_coerce_bool_ok: "ensures (\<lambda>s. slashes s = 0) (okta_coerce_bool fr raw)"
  unfolding okta_coerce_bool_def
  by (rule ensures_rules | simp)+

lemma okta_build_create_user_ok: "ensures (request_ok (Some 1)) (okta_build_create_user fr params)"
  unfolding okta_build_create_user_def
  by (rule okta_coerce_string_list_ok [THEN ensures_bind] okta_coerce_string_list_ok [THEN ensures_weaken] okta_coerce_bool_ok [THEN ensures_bind] okta_coerce_bool_ok [THEN ensures_weaken] ensures_rules | simp add: request_ok_def METHODS_def)+

lemma okta_build_update_user_ok: "ensures (request_ok (Some 2)) (okta_build_update_user fr params)"
  unfolding okta_build_update_user_def
  by (rule okta_required_ok [THEN ensures_bind] okta_required_ok [THEN ensures_weaken] ensures_rules | simp add: request_ok_def METHODS_def)+

lemma okta_build_deactivate_user_ok: "ensures (request_ok (Some 4)) (okta_build_deactivate_user fr params)"
  unfolding okta_build_deactivate_user_def
  by (rule okta_required_ok [THEN ensures_bind] okta_required_ok [THEN ensures_weaken] okta_coerce_bool_ok [THEN ensures_bind] okta_coerce_bool_ok [THEN ensures_weaken] ensures_rules | simp add: request_ok_def METHODS_def)+

lemma okta_build_list_groups_ok: "ensures (request_ok (Some 1)) (okta_build_list_groups fr params)"
  unfolding okta_build_list_groups_def
  by (rule okta_coerce_limit_ok [THEN ensures_bind] okta_coerce_limit_ok [THEN ensures_weaken] ensures_rules | simp add: request_ok_def METHODS_def)+

definition okta_shape :: "(string, nat option) dict" where
  "okta_shape =
     [(''list_users'', Some 1), (''get_user'', Some 2), (''create_user'', Some 1), (''update_user'', Some 2),
         (''deactivate_user'', Some 4), (''list_groups'', Some 1)]"

interpretation okta: request_builder "okta_build_request fr" okta_shape for fr
  by (rule request_builder_table [OF okta_build_request_def])
    (simp_all del: One_nat_def add: okta_BUILDERS_def okta_shape_def
      okta_build_list_users_ok okta_build_get_user_ok okta_build_create_user_ok
      okta_build_update_user_ok okta_build_deactivate_user_ok okta_build_list_groups_ok)

section \<open>Ollama\<close>

definition ollama_build_generate :: "(rat \<Rightarrow> string) \<Rightarrow> jobj \<Rightarrow> request_spec result" where
  "ollama_build_generate fr params =
     (let model = py_strip (py_str fr (param_or params ''model'' (JStr ''llama3.2''))) in
     let prompt = dict_get params ''prompt'' JNull in
     if prompt = JNull \<or> (is_str prompt \<and> py_strip (str_of prompt) = []) then raise ValueError
         ''Ollama: 'prompt' is required for generate''
     else let body = [(''model'', JStr model), (''prompt'', JStr (py_str fr prompt)), (''stream'', JBool
         False)] in
     let system = text_param fr params ''system'' in
     let body = (if system \<noteq> [] then dict_set ''system'' (JStr system) body else body) in
     let fmt = text_param fr params ''format'' in
     let body = (if fmt \<noteq> [] then dict_set ''format'' (JStr fmt) body else body) in
     let options = dict_get params ''options'' JNull in
     let body = (if is_obj options \<and> py_bool options then dict_set ''options'' options body else body) in
     Inr (''POST'', ''/api/generate'', Some body, []))"

definition ollama_coerce_messages :: "json \<Rightarrow> jobj list result" where
  "ollama_coerce_messages raw =
     (if raw = JNull \<or> raw = JStr [] then raise ValueError ''Ollama: 'messages' is required for chat''
     else if \<not> is_arr raw \<or> \<not> py_bool raw then raise ValueError
         ''Ollama: 'messages' must be a non-empty JSON array''
     else let out = ([] :: jobj list) in
     rbind (rfold (\<lambda>out entry.
         if \<not> is_obj entry then raise ValueError ''Ollama: each message must be a JSON object''
         else Inr (out @ [obj_of entry])) out (arr_of raw)) (\<lambda>out.
     Inr out))"

definition ollama_build_chat :: "(rat \<Rightarrow> string) \<Rightarrow> jobj \<Rightarrow> request_spec result" where
  "ollama_build_chat fr params =
     (let model = py_strip (py_str fr (param_or params ''model'' (JStr ''llama3.2''))) in
     rbind (ollama_coerce_messages (dict_get params ''messages'' JNull)) (\<lambda>messages.
     let body = [(''model'', JStr model), (''messages'', JArr (map JObj messages)), (''stream'', JBool False)]
         in
     let fmt = text_param fr params ''format'' in
     let body = (if fmt \<noteq> [] then dict_set ''format'' (JStr fmt) body else body) in
     let options = dict_get params ''options'' JNull in
     let body = (if is_obj options \<and> py_bool options then dict_set ''options'' options body else body) in
     Inr (''POST'', ''/api/chat'', Some body, [])))"

definition ollama_build_embeddings :: "(rat \<Rightarrow> string) \<Rightarrow> jobj \<Rightarrow> request_spec result" where
  "ollama_build_embeddings fr params =
     (let model = py_strip (py_str fr (param_or params ''model'' (JStr ''llama3.2''))) in
     let prompt = dict_get params ''prompt'' JNull in
     if prompt = JNull \<or> (is_str prompt \<and> py_strip (str_of prompt) = []) then raise ValueError
         ''Ollama: 'prompt' is required for embeddings''
     else let body = [(''model'', JStr model), (''prompt'', JStr (py_str fr prompt))] in
     let options = dict_get params ''options'' JNull in
     let body = (if is_obj options \<and> py_bool options then dict_set ''options'' options body else body) in
     Inr (''POST'', ''/api/embeddings'', Some body, []))"

definition ollama_build_list_models :: "jobj \<Rightarrow> request_spec" where
  "ollama_build_list_models unused =
     (''GET'', ''/api/tags'', None, [])"

definition ollama_BUILDERS :: "(rat \<Rightarrow> string) \<Rightarrow> (string, jobj \<Rightarrow> request_spec result) dict" where
  "ollama_BUILDERS fr =
     [(''generate'', ollama_build_generate fr),
      (''chat'', ollama_build_chat fr),
      (''embeddings'', ollama_build_embeddings fr),
      (''list_models'', \<lambda>params. Inr (ollama_build_list_models params))]"

definition ollama_build_request :: "(rat \<Rightarrow> string) \<Rightarrow> string \<Rightarrow> jobj \<Rightarrow> request_spec result" where
  "ollama_build_request fr operation params =
     (case map_of (ollama_BUILDERS fr) operation of
        None \<Rightarrow> raise ValueError (''Ollama: unsupported operation '' @ repr_str operation)
      | Some builder \<Rightarrow> builder params)"

lemma ollama_build_generate_ok: "ensures (request_ok (Some 2)) (ollama_build_generate fr params)"
  unfolding ollama_build_generate_def
  by (rule ensures_rules | simp add: request_ok_def METHODS_def)+

lemma ollama_coerce_messages_ok: "ensures (\<lambda>_. True) (ollama_coerce_messages raw)"
  unfolding ollama_coerce_messages_def
  by (rule ensures_rules | simp)+

lemma ollama_build_chat_ok: "ensures (request_ok (Some 2)) (ollama_build_chat fr params)"
  unfolding ollama_build_chat_def
  by (rule ollama_coerce_messages_ok [THEN ensures_bind] ollama_coerce_messages_ok [THEN ensures_weaken] ensures_rules | simp add: request_ok_def METHODS_def)+

lemma ollama_build_embeddings_ok: "ensures (request_ok (Some 2)) (ollama_build_embeddings fr params)"
  unfolding ollama_build_embeddings_def
  by (rule ensures_rules | simp add: request_ok_def METHODS_def)+

lemma ollama_build_list_models_ok: "ensures (request_ok (Some 2)) (Inr (ollama_build_list_models unused))"
  by (rule ensures_Inr) (simp add: ollama_build_list_models_def request_ok_def METHODS_def Let_def)

definition ollama_shape :: "(string, nat option) dict" where
  "ollama_shape =
     [(''generate'', Some 2), (''chat'', Some 2), (''embeddings'', Some 2), (''list_models'', Some 2)]"

interpretation ollama: request_builder "ollama_build_request fr" ollama_shape for fr
  by (rule request_builder_table [OF ollama_build_request_def])
    (simp_all del: One_nat_def add: ollama_BUILDERS_def ollama_shape_def
      ollama_build_generate_ok ollama_build_chat_ok ollama_build_embeddings_ok
      ollama_build_list_models_ok)

section \<open>Onedrive\<close>

definition onedrive_encode_path :: "string \<Rightarrow> string" where
  "onedrive_encode_path path =
     join ''/'' (map (\<lambda>segment. url_quote [] segment) (split_on CHR ''/'' path))"

definition onedrive_build_list_children :: "(rat \<Rightarrow> string) \<Rightarrow> jobj \<Rightarrow> request_spec" where
  "onedrive_build_list_children fr params =
     (let folder = rstrip_chars (\<lambda>c. c \<in> set ''/'') (lstrip_chars (\<lambda>c. c \<in> set ''/'') (py_str fr (param_or
         params ''folder_path'' (JStr [])))) in
     let path = (if folder \<noteq> [] then ''/me/drive'' @ ''/root:/'' @ onedrive_encode_path folder @ '':/children''
         else ''/me/drive/root/children'') in
     let query = ([] :: jobj) in
     let query = foldl (\<lambda>query key.
         let value = dict_get params key JNull in
         (if \<not> is_blank value then dict_set key (JStr (py_str fr value)) query else query)) query [''$top'',
             ''$skip'', ''$orderby'', ''$select'', ''$filter''] in
     (''GET'', path, None, query))"

definition onedrive_required :: "(rat \<Rightarrow> string) \<Rightarrow> jobj \<Rightarrow> string \<Rightarrow> string result" where
  "onedrive_required fr params key =
     (let value = text_param fr params key in
     if value = [] then raise ValueError (''OneDrive: '' @ repr_str key @ '' is required'')
     else Inr value)"

definition onedrive_item_path :: "(rat \<Rightarrow> string) \<Rightarrow> jobj \<Rightarrow> string result" where
  "onedrive_item_path fr params =
     (let item_id = text_param fr params ''item_id'' in
     if item_id \<noteq> [] then Inr (''/me/drive'' @ ''/items/'' @ url_quote [] item_id)
     else rbind (onedrive_required fr params ''file_path'') (\<lambda>r1.
     let file_path = lstrip_chars (\<lambda>c. c \<in> set ''/'') r1 in
     Inr (''/me/drive'' @ ''/root:/'' @ onedrive_encode_path file_path @ '':'')))"

definition onedrive_build_get_item :: "(rat \<Rightarrow> string) \<Rightarrow> jobj \<Rightarrow> request_spec result" where
  "onedrive_build_get_item fr params =
     rbind (onedrive_item_path fr params) (\<lambda>r1.
     Inr (''GET'', r1, None, []))"

definition onedrive_build_upload_small :: "(rat \<Rightarrow> string) \<Rightarrow> jobj \<Rightarrow> request_spec result" where
  "onedrive_build_upload_small fr params =
     rbind (onedrive_required fr params ''file_path'') (\<lambda>r1.
     let file_path = lstrip_chars (\<lambda>c. c \<in> set ''/'') r1 in
     let path = ''/me/drive'' @ ''/root:/'' @ onedrive_encode_path file_path @ '':/content'' in
     let conflict = text_param fr params ''conflict_behavior'' in
     let query = ([] :: jobj) in
     let query = (if conflict \<noteq> [] then dict_set ''@microsoft.graph.conflictBehavior'' (JStr conflict) query
         else query) in
     Inr (''PUT'', path, None, query))"

definition onedrive_build_upload_large :: "(rat \<Rightarrow> string) \<Rightarrow> jobj \<Rightarrow> request_spec result" where
  "onedrive_build_upload_large fr params =
     rbind (onedrive_required fr params ''file_path'') (\<lambda>r1.
     let file_path = lstrip_chars (\<lambda>c. c \<in> set ''/'') r1 in
     let path = ''/me/drive'' @ ''/root:/'' @ onedrive_encode_path file_path @ '':/createUploadSession'' in
     let body = [(''item'', JObj [(''@microsoft.graph.conflictBehavior'', JStr (py_str fr (param_or params
         ''conflict_behavior'' (JStr ''replace''))))])] in
     Inr (''POST'', path, Some body, []))"

definition onedrive_build_download_item :: "(rat \<Rightarrow> string) \<Rightarrow> jobj \<Rightarrow> request_spec result" where
  "onedrive_build_download_item fr params =
     rbind (onedrive_item_path fr params) (\<lambda>r1.
     Inr (''GET'', r1 @ ''/content'', None, []))"

definition onedrive_build_delete_item :: "(rat \<Rightarrow> string) \<Rightarrow> jobj \<Rightarrow> request_spec result" where
  "onedrive_build_delete_item fr params =
     rbind (onedrive_item_path fr params) (\<lambda>r1.
     Inr (''DELETE'', r1, None, []))"

definition onedrive_BUILDERS :: "(rat \<Rightarrow> string) \<Rightarrow> (string, jobj \<Rightarrow> request_spec result) dict" where
  "onedrive_BUILDERS fr =
     [(''list_children'', \<lambda>params. Inr (onedrive_build_list_children fr params)),
      (''get_item'', onedrive_build_get_item fr),
      (''upload_small'', onedrive_build_upload_small fr),
      (''upload_large'', onedrive_build_upload_large fr),
      (''download_item'', onedrive_build_download_item fr),
      (''delete_item'', onedrive_build_delete_item fr)]"

definition onedrive_build_request :: "(rat \<Rightarrow> string) \<Rightarrow> string \<Rightarrow> jobj \<Rightarrow> request_spec result" where
  "onedrive_build_request fr operation params =
     (case map_of (onedrive_BUILDERS fr) operation of
        None \<Rightarrow> raise ValueError (''OneDrive: unsupported operation '' @ repr_str operation)
      | Some builder \<Rightarrow> builder params)"

lemma onedrive_build_list_children_ok: "ensures (request_ok None) (Inr (onedrive_build_list_children fr params))"
  by (rule ensures_Inr) (simp add: onedrive_build_list_children_def request_ok_def METHODS_def Let_def)

lemma onedrive_required_ok: "ensures (\<lambda>_. True) (onedrive_required fr params key)"
  unfolding onedrive_required_def
  by (rule ensures_rules | simp)+

lemma onedrive_item_path_ok: "ensures (\<lambda>_. True) (onedrive_item_path fr params)"
  unfolding onedrive_item_path_def
  by (rule onedrive_required_ok [THEN ensures_bind] onedrive_required_ok [THEN ensures_weaken] ensures_rules | simp)+

lemma onedrive_build_get_item_ok: "ensures (request_ok None) (onedrive_build_get_item fr params)"
  unfolding onedrive_build_get_item_def
  by (rule onedrive_item_path_ok [THEN ensures_bind] onedrive_item_path_ok [THEN ensures_weaken] ensures_rules | simp add: request_ok_def METHODS_def)+

lemma onedrive_build_upload_small_ok: "ensures (request_ok None) (onedrive_build_upload_small fr params)"
  unfolding onedrive_build_upload_small_def
  by (rule onedrive_required_ok [THEN ensures_bind] onedrive_required_ok [THEN ensures_weaken] ensures_rules | simp add: request_ok_def METHODS_def)+

lemma onedrive_build_upload_large_ok: "ensures (request_ok None) (onedrive_build_upload_large fr params)"
  unfolding onedrive_build_upload_large_def
  by (rule onedrive_required_ok [THEN ensures_bind] onedrive_required_ok [THEN ensures_weaken] ensures_rules | simp add: request_ok_def METHODS_def)+

lemma onedrive_build_download_item_ok: "ensures (request_ok None) (onedrive_build_download_item fr params)"
  unfolding onedrive_build_download_item_def
  by (rule onedrive_item_path_ok [THEN ensures_bind] onedrive_item_path_ok [THEN ensures_weaken] ensures_rules | simp add: request_ok_def METHODS_def)+

lemma onedrive_build_delete_item_ok: "ensures (request_ok None) (onedrive_build_delete_item fr params)"
  unfolding onedrive_build_delete_item_def
  by (rule onedrive_item_path_ok [THEN ensures_bind] onedrive_item_path_ok [THEN ensures_weaken] ensures_rules | simp add: request_ok_def METHODS_def)+

definition onedrive_shape :: "(string, nat option) dict" where
  "onedrive_shape =
     [(''list_children'', None), (''get_item'', None), (''upload_small'', None), (''upload_large'', None),
         (''download_item'', None), (''delete_item'', None)]"

interpretation onedrive: request_builder "onedrive_build_request fr" onedrive_shape for fr
  by (rule request_builder_table [OF onedrive_build_request_def])
    (simp_all del: One_nat_def add: onedrive_BUILDERS_def onedrive_shape_def
      onedrive_build_list_children_ok onedrive_build_get_item_ok onedrive_build_upload_small_ok
      onedrive_build_upload_large_ok onedrive_build_download_item_ok onedrive_build_delete_item_ok)

section \<open>Pagerduty\<close>

definition pagerduty_coerce_string_list :: "(rat \<Rightarrow> string) \<Rightarrow> json \<Rightarrow> string \<Rightarrow> string list result" where
  "pagerduty_coerce_string_list fr raw field =
     (if raw = JNull \<or> raw = JStr [] then Inr []
     else if is_str raw then Inr (map (\<lambda>part. py_strip part) (filter (\<lambda>part. py_strip part \<noteq> []) (split_on CHR
         '','' (str_of raw))))
     else if is_arr raw then Inr (map (\<lambda>part. py_strip (py_str fr part)) (filter (\<lambda>part. py_strip (py_str fr
         part) \<noteq> []) (arr_of raw)))
     else raise ValueError (''PagerDuty: '' @ repr_str field @ '' must be a string or list of strings''))"

definition pagerduty_coerce_limit :: "json \<Rightarrow> int result" where
  "pagerduty_coerce_limit raw =
     (if is_blank raw then Inr 25
     else (case int_of_json raw of
       None \<Rightarrow> raise ValueError ''PagerDuty: 'limit' must be a positive integer''
     | Some value \<Rightarrow>
       if value < 1 then raise ValueError ''PagerDuty: 'limit' must be >= 1''
       else Inr (min value 100)))"

definition pagerduty_build_list_incidents :: "(rat \<Rightarrow> string) \<Rightarrow> jobj \<Rightarrow> request_spec result" where
  "pagerduty_build_list_incidents fr params =
     rbind (pagerduty_coerce_limit (dict_get params ''limit'' JNull)) (\<lambda>r1.
     let query = [(''limit'', JInt r1)] in
     let offset = dict_get params ''offset'' JNull in
     rbind (if offset \<noteq> JNull \<and> offset \<noteq> JStr [] then ((case int_of_json offset of
         None \<Rightarrow> raise ValueError ''PagerDuty: 'offset' must be an integer''
       | Some offset_value \<Rightarrow>
         if offset_value < 0 then raise ValueError ''PagerDuty: 'offset' must be >= 0''
         else Inr (dict_set ''offset'' (JInt offset_value) query))) else Inr query) (\<lambda>query.
     rbind (pagerduty_coerce_string_list fr (dict_get params ''statuses'' JNull) ''statuses'') (\<lambda>statuses.
     rbind (if statuses \<noteq> [] then (rbind (rfold (\<lambda>_ status.
           if status \<notin> set [''triggered'', ''acknowledged'', ''resolved''] then raise ValueError
               (''PagerDuty: invalid status '' @ repr_str status)
           else Inr ()) () statuses) (\<lambda>_.
       Inr (dict_set ''statuses[]'' (JArr (map JStr statuses)) query))) else Inr query) (\<lambda>query.
     rbind (pagerduty_coerce_string_list fr (dict_get params ''urgencies'' JNull) ''urgencies'') (\<lambda>urgencies.
     rbind (if urgencies \<noteq> [] then (rbind (rfold (\<lambda>_ urgency.
           if urgency \<notin> set [''high'', ''low''] then raise ValueError (''PagerDuty: invalid urgency '' @
               repr_str urgency)
           else Inr ()) () urgencies) (\<lambda>_.
       Inr (dict_set ''urgencies[]'' (JArr (map JStr urgencies)) query))) else Inr query) (\<lambda>query.
     rbind (pagerduty_coerce_string_list fr (dict_get params ''service_ids'' JNull) ''service_ids'')
         (\<lambda>service_ids.
     let query = (if service_ids \<noteq> [] then dict_set ''service_ids[]'' (JArr (map JStr service_ids)) query else
         query) in
     Inr (''GET'', ''/incidents'', None, query))))))))"

definition pagerduty_required :: "(rat \<Rightarrow> string) \<Rightarrow> jobj \<Rightarrow> string \<Rightarrow> string result" where
  "pagerduty_required fr params key =
     (let value = text_param fr params key in
     if value = [] then raise ValueError (''PagerDuty: '' @ repr_str key @ '' is required'')
     else Inr value)"

definition pagerduty_build_get_incident :: "(rat \<Rightarrow> string) \<Rightarrow> jobj \<Rightarrow> request_spec result" where
  "pagerduty_build_get_incident fr params =
     rbind (pagerduty_required fr params ''incident_id'') (\<lambda>incident_id.
     Inr (''GET'', ''/incidents/'' @ url_quote [] incident_id, None, []))"

definition pagerduty_build_create_incident :: "(rat \<Rightarrow> string) \<Rightarrow> jobj \<Rightarrow> request_spec result" where
  "pagerduty_build_create_incident fr params =
     rbind (pagerduty_required fr params ''title'') (\<lambda>title.
     rbind (pagerduty_required fr params ''service_id'') (\<lambda>service_id.
     let urgency = py_lower (text_param fr params ''urgency'') in
     let body_text = text_param fr params ''body'' in
     let incident = [(''type'', JStr ''incident''), (''title'', JStr title), (''service'', JObj [(''id'', JStr
         service_id), (''type'', JStr ''service_reference'')])] in
     rbind (if urgency \<noteq> [] then (if urgency \<notin> set [''high'', ''low''] then raise ValueError
         (''PagerDuty: invalid urgency '' @ repr_str urgency)
       else Inr (dict_set ''urgency'' (JStr urgency) incident)) else Inr incident) (\<lambda>incident.
     let incident = (if body_text \<noteq> [] then dict_set ''body'' (JObj [(''type'', JStr ''incident_body''),
         (''details'', JStr body_text)]) incident else incident) in
     Inr (''POST'', ''/incidents'', Some [(''incident'', JObj incident)], []))))"

definition pagerduty_build_update_incident :: "(rat \<Rightarrow> string) \<Rightarrow> jobj \<Rightarrow> request_spec result" where
  "pagerduty_build_update_incident fr params =
     rbind (pagerduty_required fr params ''incident_id'') (\<lambda>incident_id.
     let updates = dict_get params ''fields'' JNull in
     if \<not> is_obj updates \<or> \<not> py_bool updates then raise ValueError
         ''PagerDuty: 'fields' must be a non-empty JSON object''
     else rbind (rfold (\<lambda>_ key.
         if key \<notin> set [''status'', ''priority'', ''resolution'', ''escalation_level'', ''assignments''] then
             raise ValueError (''PagerDuty: unknown incident field '' @ repr_str key)
         else Inr ()) () (map fst (obj_of updates))) (\<lambda>_.
     let status = dict_get (obj_of updates) ''status'' JNull in
     if is_str status \<and> (str_of status) \<notin> set [''triggered'', ''acknowledged'', ''resolved''] then raise
         ValueError (''PagerDuty: invalid status '' @ py_repr fr status)
     else let incident_body = dict_merge [(''type'', JStr ''incident_reference'')] (obj_of updates) in
     let path = ''/incidents/'' @ url_quote [] incident_id in
     Inr (''PUT'', path, Some [(''incident'', JObj incident_body)], [])))"

definition pagerduty_build_add_note :: "(rat \<Rightarrow> string) \<Rightarrow> jobj \<Rightarrow> request_spec result" where
  "pagerduty_build_add_note fr params =
     rbind (pagerduty_required fr params ''incident_id'') (\<lambda>incident_id.
     let content = py_str fr (param_or params ''content'' (JStr [])) in
     if py_strip content = [] then raise ValueError ''PagerDuty: 'content' is required for add_note''
     else let path = ''/incidents/'' @ url_quote [] incident_id @ ''/notes'' in
     Inr (''POST'', path, Some [(''note'', JObj [(''content'', JStr content)])], []))"

definition pagerduty_BUILDERS :: "(rat \<Rightarrow> string) \<Rightarrow> (string, jobj \<Rightarrow> request_spec result) dict" where
  "pagerduty_BUILDERS fr =
     [(''list_incidents'', pagerduty_build_list_incidents fr),
      (''get_incident'', pagerduty_build_get_incident fr),
      (''create_incident'', pagerduty_build_create_incident fr),
      (''update_incident'', pagerduty_build_update_incident fr),
      (''add_note'', pagerduty_build_add_note fr)]"

definition pagerduty_build_request :: "(rat \<Rightarrow> string) \<Rightarrow> string \<Rightarrow> jobj \<Rightarrow> request_spec result" where
  "pagerduty_build_request fr operation params =
     (case map_of (pagerduty_BUILDERS fr) operation of
        None \<Rightarrow> raise ValueError (''PagerDuty: unsupported operation '' @ repr_str operation)
      | Some builder \<Rightarrow> builder params)"

lemma pagerduty_coerce_string_list_ok: "ensures (\<lambda>_. True) (pagerduty_coerce_string_list fr raw field)"
  unfolding pagerduty_coerce_string_list_def
  by (rule ensures_rules | simp)+

lemma pagerduty_coerce_limit_ok: "ensures (\<lambda>v. 1 \<le> v \<and> v \<le> 100) (pagerduty_coerce_limit raw)"
  unfolding pagerduty_coerce_limit_def
  by (rule ensures_rules | simp)+

lemma pagerduty_build_list_incidents_ok: "ensures (request_ok (Some 1)) (pagerduty_build_list_incidents fr params)"
  unfolding pagerduty_build_list_incidents_def
  by (rule pagerduty_coerce_string_list_ok [THEN ensures_bind] pagerduty_coerce_string_list_ok [THEN ensures_weaken] pagerduty_coerce_limit_ok [THEN ensures_bind] pagerduty_coerce_limit_ok [THEN ensures_weaken] ensures_rules | simp add: request_ok_def METHODS_def)+

lemma pagerduty_required_ok: "ensures (\<lambda>_. True) (pagerduty_required fr params key)"
  unfolding pagerduty_required_def
  by (rule ensures_rules | simp)+

lemma pagerduty_build_get_incident_ok: "ensures (request_ok (Some 2)) (pagerduty_build_get_incident fr params)"
  unfolding pagerduty_build_get_incident_def
  by (rule pagerduty_required_ok [THEN ensures_bind] pagerduty_required_ok [THEN ensures_weaken] ensures_rules | simp add: request_ok_def METHODS_def)+

lemma pagerduty_build_create_incident_ok: "ensures (request_ok (Some 1)) (pagerduty_build_create_incident fr params)"
  unfolding pagerduty_build_create_incident_def
  by (rule pagerduty_required_ok [THEN ensures_bind] pagerduty_required_ok [THEN ensures_weaken] ensures_rules | simp add: request_ok_def METHODS_def)+

lemma pagerduty_build_update_incident_ok: "ensures (request_ok (Some 2)) (pagerduty_build_update_incident fr params)"
  unfolding pagerduty_build_update_incident_def
  by (rule pagerduty_required_ok [THEN ensures_bind] pagerduty_required_ok [THEN ensures_weaken] ensures_rules | simp add: request_ok_def METHODS_def)+

lemma pagerduty_build_add_note_ok: "ensures (request_ok (Some 3)) (pagerduty_build_add_note fr params)"
  unfolding pagerduty_build_add_note_def
  by (rule pagerduty_required_ok [THEN ensures_bind] pagerduty_required_ok [THEN ensures_weaken] ensures_rules | simp add: request_ok_def METHODS_def)+

definition pagerduty_shape :: "(string, nat option) dict" where
  "pagerduty_shape =
     [(''list_incidents'', Some 1), (''get_incident'', Some 2), (''create_incident'', Some 1),
         (''update_incident'', Some 2), (''add_note'', Some 3)]"

interpretation pagerduty: request_builder "pagerduty_build_request fr" pagerduty_shape for fr
  by (rule request_builder_table [OF pagerduty_build_request_def])
    (simp_all del: One_nat_def add: pagerduty_BUILDERS_def pagerduty_shape_def
      pagerduty_build_list_incidents_ok pagerduty_build_get_incident_ok pagerduty_build_create_incident_ok
      pagerduty_build_update_incident_ok pagerduty_build_add_note_ok)

section \<open>Pipedrive\<close>

definition pipedrive_coerce_limit :: "json \<Rightarrow> int result" where
  "pipedrive_coerce_limit raw =
     (if is_blank raw then Inr 100
     else (case int_of_json raw of
       None \<Rightarrow> raise ValueError ''Pipedrive: 'limit' must be a positive integer''
     | Some value \<Rightarrow>
       if value < 1 then raise ValueError ''Pipedrive: 'limit' must be >= 1''
       else Inr (min value 500)))"

definition pipedrive_coerce_int :: "json \<Rightarrow> string \<Rightarrow> int result" where
  "pipedrive_coerce_int raw field =
     (case int_of_json raw of
       None \<Rightarrow> raise ValueError (''Pipedrive: '' @ repr_str field @ '' must be an integer'')
     | Some number \<Rightarrow>
       Inr number)"

definition pipedrive_build_list_deals :: "(rat \<Rightarrow> string) \<Rightarrow> jobj \<Rightarrow> request_spec result" where
  "pipedrive_build_list_deals fr params =
     rbind (pipedrive_coerce_limit (dict_get params ''limit'' JNull)) (\<lambda>r1.
     let query = [(''limit'', JInt r1)] in
     let start = dict_get params ''start'' JNull in
     rbind (if start \<noteq> JNull \<and> start \<noteq> JStr [] then ((case int_of_json start of
         None \<Rightarrow> raise ValueError ''Pipedrive: 'start' must be an integer''
       | Some start_value \<Rightarrow>
         if start_value < 0 then raise ValueError ''Pipedrive: 'start' must be >= 0''
         else Inr (dict_set ''start'' (JInt start_value) query))) else Inr query) (\<lambda>query.
     let status = py_lower (text_param fr params ''status'') in
     rbind (if status \<noteq> [] then (if status \<notin> set [''open'', ''won'', ''lost'', ''deleted'',
         ''all_not_deleted''] then raise ValueError (''Pipedrive: invalid deal status '' @ repr_str status)
       else Inr (dict_set ''status'' (JStr status) query)) else Inr query) (\<lambda>query.
     let owner_id = dict_get params ''owner_id'' JNull in
     rbind (if \<not> is_blank owner_id then (let query = dict_set ''owned_by_you'' (JInt 0) query in
       rbind (pipedrive_coerce_int owner_id ''owner_id'') (\<lambda>r2.
       Inr (dict_set ''user_id'' (JInt r2) query))) else Inr query) (\<lambda>query.
     Inr (''GET'', ''/deals'', None, query)))))"

definition pipedrive_required :: "(rat \<Rightarrow> string) \<Rightarrow> jobj \<Rightarrow> string \<Rightarrow> string result" where
  "pipedrive_required fr params key =
     (let value = text_param fr params key in
     if value = [] then raise ValueError (''Pipedrive: '' @ repr_str key @ '' is required'')
     else Inr value)"

definition pipedrive_build_get_deal :: "(rat \<Rightarrow> string) \<Rightarrow> jobj \<Rightarrow> request_spec result" where
  "pipedrive_build_get_deal fr params =
     rbind (pipedrive_required fr params ''deal_id'') (\<lambda>r1.
     rbind (pipedrive_coerce_int (JStr r1) ''deal_id'') (\<lambda>deal_id.
     Inr (''GET'', ''/deals/'' @ url_quote [] (show_int deal_id), None, [])))"

definition pipedrive_build_create_deal :: "(rat \<Rightarrow> string) \<Rightarrow> jobj \<Rightarrow> request_spec result" where
  "pipedrive_build_create_deal fr params =
     rbind (pipedrive_required fr params ''title'') (\<lambda>title.
     let body = [(''title'', JStr title)] in
     let value = dict_get params ''value'' JNull in
     let body = (if \<not> is_blank value then dict_set ''value'' value body else body) in
     let currency = text_param fr params ''currency'' in
     let body = (if currency \<noteq> [] then dict_set ''currency'' (JStr currency) body else body) in
     let status = py_lower (text_param fr params ''status'') in
     rbind (if status \<noteq> [] then (if status \<notin> set [''open'', ''won'', ''lost'', ''deleted'',
         ''all_not_deleted''] then raise ValueError (''Pipedrive: invalid deal status '' @ repr_str status)
       else Inr (dict_set ''status'' (JStr status) body)) else Inr body) (\<lambda>body.
     rbind (rfold (\<lambda>body optional.
         let raw = dict_get params optional JNull in
         if \<not> is_blank raw then (rbind (pipedrive_coerce_int raw optional) (\<lambda>r2.
           Inr (dict_set optional (JInt r2) body))) else Inr body) body [''person_id'', ''org_id'',
               ''stage_id'', ''user_id'']) (\<lambda>body.
     Inr (''POST'', ''/deals'', Some body, []))))"

definition pipedrive_build_update_deal :: "(rat \<Rightarrow> string) \<Rightarrow> jobj \<Rightarrow> request_spec result" where
  "pipedrive_build_update_deal fr params =
     rbind (pipedrive_required fr params ''deal_id'') (\<lambda>r1.
     rbind (pipedrive_coerce_int (JStr r1) ''deal_id'') (\<lambda>deal_id.
     let updates = dict_get params ''fields'' JNull in
     if \<not> is_obj updates \<or> \<not> py_bool updates then raise ValueError
         ''Pipedrive: 'fields' must be a non-empty JSON object''
     else rbind (rfold (\<lambda>_ key.
         if key \<notin> set [''title'', ''value'', ''currency'', ''status'', ''stage_id'', ''user_id'',
             ''person_id'', ''org_id'', ''expected_close_date'', ''probability'', ''lost_reason''] then raise
             ValueError (''Pipedrive: unknown deal field '' @ repr_str key)
         else Inr ()) () (map fst (obj_of updates))) (\<lambda>_.
     let status_update = dict_get (obj_of updates) ''status'' JNull in
     if is_str status_update \<and> py_lower (str_of status_update) \<notin> set [''open'', ''won'', ''lost'', ''deleted'',
         ''all_not_deleted''] then raise ValueError (''Pipedrive: invalid deal status '' @ py_repr fr
         status_update)
     else Inr (''PUT'', ''/deals/'' @ url_quote [] (show_int deal_id), Some (obj_of updates), []))))"

definition pipedrive_coerce_string_list :: "(rat \<Rightarrow> string) \<Rightarrow> json \<Rightarrow> string \<Rightarrow> string list result" where
  "pipedrive_coerce_string_list fr raw field =
     (if raw = JNull \<or> raw = JStr [] then Inr []
     else if is_str raw then Inr (map (\<lambda>part. py_strip part) (filter (\<lambda>part. py_strip part \<noteq> []) (split_on CHR
         '','' (str_of raw))))
     else if is_arr raw then Inr (map (\<lambda>part. py_strip (py_str fr part)) (filter (\<lambda>part. py_strip (py_str fr
         part) \<noteq> []) (arr_of raw)))
     else raise ValueError (''Pipedrive: '' @ repr_str field @ '' must be a string or list of strings''))"

definition pipedrive_build_create_person :: "(rat \<Rightarrow> string) \<Rightarrow> jobj \<Rightarrow> request_spec result" where
  "pipedrive_build_create_person fr params =
     rbind (pipedrive_required fr params ''name'') (\<lambda>name.
     let body = [(''name'', JStr name)] in
     rbind (pipedrive_coerce_string_list fr (dict_get params ''emails'' JNull) ''emails'') (\<lambda>emails.
     let body = (if emails \<noteq> [] then dict_set ''email'' (JArr (map JStr emails)) body else body) in
     rbind (pipedrive_coerce_string_list fr (dict_get params ''phones'' JNull) ''phones'') (\<lambda>phones.
     let body = (if phones \<noteq> [] then dict_set ''phone'' (JArr (map JStr phones)) body else body) in
     rbind (rfold (\<lambda>body optional.
         let raw = dict_get params optional JNull in
         if \<not> is_blank raw then (rbind (pipedrive_coerce_int raw optional) (\<lambda>r4.
           Inr (dict_set optional (JInt r4) body))) else Inr body) body [''org_id'', ''owner_id'']) (\<lambda>body.
     Inr (''POST'', ''/persons'', Some body, [])))))"

definition pipedrive_build_create_activity :: "(rat \<Rightarrow> string) \<Rightarrow> jobj \<Rightarrow> request_spec result" where
  "pipedrive_build_create_activity fr params =
     rbind (pipedrive_required fr params ''subject'') (\<lambda>subject.
     rbind (pipedrive_required fr params ''type'') (\<lambda>activity_type.
     let body = [(''subject'', JStr subject), (''type'', JStr activity_type)] in
     let due_date = text_param fr params ''due_date'' in
     let body = (if due_date \<noteq> [] then dict_set ''due_date'' (JStr due_date) body else body) in
     let due_time = text_param fr params ''due_time'' in
     let body = (if due_time \<noteq> [] then dict_set ''due_time'' (JStr due_time) body else body) in
     let duration = text_param fr params ''duration'' in
     let body = (if duration \<noteq> [] then dict_set ''duration'' (JStr duration) body else body) in
     let note = text_param fr params ''note'' in
     let body = (if note \<noteq> [] then dict_set ''note'' (JStr note) body else body) in
     rbind (rfold (\<lambda>body optional.
         let raw = dict_get params optional JNull in
         if \<not> is_blank raw then (rbind (pipedrive_coerce_int raw optional) (\<lambda>r3.
           Inr (dict_set optional (JInt r3) body))) else Inr body) body [''deal_id'', ''person_id'',
               ''org_id'', ''user_id'']) (\<lambda>body.
     Inr (''POST'', ''/activities'', Some body, []))))"

definition pipedrive_BUILDERS :: "(rat \<Rightarrow> string) \<Rightarrow> (string, jobj \<Rightarrow> request_spec result) dict" where
  "pipedrive_BUILDERS fr =
     [(''list_deals'', pipedrive_build_list_deals fr),
      (''get_deal'', pipedrive_build_get_deal fr),
      (''create_deal'', pipedrive_build_create_deal fr),
      (''update_deal'', pipedrive_build_update_deal fr),
      (''create_person'', pipedrive_build_create_person fr),
      (''create_activity'', pipedrive_build_create_activity fr)]"

definition pipedrive_build_request :: "(rat \<Rightarrow> string) \<Rightarrow> string \<Rightarrow> jobj \<Rightarrow> request_spec result" where
  "pipedrive_build_request fr operation params =
     (case map_of (pipedrive_BUILDERS fr) operation of
        None \<Rightarrow> raise ValueError (''Pipedrive: unsupported operation '' @ repr_str operation)
      | Some builder \<Rightarrow> builder params)"

lemma pipedrive_coerce_limit_ok: "ensures (\<lambda>v. 1 \<le> v \<and> v \<le> 500) (pipedrive_coerce_limit raw)"
  unfolding pipedrive_coerce_limit_def
  by (rule ensures_rules | simp)+

lemma pipedrive_coerce_int_ok: "ensures (\<lambda>_. True) (pipedrive_coerce_int raw field)"
  unfolding pipedrive_coerce_int_def
  by (rule ensures_rules | simp)+

lemma pipedrive_build_list_deals_ok: "ensures (request_ok (Some 1)) (pipedrive_build_list_deals fr params)"
  unfolding pipedrive_build_list_deals_def
  by (rule pipedrive_coerce_limit_ok [THEN ensures_bind] pipedrive_coerce_limit_ok [THEN ensures_weaken] pipedrive_coerce_int_ok [THEN ensures_bind] pipedrive_coerce_int_ok [THEN ensures_weaken] ensures_rules | simp add: request_ok_def METHODS_def)+

lemma pipedrive_required_ok: "ensures (\<lambda>_. True) (pipedrive_required fr params key)"
  unfolding pipedrive_required_def
  by (rule ensures_rules | simp)+

lemma pipedrive_build_get_deal_ok: "ensures (request_ok (Some 2)) (pipedrive_build_get_deal fr params)"
  unfolding pipedrive_build_get_deal_def
  by (rule pipedrive_coerce_int_ok [THEN ensures_bind] pipedrive_coerce_int_ok [THEN ensures_weaken] pipedrive_required_ok [THEN ensures_bind] pipedrive_required_ok [THEN ensures_weaken] ensures_rules | simp add: request_ok_def METHODS_def)+

lemma pipedrive_build_create_deal_ok: "ensures (request_ok (Some 1)) (pipedrive_build_create_deal fr params)"
  unfolding pipedrive_build_create_deal_def
  by (rule pipedrive_required_ok [THEN ensures_bind] pipedrive_required_ok [THEN ensures_weaken] pipedrive_coerce_int_ok [THEN ensures_bind] pipedrive_coerce_int_ok [THEN ensures_weaken] ensures_rules | simp add: request_ok_def METHODS_def)+

lemma pipedrive_build_update_deal_ok: "ensures (request_ok (Some 2)) (pipedrive_build_update_deal fr params)"
  unfolding pipedrive_build_update_deal_def
  by (rule pipedrive_coerce_int_ok [THEN ensures_bind] pipedrive_coerce_int_ok [THEN ensures_weaken] pipedrive_required_ok [THEN ensures_bind] pipedrive_required_ok [THEN ensures_weaken] ensures_rules | simp add: request_ok_def METHODS_def)+

lemma pipedrive_coerce_string_list_ok: "ensures (\<lambda>_. True) (pipedrive_coerce_string_list fr raw field)"
  unfolding pipedrive_coerce_string_list_def
  by (rule ensures_rules | simp)+

lemma pipedrive_build_create_person_ok: "ensures (request_ok (Some 1)) (pipedrive_build_create_person fr params)"
  unfolding pipedrive_build_create_person_def
  by (rule pipedrive_required_ok [THEN ensures_bind] pipedrive_required_ok [THEN ensures_weaken] pipedrive_coerce_string_list_ok [THEN ensures_bind] pipedrive_coerce_string_list_ok [THEN ensures_weaken] pipedrive_coerce_int_ok [THEN ensures_bind] pipedrive_coerce_int_ok [THEN ensures_weaken] ensures_rules | simp add: request_ok_def METHODS_def)+

lemma pipedrive_build_create_activity_ok: "ensures (request_ok (Some 1)) (pipedrive_build_create_activity fr params)"
  unfolding pipedrive_build_create_activity_def
  by (rule pipedrive_required_ok [THEN ensures_bind] pipedrive_required_ok [THEN ensures_weaken] pipedrive_coerce_int_ok [THEN ensures_bind] pipedrive_coerce_int_ok [THEN ensures_weaken] ensures_rules | simp add: request_ok_def METHODS_def)+

definition pipedrive_shape :: "(string, nat option) dict" where
  "pipedrive_shape =
     [(''list_deals'', Some 1), (''get_deal'', Some 2), (''create_deal'', Some 1), (''update_deal'', Some 2),
         (''create_person'', Some 1), (''create_activity'', Some 1)]"

interpretation pipedrive: request_builder "pipedrive_build_request fr" pipedrive_shape for fr
  by (rule request_builder_table [OF pipedrive_build_request_def])
    (simp_all del: One_nat_def add: pipedrive_BUILDERS_def pipedrive_shape_def
      pipedrive_build_list_deals_ok pipedrive_build_get_deal_ok pipedrive_build_create_deal_ok
      pipedrive_build_update_deal_ok pipedrive_build_create_person_ok pipedrive_build_create_activity_ok)

section \<open>Plaid\<close>

definition plaid_required_str :: "(rat \<Rightarrow> string) \<Rightarrow> jobj \<Rightarrow> string \<Rightarrow> string result" where
  "plaid_required_str fr params key =
     (let value = text_param fr params key in
     if value = [] then raise ValueError (''Plaid: '' @ repr_str key @ '' is required'')
     else Inr value)"

definition plaid_build_link_token_create :: "(rat \<Rightarrow> string) \<Rightarrow> jobj \<Rightarrow> (string \<times> string \<times> jobj \<times> jobj) result"
    where
  "plaid_build_link_token_create fr params =
     rbind (plaid_required_str fr params ''client_user_id'') (\<lambda>client_user_id.
     let products = dict_get params ''products'' JNull in
     if \<not> is_arr products \<or> \<not> py_bool products then raise ValueError
         ''Plaid: 'products' must be a non-empty list for link_token_create''
     else let country_codes = dict_get params ''country_codes'' JNull in
     if \<not> is_arr country_codes \<or> \<not> py_bool country_codes then raise ValueError
         ''Plaid: 'country_codes' must be a non-empty list for link_token_create''
     else let language = (if py_strip (py_str fr (param_or params ''language'' (JStr ''en''))) \<noteq> [] then
         py_strip (py_str fr (param_or params ''language'' (JStr ''en''))) else ''en'') in
     rbind (plaid_required_str fr params ''client_name'') (\<lambda>r2.
     let body = [(''client_name'', JStr r2), (''user'', JObj [(''client_user_id'', JStr client_user_id)]),
         (''products'', JArr (map JStr (map (\<lambda>p. py_str fr p) (arr_of products)))), (''country_codes'', JArr
         (map JStr (map (\<lambda>c. py_str fr c) (arr_of country_codes)))), (''language'', JStr language)] in
     let webhook = text_param fr params ''webhook'' in
     let body = (if webhook \<noteq> [] then dict_set ''webhook'' (JStr webhook) body else body) in
     Inr (''POST'', ''/link/token/create'', body, [])))"

definition plaid_build_item_get :: "(rat \<Rightarrow> string) \<Rightarrow> jobj \<Rightarrow> (string \<times> string \<times> jobj \<times> jobj) result" where
  "plaid_build_item_get fr params =
     rbind (plaid_required_str fr params ''access_token'') (\<lambda>r1.
     let body = [(''access_token'', JStr r1)] in
     Inr (''POST'', ''/item/get'', body, []))"

definition plaid_build_accounts_get :: "(rat \<Rightarrow> string) \<Rightarrow> jobj \<Rightarrow> (string \<times> string \<times> jobj \<times> jobj) result" where
  "plaid_build_accounts_get fr params =
     rbind (plaid_required_str fr params ''access_token'') (\<lambda>r1.
     let body = [(''access_token'', JStr r1)] in
     let account_ids = dict_get params ''account_ids'' JNull in
     let body = (if is_arr account_ids \<and> py_bool account_ids then dict_set ''options'' (JObj [(''account_ids'',
         JArr (map JStr (map (\<lambda>a. py_str fr a) (arr_of account_ids))))]) body else body) in
     Inr (''POST'', ''/accounts/get'', body, []))"

definition plaid_build_transactions_sync :: "(rat \<Rightarrow> string) \<Rightarrow> jobj \<Rightarrow> (string \<times> string \<times> jobj \<times> jobj) result"
    where
  "plaid_build_transactions_sync fr params =
     rbind (plaid_required_str fr params ''access_token'') (\<lambda>r1.
     let body = [(''access_token'', JStr r1)] in
     let cursor = dict_get params ''cursor'' JNull in
     let body = (if is_str cursor \<and> py_strip (str_of cursor) \<noteq> [] then dict_set ''cursor'' (JStr (py_strip
         (str_of cursor))) body else body) in
     let count = dict_get params ''count'' JNull in
     let body = (if is_int count \<and> 0 < (int_val count) then dict_set ''count'' count body else body) in
     Inr (''POST'', ''/transactions/sync'', body, []))"

definition plaid_BUILDERS :: "(rat \<Rightarrow> string) \<Rightarrow> (string, jobj \<Rightarrow> (string \<times> string \<times> jobj \<times> jobj) result) dict"
    where
  "plaid_BUILDERS fr =
     [(''link_token_create'', plaid_build_link_token_create fr),
      (''item_get'', plaid_build_item_get fr),
      (''accounts_get'', plaid_build_accounts_get fr),
      (''transactions_sync'', plaid_build_transactions_sync fr)]"

definition plaid_build_request :: "(rat \<Rightarrow> string) \<Rightarrow> string \<Rightarrow> jobj \<Rightarrow> (string \<times> string \<times> jobj \<times> jobj) result"
    where
  "plaid_build_request fr operation params =
     (case map_of (plaid_BUILDERS fr) operation of
        None \<Rightarrow> raise ValueError (''Plaid: unsupported operation '' @ repr_str operation)
      | Some builder \<Rightarrow> builder params)"

lemma plaid_required_str_ok: "ensures (\<lambda>_. True) (plaid_required_str fr params key)"
  unfolding plaid_required_str_def
  by (rule ensures_rules | simp)+

lemma plaid_build_link_token_create_ok: "ensures (request_ok (Some 3)) (plaid_build_link_token_create fr params)"
  unfolding plaid_build_link_token_create_def
  by (rule plaid_required_str_ok [THEN ensures_bind] plaid_required_str_ok [THEN ensures_weaken] ensures_rules | simp add: request_ok_def METHODS_def)+

lemma plaid_build_item_get_ok: "ensures (request_ok (Some 2)) (plaid_build_item_get fr params)"
  unfolding plaid_build_item_get_def
  by (rule plaid_required_str_ok [THEN ensures_bind] plaid_required_str_ok [THEN ensures_weaken] ensures_rules | simp add: request_ok_def METHODS_def)+

lemma plaid_build_accounts_get_ok: "ensures (request_ok (Some 2)) (plaid_build_accounts_get fr params)"
  unfolding plaid_build_accounts_get_def
  by (rule plaid_required_str_ok [THEN ensures_bind] plaid_required_str_ok [THEN ensures_weaken] ensures_rules | simp add: request_ok_def METHODS_def)+

lemma plaid_build_transactions_sync_ok: "ensures (request_ok (Some 2)) (plaid_build_transactions_sync fr params)"
  unfolding plaid_build_transactions_sync_def
  by (rule plaid_required_str_ok [THEN ensures_bind] plaid_required_str_ok [THEN ensures_weaken] ensures_rules | simp add: request_ok_def METHODS_def)+

definition plaid_shape :: "(string, nat option) dict" where
  "plaid_shape =
     [(''link_token_create'', Some 3), (''item_get'', Some 2), (''accounts_get'', Some 2),
         (''transactions_sync'', Some 2)]"

interpretation plaid: request_builder "plaid_build_request fr" plaid_shape for fr
  by (rule request_builder_table [OF plaid_build_request_def])
    (simp_all del: One_nat_def add: plaid_BUILDERS_def plaid_shape_def
      plaid_build_link_token_create_ok plaid_build_item_get_ok plaid_build_accounts_get_ok
      plaid_build_transactions_sync_ok)

section \<open>Pushover\<close>

definition pushover_required_text :: "(rat \<Rightarrow> string) \<Rightarrow> jobj \<Rightarrow> string \<Rightarrow> int \<Rightarrow> string result" where
  "pushover_required_text fr params key max_length =
     (let value = text_param fr params key in
     if value = [] then raise ValueError (''Pushover: '' @ repr_str key @ '' is required'')
     else if max_length < (int (length value)) then raise ValueError (''Pushover: '' @ repr_str key @
         '' exceeds '' @ show_int max_length @ ''-character cap'')
     else Inr value)"

definition pushover_optional_text :: "(rat \<Rightarrow> string) \<Rightarrow> json \<Rightarrow> string \<Rightarrow> int \<Rightarrow> string result" where
  "pushover_optional_text fr raw key max_length =
     (if is_blank raw then Inr []
     else let value = py_strip (py_str fr raw) in
     if max_length < (int (length value)) then raise ValueError (''Pushover: '' @ repr_str key @ '' exceeds ''
         @ show_int max_length @ ''-character cap'')
     else Inr value)"

definition pushover_coerce_int :: "json \<Rightarrow> string \<Rightarrow> int result" where
  "pushover_coerce_int raw field =
     (case int_of_json raw of
       None \<Rightarrow> raise ValueError (''Pushover: '' @ repr_str field @ '' must be an integer'')
     | Some number \<Rightarrow>
       Inr number)"

definition pushover_coerce_priority :: "json \<Rightarrow> int result" where
  "pushover_coerce_priority raw =
     rbind (pushover_coerce_int raw ''priority'') (\<lambda>value.
     if \<not> ((-2) \<le> value \<and> value \<le> 2) then raise ValueError ''Pushover: 'priority' must be in [-2, 2]''
     else Inr value)"

definition pushover_coerce_retry :: "json \<Rightarrow> int result" where
  "pushover_coerce_retry raw =
     (if is_blank raw then raise ValueError ''Pushover: emergency priority requires 'retry' (>= 30)''
     else rbind (pushover_coerce_int raw ''retry'') (\<lambda>value.
     if value < 30 then raise ValueError ''Pushover: 'retry' must be >= 30 seconds''
     else Inr value))"

definition pushover_coerce_expire :: "json \<Rightarrow> int result" where
  "pushover_coerce_expire raw =
     (if is_blank raw then raise ValueError ''Pushover: emergency priority requires 'expire' (<= 10800)''
     else rbind (pushover_coerce_int raw ''expire'') (\<lambda>value.
     if value < 1 \<or> 10800 < value then raise ValueError ''Pushover: 'expire' must be in [1, 10800]''
     else Inr value))"

definition pushover_build_send_notification :: "(rat \<Rightarrow> string) \<Rightarrow> jobj \<Rightarrow> (string \<times> jobj) result" where
  "pushover_build_send_notification fr params =
     rbind (pushover_required_text fr params ''message'' 1024) (\<lambda>message.
     let form = [(''message'', JStr message)] in
     rbind (pushover_optional_text fr (dict_get params ''title'' JNull) ''title'' 250) (\<lambda>title.
     let form = (if title \<noteq> [] then dict_set ''title'' (JStr title) form else form) in
     rbind (pushover_optional_text fr (dict_get params ''url'' JNull) ''url'' 512) (\<lambda>url.
     let form = (if url \<noteq> [] then dict_set ''url'' (JStr url) form else form) in
     rbind (pushover_optional_text fr (dict_get params ''url_title'' JNull) ''url_title'' 100) (\<lambda>url_title.
     let form = (if url_title \<noteq> [] then dict_set ''url_title'' (JStr url_title) form else form) in
     let priority = dict_get params ''priority'' JNull in
     rbind (if \<not> is_blank priority then (rbind (pushover_coerce_priority priority) (\<lambda>priority_int.
       let form = dict_set ''priority'' (JStr (show_int priority_int)) form in
       if priority_int = 2 then (rbind (pushover_coerce_retry (dict_get params ''retry'' JNull)) (\<lambda>r6.
         let form = dict_set ''retry'' (JStr (show_int r6)) form in
         rbind (pushover_coerce_expire (dict_get params ''expire'' JNull)) (\<lambda>r7.
         Inr (dict_set ''expire'' (JStr (show_int r7)) form)))) else Inr form)) else Inr form) (\<lambda>form.
     rbind (pushover_optional_text fr (dict_get params ''sound'' JNull) ''sound'' 50) (\<lambda>sound.
     let form = (if sound \<noteq> [] then dict_set ''sound'' (JStr sound) form else form) in
     rbind (pushover_optional_text fr (dict_get params ''device'' JNull) ''device'' 100) (\<lambda>device.
     let form = (if device \<noteq> [] then dict_set ''device'' (JStr device) form else form) in
     let html = dict_get params ''html'' JNull in
     let form = (if html \<noteq> JNull \<and> py_bool html then dict_set ''html'' (JStr ''1'') form else form) in
     Inr (''/messages.json'', form))))))))"

definition pushover_build_send_glance :: "(rat \<Rightarrow> string) \<Rightarrow> jobj \<Rightarrow> (string \<times> jobj) result" where
  "pushover_build_send_glance fr params =
     (let form = ([] :: jobj) in
     rbind (pushover_optional_text fr (dict_get params ''text'' JNull) ''text'' 100) (\<lambda>text.
     let form = (if text \<noteq> [] then dict_set ''text'' (JStr text) form else form) in
     rbind (pushover_optional_text fr (dict_get params ''subtext'' JNull) ''subtext'' 100) (\<lambda>subtext.
     let form = (if subtext \<noteq> [] then dict_set ''subtext'' (JStr subtext) form else form) in
     rbind (pushover_optional_text fr (dict_get params ''title'' JNull) ''title'' 100) (\<lambda>title.
     let form = (if title \<noteq> [] then dict_set ''title'' (JStr title) form else form) in
     let count = dict_get params ''count'' JNull in
     rbind (if \<not> is_blank count then (rbind (pushover_coerce_int count ''count'') (\<lambda>r4.
       Inr (dict_set ''count'' (JStr (show_int r4)) form))) else Inr form) (\<lambda>form.
     let percent = dict_get params ''percent'' JNull in
     rbind (if \<not> is_blank percent then (rbind (pushover_coerce_int percent ''percent'') (\<lambda>value.
       if \<not> (0 \<le> value \<and> value \<le> 100) then raise ValueError ''Pushover: 'percent' must be in [0, 100]''
       else Inr (dict_set ''percent'' (JStr (show_int value)) form))) else Inr form) (\<lambda>form.
     rbind (pushover_optional_text fr (dict_get params ''device'' JNull) ''device'' 100) (\<lambda>device.
     let form = (if device \<noteq> [] then dict_set ''device'' (JStr device) form else form) in
     if form = [] then raise ValueError ''Pushover: send_glance requires at least one updatable field''
     else Inr (''/glances.json'', form))))))))"

definition pushover_BUILDERS :: "(rat \<Rightarrow> string) \<Rightarrow> (string, jobj \<Rightarrow> (string \<times> jobj) result) dict" where
  "pushover_BUILDERS fr =
     [(''send_notification'', pushover_build_send_notification fr),
      (''send_glance'', pushover_build_send_glance fr)]"

definition pushover_build_request :: "(rat \<Rightarrow> string) \<Rightarrow> string \<Rightarrow> jobj \<Rightarrow> (string \<times> jobj) result" where
  "pushover_build_request fr operation params =
     (case map_of (pushover_BUILDERS fr) operation of
        None \<Rightarrow> raise ValueError (''Pushover: unsupported operation '' @ repr_str operation)
      | Some builder \<Rightarrow> builder params)"

lemma pushover_required_text_ok: "ensures (\<lambda>_. True) (pushover_required_text fr params key max_length)"
  unfolding pushover_required_text_def
  by (rule ensures_rules | simp)+

lemma pushover_optional_text_ok: "ensures (\<lambda>_. True) (pushover_optional_text fr raw key max_length)"
  unfolding pushover_optional_text_def
  by (rule ensures_rules | simp)+

lemma pushover_coerce_int_ok: "ensures (\<lambda>_. True) (pushover_coerce_int raw field)"
  unfolding pushover_coerce_int_def
  by (rule ensures_rules | simp)+

lemma pushover_coerce_priority_ok: "ensures (\<lambda>_. True) (pushover_coerce_priority raw)"
  unfolding pushover_coerce_priority_def
  by (rule pushover_coerce_int_ok [THEN ensures_bind] pushover_coerce_int_ok [THEN ensures_weaken] ensures_rules | simp)+

lemma pushover_coerce_retry_ok: "ensures (\<lambda>v. 30 \<le> v) (pushover_coerce_retry raw)"
  unfolding pushover_coerce_retry_def
  by (rule pushover_coerce_int_ok [THEN ensures_bind] pushover_coerce_int_ok [THEN ensures_weaken] ensures_rules | simp)+

lemma pushover_coerce_expire_ok: "ensures (\<lambda>v. 1 \<le> v \<and> v \<le> 10800) (pushover_coerce_expire raw)"
  unfolding pushover_coerce_expire_def
  by (rule pushover_coerce_int_ok [THEN ensures_bind] pushover_coerce_int_ok [THEN ensures_weaken] ensures_rules | simp)+

lemma pushover_build_send_notification_ok: "ensures (\<lambda>_. True) (pushover_build_send_notification fr params)"
  unfolding pushover_build_send_notification_def
  by (rule pushover_required_text_ok [THEN ensures_bind] pushover_required_text_ok [THEN ensures_weaken] pushover_optional_text_ok [THEN ensures_bind] pushover_optional_text_ok [THEN ensures_weaken] pushover_coerce_priority_ok [THEN ensures_bind] pushover_coerce_priority_ok [THEN ensures_weaken] pushover_coerce_retry_ok [THEN ensures_bind] pushover_coerce_retry_ok [THEN ensures_weaken] pushover_coerce_expire_ok [THEN ensures_bind] pushover_coerce_expire_ok [THEN ensures_weaken] ensures_rules | simp)+

lemma pushover_build_send_glance_ok: "ensures (\<lambda>_. True) (pushover_build_send_glance fr params)"
  unfolding pushover_build_send_glance_def
  by (rule pushover_optional_text_ok [THEN ensures_bind] pushover_optional_text_ok [THEN ensures_weaken] pushover_coerce_int_ok [THEN ensures_bind] pushover_coerce_int_ok [THEN ensures_weaken] ensures_rules | simp)+


end
