(* ===== verification/Builders_6.thy ===== *)
theory Builders_6
  imports Requests
begin

text \<open>
  Request builders of the integrations \<open>quickbooks\<close>, \<open>reddit\<close>, \<open>rocket_chat\<close>, \<open>shopify\<close>, \<open>slack\<close>, \<open>snowflake\<close>, \<open>telegram\<close>, \<open>twilio\<close>
  (\<open>nodes/integrations/<name>/operations.py\<close>), one definition per function of the module, prefixed
  with the name of the integration; constants of \<open>constants.py\<close> stand with their values, and an em dash
  in a message is a hyphen. \<open>fr\<close> prints a float. Each lemma \<open><function>_ok\<close> states what the function
  ensures: it raises nothing but \<open>ValueError\<close>, an identifier it returns has no slash, a number is
  within its bounds, a request has a known method and a path with a fixed number of slashes. The
  interpretation shows that the module keeps the interface of the nodes.
\<close>

section \<open>Quickbooks\<close>

definition quickbooks_required :: "(rat \<Rightarrow> string) \<Rightarrow> jobj \<Rightarrow> string \<Rightarrow> string result" where
  "quickbooks_required fr params key =
     (let value = text_param fr params key in
     if value = [] then raise ValueError (''QuickBooks: '' @ repr_str key @ '' is required'')
     else Inr value)"

definition quickbooks_build_query :: "(rat \<Rightarrow> string) \<Rightarrow> jobj \<Rightarrow> request_spec result" where
  "quickbooks_build_query fr params =
     rbind (quickbooks_required fr params ''query'') (\<lambda>sql.
     Inr (''GET'', ''/query'', None, [(''query'', JStr sql)]))"

definition quickbooks_build_get_invoice :: "(rat \<Rightarrow> string) \<Rightarrow> jobj \<Rightarrow> request_spec result" where
  "quickbooks_build_get_invoice fr params =
     rbind (quickbooks_required fr params ''invoice_id'') (\<lambda>invoice_id.
     Inr (''GET'', ''/invoice/'' @ url_quote [] invoice_id, None, []))"

definition quickbooks_coerce_document :: "json \<Rightarrow> jobj result" where
  "quickbooks_coerce_document raw =
     (if raw = JNull \<or> raw = JStr [] then raise ValueError ''QuickBooks: 'document' is required''
     else if \<not> is_obj raw then raise ValueError ''QuickBooks: 'document' must be a JSON object''
     else Inr (obj_of raw))"

definition quickbooks_build_create_invoice :: "jobj \<Rightarrow> request_spec result" where
  "quickbooks_build_create_invoice params =
     rbind (quickbooks_coerce_document (dict_get params ''document'' JNull)) (\<lambda>document.
     Inr (''POST'', ''/invoice'', Some document, []))"

definition quickbooks_build_get_customer :: "(rat \<Rightarrow> string) \<Rightarrow> jobj \<Rightarrow> request_spec result" where
  "quickbooks_build_get_customer fr params =
     rbind (quickbooks_required fr params ''customer_id'') (\<lambda>customer_id.
     Inr (''GET'', ''/customer/'' @ url_quote [] customer_id, None, []))"

definition quickbooks_build_create_customer :: "jobj \<Rightarrow> request_spec result" where
  "quickbooks_build_create_customer params =
     rbind (quickbooks_coerce_document (dict_get params ''document'' JNull)) (\<lambda>document.
     Inr (''POST'', ''/customer'', Some document, []))"

definition quickbooks_BUILDERS :: "(rat \<Rightarrow> string) \<Rightarrow> (string, jobj \<Rightarrow> request_spec result) dict" where
  "quickbooks_BUILDERS fr =
     [(''query'', quickbooks_build_query fr),
      (''get_invoice'', quickbooks_build_get_invoice fr),
      (''create_invoice'', quickbooks_build_create_invoice),
      (''get_customer'', quickbooks_build_get_customer fr),
      (''create_customer'', quickbooks_build_create_customer)]"

definition quickbooks_build_request :: "(rat \<Rightarrow> string) \<Rightarrow> string \<Rightarrow> jobj \<Rightarrow> request_spec result" where
  "quickbooks_build_request fr operation params =
     (case map_of (quickbooks_BUILDERS fr) operation of
        None \<Rightarrow> raise ValueError (''QuickBooks: unsupported operation '' @ repr_str operation)
      | Some builder \<Rightarrow> builder params)"

lemma quickbooks_required_ok: "ensures (\<lambda>_. True) (quickbooks_required fr params key)"
  unfolding quickbooks_required_def
  by (rule ensures_rules | simp)+

lemma quickbooks_build_query_ok: "ensures (request_ok (Some 1)) (quickbooks_build_query fr params)"
  unfolding quickbooks_build_query_def
  by (rule quickbooks_required_ok [THEN ensures_bind] quickbooks_required_ok [THEN ensures_weaken] ensures_rules | simp add: request_ok_def METHODS_def)+

lemma quickbooks_build_get_invoice_ok: "ensures (request_ok (Some 2)) (quickbooks_build_get_invoice fr params)"
  unfolding quickbooks_build_get_invoice_def
  by (rule quickbooks_required_ok [THEN ensures_bind] quickbooks_required_ok [THEN ensures_weaken] ensures_rules | simp add: request_ok_def METHODS_def)+

lemma quickbooks_coerce_document_ok: "ensures (\<lambda>_. True) (quickbooks_coerce_document raw)"
  unfolding quickbooks_coerce_document_def
  by (rule ensures_rules | simp)+

lemma quickbooks_build_create_invoice_ok: "ensures (request_ok (Some 1)) (quickbooks_build_create_invoice params)"
  unfolding quickbooks_build_create_invoice_def
  by (rule quickbooks_coerce_document_ok [THEN ensures_bind] quickbooks_coerce_document_ok [THEN ensures_weaken] ensures_rules | simp add: request_ok_def METHODS_def)+

lemma quickbooks_build_get_customer_ok: "ensures (request_ok (Some 2)) (quickbooks_build_get_customer fr params)"
  unfolding quickbooks_build_get_customer_def
  by (rule quickbooks_required_ok [THEN ensures_bind] quickbooks_required_ok [THEN ensures_weaken] ensures_rules | simp add: request_ok_def METHODS_def)+

lemma quickbooks_build_create_customer_ok: "ensures (request_ok (Some 1)) (quickbooks_build_create_customer params)"
  unfolding quickbooks_build_create_customer_def
  by (rule quickbooks_coerce_document_ok [THEN ensures_bind] quickbooks_coerce_document_ok [THEN ensures_weaken] ensures_rules | simp add: request_ok_def METHODS_def)+

definition quickbooks_shape :: "(string, nat option) dict" where
  "quickbooks_shape =
     [(''query'', Some 1), (''get_invoice'', Some 2), (''create_invoice'', Some 1), (''get_customer'', Some 2),
         (''create_customer'', Some 1)]"

interpretation quickbooks: request_builder "quickbooks_build_request fr" quickbooks_shape for fr
  by (rule request_builder_table [OF quickbooks_build_request_def])
    (simp_all del: One_nat_def add: quickbooks_BUILDERS_def quickbooks_shape_def
      quickbooks_build_query_ok quickbooks_build_get_invoice_ok quickbooks_build_create_invoice_ok
      quickbooks_build_get_customer_ok quickbooks_build_create_customer_ok)

section \<open>Reddit\<close>

definition reddit_build_get_me :: "jobj \<Rightarrow> request_spec" where
  "reddit_build_get_me params =
     (''GET'', ''/api/v1/me'', None, [])"

definition reddit_required_str :: "(rat \<Rightarrow> string) \<Rightarrow> jobj \<Rightarrow> string \<Rightarrow> string result" where
  "reddit_required_str fr params key =
     (let value = text_param fr params key in
     if value = [] then raise ValueError (''Reddit: '' @ repr_str key @ '' is required'')
     else Inr value)"

definition reddit_build_submit_post :: "(rat \<Rightarrow> string) \<Rightarrow> jobj \<Rightarrow> request_spec result" where
  "reddit_build_submit_post fr params =
     rbind (reddit_required_str fr params ''subreddit'') (\<lambda>subreddit.
     rbind (reddit_required_str fr params ''title'') (\<lambda>title.
     let kind = (if py_strip (py_str fr (param_or params ''kind'' (JStr ''self''))) \<noteq> [] then py_strip (py_str
         fr (param_or params ''kind'' (JStr ''self''))) else ''self'') in
     if kind \<notin> set [''link'', ''self''] then raise ValueError
         (''Reddit: 'kind' must be 'link' or 'self' - got '' @ repr_str kind)
     else let form = [(''sr'', JStr subreddit), (''title'', JStr title), (''kind'', JStr kind), (''api_type'',
         JStr ''json'')] in
     rbind (if kind = ''link'' then (rbind (reddit_required_str fr params ''url'') (\<lambda>r3.
       Inr (dict_set ''url'' (JStr r3) form))) else (let text = text_param fr params ''text'' in
       Inr (if text \<noteq> [] then dict_set ''text'' (JStr text) form else form))) (\<lambda>form.
     let nsfw = dict_get params ''nsfw'' JNull in
     let form = (if is_bool nsfw then dict_set ''nsfw'' (JStr (if py_bool nsfw then ''true'' else ''false''))
         form else form) in
     Inr (''POST'', ''/api/submit'', Some form, []))))"

definition reddit_build_get_subreddit :: "(rat \<Rightarrow> string) \<Rightarrow> jobj \<Rightarrow> request_spec result" where
  "reddit_build_get_subreddit fr params =
     rbind (reddit_required_str fr params ''subreddit'') (\<lambda>subreddit.
     Inr (''GET'', ''/r/'' @ subreddit @ ''/about'', None, []))"

definition reddit_build_list_hot :: "(rat \<Rightarrow> string) \<Rightarrow> jobj \<Rightarrow> request_spec result" where
  "reddit_build_list_hot fr params =
     rbind (reddit_required_str fr params ''subreddit'') (\<lambda>subreddit.
     let query = ([] :: jobj) in
     let limit = dict_get params ''limit'' JNull in
     let query = (if is_int limit \<and> 0 < (int_val limit) then dict_set ''limit'' (JStr (py_str fr limit)) query
         else query) in
     let after = text_param fr params ''after'' in
     let query = (if after \<noteq> [] then dict_set ''after'' (JStr after) query else query) in
     Inr (''GET'', ''/r/'' @ subreddit @ ''/hot'', None, query))"

definition reddit_BUILDERS :: "(rat \<Rightarrow> string) \<Rightarrow> (string, jobj \<Rightarrow> request_spec result) dict" where
  "reddit_BUILDERS fr =
     [(''get_me'', \<lambda>params. Inr (reddit_build_get_me params)),
      (''submit_post'', reddit_build_submit_post fr),
      (''get_subreddit'', reddit_build_get_subreddit fr),
      (''list_hot'', reddit_build_list_hot fr)]"

definition reddit_build_request :: "(rat \<Rightarrow> string) \<Rightarrow> string \<Rightarrow> jobj \<Rightarrow> request_spec result" where
  "reddit_build_request fr operation params =
     (case map_of (reddit_BUILDERS fr) operation of
        None \<Rightarrow> raise ValueError (''Reddit: unsupported operation '' @ repr_str operation)
      | Some builder \<Rightarrow> builder params)"

lemma reddit_build_get_me_ok: "ensures (request_ok (Some 3)) (Inr (reddit_build_get_me params))"
  by (rule ensures_Inr) (simp add: reddit_build_get_me_def request_ok_def METHODS_def Let_def)

lemma reddit_required_str_ok: "ensures (\<lambda>_. True) (reddit_required_str fr params key)"
  unfolding reddit_required_str_def
  by (rule ensures_rules | simp)+

lemma reddit_build_submit_post_ok: "ensures (request_ok (Some 2)) (reddit_build_submit_post fr params)"
  unfolding reddit_build_submit_post_def
  by (rule reddit_required_str_ok [THEN ensures_bind] reddit_required_str_ok [THEN ensures_weaken] ensures_rules | simp add: request_ok_def METHODS_def)+

lemma reddit_build_get_subreddit_ok: "ensures (request_ok None) (reddit_build_get_subreddit fr params)"
  unfolding reddit_build_get_subreddit_def
  by (rule reddit_required_str_ok [THEN ensures_bind] reddit_required_str_ok [THEN ensures_weaken] ensures_rules | simp add: request_ok_def METHODS_def)+

lemma reddit_build_list_hot_ok: "ensures (request_ok None) (reddit_build_list_hot fr params)"
  unfolding reddit_build_list_hot_def
  by (rule reddit_required_str_ok [THEN ensures_bind] reddit_required_str_ok [THEN ensures_weaken] ensures_rules | simp add: request_ok_def METHODS_def)+

definition reddit_shape :: "(string, nat option) dict" where
  "reddit_shape =
     [(''get_me'', Some 3), (''submit_post'', Some 2), (''get_subreddit'', None), (''list_hot'', None)]"

interpretation reddit: request_builder "reddit_build_request fr" reddit_shape for fr
  by (rule request_builder_table [OF reddit_build_request_def])
    (simp_all del: One_nat_def add: reddit_BUILDERS_def reddit_shape_def
      reddit_build_get_me_ok reddit_build_submit_post_ok reddit_build_get_subreddit_ok
      reddit_build_list_hot_ok)

section \<open>Rocket chat\<close>

definition rocket_chat_required :: "(rat \<Rightarrow> string) \<Rightarrow> jobj \<Rightarrow> string \<Rightarrow> string result" where
  "rocket_chat_required fr params key =
     (let value = text_param fr params key in
     if value = [] then raise ValueError (''Rocket.Chat: '' @ repr_str key @ '' is required'')
     else Inr value)"

definition rocket_chat_build_post_message :: "(rat \<Rightarrow> string) \<Rightarrow> jobj \<Rightarrow> request_spec result" where
  "rocket_chat_build_post_message fr params =
     rbind (rocket_chat_required fr params ''room_id'') (\<lambda>room_id.
     rbind (rocket_chat_required fr params ''text'') (\<lambda>text.
     let body = [(''roomId'', JStr room_id), (''text'', JStr text)] in
     let alias = text_param fr params ''alias'' in
     let body = (if alias \<noteq> [] then dict_set ''alias'' (JStr alias) body else body) in
     let emoji = text_param fr params ''emoji'' in
     let body = (if emoji \<noteq> [] then dict_set ''emoji'' (JStr emoji) body else body) in
     let avatar = text_param fr params ''avatar'' in
     let body = (if avatar \<noteq> [] then dict_set ''avatar'' (JStr avatar) body else body) in
     let attachments = dict_get params ''attachments'' JNull in
     let body = (if is_arr attachments \<and> py_bool attachments then dict_set ''attachments'' attachments body
         else body) in
     Inr (''POST'', ''/api/v1/chat.postMessage'', Some body, [])))"

definition rocket_chat_build_update_message :: "(rat \<Rightarrow> string) \<Rightarrow> jobj \<Rightarrow> request_spec result" where
  "rocket_chat_build_update_message fr params =
     rbind (rocket_chat_required fr params ''room_id'') (\<lambda>room_id.
     rbind (rocket_chat_required fr params ''message_id'') (\<lambda>msg_id.
     rbind (rocket_chat_required fr params ''text'') (\<lambda>text.
     let body = [(''roomId'', JStr room_id), (''msgId'', JStr msg_id), (''text'', JStr text)] in
     Inr (''POST'', ''/api/v1/chat.update'', Some body, []))))"

definition rocket_chat_build_delete_message :: "(rat \<Rightarrow> string) \<Rightarrow> jobj \<Rightarrow> request_spec result" where
  "rocket_chat_build_delete_message fr params =
     rbind (rocket_chat_required fr params ''room_id'') (\<lambda>room_id.
     rbind (rocket_chat_required fr params ''message_id'') (\<lambda>msg_id.
     let body = [(''roomId'', JStr room_id), (''msgId'', JStr msg_id)] in
     let as_user = dict_get params ''as_user'' JNull in
     let body = (if is_bool as_user then dict_set ''asUser'' as_user body else body) in
     Inr (''POST'', ''/api/v1/chat.delete'', Some body, [])))"

definition rocket_chat_stringify :: "(rat \<Rightarrow> string) \<Rightarrow> json \<Rightarrow> string" where
  "rocket_chat_stringify fr value =
     (if is_bool value then (if py_bool value then ''true'' else ''false'')
     else py_str fr value)"

definition rocket_chat_build_list_channels :: "(rat \<Rightarrow> string) \<Rightarrow> jobj \<Rightarrow> request_spec" where
  "rocket_chat_build_list_channels fr params =
     (let query = ([] :: jobj) in
     let query = foldl (\<lambda>query (src, dst).
         let value = dict_get params src JNull in
         (if \<not> is_blank value then dict_set dst (JStr (rocket_chat_stringify fr value)) query else query))
             query [(''count'', ''count''), (''offset'', ''offset''), (''sort'', ''sort'')] in
     (''GET'', ''/api/v1/channels.list'', None, query))"

definition rocket_chat_build_create_channel :: "(rat \<Rightarrow> string) \<Rightarrow> jobj \<Rightarrow> request_spec result" where
  "rocket_chat_build_create_channel fr params =
     rbind (rocket_chat_required fr params ''name'') (\<lambda>name.
     let body = [(''name'', JStr name)] in
     let members = dict_get params ''members'' JNull in
     let body = (if is_arr members \<and> py_bool members then dict_set ''members'' (JArr (map JStr (map (\<lambda>m. py_str
         fr m) (arr_of members)))) body else body) in
     let read_only = dict_get params ''read_only'' JNull in
     let body = (if is_bool read_only then dict_set ''readOnly'' read_only body else body) in
     Inr (''POST'', ''/api/v1/channels.create'', Some body, []))"

definition rocket_chat_build_get_user :: "(rat \<Rightarrow> string) \<Rightarrow> jobj \<Rightarrow> request_spec result" where
  "rocket_chat_build_get_user fr params =
     (let user_id = text_param fr params ''user_id'' in
     let username = text_param fr params ''username'' in
     if user_id = [] \<and> username = [] then raise ValueError
         ''Rocket.Chat: one of 'user_id' or 'username' is required''
     else let query = ([] :: jobj) in
     let query = (if user_id \<noteq> [] then dict_set ''userId'' (JStr user_id) query else dict_set ''username''
         (JStr username) query) in
     Inr (''GET'', ''/api/v1/users.info'', None, query))"

definition rocket_chat_BUILDERS :: "(rat \<Rightarrow> string) \<Rightarrow> (string, jobj \<Rightarrow> request_spec result) dict" where
  "rocket_chat_BUILDERS fr =
     [(''post_message'', rocket_chat_build_post_message fr),
      (''update_message'', rocket_chat_build_update_message fr),
      (''delete_message'', rocket_chat_build_delete_message fr),
      (''list_channels'', \<lambda>params. Inr (rocket_chat_build_list_channels fr params)),
      (''create_channel'', rocket_chat_build_create_channel fr),
      (''get_user'', rocket_chat_build_get_user fr)]"

definition rocket_chat_build_request :: "(rat \<Rightarrow> string) \<Rightarrow> string \<Rightarrow> jobj \<Rightarrow> request_spec result" where
  "rocket_chat_build_request fr operation params =
     (case map_of (rocket_chat_BUILDERS fr) operation of
        None \<Rightarrow> raise ValueError (''Rocket.Chat: unsupported operation '' @ repr_str operation)
      | Some builder \<Rightarrow> builder params)"

lemma rocket_chat_required_ok: "ensures (\<lambda>_. True) (rocket_chat_required fr params key)"
  unfolding rocket_chat_required_def
  by (rule ensures_rules | simp)+

lemma rocket_chat_build_post_message_ok: "ensures (request_ok (Some 3)) (rocket_chat_build_post_message fr params)"
  unfolding rocket_chat_build_post_message_def
  by (rule rocket_chat_required_ok [THEN ensures_bind] rocket_chat_required_ok [THEN ensures_weaken] ensures_rules | simp add: request_ok_def METHODS_def)+

lemma rocket_chat_build_update_message_ok: "ensures (request_ok (Some 3)) (rocket_chat_build_update_message fr params)"
  unfolding rocket_chat_build_update_message_def
  by (rule rocket_chat_required_ok [THEN ensures_bind] rocket_chat_required_ok [THEN ensures_weaken] ensures_rules | simp add: request_ok_def METHODS_def)+

lemma rocket_chat_build_delete_message_ok: "ensures (request_ok (Some 3)) (rocket_chat_build_delete_message fr params)"
  unfolding rocket_chat_build_delete_message_def
  by (rule rocket_chat_required_ok [THEN ensures_bind] rocket_chat_required_ok [THEN ensures_weaken] ensures_rules | simp add: request_ok_def METHODS_def)+

lemma rocket_chat_build_list_channels_ok: "ensures (request_ok (Some 3)) (Inr (rocket_chat_build_list_channels fr params))"
  by (rule ensures_Inr) (simp add: rocket_chat_build_list_channels_def request_ok_def METHODS_def Let_def)

lemma rocket_chat_build_create_channel_ok: "ensures (request_ok (Some 3)) (rocket_chat_build_create_channel fr params)"
  unfolding rocket_chat_build_create_channel_def
  by (rule rocket_chat_required_ok [THEN ensures_bind] rocket_chat_required_ok [THEN ensures_weaken] ensures_rules | simp add: request_ok_def METHODS_def)+

lemma rocket_chat_build_get_user_ok: "ensures (request_ok (Some 3)) (rocket_chat_build_get_user fr params)"
  unfolding rocket_chat_build_get_user_def
  by (rule ensures_rules | simp add: request_ok_def METHODS_def)+

definition rocket_chat_shape :: "(string, nat option) dict" where
  "rocket_chat_shape =
     [(''post_message'', Some 3), (''update_message'', Some 3), (''delete_message'', Some 3),
         (''list_channels'', Some 3), (''create_channel'', Some 3), (''get_user'', Some 3)]"

interpretation rocket_chat: request_builder "rocket_chat_build_request fr" rocket_chat_shape for fr
  by (rule request_builder_table [OF rocket_chat_build_request_def])
    (simp_all del: One_nat_def add: rocket_chat_BUILDERS_def rocket_chat_shape_def
      rocket_chat_build_post_message_ok rocket_chat_build_update_message_ok rocket_chat_build_delete_message_ok
      rocket_chat_build_list_channels_ok rocket_chat_build_create_channel_ok rocket_chat_build_get_user_ok)

section \<open>Shopify\<close>

definition shopify_coerce_limit :: "json \<Rightarrow> int result" where
  "shopify_coerce_limit raw =
     (if is_blank raw then Inr 50
     else (case int_of_json raw of
       None \<Rightarrow> raise ValueError ''Shopify: 'limit' must be a positive integer''
     | Some value \<Rightarrow>
       if value < 1 then raise ValueError ''Shopify: 'limit' must be >= 1''
       else Inr (min value 250)))"

definition shopify_build_list_products :: "(rat \<Rightarrow> string) \<Rightarrow> jobj \<Rightarrow> request_spec result" where
  "shopify_build_list_products fr params =
     rbind (shopify_coerce_limit (dict_get params ''limit'' JNull)) (\<lambda>r1.
     let query = [(''limit'', JInt r1)] in
     let since_id = text_param fr params ''since_id'' in
     let query = (if since_id \<noteq> [] then dict_set ''since_id'' (JStr since_id) query else query) in
     let vendor = text_param fr params ''vendor'' in
     let query = (if vendor \<noteq> [] then dict_set ''vendor'' (JStr vendor) query else query) in
     Inr (''GET'', ''products.json'', None, query))"

definition shopify_required :: "(rat \<Rightarrow> string) \<Rightarrow> jobj \<Rightarrow> string \<Rightarrow> string result" where
  "shopify_required fr params key =
     (let value = text_param fr params key in
     if value = [] then raise ValueError (''Shopify: '' @ repr_str key @ '' is required'')
     else Inr value)"

definition shopify_build_get_product :: "(rat \<Rightarrow> string) \<Rightarrow> jobj \<Rightarrow> request_spec result" where
  "shopify_build_get_product fr params =
     rbind (shopify_required fr params ''product_id'') (\<lambda>product_id.
     let path = ''products/'' @ url_quote [] product_id @ ''.json'' in
     Inr (''GET'', path, None, []))"

definition shopify_required_object :: "jobj \<Rightarrow> string \<Rightarrow> jobj result" where
  "shopify_required_object params key =
     (let value = dict_get params key JNull in
     if \<not> is_obj value \<or> \<not> py_bool value then raise ValueError (''Shopify: '' @ repr_str key @
         '' must be a non-empty JSON object'')
     else Inr (obj_of value))"

definition shopify_build_create_product :: "(rat \<Rightarrow> string) \<Rightarrow> jobj \<Rightarrow> request_spec result" where
  "shopify_build_create_product fr params =
     rbind (shopify_required_object params ''product'') (\<lambda>product.
     let title = text_param fr product ''title'' in
     if title = [] then raise ValueError ''Shopify: product.title is required''
     else Inr (''POST'', ''products.json'', Some [(''product'', JObj product)], []))"

definition shopify_build_update_product :: "(rat \<Rightarrow> string) \<Rightarrow> jobj \<Rightarrow> request_spec result" where
  "shopify_build_update_product fr params =
     rbind (shopify_required fr params ''product_id'') (\<lambda>product_id.
     rbind (shopify_required_object params ''product'') (\<lambda>product.
     rbind (if py_isdigit product_id then (rbind (int_of_str product_id) (\<lambda>r3. Inr (JInt r3))) else Inr (JStr
         product_id)) (\<lambda>r4.
     let product = dict_set ''id'' r4 product in
     let path = ''products/'' @ url_quote [] product_id @ ''.json'' in
     Inr (''PUT'', path, Some [(''product'', JObj product)], []))))"

definition shopify_build_list_orders :: "(rat \<Rightarrow> string) \<Rightarrow> jobj \<Rightarrow> request_spec result" where
  "shopify_build_list_orders fr params =
     rbind (shopify_coerce_limit (dict_get params ''limit'' JNull)) (\<lambda>r1.
     let query = [(''limit'', JInt r1)] in
     let status = py_lower (text_param fr params ''status'') in
     rbind (if status \<noteq> [] then (if status \<notin> set [''open'', ''closed'', ''cancelled'', ''any''] then raise
         ValueError (''Shopify: invalid order status '' @ repr_str status)
       else Inr (dict_set ''status'' (JStr status) query)) else Inr query) (\<lambda>query.
     let since_id = text_param fr params ''since_id'' in
     let query = (if since_id \<noteq> [] then dict_set ''since_id'' (JStr since_id) query else query) in
     Inr (''GET'', ''orders.json'', None, query)))"

definition shopify_build_get_order :: "(rat \<Rightarrow> string) \<Rightarrow> jobj \<Rightarrow> request_spec result" where
  "shopify_build_get_order fr params =
     rbind (shopify_required fr params ''order_id'') (\<lambda>order_id.
     let path = ''orders/'' @ url_quote [] order_id @ ''.json'' in
     Inr (''GET'', path, None, []))"

definition shopify_BUILDERS :: "(rat \<Rightarrow> string) \<Rightarrow> (string, jobj \<Rightarrow> request_spec result) dict" where
  "shopify_BUILDERS fr =
     [(''list_products'', shopify_build_list_products fr),
      (''get_product'', shopify_build_get_product fr),
      (''create_product'', shopify_build_create_product fr),
      (''update_product'', shopify_build_update_product fr),
      (''list_orders'', shopify_build_list_orders fr),
      (''get_order'', shopify_build_get_order fr)]"

definition shopify_build_request :: "(rat \<Rightarrow> string) \<Rightarrow> string \<Rightarrow> jobj \<Rightarrow> request_spec result" where
  "shopify_build_request fr operation params =
     (case map_of (shopify_BUILDERS fr) operation of
        None \<Rightarrow> raise ValueError (''Shopify: unsupported operation '' @ repr_str operation)
      | Some builder \<Rightarrow> builder params)"

lemma shopify_coerce_limit_ok: "ensures (\<lambda>v. 1 \<le> v \<and> v \<le> 250) (shopify_coerce_limit raw)"
  unfolding shopify_coerce_limit_def
  by (rule ensures_rules | simp)+

lemma shopify_build_list_products_ok: "ensures (request_ok (Some 0)) (shopify_build_list_products fr params)"
  unfolding shopify_build_list_products_def
  by (rule shopify_coerce_limit_ok [THEN ensures_bind] shopify_coerce_limit_ok [THEN ensures_weaken] ensures_rules | simp add: request_ok_def METHODS_def)+

lemma shopify_required_ok: "ensures (\<lambda>_. True) (shopify_required fr params key)"
  unfolding shopify_required_def
  by (rule ensures_rules | simp)+

lemma shopify_build_get_product_ok: "ensures (request_ok (Some 1)) (shopify_build_get_product fr params)"
  unfolding shopify_build_get_product_def
  by (rule shopify_required_ok [THEN ensures_bind] shopify_required_ok [THEN ensures_weaken] ensures_rules | simp add: request_ok_def METHODS_def)+

lemma shopify_required_object_ok: "ensures (\<lambda>_. True) (shopify_required_object params key)"
  unfolding shopify_required_object_def
  by (rule ensures_rules | simp)+

lemma shopify_build_create_product_ok: "ensures (request_ok (Some 0)) (shopify_build_create_product fr params)"
  unfolding shopify_build_create_product_def
  by (rule shopify_required_object_ok [THEN ensures_bind] shopify_required_object_ok [THEN ensures_weaken] ensures_rules | simp add: request_ok_def METHODS_def)+

lemma shopify_build_update_product_ok: "ensures (request_ok (Some 1)) (shopify_build_update_product fr params)"
  unfolding shopify_build_update_product_def
  by (rule shopify_required_ok [THEN ensures_bind] shopify_required_ok [THEN ensures_weaken] shopify_required_object_ok [THEN ensures_bind] shopify_required_object_ok [THEN ensures_weaken] ensures_rules | simp add: request_ok_def METHODS_def)+

lemma shopify_build_list_orders_ok: "ensures (request_ok (Some 0)) (shopify_build_list_orders fr params)"
  unfolding shopify_build_list_orders_def
  by (rule shopify_coerce_limit_ok [THEN ensures_bind] shopify_coerce_limit_ok [THEN ensures_weaken] ensures_rules | simp add: request_ok_def METHODS_def)+

lemma shopify_build_get_order_ok: "ensures (request_ok (Some 1)) (shopify_build_get_order fr params)"
  unfolding shopify_build_get_order_def
  by (rule shopify_required_ok [THEN ensures_bind] shopify_required_ok [THEN ensures_weaken] ensures_rules | simp add: request_ok_def METHODS_def)+

definition shopify_shape :: "(string, nat option) dict" where
  "shopify_shape =
     [(''list_products'', Some 0), (''get_product'', Some 1), (''create_product'', Some 0),
         (''update_product'', Some 1), (''list_orders'', Some 0), (''get_order'', Some 1)]"

interpretation shopify: request_builder "shopify_build_request fr" shopify_shape for fr
  by (rule request_builder_table [OF shopify_build_request_def])
    (simp_all del: One_nat_def add: shopify_BUILDERS_def shopify_shape_def
      shopify_build_list_products_ok shopify_build_get_product_ok shopify_build_create_product_ok
      shopify_build_update_product_ok shopify_build_list_orders_ok shopify_build_get_order_ok)

section \<open>Slack\<close>

definition slack_required_channel :: "(rat \<Rightarrow> string) \<Rightarrow> jobj \<Rightarrow> string \<Rightarrow> string result" where
  "slack_required_channel fr params default_channel =
     (let channel = text_param fr params ''channel'' in
     let channel = (if channel = [] then py_strip default_channel else channel) in
     if channel = [] then raise ValueError
         ''Slack: 'channel' is required (either on the node or the credential)''
     else Inr channel)"

definition slack_coerce_blocks :: "json \<Rightarrow> jobj list result" where
  "slack_coerce_blocks raw =
     (if is_arr raw then Inr (map (\<lambda>b. obj_of b) (filter (\<lambda>b. is_obj b) (arr_of raw)))
     else if is_obj raw then Inr [obj_of raw]
     else raise ValueError ''Slack: 'blocks' must be a list of block objects'')"

definition slack_build_post_message :: "(rat \<Rightarrow> string) \<Rightarrow> jobj \<Rightarrow> string \<Rightarrow> (string \<times> string \<times> jobj) result" where
  "slack_build_post_message fr params default_channel =
     rbind (slack_required_channel fr params default_channel) (\<lambda>channel.
     let text = text_param fr params ''text'' in
     let blocks = dict_get params ''blocks'' JNull in
     if text = [] \<and> \<not> py_bool blocks then raise ValueError (''Slack: post_message requires 'text' or 'blocks''
         @ [CHR 0x27])
     else let body = [(''channel'', JStr channel)] in
     let body = (if text \<noteq> [] then dict_set ''text'' (JStr text) body else body) in
     rbind (if blocks \<noteq> JNull then (rbind (slack_coerce_blocks blocks) (\<lambda>r2.
       Inr (dict_set ''blocks'' (JArr (map JObj r2)) body))) else Inr body) (\<lambda>body.
     let thread_ts = text_param fr params ''thread_ts'' in
     let body = (if thread_ts \<noteq> [] then dict_set ''thread_ts'' (JStr thread_ts) body else body) in
     let body = (if map_of params ''as_markdown'' \<noteq> None then dict_set ''mrkdwn'' (JBool (py_bool (dict_get
         params ''as_markdown'' JNull))) body else body) in
     let body = (if map_of params ''unfurl_links'' \<noteq> None then dict_set ''unfurl_links'' (JBool (py_bool
         (dict_get params ''unfurl_links'' JNull))) body else body) in
     Inr (''POST'', ''chat.postMessage'', body)))"

definition slack_build_update_message :: "(rat \<Rightarrow> string) \<Rightarrow> jobj \<Rightarrow> string \<Rightarrow> (string \<times> string \<times> jobj) result"
    where
  "slack_build_update_message fr params default_channel =
     rbind (slack_required_channel fr params default_channel) (\<lambda>channel.
     let ts = text_param fr params ''ts'' in
     if ts = [] then raise ValueError ''Slack: update_message requires 'ts' (the message timestamp)''
     else let text = text_param fr params ''text'' in
     let blocks = dict_get params ''blocks'' JNull in
     if text = [] \<and> \<not> py_bool blocks then raise ValueError
         (''Slack: update_message requires 'text' or 'blocks'' @ [CHR 0x27])
     else let body = [(''channel'', JStr channel), (''ts'', JStr ts)] in
     let body = (if text \<noteq> [] then dict_set ''text'' (JStr text) body else body) in
     rbind (if blocks \<noteq> JNull then (rbind (slack_coerce_blocks blocks) (\<lambda>r2.
       Inr (dict_set ''blocks'' (JArr (map JObj r2)) body))) else Inr body) (\<lambda>body.
     Inr (''POST'', ''chat.update'', body)))"

definition slack_build_delete_message :: "(rat \<Rightarrow> string) \<Rightarrow> jobj \<Rightarrow> string \<Rightarrow> (string \<times> string \<times> jobj) result"
    where
  "slack_build_delete_message fr params default_channel =
     rbind (slack_required_channel fr params default_channel) (\<lambda>channel.
     let ts = text_param fr params ''ts'' in
     if ts = [] then raise ValueError ''Slack: delete_message requires 'ts' (the message timestamp)''
     else let body = [(''channel'', JStr channel), (''ts'', JStr ts)] in
     Inr (''POST'', ''chat.delete'', body))"

definition slack_coerce_limit :: "json \<Rightarrow> int result" where
  "slack_coerce_limit raw =
     (if raw = JNull \<or> raw = JStr [] then Inr 100
     else (case int_of_json raw of
       None \<Rightarrow> raise ValueError ''Slack: 'limit' must be an integer''
     | Some value \<Rightarrow>
       if value < 1 then raise ValueError ''Slack: 'limit' must be >= 1''
       else Inr (min value 1000)))"

definition slack_coerce_channel_types :: "(rat \<Rightarrow> string) \<Rightarrow> json \<Rightarrow> string list result" where
  "slack_coerce_channel_types fr raw =
     (if raw = JNull \<or> raw = JStr [] then Inr [''public_channel'']
     else rbind (if is_str raw then Inr (map (\<lambda>part. py_strip part) (filter (\<lambda>part. py_strip part \<noteq> [])
         (split_on CHR '','' (str_of raw)))) else (if is_arr raw then Inr (map (\<lambda>p. py_strip (py_str fr p))
         (filter (\<lambda>p. py_strip (py_str fr p) \<noteq> []) (arr_of raw)))
       else raise ValueError ''Slack: 'types' must be a string or a list of channel type slugs'')) (\<lambda>items.
     if items = [] then Inr [''public_channel'']
     else let allowed = [''public_channel'', ''private_channel'', ''im'', ''mpim''] in
     let bad = filter (\<lambda>t. t \<notin> set allowed) items in
     if bad \<noteq> [] then raise ValueError (''Slack: unknown channel types '' @ py_repr fr (JArr (map JStr bad)))
     else Inr items))"

definition slack_build_list_channels :: "(rat \<Rightarrow> string) \<Rightarrow> jobj \<Rightarrow> string \<Rightarrow> (string \<times> string \<times> jobj) result" where
  "slack_build_list_channels fr params default_channel =
     rbind (slack_coerce_limit (dict_get params ''limit'' JNull)) (\<lambda>limit.
     let types_raw = dict_get params ''types'' JNull in
     rbind (slack_coerce_channel_types fr types_raw) (\<lambda>types_list.
     let body = [(''limit'', JInt limit), (''types'', JStr (join '','' types_list))] in
     let cursor = text_param fr params ''cursor'' in
     let body = (if cursor \<noteq> [] then dict_set ''cursor'' (JStr cursor) body else body) in
     let body = (if map_of params ''exclude_archived'' \<noteq> None then dict_set ''exclude_archived'' (JBool
         (py_bool (dict_get params ''exclude_archived'' JNull))) body else body) in
     Inr (''POST'', ''conversations.list'', body)))"

definition slack_build_get_channel_history :: "(rat \<Rightarrow> string) \<Rightarrow> jobj \<Rightarrow> string \<Rightarrow> (string \<times> string \<times> jobj)
    result" where
  "slack_build_get_channel_history fr params default_channel =
     rbind (slack_required_channel fr params default_channel) (\<lambda>channel.
     rbind (slack_coerce_limit (dict_get params ''limit'' JNull)) (\<lambda>limit.
     let body = [(''channel'', JStr channel), (''limit'', JInt limit)] in
     let body = foldl (\<lambda>body window_key.
         let value = text_param fr params window_key in
         (if value \<noteq> [] then dict_set window_key (JStr value) body else body)) body [''oldest'', ''latest''] in
     let cursor = text_param fr params ''cursor'' in
     let body = (if cursor \<noteq> [] then dict_set ''cursor'' (JStr cursor) body else body) in
     let body = (if map_of params ''inclusive'' \<noteq> None then dict_set ''inclusive'' (JBool (py_bool (dict_get
         params ''inclusive'' JNull))) body else body) in
     Inr (''POST'', ''conversations.history'', body)))"

definition slack_build_add_reaction :: "(rat \<Rightarrow> string) \<Rightarrow> jobj \<Rightarrow> string \<Rightarrow> (string \<times> string \<times> jobj) result" where
  "slack_build_add_reaction fr params default_channel =
     rbind (slack_required_channel fr params default_channel) (\<lambda>channel.
     let ts = text_param fr params ''ts'' in
     if ts = [] then raise ValueError ''Slack: add_reaction requires 'ts' (the message timestamp)''
     else let emoji = rstrip_chars (\<lambda>c. c \<in> set '':'') (lstrip_chars (\<lambda>c. c \<in> set '':'') (text_param fr params
         ''emoji'')) in
     if emoji = [] then raise ValueError ''Slack: add_reaction requires 'emoji' (e.g. 'thumbsup')''
     else let body = [(''channel'', JStr channel), (''timestamp'', JStr ts), (''name'', JStr emoji)] in
     Inr (''POST'', ''reactions.add'', body))"

definition slack_build_list_users :: "(rat \<Rightarrow> string) \<Rightarrow> jobj \<Rightarrow> string \<Rightarrow> (string \<times> string \<times> jobj) result" where
  "slack_build_list_users fr params default_channel =
     rbind (slack_coerce_limit (dict_get params ''limit'' JNull)) (\<lambda>limit.
     let body = [(''limit'', JInt limit)] in
     let cursor = text_param fr params ''cursor'' in
     let body = (if cursor \<noteq> [] then dict_set ''cursor'' (JStr cursor) body else body) in
     let body = (if map_of params ''include_locale'' \<noteq> None then dict_set ''include_locale'' (JBool (py_bool
         (dict_get params ''include_locale'' JNull))) body else body) in
     Inr (''POST'', ''users.list'', body))"

definition slack_BUILDERS :: "(rat \<Rightarrow> string) \<Rightarrow> (string, jobj \<Rightarrow> string \<Rightarrow> (string \<times> string \<times> jobj) result) dict"
    where
  "slack_BUILDERS fr =
     [(''post_message'', slack_build_post_message fr),
      (''update_message'', slack_build_update_message fr),
      (''delete_message'', slack_build_delete_message fr),
      (''list_channels'', slack_build_list_channels fr),
      (''get_channel_history'', slack_build_get_channel_history fr),
      (''add_reaction'', slack_build_add_reaction fr),
      (''list_users'', slack_build_list_users fr)]"

definition slack_build_request :: "(rat \<Rightarrow> string) \<Rightarrow> string \<Rightarrow> jobj \<Rightarrow> string \<Rightarrow> (string \<times> string \<times> jobj) result"
    where
  "slack_build_request fr operation params default_channel =
     (case map_of (slack_BUILDERS fr) operation of
        None \<Rightarrow> raise ValueError (''Slack: unsupported operation '' @ repr_str operation)
      | Some builder \<Rightarrow> builder params default_channel)"

lemma slack_required_channel_ok: "ensures (\<lambda>_. True) (slack_required_channel fr params default_channel)"
  unfolding slack_required_channel_def
  by (rule ensures_rules | simp)+

lemma slack_coerce_blocks_ok: "ensures (\<lambda>_. True) (slack_coerce_blocks raw)"
  unfolding slack_coerce_blocks_def
  by (rule ensures_rules | simp)+

lemma slack_build_post_message_ok: "ensures (request_ok (Some 0)) (slack_build_post_message fr params default_channel)"
  unfolding slack_build_post_message_def
  by (rule slack_required_channel_ok [THEN ensures_bind] slack_required_channel_ok [THEN ensures_weaken] slack_coerce_blocks_ok [THEN ensures_bind] slack_coerce_blocks_ok [THEN ensures_weaken] ensures_rules | simp add: request_ok_def METHODS_def)+

lemma slack_build_update_message_ok: "ensures (request_ok (Some 0)) (slack_build_update_message fr params default_channel)"
  unfolding slack_build_update_message_def
  by (rule slack_required_channel_ok [THEN ensures_bind] slack_required_channel_ok [THEN ensures_weaken] slack_coerce_blocks_ok [THEN ensures_bind] slack_coerce_blocks_ok [THEN ensures_weaken] ensures_rules | simp add: request_ok_def METHODS_def)+

lemma slack_build_delete_message_ok: "ensures (request_ok (Some 0)) (slack_build_delete_message fr params default_channel)"
  unfolding slack_build_delete_message_def
  by (rule slack_required_channel_ok [THEN ensures_bind] slack_required_channel_ok [THEN ensures_weaken] ensures_rules | simp add: request_ok_def METHODS_def)+

lemma slack_coerce_limit_ok: "ensures (\<lambda>v. 1 \<le> v \<and> v \<le> 1000) (slack_coerce_limit raw)"
  unfolding slack_coerce_limit_def
  by (rule ensures_rules | simp)+

lemma slack_coerce_channel_types_ok: "ensures (\<lambda>_. True) (slack_coerce_channel_types fr raw)"
  unfolding slack_coerce_channel_types_def
  by (rule ensures_rules | simp)+

lemma slack_build_list_channels_ok: "ensures (request_ok (Some 0)) (slack_build_list_channels fr params default_channel)"
  unfolding slack_build_list_channels_def
  by (rule slack_coerce_limit_ok [THEN ensures_bind] slack_coerce_limit_ok [THEN ensures_weaken] slack_coerce_channel_types_ok [THEN ensures_bind] slack_coerce_channel_types_ok [THEN ensures_weaken] ensures_rules | simp add: request_ok_def METHODS_def)+

lemma slack_build_get_channel_history_ok: "ensures (request_ok (Some 0)) (slack_build_get_channel_history fr params default_channel)"
  unfolding slack_build_get_channel_history_def
  by (rule slack_required_channel_ok [THEN ensures_bind] slack_required_channel_ok [THEN ensures_weaken] slack_coerce_limit_ok [THEN ensures_bind] slack_coerce_limit_ok [THEN ensures_weaken] ensures_rules | simp add: request_ok_def METHODS_def)+

lemma slack_build_add_reaction_ok: "ensures (request_ok (Some 0)) (slack_build_add_reaction fr params default_channel)"
  unfolding slack_build_add_reaction_def
  by (rule slack_required_channel_ok [THEN ensures_bind] slack_required_channel_ok [THEN ensures_weaken] ensures_rules | simp add: request_ok_def METHODS_def)+

lemma slack_build_list_users_ok: "ensures (request_ok (Some 0)) (slack_build_list_users fr params default_channel)"
  unfolding slack_build_list_users_def
  by (rule slack_coerce_limit_ok [THEN ensures_bind] slack_coerce_limit_ok [THEN ensures_weaken] ensures_rules | simp add: request_ok_def METHODS_def)+

definition slack_shape :: "(string, nat option) dict" where
  "slack_shape =
     [(''post_message'', Some 0), (''update_message'', Some 0), (''delete_message'', Some 0),
         (''list_channels'', Some 0), (''get_channel_history'', Some 0), (''add_reaction'', Some 0),
         (''list_users'', Some 0)]"

interpretation slack: request_builder "\<lambda>operation params. slack_build_request fr operation params default_channel" slack_shape for fr default_channel
  by (rule request_builder_table [OF slack_build_request_def])
    (simp_all del: One_nat_def add: slack_BUILDERS_def slack_shape_def
      slack_build_post_message_ok slack_build_update_message_ok slack_build_delete_message_ok
      slack_build_list_channels_ok slack_build_get_channel_history_ok slack_build_add_reaction_ok
      slack_build_list_users_ok)

section \<open>Snowflake\<close>

definition snowflake_required :: "(rat \<Rightarrow> string) \<Rightarrow> jobj \<Rightarrow> string \<Rightarrow> string result" where
  "snowflake_required fr params key =
     (let value = text_param fr params key in
     if value = [] then raise ValueError (''Snowflake: '' @ repr_str key @ '' is required'')
     else Inr value)"

definition snowflake_coerce_bool :: "(rat \<Rightarrow> string) \<Rightarrow> json \<Rightarrow> bool result" where
  "snowflake_coerce_bool fr raw =
     (if is_bool raw then Inr (py_bool raw)
     else if is_blank raw then Inr False
     else let text = py_lower (py_strip (py_str fr raw)) in
     if text \<in> set [''true'', ''1'', ''yes''] then Inr True
     else if text \<in> set [''false'', ''0'', ''no''] then Inr False
     else raise ValueError (''Snowflake: boolean flag must be true/false, got '' @ py_repr fr raw))"

definition snowflake_coerce_non_negative_int :: "json \<Rightarrow> string \<Rightarrow> int result" where
  "snowflake_coerce_non_negative_int raw field =
     (case int_of_json raw of
       None \<Rightarrow> raise ValueError (''Snowflake: '' @ repr_str field @ '' must be a non-negative integer'')
     | Some value \<Rightarrow>
       Inr (max 0 value))"

definition snowflake_stringify :: "(rat \<Rightarrow> string) \<Rightarrow> json \<Rightarrow> string" where
  "snowflake_stringify fr value =
     (if is_bool value then (if py_bool value then ''true'' else ''false'')
     else py_str fr value)"

definition snowflake_infer_type :: "json \<Rightarrow> string" where
  "snowflake_infer_type value =
     (if is_bool value then ''BOOLEAN''
     else if is_int value then ''FIXED''
     else if is_float value then ''REAL''
     else ''TEXT'')"

definition snowflake_coerce_bindings :: "(rat \<Rightarrow> string) \<Rightarrow> json \<Rightarrow> jobj result" where
  "snowflake_coerce_bindings fr raw =
     (if \<not> is_obj raw then raise ValueError ''Snowflake: 'bindings' must be a JSON object keyed by position''
     else let normalized = ([] :: jobj) in
     rbind (rfold (\<lambda>normalized (key, value).
         let str_key = py_strip key in
         if str_key = [] then raise ValueError ''Snowflake: bindings keys must be non-empty strings''
         else if is_obj value then (if map_of (obj_of value) ''type'' = None \<or> map_of (obj_of value) ''value''
             = None then raise ValueError ''Snowflake: each binding must be a {'type', 'value'} pair''
           else rbind (lookup (obj_of value) ''type'') (\<lambda>r1.
           rbind (lookup (obj_of value) ''value'') (\<lambda>r2.
           Inr (dict_set str_key (JObj [(''type'', JStr (py_str fr r1)), (''value'', JStr (snowflake_stringify
               fr r2))]) normalized)))) else Inr (dict_set str_key (JObj [(''type'', JStr (snowflake_infer_type
               value)), (''value'', JStr (snowflake_stringify fr value))]) normalized)) normalized (obj_of
               raw)) (\<lambda>normalized.
     Inr normalized))"

definition snowflake_build_execute :: "(rat \<Rightarrow> string) \<Rightarrow> jobj \<Rightarrow> request_spec result" where
  "snowflake_build_execute fr params =
     rbind (snowflake_required fr params ''statement'') (\<lambda>statement.
     let body = [(''statement'', JStr statement)] in
     let warehouse = text_param fr params ''warehouse'' in
     let body = (if warehouse \<noteq> [] then dict_set ''warehouse'' (JStr warehouse) body else body) in
     let database = text_param fr params ''database'' in
     let body = (if database \<noteq> [] then dict_set ''database'' (JStr database) body else body) in
     let schema = text_param fr params ''schema'' in
     let body = (if schema \<noteq> [] then dict_set ''schema'' (JStr schema) body else body) in
     let role = text_param fr params ''role'' in
     let body = (if role \<noteq> [] then dict_set ''role'' (JStr role) body else body) in
     let timeout = dict_get params ''timeout'' JNull in
     rbind (if timeout \<noteq> JNull \<and> timeout \<noteq> JStr [] then (rbind (snowflake_coerce_non_negative_int timeout
         ''timeout'') (\<lambda>r2.
       Inr (dict_set ''timeout'' (JInt r2) body))) else Inr body) (\<lambda>body.
     let bindings = dict_get params ''bindings'' JNull in
     rbind (if bindings \<noteq> JNull then (rbind (snowflake_coerce_bindings fr bindings) (\<lambda>r3.
       Inr (dict_set ''bindings'' (JObj r3) body))) else Inr body) (\<lambda>body.
     let query = ([] :: jobj) in
     rbind (snowflake_coerce_bool fr (dict_get params ''async_exec'' JNull)) (\<lambda>r4.
     let query = (if r4 then dict_set ''async'' (JStr ''true'') query else query) in
     let request_id = text_param fr params ''request_id'' in
     let query = (if request_id \<noteq> [] then dict_set ''requestId'' (JStr request_id) query else query) in
     Inr (''POST'', ''/api/v2/statements'', Some body, query)))))"

definition snowflake_coerce_fetch_rows :: "json \<Rightarrow> int result" where
  "snowflake_coerce_fetch_rows raw =
     (if is_blank raw then Inr 10000
     else (case int_of_json raw of
       None \<Rightarrow> raise ValueError ''Snowflake: 'page_size' must be a positive integer''
     | Some value \<Rightarrow>
       if value < 1 then raise ValueError ''Snowflake: 'page_size' must be >= 1''
       else Inr (min value 100000)))"

definition snowflake_build_get_status :: "(rat \<Rightarrow> string) \<Rightarrow> jobj \<Rightarrow> request_spec result" where
  "snowflake_build_get_status fr params =
     rbind (snowflake_required fr params ''statement_handle'') (\<lambda>handle.
     let query = ([] :: jobj) in
     let partition = dict_get params ''partition'' JNull in
     rbind (if partition \<noteq> JNull \<and> partition \<noteq> JStr [] then (rbind (snowflake_coerce_non_negative_int partition
         ''partition'') (\<lambda>r2.
       Inr (dict_set ''partition'' (JInt r2) query))) else Inr query) (\<lambda>query.
     let page_size = dict_get params ''page_size'' JNull in
     rbind (if \<not> is_blank page_size then (rbind (snowflake_coerce_fetch_rows page_size) (\<lambda>r3.
       Inr (dict_set ''pageSize'' (JInt r3) query))) else Inr query) (\<lambda>query.
     Inr (''GET'', ''/api/v2/statements/'' @ url_quote [] handle, None, query))))"

definition snowflake_build_cancel :: "(rat \<Rightarrow> string) \<Rightarrow> jobj \<Rightarrow> request_spec result" where
  "snowflake_build_cancel fr params =
     rbind (snowflake_required fr params ''statement_handle'') (\<lambda>handle.
     let path = ''/api/v2/statements/'' @ url_quote [] handle @ ''/cancel'' in
     Inr (''POST'', path, None, []))"

definition snowflake_BUILDERS :: "(rat \<Rightarrow> string) \<Rightarrow> (string, jobj \<Rightarrow> request_spec result) dict" where
  "snowflake_BUILDERS fr =
     [(''execute'', snowflake_build_execute fr),
      (''get_status'', snowflake_build_get_status fr),
      (''cancel'', snowflake_build_cancel fr)]"

definition snowflake_build_request :: "(rat \<Rightarrow> string) \<Rightarrow> string \<Rightarrow> jobj \<Rightarrow> request_spec result" where
  "snowflake_build_request fr operation params =
     (case map_of (snowflake_BUILDERS fr) operation of
        None \<Rightarrow> raise ValueError (''Snowflake: unsupported operation '' @ repr_str operation)
      | Some builder \<Rightarrow> builder params)"

lemma snowflake_required_ok: "ensures (\<lambda>_. True) (snowflake_required fr params key)"
  unfolding snowflake_required_def
  by (rule ensures_rules | simp)+

lemma snowflake_coerce_bool_ok: "ensures (\<lambda>_. True) (snowflake_coerce_bool fr raw)"
  unfolding snowflake_coerce_bool_def
  by (rule ensures_rules | simp)+

lemma snowflake_coerce_non_negative_int_ok: "ensures (\<lambda>v. 0 \<le> v) (snowflake_coerce_non_negative_int raw field)"
  unfolding snowflake_coerce_non_negative_int_def
  by (rule ensures_rules | simp)+

lemma snowflake_infer_type_ok: "slashes (snowflake_infer_type value) = 0"
  by (simp add: snowflake_infer_type_def Let_def)

lemma snowflake_coerce_bindings_ok: "ensures (\<lambda>_. True) (snowflake_coerce_bindings fr raw)"
  unfolding snowflake_coerce_bindings_def
  by (rule ensures_rules | simp add: snowflake_infer_type_ok)+

lemma snowflake_build_execute_ok: "ensures (request_ok (Some 3)) (snowflake_build_execute fr params)"
  unfolding snowflake_build_execute_def
  by (rule snowflake_required_ok [THEN ensures_bind] snowflake_required_ok [THEN ensures_weaken] snowflake_coerce_bool_ok [THEN ensures_bind] snowflake_coerce_bool_ok [THEN ensures_weaken] snowflake_coerce_non_negative_int_ok [THEN ensures_bind] snowflake_coerce_non_negative_int_ok [THEN ensures_weaken] snowflake_coerce_bindings_ok [THEN ensures_bind] snowflake_coerce_bindings_ok [THEN ensures_weaken] ensures_rules | simp add: request_ok_def METHODS_def)+

lemma snowflake_coerce_fetch_rows_ok: "ensures (\<lambda>v. 1 \<le> v \<and> v \<le> 100000) (snowflake_coerce_fetch_rows raw)"
  unfolding snowflake_coerce_fetch_rows_def
  by (rule ensures_rules | simp)+

lemma snowflake_build_get_status_ok: "ensures (request_ok (Some 4)) (snowflake_build_get_status fr params)"
  unfolding snowflake_build_get_status_def
  by (rule snowflake_required_ok [THEN ensures_bind] snowflake_required_ok [THEN ensures_weaken] snowflake_coerce_non_negative_int_ok [THEN ensures_bind] snowflake_coerce_non_negative_int_ok [THEN ensures_weaken] snowflake_coerce_fetch_rows_ok [THEN ensures_bind] snowflake_coerce_fetch_rows_ok [THEN ensures_weaken] ensures_rules | simp add: request_ok_def METHODS_def)+

lemma snowflake_build_cancel_ok: "ensures (request_ok (Some 5)) (snowflake_build_cancel fr params)"
  unfolding snowflake_build_cancel_def
  by (rule snowflake_required_ok [THEN ensures_bind] snowflake_required_ok [THEN ensures_weaken] ensures_rules | simp add: request_ok_def METHODS_def)+

definition snowflake_shape :: "(string, nat option) dict" where
  "snowflake_shape =
     [(''execute'', Some 3), (''get_status'', Some 4), (''cancel'', Some 5)]"

interpretation snowflake: request_builder "snowflake_build_request fr" snowflake_shape for fr
  by (rule request_builder_table [OF snowflake_build_request_def])
    (simp_all del: One_nat_def add: snowflake_BUILDERS_def snowflake_shape_def
      snowflake_build_execute_ok snowflake_build_get_status_ok snowflake_build_cancel_ok)

section \<open>Telegram\<close>

definition telegram_required_chat_id :: "(rat \<Rightarrow> string) \<Rightarrow> jobj \<Rightarrow> json result" where
  "telegram_required_chat_id fr params =
     (let raw = dict_get params ''chat_id'' JNull in
     if raw = JNull \<or> raw = JStr [] then raise ValueError ''Telegram: 'chat_id' is required''
     else if is_bool raw then raise ValueError ''Telegram: 'chat_id' must be a string or integer''
     else if is_int raw then Inr raw
     else let text = py_strip (py_str fr raw) in
     if text = [] then raise ValueError ''Telegram: 'chat_id' is required''
     else Inr (JStr text))"

definition telegram_apply_parse_mode :: "(rat \<Rightarrow> string) \<Rightarrow> jobj \<Rightarrow> jobj \<Rightarrow> jobj result" where
  "telegram_apply_parse_mode fr body params =
     (let parse_mode = text_param fr params ''parse_mode'' in
     if parse_mode \<noteq> [] then (if parse_mode \<notin> set [''Markdown'', ''MarkdownV2'', ''HTML''] then raise
         ValueError (''Telegram: invalid parse_mode '' @ repr_str parse_mode)
       else Inr (dict_set ''parse_mode'' (JStr parse_mode) body)) else Inr body)"

definition telegram_apply_optional_bool :: "jobj \<Rightarrow> jobj \<Rightarrow> string \<Rightarrow> jobj" where
  "telegram_apply_optional_bool body params field =
     (let value = dict_get params field JNull in
     (if is_bool value then dict_set field value body else body))"

definition telegram_coerce_int :: "json \<Rightarrow> string \<Rightarrow> int result" where
  "telegram_coerce_int raw field =
     (case int_of_json raw of
       None \<Rightarrow> raise ValueError (''Telegram: '' @ repr_str field @ '' must be an integer'')
     | Some number \<Rightarrow>
       Inr number)"

definition telegram_coerce_positive_int :: "json \<Rightarrow> string \<Rightarrow> int result" where
  "telegram_coerce_positive_int raw field =
     rbind (telegram_coerce_int raw field) (\<lambda>value.
     if value < 1 then raise ValueError (''Telegram: '' @ repr_str field @ '' must be >= 1'')
     else Inr value)"

definition telegram_build_send_message :: "(rat \<Rightarrow> string) \<Rightarrow> jobj \<Rightarrow> (string \<times> jobj) result" where
  "telegram_build_send_message fr params =
     rbind (telegram_required_chat_id fr params) (\<lambda>chat_id.
     let text = py_str fr (param_or params ''text'' (JStr [])) in
     if py_strip text = [] then raise ValueError ''Telegram: 'text' is required for send_message''
     else if 4096 < (int (length text)) then raise ValueError
         ''Telegram: 'text' must be at most 4096 characters''
     else let body = [(''chat_id'', chat_id), (''text'', JStr text)] in
     rbind (telegram_apply_parse_mode fr body params) (\<lambda>body.
     let body = telegram_apply_optional_bool body params ''disable_notification'' in
     let body = telegram_apply_optional_bool body params ''disable_web_page_preview'' in
     let reply_to = dict_get params ''reply_to_message_id'' JNull in
     rbind (if \<not> is_blank reply_to then (rbind (telegram_coerce_positive_int reply_to ''reply_to_message_id'')
         (\<lambda>r2.
       Inr (dict_set ''reply_to_message_id'' (JInt r2) body))) else Inr body) (\<lambda>body.
     Inr (''sendMessage'', body))))"

definition telegram_build_send_photo :: "(rat \<Rightarrow> string) \<Rightarrow> jobj \<Rightarrow> (string \<times> jobj) result" where
  "telegram_build_send_photo fr params =
     rbind (telegram_required_chat_id fr params) (\<lambda>chat_id.
     let photo = text_param fr params ''photo'' in
     if photo = [] then raise ValueError ''Telegram: 'photo' (URL or file_id) is required for send_photo''
     else let body = [(''chat_id'', chat_id), (''photo'', JStr photo)] in
     let caption = py_str fr (param_or params ''caption'' (JStr [])) in
     rbind (if caption \<noteq> [] then (if 1024 < (int (length caption)) then raise ValueError
         ''Telegram: 'caption' must be at most 1024 characters''
       else Inr (dict_set ''caption'' (JStr caption) body)) else Inr body) (\<lambda>body.
     rbind (telegram_apply_parse_mode fr body params) (\<lambda>body.
     let body = telegram_apply_optional_bool body params ''disable_notification'' in
     Inr (''sendPhoto'', body))))"

definition telegram_build_edit_message_text :: "(rat \<Rightarrow> string) \<Rightarrow> jobj \<Rightarrow> (string \<times> jobj) result" where
  "telegram_build_edit_message_text fr params =
     rbind (telegram_required_chat_id fr params) (\<lambda>chat_id.
     let message_id = dict_get params ''message_id'' JNull in
     if is_blank message_id then raise ValueError ''Telegram: 'message_id' is required for edit_message_text''
     else let text = py_str fr (param_or params ''text'' (JStr [])) in
     if py_strip text = [] then raise ValueError ''Telegram: 'text' is required for edit_message_text''
     else rbind (telegram_coerce_positive_int message_id ''message_id'') (\<lambda>r2.
     let body = [(''chat_id'', chat_id), (''message_id'', JInt r2), (''text'', JStr text)] in
     rbind (telegram_apply_parse_mode fr body params) (\<lambda>body.
     Inr (''editMessageText'', body))))"

definition telegram_build_delete_message :: "(rat \<Rightarrow> string) \<Rightarrow> jobj \<Rightarrow> (string \<times> jobj) result" where
  "telegram_build_delete_message fr params =
     rbind (telegram_required_chat_id fr params) (\<lambda>chat_id.
     let message_id = dict_get params ''message_id'' JNull in
     if is_blank message_id then raise ValueError ''Telegram: 'message_id' is required for delete_message''
     else rbind (telegram_coerce_positive_int message_id ''message_id'') (\<lambda>r2.
     Inr (''deleteMessage'', [(''chat_id'', chat_id), (''message_id'', JInt r2)])))"

definition telegram_build_get_updates :: "jobj \<Rightarrow> (string \<times> jobj) result" where
  "telegram_build_get_updates params =
     (let body = ([] :: jobj) in
     let offset = dict_get params ''offset'' JNull in
     rbind (if \<not> is_blank offset then (rbind (telegram_coerce_int offset ''offset'') (\<lambda>r1.
       Inr (dict_set ''offset'' (JInt r1) body))) else Inr body) (\<lambda>body.
     let limit = dict_get params ''limit'' JNull in
     rbind (if \<not> is_blank limit then (rbind (telegram_coerce_positive_int limit ''limit'') (\<lambda>r2.
       Inr (dict_set ''limit'' (JInt (max 1 (min 100 r2))) body))) else Inr body) (\<lambda>body.
     let timeout = dict_get params ''long_poll_timeout'' JNull in
     rbind (if \<not> is_blank timeout then (rbind (telegram_coerce_positive_int timeout ''long_poll_timeout'') (\<lambda>r3.
       Inr (dict_set ''timeout'' (JInt r3) body))) else Inr body) (\<lambda>body.
     Inr (''getUpdates'', body)))))"

definition telegram_BUILDERS :: "(rat \<Rightarrow> string) \<Rightarrow> (string, jobj \<Rightarrow> (string \<times> jobj) result) dict" where
  "telegram_BUILDERS fr =
     [(''send_message'', telegram_build_send_message fr),
      (''send_photo'', telegram_build_send_photo fr),
      (''edit_message_text'', telegram_build_edit_message_text fr),
      (''delete_message'', telegram_build_delete_message fr),
      (''get_updates'', telegram_build_get_updates)]"

definition telegram_build_request :: "(rat \<Rightarrow> string) \<Rightarrow> string \<Rightarrow> jobj \<Rightarrow> (string \<times> jobj) result" where
  "telegram_build_request fr operation params =
     (case map_of (telegram_BUILDERS fr) operation of
        None \<Rightarrow> raise ValueError (''Telegram: unsupported operation '' @ repr_str operation)
      | Some builder \<Rightarrow> builder params)"

lemma telegram_required_chat_id_ok: "ensures (\<lambda>_. True) (telegram_required_chat_id fr params)"
  unfolding telegram_required_chat_id_def
  by (rule ensures_rules | simp)+

lemma telegram_apply_parse_mode_ok: "ensures (\<lambda>_. True) (telegram_apply_parse_mode fr body params)"
  unfolding telegram_apply_parse_mode_def
  by (rule ensures_rules | simp)+

lemma telegram_coerce_int_ok: "ensures (\<lambda>_. True) (telegram_coerce_int raw field)"
  unfolding telegram_coerce_int_def
  by (rule ensures_rules | simp)+

lemma telegram_coerce_positive_int_ok: "ensures (\<lambda>v. 1 \<le> v) (telegram_coerce_positive_int raw field)"
  unfolding telegram_coerce_positive_int_def
  by (rule telegram_coerce_int_ok [THEN ensures_bind] telegram_coerce_int_ok [THEN ensures_weaken] ensures_rules | simp)+

lemma telegram_build_send_message_ok: "ensures (\<lambda>_. True) (telegram_build_send_message fr params)"
  unfolding telegram_build_send_message_def
  by (rule telegram_required_chat_id_ok [THEN ensures_bind] telegram_required_chat_id_ok [THEN ensures_weaken] telegram_apply_parse_mode_ok [THEN ensures_bind] telegram_apply_parse_mode_ok [THEN ensures_weaken] telegram_coerce_positive_int_ok [THEN ensures_bind] telegram_coerce_positive_int_ok [THEN ensures_weaken] ensures_rules | simp)+

lemma telegram_build_send_photo_ok: "ensures (\<lambda>_. True) (telegram_build_send_photo fr params)"
  unfolding telegram_build_send_photo_def
  by (rule telegram_required_chat_id_ok [THEN ensures_bind] telegram_required_chat_id_ok [THEN ensures_weaken] telegram_apply_parse_mode_ok [THEN ensures_bind] telegram_apply_parse_mode_ok [THEN ensures_weaken] ensures_rules | simp)+

lemma telegram_build_edit_message_text_ok: "ensures (\<lambda>_. True) (telegram_build_edit_message_text fr params)"
  unfolding telegram_build_edit_message_text_def
  by (rule telegram_required_chat_id_ok [THEN ensures_bind] telegram_required_chat_id_ok [THEN ensures_weaken] telegram_apply_parse_mode_ok [THEN ensures_bind] telegram_apply_parse_mode_ok [THEN ensures_weaken] telegram_coerce_positive_int_ok [THEN ensures_bind] telegram_coerce_positive_int_ok [THEN ensures_weaken] ensures_rules | simp)+

lemma telegram_build_delete_message_ok: "ensures (\<lambda>_. True) (telegram_build_delete_message fr params)"
  unfolding telegram_build_delete_message_def
  by (rule telegram_required_chat_id_ok [THEN ensures_bind] telegram_required_chat_id_ok [THEN ensures_weaken] telegram_coerce_positive_int_ok [THEN ensures_bind] telegram_coerce_positive_int_ok [THEN ensures_weaken] ensures_rules | simp)+

lemma telegram_build_get_updates_ok: "ensures (\<lambda>_. True) (telegram_build_get_updates params)"
  unfolding telegram_build_get_updates_def
  by (rule telegram_coerce_int_ok [THEN ensures_bind] telegram_coerce_int_ok [THEN ensures_weaken] telegram_coerce_positive_int_ok [THEN ensures_bind] telegram_coerce_positive_int_ok [THEN ensures_weaken] ensures_rules | simp)+


section \<open>Twilio\<close>

definition twilio_required :: "(rat \<Rightarrow> string) \<Rightarrow> jobj \<Rightarrow> string \<Rightarrow> string result" where
  "twilio_required fr params key =
     (let value = text_param fr params key in
     if value = [] then raise ValueError (''Twilio: '' @ repr_str key @ '' is required'')
     else Inr value)"

definition twilio_coerce_string_list :: "(rat \<Rightarrow> string) \<Rightarrow> json \<Rightarrow> string \<Rightarrow> string list result" where
  "twilio_coerce_string_list fr raw field =
     (if raw = JNull \<or> raw = JStr [] then Inr []
     else if is_str raw then Inr (map (\<lambda>part. py_strip part) (filter (\<lambda>part. py_strip part \<noteq> []) (split_on CHR
         '','' (str_of raw))))
     else if is_arr raw then Inr (map (\<lambda>part. py_strip (py_str fr part)) (filter (\<lambda>part. py_strip (py_str fr
         part) \<noteq> []) (arr_of raw)))
     else raise ValueError (''Twilio: '' @ repr_str field @ '' must be a string or list of strings''))"

definition twilio_build_send_sms :: "(rat \<Rightarrow> string) \<Rightarrow> jobj \<Rightarrow> (string \<times> string \<times> ((string \<times> string) list option)
    \<times> jobj) result" where
  "twilio_build_send_sms fr params =
     rbind (twilio_required fr params ''to'') (\<lambda>to.
     rbind (twilio_required fr params ''body'') (\<lambda>body.
     let from_number = text_param fr params ''from'' in
     let messaging_service_sid = text_param fr params ''messaging_service_sid'' in
     if from_number = [] \<and> messaging_service_sid = [] then raise ValueError
         ''Twilio: either 'from' or 'messaging_service_sid' is required''
     else let fields = [(''To'', to), (''Body'', body)] in
     let fields = (if from_number \<noteq> [] then fields @ [(''From'', from_number)] else fields) in
     let fields = (if messaging_service_sid \<noteq> [] then fields @ [(''MessagingServiceSid'',
         messaging_service_sid)] else fields) in
     rbind (twilio_coerce_string_list fr (dict_get params ''media_urls'' JNull) ''media_urls'') (\<lambda>media_urls.
     let fields = fields @ (map (\<lambda>url. (''MediaUrl'', url)) media_urls) in
     Inr (''POST'', ''Messages.json'', Some fields, []))))"

definition twilio_build_get_message :: "(rat \<Rightarrow> string) \<Rightarrow> jobj \<Rightarrow> (string \<times> string \<times> ((string \<times> string) list
    option) \<times> jobj) result" where
  "twilio_build_get_message fr params =
     rbind (twilio_required fr params ''message_sid'') (\<lambda>sid.
     let path = ''Messages/'' @ url_quote [] sid @ ''.json'' in
     Inr (''GET'', path, None, []))"

definition twilio_coerce_limit :: "json \<Rightarrow> int result" where
  "twilio_coerce_limit raw =
     (if is_blank raw then Inr 20
     else (case int_of_json raw of
       None \<Rightarrow> raise ValueError ''Twilio: 'page_size' must be a positive integer''
     | Some value \<Rightarrow>
       if value < 1 then raise ValueError ''Twilio: 'page_size' must be >= 1''
       else Inr (min value 1000)))"

definition twilio_build_list_messages :: "(rat \<Rightarrow> string) \<Rightarrow> jobj \<Rightarrow> (string \<times> string \<times> ((string \<times> string) list
    option) \<times> jobj) result" where
  "twilio_build_list_messages fr params =
     rbind (twilio_coerce_limit (dict_get params ''page_size'' JNull)) (\<lambda>r1.
     let query = [(''PageSize'', JInt r1)] in
     let to = text_param fr params ''to'' in
     let query = (if to \<noteq> [] then dict_set ''To'' (JStr to) query else query) in
     let from_number = text_param fr params ''from'' in
     let query = (if from_number \<noteq> [] then dict_set ''From'' (JStr from_number) query else query) in
     let date_sent = text_param fr params ''date_sent'' in
     let query = (if date_sent \<noteq> [] then dict_set ''DateSent'' (JStr date_sent) query else query) in
     Inr (''GET'', ''Messages.json'', None, query))"

definition twilio_build_delete_message :: "(rat \<Rightarrow> string) \<Rightarrow> jobj \<Rightarrow> (string \<times> string \<times> ((string \<times> string) list
    option) \<times> jobj) result" where
  "twilio_build_delete_message fr params =
     rbind (twilio_required fr params ''message_sid'') (\<lambda>sid.
     let path = ''Messages/'' @ url_quote [] sid @ ''.json'' in
     Inr (''DELETE'', path, None, []))"

definition twilio_BUILDERS :: "(rat \<Rightarrow> string) \<Rightarrow> (string, jobj \<Rightarrow> (string \<times> string \<times> ((string \<times> string) list
    option) \<times> jobj) result) dict" where
  "twilio_BUILDERS fr =
     [(''send_sms'', twilio_build_send_sms fr),
      (''get_message'', twilio_build_get_message fr),
      (''list_messages'', twilio_build_list_messages fr),
      (''delete_message'', twilio_build_delete_message fr)]"

definition twilio_build_request :: "(rat \<Rightarrow> string) \<Rightarrow> string \<Rightarrow> jobj \<Rightarrow> (string \<times> string \<times> ((string \<times> string) list
    option) \<times> jobj) result" where
  "twilio_build_request fr operation params =
     (case map_of (twilio_BUILDERS fr) operation of
        None \<Rightarrow> raise ValueError (''Twilio: unsupported operation '' @ repr_str operation)
      | Some builder \<Rightarrow> builder params)"

lemma twilio_required_ok: "ensures (\<lambda>_. True) (twilio_required fr params key)"
  unfolding twilio_required_def
  by (rule ensures_rules | simp)+

lemma twilio_coerce_string_list_ok: "ensures (\<lambda>_. True) (twilio_coerce_string_list fr raw field)"
  unfolding twilio_coerce_string_list_def
  by (rule ensures_rules | simp)+

lemma twilio_build_send_sms_ok: "ensures (request_ok (Some 0)) (twilio_build_send_sms fr params)"
  unfolding twilio_build_send_sms_def
  by (rule twilio_required_ok [THEN ensures_bind] twilio_required_ok [THEN ensures_weaken] twilio_coerce_string_list_ok [THEN ensures_bind] twilio_coerce_string_list_ok [THEN ensures_weaken] ensures_rules | simp add: request_ok_def METHODS_def)+

lemma twilio_build_get_message_ok: "ensures (request_ok (Some 1)) (twilio_build_get_message fr params)"
  unfolding twilio_build_get_message_def
  by (rule twilio_required_ok [THEN ensures_bind] twilio_required_ok [THEN ensures_weaken] ensures_rules | simp add: request_ok_def METHODS_def)+

lemma twilio_coerce_limit_ok: "ensures (\<lambda>v. 1 \<le> v \<and> v \<le> 1000) (twilio_coerce_limit raw)"
  unfolding twilio_coerce_limit_def
  by (rule ensures_rules | simp)+

lemma twilio_build_list_messages_ok: "ensures (request_ok (Some 0)) (twilio_build_list_messages fr params)"
  unfolding twilio_build_list_messages_def
  by (rule twilio_coerce_limit_ok [THEN ensures_bind] twilio_coerce_limit_ok [THEN ensures_weaken] ensures_rules | simp add: request_ok_def METHODS_def)+

lemma twilio_build_delete_message_ok: "ensures (request_ok (Some 1)) (twilio_build_delete_message fr params)"
  unfolding twilio_build_delete_message_def
  by (rule twilio_required_ok [THEN ensures_bind] twilio_required_ok [THEN ensures_weaken] ensures_rules | simp add: request_ok_def METHODS_def)+

definition twilio_shape :: "(string, nat option) dict" where
  "twilio_shape =
     [(''send_sms'', Some 0), (''get_message'', Some 1), (''list_messages'', Some 0), (''delete_message'', Some
         1)]"

interpretation twilio: request_builder "twilio_build_request fr" twilio_shape for fr
  by (rule request_builder_table [OF twilio_build_request_def])
    (simp_all del: One_nat_def add: twilio_BUILDERS_def twilio_shape_def
      twilio_build_send_sms_ok twilio_build_get_message_ok twilio_build_list_messages_ok
      twilio_build_delete_message_ok)

end
