(* ===== verification/Builders_7.thy ===== *)
theory Builders_7
  imports Requests
begin

text \<open>
  Request builders of the integrations \<open>twitch\<close>, \<open>xero\<close>, \<open>zendesk\<close>, \<open>zoho_crm\<close>, \<open>zoom\<close>
  (\<open>nodes/integrations/<name>/operations.py\<close>), one definition per function of the module, prefixed
  with the name of the integration; constants of \<open>constants.py\<close> stand with their values, and an em dash
  in a message is a hyphen. \<open>fr\<close> prints a float. Each lemma \<open><function>_ok\<close> states what the function
  ensures: it raises nothing but \<open>ValueError\<close>, an identifier it returns has no slash, a number is
  within its bounds, a request has a known method and a path with a fixed number of slashes. The
  interpretation shows that the module keeps the interface of the nodes.
\<close>

section \<open>Twitch\<close>

definition twitch_coerce_string_list :: "(rat \<Rightarrow> string) \<Rightarrow> json \<Rightarrow> string \<Rightarrow> string list result" where
  "twitch_coerce_string_list fr raw field =
     (if raw = JNull \<or> raw = JStr [] then Inr []
     else if is_str raw then Inr (map (\<lambda>part. py_strip part) (filter (\<lambda>part. py_strip part \<noteq> []) (split_on CHR
         '','' (str_of raw))))
     else if is_arr raw then Inr (map (\<lambda>part. py_strip (py_str fr part)) (filter (\<lambda>part. py_strip (py_str fr
         part) \<noteq> []) (arr_of raw)))
     else raise ValueError (''Twitch: '' @ repr_str field @ '' must be a string or list of strings''))"

definition twitch_build_get_users :: "(rat \<Rightarrow> string) \<Rightarrow> jobj \<Rightarrow> (string \<times> jobj) result" where
  "twitch_build_get_users fr params =
     rbind (twitch_coerce_string_list fr (dict_get params ''user_ids'' JNull) ''user_ids'') (\<lambda>ids.
     rbind (twitch_coerce_string_list fr (dict_get params ''logins'' JNull) ''logins'') (\<lambda>logins.
     if ids = [] \<and> logins = [] then raise ValueError
         (''Twitch: get_users requires at least one of 'user_ids' or 'logins'' @ [CHR 0x27])
     else let query = ([] :: jobj) in
     let query = (if ids \<noteq> [] then dict_set ''id'' (JArr (map JStr ids)) query else query) in
     let query = (if logins \<noteq> [] then dict_set ''login'' (JArr (map JStr logins)) query else query) in
     Inr (''/users'', query)))"

definition twitch_required :: "(rat \<Rightarrow> string) \<Rightarrow> jobj \<Rightarrow> string \<Rightarrow> string result" where
  "twitch_required fr params key =
     (let value = text_param fr params key in
     if value = [] then raise ValueError (''Twitch: '' @ repr_str key @ '' is required'')
     else Inr value)"

definition twitch_build_get_channel :: "(rat \<Rightarrow> string) \<Rightarrow> jobj \<Rightarrow> (string \<times> jobj) result" where
  "twitch_build_get_channel fr params =
     rbind (twitch_required fr params ''broadcaster_id'') (\<lambda>broadcaster_id.
     Inr (''/channels'', [(''broadcaster_id'', JStr broadcaster_id)]))"

definition twitch_coerce_page_size :: "json \<Rightarrow> int result" where
  "twitch_coerce_page_size raw =
     (if is_blank raw then Inr 20
     else (case int_of_json raw of
       None \<Rightarrow> raise ValueError ''Twitch: 'first' must be a positive integer''
     | Some value \<Rightarrow>
       if value < 1 then raise ValueError ''Twitch: 'first' must be >= 1''
       else Inr (min value 100)))"

definition twitch_build_get_streams :: "(rat \<Rightarrow> string) \<Rightarrow> jobj \<Rightarrow> (string \<times> jobj) result" where
  "twitch_build_get_streams fr params =
     rbind (twitch_coerce_page_size (dict_get params ''first'' JNull)) (\<lambda>r1.
     let query = [(''first'', JInt r1)] in
     rbind (twitch_coerce_string_list fr (dict_get params ''user_ids'' JNull) ''user_ids'') (\<lambda>user_ids.
     let query = (if user_ids \<noteq> [] then dict_set ''user_id'' (JArr (map JStr user_ids)) query else query) in
     rbind (twitch_coerce_string_list fr (dict_get params ''user_logins'' JNull) ''user_logins'') (\<lambda>user_logins.
     let query = (if user_logins \<noteq> [] then dict_set ''user_login'' (JArr (map JStr user_logins)) query else
         query) in
     rbind (twitch_coerce_string_list fr (dict_get params ''game_ids'' JNull) ''game_ids'') (\<lambda>game_ids.
     let query = (if game_ids \<noteq> [] then dict_set ''game_id'' (JArr (map JStr game_ids)) query else query) in
     let language = text_param fr params ''language'' in
     let query = (if language \<noteq> [] then dict_set ''language'' (JStr language) query else query) in
     let cursor = text_param fr params ''after'' in
     let query = (if cursor \<noteq> [] then dict_set ''after'' (JStr cursor) query else query) in
     Inr (''/streams'', query)))))"

definition twitch_build_get_videos :: "(rat \<Rightarrow> string) \<Rightarrow> jobj \<Rightarrow> (string \<times> jobj) result" where
  "twitch_build_get_videos fr params =
     rbind (twitch_coerce_string_list fr (dict_get params ''video_ids'' JNull) ''video_ids'') (\<lambda>ids.
     let user_id = text_param fr params ''user_id'' in
     let game_id = text_param fr params ''game_id'' in
     if ids = [] \<and> user_id = [] \<and> game_id = [] then raise ValueError
         (''Twitch: get_videos requires one of 'video_ids', 'user_id', or 'game_id'' @ [CHR 0x27])
     else rbind (twitch_coerce_page_size (dict_get params ''first'' JNull)) (\<lambda>r2.
     let query = [(''first'', JInt r2)] in
     let query = (if ids \<noteq> [] then dict_set ''id'' (JArr (map JStr ids)) query else query) in
     let query = (if user_id \<noteq> [] then dict_set ''user_id'' (JStr user_id) query else query) in
     let query = (if game_id \<noteq> [] then dict_set ''game_id'' (JStr game_id) query else query) in
     let cursor = text_param fr params ''after'' in
     let query = (if cursor \<noteq> [] then dict_set ''after'' (JStr cursor) query else query) in
     Inr (''/videos'', query)))"

definition twitch_build_get_followers :: "(rat \<Rightarrow> string) \<Rightarrow> jobj \<Rightarrow> (string \<times> jobj) result" where
  "twitch_build_get_followers fr params =
     rbind (twitch_required fr params ''broadcaster_id'') (\<lambda>broadcaster_id.
     rbind (twitch_coerce_page_size (dict_get params ''first'' JNull)) (\<lambda>r2.
     let query = [(''broadcaster_id'', JStr broadcaster_id), (''first'', JInt r2)] in
     let user_id = text_param fr params ''user_id'' in
     let query = (if user_id \<noteq> [] then dict_set ''user_id'' (JStr user_id) query else query) in
     let cursor = text_param fr params ''after'' in
     let query = (if cursor \<noteq> [] then dict_set ''after'' (JStr cursor) query else query) in
     Inr (''/channels/followers'', query)))"

definition twitch_coerce_bool :: "(rat \<Rightarrow> string) \<Rightarrow> json \<Rightarrow> string result" where
  "twitch_coerce_bool fr raw =
     (if is_bool raw then Inr (if py_bool raw then ''true'' else ''false'')
     else let text = py_lower (py_strip (py_str fr raw)) in
     if text \<in> set [''true'', ''1'', ''yes''] then Inr ''true''
     else if text \<in> set [''false'', ''0'', ''no''] then Inr ''false''
     else raise ValueError (''Twitch: boolean flag must be true/false, got '' @ py_repr fr raw))"

definition twitch_build_search_channels :: "(rat \<Rightarrow> string) \<Rightarrow> jobj \<Rightarrow> (string \<times> jobj) result" where
  "twitch_build_search_channels fr params =
     rbind (twitch_required fr params ''query'') (\<lambda>query_text.
     rbind (twitch_coerce_page_size (dict_get params ''first'' JNull)) (\<lambda>r2.
     let query = [(''query'', JStr query_text), (''first'', JInt r2)] in
     let live_only = dict_get params ''live_only'' JNull in
     rbind (if live_only \<noteq> JNull then (rbind (twitch_coerce_bool fr live_only) (\<lambda>r3.
       Inr (dict_set ''live_only'' (JStr r3) query))) else Inr query) (\<lambda>query.
     let cursor = text_param fr params ''after'' in
     let query = (if cursor \<noteq> [] then dict_set ''after'' (JStr cursor) query else query) in
     Inr (''/search/channels'', query))))"

definition twitch_BUILDERS :: "(rat \<Rightarrow> string) \<Rightarrow> (string, jobj \<Rightarrow> (string \<times> jobj) result) dict" where
  "twitch_BUILDERS fr =
     [(''get_users'', twitch_build_get_users fr),
      (''get_channel'', twitch_build_get_channel fr),
      (''get_streams'', twitch_build_get_streams fr),
      (''get_videos'', twitch_build_get_videos fr),
      (''get_followers'', twitch_build_get_followers fr),
      (''search_channels'', twitch_build_search_channels fr)]"

definition twitch_build_request :: "(rat \<Rightarrow> string) \<Rightarrow> string \<Rightarrow> jobj \<Rightarrow> (string \<times> jobj) result" where
  "twitch_build_request fr operation params =
     (case map_of (twitch_BUILDERS fr) operation of
        None \<Rightarrow> raise ValueError (''Twitch: unsupported operation '' @ repr_str operation)
      | Some builder \<Rightarrow> builder params)"

lemma twitch_coerce_string_list_ok: "ensures (\<lambda>_. True) (twitch_coerce_string_list fr raw field)"
  unfolding twitch_coerce_string_list_def
  by (rule ensures_rules | simp)+

lemma twitch_build_get_users_ok: "ensures (\<lambda>_. True) (twitch_build_get_users fr params)"
  unfolding twitch_build_get_users_def
  by (rule twitch_coerce_string_list_ok [THEN ensures_bind] twitch_coerce_string_list_ok [THEN ensures_weaken] ensures_rules | simp)+

lemma twitch_required_ok: "ensures (\<lambda>_. True) (twitch_required fr params key)"
  unfolding twitch_required_def
  by (rule ensures_rules | simp)+

lemma twitch_build_get_channel_ok: "ensures (\<lambda>_. True) (twitch_build_get_channel fr params)"
  unfolding twitch_build_get_channel_def
  by (rule twitch_required_ok [THEN ensures_bind] twitch_required_ok [THEN ensures_weaken] ensures_rules | simp)+

lemma twitch_coerce_page_size_ok: "ensures (\<lambda>v. 1 \<le> v \<and> v \<le> 100) (twitch_coerce_page_size raw)"
  unfolding twitch_coerce_page_size_def
  by (rule ensures_rules | simp)+

lemma twitch_build_get_streams_ok: "ensures (\<lambda>_. True) (twitch_build_get_streams fr params)"
  unfolding twitch_build_get_streams_def
  by (rule twitch_coerce_string_list_ok [THEN ensures_bind] twitch_coerce_string_list_ok [THEN ensures_weaken] twitch_coerce_page_size_ok [THEN ensures_bind] twitch_coerce_page_size_ok [THEN ensures_weaken] ensures_rules | simp)+

lemma twitch_build_get_videos_ok: "ensures (\<lambda>_. True) (twitch_build_get_videos fr params)"
  unfolding twitch_build_get_videos_def
  by (rule twitch_coerce_string_list_ok [THEN ensures_bind] twitch_coerce_string_list_ok [THEN ensures_weaken] twitch_coerce_page_size_ok [THEN ensures_bind] twitch_coerce_page_size_ok [THEN ensures_weaken] ensures_rules | simp)+

lemma twitch_build_get_followers_ok: "ensures (\<lambda>_. True) (twitch_build_get_followers fr params)"
  unfolding twitch_build_get_followers_def
  by (rule twitch_required_ok [THEN ensures_bind] twitch_required_ok [THEN ensures_weaken] twitch_coerce_page_size_ok [THEN ensures_bind] twitch_coerce_page_size_ok [THEN ensures_weaken] ensures_rules | simp)+

lemma twitch_coerce_bool_ok: "ensures (\<lambda>s. slashes s = 0) (twitch_coerce_bool fr raw)"
  unfolding twitch_coerce_bool_def
  by (rule ensures_rules | simp)+

lemma twitch_build_search_channels_ok: "ensures (\<lambda>_. True) (twitch_build_search_channels fr params)"
  unfolding twitch_build_search_channels_def
  by (rule twitch_required_ok [THEN ensures_bind] twitch_required_ok [THEN ensures_weaken] twitch_coerce_page_size_ok [THEN ensures_bind] twitch_coerce_page_size_ok [THEN ensures_weaken] twitch_coerce_bool_ok [THEN ensures_bind] twitch_coerce_bool_ok [THEN ensures_weaken] ensures_rules | simp)+


section \<open>Xero\<close>

definition xero_maybe_add :: "(rat \<Rightarrow> string) \<Rightarrow> jobj \<Rightarrow> string \<Rightarrow> json \<Rightarrow> jobj" where
  "xero_maybe_add fr query key raw =
     (if raw = JNull then query
     else let value = (if \<not> is_arr raw then py_strip (py_str fr raw) else []) in
     if is_arr raw then (if \<not> py_bool raw then query
       else dict_set key (JStr (join '','' (map (\<lambda>v. py_str fr v) (arr_of raw)))) query)
     else (if value \<noteq> [] then dict_set key (JStr value) query else query))"

definition xero_coerce_positive_int :: "json \<Rightarrow> string \<Rightarrow> int result" where
  "xero_coerce_positive_int raw field =
     (case int_of_json raw of
       None \<Rightarrow> raise ValueError (''Xero: '' @ repr_str field @ '' must be a positive integer'')
     | Some value \<Rightarrow>
       if value < 1 then raise ValueError (''Xero: '' @ repr_str field @ '' must be >= 1'')
       else Inr value)"

definition xero_build_list_invoices :: "(rat \<Rightarrow> string) \<Rightarrow> jobj \<Rightarrow> request_spec result" where
  "xero_build_list_invoices fr params =
     (let query = ([] :: jobj) in
     let query = xero_maybe_add fr query ''where'' (dict_get params ''where'' JNull) in
     let query = xero_maybe_add fr query ''order'' (dict_get params ''order'' JNull) in
     let query = xero_maybe_add fr query ''Statuses'' (dict_get params ''statuses'' JNull) in
     let page = dict_get params ''page'' JNull in
     rbind (if page \<noteq> JNull \<and> page \<noteq> JStr [] then (rbind (xero_coerce_positive_int page ''page'') (\<lambda>r1.
       Inr (dict_set ''page'' (JInt r1) query))) else Inr query) (\<lambda>query.
     let page_size = dict_get params ''page_size'' JNull in
     rbind (if page_size \<noteq> JNull \<and> page_size \<noteq> JStr [] then (rbind (xero_coerce_positive_int page_size
         ''page_size'') (\<lambda>r2.
       Inr (dict_set ''pageSize'' (JInt (min r2 100)) query))) else Inr query) (\<lambda>query.
     Inr (''GET'', ''/Invoices'', None, query))))"

definition xero_required :: "(rat \<Rightarrow> string) \<Rightarrow> jobj \<Rightarrow> string \<Rightarrow> string result" where
  "xero_required fr params key =
     (let value = text_param fr params key in
     if value = [] then raise ValueError (''Xero: '' @ repr_str key @ '' is required'')
     else Inr value)"

definition xero_build_get_invoice :: "(rat \<Rightarrow> string) \<Rightarrow> jobj \<Rightarrow> request_spec result" where
  "xero_build_get_invoice fr params =
     rbind (xero_required fr params ''invoice_id'') (\<lambda>invoice_id.
     Inr (''GET'', ''/Invoices/'' @ url_quote [] invoice_id, None, []))"

definition xero_coerce_document :: "json \<Rightarrow> jobj result" where
  "xero_coerce_document raw =
     (if raw = JNull \<or> raw = JStr [] then raise ValueError ''Xero: 'document' is required''
     else if \<not> is_obj raw then raise ValueError ''Xero: 'document' must be a JSON object''
     else Inr (obj_of raw))"

definition xero_build_create_invoice :: "jobj \<Rightarrow> request_spec result" where
  "xero_build_create_invoice params =
     rbind (xero_coerce_document (dict_get params ''document'' JNull)) (\<lambda>document.
     let body = [(''Invoices'', JArr (map JObj [document]))] in
     Inr (''POST'', ''/Invoices'', Some body, []))"

definition xero_build_update_invoice :: "(rat \<Rightarrow> string) \<Rightarrow> jobj \<Rightarrow> request_spec result" where
  "xero_build_update_invoice fr params =
     rbind (xero_required fr params ''invoice_id'') (\<lambda>invoice_id.
     rbind (xero_coerce_document (dict_get params ''document'' JNull)) (\<lambda>document.
     let body = [(''Invoices'', JArr (map JObj [document]))] in
     Inr (''POST'', ''/Invoices/'' @ url_quote [] invoice_id, Some body, [])))"

definition xero_build_list_contacts :: "(rat \<Rightarrow> string) \<Rightarrow> jobj \<Rightarrow> request_spec result" where
  "xero_build_list_contacts fr params =
     (let query = ([] :: jobj) in
     let query = xero_maybe_add fr query ''where'' (dict_get params ''where'' JNull) in
     let query = xero_maybe_add fr query ''order'' (dict_get params ''order'' JNull) in
     let query = xero_maybe_add fr query ''IDs'' (dict_get params ''ids'' JNull) in
     let page = dict_get params ''page'' JNull in
     rbind (if page \<noteq> JNull \<and> page \<noteq> JStr [] then (rbind (xero_coerce_positive_int page ''page'') (\<lambda>r1.
       Inr (dict_set ''page'' (JInt r1) query))) else Inr query) (\<lambda>query.
     Inr (''GET'', ''/Contacts'', None, query)))"

definition xero_build_list_accounts :: "(rat \<Rightarrow> string) \<Rightarrow> jobj \<Rightarrow> request_spec" where
  "xero_build_list_accounts fr params =
     (let query = ([] :: jobj) in
     let query = xero_maybe_add fr query ''where'' (dict_get params ''where'' JNull) in
     let query = xero_maybe_add fr query ''order'' (dict_get params ''order'' JNull) in
     (''GET'', ''/Accounts'', None, query))"

definition xero_BUILDERS :: "(rat \<Rightarrow> string) \<Rightarrow> (string, jobj \<Rightarrow> request_spec result) dict" where
  "xero_BUILDERS fr =
     [(''list_invoices'', xero_build_list_invoices fr),
      (''get_invoice'', xero_build_get_invoice fr),
      (''create_invoice'', xero_build_create_invoice),
      (''update_invoice'', xero_build_update_invoice fr),
      (''list_contacts'', xero_build_list_contacts fr),
      (''list_accounts'', \<lambda>params. Inr (xero_build_list_accounts fr params))]"

definition xero_build_request :: "(rat \<Rightarrow> string) \<Rightarrow> string \<Rightarrow> jobj \<Rightarrow> request_spec result" where
  "xero_build_request fr operation params =
     (case map_of (xero_BUILDERS fr) operation of
        None \<Rightarrow> raise ValueError (''Xero: unsupported operation '' @ repr_str operation)
      | Some builder \<Rightarrow> builder params)"

lemma xero_coerce_positive_int_ok: "ensures (\<lambda>v. 1 \<le> v) (xero_coerce_positive_int raw field)"
  unfolding xero_coerce_positive_int_def
  by (rule ensures_rules | simp)+

lemma xero_build_list_invoices_ok: "ensures (request_ok (Some 1)) (xero_build_list_invoices fr params)"
  unfolding xero_build_list_invoices_def
  by (rule xero_coerce_positive_int_ok [THEN ensures_bind] xero_coerce_positive_int_ok [THEN ensures_weaken] ensures_rules | simp add: request_ok_def METHODS_def)+

lemma xero_required_ok: "ensures (\<lambda>_. True) (xero_required fr params key)"
  unfolding xero_required_def
  by (rule ensures_rules | simp)+

lemma xero_build_get_invoice_ok: "ensures (request_ok (Some 2)) (xero_build_get_invoice fr params)"
  unfolding xero_build_get_invoice_def
  by (rule xero_required_ok [THEN ensures_bind] xero_required_ok [THEN ensures_weaken] ensures_rules | simp add: request_ok_def METHODS_def)+

lemma xero_coerce_document_ok: "ensures (\<lambda>_. True) (xero_coerce_document raw)"
  unfolding xero_coerce_document_def
  by (rule ensures_rules | simp)+

lemma xero_build_create_invoice_ok: "ensures (request_ok (Some 1)) (xero_build_create_invoice params)"
  unfolding xero_build_create_invoice_def
  by (rule xero_coerce_document_ok [THEN ensures_bind] xero_coerce_document_ok [THEN ensures_weaken] ensures_rules | simp add: request_ok_def METHODS_def)+

lemma xero_build_update_invoice_ok: "ensures (request_ok (Some 2)) (xero_build_update_invoice fr params)"
  unfolding xero_build_update_invoice_def
  by (rule xero_required_ok [THEN ensures_bind] xero_required_ok [THEN ensures_weaken] xero_coerce_document_ok [THEN ensures_bind] xero_coerce_document_ok [THEN ensures_weaken] ensures_rules | simp add: request_ok_def METHODS_def)+

lemma xero_build_list_contacts_ok: "ensures (request_ok (Some 1)) (xero_build_list_contacts fr params)"
  unfolding xero_build_list_contacts_def
  by (rule xero_coerce_positive_int_ok [THEN ensures_bind] xero_coerce_positive_int_ok [THEN ensures_weaken] ensures_rules | simp add: request_ok_def METHODS_def)+

lemma xero_build_list_accounts_ok: "ensures (request_ok (Some 1)) (Inr (xero_build_list_accounts fr params))"
  by (rule ensures_Inr) (simp add: xero_build_list_accounts_def request_ok_def METHODS_def Let_def)

definition xero_shape :: "(string, nat option) dict" where
  "xero_shape =
     [(''list_invoices'', Some 1), (''get_invoice'', Some 2), (''create_invoice'', Some 1),
         (''update_invoice'', Some 2), (''list_contacts'', Some 1), (''list_accounts'', Some 1)]"

interpretation xero: request_builder "xero_build_request fr" xero_shape for fr
  by (rule request_builder_table [OF xero_build_request_def])
    (simp_all del: One_nat_def add: xero_BUILDERS_def xero_shape_def
      xero_build_list_invoices_ok xero_build_get_invoice_ok xero_build_create_invoice_ok
      xero_build_update_invoice_ok xero_build_list_contacts_ok xero_build_list_accounts_ok)

section \<open>Zendesk\<close>

definition zendesk_required_id :: "jobj \<Rightarrow> string \<Rightarrow> string result" where
  "zendesk_required_id params key =
     (let raw = dict_get params key JNull in
     if raw = JNull \<or> raw = JStr [] then raise ValueError (''Zendesk: '' @ repr_str key @ '' is required'')
     else (case int_of_json raw of
       None \<Rightarrow> raise ValueError (''Zendesk: '' @ repr_str key @ '' must be an integer'')
     | Some numeric \<Rightarrow>
       if numeric < 1 then raise ValueError (''Zendesk: '' @ repr_str key @ '' must be >= 1'')
       else Inr (show_int numeric)))"

definition zendesk_build_get_ticket :: "jobj \<Rightarrow> request_spec result" where
  "zendesk_build_get_ticket params =
     rbind (zendesk_required_id params ''ticket_id'') (\<lambda>ticket_id.
     let path = ''/api/v2'' @ ''/tickets/'' @ ticket_id @ ''.json'' in
     Inr (''GET'', path, None, []))"

definition zendesk_required :: "(rat \<Rightarrow> string) \<Rightarrow> jobj \<Rightarrow> string \<Rightarrow> string result" where
  "zendesk_required fr params key =
     (let value = text_param fr params key in
     if value = [] then raise ValueError (''Zendesk: '' @ repr_str key @ '' is required'')
     else Inr value)"

definition zendesk_build_create_ticket :: "(rat \<Rightarrow> string) \<Rightarrow> jobj \<Rightarrow> request_spec result" where
  "zendesk_build_create_ticket fr params =
     rbind (zendesk_required fr params ''subject'') (\<lambda>subject.
     rbind (zendesk_required fr params ''comment'') (\<lambda>comment_body.
     let ticket = [(''subject'', JStr subject), (''comment'', JObj [(''body'', JStr comment_body)])] in
     let priority = py_lower (text_param fr params ''priority'') in
     rbind (if priority \<noteq> [] then (if priority \<notin> set [''urgent'', ''high'', ''normal'', ''low''] then raise
         ValueError (''Zendesk: invalid priority '' @ repr_str priority)
       else Inr (dict_set ''priority'' (JStr priority) ticket)) else Inr ticket) (\<lambda>ticket.
     let extra = dict_get params ''extra_fields'' JNull in
     rbind (if extra \<noteq> JNull then (if \<not> is_obj extra then raise ValueError
         ''Zendesk: 'extra_fields' must be a JSON object''
       else rbind (rfold (\<lambda>ticket (key, value).
           if key \<notin> set [''subject'', ''priority'', ''status'', ''type'', ''tags'', ''requester_id'',
               ''assignee_id'', ''group_id'', ''external_id'', ''custom_fields''] then raise ValueError
               (''Zendesk: unknown create ticket field '' @ repr_str key)
           else Inr (dict_set key value ticket)) ticket (obj_of extra)) (\<lambda>ticket.
       Inr ticket)) else Inr ticket) (\<lambda>ticket.
     Inr (''POST'', ''/api/v2/tickets.json'', Some [(''ticket'', JObj ticket)], [])))))"

definition zendesk_build_update_ticket :: "(rat \<Rightarrow> string) \<Rightarrow> jobj \<Rightarrow> request_spec result" where
  "zendesk_build_update_ticket fr params =
     rbind (zendesk_required_id params ''ticket_id'') (\<lambda>ticket_id.
     let updates = dict_get params ''fields'' JNull in
     if \<not> is_obj updates \<or> \<not> py_bool updates then raise ValueError
         ''Zendesk: 'fields' must be a non-empty JSON object''
     else rbind (rfold (\<lambda>_ key.
         if key \<notin> set [''subject'', ''priority'', ''status'', ''type'', ''tags'', ''additional_tags'',
             ''remove_tags'', ''assignee_id'', ''group_id'', ''external_id'', ''custom_fields''] then raise
             ValueError (''Zendesk: unknown ticket field '' @ repr_str key)
         else Inr ()) () (map fst (obj_of updates))) (\<lambda>_.
     let status = dict_get (obj_of updates) ''status'' JNull in
     if is_str status \<and> py_lower (str_of status) \<notin> set [''new'', ''open'', ''pending'', ''hold'', ''solved'',
         ''closed''] then raise ValueError (''Zendesk: invalid status '' @ py_repr fr status)
     else let path = ''/api/v2'' @ ''/tickets/'' @ ticket_id @ ''.json'' in
     Inr (''PUT'', path, Some [(''ticket'', JObj (obj_of updates))], [])))"

definition zendesk_coerce_limit :: "json \<Rightarrow> int result" where
  "zendesk_coerce_limit raw =
     (if is_blank raw then Inr 25
     else (case int_of_json raw of
       None \<Rightarrow> raise ValueError ''Zendesk: 'per_page' must be a positive integer''
     | Some value \<Rightarrow>
       if value < 1 then raise ValueError ''Zendesk: 'per_page' must be >= 1''
       else Inr (min value 100)))"

definition zendesk_build_list_tickets :: "jobj \<Rightarrow> request_spec result" where
  "zendesk_build_list_tickets params =
     rbind (zendesk_coerce_limit (dict_get params ''per_page'' JNull)) (\<lambda>r1.
     let query = [(''per_page'', JInt r1)] in
     let page = dict_get params ''page'' JNull in
     rbind (if page \<noteq> JNull \<and> page \<noteq> JStr [] then ((case int_of_json page of
         None \<Rightarrow> raise ValueError ''Zendesk: 'page' must be an integer''
       | Some page_value \<Rightarrow>
         if page_value < 1 then raise ValueError ''Zendesk: 'page' must be >= 1''
         else Inr (dict_set ''page'' (JInt page_value) query))) else Inr query) (\<lambda>query.
     Inr (''GET'', ''/api/v2/tickets.json'', None, query)))"

definition zendesk_build_add_comment :: "(rat \<Rightarrow> string) \<Rightarrow> jobj \<Rightarrow> request_spec result" where
  "zendesk_build_add_comment fr params =
     rbind (zendesk_required_id params ''ticket_id'') (\<lambda>ticket_id.
     rbind (zendesk_required fr params ''comment'') (\<lambda>comment_body.
     let public = py_bool (dict_get params ''public'' (JBool True)) in
     let ticket_patch = [(''comment'', JObj [(''body'', JStr comment_body), (''public'', JBool public)])] in
     let path = ''/api/v2'' @ ''/tickets/'' @ ticket_id @ ''.json'' in
     Inr (''PUT'', path, Some [(''ticket'', JObj ticket_patch)], [])))"

definition zendesk_build_search :: "(rat \<Rightarrow> string) \<Rightarrow> jobj \<Rightarrow> request_spec result" where
  "zendesk_build_search fr params =
     (let query = text_param fr params ''query'' in
     if query = [] then raise ValueError ''Zendesk: 'query' is required for search''
     else rbind (zendesk_coerce_limit (dict_get params ''per_page'' JNull)) (\<lambda>r1.
     let params_out = [(''query'', JStr query), (''per_page'', JInt r1)] in
     let sort_by = text_param fr params ''sort_by'' in
     let params_out = (if sort_by \<noteq> [] then dict_set ''sort_by'' (JStr sort_by) params_out else params_out) in
     let sort_order = py_lower (text_param fr params ''sort_order'') in
     rbind (if sort_order \<noteq> [] then (if sort_order \<notin> set [''asc'', ''desc''] then raise ValueError
         (''Zendesk: invalid sort_order '' @ repr_str sort_order)
       else Inr (dict_set ''sort_order'' (JStr sort_order) params_out)) else Inr params_out) (\<lambda>params_out.
     Inr (''GET'', ''/api/v2/search.json'', None, params_out))))"

definition zendesk_BUILDERS :: "(rat \<Rightarrow> string) \<Rightarrow> (string, jobj \<Rightarrow> request_spec result) dict" where
  "zendesk_BUILDERS fr =
     [(''get_ticket'', zendesk_build_get_ticket),
      (''create_ticket'', zendesk_build_create_ticket fr),
      (''update_ticket'', zendesk_build_update_ticket fr),
      (''list_tickets'', zendesk_build_list_tickets),
      (''add_comment'', zendesk_build_add_comment fr),
      (''search'', zendesk_build_search fr)]"

definition zendesk_build_request :: "(rat \<Rightarrow> string) \<Rightarrow> string \<Rightarrow> jobj \<Rightarrow> request_spec result" where
  "zendesk_build_request fr operation params =
     (case map_of (zendesk_BUILDERS fr) operation of
        None \<Rightarrow> raise ValueError (''Zendesk: unsupported operation '' @ repr_str operation)
      | Some builder \<Rightarrow> builder params)"

lemma zendesk_required_id_ok: "ensures (\<lambda>s. slashes s = 0) (zendesk_required_id params key)"
  unfolding zendesk_required_id_def
  by (rule ensures_rules | simp)+

lemma zendesk_build_get_ticket_ok: "ensures (request_ok (Some 4)) (zendesk_build_get_ticket params)"
  unfolding zendesk_build_get_ticket_def
  by (rule zendesk_required_id_ok [THEN ensures_bind] zendesk_required_id_ok [THEN ensures_weaken] ensures_rules | simp add: request_ok_def METHODS_def)+

lemma zendesk_required_ok: "ensures (\<lambda>_. True) (zendesk_required fr params key)"
  unfolding zendesk_required_def
  by (rule ensures_rules | simp)+

lemma zendesk_build_create_ticket_ok: "ensures (request_ok (Some 3)) (zendesk_build_create_ticket fr params)"
  unfolding zendesk_build_create_ticket_def
  by (rule zendesk_required_ok [THEN ensures_bind] zendesk_required_ok [THEN ensures_weaken] ensures_rules | simp add: request_ok_def METHODS_def)+

lemma zendesk_build_update_ticket_ok: "ensures (request_ok (Some 4)) (zendesk_build_update_ticket fr params)"
  unfolding zendesk_build_update_ticket_def
  by (rule zendesk_required_id_ok [THEN ensures_bind] zendesk_required_id_ok [THEN ensures_weaken] ensures_rules | simp add: request_ok_def METHODS_def)+

lemma zendesk_coerce_limit_ok: "ensures (\<lambda>v. 1 \<le> v \<and> v \<le> 100) (zendesk_coerce_limit raw)"
  unfolding zendesk_coerce_limit_def
  by (rule ensures_rules | simp)+

lemma zendesk_build_list_tickets_ok: "ensures (request_ok (Some 3)) (zendesk_build_list_tickets params)"
  unfolding zendesk_build_list_tickets_def
  by (rule zendesk_coerce_limit_ok [THEN ensures_bind] zendesk_coerce_limit_ok [THEN ensures_weaken] ensures_rules | simp add: request_ok_def METHODS_def)+

lemma zendesk_build_add_comment_ok: "ensures (request_ok (Some 4)) (zendesk_build_add_comment fr params)"
  unfolding zendesk_build_add_comment_def
  by (rule zendesk_required_id_ok [THEN ensures_bind] zendesk_required_id_ok [THEN ensures_weaken] zendesk_required_ok [THEN ensures_bind] zendesk_required_ok [THEN ensures_weaken] ensures_rules | simp add: request_ok_def METHODS_def)+

lemma zendesk_build_search_ok: "ensures (request_ok (Some 3)) (zendesk_build_search fr params)"
  unfolding zendesk_build_search_def
  by (rule zendesk_coerce_limit_ok [THEN ensures_bind] zendesk_coerce_limit_ok [THEN ensures_weaken] ensures_rules | simp add: request_ok_def METHODS_def)+

definition zendesk_shape :: "(string, nat option) dict" where
  "zendesk_shape =
     [(''get_ticket'', Some 4), (''create_ticket'', Some 3), (''update_ticket'', Some 4), (''list_tickets'',
         Some 3), (''add_comment'', Some 4), (''search'', Some 3)]"

interpretation zendesk: request_builder "zendesk_build_request fr" zendesk_shape for fr
  by (rule request_builder_table [OF zendesk_build_request_def])
    (simp_all del: One_nat_def add: zendesk_BUILDERS_def zendesk_shape_def
      zendesk_build_get_ticket_ok zendesk_build_create_ticket_ok zendesk_build_update_ticket_ok
      zendesk_build_list_tickets_ok zendesk_build_add_comment_ok zendesk_build_search_ok)

section \<open>Zoho crm\<close>

definition zoho_crm_required :: "(rat \<Rightarrow> string) \<Rightarrow> jobj \<Rightarrow> string \<Rightarrow> string result" where
  "zoho_crm_required fr params key =
     (let value = text_param fr params key in
     if value = [] then raise ValueError (''Zoho: '' @ repr_str key @ '' is required'')
     else Inr value)"

definition zoho_crm_coerce_page :: "json \<Rightarrow> int option result" where
  "zoho_crm_coerce_page raw =
     (if is_blank raw then Inr None
     else (case int_of_json raw of
       None \<Rightarrow> raise ValueError ''Zoho: 'page' must be an integer''
     | Some value \<Rightarrow>
       if value < 1 then raise ValueError ''Zoho: 'page' must be >= 1''
       else Inr (Some value)))"

definition zoho_crm_coerce_string_list :: "(rat \<Rightarrow> string) \<Rightarrow> json \<Rightarrow> string \<Rightarrow> string list result" where
  "zoho_crm_coerce_string_list fr raw field =
     (if raw = JNull \<or> raw = JStr [] then Inr []
     else if is_str raw then Inr (map (\<lambda>part. py_strip part) (filter (\<lambda>part. py_strip part \<noteq> []) (split_on CHR
         '','' (str_of raw))))
     else if is_arr raw then Inr (map (\<lambda>part. py_strip (py_str fr part)) (filter (\<lambda>part. py_strip (py_str fr
         part) \<noteq> []) (arr_of raw)))
     else raise ValueError (''Zoho: '' @ repr_str field @ '' must be a string or list of strings''))"

definition zoho_crm_coerce_per_page :: "json \<Rightarrow> int result" where
  "zoho_crm_coerce_per_page raw =
     (if is_blank raw then Inr 50
     else (case int_of_json raw of
       None \<Rightarrow> raise ValueError ''Zoho: 'per_page' must be a positive integer''
     | Some value \<Rightarrow>
       if value < 1 then raise ValueError ''Zoho: 'per_page' must be >= 1''
       else Inr (min value 200)))"

definition zoho_crm_build_list_records :: "(rat \<Rightarrow> string) \<Rightarrow> jobj \<Rightarrow> request_spec result" where
  "zoho_crm_build_list_records fr params =
     rbind (zoho_crm_required fr params ''module'') (\<lambda>module.
     rbind (zoho_crm_coerce_per_page (dict_get params ''per_page'' JNull)) (\<lambda>r2.
     let query = [(''per_page'', JInt r2)] in
     rbind (zoho_crm_coerce_page (dict_get params ''page'' JNull)) (\<lambda>page_value.
     let query = (if page_value \<noteq> None then dict_set ''page'' (case page_value of None \<Rightarrow> JNull | Some x \<Rightarrow> JInt
         x) query else query) in
     rbind (zoho_crm_coerce_string_list fr (dict_get params ''fields'' JNull) ''fields'') (\<lambda>fields.
     let query = (if fields \<noteq> [] then dict_set ''fields'' (JStr (join '','' fields)) query else query) in
     let sort_by = text_param fr params ''sort_by'' in
     let query = (if sort_by \<noteq> [] then dict_set ''sort_by'' (JStr sort_by) query else query) in
     let sort_order = py_lower (text_param fr params ''sort_order'') in
     rbind (if sort_order \<noteq> [] then (if sort_order \<notin> set [''asc'', ''desc''] then raise ValueError
         (''Zoho: invalid sort_order '' @ repr_str sort_order)
       else Inr (dict_set ''sort_order'' (JStr sort_order) query)) else Inr query) (\<lambda>query.
     Inr (''GET'', ''/crm/v6'' @ ''/'' @ url_quote [] module, None, query))))))"

definition zoho_crm_build_get_record :: "(rat \<Rightarrow> string) \<Rightarrow> jobj \<Rightarrow> request_spec result" where
  "zoho_crm_build_get_record fr params =
     rbind (zoho_crm_required fr params ''module'') (\<lambda>module.
     rbind (zoho_crm_required fr params ''record_id'') (\<lambda>record_id.
     let path = ''/crm/v6'' @ ''/'' @ url_quote [] module @ ''/'' @ url_quote [] record_id in
     Inr (''GET'', path, None, [])))"

definition zoho_crm_build_create_record :: "(rat \<Rightarrow> string) \<Rightarrow> jobj \<Rightarrow> request_spec result" where
  "zoho_crm_build_create_record fr params =
     rbind (zoho_crm_required fr params ''module'') (\<lambda>module.
     let fields = dict_get params ''fields'' JNull in
     if \<not> is_obj fields \<or> \<not> py_bool fields then raise ValueError
         ''Zoho: 'fields' must be a non-empty JSON object''
     else let body = [(''data'', JArr (map JObj [obj_of fields]))] in
     rbind (zoho_crm_coerce_string_list fr (dict_get params ''trigger'' JNull) ''trigger'') (\<lambda>trigger.
     let body = (if trigger \<noteq> [] then dict_set ''trigger'' (JArr (map JStr trigger)) body else body) in
     Inr (''POST'', ''/crm/v6'' @ ''/'' @ url_quote [] module, Some body, [])))"

definition zoho_crm_build_update_record :: "(rat \<Rightarrow> string) \<Rightarrow> jobj \<Rightarrow> request_spec result" where
  "zoho_crm_build_update_record fr params =
     rbind (zoho_crm_required fr params ''module'') (\<lambda>module.
     rbind (zoho_crm_required fr params ''record_id'') (\<lambda>record_id.
     let fields = dict_get params ''fields'' JNull in
     if \<not> is_obj fields \<or> \<not> py_bool fields then raise ValueError
         ''Zoho: 'fields' must be a non-empty JSON object''
     else let body = [(''data'', JArr (map JObj [dict_set ''id'' (JStr record_id) (obj_of fields)]))] in
     let path = ''/crm/v6'' @ ''/'' @ url_quote [] module @ ''/'' @ url_quote [] record_id in
     Inr (''PUT'', path, Some body, [])))"

definition zoho_crm_build_delete_record :: "(rat \<Rightarrow> string) \<Rightarrow> jobj \<Rightarrow> request_spec result" where
  "zoho_crm_build_delete_record fr params =
     rbind (zoho_crm_required fr params ''module'') (\<lambda>module.
     rbind (zoho_crm_required fr params ''record_id'') (\<lambda>record_id.
     let path = ''/crm/v6'' @ ''/'' @ url_quote [] module @ ''/'' @ url_quote [] record_id in
     Inr (''DELETE'', path, None, [])))"

definition zoho_crm_build_search_records :: "(rat \<Rightarrow> string) \<Rightarrow> jobj \<Rightarrow> request_spec result" where
  "zoho_crm_build_search_records fr params =
     rbind (zoho_crm_required fr params ''module'') (\<lambda>module.
     let query = ([] :: jobj) in
     let matched = filter (\<lambda>key. text_param fr params key \<noteq> []) [''criteria'', ''email'', ''phone'', ''word'']
         in
     if matched = [] then raise ValueError
         (''Zoho: search requires one of 'criteria', 'email', 'phone', or 'word'' @ [CHR 0x27])
     else if 1 < (int (length matched)) then raise ValueError (''Zoho: pick only one search key; got '' @
         py_repr fr (JArr (map JStr matched)))
     else let key = hd matched in
     rbind (lookup params key) (\<lambda>r2.
     let query = dict_set key (JStr (py_strip (py_str fr r2))) query in
     rbind (zoho_crm_coerce_per_page (dict_get params ''per_page'' JNull)) (\<lambda>r3.
     let query = dict_set ''per_page'' (JInt r3) query in
     rbind (zoho_crm_coerce_page (dict_get params ''page'' JNull)) (\<lambda>page_value.
     let query = (if page_value \<noteq> None then dict_set ''page'' (case page_value of None \<Rightarrow> JNull | Some x \<Rightarrow> JInt
         x) query else query) in
     let path = ''/crm/v6'' @ ''/'' @ url_quote [] module @ ''/search'' in
     Inr (''GET'', path, None, query)))))"

definition zoho_crm_BUILDERS :: "(rat \<Rightarrow> string) \<Rightarrow> (string, jobj \<Rightarrow> request_spec result) dict" where
  "zoho_crm_BUILDERS fr =
     [(''list_records'', zoho_crm_build_list_records fr),
      (''get_record'', zoho_crm_build_get_record fr),
      (''create_record'', zoho_crm_build_create_record fr),
      (''update_record'', zoho_crm_build_update_record fr),
      (''delete_record'', zoho_crm_build_delete_record fr),
      (''search_records'', zoho_crm_build_search_records fr)]"

definition zoho_crm_build_request :: "(rat \<Rightarrow> string) \<Rightarrow> string \<Rightarrow> jobj \<Rightarrow> request_spec result" where
  "zoho_crm_build_request fr operation params =
     (case map_of (zoho_crm_BUILDERS fr) operation of
        None \<Rightarrow> raise ValueError (''Zoho: unsupported operation '' @ repr_str operation)
      | Some builder \<Rightarrow> builder params)"

lemma zoho_crm_required_ok: "ensures (\<lambda>_. True) (zoho_crm_required fr params key)"
  unfolding zoho_crm_required_def
  by (rule ensures_rules | simp)+

lemma zoho_crm_coerce_page_ok: "ensures (\<lambda>_. True) (zoho_crm_coerce_page raw)"
  unfolding zoho_crm_coerce_page_def
  by (rule ensures_rules | simp)+

lemma zoho_crm_coerce_string_list_ok: "ensures (\<lambda>_. True) (zoho_crm_coerce_string_list fr raw field)"
  unfolding zoho_crm_coerce_string_list_def
  by (rule ensures_rules | simp)+

lemma zoho_crm_coerce_per_page_ok: "ensures (\<lambda>v. 1 \<le> v \<and> v \<le> 200) (zoho_crm_coerce_per_page raw)"
  unfolding zoho_crm_coerce_per_page_def
  by (rule ensures_rules | simp)+

lemma zoho_crm_build_list_records_ok: "ensures (request_ok (Some 3)) (zoho_crm_build_list_records fr params)"
  unfolding zoho_crm_build_list_records_def
  by (rule zoho_crm_required_ok [THEN ensures_bind] zoho_crm_required_ok [THEN ensures_weaken] zoho_crm_coerce_page_ok [THEN ensures_bind] zoho_crm_coerce_page_ok [THEN ensures_weaken] zoho_crm_coerce_string_list_ok [THEN ensures_bind] zoho_crm_coerce_string_list_ok [THEN ensures_weaken] zoho_crm_coerce_per_page_ok [THEN ensures_bind] zoho_crm_coerce_per_page_ok [THEN ensures_weaken] ensures_rules | simp add: request_ok_def METHODS_def)+

lemma zoho_crm_build_get_record_ok: "ensures (request_ok (Some 4)) (zoho_crm_build_get_record fr params)"
  unfolding zoho_crm_build_get_record_def
  by (rule zoho_crm_required_ok [THEN ensures_bind] zoho_crm_required_ok [THEN ensures_weaken] ensures_rules | simp add: request_ok_def METHODS_def)+

lemma zoho_crm_build_create_record_ok: "ensures (request_ok (Some 3)) (zoho_crm_build_create_record fr params)"
  unfolding zoho_crm_build_create_record_def
  by (rule zoho_crm_required_ok [THEN ensures_bind] zoho_crm_required_ok [THEN ensures_weaken] zoho_crm_coerce_string_list_ok [THEN ensures_bind] zoho_crm_coerce_string_list_ok [THEN ensures_weaken] ensures_rules | simp add: request_ok_def METHODS_def)+

lemma zoho_crm_build_update_record_ok: "ensures (request_ok (Some 4)) (zoho_crm_build_update_record fr params)"
  unfolding zoho_crm_build_update_record_def
  by (rule zoho_crm_required_ok [THEN ensures_bind] zoho_crm_required_ok [THEN ensures_weaken] ensures_rules | simp add: request_ok_def METHODS_def)+

lemma zoho_crm_build_delete_record_ok: "ensures (request_ok (Some 4)) (zoho_crm_build_delete_record fr params)"
  unfolding zoho_crm_build_delete_record_def
  by (rule zoho_crm_required_ok [THEN ensures_bind] zoho_crm_required_ok [THEN ensures_weaken] ensures_rules | simp add: request_ok_def METHODS_def)+

lemma zoho_crm_build_search_records_ok: "ensures (request_ok (Some 4)) (zoho_crm_build_search_records fr params)"
  unfolding zoho_crm_build_search_records_def
  by (rule zoho_crm_required_ok [THEN ensures_bind] zoho_crm_required_ok [THEN ensures_weaken] zoho_crm_coerce_per_page_ok [THEN ensures_bind] zoho_crm_coerce_per_page_ok [THEN ensures_weaken] zoho_crm_coerce_page_ok [THEN ensures_bind] zoho_crm_coerce_page_ok [THEN ensures_weaken] ensures_rules hd_text_param_present | assumption | simp add: request_ok_def METHODS_def)+

definition zoho_crm_shape :: "(string, nat option) dict" where
  "zoho_crm_shape =
     [(''list_records'', Some 3), (''get_record'', Some 4), (''create_record'', Some 3), (''update_record'',
         Some 4), (''delete_record'', Some 4), (''search_records'', Some 4)]"

interpretation zoho_crm: request_builder "zoho_crm_build_request fr" zoho_crm_shape for fr
  by (rule request_builder_table [OF zoho_crm_build_request_def])
    (simp_all del: One_nat_def add: zoho_crm_BUILDERS_def zoho_crm_shape_def
      zoho_crm_build_list_records_ok zoho_crm_build_get_record_ok zoho_crm_build_create_record_ok
      zoho_crm_build_update_record_ok zoho_crm_build_delete_record_ok zoho_crm_build_search_records_ok)

section \<open>Zoom\<close>

definition zoom_coerce_page_size :: "json \<Rightarrow> int result" where
  "zoom_coerce_page_size raw =
     (if is_blank raw then Inr 30
     else (case int_of_json raw of
       None \<Rightarrow> raise ValueError ''Zoom: 'page_size' must be a positive integer''
     | Some value \<Rightarrow>
       if value < 1 then raise ValueError ''Zoom: 'page_size' must be >= 1''
       else Inr (min value 300)))"

definition zoom_build_list_meetings :: "(rat \<Rightarrow> string) \<Rightarrow> jobj \<Rightarrow> request_spec result" where
  "zoom_build_list_meetings fr params =
     (let user_id = (if py_strip (py_str fr (param_or params ''user_id'' (JStr ''me''))) \<noteq> [] then py_strip
         (py_str fr (param_or params ''user_id'' (JStr ''me''))) else ''me'') in
     rbind (zoom_coerce_page_size (dict_get params ''page_size'' JNull)) (\<lambda>r1.
     let query = [(''page_size'', JInt r1)] in
     let list_type = text_param fr params ''list_type'' in
     rbind (if list_type \<noteq> [] then (if list_type \<notin> set [''scheduled'', ''live'', ''upcoming'',
         ''upcoming_meetings'', ''previous_meetings''] then raise ValueError
         (''Zoom: 'list_type' must be one of '' @
         ''['live', 'previous_meetings', 'scheduled', 'upcoming', 'upcoming_meetings']'')
       else Inr (dict_set ''type'' (JStr list_type) query)) else Inr query) (\<lambda>query.
     let cursor = text_param fr params ''next_page_token'' in
     let query = (if cursor \<noteq> [] then dict_set ''next_page_token'' (JStr cursor) query else query) in
     let path = ''/users/'' @ url_quote [] user_id @ ''/meetings'' in
     Inr (''GET'', path, None, query))))"

definition zoom_required_id :: "(rat \<Rightarrow> string) \<Rightarrow> jobj \<Rightarrow> string result" where
  "zoom_required_id fr params =
     (let raw = dict_get params ''meeting_id'' JNull in
     if is_blank raw then raise ValueError ''Zoom: 'meeting_id' is required''
     else Inr (url_quote [] (py_strip (py_str fr raw))))"

definition zoom_build_get_meeting :: "(rat \<Rightarrow> string) \<Rightarrow> jobj \<Rightarrow> request_spec result" where
  "zoom_build_get_meeting fr params =
     rbind (zoom_required_id fr params) (\<lambda>meeting_id.
     Inr (''GET'', ''/meetings/'' @ meeting_id, None, []))"

definition zoom_required :: "(rat \<Rightarrow> string) \<Rightarrow> jobj \<Rightarrow> string \<Rightarrow> string result" where
  "zoom_required fr params key =
     (let value = text_param fr params key in
     if value = [] then raise ValueError (''Zoom: '' @ repr_str key @ '' is required'')
     else Inr value)"

definition zoom_coerce_meeting_type :: "json \<Rightarrow> int result" where
  "zoom_coerce_meeting_type raw =
     (case int_of_json raw of
       None \<Rightarrow> raise ValueError ''Zoom: 'type' must be an integer''
     | Some value \<Rightarrow>
       if value \<notin> set [1, 2, 3, 8] then raise ValueError (''Zoom: 'type' must be one of '' @ ''[1, 2, 3, 8]'')
       else Inr value)"

definition zoom_build_create_meeting :: "(rat \<Rightarrow> string) \<Rightarrow> jobj \<Rightarrow> request_spec result" where
  "zoom_build_create_meeting fr params =
     (let user_id = (if py_strip (py_str fr (param_or params ''user_id'' (JStr ''me''))) \<noteq> [] then py_strip
         (py_str fr (param_or params ''user_id'' (JStr ''me''))) else ''me'') in
     rbind (zoom_required fr params ''topic'') (\<lambda>topic.
     let body = [(''topic'', JStr topic)] in
     let meeting_type = dict_get params ''type'' JNull in
     rbind (if meeting_type \<noteq> JNull then (rbind (zoom_coerce_meeting_type meeting_type) (\<lambda>r2.
       Inr (dict_set ''type'' (JInt r2) body))) else Inr body) (\<lambda>body.
     let body = foldl (\<lambda>body optional.
         let value = dict_get params optional JNull in
         (if \<not> is_blank value then dict_set optional value body else body)) body [''start_time'', ''duration'',
             ''timezone'', ''agenda'', ''password''] in
     let settings = dict_get params ''settings'' JNull in
     let body = (if is_obj settings \<and> py_bool settings then dict_set ''settings'' (JObj (obj_of settings)) body
         else body) in
     let path = ''/users/'' @ url_quote [] user_id @ ''/meetings'' in
     Inr (''POST'', path, Some body, []))))"

definition zoom_build_update_meeting :: "(rat \<Rightarrow> string) \<Rightarrow> jobj \<Rightarrow> request_spec result" where
  "zoom_build_update_meeting fr params =
     rbind (zoom_required_id fr params) (\<lambda>meeting_id.
     let patch = dict_get params ''document'' JNull in
     if \<not> is_obj patch \<or> \<not> py_bool patch then raise ValueError
         ''Zoom: 'document' must be a non-empty JSON object''
     else Inr (''PATCH'', ''/meetings/'' @ meeting_id, Some (obj_of patch), []))"

definition zoom_build_delete_meeting :: "(rat \<Rightarrow> string) \<Rightarrow> jobj \<Rightarrow> request_spec result" where
  "zoom_build_delete_meeting fr params =
     rbind (zoom_required_id fr params) (\<lambda>meeting_id.
     let query = ([] :: jobj) in
     let occurrence_id = text_param fr params ''occurrence_id'' in
     let query = (if occurrence_id \<noteq> [] then dict_set ''occurrence_id'' (JStr occurrence_id) query else query)
         in
     Inr (''DELETE'', ''/meetings/'' @ meeting_id, None, query))"

definition zoom_build_list_past_participants :: "(rat \<Rightarrow> string) \<Rightarrow> jobj \<Rightarrow> request_spec result" where
  "zoom_build_list_past_participants fr params =
     rbind (zoom_required_id fr params) (\<lambda>meeting_id.
     rbind (zoom_coerce_page_size (dict_get params ''page_size'' JNull)) (\<lambda>r2.
     let query = [(''page_size'', JInt r2)] in
     let cursor = text_param fr params ''next_page_token'' in
     let query = (if cursor \<noteq> [] then dict_set ''next_page_token'' (JStr cursor) query else query) in
     let path = ''/past_meetings/'' @ meeting_id @ ''/participants'' in
     Inr (''GET'', path, None, query)))"

definition zoom_BUILDERS :: "(rat \<Rightarrow> string) \<Rightarrow> (string, jobj \<Rightarrow> request_spec result) dict" where
  "zoom_BUILDERS fr =
     [(''list_meetings'', zoom_build_list_meetings fr),
      (''get_meeting'', zoom_build_get_meeting fr),
      (''create_meeting'', zoom_build_create_meeting fr),
      (''update_meeting'', zoom_build_update_meeting fr),
      (''delete_meeting'', zoom_build_delete_meeting fr),
      (''list_past_participants'', zoom_build_list_past_participants fr)]"

definition zoom_build_request :: "(rat \<Rightarrow> string) \<Rightarrow> string \<Rightarrow> jobj \<Rightarrow> request_spec result" where
  "zoom_build_request fr operation params =
     (case map_of (zoom_BUILDERS fr) operation of
        None \<Rightarrow> raise ValueError (''Zoom: unsupported operation '' @ repr_str operation)
      | Some builder \<Rightarrow> builder params)"

lemma zoom_coerce_page_size_ok: "ensures (\<lambda>v. 1 \<le> v \<and> v \<le> 300) (zoom_coerce_page_size raw)"
  unfolding zoom_coerce_page_size_def
  by (rule ensures_rules | simp)+

lemma zoom_build_list_meetings_ok: "ensures (request_ok (Some 3)) (zoom_build_list_meetings fr params)"
  unfolding zoom_build_list_meetings_def
  by (rule zoom_coerce_page_size_ok [THEN ensures_bind] zoom_coerce_page_size_ok [THEN ensures_weaken] ensures_rules | simp add: request_ok_def METHODS_def)+

lemma zoom_required_id_ok: "ensures (\<lambda>s. slashes s = 0) (zoom_required_id fr params)"
  unfolding zoom_required_id_def
  by (rule ensures_rules | simp)+

lemma zoom_build_get_meeting_ok: "ensures (request_ok (Some 2)) (zoom_build_get_meeting fr params)"
  unfolding zoom_build_get_meeting_def
  by (rule zoom_required_id_ok [THEN ensures_bind] zoom_required_id_ok [THEN ensures_weaken] ensures_rules | simp add: request_ok_def METHODS_def)+

lemma zoom_required_ok: "ensures (\<lambda>_. True) (zoom_required fr params key)"
  unfolding zoom_required_def
  by (rule ensures_rules | simp)+

lemma zoom_coerce_meeting_type_ok: "ensures (\<lambda>_. True) (zoom_coerce_meeting_type raw)"
  unfolding zoom_coerce_meeting_type_def
  by (rule ensures_rules | simp)+

lemma zoom_build_create_meeting_ok: "ensures (request_ok (Some 3)) (zoom_build_create_meeting fr params)"
  unfolding zoom_build_create_meeting_def
  by (rule zoom_required_ok [THEN ensures_bind] zoom_required_ok [THEN ensures_weaken] zoom_coerce_meeting_type_ok [THEN ensures_bind] zoom_coerce_meeting_type_ok [THEN ensures_weaken] ensures_rules | simp add: request_ok_def METHODS_def)+

lemma zoom_build_update_meeting_ok: "ensures (request_ok (Some 2)) (zoom_build_update_meeting fr params)"
  unfolding zoom_build_update_meeting_def
  by (rule zoom_required_id_ok [THEN ensures_bind] zoom_required_id_ok [THEN ensures_weaken] ensures_rules | simp add: request_ok_def METHODS_def)+

lemma zoom_build_delete_meeting_ok: "ensures (request_ok (Some 2)) (zoom_build_delete_meeting fr params)"
  unfolding zoom_build_delete_meeting_def
  by (rule zoom_required_id_ok [THEN ensures_bind] zoom_required_id_ok [THEN ensures_weaken] ensures_rules | simp add: request_ok_def METHODS_def)+

lemma zoom_build_list_past_participants_ok: "ensures (request_ok (Some 3)) (zoom_build_list_past_participants fr params)"
  unfolding zoom_build_list_past_participants_def
  by (rule zoom_required_id_ok [THEN ensures_bind] zoom_required_id_ok [THEN ensures_weaken] zoom_coerce_page_size_ok [THEN ensures_bind] zoom_coerce_page_size_ok [THEN ensures_weaken] ensures_rules | simp add: request_ok_def METHODS_def)+

definition zoom_shape :: "(string, nat option) dict" where
  "zoom_shape =
     [(''list_meetings'', Some 3), (''get_meeting'', Some 2), (''create_meeting'', Some 3),
         (''update_meeting'', Some 2), (''delete_meeting'', Some 2), (''list_past_participants'', Some 3)]"

interpretation zoom: request_builder "zoom_build_request fr" zoom_shape for fr
  by (rule request_builder_table [OF zoom_build_request_def])
    (simp_all del: One_nat_def add: zoom_BUILDERS_def zoom_shape_def
      zoom_build_list_meetings_ok zoom_build_get_meeting_ok zoom_build_create_meeting_ok
      zoom_build_update_meeting_ok zoom_build_delete_meeting_ok zoom_build_list_past_participants_ok)

end
