(* ===== verification/Ai_Specs.thy ===== *)
theory Ai_Specs
  imports Node_Registry
begin

text \<open>
  The node specifications of the AI nodes, \<open>nodes/ai/*/node.py\<close>, one
  \<^typ>\<open>node_spec\<close> per node class, field by field as in the source. Constants of \<open>constants.py\<close>
  stand with their values; a dash, an arrow or an ellipsis in a descriptive text is written in ASCII, and
  a list made from a frozen set is in alphabetical order. All of them are well-formed.
\<close>

definition agent_react_spec :: node_spec where
  "agent_react_spec =
   (mk_spec ''weftlyflow.agent_react'' 1 ''Agent: ReAct''
     ''One LLM turn with tool-call fan-out. Emits 'final' when the model returns a plain answer, 'calls' otherwise.''
         ''icons/agent-react.svg'' CatAi)\<lparr>spec_group := [''ai'', ''agent''],
     spec_inputs := [mk_port ''main''],
     spec_outputs := [mk_port ''final'',
       mk_port ''calls''],
     spec_credentials := [\<lparr>slot_name = ''llm_api'', slot_credential_types = [''weftlyflow.openai_api'',
         ''weftlyflow.anthropic_api''], slot_required = True, slot_display_options = None\<rparr>],
     spec_properties :=
      [(mk_property ''provider'' ''Provider'' POptions (JStr ''auto''))\<lparr>prop_options := Some [mk_option
          ''auto'' ''Auto (from credential)'', mk_option ''openai'' ''OpenAI'', mk_option ''anthropic''
          ''Anthropic'']\<rparr>,
       (mk_property ''model'' ''Model'' PString JNull)\<lparr>prop_required := True, prop_description := Some
           ''Provider-native model ID (e.g. gpt-4o-mini, claude-3-5-sonnet-latest).''\<rparr>,
       (mk_property ''history_field'' ''History Field'' PString (JStr ''history''))\<lparr>prop_description := Some
           ''JSON key on the input item holding the message list.''\<rparr>,
       (mk_property ''tools_field'' ''Tools Field'' PString (JStr ''tools''))\<lparr>prop_description := Some
           ''JSON key holding neutral tool definitions ({name, description, parameters}).''\<rparr>,
       (mk_property ''system'' ''System Prompt'' PString JNull)\<lparr>prop_description := Some
           ''Optional system prompt; ignored when the history already has one.''\<rparr>,
       mk_property ''temperature'' ''Temperature'' PNumber JNull,
       mk_property ''max_tokens'' ''Max Tokens'' PNumber JNull]\<rparr>"

definition agent_tool_dispatch_spec :: node_spec where
  "agent_tool_dispatch_spec =
   (mk_spec ''weftlyflow.agent_tool_dispatch'' 1 ''Agent: Tool Dispatch''
     ''Fan LLM tool calls to a 'calls' port and plain-text content to a 'content' port.''
         ''icons/agent-tool-dispatch.svg'' CatAi)\<lparr>spec_group := [''ai'', ''agent''],
     spec_inputs := [mk_port ''main''],
     spec_outputs := [mk_port ''calls'',
       mk_port ''content''],
     spec_properties :=
      [(mk_property ''shape'' ''Provider Shape'' POptions (JStr ''openai''))\<lparr>prop_options := Some [mk_option
          ''openai'' ''OpenAI'', mk_option ''anthropic'' ''Anthropic'', mk_option ''custom''
          ''Custom / pre-normalised'']\<rparr>,
       (mk_property ''tool_calls_path'' ''Tool Calls Path'' PString JNull)\<lparr>prop_description := Some
           ''Dotted path to the tool-calls list. Leave empty to use the default for the selected shape.''\<rparr>,
       (mk_property ''content_path'' ''Content Path'' PString JNull)\<lparr>prop_description := Some
           ''Dotted path to the plain-text response. Leave empty to use the shape default. For Anthropic, content is assembled from 'text' blocks in the same list as tool calls.''\<rparr>,
       (mk_property ''on_empty'' ''On Empty'' POptions (JStr ''skip''))\<lparr>prop_options := Some [mk_option
           ''skip'' ''Skip'', mk_option ''emit_content'' ''Emit content item even if empty'', mk_option
           ''error'' ''Raise'']\<rparr>]\<rparr>"

definition agent_tool_result_spec :: node_spec where
  "agent_tool_result_spec =
   (mk_spec ''weftlyflow.agent_tool_result'' 1 ''Agent: Tool Result''
     ''Encode tool-execution output into an OpenAI or Anthropic tool-result message ready for the next LLM turn.''
         ''icons/agent-tool-result.svg'' CatAi)\<lparr>spec_group := [''ai'', ''agent''],
     spec_properties :=
      [(mk_property ''shape'' ''Provider Shape'' POptions (JStr ''openai''))\<lparr>prop_options := Some [mk_option
          ''openai'' ''OpenAI'', mk_option ''anthropic'' ''Anthropic'']\<rparr>,
       (mk_property ''tool_call_id_field'' ''Tool Call ID Field'' PString (JStr
           ''tool_call_id''))\<lparr>prop_description := Some
           ''JSON key carrying the tool_call_id emitted by agent_tool_dispatch.''\<rparr>,
       (mk_property ''result_field'' ''Result Field'' PString (JStr ''result''))\<lparr>prop_description := Some
           ''JSON key holding the executor's return value. Non-string values are JSON-encoded.''\<rparr>,
       (mk_property ''is_error_field'' ''Is-Error Field'' PString (JStr ''is_error''))\<lparr>prop_description := Some
           ''JSON key whose truthy value marks the tool run as failed. Anthropic only.'', prop_display_options
           := Some \<lparr>show_when = [(''shape'', [JStr ''anthropic''])], hide_when = []\<rparr>\<rparr>,
       (mk_property ''batch_anthropic'' ''Batch Into Single Message'' PBoolean (JBool True))\<lparr>prop_description
           := Some
           ''Group every input item into one Anthropic user message. When off, each item emits its own message.'',
           prop_display_options := Some \<lparr>show_when = [(''shape'', [JStr ''anthropic''])], hide_when = []\<rparr>\<rparr>]\<rparr>"

definition chat_respond_spec :: node_spec where
  "chat_respond_spec =
   (mk_spec ''weftlyflow.chat_respond'' 1 ''Chat: Respond''
     ''Emit a standardised chat-response envelope at the end of a chat workflow.'' ''icons/chat-respond.svg''
         CatAi)\<lparr>spec_group := [''ai'', ''chat''],
     spec_properties :=
      [(mk_property ''content'' ''Content'' PString JNull)\<lparr>prop_description := Some
          ''Literal or expression-resolved response text. Leave empty to pull from 'Content Field' instead.''\<rparr>,
       (mk_property ''content_field'' ''Content Field'' PString (JStr ''content''))\<lparr>prop_description := Some
           ''JSON key used when 'Content' is empty. Default pairs with LLM node output shapes.''\<rparr>,
       (mk_property ''role'' ''Role'' POptions (JStr ''assistant''))\<lparr>prop_options := Some [mk_option
           ''assistant'' ''Assistant'', mk_option ''system'' ''System'', mk_option ''tool'' ''Tool'']\<rparr>,
       (mk_property ''session_id_field'' ''Session ID Field'' PString (JStr ''session_id''))\<lparr>prop_description
           := Some ''JSON key used to copy the session id through.''\<rparr>,
       (mk_property ''response_type'' ''Response Type'' POptions (JStr ''message''))\<lparr>prop_options := Some
           [mk_option ''message'' ''Message'', mk_option ''final'' ''Final'', mk_option ''error'' ''Error'']\<rparr>,
       (mk_property ''metadata'' ''Metadata'' PJson JNull)\<lparr>prop_description := Some
           ''Optional JSON object appended to the envelope.''\<rparr>]\<rparr>"

definition embed_local_spec :: node_spec where
  "embed_local_spec =
   (mk_spec ''weftlyflow.embed_local'' 1 ''Embed (Local)''
     ''Deterministic feature-hashing embeddings. No network, no API key - pair with vector_memory for hermetic RAG tests.''
         ''icons/embed-local.svg'' CatAi)\<lparr>spec_group := [''ai'', ''retrieval''],
     spec_properties :=
      [(mk_property ''text_field'' ''Text Field'' PString (JStr ''chunk''))\<lparr>prop_description := Some
          ''JSON key whose value is embedded.''\<rparr>,
       (mk_property ''output_field'' ''Output Field'' PString (JStr ''embedding''))\<lparr>prop_description := Some
           ''JSON key the embedding is written to.''\<rparr>,
       (mk_property ''dimensions'' ''Dimensions'' PNumber (JInt 256))\<lparr>prop_description := Some
           ''Vector length.''\<rparr>,
       (mk_property ''normalize'' ''Normalize'' PBoolean (JBool True))\<lparr>prop_description := Some
           ''L2-normalise so cosine and dot metrics agree.''\<rparr>]\<rparr>"

definition embed_openai_spec :: node_spec where
  "embed_openai_spec =
   (mk_spec ''weftlyflow.embed_openai'' 1 ''Embed (OpenAI)''
     ''Call OpenAI /v1/embeddings and attach the vector to each input item. Shares the weftlyflow.openai_api credential with the main OpenAI node.''
         ''icons/embed-openai.svg'' CatAi)\<lparr>spec_group := [''ai'', ''retrieval''],
     spec_credentials := [\<lparr>slot_name = ''openai_api'', slot_credential_types = [''weftlyflow.openai_api''],
         slot_required = True, slot_display_options = None\<rparr>],
     spec_properties :=
      [(mk_property ''text_field'' ''Text Field'' PString (JStr ''chunk''))\<lparr>prop_description := Some
          ''JSON key whose value is embedded.''\<rparr>,
       (mk_property ''output_field'' ''Output Field'' PString (JStr ''embedding''))\<lparr>prop_description := Some
           ''JSON key the embedding vector is written to.''\<rparr>,
       (mk_property ''model'' ''Model'' PString (JStr ''text-embedding-3-small''))\<lparr>prop_description := Some
           ''Embedding model ID (e.g. text-embedding-3-small, text-embedding-3-large).''\<rparr>,
       (mk_property ''dimensions'' ''Dimensions'' PNumber JNull)\<lparr>prop_description := Some
           ''Optional truncated vector size. Only honored by text-embedding-3-* models.''\<rparr>,
       (mk_property ''user'' ''User'' PString JNull)\<lparr>prop_description := Some
           ''Optional end-user identifier forwarded to OpenAI for abuse monitoring.''\<rparr>],
     documentation_url := Some ''https://platform.openai.com/docs/api-reference/embeddings''\<rparr>"

definition guard_jailbreak_detect_spec :: node_spec where
  "guard_jailbreak_detect_spec =
   (mk_spec ''weftlyflow.guard_jailbreak_detect'' 1 ''Guard: Jailbreak Detect''
     ''Flag prompt-injection and jailbreak attempts in a text field. Emits jailbreak_risk, jailbreak_rules, and jailbreak_flagged.''
         ''icons/guard-jailbreak.svg'' CatAi)\<lparr>spec_group := [''ai'', ''guardrails''],
     spec_properties :=
      [(mk_property ''field'' ''Text Field'' PString (JStr ''text''))\<lparr>prop_required := True, prop_description
          := Some ''JSON key on the input item that holds the text.''\<rparr>,
       (mk_property ''threshold'' ''Risk Threshold'' PNumber (JInt 1))\<lparr>prop_description := Some
           ''Number of matched rules at or above which the input is flagged as risky.''\<rparr>,
       (mk_property ''enabled_rules'' ''Enabled Rules'' PMultiOptions (JArr [JStr ''dan_mode'', JStr
           ''instruction_override'', JStr ''role_switch'', JStr ''system_role_injection'', JStr
           ''tool_injection'']))\<lparr>prop_description := Some ''Subset of heuristic rules to evaluate.'',
           prop_options := Some [mk_option ''instruction_override'' ''Instruction override'', mk_option
           ''role_switch'' ''Role switch'', mk_option ''system_role_injection''
           ''System/assistant role injection'', mk_option ''dan_mode'' ''DAN / developer mode'', mk_option
           ''tool_injection'' ''Tool-call injection'']\<rparr>]\<rparr>"

definition guard_pii_redact_spec :: node_spec where
  "guard_pii_redact_spec =
   (mk_spec ''weftlyflow.guard_pii_redact'' 1 ''Guard: PII Redact''
     ''Mask emails, phones, credit cards, IPs, and IBANs in a text field. Safe to place upstream of LLM, memory, and logging nodes.''
         ''icons/guard-pii.svg'' CatAi)\<lparr>spec_group := [''ai'', ''guardrails''],
     spec_properties :=
      [(mk_property ''field'' ''Text Field'' PString (JStr ''text''))\<lparr>prop_required := True, prop_description
          := Some ''JSON key on the input item that holds the text.''\<rparr>,
       (mk_property ''output_field'' ''Output Field'' PString JNull)\<lparr>prop_description := Some
           ''Where to write the redacted text. Defaults to the same key as 'field' (in-place).''\<rparr>,
       (mk_property ''mask_template'' ''Mask Template'' PString (JStr ''[REDACTED_{kind}]''))\<lparr>prop_description
           := Some
           ''Replacement string. '{kind}' is substituted with the detector name (email, phone, credit_card, ipv4, iban).''\<rparr>,
       (mk_property ''enabled_kinds'' ''Enabled Detectors'' PMultiOptions (JArr [JStr ''credit_card'', JStr
           ''email'', JStr ''iban'', JStr ''ipv4'', JStr ''phone'']))\<lparr>prop_description := Some
           ''Subset of detectors to apply.'', prop_options := Some [mk_option ''email'' ''Email'', mk_option
           ''phone'' ''Phone'', mk_option ''credit_card'' ''Credit card'', mk_option ''ipv4'' ''IPv4'',
           mk_option ''iban'' ''IBAN'']\<rparr>]\<rparr>"

definition guard_schema_enforce_spec :: node_spec where
  "guard_schema_enforce_spec =
   (mk_spec ''weftlyflow.guard_schema_enforce'' 1 ''Guard: Schema Enforce''
     ''Validate structured data against a JSON-Schema subset. Emits schema_valid and schema_errors; optionally aborts on invalid.''
         ''icons/guard-schema.svg'' CatAi)\<lparr>spec_group := [''ai'', ''guardrails''],
     spec_properties :=
      [(mk_property ''field'' ''Field'' PString (JStr []))\<lparr>prop_description := Some
          ''JSON key to validate. Leave empty to validate the entire item payload.''\<rparr>,
       (mk_property ''schema'' ''JSON Schema'' PJson JNull)\<lparr>prop_required := True, prop_description := Some
           ''Schema subset: type, required, properties, additionalProperties, items, enum, minLength, maxLength, minimum, maximum, pattern, minItems, maxItems.''\<rparr>,
       (mk_property ''strict'' ''Strict'' PBoolean (JBool False))\<lparr>prop_description := Some
           ''When true, raise on invalid. When false, annotate the item and pass through.''\<rparr>]\<rparr>"

definition memory_buffer_spec :: node_spec where
  "memory_buffer_spec =
   (mk_spec ''weftlyflow.memory_buffer'' 1 ''Memory Buffer''
     ''Persist chat history per session across workflow runs.'' ''icons/memory-buffer.svg'' CatAi)\<lparr>spec_group
         := [''ai'', ''memory''],
     spec_properties :=
      [(mk_property ''session_id'' ''Session ID'' PString JNull)\<lparr>prop_required := True, prop_description :=
          Some ''Unique key per conversation (often '{{ $json.session_id }}').''\<rparr>,
       (mk_property ''operation'' ''Operation'' POptions (JStr ''append''))\<lparr>prop_required := True, prop_options
           := Some [mk_option ''load'' ''Load'', mk_option ''append'' ''Append'', mk_option ''clear''
           ''Clear'']\<rparr>,
       (mk_property ''new_messages'' ''New Messages'' PJson JNull)\<lparr>prop_description := Some (''[{'' @ [CHR
           0x22] @ ''role'' @ [CHR 0x22] @ '': '' @ [CHR 0x22] @ ''user'' @ [CHR 0x22] @ '', '' @ [CHR 0x22] @
           ''content'' @ [CHR 0x22] @ '': '' @ [CHR 0x22] @ ''...'' @ [CHR 0x22] @ ''}]''),
           prop_display_options := Some \<lparr>show_when = [(''operation'', [JStr ''append''])], hide_when = []\<rparr>\<rparr>]\<rparr>"

definition memory_summary_spec :: node_spec where
  "memory_summary_spec =
   (mk_spec ''weftlyflow.memory_summary'' 1 ''Memory Summary''
     ''Rolling-summary chat history: keeps a bounded tail of recent messages plus a caller-managed summary string.''
         ''icons/memory-summary.svg'' CatAi)\<lparr>spec_group := [''ai'', ''memory''],
     spec_properties :=
      [(mk_property ''session_id'' ''Session ID'' PString JNull)\<lparr>prop_required := True, prop_description :=
          Some ''Unique key per conversation.''\<rparr>,
       (mk_property ''operation'' ''Operation'' POptions (JStr ''append''))\<lparr>prop_required := True, prop_options
           := Some [mk_option ''load'' ''Load'', mk_option ''append'' ''Append'', mk_option ''set_summary''
           ''Set Summary'', mk_option ''clear'' ''Clear'']\<rparr>,
       (mk_property ''max_messages'' ''Max Messages'' PNumber (JInt 10))\<lparr>prop_required := True,
           prop_description := Some
           ''Maximum messages retained per session. Overflow is returned on 'pending_summary'.''\<rparr>,
       (mk_property ''new_messages'' ''New Messages'' PJson JNull)\<lparr>prop_description := Some (''[{'' @ [CHR
           0x22] @ ''role'' @ [CHR 0x22] @ '': '' @ [CHR 0x22] @ ''user'' @ [CHR 0x22] @ '', '' @ [CHR 0x22] @
           ''content'' @ [CHR 0x22] @ '': '' @ [CHR 0x22] @ ''...'' @ [CHR 0x22] @ ''}]''),
           prop_display_options := Some \<lparr>show_when = [(''operation'', [JStr ''append''])], hide_when = []\<rparr>\<rparr>,
       (mk_property ''summary_text'' ''Summary Text'' PString JNull)\<lparr>prop_description := Some
           ''Replaces the stored rolling summary.'', prop_display_options := Some \<lparr>show_when = [(''operation'',
           [JStr ''set_summary''])], hide_when = []\<rparr>\<rparr>]\<rparr>"

definition memory_window_spec :: node_spec where
  "memory_window_spec =
   (mk_spec ''weftlyflow.memory_window'' 1 ''Memory Window''
     ''Sliding-window chat history with bounded growth per session.'' ''icons/memory-window.svg''
         CatAi)\<lparr>spec_group := [''ai'', ''memory''],
     spec_properties :=
      [(mk_property ''session_id'' ''Session ID'' PString JNull)\<lparr>prop_required := True, prop_description :=
          Some ''Unique key per conversation.''\<rparr>,
       (mk_property ''operation'' ''Operation'' POptions (JStr ''append''))\<lparr>prop_required := True, prop_options
           := Some [mk_option ''load'' ''Load'', mk_option ''append'' ''Append'', mk_option ''clear''
           ''Clear'']\<rparr>,
       (mk_property ''window_size'' ''Window Size'' PNumber (JInt 10))\<lparr>prop_required := True, prop_description
           := Some ''Maximum messages retained per session.''\<rparr>,
       (mk_property ''new_messages'' ''New Messages'' PJson JNull)\<lparr>prop_description := Some (''[{'' @ [CHR
           0x22] @ ''role'' @ [CHR 0x22] @ '': '' @ [CHR 0x22] @ ''user'' @ [CHR 0x22] @ '', '' @ [CHR 0x22] @
           ''content'' @ [CHR 0x22] @ '': '' @ [CHR 0x22] @ ''...'' @ [CHR 0x22] @ ''}]''),
           prop_display_options := Some \<lparr>show_when = [(''operation'', [JStr ''append''])], hide_when = []\<rparr>\<rparr>]\<rparr>"

definition text_splitter_spec :: node_spec where
  "text_splitter_spec =
   (mk_spec ''weftlyflow.text_splitter'' 1 ''Text Splitter''
     ''Split long text into overlapping chunks. Pairs with embedding nodes for RAG pipelines.''
         ''icons/text-splitter.svg'' CatAi)\<lparr>spec_group := [''ai'', ''retrieval''],
     spec_properties :=
      [(mk_property ''text_field'' ''Text Field'' PString (JStr ''text''))\<lparr>prop_description := Some
          ''JSON key whose value is the text to split.''\<rparr>,
       (mk_property ''chunk_size'' ''Chunk Size'' PNumber (JInt 1000))\<lparr>prop_description := Some
           ''Maximum characters per chunk.''\<rparr>,
       (mk_property ''chunk_overlap'' ''Chunk Overlap'' PNumber (JInt 100))\<lparr>prop_description := Some
           ''Characters shared between adjacent chunks.''\<rparr>,
       (mk_property ''separators'' ''Separators'' PJson JNull)\<lparr>prop_description := Some
           ''Optional JSON list of priority-ordered separator strings. Leave empty for the default.''\<rparr>,
       (mk_property ''output_mode'' ''Output Mode'' POptions (JStr ''per_chunk''))\<lparr>prop_options := Some
           [mk_option ''per_chunk'' ''One item per chunk'', mk_option ''list''
           ''Single item with chunks list'']\<rparr>]\<rparr>"

definition trigger_chat_spec :: node_spec where
  "trigger_chat_spec =
   (mk_spec ''weftlyflow.trigger_chat'' 1 ''Chat Trigger''
     ''Start the workflow when a chat message arrives at the registered path. Pairs with the Chat Respond node.''
         ''icons/chat-trigger.svg'' CatTrigger)\<lparr>spec_group := [''trigger'', ''ai'', ''chat''],
     spec_inputs := [],
     spec_outputs := [mk_port ''main''],
     spec_properties :=
      [(mk_property ''path'' ''Path'' PString (JStr []))\<lparr>prop_description := Some
          ''Path suffix this chat endpoint listens on. Leave empty to use the workflow/node id.''\<rparr>,
       (mk_property ''message_field'' ''Message Field'' PString (JStr ''message''))\<lparr>prop_description := Some
           ''Key in the request body that carries the user's message.''\<rparr>,
       (mk_property ''session_id_field'' ''Session ID Field'' PString (JStr ''session_id''))\<lparr>prop_description
           := Some ''Key in the request body carrying the chat session id.''\<rparr>,
       (mk_property ''user_id_field'' ''User ID Field'' PString (JStr ''user_id''))\<lparr>prop_description := Some
           ''Key in the request body identifying the end user.''\<rparr>,
       (mk_property ''history_field'' ''History Field'' PString (JStr ''history''))\<lparr>prop_description := Some
           ''Key in the request body carrying prior turns (a list of ``{role, content}`` dicts). Optional.''\<rparr>]\<rparr>"

definition vector_chroma_spec :: node_spec where
  "vector_chroma_spec =
   (mk_spec ''weftlyflow.vector_chroma'' 1 ''Vector Chroma''
     ''Self-hosted vector store backed by Chroma. Same upsert / query / delete / clear surface as vector_memory so the backends are swappable.''
         ''icons/vector-chroma.svg'' CatAi)\<lparr>spec_group := [''ai'', ''retrieval''],
     spec_credentials := [\<lparr>slot_name = ''chroma'', slot_credential_types = [''weftlyflow.chroma''],
         slot_required = True, slot_display_options = None\<rparr>],
     spec_properties :=
      [(mk_property ''operation'' ''Operation'' POptions (JStr ''query''))\<lparr>prop_required := True, prop_options
          := Some [mk_option ''upsert'' ''Upsert'', mk_option ''query'' ''Query'', mk_option ''delete''
          ''Delete'', mk_option ''clear'' ''Clear'', mk_option ''ensure_schema'' ''Ensure Schema'']\<rparr>,
       (mk_property ''collection'' ''Collection'' PString (JStr ''weftlyflow_vectors''))\<lparr>prop_description :=
           Some ''Chroma collection that hosts the vectors.''\<rparr>,
       (mk_property ''namespace'' ''Namespace'' PString (JStr ''default''))\<lparr>prop_description := Some
           ''Metadata-scoped partition stored under '_weftlyflow_namespace' and filtered via Chroma's 'where' clause on every query / delete / clear.'',
           prop_display_options := Some \<lparr>show_when = [(''operation'', [JStr ''upsert'', JStr ''query'', JStr
           ''delete'', JStr ''clear''])], hide_when = []\<rparr>\<rparr>,
       (mk_property ''id'' ''ID'' PString JNull)\<lparr>prop_description := Some ''Vector id for upsert or delete.'',
           prop_display_options := Some \<lparr>show_when = [(''operation'', [JStr ''upsert'', JStr ''delete''])],
           hide_when = []\<rparr>\<rparr>,
       (mk_property ''vector'' ''Vector'' PJson JNull)\<lparr>prop_description := Some ''JSON array of floats.'',
           prop_display_options := Some \<lparr>show_when = [(''operation'', [JStr ''upsert'', JStr ''query''])],
           hide_when = []\<rparr>\<rparr>,
       (mk_property ''metadata'' ''Metadata'' PJson JNull)\<lparr>prop_description := Some
           ''JSON object stored alongside the vector.'', prop_display_options := Some \<lparr>show_when =
           [(''operation'', [JStr ''upsert''])], hide_when = []\<rparr>\<rparr>,
       (mk_property ''document'' ''Document'' PString JNull)\<lparr>prop_description := Some
           ''Optional raw document text to store alongside the vector. Chroma stores it verbatim and returns it on query when present.'',
           prop_display_options := Some \<lparr>show_when = [(''operation'', [JStr ''upsert''])], hide_when = []\<rparr>\<rparr>,
       (mk_property ''top_k'' ''Top K'' PNumber (JInt 5))\<lparr>prop_display_options := Some \<lparr>show_when =
           [(''operation'', [JStr ''query''])], hide_when = []\<rparr>\<rparr>,
       (mk_property ''metric'' ''Metric'' POptions (JStr ''cosine''))\<lparr>prop_description := Some
           ''Used by 'ensure_schema' (HNSW space) and 'query' (score normalisation).'', prop_options := Some
           [mk_option ''cosine'' ''Cosine'', mk_option ''dot'' ''Dot product'', mk_option ''euclidean''
           ''Euclidean''], prop_display_options := Some \<lparr>show_when = [(''operation'', [JStr ''query'', JStr
           ''ensure_schema''])], hide_when = []\<rparr>\<rparr>],
     documentation_url := Some ''https://docs.trychroma.com/reference/python/client''\<rparr>"

definition vector_memory_spec :: node_spec where
  "vector_memory_spec =
   (mk_spec ''weftlyflow.vector_memory'' 1 ''Vector Memory''
     ''Self-contained in-process vector store. Pairs with text_splitter + an embedding node for zero-infra RAG.''
         ''icons/vector-memory.svg'' CatAi)\<lparr>spec_group := [''ai'', ''retrieval''],
     spec_properties :=
      [(mk_property ''operation'' ''Operation'' POptions (JStr ''query''))\<lparr>prop_required := True, prop_options
          := Some [mk_option ''upsert'' ''Upsert'', mk_option ''query'' ''Query'', mk_option ''delete''
          ''Delete'', mk_option ''clear'' ''Clear'']\<rparr>,
       (mk_property ''namespace'' ''Namespace'' PString (JStr ''default''))\<lparr>prop_description := Some
           ''Collection-like partition for this store.''\<rparr>,
       (mk_property ''id'' ''ID'' PString JNull)\<lparr>prop_description := Some ''Record id for upsert or delete.'',
           prop_display_options := Some \<lparr>show_when = [(''operation'', [JStr ''upsert'', JStr ''delete''])],
           hide_when = []\<rparr>\<rparr>,
       (mk_property ''vector'' ''Vector'' PJson JNull)\<lparr>prop_description := Some ''JSON array of floats.'',
           prop_display_options := Some \<lparr>show_when = [(''operation'', [JStr ''upsert'', JStr ''query''])],
           hide_when = []\<rparr>\<rparr>,
       (mk_property ''payload'' ''Payload'' PJson JNull)\<lparr>prop_description := Some
           ''JSON object stored alongside the vector.'', prop_display_options := Some \<lparr>show_when =
           [(''operation'', [JStr ''upsert''])], hide_when = []\<rparr>\<rparr>,
       (mk_property ''top_k'' ''Top K'' PNumber (JInt 5))\<lparr>prop_display_options := Some \<lparr>show_when =
           [(''operation'', [JStr ''query''])], hide_when = []\<rparr>\<rparr>,
       (mk_property ''metric'' ''Metric'' POptions (JStr ''cosine''))\<lparr>prop_options := Some [mk_option
           ''cosine'' ''Cosine'', mk_option ''dot'' ''Dot product'', mk_option ''euclidean'' ''Euclidean''],
           prop_display_options := Some \<lparr>show_when = [(''operation'', [JStr ''query''])], hide_when = []\<rparr>\<rparr>]\<rparr>"

definition vector_pgvector_spec :: node_spec where
  "vector_pgvector_spec =
   (mk_spec ''weftlyflow.vector_pgvector'' 1 ''Vector Pgvector''
     ''Persistent vector store backed by pgvector. Mirrors the vector_memory operation surface so the two are swappable.''
         ''icons/vector-pgvector.svg'' CatAi)\<lparr>spec_group := [''ai'', ''retrieval''],
     spec_credentials := [\<lparr>slot_name = ''postgres_dsn'', slot_credential_types = [''weftlyflow.postgres_dsn''],
         slot_required = True, slot_display_options = None\<rparr>],
     spec_properties :=
      [(mk_property ''operation'' ''Operation'' POptions (JStr ''query''))\<lparr>prop_required := True, prop_options
          := Some [mk_option ''upsert'' ''Upsert'', mk_option ''query'' ''Query'', mk_option ''delete''
          ''Delete'', mk_option ''clear'' ''Clear'', mk_option ''ensure_schema'' ''Ensure Schema'']\<rparr>,
       (mk_property ''table'' ''Table'' PString (JStr ''weftlyflow_vectors''))\<lparr>prop_description := Some
           ''Target table. Must match ^[A-Za-z_][A-Za-z0-9_]*$ (case preserved).''\<rparr>,
       (mk_property ''namespace'' ''Namespace'' PString (JStr ''default''))\<lparr>prop_description := Some
           ''Collection-like partition stored in a column.'', prop_display_options := Some \<lparr>show_when =
           [(''operation'', [JStr ''upsert'', JStr ''query'', JStr ''delete'', JStr ''clear''])], hide_when =
           []\<rparr>\<rparr>,
       (mk_property ''dimensions'' ''Dimensions'' PNumber (JInt 1536))\<lparr>prop_description := Some
           ''Vector dimensionality when creating the table.'', prop_display_options := Some \<lparr>show_when =
           [(''operation'', [JStr ''ensure_schema''])], hide_when = []\<rparr>\<rparr>,
       (mk_property ''id'' ''ID'' PString JNull)\<lparr>prop_description := Some ''Record id for upsert or delete.'',
           prop_display_options := Some \<lparr>show_when = [(''operation'', [JStr ''upsert'', JStr ''delete''])],
           hide_when = []\<rparr>\<rparr>,
       (mk_property ''vector'' ''Vector'' PJson JNull)\<lparr>prop_description := Some ''JSON array of floats.'',
           prop_display_options := Some \<lparr>show_when = [(''operation'', [JStr ''upsert'', JStr ''query''])],
           hide_when = []\<rparr>\<rparr>,
       (mk_property ''payload'' ''Payload'' PJson JNull)\<lparr>prop_description := Some
           ''JSON object stored alongside the vector.'', prop_display_options := Some \<lparr>show_when =
           [(''operation'', [JStr ''upsert''])], hide_when = []\<rparr>\<rparr>,
       (mk_property ''top_k'' ''Top K'' PNumber (JInt 5))\<lparr>prop_display_options := Some \<lparr>show_when =
           [(''operation'', [JStr ''query''])], hide_when = []\<rparr>\<rparr>,
       (mk_property ''metric'' ''Metric'' POptions (JStr ''cosine''))\<lparr>prop_options := Some [mk_option
           ''cosine'' ''Cosine'', mk_option ''dot'' ''Dot product'', mk_option ''euclidean'' ''Euclidean''],
           prop_display_options := Some \<lparr>show_when = [(''operation'', [JStr ''query''])], hide_when = []\<rparr>\<rparr>],
     documentation_url := Some ''https://github.com/pgvector/pgvector''\<rparr>"

definition vector_pinecone_spec :: node_spec where
  "vector_pinecone_spec =
   (mk_spec ''weftlyflow.vector_pinecone'' 1 ''Vector Pinecone''
     ''Managed vector store backed by Pinecone. Same upsert / query / delete / clear surface as vector_memory so the backends are swappable.''
         ''icons/vector-pinecone.svg'' CatAi)\<lparr>spec_group := [''ai'', ''retrieval''],
     spec_credentials := [\<lparr>slot_name = ''pinecone_api'', slot_credential_types = [''weftlyflow.pinecone_api''],
         slot_required = True, slot_display_options = None\<rparr>],
     spec_properties :=
      [(mk_property ''operation'' ''Operation'' POptions (JStr ''query''))\<lparr>prop_required := True, prop_options
          := Some [mk_option ''upsert'' ''Upsert'', mk_option ''query'' ''Query'', mk_option ''delete''
          ''Delete'', mk_option ''clear'' ''Clear'', mk_option ''ensure_schema'' ''Ensure Schema'']\<rparr>,
       (mk_property ''index_name'' ''Index Name'' PString (JStr ''weftlyflow-vectors''))\<lparr>prop_description :=
           Some ''Pinecone index that hosts the vectors.''\<rparr>,
       (mk_property ''host'' ''Data-Plane Host'' PString JNull)\<lparr>prop_description := Some
           ''Per-index data-plane host (e.g. 'my-index-proj.svc.us-east-1-aws.pinecone.io'). Leave blank to resolve via the control plane on first use.'',
           prop_display_options := Some \<lparr>show_when = [(''operation'', [JStr ''upsert'', JStr ''query'', JStr
           ''delete'', JStr ''clear''])], hide_when = []\<rparr>\<rparr>,
       (mk_property ''namespace'' ''Namespace'' PString (JStr ''default''))\<lparr>prop_description := Some
           ''Native Pinecone namespace. Applied to every upsert / query / delete / clear to partition the index.'',
           prop_display_options := Some \<lparr>show_when = [(''operation'', [JStr ''upsert'', JStr ''query'', JStr
           ''delete'', JStr ''clear''])], hide_when = []\<rparr>\<rparr>,
       (mk_property ''dimensions'' ''Dimensions'' PNumber (JInt 1536))\<lparr>prop_description := Some
           ''Vector dimensionality used when creating the index.'', prop_display_options := Some \<lparr>show_when =
           [(''operation'', [JStr ''ensure_schema''])], hide_when = []\<rparr>\<rparr>,
       (mk_property ''cloud'' ''Cloud'' PString (JStr ''aws''))\<lparr>prop_description := Some
           ''Serverless cloud ('aws', 'gcp', or 'azure').'', prop_display_options := Some \<lparr>show_when =
           [(''operation'', [JStr ''ensure_schema''])], hide_when = []\<rparr>\<rparr>,
       (mk_property ''region'' ''Region'' PString (JStr ''us-east-1''))\<lparr>prop_description := Some
           ''Serverless region (cloud-specific).'', prop_display_options := Some \<lparr>show_when = [(''operation'',
           [JStr ''ensure_schema''])], hide_when = []\<rparr>\<rparr>,
       (mk_property ''id'' ''ID'' PString JNull)\<lparr>prop_description := Some ''Vector id for upsert or delete.'',
           prop_display_options := Some \<lparr>show_when = [(''operation'', [JStr ''upsert'', JStr ''delete''])],
           hide_when = []\<rparr>\<rparr>,
       (mk_property ''vector'' ''Vector'' PJson JNull)\<lparr>prop_description := Some ''JSON array of floats.'',
           prop_display_options := Some \<lparr>show_when = [(''operation'', [JStr ''upsert'', JStr ''query''])],
           hide_when = []\<rparr>\<rparr>,
       (mk_property ''metadata'' ''Metadata'' PJson JNull)\<lparr>prop_description := Some
           ''JSON object stored alongside the vector.'', prop_display_options := Some \<lparr>show_when =
           [(''operation'', [JStr ''upsert''])], hide_when = []\<rparr>\<rparr>,
       (mk_property ''top_k'' ''Top K'' PNumber (JInt 5))\<lparr>prop_display_options := Some \<lparr>show_when =
           [(''operation'', [JStr ''query''])], hide_when = []\<rparr>\<rparr>,
       (mk_property ''metric'' ''Metric'' POptions (JStr ''cosine''))\<lparr>prop_description := Some
           ''Used by both 'ensure_schema' (index metric) and 'query' (score normalisation).'', prop_options :=
           Some [mk_option ''cosine'' ''Cosine'', mk_option ''dot'' ''Dot product'', mk_option ''euclidean''
           ''Euclidean''], prop_display_options := Some \<lparr>show_when = [(''operation'', [JStr ''query'', JStr
           ''ensure_schema''])], hide_when = []\<rparr>\<rparr>],
     documentation_url := Some ''https://docs.pinecone.io/reference/api/introduction''\<rparr>"

definition vector_qdrant_spec :: node_spec where
  "vector_qdrant_spec =
   (mk_spec ''weftlyflow.vector_qdrant'' 1 ''Vector Qdrant''
     ''External vector store backed by Qdrant. Same upsert / query / delete / clear surface as vector_memory so the two are swappable.''
         ''icons/vector-qdrant.svg'' CatAi)\<lparr>spec_group := [''ai'', ''retrieval''],
     spec_credentials := [\<lparr>slot_name = ''qdrant_api'', slot_credential_types = [''weftlyflow.qdrant_api''],
         slot_required = True, slot_display_options = None\<rparr>],
     spec_properties :=
      [(mk_property ''operation'' ''Operation'' POptions (JStr ''query''))\<lparr>prop_required := True, prop_options
          := Some [mk_option ''upsert'' ''Upsert'', mk_option ''query'' ''Query'', mk_option ''delete''
          ''Delete'', mk_option ''clear'' ''Clear'', mk_option ''ensure_schema'' ''Ensure Schema'']\<rparr>,
       (mk_property ''collection'' ''Collection'' PString (JStr ''weftlyflow_vectors''))\<lparr>prop_description :=
           Some ''Qdrant collection that hosts the vectors.''\<rparr>,
       (mk_property ''namespace'' ''Namespace'' PString (JStr ''default''))\<lparr>prop_description := Some
           ''Payload-scoped partition. Stored under '_weftlyflow_namespace' and filtered on every query / delete / clear.'',
           prop_display_options := Some \<lparr>show_when = [(''operation'', [JStr ''upsert'', JStr ''query'', JStr
           ''delete'', JStr ''clear''])], hide_when = []\<rparr>\<rparr>,
       (mk_property ''dimensions'' ''Dimensions'' PNumber (JInt 1536))\<lparr>prop_description := Some
           ''Vector dimensionality used when creating the collection.'', prop_display_options := Some
           \<lparr>show_when = [(''operation'', [JStr ''ensure_schema''])], hide_when = []\<rparr>\<rparr>,
       (mk_property ''id'' ''ID'' PString JNull)\<lparr>prop_description := Some
           ''Point id for upsert or delete. Must be a valid Qdrant id (unsigned int or UUID).'',
           prop_display_options := Some \<lparr>show_when = [(''operation'', [JStr ''upsert'', JStr ''delete''])],
           hide_when = []\<rparr>\<rparr>,
       (mk_property ''vector'' ''Vector'' PJson JNull)\<lparr>prop_description := Some ''JSON array of floats.'',
           prop_display_options := Some \<lparr>show_when = [(''operation'', [JStr ''upsert'', JStr ''query''])],
           hide_when = []\<rparr>\<rparr>,
       (mk_property ''payload'' ''Payload'' PJson JNull)\<lparr>prop_description := Some
           ''JSON object stored alongside the vector.'', prop_display_options := Some \<lparr>show_when =
           [(''operation'', [JStr ''upsert''])], hide_when = []\<rparr>\<rparr>,
       (mk_property ''top_k'' ''Top K'' PNumber (JInt 5))\<lparr>prop_display_options := Some \<lparr>show_when =
           [(''operation'', [JStr ''query''])], hide_when = []\<rparr>\<rparr>,
       (mk_property ''metric'' ''Metric'' POptions (JStr ''cosine''))\<lparr>prop_description := Some
           ''Used by both 'ensure_schema' (collection config) and 'query' (score normalisation).'',
           prop_options := Some [mk_option ''cosine'' ''Cosine'', mk_option ''dot'' ''Dot product'', mk_option
           ''euclidean'' ''Euclidean''], prop_display_options := Some \<lparr>show_when = [(''operation'', [JStr
           ''query'', JStr ''ensure_schema''])], hide_when = []\<rparr>\<rparr>],
     documentation_url := Some ''https://api.qdrant.tech/api-reference''\<rparr>"

definition ai_catalog :: "node_spec list" where
  "ai_catalog =
     [agent_react_spec, agent_tool_dispatch_spec, agent_tool_result_spec, chat_respond_spec,
      embed_local_spec, embed_openai_spec, guard_jailbreak_detect_spec, guard_pii_redact_spec,
      guard_schema_enforce_spec, memory_buffer_spec, memory_summary_spec, memory_window_spec,
      text_splitter_spec, trigger_chat_spec, vector_chroma_spec, vector_memory_spec,
      vector_pgvector_spec, vector_pinecone_spec, vector_qdrant_spec]"

lemma ai_catalog_ok: "list_all spec_ok ai_catalog"
  by code_simp

lemma ai_catalog_names:
  "map short_key ai_catalog =
     [''agent_react'', ''agent_tool_dispatch'', ''agent_tool_result'', ''chat_respond'', ''embed_local'',
         ''embed_openai'', ''guard_jailbreak_detect'', ''guard_pii_redact'', ''guard_schema_enforce'',
         ''memory_buffer'', ''memory_summary'', ''memory_window'', ''text_splitter'', ''trigger_chat'',
         ''vector_chroma'', ''vector_memory'', ''vector_pgvector'', ''vector_pinecone'', ''vector_qdrant'']"
  by code_simp

lemma ai_catalog_slots:
  "concat (map slot_slugs ai_catalog) =
     [''weftlyflow.openai_api'', ''weftlyflow.anthropic_api'', ''weftlyflow.openai_api'',
         ''weftlyflow.chroma'', ''weftlyflow.postgres_dsn'', ''weftlyflow.pinecone_api'',
         ''weftlyflow.qdrant_api'']"
  by code_simp

end
