(* ===== verification/Integration_Specs_1.thy ===== *)
theory Integration_Specs_1
  imports Node_Registry
begin

text \<open>
  The node specifications of the integrations from \<open>activecampaign\<close> to \<open>discord\<close>, \<open>nodes/integrations/*/node.py\<close>, one
  \<^typ>\<open>node_spec\<close> per node class, field by field as in the source. Constants of \<open>constants.py\<close>
  stand with their values; a dash, an arrow or an ellipsis in a descriptive text is written in ASCII, and
  a list made from a frozen set is in alphabetical order. All of them are well-formed.
\<close>

definition activecampaign_spec :: node_spec where
  "activecampaign_spec =
   (mk_spec ''weftlyflow.activecampaign'' 1 ''ActiveCampaign''
     ''Manage ActiveCampaign contacts, lists, and tags.'' ''icons/activecampaign.svg''
         CatIntegration)\<lparr>spec_group := [''crm'', ''marketing''],
     spec_credentials := [\<lparr>slot_name = ''activecampaign_api'', slot_credential_types =
         [''weftlyflow.activecampaign_api''], slot_required = True, slot_display_options = None\<rparr>],
     spec_properties :=
      [(mk_property ''operation'' ''Operation'' POptions (JStr ''list_contacts''))\<lparr>prop_required := True,
          prop_options := Some [mk_option ''list_contacts'' ''List Contacts'', mk_option ''get_contact''
          ''Get Contact'', mk_option ''create_contact'' ''Create Contact'', mk_option ''update_contact''
          ''Update Contact'', mk_option ''delete_contact'' ''Delete Contact'', mk_option
          ''add_contact_to_list'' ''Add Contact to List'', mk_option ''add_tag_to_contact''
          ''Add Tag to Contact'', mk_option ''list_tags'' ''List Tags'']\<rparr>,
       (mk_property ''contact_id'' ''Contact ID'' PString JNull)\<lparr>prop_display_options := Some \<lparr>show_when =
           [(''operation'', [JStr ''add_contact_to_list'', JStr ''add_tag_to_contact'', JStr
           ''delete_contact'', JStr ''get_contact'', JStr ''update_contact''])], hide_when = []\<rparr>\<rparr>,
       (mk_property ''list_id'' ''List ID'' PString JNull)\<lparr>prop_display_options := Some \<lparr>show_when =
           [(''operation'', [JStr ''list_contacts'', JStr ''add_contact_to_list''])], hide_when = []\<rparr>\<rparr>,
       (mk_property ''tag_id'' ''Tag ID'' PString JNull)\<lparr>prop_display_options := Some \<lparr>show_when =
           [(''operation'', [JStr ''add_tag_to_contact''])], hide_when = []\<rparr>\<rparr>,
       (mk_property ''status'' ''List Status'' PNumber (JInt 1))\<lparr>prop_description := Some
           ''1 = subscribe, 2 = unsubscribe.'', prop_display_options := Some \<lparr>show_when = [(''operation'',
           [JStr ''add_contact_to_list''])], hide_when = []\<rparr>\<rparr>,
       (mk_property ''document'' ''Contact Document'' PJson JNull)\<lparr>prop_description := Some (''{'' @ [CHR 0x22]
           @ ''email'' @ [CHR 0x22] @ '': '' @ [CHR 0x22] @ ''...'' @ [CHR 0x22] @ '', '' @ [CHR 0x22] @
           ''firstName'' @ [CHR 0x22] @ '': '' @ [CHR 0x22] @ ''...'' @ [CHR 0x22] @ '', ...}''),
           prop_display_options := Some \<lparr>show_when = [(''operation'', [JStr ''create_contact'', JStr
           ''update_contact''])], hide_when = []\<rparr>\<rparr>,
       (mk_property ''email'' ''Email Filter'' PString JNull)\<lparr>prop_display_options := Some \<lparr>show_when =
           [(''operation'', [JStr ''list_contacts''])], hide_when = []\<rparr>\<rparr>,
       (mk_property ''search'' ''Search'' PString JNull)\<lparr>prop_display_options := Some \<lparr>show_when =
           [(''operation'', [JStr ''list_contacts'', JStr ''list_tags''])], hide_when = []\<rparr>\<rparr>,
       (mk_property ''limit'' ''Limit'' PNumber JNull)\<lparr>prop_display_options := Some \<lparr>show_when =
           [(''operation'', [JStr ''list_contacts'', JStr ''list_tags''])], hide_when = []\<rparr>\<rparr>,
       (mk_property ''offset'' ''Offset'' PNumber JNull)\<lparr>prop_display_options := Some \<lparr>show_when =
           [(''operation'', [JStr ''list_contacts'', JStr ''list_tags''])], hide_when = []\<rparr>\<rparr>],
     documentation_url := Some ''https://developers.activecampaign.com/reference/overview''\<rparr>"

definition airtable_spec :: node_spec where
  "airtable_spec =
   (mk_spec ''weftlyflow.airtable'' 1 ''Airtable''
     ''List, get, create, update, and delete Airtable records.'' ''icons/airtable.svg''
         CatIntegration)\<lparr>spec_group := [''productivity'', ''database''],
     spec_credentials := [\<lparr>slot_name = ''airtable_api'', slot_credential_types = [''weftlyflow.bearer_token''],
         slot_required = True, slot_display_options = None\<rparr>],
     spec_properties :=
      [(mk_property ''operation'' ''Operation'' POptions (JStr ''list_records''))\<lparr>prop_required := True,
          prop_options := Some [mk_option ''list_records'' ''List Records'', mk_option ''get_record''
          ''Get Record'', mk_option ''create_records'' ''Create Records'', mk_option ''update_record''
          ''Update Record'', mk_option ''delete_record'' ''Delete Record'']\<rparr>,
       (mk_property ''base_id'' ''Base ID'' PString JNull)\<lparr>prop_required := True, prop_placeholder := Some
           ''appXXXXXXXXXXXXXX''\<rparr>,
       (mk_property ''table'' ''Table'' PString JNull)\<lparr>prop_required := True, prop_description := Some
           ''Table name or table id.''\<rparr>,
       (mk_property ''record_id'' ''Record ID'' PString JNull)\<lparr>prop_display_options := Some \<lparr>show_when =
           [(''operation'', [JStr ''delete_record'', JStr ''get_record'', JStr ''update_record''])], hide_when
           = []\<rparr>\<rparr>,
       (mk_property ''records'' ''Records'' PJson JNull)\<lparr>prop_description := Some
           ''List of records: [{fields: {...}}, ...].'', prop_display_options := Some \<lparr>show_when =
           [(''operation'', [JStr ''create_records''])], hide_when = []\<rparr>\<rparr>,
       (mk_property ''fields'' ''Fields'' PJson JNull)\<lparr>prop_display_options := Some \<lparr>show_when =
           [(''operation'', [JStr ''update_record''])], hide_when = []\<rparr>\<rparr>,
       (mk_property ''typecast'' ''Typecast'' PBoolean (JBool False))\<lparr>prop_display_options := Some \<lparr>show_when =
           [(''operation'', [JStr ''create_records'', JStr ''update_record''])], hide_when = []\<rparr>\<rparr>,
       (mk_property ''view'' ''View'' PString JNull)\<lparr>prop_display_options := Some \<lparr>show_when = [(''operation'',
           [JStr ''list_records''])], hide_when = []\<rparr>\<rparr>,
       (mk_property ''filter_by_formula'' ''Filter (formula)'' PString JNull)\<lparr>prop_display_options := Some
           \<lparr>show_when = [(''operation'', [JStr ''list_records''])], hide_when = []\<rparr>\<rparr>,
       (mk_property ''page_size'' ''Page Size'' PNumber (JInt 100))\<lparr>prop_display_options := Some \<lparr>show_when =
           [(''operation'', [JStr ''list_records''])], hide_when = []\<rparr>\<rparr>,
       (mk_property ''max_records'' ''Max Records'' PNumber JNull)\<lparr>prop_display_options := Some \<lparr>show_when =
           [(''operation'', [JStr ''list_records''])], hide_when = []\<rparr>\<rparr>,
       (mk_property ''offset'' ''Offset'' PString JNull)\<lparr>prop_display_options := Some \<lparr>show_when =
           [(''operation'', [JStr ''list_records''])], hide_when = []\<rparr>\<rparr>],
     documentation_url := Some ''https://airtable.com/developers/web/api/introduction''\<rparr>"

definition algolia_spec :: node_spec where
  "algolia_spec =
   (mk_spec ''weftlyflow.algolia'' 1 ''Algolia''
     ''Query and manage Algolia search indices.'' ''icons/algolia.svg'' CatIntegration)\<lparr>spec_group :=
         [''search'', ''data''],
     spec_credentials := [\<lparr>slot_name = ''algolia_api'', slot_credential_types = [''weftlyflow.algolia_api''],
         slot_required = True, slot_display_options = None\<rparr>],
     spec_properties :=
      [(mk_property ''operation'' ''Operation'' POptions (JStr ''search''))\<lparr>prop_required := True, prop_options
          := Some [mk_option ''search'' ''Search'', mk_option ''add_object'' ''Add Object'', mk_option
          ''update_object'' ''Update Object'', mk_option ''get_object'' ''Get Object'', mk_option
          ''delete_object'' ''Delete Object'', mk_option ''list_indices'' ''List Indices'']\<rparr>,
       (mk_property ''index_name'' ''Index Name'' PString JNull)\<lparr>prop_display_options := Some \<lparr>show_when =
           [(''operation'', [JStr ''add_object'', JStr ''delete_object'', JStr ''get_object'', JStr ''search'',
           JStr ''update_object''])], hide_when = []\<rparr>\<rparr>,
       (mk_property ''object_id'' ''Object ID'' PString JNull)\<lparr>prop_display_options := Some \<lparr>show_when =
           [(''operation'', [JStr ''delete_object'', JStr ''get_object'', JStr ''update_object''])], hide_when
           = []\<rparr>\<rparr>,
       (mk_property ''object'' ''Object'' PJson JNull)\<lparr>prop_description := Some
           ''Record body for add/update operations.'', prop_display_options := Some \<lparr>show_when =
           [(''operation'', [JStr ''add_object'', JStr ''update_object''])], hide_when = []\<rparr>\<rparr>,
       (mk_property ''query'' ''Query'' PString JNull)\<lparr>prop_display_options := Some \<lparr>show_when =
           [(''operation'', [JStr ''search''])], hide_when = []\<rparr>\<rparr>,
       (mk_property ''filters'' ''Filters'' PString JNull)\<lparr>prop_description := Some
           ''Algolia filter expression.'', prop_display_options := Some \<lparr>show_when = [(''operation'', [JStr
           ''search''])], hide_when = []\<rparr>\<rparr>,
       (mk_property ''page'' ''Page'' PNumber JNull)\<lparr>prop_display_options := Some \<lparr>show_when = [(''operation'',
           [JStr ''search''])], hide_when = []\<rparr>\<rparr>,
       (mk_property ''hits_per_page'' ''Hits per Page'' PNumber (JInt 20))\<lparr>prop_display_options := Some
           \<lparr>show_when = [(''operation'', [JStr ''search''])], hide_when = []\<rparr>\<rparr>,
       (mk_property ''extra_params'' ''Extra Params'' PJson JNull)\<lparr>prop_description := Some
           ''Merged into the JSON search body.'', prop_display_options := Some \<lparr>show_when = [(''operation'',
           [JStr ''search''])], hide_when = []\<rparr>\<rparr>],
     documentation_url := Some ''https://www.algolia.com/doc/rest-api/search/''\<rparr>"

definition alpaca_spec :: node_spec where
  "alpaca_spec =
   (mk_spec ''weftlyflow.alpaca'' 1 ''Alpaca Markets''
     ''Account, positions, clock, and order management on Alpaca Markets.'' ''icons/alpaca.svg''
         CatIntegration)\<lparr>spec_group := [''finance''],
     spec_credentials := [\<lparr>slot_name = ''alpaca_api'', slot_credential_types = [''weftlyflow.alpaca_api''],
         slot_required = True, slot_display_options = None\<rparr>],
     spec_properties :=
      [(mk_property ''operation'' ''Operation'' POptions (JStr ''get_account''))\<lparr>prop_required := True,
          prop_options := Some [mk_option ''get_account'' ''Get Account'', mk_option ''list_positions''
          ''List Positions'', mk_option ''place_order'' ''Place Order'', mk_option ''get_clock''
          ''Get Clock'']\<rparr>,
       (mk_property ''symbol'' ''Symbol'' PString JNull)\<lparr>prop_description := Some (''Ticker, e.g. '' @ [CHR
           0x22] @ ''AAPL'' @ [CHR 0x22] @ ''.''), prop_display_options := Some \<lparr>show_when = [(''operation'',
           [JStr ''place_order''])], hide_when = []\<rparr>\<rparr>,
       (mk_property ''side'' ''Side'' POptions (JStr ''buy''))\<lparr>prop_options := Some [mk_option ''buy'' ''Buy'',
           mk_option ''sell'' ''Sell''], prop_display_options := Some \<lparr>show_when = [(''operation'', [JStr
           ''place_order''])], hide_when = []\<rparr>\<rparr>,
       (mk_property ''order_type'' ''Order Type'' POptions (JStr ''market''))\<lparr>prop_options := Some [mk_option
           ''market'' ''Market'', mk_option ''limit'' ''Limit''], prop_display_options := Some \<lparr>show_when =
           [(''operation'', [JStr ''place_order''])], hide_when = []\<rparr>\<rparr>,
       (mk_property ''qty'' ''Quantity'' PString JNull)\<lparr>prop_description := Some
           ''Shares to buy/sell (whole or fractional).'', prop_display_options := Some \<lparr>show_when =
           [(''operation'', [JStr ''place_order''])], hide_when = []\<rparr>\<rparr>,
       (mk_property ''notional'' ''Notional (USD)'' PString JNull)\<lparr>prop_description := Some
           ''Alternative to qty - dollar amount to trade.'', prop_display_options := Some \<lparr>show_when =
           [(''operation'', [JStr ''place_order''])], hide_when = []\<rparr>\<rparr>,
       (mk_property ''limit_price'' ''Limit Price'' PString JNull)\<lparr>prop_description := Some
           ''Required for limit orders.'', prop_display_options := Some \<lparr>show_when = [(''operation'', [JStr
           ''place_order'']), (''order_type'', [JStr ''limit''])], hide_when = []\<rparr>\<rparr>,
       (mk_property ''time_in_force'' ''Time in Force'' POptions (JStr ''day''))\<lparr>prop_options := Some
           [mk_option ''day'' ''Day'', mk_option ''gtc'' ''Good Till Cancelled'', mk_option ''ioc''
           ''Immediate or Cancel'', mk_option ''fok'' ''Fill or Kill''], prop_display_options := Some
           \<lparr>show_when = [(''operation'', [JStr ''place_order''])], hide_when = []\<rparr>\<rparr>,
       (mk_property ''client_order_id'' ''Client Order ID'' PString JNull)\<lparr>prop_display_options := Some
           \<lparr>show_when = [(''operation'', [JStr ''place_order''])], hide_when = []\<rparr>\<rparr>],
     documentation_url := Some ''https://docs.alpaca.markets/reference/''\<rparr>"

definition anthropic_spec :: node_spec where
  "anthropic_spec =
   (mk_spec ''weftlyflow.anthropic'' 1 ''Anthropic''
     ''Call the Anthropic Messages API and related v1 endpoints.'' ''icons/anthropic.svg''
         CatIntegration)\<lparr>spec_group := [''ai'', ''llm''],
     spec_credentials := [\<lparr>slot_name = ''anthropic_api'', slot_credential_types =
         [''weftlyflow.anthropic_api''], slot_required = True, slot_display_options = None\<rparr>],
     spec_properties :=
      [(mk_property ''operation'' ''Operation'' POptions (JStr ''create_message''))\<lparr>prop_required := True,
          prop_options := Some [mk_option ''create_message'' ''Create Message'', mk_option ''count_tokens''
          ''Count Tokens'', mk_option ''list_models'' ''List Models'', mk_option ''get_model'' ''Get Model'']\<rparr>,
       (mk_property ''model'' ''Model'' PString (JStr ''claude-3-5-sonnet-latest''))\<lparr>prop_display_options :=
           Some \<lparr>show_when = [(''operation'', [JStr ''count_tokens'', JStr ''create_message''])], hide_when =
           []\<rparr>\<rparr>,
       (mk_property ''messages'' ''Messages'' PJson JNull)\<lparr>prop_description := Some (''[{'' @ [CHR 0x22] @
           ''role'' @ [CHR 0x22] @ '': '' @ [CHR 0x22] @ ''user'' @ [CHR 0x22] @ '', '' @ [CHR 0x22] @
           ''content'' @ [CHR 0x22] @ '': '' @ [CHR 0x22] @ ''Hello'' @ [CHR 0x22] @ ''}, ...]''),
           prop_display_options := Some \<lparr>show_when = [(''operation'', [JStr ''count_tokens'', JStr
           ''create_message''])], hide_when = []\<rparr>\<rparr>,
       (mk_property ''system'' ''System Prompt'' PString JNull)\<lparr>prop_display_options := Some \<lparr>show_when =
           [(''operation'', [JStr ''count_tokens'', JStr ''create_message''])], hide_when = []\<rparr>\<rparr>,
       (mk_property ''max_tokens'' ''Max Tokens'' PNumber JNull)\<lparr>prop_description := Some
           ''Anthropic requires this; defaults to 1024.'', prop_display_options := Some \<lparr>show_when =
           [(''operation'', [JStr ''create_message''])], hide_when = []\<rparr>\<rparr>,
       (mk_property ''temperature'' ''Temperature'' PNumber JNull)\<lparr>prop_display_options := Some \<lparr>show_when =
           [(''operation'', [JStr ''create_message''])], hide_when = []\<rparr>\<rparr>,
       (mk_property ''metadata'' ''Metadata'' PJson JNull)\<lparr>prop_description := Some (''Optional, e.g. {'' @
           [CHR 0x22] @ ''user_id'' @ [CHR 0x22] @ '': '' @ [CHR 0x22] @ ''...'' @ [CHR 0x22] @ ''}.''),
           prop_display_options := Some \<lparr>show_when = [(''operation'', [JStr ''create_message''])], hide_when =
           []\<rparr>\<rparr>,
       (mk_property ''model_id'' ''Model ID'' PString JNull)\<lparr>prop_display_options := Some \<lparr>show_when =
           [(''operation'', [JStr ''get_model''])], hide_when = []\<rparr>\<rparr>],
     documentation_url := Some ''https://docs.anthropic.com/en/api/getting-started''\<rparr>"

definition asana_spec :: node_spec where
  "asana_spec =
   (mk_spec ''weftlyflow.asana'' 1 ''Asana''
     ''Manage Asana tasks, projects, and comments.'' ''icons/asana.svg'' CatIntegration)\<lparr>spec_group :=
         [''project-management'', ''collaboration''],
     spec_credentials := [\<lparr>slot_name = ''asana_api'', slot_credential_types = [''weftlyflow.asana_api''],
         slot_required = True, slot_display_options = None\<rparr>],
     spec_properties :=
      [(mk_property ''operation'' ''Operation'' POptions (JStr ''list_tasks''))\<lparr>prop_required := True,
          prop_options := Some [mk_option ''list_tasks'' ''List Tasks'', mk_option ''get_task'' ''Get Task'',
          mk_option ''create_task'' ''Create Task'', mk_option ''update_task'' ''Update Task'', mk_option
          ''delete_task'' ''Delete Task'', mk_option ''add_comment'' ''Add Comment'']\<rparr>,
       (mk_property ''task_id'' ''Task GID'' PString JNull)\<lparr>prop_display_options := Some \<lparr>show_when =
           [(''operation'', [JStr ''add_comment'', JStr ''delete_task'', JStr ''get_task'', JStr
           ''update_task''])], hide_when = []\<rparr>\<rparr>,
       (mk_property ''project'' ''Project'' PString JNull)\<lparr>prop_description := Some
           ''Project GID (pairs with workspace scope).'', prop_display_options := Some \<lparr>show_when =
           [(''operation'', [JStr ''list_tasks''])], hide_when = []\<rparr>\<rparr>,
       (mk_property ''assignee'' ''Assignee'' PString JNull)\<lparr>prop_display_options := Some \<lparr>show_when =
           [(''operation'', [JStr ''list_tasks''])], hide_when = []\<rparr>\<rparr>,
       (mk_property ''workspace'' ''Workspace'' PString JNull)\<lparr>prop_display_options := Some \<lparr>show_when =
           [(''operation'', [JStr ''list_tasks''])], hide_when = []\<rparr>\<rparr>,
       (mk_property ''completed_since'' ''Completed Since'' PString JNull)\<lparr>prop_description := Some
           ''ISO 8601 (or 'now' for open tasks only).'', prop_display_options := Some \<lparr>show_when =
           [(''operation'', [JStr ''list_tasks''])], hide_when = []\<rparr>\<rparr>,
       (mk_property ''limit'' ''Limit'' PNumber JNull)\<lparr>prop_display_options := Some \<lparr>show_when =
           [(''operation'', [JStr ''list_tasks''])], hide_when = []\<rparr>\<rparr>,
       (mk_property ''offset'' ''Offset Token'' PString JNull)\<lparr>prop_display_options := Some \<lparr>show_when =
           [(''operation'', [JStr ''list_tasks''])], hide_when = []\<rparr>\<rparr>,
       (mk_property ''opt_fields'' ''Opt Fields'' PString JNull)\<lparr>prop_description := Some
           ''Comma-separated $opt_fields projection.'', prop_display_options := Some \<lparr>show_when =
           [(''operation'', [JStr ''get_task'', JStr ''list_tasks''])], hide_when = []\<rparr>\<rparr>,
       (mk_property ''document'' ''Task Payload'' PJson JNull)\<lparr>prop_description := Some
           ''Task data (name, notes, assignee, projects, .).'', prop_display_options := Some \<lparr>show_when =
           [(''operation'', [JStr ''create_task'', JStr ''update_task''])], hide_when = []\<rparr>\<rparr>,
       (mk_property ''text'' ''Comment'' PString JNull)\<lparr>prop_display_options := Some \<lparr>show_when =
           [(''operation'', [JStr ''add_comment''])], hide_when = []\<rparr>\<rparr>,
       (mk_property ''html_text'' ''HTML Comment'' PString JNull)\<lparr>prop_description := Some
           ''Rich-text body (takes precedence over 'text').'', prop_display_options := Some \<lparr>show_when =
           [(''operation'', [JStr ''add_comment''])], hide_when = []\<rparr>\<rparr>,
       (mk_property ''is_pinned'' ''Pin Comment'' PBoolean JNull)\<lparr>prop_display_options := Some \<lparr>show_when =
           [(''operation'', [JStr ''add_comment''])], hide_when = []\<rparr>\<rparr>],
     documentation_url := Some ''https://developers.asana.com/reference''\<rparr>"

definition asc_spec :: node_spec where
  "asc_spec =
   (mk_spec ''weftlyflow.asc'' 1 ''Apple App Store Connect''
     ''Apps, builds, and beta-tester reads on App Store Connect.'' ''icons/asc.svg'' CatIntegration)\<lparr>spec_group
         := [''developer'', ''mobile''],
     spec_credentials := [\<lparr>slot_name = ''asc_api'', slot_credential_types = [''weftlyflow.asc_api''],
         slot_required = True, slot_display_options = None\<rparr>],
     spec_properties :=
      [(mk_property ''operation'' ''Operation'' POptions (JStr ''list_apps''))\<lparr>prop_required := True,
          prop_options := Some [mk_option ''list_apps'' ''List Apps'', mk_option ''get_app'' ''Get App'',
          mk_option ''list_builds'' ''List Builds'', mk_option ''list_beta_testers'' ''List Beta Testers'']\<rparr>,
       (mk_property ''app_id'' ''App ID'' PString JNull)\<lparr>prop_description := Some
           ''Required for Get App; optional filter for List Builds.'', prop_display_options := Some \<lparr>show_when
           = [(''operation'', [JStr ''get_app'', JStr ''list_builds''])], hide_when = []\<rparr>\<rparr>,
       (mk_property ''limit'' ''Limit'' PNumber JNull)\<lparr>prop_description := Some ''Page size (1..200).'',
           prop_display_options := Some \<lparr>show_when = [(''operation'', [JStr ''list_apps'', JStr
           ''list_builds'', JStr ''list_beta_testers''])], hide_when = []\<rparr>\<rparr>],
     documentation_url := Some ''https://developer.apple.com/documentation/appstoreconnectapi''\<rparr>"

definition aws_s3_spec :: node_spec where
  "aws_s3_spec =
   (mk_spec ''weftlyflow.aws_s3'' 1 ''AWS S3''
     ''Manage AWS S3 buckets and objects with SigV4 signing.'' ''icons/aws-s3.svg'' CatIntegration)\<lparr>spec_group
         := [''storage'', ''aws''],
     spec_credentials := [\<lparr>slot_name = ''aws_s3'', slot_credential_types = [''weftlyflow.aws_s3''],
         slot_required = True, slot_display_options = None\<rparr>],
     spec_properties :=
      [(mk_property ''operation'' ''Operation'' POptions (JStr ''list_objects''))\<lparr>prop_required := True,
          prop_options := Some [mk_option ''list_buckets'' ''List Buckets'', mk_option ''list_objects''
          ''List Objects'', mk_option ''head_object'' ''Head Object'', mk_option ''get_object'' ''Get Object'',
          mk_option ''delete_object'' ''Delete Object'', mk_option ''copy_object'' ''Copy Object'']\<rparr>,
       (mk_property ''bucket'' ''Bucket'' PString JNull)\<lparr>prop_display_options := Some \<lparr>show_when =
           [(''operation'', [JStr ''list_objects'', JStr ''copy_object'', JStr ''delete_object'', JStr
           ''get_object'', JStr ''head_object''])], hide_when = []\<rparr>\<rparr>,
       (mk_property ''key'' ''Object Key'' PString JNull)\<lparr>prop_display_options := Some \<lparr>show_when =
           [(''operation'', [JStr ''copy_object'', JStr ''delete_object'', JStr ''get_object'', JStr
           ''head_object''])], hide_when = []\<rparr>\<rparr>,
       (mk_property ''prefix'' ''Prefix'' PString JNull)\<lparr>prop_display_options := Some \<lparr>show_when =
           [(''operation'', [JStr ''list_objects''])], hide_when = []\<rparr>\<rparr>,
       (mk_property ''delimiter'' ''Delimiter'' PString JNull)\<lparr>prop_display_options := Some \<lparr>show_when =
           [(''operation'', [JStr ''list_objects''])], hide_when = []\<rparr>\<rparr>,
       (mk_property ''continuation_token'' ''Continuation Token'' PString JNull)\<lparr>prop_display_options := Some
           \<lparr>show_when = [(''operation'', [JStr ''list_objects''])], hide_when = []\<rparr>\<rparr>,
       (mk_property ''max_keys'' ''Max Keys'' PNumber JNull)\<lparr>prop_display_options := Some \<lparr>show_when =
           [(''operation'', [JStr ''list_objects''])], hide_when = []\<rparr>\<rparr>,
       (mk_property ''source_bucket'' ''Source Bucket'' PString JNull)\<lparr>prop_display_options := Some \<lparr>show_when
           = [(''operation'', [JStr ''copy_object''])], hide_when = []\<rparr>\<rparr>,
       (mk_property ''source_key'' ''Source Key'' PString JNull)\<lparr>prop_display_options := Some \<lparr>show_when =
           [(''operation'', [JStr ''copy_object''])], hide_when = []\<rparr>\<rparr>],
     documentation_url := Some ''https://docs.aws.amazon.com/AmazonS3/latest/API/Welcome.html''\<rparr>"

definition azure_blob_spec :: node_spec where
  "azure_blob_spec =
   (mk_spec ''weftlyflow.azure_blob'' 1 ''Azure Blob Storage''
     ''Manage containers and blobs on Azure Storage.'' ''icons/azure-blob.svg'' CatIntegration)\<lparr>spec_group :=
         [''storage'', ''azure''],
     spec_credentials := [\<lparr>slot_name = ''azure_storage_shared_key'', slot_credential_types =
         [''weftlyflow.azure_storage_shared_key''], slot_required = True, slot_display_options = None\<rparr>],
     spec_properties :=
      [(mk_property ''operation'' ''Operation'' POptions (JStr ''list_blobs''))\<lparr>prop_required := True,
          prop_options := Some [mk_option ''list_containers'' ''List Containers'', mk_option ''list_blobs''
          ''List Blobs'', mk_option ''get_blob'' ''Get Blob'', mk_option ''put_blob'' ''Put Blob'', mk_option
          ''delete_blob'' ''Delete Blob'']\<rparr>,
       (mk_property ''container'' ''Container'' PString JNull)\<lparr>prop_display_options := Some \<lparr>show_when =
           [(''operation'', [JStr ''list_blobs'', JStr ''delete_blob'', JStr ''get_blob'', JStr
           ''put_blob''])], hide_when = []\<rparr>\<rparr>,
       (mk_property ''blob'' ''Blob Name'' PString JNull)\<lparr>prop_display_options := Some \<lparr>show_when =
           [(''operation'', [JStr ''delete_blob'', JStr ''get_blob'', JStr ''put_blob''])], hide_when = []\<rparr>\<rparr>,
       (mk_property ''body'' ''Body'' PString JNull)\<lparr>prop_description := Some
           ''Request body - strings are UTF-8 encoded.'', prop_display_options := Some \<lparr>show_when =
           [(''operation'', [JStr ''put_blob''])], hide_when = []\<rparr>\<rparr>,
       (mk_property ''content_type'' ''Content Type'' PString (JStr
           ''application/octet-stream''))\<lparr>prop_display_options := Some \<lparr>show_when = [(''operation'', [JStr
           ''put_blob''])], hide_when = []\<rparr>\<rparr>,
       (mk_property ''prefix'' ''Prefix'' PString JNull)\<lparr>prop_display_options := Some \<lparr>show_when =
           [(''operation'', [JStr ''list_containers'', JStr ''list_blobs''])], hide_when = []\<rparr>\<rparr>,
       (mk_property ''delimiter'' ''Delimiter'' PString JNull)\<lparr>prop_display_options := Some \<lparr>show_when =
           [(''operation'', [JStr ''list_blobs''])], hide_when = []\<rparr>\<rparr>,
       (mk_property ''marker'' ''Marker'' PString JNull)\<lparr>prop_display_options := Some \<lparr>show_when =
           [(''operation'', [JStr ''list_containers'', JStr ''list_blobs''])], hide_when = []\<rparr>\<rparr>],
     documentation_url := Some ''https://learn.microsoft.com/rest/api/storageservices/blob-service-rest-api''\<rparr>"

definition backblaze_b2_spec :: node_spec where
  "backblaze_b2_spec =
   (mk_spec ''weftlyflow.backblaze_b2'' 1 ''Backblaze B2''
     ''Buckets and files on Backblaze B2 Native.'' ''icons/backblaze.svg'' CatIntegration)\<lparr>spec_group :=
         [''storage''],
     spec_credentials := [\<lparr>slot_name = ''backblaze_b2'', slot_credential_types = [''weftlyflow.backblaze_b2''],
         slot_required = True, slot_display_options = None\<rparr>],
     spec_properties :=
      [(mk_property ''operation'' ''Operation'' POptions (JStr ''list_buckets''))\<lparr>prop_required := True,
          prop_options := Some [mk_option ''list_buckets'' ''List Buckets'', mk_option ''list_file_names''
          ''List File Names'', mk_option ''get_upload_url'' ''Get Upload URL'', mk_option
          ''delete_file_version'' ''Delete File Version'']\<rparr>,
       (mk_property ''bucket'' ''Bucket Name'' PString JNull)\<lparr>prop_description := Some
           ''Filter list_buckets to a single bucket name.'', prop_display_options := Some \<lparr>show_when =
           [(''operation'', [JStr ''list_buckets''])], hide_when = []\<rparr>\<rparr>,
       (mk_property ''bucket_id'' ''Bucket ID'' PString JNull)\<lparr>prop_display_options := Some \<lparr>show_when =
           [(''operation'', [JStr ''get_upload_url'', JStr ''list_file_names'', JStr ''list_buckets''])],
           hide_when = []\<rparr>\<rparr>,
       (mk_property ''prefix'' ''Prefix'' PString JNull)\<lparr>prop_display_options := Some \<lparr>show_when =
           [(''operation'', [JStr ''list_file_names''])], hide_when = []\<rparr>\<rparr>,
       (mk_property ''delimiter'' ''Delimiter'' PString JNull)\<lparr>prop_display_options := Some \<lparr>show_when =
           [(''operation'', [JStr ''list_file_names''])], hide_when = []\<rparr>\<rparr>,
       (mk_property ''start_file_name'' ''Start File Name'' PString JNull)\<lparr>prop_display_options := Some
           \<lparr>show_when = [(''operation'', [JStr ''list_file_names''])], hide_when = []\<rparr>\<rparr>,
       (mk_property ''max_file_count'' ''Max File Count'' PNumber JNull)\<lparr>prop_display_options := Some
           \<lparr>show_when = [(''operation'', [JStr ''list_file_names''])], hide_when = []\<rparr>\<rparr>,
       (mk_property ''file_id'' ''File ID'' PString JNull)\<lparr>prop_display_options := Some \<lparr>show_when =
           [(''operation'', [JStr ''delete_file_version''])], hide_when = []\<rparr>\<rparr>,
       (mk_property ''file_name'' ''File Name'' PString JNull)\<lparr>prop_display_options := Some \<lparr>show_when =
           [(''operation'', [JStr ''delete_file_version''])], hide_when = []\<rparr>\<rparr>],
     documentation_url := Some ''https://www.backblaze.com/apidocs''\<rparr>"

definition binance_spec :: node_spec where
  "binance_spec =
   (mk_spec ''weftlyflow.binance'' 1 ''Binance Spot''
     ''Account, tickers, and order management on Binance Spot.'' ''icons/binance.svg''
         CatIntegration)\<lparr>spec_group := [''finance''],
     spec_credentials := [\<lparr>slot_name = ''binance_api'', slot_credential_types = [''weftlyflow.binance_api''],
         slot_required = True, slot_display_options = None\<rparr>],
     spec_properties :=
      [(mk_property ''operation'' ''Operation'' POptions (JStr ''account_info''))\<lparr>prop_required := True,
          prop_options := Some [mk_option ''account_info'' ''Account Info'', mk_option ''get_ticker_price''
          ''Get Ticker Price'', mk_option ''place_order'' ''Place Order'', mk_option ''cancel_order''
          ''Cancel Order'']\<rparr>,
       (mk_property ''symbol'' ''Symbol'' PString JNull)\<lparr>prop_description := Some (''Trading pair, e.g. '' @
           [CHR 0x22] @ ''BTCUSDT'' @ [CHR 0x22] @ ''.''), prop_display_options := Some \<lparr>show_when =
           [(''operation'', [JStr ''get_ticker_price'', JStr ''place_order'', JStr ''cancel_order''])],
           hide_when = []\<rparr>\<rparr>,
       (mk_property ''side'' ''Side'' POptions (JStr ''buy''))\<lparr>prop_options := Some [mk_option ''buy'' ''Buy'',
           mk_option ''sell'' ''Sell''], prop_display_options := Some \<lparr>show_when = [(''operation'', [JStr
           ''place_order''])], hide_when = []\<rparr>\<rparr>,
       (mk_property ''order_type'' ''Order Type'' POptions (JStr ''limit''))\<lparr>prop_options := Some [mk_option
           ''limit'' ''Limit'', mk_option ''market'' ''Market''], prop_display_options := Some \<lparr>show_when =
           [(''operation'', [JStr ''place_order''])], hide_when = []\<rparr>\<rparr>,
       (mk_property ''price'' ''Price'' PString JNull)\<lparr>prop_description := Some ''Required for limit orders.'',
           prop_display_options := Some \<lparr>show_when = [(''operation'', [JStr ''place_order'']), (''order_type'',
           [JStr ''limit''])], hide_when = []\<rparr>\<rparr>,
       (mk_property ''quantity'' ''Quantity (base asset)'' PString JNull)\<lparr>prop_display_options := Some
           \<lparr>show_when = [(''operation'', [JStr ''place_order''])], hide_when = []\<rparr>\<rparr>,
       (mk_property ''quote_order_qty'' ''Quote Order Qty'' PString JNull)\<lparr>prop_description := Some
           ''Alternative to quantity for market orders (quote asset).'', prop_display_options := Some
           \<lparr>show_when = [(''operation'', [JStr ''place_order'']), (''order_type'', [JStr ''market''])],
           hide_when = []\<rparr>\<rparr>,
       (mk_property ''time_in_force'' ''Time in Force'' PString (JStr ''GTC''))\<lparr>prop_description := Some
           ''GTC, IOC, FOK (limit orders only).'', prop_display_options := Some \<lparr>show_when = [(''operation'',
           [JStr ''place_order'']), (''order_type'', [JStr ''limit''])], hide_when = []\<rparr>\<rparr>,
       (mk_property ''client_order_id'' ''Client Order ID'' PString JNull)\<lparr>prop_display_options := Some
           \<lparr>show_when = [(''operation'', [JStr ''place_order''])], hide_when = []\<rparr>\<rparr>,
       (mk_property ''order_id'' ''Order ID'' PString JNull)\<lparr>prop_display_options := Some \<lparr>show_when =
           [(''operation'', [JStr ''cancel_order''])], hide_when = []\<rparr>\<rparr>,
       (mk_property ''orig_client_order_id'' ''Original Client Order ID'' PString JNull)\<lparr>prop_display_options
           := Some \<lparr>show_when = [(''operation'', [JStr ''cancel_order''])], hide_when = []\<rparr>\<rparr>,
       (mk_property ''recv_window'' ''Receive Window (ms)'' PNumber JNull)\<lparr>prop_description := Some
           ''Optional - limit request validity window on the server.'', prop_display_options := Some \<lparr>show_when
           = [(''operation'', [JStr ''account_info'', JStr ''place_order'', JStr ''cancel_order''])], hide_when
           = []\<rparr>\<rparr>],
     documentation_url := Some ''https://developers.binance.com/docs/binance-spot-api-docs/rest-api''\<rparr>"

definition bitbucket_spec :: node_spec where
  "bitbucket_spec =
   (mk_spec ''weftlyflow.bitbucket'' 1 ''Bitbucket Cloud''
     ''Manage Bitbucket Cloud repositories, pull requests, and issues.'' ''icons/bitbucket.svg''
         CatIntegration)\<lparr>spec_group := [''devops'', ''vcs''],
     spec_credentials := [\<lparr>slot_name = ''bitbucket_api'', slot_credential_types =
         [''weftlyflow.bitbucket_api''], slot_required = True, slot_display_options = None\<rparr>],
     spec_properties :=
      [(mk_property ''operation'' ''Operation'' POptions (JStr ''list_repositories''))\<lparr>prop_required := True,
          prop_options := Some [mk_option ''list_repositories'' ''List Repositories'', mk_option
          ''get_repository'' ''Get Repository'', mk_option ''list_pull_requests'' ''List Pull Requests'',
          mk_option ''get_pull_request'' ''Get Pull Request'', mk_option ''create_pull_request''
          ''Create Pull Request'', mk_option ''list_issues'' ''List Issues'', mk_option ''create_issue''
          ''Create Issue'']\<rparr>,
       (mk_property ''workspace'' ''Workspace Override'' PString JNull)\<lparr>prop_description := Some
           ''Falls back to the credential's workspace if blank.''\<rparr>,
       (mk_property ''repo_slug'' ''Repository Slug'' PString JNull)\<lparr>prop_display_options := Some \<lparr>show_when =
           [(''operation'', [JStr ''create_issue'', JStr ''create_pull_request'', JStr ''get_pull_request'',
           JStr ''get_repository'', JStr ''list_issues'', JStr ''list_pull_requests''])], hide_when = []\<rparr>\<rparr>,
       (mk_property ''pull_request_id'' ''Pull Request ID'' PString JNull)\<lparr>prop_display_options := Some
           \<lparr>show_when = [(''operation'', [JStr ''get_pull_request''])], hide_when = []\<rparr>\<rparr>,
       (mk_property ''title'' ''Title'' PString JNull)\<lparr>prop_display_options := Some \<lparr>show_when =
           [(''operation'', [JStr ''create_pull_request'', JStr ''create_issue''])], hide_when = []\<rparr>\<rparr>,
       (mk_property ''source_branch'' ''Source Branch'' PString JNull)\<lparr>prop_display_options := Some \<lparr>show_when
           = [(''operation'', [JStr ''create_pull_request''])], hide_when = []\<rparr>\<rparr>,
       (mk_property ''destination_branch'' ''Destination Branch'' PString JNull)\<lparr>prop_display_options := Some
           \<lparr>show_when = [(''operation'', [JStr ''create_pull_request''])], hide_when = []\<rparr>\<rparr>,
       (mk_property ''description'' ''Description'' PString JNull)\<lparr>prop_display_options := Some \<lparr>show_when =
           [(''operation'', [JStr ''create_pull_request''])], hide_when = []\<rparr>\<rparr>,
       (mk_property ''close_source_branch'' ''Close Source Branch on Merge'' PBoolean
           JNull)\<lparr>prop_display_options := Some \<lparr>show_when = [(''operation'', [JStr ''create_pull_request''])],
           hide_when = []\<rparr>\<rparr>,
       (mk_property ''content'' ''Content (raw markdown)'' PString JNull)\<lparr>prop_display_options := Some
           \<lparr>show_when = [(''operation'', [JStr ''create_issue''])], hide_when = []\<rparr>\<rparr>,
       (mk_property ''kind'' ''Kind'' PString JNull)\<lparr>prop_description := Some
           ''bug | enhancement | proposal | task'', prop_display_options := Some \<lparr>show_when = [(''operation'',
           [JStr ''create_issue''])], hide_when = []\<rparr>\<rparr>,
       (mk_property ''priority'' ''Priority'' PString JNull)\<lparr>prop_description := Some
           ''trivial | minor | major | critical | blocker'', prop_display_options := Some \<lparr>show_when =
           [(''operation'', [JStr ''create_issue''])], hide_when = []\<rparr>\<rparr>,
       (mk_property ''state'' ''State'' PString JNull)\<lparr>prop_description := Some
           ''OPEN | MERGED | DECLINED | SUPERSEDED'', prop_display_options := Some \<lparr>show_when =
           [(''operation'', [JStr ''list_pull_requests''])], hide_when = []\<rparr>\<rparr>,
       (mk_property ''role'' ''Role'' PString JNull)\<lparr>prop_description := Some
           ''owner | admin | contributor | member'', prop_display_options := Some \<lparr>show_when = [(''operation'',
           [JStr ''list_repositories''])], hide_when = []\<rparr>\<rparr>,
       (mk_property ''q'' ''BBQL Filter'' PString JNull)\<lparr>prop_display_options := Some \<lparr>show_when =
           [(''operation'', [JStr ''list_repositories'', JStr ''list_issues''])], hide_when = []\<rparr>\<rparr>,
       (mk_property ''page'' ''Page'' PNumber JNull)\<lparr>prop_display_options := Some \<lparr>show_when = [(''operation'',
           [JStr ''list_repositories''])], hide_when = []\<rparr>\<rparr>,
       (mk_property ''pagelen'' ''Page Length'' PNumber JNull)\<lparr>prop_display_options := Some \<lparr>show_when =
           [(''operation'', [JStr ''list_issues'', JStr ''list_pull_requests'', JStr ''list_repositories''])],
           hide_when = []\<rparr>\<rparr>],
     documentation_url := Some ''https://developer.atlassian.com/cloud/bitbucket/rest/intro/''\<rparr>"

definition box_spec :: node_spec where
  "box_spec =
   (mk_spec ''weftlyflow.box'' 1 ''Box''
     ''Manage Box folders, files, and enterprise users.'' ''icons/box.svg'' CatIntegration)\<lparr>spec_group :=
         [''storage'', ''collaboration''],
     spec_credentials := [\<lparr>slot_name = ''box_api'', slot_credential_types = [''weftlyflow.box_api''],
         slot_required = True, slot_display_options = None\<rparr>],
     spec_properties :=
      [(mk_property ''operation'' ''Operation'' POptions (JStr ''list_folder''))\<lparr>prop_required := True,
          prop_options := Some [mk_option ''list_folder'' ''List Folder'', mk_option ''get_file'' ''Get File'',
          mk_option ''delete_file'' ''Delete File'', mk_option ''create_folder'' ''Create Folder'', mk_option
          ''copy_file'' ''Copy File'', mk_option ''search'' ''Search'', mk_option ''list_users''
          ''List Users'']\<rparr>,
       (mk_property ''folder_id'' ''Folder ID'' PString (JStr ''0''))\<lparr>prop_description := Some
           ''Box folder ID ('0' = root).'', prop_display_options := Some \<lparr>show_when = [(''operation'', [JStr
           ''list_folder''])], hide_when = []\<rparr>\<rparr>,
       (mk_property ''file_id'' ''File ID'' PString JNull)\<lparr>prop_display_options := Some \<lparr>show_when =
           [(''operation'', [JStr ''copy_file'', JStr ''delete_file'', JStr ''get_file''])], hide_when = []\<rparr>\<rparr>,
       (mk_property ''name'' ''Name'' PString JNull)\<lparr>prop_display_options := Some \<lparr>show_when = [(''operation'',
           [JStr ''create_folder''])], hide_when = []\<rparr>\<rparr>,
       (mk_property ''parent_id'' ''Parent Folder ID'' PString (JStr ''0''))\<lparr>prop_display_options := Some
           \<lparr>show_when = [(''operation'', [JStr ''create_folder'', JStr ''copy_file''])], hide_when = []\<rparr>\<rparr>,
       (mk_property ''new_name'' ''New Name'' PString JNull)\<lparr>prop_description := Some
           ''Rename the copy (optional).'', prop_display_options := Some \<lparr>show_when = [(''operation'', [JStr
           ''copy_file''])], hide_when = []\<rparr>\<rparr>,
       (mk_property ''query'' ''Query'' PString JNull)\<lparr>prop_display_options := Some \<lparr>show_when =
           [(''operation'', [JStr ''search''])], hide_when = []\<rparr>\<rparr>,
       (mk_property ''content_types'' ''Content Types'' PString JNull)\<lparr>prop_description := Some
           ''Comma-separated (name,description,comments,tags).'', prop_display_options := Some \<lparr>show_when =
           [(''operation'', [JStr ''search''])], hide_when = []\<rparr>\<rparr>,
       (mk_property ''ancestor_folder_ids'' ''Ancestor Folder IDs'' PString JNull)\<lparr>prop_description := Some
           ''Comma-separated folder-ID allowlist.'', prop_display_options := Some \<lparr>show_when = [(''operation'',
           [JStr ''search''])], hide_when = []\<rparr>\<rparr>,
       (mk_property ''file_extensions'' ''File Extensions'' PString JNull)\<lparr>prop_description := Some
           ''Comma-separated extensions (no leading dot).'', prop_display_options := Some \<lparr>show_when =
           [(''operation'', [JStr ''search''])], hide_when = []\<rparr>\<rparr>,
       (mk_property ''filter_term'' ''Filter Term'' PString JNull)\<lparr>prop_display_options := Some \<lparr>show_when =
           [(''operation'', [JStr ''list_users''])], hide_when = []\<rparr>\<rparr>,
       (mk_property ''user_type'' ''User Type'' PString JNull)\<lparr>prop_description := Some
           ''all, managed, or external.'', prop_display_options := Some \<lparr>show_when = [(''operation'', [JStr
           ''list_users''])], hide_when = []\<rparr>\<rparr>,
       (mk_property ''fields'' ''Fields'' PString JNull)\<lparr>prop_description := Some
           ''Comma-separated projection.'', prop_display_options := Some \<lparr>show_when = [(''operation'', [JStr
           ''get_file'', JStr ''list_folder''])], hide_when = []\<rparr>\<rparr>,
       (mk_property ''limit'' ''Limit'' PNumber JNull)\<lparr>prop_display_options := Some \<lparr>show_when =
           [(''operation'', [JStr ''list_folder'', JStr ''list_users'', JStr ''search''])], hide_when = []\<rparr>\<rparr>,
       (mk_property ''offset'' ''Offset'' PNumber JNull)\<lparr>prop_display_options := Some \<lparr>show_when =
           [(''operation'', [JStr ''list_folder''])], hide_when = []\<rparr>\<rparr>],
     documentation_url := Some ''https://developer.box.com/reference/''\<rparr>"

definition brevo_spec :: node_spec where
  "brevo_spec =
   (mk_spec ''weftlyflow.brevo'' 1 ''Brevo''
     ''Send transactional email and manage Brevo contacts.'' ''icons/brevo.svg'' CatIntegration)\<lparr>spec_group :=
         [''communication'', ''email''],
     spec_credentials := [\<lparr>slot_name = ''brevo_api'', slot_credential_types = [''weftlyflow.brevo_api''],
         slot_required = True, slot_display_options = None\<rparr>],
     spec_properties :=
      [(mk_property ''operation'' ''Operation'' POptions (JStr ''send_email''))\<lparr>prop_required := True,
          prop_options := Some [mk_option ''send_email'' ''Send Email'', mk_option ''create_contact''
          ''Create Contact'', mk_option ''update_contact'' ''Update Contact'', mk_option ''get_contact''
          ''Get Contact'', mk_option ''add_contact_to_list'' ''Add Contact to List'', mk_option ''get_account''
          ''Get Account'']\<rparr>,
       (mk_property ''sender'' ''Sender'' PJson JNull)\<lparr>prop_description := Some
           ''Email string or {email, name} object.'', prop_display_options := Some \<lparr>show_when =
           [(''operation'', [JStr ''send_email''])], hide_when = []\<rparr>\<rparr>,
       (mk_property ''to'' ''To'' PJson JNull)\<lparr>prop_description := Some
           ''Recipient(s) - CSV string, list, or objects.'', prop_display_options := Some \<lparr>show_when =
           [(''operation'', [JStr ''send_email''])], hide_when = []\<rparr>\<rparr>,
       (mk_property ''cc'' ''CC'' PJson JNull)\<lparr>prop_display_options := Some \<lparr>show_when = [(''operation'', [JStr
           ''send_email''])], hide_when = []\<rparr>\<rparr>,
       (mk_property ''bcc'' ''BCC'' PJson JNull)\<lparr>prop_display_options := Some \<lparr>show_when = [(''operation'',
           [JStr ''send_email''])], hide_when = []\<rparr>\<rparr>,
       (mk_property ''reply_to'' ''Reply To'' PJson JNull)\<lparr>prop_display_options := Some \<lparr>show_when =
           [(''operation'', [JStr ''send_email''])], hide_when = []\<rparr>\<rparr>,
       (mk_property ''subject'' ''Subject'' PString JNull)\<lparr>prop_display_options := Some \<lparr>show_when =
           [(''operation'', [JStr ''send_email''])], hide_when = []\<rparr>\<rparr>,
       (mk_property ''html_content'' ''HTML Content'' PString JNull)\<lparr>prop_display_options := Some \<lparr>show_when =
           [(''operation'', [JStr ''send_email''])], hide_when = []\<rparr>\<rparr>,
       (mk_property ''text_content'' ''Text Content'' PString JNull)\<lparr>prop_display_options := Some \<lparr>show_when =
           [(''operation'', [JStr ''send_email''])], hide_when = []\<rparr>\<rparr>,
       (mk_property ''tags'' ''Tags'' PString JNull)\<lparr>prop_description := Some
           ''Comma-separated list of tracking tags.'', prop_display_options := Some \<lparr>show_when =
           [(''operation'', [JStr ''send_email''])], hide_when = []\<rparr>\<rparr>,
       (mk_property ''email'' ''Contact Email'' PString JNull)\<lparr>prop_display_options := Some \<lparr>show_when =
           [(''operation'', [JStr ''create_contact'', JStr ''get_contact'', JStr ''update_contact''])],
           hide_when = []\<rparr>\<rparr>,
       (mk_property ''attributes'' ''Attributes'' PJson JNull)\<lparr>prop_display_options := Some \<lparr>show_when =
           [(''operation'', [JStr ''create_contact'', JStr ''update_contact''])], hide_when = []\<rparr>\<rparr>,
       (mk_property ''list_ids'' ''List IDs'' PString JNull)\<lparr>prop_description := Some
           ''Comma-separated list IDs.'', prop_display_options := Some \<lparr>show_when = [(''operation'', [JStr
           ''create_contact'', JStr ''update_contact''])], hide_when = []\<rparr>\<rparr>,
       (mk_property ''unlink_list_ids'' ''Unlink List IDs'' PString JNull)\<lparr>prop_description := Some
           ''Comma-separated list IDs to remove.'', prop_display_options := Some \<lparr>show_when = [(''operation'',
           [JStr ''update_contact''])], hide_when = []\<rparr>\<rparr>,
       (mk_property ''update_enabled'' ''Update If Exists'' PBoolean (JBool False))\<lparr>prop_display_options :=
           Some \<lparr>show_when = [(''operation'', [JStr ''create_contact''])], hide_when = []\<rparr>\<rparr>,
       (mk_property ''list_id'' ''List ID'' PNumber JNull)\<lparr>prop_display_options := Some \<lparr>show_when =
           [(''operation'', [JStr ''add_contact_to_list''])], hide_when = []\<rparr>\<rparr>,
       (mk_property ''emails'' ''Emails'' PString JNull)\<lparr>prop_description := Some
           ''Comma-separated list of contact emails.'', prop_display_options := Some \<lparr>show_when =
           [(''operation'', [JStr ''add_contact_to_list''])], hide_when = []\<rparr>\<rparr>],
     documentation_url := Some ''https://developers.brevo.com/reference/''\<rparr>"

definition clickup_spec :: node_spec where
  "clickup_spec =
   (mk_spec ''weftlyflow.clickup'' 1 ''ClickUp''
     ''Create, update, and list ClickUp tasks via the v2 REST API.'' ''icons/clickup.svg''
         CatIntegration)\<lparr>spec_group := [''productivity'', ''project-management''],
     spec_credentials := [\<lparr>slot_name = ''clickup_api'', slot_credential_types = [''weftlyflow.clickup_api''],
         slot_required = True, slot_display_options = None\<rparr>],
     spec_properties :=
      [(mk_property ''operation'' ''Operation'' POptions (JStr ''list_tasks''))\<lparr>prop_required := True,
          prop_options := Some [mk_option ''create_task'' ''Create Task'', mk_option ''get_task'' ''Get Task'',
          mk_option ''update_task'' ''Update Task'', mk_option ''delete_task'' ''Delete Task'', mk_option
          ''list_tasks'' ''List Tasks'']\<rparr>,
       (mk_property ''list_id'' ''List ID'' PString JNull)\<lparr>prop_display_options := Some \<lparr>show_when =
           [(''operation'', [JStr ''create_task'', JStr ''list_tasks''])], hide_when = []\<rparr>\<rparr>,
       (mk_property ''task_id'' ''Task ID'' PString JNull)\<lparr>prop_display_options := Some \<lparr>show_when =
           [(''operation'', [JStr ''delete_task'', JStr ''get_task'', JStr ''update_task''])], hide_when = []\<rparr>\<rparr>,
       (mk_property ''name'' ''Name'' PString JNull)\<lparr>prop_display_options := Some \<lparr>show_when = [(''operation'',
           [JStr ''create_task''])], hide_when = []\<rparr>\<rparr>,
       (mk_property ''description'' ''Description'' PString JNull)\<lparr>prop_display_options := Some \<lparr>show_when =
           [(''operation'', [JStr ''create_task''])], hide_when = []\<rparr>\<rparr>,
       (mk_property ''status'' ''Status'' PString JNull)\<lparr>prop_display_options := Some \<lparr>show_when =
           [(''operation'', [JStr ''create_task''])], hide_when = []\<rparr>\<rparr>,
       (mk_property ''priority'' ''Priority'' PNumber JNull)\<lparr>prop_description := Some
           ''1=Urgent, 2=High, 3=Normal, 4=Low.'', prop_display_options := Some \<lparr>show_when = [(''operation'',
           [JStr ''create_task''])], hide_when = []\<rparr>\<rparr>,
       (mk_property ''assignees'' ''Assignees'' PJson JNull)\<lparr>prop_description := Some ''List of user ids.'',
           prop_display_options := Some \<lparr>show_when = [(''operation'', [JStr ''create_task''])], hide_when =
           []\<rparr>\<rparr>,
       (mk_property ''extra_fields'' ''Extra Fields'' PJson JNull)\<lparr>prop_description := Some
           ''Optional JSON merged into the create body.'', prop_display_options := Some \<lparr>show_when =
           [(''operation'', [JStr ''create_task''])], hide_when = []\<rparr>\<rparr>,
       (mk_property ''fields'' ''Fields'' PJson JNull)\<lparr>prop_display_options := Some \<lparr>show_when =
           [(''operation'', [JStr ''update_task''])], hide_when = []\<rparr>\<rparr>,
       (mk_property ''archived'' ''Archived'' PBoolean (JBool False))\<lparr>prop_display_options := Some \<lparr>show_when =
           [(''operation'', [JStr ''list_tasks''])], hide_when = []\<rparr>\<rparr>,
       (mk_property ''page'' ''Page'' PNumber (JInt 0))\<lparr>prop_display_options := Some \<lparr>show_when =
           [(''operation'', [JStr ''list_tasks''])], hide_when = []\<rparr>\<rparr>,
       (mk_property ''order_by'' ''Order By'' PString JNull)\<lparr>prop_display_options := Some \<lparr>show_when =
           [(''operation'', [JStr ''list_tasks''])], hide_when = []\<rparr>\<rparr>,
       (mk_property ''subtasks'' ''Include Subtasks'' PBoolean (JBool False))\<lparr>prop_display_options := Some
           \<lparr>show_when = [(''operation'', [JStr ''list_tasks''])], hide_when = []\<rparr>\<rparr>,
       (mk_property ''statuses'' ''Statuses'' PString JNull)\<lparr>prop_description := Some
           ''Comma-separated list of statuses to include.'', prop_display_options := Some \<lparr>show_when =
           [(''operation'', [JStr ''list_tasks''])], hide_when = []\<rparr>\<rparr>],
     documentation_url := Some ''https://clickup.com/api''\<rparr>"

definition cloudflare_spec :: node_spec where
  "cloudflare_spec =
   (mk_spec ''weftlyflow.cloudflare'' 1 ''Cloudflare''
     ''Manage Cloudflare zones and DNS records.'' ''icons/cloudflare.svg'' CatIntegration)\<lparr>spec_group :=
         [''infrastructure'', ''dns''],
     spec_credentials := [\<lparr>slot_name = ''cloudflare_api'', slot_credential_types =
         [''weftlyflow.cloudflare_api''], slot_required = True, slot_display_options = None\<rparr>],
     spec_properties :=
      [(mk_property ''operation'' ''Operation'' POptions (JStr ''list_zones''))\<lparr>prop_required := True,
          prop_options := Some [mk_option ''list_zones'' ''List Zones'', mk_option ''get_zone'' ''Get Zone'',
          mk_option ''list_dns_records'' ''List DNS Records'', mk_option ''create_dns_record''
          ''Create DNS Record'', mk_option ''update_dns_record'' ''Update DNS Record'', mk_option
          ''delete_dns_record'' ''Delete DNS Record'']\<rparr>,
       (mk_property ''zone_id'' ''Zone ID'' PString JNull)\<lparr>prop_display_options := Some \<lparr>show_when =
           [(''operation'', [JStr ''create_dns_record'', JStr ''delete_dns_record'', JStr ''get_zone'', JStr
           ''list_dns_records'', JStr ''update_dns_record''])], hide_when = []\<rparr>\<rparr>,
       (mk_property ''record_id'' ''Record ID'' PString JNull)\<lparr>prop_display_options := Some \<lparr>show_when =
           [(''operation'', [JStr ''delete_dns_record'', JStr ''update_dns_record''])], hide_when = []\<rparr>\<rparr>,
       (mk_property ''type'' ''Record Type'' POptions JNull)\<lparr>prop_description := Some
           ''DNS record type (A, CNAME, MX, ...).'', prop_options := Some [mk_option ''A'' ''A'', mk_option
           ''AAAA'' ''AAAA'', mk_option ''CNAME'' ''CNAME'', mk_option ''MX'' ''MX'', mk_option ''TXT''
           ''TXT'', mk_option ''NS'' ''NS'', mk_option ''SRV'' ''SRV'', mk_option ''CAA'' ''CAA'', mk_option
           ''PTR'' ''PTR''], prop_display_options := Some \<lparr>show_when = [(''operation'', [JStr
           ''list_dns_records'', JStr ''create_dns_record''])], hide_when = []\<rparr>\<rparr>,
       (mk_property ''name'' ''Record Name'' PString JNull)\<lparr>prop_display_options := Some \<lparr>show_when =
           [(''operation'', [JStr ''list_zones'', JStr ''list_dns_records'', JStr ''create_dns_record''])],
           hide_when = []\<rparr>\<rparr>,
       (mk_property ''content'' ''Content'' PString JNull)\<lparr>prop_description := Some
           ''Record value (e.g. IP address for A records).'', prop_display_options := Some \<lparr>show_when =
           [(''operation'', [JStr ''create_dns_record''])], hide_when = []\<rparr>\<rparr>,
       (mk_property ''ttl'' ''TTL'' PNumber JNull)\<lparr>prop_description := Some
           ''Seconds (or 1 for Cloudflare auto).'', prop_display_options := Some \<lparr>show_when = [(''operation'',
           [JStr ''create_dns_record''])], hide_when = []\<rparr>\<rparr>,
       (mk_property ''proxied'' ''Proxied'' PBoolean (JBool False))\<lparr>prop_display_options := Some \<lparr>show_when =
           [(''operation'', [JStr ''create_dns_record''])], hide_when = []\<rparr>\<rparr>,
       (mk_property ''priority'' ''Priority'' PNumber JNull)\<lparr>prop_description := Some ''MX / SRV priority.'',
           prop_display_options := Some \<lparr>show_when = [(''operation'', [JStr ''create_dns_record''])], hide_when
           = []\<rparr>\<rparr>,
       (mk_property ''fields'' ''Fields'' PJson JNull)\<lparr>prop_description := Some
           ''JSON patch body for update_dns_record.'', prop_display_options := Some \<lparr>show_when =
           [(''operation'', [JStr ''update_dns_record''])], hide_when = []\<rparr>\<rparr>,
       (mk_property ''status'' ''Zone Status'' PString JNull)\<lparr>prop_description := Some
           ''Filter for list_zones (active, pending, ...).'', prop_display_options := Some \<lparr>show_when =
           [(''operation'', [JStr ''list_zones''])], hide_when = []\<rparr>\<rparr>,
       (mk_property ''per_page'' ''Per Page'' PNumber JNull)\<lparr>prop_display_options := Some \<lparr>show_when =
           [(''operation'', [JStr ''list_zones'', JStr ''list_dns_records''])], hide_when = []\<rparr>\<rparr>,
       (mk_property ''page'' ''Page'' PNumber JNull)\<lparr>prop_display_options := Some \<lparr>show_when = [(''operation'',
           [JStr ''list_zones'', JStr ''list_dns_records''])], hide_when = []\<rparr>\<rparr>],
     documentation_url := Some ''https://developers.cloudflare.com/api/''\<rparr>"

definition cloudinary_spec :: node_spec where
  "cloudinary_spec =
   (mk_spec ''weftlyflow.cloudinary'' 1 ''Cloudinary''
     ''Upload, destroy, and list Cloudinary media resources.'' ''icons/cloudinary.svg''
         CatIntegration)\<lparr>spec_group := [''media''],
     spec_credentials := [\<lparr>slot_name = ''cloudinary_api'', slot_credential_types =
         [''weftlyflow.cloudinary_api''], slot_required = True, slot_display_options = None\<rparr>],
     spec_properties :=
      [(mk_property ''operation'' ''Operation'' POptions (JStr ''upload''))\<lparr>prop_required := True, prop_options
          := Some [mk_option ''upload'' ''Upload'', mk_option ''destroy'' ''Destroy'', mk_option
          ''list_resources'' ''List Resources'', mk_option ''get_resource'' ''Get Resource'']\<rparr>,
       (mk_property ''resource_type'' ''Resource Type'' POptions (JStr ''image''))\<lparr>prop_options := Some
           [mk_option ''image'' ''Image'', mk_option ''video'' ''Video'', mk_option ''raw'' ''Raw'']\<rparr>,
       (mk_property ''file'' ''File'' PString JNull)\<lparr>prop_description := Some
           ''Remote URL, data URI, or cloudinary:// reference.'', prop_display_options := Some \<lparr>show_when =
           [(''operation'', [JStr ''upload''])], hide_when = []\<rparr>\<rparr>,
       (mk_property ''public_id'' ''Public ID'' PString JNull)\<lparr>prop_display_options := Some \<lparr>show_when =
           [(''operation'', [JStr ''upload'', JStr ''destroy'', JStr ''get_resource''])], hide_when = []\<rparr>\<rparr>,
       (mk_property ''folder'' ''Folder'' PString JNull)\<lparr>prop_display_options := Some \<lparr>show_when =
           [(''operation'', [JStr ''upload''])], hide_when = []\<rparr>\<rparr>,
       (mk_property ''tags'' ''Tags'' PString JNull)\<lparr>prop_description := Some ''Comma-separated tag list.'',
           prop_display_options := Some \<lparr>show_when = [(''operation'', [JStr ''upload''])], hide_when = []\<rparr>\<rparr>,
       (mk_property ''context'' ''Context'' PJson JNull)\<lparr>prop_description := Some
           (''Key/value metadata, e.g. {'' @ [CHR 0x22] @ ''alt'' @ [CHR 0x22] @ '': '' @ [CHR 0x22] @ ''logo''
           @ [CHR 0x22] @ ''}.''), prop_display_options := Some \<lparr>show_when = [(''operation'', [JStr
           ''upload''])], hide_when = []\<rparr>\<rparr>,
       (mk_property ''invalidate'' ''Invalidate CDN'' PBoolean (JBool False))\<lparr>prop_display_options := Some
           \<lparr>show_when = [(''operation'', [JStr ''destroy''])], hide_when = []\<rparr>\<rparr>,
       (mk_property ''delivery_type'' ''Delivery Type'' PString (JStr ''upload''))\<lparr>prop_description := Some
           ''upload / fetch / private / authenticated.'', prop_display_options := Some \<lparr>show_when =
           [(''operation'', [JStr ''get_resource''])], hide_when = []\<rparr>\<rparr>,
       (mk_property ''max_results'' ''Max Results'' PNumber JNull)\<lparr>prop_display_options := Some \<lparr>show_when =
           [(''operation'', [JStr ''list_resources''])], hide_when = []\<rparr>\<rparr>,
       (mk_property ''prefix'' ''Prefix'' PString JNull)\<lparr>prop_display_options := Some \<lparr>show_when =
           [(''operation'', [JStr ''list_resources''])], hide_when = []\<rparr>\<rparr>,
       (mk_property ''next_cursor'' ''Next Cursor'' PString JNull)\<lparr>prop_display_options := Some \<lparr>show_when =
           [(''operation'', [JStr ''list_resources''])], hide_when = []\<rparr>\<rparr>],
     documentation_url := Some ''https://cloudinary.com/documentation/admin_api''\<rparr>"

definition coinbase_spec :: node_spec where
  "coinbase_spec =
   (mk_spec ''weftlyflow.coinbase'' 1 ''Coinbase Exchange''
     ''List accounts, read tickers, place and cancel orders on Coinbase Exchange.'' ''icons/coinbase.svg''
         CatIntegration)\<lparr>spec_group := [''finance''],
     spec_credentials := [\<lparr>slot_name = ''coinbase_exchange'', slot_credential_types =
         [''weftlyflow.coinbase_exchange''], slot_required = True, slot_display_options = None\<rparr>],
     spec_properties :=
      [(mk_property ''operation'' ''Operation'' POptions (JStr ''list_accounts''))\<lparr>prop_required := True,
          prop_options := Some [mk_option ''list_accounts'' ''List Accounts'', mk_option ''get_product_ticker''
          ''Get Product Ticker'', mk_option ''place_order'' ''Place Order'', mk_option ''cancel_order''
          ''Cancel Order'']\<rparr>,
       (mk_property ''product_id'' ''Product ID'' PString JNull)\<lparr>prop_description := Some
           (''Trading pair, e.g. '' @ [CHR 0x22] @ ''BTC-USD'' @ [CHR 0x22] @ ''.''), prop_display_options :=
           Some \<lparr>show_when = [(''operation'', [JStr ''get_product_ticker'', JStr ''place_order''])], hide_when
           = []\<rparr>\<rparr>,
       (mk_property ''side'' ''Side'' POptions (JStr ''buy''))\<lparr>prop_options := Some [mk_option ''buy'' ''Buy'',
           mk_option ''sell'' ''Sell''], prop_display_options := Some \<lparr>show_when = [(''operation'', [JStr
           ''place_order''])], hide_when = []\<rparr>\<rparr>,
       (mk_property ''order_type'' ''Order Type'' POptions (JStr ''limit''))\<lparr>prop_options := Some [mk_option
           ''limit'' ''Limit'', mk_option ''market'' ''Market''], prop_display_options := Some \<lparr>show_when =
           [(''operation'', [JStr ''place_order''])], hide_when = []\<rparr>\<rparr>,
       (mk_property ''price'' ''Price'' PString JNull)\<lparr>prop_description := Some ''Required for limit orders.'',
           prop_display_options := Some \<lparr>show_when = [(''operation'', [JStr ''place_order'']), (''order_type'',
           [JStr ''limit''])], hide_when = []\<rparr>\<rparr>,
       (mk_property ''size'' ''Size (base currency)'' PString JNull)\<lparr>prop_display_options := Some \<lparr>show_when =
           [(''operation'', [JStr ''place_order''])], hide_when = []\<rparr>\<rparr>,
       (mk_property ''funds'' ''Funds (quote currency)'' PString JNull)\<lparr>prop_description := Some
           ''Alternative to size for market orders.'', prop_display_options := Some \<lparr>show_when =
           [(''operation'', [JStr ''place_order'']), (''order_type'', [JStr ''market''])], hide_when = []\<rparr>\<rparr>,
       (mk_property ''time_in_force'' ''Time in Force'' PString JNull)\<lparr>prop_description := Some
           ''GTC, GTT, IOC, FOK (limit orders only).'', prop_display_options := Some \<lparr>show_when =
           [(''operation'', [JStr ''place_order'']), (''order_type'', [JStr ''limit''])], hide_when = []\<rparr>\<rparr>,
       (mk_property ''client_oid'' ''Client Order ID'' PString JNull)\<lparr>prop_display_options := Some \<lparr>show_when =
           [(''operation'', [JStr ''place_order''])], hide_when = []\<rparr>\<rparr>,
       (mk_property ''order_id'' ''Order ID'' PString JNull)\<lparr>prop_display_options := Some \<lparr>show_when =
           [(''operation'', [JStr ''cancel_order''])], hide_when = []\<rparr>\<rparr>],
     documentation_url := Some ''https://docs.cdp.coinbase.com/exchange/docs/rest-api-overview''\<rparr>"

definition contentful_spec :: node_spec where
  "contentful_spec =
   (mk_spec ''weftlyflow.contentful'' 1 ''Contentful''
     ''Read and write Contentful entries via Management + Delivery APIs.'' ''icons/contentful.svg''
         CatIntegration)\<lparr>spec_group := [''cms'', ''content''],
     spec_credentials := [\<lparr>slot_name = ''contentful_api'', slot_credential_types =
         [''weftlyflow.contentful_api''], slot_required = True, slot_display_options = None\<rparr>],
     spec_properties :=
      [(mk_property ''operation'' ''Operation'' POptions (JStr ''list_entries''))\<lparr>prop_required := True,
          prop_options := Some [mk_option ''get_entry'' ''Get Entry'', mk_option ''list_entries''
          ''List Entries'', mk_option ''create_entry'' ''Create Entry'', mk_option ''update_entry''
          ''Update Entry'', mk_option ''publish_entry'' ''Publish Entry'', mk_option ''delete_entry''
          ''Delete Entry'', mk_option ''get_asset'' ''Get Asset'']\<rparr>,
       (mk_property ''space_id'' ''Space ID (override)'' PString JNull)\<lparr>prop_description := Some
           ''Optional per-call override; defaults to credential.''\<rparr>,
       (mk_property ''environment'' ''Environment (override)'' PString JNull)\<lparr>prop_description := Some
           ''Optional per-call override; defaults to credential.''\<rparr>,
       (mk_property ''entry_id'' ''Entry ID'' PString JNull)\<lparr>prop_display_options := Some \<lparr>show_when =
           [(''operation'', [JStr ''delete_entry'', JStr ''get_entry'', JStr ''publish_entry'', JStr
           ''update_entry''])], hide_when = []\<rparr>\<rparr>,
       (mk_property ''asset_id'' ''Asset ID'' PString JNull)\<lparr>prop_display_options := Some \<lparr>show_when =
           [(''operation'', [JStr ''get_asset''])], hide_when = []\<rparr>\<rparr>,
       (mk_property ''content_type'' ''Content Type'' PString JNull)\<lparr>prop_display_options := Some \<lparr>show_when =
           [(''operation'', [JStr ''create_entry'', JStr ''list_entries''])], hide_when = []\<rparr>\<rparr>,
       (mk_property ''fields'' ''Fields'' PJson JNull)\<lparr>prop_description := Some
           (''Localised field map, e.g. {'' @ [CHR 0x22] @ ''title'' @ [CHR 0x22] @ '': {'' @ [CHR 0x22] @
           ''en-US'' @ [CHR 0x22] @ '': '' @ [CHR 0x22] @ ''Hi'' @ [CHR 0x22] @ ''}}.''), prop_display_options
           := Some \<lparr>show_when = [(''operation'', [JStr ''create_entry'', JStr ''update_entry''])], hide_when =
           []\<rparr>\<rparr>,
       (mk_property ''version'' ''Version'' PNumber JNull)\<lparr>prop_description := Some
           ''Current sys.version for optimistic concurrency.'', prop_display_options := Some \<lparr>show_when =
           [(''operation'', [JStr ''delete_entry'', JStr ''publish_entry'', JStr ''update_entry''])], hide_when
           = []\<rparr>\<rparr>,
       (mk_property ''filters'' ''Filters'' PJson JNull)\<lparr>prop_description := Some
           (''Free-form filter map, e.g. {'' @ [CHR 0x22] @ ''fields.slug'' @ [CHR 0x22] @ '': '' @ [CHR 0x22]
           @ ''home'' @ [CHR 0x22] @ ''}.''), prop_display_options := Some \<lparr>show_when = [(''operation'', [JStr
           ''list_entries''])], hide_when = []\<rparr>\<rparr>,
       (mk_property ''limit'' ''Limit'' PNumber JNull)\<lparr>prop_display_options := Some \<lparr>show_when =
           [(''operation'', [JStr ''list_entries''])], hide_when = []\<rparr>\<rparr>,
       (mk_property ''skip'' ''Skip'' PNumber JNull)\<lparr>prop_display_options := Some \<lparr>show_when = [(''operation'',
           [JStr ''list_entries''])], hide_when = []\<rparr>\<rparr>,
       (mk_property ''order'' ''Order'' PString JNull)\<lparr>prop_display_options := Some \<lparr>show_when =
           [(''operation'', [JStr ''list_entries''])], hide_when = []\<rparr>\<rparr>],
     documentation_url := Some ''https://www.contentful.com/developers/docs/references/''\<rparr>"

definition datadog_spec :: node_spec where
  "datadog_spec =
   (mk_spec ''weftlyflow.datadog'' 1 ''Datadog''
     ''Post events, read monitors, and query/submit metrics.'' ''icons/datadog.svg'' CatIntegration)\<lparr>spec_group
         := [''observability'', ''monitoring''],
     spec_credentials := [\<lparr>slot_name = ''datadog_api'', slot_credential_types = [''weftlyflow.datadog_api''],
         slot_required = True, slot_display_options = None\<rparr>],
     spec_properties :=
      [(mk_property ''operation'' ''Operation'' POptions (JStr ''post_event''))\<lparr>prop_required := True,
          prop_options := Some [mk_option ''post_event'' ''Post Event'', mk_option ''list_events''
          ''List Events'', mk_option ''get_monitor'' ''Get Monitor'', mk_option ''list_monitors''
          ''List Monitors'', mk_option ''query_metrics'' ''Query Metrics'', mk_option ''submit_metric''
          ''Submit Metric'']\<rparr>,
       (mk_property ''title'' ''Title'' PString JNull)\<lparr>prop_display_options := Some \<lparr>show_when =
           [(''operation'', [JStr ''post_event''])], hide_when = []\<rparr>\<rparr>,
       (mk_property ''text'' ''Text'' PString JNull)\<lparr>prop_display_options := Some \<lparr>show_when = [(''operation'',
           [JStr ''post_event''])], hide_when = []\<rparr>\<rparr>,
       (mk_property ''alert_type'' ''Alert Type'' PString JNull)\<lparr>prop_description := Some
           ''error, warning, info, success, ...'', prop_display_options := Some \<lparr>show_when = [(''operation'',
           [JStr ''post_event''])], hide_when = []\<rparr>\<rparr>,
       (mk_property ''priority'' ''Priority'' PString JNull)\<lparr>prop_description := Some ''normal or low.'',
           prop_display_options := Some \<lparr>show_when = [(''operation'', [JStr ''post_event'', JStr
           ''list_events''])], hide_when = []\<rparr>\<rparr>,
       (mk_property ''source_type_name'' ''Source'' PString JNull)\<lparr>prop_display_options := Some \<lparr>show_when =
           [(''operation'', [JStr ''post_event''])], hide_when = []\<rparr>\<rparr>,
       (mk_property ''aggregation_key'' ''Aggregation Key'' PString JNull)\<lparr>prop_display_options := Some
           \<lparr>show_when = [(''operation'', [JStr ''post_event''])], hide_when = []\<rparr>\<rparr>,
       (mk_property ''tags'' ''Tags'' PString JNull)\<lparr>prop_description := Some
           ''Comma-separated or list (e.g. 'env:prod,service:api').'', prop_display_options := Some \<lparr>show_when
           = [(''operation'', [JStr ''post_event'', JStr ''list_events'', JStr ''submit_metric''])], hide_when
           = []\<rparr>\<rparr>,
       (mk_property ''start'' ''Start (Unix seconds)'' PNumber JNull)\<lparr>prop_display_options := Some \<lparr>show_when =
           [(''operation'', [JStr ''list_events''])], hide_when = []\<rparr>\<rparr>,
       (mk_property ''end'' ''End (Unix seconds)'' PNumber JNull)\<lparr>prop_display_options := Some \<lparr>show_when =
           [(''operation'', [JStr ''list_events''])], hide_when = []\<rparr>\<rparr>,
       (mk_property ''sources'' ''Sources'' PString JNull)\<lparr>prop_display_options := Some \<lparr>show_when =
           [(''operation'', [JStr ''list_events''])], hide_when = []\<rparr>\<rparr>,
       (mk_property ''unaggregated'' ''Unaggregated'' PBoolean JNull)\<lparr>prop_display_options := Some \<lparr>show_when =
           [(''operation'', [JStr ''list_events''])], hide_when = []\<rparr>\<rparr>,
       (mk_property ''monitor_id'' ''Monitor ID'' PString JNull)\<lparr>prop_display_options := Some \<lparr>show_when =
           [(''operation'', [JStr ''get_monitor''])], hide_when = []\<rparr>\<rparr>,
       (mk_property ''group_states'' ''Group States'' PString JNull)\<lparr>prop_description := Some
           ''all, alert, warn, no data.'', prop_display_options := Some \<lparr>show_when = [(''operation'', [JStr
           ''get_monitor''])], hide_when = []\<rparr>\<rparr>,
       (mk_property ''name'' ''Name Filter'' PString JNull)\<lparr>prop_display_options := Some \<lparr>show_when =
           [(''operation'', [JStr ''list_monitors''])], hide_when = []\<rparr>\<rparr>,
       (mk_property ''monitor_tags'' ''Monitor Tags'' PString JNull)\<lparr>prop_display_options := Some \<lparr>show_when =
           [(''operation'', [JStr ''list_monitors''])], hide_when = []\<rparr>\<rparr>,
       (mk_property ''page'' ''Page'' PNumber JNull)\<lparr>prop_display_options := Some \<lparr>show_when = [(''operation'',
           [JStr ''list_monitors''])], hide_when = []\<rparr>\<rparr>,
       (mk_property ''page_size'' ''Page Size'' PNumber JNull)\<lparr>prop_display_options := Some \<lparr>show_when =
           [(''operation'', [JStr ''list_monitors''])], hide_when = []\<rparr>\<rparr>,
       (mk_property ''query'' ''Query'' PString JNull)\<lparr>prop_description := Some
           ''Metric query DSL (e.g. avg:system.cpu.user{*}).'', prop_display_options := Some \<lparr>show_when =
           [(''operation'', [JStr ''query_metrics''])], hide_when = []\<rparr>\<rparr>,
       (mk_property ''from_ts'' ''From (Unix seconds)'' PNumber JNull)\<lparr>prop_display_options := Some \<lparr>show_when
           = [(''operation'', [JStr ''query_metrics''])], hide_when = []\<rparr>\<rparr>,
       (mk_property ''to_ts'' ''To (Unix seconds)'' PNumber JNull)\<lparr>prop_display_options := Some \<lparr>show_when =
           [(''operation'', [JStr ''query_metrics''])], hide_when = []\<rparr>\<rparr>,
       (mk_property ''metric'' ''Metric Name'' PString JNull)\<lparr>prop_display_options := Some \<lparr>show_when =
           [(''operation'', [JStr ''submit_metric''])], hide_when = []\<rparr>\<rparr>,
       (mk_property ''metric_type'' ''Metric Type'' PString (JStr ''gauge''))\<lparr>prop_description := Some
           ''gauge, count, rate, unspecified.'', prop_display_options := Some \<lparr>show_when = [(''operation'',
           [JStr ''submit_metric''])], hide_when = []\<rparr>\<rparr>,
       (mk_property ''points'' ''Points'' PJson JNull)\<lparr>prop_description := Some (''[{'' @ [CHR 0x22] @
           ''timestamp'' @ [CHR 0x22] @ '': 1700000000, '' @ [CHR 0x22] @ ''value'' @ [CHR 0x22] @
           '': 1.0}, ...]''), prop_display_options := Some \<lparr>show_when = [(''operation'', [JStr
           ''submit_metric''])], hide_when = []\<rparr>\<rparr>,
       (mk_property ''unit'' ''Unit'' PString JNull)\<lparr>prop_display_options := Some \<lparr>show_when = [(''operation'',
           [JStr ''submit_metric''])], hide_when = []\<rparr>\<rparr>],
     documentation_url := Some ''https://docs.datadoghq.com/api/latest/''\<rparr>"

definition discord_spec :: node_spec where
  "discord_spec =
   (mk_spec ''weftlyflow.discord'' 1 ''Discord''
     ''Send, edit, or delete Discord channel messages and read channel metadata.'' ''icons/discord.svg''
         CatIntegration)\<lparr>spec_group := [''communication'', ''chat''],
     spec_credentials := [\<lparr>slot_name = ''discord_bot'', slot_credential_types = [''weftlyflow.discord_bot''],
         slot_required = True, slot_display_options = None\<rparr>],
     spec_properties :=
      [(mk_property ''operation'' ''Operation'' POptions (JStr ''send_message''))\<lparr>prop_required := True,
          prop_options := Some [mk_option ''send_message'' ''Send Message'', mk_option ''get_channel''
          ''Get Channel'', mk_option ''edit_message'' ''Edit Message'', mk_option ''delete_message''
          ''Delete Message'']\<rparr>,
       (mk_property ''channel_id'' ''Channel ID'' PString JNull)\<lparr>prop_required := True\<rparr>,
       (mk_property ''message_id'' ''Message ID'' PString JNull)\<lparr>prop_display_options := Some \<lparr>show_when =
           [(''operation'', [JStr ''edit_message'', JStr ''delete_message''])], hide_when = []\<rparr>\<rparr>,
       (mk_property ''content'' ''Content'' PString JNull)\<lparr>prop_description := Some
           ''Plain-text message body (up to 2000 characters).'', prop_display_options := Some \<lparr>show_when =
           [(''operation'', [JStr ''send_message'', JStr ''edit_message''])], hide_when = []\<rparr>\<rparr>,
       (mk_property ''embeds'' ''Embeds'' PJson JNull)\<lparr>prop_description := Some
           ''List of Discord embed objects.'', prop_display_options := Some \<lparr>show_when = [(''operation'', [JStr
           ''send_message'', JStr ''edit_message''])], hide_when = []\<rparr>\<rparr>,
       (mk_property ''tts'' ''Text-to-Speech'' PBoolean (JBool False))\<lparr>prop_display_options := Some \<lparr>show_when
           = [(''operation'', [JStr ''send_message'', JStr ''edit_message''])], hide_when = []\<rparr>\<rparr>],
     documentation_url := Some ''https://discord.com/developers/docs/reference''\<rparr>"

definition integration_catalog_1 :: "node_spec list" where
  "integration_catalog_1 =
     [activecampaign_spec, airtable_spec, algolia_spec, alpaca_spec,
      anthropic_spec, asana_spec, asc_spec, aws_s3_spec,
      azure_blob_spec, backblaze_b2_spec, binance_spec, bitbucket_spec,
      box_spec, brevo_spec, clickup_spec, cloudflare_spec,
      cloudinary_spec, coinbase_spec, contentful_spec, datadog_spec,
      discord_spec]"

lemma integration_catalog_1_ok: "list_all spec_ok integration_catalog_1"
  by code_simp

lemma integration_catalog_1_names:
  "map short_key integration_catalog_1 =
     [''activecampaign'', ''airtable'', ''algolia'', ''alpaca'', ''anthropic'', ''asana'', ''asc'', ''aws_s3'',
         ''azure_blob'', ''backblaze_b2'', ''binance'', ''bitbucket'', ''box'', ''brevo'', ''clickup'',
         ''cloudflare'', ''cloudinary'', ''coinbase'', ''contentful'', ''datadog'', ''discord'']"
  by code_simp

lemma integration_catalog_1_slots:
  "concat (map slot_slugs integration_catalog_1) =
     [''weftlyflow.activecampaign_api'', ''weftlyflow.bearer_token'', ''weftlyflow.algolia_api'',
         ''weftlyflow.alpaca_api'', ''weftlyflow.anthropic_api'', ''weftlyflow.asana_api'',
         ''weftlyflow.asc_api'', ''weftlyflow.aws_s3'', ''weftlyflow.azure_storage_shared_key'',
         ''weftlyflow.backblaze_b2'', ''weftlyflow.binance_api'', ''weftlyflow.bitbucket_api'',
         ''weftlyflow.box_api'', ''weftlyflow.brevo_api'', ''weftlyflow.clickup_api'',
         ''weftlyflow.cloudflare_api'', ''weftlyflow.cloudinary_api'', ''weftlyflow.coinbase_exchange'',
         ''weftlyflow.contentful_api'', ''weftlyflow.datadog_api'', ''weftlyflow.discord_bot'']"
  by code_simp

end
