(* ===== verification/Integration_Specs_2.thy ===== *)
theory Integration_Specs_2
  imports Node_Registry
begin

text \<open>
  The node specifications of the integrations from \<open>docusign\<close> to \<open>linear\<close>, \<open>nodes/integrations/*/node.py\<close>, one
  \<^typ>\<open>node_spec\<close> per node class, field by field as in the source. Constants of \<open>constants.py\<close>
  stand with their values; a dash, an arrow or an ellipsis in a descriptive text is written in ASCII, and
  a list made from a frozen set is in alphabetical order. All of them are well-formed.
\<close>

definition docusign_spec :: node_spec where
  "docusign_spec =
   (mk_spec ''weftlyflow.docusign'' 1 ''DocuSign eSignature''
     ''Envelopes and templates on DocuSign eSignature REST.'' ''icons/docusign.svg'' CatIntegration)\<lparr>spec_group
         := [''documents''],
     spec_credentials := [\<lparr>slot_name = ''docusign_jwt'', slot_credential_types = [''weftlyflow.docusign_jwt''],
         slot_required = True, slot_display_options = None\<rparr>],
     spec_properties :=
      [(mk_property ''operation'' ''Operation'' POptions (JStr ''list_envelopes''))\<lparr>prop_required := True,
          prop_options := Some [mk_option ''list_envelopes'' ''List Envelopes'', mk_option ''get_envelope''
          ''Get Envelope'', mk_option ''create_envelope'' ''Create Envelope'', mk_option ''list_templates''
          ''List Templates'']\<rparr>,
       (mk_property ''account_id'' ''Account ID'' PString JNull)\<lparr>prop_required := True, prop_description :=
           Some ''DocuSign account GUID.''\<rparr>,
       (mk_property ''envelope_id'' ''Envelope ID'' PString JNull)\<lparr>prop_display_options := Some \<lparr>show_when =
           [(''operation'', [JStr ''get_envelope''])], hide_when = []\<rparr>\<rparr>,
       (mk_property ''from_date'' ''From Date'' PString JNull)\<lparr>prop_description := Some
           ''ISO-8601 timestamp filter for list_envelopes.'', prop_display_options := Some \<lparr>show_when =
           [(''operation'', [JStr ''list_envelopes''])], hide_when = []\<rparr>\<rparr>,
       (mk_property ''email_subject'' ''Email Subject'' PString JNull)\<lparr>prop_display_options := Some \<lparr>show_when
           = [(''operation'', [JStr ''create_envelope''])], hide_when = []\<rparr>\<rparr>,
       (mk_property ''email_message'' ''Email Message'' PString JNull)\<lparr>prop_display_options := Some \<lparr>show_when
           = [(''operation'', [JStr ''create_envelope''])], hide_when = []\<rparr>\<rparr>,
       (mk_property ''status'' ''Envelope Status'' POptions (JStr ''sent''))\<lparr>prop_options := Some [mk_option
           ''sent'' ''Sent'', mk_option ''created'' ''Created (Draft)''], prop_display_options := Some
           \<lparr>show_when = [(''operation'', [JStr ''create_envelope'', JStr ''list_envelopes''])], hide_when =
           []\<rparr>\<rparr>,
       (mk_property ''template_id'' ''Template ID'' PString JNull)\<lparr>prop_display_options := Some \<lparr>show_when =
           [(''operation'', [JStr ''create_envelope''])], hide_when = []\<rparr>\<rparr>,
       (mk_property ''template_roles'' ''Template Roles'' PJson JNull)\<lparr>prop_description := Some (''List of {''
           @ [CHR 0x22] @ ''email'' @ [CHR 0x22] @ '','' @ [CHR 0x22] @ ''name'' @ [CHR 0x22] @ '','' @ [CHR
           0x22] @ ''roleName'' @ [CHR 0x22] @ ''} objects.''), prop_display_options := Some \<lparr>show_when =
           [(''operation'', [JStr ''create_envelope''])], hide_when = []\<rparr>\<rparr>,
       (mk_property ''documents'' ''Documents'' PJson JNull)\<lparr>prop_description := Some
           ''List of DocuSign document objects (no template path).'', prop_display_options := Some \<lparr>show_when =
           [(''operation'', [JStr ''create_envelope''])], hide_when = []\<rparr>\<rparr>,
       (mk_property ''recipients'' ''Recipients'' PJson JNull)\<lparr>prop_description := Some
           ''DocuSign recipients object (signers, carbonCopies, ...).'', prop_display_options := Some
           \<lparr>show_when = [(''operation'', [JStr ''create_envelope''])], hide_when = []\<rparr>\<rparr>],
     documentation_url := Some ''https://developers.docusign.com/docs/esign-rest-api/''\<rparr>"

definition dropbox_spec :: node_spec where
  "dropbox_spec =
   (mk_spec ''weftlyflow.dropbox'' 1 ''Dropbox''
     ''Manage Dropbox files and folders.'' ''icons/dropbox.svg'' CatIntegration)\<lparr>spec_group := [''files'',
         ''storage''],
     spec_credentials := [\<lparr>slot_name = ''dropbox_api'', slot_credential_types = [''weftlyflow.dropbox_api''],
         slot_required = True, slot_display_options = None\<rparr>],
     spec_properties :=
      [(mk_property ''operation'' ''Operation'' POptions (JStr ''list_folder''))\<lparr>prop_required := True,
          prop_options := Some [mk_option ''list_folder'' ''List Folder'', mk_option ''get_metadata''
          ''Get Metadata'', mk_option ''create_folder'' ''Create Folder'', mk_option ''delete'' ''Delete'',
          mk_option ''move'' ''Move'', mk_option ''copy'' ''Copy'', mk_option ''search'' ''Search'', mk_option
          ''download'' ''Download'']\<rparr>,
       (mk_property ''path'' ''Path'' PString JNull)\<lparr>prop_description := Some
           ''Dropbox path starting with '/', 'id:', or 'rev:'.'', prop_display_options := Some \<lparr>show_when =
           [(''operation'', [JStr ''create_folder'', JStr ''delete'', JStr ''download'', JStr ''get_metadata'',
           JStr ''list_folder'', JStr ''search''])], hide_when = []\<rparr>\<rparr>,
       (mk_property ''from_path'' ''From Path'' PString JNull)\<lparr>prop_display_options := Some \<lparr>show_when =
           [(''operation'', [JStr ''copy'', JStr ''move''])], hide_when = []\<rparr>\<rparr>,
       (mk_property ''to_path'' ''To Path'' PString JNull)\<lparr>prop_display_options := Some \<lparr>show_when =
           [(''operation'', [JStr ''copy'', JStr ''move''])], hide_when = []\<rparr>\<rparr>,
       (mk_property ''recursive'' ''Recursive'' PBoolean JNull)\<lparr>prop_display_options := Some \<lparr>show_when =
           [(''operation'', [JStr ''list_folder''])], hide_when = []\<rparr>\<rparr>,
       (mk_property ''autorename'' ''Auto-rename'' PBoolean JNull)\<lparr>prop_display_options := Some \<lparr>show_when =
           [(''operation'', [JStr ''create_folder'', JStr ''move'', JStr ''copy''])], hide_when = []\<rparr>\<rparr>,
       (mk_property ''allow_shared_folder'' ''Allow Shared Folder'' PBoolean JNull)\<lparr>prop_display_options :=
           Some \<lparr>show_when = [(''operation'', [JStr ''move''])], hide_when = []\<rparr>\<rparr>,
       (mk_property ''query'' ''Query'' PString JNull)\<lparr>prop_display_options := Some \<lparr>show_when =
           [(''operation'', [JStr ''search''])], hide_when = []\<rparr>\<rparr>,
       (mk_property ''limit'' ''Limit'' PNumber JNull)\<lparr>prop_display_options := Some \<lparr>show_when =
           [(''operation'', [JStr ''search''])], hide_when = []\<rparr>\<rparr>],
     documentation_url := Some ''https://www.dropbox.com/developers/documentation/http/documentation''\<rparr>"

definition elasticsearch_spec :: node_spec where
  "elasticsearch_spec =
   (mk_spec ''weftlyflow.elasticsearch'' 1 ''Elasticsearch''
     ''Search and mutate Elasticsearch indices.'' ''icons/elasticsearch.svg'' CatIntegration)\<lparr>spec_group :=
         [''database'', ''search''],
     spec_credentials := [\<lparr>slot_name = ''elasticsearch_api'', slot_credential_types =
         [''weftlyflow.elasticsearch_api''], slot_required = True, slot_display_options = None\<rparr>],
     spec_properties :=
      [(mk_property ''operation'' ''Operation'' POptions (JStr ''search''))\<lparr>prop_required := True, prop_options
          := Some [mk_option ''search'' ''Search'', mk_option ''index'' ''Index Document'', mk_option ''get''
          ''Get Document'', mk_option ''update'' ''Update Document'', mk_option ''delete'' ''Delete Document'',
          mk_option ''bulk'' ''Bulk'']\<rparr>,
       (mk_property ''index'' ''Index'' PString JNull)\<lparr>prop_required := False, prop_description := Some
           ''Target index (required for all but cluster-wide bulk).''\<rparr>,
       (mk_property ''id'' ''Document ID'' PString JNull)\<lparr>prop_display_options := Some \<lparr>show_when =
           [(''operation'', [JStr ''delete'', JStr ''get'', JStr ''update'', JStr ''index''])], hide_when =
           []\<rparr>\<rparr>,
       (mk_property ''document'' ''Document'' PJson JNull)\<lparr>prop_description := Some
           ''Document body for index / update.'', prop_display_options := Some \<lparr>show_when = [(''operation'',
           [JStr ''index'', JStr ''update''])], hide_when = []\<rparr>\<rparr>,
       (mk_property ''script'' ''Script'' PJson JNull)\<lparr>prop_description := Some
           ''Alternative update script object.'', prop_display_options := Some \<lparr>show_when = [(''operation'',
           [JStr ''update''])], hide_when = []\<rparr>\<rparr>,
       (mk_property ''query'' ''Query'' PJson JNull)\<lparr>prop_description := Some
           ''Elasticsearch query DSL object.'', prop_display_options := Some \<lparr>show_when = [(''operation'',
           [JStr ''search''])], hide_when = []\<rparr>\<rparr>,
       (mk_property ''size'' ''Size'' PNumber (JInt 10))\<lparr>prop_display_options := Some \<lparr>show_when =
           [(''operation'', [JStr ''search''])], hide_when = []\<rparr>\<rparr>,
       (mk_property ''from_'' ''From'' PNumber JNull)\<lparr>prop_description := Some
           ''Offset for paginated search.'', prop_display_options := Some \<lparr>show_when = [(''operation'', [JStr
           ''search''])], hide_when = []\<rparr>\<rparr>,
       (mk_property ''sort'' ''Sort'' PJson JNull)\<lparr>prop_description := Some ''Sort spec (list or object).'',
           prop_display_options := Some \<lparr>show_when = [(''operation'', [JStr ''search''])], hide_when = []\<rparr>\<rparr>,
       (mk_property ''actions'' ''Actions'' PJson JNull)\<lparr>prop_description := Some
           ''Bulk actions: list of {action, doc}.'', prop_display_options := Some \<lparr>show_when = [(''operation'',
           [JStr ''bulk''])], hide_when = []\<rparr>\<rparr>,
       (mk_property ''refresh'' ''Refresh'' PString JNull)\<lparr>prop_description := Some ([CHR 0x27] @
           ''true', 'false', or 'wait_for'.''), prop_display_options := Some \<lparr>show_when = [(''operation'',
           [JStr ''bulk'', JStr ''delete'', JStr ''index'', JStr ''update''])], hide_when = []\<rparr>\<rparr>],
     documentation_url := Some
         ''https://www.elastic.co/guide/en/elasticsearch/reference/current/rest-apis.html''\<rparr>"

definition facebook_spec :: node_spec where
  "facebook_spec =
   (mk_spec ''weftlyflow.facebook_graph'' 1 ''Facebook Graph''
     ''Read/write the Facebook Graph (pages, posts, users, edges).'' ''icons/facebook.svg''
         CatIntegration)\<lparr>spec_group := [''social'', ''marketing''],
     spec_credentials := [\<lparr>slot_name = ''facebook_graph'', slot_credential_types =
         [''weftlyflow.facebook_graph''], slot_required = True, slot_display_options = None\<rparr>],
     spec_properties :=
      [(mk_property ''operation'' ''Operation'' POptions (JStr ''get_me''))\<lparr>prop_required := True, prop_options
          := Some [mk_option ''get_me'' ''Get Me'', mk_option ''get_node'' ''Get Node'', mk_option
          ''list_edge'' ''List Edge'', mk_option ''create_edge'' ''Create Edge'', mk_option ''delete_node''
          ''Delete Node'']\<rparr>,
       (mk_property ''node_id'' ''Node ID'' PString JNull)\<lparr>prop_description := Some
           ''Graph node id (page, user, post, ...).'', prop_display_options := Some \<lparr>show_when =
           [(''operation'', [JStr ''create_edge'', JStr ''delete_node'', JStr ''get_node'', JStr
           ''list_edge''])], hide_when = []\<rparr>\<rparr>,
       (mk_property ''edge'' ''Edge'' PString JNull)\<lparr>prop_description := Some
           ''Connection name (e.g. posts, feed, comments).'', prop_display_options := Some \<lparr>show_when =
           [(''operation'', [JStr ''create_edge'', JStr ''list_edge''])], hide_when = []\<rparr>\<rparr>,
       (mk_property ''fields'' ''Fields'' PString JNull)\<lparr>prop_description := Some
           ''Comma-separated field selector (id,name,email).'', prop_display_options := Some \<lparr>show_when =
           [(''operation'', [JStr ''get_me'', JStr ''get_node'', JStr ''list_edge''])], hide_when = []\<rparr>\<rparr>,
       (mk_property ''body'' ''Body'' PJson JNull)\<lparr>prop_description := Some (''Write payload, e.g. {'' @ [CHR
           0x22] @ ''message'' @ [CHR 0x22] @ '': '' @ [CHR 0x22] @ ''Hello'' @ [CHR 0x22] @ ''}.''),
           prop_display_options := Some \<lparr>show_when = [(''operation'', [JStr ''create_edge''])], hide_when =
           []\<rparr>\<rparr>,
       (mk_property ''limit'' ''Limit'' PNumber JNull)\<lparr>prop_display_options := Some \<lparr>show_when =
           [(''operation'', [JStr ''list_edge''])], hide_when = []\<rparr>\<rparr>,
       (mk_property ''after'' ''After Cursor'' PString JNull)\<lparr>prop_display_options := Some \<lparr>show_when =
           [(''operation'', [JStr ''list_edge''])], hide_when = []\<rparr>\<rparr>,
       (mk_property ''before'' ''Before Cursor'' PString JNull)\<lparr>prop_display_options := Some \<lparr>show_when =
           [(''operation'', [JStr ''list_edge''])], hide_when = []\<rparr>\<rparr>],
     documentation_url := Some ''https://developers.facebook.com/docs/graph-api''\<rparr>"

definition freshdesk_spec :: node_spec where
  "freshdesk_spec =
   (mk_spec ''weftlyflow.freshdesk'' 1 ''Freshdesk''
     ''Create and manage Freshdesk tickets and contacts.'' ''icons/freshdesk.svg'' CatIntegration)\<lparr>spec_group
         := [''support'', ''helpdesk''],
     spec_credentials := [\<lparr>slot_name = ''freshdesk_api'', slot_credential_types =
         [''weftlyflow.freshdesk_api''], slot_required = True, slot_display_options = None\<rparr>],
     spec_properties :=
      [(mk_property ''operation'' ''Operation'' POptions (JStr ''list_tickets''))\<lparr>prop_required := True,
          prop_options := Some [mk_option ''list_tickets'' ''List Tickets'', mk_option ''get_ticket''
          ''Get Ticket'', mk_option ''create_ticket'' ''Create Ticket'', mk_option ''update_ticket''
          ''Update Ticket'', mk_option ''list_contacts'' ''List Contacts'', mk_option ''create_contact''
          ''Create Contact'']\<rparr>,
       (mk_property ''ticket_id'' ''Ticket ID'' PString JNull)\<lparr>prop_display_options := Some \<lparr>show_when =
           [(''operation'', [JStr ''get_ticket'', JStr ''update_ticket''])], hide_when = []\<rparr>\<rparr>,
       (mk_property ''subject'' ''Subject'' PString JNull)\<lparr>prop_display_options := Some \<lparr>show_when =
           [(''operation'', [JStr ''create_ticket''])], hide_when = []\<rparr>\<rparr>,
       (mk_property ''description'' ''Description'' PString JNull)\<lparr>prop_display_options := Some \<lparr>show_when =
           [(''operation'', [JStr ''create_ticket''])], hide_when = []\<rparr>\<rparr>,
       (mk_property ''email'' ''Email'' PString JNull)\<lparr>prop_display_options := Some \<lparr>show_when =
           [(''operation'', [JStr ''create_ticket'', JStr ''create_contact'', JStr ''list_contacts''])],
           hide_when = []\<rparr>\<rparr>,
       (mk_property ''priority'' ''Priority'' POptions (JStr ''medium''))\<lparr>prop_options := Some [mk_option
           ''low'' ''Low'', mk_option ''medium'' ''Medium'', mk_option ''high'' ''High'', mk_option ''urgent''
           ''Urgent''], prop_display_options := Some \<lparr>show_when = [(''operation'', [JStr ''create_ticket''])],
           hide_when = []\<rparr>\<rparr>,
       (mk_property ''status'' ''Status'' POptions (JStr ''open''))\<lparr>prop_options := Some [mk_option ''open''
           ''Open'', mk_option ''pending'' ''Pending'', mk_option ''resolved'' ''Resolved'', mk_option
           ''closed'' ''Closed''], prop_display_options := Some \<lparr>show_when = [(''operation'', [JStr
           ''create_ticket''])], hide_when = []\<rparr>\<rparr>,
       (mk_property ''source'' ''Source'' POptions JNull)\<lparr>prop_options := Some [mk_option ''email'' ''Email'',
           mk_option ''portal'' ''Portal'', mk_option ''phone'' ''Phone'', mk_option ''chat'' ''Chat'',
           mk_option ''feedback_widget'' ''Feedback Widget''], prop_display_options := Some \<lparr>show_when =
           [(''operation'', [JStr ''create_ticket''])], hide_when = []\<rparr>\<rparr>,
       (mk_property ''type'' ''Type'' PString JNull)\<lparr>prop_description := Some ''Freshdesk ticket type label.'',
           prop_display_options := Some \<lparr>show_when = [(''operation'', [JStr ''create_ticket''])], hide_when =
           []\<rparr>\<rparr>,
       (mk_property ''tags'' ''Tags'' PString JNull)\<lparr>prop_description := Some ''Comma-separated tag list.'',
           prop_display_options := Some \<lparr>show_when = [(''operation'', [JStr ''create_ticket''])], hide_when =
           []\<rparr>\<rparr>,
       (mk_property ''fields'' ''Fields'' PJson JNull)\<lparr>prop_description := Some
           ''JSON patch body for update_ticket.'', prop_display_options := Some \<lparr>show_when = [(''operation'',
           [JStr ''update_ticket''])], hide_when = []\<rparr>\<rparr>,
       (mk_property ''name'' ''Name'' PString JNull)\<lparr>prop_display_options := Some \<lparr>show_when = [(''operation'',
           [JStr ''create_contact''])], hide_when = []\<rparr>\<rparr>,
       (mk_property ''phone'' ''Phone'' PString JNull)\<lparr>prop_display_options := Some \<lparr>show_when =
           [(''operation'', [JStr ''create_contact''])], hide_when = []\<rparr>\<rparr>,
       (mk_property ''mobile'' ''Mobile'' PString JNull)\<lparr>prop_display_options := Some \<lparr>show_when =
           [(''operation'', [JStr ''create_contact''])], hide_when = []\<rparr>\<rparr>,
       (mk_property ''company_id'' ''Company ID'' PNumber JNull)\<lparr>prop_display_options := Some \<lparr>show_when =
           [(''operation'', [JStr ''create_contact''])], hide_when = []\<rparr>\<rparr>,
       (mk_property ''per_page'' ''Per Page'' PNumber JNull)\<lparr>prop_display_options := Some \<lparr>show_when =
           [(''operation'', [JStr ''list_tickets'', JStr ''list_contacts''])], hide_when = []\<rparr>\<rparr>,
       (mk_property ''page'' ''Page'' PNumber JNull)\<lparr>prop_display_options := Some \<lparr>show_when = [(''operation'',
           [JStr ''list_tickets'', JStr ''list_contacts''])], hide_when = []\<rparr>\<rparr>,
       (mk_property ''updated_since'' ''Updated Since'' PString JNull)\<lparr>prop_description := Some
           ''ISO-8601 timestamp to filter list_tickets.'', prop_display_options := Some \<lparr>show_when =
           [(''operation'', [JStr ''list_tickets''])], hide_when = []\<rparr>\<rparr>],
     documentation_url := Some ''https://developers.freshdesk.com/api/''\<rparr>"

definition ga4_spec :: node_spec where
  "ga4_spec =
   (mk_spec ''weftlyflow.ga4'' 1 ''Google Analytics 4''
     ''Send server-side events and user properties via the GA4 Measurement Protocol.'' ''icons/ga4.svg''
         CatIntegration)\<lparr>spec_group := [''analytics''],
     spec_credentials := [\<lparr>slot_name = ''ga4_measurement'', slot_credential_types =
         [''weftlyflow.ga4_measurement''], slot_required = True, slot_display_options = None\<rparr>],
     spec_properties :=
      [(mk_property ''operation'' ''Operation'' POptions (JStr ''track_event''))\<lparr>prop_required := True,
          prop_options := Some [mk_option ''track_event'' ''Track Event'', mk_option ''track_events''
          ''Track Events (Batch)'', mk_option ''validate_event'' ''Validate Event'', mk_option
          ''user_properties'' ''Set User Properties'']\<rparr>,
       (mk_property ''client_id'' ''Client ID'' PString JNull)\<lparr>prop_required := True, prop_description := Some
           ''Stable per-device/user identifier (required by GA4).''\<rparr>,
       (mk_property ''user_id'' ''User ID'' PString JNull)\<lparr>prop_description := Some
           ''Optional signed-in user ID.''\<rparr>,
       (mk_property ''event_name'' ''Event Name'' PString JNull)\<lparr>prop_display_options := Some \<lparr>show_when =
           [(''operation'', [JStr ''track_event'', JStr ''validate_event''])], hide_when = []\<rparr>\<rparr>,
       (mk_property ''event_params'' ''Event Params'' PJson JNull)\<lparr>prop_display_options := Some \<lparr>show_when =
           [(''operation'', [JStr ''track_event'', JStr ''validate_event''])], hide_when = []\<rparr>\<rparr>,
       (mk_property ''events'' ''Events'' PJson JNull)\<lparr>prop_description := Some
           (''List of event dicts, e.g. [{'' @ [CHR 0x22] @ ''name'' @ [CHR 0x22] @ '': '' @ [CHR 0x22] @
           ''sign_up'' @ [CHR 0x22] @ '', '' @ [CHR 0x22] @ ''params'' @ [CHR 0x22] @ '': {...}}].''),
           prop_display_options := Some \<lparr>show_when = [(''operation'', [JStr ''track_events''])], hide_when =
           []\<rparr>\<rparr>,
       (mk_property ''user_properties'' ''User Properties'' PJson JNull)\<lparr>prop_description := Some
           ''Dict of user properties (values wrapped as {value: ...}).'', prop_display_options := Some
           \<lparr>show_when = [(''operation'', [JStr ''user_properties''])], hide_when = []\<rparr>\<rparr>,
       (mk_property ''timestamp_micros'' ''Timestamp (micros)'' PNumber JNull)\<lparr>prop_description := Some
           ''Optional event timestamp override in microseconds.''\<rparr>,
       (mk_property ''non_personalized_ads'' ''Non-Personalized Ads'' PBoolean JNull)\<lparr>prop_description := Some
           ''Set to true to opt the event out of personalized advertising.''\<rparr>],
     documentation_url := Some ''https://developers.google.com/analytics/devguides/collection/protocol/ga4/''\<rparr>"

definition gcs_spec :: node_spec where
  "gcs_spec =
   (mk_spec ''weftlyflow.gcs'' 1 ''Google Cloud Storage''
     ''Buckets and objects on Google Cloud Storage.'' ''icons/gcs.svg'' CatIntegration)\<lparr>spec_group :=
         [''storage''],
     spec_credentials := [\<lparr>slot_name = ''gcp_service_account'', slot_credential_types =
         [''weftlyflow.gcp_service_account''], slot_required = True, slot_display_options = None\<rparr>],
     spec_properties :=
      [(mk_property ''operation'' ''Operation'' POptions (JStr ''list_objects''))\<lparr>prop_required := True,
          prop_options := Some [mk_option ''list_buckets'' ''List Buckets'', mk_option ''list_objects''
          ''List Objects'', mk_option ''get_object'' ''Get Object Metadata'', mk_option ''delete_object''
          ''Delete Object'']\<rparr>,
       (mk_property ''project'' ''Project ID'' PString JNull)\<lparr>prop_display_options := Some \<lparr>show_when =
           [(''operation'', [JStr ''list_buckets''])], hide_when = []\<rparr>\<rparr>,
       (mk_property ''bucket'' ''Bucket'' PString JNull)\<lparr>prop_display_options := Some \<lparr>show_when =
           [(''operation'', [JStr ''list_objects'', JStr ''get_object'', JStr ''delete_object''])], hide_when =
           []\<rparr>\<rparr>,
       (mk_property ''object_name'' ''Object Name'' PString JNull)\<lparr>prop_display_options := Some \<lparr>show_when =
           [(''operation'', [JStr ''get_object'', JStr ''delete_object''])], hide_when = []\<rparr>\<rparr>,
       (mk_property ''prefix'' ''Prefix'' PString JNull)\<lparr>prop_display_options := Some \<lparr>show_when =
           [(''operation'', [JStr ''list_buckets'', JStr ''list_objects''])], hide_when = []\<rparr>\<rparr>,
       (mk_property ''delimiter'' ''Delimiter'' PString JNull)\<lparr>prop_display_options := Some \<lparr>show_when =
           [(''operation'', [JStr ''list_objects''])], hide_when = []\<rparr>\<rparr>,
       (mk_property ''page_token'' ''Page Token'' PString JNull)\<lparr>prop_display_options := Some \<lparr>show_when =
           [(''operation'', [JStr ''list_buckets'', JStr ''list_objects''])], hide_when = []\<rparr>\<rparr>,
       (mk_property ''alt'' ''Alt'' PString JNull)\<lparr>prop_description := Some (''Set to '' @ [CHR 0x22] @
           ''media'' @ [CHR 0x22] @ '' to return raw object bytes.''), prop_display_options := Some \<lparr>show_when
           = [(''operation'', [JStr ''get_object''])], hide_when = []\<rparr>\<rparr>],
     documentation_url := Some ''https://cloud.google.com/storage/docs/json_api''\<rparr>"

definition ghost_spec :: node_spec where
  "ghost_spec =
   (mk_spec ''weftlyflow.ghost'' 1 ''Ghost''
     ''Manage posts and members on a Ghost blog via the Admin API.'' ''icons/ghost.svg''
         CatIntegration)\<lparr>spec_group := [''cms'', ''publishing''],
     spec_credentials := [\<lparr>slot_name = ''ghost_admin'', slot_credential_types = [''weftlyflow.ghost_admin''],
         slot_required = True, slot_display_options = None\<rparr>],
     spec_properties :=
      [(mk_property ''operation'' ''Operation'' POptions (JStr ''list_posts''))\<lparr>prop_required := True,
          prop_options := Some [mk_option ''list_posts'' ''List Posts'', mk_option ''get_post'' ''Get Post'',
          mk_option ''create_post'' ''Create Post'', mk_option ''update_post'' ''Update Post'', mk_option
          ''delete_post'' ''Delete Post'', mk_option ''list_members'' ''List Members'', mk_option
          ''create_member'' ''Create Member'']\<rparr>,
       (mk_property ''post_id'' ''Post ID'' PString JNull)\<lparr>prop_display_options := Some \<lparr>show_when =
           [(''operation'', [JStr ''delete_post'', JStr ''get_post'', JStr ''update_post''])], hide_when = []\<rparr>\<rparr>,
       (mk_property ''title'' ''Title'' PString JNull)\<lparr>prop_display_options := Some \<lparr>show_when =
           [(''operation'', [JStr ''create_post''])], hide_when = []\<rparr>\<rparr>,
       (mk_property ''html'' ''HTML Content'' PString JNull)\<lparr>prop_display_options := Some \<lparr>show_when =
           [(''operation'', [JStr ''create_post'', JStr ''update_post''])], hide_when = []\<rparr>\<rparr>,
       (mk_property ''lexical'' ''Lexical JSON'' PJson JNull)\<lparr>prop_display_options := Some \<lparr>show_when =
           [(''operation'', [JStr ''create_post'', JStr ''update_post''])], hide_when = []\<rparr>\<rparr>,
       (mk_property ''status'' ''Status'' POptions JNull)\<lparr>prop_options := Some [mk_option ''draft'' ''Draft'',
           mk_option ''published'' ''Published'', mk_option ''scheduled'' ''Scheduled''], prop_display_options
           := Some \<lparr>show_when = [(''operation'', [JStr ''create_post'', JStr ''update_post''])], hide_when =
           []\<rparr>\<rparr>,
       (mk_property ''tags'' ''Tags'' PJson JNull)\<lparr>prop_description := Some
           ''Array of tag names or full tag objects.'', prop_display_options := Some \<lparr>show_when =
           [(''operation'', [JStr ''create_post'', JStr ''update_post''])], hide_when = []\<rparr>\<rparr>,
       (mk_property ''updated_at'' ''Updated At (required)'' PString JNull)\<lparr>prop_description := Some
           ''Current 'updated_at' of the post (optimistic concurrency).'', prop_display_options := Some
           \<lparr>show_when = [(''operation'', [JStr ''update_post''])], hide_when = []\<rparr>\<rparr>,
       (mk_property ''email'' ''Email'' PString JNull)\<lparr>prop_display_options := Some \<lparr>show_when =
           [(''operation'', [JStr ''create_member''])], hide_when = []\<rparr>\<rparr>,
       (mk_property ''name'' ''Name'' PString JNull)\<lparr>prop_display_options := Some \<lparr>show_when = [(''operation'',
           [JStr ''create_member''])], hide_when = []\<rparr>\<rparr>,
       (mk_property ''labels'' ''Labels'' PJson JNull)\<lparr>prop_description := Some ''Array of label strings.'',
           prop_display_options := Some \<lparr>show_when = [(''operation'', [JStr ''create_member''])], hide_when =
           []\<rparr>\<rparr>,
       (mk_property ''limit'' ''Limit'' PNumber JNull)\<lparr>prop_display_options := Some \<lparr>show_when =
           [(''operation'', [JStr ''list_members'', JStr ''list_posts''])], hide_when = []\<rparr>\<rparr>,
       (mk_property ''page'' ''Page'' PNumber JNull)\<lparr>prop_display_options := Some \<lparr>show_when = [(''operation'',
           [JStr ''list_members'', JStr ''list_posts''])], hide_when = []\<rparr>\<rparr>,
       (mk_property ''filter'' ''Filter (NQL)'' PString JNull)\<lparr>prop_display_options := Some \<lparr>show_when =
           [(''operation'', [JStr ''list_members'', JStr ''list_posts''])], hide_when = []\<rparr>\<rparr>],
     documentation_url := Some ''https://ghost.org/docs/admin-api/''\<rparr>"

definition github_spec :: node_spec where
  "github_spec =
   (mk_spec ''weftlyflow.github'' 1 ''GitHub''
     ''Create and list issues, fetch repo metadata, post comments.'' ''icons/github.svg''
         CatIntegration)\<lparr>spec_group := [''developer'', ''productivity''],
     spec_credentials := [\<lparr>slot_name = ''github_api'', slot_credential_types = [''weftlyflow.bearer_token''],
         slot_required = True, slot_display_options = None\<rparr>],
     spec_properties :=
      [(mk_property ''operation'' ''Operation'' POptions (JStr ''create_issue''))\<lparr>prop_required := True,
          prop_options := Some [mk_option ''create_issue'' ''Create Issue'', mk_option ''list_issues''
          ''List Issues'', mk_option ''get_repo'' ''Get Repository'', mk_option ''create_comment''
          ''Create Comment'']\<rparr>,
       (mk_property ''owner'' ''Owner'' PString JNull)\<lparr>prop_required := True, prop_description := Some
           ''User or organisation that owns the repo.''\<rparr>,
       (mk_property ''repo'' ''Repository'' PString JNull)\<lparr>prop_required := True, prop_description := Some
           ''Repository name (no owner prefix).''\<rparr>,
       (mk_property ''title'' ''Title'' PString JNull)\<lparr>prop_display_options := Some \<lparr>show_when =
           [(''operation'', [JStr ''create_issue''])], hide_when = []\<rparr>\<rparr>,
       (mk_property ''body'' ''Body'' PString JNull)\<lparr>prop_description := Some
           ''Issue body (create_issue) or comment text (create_comment).'', prop_display_options := Some
           \<lparr>show_when = [(''operation'', [JStr ''create_comment'', JStr ''create_issue''])], hide_when = []\<rparr>\<rparr>,
       (mk_property ''labels'' ''Labels'' PString JNull)\<lparr>prop_description := Some ''Comma-separated labels.'',
           prop_display_options := Some \<lparr>show_when = [(''operation'', [JStr ''create_issue'', JStr
           ''list_issues''])], hide_when = []\<rparr>\<rparr>,
       (mk_property ''assignees'' ''Assignees'' PString JNull)\<lparr>prop_description := Some
           ''Comma-separated usernames.'', prop_display_options := Some \<lparr>show_when = [(''operation'', [JStr
           ''create_issue''])], hide_when = []\<rparr>\<rparr>,
       (mk_property ''issue_number'' ''Issue Number'' PNumber JNull)\<lparr>prop_display_options := Some \<lparr>show_when =
           [(''operation'', [JStr ''create_comment''])], hide_when = []\<rparr>\<rparr>,
       (mk_property ''state'' ''State'' POptions (JStr ''open''))\<lparr>prop_options := Some [mk_option ''open''
           ''Open'', mk_option ''closed'' ''Closed'', mk_option ''all'' ''All''], prop_display_options := Some
           \<lparr>show_when = [(''operation'', [JStr ''list_issues''])], hide_when = []\<rparr>\<rparr>,
       (mk_property ''per_page'' ''Per Page'' PNumber (JInt 30))\<lparr>prop_display_options := Some \<lparr>show_when =
           [(''operation'', [JStr ''list_issues''])], hide_when = []\<rparr>\<rparr>,
       (mk_property ''page'' ''Page'' PNumber JNull)\<lparr>prop_display_options := Some \<lparr>show_when = [(''operation'',
           [JStr ''list_issues''])], hide_when = []\<rparr>\<rparr>],
     documentation_url := Some ''https://docs.github.com/en/rest''\<rparr>"

definition gitlab_spec :: node_spec where
  "gitlab_spec =
   (mk_spec ''weftlyflow.gitlab'' 1 ''GitLab''
     ''Manage GitLab issues, comments, and merge requests.'' ''icons/gitlab.svg'' CatIntegration)\<lparr>spec_group :=
         [''productivity'', ''devops''],
     spec_credentials := [\<lparr>slot_name = ''gitlab_api'', slot_credential_types = [''weftlyflow.gitlab_token''],
         slot_required = True, slot_display_options = None\<rparr>],
     spec_properties :=
      [(mk_property ''operation'' ''Operation'' POptions (JStr ''get_issue''))\<lparr>prop_required := True,
          prop_options := Some [mk_option ''get_issue'' ''Get Issue'', mk_option ''create_issue''
          ''Create Issue'', mk_option ''update_issue'' ''Update Issue'', mk_option ''list_issues''
          ''List Issues'', mk_option ''add_comment'' ''Add Comment'', mk_option ''list_merge_requests''
          ''List Merge Requests'']\<rparr>,
       (mk_property ''project_id'' ''Project ID or Path'' PString JNull)\<lparr>prop_required := True,
           prop_placeholder := Some ''group/subgroup/repo''\<rparr>,
       (mk_property ''issue_iid'' ''Issue IID'' PNumber JNull)\<lparr>prop_display_options := Some \<lparr>show_when =
           [(''operation'', [JStr ''add_comment'', JStr ''get_issue'', JStr ''update_issue''])], hide_when =
           []\<rparr>\<rparr>,
       (mk_property ''title'' ''Title'' PString JNull)\<lparr>prop_display_options := Some \<lparr>show_when =
           [(''operation'', [JStr ''create_issue''])], hide_when = []\<rparr>\<rparr>,
       (mk_property ''description'' ''Description'' PString JNull)\<lparr>prop_display_options := Some \<lparr>show_when =
           [(''operation'', [JStr ''create_issue''])], hide_when = []\<rparr>\<rparr>,
       (mk_property ''labels'' ''Labels'' PString JNull)\<lparr>prop_description := Some ''Comma-separated labels.'',
           prop_display_options := Some \<lparr>show_when = [(''operation'', [JStr ''create_issue'', JStr
           ''list_issues''])], hide_when = []\<rparr>\<rparr>,
       (mk_property ''assignee_ids'' ''Assignee IDs'' PJson JNull)\<lparr>prop_description := Some
           ''List of numeric user ids.'', prop_display_options := Some \<lparr>show_when = [(''operation'', [JStr
           ''create_issue''])], hide_when = []\<rparr>\<rparr>,
       (mk_property ''fields'' ''Fields'' PJson JNull)\<lparr>prop_display_options := Some \<lparr>show_when =
           [(''operation'', [JStr ''update_issue''])], hide_when = []\<rparr>\<rparr>,
       (mk_property ''body'' ''Comment Body'' PString JNull)\<lparr>prop_display_options := Some \<lparr>show_when =
           [(''operation'', [JStr ''add_comment''])], hide_when = []\<rparr>\<rparr>,
       (mk_property ''state'' ''State'' PString JNull)\<lparr>prop_description := Some ([CHR 0x27] @
           ''opened', 'closed', 'merged' (MRs), or 'all'.''), prop_display_options := Some \<lparr>show_when =
           [(''operation'', [JStr ''list_issues'', JStr ''list_merge_requests''])], hide_when = []\<rparr>\<rparr>,
       (mk_property ''search'' ''Search'' PString JNull)\<lparr>prop_display_options := Some \<lparr>show_when =
           [(''operation'', [JStr ''list_issues''])], hide_when = []\<rparr>\<rparr>,
       (mk_property ''target_branch'' ''Target Branch'' PString JNull)\<lparr>prop_display_options := Some \<lparr>show_when
           = [(''operation'', [JStr ''list_merge_requests''])], hide_when = []\<rparr>\<rparr>,
       (mk_property ''per_page'' ''Per Page'' PNumber (JInt 20))\<lparr>prop_display_options := Some \<lparr>show_when =
           [(''operation'', [JStr ''list_issues'', JStr ''list_merge_requests''])], hide_when = []\<rparr>\<rparr>],
     documentation_url := Some ''https://docs.gitlab.com/ee/api/rest/''\<rparr>"

definition gmail_spec :: node_spec where
  "gmail_spec =
   (mk_spec ''weftlyflow.gmail'' 1 ''Gmail''
     ''Send, list, read, trash, and label messages via the Gmail API.'' ''icons/gmail.svg''
         CatIntegration)\<lparr>spec_group := [''communication'', ''email''],
     spec_credentials := [\<lparr>slot_name = ''gmail_oauth2'', slot_credential_types = [''weftlyflow.gmail_oauth2''],
         slot_required = True, slot_display_options = None\<rparr>],
     spec_properties :=
      [(mk_property ''operation'' ''Operation'' POptions (JStr ''send_message''))\<lparr>prop_required := True,
          prop_options := Some [mk_option ''send_message'' ''Send Message'', mk_option ''list_messages''
          ''List Messages'', mk_option ''get_message'' ''Get Message'', mk_option ''trash_message''
          ''Trash Message'', mk_option ''add_label'' ''Modify Labels'']\<rparr>,
       (mk_property ''to'' ''To'' PString JNull)\<lparr>prop_display_options := Some \<lparr>show_when = [(''operation'',
           [JStr ''send_message''])], hide_when = []\<rparr>\<rparr>,
       (mk_property ''subject'' ''Subject'' PString JNull)\<lparr>prop_display_options := Some \<lparr>show_when =
           [(''operation'', [JStr ''send_message''])], hide_when = []\<rparr>\<rparr>,
       (mk_property ''body'' ''Body (plain text)'' PString JNull)\<lparr>prop_display_options := Some \<lparr>show_when =
           [(''operation'', [JStr ''send_message''])], hide_when = []\<rparr>\<rparr>,
       (mk_property ''cc'' ''Cc'' PString JNull)\<lparr>prop_display_options := Some \<lparr>show_when = [(''operation'',
           [JStr ''send_message''])], hide_when = []\<rparr>\<rparr>,
       (mk_property ''bcc'' ''Bcc'' PString JNull)\<lparr>prop_display_options := Some \<lparr>show_when = [(''operation'',
           [JStr ''send_message''])], hide_when = []\<rparr>\<rparr>,
       (mk_property ''from'' ''From (alias)'' PString JNull)\<lparr>prop_display_options := Some \<lparr>show_when =
           [(''operation'', [JStr ''send_message''])], hide_when = []\<rparr>\<rparr>,
       (mk_property ''raw'' ''Raw base64url MIME'' PString JNull)\<lparr>prop_description := Some
           ''If set, bypasses the composer and sends this verbatim.'', prop_display_options := Some \<lparr>show_when
           = [(''operation'', [JStr ''send_message''])], hide_when = []\<rparr>\<rparr>,
       (mk_property ''thread_id'' ''Thread ID'' PString JNull)\<lparr>prop_display_options := Some \<lparr>show_when =
           [(''operation'', [JStr ''send_message''])], hide_when = []\<rparr>\<rparr>,
       (mk_property ''message_id'' ''Message ID'' PString JNull)\<lparr>prop_display_options := Some \<lparr>show_when =
           [(''operation'', [JStr ''add_label'', JStr ''get_message'', JStr ''trash_message''])], hide_when =
           []\<rparr>\<rparr>,
       (mk_property ''q'' ''Search Query (Gmail syntax)'' PString JNull)\<lparr>prop_display_options := Some
           \<lparr>show_when = [(''operation'', [JStr ''list_messages''])], hide_when = []\<rparr>\<rparr>,
       (mk_property ''labelIds'' ''Label IDs Filter'' PJson JNull)\<lparr>prop_description := Some
           ''Array of label IDs to filter by.'', prop_display_options := Some \<lparr>show_when = [(''operation'',
           [JStr ''list_messages''])], hide_when = []\<rparr>\<rparr>,
       (mk_property ''maxResults'' ''Max Results'' PNumber JNull)\<lparr>prop_display_options := Some \<lparr>show_when =
           [(''operation'', [JStr ''list_messages''])], hide_when = []\<rparr>\<rparr>,
       (mk_property ''pageToken'' ''Page Token'' PString JNull)\<lparr>prop_display_options := Some \<lparr>show_when =
           [(''operation'', [JStr ''list_messages''])], hide_when = []\<rparr>\<rparr>,
       (mk_property ''includeSpamTrash'' ''Include Spam/Trash'' PBoolean (JBool False))\<lparr>prop_display_options :=
           Some \<lparr>show_when = [(''operation'', [JStr ''list_messages''])], hide_when = []\<rparr>\<rparr>,
       (mk_property ''format'' ''Message Format'' POptions JNull)\<lparr>prop_options := Some [mk_option ''full''
           ''Full'', mk_option ''metadata'' ''Metadata'', mk_option ''minimal'' ''Minimal'', mk_option ''raw''
           ''Raw''], prop_display_options := Some \<lparr>show_when = [(''operation'', [JStr ''get_message''])],
           hide_when = []\<rparr>\<rparr>,
       (mk_property ''add_label_ids'' ''Add Label IDs'' PJson JNull)\<lparr>prop_description := Some
           ''Array of label IDs to attach.'', prop_display_options := Some \<lparr>show_when = [(''operation'', [JStr
           ''add_label''])], hide_when = []\<rparr>\<rparr>,
       (mk_property ''remove_label_ids'' ''Remove Label IDs'' PJson JNull)\<lparr>prop_description := Some
           ''Array of label IDs to detach.'', prop_display_options := Some \<lparr>show_when = [(''operation'', [JStr
           ''add_label''])], hide_when = []\<rparr>\<rparr>],
     documentation_url := Some ''https://developers.google.com/gmail/api/reference/rest''\<rparr>"

definition google_drive_spec :: node_spec where
  "google_drive_spec =
   (mk_spec ''weftlyflow.google_drive'' 1 ''Google Drive''
     ''Manage files and folders on Google Drive via the v3 API.'' ''icons/google_drive.svg''
         CatIntegration)\<lparr>spec_group := [''productivity'', ''storage''],
     spec_credentials := [\<lparr>slot_name = ''google_drive_oauth2'', slot_credential_types =
         [''weftlyflow.google_drive_oauth2''], slot_required = True, slot_display_options = None\<rparr>],
     spec_properties :=
      [(mk_property ''operation'' ''Operation'' POptions (JStr ''list_files''))\<lparr>prop_required := True,
          prop_options := Some [mk_option ''list_files'' ''List Files'', mk_option ''get_file'' ''Get File'',
          mk_option ''create_folder'' ''Create Folder'', mk_option ''upload_file'' ''Upload File'', mk_option
          ''download_file'' ''Download File'', mk_option ''delete_file'' ''Delete File'']\<rparr>,
       (mk_property ''file_id'' ''File ID'' PString JNull)\<lparr>prop_display_options := Some \<lparr>show_when =
           [(''operation'', [JStr ''delete_file'', JStr ''download_file'', JStr ''get_file''])], hide_when =
           []\<rparr>\<rparr>,
       (mk_property ''name'' ''Name'' PString JNull)\<lparr>prop_display_options := Some \<lparr>show_when = [(''operation'',
           [JStr ''create_folder'', JStr ''upload_file''])], hide_when = []\<rparr>\<rparr>,
       (mk_property ''mime_type'' ''MIME Type'' PString JNull)\<lparr>prop_display_options := Some \<lparr>show_when =
           [(''operation'', [JStr ''upload_file''])], hide_when = []\<rparr>\<rparr>,
       (mk_property ''parents'' ''Parent Folder IDs'' PJson JNull)\<lparr>prop_description := Some
           ''Array of parent folder IDs.'', prop_display_options := Some \<lparr>show_when = [(''operation'', [JStr
           ''create_folder'', JStr ''upload_file''])], hide_when = []\<rparr>\<rparr>,
       (mk_property ''content_base64'' ''Content (base64)'' PString JNull)\<lparr>prop_description := Some
           ''File bytes base64-encoded.'', prop_display_options := Some \<lparr>show_when = [(''operation'', [JStr
           ''upload_file''])], hide_when = []\<rparr>\<rparr>,
       (mk_property ''q'' ''Query (Drive syntax)'' PString JNull)\<lparr>prop_display_options := Some \<lparr>show_when =
           [(''operation'', [JStr ''list_files''])], hide_when = []\<rparr>\<rparr>,
       (mk_property ''pageSize'' ''Page Size'' PNumber JNull)\<lparr>prop_display_options := Some \<lparr>show_when =
           [(''operation'', [JStr ''list_files''])], hide_when = []\<rparr>\<rparr>,
       (mk_property ''pageToken'' ''Page Token'' PString JNull)\<lparr>prop_display_options := Some \<lparr>show_when =
           [(''operation'', [JStr ''list_files''])], hide_when = []\<rparr>\<rparr>,
       (mk_property ''orderBy'' ''Order By'' PString JNull)\<lparr>prop_display_options := Some \<lparr>show_when =
           [(''operation'', [JStr ''list_files''])], hide_when = []\<rparr>\<rparr>,
       (mk_property ''fields'' ''Fields Projection'' PString JNull)\<lparr>prop_display_options := Some \<lparr>show_when =
           [(''operation'', [JStr ''list_files'', JStr ''get_file''])], hide_when = []\<rparr>\<rparr>],
     documentation_url := Some ''https://developers.google.com/drive/api/reference/rest/v3''\<rparr>"

definition google_genai_spec :: node_spec where
  "google_genai_spec =
   (mk_spec ''weftlyflow.google_genai'' 1 ''Google GenAI''
     ''Call the Google Generative Language (Gemini) API.'' ''icons/google-genai.svg''
         CatIntegration)\<lparr>spec_group := [''ai'', ''llm''],
     spec_credentials := [\<lparr>slot_name = ''google_genai_api'', slot_credential_types =
         [''weftlyflow.google_genai_api''], slot_required = True, slot_display_options = None\<rparr>],
     spec_properties :=
      [(mk_property ''operation'' ''Operation'' POptions (JStr ''generate_content''))\<lparr>prop_required := True,
          prop_options := Some [mk_option ''generate_content'' ''Generate Content'', mk_option ''count_tokens''
          ''Count Tokens'', mk_option ''list_models'' ''List Models'', mk_option ''get_model'' ''Get Model'']\<rparr>,
       (mk_property ''model'' ''Model'' PString (JStr ''gemini-1.5-flash''))\<lparr>prop_display_options := Some
           \<lparr>show_when = [(''operation'', [JStr ''count_tokens'', JStr ''generate_content''])], hide_when = []\<rparr>\<rparr>,
       (mk_property ''contents'' ''Contents'' PJson JNull)\<lparr>prop_description := Some (''[{'' @ [CHR 0x22] @
           ''role'' @ [CHR 0x22] @ '': '' @ [CHR 0x22] @ ''user'' @ [CHR 0x22] @ '', '' @ [CHR 0x22] @
           ''parts'' @ [CHR 0x22] @ '': [{'' @ [CHR 0x22] @ ''text'' @ [CHR 0x22] @ '': '' @ [CHR 0x22] @
           ''Hello'' @ [CHR 0x22] @ ''}]}, ...]''), prop_display_options := Some \<lparr>show_when = [(''operation'',
           [JStr ''count_tokens'', JStr ''generate_content''])], hide_when = []\<rparr>\<rparr>,
       (mk_property ''system'' ''System Instruction'' PString JNull)\<lparr>prop_display_options := Some \<lparr>show_when =
           [(''operation'', [JStr ''generate_content''])], hide_when = []\<rparr>\<rparr>,
       (mk_property ''temperature'' ''Temperature'' PNumber JNull)\<lparr>prop_display_options := Some \<lparr>show_when =
           [(''operation'', [JStr ''generate_content''])], hide_when = []\<rparr>\<rparr>,
       (mk_property ''max_output_tokens'' ''Max Output Tokens'' PNumber JNull)\<lparr>prop_display_options := Some
           \<lparr>show_when = [(''operation'', [JStr ''generate_content''])], hide_when = []\<rparr>\<rparr>,
       (mk_property ''top_p'' ''Top P'' PNumber JNull)\<lparr>prop_display_options := Some \<lparr>show_when =
           [(''operation'', [JStr ''generate_content''])], hide_when = []\<rparr>\<rparr>,
       (mk_property ''top_k'' ''Top K'' PNumber JNull)\<lparr>prop_display_options := Some \<lparr>show_when =
           [(''operation'', [JStr ''generate_content''])], hide_when = []\<rparr>\<rparr>,
       (mk_property ''safety_settings'' ''Safety Settings'' PJson JNull)\<lparr>prop_description := Some
           ''Optional list passed through as 'safetySettings'.'', prop_display_options := Some \<lparr>show_when =
           [(''operation'', [JStr ''generate_content''])], hide_when = []\<rparr>\<rparr>,
       (mk_property ''model_id'' ''Model ID'' PString JNull)\<lparr>prop_display_options := Some \<lparr>show_when =
           [(''operation'', [JStr ''get_model''])], hide_when = []\<rparr>\<rparr>],
     documentation_url := Some ''https://ai.google.dev/api/rest''\<rparr>"

definition google_sheets_spec :: node_spec where
  "google_sheets_spec =
   (mk_spec ''weftlyflow.google_sheets'' 1 ''Google Sheets''
     ''Read ranges, append rows, and update ranges in a Google Sheet.'' ''icons/google-sheets.svg''
         CatIntegration)\<lparr>spec_group := [''productivity'', ''spreadsheet''],
     spec_credentials := [\<lparr>slot_name = ''google_sheets_oauth2'', slot_credential_types =
         [''weftlyflow.google_sheets_oauth2''], slot_required = True, slot_display_options = None\<rparr>],
     spec_properties :=
      [(mk_property ''operation'' ''Operation'' POptions (JStr ''read_range''))\<lparr>prop_required := True,
          prop_options := Some [mk_option ''read_range'' ''Read Range'', mk_option ''append_row''
          ''Append Row'', mk_option ''update_range'' ''Update Range'']\<rparr>,
       (mk_property ''spreadsheet_id'' ''Spreadsheet ID'' PString JNull)\<lparr>prop_required := True\<rparr>,
       (mk_property ''range'' ''Range (A1 Notation)'' PString JNull)\<lparr>prop_required := True, prop_placeholder :=
           Some ''Sheet1!A1:C10''\<rparr>,
       (mk_property ''values'' ''Values'' PJson JNull)\<lparr>prop_description := Some
           ''List of rows (each row is a list of cell values).''\<rparr>,
       (mk_property ''value_input_option'' ''Value Input Option'' POptions (JStr
           ''USER_ENTERED''))\<lparr>prop_options := Some [mk_option ''USER_ENTERED'' ''User Entered'', mk_option
           ''RAW'' ''Raw'']\<rparr>],
     documentation_url := Some ''https://developers.google.com/sheets/api/reference/rest''\<rparr>"

definition harvest_spec :: node_spec where
  "harvest_spec =
   (mk_spec ''weftlyflow.harvest'' 1 ''Harvest''
     ''Read/write time entries, list projects, and fetch user info from Harvest.'' ''icons/harvest.svg''
         CatIntegration)\<lparr>spec_group := [''productivity''],
     spec_credentials := [\<lparr>slot_name = ''harvest_api'', slot_credential_types = [''weftlyflow.harvest_api''],
         slot_required = True, slot_display_options = None\<rparr>],
     spec_properties :=
      [(mk_property ''operation'' ''Operation'' POptions (JStr ''list_time_entries''))\<lparr>prop_required := True,
          prop_options := Some [mk_option ''list_time_entries'' ''List Time Entries'', mk_option
          ''create_time_entry'' ''Create Time Entry'', mk_option ''list_projects'' ''List Projects'', mk_option
          ''get_user_me'' ''Get Authenticated User'']\<rparr>,
       (mk_property ''project_id'' ''Project ID'' PString JNull)\<lparr>prop_display_options := Some \<lparr>show_when =
           [(''operation'', [JStr ''create_time_entry'', JStr ''list_time_entries''])], hide_when = []\<rparr>\<rparr>,
       (mk_property ''task_id'' ''Task ID'' PString JNull)\<lparr>prop_display_options := Some \<lparr>show_when =
           [(''operation'', [JStr ''create_time_entry''])], hide_when = []\<rparr>\<rparr>,
       (mk_property ''spent_date'' ''Spent Date (YYYY-MM-DD)'' PString JNull)\<lparr>prop_display_options := Some
           \<lparr>show_when = [(''operation'', [JStr ''create_time_entry''])], hide_when = []\<rparr>\<rparr>,
       (mk_property ''hours'' ''Hours'' PNumber JNull)\<lparr>prop_display_options := Some \<lparr>show_when =
           [(''operation'', [JStr ''create_time_entry''])], hide_when = []\<rparr>\<rparr>,
       (mk_property ''started_time'' ''Started Time'' PString JNull)\<lparr>prop_display_options := Some \<lparr>show_when =
           [(''operation'', [JStr ''create_time_entry''])], hide_when = []\<rparr>\<rparr>,
       (mk_property ''ended_time'' ''Ended Time'' PString JNull)\<lparr>prop_display_options := Some \<lparr>show_when =
           [(''operation'', [JStr ''create_time_entry''])], hide_when = []\<rparr>\<rparr>,
       (mk_property ''notes'' ''Notes'' PString JNull)\<lparr>prop_display_options := Some \<lparr>show_when =
           [(''operation'', [JStr ''create_time_entry''])], hide_when = []\<rparr>\<rparr>,
       (mk_property ''user_id'' ''User ID'' PString JNull)\<lparr>prop_display_options := Some \<lparr>show_when =
           [(''operation'', [JStr ''create_time_entry'', JStr ''list_time_entries''])], hide_when = []\<rparr>\<rparr>,
       (mk_property ''from'' ''From Date (YYYY-MM-DD)'' PString JNull)\<lparr>prop_display_options := Some \<lparr>show_when
           = [(''operation'', [JStr ''list_time_entries''])], hide_when = []\<rparr>\<rparr>,
       (mk_property ''to'' ''To Date (YYYY-MM-DD)'' PString JNull)\<lparr>prop_display_options := Some \<lparr>show_when =
           [(''operation'', [JStr ''list_time_entries''])], hide_when = []\<rparr>\<rparr>,
       (mk_property ''is_active'' ''Active Only'' PBoolean JNull)\<lparr>prop_display_options := Some \<lparr>show_when =
           [(''operation'', [JStr ''list_projects''])], hide_when = []\<rparr>\<rparr>,
       (mk_property ''client_id'' ''Client ID'' PString JNull)\<lparr>prop_display_options := Some \<lparr>show_when =
           [(''operation'', [JStr ''list_projects''])], hide_when = []\<rparr>\<rparr>,
       (mk_property ''updated_since'' ''Updated Since (ISO-8601)'' PString JNull)\<lparr>prop_display_options := Some
           \<lparr>show_when = [(''operation'', [JStr ''list_projects''])], hide_when = []\<rparr>\<rparr>,
       (mk_property ''page'' ''Page'' PNumber JNull)\<lparr>prop_display_options := Some \<lparr>show_when = [(''operation'',
           [JStr ''list_time_entries'', JStr ''list_projects''])], hide_when = []\<rparr>\<rparr>,
       (mk_property ''per_page'' ''Page Size'' PNumber JNull)\<lparr>prop_display_options := Some \<lparr>show_when =
           [(''operation'', [JStr ''list_time_entries'', JStr ''list_projects''])], hide_when = []\<rparr>\<rparr>],
     documentation_url := Some ''https://help.getharvest.com/api-v2/''\<rparr>"

definition hasura_spec :: node_spec where
  "hasura_spec =
   (mk_spec ''weftlyflow.hasura'' 1 ''Hasura''
     ''Run GraphQL queries, mutations, and introspection on Hasura Engine.'' ''icons/hasura.svg''
         CatIntegration)\<lparr>spec_group := [''database'', ''graphql''],
     spec_credentials := [\<lparr>slot_name = ''hasura_api'', slot_credential_types = [''weftlyflow.hasura_api''],
         slot_required = True, slot_display_options = None\<rparr>],
     spec_properties :=
      [(mk_property ''operation'' ''Operation'' POptions (JStr ''run_query''))\<lparr>prop_required := True,
          prop_options := Some [mk_option ''run_query'' ''Run Query'', mk_option ''run_mutation''
          ''Run Mutation'', mk_option ''introspect'' ''Introspect Schema'']\<rparr>,
       (mk_property ''query'' ''GraphQL Document'' PString JNull)\<lparr>prop_description := Some
           ''Full GraphQL query or mutation text.'', prop_display_options := Some \<lparr>show_when = [(''operation'',
           [JStr ''run_mutation'', JStr ''run_query''])], hide_when = []\<rparr>\<rparr>,
       (mk_property ''variables'' ''Variables'' PJson JNull)\<lparr>prop_description := Some
           ''Variables object bound to the document.'', prop_display_options := Some \<lparr>show_when =
           [(''operation'', [JStr ''run_mutation'', JStr ''run_query''])], hide_when = []\<rparr>\<rparr>,
       (mk_property ''operation_name'' ''Operation Name'' PString JNull)\<lparr>prop_description := Some
           ''Name of the op to run when the document has multiple.'', prop_display_options := Some \<lparr>show_when =
           [(''operation'', [JStr ''run_mutation'', JStr ''run_query''])], hide_when = []\<rparr>\<rparr>,
       (mk_property ''role'' ''Role (override)'' PString JNull)\<lparr>prop_description := Some
           ''Per-call 'X-Hasura-Role' override.''\<rparr>],
     documentation_url := Some ''https://hasura.io/docs/latest/api-reference/graphql-api/overview/''\<rparr>"

definition hubspot_spec :: node_spec where
  "hubspot_spec =
   (mk_spec ''weftlyflow.hubspot'' 1 ''HubSpot''
     ''Create, update, fetch, and search HubSpot CRM contacts.'' ''icons/hubspot.svg''
         CatIntegration)\<lparr>spec_group := [''crm''],
     spec_credentials := [\<lparr>slot_name = ''hubspot_api'', slot_credential_types =
         [''weftlyflow.hubspot_private_app''], slot_required = True, slot_display_options = None\<rparr>],
     spec_properties :=
      [(mk_property ''operation'' ''Operation'' POptions (JStr ''get_contact''))\<lparr>prop_required := True,
          prop_options := Some [mk_option ''create_contact'' ''Create Contact'', mk_option ''update_contact''
          ''Update Contact'', mk_option ''get_contact'' ''Get Contact'', mk_option ''delete_contact''
          ''Delete Contact'', mk_option ''search_contacts'' ''Search Contacts'']\<rparr>,
       (mk_property ''contact_id'' ''Contact ID'' PString JNull)\<lparr>prop_display_options := Some \<lparr>show_when =
           [(''operation'', [JStr ''delete_contact'', JStr ''get_contact'', JStr ''update_contact''])],
           hide_when = []\<rparr>\<rparr>,
       (mk_property ''properties'' ''Properties'' PJson JNull)\<lparr>prop_description := Some
           ''For create/update: object of property name>value. For get/search: list or comma-separated string of property names to fetch.''\<rparr>,
       (mk_property ''query'' ''Query'' PString JNull)\<lparr>prop_description := Some
           ''Free-text search across indexed fields.'', prop_display_options := Some \<lparr>show_when =
           [(''operation'', [JStr ''search_contacts''])], hide_when = []\<rparr>\<rparr>,
       (mk_property ''filter_groups'' ''Filter Groups'' PJson JNull)\<lparr>prop_display_options := Some \<lparr>show_when =
           [(''operation'', [JStr ''search_contacts''])], hide_when = []\<rparr>\<rparr>,
       (mk_property ''sorts'' ''Sorts'' PJson JNull)\<lparr>prop_display_options := Some \<lparr>show_when = [(''operation'',
           [JStr ''search_contacts''])], hide_when = []\<rparr>\<rparr>,
       (mk_property ''limit'' ''Limit'' PNumber (JInt 10))\<lparr>prop_display_options := Some \<lparr>show_when =
           [(''operation'', [JStr ''search_contacts''])], hide_when = []\<rparr>\<rparr>,
       (mk_property ''after'' ''Pagination Cursor'' PString JNull)\<lparr>prop_display_options := Some \<lparr>show_when =
           [(''operation'', [JStr ''search_contacts''])], hide_when = []\<rparr>\<rparr>],
     documentation_url := Some ''https://developers.hubspot.com/docs/api/crm/contacts''\<rparr>"

definition intercom_spec :: node_spec where
  "intercom_spec =
   (mk_spec ''weftlyflow.intercom'' 1 ''Intercom''
     ''Manage Intercom contacts and conversations.'' ''icons/intercom.svg'' CatIntegration)\<lparr>spec_group :=
         [''crm'', ''support''],
     spec_credentials := [\<lparr>slot_name = ''intercom_api'', slot_credential_types = [''weftlyflow.intercom_api''],
         slot_required = True, slot_display_options = None\<rparr>],
     spec_properties :=
      [(mk_property ''operation'' ''Operation'' POptions (JStr ''get_contact''))\<lparr>prop_required := True,
          prop_options := Some [mk_option ''create_contact'' ''Create Contact'', mk_option ''update_contact''
          ''Update Contact'', mk_option ''get_contact'' ''Get Contact'', mk_option ''search_contacts''
          ''Search Contacts'', mk_option ''create_conversation'' ''Create Conversation'', mk_option
          ''reply_conversation'' ''Reply to Conversation'']\<rparr>,
       (mk_property ''contact_id'' ''Contact ID'' PString JNull)\<lparr>prop_display_options := Some \<lparr>show_when =
           [(''operation'', [JStr ''create_conversation'', JStr ''get_contact'', JStr ''update_contact''])],
           hide_when = []\<rparr>\<rparr>,
       (mk_property ''role'' ''Role'' POptions (JStr ''user''))\<lparr>prop_options := Some [mk_option ''user''
           ''User'', mk_option ''lead'' ''Lead''], prop_display_options := Some \<lparr>show_when = [(''operation'',
           [JStr ''create_contact''])], hide_when = []\<rparr>\<rparr>,
       (mk_property ''email'' ''Email'' PString JNull)\<lparr>prop_display_options := Some \<lparr>show_when =
           [(''operation'', [JStr ''create_contact''])], hide_when = []\<rparr>\<rparr>,
       (mk_property ''external_id'' ''External ID'' PString JNull)\<lparr>prop_display_options := Some \<lparr>show_when =
           [(''operation'', [JStr ''create_contact''])], hide_when = []\<rparr>\<rparr>,
       (mk_property ''phone'' ''Phone'' PString JNull)\<lparr>prop_display_options := Some \<lparr>show_when =
           [(''operation'', [JStr ''create_contact''])], hide_when = []\<rparr>\<rparr>,
       (mk_property ''name'' ''Name'' PString JNull)\<lparr>prop_display_options := Some \<lparr>show_when = [(''operation'',
           [JStr ''create_contact''])], hide_when = []\<rparr>\<rparr>,
       (mk_property ''custom_attributes'' ''Custom Attributes'' PJson JNull)\<lparr>prop_display_options := Some
           \<lparr>show_when = [(''operation'', [JStr ''create_contact''])], hide_when = []\<rparr>\<rparr>,
       (mk_property ''fields'' ''Fields'' PJson JNull)\<lparr>prop_display_options := Some \<lparr>show_when =
           [(''operation'', [JStr ''update_contact''])], hide_when = []\<rparr>\<rparr>,
       (mk_property ''query'' ''Query'' PJson JNull)\<lparr>prop_description := Some
           ''Intercom search query object.'', prop_display_options := Some \<lparr>show_when = [(''operation'', [JStr
           ''search_contacts''])], hide_when = []\<rparr>\<rparr>,
       (mk_property ''per_page'' ''Per Page'' PNumber (JInt 25))\<lparr>prop_display_options := Some \<lparr>show_when =
           [(''operation'', [JStr ''search_contacts''])], hide_when = []\<rparr>\<rparr>,
       (mk_property ''contact_type'' ''Contact Type'' POptions (JStr ''user''))\<lparr>prop_options := Some [mk_option
           ''user'' ''User'', mk_option ''lead'' ''Lead''], prop_display_options := Some \<lparr>show_when =
           [(''operation'', [JStr ''create_conversation''])], hide_when = []\<rparr>\<rparr>,
       (mk_property ''conversation_id'' ''Conversation ID'' PString JNull)\<lparr>prop_display_options := Some
           \<lparr>show_when = [(''operation'', [JStr ''reply_conversation''])], hide_when = []\<rparr>\<rparr>,
       (mk_property ''reply_type'' ''Reply Type'' POptions (JStr ''user''))\<lparr>prop_options := Some [mk_option
           ''user'' ''User'', mk_option ''admin'' ''Admin''], prop_display_options := Some \<lparr>show_when =
           [(''operation'', [JStr ''reply_conversation''])], hide_when = []\<rparr>\<rparr>,
       (mk_property ''message_type'' ''Message Type'' POptions (JStr ''comment''))\<lparr>prop_options := Some
           [mk_option ''comment'' ''Comment'', mk_option ''note'' ''Note'', mk_option ''quick_reply''
           ''Quick Reply'', mk_option ''close'' ''Close''], prop_display_options := Some \<lparr>show_when =
           [(''operation'', [JStr ''reply_conversation''])], hide_when = []\<rparr>\<rparr>,
       (mk_property ''admin_id'' ''Admin ID'' PString JNull)\<lparr>prop_display_options := Some \<lparr>show_when =
           [(''operation'', [JStr ''reply_conversation''])], hide_when = []\<rparr>\<rparr>,
       (mk_property ''user_id'' ''User ID'' PString JNull)\<lparr>prop_display_options := Some \<lparr>show_when =
           [(''operation'', [JStr ''reply_conversation''])], hide_when = []\<rparr>\<rparr>,
       (mk_property ''body'' ''Body'' PString JNull)\<lparr>prop_display_options := Some \<lparr>show_when = [(''operation'',
           [JStr ''create_conversation'', JStr ''reply_conversation''])], hide_when = []\<rparr>\<rparr>],
     documentation_url := Some ''https://developers.intercom.com/docs/references/rest-api/''\<rparr>"

definition jira_spec :: node_spec where
  "jira_spec =
   (mk_spec ''weftlyflow.jira'' 1 ''Jira''
     ''Manage Jira Cloud issues, searches, and comments.'' ''icons/jira.svg'' CatIntegration)\<lparr>spec_group :=
         [''productivity'', ''project-management''],
     spec_credentials := [\<lparr>slot_name = ''jira_cloud'', slot_credential_types = [''weftlyflow.jira_cloud''],
         slot_required = True, slot_display_options = None\<rparr>],
     spec_properties :=
      [(mk_property ''operation'' ''Operation'' POptions (JStr ''get_issue''))\<lparr>prop_required := True,
          prop_options := Some [mk_option ''get_issue'' ''Get Issue'', mk_option ''create_issue''
          ''Create Issue'', mk_option ''update_issue'' ''Update Issue'', mk_option ''delete_issue''
          ''Delete Issue'', mk_option ''search_issues'' ''Search Issues (JQL)'', mk_option ''add_comment''
          ''Add Comment'']\<rparr>,
       (mk_property ''issue_key'' ''Issue Key'' PString JNull)\<lparr>prop_display_options := Some \<lparr>show_when =
           [(''operation'', [JStr ''add_comment'', JStr ''delete_issue'', JStr ''get_issue'', JStr
           ''update_issue''])], hide_when = []\<rparr>, prop_placeholder := Some ''PROJ-123''\<rparr>,
       (mk_property ''project_key'' ''Project Key'' PString JNull)\<lparr>prop_display_options := Some \<lparr>show_when =
           [(''operation'', [JStr ''create_issue''])], hide_when = []\<rparr>\<rparr>,
       (mk_property ''summary'' ''Summary'' PString JNull)\<lparr>prop_display_options := Some \<lparr>show_when =
           [(''operation'', [JStr ''create_issue''])], hide_when = []\<rparr>\<rparr>,
       (mk_property ''issue_type'' ''Issue Type'' PString (JStr ''Task''))\<lparr>prop_display_options := Some
           \<lparr>show_when = [(''operation'', [JStr ''create_issue''])], hide_when = []\<rparr>\<rparr>,
       (mk_property ''extra_fields'' ''Extra Fields'' PJson JNull)\<lparr>prop_description := Some
           ''Optional JSON merged into the 'fields' payload.'', prop_display_options := Some \<lparr>show_when =
           [(''operation'', [JStr ''create_issue''])], hide_when = []\<rparr>\<rparr>,
       (mk_property ''fields'' ''Fields'' PJson JNull)\<lparr>prop_description := Some
           ''For update: object of field>value. For get/search: list of field names to fetch.''\<rparr>,
       (mk_property ''expand'' ''Expand'' PString JNull)\<lparr>prop_description := Some
           ''Comma-separated list of fields to expand.'', prop_display_options := Some \<lparr>show_when =
           [(''operation'', [JStr ''get_issue''])], hide_when = []\<rparr>\<rparr>,
       (mk_property ''delete_subtasks'' ''Delete Subtasks'' PBoolean (JBool False))\<lparr>prop_display_options :=
           Some \<lparr>show_when = [(''operation'', [JStr ''delete_issue''])], hide_when = []\<rparr>\<rparr>,
       (mk_property ''jql'' ''JQL'' PString JNull)\<lparr>prop_display_options := Some \<lparr>show_when = [(''operation'',
           [JStr ''search_issues''])], hide_when = []\<rparr>\<rparr>,
       (mk_property ''max_results'' ''Max Results'' PNumber (JInt 50))\<lparr>prop_display_options := Some \<lparr>show_when
           = [(''operation'', [JStr ''search_issues''])], hide_when = []\<rparr>\<rparr>,
       (mk_property ''start_at'' ''Start At'' PNumber (JInt 0))\<lparr>prop_display_options := Some \<lparr>show_when =
           [(''operation'', [JStr ''search_issues''])], hide_when = []\<rparr>\<rparr>,
       (mk_property ''body'' ''Comment Body'' PString JNull)\<lparr>prop_display_options := Some \<lparr>show_when =
           [(''operation'', [JStr ''add_comment''])], hide_when = []\<rparr>\<rparr>],
     documentation_url := Some ''https://developer.atlassian.com/cloud/jira/platform/rest/v3/''\<rparr>"

definition klaviyo_spec :: node_spec where
  "klaviyo_spec =
   (mk_spec ''weftlyflow.klaviyo'' 1 ''Klaviyo''
     ''Create events, manage profiles, and update list membership in Klaviyo.'' ''icons/klaviyo.svg''
         CatIntegration)\<lparr>spec_group := [''marketing''],
     spec_credentials := [\<lparr>slot_name = ''klaviyo_api'', slot_credential_types = [''weftlyflow.klaviyo_api''],
         slot_required = True, slot_display_options = None\<rparr>],
     spec_properties :=
      [(mk_property ''operation'' ''Operation'' POptions (JStr ''create_event''))\<lparr>prop_required := True,
          prop_options := Some [mk_option ''create_event'' ''Create Event'', mk_option ''create_profile''
          ''Create Profile'', mk_option ''get_profile'' ''Get Profile'', mk_option ''add_profile_to_list''
          ''Add Profiles to List'']\<rparr>,
       (mk_property ''metric_name'' ''Metric Name'' PString JNull)\<lparr>prop_display_options := Some \<lparr>show_when =
           [(''operation'', [JStr ''create_event''])], hide_when = []\<rparr>\<rparr>,
       (mk_property ''profile'' ''Profile Attributes'' PJson JNull)\<lparr>prop_description := Some
           (''Profile reference attributes, e.g. {'' @ [CHR 0x22] @ ''email'' @ [CHR 0x22] @ '': '' @ [CHR
           0x22] @ ''a@b.c'' @ [CHR 0x22] @ ''}.''), prop_display_options := Some \<lparr>show_when = [(''operation'',
           [JStr ''create_event''])], hide_when = []\<rparr>\<rparr>,
       (mk_property ''properties'' ''Event Properties'' PJson JNull)\<lparr>prop_display_options := Some \<lparr>show_when =
           [(''operation'', [JStr ''create_event''])], hide_when = []\<rparr>\<rparr>,
       (mk_property ''value'' ''Event Value'' PNumber JNull)\<lparr>prop_display_options := Some \<lparr>show_when =
           [(''operation'', [JStr ''create_event''])], hide_when = []\<rparr>\<rparr>,
       (mk_property ''attributes'' ''Profile Attributes'' PJson JNull)\<lparr>prop_display_options := Some \<lparr>show_when
           = [(''operation'', [JStr ''create_profile''])], hide_when = []\<rparr>\<rparr>,
       (mk_property ''profile_id'' ''Profile ID'' PString JNull)\<lparr>prop_display_options := Some \<lparr>show_when =
           [(''operation'', [JStr ''get_profile''])], hide_when = []\<rparr>\<rparr>,
       (mk_property ''list_id'' ''List ID'' PString JNull)\<lparr>prop_display_options := Some \<lparr>show_when =
           [(''operation'', [JStr ''add_profile_to_list''])], hide_when = []\<rparr>\<rparr>,
       (mk_property ''profile_ids'' ''Profile IDs'' PJson JNull)\<lparr>prop_description := Some
           ''Array of profile IDs to add to the list.'', prop_display_options := Some \<lparr>show_when =
           [(''operation'', [JStr ''add_profile_to_list''])], hide_when = []\<rparr>\<rparr>],
     documentation_url := Some ''https://developers.klaviyo.com/en/reference/api_overview''\<rparr>"

definition linear_spec :: node_spec where
  "linear_spec =
   (mk_spec ''weftlyflow.linear'' 1 ''Linear''
     ''Manage Linear issues, teams, and projects via GraphQL.'' ''icons/linear.svg'' CatIntegration)\<lparr>spec_group
         := [''productivity'', ''project-management''],
     spec_credentials := [\<lparr>slot_name = ''linear_api'', slot_credential_types = [''weftlyflow.linear_api''],
         slot_required = True, slot_display_options = None\<rparr>],
     spec_properties :=
      [(mk_property ''operation'' ''Operation'' POptions (JStr ''list_issues''))\<lparr>prop_required := True,
          prop_options := Some [mk_option ''list_issues'' ''List Issues'', mk_option ''get_issue''
          ''Get Issue'', mk_option ''create_issue'' ''Create Issue'', mk_option ''update_issue''
          ''Update Issue'', mk_option ''list_teams'' ''List Teams'', mk_option ''list_projects''
          ''List Projects'']\<rparr>,
       (mk_property ''issue_id'' ''Issue ID'' PString JNull)\<lparr>prop_display_options := Some \<lparr>show_when =
           [(''operation'', [JStr ''get_issue'', JStr ''update_issue''])], hide_when = []\<rparr>\<rparr>,
       (mk_property ''team_id'' ''Team ID'' PString JNull)\<lparr>prop_display_options := Some \<lparr>show_when =
           [(''operation'', [JStr ''create_issue''])], hide_when = []\<rparr>\<rparr>,
       (mk_property ''title'' ''Title'' PString JNull)\<lparr>prop_display_options := Some \<lparr>show_when =
           [(''operation'', [JStr ''create_issue''])], hide_when = []\<rparr>\<rparr>,
       (mk_property ''description'' ''Description'' PString JNull)\<lparr>prop_display_options := Some \<lparr>show_when =
           [(''operation'', [JStr ''create_issue''])], hide_when = []\<rparr>\<rparr>,
       (mk_property ''extra'' ''Extra Fields'' PJson JNull)\<lparr>prop_description := Some
           ''Optional IssueCreateInput overrides.'', prop_display_options := Some \<lparr>show_when = [(''operation'',
           [JStr ''create_issue''])], hide_when = []\<rparr>\<rparr>,
       (mk_property ''fields'' ''Fields'' PJson JNull)\<lparr>prop_description := Some
           ''IssueUpdateInput body for update_issue.'', prop_display_options := Some \<lparr>show_when =
           [(''operation'', [JStr ''update_issue''])], hide_when = []\<rparr>\<rparr>,
       (mk_property ''filter'' ''Filter'' PJson JNull)\<lparr>prop_description := Some
           ''GraphQL IssueFilter object.'', prop_display_options := Some \<lparr>show_when = [(''operation'', [JStr
           ''list_issues''])], hide_when = []\<rparr>\<rparr>,
       (mk_property ''first'' ''Page Size'' PNumber JNull)\<lparr>prop_display_options := Some \<lparr>show_when =
           [(''operation'', [JStr ''list_issues'', JStr ''list_projects'', JStr ''list_teams''])], hide_when =
           []\<rparr>\<rparr>,
       (mk_property ''after'' ''Cursor'' PString JNull)\<lparr>prop_description := Some
           ''Opaque cursor from previous pageInfo.endCursor.'', prop_display_options := Some \<lparr>show_when =
           [(''operation'', [JStr ''list_issues'', JStr ''list_projects'', JStr ''list_teams''])], hide_when =
           []\<rparr>\<rparr>],
     documentation_url := Some ''https://developers.linear.app/docs/graphql/''\<rparr>"

definition integration_catalog_2 :: "node_spec list" where
  "integration_catalog_2 =
     [docusign_spec, dropbox_spec, elasticsearch_spec, facebook_spec,
      freshdesk_spec, ga4_spec, gcs_spec, ghost_spec,
      github_spec, gitlab_spec, gmail_spec, google_drive_spec,
      google_genai_spec, google_sheets_spec, harvest_spec, hasura_spec,
      hubspot_spec, intercom_spec, jira_spec, klaviyo_spec,
      linear_spec]"

lemma integration_catalog_2_ok: "list_all spec_ok integration_catalog_2"
  by code_simp

lemma integration_catalog_2_names:
  "map short_key integration_catalog_2 =
     [''docusign'', ''dropbox'', ''elasticsearch'', ''facebook_graph'', ''freshdesk'', ''ga4'', ''gcs'',
         ''ghost'', ''github'', ''gitlab'', ''gmail'', ''google_drive'', ''google_genai'', ''google_sheets'',
         ''harvest'', ''hasura'', ''hubspot'', ''intercom'', ''jira'', ''klaviyo'', ''linear'']"
  by code_simp

lemma integration_catalog_2_slots:
  "concat (map slot_slugs integration_catalog_2) =
     [''weftlyflow.docusign_jwt'', ''weftlyflow.dropbox_api'', ''weftlyflow.elasticsearch_api'',
         ''weftlyflow.facebook_graph'', ''weftlyflow.freshdesk_api'', ''weftlyflow.ga4_measurement'',
         ''weftlyflow.gcp_service_account'', ''weftlyflow.ghost_admin'', ''weftlyflow.bearer_token'',
         ''weftlyflow.gitlab_token'', ''weftlyflow.gmail_oauth2'', ''weftlyflow.google_drive_oauth2'',
         ''weftlyflow.google_genai_api'', ''weftlyflow.google_sheets_oauth2'', ''weftlyflow.harvest_api'',
         ''weftlyflow.hasura_api'', ''weftlyflow.hubspot_private_app'', ''weftlyflow.intercom_api'',
         ''weftlyflow.jira_cloud'', ''weftlyflow.klaviyo_api'', ''weftlyflow.linear_api'']"
  by code_simp

end
