(* ===== verification/Integration_Specs_3.thy ===== *)
theory Integration_Specs_3
  imports Node_Registry
begin

text \<open>
  The node specifications of the integrations from \<open>mailchimp\<close> to \<open>posthog\<close>, \<open>nodes/integrations/*/node.py\<close>, one
  \<^typ>\<open>node_spec\<close> per node class, field by field as in the source. Constants of \<open>constants.py\<close>
  stand with their values; a dash, an arrow or an ellipsis in a descriptive text is written in ASCII, and
  a list made from a frozen set is in alphabetical order. All of them are well-formed.
\<close>

definition mailchimp_spec :: node_spec where
  "mailchimp_spec =
   (mk_spec ''weftlyflow.mailchimp'' 1 ''Mailchimp''
     ''Manage Mailchimp audiences, members, and tags.'' ''icons/mailchimp.svg'' CatIntegration)\<lparr>spec_group :=
         [''communication'', ''marketing''],
     spec_credentials := [\<lparr>slot_name = ''mailchimp_api'', slot_credential_types =
         [''weftlyflow.mailchimp_api''], slot_required = True, slot_display_options = None\<rparr>],
     spec_properties :=
      [(mk_property ''operation'' ''Operation'' POptions (JStr ''list_lists''))\<lparr>prop_required := True,
          prop_options := Some [mk_option ''list_lists'' ''List Lists'', mk_option ''get_list'' ''Get List'',
          mk_option ''add_member'' ''Add Member'', mk_option ''update_member'' ''Update Member'', mk_option
          ''get_member'' ''Get Member'', mk_option ''tag_member'' ''Tag Member'']\<rparr>,
       (mk_property ''list_id'' ''List ID'' PString JNull)\<lparr>prop_display_options := Some \<lparr>show_when =
           [(''operation'', [JStr ''add_member'', JStr ''get_list'', JStr ''get_member'', JStr ''tag_member'',
           JStr ''update_member''])], hide_when = []\<rparr>\<rparr>,
       (mk_property ''email'' ''Email'' PString JNull)\<lparr>prop_display_options := Some \<lparr>show_when =
           [(''operation'', [JStr ''add_member'', JStr ''get_member'', JStr ''tag_member'', JStr
           ''update_member''])], hide_when = []\<rparr>\<rparr>,
       (mk_property ''status'' ''Status'' POptions (JStr ''subscribed''))\<lparr>prop_options := Some [mk_option
           ''cleaned'' ''Cleaned'', mk_option ''pending'' ''Pending'', mk_option ''subscribed'' ''Subscribed'',
           mk_option ''transactional'' ''Transactional'', mk_option ''unsubscribed'' ''Unsubscribed''],
           prop_display_options := Some \<lparr>show_when = [(''operation'', [JStr ''add_member''])], hide_when = []\<rparr>\<rparr>,
       (mk_property ''merge_fields'' ''Merge Fields'' PJson JNull)\<lparr>prop_description := Some
           ''JSON of merge fields (e.g. FNAME, LNAME).'', prop_display_options := Some \<lparr>show_when =
           [(''operation'', [JStr ''add_member''])], hide_when = []\<rparr>\<rparr>,
       (mk_property ''tags'' ''Tags'' PString JNull)\<lparr>prop_description := Some
           ''Comma-separated tag names applied on add.'', prop_display_options := Some \<lparr>show_when =
           [(''operation'', [JStr ''add_member''])], hide_when = []\<rparr>\<rparr>,
       (mk_property ''fields'' ''Fields'' PJson JNull)\<lparr>prop_description := Some
           ''JSON patch body for update_member.'', prop_display_options := Some \<lparr>show_when = [(''operation'',
           [JStr ''update_member''])], hide_when = []\<rparr>\<rparr>,
       (mk_property ''add_tags'' ''Add Tags'' PString JNull)\<lparr>prop_description := Some
           ''Comma-separated tags to activate.'', prop_display_options := Some \<lparr>show_when = [(''operation'',
           [JStr ''tag_member''])], hide_when = []\<rparr>\<rparr>,
       (mk_property ''remove_tags'' ''Remove Tags'' PString JNull)\<lparr>prop_description := Some
           ''Comma-separated tags to deactivate.'', prop_display_options := Some \<lparr>show_when = [(''operation'',
           [JStr ''tag_member''])], hide_when = []\<rparr>\<rparr>,
       (mk_property ''count'' ''Count'' PNumber JNull)\<lparr>prop_description := Some
           ''Page size for list_lists (capped at 1000).'', prop_display_options := Some \<lparr>show_when =
           [(''operation'', [JStr ''list_lists''])], hide_when = []\<rparr>\<rparr>,
       (mk_property ''offset'' ''Offset'' PNumber JNull)\<lparr>prop_display_options := Some \<lparr>show_when =
           [(''operation'', [JStr ''list_lists''])], hide_when = []\<rparr>\<rparr>],
     documentation_url := Some ''https://mailchimp.com/developer/marketing/api/''\<rparr>"

definition mailgun_spec :: node_spec where
  "mailgun_spec =
   (mk_spec ''weftlyflow.mailgun'' 1 ''Mailgun''
     ''Send transactional email via Mailgun's v3 Messages API.'' ''icons/mailgun.svg''
         CatIntegration)\<lparr>spec_group := [''communication'', ''email''],
     spec_credentials := [\<lparr>slot_name = ''mailgun_api'', slot_credential_types = [''weftlyflow.basic_auth''],
         slot_required = True, slot_display_options = None\<rparr>],
     spec_properties :=
      [(mk_property ''operation'' ''Operation'' POptions (JStr ''send_email''))\<lparr>prop_required := True,
          prop_options := Some [mk_option ''send_email'' ''Send Email'']\<rparr>,
       (mk_property ''domain'' ''Sending Domain'' PString JNull)\<lparr>prop_required := True, prop_placeholder :=
           Some ''mg.example.com''\<rparr>,
       (mk_property ''region'' ''Region'' POptions (JStr ''us''))\<lparr>prop_options := Some [mk_option ''us''
           ''US'', mk_option ''eu'' ''EU'']\<rparr>,
       (mk_property ''from_address'' ''From'' PString JNull)\<lparr>prop_required := True, prop_description := Some
           ''Full 'Name <addr@domain>' or bare email.''\<rparr>,
       (mk_property ''to'' ''To'' PString JNull)\<lparr>prop_required := True, prop_description := Some
           ''Comma-separated recipient addresses.''\<rparr>,
       mk_property ''cc'' ''Cc'' PString JNull,
       mk_property ''bcc'' ''Bcc'' PString JNull,
       (mk_property ''subject'' ''Subject'' PString JNull)\<lparr>prop_required := True\<rparr>,
       mk_property ''text'' ''Plain Text Body'' PString JNull,
       mk_property ''html'' ''HTML Body'' PString JNull,
       (mk_property ''tags'' ''Tags'' PString JNull)\<lparr>prop_description := Some
           ''Comma-separated tags forwarded as 'o:tag' fields.''\<rparr>,
       mk_property ''tracking'' ''Tracking'' PBoolean (JBool True)],
     documentation_url := Some ''https://documentation.mailgun.com/en/latest/api-sending.html''\<rparr>"

definition mapbox_spec :: node_spec where
  "mapbox_spec =
   (mk_spec ''weftlyflow.mapbox'' 1 ''Mapbox''
     ''Call Mapbox geocoding, directions, matrix, and isochrone APIs.'' ''icons/mapbox.svg''
         CatIntegration)\<lparr>spec_group := [''geo'', ''maps''],
     spec_credentials := [\<lparr>slot_name = ''mapbox_api'', slot_credential_types = [''weftlyflow.mapbox_api''],
         slot_required = True, slot_display_options = None\<rparr>],
     spec_properties :=
      [(mk_property ''operation'' ''Operation'' POptions (JStr ''forward_geocode''))\<lparr>prop_required := True,
          prop_options := Some [mk_option ''forward_geocode'' ''Forward Geocode'', mk_option
          ''reverse_geocode'' ''Reverse Geocode'', mk_option ''directions'' ''Directions'', mk_option
          ''matrix'' ''Matrix'', mk_option ''isochrone'' ''Isochrone'']\<rparr>,
       (mk_property ''endpoint'' ''Geocoding Endpoint'' PString (JStr ''mapbox.places''))\<lparr>prop_display_options
           := Some \<lparr>show_when = [(''operation'', [JStr ''forward_geocode'', JStr ''reverse_geocode''])],
           hide_when = []\<rparr>\<rparr>,
       (mk_property ''search_text'' ''Search Text'' PString JNull)\<lparr>prop_display_options := Some \<lparr>show_when =
           [(''operation'', [JStr ''forward_geocode''])], hide_when = []\<rparr>\<rparr>,
       (mk_property ''longitude'' ''Longitude'' PString JNull)\<lparr>prop_display_options := Some \<lparr>show_when =
           [(''operation'', [JStr ''reverse_geocode''])], hide_when = []\<rparr>\<rparr>,
       (mk_property ''latitude'' ''Latitude'' PString JNull)\<lparr>prop_display_options := Some \<lparr>show_when =
           [(''operation'', [JStr ''reverse_geocode''])], hide_when = []\<rparr>\<rparr>,
       (mk_property ''profile'' ''Routing Profile'' PString (JStr ''mapbox/driving''))\<lparr>prop_display_options :=
           Some \<lparr>show_when = [(''operation'', [JStr ''directions'', JStr ''isochrone'', JStr ''matrix''])],
           hide_when = []\<rparr>\<rparr>,
       (mk_property ''coordinates'' ''Coordinates'' PString JNull)\<lparr>prop_description := Some
           ''`lon,lat;lon,lat;...` (semicolon separated).'', prop_display_options := Some \<lparr>show_when =
           [(''operation'', [JStr ''directions'', JStr ''isochrone'', JStr ''matrix''])], hide_when = []\<rparr>\<rparr>,
       (mk_property ''contours_minutes'' ''Contours (minutes)'' PString JNull)\<lparr>prop_description := Some
           ''Comma-separated isochrone intervals in minutes.'', prop_display_options := Some \<lparr>show_when =
           [(''operation'', [JStr ''isochrone''])], hide_when = []\<rparr>\<rparr>,
       (mk_property ''contours_meters'' ''Contours (meters)'' PString JNull)\<lparr>prop_description := Some
           ''Comma-separated isochrone intervals in meters.'', prop_display_options := Some \<lparr>show_when =
           [(''operation'', [JStr ''isochrone''])], hide_when = []\<rparr>\<rparr>],
     documentation_url := Some ''https://docs.mapbox.com/api/overview/''\<rparr>"

definition mattermost_spec :: node_spec where
  "mattermost_spec =
   (mk_spec ''weftlyflow.mattermost'' 1 ''Mattermost''
     ''Post and manage Mattermost messages, channels, and users.'' ''icons/mattermost.svg''
         CatIntegration)\<lparr>spec_group := [''communication'', ''chat''],
     spec_credentials := [\<lparr>slot_name = ''mattermost_api'', slot_credential_types =
         [''weftlyflow.mattermost_api''], slot_required = True, slot_display_options = None\<rparr>],
     spec_properties :=
      [(mk_property ''operation'' ''Operation'' POptions (JStr ''post_message''))\<lparr>prop_required := True,
          prop_options := Some [mk_option ''post_message'' ''Post Message'', mk_option ''update_post''
          ''Update Post'', mk_option ''delete_post'' ''Delete Post'', mk_option ''get_channel''
          ''Get Channel'', mk_option ''list_channels_for_user'' ''List Channels for User'', mk_option
          ''get_user_by_username'' ''Get User by Username'']\<rparr>,
       (mk_property ''channel_id'' ''Channel ID'' PString JNull)\<lparr>prop_display_options := Some \<lparr>show_when =
           [(''operation'', [JStr ''get_channel'', JStr ''post_message''])], hide_when = []\<rparr>\<rparr>,
       (mk_property ''message'' ''Message'' PString JNull)\<lparr>prop_display_options := Some \<lparr>show_when =
           [(''operation'', [JStr ''post_message''])], hide_when = []\<rparr>\<rparr>,
       (mk_property ''root_id'' ''Root Post ID'' PString JNull)\<lparr>prop_description := Some
           ''Post ID to thread this reply under.'', prop_display_options := Some \<lparr>show_when = [(''operation'',
           [JStr ''post_message''])], hide_when = []\<rparr>\<rparr>,
       (mk_property ''props'' ''Props'' PJson JNull)\<lparr>prop_description := Some
           ''Arbitrary metadata object attached to the post.'', prop_display_options := Some \<lparr>show_when =
           [(''operation'', [JStr ''post_message''])], hide_when = []\<rparr>\<rparr>,
       (mk_property ''file_ids'' ''File IDs'' PString JNull)\<lparr>prop_description := Some
           ''Comma-separated IDs of pre-uploaded files.'', prop_display_options := Some \<lparr>show_when =
           [(''operation'', [JStr ''post_message''])], hide_when = []\<rparr>\<rparr>,
       (mk_property ''post_id'' ''Post ID'' PString JNull)\<lparr>prop_display_options := Some \<lparr>show_when =
           [(''operation'', [JStr ''delete_post'', JStr ''update_post''])], hide_when = []\<rparr>\<rparr>,
       (mk_property ''fields'' ''Fields'' PJson JNull)\<lparr>prop_description := Some
           ''JSON patch body for update_post.'', prop_display_options := Some \<lparr>show_when = [(''operation'',
           [JStr ''update_post''])], hide_when = []\<rparr>\<rparr>,
       (mk_property ''user_id'' ''User ID'' PString JNull)\<lparr>prop_description := Some
           ''Defaults to 'me' when blank.'', prop_display_options := Some \<lparr>show_when = [(''operation'', [JStr
           ''list_channels_for_user''])], hide_when = []\<rparr>\<rparr>,
       (mk_property ''team_id'' ''Team ID'' PString JNull)\<lparr>prop_display_options := Some \<lparr>show_when =
           [(''operation'', [JStr ''list_channels_for_user''])], hide_when = []\<rparr>\<rparr>,
       (mk_property ''username'' ''Username'' PString JNull)\<lparr>prop_display_options := Some \<lparr>show_when =
           [(''operation'', [JStr ''get_user_by_username''])], hide_when = []\<rparr>\<rparr>],
     documentation_url := Some ''https://api.mattermost.com/''\<rparr>"

definition microsoft_graph_spec :: node_spec where
  "microsoft_graph_spec =
   (mk_spec ''weftlyflow.microsoft_graph'' 1 ''Microsoft Graph''
     ''Query Azure AD directory and Outlook mail/calendar via Graph.'' ''icons/microsoft.svg''
         CatIntegration)\<lparr>spec_group := [''microsoft'', ''productivity''],
     spec_credentials := [\<lparr>slot_name = ''microsoft_graph'', slot_credential_types =
         [''weftlyflow.microsoft_graph''], slot_required = True, slot_display_options = None\<rparr>],
     spec_properties :=
      [(mk_property ''operation'' ''Operation'' POptions (JStr ''list_users''))\<lparr>prop_required := True,
          prop_options := Some [mk_option ''list_users'' ''List Users'', mk_option ''get_user'' ''Get User'',
          mk_option ''list_messages'' ''List Messages'', mk_option ''send_mail'' ''Send Mail'', mk_option
          ''list_events'' ''List Events'', mk_option ''create_event'' ''Create Event'']\<rparr>,
       (mk_property ''user_id'' ''User'' PString (JStr ''me''))\<lparr>prop_description := Some
           ''User principal ('me' for token owner).'', prop_display_options := Some \<lparr>show_when =
           [(''operation'', [JStr ''create_event'', JStr ''get_user'', JStr ''list_events'', JStr
           ''list_messages'', JStr ''send_mail''])], hide_when = []\<rparr>\<rparr>,
       (mk_property ''select'' ''Select'' PString JNull)\<lparr>prop_description := Some
           ''Comma-separated $select projection.'', prop_display_options := Some \<lparr>show_when = [(''operation'',
           [JStr ''list_events'', JStr ''list_messages'', JStr ''list_users'', JStr ''get_user''])], hide_when
           = []\<rparr>\<rparr>,
       (mk_property ''filter'' ''Filter'' PString JNull)\<lparr>prop_description := Some
           ''OData $filter expression.'', prop_display_options := Some \<lparr>show_when = [(''operation'', [JStr
           ''list_events'', JStr ''list_messages'', JStr ''list_users''])], hide_when = []\<rparr>\<rparr>,
       (mk_property ''search'' ''Search'' PString JNull)\<lparr>prop_description := Some
           ''Advanced-query $search - triggers ConsistencyLevel: eventual.'', prop_display_options := Some
           \<lparr>show_when = [(''operation'', [JStr ''list_events'', JStr ''list_messages'', JStr ''list_users''])],
           hide_when = []\<rparr>\<rparr>,
       (mk_property ''order_by'' ''Order By'' PString JNull)\<lparr>prop_display_options := Some \<lparr>show_when =
           [(''operation'', [JStr ''list_events'', JStr ''list_messages'', JStr ''list_users''])], hide_when =
           []\<rparr>\<rparr>,
       (mk_property ''count'' ''Include Count'' PBoolean JNull)\<lparr>prop_description := Some
           ''Append $count=true - triggers ConsistencyLevel: eventual.'', prop_display_options := Some
           \<lparr>show_when = [(''operation'', [JStr ''list_events'', JStr ''list_messages'', JStr ''list_users''])],
           hide_when = []\<rparr>\<rparr>,
       (mk_property ''top'' ''Page Size'' PNumber JNull)\<lparr>prop_display_options := Some \<lparr>show_when =
           [(''operation'', [JStr ''list_events'', JStr ''list_messages'', JStr ''list_users''])], hide_when =
           []\<rparr>\<rparr>,
       (mk_property ''skip_token'' ''Skip Token'' PString JNull)\<lparr>prop_description := Some
           ''Opaque cursor from the previous page.'', prop_display_options := Some \<lparr>show_when =
           [(''operation'', [JStr ''list_events'', JStr ''list_messages'', JStr ''list_users''])], hide_when =
           []\<rparr>\<rparr>,
       (mk_property ''message'' ''Message'' PJson JNull)\<lparr>prop_description := Some
           ''Outlook message payload (subject/body/toRecipients/.).'', prop_display_options := Some \<lparr>show_when
           = [(''operation'', [JStr ''send_mail''])], hide_when = []\<rparr>\<rparr>,
       (mk_property ''save_to_sent_items'' ''Save to Sent Items'' PBoolean JNull)\<lparr>prop_display_options := Some
           \<lparr>show_when = [(''operation'', [JStr ''send_mail''])], hide_when = []\<rparr>\<rparr>,
       (mk_property ''event'' ''Event'' PJson JNull)\<lparr>prop_description := Some ''Calendar event payload.'',
           prop_display_options := Some \<lparr>show_when = [(''operation'', [JStr ''create_event''])], hide_when =
           []\<rparr>\<rparr>],
     documentation_url := Some ''https://learn.microsoft.com/en-us/graph/api/overview''\<rparr>"

definition mistral_spec :: node_spec where
  "mistral_spec =
   (mk_spec ''weftlyflow.mistral'' 1 ''Mistral''
     ''Call the Mistral La Plateforme API (chat, FIM, embeddings).'' ''icons/mistral.svg''
         CatIntegration)\<lparr>spec_group := [''ai'', ''llm''],
     spec_credentials := [\<lparr>slot_name = ''mistral_api'', slot_credential_types = [''weftlyflow.mistral_api''],
         slot_required = True, slot_display_options = None\<rparr>],
     spec_properties :=
      [(mk_property ''operation'' ''Operation'' POptions (JStr ''chat_completion''))\<lparr>prop_required := True,
          prop_options := Some [mk_option ''chat_completion'' ''Chat Completion'', mk_option ''fim_completion''
          ''FIM Completion'', mk_option ''create_embedding'' ''Create Embedding'', mk_option ''list_models''
          ''List Models'']\<rparr>,
       (mk_property ''model'' ''Model'' PString (JStr ''mistral-large-latest''))\<lparr>prop_display_options := Some
           \<lparr>show_when = [(''operation'', [JStr ''chat_completion'', JStr ''fim_completion'', JStr
           ''create_embedding''])], hide_when = []\<rparr>\<rparr>,
       (mk_property ''messages'' ''Messages'' PJson JNull)\<lparr>prop_description := Some (''[{'' @ [CHR 0x22] @
           ''role'' @ [CHR 0x22] @ '': '' @ [CHR 0x22] @ ''user'' @ [CHR 0x22] @ '', '' @ [CHR 0x22] @
           ''content'' @ [CHR 0x22] @ '': '' @ [CHR 0x22] @ ''Hello'' @ [CHR 0x22] @ ''}, ...]''),
           prop_display_options := Some \<lparr>show_when = [(''operation'', [JStr ''chat_completion''])], hide_when =
           []\<rparr>\<rparr>,
       (mk_property ''prompt'' ''Prompt'' PString JNull)\<lparr>prop_display_options := Some \<lparr>show_when =
           [(''operation'', [JStr ''fim_completion''])], hide_when = []\<rparr>\<rparr>,
       (mk_property ''suffix'' ''Suffix'' PString JNull)\<lparr>prop_description := Some
           ''Optional code after the FIM insertion point.'', prop_display_options := Some \<lparr>show_when =
           [(''operation'', [JStr ''fim_completion''])], hide_when = []\<rparr>\<rparr>,
       (mk_property ''input'' ''Input'' PString JNull)\<lparr>prop_description := Some
           ''Text or JSON-array of texts to embed.'', prop_display_options := Some \<lparr>show_when =
           [(''operation'', [JStr ''create_embedding''])], hide_when = []\<rparr>\<rparr>,
       (mk_property ''temperature'' ''Temperature'' PNumber JNull)\<lparr>prop_display_options := Some \<lparr>show_when =
           [(''operation'', [JStr ''chat_completion'', JStr ''fim_completion''])], hide_when = []\<rparr>\<rparr>,
       (mk_property ''top_p'' ''Top P'' PNumber JNull)\<lparr>prop_display_options := Some \<lparr>show_when =
           [(''operation'', [JStr ''chat_completion'', JStr ''fim_completion''])], hide_when = []\<rparr>\<rparr>,
       (mk_property ''max_tokens'' ''Max Tokens'' PNumber JNull)\<lparr>prop_display_options := Some \<lparr>show_when =
           [(''operation'', [JStr ''chat_completion'', JStr ''fim_completion''])], hide_when = []\<rparr>\<rparr>,
       (mk_property ''response_format'' ''Response Format'' POptions (JStr []))\<lparr>prop_options := Some [mk_option
           [] ''Default (text)'', mk_option ''text'' ''Text'', mk_option ''json_object'' ''JSON Object''],
           prop_display_options := Some \<lparr>show_when = [(''operation'', [JStr ''chat_completion''])], hide_when =
           []\<rparr>\<rparr>,
       (mk_property ''tools'' ''Tools'' PJson JNull)\<lparr>prop_description := Some
           ''Optional OpenAI-style tool schema list.'', prop_display_options := Some \<lparr>show_when =
           [(''operation'', [JStr ''chat_completion''])], hide_when = []\<rparr>\<rparr>,
       (mk_property ''safe_prompt'' ''Safe Prompt'' PBoolean JNull)\<lparr>prop_description := Some
           ''Opt into Mistral's built-in guardrails prefix.'', prop_display_options := Some \<lparr>show_when =
           [(''operation'', [JStr ''chat_completion''])], hide_when = []\<rparr>\<rparr>],
     documentation_url := Some ''https://docs.mistral.ai/api/''\<rparr>"

definition mixpanel_spec :: node_spec where
  "mixpanel_spec =
   (mk_spec ''weftlyflow.mixpanel'' 1 ''Mixpanel''
     ''Track events, update profiles/groups, and bulk-import via Mixpanel.'' ''icons/mixpanel.svg''
         CatIntegration)\<lparr>spec_group := [''analytics''],
     spec_credentials := [\<lparr>slot_name = ''mixpanel_api'', slot_credential_types = [''weftlyflow.mixpanel_api''],
         slot_required = True, slot_display_options = None\<rparr>],
     spec_properties :=
      [(mk_property ''operation'' ''Operation'' POptions (JStr ''track_event''))\<lparr>prop_required := True,
          prop_options := Some [mk_option ''track_event'' ''Track Event'', mk_option ''engage_user''
          ''Update User Profile'', mk_option ''update_group'' ''Update Group'', mk_option ''import_events''
          ''Import Events'']\<rparr>,
       (mk_property ''distinct_id'' ''Distinct ID'' PString JNull)\<lparr>prop_display_options := Some \<lparr>show_when =
           [(''operation'', [JStr ''track_event'', JStr ''engage_user''])], hide_when = []\<rparr>\<rparr>,
       (mk_property ''event'' ''Event Name'' PString JNull)\<lparr>prop_display_options := Some \<lparr>show_when =
           [(''operation'', [JStr ''track_event''])], hide_when = []\<rparr>\<rparr>,
       (mk_property ''properties'' ''Properties'' PJson JNull)\<lparr>prop_display_options := Some \<lparr>show_when =
           [(''operation'', [JStr ''track_event'', JStr ''engage_user'', JStr ''update_group''])], hide_when =
           []\<rparr>\<rparr>,
       (mk_property ''set_verb'' ''Set Verb'' POptions (JStr ''$set''))\<lparr>prop_options := Some [mk_option
           ''$set'' ''$set'', mk_option ''$set_once'' ''$set_once'', mk_option ''$add'' ''$add'', mk_option
           ''$append'' ''$append'', mk_option ''$union'' ''$union'', mk_option ''$remove'' ''$remove'',
           mk_option ''$unset'' ''$unset''], prop_display_options := Some \<lparr>show_when = [(''operation'', [JStr
           ''engage_user'', JStr ''update_group''])], hide_when = []\<rparr>\<rparr>,
       (mk_property ''group_key'' ''Group Key'' PString JNull)\<lparr>prop_display_options := Some \<lparr>show_when =
           [(''operation'', [JStr ''update_group''])], hide_when = []\<rparr>\<rparr>,
       (mk_property ''group_id'' ''Group ID'' PString JNull)\<lparr>prop_display_options := Some \<lparr>show_when =
           [(''operation'', [JStr ''update_group''])], hide_when = []\<rparr>\<rparr>,
       (mk_property ''events'' ''Events (array)'' PJson JNull)\<lparr>prop_description := Some
           ''Array of {event, properties} for bulk /import.'', prop_display_options := Some \<lparr>show_when =
           [(''operation'', [JStr ''import_events''])], hide_when = []\<rparr>\<rparr>,
       (mk_property ''project_id'' ''Project ID'' PString JNull)\<lparr>prop_description := Some
           ''Required on newer /import variants.'', prop_display_options := Some \<lparr>show_when = [(''operation'',
           [JStr ''import_events''])], hide_when = []\<rparr>\<rparr>],
     documentation_url := Some ''https://developer.mixpanel.com/reference/overview''\<rparr>"

definition monday_spec :: node_spec where
  "monday_spec =
   (mk_spec ''weftlyflow.monday'' 1 ''Monday.com''
     ''Query and mutate Monday.com boards via GraphQL.'' ''icons/monday.svg'' CatIntegration)\<lparr>spec_group :=
         [''productivity'', ''project-management''],
     spec_credentials := [\<lparr>slot_name = ''monday_api'', slot_credential_types = [''weftlyflow.monday_api''],
         slot_required = True, slot_display_options = None\<rparr>],
     spec_properties :=
      [(mk_property ''operation'' ''Operation'' POptions (JStr ''get_boards''))\<lparr>prop_required := True,
          prop_options := Some [mk_option ''get_boards'' ''Get Boards'', mk_option ''get_board'' ''Get Board'',
          mk_option ''get_items'' ''Get Items'', mk_option ''create_item'' ''Create Item'', mk_option
          ''change_column_values'' ''Change Column Values'', mk_option ''create_update'' ''Create Update'']\<rparr>,
       (mk_property ''board_id'' ''Board ID'' PString JNull)\<lparr>prop_display_options := Some \<lparr>show_when =
           [(''operation'', [JStr ''change_column_values'', JStr ''create_item'', JStr ''get_board'', JStr
           ''get_items''])], hide_when = []\<rparr>\<rparr>,
       (mk_property ''item_id'' ''Item ID'' PString JNull)\<lparr>prop_display_options := Some \<lparr>show_when =
           [(''operation'', [JStr ''change_column_values'', JStr ''create_update''])], hide_when = []\<rparr>\<rparr>,
       (mk_property ''item_name'' ''Item Name'' PString JNull)\<lparr>prop_display_options := Some \<lparr>show_when =
           [(''operation'', [JStr ''create_item''])], hide_when = []\<rparr>\<rparr>,
       (mk_property ''group_id'' ''Group ID'' PString JNull)\<lparr>prop_display_options := Some \<lparr>show_when =
           [(''operation'', [JStr ''create_item''])], hide_when = []\<rparr>\<rparr>,
       (mk_property ''column_values'' ''Column Values'' PJson JNull)\<lparr>prop_description := Some
           ''JSON object keyed by column ID.'', prop_display_options := Some \<lparr>show_when = [(''operation'',
           [JStr ''change_column_values'', JStr ''create_item''])], hide_when = []\<rparr>\<rparr>,
       (mk_property ''body'' ''Update Body'' PString JNull)\<lparr>prop_display_options := Some \<lparr>show_when =
           [(''operation'', [JStr ''create_update''])], hide_when = []\<rparr>\<rparr>,
       (mk_property ''limit'' ''Limit'' PNumber (JInt 25))\<lparr>prop_display_options := Some \<lparr>show_when =
           [(''operation'', [JStr ''get_boards'', JStr ''get_items''])], hide_when = []\<rparr>\<rparr>],
     documentation_url := Some ''https://developer.monday.com/api-reference/docs''\<rparr>"

definition mongodb_atlas_spec :: node_spec where
  "mongodb_atlas_spec =
   (mk_spec ''weftlyflow.mongodb_atlas'' 1 ''MongoDB Atlas''
     ''List projects, clusters, and database users on MongoDB Atlas.'' ''icons/mongodb_atlas.svg''
         CatIntegration)\<lparr>spec_group := [''database''],
     spec_credentials := [\<lparr>slot_name = ''mongodb_atlas_api'', slot_credential_types =
         [''weftlyflow.mongodb_atlas_api''], slot_required = True, slot_display_options = None\<rparr>],
     spec_properties :=
      [(mk_property ''operation'' ''Operation'' POptions (JStr ''list_projects''))\<lparr>prop_required := True,
          prop_options := Some [mk_option ''list_projects'' ''List Projects'', mk_option ''list_clusters''
          ''List Clusters'', mk_option ''get_cluster'' ''Get Cluster'', mk_option ''list_db_users''
          ''List Database Users'']\<rparr>,
       (mk_property ''group_id'' ''Project (Group) ID'' PString JNull)\<lparr>prop_display_options := Some \<lparr>show_when
           = [(''operation'', [JStr ''list_clusters'', JStr ''get_cluster'', JStr ''list_db_users''])],
           hide_when = []\<rparr>\<rparr>,
       (mk_property ''cluster_name'' ''Cluster Name'' PString JNull)\<lparr>prop_display_options := Some \<lparr>show_when =
           [(''operation'', [JStr ''get_cluster''])], hide_when = []\<rparr>\<rparr>,
       (mk_property ''page_num'' ''Page Number'' PNumber JNull)\<lparr>prop_display_options := Some \<lparr>show_when =
           [(''operation'', [JStr ''list_projects'', JStr ''list_clusters'', JStr ''list_db_users''])],
           hide_when = []\<rparr>\<rparr>,
       (mk_property ''items_per_page'' ''Items Per Page'' PNumber JNull)\<lparr>prop_display_options := Some
           \<lparr>show_when = [(''operation'', [JStr ''list_projects'', JStr ''list_clusters'', JStr
           ''list_db_users''])], hide_when = []\<rparr>\<rparr>],
     documentation_url := Some ''https://www.mongodb.com/docs/atlas/reference/api-resources-spec/''\<rparr>"

definition netsuite_spec :: node_spec where
  "netsuite_spec =
   (mk_spec ''weftlyflow.netsuite'' 1 ''NetSuite''
     ''Query SuiteQL and CRUD records via the SuiteTalk REST API.'' ''icons/netsuite.svg''
         CatIntegration)\<lparr>spec_group := [''erp'', ''finance''],
     spec_credentials := [\<lparr>slot_name = ''netsuite_api'', slot_credential_types = [''weftlyflow.netsuite_api''],
         slot_required = True, slot_display_options = None\<rparr>],
     spec_properties :=
      [(mk_property ''operation'' ''Operation'' POptions (JStr ''suiteql_query''))\<lparr>prop_required := True,
          prop_options := Some [mk_option ''suiteql_query'' ''SuiteQL Query'', mk_option ''record_get''
          ''Get Record'', mk_option ''record_create'' ''Create Record'', mk_option ''record_delete''
          ''Delete Record'']\<rparr>,
       (mk_property ''query'' ''SuiteQL'' PString JNull)\<lparr>prop_description := Some
           ''e.g. SELECT id, email FROM customer WHERE ...'', prop_display_options := Some \<lparr>show_when =
           [(''operation'', [JStr ''suiteql_query''])], hide_when = []\<rparr>\<rparr>,
       (mk_property ''limit'' ''Limit'' PNumber JNull)\<lparr>prop_display_options := Some \<lparr>show_when =
           [(''operation'', [JStr ''suiteql_query''])], hide_when = []\<rparr>\<rparr>,
       (mk_property ''offset'' ''Offset'' PNumber JNull)\<lparr>prop_display_options := Some \<lparr>show_when =
           [(''operation'', [JStr ''suiteql_query''])], hide_when = []\<rparr>\<rparr>,
       (mk_property ''record_type'' ''Record Type'' PString JNull)\<lparr>prop_description := Some
           ''e.g. customer, invoice, salesOrder.'', prop_display_options := Some \<lparr>show_when = [(''operation'',
           [JStr ''record_create'', JStr ''record_delete'', JStr ''record_get''])], hide_when = []\<rparr>\<rparr>,
       (mk_property ''record_id'' ''Record ID'' PString JNull)\<lparr>prop_display_options := Some \<lparr>show_when =
           [(''operation'', [JStr ''record_delete'', JStr ''record_get''])], hide_when = []\<rparr>\<rparr>,
       (mk_property ''document'' ''Record Document'' PJson JNull)\<lparr>prop_description := Some
           ''Record body for create.'', prop_display_options := Some \<lparr>show_when = [(''operation'', [JStr
           ''record_create''])], hide_when = []\<rparr>\<rparr>],
     documentation_url := Some
         ''https://docs.oracle.com/en/cloud/saas/netsuite/ns-online-help/section_1559132836.html''\<rparr>"

definition notion_spec :: node_spec where
  "notion_spec =
   (mk_spec ''weftlyflow.notion'' 1 ''Notion''
     ''Query Notion databases, create pages, and retrieve pages.'' ''icons/notion.svg''
         CatIntegration)\<lparr>spec_group := [''productivity'', ''knowledge''],
     spec_credentials := [\<lparr>slot_name = ''notion_api'', slot_credential_types = [''weftlyflow.notion_api''],
         slot_required = True, slot_display_options = None\<rparr>],
     spec_properties :=
      [(mk_property ''operation'' ''Operation'' POptions (JStr ''query_database''))\<lparr>prop_required := True,
          prop_options := Some [mk_option ''query_database'' ''Query Database'', mk_option ''create_page''
          ''Create Page'', mk_option ''retrieve_page'' ''Retrieve Page'']\<rparr>,
       (mk_property ''database_id'' ''Database ID'' PString JNull)\<lparr>prop_display_options := Some \<lparr>show_when =
           [(''operation'', [JStr ''query_database''])], hide_when = []\<rparr>\<rparr>,
       (mk_property ''parent_database_id'' ''Parent Database ID'' PString JNull)\<lparr>prop_description := Some
           ''Set this OR parent_page_id for create_page.'', prop_display_options := Some \<lparr>show_when =
           [(''operation'', [JStr ''create_page''])], hide_when = []\<rparr>\<rparr>,
       (mk_property ''parent_page_id'' ''Parent Page ID'' PString JNull)\<lparr>prop_display_options := Some
           \<lparr>show_when = [(''operation'', [JStr ''create_page''])], hide_when = []\<rparr>\<rparr>,
       (mk_property ''properties'' ''Properties'' PJson JNull)\<lparr>prop_description := Some
           ''Notion property schema (object).'', prop_display_options := Some \<lparr>show_when = [(''operation'',
           [JStr ''create_page''])], hide_when = []\<rparr>\<rparr>,
       (mk_property ''children'' ''Children Blocks'' PJson JNull)\<lparr>prop_display_options := Some \<lparr>show_when =
           [(''operation'', [JStr ''create_page''])], hide_when = []\<rparr>\<rparr>,
       (mk_property ''filter'' ''Filter'' PJson JNull)\<lparr>prop_display_options := Some \<lparr>show_when =
           [(''operation'', [JStr ''query_database''])], hide_when = []\<rparr>\<rparr>,
       (mk_property ''sorts'' ''Sorts'' PJson JNull)\<lparr>prop_display_options := Some \<lparr>show_when = [(''operation'',
           [JStr ''query_database''])], hide_when = []\<rparr>\<rparr>,
       (mk_property ''page_size'' ''Page Size'' PNumber (JInt 100))\<lparr>prop_display_options := Some \<lparr>show_when =
           [(''operation'', [JStr ''query_database''])], hide_when = []\<rparr>\<rparr>,
       (mk_property ''start_cursor'' ''Start Cursor'' PString JNull)\<lparr>prop_display_options := Some \<lparr>show_when =
           [(''operation'', [JStr ''query_database''])], hide_when = []\<rparr>\<rparr>,
       (mk_property ''page_id'' ''Page ID'' PString JNull)\<lparr>prop_display_options := Some \<lparr>show_when =
           [(''operation'', [JStr ''retrieve_page''])], hide_when = []\<rparr>\<rparr>],
     documentation_url := Some ''https://developers.notion.com/reference/intro''\<rparr>"

definition okta_spec :: node_spec where
  "okta_spec =
   (mk_spec ''weftlyflow.okta'' 1 ''Okta''
     ''Manage Okta users and groups via the v1 REST API.'' ''icons/okta.svg'' CatIntegration)\<lparr>spec_group :=
         [''identity'', ''iam''],
     spec_credentials := [\<lparr>slot_name = ''okta_api'', slot_credential_types = [''weftlyflow.okta_api''],
         slot_required = True, slot_display_options = None\<rparr>],
     spec_properties :=
      [(mk_property ''operation'' ''Operation'' POptions (JStr ''list_users''))\<lparr>prop_required := True,
          prop_options := Some [mk_option ''list_users'' ''List Users'', mk_option ''get_user'' ''Get User'',
          mk_option ''create_user'' ''Create User'', mk_option ''update_user'' ''Update User'', mk_option
          ''deactivate_user'' ''Deactivate User'', mk_option ''list_groups'' ''List Groups'']\<rparr>,
       (mk_property ''user_id'' ''User ID'' PString JNull)\<lparr>prop_display_options := Some \<lparr>show_when =
           [(''operation'', [JStr ''deactivate_user'', JStr ''get_user'', JStr ''update_user''])], hide_when =
           []\<rparr>\<rparr>,
       (mk_property ''profile'' ''Profile'' PJson JNull)\<lparr>prop_description := Some
           ''User profile JSON (firstName, lastName, email, login).'', prop_display_options := Some \<lparr>show_when
           = [(''operation'', [JStr ''create_user'', JStr ''update_user''])], hide_when = []\<rparr>\<rparr>,
       (mk_property ''password'' ''Password'' PString JNull)\<lparr>prop_description := Some
           ''Optional initial password for create_user.'', prop_display_options := Some \<lparr>show_when =
           [(''operation'', [JStr ''create_user''])], hide_when = []\<rparr>, prop_type_options := Some
           [(''password'', JBool True)]\<rparr>,
       (mk_property ''group_ids'' ''Group IDs'' PString JNull)\<lparr>prop_description := Some
           ''Comma-separated group IDs to seed on create.'', prop_display_options := Some \<lparr>show_when =
           [(''operation'', [JStr ''create_user''])], hide_when = []\<rparr>\<rparr>,
       (mk_property ''activate'' ''Activate'' PBoolean (JBool True))\<lparr>prop_description := Some
           ''Whether Okta should activate the user on create.'', prop_display_options := Some \<lparr>show_when =
           [(''operation'', [JStr ''create_user''])], hide_when = []\<rparr>\<rparr>,
       (mk_property ''send_email'' ''Send Email'' PBoolean JNull)\<lparr>prop_description := Some
           ''Whether Okta should email the user on deactivation.'', prop_display_options := Some \<lparr>show_when =
           [(''operation'', [JStr ''deactivate_user''])], hide_when = []\<rparr>\<rparr>,
       (mk_property ''search'' ''Search'' PString JNull)\<lparr>prop_description := Some
           ''Okta expression for list_users (e.g. 'profile.email eq ...').'', prop_display_options := Some
           \<lparr>show_when = [(''operation'', [JStr ''list_users''])], hide_when = []\<rparr>\<rparr>,
       (mk_property ''q'' ''Query'' PString JNull)\<lparr>prop_description := Some ''Prefix match for list_groups.'',
           prop_display_options := Some \<lparr>show_when = [(''operation'', [JStr ''list_groups''])], hide_when =
           []\<rparr>\<rparr>,
       (mk_property ''filter'' ''Filter'' PString JNull)\<lparr>prop_description := Some
           ''SCIM-style filter expression.'', prop_display_options := Some \<lparr>show_when = [(''operation'', [JStr
           ''list_users'', JStr ''list_groups''])], hide_when = []\<rparr>\<rparr>,
       (mk_property ''after'' ''After'' PString JNull)\<lparr>prop_description := Some
           ''Opaque cursor from the previous page.'', prop_display_options := Some \<lparr>show_when =
           [(''operation'', [JStr ''list_users'', JStr ''list_groups''])], hide_when = []\<rparr>\<rparr>,
       (mk_property ''limit'' ''Limit'' PNumber JNull)\<lparr>prop_display_options := Some \<lparr>show_when =
           [(''operation'', [JStr ''list_users'', JStr ''list_groups''])], hide_when = []\<rparr>\<rparr>],
     documentation_url := Some ''https://developer.okta.com/docs/reference/core-okta-api/''\<rparr>"

definition ollama_spec :: node_spec where
  "ollama_spec =
   (mk_spec ''weftlyflow.ollama'' 1 ''Ollama''
     ''Run chat, completion, embeddings, or model listing on a self-hosted Ollama server.''
         ''icons/ollama.svg'' CatIntegration)\<lparr>spec_group := [''ai'', ''llm''],
     spec_credentials := [\<lparr>slot_name = ''ollama_api'', slot_credential_types = [''weftlyflow.ollama_api''],
         slot_required = False, slot_display_options = None\<rparr>],
     spec_properties :=
      [(mk_property ''operation'' ''Operation'' POptions (JStr ''chat''))\<lparr>prop_required := True, prop_options
          := Some [mk_option ''chat'' ''Chat'', mk_option ''generate'' ''Generate'', mk_option ''embeddings''
          ''Embeddings'', mk_option ''list_models'' ''List Models'']\<rparr>,
       (mk_property ''model'' ''Model'' PString (JStr ''llama3.2''))\<lparr>prop_display_options := Some \<lparr>show_when =
           [(''operation'', [JStr ''chat'', JStr ''embeddings'', JStr ''generate''])], hide_when = []\<rparr>\<rparr>,
       (mk_property ''messages'' ''Messages'' PJson JNull)\<lparr>prop_description := Some (''[{'' @ [CHR 0x22] @
           ''role'' @ [CHR 0x22] @ '': '' @ [CHR 0x22] @ ''user'' @ [CHR 0x22] @ '', '' @ [CHR 0x22] @
           ''content'' @ [CHR 0x22] @ '': '' @ [CHR 0x22] @ ''Hello'' @ [CHR 0x22] @ ''}, ...]''),
           prop_display_options := Some \<lparr>show_when = [(''operation'', [JStr ''chat''])], hide_when = []\<rparr>\<rparr>,
       (mk_property ''prompt'' ''Prompt'' PString JNull)\<lparr>prop_display_options := Some \<lparr>show_when =
           [(''operation'', [JStr ''embeddings'', JStr ''generate''])], hide_when = []\<rparr>\<rparr>,
       (mk_property ''system'' ''System Prompt'' PString JNull)\<lparr>prop_display_options := Some \<lparr>show_when =
           [(''operation'', [JStr ''generate''])], hide_when = []\<rparr>\<rparr>,
       (mk_property ''format'' ''Output Format'' PString JNull)\<lparr>prop_description := Some
           ''Set to 'json' to force JSON-mode output.'', prop_display_options := Some \<lparr>show_when =
           [(''operation'', [JStr ''generate'', JStr ''chat''])], hide_when = []\<rparr>\<rparr>,
       (mk_property ''options'' ''Options'' PJson JNull)\<lparr>prop_description := Some (''Sampling options, e.g. {''
           @ [CHR 0x22] @ ''temperature'' @ [CHR 0x22] @ '': 0.2, '' @ [CHR 0x22] @ ''num_predict'' @ [CHR
           0x22] @ '': 256}.''), prop_display_options := Some \<lparr>show_when = [(''operation'', [JStr ''chat'',
           JStr ''embeddings'', JStr ''generate''])], hide_when = []\<rparr>\<rparr>],
     documentation_url := Some ''https://github.com/ollama/ollama/blob/main/docs/api.md''\<rparr>"

definition onedrive_spec :: node_spec where
  "onedrive_spec =
   (mk_spec ''weftlyflow.onedrive'' 1 ''OneDrive''
     ''Manage OneDrive files and folders via Microsoft Graph.'' ''icons/onedrive.svg''
         CatIntegration)\<lparr>spec_group := [''productivity'', ''storage''],
     spec_credentials := [\<lparr>slot_name = ''microsoft_graph'', slot_credential_types =
         [''weftlyflow.microsoft_graph''], slot_required = True, slot_display_options = None\<rparr>],
     spec_properties :=
      [(mk_property ''operation'' ''Operation'' POptions (JStr ''list_children''))\<lparr>prop_required := True,
          prop_options := Some [mk_option ''list_children'' ''List Children'', mk_option ''get_item''
          ''Get Item'', mk_option ''upload_small'' ''Upload Small (<4 MiB)'', mk_option ''upload_large''
          ''Upload Large (session)'', mk_option ''download_item'' ''Download Item'', mk_option ''delete_item''
          ''Delete Item'']\<rparr>,
       (mk_property ''folder_path'' ''Folder Path'' PString JNull)\<lparr>prop_description := Some
           ''Drive-root-relative path; empty means drive root.'', prop_display_options := Some \<lparr>show_when =
           [(''operation'', [JStr ''list_children''])], hide_when = []\<rparr>\<rparr>,
       (mk_property ''file_path'' ''File Path'' PString JNull)\<lparr>prop_description := Some
           ''Drive-root-relative path for upload ops.'', prop_display_options := Some \<lparr>show_when =
           [(''operation'', [JStr ''upload_large'', JStr ''upload_small''])], hide_when = []\<rparr>\<rparr>,
       (mk_property ''item_id'' ''Item ID'' PString JNull)\<lparr>prop_description := Some
           ''Graph driveItem id (overrides file_path when set).'', prop_display_options := Some \<lparr>show_when =
           [(''operation'', [JStr ''delete_item'', JStr ''download_item'', JStr ''get_item''])], hide_when =
           []\<rparr>\<rparr>,
       (mk_property ''content_base64'' ''Content (base64)'' PString JNull)\<lparr>prop_description := Some
           ''File bytes base64-encoded.'', prop_display_options := Some \<lparr>show_when = [(''operation'', [JStr
           ''upload_large'', JStr ''upload_small''])], hide_when = []\<rparr>\<rparr>,
       (mk_property ''conflict_behavior'' ''Conflict Behavior'' POptions (JStr ''replace''))\<lparr>prop_options :=
           Some [mk_option ''replace'' ''Replace'', mk_option ''rename'' ''Rename'', mk_option ''fail''
           ''Fail''], prop_display_options := Some \<lparr>show_when = [(''operation'', [JStr ''upload_large'', JStr
           ''upload_small''])], hide_when = []\<rparr>\<rparr>,
       (mk_property ''chunk_size_bytes'' ''Chunk Size (bytes)'' PNumber (JInt 3276800))\<lparr>prop_description :=
           Some ''Upload chunk size; must be a multiple of 320 KiB.'', prop_display_options := Some \<lparr>show_when
           = [(''operation'', [JStr ''upload_large''])], hide_when = []\<rparr>\<rparr>,
       (mk_property ''$top'' ''Top'' PNumber JNull)\<lparr>prop_display_options := Some \<lparr>show_when = [(''operation'',
           [JStr ''list_children''])], hide_when = []\<rparr>\<rparr>,
       (mk_property ''$skip'' ''Skip'' PNumber JNull)\<lparr>prop_display_options := Some \<lparr>show_when =
           [(''operation'', [JStr ''list_children''])], hide_when = []\<rparr>\<rparr>,
       (mk_property ''$orderby'' ''Order By'' PString JNull)\<lparr>prop_display_options := Some \<lparr>show_when =
           [(''operation'', [JStr ''list_children''])], hide_when = []\<rparr>\<rparr>,
       (mk_property ''$select'' ''Select'' PString JNull)\<lparr>prop_display_options := Some \<lparr>show_when =
           [(''operation'', [JStr ''list_children''])], hide_when = []\<rparr>\<rparr>,
       (mk_property ''$filter'' ''Filter'' PString JNull)\<lparr>prop_display_options := Some \<lparr>show_when =
           [(''operation'', [JStr ''list_children''])], hide_when = []\<rparr>\<rparr>],
     documentation_url := Some ''https://learn.microsoft.com/en-us/graph/api/resources/onedrive''\<rparr>"

definition openai_spec :: node_spec where
  "openai_spec =
   (mk_spec ''weftlyflow.openai'' 1 ''OpenAI''
     ''Chat completions, embeddings, moderation, and images.'' ''icons/openai.svg'' CatIntegration)\<lparr>spec_group
         := [''ai'', ''llm''],
     spec_credentials := [\<lparr>slot_name = ''openai_api'', slot_credential_types = [''weftlyflow.openai_api''],
         slot_required = True, slot_display_options = None\<rparr>],
     spec_properties :=
      [(mk_property ''operation'' ''Operation'' POptions (JStr ''chat_completion''))\<lparr>prop_required := True,
          prop_options := Some [mk_option ''chat_completion'' ''Chat Completion'', mk_option
          ''create_embedding'' ''Create Embedding'', mk_option ''list_models'' ''List Models'', mk_option
          ''get_model'' ''Get Model'', mk_option ''create_moderation'' ''Create Moderation'', mk_option
          ''create_image'' ''Create Image'']\<rparr>,
       (mk_property ''model'' ''Model'' PString JNull)\<lparr>prop_description := Some
           ''Model ID (e.g. gpt-4o-mini, text-embedding-3-small).'', prop_display_options := Some \<lparr>show_when =
           [(''operation'', [JStr ''chat_completion'', JStr ''create_embedding'', JStr ''create_moderation'',
           JStr ''get_model''])], hide_when = []\<rparr>\<rparr>,
       (mk_property ''messages'' ''Messages'' PJson JNull)\<lparr>prop_description := Some (''[{'' @ [CHR 0x22] @
           ''role'' @ [CHR 0x22] @ '': '' @ [CHR 0x22] @ ''user'' @ [CHR 0x22] @ '', '' @ [CHR 0x22] @
           ''content'' @ [CHR 0x22] @ '': '' @ [CHR 0x22] @ ''...'' @ [CHR 0x22] @ ''}]''),
           prop_display_options := Some \<lparr>show_when = [(''operation'', [JStr ''chat_completion''])], hide_when =
           []\<rparr>\<rparr>,
       (mk_property ''temperature'' ''Temperature'' PNumber JNull)\<lparr>prop_display_options := Some \<lparr>show_when =
           [(''operation'', [JStr ''chat_completion''])], hide_when = []\<rparr>\<rparr>,
       (mk_property ''top_p'' ''Top P'' PNumber JNull)\<lparr>prop_display_options := Some \<lparr>show_when =
           [(''operation'', [JStr ''chat_completion''])], hide_when = []\<rparr>\<rparr>,
       (mk_property ''max_tokens'' ''Max Tokens'' PNumber JNull)\<lparr>prop_display_options := Some \<lparr>show_when =
           [(''operation'', [JStr ''chat_completion''])], hide_when = []\<rparr>\<rparr>,
       (mk_property ''response_format'' ''Response Format'' PString JNull)\<lparr>prop_description := Some
           ''Chat: 'text' or 'json_object'. Image: 'url' or 'b64_json'.'', prop_display_options := Some
           \<lparr>show_when = [(''operation'', [JStr ''chat_completion'', JStr ''create_image''])], hide_when = []\<rparr>\<rparr>,
       (mk_property ''tools'' ''Tools'' PJson JNull)\<lparr>prop_description := Some
           ''Optional tool-call spec array.'', prop_display_options := Some \<lparr>show_when = [(''operation'', [JStr
           ''chat_completion''])], hide_when = []\<rparr>\<rparr>,
       (mk_property ''input'' ''Input'' PString JNull)\<lparr>prop_description := Some
           ''String or JSON list of strings.'', prop_display_options := Some \<lparr>show_when = [(''operation'',
           [JStr ''create_embedding'', JStr ''create_moderation''])], hide_when = []\<rparr>\<rparr>,
       (mk_property ''dimensions'' ''Dimensions'' PNumber JNull)\<lparr>prop_display_options := Some \<lparr>show_when =
           [(''operation'', [JStr ''create_embedding''])], hide_when = []\<rparr>\<rparr>,
       (mk_property ''prompt'' ''Prompt'' PString JNull)\<lparr>prop_display_options := Some \<lparr>show_when =
           [(''operation'', [JStr ''create_image''])], hide_when = []\<rparr>\<rparr>,
       (mk_property ''size'' ''Size'' PString JNull)\<lparr>prop_description := Some ''e.g. 1024x1024.'',
           prop_display_options := Some \<lparr>show_when = [(''operation'', [JStr ''create_image''])], hide_when =
           []\<rparr>\<rparr>,
       (mk_property ''n'' ''Count'' PNumber JNull)\<lparr>prop_display_options := Some \<lparr>show_when = [(''operation'',
           [JStr ''create_image''])], hide_when = []\<rparr>\<rparr>],
     documentation_url := Some ''https://platform.openai.com/docs/api-reference''\<rparr>"

definition pagerduty_spec :: node_spec where
  "pagerduty_spec =
   (mk_spec ''weftlyflow.pagerduty'' 1 ''PagerDuty''
     ''Manage PagerDuty incidents via the REST v2 API.'' ''icons/pagerduty.svg'' CatIntegration)\<lparr>spec_group :=
         [''devops'', ''alerting''],
     spec_credentials := [\<lparr>slot_name = ''pagerduty_api'', slot_credential_types =
         [''weftlyflow.pagerduty_api''], slot_required = True, slot_display_options = None\<rparr>],
     spec_properties :=
      [(mk_property ''operation'' ''Operation'' POptions (JStr ''list_incidents''))\<lparr>prop_required := True,
          prop_options := Some [mk_option ''list_incidents'' ''List Incidents'', mk_option ''get_incident''
          ''Get Incident'', mk_option ''create_incident'' ''Create Incident'', mk_option ''update_incident''
          ''Update Incident'', mk_option ''add_note'' ''Add Note'']\<rparr>,
       (mk_property ''incident_id'' ''Incident ID'' PString JNull)\<lparr>prop_display_options := Some \<lparr>show_when =
           [(''operation'', [JStr ''add_note'', JStr ''get_incident'', JStr ''update_incident''])], hide_when =
           []\<rparr>\<rparr>,
       (mk_property ''title'' ''Title'' PString JNull)\<lparr>prop_display_options := Some \<lparr>show_when =
           [(''operation'', [JStr ''create_incident''])], hide_when = []\<rparr>\<rparr>,
       (mk_property ''service_id'' ''Service ID'' PString JNull)\<lparr>prop_display_options := Some \<lparr>show_when =
           [(''operation'', [JStr ''create_incident''])], hide_when = []\<rparr>\<rparr>,
       (mk_property ''urgency'' ''Urgency'' POptions JNull)\<lparr>prop_options := Some [mk_option ''high'' ''High'',
           mk_option ''low'' ''Low''], prop_display_options := Some \<lparr>show_when = [(''operation'', [JStr
           ''create_incident''])], hide_when = []\<rparr>\<rparr>,
       (mk_property ''body'' ''Incident Details'' PString JNull)\<lparr>prop_display_options := Some \<lparr>show_when =
           [(''operation'', [JStr ''create_incident''])], hide_when = []\<rparr>\<rparr>,
       (mk_property ''fields'' ''Fields'' PJson JNull)\<lparr>prop_description := Some
           ''Fields to patch (status, priority, resolution...).'', prop_display_options := Some \<lparr>show_when =
           [(''operation'', [JStr ''update_incident''])], hide_when = []\<rparr>\<rparr>,
       (mk_property ''content'' ''Note Content'' PString JNull)\<lparr>prop_display_options := Some \<lparr>show_when =
           [(''operation'', [JStr ''add_note''])], hide_when = []\<rparr>\<rparr>,
       (mk_property ''statuses'' ''Statuses'' PString JNull)\<lparr>prop_description := Some
           ''Comma-separated triggered/acknowledged/resolved.'', prop_display_options := Some \<lparr>show_when =
           [(''operation'', [JStr ''list_incidents''])], hide_when = []\<rparr>\<rparr>,
       (mk_property ''urgencies'' ''Urgencies'' PString JNull)\<lparr>prop_description := Some
           ''Comma-separated high/low.'', prop_display_options := Some \<lparr>show_when = [(''operation'', [JStr
           ''list_incidents''])], hide_when = []\<rparr>\<rparr>,
       (mk_property ''service_ids'' ''Service IDs'' PString JNull)\<lparr>prop_description := Some
           ''Comma-separated PagerDuty service IDs.'', prop_display_options := Some \<lparr>show_when =
           [(''operation'', [JStr ''list_incidents''])], hide_when = []\<rparr>\<rparr>,
       (mk_property ''limit'' ''Limit'' PNumber (JInt 25))\<lparr>prop_display_options := Some \<lparr>show_when =
           [(''operation'', [JStr ''list_incidents''])], hide_when = []\<rparr>\<rparr>,
       (mk_property ''offset'' ''Offset'' PNumber JNull)\<lparr>prop_display_options := Some \<lparr>show_when =
           [(''operation'', [JStr ''list_incidents''])], hide_when = []\<rparr>\<rparr>,
       (mk_property ''from_email'' ''From Email'' PString JNull)\<lparr>prop_description := Some
           ''Overrides the credential's From header.''\<rparr>],
     documentation_url := Some ''https://developer.pagerduty.com/api-reference/''\<rparr>"

definition paypal_spec :: node_spec where
  "paypal_spec =
   (mk_spec ''weftlyflow.paypal'' 1 ''PayPal''
     ''Create, capture, and refund PayPal v2 orders.'' ''icons/paypal.svg'' CatIntegration)\<lparr>spec_group :=
         [''payments'', ''commerce''],
     spec_credentials := [\<lparr>slot_name = ''paypal_api'', slot_credential_types = [''weftlyflow.paypal_api''],
         slot_required = True, slot_display_options = None\<rparr>],
     spec_properties :=
      [(mk_property ''operation'' ''Operation'' POptions (JStr ''create_order''))\<lparr>prop_required := True,
          prop_options := Some [mk_option ''create_order'' ''Create Order'', mk_option ''get_order''
          ''Get Order'', mk_option ''capture_order'' ''Capture Order'', mk_option ''refund_capture''
          ''Refund Capture'', mk_option ''list_invoices'' ''List Invoices'', mk_option ''get_invoice''
          ''Get Invoice'']\<rparr>,
       (mk_property ''intent'' ''Intent'' PString (JStr ''CAPTURE''))\<lparr>prop_description := Some
           ''CAPTURE | AUTHORIZE'', prop_display_options := Some \<lparr>show_when = [(''operation'', [JStr
           ''create_order''])], hide_when = []\<rparr>\<rparr>,
       (mk_property ''currency'' ''Currency Code'' PString (JStr ''USD''))\<lparr>prop_display_options := Some
           \<lparr>show_when = [(''operation'', [JStr ''create_order'', JStr ''refund_capture''])], hide_when = []\<rparr>\<rparr>,
       (mk_property ''amount'' ''Amount'' PString JNull)\<lparr>prop_description := Some (''Decimal string, e.g. '' @
           [CHR 0x22] @ ''10.99'' @ [CHR 0x22] @ ''.''), prop_display_options := Some \<lparr>show_when =
           [(''operation'', [JStr ''create_order'', JStr ''refund_capture''])], hide_when = []\<rparr>\<rparr>,
       (mk_property ''reference_id'' ''Reference ID'' PString JNull)\<lparr>prop_display_options := Some \<lparr>show_when =
           [(''operation'', [JStr ''create_order''])], hide_when = []\<rparr>\<rparr>,
       (mk_property ''order_id'' ''Order ID'' PString JNull)\<lparr>prop_display_options := Some \<lparr>show_when =
           [(''operation'', [JStr ''capture_order'', JStr ''get_order''])], hide_when = []\<rparr>\<rparr>,
       (mk_property ''capture_id'' ''Capture ID'' PString JNull)\<lparr>prop_display_options := Some \<lparr>show_when =
           [(''operation'', [JStr ''refund_capture''])], hide_when = []\<rparr>\<rparr>,
       (mk_property ''note_to_payer'' ''Note to Payer'' PString JNull)\<lparr>prop_display_options := Some \<lparr>show_when
           = [(''operation'', [JStr ''refund_capture''])], hide_when = []\<rparr>\<rparr>,
       (mk_property ''invoice_id'' ''Invoice ID'' PString JNull)\<lparr>prop_display_options := Some \<lparr>show_when =
           [(''operation'', [JStr ''get_invoice''])], hide_when = []\<rparr>\<rparr>,
       (mk_property ''page'' ''Page'' PNumber JNull)\<lparr>prop_display_options := Some \<lparr>show_when = [(''operation'',
           [JStr ''list_invoices''])], hide_when = []\<rparr>\<rparr>,
       (mk_property ''page_size'' ''Page Size'' PNumber JNull)\<lparr>prop_display_options := Some \<lparr>show_when =
           [(''operation'', [JStr ''list_invoices''])], hide_when = []\<rparr>\<rparr>,
       (mk_property ''total_required'' ''Include Totals'' PBoolean JNull)\<lparr>prop_display_options := Some
           \<lparr>show_when = [(''operation'', [JStr ''list_invoices''])], hide_when = []\<rparr>\<rparr>,
       (mk_property ''request_id'' ''PayPal-Request-Id Override'' PString JNull)\<lparr>prop_description := Some
           ''Auto-generated if blank - set for retry-safe writes.'', prop_display_options := Some \<lparr>show_when =
           [(''operation'', [JStr ''create_order'', JStr ''capture_order'', JStr ''refund_capture''])],
           hide_when = []\<rparr>\<rparr>],
     documentation_url := Some ''https://developer.paypal.com/api/rest/''\<rparr>"

definition pinecone_spec :: node_spec where
  "pinecone_spec =
   (mk_spec ''weftlyflow.pinecone'' 1 ''Pinecone''
     ''Manage indexes and vectors on Pinecone via the REST API.'' ''icons/pinecone.svg''
         CatIntegration)\<lparr>spec_group := [''ai'', ''vector-db''],
     spec_credentials := [\<lparr>slot_name = ''pinecone_api'', slot_credential_types = [''weftlyflow.pinecone_api''],
         slot_required = True, slot_display_options = None\<rparr>],
     spec_properties :=
      [(mk_property ''operation'' ''Operation'' POptions (JStr ''list_indexes''))\<lparr>prop_required := True,
          prop_options := Some [mk_option ''list_indexes'' ''List Indexes'', mk_option ''describe_index''
          ''Describe Index'', mk_option ''query_vectors'' ''Query Vectors'', mk_option ''upsert_vectors''
          ''Upsert Vectors'', mk_option ''fetch_vectors'' ''Fetch Vectors'', mk_option ''delete_vectors''
          ''Delete Vectors'']\<rparr>,
       (mk_property ''index_name'' ''Index Name'' PString JNull)\<lparr>prop_display_options := Some \<lparr>show_when =
           [(''operation'', [JStr ''describe_index''])], hide_when = []\<rparr>\<rparr>,
       (mk_property ''host'' ''Data-Plane Host'' PString JNull)\<lparr>prop_description := Some
           ''Per-index host, e.g. 'my-index-proj.svc.us-east-1-aws.pinecone.io'.'', prop_display_options :=
           Some \<lparr>show_when = [(''operation'', [JStr ''delete_vectors'', JStr ''fetch_vectors'', JStr
           ''query_vectors'', JStr ''upsert_vectors''])], hide_when = []\<rparr>\<rparr>,
       (mk_property ''namespace'' ''Namespace'' PString JNull)\<lparr>prop_display_options := Some \<lparr>show_when =
           [(''operation'', [JStr ''delete_vectors'', JStr ''fetch_vectors'', JStr ''query_vectors'', JStr
           ''upsert_vectors''])], hide_when = []\<rparr>\<rparr>,
       (mk_property ''top_k'' ''Top K'' PNumber (JInt 10))\<lparr>prop_display_options := Some \<lparr>show_when =
           [(''operation'', [JStr ''query_vectors''])], hide_when = []\<rparr>\<rparr>,
       (mk_property ''vector'' ''Query Vector'' PJson JNull)\<lparr>prop_description := Some
           ''Array of floats representing the query embedding.'', prop_display_options := Some \<lparr>show_when =
           [(''operation'', [JStr ''query_vectors''])], hide_when = []\<rparr>\<rparr>,
       (mk_property ''id'' ''Query by ID'' PString JNull)\<lparr>prop_description := Some
           ''Use a stored vector's id instead of an explicit vector.'', prop_display_options := Some \<lparr>show_when
           = [(''operation'', [JStr ''query_vectors''])], hide_when = []\<rparr>\<rparr>,
       (mk_property ''filter'' ''Metadata Filter'' PJson JNull)\<lparr>prop_description := Some
           ''Pinecone metadata filter expression.'', prop_display_options := Some \<lparr>show_when = [(''operation'',
           [JStr ''query_vectors'', JStr ''delete_vectors''])], hide_when = []\<rparr>\<rparr>,
       (mk_property ''include_values'' ''Include Values'' PBoolean (JBool False))\<lparr>prop_display_options := Some
           \<lparr>show_when = [(''operation'', [JStr ''query_vectors''])], hide_when = []\<rparr>\<rparr>,
       (mk_property ''include_metadata'' ''Include Metadata'' PBoolean (JBool True))\<lparr>prop_display_options :=
           Some \<lparr>show_when = [(''operation'', [JStr ''query_vectors''])], hide_when = []\<rparr>\<rparr>,
       (mk_property ''vectors'' ''Vectors'' PJson JNull)\<lparr>prop_description := Some
           ''Array of {id, values, metadata?} objects to upsert.'', prop_display_options := Some \<lparr>show_when =
           [(''operation'', [JStr ''upsert_vectors''])], hide_when = []\<rparr>\<rparr>,
       (mk_property ''ids'' ''Vector IDs'' PJson JNull)\<lparr>prop_description := Some ''Array of vector ids.'',
           prop_display_options := Some \<lparr>show_when = [(''operation'', [JStr ''fetch_vectors'', JStr
           ''delete_vectors''])], hide_when = []\<rparr>\<rparr>,
       (mk_property ''delete_all'' ''Delete All in Namespace'' PBoolean (JBool False))\<lparr>prop_display_options :=
           Some \<lparr>show_when = [(''operation'', [JStr ''delete_vectors''])], hide_when = []\<rparr>\<rparr>],
     documentation_url := Some ''https://docs.pinecone.io/reference/api/introduction''\<rparr>"

definition pipedrive_spec :: node_spec where
  "pipedrive_spec =
   (mk_spec ''weftlyflow.pipedrive'' 1 ''Pipedrive''
     ''Manage Pipedrive deals, persons, and activities.'' ''icons/pipedrive.svg'' CatIntegration)\<lparr>spec_group :=
         [''crm'', ''sales''],
     spec_credentials := [\<lparr>slot_name = ''pipedrive_api'', slot_credential_types =
         [''weftlyflow.pipedrive_api''], slot_required = True, slot_display_options = None\<rparr>],
     spec_properties :=
      [(mk_property ''operation'' ''Operation'' POptions (JStr ''list_deals''))\<lparr>prop_required := True,
          prop_options := Some [mk_option ''list_deals'' ''List Deals'', mk_option ''get_deal'' ''Get Deal'',
          mk_option ''create_deal'' ''Create Deal'', mk_option ''update_deal'' ''Update Deal'', mk_option
          ''create_person'' ''Create Person'', mk_option ''create_activity'' ''Create Activity'']\<rparr>,
       (mk_property ''deal_id'' ''Deal ID'' PString JNull)\<lparr>prop_display_options := Some \<lparr>show_when =
           [(''operation'', [JStr ''get_deal'', JStr ''update_deal''])], hide_when = []\<rparr>\<rparr>,
       (mk_property ''title'' ''Title'' PString JNull)\<lparr>prop_display_options := Some \<lparr>show_when =
           [(''operation'', [JStr ''create_deal''])], hide_when = []\<rparr>\<rparr>,
       (mk_property ''value'' ''Value'' PNumber JNull)\<lparr>prop_display_options := Some \<lparr>show_when =
           [(''operation'', [JStr ''create_deal''])], hide_when = []\<rparr>\<rparr>,
       (mk_property ''currency'' ''Currency'' PString JNull)\<lparr>prop_display_options := Some \<lparr>show_when =
           [(''operation'', [JStr ''create_deal''])], hide_when = []\<rparr>\<rparr>,
       (mk_property ''status'' ''Status'' POptions JNull)\<lparr>prop_options := Some [mk_option ''all_not_deleted''
           ''All Not Deleted'', mk_option ''deleted'' ''Deleted'', mk_option ''lost'' ''Lost'', mk_option
           ''open'' ''Open'', mk_option ''won'' ''Won''], prop_display_options := Some \<lparr>show_when =
           [(''operation'', [JStr ''create_deal'', JStr ''list_deals''])], hide_when = []\<rparr>\<rparr>,
       (mk_property ''person_id'' ''Person ID'' PString JNull)\<lparr>prop_display_options := Some \<lparr>show_when =
           [(''operation'', [JStr ''create_deal'', JStr ''create_activity''])], hide_when = []\<rparr>\<rparr>,
       (mk_property ''org_id'' ''Organization ID'' PString JNull)\<lparr>prop_display_options := Some \<lparr>show_when =
           [(''operation'', [JStr ''create_deal'', JStr ''create_person'', JStr ''create_activity''])],
           hide_when = []\<rparr>\<rparr>,
       (mk_property ''stage_id'' ''Stage ID'' PString JNull)\<lparr>prop_display_options := Some \<lparr>show_when =
           [(''operation'', [JStr ''create_deal''])], hide_when = []\<rparr>\<rparr>,
       (mk_property ''user_id'' ''User ID'' PString JNull)\<lparr>prop_display_options := Some \<lparr>show_when =
           [(''operation'', [JStr ''create_deal'', JStr ''create_activity''])], hide_when = []\<rparr>\<rparr>,
       (mk_property ''fields'' ''Fields'' PJson JNull)\<lparr>prop_description := Some
           ''JSON patch body for update_deal.'', prop_display_options := Some \<lparr>show_when = [(''operation'',
           [JStr ''update_deal''])], hide_when = []\<rparr>\<rparr>,
       (mk_property ''limit'' ''Limit'' PNumber (JInt 100))\<lparr>prop_display_options := Some \<lparr>show_when =
           [(''operation'', [JStr ''list_deals''])], hide_when = []\<rparr>\<rparr>,
       (mk_property ''start'' ''Start'' PNumber JNull)\<lparr>prop_display_options := Some \<lparr>show_when =
           [(''operation'', [JStr ''list_deals''])], hide_when = []\<rparr>\<rparr>,
       (mk_property ''owner_id'' ''Owner ID'' PString JNull)\<lparr>prop_display_options := Some \<lparr>show_when =
           [(''operation'', [JStr ''list_deals''])], hide_when = []\<rparr>\<rparr>,
       (mk_property ''name'' ''Name'' PString JNull)\<lparr>prop_display_options := Some \<lparr>show_when = [(''operation'',
           [JStr ''create_person''])], hide_when = []\<rparr>\<rparr>,
       (mk_property ''emails'' ''Emails'' PString JNull)\<lparr>prop_description := Some
           ''Comma-separated list of emails.'', prop_display_options := Some \<lparr>show_when = [(''operation'',
           [JStr ''create_person''])], hide_when = []\<rparr>\<rparr>,
       (mk_property ''phones'' ''Phones'' PString JNull)\<lparr>prop_description := Some
           ''Comma-separated list of phone numbers.'', prop_display_options := Some \<lparr>show_when =
           [(''operation'', [JStr ''create_person''])], hide_when = []\<rparr>\<rparr>,
       (mk_property ''subject'' ''Subject'' PString JNull)\<lparr>prop_display_options := Some \<lparr>show_when =
           [(''operation'', [JStr ''create_activity''])], hide_when = []\<rparr>\<rparr>,
       (mk_property ''type'' ''Activity Type'' PString JNull)\<lparr>prop_description := Some
           ''Pipedrive activity-type key (e.g. 'call', 'meeting').'', prop_display_options := Some \<lparr>show_when =
           [(''operation'', [JStr ''create_activity''])], hide_when = []\<rparr>\<rparr>,
       (mk_property ''due_date'' ''Due Date'' PString JNull)\<lparr>prop_description := Some
           ''ISO date (YYYY-MM-DD).'', prop_display_options := Some \<lparr>show_when = [(''operation'', [JStr
           ''create_activity''])], hide_when = []\<rparr>\<rparr>,
       (mk_property ''due_time'' ''Due Time'' PString JNull)\<lparr>prop_description := Some
           ''24-hour time (HH:MM).'', prop_display_options := Some \<lparr>show_when = [(''operation'', [JStr
           ''create_activity''])], hide_when = []\<rparr>\<rparr>,
       (mk_property ''duration'' ''Duration'' PString JNull)\<lparr>prop_description := Some ''Duration (HH:MM).'',
           prop_display_options := Some \<lparr>show_when = [(''operation'', [JStr ''create_activity''])], hide_when =
           []\<rparr>\<rparr>,
       (mk_property ''note'' ''Note'' PString JNull)\<lparr>prop_display_options := Some \<lparr>show_when = [(''operation'',
           [JStr ''create_activity''])], hide_when = []\<rparr>\<rparr>],
     documentation_url := Some ''https://developers.pipedrive.com/docs/api/v1/''\<rparr>"

definition plaid_spec :: node_spec where
  "plaid_spec =
   (mk_spec ''weftlyflow.plaid'' 1 ''Plaid''
     ''Create link tokens, read items/accounts, and sync transactions via Plaid.'' ''icons/plaid.svg''
         CatIntegration)\<lparr>spec_group := [''finance''],
     spec_credentials := [\<lparr>slot_name = ''plaid_api'', slot_credential_types = [''weftlyflow.plaid_api''],
         slot_required = True, slot_display_options = None\<rparr>],
     spec_properties :=
      [(mk_property ''operation'' ''Operation'' POptions (JStr ''link_token_create''))\<lparr>prop_required := True,
          prop_options := Some [mk_option ''link_token_create'' ''Create Link Token'', mk_option ''item_get''
          ''Get Item'', mk_option ''accounts_get'' ''Get Accounts'', mk_option ''transactions_sync''
          ''Sync Transactions'']\<rparr>,
       (mk_property ''client_name'' ''Client Name'' PString JNull)\<lparr>prop_display_options := Some \<lparr>show_when =
           [(''operation'', [JStr ''link_token_create''])], hide_when = []\<rparr>\<rparr>,
       (mk_property ''client_user_id'' ''Client User ID'' PString JNull)\<lparr>prop_display_options := Some
           \<lparr>show_when = [(''operation'', [JStr ''link_token_create''])], hide_when = []\<rparr>\<rparr>,
       (mk_property ''products'' ''Products'' PJson JNull)\<lparr>prop_description := Some
           (''List of Plaid products, e.g. ['' @ [CHR 0x22] @ ''auth'' @ [CHR 0x22] @ '', '' @ [CHR 0x22] @
           ''transactions'' @ [CHR 0x22] @ ''].''), prop_display_options := Some \<lparr>show_when = [(''operation'',
           [JStr ''link_token_create''])], hide_when = []\<rparr>\<rparr>,
       (mk_property ''country_codes'' ''Country Codes'' PJson JNull)\<lparr>prop_description := Some
           (''List of two-letter country codes, e.g. ['' @ [CHR 0x22] @ ''US'' @ [CHR 0x22] @ ''].''),
           prop_display_options := Some \<lparr>show_when = [(''operation'', [JStr ''link_token_create''])], hide_when
           = []\<rparr>\<rparr>,
       (mk_property ''language'' ''Language'' PString (JStr ''en''))\<lparr>prop_display_options := Some \<lparr>show_when =
           [(''operation'', [JStr ''link_token_create''])], hide_when = []\<rparr>\<rparr>,
       (mk_property ''webhook'' ''Webhook URL'' PString JNull)\<lparr>prop_display_options := Some \<lparr>show_when =
           [(''operation'', [JStr ''link_token_create''])], hide_when = []\<rparr>\<rparr>,
       (mk_property ''access_token'' ''Access Token'' PString JNull)\<lparr>prop_display_options := Some \<lparr>show_when =
           [(''operation'', [JStr ''item_get'', JStr ''accounts_get'', JStr ''transactions_sync''])], hide_when
           = []\<rparr>, prop_type_options := Some [(''password'', JBool True)]\<rparr>,
       (mk_property ''account_ids'' ''Account IDs'' PJson JNull)\<lparr>prop_display_options := Some \<lparr>show_when =
           [(''operation'', [JStr ''accounts_get''])], hide_when = []\<rparr>\<rparr>,
       (mk_property ''cursor'' ''Cursor'' PString JNull)\<lparr>prop_description := Some
           ''Previous sync cursor - omit for initial sync.'', prop_display_options := Some \<lparr>show_when =
           [(''operation'', [JStr ''transactions_sync''])], hide_when = []\<rparr>\<rparr>,
       (mk_property ''count'' ''Count'' PNumber JNull)\<lparr>prop_display_options := Some \<lparr>show_when =
           [(''operation'', [JStr ''transactions_sync''])], hide_when = []\<rparr>\<rparr>],
     documentation_url := Some ''https://plaid.com/docs/api/''\<rparr>"

definition posthog_spec :: node_spec where
  "posthog_spec =
   (mk_spec ''weftlyflow.posthog'' 1 ''PostHog''
     ''Capture events, batch-ingest, identify users, and evaluate feature flags.'' ''icons/posthog.svg''
         CatIntegration)\<lparr>spec_group := [''analytics''],
     spec_credentials := [\<lparr>slot_name = ''posthog_api'', slot_credential_types = [''weftlyflow.posthog_api''],
         slot_required = True, slot_display_options = None\<rparr>],
     spec_properties :=
      [(mk_property ''operation'' ''Operation'' POptions (JStr ''capture''))\<lparr>prop_required := True,
          prop_options := Some [mk_option ''capture'' ''Capture Event'', mk_option ''identify''
          ''Identify User'', mk_option ''alias'' ''Alias'', mk_option ''batch'' ''Batch Ingest'', mk_option
          ''decide'' ''Decide (Feature Flags)'']\<rparr>,
       (mk_property ''distinct_id'' ''Distinct ID'' PString JNull)\<lparr>prop_display_options := Some \<lparr>show_when =
           [(''operation'', [JStr ''capture'', JStr ''identify'', JStr ''alias'', JStr ''decide''])], hide_when
           = []\<rparr>\<rparr>,
       (mk_property ''event'' ''Event Name'' PString JNull)\<lparr>prop_display_options := Some \<lparr>show_when =
           [(''operation'', [JStr ''capture''])], hide_when = []\<rparr>\<rparr>,
       (mk_property ''alias'' ''Alias ID'' PString JNull)\<lparr>prop_display_options := Some \<lparr>show_when =
           [(''operation'', [JStr ''alias''])], hide_when = []\<rparr>\<rparr>,
       (mk_property ''properties'' ''Properties'' PJson JNull)\<lparr>prop_display_options := Some \<lparr>show_when =
           [(''operation'', [JStr ''capture'', JStr ''identify'', JStr ''alias''])], hide_when = []\<rparr>\<rparr>,
       (mk_property ''set'' ''$set Traits'' PJson JNull)\<lparr>prop_display_options := Some \<lparr>show_when =
           [(''operation'', [JStr ''identify''])], hide_when = []\<rparr>\<rparr>,
       (mk_property ''set_once'' ''$set_once Traits'' PJson JNull)\<lparr>prop_display_options := Some \<lparr>show_when =
           [(''operation'', [JStr ''identify''])], hide_when = []\<rparr>\<rparr>,
       (mk_property ''events'' ''Events (array)'' PJson JNull)\<lparr>prop_description := Some
           ''Array of event dicts for /batch.'', prop_display_options := Some \<lparr>show_when = [(''operation'',
           [JStr ''batch''])], hide_when = []\<rparr>\<rparr>,
       (mk_property ''groups'' ''Groups'' PJson JNull)\<lparr>prop_display_options := Some \<lparr>show_when =
           [(''operation'', [JStr ''decide''])], hide_when = []\<rparr>\<rparr>,
       (mk_property ''person_properties'' ''Person Properties'' PJson JNull)\<lparr>prop_display_options := Some
           \<lparr>show_when = [(''operation'', [JStr ''decide''])], hide_when = []\<rparr>\<rparr>,
       (mk_property ''timestamp'' ''Timestamp (ISO-8601)'' PString JNull)\<lparr>prop_display_options := Some
           \<lparr>show_when = [(''operation'', [JStr ''capture'', JStr ''identify'', JStr ''alias''])], hide_when =
           []\<rparr>\<rparr>],
     documentation_url := Some ''https://posthog.com/docs/api''\<rparr>"

definition integration_catalog_3 :: "node_spec list" where
  "integration_catalog_3 =
     [mailchimp_spec, mailgun_spec, mapbox_spec, mattermost_spec,
      microsoft_graph_spec, mistral_spec, mixpanel_spec, monday_spec,
      mongodb_atlas_spec, netsuite_spec, notion_spec, okta_spec,
      ollama_spec, onedrive_spec, openai_spec, pagerduty_spec,
      paypal_spec, pinecone_spec, pipedrive_spec, plaid_spec,
      posthog_spec]"

lemma integration_catalog_3_ok: "list_all spec_ok integration_catalog_3"
  by code_simp

lemma integration_catalog_3_names:
  "map short_key integration_catalog_3 =
     [''mailchimp'', ''mailgun'', ''mapbox'', ''mattermost'', ''microsoft_graph'', ''mistral'', ''mixpanel'',
         ''monday'', ''mongodb_atlas'', ''netsuite'', ''notion'', ''okta'', ''ollama'', ''onedrive'',
         ''openai'', ''pagerduty'', ''paypal'', ''pinecone'', ''pipedrive'', ''plaid'', ''posthog'']"
  by code_simp

lemma integration_catalog_3_slots:
  "concat (map slot_slugs integration_catalog_3) =
     [''weftlyflow.mailchimp_api'', ''weftlyflow.basic_auth'', ''weftlyflow.mapbox_api'',
         ''weftlyflow.mattermost_api'', ''weftlyflow.microsoft_graph'', ''weftlyflow.mistral_api'',
         ''weftlyflow.mixpanel_api'', ''weftlyflow.monday_api'', ''weftlyflow.mongodb_atlas_api'',
         ''weftlyflow.netsuite_api'', ''weftlyflow.notion_api'', ''weftlyflow.okta_api'',
         ''weftlyflow.ollama_api'', ''weftlyflow.microsoft_graph'', ''weftlyflow.openai_api'',
         ''weftlyflow.pagerduty_api'', ''weftlyflow.paypal_api'', ''weftlyflow.pinecone_api'',
         ''weftlyflow.pipedrive_api'', ''weftlyflow.plaid_api'', ''weftlyflow.posthog_api'']"
  by code_simp

end
