(* ===== verification/Integration_Specs_4.thy ===== *)
theory Integration_Specs_4
  imports Node_Registry
begin

text \<open>
  The node specifications of the integrations from \<open>pushover\<close> to \<open>zoom\<close>, \<open>nodes/integrations/*/node.py\<close>, one
  \<^typ>\<open>node_spec\<close> per node class, field by field as in the source. Constants of \<open>constants.py\<close>
  stand with their values; a dash, an arrow or an ellipsis in a descriptive text is written in ASCII, and
  a list made from a frozen set is in alphabetical order. All of them are well-formed.
\<close>

definition pushover_spec :: node_spec where
  "pushover_spec =
   (mk_spec ''weftlyflow.pushover'' 1 ''Pushover''
     ''Send Pushover push notifications and device glances.'' ''icons/pushover.svg'' CatIntegration)\<lparr>spec_group
         := [''notifications'', ''messaging''],
     spec_credentials := [\<lparr>slot_name = ''pushover_api'', slot_credential_types = [''weftlyflow.pushover_api''],
         slot_required = True, slot_display_options = None\<rparr>],
     spec_properties :=
      [(mk_property ''operation'' ''Operation'' POptions (JStr ''send_notification''))\<lparr>prop_required := True,
          prop_options := Some [mk_option ''send_notification'' ''Send Notification'', mk_option
          ''send_glance'' ''Send Glance'']\<rparr>,
       (mk_property ''message'' ''Message'' PString JNull)\<lparr>prop_description := Some
           ''Notification body (up to 1024 chars).'', prop_display_options := Some \<lparr>show_when =
           [(''operation'', [JStr ''send_notification''])], hide_when = []\<rparr>\<rparr>,
       (mk_property ''title'' ''Title'' PString JNull)\<lparr>prop_display_options := Some \<lparr>show_when =
           [(''operation'', [JStr ''send_notification'', JStr ''send_glance''])], hide_when = []\<rparr>\<rparr>,
       (mk_property ''url'' ''URL'' PString JNull)\<lparr>prop_display_options := Some \<lparr>show_when = [(''operation'',
           [JStr ''send_notification''])], hide_when = []\<rparr>\<rparr>,
       (mk_property ''url_title'' ''URL Title'' PString JNull)\<lparr>prop_display_options := Some \<lparr>show_when =
           [(''operation'', [JStr ''send_notification''])], hide_when = []\<rparr>\<rparr>,
       (mk_property ''priority'' ''Priority'' PNumber JNull)\<lparr>prop_description := Some
           ''Integer in [-2, 2]; 2 requires retry + expire.'', prop_display_options := Some \<lparr>show_when =
           [(''operation'', [JStr ''send_notification''])], hide_when = []\<rparr>\<rparr>,
       (mk_property ''retry'' ''Retry (seconds)'' PNumber JNull)\<lparr>prop_description := Some
           ''Resend interval for emergency priority (>= 30).'', prop_display_options := Some \<lparr>show_when =
           [(''operation'', [JStr ''send_notification''])], hide_when = []\<rparr>\<rparr>,
       (mk_property ''expire'' ''Expire (seconds)'' PNumber JNull)\<lparr>prop_description := Some
           ''Total retry duration for emergency priority.'', prop_display_options := Some \<lparr>show_when =
           [(''operation'', [JStr ''send_notification''])], hide_when = []\<rparr>\<rparr>,
       (mk_property ''sound'' ''Sound'' PString JNull)\<lparr>prop_display_options := Some \<lparr>show_when =
           [(''operation'', [JStr ''send_notification''])], hide_when = []\<rparr>\<rparr>,
       (mk_property ''device'' ''Device'' PString JNull)\<lparr>prop_description := Some
           ''Target device name (empty = all devices).'', prop_display_options := Some \<lparr>show_when =
           [(''operation'', [JStr ''send_notification'', JStr ''send_glance''])], hide_when = []\<rparr>\<rparr>,
       (mk_property ''html'' ''HTML'' PBoolean JNull)\<lparr>prop_description := Some
           ''Render message as limited HTML.'', prop_display_options := Some \<lparr>show_when = [(''operation'',
           [JStr ''send_notification''])], hide_when = []\<rparr>\<rparr>,
       (mk_property ''text'' ''Text'' PString JNull)\<lparr>prop_display_options := Some \<lparr>show_when = [(''operation'',
           [JStr ''send_glance''])], hide_when = []\<rparr>\<rparr>,
       (mk_property ''subtext'' ''Subtext'' PString JNull)\<lparr>prop_display_options := Some \<lparr>show_when =
           [(''operation'', [JStr ''send_glance''])], hide_when = []\<rparr>\<rparr>,
       (mk_property ''count'' ''Count'' PNumber JNull)\<lparr>prop_display_options := Some \<lparr>show_when =
           [(''operation'', [JStr ''send_glance''])], hide_when = []\<rparr>\<rparr>,
       (mk_property ''percent'' ''Percent'' PNumber JNull)\<lparr>prop_description := Some ''Integer in [0, 100].'',
           prop_display_options := Some \<lparr>show_when = [(''operation'', [JStr ''send_glance''])], hide_when =
           []\<rparr>\<rparr>],
     documentation_url := Some ''https://pushover.net/api''\<rparr>"

definition quickbooks_spec :: node_spec where
  "quickbooks_spec =
   (mk_spec ''weftlyflow.quickbooks'' 1 ''QuickBooks Online''
     ''Query SQL and CRUD invoices/customers via the QBO v3 API.'' ''icons/quickbooks.svg''
         CatIntegration)\<lparr>spec_group := [''accounting'', ''finance''],
     spec_credentials := [\<lparr>slot_name = ''quickbooks_oauth2'', slot_credential_types =
         [''weftlyflow.quickbooks_oauth2''], slot_required = True, slot_display_options = None\<rparr>],
     spec_properties :=
      [(mk_property ''operation'' ''Operation'' POptions (JStr ''query''))\<lparr>prop_required := True, prop_options
          := Some [mk_option ''query'' ''Query'', mk_option ''get_invoice'' ''Get Invoice'', mk_option
          ''create_invoice'' ''Create Invoice'', mk_option ''get_customer'' ''Get Customer'', mk_option
          ''create_customer'' ''Create Customer'']\<rparr>,
       (mk_property ''query'' ''Query'' PString JNull)\<lparr>prop_description := Some
           ''QuickBooks SQL (e.g. SELECT * FROM Customer).'', prop_display_options := Some \<lparr>show_when =
           [(''operation'', [JStr ''query''])], hide_when = []\<rparr>\<rparr>,
       (mk_property ''invoice_id'' ''Invoice ID'' PString JNull)\<lparr>prop_display_options := Some \<lparr>show_when =
           [(''operation'', [JStr ''create_invoice'', JStr ''get_invoice''])], hide_when = []\<rparr>\<rparr>,
       (mk_property ''customer_id'' ''Customer ID'' PString JNull)\<lparr>prop_display_options := Some \<lparr>show_when =
           [(''operation'', [JStr ''create_customer'', JStr ''get_customer''])], hide_when = []\<rparr>\<rparr>,
       (mk_property ''document'' ''Document'' PJson JNull)\<lparr>prop_description := Some
           ''Invoice/customer body - naked JSON, no wrapper.'', prop_display_options := Some \<lparr>show_when =
           [(''operation'', [JStr ''create_customer'', JStr ''create_invoice''])], hide_when = []\<rparr>\<rparr>],
     documentation_url := Some ''https://developer.intuit.com/app/developer/qbo/docs/api/accounting''\<rparr>"

definition reddit_spec :: node_spec where
  "reddit_spec =
   (mk_spec ''weftlyflow.reddit'' 1 ''Reddit''
     ''Read user info, submit posts, and browse subreddits via the Reddit API.'' ''icons/reddit.svg''
         CatIntegration)\<lparr>spec_group := [''social''],
     spec_credentials := [\<lparr>slot_name = ''reddit_oauth2'', slot_credential_types =
         [''weftlyflow.reddit_oauth2''], slot_required = True, slot_display_options = None\<rparr>],
     spec_properties :=
      [(mk_property ''operation'' ''Operation'' POptions (JStr ''get_me''))\<lparr>prop_required := True, prop_options
          := Some [mk_option ''get_me'' ''Get Authenticated User'', mk_option ''submit_post'' ''Submit Post'',
          mk_option ''get_subreddit'' ''Get Subreddit'', mk_option ''list_hot'' ''List Hot Posts'']\<rparr>,
       (mk_property ''subreddit'' ''Subreddit'' PString JNull)\<lparr>prop_display_options := Some \<lparr>show_when =
           [(''operation'', [JStr ''submit_post'', JStr ''get_subreddit'', JStr ''list_hot''])], hide_when =
           []\<rparr>\<rparr>,
       (mk_property ''title'' ''Title'' PString JNull)\<lparr>prop_display_options := Some \<lparr>show_when =
           [(''operation'', [JStr ''submit_post''])], hide_when = []\<rparr>\<rparr>,
       (mk_property ''kind'' ''Kind'' POptions (JStr ''self''))\<lparr>prop_options := Some [mk_option ''self''
           ''Self (Text)'', mk_option ''link'' ''Link''], prop_display_options := Some \<lparr>show_when =
           [(''operation'', [JStr ''submit_post''])], hide_when = []\<rparr>\<rparr>,
       (mk_property ''url'' ''URL'' PString JNull)\<lparr>prop_display_options := Some \<lparr>show_when = [(''operation'',
           [JStr ''submit_post'']), (''kind'', [JStr ''link''])], hide_when = []\<rparr>\<rparr>,
       (mk_property ''text'' ''Body (Markdown)'' PString JNull)\<lparr>prop_display_options := Some \<lparr>show_when =
           [(''operation'', [JStr ''submit_post'']), (''kind'', [JStr ''self''])], hide_when = []\<rparr>\<rparr>,
       (mk_property ''nsfw'' ''NSFW'' PBoolean JNull)\<lparr>prop_display_options := Some \<lparr>show_when =
           [(''operation'', [JStr ''submit_post''])], hide_when = []\<rparr>\<rparr>,
       (mk_property ''limit'' ''Limit'' PNumber JNull)\<lparr>prop_display_options := Some \<lparr>show_when =
           [(''operation'', [JStr ''list_hot''])], hide_when = []\<rparr>\<rparr>,
       (mk_property ''after'' ''After (pagination token)'' PString JNull)\<lparr>prop_display_options := Some
           \<lparr>show_when = [(''operation'', [JStr ''list_hot''])], hide_when = []\<rparr>\<rparr>],
     documentation_url := Some ''https://www.reddit.com/dev/api/''\<rparr>"

definition rocket_chat_spec :: node_spec where
  "rocket_chat_spec =
   (mk_spec ''weftlyflow.rocket_chat'' 1 ''Rocket.Chat''
     ''Post, update, delete messages; list/create channels on Rocket.Chat.'' ''icons/rocket_chat.svg''
         CatIntegration)\<lparr>spec_group := [''communication'', ''chat''],
     spec_credentials := [\<lparr>slot_name = ''rocket_chat_api'', slot_credential_types =
         [''weftlyflow.rocket_chat_api''], slot_required = True, slot_display_options = None\<rparr>],
     spec_properties :=
      [(mk_property ''operation'' ''Operation'' POptions (JStr ''post_message''))\<lparr>prop_required := True,
          prop_options := Some [mk_option ''post_message'' ''Post Message'', mk_option ''update_message''
          ''Update Message'', mk_option ''delete_message'' ''Delete Message'', mk_option ''list_channels''
          ''List Channels'', mk_option ''create_channel'' ''Create Channel'', mk_option ''get_user''
          ''Get User'']\<rparr>,
       (mk_property ''room_id'' ''Room ID'' PString JNull)\<lparr>prop_display_options := Some \<lparr>show_when =
           [(''operation'', [JStr ''delete_message'', JStr ''post_message'', JStr ''update_message''])],
           hide_when = []\<rparr>\<rparr>,
       (mk_property ''text'' ''Text'' PString JNull)\<lparr>prop_display_options := Some \<lparr>show_when = [(''operation'',
           [JStr ''post_message'', JStr ''update_message''])], hide_when = []\<rparr>\<rparr>,
       (mk_property ''message_id'' ''Message ID'' PString JNull)\<lparr>prop_display_options := Some \<lparr>show_when =
           [(''operation'', [JStr ''update_message'', JStr ''delete_message''])], hide_when = []\<rparr>\<rparr>,
       (mk_property ''alias'' ''Alias'' PString JNull)\<lparr>prop_display_options := Some \<lparr>show_when =
           [(''operation'', [JStr ''post_message''])], hide_when = []\<rparr>\<rparr>,
       (mk_property ''emoji'' ''Emoji'' PString JNull)\<lparr>prop_display_options := Some \<lparr>show_when =
           [(''operation'', [JStr ''post_message''])], hide_when = []\<rparr>\<rparr>,
       (mk_property ''attachments'' ''Attachments'' PJson JNull)\<lparr>prop_display_options := Some \<lparr>show_when =
           [(''operation'', [JStr ''post_message''])], hide_when = []\<rparr>\<rparr>,
       (mk_property ''name'' ''Channel Name'' PString JNull)\<lparr>prop_display_options := Some \<lparr>show_when =
           [(''operation'', [JStr ''create_channel''])], hide_when = []\<rparr>\<rparr>,
       (mk_property ''members'' ''Members'' PJson JNull)\<lparr>prop_description := Some
           ''Array of usernames to invite on creation.'', prop_display_options := Some \<lparr>show_when =
           [(''operation'', [JStr ''create_channel''])], hide_when = []\<rparr>\<rparr>,
       (mk_property ''read_only'' ''Read Only'' PBoolean JNull)\<lparr>prop_display_options := Some \<lparr>show_when =
           [(''operation'', [JStr ''create_channel''])], hide_when = []\<rparr>\<rparr>,
       (mk_property ''user_id'' ''User ID'' PString JNull)\<lparr>prop_display_options := Some \<lparr>show_when =
           [(''operation'', [JStr ''get_user''])], hide_when = []\<rparr>\<rparr>,
       (mk_property ''username'' ''Username'' PString JNull)\<lparr>prop_display_options := Some \<lparr>show_when =
           [(''operation'', [JStr ''get_user''])], hide_when = []\<rparr>\<rparr>,
       (mk_property ''count'' ''Count'' PNumber JNull)\<lparr>prop_display_options := Some \<lparr>show_when =
           [(''operation'', [JStr ''list_channels''])], hide_when = []\<rparr>\<rparr>,
       (mk_property ''offset'' ''Offset'' PNumber JNull)\<lparr>prop_display_options := Some \<lparr>show_when =
           [(''operation'', [JStr ''list_channels''])], hide_when = []\<rparr>\<rparr>],
     documentation_url := Some ''https://developer.rocket.chat/reference/api/rest-api''\<rparr>"

definition salesforce_spec :: node_spec where
  "salesforce_spec =
   (mk_spec ''weftlyflow.salesforce'' 1 ''Salesforce''
     ''Query and mutate Salesforce sobjects via REST.'' ''icons/salesforce.svg'' CatIntegration)\<lparr>spec_group :=
         [''crm'', ''sales''],
     spec_credentials := [\<lparr>slot_name = ''salesforce_api'', slot_credential_types =
         [''weftlyflow.salesforce_api''], slot_required = True, slot_display_options = None\<rparr>],
     spec_properties :=
      [(mk_property ''operation'' ''Operation'' POptions (JStr ''list_records''))\<lparr>prop_required := True,
          prop_options := Some [mk_option ''list_records'' ''List Records'', mk_option ''get_record''
          ''Get Record'', mk_option ''create_record'' ''Create Record'', mk_option ''update_record''
          ''Update Record'', mk_option ''delete_record'' ''Delete Record'', mk_option ''query''
          ''SOQL Query'']\<rparr>,
       (mk_property ''sobject'' ''SObject'' PString JNull)\<lparr>prop_description := Some
           ''API name (Account, Contact, Foo__c).'', prop_display_options := Some \<lparr>show_when = [(''operation'',
           [JStr ''create_record'', JStr ''delete_record'', JStr ''get_record'', JStr ''list_records'', JStr
           ''update_record''])], hide_when = []\<rparr>\<rparr>,
       (mk_property ''record_id'' ''Record ID'' PString JNull)\<lparr>prop_display_options := Some \<lparr>show_when =
           [(''operation'', [JStr ''delete_record'', JStr ''get_record'', JStr ''update_record''])], hide_when
           = []\<rparr>\<rparr>,
       (mk_property ''document'' ''Fields'' PJson JNull)\<lparr>prop_description := Some
           ''Field payload for create/update.'', prop_display_options := Some \<lparr>show_when = [(''operation'',
           [JStr ''create_record'', JStr ''update_record''])], hide_when = []\<rparr>\<rparr>,
       (mk_property ''fields'' ''Fields'' PString JNull)\<lparr>prop_description := Some
           ''Comma-separated field API names to select.'', prop_display_options := Some \<lparr>show_when =
           [(''operation'', [JStr ''list_records'', JStr ''get_record''])], hide_when = []\<rparr>\<rparr>,
       (mk_property ''where'' ''Where'' PString JNull)\<lparr>prop_description := Some
           ''SOQL WHERE clause (without the keyword).'', prop_display_options := Some \<lparr>show_when =
           [(''operation'', [JStr ''list_records''])], hide_when = []\<rparr>\<rparr>,
       (mk_property ''order_by'' ''Order By'' PString JNull)\<lparr>prop_display_options := Some \<lparr>show_when =
           [(''operation'', [JStr ''list_records''])], hide_when = []\<rparr>\<rparr>,
       (mk_property ''limit'' ''Limit'' PNumber JNull)\<lparr>prop_display_options := Some \<lparr>show_when =
           [(''operation'', [JStr ''list_records''])], hide_when = []\<rparr>\<rparr>,
       (mk_property ''soql'' ''SOQL'' PString JNull)\<lparr>prop_description := Some ''Raw SOQL query string.'',
           prop_display_options := Some \<lparr>show_when = [(''operation'', [JStr ''query''])], hide_when = []\<rparr>\<rparr>,
       (mk_property ''api_version'' ''API Version'' PString JNull)\<lparr>prop_description := Some
           ''Override the default v58.0.''\<rparr>],
     documentation_url := Some ''https://developer.salesforce.com/docs/atlas.en-us.api_rest.meta/api_rest/''\<rparr>"

definition segment_spec :: node_spec where
  "segment_spec =
   (mk_spec ''weftlyflow.segment'' 1 ''Segment''
     ''Track, identify, group, page, and alias via the Segment HTTP API.'' ''icons/segment.svg''
         CatIntegration)\<lparr>spec_group := [''analytics''],
     spec_credentials := [\<lparr>slot_name = ''segment_write_key'', slot_credential_types =
         [''weftlyflow.segment_write_key''], slot_required = True, slot_display_options = None\<rparr>],
     spec_properties :=
      [(mk_property ''operation'' ''Operation'' POptions (JStr ''track''))\<lparr>prop_required := True, prop_options
          := Some [mk_option ''track'' ''Track'', mk_option ''identify'' ''Identify'', mk_option ''group''
          ''Group'', mk_option ''page'' ''Page'', mk_option ''alias'' ''Alias'']\<rparr>,
       (mk_property ''userId'' ''User ID'' PString JNull)\<lparr>prop_description := Some
           ''Known user id - required if 'anonymousId' is absent.''\<rparr>,
       (mk_property ''anonymousId'' ''Anonymous ID'' PString JNull)\<lparr>prop_description := Some
           ''Pre-login id - required if 'userId' is absent.''\<rparr>,
       (mk_property ''event'' ''Event Name'' PString JNull)\<lparr>prop_display_options := Some \<lparr>show_when =
           [(''operation'', [JStr ''track''])], hide_when = []\<rparr>\<rparr>,
       (mk_property ''groupId'' ''Group ID'' PString JNull)\<lparr>prop_display_options := Some \<lparr>show_when =
           [(''operation'', [JStr ''group''])], hide_when = []\<rparr>\<rparr>,
       (mk_property ''previousId'' ''Previous ID'' PString JNull)\<lparr>prop_display_options := Some \<lparr>show_when =
           [(''operation'', [JStr ''alias''])], hide_when = []\<rparr>\<rparr>,
       (mk_property ''properties'' ''Properties'' PJson JNull)\<lparr>prop_display_options := Some \<lparr>show_when =
           [(''operation'', [JStr ''track'', JStr ''page''])], hide_when = []\<rparr>\<rparr>,
       (mk_property ''traits'' ''Traits'' PJson JNull)\<lparr>prop_display_options := Some \<lparr>show_when =
           [(''operation'', [JStr ''identify'', JStr ''group''])], hide_when = []\<rparr>\<rparr>,
       (mk_property ''name'' ''Page Name'' PString JNull)\<lparr>prop_display_options := Some \<lparr>show_when =
           [(''operation'', [JStr ''page''])], hide_when = []\<rparr>\<rparr>,
       (mk_property ''category'' ''Page Category'' PString JNull)\<lparr>prop_display_options := Some \<lparr>show_when =
           [(''operation'', [JStr ''page''])], hide_when = []\<rparr>\<rparr>,
       (mk_property ''context'' ''Context'' PJson JNull)\<lparr>prop_description := Some
           ''Optional Segment 'context' envelope merged into the body.''\<rparr>,
       mk_property ''timestamp'' ''Timestamp (ISO-8601)'' PString JNull],
     documentation_url := Some
         ''https://segment.com/docs/connections/sources/catalog/libraries/server/http-api/''\<rparr>"

definition sendgrid_spec :: node_spec where
  "sendgrid_spec =
   (mk_spec ''weftlyflow.sendgrid'' 1 ''SendGrid''
     ''Send transactional email via SendGrid's v3 Mail Send API.'' ''icons/sendgrid.svg''
         CatIntegration)\<lparr>spec_group := [''communication'', ''email''],
     spec_credentials := [\<lparr>slot_name = ''sendgrid_api'', slot_credential_types = [''weftlyflow.bearer_token''],
         slot_required = True, slot_display_options = None\<rparr>],
     spec_properties :=
      [(mk_property ''operation'' ''Operation'' POptions (JStr ''send_email''))\<lparr>prop_required := True,
          prop_options := Some [mk_option ''send_email'' ''Send Email'']\<rparr>,
       (mk_property ''from_email'' ''From Email'' PString JNull)\<lparr>prop_description := Some
           ''Falls back to the credential's default_from_email.''\<rparr>,
       mk_property ''from_name'' ''From Name'' PString JNull,
       (mk_property ''to'' ''To'' PString JNull)\<lparr>prop_required := True, prop_description := Some
           ''Comma-separated recipient addresses (or a list).''\<rparr>,
       mk_property ''cc'' ''Cc'' PString JNull,
       mk_property ''bcc'' ''Bcc'' PString JNull,
       mk_property ''reply_to'' ''Reply-To'' PString JNull,
       (mk_property ''subject'' ''Subject'' PString JNull)\<lparr>prop_required := True\<rparr>,
       mk_property ''text'' ''Plain Text Body'' PString JNull,
       mk_property ''html'' ''HTML Body'' PString JNull],
     documentation_url := Some ''https://docs.sendgrid.com/api-reference/mail-send/mail-send''\<rparr>"

definition shopify_spec :: node_spec where
  "shopify_spec =
   (mk_spec ''weftlyflow.shopify'' 1 ''Shopify''
     ''Manage Shopify products and orders via the Admin REST API.'' ''icons/shopify.svg''
         CatIntegration)\<lparr>spec_group := [''e-commerce''],
     spec_credentials := [\<lparr>slot_name = ''shopify_admin'', slot_credential_types =
         [''weftlyflow.shopify_admin''], slot_required = True, slot_display_options = None\<rparr>],
     spec_properties :=
      [(mk_property ''operation'' ''Operation'' POptions (JStr ''list_products''))\<lparr>prop_required := True,
          prop_options := Some [mk_option ''list_products'' ''List Products'', mk_option ''get_product''
          ''Get Product'', mk_option ''create_product'' ''Create Product'', mk_option ''update_product''
          ''Update Product'', mk_option ''list_orders'' ''List Orders'', mk_option ''get_order''
          ''Get Order'']\<rparr>,
       (mk_property ''product_id'' ''Product ID'' PString JNull)\<lparr>prop_display_options := Some \<lparr>show_when =
           [(''operation'', [JStr ''get_product'', JStr ''update_product''])], hide_when = []\<rparr>\<rparr>,
       (mk_property ''order_id'' ''Order ID'' PString JNull)\<lparr>prop_display_options := Some \<lparr>show_when =
           [(''operation'', [JStr ''get_order''])], hide_when = []\<rparr>\<rparr>,
       (mk_property ''product'' ''Product'' PJson JNull)\<lparr>prop_description := Some
           ''Shopify product object (include 'title' on create).'', prop_display_options := Some \<lparr>show_when =
           [(''operation'', [JStr ''create_product'', JStr ''update_product''])], hide_when = []\<rparr>\<rparr>,
       (mk_property ''limit'' ''Limit'' PNumber (JInt 50))\<lparr>prop_display_options := Some \<lparr>show_when =
           [(''operation'', [JStr ''list_orders'', JStr ''list_products''])], hide_when = []\<rparr>\<rparr>,
       (mk_property ''since_id'' ''Since ID'' PString JNull)\<lparr>prop_display_options := Some \<lparr>show_when =
           [(''operation'', [JStr ''list_orders'', JStr ''list_products''])], hide_when = []\<rparr>\<rparr>,
       (mk_property ''vendor'' ''Vendor'' PString JNull)\<lparr>prop_display_options := Some \<lparr>show_when =
           [(''operation'', [JStr ''list_products''])], hide_when = []\<rparr>\<rparr>,
       (mk_property ''status'' ''Status'' POptions (JStr []))\<lparr>prop_options := Some [mk_option [] ''(default)'',
           mk_option ''open'' ''Open'', mk_option ''closed'' ''Closed'', mk_option ''cancelled'' ''Cancelled'',
           mk_option ''any'' ''Any''], prop_display_options := Some \<lparr>show_when = [(''operation'', [JStr
           ''list_orders''])], hide_when = []\<rparr>\<rparr>],
     documentation_url := Some ''https://shopify.dev/docs/api/admin-rest''\<rparr>"

definition slack_spec :: node_spec where
  "slack_spec =
   (mk_spec ''weftlyflow.slack'' 1 ''Slack''
     ''Post, update, or delete Slack messages and list channels.'' ''icons/slack.svg''
         CatIntegration)\<lparr>spec_group := [''communication'', ''chat''],
     spec_credentials := [\<lparr>slot_name = ''slack_api'', slot_credential_types = [''weftlyflow.slack_api'',
         ''weftlyflow.slack_oauth2''], slot_required = True, slot_display_options = None\<rparr>],
     spec_properties :=
      [(mk_property ''operation'' ''Operation'' POptions (JStr ''post_message''))\<lparr>prop_required := True,
          prop_options := Some [mk_option ''post_message'' ''Post Message'', mk_option ''update_message''
          ''Update Message'', mk_option ''delete_message'' ''Delete Message'', mk_option ''list_channels''
          ''List Channels'', mk_option ''get_channel_history'' ''Get Channel History'', mk_option
          ''add_reaction'' ''Add Reaction'', mk_option ''list_users'' ''List Users'']\<rparr>,
       (mk_property ''channel'' ''Channel'' PString JNull)\<lparr>prop_description := Some
           ''Channel id (C0123...) or name (#general).'', prop_display_options := Some \<lparr>show_when =
           [(''operation'', [JStr ''delete_message'', JStr ''post_message'', JStr ''update_message'', JStr
           ''add_reaction'', JStr ''get_channel_history''])], hide_when = []\<rparr>\<rparr>,
       (mk_property ''text'' ''Text'' PString JNull)\<lparr>prop_description := Some
           ''Message text. Supports Slack mrkdwn.'', prop_display_options := Some \<lparr>show_when = [(''operation'',
           [JStr ''post_message'', JStr ''update_message''])], hide_when = []\<rparr>\<rparr>,
       (mk_property ''blocks'' ''Blocks'' PJson JNull)\<lparr>prop_description := Some
           ''Optional Block Kit payload (list of block objects).'', prop_display_options := Some \<lparr>show_when =
           [(''operation'', [JStr ''post_message'', JStr ''update_message''])], hide_when = []\<rparr>\<rparr>,
       (mk_property ''ts'' ''Message Timestamp'' PString JNull)\<lparr>prop_description := Some
           ''The 'ts' value of the target message.'', prop_display_options := Some \<lparr>show_when =
           [(''operation'', [JStr ''update_message'', JStr ''delete_message'', JStr ''add_reaction''])],
           hide_when = []\<rparr>\<rparr>,
       (mk_property ''emoji'' ''Emoji'' PString JNull)\<lparr>prop_description := Some
           ''Emoji name - e.g. 'thumbsup' (no surrounding colons).'', prop_display_options := Some \<lparr>show_when =
           [(''operation'', [JStr ''add_reaction''])], hide_when = []\<rparr>\<rparr>,
       (mk_property ''oldest'' ''Oldest'' PString JNull)\<lparr>prop_description := Some
           ''Return history starting at this Slack ts (exclusive).'', prop_display_options := Some \<lparr>show_when =
           [(''operation'', [JStr ''get_channel_history''])], hide_when = []\<rparr>\<rparr>,
       (mk_property ''latest'' ''Latest'' PString JNull)\<lparr>prop_description := Some
           ''Return history up to this Slack ts (exclusive).'', prop_display_options := Some \<lparr>show_when =
           [(''operation'', [JStr ''get_channel_history''])], hide_when = []\<rparr>\<rparr>,
       (mk_property ''inclusive'' ''Inclusive'' PBoolean (JBool False))\<lparr>prop_description := Some
           ''Include messages at oldest/latest boundaries.'', prop_display_options := Some \<lparr>show_when =
           [(''operation'', [JStr ''get_channel_history''])], hide_when = []\<rparr>\<rparr>,
       (mk_property ''include_locale'' ''Include Locale'' PBoolean (JBool False))\<lparr>prop_display_options := Some
           \<lparr>show_when = [(''operation'', [JStr ''list_users''])], hide_when = []\<rparr>\<rparr>,
       (mk_property ''thread_ts'' ''Thread Timestamp'' PString JNull)\<lparr>prop_description := Some
           ''Reply in-thread by pointing at the parent message ts.'', prop_display_options := Some \<lparr>show_when =
           [(''operation'', [JStr ''post_message''])], hide_when = []\<rparr>\<rparr>,
       (mk_property ''as_markdown'' ''Parse as Markdown'' PBoolean (JBool True))\<lparr>prop_display_options := Some
           \<lparr>show_when = [(''operation'', [JStr ''post_message'', JStr ''update_message''])], hide_when = []\<rparr>\<rparr>,
       (mk_property ''unfurl_links'' ''Unfurl Links'' PBoolean (JBool True))\<lparr>prop_display_options := Some
           \<lparr>show_when = [(''operation'', [JStr ''post_message''])], hide_when = []\<rparr>\<rparr>,
       (mk_property ''limit'' ''Limit'' PNumber (JInt 100))\<lparr>prop_display_options := Some \<lparr>show_when =
           [(''operation'', [JStr ''get_channel_history'', JStr ''list_channels'', JStr ''list_users''])],
           hide_when = []\<rparr>\<rparr>,
       (mk_property ''cursor'' ''Cursor'' PString JNull)\<lparr>prop_display_options := Some \<lparr>show_when =
           [(''operation'', [JStr ''get_channel_history'', JStr ''list_channels'', JStr ''list_users''])],
           hide_when = []\<rparr>\<rparr>,
       (mk_property ''types'' ''Channel Types'' PString (JStr ''public_channel''))\<lparr>prop_description := Some
           ''Comma-separated: public_channel, private_channel, im, mpim.'', prop_display_options := Some
           \<lparr>show_when = [(''operation'', [JStr ''list_channels''])], hide_when = []\<rparr>\<rparr>,
       (mk_property ''exclude_archived'' ''Exclude Archived'' PBoolean (JBool True))\<lparr>prop_display_options :=
           Some \<lparr>show_when = [(''operation'', [JStr ''list_channels''])], hide_when = []\<rparr>\<rparr>],
     documentation_url := Some ''https://api.slack.com/methods''\<rparr>"

definition snowflake_spec :: node_spec where
  "snowflake_spec =
   (mk_spec ''weftlyflow.snowflake'' 1 ''Snowflake''
     ''Execute Snowflake SQL statements via the v2 SQL API.'' ''icons/snowflake.svg''
         CatIntegration)\<lparr>spec_group := [''database'', ''data-warehouse''],
     spec_credentials := [\<lparr>slot_name = ''snowflake_api'', slot_credential_types =
         [''weftlyflow.snowflake_api''], slot_required = True, slot_display_options = None\<rparr>],
     spec_properties :=
      [(mk_property ''operation'' ''Operation'' POptions (JStr ''execute''))\<lparr>prop_required := True,
          prop_options := Some [mk_option ''execute'' ''Execute Statement'', mk_option ''get_status''
          ''Get Status / Results'', mk_option ''cancel'' ''Cancel Statement'']\<rparr>,
       (mk_property ''statement'' ''SQL Statement'' PString JNull)\<lparr>prop_description := Some
           ''SQL text to execute.'', prop_display_options := Some \<lparr>show_when = [(''operation'', [JStr
           ''execute''])], hide_when = []\<rparr>\<rparr>,
       (mk_property ''statement_handle'' ''Statement Handle'' PString JNull)\<lparr>prop_display_options := Some
           \<lparr>show_when = [(''operation'', [JStr ''cancel'', JStr ''get_status''])], hide_when = []\<rparr>\<rparr>,
       (mk_property ''warehouse'' ''Warehouse'' PString JNull)\<lparr>prop_display_options := Some \<lparr>show_when =
           [(''operation'', [JStr ''execute''])], hide_when = []\<rparr>\<rparr>,
       (mk_property ''database'' ''Database'' PString JNull)\<lparr>prop_display_options := Some \<lparr>show_when =
           [(''operation'', [JStr ''execute''])], hide_when = []\<rparr>\<rparr>,
       (mk_property ''schema'' ''Schema'' PString JNull)\<lparr>prop_display_options := Some \<lparr>show_when =
           [(''operation'', [JStr ''execute''])], hide_when = []\<rparr>\<rparr>,
       (mk_property ''role'' ''Role'' PString JNull)\<lparr>prop_display_options := Some \<lparr>show_when = [(''operation'',
           [JStr ''execute''])], hide_when = []\<rparr>\<rparr>,
       (mk_property ''timeout'' ''Timeout (seconds)'' PNumber JNull)\<lparr>prop_description := Some
           ''Server-side wait; 0 forces async handle return.'', prop_display_options := Some \<lparr>show_when =
           [(''operation'', [JStr ''execute''])], hide_when = []\<rparr>\<rparr>,
       (mk_property ''bindings'' ''Bindings'' PJson JNull)\<lparr>prop_description := Some (''Positional binds: {'' @
           [CHR 0x22] @ ''1'' @ [CHR 0x22] @ '': {'' @ [CHR 0x22] @ ''type'' @ [CHR 0x22] @ '': '' @ [CHR 0x22]
           @ ''TEXT'' @ [CHR 0x22] @ '', '' @ [CHR 0x22] @ ''value'' @ [CHR 0x22] @ '': '' @ [CHR 0x22] @ ''x''
           @ [CHR 0x22] @ ''}}.''), prop_display_options := Some \<lparr>show_when = [(''operation'', [JStr
           ''execute''])], hide_when = []\<rparr>\<rparr>,
       (mk_property ''async_exec'' ''Force Async'' PBoolean JNull)\<lparr>prop_description := Some
           ''Send ?async=true - always return a handle.'', prop_display_options := Some \<lparr>show_when =
           [(''operation'', [JStr ''execute''])], hide_when = []\<rparr>\<rparr>,
       (mk_property ''request_id'' ''Request ID'' PString JNull)\<lparr>prop_description := Some
           ''Idempotency key for retries.'', prop_display_options := Some \<lparr>show_when = [(''operation'', [JStr
           ''execute''])], hide_when = []\<rparr>\<rparr>,
       (mk_property ''partition'' ''Partition'' PNumber JNull)\<lparr>prop_display_options := Some \<lparr>show_when =
           [(''operation'', [JStr ''get_status''])], hide_when = []\<rparr>\<rparr>,
       (mk_property ''page_size'' ''Page Size'' PNumber JNull)\<lparr>prop_display_options := Some \<lparr>show_when =
           [(''operation'', [JStr ''get_status''])], hide_when = []\<rparr>\<rparr>],
     documentation_url := Some ''https://docs.snowflake.com/en/developer-guide/sql-api/index''\<rparr>"

definition square_spec :: node_spec where
  "square_spec =
   (mk_spec ''weftlyflow.square'' 1 ''Square''
     ''Manage Square customers, payments, and orders.'' ''icons/square.svg'' CatIntegration)\<lparr>spec_group :=
         [''payments'', ''commerce''],
     spec_credentials := [\<lparr>slot_name = ''square_api'', slot_credential_types = [''weftlyflow.square_api''],
         slot_required = True, slot_display_options = None\<rparr>],
     spec_properties :=
      [(mk_property ''operation'' ''Operation'' POptions (JStr ''list_customers''))\<lparr>prop_required := True,
          prop_options := Some [mk_option ''list_customers'' ''List Customers'', mk_option ''get_customer''
          ''Get Customer'', mk_option ''create_customer'' ''Create Customer'', mk_option ''list_payments''
          ''List Payments'', mk_option ''create_payment'' ''Create Payment'', mk_option ''search_orders''
          ''Search Orders'']\<rparr>,
       (mk_property ''customer_id'' ''Customer ID'' PString JNull)\<lparr>prop_display_options := Some \<lparr>show_when =
           [(''operation'', [JStr ''get_customer''])], hide_when = []\<rparr>\<rparr>,
       (mk_property ''document'' ''Customer Document'' PJson JNull)\<lparr>prop_description := Some (''{'' @ [CHR
           0x22] @ ''given_name'' @ [CHR 0x22] @ '': '' @ [CHR 0x22] @ ''...'' @ [CHR 0x22] @ '', '' @ [CHR
           0x22] @ ''email_address'' @ [CHR 0x22] @ '': '' @ [CHR 0x22] @ ''...'' @ [CHR 0x22] @ '', ...}''),
           prop_display_options := Some \<lparr>show_when = [(''operation'', [JStr ''create_customer''])], hide_when =
           []\<rparr>\<rparr>,
       (mk_property ''cursor'' ''Cursor'' PString JNull)\<lparr>prop_display_options := Some \<lparr>show_when =
           [(''operation'', [JStr ''list_customers'', JStr ''list_payments'', JStr ''search_orders''])],
           hide_when = []\<rparr>\<rparr>,
       (mk_property ''limit'' ''Limit'' PNumber JNull)\<lparr>prop_display_options := Some \<lparr>show_when =
           [(''operation'', [JStr ''list_customers'', JStr ''list_payments'', JStr ''search_orders''])],
           hide_when = []\<rparr>\<rparr>,
       (mk_property ''begin_time'' ''Begin Time (RFC3339)'' PString JNull)\<lparr>prop_display_options := Some
           \<lparr>show_when = [(''operation'', [JStr ''list_payments''])], hide_when = []\<rparr>\<rparr>,
       (mk_property ''end_time'' ''End Time (RFC3339)'' PString JNull)\<lparr>prop_display_options := Some \<lparr>show_when
           = [(''operation'', [JStr ''list_payments''])], hide_when = []\<rparr>\<rparr>,
       (mk_property ''location_id'' ''Location ID'' PString JNull)\<lparr>prop_display_options := Some \<lparr>show_when =
           [(''operation'', [JStr ''list_payments'', JStr ''create_payment''])], hide_when = []\<rparr>\<rparr>,
       (mk_property ''source_id'' ''Source ID'' PString JNull)\<lparr>prop_description := Some
           ''Tokenized card or wallet source.'', prop_display_options := Some \<lparr>show_when = [(''operation'',
           [JStr ''create_payment''])], hide_when = []\<rparr>\<rparr>,
       (mk_property ''amount'' ''Amount (smallest unit)'' PNumber JNull)\<lparr>prop_description := Some
           ''e.g. 1099 = $10.99 USD.'', prop_display_options := Some \<lparr>show_when = [(''operation'', [JStr
           ''create_payment''])], hide_when = []\<rparr>\<rparr>,
       (mk_property ''currency'' ''Currency'' PString (JStr ''USD''))\<lparr>prop_display_options := Some \<lparr>show_when =
           [(''operation'', [JStr ''create_payment''])], hide_when = []\<rparr>\<rparr>,
       (mk_property ''idempotency_key'' ''Idempotency Key'' PString JNull)\<lparr>prop_description := Some
           ''Auto-generated if blank - override for retry safety.'', prop_display_options := Some \<lparr>show_when =
           [(''operation'', [JStr ''create_payment''])], hide_when = []\<rparr>\<rparr>,
       (mk_property ''location_ids'' ''Location IDs'' PString JNull)\<lparr>prop_description := Some
           ''Comma-separated location ids or JSON list.'', prop_display_options := Some \<lparr>show_when =
           [(''operation'', [JStr ''search_orders''])], hide_when = []\<rparr>\<rparr>,
       (mk_property ''query'' ''Query Filter'' PJson JNull)\<lparr>prop_description := Some
           ''Square SearchOrders 'query' object.'', prop_display_options := Some \<lparr>show_when = [(''operation'',
           [JStr ''search_orders''])], hide_when = []\<rparr>\<rparr>],
     documentation_url := Some ''https://developer.squareup.com/reference/square''\<rparr>"

definition stripe_spec :: node_spec where
  "stripe_spec =
   (mk_spec ''weftlyflow.stripe'' 1 ''Stripe''
     ''Create customers, list customers, create payment intents.'' ''icons/stripe.svg''
         CatIntegration)\<lparr>spec_group := [''payments'', ''e-commerce''],
     spec_credentials := [\<lparr>slot_name = ''stripe_api'', slot_credential_types = [''weftlyflow.bearer_token''],
         slot_required = True, slot_display_options = None\<rparr>],
     spec_properties :=
      [(mk_property ''operation'' ''Operation'' POptions (JStr ''create_customer''))\<lparr>prop_required := True,
          prop_options := Some [mk_option ''create_customer'' ''Create Customer'', mk_option ''list_customers''
          ''List Customers'', mk_option ''create_payment_intent'' ''Create Payment Intent'']\<rparr>,
       (mk_property ''email'' ''Email'' PString JNull)\<lparr>prop_display_options := Some \<lparr>show_when =
           [(''operation'', [JStr ''create_customer'', JStr ''list_customers''])], hide_when = []\<rparr>\<rparr>,
       (mk_property ''name'' ''Name'' PString JNull)\<lparr>prop_display_options := Some \<lparr>show_when = [(''operation'',
           [JStr ''create_customer''])], hide_when = []\<rparr>\<rparr>,
       (mk_property ''description'' ''Description'' PString JNull)\<lparr>prop_display_options := Some \<lparr>show_when =
           [(''operation'', [JStr ''create_customer'', JStr ''create_payment_intent''])], hide_when = []\<rparr>\<rparr>,
       (mk_property ''metadata'' ''Metadata'' PJson JNull)\<lparr>prop_description := Some
           ''Flat object of metadata key/value pairs.'', prop_display_options := Some \<lparr>show_when =
           [(''operation'', [JStr ''create_customer'', JStr ''create_payment_intent''])], hide_when = []\<rparr>\<rparr>,
       (mk_property ''amount'' ''Amount (in smallest currency unit)'' PNumber JNull)\<lparr>prop_description := Some
           ''E.g. 2000 = $20.00 USD.'', prop_display_options := Some \<lparr>show_when = [(''operation'', [JStr
           ''create_payment_intent''])], hide_when = []\<rparr>\<rparr>,
       (mk_property ''currency'' ''Currency'' PString (JStr ''usd''))\<lparr>prop_description := Some
           ''3-letter ISO 4217 code (lowercase).'', prop_display_options := Some \<lparr>show_when = [(''operation'',
           [JStr ''create_payment_intent''])], hide_when = []\<rparr>\<rparr>,
       (mk_property ''customer'' ''Customer ID'' PString JNull)\<lparr>prop_description := Some
           ''Attach the PaymentIntent to an existing Stripe customer.'', prop_display_options := Some
           \<lparr>show_when = [(''operation'', [JStr ''create_payment_intent''])], hide_when = []\<rparr>\<rparr>,
       (mk_property ''payment_method_types'' ''Payment Method Types'' PString (JStr ''card''))\<lparr>prop_description
           := Some ''Comma-separated list, e.g. 'card,us_bank_account'.'', prop_display_options := Some
           \<lparr>show_when = [(''operation'', [JStr ''create_payment_intent''])], hide_when = []\<rparr>\<rparr>,
       (mk_property ''limit'' ''Limit'' PNumber (JInt 10))\<lparr>prop_display_options := Some \<lparr>show_when =
           [(''operation'', [JStr ''list_customers''])], hide_when = []\<rparr>\<rparr>,
       (mk_property ''starting_after'' ''Starting After'' PString JNull)\<lparr>prop_description := Some
           ''Cursor for pagination (customer id).'', prop_display_options := Some \<lparr>show_when = [(''operation'',
           [JStr ''list_customers''])], hide_when = []\<rparr>\<rparr>,
       (mk_property ''idempotency_key'' ''Idempotency Key'' PString JNull)\<lparr>prop_description := Some
           ''Optional Idempotency-Key header.''\<rparr>],
     documentation_url := Some ''https://stripe.com/docs/api''\<rparr>"

definition supabase_spec :: node_spec where
  "supabase_spec =
   (mk_spec ''weftlyflow.supabase'' 1 ''Supabase''
     ''Read and write rows in a Supabase project via PostgREST.'' ''icons/supabase.svg''
         CatIntegration)\<lparr>spec_group := [''database'', ''postgres''],
     spec_credentials := [\<lparr>slot_name = ''supabase_api'', slot_credential_types = [''weftlyflow.supabase_api''],
         slot_required = True, slot_display_options = None\<rparr>],
     spec_properties :=
      [(mk_property ''operation'' ''Operation'' POptions (JStr ''select''))\<lparr>prop_required := True, prop_options
          := Some [mk_option ''select'' ''Select'', mk_option ''insert'' ''Insert'', mk_option ''update''
          ''Update'', mk_option ''delete'' ''Delete'', mk_option ''upsert'' ''Upsert'']\<rparr>,
       (mk_property ''table'' ''Table'' PString JNull)\<lparr>prop_required := True, prop_description := Some
           ''Postgres table name (must be exposed via PostgREST).''\<rparr>,
       (mk_property ''filters'' ''Filters'' PJson JNull)\<lparr>prop_description := Some
           ''Column > operator-value map, e.g. {'id': 'eq.1', 'age': 'gte.18'}. Bare values become 'eq.<v>'.'',
           prop_display_options := Some \<lparr>show_when = [(''operation'', [JStr ''delete'', JStr ''select'', JStr
           ''update''])], hide_when = []\<rparr>\<rparr>,
       (mk_property ''rows'' ''Rows'' PJson JNull)\<lparr>prop_description := Some
           ''JSON object or list of objects to insert/upsert.'', prop_display_options := Some \<lparr>show_when =
           [(''operation'', [JStr ''insert'', JStr ''upsert''])], hide_when = []\<rparr>\<rparr>,
       (mk_property ''fields'' ''Fields'' PJson JNull)\<lparr>prop_description := Some
           ''Columns > new value map for update.'', prop_display_options := Some \<lparr>show_when = [(''operation'',
           [JStr ''update''])], hide_when = []\<rparr>\<rparr>,
       (mk_property ''select'' ''Select'' PString JNull)\<lparr>prop_description := Some
           ''Comma-separated columns to return (default: *).'', prop_display_options := Some \<lparr>show_when =
           [(''operation'', [JStr ''select''])], hide_when = []\<rparr>\<rparr>,
       (mk_property ''order'' ''Order'' PString JNull)\<lparr>prop_description := Some
           ''Column ordering, e.g. 'created_at.desc'.'', prop_display_options := Some \<lparr>show_when =
           [(''operation'', [JStr ''select''])], hide_when = []\<rparr>\<rparr>,
       (mk_property ''limit'' ''Limit'' PNumber JNull)\<lparr>prop_display_options := Some \<lparr>show_when =
           [(''operation'', [JStr ''select''])], hide_when = []\<rparr>\<rparr>,
       (mk_property ''offset'' ''Offset'' PNumber JNull)\<lparr>prop_display_options := Some \<lparr>show_when =
           [(''operation'', [JStr ''select''])], hide_when = []\<rparr>\<rparr>,
       (mk_property ''on_conflict'' ''On Conflict'' PString JNull)\<lparr>prop_description := Some
           ''Column name(s) for upsert conflict target.'', prop_display_options := Some \<lparr>show_when =
           [(''operation'', [JStr ''upsert''])], hide_when = []\<rparr>\<rparr>,
       (mk_property ''return_representation'' ''Return Representation'' PBoolean (JBool True))\<lparr>prop_description
           := Some ''When true, ask PostgREST to echo affected rows back.'', prop_display_options := Some
           \<lparr>show_when = [(''operation'', [JStr ''delete'', JStr ''insert'', JStr ''update'', JStr
           ''upsert''])], hide_when = []\<rparr>\<rparr>],
     documentation_url := Some ''https://supabase.com/docs/guides/database/api''\<rparr>"

definition telegram_spec :: node_spec where
  "telegram_spec =
   (mk_spec ''weftlyflow.telegram'' 1 ''Telegram''
     ''Send and manage messages via the Telegram Bot API.'' ''icons/telegram.svg'' CatIntegration)\<lparr>spec_group
         := [''communication'', ''chat''],
     spec_credentials := [\<lparr>slot_name = ''telegram_bot'', slot_credential_types = [''weftlyflow.telegram_bot''],
         slot_required = True, slot_display_options = None\<rparr>],
     spec_properties :=
      [(mk_property ''operation'' ''Operation'' POptions (JStr ''send_message''))\<lparr>prop_required := True,
          prop_options := Some [mk_option ''send_message'' ''Send Message'', mk_option ''send_photo''
          ''Send Photo'', mk_option ''edit_message_text'' ''Edit Message Text'', mk_option ''delete_message''
          ''Delete Message'', mk_option ''get_updates'' ''Get Updates'']\<rparr>,
       (mk_property ''chat_id'' ''Chat ID'' PString JNull)\<lparr>prop_description := Some
           ''Numeric chat id or '@channelusername'.'', prop_display_options := Some \<lparr>show_when =
           [(''operation'', [JStr ''delete_message'', JStr ''edit_message_text'', JStr ''send_message'', JStr
           ''send_photo''])], hide_when = []\<rparr>\<rparr>,
       (mk_property ''text'' ''Text'' PString JNull)\<lparr>prop_display_options := Some \<lparr>show_when = [(''operation'',
           [JStr ''send_message'', JStr ''edit_message_text''])], hide_when = []\<rparr>\<rparr>,
       (mk_property ''photo'' ''Photo'' PString JNull)\<lparr>prop_description := Some
           ''Photo URL or pre-uploaded file_id.'', prop_display_options := Some \<lparr>show_when = [(''operation'',
           [JStr ''send_photo''])], hide_when = []\<rparr>\<rparr>,
       (mk_property ''caption'' ''Caption'' PString JNull)\<lparr>prop_display_options := Some \<lparr>show_when =
           [(''operation'', [JStr ''send_photo''])], hide_when = []\<rparr>\<rparr>,
       (mk_property ''message_id'' ''Message ID'' PNumber JNull)\<lparr>prop_display_options := Some \<lparr>show_when =
           [(''operation'', [JStr ''edit_message_text'', JStr ''delete_message''])], hide_when = []\<rparr>\<rparr>,
       (mk_property ''parse_mode'' ''Parse Mode'' POptions (JStr []))\<lparr>prop_options := Some [mk_option []
           ''Plain'', mk_option ''Markdown'' ''Markdown'', mk_option ''MarkdownV2'' ''MarkdownV2'', mk_option
           ''HTML'' ''HTML''], prop_display_options := Some \<lparr>show_when = [(''operation'', [JStr
           ''edit_message_text'', JStr ''send_message'', JStr ''send_photo''])], hide_when = []\<rparr>\<rparr>,
       (mk_property ''disable_notification'' ''Silent'' PBoolean (JBool False))\<lparr>prop_display_options := Some
           \<lparr>show_when = [(''operation'', [JStr ''send_message'', JStr ''send_photo''])], hide_when = []\<rparr>\<rparr>,
       (mk_property ''disable_web_page_preview'' ''Disable Link Preview'' PBoolean (JBool
           False))\<lparr>prop_display_options := Some \<lparr>show_when = [(''operation'', [JStr ''send_message''])],
           hide_when = []\<rparr>\<rparr>,
       (mk_property ''reply_to_message_id'' ''Reply To'' PNumber JNull)\<lparr>prop_display_options := Some \<lparr>show_when
           = [(''operation'', [JStr ''send_message''])], hide_when = []\<rparr>\<rparr>,
       (mk_property ''offset'' ''Update Offset'' PNumber JNull)\<lparr>prop_display_options := Some \<lparr>show_when =
           [(''operation'', [JStr ''get_updates''])], hide_when = []\<rparr>\<rparr>,
       (mk_property ''limit'' ''Limit'' PNumber JNull)\<lparr>prop_display_options := Some \<lparr>show_when =
           [(''operation'', [JStr ''get_updates''])], hide_when = []\<rparr>\<rparr>,
       (mk_property ''long_poll_timeout'' ''Long-Poll Timeout (s)'' PNumber JNull)\<lparr>prop_display_options := Some
           \<lparr>show_when = [(''operation'', [JStr ''get_updates''])], hide_when = []\<rparr>\<rparr>],
     documentation_url := Some ''https://core.telegram.org/bots/api''\<rparr>"

definition trello_spec :: node_spec where
  "trello_spec =
   (mk_spec ''weftlyflow.trello'' 1 ''Trello''
     ''Create, update, and retrieve Trello boards and cards.'' ''icons/trello.svg'' CatIntegration)\<lparr>spec_group
         := [''productivity'', ''project-management''],
     spec_credentials := [\<lparr>slot_name = ''trello_api'', slot_credential_types = [''weftlyflow.trello_api''],
         slot_required = True, slot_display_options = None\<rparr>],
     spec_properties :=
      [(mk_property ''operation'' ''Operation'' POptions (JStr ''list_cards''))\<lparr>prop_required := True,
          prop_options := Some [mk_option ''get_board'' ''Get Board'', mk_option ''list_cards''
          ''List Cards on Board'', mk_option ''get_card'' ''Get Card'', mk_option ''create_card''
          ''Create Card'', mk_option ''update_card'' ''Update Card'', mk_option ''delete_card''
          ''Delete Card'']\<rparr>,
       (mk_property ''board_id'' ''Board ID'' PString JNull)\<lparr>prop_display_options := Some \<lparr>show_when =
           [(''operation'', [JStr ''get_board'', JStr ''list_cards''])], hide_when = []\<rparr>\<rparr>,
       (mk_property ''card_id'' ''Card ID'' PString JNull)\<lparr>prop_display_options := Some \<lparr>show_when =
           [(''operation'', [JStr ''delete_card'', JStr ''get_card'', JStr ''update_card''])], hide_when = []\<rparr>\<rparr>,
       (mk_property ''list_id'' ''List ID'' PString JNull)\<lparr>prop_display_options := Some \<lparr>show_when =
           [(''operation'', [JStr ''create_card''])], hide_when = []\<rparr>\<rparr>,
       (mk_property ''name'' ''Name'' PString JNull)\<lparr>prop_display_options := Some \<lparr>show_when = [(''operation'',
           [JStr ''create_card''])], hide_when = []\<rparr>\<rparr>,
       (mk_property ''extra_fields'' ''Extra Fields'' PJson JNull)\<lparr>prop_description := Some
           ''Optional: {desc, due, pos, idMembers, idLabels, urlSource}.'', prop_display_options := Some
           \<lparr>show_when = [(''operation'', [JStr ''create_card''])], hide_when = []\<rparr>\<rparr>,
       (mk_property ''fields'' ''Fields'' PJson JNull)\<lparr>prop_description := Some
           ''Object of fields to update on the card.'', prop_display_options := Some \<lparr>show_when =
           [(''operation'', [JStr ''update_card''])], hide_when = []\<rparr>\<rparr>,
       (mk_property ''filter'' ''Filter'' POptions (JStr ''open''))\<lparr>prop_options := Some [mk_option ''all''
           ''All'', mk_option ''open'' ''Open'', mk_option ''closed'' ''Closed'', mk_option ''visible''
           ''Visible''], prop_display_options := Some \<lparr>show_when = [(''operation'', [JStr ''list_cards''])],
           hide_when = []\<rparr>\<rparr>],
     documentation_url := Some ''https://developer.atlassian.com/cloud/trello/rest/''\<rparr>"

definition twilio_spec :: node_spec where
  "twilio_spec =
   (mk_spec ''weftlyflow.twilio'' 1 ''Twilio''
     ''Send SMS/MMS and manage messages via the Twilio Messaging API.'' ''icons/twilio.svg''
         CatIntegration)\<lparr>spec_group := [''communication'', ''sms''],
     spec_credentials := [\<lparr>slot_name = ''twilio_api'', slot_credential_types = [''weftlyflow.twilio_api''],
         slot_required = True, slot_display_options = None\<rparr>],
     spec_properties :=
      [(mk_property ''operation'' ''Operation'' POptions (JStr ''send_sms''))\<lparr>prop_required := True,
          prop_options := Some [mk_option ''send_sms'' ''Send SMS'', mk_option ''get_message'' ''Get Message'',
          mk_option ''list_messages'' ''List Messages'', mk_option ''delete_message'' ''Delete Message'']\<rparr>,
       (mk_property ''to'' ''To'' PString JNull)\<lparr>prop_display_options := Some \<lparr>show_when = [(''operation'',
           [JStr ''send_sms'', JStr ''list_messages''])], hide_when = []\<rparr>, prop_placeholder := Some
           ''+15551234567''\<rparr>,
       (mk_property ''from'' ''From'' PString JNull)\<lparr>prop_display_options := Some \<lparr>show_when = [(''operation'',
           [JStr ''send_sms'', JStr ''list_messages''])], hide_when = []\<rparr>, prop_placeholder := Some
           ''+15557654321''\<rparr>,
       (mk_property ''messaging_service_sid'' ''Messaging Service SID'' PString JNull)\<lparr>prop_description := Some
           ''Alternative to 'from' - use a Messaging Service.'', prop_display_options := Some \<lparr>show_when =
           [(''operation'', [JStr ''send_sms''])], hide_when = []\<rparr>\<rparr>,
       (mk_property ''body'' ''Body'' PString JNull)\<lparr>prop_display_options := Some \<lparr>show_when = [(''operation'',
           [JStr ''send_sms''])], hide_when = []\<rparr>\<rparr>,
       (mk_property ''media_urls'' ''Media URLs'' PJson JNull)\<lparr>prop_description := Some
           ''List of media URLs for MMS.'', prop_display_options := Some \<lparr>show_when = [(''operation'', [JStr
           ''send_sms''])], hide_when = []\<rparr>\<rparr>,
       (mk_property ''message_sid'' ''Message SID'' PString JNull)\<lparr>prop_display_options := Some \<lparr>show_when =
           [(''operation'', [JStr ''delete_message'', JStr ''get_message''])], hide_when = []\<rparr>,
           prop_placeholder := Some ''SMxxxxxxxxxxxxxxxxxxxxxxxxxxxxxxxx''\<rparr>,
       (mk_property ''page_size'' ''Page Size'' PNumber (JInt 20))\<lparr>prop_display_options := Some \<lparr>show_when =
           [(''operation'', [JStr ''list_messages''])], hide_when = []\<rparr>\<rparr>,
       (mk_property ''date_sent'' ''Date Sent'' PString JNull)\<lparr>prop_display_options := Some \<lparr>show_when =
           [(''operation'', [JStr ''list_messages''])], hide_when = []\<rparr>, prop_placeholder := Some
           ''2024-01-15''\<rparr>],
     documentation_url := Some ''https://www.twilio.com/docs/messaging/api''\<rparr>"

definition twitch_spec :: node_spec where
  "twitch_spec =
   (mk_spec ''weftlyflow.twitch'' 1 ''Twitch''
     ''Query Twitch Helix channels, streams, videos, and followers.'' ''icons/twitch.svg''
         CatIntegration)\<lparr>spec_group := [''media'', ''streaming''],
     spec_credentials := [\<lparr>slot_name = ''twitch_api'', slot_credential_types = [''weftlyflow.twitch_api''],
         slot_required = True, slot_display_options = None\<rparr>],
     spec_properties :=
      [(mk_property ''operation'' ''Operation'' POptions (JStr ''get_users''))\<lparr>prop_required := True,
          prop_options := Some [mk_option ''get_users'' ''Get Users'', mk_option ''get_channel''
          ''Get Channel'', mk_option ''get_streams'' ''Get Streams'', mk_option ''get_videos'' ''Get Videos'',
          mk_option ''get_followers'' ''Get Followers'', mk_option ''search_channels'' ''Search Channels'']\<rparr>,
       (mk_property ''user_ids'' ''User IDs'' PString JNull)\<lparr>prop_description := Some
           ''Comma-separated user IDs.'', prop_display_options := Some \<lparr>show_when = [(''operation'', [JStr
           ''get_users'', JStr ''get_streams''])], hide_when = []\<rparr>\<rparr>,
       (mk_property ''logins'' ''Logins'' PString JNull)\<lparr>prop_description := Some
           ''Comma-separated Twitch login names.'', prop_display_options := Some \<lparr>show_when = [(''operation'',
           [JStr ''get_users''])], hide_when = []\<rparr>\<rparr>,
       (mk_property ''broadcaster_id'' ''Broadcaster ID'' PString JNull)\<lparr>prop_display_options := Some
           \<lparr>show_when = [(''operation'', [JStr ''get_channel'', JStr ''get_followers''])], hide_when = []\<rparr>\<rparr>,
       (mk_property ''user_logins'' ''User Logins'' PString JNull)\<lparr>prop_description := Some
           ''Comma-separated logins to filter streams.'', prop_display_options := Some \<lparr>show_when =
           [(''operation'', [JStr ''get_streams''])], hide_when = []\<rparr>\<rparr>,
       (mk_property ''game_ids'' ''Game IDs'' PString JNull)\<lparr>prop_description := Some
           ''Comma-separated Twitch game IDs.'', prop_display_options := Some \<lparr>show_when = [(''operation'',
           [JStr ''get_streams''])], hide_when = []\<rparr>\<rparr>,
       (mk_property ''language'' ''Language'' PString JNull)\<lparr>prop_description := Some
           ''ISO language code to filter streams.'', prop_display_options := Some \<lparr>show_when = [(''operation'',
           [JStr ''get_streams''])], hide_when = []\<rparr>\<rparr>,
       (mk_property ''video_ids'' ''Video IDs'' PString JNull)\<lparr>prop_description := Some
           ''Comma-separated video IDs.'', prop_display_options := Some \<lparr>show_when = [(''operation'', [JStr
           ''get_videos''])], hide_when = []\<rparr>\<rparr>,
       (mk_property ''user_id'' ''User ID'' PString JNull)\<lparr>prop_display_options := Some \<lparr>show_when =
           [(''operation'', [JStr ''get_videos'', JStr ''get_followers''])], hide_when = []\<rparr>\<rparr>,
       (mk_property ''game_id'' ''Game ID'' PString JNull)\<lparr>prop_display_options := Some \<lparr>show_when =
           [(''operation'', [JStr ''get_videos''])], hide_when = []\<rparr>\<rparr>,
       (mk_property ''query'' ''Query'' PString JNull)\<lparr>prop_description := Some
           ''Search string for channel search.'', prop_display_options := Some \<lparr>show_when = [(''operation'',
           [JStr ''search_channels''])], hide_when = []\<rparr>\<rparr>,
       (mk_property ''live_only'' ''Live Only'' PBoolean JNull)\<lparr>prop_description := Some
           ''Only return currently live channels.'', prop_display_options := Some \<lparr>show_when = [(''operation'',
           [JStr ''search_channels''])], hide_when = []\<rparr>\<rparr>,
       (mk_property ''first'' ''Page Size'' PNumber JNull)\<lparr>prop_description := Some
           ''Number of items per page (max 100).'', prop_display_options := Some \<lparr>show_when = [(''operation'',
           [JStr ''get_followers'', JStr ''get_streams'', JStr ''get_videos'', JStr ''search_channels''])],
           hide_when = []\<rparr>\<rparr>,
       (mk_property ''after'' ''After Cursor'' PString JNull)\<lparr>prop_description := Some
           ''Opaque cursor from previous page.'', prop_display_options := Some \<lparr>show_when = [(''operation'',
           [JStr ''get_followers'', JStr ''get_streams'', JStr ''get_videos'', JStr ''search_channels''])],
           hide_when = []\<rparr>\<rparr>],
     documentation_url := Some ''https://dev.twitch.tv/docs/api/reference/''\<rparr>"

definition xero_spec :: node_spec where
  "xero_spec =
   (mk_spec ''weftlyflow.xero'' 1 ''Xero''
     ''Manage Xero invoices, contacts, and accounts.'' ''icons/xero.svg'' CatIntegration)\<lparr>spec_group :=
         [''accounting'', ''finance''],
     spec_credentials := [\<lparr>slot_name = ''xero_api'', slot_credential_types = [''weftlyflow.xero_api''],
         slot_required = True, slot_display_options = None\<rparr>],
     spec_properties :=
      [(mk_property ''operation'' ''Operation'' POptions (JStr ''list_invoices''))\<lparr>prop_required := True,
          prop_options := Some [mk_option ''list_invoices'' ''List Invoices'', mk_option ''get_invoice''
          ''Get Invoice'', mk_option ''create_invoice'' ''Create Invoice'', mk_option ''update_invoice''
          ''Update Invoice'', mk_option ''list_contacts'' ''List Contacts'', mk_option ''list_accounts''
          ''List Accounts'']\<rparr>,
       (mk_property ''invoice_id'' ''Invoice ID'' PString JNull)\<lparr>prop_display_options := Some \<lparr>show_when =
           [(''operation'', [JStr ''get_invoice'', JStr ''update_invoice''])], hide_when = []\<rparr>\<rparr>,
       (mk_property ''document'' ''Invoice Document'' PJson JNull)\<lparr>prop_description := Some
           (''Xero invoice payload, e.g. {'' @ [CHR 0x22] @ ''Type'' @ [CHR 0x22] @ '': '' @ [CHR 0x22] @
           ''ACCREC'' @ [CHR 0x22] @ '', ...}''), prop_display_options := Some \<lparr>show_when = [(''operation'',
           [JStr ''create_invoice'', JStr ''update_invoice''])], hide_when = []\<rparr>\<rparr>,
       (mk_property ''where'' ''Where Filter'' PString JNull)\<lparr>prop_description := Some
           (''Xero WHERE clause, e.g. Status=='' @ [CHR 0x22] @ ''AUTHORISED'' @ [CHR 0x22] @ ''.''),
           prop_display_options := Some \<lparr>show_when = [(''operation'', [JStr ''list_accounts'', JStr
           ''list_contacts'', JStr ''list_invoices''])], hide_when = []\<rparr>\<rparr>,
       (mk_property ''order'' ''Order By'' PString JNull)\<lparr>prop_display_options := Some \<lparr>show_when =
           [(''operation'', [JStr ''list_accounts'', JStr ''list_contacts'', JStr ''list_invoices''])],
           hide_when = []\<rparr>\<rparr>,
       (mk_property ''statuses'' ''Statuses'' PString JNull)\<lparr>prop_description := Some
           ''Comma-separated statuses (e.g. DRAFT,AUTHORISED).'', prop_display_options := Some \<lparr>show_when =
           [(''operation'', [JStr ''list_invoices''])], hide_when = []\<rparr>\<rparr>,
       (mk_property ''ids'' ''Contact IDs'' PString JNull)\<lparr>prop_description := Some
           ''Comma-separated contact UUIDs.'', prop_display_options := Some \<lparr>show_when = [(''operation'', [JStr
           ''list_contacts''])], hide_when = []\<rparr>\<rparr>,
       (mk_property ''page'' ''Page'' PNumber JNull)\<lparr>prop_display_options := Some \<lparr>show_when = [(''operation'',
           [JStr ''list_invoices'', JStr ''list_contacts''])], hide_when = []\<rparr>\<rparr>,
       (mk_property ''page_size'' ''Page Size'' PNumber JNull)\<lparr>prop_description := Some
           ''Capped at 100 by Xero.'', prop_display_options := Some \<lparr>show_when = [(''operation'', [JStr
           ''list_invoices''])], hide_when = []\<rparr>\<rparr>],
     documentation_url := Some ''https://developer.xero.com/documentation/api/accounting/overview''\<rparr>"

definition zendesk_spec :: node_spec where
  "zendesk_spec =
   (mk_spec ''weftlyflow.zendesk'' 1 ''Zendesk''
     ''Manage Zendesk Support tickets and comments.'' ''icons/zendesk.svg'' CatIntegration)\<lparr>spec_group :=
         [''crm'', ''support''],
     spec_credentials := [\<lparr>slot_name = ''zendesk_api'', slot_credential_types = [''weftlyflow.zendesk_api''],
         slot_required = True, slot_display_options = None\<rparr>],
     spec_properties :=
      [(mk_property ''operation'' ''Operation'' POptions (JStr ''get_ticket''))\<lparr>prop_required := True,
          prop_options := Some [mk_option ''get_ticket'' ''Get Ticket'', mk_option ''create_ticket''
          ''Create Ticket'', mk_option ''update_ticket'' ''Update Ticket'', mk_option ''list_tickets''
          ''List Tickets'', mk_option ''add_comment'' ''Add Comment'', mk_option ''search'' ''Search'']\<rparr>,
       (mk_property ''ticket_id'' ''Ticket ID'' PString JNull)\<lparr>prop_display_options := Some \<lparr>show_when =
           [(''operation'', [JStr ''add_comment'', JStr ''get_ticket'', JStr ''update_ticket''])], hide_when =
           []\<rparr>\<rparr>,
       (mk_property ''subject'' ''Subject'' PString JNull)\<lparr>prop_display_options := Some \<lparr>show_when =
           [(''operation'', [JStr ''create_ticket''])], hide_when = []\<rparr>\<rparr>,
       (mk_property ''comment'' ''Comment'' PString JNull)\<lparr>prop_description := Some
           ''Comment body for ticket creation or add_comment.'', prop_display_options := Some \<lparr>show_when =
           [(''operation'', [JStr ''create_ticket'', JStr ''add_comment''])], hide_when = []\<rparr>\<rparr>,
       (mk_property ''public'' ''Public'' PBoolean (JBool True))\<lparr>prop_display_options := Some \<lparr>show_when =
           [(''operation'', [JStr ''add_comment''])], hide_when = []\<rparr>\<rparr>,
       (mk_property ''priority'' ''Priority'' POptions JNull)\<lparr>prop_options := Some [mk_option ''urgent''
           ''Urgent'', mk_option ''high'' ''High'', mk_option ''normal'' ''Normal'', mk_option ''low''
           ''Low''], prop_display_options := Some \<lparr>show_when = [(''operation'', [JStr ''create_ticket''])],
           hide_when = []\<rparr>\<rparr>,
       (mk_property ''extra_fields'' ''Extra Fields'' PJson JNull)\<lparr>prop_description := Some
           ''Optional JSON merged into the ticket body.'', prop_display_options := Some \<lparr>show_when =
           [(''operation'', [JStr ''create_ticket''])], hide_when = []\<rparr>\<rparr>,
       (mk_property ''fields'' ''Fields'' PJson JNull)\<lparr>prop_display_options := Some \<lparr>show_when =
           [(''operation'', [JStr ''update_ticket''])], hide_when = []\<rparr>\<rparr>,
       (mk_property ''per_page'' ''Per Page'' PNumber (JInt 25))\<lparr>prop_display_options := Some \<lparr>show_when =
           [(''operation'', [JStr ''list_tickets'', JStr ''search''])], hide_when = []\<rparr>\<rparr>,
       (mk_property ''page'' ''Page'' PNumber JNull)\<lparr>prop_display_options := Some \<lparr>show_when = [(''operation'',
           [JStr ''list_tickets''])], hide_when = []\<rparr>\<rparr>,
       (mk_property ''query'' ''Query'' PString JNull)\<lparr>prop_description := Some
           ''Zendesk search syntax (e.g. 'status:open type:ticket').'', prop_display_options := Some \<lparr>show_when
           = [(''operation'', [JStr ''search''])], hide_when = []\<rparr>\<rparr>,
       (mk_property ''sort_by'' ''Sort By'' PString JNull)\<lparr>prop_display_options := Some \<lparr>show_when =
           [(''operation'', [JStr ''search''])], hide_when = []\<rparr>\<rparr>,
       (mk_property ''sort_order'' ''Sort Order'' POptions JNull)\<lparr>prop_options := Some [mk_option ''asc''
           ''Ascending'', mk_option ''desc'' ''Descending''], prop_display_options := Some \<lparr>show_when =
           [(''operation'', [JStr ''search''])], hide_when = []\<rparr>\<rparr>],
     documentation_url := Some ''https://developer.zendesk.com/api-reference/ticketing/introduction/''\<rparr>"

definition zoho_crm_spec :: node_spec where
  "zoho_crm_spec =
   (mk_spec ''weftlyflow.zoho_crm'' 1 ''Zoho CRM''
     ''Manage Zoho CRM modules and records.'' ''icons/zoho_crm.svg'' CatIntegration)\<lparr>spec_group := [''crm'',
         ''sales''],
     spec_credentials := [\<lparr>slot_name = ''zoho_crm_oauth2'', slot_credential_types =
         [''weftlyflow.zoho_crm_oauth2''], slot_required = True, slot_display_options = None\<rparr>],
     spec_properties :=
      [(mk_property ''operation'' ''Operation'' POptions (JStr ''list_records''))\<lparr>prop_required := True,
          prop_options := Some [mk_option ''list_records'' ''List Records'', mk_option ''get_record''
          ''Get Record'', mk_option ''create_record'' ''Create Record'', mk_option ''update_record''
          ''Update Record'', mk_option ''delete_record'' ''Delete Record'', mk_option ''search_records''
          ''Search Records'']\<rparr>,
       (mk_property ''module'' ''Module'' PString JNull)\<lparr>prop_required := True, prop_description := Some
           ''API name of the Zoho module (Leads, Contacts, Deals...).''\<rparr>,
       (mk_property ''record_id'' ''Record ID'' PString JNull)\<lparr>prop_display_options := Some \<lparr>show_when =
           [(''operation'', [JStr ''delete_record'', JStr ''get_record'', JStr ''update_record''])], hide_when
           = []\<rparr>\<rparr>,
       (mk_property ''fields'' ''Fields'' PJson JNull)\<lparr>prop_description := Some
           ''JSON of field values for create/update.'', prop_display_options := Some \<lparr>show_when =
           [(''operation'', [JStr ''create_record'', JStr ''update_record''])], hide_when = []\<rparr>\<rparr>,
       (mk_property ''trigger'' ''Triggers'' PString JNull)\<lparr>prop_description := Some
           ''Comma-separated triggers (approval, workflow, blueprint).'', prop_display_options := Some
           \<lparr>show_when = [(''operation'', [JStr ''create_record''])], hide_when = []\<rparr>\<rparr>,
       (mk_property ''criteria'' ''Criteria'' PString JNull)\<lparr>prop_description := Some
           ''COQL-style filter, e.g. ``(Last_Name:equals:Doe)``.'', prop_display_options := Some \<lparr>show_when =
           [(''operation'', [JStr ''search_records''])], hide_when = []\<rparr>\<rparr>,
       (mk_property ''email'' ''Email'' PString JNull)\<lparr>prop_display_options := Some \<lparr>show_when =
           [(''operation'', [JStr ''search_records''])], hide_when = []\<rparr>\<rparr>,
       (mk_property ''phone'' ''Phone'' PString JNull)\<lparr>prop_display_options := Some \<lparr>show_when =
           [(''operation'', [JStr ''search_records''])], hide_when = []\<rparr>\<rparr>,
       (mk_property ''word'' ''Word'' PString JNull)\<lparr>prop_description := Some ''Free-text search term.'',
           prop_display_options := Some \<lparr>show_when = [(''operation'', [JStr ''search_records''])], hide_when =
           []\<rparr>\<rparr>,
       (mk_property ''per_page'' ''Per Page'' PNumber (JInt 50))\<lparr>prop_display_options := Some \<lparr>show_when =
           [(''operation'', [JStr ''list_records'', JStr ''search_records''])], hide_when = []\<rparr>\<rparr>,
       (mk_property ''page'' ''Page'' PNumber JNull)\<lparr>prop_display_options := Some \<lparr>show_when = [(''operation'',
           [JStr ''list_records'', JStr ''search_records''])], hide_when = []\<rparr>\<rparr>,
       (mk_property ''sort_by'' ''Sort By'' PString JNull)\<lparr>prop_display_options := Some \<lparr>show_when =
           [(''operation'', [JStr ''list_records''])], hide_when = []\<rparr>\<rparr>,
       (mk_property ''sort_order'' ''Sort Order'' POptions JNull)\<lparr>prop_options := Some [mk_option ''asc''
           ''Ascending'', mk_option ''desc'' ''Descending''], prop_display_options := Some \<lparr>show_when =
           [(''operation'', [JStr ''list_records''])], hide_when = []\<rparr>\<rparr>,
       (mk_property ''fields_filter'' ''Fields Filter'' PString JNull)\<lparr>prop_description := Some
           ''Comma-separated field API names to return.'', prop_display_options := Some \<lparr>show_when =
           [(''operation'', [JStr ''list_records''])], hide_when = []\<rparr>\<rparr>],
     documentation_url := Some ''https://www.zoho.com/crm/developer/docs/api/v6/''\<rparr>"

definition zoom_spec :: node_spec where
  "zoom_spec =
   (mk_spec ''weftlyflow.zoom'' 1 ''Zoom''
     ''Manage Zoom meetings via the v2 API.'' ''icons/zoom.svg'' CatIntegration)\<lparr>spec_group :=
         [''communication'', ''meetings''],
     spec_credentials := [\<lparr>slot_name = ''zoom_api'', slot_credential_types = [''weftlyflow.zoom_api''],
         slot_required = True, slot_display_options = None\<rparr>],
     spec_properties :=
      [(mk_property ''operation'' ''Operation'' POptions (JStr ''list_meetings''))\<lparr>prop_required := True,
          prop_options := Some [mk_option ''list_meetings'' ''List Meetings'', mk_option ''get_meeting''
          ''Get Meeting'', mk_option ''create_meeting'' ''Create Meeting'', mk_option ''update_meeting''
          ''Update Meeting'', mk_option ''delete_meeting'' ''Delete Meeting'', mk_option
          ''list_past_participants'' ''List Past Participants'']\<rparr>,
       (mk_property ''user_id'' ''User ID'' PString (JStr ''me''))\<lparr>prop_description := Some
           ''Zoom user ID or email ('me' for token owner).'', prop_display_options := Some \<lparr>show_when =
           [(''operation'', [JStr ''create_meeting'', JStr ''list_meetings''])], hide_when = []\<rparr>\<rparr>,
       (mk_property ''meeting_id'' ''Meeting ID'' PString JNull)\<lparr>prop_display_options := Some \<lparr>show_when =
           [(''operation'', [JStr ''delete_meeting'', JStr ''get_meeting'', JStr ''list_past_participants'',
           JStr ''update_meeting''])], hide_when = []\<rparr>\<rparr>,
       (mk_property ''topic'' ''Topic'' PString JNull)\<lparr>prop_display_options := Some \<lparr>show_when =
           [(''operation'', [JStr ''create_meeting''])], hide_when = []\<rparr>\<rparr>,
       (mk_property ''type'' ''Meeting Type'' PNumber JNull)\<lparr>prop_description := Some
           ''1=instant, 2=scheduled, 3=recurring (no fixed), 8=recurring fixed.'', prop_display_options := Some
           \<lparr>show_when = [(''operation'', [JStr ''create_meeting''])], hide_when = []\<rparr>\<rparr>,
       (mk_property ''start_time'' ''Start Time'' PString JNull)\<lparr>prop_description := Some
           ''ISO 8601 UTC (e.g. 2026-05-01T10:00:00Z).'', prop_display_options := Some \<lparr>show_when =
           [(''operation'', [JStr ''create_meeting''])], hide_when = []\<rparr>\<rparr>,
       (mk_property ''duration'' ''Duration (minutes)'' PNumber JNull)\<lparr>prop_display_options := Some \<lparr>show_when
           = [(''operation'', [JStr ''create_meeting''])], hide_when = []\<rparr>\<rparr>,
       (mk_property ''timezone'' ''Timezone'' PString JNull)\<lparr>prop_display_options := Some \<lparr>show_when =
           [(''operation'', [JStr ''create_meeting''])], hide_when = []\<rparr>\<rparr>,
       (mk_property ''agenda'' ''Agenda'' PString JNull)\<lparr>prop_display_options := Some \<lparr>show_when =
           [(''operation'', [JStr ''create_meeting''])], hide_when = []\<rparr>\<rparr>,
       (mk_property ''password'' ''Password'' PString JNull)\<lparr>prop_display_options := Some \<lparr>show_when =
           [(''operation'', [JStr ''create_meeting''])], hide_when = []\<rparr>, prop_type_options := Some
           [(''password'', JBool True)]\<rparr>,
       (mk_property ''settings'' ''Settings'' PJson JNull)\<lparr>prop_display_options := Some \<lparr>show_when =
           [(''operation'', [JStr ''create_meeting''])], hide_when = []\<rparr>\<rparr>,
       (mk_property ''document'' ''Patch'' PJson JNull)\<lparr>prop_description := Some
           ''Partial JSON patch for update.'', prop_display_options := Some \<lparr>show_when = [(''operation'', [JStr
           ''update_meeting''])], hide_when = []\<rparr>\<rparr>,
       (mk_property ''occurrence_id'' ''Occurrence ID'' PString JNull)\<lparr>prop_description := Some
           ''Single-occurrence recurring-meeting target.'', prop_display_options := Some \<lparr>show_when =
           [(''operation'', [JStr ''delete_meeting''])], hide_when = []\<rparr>\<rparr>,
       (mk_property ''list_type'' ''List Type'' PString JNull)\<lparr>prop_description := Some
           ''scheduled, live, upcoming, upcoming_meetings, previous_meetings.'', prop_display_options := Some
           \<lparr>show_when = [(''operation'', [JStr ''list_meetings''])], hide_when = []\<rparr>\<rparr>,
       (mk_property ''page_size'' ''Page Size'' PNumber JNull)\<lparr>prop_display_options := Some \<lparr>show_when =
           [(''operation'', [JStr ''list_meetings'', JStr ''list_past_participants''])], hide_when = []\<rparr>\<rparr>,
       (mk_property ''next_page_token'' ''Next Page Token'' PString JNull)\<lparr>prop_display_options := Some
           \<lparr>show_when = [(''operation'', [JStr ''list_meetings'', JStr ''list_past_participants''])], hide_when
           = []\<rparr>\<rparr>],
     documentation_url := Some ''https://developers.zoom.us/docs/api/meetings/''\<rparr>"

definition integration_catalog_4 :: "node_spec list" where
  "integration_catalog_4 =
     [pushover_spec, quickbooks_spec, reddit_spec, rocket_chat_spec,
      salesforce_spec, segment_spec, sendgrid_spec, shopify_spec,
      slack_spec, snowflake_spec, square_spec, stripe_spec,
      supabase_spec, telegram_spec, trello_spec, twilio_spec,
      twitch_spec, xero_spec, zendesk_spec, zoho_crm_spec,
      zoom_spec]"

lemma integration_catalog_4_ok: "list_all spec_ok integration_catalog_4"
  by code_simp

lemma integration_catalog_4_names:
  "map short_key integration_catalog_4 =
     [''pushover'', ''quickbooks'', ''reddit'', ''rocket_chat'', ''salesforce'', ''segment'', ''sendgrid'',
         ''shopify'', ''slack'', ''snowflake'', ''square'', ''stripe'', ''supabase'', ''telegram'', ''trello'',
         ''twilio'', ''twitch'', ''xero'', ''zendesk'', ''zoho_crm'', ''zoom'']"
  by code_simp

lemma integration_catalog_4_slots:
  "concat (map slot_slugs integration_catalog_4) =
     [''weftlyflow.pushover_api'', ''weftlyflow.quickbooks_oauth2'', ''weftlyflow.reddit_oauth2'',
         ''weftlyflow.rocket_chat_api'', ''weftlyflow.salesforce_api'', ''weftlyflow.segment_write_key'',
         ''weftlyflow.bearer_token'', ''weftlyflow.shopify_admin'', ''weftlyflow.slack_api'',
         ''weftlyflow.slack_oauth2'', ''weftlyflow.snowflake_api'', ''weftlyflow.square_api'',
         ''weftlyflow.bearer_token'', ''weftlyflow.supabase_api'', ''weftlyflow.telegram_bot'',
         ''weftlyflow.trello_api'', ''weftlyflow.twilio_api'', ''weftlyflow.twitch_api'',
         ''weftlyflow.xero_api'', ''weftlyflow.zendesk_api'', ''weftlyflow.zoho_crm_oauth2'',
         ''weftlyflow.zoom_api'']"
  by code_simp

end
