(* ===== verification/Catalogue.thy ===== *)
theory Catalogue
  imports Core_Specs Ai_Specs Integration_Specs_1 Integration_Specs_2 Integration_Specs_3 Integration_Specs_4
begin

text \<open>
  Node discovery (\<open>nodes/discovery.py\<close>) and the built-in catalogue it yields: the three built-in
  packages are scanned in order, modules that expose a node class contribute it, and the registry
  loads what was found. Importing a module is a parameter: the packages' module lists, whether a
  package has a path, and what each import gives.
\<close>

section \<open>Discovery\<close>

text \<open>The value of the \<open>NODE\<close> attribute of an imported module.\<close>

datatype candidate = NoCandidate | NotAClass | OtherClass | NodeClass node_class

record python_path =
  import_module :: "string \<Rightarrow> candidate result"
  has_path :: "string \<Rightarrow> bool"
  walk_packages :: "string \<Rightarrow> string list"

definition BUILTIN_PACKAGES :: "string list" where
  "BUILTIN_PACKAGES = [''weftlyflow.nodes.core'', ''weftlyflow.nodes.integrations'', ''weftlyflow.nodes.ai'']"

definition safe_module_nodes :: "python_path \<Rightarrow> bool \<Rightarrow> string \<Rightarrow> node_class list result" where
  "safe_module_nodes pth strict module_name =
     (case import_module pth module_name of
        Inl e \<Rightarrow> if exn_cls e = Other ''ImportError'' \<and> \<not> strict then Inr [] else Inl e
      | Inr (NodeClass c) \<Rightarrow> Inr [c]
      | Inr _ \<Rightarrow> Inr [])"

definition modules_nodes :: "python_path \<Rightarrow> bool \<Rightarrow> string list \<Rightarrow> node_class list result" where
  "modules_nodes pth strict modules = rbind (rmap (safe_module_nodes pth strict) modules) (\<lambda>css. Inr (concat css))"

definition iter_nodes_under_package :: "python_path \<Rightarrow> bool \<Rightarrow> string \<Rightarrow> node_class list result" where
  "iter_nodes_under_package pth strict package_name =
     (case import_module pth package_name of
        Inl e \<Rightarrow> if exn_cls e = Other ''ImportError'' \<and> \<not> strict then Inr [] else Inl e
      | Inr _ \<Rightarrow>
          if \<not> has_path pth package_name then Inr []
          else modules_nodes pth strict (walk_packages pth package_name))"

definition iter_builtin_nodes :: "python_path \<Rightarrow> bool \<Rightarrow> node_class list result" where
  "iter_builtin_nodes pth strict =
     rbind (rmap (iter_nodes_under_package pth strict) BUILTIN_PACKAGES) (\<lambda>css. Inr (concat css))"

text \<open>
  The community directory: \<open>modules\<close> are the sorted module names below it, \<open>sys_path\<close> the search
  path, which is put back when the scan ends, also by an exception.
\<close>

definition iter_nodes_in_directory :: "python_path \<Rightarrow> bool \<Rightarrow> string \<Rightarrow> bool \<Rightarrow> string list \<Rightarrow> string list
    \<Rightarrow> node_class list result \<times> string list" where
  "iter_nodes_in_directory pth strict directory present modules sys_path =
     (if \<not> present
      then (if strict then raise (Other ''FileNotFoundError'') (''community nodes directory not found: '' @ directory)
            else Inr [], sys_path)
      else
        (let added = directory \<notin> set sys_path;
             scan_path = (if added then directory # sys_path else sys_path) in
         (modules_nodes pth strict modules, if added then remove1 directory scan_path else scan_path)))"


text \<open>Where every module of the packages imports, the nodes found are the candidates in the order of the modules.\<close>

fun candidate_nodes :: "candidate list \<Rightarrow> node_class list" where
  "candidate_nodes [] = []"
| "candidate_nodes (NodeClass c # cs) = c # candidate_nodes cs"
| "candidate_nodes (_ # cs) = candidate_nodes cs"

definition builtin_modules :: "python_path \<Rightarrow> string list" where
  "builtin_modules pth = concat (map (walk_packages pth) BUILTIN_PACKAGES)"

definition packages_import :: "python_path \<Rightarrow> bool" where
  "packages_import pth = list_all (\<lambda>p. returns (\<lambda>_. True) (import_module pth p) \<and> has_path pth p) BUILTIN_PACKAGES"

lemma candidate_nodes_append: "candidate_nodes (xs @ ys) = candidate_nodes xs @ candidate_nodes ys"
  by (induction xs rule: candidate_nodes.induct) simp_all

lemma modules_nodes_candidates:
  "map (import_module pth) ms = map Inr cands \<Longrightarrow> modules_nodes pth strict ms = Inr (candidate_nodes cands)"
proof (induction ms arbitrary: cands)
  case (Cons m ms)
  then obtain c cands' where c: "cands = c # cands'" "import_module pth m = Inr c"
    and "map (import_module pth) ms = map Inr cands'" by (cases cands) auto
  from Cons.IH [OF this(3)] obtain css where "rmap (safe_module_nodes pth strict) ms = Inr css"
    "concat css = candidate_nodes cands'"
    by (cases "rmap (safe_module_nodes pth strict) ms") (auto simp: modules_nodes_def)
  with c show ?case by (cases c) (simp_all add: modules_nodes_def safe_module_nodes_def)
qed (simp add: modules_nodes_def)

lemma iter_nodes_under_package_candidates:
  assumes "returns (\<lambda>_. True) (import_module pth p)" and "has_path pth p"
    and "map (import_module pth) (walk_packages pth p) = map Inr cands"
  shows "iter_nodes_under_package pth strict p = Inr (candidate_nodes cands)"
  using assms modules_nodes_candidates by (auto simp: iter_nodes_under_package_def returns_iff)

lemma iter_builtin_nodes_candidates:
  assumes "packages_import pth" and "map (import_module pth) (builtin_modules pth) = map Inr cands"
  shows "iter_builtin_nodes pth strict = Inr (candidate_nodes cands)"
proof -
  have "\<exists>css. rmap (iter_nodes_under_package pth strict) ps = Inr css \<and> concat css = candidate_nodes cands"
    if "list_all (\<lambda>p. returns (\<lambda>_. True) (import_module pth p) \<and> has_path pth p) ps"
      "map (import_module pth) (concat (map (walk_packages pth) ps)) = map Inr cands" for ps
    using that
  proof (induction ps arbitrary: cands)
    case (Cons p ps)
    then obtain as bs where "cands = as @ bs" "map (import_module pth) (walk_packages pth p) = map Inr as"
      "map (import_module pth) (concat (map (walk_packages pth) ps)) = map Inr bs"
      by (auto simp: append_eq_map_conv)
    with Cons.IH [of bs] Cons.prems(1) iter_nodes_under_package_candidates [of pth p as strict]
      candidate_nodes_append [of as bs]
    show ?case by auto
  qed simp
  from this [OF assms [unfolded packages_import_def builtin_modules_def]]
  show ?thesis by (auto simp: iter_builtin_nodes_def)
qed

lemma iter_nodes_in_directory_path: "snd (iter_nodes_in_directory pth strict directory present modules sys_path) = sys_path"
  by (simp add: iter_nodes_in_directory_def Let_def)

lemma distinct_map_filter_append: "distinct (map f (xs @ ys)) \<Longrightarrow> distinct (map f (filter P xs @ ys))"
  by (auto simp: distinct_map_filter)

section \<open>The catalogue\<close>

text \<open>The code node is discovered only when the setting \<open>enable_code_node\<close> is on.\<close>

definition builtin_catalog :: "bool \<Rightarrow> node_spec list" where
  "builtin_catalog enable_code_node =
     filter (\<lambda>s. enable_code_node \<or> spec_type s \<noteq> ''weftlyflow.code'') core_catalog
     @ (integration_catalog_1 @ integration_catalog_2 @ integration_catalog_3 @ integration_catalog_4) @ ai_catalog"

lemmas catalog_names = core_catalog_names integration_catalog_1_names integration_catalog_2_names
  integration_catalog_3_names integration_catalog_4_names ai_catalog_names

lemmas catalogs_ok = core_specs_ok integration_catalog_1_ok integration_catalog_2_ok integration_catalog_3_ok
  integration_catalog_4_ok ai_catalog_ok

lemma builtin_keys_distinct_all: "distinct (map spec_key (builtin_catalog True))"
proof (rule distinct_short_keys)
  have "map short_key (builtin_catalog True) = map short_key core_catalog
    @ (map short_key integration_catalog_1 @ map short_key integration_catalog_2 @ map short_key integration_catalog_3
       @ map short_key integration_catalog_4) @ map short_key ai_catalog"
    by (simp add: builtin_catalog_def)
  then show "distinct (map short_key (builtin_catalog True))"
    unfolding catalog_names by (simp only: append.simps) simp
qed

lemma builtin_keys_distinct: "distinct (map spec_key (builtin_catalog b))"
proof -
  define rest where "rest = (integration_catalog_1 @ integration_catalog_2 @ integration_catalog_3 @ integration_catalog_4)
    @ ai_catalog"
  have "distinct (map spec_key (core_catalog @ rest))"
    using builtin_keys_distinct_all by (simp add: builtin_catalog_def rest_def)
  from distinct_map_filter_append [OF this] show ?thesis
    unfolding builtin_catalog_def rest_def .
qed

lemma builtin_catalog_ok: "list_all spec_ok (builtin_catalog b)"
  using catalogs_ok by (auto simp: builtin_catalog_def list_all_iff)

lemma builtin_catalog_length: "length (builtin_catalog b) = (if b then 128 else 127)"
proof -
  have "length (map short_key core_catalog) = 25" "length (map short_key integration_catalog_1) = 21"
    "length (map short_key integration_catalog_2) = 21" "length (map short_key integration_catalog_3) = 21"
    "length (map short_key integration_catalog_4) = 21" "length (map short_key ai_catalog) = 19"
    unfolding catalog_names by simp_all
  moreover have "length (filter (\<lambda>s. spec_type s \<noteq> ''weftlyflow.code'') core_catalog) = 24"
    by code_simp
  ultimately show ?thesis by (simp add: builtin_catalog_def)
qed

text \<open>
  C39 (the built-in catalogue loads): every specification of the core nodes, the integrations and the AI
  nodes is well-formed; and when the three built-in packages import and their modules expose classes
  that carry these specifications, discovery finds exactly these classes and loading them into an
  empty registry succeeds, reports one new class per specification (128, or 127 with the code node
  disabled), and makes each class available under its type and version.
\<close>
theorem load_builtin_catalog:
  assumes "packages_import pth"
    and "map (import_module pth) (builtin_modules pth) = map Inr cands"
    and "map cls_spec (candidate_nodes cands) = map Some (builtin_catalog enable_code_node)"
  shows "list_all spec_ok (builtin_catalog enable_code_node)
    \<and> (\<exists>cs reg. iter_builtin_nodes pth strict = Inr cs \<and> length cs = (if enable_code_node then 128 else 127)
         \<and> load_builtins cs empty_registry = Inr (reg, int (length cs)) \<and> registry_ok reg
         \<and> (\<forall>k < length cs. reg_get reg (spec_type (builtin_catalog enable_code_node ! k))
               (spec_version (builtin_catalog enable_code_node ! k)) = Inr (cs ! k)))"
proof -
  have "length (candidate_nodes cands) = length (builtin_catalog enable_code_node)"
    using arg_cong [OF assms(3), of length] by simp
  with load_catalog [OF assms(3) builtin_keys_distinct] builtin_catalog_ok builtin_catalog_length
    iter_builtin_nodes_candidates [OF assms(1,2), of strict]
  show ?thesis by fastforce
qed

definition demo_path :: python_path where
  "demo_path = \<lparr>import_module = (\<lambda>m. if hd m = CHR ''c'' then Inr (NodeClass ((demo_class 1)\<lparr>cls_spec :=
       Some (builtin_catalog False ! (length m - 1))\<rparr>)) else Inr NoCandidate),
     has_path = (\<lambda>_. True),
     walk_packages = (\<lambda>p. if p = ''weftlyflow.nodes.core'' then map (\<lambda>n. replicate (n + 1) CHR ''c'') [0..<127] else [])\<rparr>"

theorem load_builtin_catalog_witness:
  "\<exists>cs reg. iter_builtin_nodes demo_path True = Inr cs \<and> load_builtins cs empty_registry = Inr (reg, 127)"
proof -
  define cl where "cl n = NodeClass ((demo_class 1)\<lparr>cls_spec := Some (builtin_catalog False ! n)\<rparr>)" for n
  have "candidate_nodes (map cl ns) = map (\<lambda>n. (demo_class 1)\<lparr>cls_spec := Some (builtin_catalog False ! n)\<rparr>) ns" for ns
    by (induction ns) (simp_all add: cl_def)
  then have "map cls_spec (candidate_nodes (map cl [0..<127])) = map Some (builtin_catalog False)"
    using builtin_catalog_length [of False] by (auto intro!: nth_equalityI)
  moreover have "packages_import demo_path" by (simp add: packages_import_def BUILTIN_PACKAGES_def demo_path_def returns_iff)
  moreover have "map (import_module demo_path) (builtin_modules demo_path) = map Inr (map cl [0..<127])"
    by (simp add: builtin_modules_def BUILTIN_PACKAGES_def demo_path_def cl_def comp_def del: upt_Suc)
  ultimately show ?thesis using load_builtin_catalog [of demo_path "map cl [0..<127]" False True] by fastforce
qed

end
