(* ===== verification/Http.thy ===== *)
theory Http
  imports Requests Node_Registry
begin

text \<open>
  What the integration nodes share (\<open>nodes/integrations/*/node.py\<close>): requests and responses of the HTTP
  client, the decoding of a response, the translation of exceptions into node errors, and the loop
  over the input items. The client, the network and the injection of credentials into a request are
  parameters. \<open>answers\<close> is what a dispatched item promises; the locale \<open>http_node\<close> lifts it to \<open>execute\<close>.
\<close>

section \<open>Requests and responses\<close>

record http_request =
  rq_method :: string
  rq_path :: string
  rq_params :: "jobj option"
  rq_json :: "json option"
  rq_data :: "jobj option"
  rq_headers :: jobj

definition mk_request :: "string \<Rightarrow> string \<Rightarrow> http_request" where
  "mk_request method path = \<lparr>rq_method = method, rq_path = path, rq_params = None, rq_json = None, rq_data = None,
     rq_headers = []\<rparr>"

text \<open>\<open>rs_json\<close> is what \<open>response.json()\<close> returns, \<open>None\<close> where it raises.\<close>

record http_response =
  rs_status :: int
  rs_content :: string
  rs_text :: string
  rs_json :: "json option"

text \<open>
  A client sends a request and returns the response or raises. The network gives the client of a base
  address for the item at a position: a later request may be answered differently. \<open>injection\<close> is
  \<open>inject\<close> of the credential type with the given slug.
\<close>

type_synonym http_client = "http_request \<Rightarrow> http_response result"

type_synonym network = "string \<Rightarrow> nat \<Rightarrow> http_client"

type_synonym injection = "string \<Rightarrow> jobj \<Rightarrow> http_request \<Rightarrow> http_request result"

definition HTTPError :: exn_class where "HTTPError = Other ''HTTPError''"

definition safe_json :: "http_response \<Rightarrow> json" where
  "safe_json response =
     (if rs_content response = [] then JObj []
      else case rs_json response of
        Some v \<Rightarrow> v
      | None \<Rightarrow> JObj [(''raw'', JStr (rs_text response)), (''status_code'', JInt (rs_status response))])"

text \<open>The same without the test for an empty body, as a few modules have it.\<close>

definition safe_json_any :: "http_response \<Rightarrow> json" where
  "safe_json_any response =
     (case rs_json response of
        Some v \<Rightarrow> v
      | None \<Rightarrow> JObj [(''raw'', JStr (rs_text response)), (''status_code'', JInt (rs_status response))])"

text \<open>\<open>response.json()\<close> outside of \<open>_safe_json\<close>.\<close>

definition response_json :: "http_response \<Rightarrow> json result" where
  "response_json response = (case rs_json response of Some v \<Rightarrow> Inr v | None \<Rightarrow> raise ValueError ''invalid JSON'')"

text \<open>
  Header names compare without case: assigning replaces the value under the same name, in its place.
  The query of a request is kept with the values given for it; the client renders them.
\<close>

definition set_header :: "string \<Rightarrow> string \<Rightarrow> http_request \<Rightarrow> http_request" where
  "set_header k v rq =
     (if list_ex (\<lambda>(k', _). py_lower k' = py_lower k) (rq_headers rq)
      then rq\<lparr>rq_headers := map (\<lambda>(k', v'). if py_lower k' = py_lower k then (k, JStr v) else (k', v')) (rq_headers rq)\<rparr>
      else rq\<lparr>rq_headers := rq_headers rq @ [(k, JStr v)]\<rparr>)"

definition default_header :: "string \<Rightarrow> string \<Rightarrow> http_request \<Rightarrow> http_request" where
  "default_header k v rq =
     (if list_ex (\<lambda>(k', _). py_lower k' = py_lower k) (rq_headers rq) then rq else set_header k v rq)"

definition query_params :: "http_request \<Rightarrow> jobj" where
  "query_params rq = (case rq_params rq of Some d \<Rightarrow> d | None \<Rightarrow> [])"

text \<open>\<open>a or b\<close> for an optional string.\<close>

definition str_or :: "string option \<Rightarrow> string \<Rightarrow> string" where
  "str_or a b = (case a of Some v \<Rightarrow> if v = [] then b else v | None \<Rightarrow> b)"

text \<open>\<open>base64.b64encode(s.encode()).decode("ascii")\<close>.\<close>

definition b64_char :: "nat \<Rightarrow> char" where
  "b64_char n = (if n < 26 then char_of (65 + n) else if n < 52 then char_of (71 + n)
     else if n < 62 then char_of (n - 4) else if n = 62 then CHR ''+'' else CHR ''/'')"

fun b64_bytes :: "nat list \<Rightarrow> string" where
  "b64_bytes [] = []"
| "b64_bytes [a] = [b64_char (a div 4), b64_char (a mod 4 * 16), CHR ''='', CHR ''='']"
| "b64_bytes [a, b] = [b64_char (a div 4), b64_char (a mod 4 * 16 + b div 16), b64_char (b mod 16 * 4), CHR ''='']"
| "b64_bytes (a # b # c # bs) =
     [b64_char (a div 4), b64_char (a mod 4 * 16 + b div 16), b64_char (b mod 16 * 4 + c div 64), b64_char (c mod 64)]
     @ b64_bytes bs"

definition b64encode :: "string \<Rightarrow> string" where
  "b64encode s = b64_bytes (concat (map utf8_bytes s))"

lemma b64encode_example: "b64encode ''user:pass'' = ''dXNlcjpwYXNz''"
  by code_simp

text \<open>\<open>try: ... except cls as exc: raise NodeExecutionError(msg(exc))\<close>.\<close>

definition node_error_from :: "exn_class \<Rightarrow> (string \<Rightarrow> string) \<Rightarrow> 'a result \<Rightarrow> 'a result" where
  "node_error_from cls msg r =
     (case r of
        Inl e \<Rightarrow> if exn_cls e = cls then raise NodeExecutionError (msg (exn_msg e)) else Inl e
      | Inr x \<Rightarrow> Inr x)"

definition ctx_fr :: "exec_ctx \<Rightarrow> rat \<Rightarrow> string" where
  "ctx_fr ctx = float_repr (ctx_process ctx)"

text \<open>The loop of \<open>execute\<close>: one dispatch per item, in order, up to the first exception.\<close>

definition each_item :: "(nat \<Rightarrow> item \<Rightarrow> item result) \<Rightarrow> item list \<Rightarrow> item list result" where
  "each_item f seed = rmap (\<lambda>(i, it). f i it) (enumerate 0 seed)"

section \<open>What a dispatched item promises\<close>

text \<open>
  \<open>answers send ok r\<close>: the dispatch raises a node error, or what resolving the parameters of the item or
  sending the request raised; and the item it returns reports the operation of the item and the
  status of a response below 400 that \<open>send\<close> gave to a request accepted by \<open>ok\<close>.
\<close>

definition reports :: "http_client \<Rightarrow> (string \<Rightarrow> string \<Rightarrow> string \<Rightarrow> bool) \<Rightarrow> item \<Rightarrow> bool" where
  "reports send ok out \<longleftrightarrow> (\<exists>operation rq rs. send rq = Inr rs \<and> rs_status rs < 400 \<and> ok operation (rq_method rq) (rq_path rq)
     \<and> map_of (item_json out) ''operation'' = Some (JStr operation)
     \<and> map_of (item_json out) ''status'' = Some (JInt (rs_status rs)))"

definition answers :: "exec_ctx \<Rightarrow> item \<Rightarrow> http_client \<Rightarrow> (string \<Rightarrow> string \<Rightarrow> string \<Rightarrow> bool) \<Rightarrow> item result \<Rightarrow> bool" where
  "answers ctx it send ok r =
     (case r of
        Inl e \<Rightarrow> exn_cls e = NodeExecutionError \<or> resolved_params ctx (Some it) = Inl e \<or> (\<exists>rq. send rq = Inl e)
      | Inr out \<Rightarrow> reports send ok out)"

definition shape_ok :: "(string, nat option) dict \<Rightarrow> string \<Rightarrow> string \<Rightarrow> string \<Rightarrow> bool" where
  "shape_ok shape operation meth path \<longleftrightarrow>
     (\<exists>k. map_of shape operation = Some k \<and> request_ok k (meth, path, ()))"

lemma answers_params:
  "(\<And>params. answers ctx it send ok (f params)) \<Longrightarrow> answers ctx it send ok (rbind (resolved_params ctx (Some it)) f)"
  by (cases "resolved_params ctx (Some it)") (simp_all add: answers_def)

lemma answers_raise: "answers ctx it send ok (raise NodeExecutionError m)"
  by (simp add: answers_def raise_def)

lemma answers_if:
  "(c \<Longrightarrow> answers ctx it send ok a) \<Longrightarrow> (\<not> c \<Longrightarrow> answers ctx it send ok b) \<Longrightarrow> answers ctx it send ok (if c then a else b)"
  by simp

lemma answers_let: "(\<And>x. x = e \<Longrightarrow> answers ctx it send ok (f x)) \<Longrightarrow> answers ctx it send ok (let x = e in f x)"
  by (simp add: Let_def)

lemma answers_option:
  "answers ctx it send ok a \<Longrightarrow> (\<And>v. e = Some v \<Longrightarrow> answers ctx it send ok (f v)) \<Longrightarrow>
   answers ctx it send ok (case e of None \<Rightarrow> a | Some v \<Rightarrow> f v)"
  by (simp split: option.split)

lemma answers_prod: "(\<And>a b. e = (a, b) \<Longrightarrow> answers ctx it send ok (f a b)) \<Longrightarrow> answers ctx it send ok (case e of (a, b) \<Rightarrow> f a b)"
  by (simp split: prod.split)

lemma answers_send:
  "(\<And>rs. send rq = Inr rs \<Longrightarrow> answers ctx it send ok (f rs)) \<Longrightarrow>
   answers ctx it send ok (rbind (node_error_from cls msg (send rq)) f)"
  by (cases "send rq") (auto simp: answers_def node_error_from_def raise_def)

text \<open>The request is sent after the credential was injected into it.\<close>

definition injected :: "injection \<Rightarrow> string \<times> jobj \<Rightarrow> http_client \<Rightarrow> http_client" where
  "injected inject c client rq = rbind (inject (fst c) (snd c) rq) client"

lemma answers_injected:
  assumes "\<And>rs. injected inject (slug, creds) client rq = Inr rs \<Longrightarrow> answers ctx it (injected inject (slug, creds) client) ok (f rs)"
  shows "answers ctx it (injected inject (slug, creds) client) ok
     (rbind (inject slug creds rq) (\<lambda>rq'. rbind (node_error_from cls msg (client rq')) f))"
proof (cases "inject slug creds rq")
  case (Inl e)
  then have "injected inject (slug, creds) client rq = Inl e" by (simp add: injected_def)
  with Inl show ?thesis unfolding answers_def by auto
next
  case (Inr rq')
  then have "injected inject (slug, creds) client rq = client rq'" by (simp add: injected_def)
  with Inr assms show ?thesis
    by (cases "client rq'") (auto simp: answers_def node_error_from_def raise_def)
qed

lemma answers_return:
  assumes "ok operation meth path" and "send rq = Inr rs" and "rq_method rq = meth" and "rq_path rq = path"
    and "\<not> 400 \<le> rs_status rs"
    and "map_of d ''operation'' = Some (JStr operation)" and "map_of d ''status'' = Some (JInt (rs_status rs))"
  shows "answers ctx it send ok (Inr (mk_item d))"
proof -
  have "rs_status rs < 400" using assms(5) by simp
  with assms show ?thesis unfolding answers_def reports_def mk_item_def by auto
qed

text \<open>Where the node puts the path of its service in front of the path of the builder.\<close>

definition prefixed_ok :: "(string, nat option) dict \<Rightarrow> string \<Rightarrow> string \<Rightarrow> string \<Rightarrow> bool" where
  "prefixed_ok shape operation meth path \<longleftrightarrow> (\<exists>pre rest. path = pre @ rest \<and> shape_ok shape operation meth rest)"

lemma answers_return_prefixed:
  assumes "shape_ok shape operation meth path" and "send rq = Inr rs" and "rq_method rq = meth" and "rq_path rq = pre @ path"
    and "\<not> 400 \<le> rs_status rs"
    and "map_of d ''operation'' = Some (JStr operation)" and "map_of d ''status'' = Some (JInt (rs_status rs))"
  shows "answers ctx it send (prefixed_ok shape) (Inr (mk_item d))"
  using assms by (intro answers_return [of "prefixed_ok shape" operation meth "pre @ path"]) (auto simp: prefixed_ok_def)

text \<open>A step that raises node errors only.\<close>

definition node_errors :: "'a result \<Rightarrow> bool" where
  "node_errors r = (case r of Inl e \<Rightarrow> exn_cls e = NodeExecutionError | Inr _ \<Rightarrow> True)"

lemma node_errors_Inr: "node_errors (Inr x)"
  by (simp add: node_errors_def)

lemma node_errors_raise: "node_errors (raise NodeExecutionError m)"
  by (simp add: node_errors_def raise_def)

lemma node_errors_if: "node_errors a \<Longrightarrow> node_errors b \<Longrightarrow> node_errors (if c then a else b)"
  by simp

lemma node_errors_let: "(\<And>x. node_errors (f x)) \<Longrightarrow> node_errors (let x = e in f x)"
  by (simp add: Let_def)

lemma answers_step:
  "node_errors r \<Longrightarrow> (\<And>x. answers ctx it send ok (f x)) \<Longrightarrow> answers ctx it send ok (rbind r f)"
  by (cases r) (simp_all add: node_errors_def answers_def)

lemmas answers_rules = node_errors_raise node_errors_if node_errors_let node_errors_Inr answers_params answers_raise answers_let answers_option answers_prod answers_injected answers_send
  answers_step

text \<open>A node sees of its builder that the request has the shape declared for the operation.\<close>

context request_builder
begin

lemma built_shape: "build operation params = Inr r \<Longrightarrow> shape_ok shape operation (fst r) (fst (snd r))"
  using unsupported [of operation params] supported [of operation _ params]
  by (cases "map_of shape operation") (auto simp: shape_ok_def ensures_def request_ok_def split: option.splits)

lemma answers_build:
  assumes "\<And>meth path x. shape_ok shape operation meth path \<Longrightarrow> answers ctx it send ok (f (meth, path, x))"
  shows "answers ctx it send ok (rbind (node_error_from ValueError msg (build operation params)) f)"
proof (cases "build operation params")
  case (Inl e)
  then have "exn_cls e = ValueError"
    using unsupported [of operation params] supported [of operation _ params]
    by (cases "map_of shape operation") (auto simp: raises_code ensures_def)
  with Inl show ?thesis by (simp add: node_error_from_def answers_def raise_def)
next
  case (Inr r)
  with built_shape [OF Inr] assms [of "fst r" "fst (snd r)" "snd (snd r)"] show ?thesis
    by (simp add: node_error_from_def)
qed

end

section \<open>Preparing a run\<close>

text \<open>Before the first item a node raises a node error, or what the lookup of a credential raised.\<close>

definition prepares :: "exec_ctx \<Rightarrow> 'a result \<Rightarrow> bool" where
  "prepares ctx r = (case r of
     Inl e \<Rightarrow> exn_cls e = NodeExecutionError \<or> (\<exists>slot. load_credential ctx slot = Inl e) | Inr _ \<Rightarrow> True)"

lemma prepares_Inr: "prepares ctx (Inr x)"
  by (simp add: prepares_def)

lemma prepares_raise: "prepares ctx (raise NodeExecutionError m)"
  by (simp add: prepares_def raise_def)

lemma prepares_load: "prepares ctx (load_credential ctx slot)"
  by (auto simp: prepares_def split: sum.split)

lemma prepares_bind: "prepares ctx r \<Longrightarrow> (\<And>x. prepares ctx (f x)) \<Longrightarrow> prepares ctx (rbind r f)"
  by (cases r) (simp_all add: prepares_def)

lemma prepares_if: "prepares ctx a \<Longrightarrow> prepares ctx b \<Longrightarrow> prepares ctx (if c then a else b)"
  by simp

lemma prepares_let: "(\<And>x. prepares ctx (f x)) \<Longrightarrow> prepares ctx (let x = e in f x)"
  by (simp add: Let_def)

lemma prepares_option: "prepares ctx a \<Longrightarrow> (\<And>v. prepares ctx (f v)) \<Longrightarrow> prepares ctx (case e of None \<Rightarrow> a | Some v \<Rightarrow> f v)"
  by (simp split: option.split)

lemma prepares_prod: "(\<And>a b. prepares ctx (f a b)) \<Longrightarrow> prepares ctx (case e of (a, b) \<Rightarrow> f a b)"
  by (simp split: prod.split)

lemma prepares_translated: "ensures P r \<Longrightarrow> prepares ctx (node_error_from ValueError m r)"
  by (cases r) (simp_all add: ensures_def node_error_from_def prepares_def raise_def)

lemmas prepares_rules = prepares_load prepares_raise prepares_if prepares_let prepares_option prepares_prod prepares_bind
  prepares_Inr

lemma rbind_if: "rbind (if c then a else b) f = (if c then rbind a f else rbind b f)"
  by simp

lemma rbind_option: "rbind (case e of None \<Rightarrow> a | Some v \<Rightarrow> g v) f = (case e of None \<Rightarrow> rbind a f | Some v \<Rightarrow> rbind (g v) f)"
  by (simp split: option.split)

lemmas prepare_simps = Let_def case_prod_unfold rbind_assoc rbind_Inr rbind_raise rbind_if rbind_option fst_conv snd_conv

section \<open>The loop over the items\<close>

lemma each_item_Inr:
  assumes "each_item f seed = Inr outs"
  shows "length outs = length seed \<and> (\<forall>i < length seed. f i (seed ! i) = Inr (outs ! i))"
proof -
  have "length outs = length seed \<and> (\<forall>i < length seed. f (n + i) (seed ! i) = Inr (outs ! i))"
    if "rmap (\<lambda>(i, it). f i it) (enumerate n seed) = Inr outs" for n
    using that
  proof (induction seed arbitrary: n outs)
    case (Cons it seed)
    then obtain o' os where o: "f n it = Inr o'" "rmap (\<lambda>(i, it). f i it) (enumerate (Suc n) seed) = Inr os" "outs = o' # os"
      by (auto simp: rbind_eq_Inr)
    from Cons.IH [OF o(2)] o(1,3) show ?case by (auto simp: nth_Cons split: nat.splits)
  qed simp
  from this [of 0] assms show ?thesis by (simp add: each_item_def)
qed

lemma each_item_Inl:
  assumes "each_item f seed = Inl e"
  shows "\<exists>i < length seed. f i (seed ! i) = Inl e \<and> (\<forall>j < i. \<exists>out. f j (seed ! j) = Inr out)"
proof -
  have "\<exists>i < length seed. f (n + i) (seed ! i) = Inl e \<and> (\<forall>j < i. \<exists>out. f (n + j) (seed ! j) = Inr out)"
    if "rmap (\<lambda>(i, it). f i it) (enumerate n seed) = Inl e" for n
    using that
  proof (induction seed arbitrary: n)
    case (Cons it seed)
    show ?case
    proof (cases "f n it")
      case (Inr out)
      with Cons.prems have "rmap (\<lambda>(i, it). f i it) (enumerate (Suc n) seed) = Inl e"
        by (simp add: rbind_def split: sum.splits)
      from Cons.IH [OF this] obtain i where "i < length seed" "f (Suc n + i) (seed ! i) = Inl e"
        "\<forall>j < i. \<exists>out. f (Suc n + j) (seed ! j) = Inr out" by blast
      with Inr show ?thesis by (intro exI [of _ "Suc i"]) (auto simp: less_Suc_eq_0_disj)
    qed (use Cons.prems in auto)
  qed simp
  from this [of 0] assms show ?thesis by (simp add: each_item_def)
qed

section \<open>Nodes\<close>

text \<open>
  An integration node: \<open>prepare\<close> resolves the credentials, \<open>base\<close> is the address of the service,
  \<open>dispatch\<close> handles one item and \<open>via\<close> says how it uses the client.
\<close>

locale http_node =
  fixes execute :: "network \<Rightarrow> exec_ctx \<Rightarrow> item list \<Rightarrow> item list list result"
    and prepare :: "exec_ctx \<Rightarrow> 'c result"
    and base :: "'c \<Rightarrow> string"
    and dispatch :: "exec_ctx \<Rightarrow> 'c \<Rightarrow> http_client \<Rightarrow> item \<Rightarrow> item result"
    and via :: "'c \<Rightarrow> http_client \<Rightarrow> http_client"
    and ok :: "string \<Rightarrow> string \<Rightarrow> string \<Rightarrow> bool"
  assumes execute_eq: "execute net ctx items = rbind (prepare ctx) (\<lambda>c.
      rbind (each_item (\<lambda>i it. dispatch ctx c (net (base c) i) it) (if items = [] then [mk_item []] else items))
        (\<lambda>results. Inr [results]))"
    and prepare_ok: "prepares ctx (prepare ctx)"
    and dispatch_ok: "answers ctx it (via c client) ok (dispatch ctx c client it)"
begin

lemma execute_returns:
  assumes "execute net ctx items = Inr out"
  shows "\<exists>c results. prepare ctx = Inr c \<and> out = [results] \<and> length results = max 1 (length items)
    \<and> (\<forall>i < length results. reports (via c (net (base c) i)) ok (results ! i))"
proof -
  let ?seed = "if items = [] then [mk_item []] else items"
  obtain c results where c: "prepare ctx = Inr c" and out: "out = [results]"
    and e: "each_item (\<lambda>i it. dispatch ctx c (net (base c) i) it) ?seed = Inr results"
    using assms by (auto simp: execute_eq rbind_eq_Inr)
  from each_item_Inr [OF e] have len: "length results = length ?seed"
    and r: "\<forall>i < length ?seed. dispatch ctx c (net (base c) i) (?seed ! i) = Inr (results ! i)" by auto
  have "reports (via c (net (base c) i)) ok (results ! i)" if "i < length results" for i
    using dispatch_ok [of ctx "?seed ! i" c "net (base c) i"] r len that by (simp add: answers_def del: if_split)
  moreover have "length results = max 1 (length items)" using len by (cases items) auto
  ultimately show ?thesis using c out by blast
qed

text \<open>What can stop a run: a credential, the parameters of an item, or the network.\<close>

lemma execute_errors:
  assumes "execute net ctx items = Inl e" and "exn_cls e \<noteq> NodeExecutionError"
  shows "(\<exists>slot. load_credential ctx slot = Inl e) \<or> (\<exists>it. resolved_params ctx (Some it) = Inl e)
    \<or> (\<exists>c i rq. prepare ctx = Inr c \<and> via c (net (base c) i) rq = Inl e)"
proof (cases "prepare ctx")
  case (Inl e')
  with assms prepare_ok [of ctx] show ?thesis by (auto simp: execute_eq prepares_def)
next
  case (Inr c)
  let ?seed = "if items = [] then [mk_item []] else items"
  from assms(1) Inr have "each_item (\<lambda>i it. dispatch ctx c (net (base c) i) it) ?seed = Inl e"
    by (auto simp: execute_eq rbind_def split: sum.splits)
  from each_item_Inl [OF this] obtain i where "dispatch ctx c (net (base c) i) (?seed ! i) = Inl e" by blast
  with dispatch_ok [of ctx "?seed ! i" c "net (base c) i"] assms(2) Inr show ?thesis
    by (auto simp: answers_def simp del: if_split)
qed

end

end
