(* ===== verification/Credential_Type.thy ===== *)
theory Credential_Type
  imports Http
begin

text \<open>
  What the credential types share (\<open>credentials/base.py\<close>): the class attributes as a record, what
  \<open>inject\<close> may do to a request and what a self-test of a credential may report. A test result is the
  pair of its flag and its message.
\<close>

record credential_type =
  ct_qualname :: string
  ct_slug :: string
  ct_display_name :: string
  ct_generic :: bool
  ct_documentation_url :: "string option"
  ct_properties :: "property_schema list"

section \<open>Injection\<close>

text \<open>A credential goes into the headers or the query; method, path and body stay.\<close>

definition same_target :: "http_request \<Rightarrow> http_request \<Rightarrow> bool" where
  "same_target rq rq' \<longleftrightarrow> rq_method rq' = rq_method rq \<and> rq_path rq' = rq_path rq \<and> rq_json rq' = rq_json rq
     \<and> rq_data rq' = rq_data rq"

definition keeps :: "http_request \<Rightarrow> http_request result \<Rightarrow> bool" where
  "keeps rq r = (case r of Inl e \<Rightarrow> exn_cls e = ValueError | Inr rq' \<Rightarrow> same_target rq rq')"

lemma set_header_target [simp]:
  "rq_method (set_header k v rq) = rq_method rq" "rq_path (set_header k v rq) = rq_path rq"
  "rq_json (set_header k v rq) = rq_json rq" "rq_data (set_header k v rq) = rq_data rq"
  by (simp_all add: set_header_def)

lemma default_header_target [simp]:
  "rq_method (default_header k v rq) = rq_method rq" "rq_path (default_header k v rq) = rq_path rq"
  "rq_json (default_header k v rq) = rq_json rq" "rq_data (default_header k v rq) = rq_data rq"
  by (simp_all add: default_header_def)

lemma keeps_Inr: "same_target rq rq' \<Longrightarrow> keeps rq (Inr rq')"
  by (simp add: keeps_def)

lemma keeps_raise: "keeps rq (raise ValueError m)"
  by (simp add: keeps_def raise_def)

lemma keeps_let: "(\<And>x. x = e \<Longrightarrow> keeps rq (f x)) \<Longrightarrow> keeps rq (let x = e in f x)"
  by (simp add: Let_def)

lemma keeps_if: "(c \<Longrightarrow> keeps rq a) \<Longrightarrow> (\<not> c \<Longrightarrow> keeps rq b) \<Longrightarrow> keeps rq (if c then a else b)"
  by simp

lemma keeps_bind: "ensures P r \<Longrightarrow> (\<And>x. keeps rq (f x)) \<Longrightarrow> keeps rq (rbind r f)"
  by (cases r) (simp_all add: ensures_def keeps_def)

lemmas keeps_rules = keeps_raise keeps_let keeps_if keeps_Inr

section \<open>Self-tests\<close>

text \<open>
  \<open>tested client r\<close>: the test reports success only after the service answered a request with a status
  below 400, and raises only what the client raised (a network error is reported, not raised) or
  \<open>ValueError\<close>.
\<close>

definition answered :: "http_client \<Rightarrow> bool" where
  "answered client \<longleftrightarrow> (\<exists>rq rs. client rq = Inr rs \<and> rs_status rs < 400)"

definition tested :: "http_client \<Rightarrow> (bool \<times> string) result \<Rightarrow> bool" where
  "tested client r = (case r of
     Inl e \<Rightarrow> exn_cls e = ValueError \<or> exn_cls e \<noteq> HTTPError \<and> (\<exists>rq. client rq = Inl e)
   | Inr (ok, m) \<Rightarrow> ok \<longrightarrow> answered client)"

lemma tested_False: "tested client (Inr (False, m))"
  by (simp add: tested_def)

lemma tested_answered: "client rq = Inr rs \<Longrightarrow> rs_status rs < 400 \<Longrightarrow> tested client (Inr (b, m))"
  by (auto simp: tested_def answered_def)

lemma tested_let: "(\<And>x. tested client (f x)) \<Longrightarrow> tested client (let x = e in f x)"
  by (simp add: Let_def)

lemma tested_if: "(c \<Longrightarrow> tested client a) \<Longrightarrow> (\<not> c \<Longrightarrow> tested client b) \<Longrightarrow> tested client (if c then a else b)"
  by simp

lemma tested_call:
  assumes "\<And>e. tested client (h e)" and "\<And>rs. client rq = Inr rs \<Longrightarrow> tested client (f rs)"
  shows "tested client (case client rq of Inl e \<Rightarrow> if exn_cls e = HTTPError then h e else Inl e | Inr rs \<Rightarrow> f rs)"
  using assms by (cases "client rq") (auto simp: tested_def)

lemma tested_try:
  assumes "ensures P r" and "\<And>e. tested client (h e)" and "\<And>x. tested client (f x)"
  shows "tested client (case r of Inl e \<Rightarrow> if exn_cls e = ValueError then h e else Inl e | Inr x \<Rightarrow> f x)"
  using assms by (cases r) (auto simp: ensures_def)

lemma tested_bind: "ensures P r \<Longrightarrow> (\<And>x. tested client (f x)) \<Longrightarrow> tested client (rbind r f)"
  by (cases r) (simp_all add: ensures_def tested_def)

lemma ensures_response_json: "ensures (\<lambda>_. True) (response_json rs)"
  by (simp add: response_json_def ensures_def raise_def split: option.split)

lemma ensures_try:
  assumes "ensures (\<lambda>_. True) r" and "\<And>e. ensures (\<lambda>_. True) (h e)" and "\<And>x. ensures (\<lambda>_. True) (f x)"
  shows "ensures (\<lambda>_. True) (case r of Inl e \<Rightarrow> if exn_cls e = ValueError then h e else Inl e | Inr x \<Rightarrow> f x)"
  using assms by (cases r) (auto simp: ensures_def)

text \<open>A key whose value is true is present.\<close>

lemma tested_lookup:
  assumes "py_bool (dict_get d k JNull)" and "\<And>x. tested client (f x)"
  shows "tested client (rbind (lookup d k) f)"
proof -
  have "map_of d k \<noteq> None" using assms(1) by (cases "map_of d k") (simp_all add: dict_get_def)
  with assms(2) show ?thesis by (auto simp: lookup_def)
qed

lemmas tested_rules = tested_lookup tested_False tested_call tested_if tested_let
  ensures_response_json [THEN tested_try] ensures_response_json [THEN tested_bind]
  ensures_try [OF ensures_response_json, THEN tested_bind] ensures_Inr TrueI

end
