(* ===== verification/Credentials.thy ===== *)
theory Credentials
  imports Credential_Type
begin

text \<open>
  Credentials: the registry of credential types (\<open>credentials/registry.py\<close>), the two resolvers that hand a
  credential to a node (\<open>credentials/resolver.py\<close>), the cipher of stored payloads (\<open>credentials/cipher.py\<close>)
  and the references to external secrets (\<open>credentials/external\<close>). The Fernet primitives, the JSON codec and
  the rows of the database are parameters.
\<close>

section \<open>Registry of types\<close>

type_synonym credential_registry = "(string, credential_type) dict"

definition cr_register :: "credential_type \<Rightarrow> bool \<Rightarrow> credential_registry \<Rightarrow> credential_registry result" where
  "cr_register cred_cls replace reg =
     (let slug = ct_slug cred_cls in
      if slug = [] then raise CredentialRegistryError (ct_qualname cred_cls @ '' is missing a string `slug` class attribute'')
      else if map_of reg slug \<noteq> None \<and> \<not> replace
      then raise CredentialRegistryError (''credential type already registered: '' @ repr_str slug)
      else Inr (dict_set slug cred_cls reg))"

definition cr_register_many :: "credential_type list \<Rightarrow> bool \<Rightarrow> credential_registry \<Rightarrow> credential_registry result" where
  "cr_register_many classes replace reg = rfold (\<lambda>r c. cr_register c replace r) reg classes"

definition cr_get :: "credential_registry \<Rightarrow> string \<Rightarrow> credential_type result" where
  "cr_get reg slug = (case map_of reg slug of
     None \<Rightarrow> raise CredentialTypeNotFoundError (''no credential type registered for '' @ repr_str slug)
   | Some c \<Rightarrow> Inr c)"

definition cr_contains :: "credential_registry \<Rightarrow> string \<Rightarrow> bool" where
  "cr_contains reg slug \<longleftrightarrow> map_of reg slug \<noteq> None"

definition cr_catalog :: "credential_registry \<Rightarrow> credential_type list" where
  "cr_catalog reg = map snd reg"

text \<open>
  \<open>load_builtins\<close>: a built-in module is imported and its \<open>TYPE\<close> registered. What an import gives is a
  parameter: no \<open>TYPE\<close>, something that is not a credential type, or a type.
\<close>

datatype type_attribute = NoType | NotACredentialType | CredType credential_type

definition cr_load_module :: "(string \<Rightarrow> type_attribute result) \<Rightarrow> credential_registry \<Rightarrow> string \<Rightarrow> credential_registry result" where
  "cr_load_module import_type reg module_name =
     rbind (import_type module_name) (\<lambda>t. case t of
        NoType \<Rightarrow> raise CredentialRegistryError (module_name @ '' is missing a top-level `TYPE` attribute'')
      | NotACredentialType \<Rightarrow> raise CredentialRegistryError (module_name @ ''.TYPE is not a BaseCredentialType subclass'')
      | CredType c \<Rightarrow> cr_register c False reg)"

definition cr_load_builtins :: "(string \<Rightarrow> type_attribute result) \<Rightarrow> string list \<Rightarrow> credential_registry
    \<Rightarrow> (credential_registry \<times> int) result" where
  "cr_load_builtins import_type builtin_types reg =
     rbind (rfold (cr_load_module import_type) reg builtin_types) (\<lambda>reg'.
       Inr (reg', int (length reg') - int (length reg)))"

lemma cr_register_new:
  "ct_slug c \<noteq> [] \<Longrightarrow> map_of reg (ct_slug c) = None \<Longrightarrow> cr_register c False reg = Inr (reg @ [(ct_slug c, c)])"
  by (simp add: cr_register_def Let_def dict_set_new)

lemma cr_load_new:
  assumes "map import_type ms = map (Inr \<circ> CredType) cs" and "distinct (map fst reg @ map ct_slug cs)"
    and "list_all (\<lambda>c. ct_slug c \<noteq> []) cs"
  shows "rfold (cr_load_module import_type) reg ms = Inr (reg @ map (\<lambda>c. (ct_slug c, c)) cs)"
  using assms
proof (induction cs arbitrary: ms reg)
  case (Cons c cs)
  then obtain m ms' where ms: "ms = m # ms'" and m: "import_type m = Inr (CredType c)"
    and rest: "map import_type ms' = map (Inr \<circ> CredType) cs" by (cases ms) auto
  have "map_of reg (ct_slug c) = None" using Cons.prems(2) by (auto simp: map_of_eq_None_iff)
  then have "cr_load_module import_type reg m = Inr (reg @ [(ct_slug c, c)])"
    using Cons.prems(3) m by (simp add: cr_load_module_def cr_register_new)
  moreover have d: "distinct (map fst (reg @ [(ct_slug c, c)]) @ map ct_slug cs)" using Cons.prems(2) by auto
  ultimately show ?case using Cons.IH [OF rest d] Cons.prems(3) ms by simp
qed simp

section \<open>Resolvers\<close>

text \<open>A row: type slug, payload, project.\<close>

record memory_resolver =
  mr_types :: credential_registry
  mr_rows :: "(string, string \<times> jobj \<times> string) dict"

definition mr_resolve :: "memory_resolver \<Rightarrow> string \<Rightarrow> string \<Rightarrow> (credential_type \<times> jobj) result" where
  "mr_resolve r credential_id project =
     (case map_of (mr_rows r) credential_id of
        None \<Rightarrow> raise CredentialNotFoundError (''credential '' @ repr_str credential_id @ '' not found'')
      | Some (slug, payload, owner_project) \<Rightarrow>
          if owner_project \<noteq> project
          then raise CredentialNotFoundError (''credential '' @ repr_str credential_id @ '' not in project '' @ repr_str project)
          else case map_of (mr_types r) slug of
            None \<Rightarrow> raise CredentialTypeNotFoundError (''no credential type registered for '' @ repr_str slug)
          | Some cred_cls \<Rightarrow> Inr (cred_cls, payload))"

text \<open>The cipher: \<open>fernet_decrypt\<close> is \<open>None\<close> for an invalid token, \<open>loads\<close> is \<open>None\<close> where decoding or parsing fails.\<close>

record 'b cipher =
  fernet_encrypt :: "string \<Rightarrow> 'b"
  fernet_decrypt :: "'b \<Rightarrow> string option"
  fernet_rotate :: "'b \<Rightarrow> 'b"
  dumps :: "jobj \<Rightarrow> string"
  loads :: "string \<Rightarrow> json option"

definition cipher_encrypt :: "'b cipher \<Rightarrow> jobj \<Rightarrow> 'b" where
  "cipher_encrypt c payload = fernet_encrypt c (dumps c payload)"

definition cipher_decrypt :: "'b cipher \<Rightarrow> 'b \<Rightarrow> jobj result" where
  "cipher_decrypt c ciphertext =
     (case fernet_decrypt c ciphertext of
        None \<Rightarrow> raise CredentialDecryptError ''credential failed to decrypt - rotate the key or restore the old one''
      | Some data \<Rightarrow>
          (case loads c data of
             None \<Rightarrow> raise ValueError ''invalid JSON''
           | Some (JObj loaded) \<Rightarrow> Inr loaded
           | Some _ \<Rightarrow> raise CredentialDecryptError ''credential payload is not a JSON object''))"

definition cipher_rotate :: "'b cipher \<Rightarrow> 'b \<Rightarrow> 'b" where
  "cipher_rotate c ciphertext = fernet_rotate c ciphertext"

text \<open>The stored row and the project-scoped read of \<open>CredentialRepository\<close>.\<close>

record 'b credential_entity =
  ce_id :: string
  ce_project_id :: string
  ce_type :: string
  ce_data_ciphertext :: 'b

definition credential_repo_get :: "(string \<Rightarrow> 'b credential_entity option) \<Rightarrow> string \<Rightarrow> string \<Rightarrow> 'b credential_entity option" where
  "credential_repo_get session_get credential_id project =
     (case session_get credential_id of
        None \<Rightarrow> None
      | Some entity \<Rightarrow> if ce_project_id entity \<noteq> project then None else Some entity)"

definition db_resolve :: "(string \<Rightarrow> 'b credential_entity option) \<Rightarrow> 'b cipher \<Rightarrow> credential_registry
    \<Rightarrow> string \<Rightarrow> string \<Rightarrow> (credential_type \<times> jobj) result" where
  "db_resolve session_get c types credential_id project =
     (case credential_repo_get session_get credential_id project of
        None \<Rightarrow> raise CredentialNotFoundError (''credential '' @ repr_str credential_id @ '' not found'')
      | Some entity \<Rightarrow>
          rbind (cr_get types (ce_type entity)) (\<lambda>cred_cls.
          rbind (cipher_decrypt c (ce_data_ciphertext entity)) (\<lambda>payload.
            Inr (cred_cls, payload))))"

section \<open>What a resolver promises\<close>

text \<open>
  The interface of the engine: \<open>owner\<close> tells whose a credential is, \<open>stored\<close> its type slug and payload. A
  credential of another project is reported like a missing one, by class.
\<close>

locale credential_store =
  fixes resolve :: "string \<Rightarrow> string \<Rightarrow> (credential_type \<times> jobj) result"
    and owner :: "string \<Rightarrow> string option"
    and stored :: "string \<Rightarrow> (string \<times> jobj result) option"
    and types :: credential_registry
  assumes scoped: "owner cid \<noteq> Some project \<Longrightarrow> raises CredentialNotFoundError (resolve cid project)"
    and found: "owner cid = Some project \<Longrightarrow> \<exists>slug payload. stored cid = Some (slug, payload)
      \<and> resolve cid project = rbind (cr_get types slug) (\<lambda>c. rbind payload (\<lambda>p. Inr (c, p)))"
begin

lemma resolve_owner:
  assumes "resolve cid project = Inr (c, p)"
  shows "owner cid = Some project \<and> (\<exists>slug. stored cid = Some (slug, Inr p) \<and> map_of types slug = Some c)"
proof -
  have o: "owner cid = Some project" using scoped [of cid project] assms by (auto simp: raises_code)
  from found [OF o] obtain slug payload where st: "stored cid = Some (slug, payload)"
    and "rbind (cr_get types slug) (\<lambda>c. rbind payload (\<lambda>p. Inr (c, p))) = Inr (c, p)"
    using assms by auto
  then have "map_of types slug = Some c" and "payload = Inr p"
    by (auto simp: rbind_eq_Inr cr_get_def raise_def split: option.splits)
  with o st show ?thesis by blast
qed

text \<open>No two projects see the same credential.\<close>

lemma resolve_unshared:
  "resolve cid project = Inr x \<Longrightarrow> resolve cid project' = Inr y \<Longrightarrow> project' = project"
  using resolve_owner [of cid project] resolve_owner [of cid project'] by (cases x, cases y) auto

end

interpretation memory_store: credential_store "mr_resolve r"
  "\<lambda>cid. map_option (\<lambda>(slug, payload, project). project) (map_of (mr_rows r) cid)"
  "\<lambda>cid. map_option (\<lambda>(slug, payload, project). (slug, Inr payload)) (map_of (mr_rows r) cid)" "mr_types r" for r
  by unfold_locales (auto simp: mr_resolve_def cr_get_def split: option.splits)

interpretation database_store: credential_store "db_resolve session_get c types"
  "\<lambda>cid. map_option ce_project_id (session_get cid)"
  "\<lambda>cid. map_option (\<lambda>e. (ce_type e, cipher_decrypt c (ce_data_ciphertext e))) (session_get cid)" types
  for session_get c types
  by unfold_locales (auto simp: db_resolve_def credential_repo_get_def split: option.splits)

section \<open>External secrets\<close>

text \<open>\<open>SecretProviderError\<close> and its subclasses are told apart by name only.\<close>

record secret_reference =
  sr_scheme :: string
  sr_path :: string
  sr_field :: "string option"

definition sr_raw :: "secret_reference \<Rightarrow> string" where
  "sr_raw ref = (case sr_field ref of
     None \<Rightarrow> sr_scheme ref @ '':'' @ sr_path ref
   | Some field \<Rightarrow> sr_scheme ref @ '':'' @ sr_path ref @ ''#'' @ field)"

text \<open>\<open>s.partition(c)\<close>: what is before the first \<open>c\<close>, and what is after it where there is one.\<close>

definition partition_at :: "char \<Rightarrow> string \<Rightarrow> string \<times> string option" where
  "partition_at c s = (takeWhile (\<lambda>x. x \<noteq> c) s, case dropWhile (\<lambda>x. x \<noteq> c) s of [] \<Rightarrow> None | _ # t \<Rightarrow> Some t)"

definition parse_reference :: "string \<Rightarrow> secret_reference result" where
  "parse_reference raw =
     (case partition_at CHR '':'' raw of
        (_, None) \<Rightarrow> raise (Other ''MalformedSecretReferenceError'') (''secret reference must be scheme:path, got '' @ repr_str raw)
      | (before, Some remainder) \<Rightarrow>
          (let scheme = py_lower (py_strip before) in
           if scheme = [] then raise (Other ''MalformedSecretReferenceError'') (''secret reference has empty scheme: '' @ repr_str raw)
           else if remainder = [] then raise (Other ''MalformedSecretReferenceError'') (''secret reference has empty path: '' @ repr_str raw)
           else (let (path, field) = partition_at CHR ''#'' remainder in
             if path = [] then raise (Other ''MalformedSecretReferenceError'') (''secret reference has empty path: '' @ repr_str raw)
             else Inr \<lparr>sr_scheme = scheme, sr_path = path, sr_field = field\<rparr>)))"

record secret_provider =
  sp_scheme :: string
  sp_get :: "secret_reference \<Rightarrow> string result"

definition env_get :: "(string, string) dict \<Rightarrow> secret_reference \<Rightarrow> string result" where
  "env_get env ref =
     (if sr_scheme ref \<noteq> ''env''
      then raise (Other ''SecretProviderError'') (''EnvSecretProvider cannot handle scheme '' @ repr_str (sr_scheme ref))
      else if sr_field ref \<noteq> None
      then raise (Other ''SecretProviderError'') ''env references do not support a #field fragment''
      else case map_of env (sr_path ref) of
        Some v \<Rightarrow> Inr v
      | None \<Rightarrow> raise (Other ''SecretNotFoundError'') (''environment variable '' @ repr_str (sr_path ref) @ '' is not set''))"

definition env_provider :: "(string, string) dict \<Rightarrow> secret_provider" where
  "env_provider env = \<lparr>sp_scheme = ''env'', sp_get = env_get env\<rparr>"

type_synonym provider_registry = "(string, secret_provider) dict"

definition sp_register :: "secret_provider \<Rightarrow> provider_registry \<Rightarrow> provider_registry result" where
  "sp_register provider reg =
     (if map_of reg (sp_scheme provider) \<noteq> None
      then raise ValueError (''secret provider already registered for scheme '' @ repr_str (sp_scheme provider))
      else Inr (dict_set (sp_scheme provider) provider reg))"

definition sp_resolve :: "provider_registry \<Rightarrow> string \<Rightarrow> string result" where
  "sp_resolve reg raw_reference =
     rbind (parse_reference raw_reference) (\<lambda>reference.
       case map_of reg (sr_scheme reference) of
         None \<Rightarrow> raise (Other ''UnknownSecretSchemeError'')
           (''no secret provider registered for scheme '' @ repr_str (sr_scheme reference))
       | Some provider \<Rightarrow> sp_get provider reference)"

section \<open>Properties\<close>

text \<open>A scheme as the parser leaves it, a path without a hash.\<close>

definition reference_ok :: "secret_reference \<Rightarrow> bool" where
  "reference_ok ref \<longleftrightarrow> sr_scheme ref \<noteq> [] \<and> CHR '':'' \<notin> set (sr_scheme ref)
     \<and> py_lower (py_strip (sr_scheme ref)) = sr_scheme ref \<and> sr_path ref \<noteq> [] \<and> CHR ''#'' \<notin> set (sr_path ref)"

lemma partition_at_split: "c \<notin> set a \<Longrightarrow> partition_at c (a @ c # b) = (a, Some b)"
  by (induction a) (auto simp: partition_at_def)

lemma partition_at_none: "c \<notin> set a \<Longrightarrow> partition_at c a = (a, None)"
  by (induction a) (auto simp: partition_at_def)

lemma partition_at_fst: "c \<notin> set (fst (partition_at c s))"
  by (auto simp: partition_at_def dest: set_takeWhileD)

text \<open>The scheme the parser keeps is stripped and in lower case for good.\<close>

lemma ascii_lower_simps:
  "ascii_lower (ascii_lower c) = ascii_lower c" "py_isspace (ascii_lower c) = py_isspace c"
  "ascii_lower c = CHR '':'' \<longleftrightarrow> c = CHR '':''"
proof -
  define n where "n = (of_char c :: nat)"
  have l: "ascii_lower c = (if 65 \<le> n \<and> n \<le> 90 then char_of (n + 32) else c)"
    by (simp add: ascii_lower_def n_def Let_def)
  have o: "of_char (ascii_lower c) = (if 65 \<le> n \<and> n \<le> 90 then n + 32 else n)"
    using l by (auto simp: n_def)
  show "py_isspace (ascii_lower c) = py_isspace c"
    by (auto simp: py_isspace_def Let_def o n_def [symmetric])
  show "ascii_lower (ascii_lower c) = ascii_lower c"
    unfolding ascii_lower_def [of "ascii_lower c"] Let_def o by auto
  have "ascii_lower c = CHR '':'' \<longleftrightarrow> of_char (ascii_lower c) = (58 :: nat)"
    using of_char_eq_iff [of "ascii_lower c" "CHR '':''", where 'a = nat] by simp
  moreover have "c = CHR '':'' \<longleftrightarrow> n = 58"
    using of_char_eq_iff [of c "CHR '':''", where 'a = nat] by (simp add: n_def)
  ultimately show "ascii_lower c = CHR '':'' \<longleftrightarrow> c = CHR '':''" using o by auto
qed

lemma py_strip_ends: "py_strip s \<noteq> [] \<Longrightarrow> \<not> py_isspace (hd (py_strip s)) \<and> \<not> py_isspace (last (py_strip s))"
proof -
  define d where "d = dropWhile py_isspace s"
  have st: "py_strip s = rev (dropWhile py_isspace (rev d))"
    by (simp add: py_strip_def rstrip_chars_def lstrip_chars_def d_def)
  assume ne: "py_strip s \<noteq> []"
  then have l: "\<not> py_isspace (last (py_strip s))"
    unfolding st by (simp add: last_rev hd_dropWhile)
  have "d \<noteq> []" using ne st by auto
  then have "\<not> py_isspace (hd d)" by (simp add: d_def hd_dropWhile)
  moreover have "hd (py_strip s) = hd d"
  proof -
    have "rev d = takeWhile py_isspace (rev d) @ dropWhile py_isspace (rev d)" by simp
    then have "d = py_strip s @ rev (takeWhile py_isspace (rev d))"
      unfolding st by (metis rev_append rev_rev_ident)
    with ne show ?thesis by (metis hd_append2)
  qed
  ultimately show ?thesis using l by simp
qed

lemma py_strip_id: "s \<noteq> [] \<Longrightarrow> \<not> py_isspace (hd s) \<Longrightarrow> \<not> py_isspace (last s) \<Longrightarrow> py_strip s = s"
  by (simp add: py_strip_def lstrip_chars_def rstrip_chars_def dropWhile_eq_self_iff [THEN iffD2] hd_rev)

lemma lower_strip_stable: "py_lower (py_strip (py_lower (py_strip s))) = py_lower (py_strip s)"
proof (cases "py_strip s = []")
  case True
  have "py_lower [] = []" "py_strip [] = []"
    by (simp_all add: py_lower_def py_strip_def lstrip_chars_def rstrip_chars_def)
  with True show ?thesis by metis
next
  case False
  have "py_strip (py_lower (py_strip s)) = py_lower (py_strip s)"
    using False py_strip_ends [OF False] by (intro py_strip_id) (simp_all add: py_lower_def hd_map last_map ascii_lower_simps)
  then show ?thesis by (simp add: py_lower_def ascii_lower_simps comp_def)
qed

lemma set_py_strip: "set (py_strip s) \<subseteq> set s"
  by (auto simp: py_strip_def lstrip_chars_def rstrip_chars_def dest!: set_dropWhileD)



text \<open>
  C28 (credentials stay in their project): whatever resolver is wired, a credential is handed out only to
  the project that owns it, with the registered type of its row and its payload (decrypted, for the
  database); from the database resolver every other project gets the answer for a missing credential.
\<close>
theorem resolvers_scoped:
  "(\<forall>c p. mr_resolve r cid project = Inr (c, p) \<longrightarrow>
      (\<exists>slug. map_of (mr_rows r) cid = Some (slug, p, project) \<and> map_of (mr_types r) slug = Some c))
   \<and> (\<forall>c p. db_resolve session_get cph types cid project = Inr (c, p) \<longrightarrow>
      (\<exists>e. session_get cid = Some e \<and> ce_project_id e = project \<and> map_of types (ce_type e) = Some c
         \<and> cipher_decrypt cph (ce_data_ciphertext e) = Inr p))
   \<and> (map_option ce_project_id (session_get cid) \<noteq> Some project \<longrightarrow>
      db_resolve session_get cph types cid project
        = raise CredentialNotFoundError (''credential '' @ repr_str cid @ '' not found''))"
proof (intro conjI allI impI)
  fix c p
  show "mr_resolve r cid project = Inr (c, p) \<Longrightarrow>
      \<exists>slug. map_of (mr_rows r) cid = Some (slug, p, project) \<and> map_of (mr_types r) slug = Some c"
    using memory_store.resolve_owner [of r cid project c p] by auto
  show "db_resolve session_get cph types cid project = Inr (c, p) \<Longrightarrow>
      \<exists>e. session_get cid = Some e \<and> ce_project_id e = project \<and> map_of types (ce_type e) = Some c
         \<and> cipher_decrypt cph (ce_data_ciphertext e) = Inr p"
    using database_store.resolve_owner [of session_get cph types cid project c p] by auto
qed (auto simp: db_resolve_def credential_repo_get_def split: option.splits)

definition demo_memory :: memory_resolver where
  "demo_memory = \<lparr>mr_types = [(''demo'', \<lparr>ct_qualname = ''Demo'', ct_slug = ''demo'', ct_display_name = ''Demo'', ct_generic = False,
       ct_documentation_url = None, ct_properties = []\<rparr>)],
     mr_rows = [(''c1'', (''demo'', [(''key'', JStr ''s'')], ''p1''))]\<rparr>"

definition demo_cipher :: "nat cipher" where
  "demo_cipher = \<lparr>fernet_encrypt = length, fernet_decrypt = (\<lambda>_. None), fernet_rotate = id, dumps = (\<lambda>_. []), loads = (\<lambda>_. None)\<rparr>"

theorem resolvers_scoped_witness:
  "mr_resolve demo_memory ''c1'' ''p1'' = Inr (snd (hd (mr_types demo_memory)), [(''key'', JStr ''s'')])
   \<and> map_of (mr_types demo_memory) ''demo'' = Some (snd (hd (mr_types demo_memory)))
   \<and> db_resolve (\<lambda>_. None) demo_cipher [] ''c1'' ''p1''
       = raise CredentialNotFoundError (''credential '' @ repr_str ''c1'' @ '' not found'')"
proof -
  have "mr_resolve demo_memory ''c1'' ''p1'' = Inr (snd (hd (mr_types demo_memory)), [(''key'', JStr ''s'')])"
    by (simp add: mr_resolve_def demo_memory_def)
  then show ?thesis
    using resolvers_scoped [of demo_memory "''c1''" "''p1''" "\<lambda>_. None" demo_cipher "[]"] by (simp add: demo_memory_def)
qed

end
