(* ===== verification/Credential_Types_1.thy ===== *)
theory Credential_Types_1
  imports Credential_Type
begin

text \<open>
  The credential types from \<open>activecampaign_api\<close> to \<open>coinbase_exchange\<close> (\<open>credentials/types/*.py\<close>): the helper functions of each module,
  \<open>inject\<close> and \<open>test\<close> where they use no cryptography, and the attributes of the class. A network call of
  a test is the parameter \<open>client\<close>. Each \<open><name>_inject_ok\<close> shows that the credential leaves the target of
  the request alone, each \<open><name>_test_ok\<close> that a success is backed by an answer of the service.
\<close>

section \<open>Activecampaign api\<close>

definition activecampaign_api_base_url_from :: "string \<Rightarrow> string result" where
  "activecampaign_api_base_url_from raw_url =
     (let cleaned = rstrip_chars (\<lambda>c. c \<in> set ''/'') (py_strip raw_url) in
     if cleaned = [] then raise ValueError ''ActiveCampaign: 'api_url' is required''
     else let cleaned = (if \<not> (substring ''://'' cleaned) then ''https://'' @ cleaned else cleaned) in
     if suffix ''/api/3'' cleaned then Inr cleaned
     else Inr (cleaned @ ''/api/3''))"

definition activecampaign_api_inject :: "(rat \<Rightarrow> string) \<Rightarrow> jobj \<Rightarrow> http_request \<Rightarrow> http_request result" where
  "activecampaign_api_inject fr creds request =
     (let token = py_strip (py_str fr (dict_get creds ''api_token'' (JStr []))) in
     Inr (set_header ''Api-Token'' token request))"

definition activecampaign_api_test :: "(rat \<Rightarrow> string) \<Rightarrow> http_client \<Rightarrow> jobj \<Rightarrow> (bool \<times> string) result" where
  "activecampaign_api_test fr client creds =
     (let token = text_param fr creds ''api_token'' in
     if token = [] then Inr (False, ''api_token is empty'')
     else (case activecampaign_api_base_url_from (py_str fr (param_or creds ''api_url'' (JStr []))) of
       Inl e \<Rightarrow> if exn_cls e = ValueError then (let exc = exn_msg e in Inr (False, exc)) else Inl e
     | Inr base \<Rightarrow>
       (case client ((mk_request ''GET'' (base @ ''/users/me''))\<lparr>rq_headers := [(''Api-Token'', JStr token),
           (''Accept'', JStr ''application/json'')]\<rparr>) of
         Inl e \<Rightarrow> if exn_cls e = HTTPError then (let exc = exn_msg e in Inr (False, ''network error: '' @ exc))
             else Inl e
       | Inr response \<Rightarrow>
         if rs_status response \<noteq> 200 then Inr (False, ''activecampaign rejected token: HTTP '' @ show_int
             (rs_status response))
         else Inr (True, ''authenticated''))))"

definition activecampaign_api_type :: credential_type where
  "activecampaign_api_type =
   \<lparr>ct_qualname = ''ActiveCampaignApiCredential'', ct_slug = ''weftlyflow.activecampaign_api'', ct_display_name
       = ''ActiveCampaign API'', ct_generic = False,
    ct_documentation_url = Some ''https://developers.activecampaign.com/reference/authentication'',
    ct_properties =
      [(mk_property ''api_url'' ''API URL'' PString JNull)\<lparr>prop_required := True, prop_description := Some
          ''Account URL, e.g. 'https://acme-55.api-us1.com'.''\<rparr>,
       (mk_property ''api_token'' ''API Token'' PString JNull)\<lparr>prop_required := True, prop_description := Some
           ''Raw API token from Settings > Developer.'', prop_type_options := Some [(''password'', JBool
           True)]\<rparr>]\<rparr>"

lemma activecampaign_api_base_url_from_ok: "ensures (\<lambda>_. True) (activecampaign_api_base_url_from raw_url)"
  unfolding activecampaign_api_base_url_from_def by (rule ensures_rules | simp)+

lemma activecampaign_api_inject_ok: "keeps request (activecampaign_api_inject fr creds request)"
  unfolding activecampaign_api_inject_def by (rule keeps_rules | simp add: same_target_def)+

lemma activecampaign_api_test_ok: "tested client (activecampaign_api_test fr client creds)"
  unfolding activecampaign_api_test_def by (rule activecampaign_api_base_url_from_ok [THEN tested_bind] activecampaign_api_base_url_from_ok [THEN tested_try] tested_rules | rule tested_answered, assumption | simp)+

section \<open>Algolia api\<close>

definition algolia_api_inject :: "(rat \<Rightarrow> string) \<Rightarrow> jobj \<Rightarrow> http_request \<Rightarrow> http_request result" where
  "algolia_api_inject fr creds request =
     (let app_id = py_strip (py_str fr (dict_get creds ''application_id'' (JStr []))) in
     let key = py_strip (py_str fr (dict_get creds ''api_key'' (JStr []))) in
     let request = set_header ''X-Algolia-Application-Id'' app_id request in
     Inr (set_header ''X-Algolia-API-Key'' key request))"

definition algolia_api_type :: credential_type where
  "algolia_api_type =
   \<lparr>ct_qualname = ''AlgoliaApiCredential'', ct_slug = ''weftlyflow.algolia_api'', ct_display_name =
       ''Algolia API'', ct_generic = False,
    ct_documentation_url = Some ''https://www.algolia.com/doc/guides/security/api-keys/'',
    ct_properties =
      [(mk_property ''application_id'' ''Application ID'' PString JNull)\<lparr>prop_required := True,
          prop_description := Some ''Algolia Application ID (10-char uppercase).'', prop_placeholder := Some
          ''YourAppID''\<rparr>,
       (mk_property ''api_key'' ''API Key'' PString JNull)\<lparr>prop_required := True, prop_description := Some
           ''Admin or search-only API key.'', prop_type_options := Some [(''password'', JBool True)]\<rparr>]\<rparr>"

lemma algolia_api_inject_ok: "keeps request (algolia_api_inject fr creds request)"
  unfolding algolia_api_inject_def by (rule keeps_rules | simp add: same_target_def)+

section \<open>Alpaca api\<close>

definition alpaca_api_inject :: "(rat \<Rightarrow> string) \<Rightarrow> jobj \<Rightarrow> http_request \<Rightarrow> http_request result" where
  "alpaca_api_inject fr creds request =
     (let request = set_header ''APCA-API-KEY-ID'' (py_strip (py_str fr (dict_get creds ''api_key_id'' (JStr
         [])))) request in
     Inr (set_header ''APCA-API-SECRET-KEY'' (py_strip (py_str fr (dict_get creds ''api_secret_key'' (JStr
         [])))) request))"

definition alpaca_api_host_for :: "string option \<Rightarrow> string" where
  "alpaca_api_host_for environment =
     (let env = py_lower (py_strip (str_or environment ''paper'')) in
     dict_get [(''paper'', ''https://paper-api.alpaca.markets''), (''live'', ''https://api.alpaca.markets'')]
         env ''https://paper-api.alpaca.markets'')"

definition alpaca_api_type :: credential_type where
  "alpaca_api_type =
   \<lparr>ct_qualname = ''AlpacaApiCredential'', ct_slug = ''weftlyflow.alpaca_api'', ct_display_name =
       ''Alpaca Markets API'', ct_generic = False,
    ct_documentation_url = Some ''https://docs.alpaca.markets/docs/getting-started'',
    ct_properties =
      [(mk_property ''api_key_id'' ''API Key ID'' PString JNull)\<lparr>prop_required := True, prop_description :=
          Some ''Alpaca API key identifier (APCA-API-KEY-ID header).''\<rparr>,
       (mk_property ''api_secret_key'' ''API Secret Key'' PString JNull)\<lparr>prop_required := True,
           prop_description := Some ''Alpaca API secret (APCA-API-SECRET-KEY header).'', prop_type_options :=
           Some [(''password'', JBool True)]\<rparr>,
       (mk_property ''environment'' ''Environment'' POptions (JStr ''paper''))\<lparr>prop_required := True,
           prop_description := Some ''Routes to paper-api.alpaca.markets vs api.alpaca.markets.'', prop_options
           := Some [mk_option ''paper'' ''Paper'', mk_option ''live'' ''Live'']\<rparr>]\<rparr>"

lemma alpaca_api_inject_ok: "keeps request (alpaca_api_inject fr creds request)"
  unfolding alpaca_api_inject_def by (rule keeps_rules | simp add: same_target_def)+

section \<open>Anthropic api\<close>

definition anthropic_api_inject :: "(rat \<Rightarrow> string) \<Rightarrow> jobj \<Rightarrow> http_request \<Rightarrow> http_request result" where
  "anthropic_api_inject fr creds request =
     (let api_key = py_strip (py_str fr (dict_get creds ''api_key'' (JStr []))) in
     let request = set_header ''x-api-key'' api_key request in
     let version = (if py_strip (py_str fr (dict_get creds ''anthropic_version'' (JStr []))) \<noteq> [] then py_strip
         (py_str fr (dict_get creds ''anthropic_version'' (JStr []))) else ''2023-06-01'') in
     let request = set_header ''anthropic-version'' version request in
     let beta = py_strip (py_str fr (dict_get creds ''anthropic_beta'' (JStr []))) in
     Inr (if beta \<noteq> [] then set_header ''anthropic-beta'' beta request else request))"

definition anthropic_api_test :: "(rat \<Rightarrow> string) \<Rightarrow> http_client \<Rightarrow> jobj \<Rightarrow> (bool \<times> string) result" where
  "anthropic_api_test fr client creds =
     (let api_key = text_param fr creds ''api_key'' in
     if api_key = [] then Inr (False, ''api_key is empty'')
     else let version = py_strip (py_str fr (param_or creds ''anthropic_version'' (JStr ''2023-06-01''))) in
     (case client ((mk_request ''GET'' ''https://api.anthropic.com/v1/models'')\<lparr>rq_headers := [(''x-api-key'',
         JStr api_key), (''anthropic-version'', JStr version), (''Accept'', JStr ''application/json'')]\<rparr>) of
       Inl e \<Rightarrow> if exn_cls e = HTTPError then (let exc = exn_msg e in Inr (False, ''network error: '' @ exc))
           else Inl e
     | Inr response \<Rightarrow>
       if rs_status response \<noteq> 200 then Inr (False, ''anthropic rejected key: HTTP '' @ show_int (rs_status
           response))
       else Inr (True, ''authenticated'')))"

definition anthropic_api_type :: credential_type where
  "anthropic_api_type =
   \<lparr>ct_qualname = ''AnthropicApiCredential'', ct_slug = ''weftlyflow.anthropic_api'', ct_display_name =
       ''Anthropic API'', ct_generic = False,
    ct_documentation_url = Some ''https://docs.anthropic.com/en/api/getting-started'',
    ct_properties =
      [(mk_property ''api_key'' ''API Key'' PString JNull)\<lparr>prop_required := True, prop_description := Some
          ''Anthropic API key (sk-ant-...).'', prop_type_options := Some [(''password'', JBool True)]\<rparr>,
       (mk_property ''anthropic_version'' ''Anthropic Version'' PString (JStr ''2023-06-01''))\<lparr>prop_required :=
           True, prop_description := Some ''Mandatory 'anthropic-version' wire-format date pin.''\<rparr>,
       (mk_property ''anthropic_beta'' ''Beta Features'' PString JNull)\<lparr>prop_required := False,
           prop_description := Some ''Comma-separated 'anthropic-beta' feature flags.''\<rparr>]\<rparr>"

lemma anthropic_api_inject_ok: "keeps request (anthropic_api_inject fr creds request)"
  unfolding anthropic_api_inject_def by (rule keeps_rules | simp add: same_target_def)+

lemma anthropic_api_test_ok: "tested client (anthropic_api_test fr client creds)"
  unfolding anthropic_api_test_def by (rule tested_rules | rule tested_answered, assumption | simp)+

section \<open>Api key header\<close>

definition api_key_header_inject :: "(rat \<Rightarrow> string) \<Rightarrow> jobj \<Rightarrow> http_request \<Rightarrow> http_request result" where
  "api_key_header_inject fr creds request =
     (let header = (if py_strip (py_str fr (dict_get creds ''header_name'' (JStr ''X-API-Key''))) \<noteq> [] then
         py_strip (py_str fr (dict_get creds ''header_name'' (JStr ''X-API-Key''))) else ''X-API-Key'') in
     Inr (set_header header (py_str fr (dict_get creds ''api_key'' (JStr []))) request))"

definition api_key_header_test :: "jobj \<Rightarrow> (bool \<times> string) result" where
  "api_key_header_test creds =
     (if \<not> py_bool (dict_get creds ''header_name'' JNull) \<or> \<not> py_bool (dict_get creds ''api_key'' JNull) then
         Inr (False, ''header_name and api_key required'')
     else Inr (True, []))"

definition api_key_header_type :: credential_type where
  "api_key_header_type =
   \<lparr>ct_qualname = ''ApiKeyHeaderCredential'', ct_slug = ''weftlyflow.api_key_header'', ct_display_name =
       ''API Key (Header)'', ct_generic = True,
    ct_documentation_url = None,
    ct_properties =
      [(mk_property ''header_name'' ''Header name'' PString (JStr ''X-API-Key''))\<lparr>prop_required := True\<rparr>,
       (mk_property ''api_key'' ''API key'' PString JNull)\<lparr>prop_required := True, prop_type_options := Some
           [(''password'', JBool True)]\<rparr>]\<rparr>"

lemma api_key_header_inject_ok: "keeps request (api_key_header_inject fr creds request)"
  unfolding api_key_header_inject_def by (rule keeps_rules | simp add: same_target_def)+

section \<open>Api key query\<close>

definition api_key_query_inject :: "(rat \<Rightarrow> string) \<Rightarrow> jobj \<Rightarrow> http_request \<Rightarrow> http_request result" where
  "api_key_query_inject fr creds request =
     (let name = (if py_strip (py_str fr (dict_get creds ''param_name'' (JStr ''api_key''))) \<noteq> [] then py_strip
         (py_str fr (dict_get creds ''param_name'' (JStr ''api_key''))) else ''api_key'') in
     let value = py_str fr (dict_get creds ''api_key'' (JStr [])) in
     let params = query_params request in
     let params = dict_set name (JStr value) params in
     Inr (request\<lparr>rq_params := Some params\<rparr>))"

definition api_key_query_test :: "jobj \<Rightarrow> (bool \<times> string) result" where
  "api_key_query_test creds =
     (if \<not> py_bool (dict_get creds ''param_name'' JNull) \<or> \<not> py_bool (dict_get creds ''api_key'' JNull) then
         Inr (False, ''param_name and api_key required'')
     else Inr (True, []))"

definition api_key_query_type :: credential_type where
  "api_key_query_type =
   \<lparr>ct_qualname = ''ApiKeyQueryCredential'', ct_slug = ''weftlyflow.api_key_query'', ct_display_name =
       ''API Key (Query)'', ct_generic = True,
    ct_documentation_url = None,
    ct_properties =
      [(mk_property ''param_name'' ''Query parameter name'' PString (JStr ''api_key''))\<lparr>prop_required := True\<rparr>,
       (mk_property ''api_key'' ''API key'' PString JNull)\<lparr>prop_required := True, prop_type_options := Some
           [(''password'', JBool True)]\<rparr>]\<rparr>"

lemma api_key_query_inject_ok: "keeps request (api_key_query_inject fr creds request)"
  unfolding api_key_query_inject_def by (rule keeps_rules | simp add: same_target_def)+

section \<open>Asana api\<close>

definition asana_api_normalize_flags :: "(rat \<Rightarrow> string) \<Rightarrow> json \<Rightarrow> string result" where
  "asana_api_normalize_flags fr raw =
     (if raw = JNull \<or> raw = JStr [] then Inr []
     else rbind (if is_str raw then Inr (map (\<lambda>part. py_strip part) (split_on CHR '','' (str_of raw))) else (if
         is_arr raw then Inr (map (\<lambda>part. py_strip (py_str fr part)) (arr_of raw))
       else raise ValueError ''Asana: 'enable_flags' must be a string or list of strings'')) (\<lambda>parts.
     Inr (join '','' (filter (\<lambda>part. part \<noteq> []) parts))))"

definition asana_api_inject :: "(rat \<Rightarrow> string) \<Rightarrow> jobj \<Rightarrow> http_request \<Rightarrow> http_request result" where
  "asana_api_inject fr creds request =
     (let token = py_strip (py_str fr (dict_get creds ''access_token'' (JStr []))) in
     let request = set_header ''Authorization'' (''Bearer '' @ token) request in
     rbind (asana_api_normalize_flags fr (dict_get creds ''enable_flags'' JNull)) (\<lambda>flags.
     Inr (if flags \<noteq> [] then set_header ''Asana-Enable'' flags request else request)))"

definition asana_api_test :: "(rat \<Rightarrow> string) \<Rightarrow> http_client \<Rightarrow> jobj \<Rightarrow> (bool \<times> string) result" where
  "asana_api_test fr client creds =
     (let token = text_param fr creds ''access_token'' in
     if token = [] then Inr (False, ''access_token is empty'')
     else let headers = [(''Authorization'', JStr (''Bearer '' @ token)), (''Accept'', JStr
         ''application/json'')] in
     (case asana_api_normalize_flags fr (dict_get creds ''enable_flags'' JNull) of
       Inl e \<Rightarrow> if exn_cls e = ValueError then (let exc = exn_msg e in Inr (False, exc)) else Inl e
     | Inr flags \<Rightarrow>
       let headers = (if flags \<noteq> [] then dict_set ''Asana-Enable'' (JStr flags) headers else headers) in
       (case client ((mk_request ''GET'' ''https://app.asana.com/api/1.0/users/me'')\<lparr>rq_headers := headers\<rparr>) of
         Inl e \<Rightarrow> if exn_cls e = HTTPError then (let exc = exn_msg e in Inr (False, ''network error: '' @ exc))
             else Inl e
       | Inr response \<Rightarrow>
         if rs_status response \<noteq> 200 then Inr (False, ''asana rejected token: HTTP '' @ show_int (rs_status
             response))
         else Inr (True, ''authenticated''))))"

definition asana_api_type :: credential_type where
  "asana_api_type =
   \<lparr>ct_qualname = ''AsanaApiCredential'', ct_slug = ''weftlyflow.asana_api'', ct_display_name = ''Asana API'',
       ct_generic = False,
    ct_documentation_url = Some ''https://developers.asana.com/docs'',
    ct_properties =
      [(mk_property ''access_token'' ''Personal Access Token'' PString JNull)\<lparr>prop_required := True,
          prop_description := Some ''Asana PAT or OAuth2 access token.'', prop_type_options := Some
          [(''password'', JBool True)]\<rparr>,
       (mk_property ''enable_flags'' ''Asana-Enable Flags'' PString JNull)\<lparr>prop_required := False,
           prop_description := Some
           ''Comma-separated feature opt-ins sent as the 'Asana-Enable' header (e.g. 'new_user_task_lists').''\<rparr>]\<rparr>"

lemma asana_api_normalize_flags_ok: "ensures (\<lambda>_. True) (asana_api_normalize_flags fr raw)"
  unfolding asana_api_normalize_flags_def by (rule ensures_rules | simp)+

lemma asana_api_inject_ok: "keeps request (asana_api_inject fr creds request)"
  unfolding asana_api_inject_def by (rule asana_api_normalize_flags_ok [THEN keeps_bind] keeps_rules | simp add: same_target_def)+

lemma asana_api_test_ok: "tested client (asana_api_test fr client creds)"
  unfolding asana_api_test_def by (rule asana_api_normalize_flags_ok [THEN tested_bind] asana_api_normalize_flags_ok [THEN tested_try] tested_rules | rule tested_answered, assumption | simp)+

section \<open>Asc api\<close>

definition asc_api_type :: credential_type where
  "asc_api_type =
   \<lparr>ct_qualname = ''AscApiCredential'', ct_slug = ''weftlyflow.asc_api'', ct_display_name =
       ''Apple App Store Connect API'', ct_generic = False,
    ct_documentation_url = Some
        ''https://developer.apple.com/documentation/appstoreconnectapi/creating_api_keys_for_app_store_connect_api'',
    ct_properties =
      [(mk_property ''issuer_id'' ''Issuer ID'' PString JNull)\<lparr>prop_required := True, prop_description := Some
          ''Issuer UUID from App Store Connect -> Users and Access -> Keys.''\<rparr>,
       (mk_property ''key_id'' ''Key ID'' PString JNull)\<lparr>prop_required := True, prop_description := Some
           ''Key identifier (e.g. ABC1234XYZ) printed next to the .p8 download.''\<rparr>,
       (mk_property ''private_key'' ''Private Key (PEM)'' PString JNull)\<lparr>prop_required := True,
           prop_description := Some ''Contents of the AuthKey_*.p8 file - a PEM-encoded P-256 EC key.'',
           prop_type_options := Some [(''password'', JBool True), (''rows'', JInt 12)]\<rparr>]\<rparr>"


section \<open>Aws s3\<close>

definition aws_s3_canonical_path :: "string \<Rightarrow> string" where
  "aws_s3_canonical_path path =
     (let path = (if path = [] \<or> \<not> prefix ''/'' path then ''/'' @ (if path \<noteq> [] then path else []) else path) in
     join ''/'' (map (\<lambda>segment. url_quote ''~'' segment) (split_on CHR ''/'' path)))"

definition aws_s3_type :: credential_type where
  "aws_s3_type =
   \<lparr>ct_qualname = ''AwsS3Credential'', ct_slug = ''weftlyflow.aws_s3'', ct_display_name = ''AWS S3'',
       ct_generic = False,
    ct_documentation_url = Some ''https://docs.aws.amazon.com/general/latest/gr/sigv4_signing.html'',
    ct_properties =
      [(mk_property ''access_key_id'' ''Access Key ID'' PString JNull)\<lparr>prop_required := True, prop_description
          := Some ''AWS access key ID (AKIA... or ASIA... for STS).''\<rparr>,
       (mk_property ''secret_access_key'' ''Secret Access Key'' PString JNull)\<lparr>prop_required := True,
           prop_description := Some ''AWS secret access key.'', prop_type_options := Some [(''password'', JBool
           True)]\<rparr>,
       (mk_property ''region'' ''Region'' PString (JStr ''us-east-1''))\<lparr>prop_required := True, prop_description
           := Some ''AWS region (e.g. 'us-east-1', 'eu-west-2').''\<rparr>,
       (mk_property ''session_token'' ''Session Token'' PString JNull)\<lparr>prop_required := False, prop_description
           := Some ''STS session token (required for ASIA... keys).'', prop_type_options := Some
           [(''password'', JBool True)]\<rparr>]\<rparr>"


section \<open>Azure storage shared key\<close>

definition azure_storage_shared_key_blob_host_for :: "string \<Rightarrow> string" where
  "azure_storage_shared_key_blob_host_for account_name =
     ''https://'' @ account_name @ ''.blob.core.windows.net''"

definition azure_storage_shared_key_type :: credential_type where
  "azure_storage_shared_key_type =
   \<lparr>ct_qualname = ''AzureStorageSharedKeyCredential'', ct_slug = ''weftlyflow.azure_storage_shared_key'',
       ct_display_name = ''Azure Storage (Shared Key)'', ct_generic = False,
    ct_documentation_url = Some
        ''https://learn.microsoft.com/rest/api/storageservices/authorize-with-shared-key'',
    ct_properties =
      [(mk_property ''account_name'' ''Storage Account Name'' PString JNull)\<lparr>prop_required := True,
          prop_description := Some ''Storage account name - the first segment of every host.''\<rparr>,
       (mk_property ''account_key'' ''Account Key (base64)'' PString JNull)\<lparr>prop_required := True,
           prop_description := Some ''Base64-encoded 512-bit account key (from the Access keys blade).'',
           prop_type_options := Some [(''password'', JBool True), (''rows'', JInt 4)]\<rparr>,
       (mk_property ''api_version'' ''x-ms-version'' PString (JStr ''2023-11-03''))\<lparr>prop_description := Some
           ''REST API version date - stamped into x-ms-version.''\<rparr>]\<rparr>"


section \<open>Backblaze b2\<close>

definition backblaze_b2_basic_auth_header :: "string \<Rightarrow> string \<Rightarrow> string" where
  "backblaze_b2_basic_auth_header key_id application_key =
     (let raw = key_id @ '':'' @ application_key in
     ''Basic '' @ (b64encode raw))"

definition backblaze_b2_authorize_host :: "string" where
  "backblaze_b2_authorize_host =
     ''https://api.backblazeb2.com''"

definition backblaze_b2_inject :: "jobj \<Rightarrow> http_request \<Rightarrow> http_request result" where
  "backblaze_b2_inject creds request =
     Inr request"

definition backblaze_b2_type :: credential_type where
  "backblaze_b2_type =
   \<lparr>ct_qualname = ''BackblazeB2Credential'', ct_slug = ''weftlyflow.backblaze_b2'', ct_display_name =
       ''Backblaze B2'', ct_generic = False,
    ct_documentation_url = Some ''https://www.backblaze.com/apidocs/b2-authorize-account'',
    ct_properties =
      [(mk_property ''key_id'' ''Key ID'' PString JNull)\<lparr>prop_required := True, prop_description := Some
          ''B2 application key ID - the username half of Basic auth.''\<rparr>,
       (mk_property ''application_key'' ''Application Key'' PString JNull)\<lparr>prop_required := True,
           prop_description := Some ''B2 application key secret - the password half of Basic auth.'',
           prop_type_options := Some [(''password'', JBool True)]\<rparr>]\<rparr>"

lemma backblaze_b2_inject_ok: "keeps request (backblaze_b2_inject creds request)"
  unfolding backblaze_b2_inject_def by (rule keeps_rules | simp add: same_target_def)+

section \<open>Basic auth\<close>

definition basic_auth_inject :: "(rat \<Rightarrow> string) \<Rightarrow> jobj \<Rightarrow> http_request \<Rightarrow> http_request result" where
  "basic_auth_inject fr creds request =
     (let username = py_str fr (dict_get creds ''username'' (JStr [])) in
     let password = py_str fr (dict_get creds ''password'' (JStr [])) in
     let token = b64encode (username @ '':'' @ password) in
     Inr (set_header ''Authorization'' (''Basic '' @ token) request))"

definition basic_auth_test :: "jobj \<Rightarrow> (bool \<times> string) result" where
  "basic_auth_test creds =
     (if \<not> py_bool (dict_get creds ''username'' JNull) \<or> \<not> py_bool (dict_get creds ''password'' JNull) then Inr
         (False, ''username and password required'')
     else Inr (True, []))"

definition basic_auth_type :: credential_type where
  "basic_auth_type =
   \<lparr>ct_qualname = ''BasicAuthCredential'', ct_slug = ''weftlyflow.basic_auth'', ct_display_name =
       ''Basic Auth'', ct_generic = True,
    ct_documentation_url = None,
    ct_properties =
      [(mk_property ''username'' ''Username'' PString JNull)\<lparr>prop_required := True\<rparr>,
       (mk_property ''password'' ''Password'' PString JNull)\<lparr>prop_required := True, prop_type_options := Some
           [(''password'', JBool True)]\<rparr>]\<rparr>"

lemma basic_auth_inject_ok: "keeps request (basic_auth_inject fr creds request)"
  unfolding basic_auth_inject_def by (rule keeps_rules | simp add: same_target_def)+

section \<open>Bearer token\<close>

definition bearer_token_inject :: "(rat \<Rightarrow> string) \<Rightarrow> jobj \<Rightarrow> http_request \<Rightarrow> http_request result" where
  "bearer_token_inject fr creds request =
     (let token = py_strip (py_str fr (dict_get creds ''token'' (JStr []))) in
     Inr (set_header ''Authorization'' (''Bearer '' @ token) request))"

definition bearer_token_test :: "(rat \<Rightarrow> string) \<Rightarrow> jobj \<Rightarrow> (bool \<times> string) result" where
  "bearer_token_test fr creds =
     (if py_strip (py_str fr (dict_get creds ''token'' (JStr []))) = [] then Inr (False, ''token is empty'')
     else Inr (True, ''token present''))"

definition bearer_token_type :: credential_type where
  "bearer_token_type =
   \<lparr>ct_qualname = ''BearerTokenCredential'', ct_slug = ''weftlyflow.bearer_token'', ct_display_name =
       ''Bearer Token'', ct_generic = True,
    ct_documentation_url = None,
    ct_properties =
      [(mk_property ''token'' ''Token'' PString JNull)\<lparr>prop_required := True, prop_type_options := Some
          [(''password'', JBool True)]\<rparr>]\<rparr>"

lemma bearer_token_inject_ok: "keeps request (bearer_token_inject fr creds request)"
  unfolding bearer_token_inject_def by (rule keeps_rules | simp add: same_target_def)+

section \<open>Binance api\<close>

definition binance_api_inject :: "(rat \<Rightarrow> string) \<Rightarrow> jobj \<Rightarrow> http_request \<Rightarrow> http_request result" where
  "binance_api_inject fr creds request =
     (let api_key = py_strip (py_str fr (dict_get creds ''api_key'' (JStr []))) in
     Inr (set_header ''X-MBX-APIKEY'' api_key request))"

definition binance_api_host_for :: "string option \<Rightarrow> string" where
  "binance_api_host_for environment =
     (let env = py_lower (py_strip (str_or environment ''live'')) in
     dict_get [(''live'', ''https://api.binance.com''), (''testnet'', ''https://testnet.binance.vision'')] env
         ''https://api.binance.com'')"

definition binance_api_type :: credential_type where
  "binance_api_type =
   \<lparr>ct_qualname = ''BinanceApiCredential'', ct_slug = ''weftlyflow.binance_api'', ct_display_name =
       ''Binance Spot API'', ct_generic = False,
    ct_documentation_url = Some ''https://developers.binance.com/docs/binance-spot-api-docs/rest-api'',
    ct_properties =
      [(mk_property ''api_key'' ''API Key'' PString JNull)\<lparr>prop_required := True, prop_description := Some
          ''Binance public API key (sent as X-MBX-APIKEY).''\<rparr>,
       (mk_property ''api_secret'' ''API Secret'' PString JNull)\<lparr>prop_required := True, prop_description :=
           Some ''Binance HMAC-SHA256 signing key.'', prop_type_options := Some [(''password'', JBool True)]\<rparr>,
       (mk_property ''environment'' ''Environment'' POptions (JStr ''live''))\<lparr>prop_required := True,
           prop_description := Some ''Selects host - api.binance.com vs testnet.binance.vision.'', prop_options
           := Some [mk_option ''live'' ''Live'', mk_option ''testnet'' ''Testnet'']\<rparr>]\<rparr>"

lemma binance_api_inject_ok: "keeps request (binance_api_inject fr creds request)"
  unfolding binance_api_inject_def by (rule keeps_rules | simp add: same_target_def)+

section \<open>Bitbucket api\<close>

definition bitbucket_api_basic_header :: "string \<Rightarrow> string \<Rightarrow> string" where
  "bitbucket_api_basic_header username app_password =
     (let raw = username @ '':'' @ app_password in
     ''Basic '' @ (b64encode raw))"

definition bitbucket_api_inject :: "(rat \<Rightarrow> string) \<Rightarrow> jobj \<Rightarrow> http_request \<Rightarrow> http_request result" where
  "bitbucket_api_inject fr creds request =
     (let username = py_strip (py_str fr (dict_get creds ''username'' (JStr []))) in
     let app_password = py_strip (py_str fr (dict_get creds ''app_password'' (JStr []))) in
     Inr (set_header ''Authorization'' (bitbucket_api_basic_header username app_password) request))"

definition bitbucket_api_test :: "(rat \<Rightarrow> string) \<Rightarrow> http_client \<Rightarrow> jobj \<Rightarrow> (bool \<times> string) result" where
  "bitbucket_api_test fr client creds =
     (let username = text_param fr creds ''username'' in
     let app_password = text_param fr creds ''app_password'' in
     if username = [] \<or> app_password = [] then Inr (False, ''username and app_password are required'')
     else (case client ((mk_request ''GET'' ''https://api.bitbucket.org/2.0/user'')\<lparr>rq_headers :=
         [(''Authorization'', JStr (bitbucket_api_basic_header username app_password)), (''Accept'', JStr
         ''application/json'')]\<rparr>) of
       Inl e \<Rightarrow> if exn_cls e = HTTPError then (let exc = exn_msg e in Inr (False, ''network error: '' @ exc))
           else Inl e
     | Inr response \<Rightarrow>
       if rs_status response \<noteq> 200 then Inr (False, ''bitbucket rejected credentials: HTTP '' @ show_int
           (rs_status response))
       else Inr (True, ''authenticated'')))"

definition bitbucket_api_type :: credential_type where
  "bitbucket_api_type =
   \<lparr>ct_qualname = ''BitbucketApiCredential'', ct_slug = ''weftlyflow.bitbucket_api'', ct_display_name =
       ''Bitbucket Cloud'', ct_generic = False,
    ct_documentation_url = Some ''https://support.atlassian.com/bitbucket-cloud/docs/app-passwords/'',
    ct_properties =
      [(mk_property ''username'' ''Username'' PString JNull)\<lparr>prop_required := True, prop_description := Some
          ''Bitbucket account username (NOT email).''\<rparr>,
       (mk_property ''app_password'' ''App Password'' PString JNull)\<lparr>prop_required := True, prop_description :=
           Some ''Scoped app password (NOT the account password).'', prop_type_options := Some [(''password'',
           JBool True)]\<rparr>,
       (mk_property ''workspace'' ''Workspace'' PString JNull)\<lparr>prop_required := True, prop_description := Some
           ''Default workspace slug - embedded in every URL path.''\<rparr>]\<rparr>"

lemma bitbucket_api_inject_ok: "keeps request (bitbucket_api_inject fr creds request)"
  unfolding bitbucket_api_inject_def by (rule keeps_rules | simp add: same_target_def)+

lemma bitbucket_api_test_ok: "tested client (bitbucket_api_test fr client creds)"
  unfolding bitbucket_api_test_def by (rule tested_rules | rule tested_answered, assumption | simp)+

section \<open>Box api\<close>

definition box_api_inject :: "(rat \<Rightarrow> string) \<Rightarrow> jobj \<Rightarrow> http_request \<Rightarrow> http_request result" where
  "box_api_inject fr creds request =
     (let token = py_strip (py_str fr (dict_get creds ''access_token'' (JStr []))) in
     let request = set_header ''Authorization'' (''Bearer '' @ token) request in
     let as_user = text_param fr creds ''as_user_id'' in
     Inr (if as_user \<noteq> [] then set_header ''As-User'' as_user request else request))"

definition box_api_test :: "(rat \<Rightarrow> string) \<Rightarrow> http_client \<Rightarrow> jobj \<Rightarrow> (bool \<times> string) result" where
  "box_api_test fr client creds =
     (let token = text_param fr creds ''access_token'' in
     if token = [] then Inr (False, ''access_token is empty'')
     else let headers = [(''Authorization'', JStr (''Bearer '' @ token)), (''Accept'', JStr
         ''application/json'')] in
     let as_user = text_param fr creds ''as_user_id'' in
     let headers = (if as_user \<noteq> [] then dict_set ''As-User'' (JStr as_user) headers else headers) in
     (case client ((mk_request ''GET'' ''https://api.box.com/2.0/users/me'')\<lparr>rq_headers := headers\<rparr>) of
       Inl e \<Rightarrow> if exn_cls e = HTTPError then (let exc = exn_msg e in Inr (False, ''network error: '' @ exc))
           else Inl e
     | Inr response \<Rightarrow>
       if rs_status response \<noteq> 200 then Inr (False, ''box rejected token: HTTP '' @ show_int (rs_status
           response))
       else Inr (True, ''authenticated'')))"

definition box_api_type :: credential_type where
  "box_api_type =
   \<lparr>ct_qualname = ''BoxApiCredential'', ct_slug = ''weftlyflow.box_api'', ct_display_name = ''Box API'',
       ct_generic = False,
    ct_documentation_url = Some ''https://developer.box.com/reference/'',
    ct_properties =
      [(mk_property ''access_token'' ''Access Token'' PString JNull)\<lparr>prop_required := True, prop_description :=
          Some ''OAuth2 or JWT-server-auth access token.'', prop_type_options := Some [(''password'', JBool
          True)]\<rparr>,
       (mk_property ''as_user_id'' ''Act As User ID'' PString JNull)\<lparr>prop_required := False, prop_description
           := Some
           ''Enterprise user ID to impersonate - sent as the 'As-User' header. Leave blank to act as the token owner.''\<rparr>]\<rparr>"

lemma box_api_inject_ok: "keeps request (box_api_inject fr creds request)"
  unfolding box_api_inject_def by (rule keeps_rules | simp add: same_target_def)+

lemma box_api_test_ok: "tested client (box_api_test fr client creds)"
  unfolding box_api_test_def by (rule tested_rules | rule tested_answered, assumption | simp)+

section \<open>Brevo api\<close>

definition brevo_api_inject :: "(rat \<Rightarrow> string) \<Rightarrow> jobj \<Rightarrow> http_request \<Rightarrow> http_request result" where
  "brevo_api_inject fr creds request =
     (let key = py_strip (py_str fr (dict_get creds ''api_key'' (JStr []))) in
     Inr (set_header ''api-key'' key request))"

definition brevo_api_test :: "(rat \<Rightarrow> string) \<Rightarrow> http_client \<Rightarrow> jobj \<Rightarrow> (bool \<times> string) result" where
  "brevo_api_test fr client creds =
     (let key = py_strip (py_str fr (dict_get creds ''api_key'' (JStr []))) in
     if key = [] then Inr (False, ''api_key is empty'')
     else (case client ((mk_request ''GET'' ''https://api.brevo.com/v3/account'')\<lparr>rq_headers := [(''api-key'',
         JStr key)]\<rparr>) of
       Inl e \<Rightarrow> if exn_cls e = HTTPError then (let exc = exn_msg e in Inr (False, ''network error: '' @ exc))
           else Inl e
     | Inr response \<Rightarrow>
       if rs_status response \<noteq> 200 then Inr (False, ''brevo rejected key: HTTP '' @ show_int (rs_status
           response))
       else rbind (case response_json response of Inl e \<Rightarrow> if exn_cls e = ValueError then Inr (JObj []) else Inl
           e | Inr v \<Rightarrow> Inr v) (\<lambda>payload.
       let email = ([] :: string) in
       let email = (if is_obj payload then py_str fr (dict_get (obj_of payload) ''email'' (JStr [])) else
           email) in
       let suffix = (if email \<noteq> [] then '' as '' @ email else []) in
       Inr (True, ''authenticated'' @ suffix))))"

definition brevo_api_type :: credential_type where
  "brevo_api_type =
   \<lparr>ct_qualname = ''BrevoApiCredential'', ct_slug = ''weftlyflow.brevo_api'', ct_display_name = ''Brevo API'',
       ct_generic = False,
    ct_documentation_url = Some ''https://developers.brevo.com/docs/getting-started'',
    ct_properties =
      [(mk_property ''api_key'' ''API Key'' PString JNull)\<lparr>prop_required := True, prop_description := Some
          ''Brevo v3 API key (starts with 'xkeysib-').'', prop_type_options := Some [(''password'', JBool
          True)]\<rparr>]\<rparr>"

lemma brevo_api_inject_ok: "keeps request (brevo_api_inject fr creds request)"
  unfolding brevo_api_inject_def by (rule keeps_rules | simp add: same_target_def)+

lemma brevo_api_test_ok: "tested client (brevo_api_test fr client creds)"
  unfolding brevo_api_test_def by (rule tested_rules | rule tested_answered, assumption | simp)+

section \<open>Chroma api\<close>

definition chroma_api_base_url_from :: "string \<Rightarrow> string" where
  "chroma_api_base_url_from raw_base_url =
     (let cleaned = rstrip_chars (\<lambda>c. c \<in> set ''/'') (py_strip raw_base_url) in
     if cleaned = [] then ''http://localhost:8000''
     else (if \<not> (substring ''://'' cleaned) then ''http://'' @ cleaned else cleaned))"

definition chroma_api_tenant_from :: "string \<Rightarrow> string" where
  "chroma_api_tenant_from raw_tenant =
     (let cleaned = py_strip raw_tenant in
     (if cleaned \<noteq> [] then cleaned else ''default_tenant''))"

definition chroma_api_database_from :: "string \<Rightarrow> string" where
  "chroma_api_database_from raw_database =
     (let cleaned = py_strip raw_database in
     (if cleaned \<noteq> [] then cleaned else ''default_database''))"

definition chroma_api_inject :: "(rat \<Rightarrow> string) \<Rightarrow> jobj \<Rightarrow> http_request \<Rightarrow> http_request result" where
  "chroma_api_inject fr creds request =
     (let token = text_param fr creds ''token'' in
     Inr (if token \<noteq> [] then set_header ''Authorization'' (''Bearer'' @ '' '' @ token) request else request))"

definition chroma_api_test :: "(rat \<Rightarrow> string) \<Rightarrow> http_client \<Rightarrow> jobj \<Rightarrow> (bool \<times> string) result" where
  "chroma_api_test fr client creds =
     (let base = chroma_api_base_url_from (py_str fr (param_or creds ''base_url'' (JStr []))) in
     let token = text_param fr creds ''token'' in
     let headers = [(''Accept'', JStr ''application/json'')] in
     let headers = (if token \<noteq> [] then dict_set ''Authorization'' (JStr (''Bearer'' @ '' '' @ token)) headers
         else headers) in
     (case client ((mk_request ''GET'' (base @ ''/api/v2/heartbeat''))\<lparr>rq_headers := headers\<rparr>) of
       Inl e \<Rightarrow> if exn_cls e = HTTPError then (let exc = exn_msg e in Inr (False, ''network error: '' @ exc))
           else Inl e
     | Inr response \<Rightarrow>
       if rs_status response \<noteq> 200 then Inr (False, ''chroma rejected request: HTTP '' @ show_int (rs_status
           response))
       else Inr (True, ''reachable'')))"

definition chroma_api_type :: credential_type where
  "chroma_api_type =
   \<lparr>ct_qualname = ''ChromaCredential'', ct_slug = ''weftlyflow.chroma'', ct_display_name = ''Chroma'',
       ct_generic = False,
    ct_documentation_url = Some ''https://docs.trychroma.com/reference/python/client'',
    ct_properties =
      [(mk_property ''base_url'' ''Base URL'' PString (JStr ''http://localhost:8000''))\<lparr>prop_required := False,
          prop_description := Some ''Chroma server URL; defaults to 'http://localhost:8000'.''\<rparr>,
       (mk_property ''token'' ''Token'' PString JNull)\<lparr>prop_required := False, prop_description := Some
           ''Optional bearer token; required by Chroma Cloud and any auth-enabled self-host.'',
           prop_type_options := Some [(''password'', JBool True)]\<rparr>,
       (mk_property ''tenant'' ''Tenant'' PString (JStr ''default_tenant''))\<lparr>prop_required := False,
           prop_description := Some ''v2 API tenant; defaults to 'default_tenant'.''\<rparr>,
       (mk_property ''database'' ''Database'' PString (JStr ''default_database''))\<lparr>prop_required := False,
           prop_description := Some ''v2 API database; defaults to 'default_database'.''\<rparr>]\<rparr>"

lemma chroma_api_inject_ok: "keeps request (chroma_api_inject fr creds request)"
  unfolding chroma_api_inject_def by (rule keeps_rules | simp add: same_target_def)+

lemma chroma_api_test_ok: "tested client (chroma_api_test fr client creds)"
  unfolding chroma_api_test_def by (rule tested_rules | rule tested_answered, assumption | simp)+

section \<open>Clickup api\<close>

definition clickup_api_inject :: "(rat \<Rightarrow> string) \<Rightarrow> jobj \<Rightarrow> http_request \<Rightarrow> http_request result" where
  "clickup_api_inject fr creds request =
     (let token = py_strip (py_str fr (dict_get creds ''api_token'' (JStr []))) in
     Inr (set_header ''Authorization'' token request))"

definition clickup_api_test :: "(rat \<Rightarrow> string) \<Rightarrow> http_client \<Rightarrow> jobj \<Rightarrow> (bool \<times> string) result" where
  "clickup_api_test fr client creds =
     (let token = py_strip (py_str fr (dict_get creds ''api_token'' (JStr []))) in
     if token = [] then Inr (False, ''api_token is empty'')
     else (case client ((mk_request ''GET'' ''https://api.clickup.com/api/v2/user'')\<lparr>rq_headers :=
         [(''Authorization'', JStr token)]\<rparr>) of
       Inl e \<Rightarrow> if exn_cls e = HTTPError then (let exc = exn_msg e in Inr (False, ''network error: '' @ exc))
           else Inl e
     | Inr response \<Rightarrow>
       if rs_status response \<noteq> 200 then Inr (False, ''clickup rejected token: HTTP '' @ show_int (rs_status
           response))
       else rbind (case response_json response of Inl e \<Rightarrow> if exn_cls e = ValueError then Inr (JObj []) else Inl
           e | Inr v \<Rightarrow> Inr v) (\<lambda>payload.
       let username = ([] :: string) in
       let username = (if is_obj payload then (let user = dict_get (obj_of payload) ''user'' JNull in
         (if is_obj user then py_str fr (dict_get (obj_of user) ''username'' (JStr [])) else username)) else
             username) in
       let suffix = (if username \<noteq> [] then '' as '' @ username else []) in
       Inr (True, ''authenticated'' @ suffix))))"

definition clickup_api_type :: credential_type where
  "clickup_api_type =
   \<lparr>ct_qualname = ''ClickUpApiCredential'', ct_slug = ''weftlyflow.clickup_api'', ct_display_name =
       ''ClickUp API'', ct_generic = False,
    ct_documentation_url = Some ''https://clickup.com/api/developer-portal/authentication'',
    ct_properties =
      [(mk_property ''api_token'' ''API Token'' PString JNull)\<lparr>prop_required := True, prop_description := Some
          ''Personal token from ClickUp settings (starts with 'pk_').'', prop_type_options := Some
          [(''password'', JBool True)]\<rparr>]\<rparr>"

lemma clickup_api_inject_ok: "keeps request (clickup_api_inject fr creds request)"
  unfolding clickup_api_inject_def by (rule keeps_rules | simp add: same_target_def)+

lemma clickup_api_test_ok: "tested client (clickup_api_test fr client creds)"
  unfolding clickup_api_test_def by (rule tested_rules | rule tested_answered, assumption | simp)+

section \<open>Cloudflare api\<close>

definition cloudflare_api_inject :: "(rat \<Rightarrow> string) \<Rightarrow> jobj \<Rightarrow> http_request \<Rightarrow> http_request result" where
  "cloudflare_api_inject fr creds request =
     (let request = set_header ''X-Auth-Email'' (py_strip (py_str fr (dict_get creds ''api_email'' (JStr []))))
         request in
     Inr (set_header ''X-Auth-Key'' (py_strip (py_str fr (dict_get creds ''api_key'' (JStr [])))) request))"

definition cloudflare_api_test :: "(rat \<Rightarrow> string) \<Rightarrow> http_client \<Rightarrow> jobj \<Rightarrow> (bool \<times> string) result" where
  "cloudflare_api_test fr client creds =
     (let email = text_param fr creds ''api_email'' in
     let key = text_param fr creds ''api_key'' in
     if email = [] then Inr (False, ''api_email is empty'')
     else if key = [] then Inr (False, ''api_key is empty'')
     else (case client ((mk_request ''GET'' ''https://api.cloudflare.com/client/v4/user'')\<lparr>rq_headers :=
         [(''X-Auth-Email'', JStr email), (''X-Auth-Key'', JStr key), (''Accept'', JStr
         ''application/json'')]\<rparr>) of
       Inl e \<Rightarrow> if exn_cls e = HTTPError then (let exc = exn_msg e in Inr (False, ''network error: '' @ exc))
           else Inl e
     | Inr response \<Rightarrow>
       if rs_status response \<noteq> 200 then Inr (False, ''cloudflare rejected key: HTTP '' @ show_int (rs_status
           response))
       else Inr (True, ''authenticated'')))"

definition cloudflare_api_type :: credential_type where
  "cloudflare_api_type =
   \<lparr>ct_qualname = ''CloudflareApiCredential'', ct_slug = ''weftlyflow.cloudflare_api'', ct_display_name =
       ''Cloudflare API'', ct_generic = False,
    ct_documentation_url = Some ''https://developers.cloudflare.com/fundamentals/api/get-started/ca-keys/'',
    ct_properties =
      [(mk_property ''api_email'' ''Account Email'' PString JNull)\<lparr>prop_required := True, prop_description :=
          Some ''Email address of the Cloudflare account owner.''\<rparr>,
       (mk_property ''api_key'' ''Global API Key'' PString JNull)\<lparr>prop_required := True, prop_description :=
           Some ''Global API key from the Cloudflare dashboard.'', prop_type_options := Some [(''password'',
           JBool True)]\<rparr>]\<rparr>"

lemma cloudflare_api_inject_ok: "keeps request (cloudflare_api_inject fr creds request)"
  unfolding cloudflare_api_inject_def by (rule keeps_rules | simp add: same_target_def)+

lemma cloudflare_api_test_ok: "tested client (cloudflare_api_test fr client creds)"
  unfolding cloudflare_api_test_def by (rule tested_rules | rule tested_answered, assumption | simp)+

section \<open>Cloudinary api\<close>

definition cloudinary_api_basic_auth_header :: "string \<Rightarrow> string \<Rightarrow> string" where
  "cloudinary_api_basic_auth_header api_key api_secret =
     (let token = b64encode (api_key @ '':'' @ api_secret) in
     ''Basic '' @ token)"

definition cloudinary_api_inject :: "(rat \<Rightarrow> string) \<Rightarrow> jobj \<Rightarrow> http_request \<Rightarrow> http_request result" where
  "cloudinary_api_inject fr creds request =
     (let api_key = py_strip (py_str fr (dict_get creds ''api_key'' (JStr []))) in
     let api_secret = py_strip (py_str fr (dict_get creds ''api_secret'' (JStr []))) in
     Inr (set_header ''Authorization'' (cloudinary_api_basic_auth_header api_key api_secret) request))"

definition cloudinary_api_test :: "(rat \<Rightarrow> string) \<Rightarrow> http_client \<Rightarrow> jobj \<Rightarrow> (bool \<times> string) result" where
  "cloudinary_api_test fr client creds =
     (let cloud_name = text_param fr creds ''cloud_name'' in
     let api_key = text_param fr creds ''api_key'' in
     let api_secret = text_param fr creds ''api_secret'' in
     if cloud_name = [] \<or> api_key = [] \<or> api_secret = [] then Inr (False,
         ''cloud_name, api_key and api_secret are required'')
     else let url = ''https://api.cloudinary.com'' @ ''/v1_1/'' @ cloud_name @ ''/resources/image'' in
     (case client ((mk_request ''GET'' url)\<lparr>rq_params := Some [(''max_results'', JStr ''1'')], rq_headers :=
         [(''Authorization'', JStr (cloudinary_api_basic_auth_header api_key api_secret)), (''Accept'', JStr
         ''application/json'')]\<rparr>) of
       Inl e \<Rightarrow> if exn_cls e = HTTPError then (let exc = exn_msg e in Inr (False, ''network error: '' @ exc))
           else Inl e
     | Inr response \<Rightarrow>
       if rs_status response \<noteq> 200 then Inr (False, ''cloudinary rejected credentials: HTTP '' @ show_int
           (rs_status response))
       else Inr (True, ''cloudinary credentials valid'')))"

definition cloudinary_api_type :: credential_type where
  "cloudinary_api_type =
   \<lparr>ct_qualname = ''CloudinaryApiCredential'', ct_slug = ''weftlyflow.cloudinary_api'', ct_display_name =
       ''Cloudinary API'', ct_generic = False,
    ct_documentation_url = Some ''https://cloudinary.com/documentation/authentication_signatures'',
    ct_properties =
      [(mk_property ''cloud_name'' ''Cloud Name'' PString JNull)\<lparr>prop_required := True, prop_description :=
          Some ''Cloudinary account cloud name - the tenant segment in every URL.''\<rparr>,
       (mk_property ''api_key'' ''API Key'' PString JNull)\<lparr>prop_required := True, prop_description := Some
           ''Cloudinary API key (sent as the Basic-auth username).''\<rparr>,
       (mk_property ''api_secret'' ''API Secret'' PString JNull)\<lparr>prop_required := True, prop_description :=
           Some ''Cloudinary API secret - Basic-auth password and signing key.'', prop_type_options := Some
           [(''password'', JBool True)]\<rparr>]\<rparr>"

lemma cloudinary_api_inject_ok: "keeps request (cloudinary_api_inject fr creds request)"
  unfolding cloudinary_api_inject_def by (rule keeps_rules | simp add: same_target_def)+

lemma cloudinary_api_test_ok: "tested client (cloudinary_api_test fr client creds)"
  unfolding cloudinary_api_test_def by (rule tested_rules | rule tested_answered, assumption | simp)+

section \<open>Coinbase exchange\<close>

definition coinbase_exchange_type :: credential_type where
  "coinbase_exchange_type =
   \<lparr>ct_qualname = ''CoinbaseExchangeCredential'', ct_slug = ''weftlyflow.coinbase_exchange'', ct_display_name =
       ''Coinbase Exchange'', ct_generic = False,
    ct_documentation_url = Some ''https://docs.cdp.coinbase.com/exchange/docs/rest-api-overview'',
    ct_properties =
      [(mk_property ''api_key'' ''API Key'' PString JNull)\<lparr>prop_required := True, prop_description := Some
          ''Coinbase Exchange API key (CB-ACCESS-KEY).''\<rparr>,
       (mk_property ''api_secret'' ''API Secret'' PString JNull)\<lparr>prop_required := True, prop_description :=
           Some ''Base64-encoded HMAC secret - decoded before signing.'', prop_type_options := Some
           [(''password'', JBool True)]\<rparr>,
       (mk_property ''passphrase'' ''Passphrase'' PString JNull)\<lparr>prop_required := True, prop_description :=
           Some ''API-key passphrase chosen at key creation.'', prop_type_options := Some [(''password'', JBool
           True)]\<rparr>]\<rparr>"


end
