(* ===== verification/Credential_Types_2.thy ===== *)
theory Credential_Types_2
  imports Credential_Type
begin

text \<open>
  The credential types from \<open>contentful_api\<close> to \<open>klaviyo_api\<close> (\<open>credentials/types/*.py\<close>): the helper functions of each module,
  \<open>inject\<close> and \<open>test\<close> where they use no cryptography, and the attributes of the class. A network call of
  a test is the parameter \<open>client\<close>. Each \<open><name>_inject_ok\<close> shows that the credential leaves the target of
  the request alone, each \<open><name>_test_ok\<close> that a success is backed by an answer of the service.
\<close>

section \<open>Contentful api\<close>

definition contentful_api_inject :: "(rat \<Rightarrow> string) \<Rightarrow> jobj \<Rightarrow> http_request \<Rightarrow> http_request result" where
  "contentful_api_inject fr creds request =
     (let token = py_strip (py_str fr (dict_get creds ''api_token'' (JStr []))) in
     Inr (set_header ''Authorization'' (''Bearer '' @ token) request))"

definition contentful_api_test :: "(rat \<Rightarrow> string) \<Rightarrow> http_client \<Rightarrow> jobj \<Rightarrow> (bool \<times> string) result" where
  "contentful_api_test fr client creds =
     (let token = text_param fr creds ''api_token'' in
     let space_id = text_param fr creds ''space_id'' in
     if token = [] then Inr (False, ''api_token is empty'')
     else if space_id = [] then Inr (False, ''space_id is empty'')
     else (case client ((mk_request ''GET'' (''https://api.contentful.com'' @ ''/spaces/'' @
         space_id))\<lparr>rq_headers := [(''Authorization'', JStr (''Bearer '' @ token)), (''Accept'', JStr
         ''application/json'')]\<rparr>) of
       Inl e \<Rightarrow> if exn_cls e = HTTPError then (let exc = exn_msg e in Inr (False, ''network error: '' @ exc))
           else Inl e
     | Inr response \<Rightarrow>
       if rs_status response \<noteq> 200 then Inr (False, ''contentful rejected token: HTTP '' @ show_int (rs_status
           response))
       else Inr (True, ''authenticated'')))"

definition contentful_api_type :: credential_type where
  "contentful_api_type =
   \<lparr>ct_qualname = ''ContentfulApiCredential'', ct_slug = ''weftlyflow.contentful_api'', ct_display_name =
       ''Contentful API'', ct_generic = False,
    ct_documentation_url = Some ''https://www.contentful.com/developers/docs/references/authentication/'',
    ct_properties =
      [(mk_property ''api_token'' ''API Token'' PString JNull)\<lparr>prop_required := True, prop_description := Some
          ''CMA Personal Access Token (CFPAT-*) or CDA Delivery Token.'', prop_type_options := Some
          [(''password'', JBool True)]\<rparr>,
       (mk_property ''space_id'' ''Space ID'' PString JNull)\<lparr>prop_required := True, prop_description := Some
           ''Target space id (e.g. ``k8c3tk01nr3j``).''\<rparr>,
       (mk_property ''environment'' ''Environment'' PString (JStr ''master''))\<lparr>prop_required := True,
           prop_description := Some ''Environment alias (default: ``master``).''\<rparr>]\<rparr>"

lemma contentful_api_inject_ok: "keeps request (contentful_api_inject fr creds request)"
  unfolding contentful_api_inject_def by (rule keeps_rules | simp add: same_target_def)+

lemma contentful_api_test_ok: "tested client (contentful_api_test fr client creds)"
  unfolding contentful_api_test_def by (rule tested_rules | rule tested_answered, assumption | simp)+

section \<open>Datadog api\<close>

definition datadog_api_site_host_from :: "string \<Rightarrow> string result" where
  "datadog_api_site_host_from site =
     (let cleaned = rstrip_chars (\<lambda>c. c \<in> set ''/'') (py_lower (py_strip site)) in
     if cleaned = [] then raise ValueError ''Datadog: 'site' is required''
     else if cleaned \<in> set [''us1'', ''us3'', ''us5'', ''eu1'', ''ap1'', ''gov''] then (rbind (lookup
         [(''us1'', ''api.datadoghq.com''), (''us3'', ''api.us3.datadoghq.com''), (''us5'',
         ''api.us5.datadoghq.com''), (''eu1'', ''api.datadoghq.eu''), (''ap1'', ''api.ap1.datadoghq.com''),
         (''gov'', ''api.ddog-gov.com'')] cleaned) (\<lambda>r1.
       Inr (''https://'' @ r1)))
     else if (substring ''://'' cleaned) then Inr cleaned
     else if (substring ''.'' cleaned) then Inr (''https://'' @ cleaned)
     else raise ValueError (''Datadog: unknown site '' @ repr_str site @ ''; expected one of '' @
         ''['ap1', 'eu1', 'gov', 'us1', 'us3', 'us5']'' @ '' or a full hostname''))"

definition datadog_api_inject :: "(rat \<Rightarrow> string) \<Rightarrow> jobj \<Rightarrow> http_request \<Rightarrow> http_request result" where
  "datadog_api_inject fr creds request =
     (let api_key = py_strip (py_str fr (dict_get creds ''api_key'' (JStr []))) in
     let app_key = py_strip (py_str fr (dict_get creds ''application_key'' (JStr []))) in
     let request = set_header ''DD-API-KEY'' api_key request in
     Inr (if app_key \<noteq> [] then set_header ''DD-APPLICATION-KEY'' app_key request else request))"

definition datadog_api_test :: "(rat \<Rightarrow> string) \<Rightarrow> http_client \<Rightarrow> jobj \<Rightarrow> (bool \<times> string) result" where
  "datadog_api_test fr client creds =
     (let api_key = text_param fr creds ''api_key'' in
     if api_key = [] then Inr (False, ''api_key is empty'')
     else (case datadog_api_site_host_from (py_str fr (param_or creds ''site'' (JStr []))) of
       Inl e \<Rightarrow> if exn_cls e = ValueError then (let exc = exn_msg e in Inr (False, exc)) else Inl e
     | Inr base \<Rightarrow>
       let headers = [(''DD-API-KEY'', JStr api_key), (''Accept'', JStr ''application/json'')] in
       let app_key = text_param fr creds ''application_key'' in
       let headers = (if app_key \<noteq> [] then dict_set ''DD-APPLICATION-KEY'' (JStr app_key) headers else headers)
           in
       (case client ((mk_request ''GET'' (base @ ''/api/v1/validate''))\<lparr>rq_headers := headers\<rparr>) of
         Inl e \<Rightarrow> if exn_cls e = HTTPError then (let exc = exn_msg e in Inr (False, ''network error: '' @ exc))
             else Inl e
       | Inr response \<Rightarrow>
         if rs_status response \<noteq> 200 then Inr (False, ''datadog rejected key: HTTP '' @ show_int (rs_status
             response))
         else Inr (True, ''authenticated''))))"

definition datadog_api_type :: credential_type where
  "datadog_api_type =
   \<lparr>ct_qualname = ''DatadogApiCredential'', ct_slug = ''weftlyflow.datadog_api'', ct_display_name =
       ''Datadog API'', ct_generic = False,
    ct_documentation_url = Some ''https://docs.datadoghq.com/api/latest/authentication/'',
    ct_properties =
      [(mk_property ''api_key'' ''API Key'' PString JNull)\<lparr>prop_required := True, prop_description := Some
          ''Org-scoped Datadog API key.'', prop_type_options := Some [(''password'', JBool True)]\<rparr>,
       (mk_property ''application_key'' ''Application Key'' PString JNull)\<lparr>prop_required := False,
           prop_description := Some
           ''User-scoped application key - required for management endpoints (monitors, dashboards, metric queries).'',
           prop_type_options := Some [(''password'', JBool True)]\<rparr>,
       (mk_property ''site'' ''Site'' POptions (JStr ''us1''))\<lparr>prop_required := True, prop_description := Some
           ''Datadog region; drives the per-site host.'', prop_options := Some [mk_option ''us1''
           ''US1 (datadoghq.com)'', mk_option ''us3'' ''US3 (us3.datadoghq.com)'', mk_option ''us5''
           ''US5 (us5.datadoghq.com)'', mk_option ''eu1'' ''EU1 (datadoghq.eu)'', mk_option ''ap1''
           ''AP1 (ap1.datadoghq.com)'', mk_option ''gov'' ''GOV (ddog-gov.com)'']\<rparr>]\<rparr>"

lemma datadog_api_site_host_from_ok: "ensures (\<lambda>_. True) (datadog_api_site_host_from site)"
  unfolding datadog_api_site_host_from_def by (rule ensures_rules | (auto; fail))+

lemma datadog_api_inject_ok: "keeps request (datadog_api_inject fr creds request)"
  unfolding datadog_api_inject_def by (rule keeps_rules | simp add: same_target_def)+

lemma datadog_api_test_ok: "tested client (datadog_api_test fr client creds)"
  unfolding datadog_api_test_def by (rule datadog_api_site_host_from_ok [THEN tested_bind] datadog_api_site_host_from_ok [THEN tested_try] tested_rules | rule tested_answered, assumption | simp)+

section \<open>Discord bot\<close>

definition discord_bot_inject :: "(rat \<Rightarrow> string) \<Rightarrow> jobj \<Rightarrow> http_request \<Rightarrow> http_request result" where
  "discord_bot_inject fr creds request =
     (let token = py_strip (py_str fr (dict_get creds ''bot_token'' (JStr []))) in
     Inr (set_header ''Authorization'' (''Bot '' @ token) request))"

definition discord_bot_test :: "(rat \<Rightarrow> string) \<Rightarrow> http_client \<Rightarrow> jobj \<Rightarrow> (bool \<times> string) result" where
  "discord_bot_test fr client creds =
     (let token = py_strip (py_str fr (dict_get creds ''bot_token'' (JStr []))) in
     if token = [] then Inr (False, ''bot_token is empty'')
     else (case client ((mk_request ''GET'' ''https://discord.com/api/v10/users/@me'')\<lparr>rq_headers :=
         [(''Authorization'', JStr (''Bot '' @ token))]\<rparr>) of
       Inl e \<Rightarrow> if exn_cls e = HTTPError then (let exc = exn_msg e in Inr (False, ''network error: '' @ exc))
           else Inl e
     | Inr response \<Rightarrow>
       if rs_status response \<noteq> 200 then Inr (False, ''discord rejected token: HTTP '' @ show_int (rs_status
           response))
       else rbind (case response_json response of Inl e \<Rightarrow> if exn_cls e = ValueError then Inr (JObj []) else Inl
           e | Inr v \<Rightarrow> Inr v) (\<lambda>payload.
       let name = (if is_obj payload then py_str fr (dict_get (obj_of payload) ''username'' (JStr [])) else [])
           in
       let suffix = (if name \<noteq> [] then '' as '' @ name else []) in
       Inr (True, ''authenticated'' @ suffix))))"

definition discord_bot_type :: credential_type where
  "discord_bot_type =
   \<lparr>ct_qualname = ''DiscordBotCredential'', ct_slug = ''weftlyflow.discord_bot'', ct_display_name =
       ''Discord Bot'', ct_generic = False,
    ct_documentation_url = Some ''https://discord.com/developers/docs/topics/oauth2#bot-authorization-flow'',
    ct_properties =
      [(mk_property ''bot_token'' ''Bot Token'' PString JNull)\<lparr>prop_required := True, prop_description := Some
          ''The bot token from the Discord Developer Portal.'', prop_type_options := Some [(''password'', JBool
          True)]\<rparr>]\<rparr>"

lemma discord_bot_inject_ok: "keeps request (discord_bot_inject fr creds request)"
  unfolding discord_bot_inject_def by (rule keeps_rules | simp add: same_target_def)+

lemma discord_bot_test_ok: "tested client (discord_bot_test fr client creds)"
  unfolding discord_bot_test_def by (rule tested_rules | rule tested_answered, assumption | simp)+

section \<open>Docusign jwt\<close>

definition docusign_jwt_oauth_host_for :: "string option \<Rightarrow> string" where
  "docusign_jwt_oauth_host_for environment =
     (let env = py_lower (py_strip (str_or environment ''demo'')) in
     dict_get [(''demo'', ''https://account-d.docusign.com''), (''live'', ''https://account.docusign.com'')]
         env ''https://account-d.docusign.com'')"

definition docusign_jwt_audience_for :: "string option \<Rightarrow> string" where
  "docusign_jwt_audience_for environment =
     (let env = py_lower (py_strip (str_or environment ''demo'')) in
     dict_get [(''demo'', ''account-d.docusign.com''), (''live'', ''account.docusign.com'')] env
         ''account-d.docusign.com'')"

definition docusign_jwt_inject :: "jobj \<Rightarrow> http_request \<Rightarrow> http_request result" where
  "docusign_jwt_inject creds request =
     Inr request"

definition docusign_jwt_type :: credential_type where
  "docusign_jwt_type =
   \<lparr>ct_qualname = ''DocuSignJwtCredential'', ct_slug = ''weftlyflow.docusign_jwt'', ct_display_name =
       ''DocuSign eSignature (JWT Grant)'', ct_generic = False,
    ct_documentation_url = Some ''https://developers.docusign.com/platform/auth/jwt/'',
    ct_properties =
      [(mk_property ''integration_key'' ''Integration Key'' PString JNull)\<lparr>prop_required := True,
          prop_description := Some ''DocuSign app integration key (used as JWT iss claim).''\<rparr>,
       (mk_property ''user_id'' ''User ID'' PString JNull)\<lparr>prop_required := True, prop_description := Some
           ''User GUID to impersonate (JWT sub claim).''\<rparr>,
       (mk_property ''private_key'' ''RSA Private Key (PEM)'' PString JNull)\<lparr>prop_required := True,
           prop_description := Some ''PEM-encoded RSA private key - used to sign the JWT assertion.'',
           prop_type_options := Some [(''password'', JBool True), (''rows'', JInt 14)]\<rparr>,
       (mk_property ''environment'' ''Environment'' POptions (JStr ''demo''))\<lparr>prop_required := True,
           prop_description := Some ''Selects demo vs live DocuSign OAuth host.'', prop_options := Some
           [mk_option ''demo'' ''Demo / Developer Sandbox'', mk_option ''live'' ''Production'']\<rparr>,
       (mk_property ''account_base_url'' ''Account Base URL'' PString JNull)\<lparr>prop_required := True,
           prop_description := Some
           ''User's eSignature REST base URI, e.g. https://demo.docusign.net/restapi - read from /oauth/userinfo after the first successful JWT exchange.''\<rparr>]\<rparr>"

lemma docusign_jwt_inject_ok: "keeps request (docusign_jwt_inject creds request)"
  unfolding docusign_jwt_inject_def by (rule keeps_rules | simp add: same_target_def)+

section \<open>Dropbox api\<close>

definition dropbox_api_inject :: "(rat \<Rightarrow> string) \<Rightarrow> jobj \<Rightarrow> http_request \<Rightarrow> http_request result" where
  "dropbox_api_inject fr creds request =
     (let token = py_strip (py_str fr (dict_get creds ''access_token'' (JStr []))) in
     Inr (set_header ''Authorization'' (''Bearer '' @ token) request))"

definition dropbox_api_test :: "(rat \<Rightarrow> string) \<Rightarrow> http_client \<Rightarrow> jobj \<Rightarrow> (bool \<times> string) result" where
  "dropbox_api_test fr client creds =
     (let token = text_param fr creds ''access_token'' in
     if token = [] then Inr (False, ''access_token is empty'')
     else (case client ((mk_request ''POST''
         ''https://api.dropboxapi.com/2/users/get_current_account'')\<lparr>rq_headers := [(''Authorization'', JStr
         (''Bearer '' @ token)), (''Accept'', JStr ''application/json'')]\<rparr>) of
       Inl e \<Rightarrow> if exn_cls e = HTTPError then (let exc = exn_msg e in Inr (False, ''network error: '' @ exc))
           else Inl e
     | Inr response \<Rightarrow>
       if rs_status response \<noteq> 200 then Inr (False, ''dropbox rejected token: HTTP '' @ show_int (rs_status
           response))
       else Inr (True, ''authenticated'')))"

definition dropbox_api_type :: credential_type where
  "dropbox_api_type =
   \<lparr>ct_qualname = ''DropboxApiCredential'', ct_slug = ''weftlyflow.dropbox_api'', ct_display_name =
       ''Dropbox API'', ct_generic = False,
    ct_documentation_url = Some ''https://www.dropbox.com/developers/documentation/http/overview'',
    ct_properties =
      [(mk_property ''access_token'' ''Access Token'' PString JNull)\<lparr>prop_required := True, prop_description :=
          Some ''Dropbox access token (scoped app or long-lived).'', prop_type_options := Some [(''password'',
          JBool True)]\<rparr>]\<rparr>"

lemma dropbox_api_inject_ok: "keeps request (dropbox_api_inject fr creds request)"
  unfolding dropbox_api_inject_def by (rule keeps_rules | simp add: same_target_def)+

lemma dropbox_api_test_ok: "tested client (dropbox_api_test fr client creds)"
  unfolding dropbox_api_test_def by (rule tested_rules | rule tested_answered, assumption | simp)+

section \<open>Elasticsearch api\<close>

definition elasticsearch_api_base_url_from :: "string \<Rightarrow> string result" where
  "elasticsearch_api_base_url_from raw_base_url =
     (let cleaned = rstrip_chars (\<lambda>c. c \<in> set ''/'') (py_strip raw_base_url) in
     if cleaned = [] then raise ValueError ''Elasticsearch: 'base_url' is required''
     else Inr (if \<not> (substring ''://'' cleaned) then ''https://'' @ cleaned else cleaned))"

definition elasticsearch_api_api_key_header :: "string \<Rightarrow> string \<Rightarrow> string" where
  "elasticsearch_api_api_key_header api_key_id api_key =
     (let pair = api_key_id @ '':'' @ api_key in
     ''ApiKey '' @ (b64encode pair))"

definition elasticsearch_api_inject :: "(rat \<Rightarrow> string) \<Rightarrow> jobj \<Rightarrow> http_request \<Rightarrow> http_request result" where
  "elasticsearch_api_inject fr creds request =
     (let key_id = py_strip (py_str fr (dict_get creds ''api_key_id'' (JStr []))) in
     let secret = py_strip (py_str fr (dict_get creds ''api_key'' (JStr []))) in
     Inr (set_header ''Authorization'' (elasticsearch_api_api_key_header key_id secret) request))"

definition elasticsearch_api_test :: "(rat \<Rightarrow> string) \<Rightarrow> http_client \<Rightarrow> jobj \<Rightarrow> (bool \<times> string) result" where
  "elasticsearch_api_test fr client creds =
     (let key_id = text_param fr creds ''api_key_id'' in
     let secret = text_param fr creds ''api_key'' in
     if key_id = [] then Inr (False, ''api_key_id is empty'')
     else if secret = [] then Inr (False, ''api_key is empty'')
     else (case elasticsearch_api_base_url_from (py_str fr (param_or creds ''base_url'' (JStr []))) of
       Inl e \<Rightarrow> if exn_cls e = ValueError then (let exc = exn_msg e in Inr (False, exc)) else Inl e
     | Inr base \<Rightarrow>
       (case client ((mk_request ''GET'' (base @ ''/''))\<lparr>rq_headers := [(''Authorization'', JStr
           (elasticsearch_api_api_key_header key_id secret)), (''Accept'', JStr ''application/json'')]\<rparr>) of
         Inl e \<Rightarrow> if exn_cls e = HTTPError then (let exc = exn_msg e in Inr (False, ''network error: '' @ exc))
             else Inl e
       | Inr response \<Rightarrow>
         if rs_status response \<noteq> 200 then Inr (False, ''elasticsearch rejected key: HTTP '' @ show_int
             (rs_status response))
         else Inr (True, ''authenticated''))))"

definition elasticsearch_api_type :: credential_type where
  "elasticsearch_api_type =
   \<lparr>ct_qualname = ''ElasticsearchApiCredential'', ct_slug = ''weftlyflow.elasticsearch_api'', ct_display_name =
       ''Elasticsearch API'', ct_generic = False,
    ct_documentation_url = Some
        ''https://www.elastic.co/guide/en/elasticsearch/reference/current/security-api-create-api-key.html'',
    ct_properties =
      [(mk_property ''api_key_id'' ''API Key ID'' PString JNull)\<lparr>prop_required := True, prop_description :=
          Some ''`id` component of the Elasticsearch API key.''\<rparr>,
       (mk_property ''api_key'' ''API Key'' PString JNull)\<lparr>prop_required := True, prop_description := Some
           ''`api_key` component (the secret half).'', prop_type_options := Some [(''password'', JBool True)]\<rparr>,
       (mk_property ''base_url'' ''Base URL'' PString JNull)\<lparr>prop_required := True, prop_description := Some
           ''Cluster URL, e.g. 'https://my-deployment.es.us-east-1.aws.found.io:9243'.''\<rparr>]\<rparr>"

lemma elasticsearch_api_base_url_from_ok: "ensures (\<lambda>_. True) (elasticsearch_api_base_url_from raw_base_url)"
  unfolding elasticsearch_api_base_url_from_def by (rule ensures_rules | simp)+

lemma elasticsearch_api_inject_ok: "keeps request (elasticsearch_api_inject fr creds request)"
  unfolding elasticsearch_api_inject_def by (rule keeps_rules | simp add: same_target_def)+

lemma elasticsearch_api_test_ok: "tested client (elasticsearch_api_test fr client creds)"
  unfolding elasticsearch_api_test_def by (rule elasticsearch_api_base_url_from_ok [THEN tested_bind] elasticsearch_api_base_url_from_ok [THEN tested_try] tested_rules | rule tested_answered, assumption | simp)+

section \<open>Facebook graph\<close>

definition facebook_graph_type :: credential_type where
  "facebook_graph_type =
   \<lparr>ct_qualname = ''FacebookGraphCredential'', ct_slug = ''weftlyflow.facebook_graph'', ct_display_name =
       ''Facebook Graph'', ct_generic = False,
    ct_documentation_url = Some ''https://developers.facebook.com/docs/graph-api/security/'',
    ct_properties =
      [(mk_property ''access_token'' ''Access Token'' PString JNull)\<lparr>prop_required := True, prop_description :=
          Some ''Facebook user, page, or system-user access token.'', prop_type_options := Some [(''password'',
          JBool True)]\<rparr>,
       (mk_property ''app_secret'' ''App Secret'' PString JNull)\<lparr>prop_required := False, prop_description :=
           Some ''Optional app secret - enables HMAC 'appsecret_proof' query param on every call.'',
           prop_type_options := Some [(''password'', JBool True)]\<rparr>,
       (mk_property ''api_version'' ''API Version'' PString (JStr ''v21.0''))\<lparr>prop_required := False,
           prop_description := Some ''Graph API version prefix (e.g. v21.0).''\<rparr>]\<rparr>"


section \<open>Freshdesk api\<close>

definition freshdesk_api_base_url_for :: "string \<Rightarrow> string result" where
  "freshdesk_api_base_url_for subdomain =
     (let cleaned = rstrip_chars (\<lambda>c. c \<in> set ''/'') (py_lower (py_strip subdomain)) in
     if cleaned = [] then raise ValueError ''Freshdesk: 'subdomain' is required''
     else let host = (if (substring ''.'' cleaned) then cleaned else cleaned @ ''.freshdesk.com'') in
     Inr (''https://'' @ host @ ''/api/v2''))"

definition freshdesk_api_basic_auth_header :: "string \<Rightarrow> string" where
  "freshdesk_api_basic_auth_header api_key =
     (let pair = api_key @ '':'' @ ''X'' in
     ''Basic '' @ (b64encode pair))"

definition freshdesk_api_inject :: "(rat \<Rightarrow> string) \<Rightarrow> jobj \<Rightarrow> http_request \<Rightarrow> http_request result" where
  "freshdesk_api_inject fr creds request =
     (let api_key = py_strip (py_str fr (dict_get creds ''api_key'' (JStr []))) in
     Inr (set_header ''Authorization'' (freshdesk_api_basic_auth_header api_key) request))"

definition freshdesk_api_test :: "(rat \<Rightarrow> string) \<Rightarrow> http_client \<Rightarrow> jobj \<Rightarrow> (bool \<times> string) result" where
  "freshdesk_api_test fr client creds =
     (let api_key = text_param fr creds ''api_key'' in
     if api_key = [] then Inr (False, ''api_key is empty'')
     else (case freshdesk_api_base_url_for (py_str fr (param_or creds ''subdomain'' (JStr []))) of
       Inl e \<Rightarrow> if exn_cls e = ValueError then (let exc = exn_msg e in Inr (False, exc)) else Inl e
     | Inr base \<Rightarrow>
       (case client ((mk_request ''GET'' (base @ ''/agents/me''))\<lparr>rq_headers := [(''Authorization'', JStr
           (freshdesk_api_basic_auth_header api_key)), (''Accept'', JStr ''application/json'')]\<rparr>) of
         Inl e \<Rightarrow> if exn_cls e = HTTPError then (let exc = exn_msg e in Inr (False, ''network error: '' @ exc))
             else Inl e
       | Inr response \<Rightarrow>
         if rs_status response \<noteq> 200 then Inr (False, ''freshdesk rejected key: HTTP '' @ show_int (rs_status
             response))
         else Inr (True, ''authenticated''))))"

definition freshdesk_api_type :: credential_type where
  "freshdesk_api_type =
   \<lparr>ct_qualname = ''FreshdeskApiCredential'', ct_slug = ''weftlyflow.freshdesk_api'', ct_display_name =
       ''Freshdesk API'', ct_generic = False,
    ct_documentation_url = Some ''https://developers.freshdesk.com/api/#authentication'',
    ct_properties =
      [(mk_property ''api_key'' ''API Key'' PString JNull)\<lparr>prop_required := True, prop_description := Some
          ''Personal API key from Freshdesk profile settings.'', prop_type_options := Some [(''password'',
          JBool True)]\<rparr>,
       (mk_property ''subdomain'' ''Subdomain'' PString JNull)\<lparr>prop_required := True, prop_description := Some
           ''Subdomain or full host (e.g. 'acme' or 'acme.freshdesk.com').''\<rparr>]\<rparr>"

lemma freshdesk_api_base_url_for_ok: "ensures (\<lambda>_. True) (freshdesk_api_base_url_for subdomain)"
  unfolding freshdesk_api_base_url_for_def by (rule ensures_rules | simp)+

lemma freshdesk_api_inject_ok: "keeps request (freshdesk_api_inject fr creds request)"
  unfolding freshdesk_api_inject_def by (rule keeps_rules | simp add: same_target_def)+

lemma freshdesk_api_test_ok: "tested client (freshdesk_api_test fr client creds)"
  unfolding freshdesk_api_test_def by (rule freshdesk_api_base_url_for_ok [THEN tested_bind] freshdesk_api_base_url_for_ok [THEN tested_try] tested_rules | rule tested_answered, assumption | simp)+

section \<open>Ga4 measurement\<close>

definition ga4_measurement_inject :: "(rat \<Rightarrow> string) \<Rightarrow> jobj \<Rightarrow> http_request \<Rightarrow> http_request result" where
  "ga4_measurement_inject fr creds request =
     (let measurement_id = py_strip (py_str fr (dict_get creds ''measurement_id'' (JStr []))) in
     let api_secret = py_strip (py_str fr (dict_get creds ''api_secret'' (JStr []))) in
     Inr (request\<lparr>rq_params := Some (dict_merge (query_params request) [(''measurement_id'', JStr
         measurement_id), (''api_secret'', JStr api_secret)])\<rparr>))"

definition ga4_measurement_test :: "(rat \<Rightarrow> string) \<Rightarrow> http_client \<Rightarrow> jobj \<Rightarrow> (bool \<times> string) result" where
  "ga4_measurement_test fr client creds =
     (let measurement_id = py_strip (py_str fr (dict_get creds ''measurement_id'' (JStr []))) in
     let api_secret = py_strip (py_str fr (dict_get creds ''api_secret'' (JStr []))) in
     if measurement_id = [] \<or> api_secret = [] then Inr (False, ''measurement_id and api_secret are required'')
     else (case client ((mk_request ''POST'' ''https://www.google-analytics.com/debug/mp/collect'')\<lparr>rq_params
         := Some [(''measurement_id'', JStr measurement_id), (''api_secret'', JStr api_secret)], rq_json :=
         Some (JObj [(''client_id'', JStr ''weftlyflow.test''), (''events'', JArr [])])\<rparr>) of
       Inl e \<Rightarrow> if exn_cls e = HTTPError then (let exc = exn_msg e in Inr (False, ''network error: '' @ exc))
           else Inl e
     | Inr response \<Rightarrow>
       if rs_status response \<noteq> 200 then Inr (False, ''ga4 rejected credentials: HTTP '' @ show_int (rs_status
           response))
       else Inr (True, ''ga4 credentials accepted'')))"

definition ga4_measurement_type :: credential_type where
  "ga4_measurement_type =
   \<lparr>ct_qualname = ''Ga4MeasurementCredential'', ct_slug = ''weftlyflow.ga4_measurement'', ct_display_name =
       ''GA4 Measurement Protocol'', ct_generic = False,
    ct_documentation_url = Some ''https://developers.google.com/analytics/devguides/collection/protocol/ga4/'',
    ct_properties =
      [(mk_property ''measurement_id'' ''Measurement ID'' PString JNull)\<lparr>prop_required := True,
          prop_description := Some ''GA4 stream identifier, e.g. G-XXXXXXXX.''\<rparr>,
       (mk_property ''api_secret'' ''API Secret'' PString JNull)\<lparr>prop_required := True, prop_description :=
           Some ''Per-stream secret generated in the GA4 Admin UI.'', prop_type_options := Some [(''password'',
           JBool True)]\<rparr>]\<rparr>"

lemma ga4_measurement_inject_ok: "keeps request (ga4_measurement_inject fr creds request)"
  unfolding ga4_measurement_inject_def by (rule keeps_rules | simp add: same_target_def)+

lemma ga4_measurement_test_ok: "tested client (ga4_measurement_test fr client creds)"
  unfolding ga4_measurement_test_def by (rule tested_rules | rule tested_answered, assumption | simp)+

section \<open>Gcp service account\<close>

definition gcp_service_account_token_host :: "string" where
  "gcp_service_account_token_host =
     ''https://oauth2.googleapis.com''"

definition gcp_service_account_inject :: "jobj \<Rightarrow> http_request \<Rightarrow> http_request result" where
  "gcp_service_account_inject creds request =
     Inr request"

definition gcp_service_account_type :: credential_type where
  "gcp_service_account_type =
   \<lparr>ct_qualname = ''GcpServiceAccountCredential'', ct_slug = ''weftlyflow.gcp_service_account'',
       ct_display_name = ''Google Cloud Service Account'', ct_generic = False,
    ct_documentation_url = Some ''https://developers.google.com/identity/protocols/oauth2/service-account'',
    ct_properties =
      [(mk_property ''client_email'' ''Service Account Email'' PString JNull)\<lparr>prop_required := True,
          prop_description := Some (''E.g. '' @ [CHR 0x22] @ ''svc@project.iam.gserviceaccount.com'' @ [CHR
          0x22] @ '' - used as JWT iss.'')\<rparr>,
       (mk_property ''private_key'' ''RSA Private Key (PEM)'' PString JNull)\<lparr>prop_required := True,
           prop_description := Some ''PEM-encoded RSA key from the service-account JSON file.'',
           prop_type_options := Some [(''password'', JBool True), (''rows'', JInt 14)]\<rparr>,
       (mk_property ''scope'' ''OAuth Scopes'' PString (JStr
           ''https://www.googleapis.com/auth/cloud-platform''))\<lparr>prop_description := Some
           ''Space-separated OAuth scopes - embedded into the JWT claim.''\<rparr>,
       (mk_property ''subject'' ''Delegated User (optional)'' PString JNull)\<lparr>prop_description := Some
           ''Populate only for domain-wide delegation impersonation.''\<rparr>]\<rparr>"

lemma gcp_service_account_inject_ok: "keeps request (gcp_service_account_inject creds request)"
  unfolding gcp_service_account_inject_def by (rule keeps_rules | simp add: same_target_def)+

section \<open>Ghost admin\<close>

definition ghost_admin_type :: credential_type where
  "ghost_admin_type =
   \<lparr>ct_qualname = ''GhostAdminCredential'', ct_slug = ''weftlyflow.ghost_admin'', ct_display_name =
       ''Ghost Admin API'', ct_generic = False,
    ct_documentation_url = Some ''https://ghost.org/docs/admin-api/#token-authentication'',
    ct_properties =
      [(mk_property ''base_url'' ''Base URL'' PString JNull)\<lparr>prop_required := True, prop_description := Some
          ''Ghost site root, e.g. https://demo.ghost.io (no trailing slash).''\<rparr>,
       (mk_property ''admin_api_key'' ''Admin API Key'' PString JNull)\<lparr>prop_required := True, prop_description
           := Some ([CHR 0x27] @ ''<key_id>:<secret_hex>' - print from Ghost -> Integrations.''),
           prop_type_options := Some [(''password'', JBool True)]\<rparr>]\<rparr>"


section \<open>Gitlab token\<close>

definition gitlab_token_inject :: "(rat \<Rightarrow> string) \<Rightarrow> jobj \<Rightarrow> http_request \<Rightarrow> http_request result" where
  "gitlab_token_inject fr creds request =
     (let token = py_strip (py_str fr (dict_get creds ''access_token'' (JStr []))) in
     Inr (set_header ''PRIVATE-TOKEN'' token request))"

definition gitlab_token_test :: "(rat \<Rightarrow> string) \<Rightarrow> http_client \<Rightarrow> jobj \<Rightarrow> (bool \<times> string) result" where
  "gitlab_token_test fr client creds =
     (let raw_base = rstrip_chars (\<lambda>c. c \<in> set ''/'') (py_strip (py_str fr (param_or creds ''base_url'' (JStr
         ''https://gitlab.com'')))) in
     let base_url = (if raw_base \<noteq> [] then raw_base else ''https://gitlab.com'') in
     let token = py_strip (py_str fr (dict_get creds ''access_token'' (JStr []))) in
     if token = [] then Inr (False, ''access_token is empty'')
     else (case client ((mk_request ''GET'' (base_url @ ''/api/v4/user''))\<lparr>rq_headers := [(''PRIVATE-TOKEN'',
         JStr token)]\<rparr>) of
       Inl e \<Rightarrow> if exn_cls e = HTTPError then (let exc = exn_msg e in Inr (False, ''network error: '' @ exc))
           else Inl e
     | Inr response \<Rightarrow>
       if rs_status response \<noteq> 200 then Inr (False, ''gitlab rejected token: HTTP '' @ show_int (rs_status
           response))
       else rbind (case response_json response of Inl e \<Rightarrow> if exn_cls e = ValueError then Inr (JObj []) else Inl
           e | Inr v \<Rightarrow> Inr v) (\<lambda>payload.
       let username = ([] :: string) in
       let username = (if is_obj payload then py_str fr (dict_get (obj_of payload) ''username'' (JStr [])) else
           username) in
       let suffix = (if username \<noteq> [] then '' as '' @ username else []) in
       Inr (True, ''authenticated'' @ suffix))))"

definition gitlab_token_type :: credential_type where
  "gitlab_token_type =
   \<lparr>ct_qualname = ''GitLabTokenCredential'', ct_slug = ''weftlyflow.gitlab_token'', ct_display_name =
       ''GitLab Access Token'', ct_generic = False,
    ct_documentation_url = Some ''https://docs.gitlab.com/ee/user/profile/personal_access_tokens.html'',
    ct_properties =
      [(mk_property ''base_url'' ''Base URL'' PString (JStr ''https://gitlab.com''))\<lparr>prop_description := Some
          ''GitLab instance base URL (no trailing slash).'', prop_placeholder := Some ''https://gitlab.com''\<rparr>,
       (mk_property ''access_token'' ''Access Token'' PString JNull)\<lparr>prop_required := True, prop_description :=
           Some ''Personal, group, or project access token.'', prop_type_options := Some [(''password'', JBool
           True)]\<rparr>]\<rparr>"

lemma gitlab_token_inject_ok: "keeps request (gitlab_token_inject fr creds request)"
  unfolding gitlab_token_inject_def by (rule keeps_rules | simp add: same_target_def)+

lemma gitlab_token_test_ok: "tested client (gitlab_token_test fr client creds)"
  unfolding gitlab_token_test_def by (rule tested_rules | rule tested_answered, assumption | simp)+

section \<open>Gmail oauth2\<close>

definition gmail_oauth2_test :: "(rat \<Rightarrow> string) \<Rightarrow> http_client \<Rightarrow> jobj \<Rightarrow> (bool \<times> string) result" where
  "gmail_oauth2_test fr client creds =
     (let token = py_strip (py_str fr (dict_get creds ''access_token'' (JStr []))) in
     if token = [] then Inr (False, ''no access_token - complete the OAuth flow first'')
     else (case client ((mk_request ''GET'' ''https://oauth2.googleapis.com/tokeninfo'')\<lparr>rq_params := Some
         [(''access_token'', JStr token)]\<rparr>) of
       Inl e \<Rightarrow> if exn_cls e = HTTPError then (let exc = exn_msg e in Inr (False, ''network error: '' @ exc))
           else Inl e
     | Inr response \<Rightarrow>
       if rs_status response \<noteq> 200 then Inr (False, ''google rejected token: HTTP '' @ show_int (rs_status
           response))
       else Inr (True, ''token valid'')))"

definition gmail_oauth2_type :: credential_type where
  "gmail_oauth2_type =
   \<lparr>ct_qualname = ''GmailOAuth2Credential'', ct_slug = ''weftlyflow.gmail_oauth2'', ct_display_name =
       ''Gmail OAuth2'', ct_generic = False,
    ct_documentation_url = Some ''https://developers.google.com/gmail/api/auth/about-auth'',
    ct_properties =
      [(mk_property ''authorization_url'' ''Authorization URL'' PString (JStr
          ''https://accounts.google.com/o/oauth2/v2/auth''))\<lparr>prop_required := True\<rparr>,
       (mk_property ''token_url'' ''Token URL'' PString (JStr
           ''https://oauth2.googleapis.com/token''))\<lparr>prop_required := True\<rparr>,
       (mk_property ''client_id'' ''Client ID'' PString JNull)\<lparr>prop_required := True\<rparr>,
       (mk_property ''client_secret'' ''Client Secret'' PString JNull)\<lparr>prop_required := True, prop_type_options
           := Some [(''password'', JBool True)]\<rparr>,
       (mk_property ''scope'' ''Scope'' PString (JStr
           ''https://www.googleapis.com/auth/gmail.send''))\<lparr>prop_required := False, prop_description := Some
           ''Space-separated Gmail API scopes.''\<rparr>,
       (mk_property ''access_token'' ''Access Token'' PString (JStr []))\<lparr>prop_required := False,
           prop_type_options := Some [(''password'', JBool True)]\<rparr>,
       (mk_property ''refresh_token'' ''Refresh Token'' PString (JStr []))\<lparr>prop_required := False,
           prop_type_options := Some [(''password'', JBool True)]\<rparr>,
       (mk_property ''expires_at'' ''Access token expiry (epoch seconds)'' PNumber (JInt 0))\<lparr>prop_required :=
           False\<rparr>]\<rparr>"

lemma gmail_oauth2_test_ok: "tested client (gmail_oauth2_test fr client creds)"
  unfolding gmail_oauth2_test_def by (rule tested_rules | rule tested_answered, assumption | simp)+

section \<open>Google drive oauth2\<close>

definition google_drive_oauth2_test :: "(rat \<Rightarrow> string) \<Rightarrow> http_client \<Rightarrow> jobj \<Rightarrow> (bool \<times> string) result" where
  "google_drive_oauth2_test fr client creds =
     (let token = py_strip (py_str fr (dict_get creds ''access_token'' (JStr []))) in
     if token = [] then Inr (False, ''no access_token - complete the OAuth flow first'')
     else (case client ((mk_request ''GET'' ''https://oauth2.googleapis.com/tokeninfo'')\<lparr>rq_params := Some
         [(''access_token'', JStr token)]\<rparr>) of
       Inl e \<Rightarrow> if exn_cls e = HTTPError then (let exc = exn_msg e in Inr (False, ''network error: '' @ exc))
           else Inl e
     | Inr response \<Rightarrow>
       if rs_status response \<noteq> 200 then Inr (False, ''google rejected token: HTTP '' @ show_int (rs_status
           response))
       else Inr (True, ''token valid'')))"

definition google_drive_oauth2_type :: credential_type where
  "google_drive_oauth2_type =
   \<lparr>ct_qualname = ''GoogleDriveOAuth2Credential'', ct_slug = ''weftlyflow.google_drive_oauth2'',
       ct_display_name = ''Google Drive OAuth2'', ct_generic = False,
    ct_documentation_url = Some ''https://developers.google.com/drive/api/guides/api-specific-auth'',
    ct_properties =
      [(mk_property ''authorization_url'' ''Authorization URL'' PString (JStr
          ''https://accounts.google.com/o/oauth2/v2/auth''))\<lparr>prop_required := True\<rparr>,
       (mk_property ''token_url'' ''Token URL'' PString (JStr
           ''https://oauth2.googleapis.com/token''))\<lparr>prop_required := True\<rparr>,
       (mk_property ''client_id'' ''Client ID'' PString JNull)\<lparr>prop_required := True\<rparr>,
       (mk_property ''client_secret'' ''Client Secret'' PString JNull)\<lparr>prop_required := True, prop_type_options
           := Some [(''password'', JBool True)]\<rparr>,
       (mk_property ''scope'' ''Scope'' PString (JStr
           ''https://www.googleapis.com/auth/drive.file''))\<lparr>prop_required := False, prop_description := Some
           ''Space-separated Drive API scopes.''\<rparr>,
       (mk_property ''access_token'' ''Access Token'' PString (JStr []))\<lparr>prop_required := False,
           prop_type_options := Some [(''password'', JBool True)]\<rparr>,
       (mk_property ''refresh_token'' ''Refresh Token'' PString (JStr []))\<lparr>prop_required := False,
           prop_type_options := Some [(''password'', JBool True)]\<rparr>,
       (mk_property ''expires_at'' ''Access token expiry (epoch seconds)'' PNumber (JInt 0))\<lparr>prop_required :=
           False\<rparr>]\<rparr>"

lemma google_drive_oauth2_test_ok: "tested client (google_drive_oauth2_test fr client creds)"
  unfolding google_drive_oauth2_test_def by (rule tested_rules | rule tested_answered, assumption | simp)+

section \<open>Google genai api\<close>

definition google_genai_api_inject :: "(rat \<Rightarrow> string) \<Rightarrow> jobj \<Rightarrow> http_request \<Rightarrow> http_request result" where
  "google_genai_api_inject fr creds request =
     (let api_key = py_strip (py_str fr (dict_get creds ''api_key'' (JStr []))) in
     Inr (set_header ''x-goog-api-key'' api_key request))"

definition google_genai_api_test :: "(rat \<Rightarrow> string) \<Rightarrow> http_client \<Rightarrow> jobj \<Rightarrow> (bool \<times> string) result" where
  "google_genai_api_test fr client creds =
     (let api_key = text_param fr creds ''api_key'' in
     if api_key = [] then Inr (False, ''api_key is empty'')
     else (case client ((mk_request ''GET''
         ''https://generativelanguage.googleapis.com/v1beta/models'')\<lparr>rq_headers := [(''x-goog-api-key'', JStr
         api_key), (''Accept'', JStr ''application/json'')]\<rparr>) of
       Inl e \<Rightarrow> if exn_cls e = HTTPError then (let exc = exn_msg e in Inr (False, ''network error: '' @ exc))
           else Inl e
     | Inr response \<Rightarrow>
       if rs_status response \<noteq> 200 then Inr (False, ''google rejected key: HTTP '' @ show_int (rs_status
           response))
       else Inr (True, ''authenticated'')))"

definition google_genai_api_type :: credential_type where
  "google_genai_api_type =
   \<lparr>ct_qualname = ''GoogleGenAIApiCredential'', ct_slug = ''weftlyflow.google_genai_api'', ct_display_name =
       ''Google GenAI API'', ct_generic = False,
    ct_documentation_url = Some ''https://ai.google.dev/api/rest'',
    ct_properties =
      [(mk_property ''api_key'' ''API Key'' PString JNull)\<lparr>prop_required := True, prop_description := Some
          ''Gemini API key from Google AI Studio.'', prop_type_options := Some [(''password'', JBool True)]\<rparr>]\<rparr>"

lemma google_genai_api_inject_ok: "keeps request (google_genai_api_inject fr creds request)"
  unfolding google_genai_api_inject_def by (rule keeps_rules | simp add: same_target_def)+

lemma google_genai_api_test_ok: "tested client (google_genai_api_test fr client creds)"
  unfolding google_genai_api_test_def by (rule tested_rules | rule tested_answered, assumption | simp)+

section \<open>Google sheets oauth2\<close>

definition google_sheets_oauth2_test :: "(rat \<Rightarrow> string) \<Rightarrow> http_client \<Rightarrow> jobj \<Rightarrow> (bool \<times> string) result" where
  "google_sheets_oauth2_test fr client creds =
     (let token = py_strip (py_str fr (dict_get creds ''access_token'' (JStr []))) in
     if token = [] then Inr (False, ''no access_token - complete the OAuth flow first'')
     else (case client ((mk_request ''GET'' ''https://oauth2.googleapis.com/tokeninfo'')\<lparr>rq_params := Some
         [(''access_token'', JStr token)]\<rparr>) of
       Inl e \<Rightarrow> if exn_cls e = HTTPError then (let exc = exn_msg e in Inr (False, ''network error: '' @ exc))
           else Inl e
     | Inr response \<Rightarrow>
       if rs_status response \<noteq> 200 then Inr (False, ''google rejected token: HTTP '' @ show_int (rs_status
           response))
       else Inr (True, ''token valid'')))"

definition google_sheets_oauth2_type :: credential_type where
  "google_sheets_oauth2_type =
   \<lparr>ct_qualname = ''GoogleSheetsOAuth2Credential'', ct_slug = ''weftlyflow.google_sheets_oauth2'',
       ct_display_name = ''Google Sheets OAuth2'', ct_generic = False,
    ct_documentation_url = Some ''https://developers.google.com/identity/protocols/oauth2'',
    ct_properties =
      [(mk_property ''authorization_url'' ''Authorization URL'' PString (JStr
          ''https://accounts.google.com/o/oauth2/v2/auth''))\<lparr>prop_required := True\<rparr>,
       (mk_property ''token_url'' ''Token URL'' PString (JStr
           ''https://oauth2.googleapis.com/token''))\<lparr>prop_required := True\<rparr>,
       (mk_property ''client_id'' ''Client ID'' PString JNull)\<lparr>prop_required := True\<rparr>,
       (mk_property ''client_secret'' ''Client Secret'' PString JNull)\<lparr>prop_required := True, prop_type_options
           := Some [(''password'', JBool True)]\<rparr>,
       (mk_property ''scope'' ''Scope'' PString (JStr
           ''https://www.googleapis.com/auth/spreadsheets''))\<lparr>prop_required := False, prop_description := Some
           ''Space-separated Google API scopes.''\<rparr>,
       (mk_property ''access_token'' ''Access Token'' PString (JStr []))\<lparr>prop_required := False,
           prop_type_options := Some [(''password'', JBool True)]\<rparr>,
       (mk_property ''refresh_token'' ''Refresh Token'' PString (JStr []))\<lparr>prop_required := False,
           prop_type_options := Some [(''password'', JBool True)]\<rparr>,
       (mk_property ''expires_at'' ''Access token expiry (epoch seconds)'' PNumber (JInt 0))\<lparr>prop_required :=
           False\<rparr>]\<rparr>"

lemma google_sheets_oauth2_test_ok: "tested client (google_sheets_oauth2_test fr client creds)"
  unfolding google_sheets_oauth2_test_def by (rule tested_rules | rule tested_answered, assumption | simp)+

section \<open>Harvest api\<close>

definition harvest_api_inject :: "(rat \<Rightarrow> string) \<Rightarrow> jobj \<Rightarrow> http_request \<Rightarrow> http_request result" where
  "harvest_api_inject fr creds request =
     (let token = py_strip (py_str fr (dict_get creds ''access_token'' (JStr []))) in
     let account_id = py_strip (py_str fr (dict_get creds ''account_id'' (JStr []))) in
     let request = set_header ''Authorization'' (''Bearer '' @ token) request in
     let request = set_header ''Harvest-Account-ID'' account_id request in
     Inr (default_header ''User-Agent'' ''Weftlyflow (+https://weftlyflow.dev)'' request))"

definition harvest_api_test :: "(rat \<Rightarrow> string) \<Rightarrow> http_client \<Rightarrow> jobj \<Rightarrow> (bool \<times> string) result" where
  "harvest_api_test fr client creds =
     (let token = py_strip (py_str fr (dict_get creds ''access_token'' (JStr []))) in
     let account_id = py_strip (py_str fr (dict_get creds ''account_id'' (JStr []))) in
     if token = [] \<or> account_id = [] then Inr (False, ''access_token and account_id are required'')
     else let headers = [(''Authorization'', JStr (''Bearer '' @ token)), (''Harvest-Account-ID'', JStr
         account_id), (''User-Agent'', JStr ''Weftlyflow (+https://weftlyflow.dev)''), (''Accept'', JStr
         ''application/json'')] in
     (case client ((mk_request ''GET'' ''https://api.harvestapp.com/v2/users/me'')\<lparr>rq_headers := headers\<rparr>) of
       Inl e \<Rightarrow> if exn_cls e = HTTPError then (let exc = exn_msg e in Inr (False, ''network error: '' @ exc))
           else Inl e
     | Inr response \<Rightarrow>
       if rs_status response \<noteq> 200 then Inr (False, ''harvest rejected credentials: HTTP '' @ show_int
           (rs_status response))
       else rbind (case response_json response of Inl e \<Rightarrow> if exn_cls e = ValueError then Inr (JObj []) else Inl
           e | Inr v \<Rightarrow> Inr v) (\<lambda>payload.
       let email = ([] :: string) in
       let email = (if is_obj payload then py_str fr (param_or (obj_of payload) ''email'' (JStr [])) else
           email) in
       let suffix = (if email \<noteq> [] then '' as '' @ email else []) in
       Inr (True, ''authenticated'' @ suffix))))"

definition harvest_api_type :: credential_type where
  "harvest_api_type =
   \<lparr>ct_qualname = ''HarvestApiCredential'', ct_slug = ''weftlyflow.harvest_api'', ct_display_name =
       ''Harvest API'', ct_generic = False,
    ct_documentation_url = Some
        ''https://help.getharvest.com/api-v2/authentication-api/authentication/authentication/'',
    ct_properties =
      [(mk_property ''access_token'' ''Personal Access Token'' PString JNull)\<lparr>prop_required := True,
          prop_description := Some ''Harvest PAT or OAuth2 access token.'', prop_type_options := Some
          [(''password'', JBool True)]\<rparr>,
       (mk_property ''account_id'' ''Harvest Account ID'' PString JNull)\<lparr>prop_required := True,
           prop_description := Some
           ''Numeric account ID - scopes every call to a specific Harvest account.''\<rparr>]\<rparr>"

lemma harvest_api_inject_ok: "keeps request (harvest_api_inject fr creds request)"
  unfolding harvest_api_inject_def by (rule keeps_rules | simp add: same_target_def)+

lemma harvest_api_test_ok: "tested client (harvest_api_test fr client creds)"
  unfolding harvest_api_test_def by (rule tested_rules | rule tested_answered, assumption | simp)+

section \<open>Hasura api\<close>

definition hasura_api_inject :: "(rat \<Rightarrow> string) \<Rightarrow> jobj \<Rightarrow> http_request \<Rightarrow> http_request result" where
  "hasura_api_inject fr creds request =
     (let secret = py_strip (py_str fr (dict_get creds ''admin_secret'' (JStr []))) in
     let request = set_header ''X-Hasura-Admin-Secret'' secret request in
     let role = py_strip (py_str fr (dict_get creds ''role'' (JStr []))) in
     Inr (if role \<noteq> [] then set_header ''X-Hasura-Role'' role request else request))"

definition hasura_api_test :: "(rat \<Rightarrow> string) \<Rightarrow> http_client \<Rightarrow> jobj \<Rightarrow> (bool \<times> string) result" where
  "hasura_api_test fr client creds =
     (let base_url = rstrip_chars (\<lambda>c. c \<in> set ''/'') (text_param fr creds ''base_url'') in
     let secret = text_param fr creds ''admin_secret'' in
     if base_url = [] then Inr (False, ''base_url is empty'')
     else if secret = [] then Inr (False, ''admin_secret is empty'')
     else (case client ((mk_request ''POST'' (base_url @ ''/v1/graphql''))\<lparr>rq_json := Some (JObj [(''query'',
         JStr ''{ __schema { queryType { name } } }'')]), rq_headers := [(''X-Hasura-Admin-Secret'', JStr
         secret), (''Accept'', JStr ''application/json''), (''Content-Type'', JStr ''application/json'')]\<rparr>) of
       Inl e \<Rightarrow> if exn_cls e = HTTPError then (let exc = exn_msg e in Inr (False, ''network error: '' @ exc))
           else Inl e
     | Inr response \<Rightarrow>
       if rs_status response \<noteq> 200 then Inr (False, ''hasura rejected admin secret: HTTP '' @ show_int
           (rs_status response))
       else Inr (True, ''authenticated'')))"

definition hasura_api_type :: credential_type where
  "hasura_api_type =
   \<lparr>ct_qualname = ''HasuraApiCredential'', ct_slug = ''weftlyflow.hasura_api'', ct_display_name =
       ''Hasura API'', ct_generic = False,
    ct_documentation_url = Some ''https://hasura.io/docs/latest/auth/authentication/admin-secret/'',
    ct_properties =
      [(mk_property ''base_url'' ''Base URL'' PString JNull)\<lparr>prop_required := True, prop_description := Some
          ''GraphQL Engine root, e.g. https://gql.example.com (no trailing slash).''\<rparr>,
       (mk_property ''admin_secret'' ''Admin Secret'' PString JNull)\<lparr>prop_required := True, prop_description :=
           Some ''Value of HASURA_GRAPHQL_ADMIN_SECRET on the server.'', prop_type_options := Some
           [(''password'', JBool True)]\<rparr>,
       (mk_property ''role'' ''Role'' PString JNull)\<lparr>prop_required := False, prop_description := Some
           ''Optional 'X-Hasura-Role' to scope the request away from admin.''\<rparr>]\<rparr>"

lemma hasura_api_inject_ok: "keeps request (hasura_api_inject fr creds request)"
  unfolding hasura_api_inject_def by (rule keeps_rules | simp add: same_target_def)+

lemma hasura_api_test_ok: "tested client (hasura_api_test fr client creds)"
  unfolding hasura_api_test_def by (rule tested_rules | rule tested_answered, assumption | simp)+

section \<open>Hubspot private app\<close>

definition hubspot_private_app_inject :: "(rat \<Rightarrow> string) \<Rightarrow> jobj \<Rightarrow> http_request \<Rightarrow> http_request result" where
  "hubspot_private_app_inject fr creds request =
     (let token = py_strip (py_str fr (dict_get creds ''access_token'' (JStr []))) in
     Inr (set_header ''Authorization'' (''Bearer '' @ token) request))"

definition hubspot_private_app_test :: "(rat \<Rightarrow> string) \<Rightarrow> http_client \<Rightarrow> jobj \<Rightarrow> (bool \<times> string) result" where
  "hubspot_private_app_test fr client creds =
     (let token = py_strip (py_str fr (dict_get creds ''access_token'' (JStr []))) in
     if token = [] then Inr (False, ''access_token is empty'')
     else (case client ((mk_request ''GET'' ''https://api.hubapi.com/crm/v3/owners'')\<lparr>rq_headers :=
         [(''Authorization'', JStr (''Bearer '' @ token))], rq_params := Some [(''limit'', JInt 1)]\<rparr>) of
       Inl e \<Rightarrow> if exn_cls e = HTTPError then (let exc = exn_msg e in Inr (False, ''network error: '' @ exc))
           else Inl e
     | Inr response \<Rightarrow>
       if rs_status response \<noteq> 200 then Inr (False, ''hubspot rejected token: HTTP '' @ show_int (rs_status
           response))
       else Inr (True, ''authenticated'')))"

definition hubspot_private_app_type :: credential_type where
  "hubspot_private_app_type =
   \<lparr>ct_qualname = ''HubSpotPrivateAppCredential'', ct_slug = ''weftlyflow.hubspot_private_app'',
       ct_display_name = ''HubSpot Private App'', ct_generic = False,
    ct_documentation_url = Some ''https://developers.hubspot.com/docs/api/private-apps'',
    ct_properties =
      [(mk_property ''access_token'' ''Access Token'' PString JNull)\<lparr>prop_required := True, prop_description :=
          Some ''Private-app access token from the HubSpot settings page.'', prop_type_options := Some
          [(''password'', JBool True)]\<rparr>]\<rparr>"

lemma hubspot_private_app_inject_ok: "keeps request (hubspot_private_app_inject fr creds request)"
  unfolding hubspot_private_app_inject_def by (rule keeps_rules | simp add: same_target_def)+

lemma hubspot_private_app_test_ok: "tested client (hubspot_private_app_test fr client creds)"
  unfolding hubspot_private_app_test_def by (rule tested_rules | rule tested_answered, assumption | simp)+

section \<open>Intercom api\<close>

definition intercom_api_inject :: "(rat \<Rightarrow> string) \<Rightarrow> jobj \<Rightarrow> http_request \<Rightarrow> http_request result" where
  "intercom_api_inject fr creds request =
     (let token = py_strip (py_str fr (dict_get creds ''access_token'' (JStr []))) in
     let version = (if py_strip (py_str fr (param_or creds ''api_version'' (JStr ''2.11''))) \<noteq> [] then py_strip
         (py_str fr (param_or creds ''api_version'' (JStr ''2.11''))) else ''2.11'') in
     let request = set_header ''Authorization'' (''Bearer '' @ token) request in
     Inr (set_header ''Intercom-Version'' version request))"

definition intercom_api_test :: "(rat \<Rightarrow> string) \<Rightarrow> http_client \<Rightarrow> jobj \<Rightarrow> (bool \<times> string) result" where
  "intercom_api_test fr client creds =
     (let token = py_strip (py_str fr (dict_get creds ''access_token'' (JStr []))) in
     let version = (if py_strip (py_str fr (param_or creds ''api_version'' (JStr ''2.11''))) \<noteq> [] then py_strip
         (py_str fr (param_or creds ''api_version'' (JStr ''2.11''))) else ''2.11'') in
     if token = [] then Inr (False, ''access_token is empty'')
     else (case client ((mk_request ''GET'' ''https://api.intercom.io/me'')\<lparr>rq_headers := [(''Authorization'',
         JStr (''Bearer '' @ token)), (''Intercom-Version'', JStr version), (''Accept'', JStr
         ''application/json'')]\<rparr>) of
       Inl e \<Rightarrow> if exn_cls e = HTTPError then (let exc = exn_msg e in Inr (False, ''network error: '' @ exc))
           else Inl e
     | Inr response \<Rightarrow>
       if rs_status response \<noteq> 200 then Inr (False, ''intercom rejected token: HTTP '' @ show_int (rs_status
           response))
       else rbind (case response_json response of Inl e \<Rightarrow> if exn_cls e = ValueError then Inr (JObj []) else Inl
           e | Inr v \<Rightarrow> Inr v) (\<lambda>payload.
       let email = ([] :: string) in
       let email = (if is_obj payload then py_str fr (dict_get (obj_of payload) ''email'' (JStr [])) else
           email) in
       let suffix = (if email \<noteq> [] then '' as '' @ email else []) in
       Inr (True, ''authenticated'' @ suffix))))"

definition intercom_api_type :: credential_type where
  "intercom_api_type =
   \<lparr>ct_qualname = ''IntercomApiCredential'', ct_slug = ''weftlyflow.intercom_api'', ct_display_name =
       ''Intercom API'', ct_generic = False,
    ct_documentation_url = Some ''https://developers.intercom.com/docs/references/rest-api/authentication'',
    ct_properties =
      [(mk_property ''access_token'' ''Access Token'' PString JNull)\<lparr>prop_required := True, prop_description :=
          Some ''Intercom access token (from Developer Hub).'', prop_type_options := Some [(''password'', JBool
          True)]\<rparr>,
       (mk_property ''api_version'' ''API Version'' PString (JStr ''2.11''))\<lparr>prop_description := Some
           ''Intercom API version header value.''\<rparr>]\<rparr>"

lemma intercom_api_inject_ok: "keeps request (intercom_api_inject fr creds request)"
  unfolding intercom_api_inject_def by (rule keeps_rules | simp add: same_target_def)+

lemma intercom_api_test_ok: "tested client (intercom_api_test fr client creds)"
  unfolding intercom_api_test_def by (rule tested_rules | rule tested_answered, assumption | simp)+

section \<open>Jira cloud\<close>

definition jira_cloud_inject :: "(rat \<Rightarrow> string) \<Rightarrow> jobj \<Rightarrow> http_request \<Rightarrow> http_request result" where
  "jira_cloud_inject fr creds request =
     (let email = py_str fr (dict_get creds ''email'' (JStr [])) in
     let token = py_str fr (dict_get creds ''api_token'' (JStr [])) in
     let encoded = b64encode (email @ '':'' @ token) in
     Inr (set_header ''Authorization'' (''Basic '' @ encoded) request))"

definition jira_cloud_test :: "(rat \<Rightarrow> string) \<Rightarrow> http_client \<Rightarrow> jobj \<Rightarrow> (bool \<times> string) result" where
  "jira_cloud_test fr client creds =
     (let site = py_strip (py_str fr (dict_get creds ''site'' (JStr []))) in
     let email = py_strip (py_str fr (dict_get creds ''email'' (JStr []))) in
     let token = py_strip (py_str fr (dict_get creds ''api_token'' (JStr []))) in
     if site = [] \<or> email = [] \<or> token = [] then Inr (False, ''site, email, and api_token are required'')
     else let url = ''https://'' @ site @ ''.atlassian.net'' @ ''/rest/api/3/myself'' in
     let encoded = b64encode (email @ '':'' @ token) in
     (case client ((mk_request ''GET'' url)\<lparr>rq_headers := [(''Authorization'', JStr (''Basic '' @ encoded)),
         (''Accept'', JStr ''application/json'')]\<rparr>) of
       Inl e \<Rightarrow> if exn_cls e = HTTPError then (let exc = exn_msg e in Inr (False, ''network error: '' @ exc))
           else Inl e
     | Inr response \<Rightarrow>
       if rs_status response \<noteq> 200 then Inr (False, ''jira rejected credentials: HTTP '' @ show_int (rs_status
           response))
       else rbind (case response_json response of Inl e \<Rightarrow> if exn_cls e = ValueError then Inr (JObj []) else Inl
           e | Inr v \<Rightarrow> Inr v) (\<lambda>payload.
       let display_name = ([] :: string) in
       let display_name = (if is_obj payload then py_str fr (dict_get (obj_of payload) ''displayName'' (JStr
           [])) else display_name) in
       let suffix = (if display_name \<noteq> [] then '' as '' @ display_name else []) in
       Inr (True, ''authenticated'' @ suffix))))"

definition jira_cloud_type :: credential_type where
  "jira_cloud_type =
   \<lparr>ct_qualname = ''JiraCloudCredential'', ct_slug = ''weftlyflow.jira_cloud'', ct_display_name =
       ''Jira Cloud'', ct_generic = False,
    ct_documentation_url = Some
        ''https://developer.atlassian.com/cloud/jira/platform/basic-auth-for-rest-apis/'',
    ct_properties =
      [(mk_property ''site'' ''Site'' PString JNull)\<lparr>prop_required := True, prop_description := Some
          ''Atlassian site slug - '<site>.atlassian.net'.'', prop_placeholder := Some ''your-team''\<rparr>,
       (mk_property ''email'' ''Email'' PString JNull)\<lparr>prop_required := True\<rparr>,
       (mk_property ''api_token'' ''API Token'' PString JNull)\<lparr>prop_required := True, prop_type_options := Some
           [(''password'', JBool True)]\<rparr>]\<rparr>"

lemma jira_cloud_inject_ok: "keeps request (jira_cloud_inject fr creds request)"
  unfolding jira_cloud_inject_def by (rule keeps_rules | simp add: same_target_def)+

lemma jira_cloud_test_ok: "tested client (jira_cloud_test fr client creds)"
  unfolding jira_cloud_test_def by (rule tested_rules | rule tested_answered, assumption | simp)+

section \<open>Klaviyo api\<close>

definition klaviyo_api_inject :: "(rat \<Rightarrow> string) \<Rightarrow> jobj \<Rightarrow> http_request \<Rightarrow> http_request result" where
  "klaviyo_api_inject fr creds request =
     (let key = py_strip (py_str fr (dict_get creds ''api_key'' (JStr []))) in
     let revision = (if py_strip (py_str fr (param_or creds ''revision'' (JStr ''2024-10-15''))) \<noteq> [] then
         py_strip (py_str fr (param_or creds ''revision'' (JStr ''2024-10-15''))) else ''2024-10-15'') in
     let request = set_header ''Authorization'' (''Klaviyo-API-Key '' @ key) request in
     Inr (set_header ''revision'' revision request))"

definition klaviyo_api_test :: "(rat \<Rightarrow> string) \<Rightarrow> http_client \<Rightarrow> jobj \<Rightarrow> (bool \<times> string) result" where
  "klaviyo_api_test fr client creds =
     (let key = py_strip (py_str fr (dict_get creds ''api_key'' (JStr []))) in
     if key = [] then Inr (False, ''api_key is empty'')
     else let revision = (if py_strip (py_str fr (param_or creds ''revision'' (JStr ''2024-10-15''))) \<noteq> [] then
         py_strip (py_str fr (param_or creds ''revision'' (JStr ''2024-10-15''))) else ''2024-10-15'') in
     let headers = [(''Authorization'', JStr (''Klaviyo-API-Key '' @ key)), (''revision'', JStr revision),
         (''Accept'', JStr ''application/json'')] in
     (case client ((mk_request ''GET'' ''https://a.klaviyo.com/api/accounts'')\<lparr>rq_headers := headers\<rparr>) of
       Inl e \<Rightarrow> if exn_cls e = HTTPError then (let exc = exn_msg e in Inr (False, ''network error: '' @ exc))
           else Inl e
     | Inr response \<Rightarrow>
       if rs_status response \<noteq> 200 then Inr (False, ''klaviyo rejected key: HTTP '' @ show_int (rs_status
           response))
       else Inr (True, ''klaviyo credentials valid'')))"

definition klaviyo_api_type :: credential_type where
  "klaviyo_api_type =
   \<lparr>ct_qualname = ''KlaviyoApiCredential'', ct_slug = ''weftlyflow.klaviyo_api'', ct_display_name =
       ''Klaviyo API'', ct_generic = False,
    ct_documentation_url = Some ''https://developers.klaviyo.com/en/reference/api_overview'',
    ct_properties =
      [(mk_property ''api_key'' ''Private API Key'' PString JNull)\<lparr>prop_required := True, prop_description :=
          Some ''Private API key (starts with 'pk_').'', prop_type_options := Some [(''password'', JBool
          True)]\<rparr>,
       (mk_property ''revision'' ''API Revision'' PString (JStr ''2024-10-15''))\<lparr>prop_required := True,
           prop_description := Some ''Date-based API version (YYYY-MM-DD) - mandatory on every call.''\<rparr>]\<rparr>"

lemma klaviyo_api_inject_ok: "keeps request (klaviyo_api_inject fr creds request)"
  unfolding klaviyo_api_inject_def by (rule keeps_rules | simp add: same_target_def)+

lemma klaviyo_api_test_ok: "tested client (klaviyo_api_test fr client creds)"
  unfolding klaviyo_api_test_def by (rule tested_rules | rule tested_answered, assumption | simp)+

end
