(* ===== verification/Credential_Types_4.thy ===== *)
theory Credential_Types_4
  imports Credential_Type
begin

text \<open>
  The credential types from \<open>pushover_api\<close> to \<open>zoom_api\<close> (\<open>credentials/types/*.py\<close>): the helper functions of each module,
  \<open>inject\<close> and \<open>test\<close> where they use no cryptography, and the attributes of the class. A network call of
  a test is the parameter \<open>client\<close>. Each \<open><name>_inject_ok\<close> shows that the credential leaves the target of
  the request alone, each \<open><name>_test_ok\<close> that a success is backed by an answer of the service.
\<close>

section \<open>Pushover api\<close>

definition pushover_api_auth_form_fields :: "(rat \<Rightarrow> string) \<Rightarrow> jobj \<Rightarrow> jobj" where
  "pushover_api_auth_form_fields fr creds =
     (let token = py_strip (py_str fr (dict_get creds ''app_token'' (JStr []))) in
     let user = py_strip (py_str fr (dict_get creds ''user_key'' (JStr []))) in
     [(''token'', JStr token), (''user'', JStr user)])"

definition pushover_api_inject :: "jobj \<Rightarrow> http_request \<Rightarrow> http_request result" where
  "pushover_api_inject creds request =
     Inr request"

definition pushover_api_type :: credential_type where
  "pushover_api_type =
   \<lparr>ct_qualname = ''PushoverApiCredential'', ct_slug = ''weftlyflow.pushover_api'', ct_display_name =
       ''Pushover API'', ct_generic = False,
    ct_documentation_url = Some ''https://pushover.net/api'',
    ct_properties =
      [(mk_property ''app_token'' ''Application Token'' PString JNull)\<lparr>prop_required := True, prop_description
          := Some ''API token for the Pushover application.'', prop_type_options := Some [(''password'', JBool
          True)]\<rparr>,
       (mk_property ''user_key'' ''User Key'' PString JNull)\<lparr>prop_required := True, prop_description := Some
           ''User or group key that receives messages.'', prop_type_options := Some [(''password'', JBool
           True)]\<rparr>]\<rparr>"

lemma pushover_api_inject_ok: "keeps request (pushover_api_inject creds request)"
  unfolding pushover_api_inject_def by (rule keeps_rules | simp add: same_target_def)+

section \<open>Qdrant api\<close>

definition qdrant_api_base_url_from :: "string \<Rightarrow> string" where
  "qdrant_api_base_url_from raw_base_url =
     (let cleaned = rstrip_chars (\<lambda>c. c \<in> set ''/'') (py_strip raw_base_url) in
     if cleaned = [] then ''http://localhost:6333''
     else (if \<not> (substring ''://'' cleaned) then ''http://'' @ cleaned else cleaned))"

definition qdrant_api_inject :: "(rat \<Rightarrow> string) \<Rightarrow> jobj \<Rightarrow> http_request \<Rightarrow> http_request result" where
  "qdrant_api_inject fr creds request =
     (let key = text_param fr creds ''api_key'' in
     Inr (if key \<noteq> [] then set_header ''api-key'' key request else request))"

definition qdrant_api_test :: "(rat \<Rightarrow> string) \<Rightarrow> http_client \<Rightarrow> jobj \<Rightarrow> (bool \<times> string) result" where
  "qdrant_api_test fr client creds =
     (let base = qdrant_api_base_url_from (py_str fr (param_or creds ''base_url'' (JStr []))) in
     let key = text_param fr creds ''api_key'' in
     let headers = [(''Accept'', JStr ''application/json'')] in
     let headers = (if key \<noteq> [] then dict_set ''api-key'' (JStr key) headers else headers) in
     (case client ((mk_request ''GET'' (base @ ''/readyz''))\<lparr>rq_headers := headers\<rparr>) of
       Inl e \<Rightarrow> if exn_cls e = HTTPError then (let exc = exn_msg e in Inr (False, ''network error: '' @ exc))
           else Inl e
     | Inr response \<Rightarrow>
       if rs_status response \<noteq> 200 then Inr (False, ''qdrant rejected request: HTTP '' @ show_int (rs_status
           response))
       else Inr (True, ''reachable'')))"

definition qdrant_api_type :: credential_type where
  "qdrant_api_type =
   \<lparr>ct_qualname = ''QdrantApiCredential'', ct_slug = ''weftlyflow.qdrant_api'', ct_display_name = ''Qdrant'',
       ct_generic = False,
    ct_documentation_url = Some ''https://api.qdrant.tech/api-reference'',
    ct_properties =
      [(mk_property ''base_url'' ''Base URL'' PString (JStr ''http://localhost:6333''))\<lparr>prop_required := False,
          prop_description := Some ''Qdrant server URL; defaults to 'http://localhost:6333'.''\<rparr>,
       (mk_property ''api_key'' ''API Key'' PString JNull)\<lparr>prop_required := False, prop_description := Some
           ''Optional api-key header; required by Qdrant Cloud and any auth-enabled self-host.'',
           prop_type_options := Some [(''password'', JBool True)]\<rparr>]\<rparr>"

lemma qdrant_api_inject_ok: "keeps request (qdrant_api_inject fr creds request)"
  unfolding qdrant_api_inject_def by (rule keeps_rules | simp add: same_target_def)+

lemma qdrant_api_test_ok: "tested client (qdrant_api_test fr client creds)"
  unfolding qdrant_api_test_def by (rule tested_rules | rule tested_answered, assumption | simp)+

section \<open>Quickbooks oauth2\<close>

definition quickbooks_oauth2_host_from :: "string \<Rightarrow> string result" where
  "quickbooks_oauth2_host_from environment =
     (let cleaned = py_lower (py_strip environment) in
     if cleaned \<notin> set [''sandbox'', ''production''] then raise ValueError
         (''QuickBooks: 'environment' must be one of '' @ ''['production', 'sandbox']'')
     else Inr (if cleaned = ''sandbox'' then ''sandbox-quickbooks.api.intuit.com'' else
         ''quickbooks.api.intuit.com''))"

definition quickbooks_oauth2_inject :: "(rat \<Rightarrow> string) \<Rightarrow> jobj \<Rightarrow> http_request \<Rightarrow> http_request result" where
  "quickbooks_oauth2_inject fr creds request =
     (let token = py_strip (py_str fr (dict_get creds ''access_token'' (JStr []))) in
     Inr (set_header ''Authorization'' (''Bearer '' @ token) request))"

definition quickbooks_oauth2_test :: "(rat \<Rightarrow> string) \<Rightarrow> http_client \<Rightarrow> jobj \<Rightarrow> (bool \<times> string) result" where
  "quickbooks_oauth2_test fr client creds =
     (let token = text_param fr creds ''access_token'' in
     if token = [] then Inr (False, ''access_token is empty'')
     else let realm_id = text_param fr creds ''realm_id'' in
     if realm_id = [] then Inr (False, ''realm_id is empty'')
     else (case quickbooks_oauth2_host_from (py_str fr (param_or creds ''environment'' (JStr ''production'')))
         of
       Inl e \<Rightarrow> if exn_cls e = ValueError then (let exc = exn_msg e in Inr (False, exc)) else Inl e
     | Inr host \<Rightarrow>
       let url = ''https://'' @ host @ ''/v3/company/'' @ realm_id @ ''/companyinfo/'' @ realm_id in
       (case client ((mk_request ''GET'' url)\<lparr>rq_headers := [(''Authorization'', JStr (''Bearer '' @ token)),
           (''Accept'', JStr ''application/json'')]\<rparr>) of
         Inl e \<Rightarrow> if exn_cls e = HTTPError then (let exc = exn_msg e in Inr (False, ''network error: '' @ exc))
             else Inl e
       | Inr response \<Rightarrow>
         if rs_status response \<noteq> 200 then Inr (False, ''quickbooks rejected token: HTTP '' @ show_int
             (rs_status response))
         else Inr (True, ''authenticated''))))"

definition quickbooks_oauth2_type :: credential_type where
  "quickbooks_oauth2_type =
   \<lparr>ct_qualname = ''QuickBooksOAuth2Credential'', ct_slug = ''weftlyflow.quickbooks_oauth2'', ct_display_name =
       ''QuickBooks Online OAuth2'', ct_generic = False,
    ct_documentation_url = Some
        ''https://developer.intuit.com/app/developer/qbo/docs/develop/authentication-and-authorization/oauth-2.0'',
    ct_properties =
      [(mk_property ''access_token'' ''Access Token'' PString JNull)\<lparr>prop_required := True, prop_description :=
          Some ''QuickBooks OAuth2 access token.'', prop_type_options := Some [(''password'', JBool True)]\<rparr>,
       (mk_property ''realm_id'' ''Realm ID'' PString JNull)\<lparr>prop_required := True, prop_description := Some
           ''QuickBooks company id - embedded in every request path.''\<rparr>,
       (mk_property ''environment'' ''Environment'' PString (JStr ''production''))\<lparr>prop_required := True,
           prop_description := Some ([CHR 0x27] @ ''sandbox' or 'production'.'')\<rparr>,
       (mk_property ''minor_version'' ''Minor Version'' PString JNull)\<lparr>prop_required := False, prop_description
           := Some ''Optional 'minorversion' query param pin.''\<rparr>]\<rparr>"

lemma quickbooks_oauth2_host_from_ok: "ensures (\<lambda>_. True) (quickbooks_oauth2_host_from environment)"
  unfolding quickbooks_oauth2_host_from_def by (rule ensures_rules | simp)+

lemma quickbooks_oauth2_inject_ok: "keeps request (quickbooks_oauth2_inject fr creds request)"
  unfolding quickbooks_oauth2_inject_def by (rule keeps_rules | simp add: same_target_def)+

lemma quickbooks_oauth2_test_ok: "tested client (quickbooks_oauth2_test fr client creds)"
  unfolding quickbooks_oauth2_test_def by (rule quickbooks_oauth2_host_from_ok [THEN tested_bind] quickbooks_oauth2_host_from_ok [THEN tested_try] tested_rules | rule tested_answered, assumption | simp)+

section \<open>Reddit oauth2\<close>

definition reddit_oauth2_build_user_agent :: "(rat \<Rightarrow> string) \<Rightarrow> jobj \<Rightarrow> string" where
  "reddit_oauth2_build_user_agent fr creds =
     (let platform = (if py_strip (py_str fr (param_or creds ''platform'' (JStr ''web''))) \<noteq> [] then py_strip
         (py_str fr (param_or creds ''platform'' (JStr ''web''))) else ''web'') in
     let app_id = (if py_strip (py_str fr (param_or creds ''app_id'' (JStr ''weftlyflow''))) \<noteq> [] then py_strip
         (py_str fr (param_or creds ''app_id'' (JStr ''weftlyflow''))) else ''weftlyflow'') in
     let version = (if py_strip (py_str fr (param_or creds ''version'' (JStr ''0.0.0''))) \<noteq> [] then py_strip
         (py_str fr (param_or creds ''version'' (JStr ''0.0.0''))) else ''0.0.0'') in
     let username = text_param fr creds ''username'' in
     let suffix = (if username \<noteq> [] then '' (by /u/'' @ username @ '')'' else []) in
     platform @ '':'' @ app_id @ '':'' @ version @ suffix)"

definition reddit_oauth2_inject :: "(rat \<Rightarrow> string) \<Rightarrow> jobj \<Rightarrow> http_request \<Rightarrow> http_request result" where
  "reddit_oauth2_inject fr creds request =
     (let token = py_strip (py_str fr (dict_get creds ''access_token'' (JStr []))) in
     let request = set_header ''Authorization'' (''Bearer '' @ token) request in
     Inr (set_header ''User-Agent'' (reddit_oauth2_build_user_agent fr creds) request))"

definition reddit_oauth2_test :: "(rat \<Rightarrow> string) \<Rightarrow> http_client \<Rightarrow> jobj \<Rightarrow> (bool \<times> string) result" where
  "reddit_oauth2_test fr client creds =
     (let token = py_strip (py_str fr (dict_get creds ''access_token'' (JStr []))) in
     if token = [] then Inr (False, ''access_token is required'')
     else let headers = [(''Authorization'', JStr (''Bearer '' @ token)), (''User-Agent'', JStr
         (reddit_oauth2_build_user_agent fr creds)), (''Accept'', JStr ''application/json'')] in
     (case client ((mk_request ''GET'' ''https://oauth.reddit.com/api/v1/me'')\<lparr>rq_headers := headers\<rparr>) of
       Inl e \<Rightarrow> if exn_cls e = HTTPError then (let exc = exn_msg e in Inr (False, ''network error: '' @ exc))
           else Inl e
     | Inr response \<Rightarrow>
       if rs_status response \<noteq> 200 then Inr (False, ''reddit rejected credentials: HTTP '' @ show_int
           (rs_status response))
       else Inr (True, ''reddit credentials valid'')))"

definition reddit_oauth2_type :: credential_type where
  "reddit_oauth2_type =
   \<lparr>ct_qualname = ''RedditOAuth2Credential'', ct_slug = ''weftlyflow.reddit_oauth2'', ct_display_name =
       ''Reddit OAuth2'', ct_generic = False,
    ct_documentation_url = Some ''https://www.reddit.com/dev/api/'',
    ct_properties =
      [(mk_property ''access_token'' ''Access Token'' PString JNull)\<lparr>prop_required := True, prop_description :=
          Some ''Pre-exchanged Reddit OAuth2 bearer token.'', prop_type_options := Some [(''password'', JBool
          True)]\<rparr>,
       (mk_property ''platform'' ''Platform'' PString (JStr ''web''))\<lparr>prop_required := True, prop_description
           := Some ''User-Agent platform segment, e.g. 'web', 'desktop', 'linux'.''\<rparr>,
       (mk_property ''app_id'' ''App ID'' PString JNull)\<lparr>prop_required := True, prop_description := Some
           ''Short, unique app identifier (User-Agent segment two).''\<rparr>,
       (mk_property ''version'' ''App Version'' PString JNull)\<lparr>prop_required := True, prop_description := Some
           ''App version string, e.g. '1.0.0' (User-Agent segment three).''\<rparr>,
       (mk_property ''username'' ''Reddit Username'' PString JNull)\<lparr>prop_required := True, prop_description :=
           Some ''Reddit username used as the 'by /u/<name>' suffix.''\<rparr>]\<rparr>"

lemma reddit_oauth2_inject_ok: "keeps request (reddit_oauth2_inject fr creds request)"
  unfolding reddit_oauth2_inject_def by (rule keeps_rules | simp add: same_target_def)+

lemma reddit_oauth2_test_ok: "tested client (reddit_oauth2_test fr client creds)"
  unfolding reddit_oauth2_test_def by (rule tested_rules | rule tested_answered, assumption | simp)+

section \<open>Rocket chat api\<close>

definition rocket_chat_api_inject :: "(rat \<Rightarrow> string) \<Rightarrow> jobj \<Rightarrow> http_request \<Rightarrow> http_request result" where
  "rocket_chat_api_inject fr creds request =
     (let token = py_strip (py_str fr (dict_get creds ''auth_token'' (JStr []))) in
     let user_id = py_strip (py_str fr (dict_get creds ''user_id'' (JStr []))) in
     let request = set_header ''X-Auth-Token'' token request in
     Inr (set_header ''X-User-Id'' user_id request))"

definition rocket_chat_api_test :: "(rat \<Rightarrow> string) \<Rightarrow> http_client \<Rightarrow> jobj \<Rightarrow> (bool \<times> string) result" where
  "rocket_chat_api_test fr client creds =
     (let base_url = rstrip_chars (\<lambda>c. c \<in> set ''/'') (text_param fr creds ''base_url'') in
     let user_id = text_param fr creds ''user_id'' in
     let token = text_param fr creds ''auth_token'' in
     if base_url = [] then Inr (False, ''base_url is empty'')
     else if user_id = [] \<or> token = [] then Inr (False, ''user_id and auth_token are required'')
     else (case client ((mk_request ''GET'' (base_url @ ''/api/v1/me''))\<lparr>rq_headers := [(''X-Auth-Token'', JStr
         token), (''X-User-Id'', JStr user_id), (''Accept'', JStr ''application/json'')]\<rparr>) of
       Inl e \<Rightarrow> if exn_cls e = HTTPError then (let exc = exn_msg e in Inr (False, ''network error: '' @ exc))
           else Inl e
     | Inr response \<Rightarrow>
       if rs_status response \<noteq> 200 then Inr (False, ''rocket.chat rejected credentials: HTTP '' @ show_int
           (rs_status response))
       else Inr (True, ''authenticated'')))"

definition rocket_chat_api_type :: credential_type where
  "rocket_chat_api_type =
   \<lparr>ct_qualname = ''RocketChatApiCredential'', ct_slug = ''weftlyflow.rocket_chat_api'', ct_display_name =
       ''Rocket.Chat API'', ct_generic = False,
    ct_documentation_url = Some ''https://developer.rocket.chat/apidocs/authentication'',
    ct_properties =
      [(mk_property ''base_url'' ''Base URL'' PString JNull)\<lparr>prop_required := True, prop_description := Some
          ''Server root, e.g. https://chat.example.com (no trailing slash).''\<rparr>,
       (mk_property ''user_id'' ''User ID'' PString JNull)\<lparr>prop_required := True, prop_description := Some
           ''User _id the personal-access token was issued for.''\<rparr>,
       (mk_property ''auth_token'' ''Personal Access Token'' PString JNull)\<lparr>prop_required := True,
           prop_description := Some ''Personal-access token issued to the user.'', prop_type_options := Some
           [(''password'', JBool True)]\<rparr>]\<rparr>"

lemma rocket_chat_api_inject_ok: "keeps request (rocket_chat_api_inject fr creds request)"
  unfolding rocket_chat_api_inject_def by (rule keeps_rules | simp add: same_target_def)+

lemma rocket_chat_api_test_ok: "tested client (rocket_chat_api_test fr client creds)"
  unfolding rocket_chat_api_test_def by (rule tested_rules | rule tested_answered, assumption | simp)+

section \<open>Salesforce api\<close>

definition salesforce_api_instance_url_from :: "string \<Rightarrow> string result" where
  "salesforce_api_instance_url_from raw =
     (let cleaned = rstrip_chars (\<lambda>c. c \<in> set ''/'') (py_strip raw) in
     if cleaned = [] then raise ValueError ''Salesforce: 'instance_url' is required''
     else Inr (if \<not> (substring ''://'' cleaned) then ''https://'' @ cleaned else cleaned))"

definition salesforce_api_inject :: "(rat \<Rightarrow> string) \<Rightarrow> jobj \<Rightarrow> http_request \<Rightarrow> http_request result" where
  "salesforce_api_inject fr creds request =
     (let token = py_strip (py_str fr (dict_get creds ''access_token'' (JStr []))) in
     Inr (set_header ''Authorization'' (''Bearer '' @ token) request))"

definition salesforce_api_test :: "(rat \<Rightarrow> string) \<Rightarrow> http_client \<Rightarrow> jobj \<Rightarrow> (bool \<times> string) result" where
  "salesforce_api_test fr client creds =
     (let token = text_param fr creds ''access_token'' in
     if token = [] then Inr (False, ''access_token is empty'')
     else (case salesforce_api_instance_url_from (py_str fr (param_or creds ''instance_url'' (JStr []))) of
       Inl e \<Rightarrow> if exn_cls e = ValueError then (let exc = exn_msg e in Inr (False, exc)) else Inl e
     | Inr base \<Rightarrow>
       (case client ((mk_request ''GET'' (base @ ''/services/oauth2/userinfo''))\<lparr>rq_headers :=
           [(''Authorization'', JStr (''Bearer '' @ token)), (''Accept'', JStr ''application/json'')]\<rparr>) of
         Inl e \<Rightarrow> if exn_cls e = HTTPError then (let exc = exn_msg e in Inr (False, ''network error: '' @ exc))
             else Inl e
       | Inr response \<Rightarrow>
         if rs_status response \<noteq> 200 then Inr (False, ''salesforce rejected token: HTTP '' @ show_int
             (rs_status response))
         else Inr (True, ''authenticated''))))"

definition salesforce_api_type :: credential_type where
  "salesforce_api_type =
   \<lparr>ct_qualname = ''SalesforceApiCredential'', ct_slug = ''weftlyflow.salesforce_api'', ct_display_name =
       ''Salesforce API'', ct_generic = False,
    ct_documentation_url = Some ''https://developer.salesforce.com/docs/atlas.en-us.api_rest.meta/api_rest/'',
    ct_properties =
      [(mk_property ''access_token'' ''Access Token'' PString JNull)\<lparr>prop_required := True, prop_description :=
          Some ''Salesforce OAuth2 access token.'', prop_type_options := Some [(''password'', JBool True)]\<rparr>,
       (mk_property ''instance_url'' ''Instance URL'' PString JNull)\<lparr>prop_required := True, prop_description :=
           Some ''Per-org base URL, e.g. 'https://myco.my.salesforce.com'.''\<rparr>]\<rparr>"

lemma salesforce_api_instance_url_from_ok: "ensures (\<lambda>_. True) (salesforce_api_instance_url_from raw)"
  unfolding salesforce_api_instance_url_from_def by (rule ensures_rules | simp)+

lemma salesforce_api_inject_ok: "keeps request (salesforce_api_inject fr creds request)"
  unfolding salesforce_api_inject_def by (rule keeps_rules | simp add: same_target_def)+

lemma salesforce_api_test_ok: "tested client (salesforce_api_test fr client creds)"
  unfolding salesforce_api_test_def by (rule salesforce_api_instance_url_from_ok [THEN tested_bind] salesforce_api_instance_url_from_ok [THEN tested_try] tested_rules | rule tested_answered, assumption | simp)+

section \<open>Segment write key\<close>

definition segment_write_key_inject :: "(rat \<Rightarrow> string) \<Rightarrow> jobj \<Rightarrow> http_request \<Rightarrow> http_request result" where
  "segment_write_key_inject fr creds request =
     (let write_key = py_str fr (dict_get creds ''write_key'' (JStr [])) in
     let encoded = b64encode (write_key @ '':'') in
     Inr (set_header ''Authorization'' (''Basic '' @ encoded) request))"

definition segment_write_key_test :: "(rat \<Rightarrow> string) \<Rightarrow> http_client \<Rightarrow> jobj \<Rightarrow> (bool \<times> string) result" where
  "segment_write_key_test fr client creds =
     (let write_key = py_strip (py_str fr (dict_get creds ''write_key'' (JStr []))) in
     if write_key = [] then Inr (False, ''write_key is required'')
     else let encoded = b64encode (write_key @ '':'') in
     (case client ((mk_request ''POST'' ''https://api.segment.io/v1/identify'')\<lparr>rq_headers :=
         [(''Authorization'', JStr (''Basic '' @ encoded)), (''Content-Type'', JStr ''application/json'')],
         rq_json := Some (JObj [(''userId'', JStr ''weftlyflow-test'')])\<rparr>) of
       Inl e \<Rightarrow> if exn_cls e = HTTPError then (let exc = exn_msg e in Inr (False, ''network error: '' @ exc))
           else Inl e
     | Inr response \<Rightarrow>
       if rs_status response \<noteq> 200 then Inr (False, ''segment rejected write_key: HTTP '' @ show_int (rs_status
           response))
       else Inr (True, ''write_key valid'')))"

definition segment_write_key_type :: credential_type where
  "segment_write_key_type =
   \<lparr>ct_qualname = ''SegmentWriteKeyCredential'', ct_slug = ''weftlyflow.segment_write_key'', ct_display_name =
       ''Segment Write Key'', ct_generic = False,
    ct_documentation_url = Some
        ''https://segment.com/docs/connections/sources/catalog/libraries/server/http-api/'',
    ct_properties =
      [(mk_property ''write_key'' ''Write Key'' PString JNull)\<lparr>prop_required := True, prop_description := Some
          ''Source-level write key from the Segment dashboard.'', prop_type_options := Some [(''password'',
          JBool True)]\<rparr>]\<rparr>"

lemma segment_write_key_inject_ok: "keeps request (segment_write_key_inject fr creds request)"
  unfolding segment_write_key_inject_def by (rule keeps_rules | simp add: same_target_def)+

lemma segment_write_key_test_ok: "tested client (segment_write_key_test fr client creds)"
  unfolding segment_write_key_test_def by (rule tested_rules | rule tested_answered, assumption | simp)+

section \<open>Shopify admin\<close>

definition shopify_admin_inject :: "(rat \<Rightarrow> string) \<Rightarrow> jobj \<Rightarrow> http_request \<Rightarrow> http_request result" where
  "shopify_admin_inject fr creds request =
     (let token = py_strip (py_str fr (dict_get creds ''access_token'' (JStr []))) in
     Inr (set_header ''X-Shopify-Access-Token'' token request))"

definition shopify_admin_test :: "(rat \<Rightarrow> string) \<Rightarrow> http_client \<Rightarrow> jobj \<Rightarrow> (bool \<times> string) result" where
  "shopify_admin_test fr client creds =
     (let shop = py_strip (py_str fr (dict_get creds ''shop'' (JStr []))) in
     let token = py_strip (py_str fr (dict_get creds ''access_token'' (JStr []))) in
     let version = (if py_strip (py_str fr (param_or creds ''api_version'' (JStr ''2024-07''))) \<noteq> [] then
         py_strip (py_str fr (param_or creds ''api_version'' (JStr ''2024-07''))) else ''2024-07'') in
     if shop = [] \<or> token = [] then Inr (False, ''shop and access_token are required'')
     else let url = ''https://'' @ shop @ ''.myshopify.com/admin/api/'' @ version @ ''/shop.json'' in
     (case client ((mk_request ''GET'' url)\<lparr>rq_headers := [(''X-Shopify-Access-Token'', JStr token)]\<rparr>) of
       Inl e \<Rightarrow> if exn_cls e = HTTPError then (let exc = exn_msg e in Inr (False, ''network error: '' @ exc))
           else Inl e
     | Inr response \<Rightarrow>
       if rs_status response \<noteq> 200 then Inr (False, ''shopify rejected token: HTTP '' @ show_int (rs_status
           response))
       else Inr (True, ''authenticated'')))"

definition shopify_admin_type :: credential_type where
  "shopify_admin_type =
   \<lparr>ct_qualname = ''ShopifyAdminCredential'', ct_slug = ''weftlyflow.shopify_admin'', ct_display_name =
       ''Shopify Admin'', ct_generic = False,
    ct_documentation_url = Some ''https://shopify.dev/docs/apps/auth/admin-app-access-tokens'',
    ct_properties =
      [(mk_property ''shop'' ''Shop Subdomain'' PString JNull)\<lparr>prop_required := True, prop_description := Some
          ([CHR 0x27] @ ''<shop>.myshopify.com' - enter only the '<shop>' part.''), prop_placeholder := Some
          ''my-store''\<rparr>,
       (mk_property ''access_token'' ''Access Token'' PString JNull)\<lparr>prop_required := True, prop_description :=
           Some ''Admin API access token (starts with 'shpat_').'', prop_type_options := Some [(''password'',
           JBool True)]\<rparr>,
       (mk_property ''api_version'' ''API Version'' PString (JStr ''2024-07''))\<lparr>prop_description := Some
           ''Admin API version (YYYY-MM).''\<rparr>]\<rparr>"

lemma shopify_admin_inject_ok: "keeps request (shopify_admin_inject fr creds request)"
  unfolding shopify_admin_inject_def by (rule keeps_rules | simp add: same_target_def)+

lemma shopify_admin_test_ok: "tested client (shopify_admin_test fr client creds)"
  unfolding shopify_admin_test_def by (rule tested_rules | rule tested_answered, assumption | simp)+

section \<open>Slack api\<close>

definition slack_api_inject :: "(rat \<Rightarrow> string) \<Rightarrow> jobj \<Rightarrow> http_request \<Rightarrow> http_request result" where
  "slack_api_inject fr creds request =
     (let token = py_strip (py_str fr (dict_get creds ''access_token'' (JStr []))) in
     Inr (set_header ''Authorization'' (''Bearer '' @ token) request))"

definition slack_api_type :: credential_type where
  "slack_api_type =
   \<lparr>ct_qualname = ''SlackApiCredential'', ct_slug = ''weftlyflow.slack_api'', ct_display_name = ''Slack API'',
       ct_generic = False,
    ct_documentation_url = Some ''https://api.slack.com/authentication/token-types'',
    ct_properties =
      [(mk_property ''access_token'' ''Access Token'' PString JNull)\<lparr>prop_required := True, prop_description :=
          Some ''Slack bot (xoxb-...) or user (xoxp-...) token.'', prop_type_options := Some [(''password'',
          JBool True)]\<rparr>,
       (mk_property ''default_channel'' ''Default Channel'' PString JNull)\<lparr>prop_required := False,
           prop_description := Some ''Optional channel id or name used when a Slack node leaves it blank.''\<rparr>]\<rparr>"

lemma slack_api_inject_ok: "keeps request (slack_api_inject fr creds request)"
  unfolding slack_api_inject_def by (rule keeps_rules | simp add: same_target_def)+

section \<open>Slack oauth2\<close>

definition slack_oauth2_type :: credential_type where
  "slack_oauth2_type =
   \<lparr>ct_qualname = ''SlackOAuth2Credential'', ct_slug = ''weftlyflow.slack_oauth2'', ct_display_name =
       ''Slack OAuth2'', ct_generic = False,
    ct_documentation_url = Some ''https://api.slack.com/authentication/oauth-v2'',
    ct_properties =
      [(mk_property ''authorization_url'' ''Authorization URL'' PString (JStr
          ''https://slack.com/oauth/v2/authorize''))\<lparr>prop_required := True\<rparr>,
       (mk_property ''token_url'' ''Token URL'' PString (JStr
           ''https://slack.com/api/oauth.v2.access''))\<lparr>prop_required := True\<rparr>,
       (mk_property ''client_id'' ''Client ID'' PString JNull)\<lparr>prop_required := True\<rparr>,
       (mk_property ''client_secret'' ''Client Secret'' PString JNull)\<lparr>prop_required := True, prop_type_options
           := Some [(''password'', JBool True)]\<rparr>,
       (mk_property ''scope'' ''Scope'' PString (JStr ''chat:write,channels:read,groups:read''))\<lparr>prop_required
           := False, prop_description := Some
           ''Comma-separated bot scopes - see https://api.slack.com/scopes.''\<rparr>,
       (mk_property ''default_channel'' ''Default Channel'' PString JNull)\<lparr>prop_required := False,
           prop_description := Some ''Optional channel id or name used when a Slack node leaves it blank.''\<rparr>,
       (mk_property ''access_token'' ''Access Token'' PString (JStr []))\<lparr>prop_required := False,
           prop_type_options := Some [(''password'', JBool True)]\<rparr>,
       (mk_property ''refresh_token'' ''Refresh Token'' PString (JStr []))\<lparr>prop_required := False,
           prop_type_options := Some [(''password'', JBool True)]\<rparr>,
       (mk_property ''expires_at'' ''Access token expiry (epoch seconds)'' PNumber (JInt 0))\<lparr>prop_required :=
           False\<rparr>]\<rparr>"


section \<open>Snowflake api\<close>

definition snowflake_api_account_host_from :: "string \<Rightarrow> string result" where
  "snowflake_api_account_host_from account =
     (let cleaned = rstrip_chars (\<lambda>c. c \<in> set ''/'') (py_strip account) in
     if cleaned = [] then raise ValueError ''Snowflake: 'account' is required''
     else if (substring ''://'' cleaned) then Inr cleaned
     else if suffix ''.snowflakecomputing.com'' cleaned then Inr (''https://'' @ cleaned)
     else Inr (''https://'' @ cleaned @ ''.snowflakecomputing.com''))"

definition snowflake_api_validated_token_type :: "(rat \<Rightarrow> string) \<Rightarrow> json \<Rightarrow> string result" where
  "snowflake_api_validated_token_type fr raw =
     (let value = py_upper (py_strip (py_str fr (if py_bool raw then raw else JStr []))) in
     if value \<notin> set [''KEYPAIR_JWT'', ''OAUTH''] then raise ValueError
         (''Snowflake: 'token_type' must be one of '' @ ''['KEYPAIR_JWT', 'OAUTH']'')
     else Inr value)"

definition snowflake_api_inject :: "(rat \<Rightarrow> string) \<Rightarrow> jobj \<Rightarrow> http_request \<Rightarrow> http_request result" where
  "snowflake_api_inject fr creds request =
     (let token = py_strip (py_str fr (dict_get creds ''token'' (JStr []))) in
     rbind (snowflake_api_validated_token_type fr (dict_get creds ''token_type'' JNull)) (\<lambda>token_type.
     let request = set_header ''Authorization'' (''Bearer '' @ token) request in
     Inr (set_header ''X-Snowflake-Authorization-Token-Type'' token_type request)))"

definition snowflake_api_test :: "(rat \<Rightarrow> string) \<Rightarrow> http_client \<Rightarrow> jobj \<Rightarrow> (bool \<times> string) result" where
  "snowflake_api_test fr client creds =
     (let token = text_param fr creds ''token'' in
     if token = [] then Inr (False, ''token is empty'')
     else (case snowflake_api_validated_token_type fr (dict_get creds ''token_type'' JNull) of
       Inl e \<Rightarrow> if exn_cls e = ValueError then (let exc = exn_msg e in Inr (False, exc)) else Inl e
     | Inr token_type \<Rightarrow>
       (case snowflake_api_account_host_from (py_str fr (param_or creds ''account'' (JStr []))) of
         Inl e \<Rightarrow> if exn_cls e = ValueError then (let exc = exn_msg e in Inr (False, exc)) else Inl e
       | Inr base \<Rightarrow>
         let headers = [(''Authorization'', JStr (''Bearer '' @ token)),
             (''X-Snowflake-Authorization-Token-Type'', JStr token_type), (''Accept'', JStr
             ''application/json'')] in
         (case client ((mk_request ''GET'' (base @ ''/api/v2/statements''))\<lparr>rq_headers := headers\<rparr>) of
           Inl e \<Rightarrow> if exn_cls e = HTTPError then (let exc = exn_msg e in Inr (False, ''network error: '' @
               exc)) else Inl e
         | Inr response \<Rightarrow>
           if rs_status response \<noteq> 200 then Inr (False, ''snowflake rejected token: HTTP '' @ show_int
               (rs_status response))
           else Inr (True, ''authenticated'')))))"

definition snowflake_api_type :: credential_type where
  "snowflake_api_type =
   \<lparr>ct_qualname = ''SnowflakeApiCredential'', ct_slug = ''weftlyflow.snowflake_api'', ct_display_name =
       ''Snowflake SQL API'', ct_generic = False,
    ct_documentation_url = Some ''https://docs.snowflake.com/en/developer-guide/sql-api/index'',
    ct_properties =
      [(mk_property ''account'' ''Account Identifier'' PString JNull)\<lparr>prop_required := True, prop_description
          := Some ''Account locator or identifier (e.g. 'xy12345.us-east-1').''\<rparr>,
       (mk_property ''token'' ''Bearer Token'' PString JNull)\<lparr>prop_required := True, prop_description := Some
           ''Signed JWT or OAuth access token.'', prop_type_options := Some [(''password'', JBool True)]\<rparr>,
       (mk_property ''token_type'' ''Token Type'' POptions (JStr ''KEYPAIR_JWT''))\<lparr>prop_required := True,
           prop_options := Some [mk_option ''KEYPAIR_JWT'' ''Keypair JWT'', mk_option ''OAUTH'' ''OAuth'']\<rparr>]\<rparr>"

lemma snowflake_api_account_host_from_ok: "ensures (\<lambda>_. True) (snowflake_api_account_host_from account)"
  unfolding snowflake_api_account_host_from_def by (rule ensures_rules | simp)+

lemma snowflake_api_validated_token_type_ok: "ensures (\<lambda>_. True) (snowflake_api_validated_token_type fr raw)"
  unfolding snowflake_api_validated_token_type_def by (rule ensures_rules | simp)+

lemma snowflake_api_inject_ok: "keeps request (snowflake_api_inject fr creds request)"
  unfolding snowflake_api_inject_def by (rule snowflake_api_validated_token_type_ok [THEN keeps_bind] keeps_rules | simp add: same_target_def)+

lemma snowflake_api_test_ok: "tested client (snowflake_api_test fr client creds)"
  unfolding snowflake_api_test_def by (rule snowflake_api_account_host_from_ok [THEN tested_bind] snowflake_api_account_host_from_ok [THEN tested_try] snowflake_api_validated_token_type_ok [THEN tested_bind] snowflake_api_validated_token_type_ok [THEN tested_try] tested_rules | rule tested_answered, assumption | simp)+

section \<open>Square api\<close>

definition square_api_host_from :: "string \<Rightarrow> string result" where
  "square_api_host_from environment =
     (let cleaned = py_lower (py_strip environment) in
     if cleaned \<notin> set [''sandbox'', ''production''] then raise ValueError
         (''Square: 'environment' must be one of '' @ ''['production', 'sandbox']'')
     else Inr (if cleaned = ''sandbox'' then ''connect.squareupsandbox.com'' else ''connect.squareup.com''))"

definition square_api_inject :: "(rat \<Rightarrow> string) \<Rightarrow> jobj \<Rightarrow> http_request \<Rightarrow> http_request result" where
  "square_api_inject fr creds request =
     (let token = py_strip (py_str fr (dict_get creds ''access_token'' (JStr []))) in
     let request = set_header ''Authorization'' (''Bearer '' @ token) request in
     let version = py_strip (py_str fr (dict_get creds ''api_version'' (JStr []))) in
     Inr (if version \<noteq> [] then set_header ''Square-Version'' version request else request))"

definition square_api_test :: "(rat \<Rightarrow> string) \<Rightarrow> http_client \<Rightarrow> jobj \<Rightarrow> (bool \<times> string) result" where
  "square_api_test fr client creds =
     (let token = text_param fr creds ''access_token'' in
     if token = [] then Inr (False, ''access_token is empty'')
     else let version = text_param fr creds ''api_version'' in
     if version = [] then Inr (False, ''api_version is empty'')
     else (case square_api_host_from (py_str fr (param_or creds ''environment'' (JStr ''production''))) of
       Inl e \<Rightarrow> if exn_cls e = ValueError then (let exc = exn_msg e in Inr (False, exc)) else Inl e
     | Inr host \<Rightarrow>
       (case client ((mk_request ''GET'' (''https://'' @ host @ ''/v2/locations''))\<lparr>rq_headers :=
           [(''Authorization'', JStr (''Bearer '' @ token)), (''Square-Version'', JStr version), (''Accept'',
           JStr ''application/json'')]\<rparr>) of
         Inl e \<Rightarrow> if exn_cls e = HTTPError then (let exc = exn_msg e in Inr (False, ''network error: '' @ exc))
             else Inl e
       | Inr response \<Rightarrow>
         if rs_status response \<noteq> 200 then Inr (False, ''square rejected token: HTTP '' @ show_int (rs_status
             response))
         else Inr (True, ''authenticated''))))"

definition square_api_type :: credential_type where
  "square_api_type =
   \<lparr>ct_qualname = ''SquareApiCredential'', ct_slug = ''weftlyflow.square_api'', ct_display_name =
       ''Square API'', ct_generic = False,
    ct_documentation_url = Some ''https://developer.squareup.com/docs/build-basics/access-tokens'',
    ct_properties =
      [(mk_property ''access_token'' ''Access Token'' PString JNull)\<lparr>prop_required := True, prop_description :=
          Some ''Square OAuth access token or personal access token.'', prop_type_options := Some
          [(''password'', JBool True)]\<rparr>,
       (mk_property ''api_version'' ''API Version'' PString (JStr ''2024-12-18''))\<lparr>prop_required := True,
           prop_description := Some ''Mandatory 'Square-Version' header (YYYY-MM-DD).''\<rparr>,
       (mk_property ''environment'' ''Environment'' PString (JStr ''production''))\<lparr>prop_required := True,
           prop_description := Some ([CHR 0x27] @ ''sandbox' or 'production'.'')\<rparr>]\<rparr>"

lemma square_api_host_from_ok: "ensures (\<lambda>_. True) (square_api_host_from environment)"
  unfolding square_api_host_from_def by (rule ensures_rules | simp)+

lemma square_api_inject_ok: "keeps request (square_api_inject fr creds request)"
  unfolding square_api_inject_def by (rule keeps_rules | simp add: same_target_def)+

lemma square_api_test_ok: "tested client (square_api_test fr client creds)"
  unfolding square_api_test_def by (rule square_api_host_from_ok [THEN tested_bind] square_api_host_from_ok [THEN tested_try] tested_rules | rule tested_answered, assumption | simp)+

section \<open>Supabase api\<close>

definition supabase_api_project_url_from :: "string \<Rightarrow> string result" where
  "supabase_api_project_url_from raw_project_url =
     (let cleaned = rstrip_chars (\<lambda>c. c \<in> set ''/'') (py_strip raw_project_url) in
     if cleaned = [] then raise ValueError ''Supabase: 'project_url' is required''
     else Inr (if \<not> (substring ''://'' cleaned) then ''https://'' @ cleaned else cleaned))"

definition supabase_api_inject :: "(rat \<Rightarrow> string) \<Rightarrow> jobj \<Rightarrow> http_request \<Rightarrow> http_request result" where
  "supabase_api_inject fr creds request =
     (let key = py_strip (py_str fr (dict_get creds ''service_role_key'' (JStr []))) in
     let request = set_header ''apikey'' key request in
     Inr (set_header ''Authorization'' (''Bearer '' @ key) request))"

definition supabase_api_test :: "(rat \<Rightarrow> string) \<Rightarrow> http_client \<Rightarrow> jobj \<Rightarrow> (bool \<times> string) result" where
  "supabase_api_test fr client creds =
     (let key = text_param fr creds ''service_role_key'' in
     if key = [] then Inr (False, ''service_role_key is empty'')
     else (case supabase_api_project_url_from (py_str fr (param_or creds ''project_url'' (JStr []))) of
       Inl e \<Rightarrow> if exn_cls e = ValueError then (let exc = exn_msg e in Inr (False, exc)) else Inl e
     | Inr base \<Rightarrow>
       (case client ((mk_request ''GET'' (base @ ''/rest/v1/''))\<lparr>rq_headers := [(''apikey'', JStr key),
           (''Authorization'', JStr (''Bearer '' @ key)), (''Accept'', JStr ''application/json'')]\<rparr>) of
         Inl e \<Rightarrow> if exn_cls e = HTTPError then (let exc = exn_msg e in Inr (False, ''network error: '' @ exc))
             else Inl e
       | Inr response \<Rightarrow>
         if rs_status response \<noteq> 200 then Inr (False, ''supabase rejected key: HTTP '' @ show_int (rs_status
             response))
         else Inr (True, ''authenticated''))))"

definition supabase_api_type :: credential_type where
  "supabase_api_type =
   \<lparr>ct_qualname = ''SupabaseApiCredential'', ct_slug = ''weftlyflow.supabase_api'', ct_display_name =
       ''Supabase API'', ct_generic = False,
    ct_documentation_url = Some ''https://supabase.com/docs/guides/api#api-url-and-keys'',
    ct_properties =
      [(mk_property ''service_role_key'' ''API Key'' PString JNull)\<lparr>prop_required := True, prop_description :=
          Some ''Supabase service_role or anon key (prefer service_role for server-side workflows).'',
          prop_type_options := Some [(''password'', JBool True)]\<rparr>,
       (mk_property ''project_url'' ''Project URL'' PString JNull)\<lparr>prop_required := True, prop_description :=
           Some ''Base URL, e.g. 'https://abcd.supabase.co'.''\<rparr>]\<rparr>"

lemma supabase_api_project_url_from_ok: "ensures (\<lambda>_. True) (supabase_api_project_url_from raw_project_url)"
  unfolding supabase_api_project_url_from_def by (rule ensures_rules | simp)+

lemma supabase_api_inject_ok: "keeps request (supabase_api_inject fr creds request)"
  unfolding supabase_api_inject_def by (rule keeps_rules | simp add: same_target_def)+

lemma supabase_api_test_ok: "tested client (supabase_api_test fr client creds)"
  unfolding supabase_api_test_def by (rule supabase_api_project_url_from_ok [THEN tested_bind] supabase_api_project_url_from_ok [THEN tested_try] tested_rules | rule tested_answered, assumption | simp)+

section \<open>Telegram bot\<close>

definition telegram_bot_inject :: "jobj \<Rightarrow> http_request \<Rightarrow> http_request result" where
  "telegram_bot_inject creds request =
     Inr request"

definition telegram_bot_type :: credential_type where
  "telegram_bot_type =
   \<lparr>ct_qualname = ''TelegramBotCredential'', ct_slug = ''weftlyflow.telegram_bot'', ct_display_name =
       ''Telegram Bot'', ct_generic = False,
    ct_documentation_url = Some ''https://core.telegram.org/bots#how-do-i-create-a-bot'',
    ct_properties =
      [(mk_property ''bot_token'' ''Bot Token'' PString JNull)\<lparr>prop_required := True, prop_description := Some
          ''Token issued by @BotFather - '123456:ABC-...'.'', prop_type_options := Some [(''password'', JBool
          True)]\<rparr>]\<rparr>"

lemma telegram_bot_inject_ok: "keeps request (telegram_bot_inject creds request)"
  unfolding telegram_bot_inject_def by (rule keeps_rules | simp add: same_target_def)+

section \<open>Trello api\<close>

definition trello_api_inject :: "(rat \<Rightarrow> string) \<Rightarrow> jobj \<Rightarrow> http_request \<Rightarrow> http_request result" where
  "trello_api_inject fr creds request =
     (let key = py_strip (py_str fr (dict_get creds ''api_key'' (JStr []))) in
     let token = py_strip (py_str fr (dict_get creds ''api_token'' (JStr []))) in
     Inr (request\<lparr>rq_params := Some (dict_merge (query_params request) [(''key'', JStr key), (''token'', JStr
         token)])\<rparr>))"

definition trello_api_test :: "(rat \<Rightarrow> string) \<Rightarrow> http_client \<Rightarrow> jobj \<Rightarrow> (bool \<times> string) result" where
  "trello_api_test fr client creds =
     (let key = py_strip (py_str fr (dict_get creds ''api_key'' (JStr []))) in
     let token = py_strip (py_str fr (dict_get creds ''api_token'' (JStr []))) in
     if key = [] \<or> token = [] then Inr (False, ''api_key and api_token are required'')
     else (case client ((mk_request ''GET'' ''https://api.trello.com/1/members/me'')\<lparr>rq_params := Some
         [(''key'', JStr key), (''token'', JStr token)]\<rparr>) of
       Inl e \<Rightarrow> if exn_cls e = HTTPError then (let exc = exn_msg e in Inr (False, ''network error: '' @ exc))
           else Inl e
     | Inr response \<Rightarrow>
       if rs_status response \<noteq> 200 then Inr (False, ''trello rejected credentials: HTTP '' @ show_int
           (rs_status response))
       else rbind (case response_json response of Inl e \<Rightarrow> if exn_cls e = ValueError then Inr (JObj []) else Inl
           e | Inr v \<Rightarrow> Inr v) (\<lambda>payload.
       let username = ([] :: string) in
       let username = (if is_obj payload then py_str fr (dict_get (obj_of payload) ''username'' (JStr [])) else
           username) in
       let suffix = (if username \<noteq> [] then '' as '' @ username else []) in
       Inr (True, ''authenticated'' @ suffix))))"

definition trello_api_type :: credential_type where
  "trello_api_type =
   \<lparr>ct_qualname = ''TrelloApiCredential'', ct_slug = ''weftlyflow.trello_api'', ct_display_name =
       ''Trello API'', ct_generic = False,
    ct_documentation_url = Some
        ''https://developer.atlassian.com/cloud/trello/guides/rest-api/api-introduction/'',
    ct_properties =
      [(mk_property ''api_key'' ''API Key'' PString JNull)\<lparr>prop_required := True, prop_type_options := Some
          [(''password'', JBool True)]\<rparr>,
       (mk_property ''api_token'' ''API Token'' PString JNull)\<lparr>prop_required := True, prop_type_options := Some
           [(''password'', JBool True)]\<rparr>]\<rparr>"

lemma trello_api_inject_ok: "keeps request (trello_api_inject fr creds request)"
  unfolding trello_api_inject_def by (rule keeps_rules | simp add: same_target_def)+

lemma trello_api_test_ok: "tested client (trello_api_test fr client creds)"
  unfolding trello_api_test_def by (rule tested_rules | rule tested_answered, assumption | simp)+

section \<open>Twilio api\<close>

definition twilio_api_inject :: "(rat \<Rightarrow> string) \<Rightarrow> jobj \<Rightarrow> http_request \<Rightarrow> http_request result" where
  "twilio_api_inject fr creds request =
     (let sid = py_strip (py_str fr (dict_get creds ''account_sid'' (JStr []))) in
     let token = py_strip (py_str fr (dict_get creds ''auth_token'' (JStr []))) in
     let encoded = b64encode (sid @ '':'' @ token) in
     Inr (set_header ''Authorization'' (''Basic '' @ encoded) request))"

definition twilio_api_test :: "(rat \<Rightarrow> string) \<Rightarrow> http_client \<Rightarrow> jobj \<Rightarrow> (bool \<times> string) result" where
  "twilio_api_test fr client creds =
     (let sid = py_strip (py_str fr (dict_get creds ''account_sid'' (JStr []))) in
     let token = py_strip (py_str fr (dict_get creds ''auth_token'' (JStr []))) in
     if sid = [] \<or> token = [] then Inr (False, ''account_sid and auth_token are required'')
     else let url = ''https://api.twilio.com'' @ ''/2010-04-01/Accounts/'' @ sid @ ''.json'' in
     let encoded = b64encode (sid @ '':'' @ token) in
     (case client ((mk_request ''GET'' url)\<lparr>rq_headers := [(''Authorization'', JStr (''Basic '' @ encoded))]\<rparr>)
         of
       Inl e \<Rightarrow> if exn_cls e = HTTPError then (let exc = exn_msg e in Inr (False, ''network error: '' @ exc))
           else Inl e
     | Inr response \<Rightarrow>
       if rs_status response \<noteq> 200 then Inr (False, ''twilio rejected credentials: HTTP '' @ show_int
           (rs_status response))
       else Inr (True, ''authenticated'')))"

definition twilio_api_type :: credential_type where
  "twilio_api_type =
   \<lparr>ct_qualname = ''TwilioApiCredential'', ct_slug = ''weftlyflow.twilio_api'', ct_display_name =
       ''Twilio API'', ct_generic = False,
    ct_documentation_url = Some ''https://www.twilio.com/docs/iam/api-keys'',
    ct_properties =
      [(mk_property ''account_sid'' ''Account SID'' PString JNull)\<lparr>prop_required := True, prop_description :=
          Some ''Twilio Account SID (starts with 'AC').'', prop_placeholder := Some
          ''ACxxxxxxxxxxxxxxxxxxxxxxxxxxxxxxxx''\<rparr>,
       (mk_property ''auth_token'' ''Auth Token'' PString JNull)\<lparr>prop_required := True, prop_description :=
           Some ''Twilio Auth Token from the console.'', prop_type_options := Some [(''password'', JBool
           True)]\<rparr>]\<rparr>"

lemma twilio_api_inject_ok: "keeps request (twilio_api_inject fr creds request)"
  unfolding twilio_api_inject_def by (rule keeps_rules | simp add: same_target_def)+

lemma twilio_api_test_ok: "tested client (twilio_api_test fr client creds)"
  unfolding twilio_api_test_def by (rule tested_rules | rule tested_answered, assumption | simp)+

section \<open>Twitch api\<close>

definition twitch_api_inject :: "(rat \<Rightarrow> string) \<Rightarrow> jobj \<Rightarrow> http_request \<Rightarrow> http_request result" where
  "twitch_api_inject fr creds request =
     (let token = py_strip (py_str fr (dict_get creds ''access_token'' (JStr []))) in
     let client_id = py_strip (py_str fr (dict_get creds ''client_id'' (JStr []))) in
     let request = set_header ''Authorization'' (''Bearer '' @ token) request in
     Inr (set_header ''Client-Id'' client_id request))"

definition twitch_api_test :: "(rat \<Rightarrow> string) \<Rightarrow> http_client \<Rightarrow> jobj \<Rightarrow> (bool \<times> string) result" where
  "twitch_api_test fr client creds =
     (let token = text_param fr creds ''access_token'' in
     let client_id = text_param fr creds ''client_id'' in
     if token = [] then Inr (False, ''access_token is empty'')
     else if client_id = [] then Inr (False, ''client_id is empty'')
     else (case client ((mk_request ''GET'' ''https://api.twitch.tv/helix/users'')\<lparr>rq_headers :=
         [(''Authorization'', JStr (''Bearer '' @ token)), (''Client-Id'', JStr client_id), (''Accept'', JStr
         ''application/json'')]\<rparr>) of
       Inl e \<Rightarrow> if exn_cls e = HTTPError then (let exc = exn_msg e in Inr (False, ''network error: '' @ exc))
           else Inl e
     | Inr response \<Rightarrow>
       if rs_status response \<noteq> 200 then Inr (False, ''twitch rejected credentials: HTTP '' @ show_int
           (rs_status response))
       else Inr (True, ''authenticated'')))"

definition twitch_api_type :: credential_type where
  "twitch_api_type =
   \<lparr>ct_qualname = ''TwitchApiCredential'', ct_slug = ''weftlyflow.twitch_api'', ct_display_name =
       ''Twitch API'', ct_generic = False,
    ct_documentation_url = Some ''https://dev.twitch.tv/docs/api/'',
    ct_properties =
      [(mk_property ''access_token'' ''Access Token'' PString JNull)\<lparr>prop_required := True, prop_description :=
          Some ''Twitch OAuth2 access token (app or user).'', prop_type_options := Some [(''password'', JBool
          True)]\<rparr>,
       (mk_property ''client_id'' ''Client ID'' PString JNull)\<lparr>prop_required := True, prop_description := Some
           ''Registered Twitch application Client ID.''\<rparr>]\<rparr>"

lemma twitch_api_inject_ok: "keeps request (twitch_api_inject fr creds request)"
  unfolding twitch_api_inject_def by (rule keeps_rules | simp add: same_target_def)+

lemma twitch_api_test_ok: "tested client (twitch_api_test fr client creds)"
  unfolding twitch_api_test_def by (rule tested_rules | rule tested_answered, assumption | simp)+

section \<open>Xero api\<close>

definition xero_api_inject :: "(rat \<Rightarrow> string) \<Rightarrow> jobj \<Rightarrow> http_request \<Rightarrow> http_request result" where
  "xero_api_inject fr creds request =
     (let token = py_strip (py_str fr (dict_get creds ''access_token'' (JStr []))) in
     let request = set_header ''Authorization'' (''Bearer '' @ token) request in
     let tenant_id = py_strip (py_str fr (dict_get creds ''tenant_id'' (JStr []))) in
     Inr (if tenant_id \<noteq> [] then set_header ''xero-tenant-id'' tenant_id request else request))"

definition xero_api_test :: "(rat \<Rightarrow> string) \<Rightarrow> http_client \<Rightarrow> jobj \<Rightarrow> (bool \<times> string) result" where
  "xero_api_test fr client creds =
     (let token = text_param fr creds ''access_token'' in
     if token = [] then Inr (False, ''access_token is empty'')
     else let tenant_id = text_param fr creds ''tenant_id'' in
     if tenant_id = [] then Inr (False, ''tenant_id is empty'')
     else let headers = [(''Authorization'', JStr (''Bearer '' @ token)), (''Accept'', JStr
         ''application/json'')] in
     (case client ((mk_request ''GET'' ''https://api.xero.com/connections'')\<lparr>rq_headers := headers\<rparr>) of
       Inl e \<Rightarrow> if exn_cls e = HTTPError then (let exc = exn_msg e in Inr (False, ''network error: '' @ exc))
           else Inl e
     | Inr response \<Rightarrow>
       if rs_status response \<noteq> 200 then Inr (False, ''xero rejected token: HTTP '' @ show_int (rs_status
           response))
       else Inr (True, ''authenticated'')))"

definition xero_api_type :: credential_type where
  "xero_api_type =
   \<lparr>ct_qualname = ''XeroApiCredential'', ct_slug = ''weftlyflow.xero_api'', ct_display_name = ''Xero API'',
       ct_generic = False,
    ct_documentation_url = Some ''https://developer.xero.com/documentation/guides/oauth2/auth-flow/'',
    ct_properties =
      [(mk_property ''access_token'' ''Access Token'' PString JNull)\<lparr>prop_required := True, prop_description :=
          Some ''Xero OAuth2 access token.'', prop_type_options := Some [(''password'', JBool True)]\<rparr>,
       (mk_property ''tenant_id'' ''Tenant ID'' PString JNull)\<lparr>prop_required := True, prop_description := Some
           ''Xero tenant (organisation) UUID - one token can span many.''\<rparr>]\<rparr>"

lemma xero_api_inject_ok: "keeps request (xero_api_inject fr creds request)"
  unfolding xero_api_inject_def by (rule keeps_rules | simp add: same_target_def)+

lemma xero_api_test_ok: "tested client (xero_api_test fr client creds)"
  unfolding xero_api_test_def by (rule tested_rules | rule tested_answered, assumption | simp)+

section \<open>Zendesk api\<close>

definition zendesk_api_inject :: "(rat \<Rightarrow> string) \<Rightarrow> jobj \<Rightarrow> http_request \<Rightarrow> http_request result" where
  "zendesk_api_inject fr creds request =
     (let email = py_strip (py_str fr (dict_get creds ''email'' (JStr []))) in
     let token = py_strip (py_str fr (dict_get creds ''api_token'' (JStr []))) in
     let encoded = b64encode (email @ ''/token:'' @ token) in
     Inr (set_header ''Authorization'' (''Basic '' @ encoded) request))"

definition zendesk_api_test :: "(rat \<Rightarrow> string) \<Rightarrow> http_client \<Rightarrow> jobj \<Rightarrow> (bool \<times> string) result" where
  "zendesk_api_test fr client creds =
     (let subdomain = py_lower (text_param fr creds ''subdomain'') in
     let email = py_strip (py_str fr (dict_get creds ''email'' (JStr []))) in
     let token = py_strip (py_str fr (dict_get creds ''api_token'' (JStr []))) in
     if subdomain = [] then Inr (False, ''subdomain is empty'')
     else if email = [] then Inr (False, ''email is empty'')
     else if token = [] then Inr (False, ''api_token is empty'')
     else let encoded = b64encode (email @ ''/token:'' @ token) in
     let url = ''https://'' @ subdomain @ ''.zendesk.com'' @ ''/api/v2/users/me.json'' in
     (case client ((mk_request ''GET'' url)\<lparr>rq_headers := [(''Authorization'', JStr (''Basic '' @ encoded))]\<rparr>)
         of
       Inl e \<Rightarrow> if exn_cls e = HTTPError then (let exc = exn_msg e in Inr (False, ''network error: '' @ exc))
           else Inl e
     | Inr response \<Rightarrow>
       if rs_status response \<noteq> 200 then Inr (False, ''zendesk rejected token: HTTP '' @ show_int (rs_status
           response))
       else rbind (case response_json response of Inl e \<Rightarrow> if exn_cls e = ValueError then Inr (JObj []) else Inl
           e | Inr v \<Rightarrow> Inr v) (\<lambda>payload.
       let name = ([] :: string) in
       let name = (if is_obj payload then (let user = dict_get (obj_of payload) ''user'' JNull in
         (if is_obj user then py_str fr (dict_get (obj_of user) ''name'' (JStr [])) else name)) else name) in
       let suffix = (if name \<noteq> [] then '' as '' @ name else []) in
       Inr (True, ''authenticated'' @ suffix))))"

definition zendesk_api_type :: credential_type where
  "zendesk_api_type =
   \<lparr>ct_qualname = ''ZendeskApiCredential'', ct_slug = ''weftlyflow.zendesk_api'', ct_display_name =
       ''Zendesk API'', ct_generic = False,
    ct_documentation_url = Some ''https://developer.zendesk.com/api-reference/introduction/security-and-auth/'',
    ct_properties =
      [(mk_property ''subdomain'' ''Subdomain'' PString JNull)\<lparr>prop_required := True, prop_description := Some
          ''Zendesk subdomain - 'acme' for acme.zendesk.com.'', prop_placeholder := Some ''acme''\<rparr>,
       (mk_property ''email'' ''Admin Email'' PString JNull)\<lparr>prop_required := True, prop_description := Some
           ''Email of the admin whose API token is used.''\<rparr>,
       (mk_property ''api_token'' ''API Token'' PString JNull)\<lparr>prop_required := True, prop_description := Some
           ''API token generated in Zendesk Admin Center.'', prop_type_options := Some [(''password'', JBool
           True)]\<rparr>]\<rparr>"

lemma zendesk_api_inject_ok: "keeps request (zendesk_api_inject fr creds request)"
  unfolding zendesk_api_inject_def by (rule keeps_rules | simp add: same_target_def)+

lemma zendesk_api_test_ok: "tested client (zendesk_api_test fr client creds)"
  unfolding zendesk_api_test_def by (rule tested_rules | rule tested_answered, assumption | simp)+

section \<open>Zoho crm oauth2\<close>

definition zoho_crm_oauth2_host_for :: "string \<Rightarrow> string result" where
  "zoho_crm_oauth2_host_for datacenter =
     (let key = py_lower (py_strip datacenter) in
     if key \<notin> set [''us'', ''eu'', ''in'', ''au'', ''jp'', ''cn''] then raise ValueError
         (''Zoho: unknown datacenter '' @ repr_str datacenter)
     else lookup [(''us'', ''www.zohoapis.com''), (''eu'', ''www.zohoapis.eu''), (''in'', ''www.zohoapis.in''),
         (''au'', ''www.zohoapis.com.au''), (''jp'', ''www.zohoapis.jp''), (''cn'', ''www.zohoapis.com.cn'')]
         key)"

definition zoho_crm_oauth2_inject :: "(rat \<Rightarrow> string) \<Rightarrow> jobj \<Rightarrow> http_request \<Rightarrow> http_request result" where
  "zoho_crm_oauth2_inject fr creds request =
     (let token = py_strip (py_str fr (dict_get creds ''access_token'' (JStr []))) in
     Inr (set_header ''Authorization'' (''Zoho-oauthtoken '' @ token) request))"

definition zoho_crm_oauth2_test :: "(rat \<Rightarrow> string) \<Rightarrow> http_client \<Rightarrow> jobj \<Rightarrow> (bool \<times> string) result" where
  "zoho_crm_oauth2_test fr client creds =
     (let token = text_param fr creds ''access_token'' in
     if token = [] then Inr (False, ''access_token is empty'')
     else let datacenter = py_lower (py_strip (py_str fr (param_or creds ''datacenter'' (JStr ''us'')))) in
     (case zoho_crm_oauth2_host_for datacenter of
       Inl e \<Rightarrow> if exn_cls e = ValueError then (let exc = exn_msg e in Inr (False, exc)) else Inl e
     | Inr host \<Rightarrow>
       let url = ''https://'' @ host @ ''/crm/v6/org'' in
       (case client ((mk_request ''GET'' url)\<lparr>rq_headers := [(''Authorization'', JStr (''Zoho-oauthtoken '' @
           token)), (''Accept'', JStr ''application/json'')]\<rparr>) of
         Inl e \<Rightarrow> if exn_cls e = HTTPError then (let exc = exn_msg e in Inr (False, ''network error: '' @ exc))
             else Inl e
       | Inr response \<Rightarrow>
         if rs_status response \<noteq> 200 then Inr (False, ''zoho rejected token: HTTP '' @ show_int (rs_status
             response))
         else Inr (True, ''authenticated on datacenter '' @ datacenter))))"

definition zoho_crm_oauth2_type :: credential_type where
  "zoho_crm_oauth2_type =
   \<lparr>ct_qualname = ''ZohoCrmOAuth2Credential'', ct_slug = ''weftlyflow.zoho_crm_oauth2'', ct_display_name =
       ''Zoho CRM OAuth2'', ct_generic = False,
    ct_documentation_url = Some ''https://www.zoho.com/crm/developer/docs/api/v6/auth-request.html'',
    ct_properties =
      [(mk_property ''access_token'' ''Access Token'' PString JNull)\<lparr>prop_required := True, prop_description :=
          Some ''Pre-issued Zoho OAuth2 access token.'', prop_type_options := Some [(''password'', JBool
          True)]\<rparr>,
       (mk_property ''datacenter'' ''Datacenter'' POptions (JStr ''us''))\<lparr>prop_required := True, prop_options
           := Some [mk_option ''us'' ''US'', mk_option ''eu'' ''EU'', mk_option ''in'' ''IN'', mk_option ''au''
           ''AU'', mk_option ''jp'' ''JP'', mk_option ''cn'' ''CN'']\<rparr>]\<rparr>"

lemma zoho_crm_oauth2_host_for_ok: "ensures (\<lambda>_. True) (zoho_crm_oauth2_host_for datacenter)"
  unfolding zoho_crm_oauth2_host_for_def by (rule ensures_rules | (auto; fail))+

lemma zoho_crm_oauth2_inject_ok: "keeps request (zoho_crm_oauth2_inject fr creds request)"
  unfolding zoho_crm_oauth2_inject_def by (rule keeps_rules | simp add: same_target_def)+

lemma zoho_crm_oauth2_test_ok: "tested client (zoho_crm_oauth2_test fr client creds)"
  unfolding zoho_crm_oauth2_test_def by (rule zoho_crm_oauth2_host_for_ok [THEN tested_bind] zoho_crm_oauth2_host_for_ok [THEN tested_try] tested_rules | rule tested_answered, assumption | simp)+

section \<open>Zoom api\<close>

definition zoom_api_inject :: "(rat \<Rightarrow> string) \<Rightarrow> jobj \<Rightarrow> http_request \<Rightarrow> http_request result" where
  "zoom_api_inject fr creds request =
     (let token = py_strip (py_str fr (dict_get creds ''access_token'' (JStr []))) in
     Inr (set_header ''Authorization'' (''Bearer '' @ token) request))"

definition zoom_api_test :: "(rat \<Rightarrow> string) \<Rightarrow> http_client \<Rightarrow> jobj \<Rightarrow> (bool \<times> string) result" where
  "zoom_api_test fr client creds =
     (let token = text_param fr creds ''access_token'' in
     if token = [] then Inr (False, ''access_token is empty'')
     else let account_id = text_param fr creds ''account_id'' in
     if account_id = [] then Inr (False, ''account_id is empty'')
     else (case client ((mk_request ''GET'' ''https://api.zoom.us/v2/users/me'')\<lparr>rq_headers :=
         [(''Authorization'', JStr (''Bearer '' @ token)), (''Accept'', JStr ''application/json'')]\<rparr>) of
       Inl e \<Rightarrow> if exn_cls e = HTTPError then (let exc = exn_msg e in Inr (False, ''network error: '' @ exc))
           else Inl e
     | Inr response \<Rightarrow>
       if rs_status response \<noteq> 200 then Inr (False, ''zoom rejected token: HTTP '' @ show_int (rs_status
           response))
       else Inr (True, ''authenticated'')))"

definition zoom_api_type :: credential_type where
  "zoom_api_type =
   \<lparr>ct_qualname = ''ZoomApiCredential'', ct_slug = ''weftlyflow.zoom_api'', ct_display_name = ''Zoom API'',
       ct_generic = False,
    ct_documentation_url = Some ''https://developers.zoom.us/docs/api/'',
    ct_properties =
      [(mk_property ''access_token'' ''Access Token'' PString JNull)\<lparr>prop_required := True, prop_description :=
          Some ''Zoom Server-to-Server OAuth access token.'', prop_type_options := Some [(''password'', JBool
          True)]\<rparr>,
       (mk_property ''account_id'' ''Account ID'' PString JNull)\<lparr>prop_required := True, prop_description :=
           Some ''Zoom account ID the token was issued for (audit only).''\<rparr>]\<rparr>"

lemma zoom_api_inject_ok: "keeps request (zoom_api_inject fr creds request)"
  unfolding zoom_api_inject_def by (rule keeps_rules | simp add: same_target_def)+

lemma zoom_api_test_ok: "tested client (zoom_api_test fr client creds)"
  unfolding zoom_api_test_def by (rule tested_rules | rule tested_answered, assumption | simp)+

end
