(* ===== verification/Nodes_1.thy ===== *)
theory Nodes_1
  imports Http Builders_1 Builders_2 Credential_Types_1
begin

text \<open>
  The integration nodes \<open>activecampaign\<close>, \<open>airtable\<close>, \<open>asana\<close>, \<open>asc\<close>, \<open>box\<close>, \<open>brevo\<close>, \<open>clickup\<close> (\<open>nodes/integrations/<name>/node.py\<close>), one definition per function: the
  resolution of credentials, the message of an error response, the dispatch of one item and
  \<open>execute\<close>. Log calls are left out. Each \<open><name>_dispatch_one_ok\<close> shows what a dispatch promises and
  the interpretation lifts it to the node.
\<close>

section \<open>Activecampaign\<close>

definition activecampaign_resolve_credentials :: "exec_ctx \<Rightarrow> (string \<times> string) result" where
  "activecampaign_resolve_credentials ctx =
     rbind (load_credential ctx ''activecampaign_api'') (\<lambda>credential.
     (case credential of
       None \<Rightarrow> raise NodeExecutionError ''ActiveCampaign: an activecampaign_api credential is required''
     | Some credential \<Rightarrow>
       let (unused, payload) = credential in
       let token = text_param (ctx_fr ctx) payload ''api_token'' in
       if token = [] then raise NodeExecutionError (''ActiveCampaign: credential has an empty 'api_token'' @
           [CHR 0x27])
       else let url = text_param (ctx_fr ctx) payload ''api_url'' in
       if url = [] then raise NodeExecutionError (''ActiveCampaign: credential has an empty 'api_url'' @ [CHR
           0x27])
       else Inr (token, url)))"

definition activecampaign_error_message :: "(rat \<Rightarrow> string) \<Rightarrow> json \<Rightarrow> int \<Rightarrow> string" where
  "activecampaign_error_message fr payload status_code =
     (if is_obj payload then (let errors = dict_get (obj_of payload) ''errors'' JNull in
       if is_arr errors \<and> py_bool errors then (let first = hd (arr_of errors) in
         if is_obj first then (let title = dict_get (obj_of first) ''title'' JNull in
           let detail = dict_get (obj_of first) ''detail'' JNull in
           if is_str title \<and> is_str detail then py_str fr title @ '': '' @ py_str fr detail
           else if is_str title \<and> py_bool title then str_of title
           else let message = dict_get (obj_of payload) ''message'' JNull in
           if is_str message \<and> py_bool message then str_of message
           else ''HTTP '' @ show_int status_code)
         else (let message = dict_get (obj_of payload) ''message'' JNull in
           if is_str message \<and> py_bool message then str_of message
           else ''HTTP '' @ show_int status_code))
       else (let message = dict_get (obj_of payload) ''message'' JNull in
         if is_str message \<and> py_bool message then str_of message
         else ''HTTP '' @ show_int status_code))
     else ''HTTP '' @ show_int status_code)"

definition activecampaign_dispatch_one :: "exec_ctx \<Rightarrow> item \<Rightarrow> http_client \<Rightarrow> jobj \<Rightarrow> item result" where
  "activecampaign_dispatch_one ctx it client headers =
     rbind (resolved_params ctx (Some it)) (\<lambda>params.
     let operation = py_strip (py_str (ctx_fr ctx) (param_or params ''operation'' (JStr ''list_contacts''))) in
     if operation \<notin> set [''list_contacts'', ''get_contact'', ''create_contact'', ''update_contact'',
         ''delete_contact'', ''add_contact_to_list'', ''add_tag_to_contact'', ''list_tags''] then raise
         NodeExecutionError (''ActiveCampaign: unsupported operation '' @ repr_str operation)
     else rbind (node_error_from ValueError (\<lambda>exc. exc)
         (activecampaign_build_request (ctx_fr ctx) operation params)) (\<lambda>(method, path, body, query).
     let request_headers = headers in
     let request_headers = (if body \<noteq> None then dict_set ''Content-Type'' (JStr ''application/json'')
         request_headers else request_headers) in
     rbind (node_error_from HTTPError (\<lambda>exc. ''ActiveCampaign: network error on '' @ operation @ '': '' @ exc)
         (client ((mk_request method path)\<lparr>rq_params := (if query = [] then None else Some query), rq_json :=
             map_option JObj body, rq_headers := request_headers\<rparr>))) (\<lambda>response.
     let payload = safe_json response in
     let result = [(''operation'', JStr operation), (''status'', JInt (rs_status response)), (''response'',
         payload)] in
     if 400 \<le> (rs_status response) then (let error = activecampaign_error_message (ctx_fr ctx) payload
         (rs_status response) in
       raise NodeExecutionError (''ActiveCampaign '' @ operation @ '' failed (HTTP '' @ show_int (rs_status
           response) @ ''): '' @ error))
     else Inr (mk_item result))))"

definition activecampaign_execute :: "network \<Rightarrow> exec_ctx \<Rightarrow> item list \<Rightarrow> item list list result" where
  "activecampaign_execute net ctx items =
     rbind (activecampaign_resolve_credentials ctx) (\<lambda>(token, raw_url).
     rbind (node_error_from ValueError (\<lambda>exc. exc)
         (activecampaign_api_base_url_from raw_url)) (\<lambda>base_url.
     let seed = (if items = [] then [mk_item []] else items) in
     let headers = [(''Api-Token'', JStr token), (''Accept'', JStr ''application/json'')] in
     rbind (each_item (\<lambda>i it. let client = net base_url i in
         activecampaign_dispatch_one ctx it client headers) seed) (\<lambda>results.
     Inr [results])))"

lemma activecampaign_resolve_credentials_ok: "prepares ctx (activecampaign_resolve_credentials ctx)"
  unfolding activecampaign_resolve_credentials_def by (rule activecampaign_api_base_url_from_ok [THEN prepares_translated] prepares_rules)+

lemma activecampaign_dispatch_one_ok:
  "answers ctx it (client) (shape_ok activecampaign_shape) (activecampaign_dispatch_one ctx it client headers)"
  unfolding activecampaign_dispatch_one_def prod.case
  by ((rule request_builder.answers_build [OF activecampaign.request_builder_axioms] answers_if answers_rules)+;
      (rule answers_return, assumption, assumption)?; simp add: mk_request_def Let_def dict_simps del: map_of_eq_Some_iff)

text \<open>What \<open>execute\<close> computes before its loop.\<close>

definition activecampaign_prepare where
  "activecampaign_prepare ctx =
     rbind (activecampaign_resolve_credentials ctx) (\<lambda>(token, raw_url).
     rbind (node_error_from ValueError (\<lambda>exc. exc)
     (activecampaign_api_base_url_from raw_url)) (\<lambda>base_url.
     let headers = [(''Api-Token'', JStr token), (''Accept'', JStr ''application/json'')] in
     Inr (base_url, headers)))"

lemma activecampaign_prepare_ok: "prepares ctx (activecampaign_prepare ctx)"
  unfolding activecampaign_prepare_def by (rule activecampaign_api_base_url_from_ok [THEN prepares_translated] activecampaign_resolve_credentials_ok prepares_rules)+

interpretation activecampaign_node: http_node "activecampaign_execute" activecampaign_prepare
  "\<lambda>(address, headers). address" "\<lambda>ctx (address, headers) client it. activecampaign_dispatch_one ctx it client
      headers"
  "\<lambda>_ client. client" "shape_ok activecampaign_shape"
proof (rule http_node.intro, goal_cases)
  case 1 show ?case by (simp only: activecampaign_execute_def activecampaign_prepare_def prepare_simps)
next
  case 2 show ?case by (rule activecampaign_prepare_ok)
next
  case 3 show ?case by (simp add: activecampaign_dispatch_one_ok split: prod.split)
qed

section \<open>Airtable\<close>

definition airtable_resolve_token :: "exec_ctx \<Rightarrow> string result" where
  "airtable_resolve_token ctx =
     rbind (load_credential ctx ''airtable_api'') (\<lambda>credential.
     (case credential of
       None \<Rightarrow> raise NodeExecutionError ''Airtable: a bearer-token credential is required''
     | Some credential \<Rightarrow>
       let (unused, payload) = credential in
       let token = text_param (ctx_fr ctx) payload ''token'' in
       if token = [] then raise NodeExecutionError (''Airtable: credential has an empty 'token'' @ [CHR 0x27])
       else Inr token))"

definition airtable_error_message :: "json \<Rightarrow> int \<Rightarrow> string" where
  "airtable_error_message payload status_code =
     (if is_obj payload then (let error = dict_get (obj_of payload) ''error'' JNull in
       if is_obj error then (let message = dict_get (obj_of error) ''message'' JNull in
         if is_str message \<and> py_bool message then str_of message
         else let etype = dict_get (obj_of error) ''type'' JNull in
         if is_str etype \<and> py_bool etype then str_of etype
         else ''HTTP '' @ show_int status_code)
       else (if is_str error \<and> py_bool error then str_of error
         else ''HTTP '' @ show_int status_code))
     else ''HTTP '' @ show_int status_code)"

definition airtable_dispatch_one :: "exec_ctx \<Rightarrow> item \<Rightarrow> http_client \<Rightarrow> string \<Rightarrow> item result" where
  "airtable_dispatch_one ctx it client token =
     rbind (resolved_params ctx (Some it)) (\<lambda>params.
     let operation = py_strip (py_str (ctx_fr ctx) (param_or params ''operation'' (JStr ''list_records''))) in
     if operation \<notin> set [''list_records'', ''get_record'', ''create_records'', ''update_record'',
         ''delete_record''] then raise NodeExecutionError (''Airtable: unsupported operation '' @ repr_str
         operation)
     else rbind (node_error_from ValueError (\<lambda>exc. exc)
         (airtable_build_request (ctx_fr ctx) operation params)) (\<lambda>(method, path, body, query).
     rbind (node_error_from HTTPError (\<lambda>exc. ''Airtable: network error on '' @ operation @ '': '' @ exc)
         (client ((mk_request method path)\<lparr>rq_params := (if query = [] then None else Some query), rq_json :=
             map_option JObj body, rq_headers := [(''Authorization'', JStr (''Bearer '' @ token)),
             (''Content-Type'', JStr ''application/json'')]\<rparr>))) (\<lambda>response.
     let payload = safe_json response in
     let result = [(''operation'', JStr operation), (''status'', JInt (rs_status response)), (''response'',
         payload)] in
     let result = (if operation = ''list_records'' \<and> is_obj payload then (let records = dict_get (obj_of
         payload) ''records'' (JArr []) in
       dict_set ''records'' (if is_arr records then records else JArr []) result) else result) in
     if 400 \<le> (rs_status response) then (let error = airtable_error_message payload (rs_status response) in
       raise NodeExecutionError (''Airtable '' @ operation @ '' failed (HTTP '' @ show_int (rs_status response)
           @ ''): '' @ error))
     else Inr (mk_item result))))"

definition airtable_execute :: "network \<Rightarrow> exec_ctx \<Rightarrow> item list \<Rightarrow> item list list result" where
  "airtable_execute net ctx items =
     rbind (airtable_resolve_token ctx) (\<lambda>token.
     let seed = (if items = [] then [mk_item []] else items) in
     rbind (each_item (\<lambda>i it. let client = net ''https://api.airtable.com'' i in
         airtable_dispatch_one ctx it client token) seed) (\<lambda>results.
     Inr [results]))"

lemma airtable_resolve_token_ok: "prepares ctx (airtable_resolve_token ctx)"
  unfolding airtable_resolve_token_def by (rule prepares_rules)+

lemma airtable_dispatch_one_ok:
  "answers ctx it (client) (shape_ok airtable_shape) (airtable_dispatch_one ctx it client token)"
  unfolding airtable_dispatch_one_def prod.case
  by ((rule request_builder.answers_build [OF airtable.request_builder_axioms] answers_if answers_rules)+;
      (rule answers_return, assumption, assumption)?; simp add: mk_request_def Let_def dict_simps del: map_of_eq_Some_iff)

text \<open>What \<open>execute\<close> computes before its loop.\<close>

definition airtable_prepare where
  "airtable_prepare ctx =
     rbind (airtable_resolve_token ctx) (\<lambda>token.
     Inr (''https://api.airtable.com'', token))"

lemma airtable_prepare_ok: "prepares ctx (airtable_prepare ctx)"
  unfolding airtable_prepare_def by (rule airtable_resolve_token_ok prepares_rules)+

interpretation airtable_node: http_node "airtable_execute" airtable_prepare
  "\<lambda>(address, token). address" "\<lambda>ctx (address, token) client it. airtable_dispatch_one ctx it client token"
  "\<lambda>_ client. client" "shape_ok airtable_shape"
proof (rule http_node.intro, goal_cases)
  case 1 show ?case by (simp only: airtable_execute_def airtable_prepare_def prepare_simps)
next
  case 2 show ?case by (rule airtable_prepare_ok)
next
  case 3 show ?case by (simp add: airtable_dispatch_one_ok split: prod.split)
qed

section \<open>Asana\<close>

definition asana_resolve_credentials :: "exec_ctx \<Rightarrow> (string \<times> string) result" where
  "asana_resolve_credentials ctx =
     rbind (load_credential ctx ''asana_api'') (\<lambda>credential.
     (case credential of
       None \<Rightarrow> raise NodeExecutionError ''Asana: an asana_api credential is required''
     | Some credential \<Rightarrow>
       let (unused, payload) = credential in
       let token = text_param (ctx_fr ctx) payload ''access_token'' in
       if token = [] then raise NodeExecutionError (''Asana: credential has an empty 'access_token'' @ [CHR
           0x27])
       else let raw_flags = dict_get payload ''enable_flags'' JNull in
       if is_blank raw_flags then Inr (token, [])
       else rbind (if is_str raw_flags then Inr (map (\<lambda>part. py_strip part) (split_on CHR '','' (str_of
           raw_flags))) else (if is_arr raw_flags then Inr (map (\<lambda>part. py_strip (py_str (ctx_fr ctx) part))
           (arr_of raw_flags))
         else raise NodeExecutionError ''Asana: credential 'enable_flags' must be a string or list'')) (\<lambda>parts.
       Inr (token, join '','' (filter (\<lambda>part. part \<noteq> []) parts)))))"

definition asana_error_message :: "(rat \<Rightarrow> string) \<Rightarrow> json \<Rightarrow> int \<Rightarrow> string" where
  "asana_error_message fr payload status_code =
     (if is_obj payload then (let errors = dict_get (obj_of payload) ''errors'' JNull in
       if is_arr errors \<and> py_bool errors then (let first = hd (arr_of errors) in
         if is_obj first then (let message = dict_get (obj_of first) ''message'' JNull in
           if is_str message \<and> py_bool message then (let phrase = dict_get (obj_of first) ''help'' JNull in
             if is_str phrase \<and> py_bool phrase then py_str fr message @ '' ('' @ py_str fr phrase @ '')''
             else str_of message)
           else ''HTTP '' @ show_int status_code)
         else ''HTTP '' @ show_int status_code)
       else ''HTTP '' @ show_int status_code)
     else ''HTTP '' @ show_int status_code)"

definition asana_dispatch_one :: "exec_ctx \<Rightarrow> item \<Rightarrow> http_client \<Rightarrow> jobj \<Rightarrow> item result" where
  "asana_dispatch_one ctx it client headers =
     rbind (resolved_params ctx (Some it)) (\<lambda>params.
     let operation = py_strip (py_str (ctx_fr ctx) (param_or params ''operation'' (JStr ''list_tasks''))) in
     if operation \<notin> set [''list_tasks'', ''get_task'', ''create_task'', ''update_task'', ''delete_task'',
         ''add_comment''] then raise NodeExecutionError (''Asana: unsupported operation '' @ repr_str operation)
     else rbind (node_error_from ValueError (\<lambda>exc. exc)
         (asana_build_request (ctx_fr ctx) operation params)) (\<lambda>(method, path, body, query).
     let request_headers = headers in
     let request_headers = (if body \<noteq> None then dict_set ''Content-Type'' (JStr ''application/json'')
         request_headers else request_headers) in
     rbind (node_error_from HTTPError (\<lambda>exc. ''Asana: network error on '' @ operation @ '': '' @ exc)
         (client ((mk_request method path)\<lparr>rq_params := (if query = [] then None else Some query), rq_json :=
             map_option JObj body, rq_headers := request_headers\<rparr>))) (\<lambda>response.
     let payload = safe_json response in
     let result = [(''operation'', JStr operation), (''status'', JInt (rs_status response)), (''response'',
         payload)] in
     if 400 \<le> (rs_status response) then (let error = asana_error_message (ctx_fr ctx) payload (rs_status
         response) in
       raise NodeExecutionError (''Asana '' @ operation @ '' failed (HTTP '' @ show_int (rs_status response) @
           ''): '' @ error))
     else Inr (mk_item result))))"

definition asana_execute :: "network \<Rightarrow> exec_ctx \<Rightarrow> item list \<Rightarrow> item list list result" where
  "asana_execute net ctx items =
     rbind (asana_resolve_credentials ctx) (\<lambda>(access_token, enable_flags).
     let seed = (if items = [] then [mk_item []] else items) in
     let headers = [(''Authorization'', JStr (''Bearer '' @ access_token)), (''Accept'', JStr
         ''application/json'')] in
     let headers = (if enable_flags \<noteq> [] then dict_set ''Asana-Enable'' (JStr enable_flags) headers else
         headers) in
     rbind (each_item (\<lambda>i it. let client = net ''https://app.asana.com/api/1.0'' i in
         asana_dispatch_one ctx it client headers) seed) (\<lambda>results.
     Inr [results]))"

lemma asana_resolve_credentials_ok: "prepares ctx (asana_resolve_credentials ctx)"
  unfolding asana_resolve_credentials_def by (rule prepares_rules)+

lemma asana_dispatch_one_ok:
  "answers ctx it (client) (shape_ok asana_shape) (asana_dispatch_one ctx it client headers)"
  unfolding asana_dispatch_one_def prod.case
  by ((rule request_builder.answers_build [OF asana.request_builder_axioms] answers_if answers_rules)+;
      (rule answers_return, assumption, assumption)?; simp add: mk_request_def Let_def dict_simps del: map_of_eq_Some_iff)

text \<open>What \<open>execute\<close> computes before its loop.\<close>

definition asana_prepare where
  "asana_prepare ctx =
     rbind (asana_resolve_credentials ctx) (\<lambda>(access_token, enable_flags).
     let headers = [(''Authorization'', JStr (''Bearer '' @ access_token)), (''Accept'', JStr
         ''application/json'')] in
     let headers = (if enable_flags \<noteq> [] then dict_set ''Asana-Enable'' (JStr enable_flags) headers else
         headers) in
     Inr (''https://app.asana.com/api/1.0'', headers))"

lemma asana_prepare_ok: "prepares ctx (asana_prepare ctx)"
  unfolding asana_prepare_def by (rule asana_resolve_credentials_ok prepares_rules)+

interpretation asana_node: http_node "asana_execute" asana_prepare
  "\<lambda>(address, headers). address" "\<lambda>ctx (address, headers) client it. asana_dispatch_one ctx it client headers"
  "\<lambda>_ client. client" "shape_ok asana_shape"
proof (rule http_node.intro, goal_cases)
  case 1 show ?case by (simp only: asana_execute_def asana_prepare_def prepare_simps)
next
  case 2 show ?case by (rule asana_prepare_ok)
next
  case 3 show ?case by (simp add: asana_dispatch_one_ok split: prod.split)
qed

section \<open>Asc\<close>

definition asc_resolve_credentials :: "exec_ctx \<Rightarrow> (string \<times> jobj) result" where
  "asc_resolve_credentials ctx =
     rbind (load_credential ctx ''asc_api'') (\<lambda>credential.
     (case credential of
       None \<Rightarrow> raise NodeExecutionError ''ASC: an asc_api credential is required''
     | Some credential \<Rightarrow>
       let (injector, payload) = credential in
       if text_param (ctx_fr ctx) payload ''issuer_id'' = [] then raise NodeExecutionError
           (''ASC: credential has an empty 'issuer_id'' @ [CHR 0x27])
       else if text_param (ctx_fr ctx) payload ''key_id'' = [] then raise NodeExecutionError
           (''ASC: credential has an empty 'key_id'' @ [CHR 0x27])
       else if text_param (ctx_fr ctx) payload ''private_key'' = [] then raise NodeExecutionError
           (''ASC: credential has an empty 'private_key'' @ [CHR 0x27])
       else Inr (injector, payload)))"

definition asc_error_message :: "json \<Rightarrow> int \<Rightarrow> string" where
  "asc_error_message parsed status_code =
     (if is_obj parsed then (let errors = dict_get (obj_of parsed) ''errors'' JNull in
       if is_arr errors \<and> py_bool errors then (let first = hd (arr_of errors) in
         if is_obj first then (let value = dict_get (obj_of first) ''detail'' JNull in
           if is_str value \<and> py_bool value then str_of value
           else let value = dict_get (obj_of first) ''title'' JNull in
           if is_str value \<and> py_bool value then str_of value
           else let value = dict_get (obj_of first) ''code'' JNull in
           if is_str value \<and> py_bool value then str_of value
           else let value = dict_get (obj_of parsed) ''message'' JNull in
           if is_str value \<and> py_bool value then str_of value
           else let value = dict_get (obj_of parsed) ''error'' JNull in
           if is_str value \<and> py_bool value then str_of value
           else ''HTTP '' @ show_int status_code)
         else (let value = dict_get (obj_of parsed) ''message'' JNull in
           if is_str value \<and> py_bool value then str_of value
           else let value = dict_get (obj_of parsed) ''error'' JNull in
           if is_str value \<and> py_bool value then str_of value
           else ''HTTP '' @ show_int status_code))
       else (let value = dict_get (obj_of parsed) ''message'' JNull in
         if is_str value \<and> py_bool value then str_of value
         else let value = dict_get (obj_of parsed) ''error'' JNull in
         if is_str value \<and> py_bool value then str_of value
         else ''HTTP '' @ show_int status_code))
     else ''HTTP '' @ show_int status_code)"

definition asc_dispatch_one :: "injection \<Rightarrow> exec_ctx \<Rightarrow> item \<Rightarrow> http_client \<Rightarrow> string \<Rightarrow> jobj \<Rightarrow> item result" where
  "asc_dispatch_one inject ctx it client injector creds =
     rbind (resolved_params ctx (Some it)) (\<lambda>params.
     let operation = py_strip (py_str (ctx_fr ctx) (param_or params ''operation'' (JStr ''list_apps''))) in
     if operation \<notin> set [''list_apps'', ''get_app'', ''list_builds'', ''list_beta_testers''] then raise
         NodeExecutionError (''ASC: unsupported operation '' @ repr_str operation)
     else rbind (node_error_from ValueError (\<lambda>exc. exc)
         (asc_build_request (ctx_fr ctx) operation params)) (\<lambda>(method, path, query).
     let request = (mk_request method path)\<lparr>rq_params := (if query = [] then None else Some query), rq_headers
         := [(''Accept'', JStr ''application/json'')]\<rparr> in
     rbind (inject injector creds request) (\<lambda>request.
     rbind (node_error_from HTTPError (\<lambda>exc. ''ASC: network error on '' @ operation @ '': '' @ exc)
         (client request)) (\<lambda>response.
     let parsed = safe_json response in
     let result = [(''operation'', JStr operation), (''status'', JInt (rs_status response)), (''response'',
         parsed)] in
     if 400 \<le> (rs_status response) then (let error = asc_error_message parsed (rs_status response) in
       raise NodeExecutionError (''ASC '' @ operation @ '' failed (HTTP '' @ show_int (rs_status response) @
           ''): '' @ error))
     else Inr (mk_item result)))))"

definition asc_execute :: "injection \<Rightarrow> network \<Rightarrow> exec_ctx \<Rightarrow> item list \<Rightarrow> item list list result" where
  "asc_execute inject net ctx items =
     rbind (asc_resolve_credentials ctx) (\<lambda>(injector, payload).
     let seed = (if items = [] then [mk_item []] else items) in
     rbind (each_item (\<lambda>i it. let client = net ''https://api.appstoreconnect.apple.com'' i in
         asc_dispatch_one inject ctx it client injector payload) seed) (\<lambda>results.
     Inr [results]))"

lemma asc_resolve_credentials_ok: "prepares ctx (asc_resolve_credentials ctx)"
  unfolding asc_resolve_credentials_def by (rule prepares_rules)+

lemma asc_dispatch_one_ok:
  "answers ctx it (injected inject (injector, creds) client) (shape_ok asc_shape) (asc_dispatch_one inject ctx it client injector creds)"
  unfolding asc_dispatch_one_def prod.case
  by ((rule request_builder.answers_build [OF asc.request_builder_axioms] answers_if answers_rules)+;
      (rule answers_return, assumption, assumption)?; simp add: mk_request_def Let_def dict_simps del: map_of_eq_Some_iff)

text \<open>What \<open>execute\<close> computes before its loop.\<close>

definition asc_prepare where
  "asc_prepare ctx =
     rbind (asc_resolve_credentials ctx) (\<lambda>(injector, payload).
     Inr (''https://api.appstoreconnect.apple.com'', injector, payload))"

lemma asc_prepare_ok: "prepares ctx (asc_prepare ctx)"
  unfolding asc_prepare_def by (rule asc_resolve_credentials_ok prepares_rules)+

interpretation asc_node: http_node "asc_execute inject" asc_prepare
  "\<lambda>(address, injector, payload). address" "\<lambda>ctx (address, injector, payload) client it. asc_dispatch_one
      inject ctx it client injector payload"
  "\<lambda>(address, injector, payload). injected inject (injector, payload)" "shape_ok asc_shape" for inject
proof (rule http_node.intro, goal_cases)
  case 1 show ?case by (simp only: asc_execute_def asc_prepare_def prepare_simps)
next
  case 2 show ?case by (rule asc_prepare_ok)
next
  case 3 show ?case by (simp add: asc_dispatch_one_ok split: prod.split)
qed

section \<open>Box\<close>

definition box_resolve_credentials :: "exec_ctx \<Rightarrow> (string \<times> string) result" where
  "box_resolve_credentials ctx =
     rbind (load_credential ctx ''box_api'') (\<lambda>credential.
     (case credential of
       None \<Rightarrow> raise NodeExecutionError ''Box: a box_api credential is required''
     | Some credential \<Rightarrow>
       let (unused, payload) = credential in
       let token = text_param (ctx_fr ctx) payload ''access_token'' in
       if token = [] then raise NodeExecutionError (''Box: credential has an empty 'access_token'' @ [CHR 0x27])
       else Inr (token, text_param (ctx_fr ctx) payload ''as_user_id'')))"

definition box_error_message :: "(rat \<Rightarrow> string) \<Rightarrow> json \<Rightarrow> int \<Rightarrow> string" where
  "box_error_message fr payload status_code =
     (if is_obj payload then (let code = dict_get (obj_of payload) ''code'' JNull in
       let message = dict_get (obj_of payload) ''message'' JNull in
       if is_str code \<and> is_str message then py_str fr code @ '': '' @ py_str fr message
       else if is_str message \<and> py_bool message then str_of message
       else let context_info = dict_get (obj_of payload) ''context_info'' JNull in
       if is_obj context_info then (let errors = dict_get (obj_of context_info) ''errors'' JNull in
         if is_arr errors \<and> py_bool errors then (let first = hd (arr_of errors) in
           if is_obj first then (let reason = dict_get (obj_of first) ''reason'' JNull in
             if is_str reason \<and> py_bool reason then str_of reason
             else ''HTTP '' @ show_int status_code)
           else ''HTTP '' @ show_int status_code)
         else ''HTTP '' @ show_int status_code)
       else ''HTTP '' @ show_int status_code)
     else ''HTTP '' @ show_int status_code)"

definition box_dispatch_one :: "exec_ctx \<Rightarrow> item \<Rightarrow> http_client \<Rightarrow> jobj \<Rightarrow> item result" where
  "box_dispatch_one ctx it client headers =
     rbind (resolved_params ctx (Some it)) (\<lambda>params.
     let operation = py_strip (py_str (ctx_fr ctx) (param_or params ''operation'' (JStr ''list_folder''))) in
     if operation \<notin> set [''list_folder'', ''get_file'', ''delete_file'', ''create_folder'', ''copy_file'',
         ''search'', ''list_users''] then raise NodeExecutionError (''Box: unsupported operation '' @ repr_str
         operation)
     else rbind (node_error_from ValueError (\<lambda>exc. exc)
         (box_build_request (ctx_fr ctx) operation params)) (\<lambda>(method, path, body, query).
     let request_headers = headers in
     let request_headers = (if body \<noteq> None then dict_set ''Content-Type'' (JStr ''application/json'')
         request_headers else request_headers) in
     rbind (node_error_from HTTPError (\<lambda>exc. ''Box: network error on '' @ operation @ '': '' @ exc)
         (client ((mk_request method path)\<lparr>rq_params := (if query = [] then None else Some query), rq_json :=
             map_option JObj body, rq_headers := request_headers\<rparr>))) (\<lambda>response.
     let payload = safe_json response in
     let result = [(''operation'', JStr operation), (''status'', JInt (rs_status response)), (''response'',
         payload)] in
     if 400 \<le> (rs_status response) then (let error = box_error_message (ctx_fr ctx) payload (rs_status
         response) in
       raise NodeExecutionError (''Box '' @ operation @ '' failed (HTTP '' @ show_int (rs_status response) @
           ''): '' @ error))
     else Inr (mk_item result))))"

definition box_execute :: "network \<Rightarrow> exec_ctx \<Rightarrow> item list \<Rightarrow> item list list result" where
  "box_execute net ctx items =
     rbind (box_resolve_credentials ctx) (\<lambda>(access_token, as_user).
     let seed = (if items = [] then [mk_item []] else items) in
     let headers = [(''Authorization'', JStr (''Bearer '' @ access_token)), (''Accept'', JStr
         ''application/json'')] in
     let headers = (if as_user \<noteq> [] then dict_set ''As-User'' (JStr as_user) headers else headers) in
     rbind (each_item (\<lambda>i it. let client = net ''https://api.box.com/2.0'' i in
         box_dispatch_one ctx it client headers) seed) (\<lambda>results.
     Inr [results]))"

lemma box_resolve_credentials_ok: "prepares ctx (box_resolve_credentials ctx)"
  unfolding box_resolve_credentials_def by (rule prepares_rules)+

lemma box_dispatch_one_ok:
  "answers ctx it (client) (shape_ok box_shape) (box_dispatch_one ctx it client headers)"
  unfolding box_dispatch_one_def prod.case
  by ((rule request_builder.answers_build [OF box.request_builder_axioms] answers_if answers_rules)+;
      (rule answers_return, assumption, assumption)?; simp add: mk_request_def Let_def dict_simps del: map_of_eq_Some_iff)

text \<open>What \<open>execute\<close> computes before its loop.\<close>

definition box_prepare where
  "box_prepare ctx =
     rbind (box_resolve_credentials ctx) (\<lambda>(access_token, as_user).
     let headers = [(''Authorization'', JStr (''Bearer '' @ access_token)), (''Accept'', JStr
         ''application/json'')] in
     let headers = (if as_user \<noteq> [] then dict_set ''As-User'' (JStr as_user) headers else headers) in
     Inr (''https://api.box.com/2.0'', headers))"

lemma box_prepare_ok: "prepares ctx (box_prepare ctx)"
  unfolding box_prepare_def by (rule box_resolve_credentials_ok prepares_rules)+

interpretation box_node: http_node "box_execute" box_prepare
  "\<lambda>(address, headers). address" "\<lambda>ctx (address, headers) client it. box_dispatch_one ctx it client headers"
  "\<lambda>_ client. client" "shape_ok box_shape"
proof (rule http_node.intro, goal_cases)
  case 1 show ?case by (simp only: box_execute_def box_prepare_def prepare_simps)
next
  case 2 show ?case by (rule box_prepare_ok)
next
  case 3 show ?case by (simp add: box_dispatch_one_ok split: prod.split)
qed

section \<open>Brevo\<close>

definition brevo_resolve_credentials :: "exec_ctx \<Rightarrow> string result" where
  "brevo_resolve_credentials ctx =
     rbind (load_credential ctx ''brevo_api'') (\<lambda>credential.
     (case credential of
       None \<Rightarrow> raise NodeExecutionError ''Brevo: a brevo_api credential is required''
     | Some credential \<Rightarrow>
       let (unused, payload) = credential in
       let key = text_param (ctx_fr ctx) payload ''api_key'' in
       if key = [] then raise NodeExecutionError (''Brevo: credential has an empty 'api_key'' @ [CHR 0x27])
       else Inr key))"

definition brevo_error_message :: "(rat \<Rightarrow> string) \<Rightarrow> json \<Rightarrow> int \<Rightarrow> string" where
  "brevo_error_message fr payload status_code =
     (if is_obj payload then (let message = dict_get (obj_of payload) ''message'' JNull in
       if is_str message \<and> py_bool message then (let code = dict_get (obj_of payload) ''code'' JNull in
         (if py_bool code then py_str fr code @ '': '' @ py_str fr message else str_of message))
       else let code = dict_get (obj_of payload) ''code'' JNull in
       if is_str code \<and> py_bool code then str_of code
       else ''HTTP '' @ show_int status_code)
     else ''HTTP '' @ show_int status_code)"

definition brevo_dispatch_one :: "exec_ctx \<Rightarrow> item \<Rightarrow> http_client \<Rightarrow> string \<Rightarrow> item result" where
  "brevo_dispatch_one ctx it client key =
     rbind (resolved_params ctx (Some it)) (\<lambda>params.
     let operation = py_strip (py_str (ctx_fr ctx) (param_or params ''operation'' (JStr ''send_email''))) in
     if operation \<notin> set [''send_email'', ''create_contact'', ''update_contact'', ''get_contact'',
         ''add_contact_to_list'', ''get_account''] then raise NodeExecutionError
         (''Brevo: unsupported operation '' @ repr_str operation)
     else rbind (node_error_from ValueError (\<lambda>exc. exc)
         (brevo_build_request (ctx_fr ctx) operation params)) (\<lambda>(method, path, body, query).
     rbind (node_error_from HTTPError (\<lambda>exc. ''Brevo: network error on '' @ operation @ '': '' @ exc)
         (client ((mk_request method path)\<lparr>rq_params := (if query = [] then None else Some query), rq_json :=
             map_option JObj body, rq_headers := [(''api-key'', JStr key), (''Accept'', JStr
             ''application/json''), (''Content-Type'', JStr ''application/json'')]\<rparr>))) (\<lambda>response.
     let payload = safe_json response in
     let result = [(''operation'', JStr operation), (''status'', JInt (rs_status response)), (''response'',
         payload)] in
     if 400 \<le> (rs_status response) then (let error = brevo_error_message (ctx_fr ctx) payload (rs_status
         response) in
       raise NodeExecutionError (''Brevo '' @ operation @ '' failed (HTTP '' @ show_int (rs_status response) @
           ''): '' @ error))
     else Inr (mk_item result))))"

definition brevo_execute :: "network \<Rightarrow> exec_ctx \<Rightarrow> item list \<Rightarrow> item list list result" where
  "brevo_execute net ctx items =
     rbind (brevo_resolve_credentials ctx) (\<lambda>key.
     let seed = (if items = [] then [mk_item []] else items) in
     rbind (each_item (\<lambda>i it. let client = net ''https://api.brevo.com'' i in
         brevo_dispatch_one ctx it client key) seed) (\<lambda>results.
     Inr [results]))"

lemma brevo_resolve_credentials_ok: "prepares ctx (brevo_resolve_credentials ctx)"
  unfolding brevo_resolve_credentials_def by (rule prepares_rules)+

lemma brevo_dispatch_one_ok:
  "answers ctx it (client) (shape_ok brevo_shape) (brevo_dispatch_one ctx it client key)"
  unfolding brevo_dispatch_one_def prod.case
  by ((rule request_builder.answers_build [OF brevo.request_builder_axioms] answers_if answers_rules)+;
      (rule answers_return, assumption, assumption)?; simp add: mk_request_def Let_def dict_simps del: map_of_eq_Some_iff)

text \<open>What \<open>execute\<close> computes before its loop.\<close>

definition brevo_prepare where
  "brevo_prepare ctx =
     rbind (brevo_resolve_credentials ctx) (\<lambda>key.
     Inr (''https://api.brevo.com'', key))"

lemma brevo_prepare_ok: "prepares ctx (brevo_prepare ctx)"
  unfolding brevo_prepare_def by (rule brevo_resolve_credentials_ok prepares_rules)+

interpretation brevo_node: http_node "brevo_execute" brevo_prepare
  "\<lambda>(address, key). address" "\<lambda>ctx (address, key) client it. brevo_dispatch_one ctx it client key"
  "\<lambda>_ client. client" "shape_ok brevo_shape"
proof (rule http_node.intro, goal_cases)
  case 1 show ?case by (simp only: brevo_execute_def brevo_prepare_def prepare_simps)
next
  case 2 show ?case by (rule brevo_prepare_ok)
next
  case 3 show ?case by (simp add: brevo_dispatch_one_ok split: prod.split)
qed

section \<open>Clickup\<close>

definition clickup_resolve_token :: "exec_ctx \<Rightarrow> string result" where
  "clickup_resolve_token ctx =
     rbind (load_credential ctx ''clickup_api'') (\<lambda>credential.
     (case credential of
       None \<Rightarrow> raise NodeExecutionError ''ClickUp: a clickup_api credential is required''
     | Some credential \<Rightarrow>
       let (unused, payload) = credential in
       let token = text_param (ctx_fr ctx) payload ''api_token'' in
       if token = [] then raise NodeExecutionError (''ClickUp: credential has an empty 'api_token'' @ [CHR
           0x27])
       else Inr token))"

definition clickup_error_message :: "json \<Rightarrow> int \<Rightarrow> string" where
  "clickup_error_message payload status_code =
     (if is_obj payload then (let err = dict_get (obj_of payload) ''err'' JNull in
       if is_str err \<and> py_bool err then str_of err
       else let message = param_or (obj_of payload) ''message'' (dict_get (obj_of payload) ''ECODE'' JNull) in
       if is_str message \<and> py_bool message then str_of message
       else ''HTTP '' @ show_int status_code)
     else ''HTTP '' @ show_int status_code)"

definition clickup_dispatch_one :: "exec_ctx \<Rightarrow> item \<Rightarrow> http_client \<Rightarrow> string \<Rightarrow> item result" where
  "clickup_dispatch_one ctx it client token =
     rbind (resolved_params ctx (Some it)) (\<lambda>params.
     let operation = py_strip (py_str (ctx_fr ctx) (param_or params ''operation'' (JStr ''list_tasks''))) in
     if operation \<notin> set [''create_task'', ''get_task'', ''update_task'', ''delete_task'', ''list_tasks''] then
         raise NodeExecutionError (''ClickUp: unsupported operation '' @ repr_str operation)
     else rbind (node_error_from ValueError (\<lambda>exc. exc)
         (clickup_build_request (ctx_fr ctx) operation params)) (\<lambda>(method, path, body, query).
     rbind (node_error_from HTTPError (\<lambda>exc. ''ClickUp: network error on '' @ operation @ '': '' @ exc)
         (client ((mk_request method path)\<lparr>rq_params := (if query = [] then None else Some query), rq_json :=
             map_option JObj body, rq_headers := [(''Authorization'', JStr token), (''Accept'', JStr
             ''application/json''), (''Content-Type'', JStr ''application/json'')]\<rparr>))) (\<lambda>response.
     let payload = safe_json response in
     let result = [(''operation'', JStr operation), (''status'', JInt (rs_status response)), (''response'',
         payload)] in
     let result = (if operation = ''list_tasks'' \<and> is_obj payload then (let tasks = dict_get (obj_of payload)
         ''tasks'' (JArr []) in
       dict_set ''tasks'' (if is_arr tasks then tasks else JArr []) result) else result) in
     if 400 \<le> (rs_status response) then (let error = clickup_error_message payload (rs_status response) in
       raise NodeExecutionError (''ClickUp '' @ operation @ '' failed (HTTP '' @ show_int (rs_status response)
           @ ''): '' @ error))
     else Inr (mk_item result))))"

definition clickup_execute :: "network \<Rightarrow> exec_ctx \<Rightarrow> item list \<Rightarrow> item list list result" where
  "clickup_execute net ctx items =
     rbind (clickup_resolve_token ctx) (\<lambda>token.
     let seed = (if items = [] then [mk_item []] else items) in
     rbind (each_item (\<lambda>i it. let client = net ''https://api.clickup.com'' i in
         clickup_dispatch_one ctx it client token) seed) (\<lambda>results.
     Inr [results]))"

lemma clickup_resolve_token_ok: "prepares ctx (clickup_resolve_token ctx)"
  unfolding clickup_resolve_token_def by (rule prepares_rules)+

lemma clickup_dispatch_one_ok:
  "answers ctx it (client) (shape_ok clickup_shape) (clickup_dispatch_one ctx it client token)"
  unfolding clickup_dispatch_one_def prod.case
  by ((rule request_builder.answers_build [OF clickup.request_builder_axioms] answers_if answers_rules)+;
      (rule answers_return, assumption, assumption)?; simp add: mk_request_def Let_def dict_simps del: map_of_eq_Some_iff)

text \<open>What \<open>execute\<close> computes before its loop.\<close>

definition clickup_prepare where
  "clickup_prepare ctx =
     rbind (clickup_resolve_token ctx) (\<lambda>token.
     Inr (''https://api.clickup.com'', token))"

lemma clickup_prepare_ok: "prepares ctx (clickup_prepare ctx)"
  unfolding clickup_prepare_def by (rule clickup_resolve_token_ok prepares_rules)+

interpretation clickup_node: http_node "clickup_execute" clickup_prepare
  "\<lambda>(address, token). address" "\<lambda>ctx (address, token) client it. clickup_dispatch_one ctx it client token"
  "\<lambda>_ client. client" "shape_ok clickup_shape"
proof (rule http_node.intro, goal_cases)
  case 1 show ?case by (simp only: clickup_execute_def clickup_prepare_def prepare_simps)
next
  case 2 show ?case by (rule clickup_prepare_ok)
next
  case 3 show ?case by (simp add: clickup_dispatch_one_ok split: prod.split)
qed

end
