(* ===== verification/Nodes_2.thy ===== *)
theory Nodes_2
  imports Http Builders_2 Builders_3
begin

text \<open>
  The integration nodes \<open>coinbase\<close>, \<open>discord\<close>, \<open>facebook\<close>, \<open>ga4\<close>, \<open>ghost\<close>, \<open>github\<close>, \<open>gitlab\<close> (\<open>nodes/integrations/<name>/node.py\<close>), one definition per function: the
  resolution of credentials, the message of an error response, the dispatch of one item and
  \<open>execute\<close>. Log calls are left out. Each \<open><name>_dispatch_one_ok\<close> shows what a dispatch promises and
  the interpretation lifts it to the node.
\<close>

section \<open>Coinbase\<close>

definition coinbase_resolve_credentials :: "exec_ctx \<Rightarrow> (string \<times> jobj) result" where
  "coinbase_resolve_credentials ctx =
     rbind (load_credential ctx ''coinbase_exchange'') (\<lambda>credential.
     (case credential of
       None \<Rightarrow> raise NodeExecutionError ''Coinbase: a coinbase_exchange credential is required''
     | Some credential \<Rightarrow>
       let (injector, payload) = credential in
       if text_param (ctx_fr ctx) payload ''api_key'' = [] then raise NodeExecutionError
           (''Coinbase: credential has an empty 'api_key'' @ [CHR 0x27])
       else if text_param (ctx_fr ctx) payload ''api_secret'' = [] then raise NodeExecutionError
           (''Coinbase: credential has an empty 'api_secret'' @ [CHR 0x27])
       else if text_param (ctx_fr ctx) payload ''passphrase'' = [] then raise NodeExecutionError
           (''Coinbase: credential has an empty 'passphrase'' @ [CHR 0x27])
       else Inr (injector, payload)))"

definition coinbase_error_message :: "json \<Rightarrow> int \<Rightarrow> string" where
  "coinbase_error_message parsed status_code =
     (if is_obj parsed then (let value = dict_get (obj_of parsed) ''message'' JNull in
       if is_str value \<and> py_bool value then str_of value
       else let value = dict_get (obj_of parsed) ''error'' JNull in
       if is_str value \<and> py_bool value then str_of value
       else ''HTTP '' @ show_int status_code)
     else ''HTTP '' @ show_int status_code)"

definition coinbase_dispatch_one :: "injection \<Rightarrow> exec_ctx \<Rightarrow> item \<Rightarrow> http_client \<Rightarrow> string \<Rightarrow> jobj \<Rightarrow> item result"
    where
  "coinbase_dispatch_one inject ctx it client injector creds =
     rbind (resolved_params ctx (Some it)) (\<lambda>params.
     let operation = py_strip (py_str (ctx_fr ctx) (param_or params ''operation'' (JStr ''list_accounts''))) in
     if operation \<notin> set [''list_accounts'', ''get_product_ticker'', ''place_order'', ''cancel_order''] then
         raise NodeExecutionError (''Coinbase: unsupported operation '' @ repr_str operation)
     else rbind (node_error_from ValueError (\<lambda>exc. exc)
         (coinbase_build_request (ctx_fr ctx) operation params)) (\<lambda>(method, path, body, query).
     let headers = [(''Accept'', JStr ''application/json'')] in
     let headers = (if body \<noteq> None then dict_set ''Content-Type'' (JStr ''application/json'') headers else
         headers) in
     let request = (mk_request method path)\<lparr>rq_params := (if query = [] then None else Some query), rq_json :=
         map_option JObj body, rq_headers := headers\<rparr> in
     rbind (inject injector creds request) (\<lambda>request.
     rbind (node_error_from HTTPError (\<lambda>exc. ''Coinbase: network error on '' @ operation @ '': '' @ exc)
         (client request)) (\<lambda>response.
     let parsed = safe_json response in
     let result = [(''operation'', JStr operation), (''status'', JInt (rs_status response)), (''response'',
         parsed)] in
     if 400 \<le> (rs_status response) then (let error = coinbase_error_message parsed (rs_status response) in
       raise NodeExecutionError (''Coinbase '' @ operation @ '' failed (HTTP '' @ show_int (rs_status response)
           @ ''): '' @ error))
     else Inr (mk_item result)))))"

definition coinbase_execute :: "injection \<Rightarrow> network \<Rightarrow> exec_ctx \<Rightarrow> item list \<Rightarrow> item list list result" where
  "coinbase_execute inject net ctx items =
     rbind (coinbase_resolve_credentials ctx) (\<lambda>(injector, payload).
     let seed = (if items = [] then [mk_item []] else items) in
     rbind (each_item (\<lambda>i it. let client = net ''https://api.exchange.coinbase.com'' i in
         coinbase_dispatch_one inject ctx it client injector payload) seed) (\<lambda>results.
     Inr [results]))"

lemma coinbase_resolve_credentials_ok: "prepares ctx (coinbase_resolve_credentials ctx)"
  unfolding coinbase_resolve_credentials_def by (rule prepares_rules)+

lemma coinbase_dispatch_one_ok:
  "answers ctx it (injected inject (injector, creds) client) (shape_ok coinbase_shape) (coinbase_dispatch_one inject ctx it client injector creds)"
  unfolding coinbase_dispatch_one_def prod.case
  by ((rule request_builder.answers_build [OF coinbase.request_builder_axioms] answers_if answers_rules)+;
      (rule answers_return, assumption, assumption)?; simp add: mk_request_def Let_def dict_simps del: map_of_eq_Some_iff)

text \<open>What \<open>execute\<close> computes before its loop.\<close>

definition coinbase_prepare where
  "coinbase_prepare ctx =
     rbind (coinbase_resolve_credentials ctx) (\<lambda>(injector, payload).
     Inr (''https://api.exchange.coinbase.com'', injector, payload))"

lemma coinbase_prepare_ok: "prepares ctx (coinbase_prepare ctx)"
  unfolding coinbase_prepare_def by (rule coinbase_resolve_credentials_ok prepares_rules)+

interpretation coinbase_node: http_node "coinbase_execute inject" coinbase_prepare
  "\<lambda>(address, injector, payload). address" "\<lambda>ctx (address, injector, payload) client it. coinbase_dispatch_one
      inject ctx it client injector payload"
  "\<lambda>(address, injector, payload). injected inject (injector, payload)" "shape_ok coinbase_shape" for inject
proof (rule http_node.intro, goal_cases)
  case 1 show ?case by (simp only: coinbase_execute_def coinbase_prepare_def prepare_simps)
next
  case 2 show ?case by (rule coinbase_prepare_ok)
next
  case 3 show ?case by (simp add: coinbase_dispatch_one_ok split: prod.split)
qed

section \<open>Discord\<close>

definition discord_resolve_token :: "exec_ctx \<Rightarrow> string result" where
  "discord_resolve_token ctx =
     rbind (load_credential ctx ''discord_bot'') (\<lambda>credential.
     (case credential of
       None \<Rightarrow> raise NodeExecutionError ''Discord: a Discord bot credential is required''
     | Some credential \<Rightarrow>
       let (unused, payload) = credential in
       let token = text_param (ctx_fr ctx) payload ''bot_token'' in
       if token = [] then raise NodeExecutionError (''Discord: credential has an empty 'bot_token'' @ [CHR
           0x27])
       else Inr token))"

definition discord_error_message :: "json \<Rightarrow> int \<Rightarrow> string" where
  "discord_error_message payload status_code =
     (if is_obj payload then (let message = dict_get (obj_of payload) ''message'' JNull in
       if is_str message \<and> py_bool message then str_of message
       else ''HTTP '' @ show_int status_code)
     else ''HTTP '' @ show_int status_code)"

definition discord_dispatch_one :: "exec_ctx \<Rightarrow> item \<Rightarrow> http_client \<Rightarrow> string \<Rightarrow> item result" where
  "discord_dispatch_one ctx it client token =
     rbind (resolved_params ctx (Some it)) (\<lambda>params.
     let operation = py_strip (py_str (ctx_fr ctx) (param_or params ''operation'' (JStr ''send_message''))) in
     if operation \<notin> set [''send_message'', ''get_channel'', ''edit_message'', ''delete_message''] then raise
         NodeExecutionError (''Discord: unsupported operation '' @ repr_str operation)
     else rbind (node_error_from ValueError (\<lambda>exc. exc)
         (discord_build_request (ctx_fr ctx) operation params)) (\<lambda>(method, path, body).
     rbind (node_error_from HTTPError (\<lambda>exc. ''Discord: network error on '' @ operation @ '': '' @ exc)
         (client ((mk_request method path)\<lparr>rq_json := map_option JObj body, rq_headers := [(''Authorization'',
             JStr (''Bot '' @ token)), (''Content-Type'', JStr ''application/json'')]\<rparr>))) (\<lambda>response.
     let payload = safe_json response in
     let result = [(''operation'', JStr operation), (''status'', JInt (rs_status response)), (''response'',
         payload)] in
     if 400 \<le> (rs_status response) then (let error = discord_error_message payload (rs_status response) in
       raise NodeExecutionError (''Discord '' @ operation @ '' failed (HTTP '' @ show_int (rs_status response)
           @ ''): '' @ error))
     else Inr (mk_item result))))"

definition discord_execute :: "network \<Rightarrow> exec_ctx \<Rightarrow> item list \<Rightarrow> item list list result" where
  "discord_execute net ctx items =
     rbind (discord_resolve_token ctx) (\<lambda>token.
     let seed = (if items = [] then [mk_item []] else items) in
     rbind (each_item (\<lambda>i it. let client = net ''https://discord.com'' i in
         discord_dispatch_one ctx it client token) seed) (\<lambda>results.
     Inr [results]))"

lemma discord_resolve_token_ok: "prepares ctx (discord_resolve_token ctx)"
  unfolding discord_resolve_token_def by (rule prepares_rules)+

lemma discord_dispatch_one_ok:
  "answers ctx it (client) (shape_ok discord_shape) (discord_dispatch_one ctx it client token)"
  unfolding discord_dispatch_one_def prod.case
  by ((rule request_builder.answers_build [OF discord.request_builder_axioms] answers_if answers_rules)+;
      (rule answers_return, assumption, assumption)?; simp add: mk_request_def Let_def dict_simps del: map_of_eq_Some_iff)

text \<open>What \<open>execute\<close> computes before its loop.\<close>

definition discord_prepare where
  "discord_prepare ctx =
     rbind (discord_resolve_token ctx) (\<lambda>token.
     Inr (''https://discord.com'', token))"

lemma discord_prepare_ok: "prepares ctx (discord_prepare ctx)"
  unfolding discord_prepare_def by (rule discord_resolve_token_ok prepares_rules)+

interpretation discord_node: http_node "discord_execute" discord_prepare
  "\<lambda>(address, token). address" "\<lambda>ctx (address, token) client it. discord_dispatch_one ctx it client token"
  "\<lambda>_ client. client" "shape_ok discord_shape"
proof (rule http_node.intro, goal_cases)
  case 1 show ?case by (simp only: discord_execute_def discord_prepare_def prepare_simps)
next
  case 2 show ?case by (rule discord_prepare_ok)
next
  case 3 show ?case by (simp add: discord_dispatch_one_ok split: prod.split)
qed

section \<open>Facebook\<close>

definition facebook_resolve_credentials :: "exec_ctx \<Rightarrow> (string \<times> jobj) result" where
  "facebook_resolve_credentials ctx =
     rbind (load_credential ctx ''facebook_graph'') (\<lambda>credential.
     (case credential of
       None \<Rightarrow> raise NodeExecutionError ''Facebook: a facebook_graph credential is required''
     | Some credential \<Rightarrow>
       let (injector, payload) = credential in
       let token = text_param (ctx_fr ctx) payload ''access_token'' in
       if token = [] then raise NodeExecutionError (''Facebook: credential has an empty 'access_token'' @ [CHR
           0x27])
       else Inr (injector, payload)))"

definition facebook_error_message :: "(rat \<Rightarrow> string) \<Rightarrow> json \<Rightarrow> int \<Rightarrow> string" where
  "facebook_error_message fr payload status_code =
     (if is_obj payload then (let error = dict_get (obj_of payload) ''error'' JNull in
       if is_obj error then (let message = dict_get (obj_of error) ''message'' JNull in
         if is_str message \<and> py_bool message then str_of message
         else let code = dict_get (obj_of error) ''code'' JNull in
         if code \<noteq> JNull then ''code='' @ py_str fr code
         else ''HTTP '' @ show_int status_code)
       else ''HTTP '' @ show_int status_code)
     else ''HTTP '' @ show_int status_code)"

definition facebook_dispatch_one :: "injection \<Rightarrow> exec_ctx \<Rightarrow> item \<Rightarrow> http_client \<Rightarrow> string \<Rightarrow> jobj \<Rightarrow> item result"
    where
  "facebook_dispatch_one inject ctx it client injector creds =
     rbind (resolved_params ctx (Some it)) (\<lambda>params.
     let operation = py_strip (py_str (ctx_fr ctx) (param_or params ''operation'' (JStr ''get_me''))) in
     if operation \<notin> set [''get_me'', ''get_node'', ''list_edge'', ''create_edge'', ''delete_node''] then raise
         NodeExecutionError (''Facebook: unsupported operation '' @ repr_str operation)
     else rbind (node_error_from ValueError (\<lambda>exc. exc)
         (facebook_build_request (ctx_fr ctx) operation params)) (\<lambda>(method, path, body, query).
     let request_headers = [(''Accept'', JStr ''application/json'')] in
     let request_headers = (if body \<noteq> None then dict_set ''Content-Type'' (JStr ''application/json'')
         request_headers else request_headers) in
     let request = (mk_request method path)\<lparr>rq_params := (if query = [] then None else Some query), rq_json :=
         map_option JObj body, rq_headers := request_headers\<rparr> in
     rbind (inject injector creds request) (\<lambda>request.
     rbind (node_error_from HTTPError (\<lambda>exc. ''Facebook: network error on '' @ operation @ '': '' @ exc)
         (client request)) (\<lambda>response.
     let payload = safe_json response in
     let result = [(''operation'', JStr operation), (''status'', JInt (rs_status response)), (''response'',
         payload)] in
     if 400 \<le> (rs_status response) then (let error = facebook_error_message (ctx_fr ctx) payload (rs_status
         response) in
       raise NodeExecutionError (''Facebook '' @ operation @ '' failed (HTTP '' @ show_int (rs_status response)
           @ ''): '' @ error))
     else Inr (mk_item result)))))"

definition facebook_execute :: "injection \<Rightarrow> network \<Rightarrow> exec_ctx \<Rightarrow> item list \<Rightarrow> item list list result" where
  "facebook_execute inject net ctx items =
     rbind (facebook_resolve_credentials ctx) (\<lambda>(injector, payload).
     let version = py_strip (py_str (ctx_fr ctx) (param_or payload ''api_version'' (JStr ''v21.0''))) in
     let base_url = ''https://graph.facebook.com'' @ ''/'' @ version in
     let seed = (if items = [] then [mk_item []] else items) in
     rbind (each_item (\<lambda>i it. let client = net base_url i in
         facebook_dispatch_one inject ctx it client injector payload) seed) (\<lambda>results.
     Inr [results]))"

lemma facebook_resolve_credentials_ok: "prepares ctx (facebook_resolve_credentials ctx)"
  unfolding facebook_resolve_credentials_def by (rule prepares_rules)+

lemma facebook_dispatch_one_ok:
  "answers ctx it (injected inject (injector, creds) client) (shape_ok facebook_shape) (facebook_dispatch_one inject ctx it client injector creds)"
  unfolding facebook_dispatch_one_def prod.case
  by ((rule request_builder.answers_build [OF facebook.request_builder_axioms] answers_if answers_rules)+;
      (rule answers_return, assumption, assumption)?; simp add: mk_request_def Let_def dict_simps del: map_of_eq_Some_iff)

text \<open>What \<open>execute\<close> computes before its loop.\<close>

definition facebook_prepare where
  "facebook_prepare ctx =
     rbind (facebook_resolve_credentials ctx) (\<lambda>(injector, payload).
     let version = py_strip (py_str (ctx_fr ctx) (param_or payload ''api_version'' (JStr ''v21.0''))) in
     let base_url = ''https://graph.facebook.com'' @ ''/'' @ version in
     Inr (base_url, injector, payload))"

lemma facebook_prepare_ok: "prepares ctx (facebook_prepare ctx)"
  unfolding facebook_prepare_def by (rule facebook_resolve_credentials_ok prepares_rules)+

interpretation facebook_node: http_node "facebook_execute inject" facebook_prepare
  "\<lambda>(address, injector, payload). address" "\<lambda>ctx (address, injector, payload) client it. facebook_dispatch_one
      inject ctx it client injector payload"
  "\<lambda>(address, injector, payload). injected inject (injector, payload)" "shape_ok facebook_shape" for inject
proof (rule http_node.intro, goal_cases)
  case 1 show ?case by (simp only: facebook_execute_def facebook_prepare_def prepare_simps)
next
  case 2 show ?case by (rule facebook_prepare_ok)
next
  case 3 show ?case by (simp add: facebook_dispatch_one_ok split: prod.split)
qed

section \<open>Ga4\<close>

definition ga4_resolve_credentials :: "exec_ctx \<Rightarrow> (string \<times> jobj) result" where
  "ga4_resolve_credentials ctx =
     rbind (load_credential ctx ''ga4_measurement'') (\<lambda>credential.
     (case credential of
       None \<Rightarrow> raise NodeExecutionError ''GA4: a ga4_measurement credential is required''
     | Some credential \<Rightarrow>
       let (injector, payload) = credential in
       if text_param (ctx_fr ctx) payload ''measurement_id'' = [] then raise NodeExecutionError
           (''GA4: credential has an empty 'measurement_id'' @ [CHR 0x27])
       else if text_param (ctx_fr ctx) payload ''api_secret'' = [] then raise NodeExecutionError
           (''GA4: credential has an empty 'api_secret'' @ [CHR 0x27])
       else Inr (injector, payload)))"

definition ga4_error_message :: "json \<Rightarrow> int \<Rightarrow> string" where
  "ga4_error_message parsed status_code =
     (if is_obj parsed then (let value = dict_get (obj_of parsed) ''error'' JNull in
       if is_str value \<and> py_bool value then str_of value
       else let value = dict_get (obj_of parsed) ''message'' JNull in
       if is_str value \<and> py_bool value then str_of value
       else ''HTTP '' @ show_int status_code)
     else ''HTTP '' @ show_int status_code)"

definition ga4_dispatch_one :: "injection \<Rightarrow> exec_ctx \<Rightarrow> item \<Rightarrow> http_client \<Rightarrow> string \<Rightarrow> jobj \<Rightarrow> item result" where
  "ga4_dispatch_one inject ctx it client injector creds =
     rbind (resolved_params ctx (Some it)) (\<lambda>params.
     let operation = py_strip (py_str (ctx_fr ctx) (param_or params ''operation'' (JStr ''track_event''))) in
     if operation \<notin> set [''track_event'', ''track_events'', ''validate_event'', ''user_properties''] then raise
         NodeExecutionError (''GA4: unsupported operation '' @ repr_str operation)
     else rbind (node_error_from ValueError (\<lambda>exc. exc)
         (ga4_build_request (ctx_fr ctx) operation params)) (\<lambda>(method, path, body, query).
     let request = (mk_request method path)\<lparr>rq_params := (if query = [] then None else Some query), rq_json :=
         Some (JObj body), rq_headers := [(''Accept'', JStr ''application/json''), (''Content-Type'', JStr
         ''application/json'')]\<rparr> in
     rbind (inject injector creds request) (\<lambda>request.
     rbind (node_error_from HTTPError (\<lambda>exc. ''GA4: network error on '' @ operation @ '': '' @ exc)
         (client request)) (\<lambda>response.
     let parsed = safe_json response in
     let result = [(''operation'', JStr operation), (''status'', JInt (rs_status response)), (''response'',
         parsed)] in
     if 400 \<le> (rs_status response) then (let error = ga4_error_message parsed (rs_status response) in
       raise NodeExecutionError (''GA4 '' @ operation @ '' failed (HTTP '' @ show_int (rs_status response) @
           ''): '' @ error))
     else Inr (mk_item result)))))"

definition ga4_execute :: "injection \<Rightarrow> network \<Rightarrow> exec_ctx \<Rightarrow> item list \<Rightarrow> item list list result" where
  "ga4_execute inject net ctx items =
     rbind (ga4_resolve_credentials ctx) (\<lambda>(injector, payload).
     let seed = (if items = [] then [mk_item []] else items) in
     rbind (each_item (\<lambda>i it. let client = net ''https://www.google-analytics.com'' i in
         ga4_dispatch_one inject ctx it client injector payload) seed) (\<lambda>results.
     Inr [results]))"

lemma ga4_resolve_credentials_ok: "prepares ctx (ga4_resolve_credentials ctx)"
  unfolding ga4_resolve_credentials_def by (rule prepares_rules)+

lemma ga4_dispatch_one_ok:
  "answers ctx it (injected inject (injector, creds) client) (shape_ok ga4_shape) (ga4_dispatch_one inject ctx it client injector creds)"
  unfolding ga4_dispatch_one_def prod.case
  by ((rule request_builder.answers_build [OF ga4.request_builder_axioms] answers_if answers_rules)+;
      (rule answers_return, assumption, assumption)?; simp add: mk_request_def Let_def dict_simps del: map_of_eq_Some_iff)

text \<open>What \<open>execute\<close> computes before its loop.\<close>

definition ga4_prepare where
  "ga4_prepare ctx =
     rbind (ga4_resolve_credentials ctx) (\<lambda>(injector, payload).
     Inr (''https://www.google-analytics.com'', injector, payload))"

lemma ga4_prepare_ok: "prepares ctx (ga4_prepare ctx)"
  unfolding ga4_prepare_def by (rule ga4_resolve_credentials_ok prepares_rules)+

interpretation ga4_node: http_node "ga4_execute inject" ga4_prepare
  "\<lambda>(address, injector, payload). address" "\<lambda>ctx (address, injector, payload) client it. ga4_dispatch_one
      inject ctx it client injector payload"
  "\<lambda>(address, injector, payload). injected inject (injector, payload)" "shape_ok ga4_shape" for inject
proof (rule http_node.intro, goal_cases)
  case 1 show ?case by (simp only: ga4_execute_def ga4_prepare_def prepare_simps)
next
  case 2 show ?case by (rule ga4_prepare_ok)
next
  case 3 show ?case by (simp add: ga4_dispatch_one_ok split: prod.split)
qed

section \<open>Ghost\<close>

definition ghost_resolve_credentials :: "exec_ctx \<Rightarrow> (string \<times> jobj) result" where
  "ghost_resolve_credentials ctx =
     rbind (load_credential ctx ''ghost_admin'') (\<lambda>credential.
     (case credential of
       None \<Rightarrow> raise NodeExecutionError ''Ghost: a ghost_admin credential is required''
     | Some credential \<Rightarrow>
       let (injector, payload) = credential in
       if text_param (ctx_fr ctx) payload ''admin_api_key'' = [] then raise NodeExecutionError
           (''Ghost: credential has an empty 'admin_api_key'' @ [CHR 0x27])
       else Inr (injector, payload)))"

definition ghost_error_message :: "json \<Rightarrow> int \<Rightarrow> string" where
  "ghost_error_message payload status_code =
     (if is_obj payload then (let errors = dict_get (obj_of payload) ''errors'' JNull in
       if is_arr errors \<and> py_bool errors then (let first = hd (arr_of errors) in
         if is_obj first then (let message = dict_get (obj_of first) ''message'' JNull in
           if is_str message \<and> py_bool message then str_of message
           else let context = dict_get (obj_of first) ''context'' JNull in
           if is_str context \<and> py_bool context then str_of context
           else let message = dict_get (obj_of payload) ''message'' JNull in
           if is_str message \<and> py_bool message then str_of message
           else ''HTTP '' @ show_int status_code)
         else (let message = dict_get (obj_of payload) ''message'' JNull in
           if is_str message \<and> py_bool message then str_of message
           else ''HTTP '' @ show_int status_code))
       else (let message = dict_get (obj_of payload) ''message'' JNull in
         if is_str message \<and> py_bool message then str_of message
         else ''HTTP '' @ show_int status_code))
     else ''HTTP '' @ show_int status_code)"

definition ghost_dispatch_one :: "injection \<Rightarrow> exec_ctx \<Rightarrow> item \<Rightarrow> http_client \<Rightarrow> string \<Rightarrow> jobj \<Rightarrow> item result" where
  "ghost_dispatch_one inject ctx it client injector creds =
     rbind (resolved_params ctx (Some it)) (\<lambda>params.
     let operation = py_strip (py_str (ctx_fr ctx) (param_or params ''operation'' (JStr ''list_posts''))) in
     if operation \<notin> set [''list_posts'', ''get_post'', ''create_post'', ''update_post'', ''delete_post'',
         ''list_members'', ''create_member''] then raise NodeExecutionError (''Ghost: unsupported operation ''
         @ repr_str operation)
     else rbind (node_error_from ValueError (\<lambda>exc. exc)
         (ghost_build_request (ctx_fr ctx) operation params)) (\<lambda>(method, path, body, query).
     let request_headers = [(''Accept'', JStr ''application/json'')] in
     let request_headers = (if body \<noteq> None then dict_set ''Content-Type'' (JStr ''application/json'')
         request_headers else request_headers) in
     let request = (mk_request method path)\<lparr>rq_params := (if query = [] then None else Some query), rq_json :=
         map_option JObj body, rq_headers := request_headers\<rparr> in
     rbind (inject injector creds request) (\<lambda>request.
     rbind (node_error_from HTTPError (\<lambda>exc. ''Ghost: network error on '' @ operation @ '': '' @ exc)
         (client request)) (\<lambda>response.
     let payload = safe_json response in
     let result = [(''operation'', JStr operation), (''status'', JInt (rs_status response)), (''response'',
         payload)] in
     if 400 \<le> (rs_status response) then (let error = ghost_error_message payload (rs_status response) in
       raise NodeExecutionError (''Ghost '' @ operation @ '' failed (HTTP '' @ show_int (rs_status response) @
           ''): '' @ error))
     else Inr (mk_item result)))))"

definition ghost_execute :: "injection \<Rightarrow> network \<Rightarrow> exec_ctx \<Rightarrow> item list \<Rightarrow> item list list result" where
  "ghost_execute inject net ctx items =
     rbind (ghost_resolve_credentials ctx) (\<lambda>(injector, payload).
     let base_url = rstrip_chars (\<lambda>c. c \<in> set ''/'') (text_param (ctx_fr ctx) payload ''base_url'') in
     if base_url = [] then raise NodeExecutionError (''Ghost: credential has an empty 'base_url'' @ [CHR 0x27])
     else let seed = (if items = [] then [mk_item []] else items) in
     rbind (each_item (\<lambda>i it. let client = net base_url i in
         ghost_dispatch_one inject ctx it client injector payload) seed) (\<lambda>results.
     Inr [results]))"

lemma ghost_resolve_credentials_ok: "prepares ctx (ghost_resolve_credentials ctx)"
  unfolding ghost_resolve_credentials_def by (rule prepares_rules)+

lemma ghost_dispatch_one_ok:
  "answers ctx it (injected inject (injector, creds) client) (shape_ok ghost_shape) (ghost_dispatch_one inject ctx it client injector creds)"
  unfolding ghost_dispatch_one_def prod.case
  by ((rule request_builder.answers_build [OF ghost.request_builder_axioms] answers_if answers_rules)+;
      (rule answers_return, assumption, assumption)?; simp add: mk_request_def Let_def dict_simps del: map_of_eq_Some_iff)

text \<open>What \<open>execute\<close> computes before its loop.\<close>

definition ghost_prepare where
  "ghost_prepare ctx =
     rbind (ghost_resolve_credentials ctx) (\<lambda>(injector, payload).
     let base_url = rstrip_chars (\<lambda>c. c \<in> set ''/'') (text_param (ctx_fr ctx) payload ''base_url'') in
     if base_url = [] then raise NodeExecutionError (''Ghost: credential has an empty 'base_url'' @ [CHR 0x27])
     else Inr (base_url, injector, payload))"

lemma ghost_prepare_ok: "prepares ctx (ghost_prepare ctx)"
  unfolding ghost_prepare_def by (rule ghost_resolve_credentials_ok prepares_rules)+

interpretation ghost_node: http_node "ghost_execute inject" ghost_prepare
  "\<lambda>(address, injector, payload). address" "\<lambda>ctx (address, injector, payload) client it. ghost_dispatch_one
      inject ctx it client injector payload"
  "\<lambda>(address, injector, payload). injected inject (injector, payload)" "shape_ok ghost_shape" for inject
proof (rule http_node.intro, goal_cases)
  case 1 show ?case by (simp only: ghost_execute_def ghost_prepare_def prepare_simps)
next
  case 2 show ?case by (rule ghost_prepare_ok)
next
  case 3 show ?case by (simp add: ghost_dispatch_one_ok split: prod.split)
qed

section \<open>Github\<close>

definition github_resolve_token :: "exec_ctx \<Rightarrow> string result" where
  "github_resolve_token ctx =
     rbind (load_credential ctx ''github_api'') (\<lambda>credential.
     (case credential of
       None \<Rightarrow> raise NodeExecutionError ''GitHub: a bearer-token credential is required''
     | Some credential \<Rightarrow>
       let (unused, payload) = credential in
       let token = text_param (ctx_fr ctx) payload ''token'' in
       if token = [] then raise NodeExecutionError (''GitHub: credential has an empty 'token'' @ [CHR 0x27])
       else Inr token))"

definition github_error_message :: "json \<Rightarrow> int \<Rightarrow> string" where
  "github_error_message payload status_code =
     (if is_obj payload then (let message = dict_get (obj_of payload) ''message'' JNull in
       if is_str message \<and> py_bool message then str_of message
       else ''HTTP '' @ show_int status_code)
     else ''HTTP '' @ show_int status_code)"

definition github_dispatch_one :: "exec_ctx \<Rightarrow> item \<Rightarrow> http_client \<Rightarrow> string \<Rightarrow> item result" where
  "github_dispatch_one ctx it client token =
     rbind (resolved_params ctx (Some it)) (\<lambda>params.
     let operation = py_strip (py_str (ctx_fr ctx) (param_or params ''operation'' (JStr ''create_issue''))) in
     if operation \<notin> set [''create_issue'', ''list_issues'', ''get_repo'', ''create_comment''] then raise
         NodeExecutionError (''GitHub: unsupported operation '' @ repr_str operation)
     else rbind (node_error_from ValueError (\<lambda>exc. exc)
         (github_build_request (ctx_fr ctx) operation params)) (\<lambda>(method, path, body, query).
     rbind (node_error_from HTTPError (\<lambda>exc. ''GitHub: network error on '' @ operation @ '': '' @ exc)
         (client ((mk_request method path)\<lparr>rq_params := (if query = [] then None else Some query), rq_json :=
             map_option JObj body, rq_headers := [(''Authorization'', JStr (''Bearer '' @ token)), (''Accept'',
             JStr ''application/vnd.github+json''), (''X-GitHub-Api-Version'', JStr ''2022-11-28'')]\<rparr>)))
             (\<lambda>response.
     let payload = safe_json_any response in
     let result = [(''operation'', JStr operation), (''status'', JInt (rs_status response)), (''response'',
         payload)] in
     let result = (if operation = ''list_issues'' then dict_set ''issues'' (if is_arr payload then payload else
         JArr []) result else result) in
     if 400 \<le> (rs_status response) then (let error = github_error_message payload (rs_status response) in
       raise NodeExecutionError (''GitHub '' @ operation @ '' failed (HTTP '' @ show_int (rs_status response) @
           ''): '' @ error))
     else Inr (mk_item result))))"

definition github_execute :: "network \<Rightarrow> exec_ctx \<Rightarrow> item list \<Rightarrow> item list list result" where
  "github_execute net ctx items =
     rbind (github_resolve_token ctx) (\<lambda>token.
     let seed = (if items = [] then [mk_item []] else items) in
     rbind (each_item (\<lambda>i it. let client = net ''https://api.github.com'' i in
         github_dispatch_one ctx it client token) seed) (\<lambda>results.
     Inr [results]))"

lemma github_resolve_token_ok: "prepares ctx (github_resolve_token ctx)"
  unfolding github_resolve_token_def by (rule prepares_rules)+

lemma github_dispatch_one_ok:
  "answers ctx it (client) (shape_ok github_shape) (github_dispatch_one ctx it client token)"
  unfolding github_dispatch_one_def prod.case
  by ((rule request_builder.answers_build [OF github.request_builder_axioms] answers_if answers_rules)+;
      (rule answers_return, assumption, assumption)?; simp add: mk_request_def Let_def dict_simps del: map_of_eq_Some_iff)

text \<open>What \<open>execute\<close> computes before its loop.\<close>

definition github_prepare where
  "github_prepare ctx =
     rbind (github_resolve_token ctx) (\<lambda>token.
     Inr (''https://api.github.com'', token))"

lemma github_prepare_ok: "prepares ctx (github_prepare ctx)"
  unfolding github_prepare_def by (rule github_resolve_token_ok prepares_rules)+

interpretation github_node: http_node "github_execute" github_prepare
  "\<lambda>(address, token). address" "\<lambda>ctx (address, token) client it. github_dispatch_one ctx it client token"
  "\<lambda>_ client. client" "shape_ok github_shape"
proof (rule http_node.intro, goal_cases)
  case 1 show ?case by (simp only: github_execute_def github_prepare_def prepare_simps)
next
  case 2 show ?case by (rule github_prepare_ok)
next
  case 3 show ?case by (simp add: github_dispatch_one_ok split: prod.split)
qed

section \<open>Gitlab\<close>

definition gitlab_resolve_credentials :: "exec_ctx \<Rightarrow> (string \<times> string) result" where
  "gitlab_resolve_credentials ctx =
     rbind (load_credential ctx ''gitlab_api'') (\<lambda>credential.
     (case credential of
       None \<Rightarrow> raise NodeExecutionError ''GitLab: a gitlab_token credential is required''
     | Some credential \<Rightarrow>
       let (unused, payload) = credential in
       let token = text_param (ctx_fr ctx) payload ''access_token'' in
       if token = [] then raise NodeExecutionError (''GitLab: credential has an empty 'access_token'' @ [CHR
           0x27])
       else let base_url = rstrip_chars (\<lambda>c. c \<in> set ''/'') (py_strip (py_str (ctx_fr ctx) (param_or payload
           ''base_url'' (JStr ''https://gitlab.com'')))) in
       let base_url = (if base_url = [] then ''https://gitlab.com'' else base_url) in
       Inr (base_url, token)))"

definition gitlab_error_message :: "(rat \<Rightarrow> string) \<Rightarrow> json \<Rightarrow> int \<Rightarrow> string" where
  "gitlab_error_message fr payload status_code =
     (if is_obj payload then (let message = param_or (obj_of payload) ''message'' (dict_get (obj_of payload)
         ''error'' JNull) in
       if is_str message \<and> py_bool message then str_of message
       else if is_obj message \<and> py_bool message then join ''; '' (map (\<lambda>(k, v). k @ '': '' @ py_str fr v)
           (obj_of message))
       else if is_arr message \<and> py_bool message then join ''; '' (map (\<lambda>m. py_str fr m) (arr_of message))
       else ''HTTP '' @ show_int status_code)
     else ''HTTP '' @ show_int status_code)"

definition gitlab_dispatch_one :: "exec_ctx \<Rightarrow> item \<Rightarrow> http_client \<Rightarrow> string \<Rightarrow> item result" where
  "gitlab_dispatch_one ctx it client token =
     rbind (resolved_params ctx (Some it)) (\<lambda>params.
     let operation = py_strip (py_str (ctx_fr ctx) (param_or params ''operation'' (JStr ''get_issue''))) in
     if operation \<notin> set [''get_issue'', ''create_issue'', ''update_issue'', ''list_issues'', ''add_comment'',
         ''list_merge_requests''] then raise NodeExecutionError (''GitLab: unsupported operation '' @ repr_str
         operation)
     else rbind (node_error_from ValueError (\<lambda>exc. exc)
         (gitlab_build_request (ctx_fr ctx) operation params)) (\<lambda>(method, path, body, query).
     rbind (node_error_from HTTPError (\<lambda>exc. ''GitLab: network error on '' @ operation @ '': '' @ exc)
         (client ((mk_request method path)\<lparr>rq_params := (if query = [] then None else Some query), rq_json :=
             map_option JObj body, rq_headers := [(''PRIVATE-TOKEN'', JStr token), (''Accept'', JStr
             ''application/json''), (''Content-Type'', JStr ''application/json'')]\<rparr>))) (\<lambda>response.
     let payload = safe_json response in
     let result = [(''operation'', JStr operation), (''status'', JInt (rs_status response)), (''response'',
         payload)] in
     let result = (if operation = ''list_issues'' \<and> is_arr payload then dict_set ''issues'' payload result else
         (if operation = ''list_merge_requests'' \<and> is_arr payload then dict_set ''merge_requests'' payload
         result else result)) in
     if 400 \<le> (rs_status response) then (let error = gitlab_error_message (ctx_fr ctx) payload (rs_status
         response) in
       raise NodeExecutionError (''GitLab '' @ operation @ '' failed (HTTP '' @ show_int (rs_status response) @
           ''): '' @ error))
     else Inr (mk_item result))))"

definition gitlab_execute :: "network \<Rightarrow> exec_ctx \<Rightarrow> item list \<Rightarrow> item list list result" where
  "gitlab_execute net ctx items =
     rbind (gitlab_resolve_credentials ctx) (\<lambda>(base_url, token).
     let seed = (if items = [] then [mk_item []] else items) in
     rbind (each_item (\<lambda>i it. let client = net base_url i in
         gitlab_dispatch_one ctx it client token) seed) (\<lambda>results.
     Inr [results]))"

lemma gitlab_resolve_credentials_ok: "prepares ctx (gitlab_resolve_credentials ctx)"
  unfolding gitlab_resolve_credentials_def by (rule prepares_rules)+

lemma gitlab_dispatch_one_ok:
  "answers ctx it (client) (shape_ok gitlab_shape) (gitlab_dispatch_one ctx it client token)"
  unfolding gitlab_dispatch_one_def prod.case
  by ((rule request_builder.answers_build [OF gitlab.request_builder_axioms] answers_if answers_rules)+;
      (rule answers_return, assumption, assumption)?; simp add: mk_request_def Let_def dict_simps del: map_of_eq_Some_iff)

text \<open>What \<open>execute\<close> computes before its loop.\<close>

definition gitlab_prepare where
  "gitlab_prepare ctx =
     rbind (gitlab_resolve_credentials ctx) (\<lambda>(base_url, token).
     Inr (base_url, token))"

lemma gitlab_prepare_ok: "prepares ctx (gitlab_prepare ctx)"
  unfolding gitlab_prepare_def by (rule gitlab_resolve_credentials_ok prepares_rules)+

interpretation gitlab_node: http_node "gitlab_execute" gitlab_prepare
  "\<lambda>(address, token). address" "\<lambda>ctx (address, token) client it. gitlab_dispatch_one ctx it client token"
  "\<lambda>_ client. client" "shape_ok gitlab_shape"
proof (rule http_node.intro, goal_cases)
  case 1 show ?case by (simp only: gitlab_execute_def gitlab_prepare_def prepare_simps)
next
  case 2 show ?case by (rule gitlab_prepare_ok)
next
  case 3 show ?case by (simp add: gitlab_dispatch_one_ok split: prod.split)
qed

end
