(* ===== verification/Nodes_3.thy ===== *)
theory Nodes_3
  imports Http Builders_4 Builders_5 Credential_Types_3
begin

text \<open>
  The integration nodes \<open>harvest\<close>, \<open>hubspot\<close>, \<open>intercom\<close>, \<open>jira\<close>, \<open>mapbox\<close>, \<open>mattermost\<close>, \<open>notion\<close> (\<open>nodes/integrations/<name>/node.py\<close>), one definition per function: the
  resolution of credentials, the message of an error response, the dispatch of one item and
  \<open>execute\<close>. Log calls are left out. Each \<open><name>_dispatch_one_ok\<close> shows what a dispatch promises and
  the interpretation lifts it to the node.
\<close>

section \<open>Harvest\<close>

definition harvest_resolve_credentials :: "exec_ctx \<Rightarrow> (string \<times> jobj) result" where
  "harvest_resolve_credentials ctx =
     rbind (load_credential ctx ''harvest_api'') (\<lambda>credential.
     (case credential of
       None \<Rightarrow> raise NodeExecutionError ''Harvest: a harvest_api credential is required''
     | Some credential \<Rightarrow>
       let (injector, payload) = credential in
       if text_param (ctx_fr ctx) payload ''access_token'' = [] then raise NodeExecutionError
           (''Harvest: credential has an empty 'access_token'' @ [CHR 0x27])
       else if text_param (ctx_fr ctx) payload ''account_id'' = [] then raise NodeExecutionError
           (''Harvest: credential has an empty 'account_id'' @ [CHR 0x27])
       else Inr (injector, payload)))"

definition harvest_error_message :: "json \<Rightarrow> int \<Rightarrow> string" where
  "harvest_error_message parsed status_code =
     (if is_obj parsed then (let value = dict_get (obj_of parsed) ''error_description'' JNull in
       if is_str value \<and> py_bool value then str_of value
       else let value = dict_get (obj_of parsed) ''message'' JNull in
       if is_str value \<and> py_bool value then str_of value
       else let value = dict_get (obj_of parsed) ''error'' JNull in
       if is_str value \<and> py_bool value then str_of value
       else ''HTTP '' @ show_int status_code)
     else ''HTTP '' @ show_int status_code)"

definition harvest_dispatch_one :: "injection \<Rightarrow> exec_ctx \<Rightarrow> item \<Rightarrow> http_client \<Rightarrow> string \<Rightarrow> jobj \<Rightarrow> item result"
    where
  "harvest_dispatch_one inject ctx it client injector creds =
     rbind (resolved_params ctx (Some it)) (\<lambda>params.
     let operation = py_strip (py_str (ctx_fr ctx) (param_or params ''operation'' (JStr
         ''list_time_entries''))) in
     if operation \<notin> set [''list_time_entries'', ''create_time_entry'', ''list_projects'', ''get_user_me''] then
         raise NodeExecutionError (''Harvest: unsupported operation '' @ repr_str operation)
     else rbind (node_error_from ValueError (\<lambda>exc. exc)
         (harvest_build_request (ctx_fr ctx) operation params)) (\<lambda>(method, path, body, query).
     let headers = [(''Accept'', JStr ''application/json'')] in
     let headers = (if body \<noteq> None then dict_set ''Content-Type'' (JStr ''application/json'') headers else
         headers) in
     let request = (mk_request method path)\<lparr>rq_params := (if query = [] then None else Some query), rq_json :=
         map_option JObj body, rq_headers := headers\<rparr> in
     rbind (inject injector creds request) (\<lambda>request.
     rbind (node_error_from HTTPError (\<lambda>exc. ''Harvest: network error on '' @ operation @ '': '' @ exc)
         (client request)) (\<lambda>response.
     let parsed = safe_json response in
     let result = [(''operation'', JStr operation), (''status'', JInt (rs_status response)), (''response'',
         parsed)] in
     if 400 \<le> (rs_status response) then (let error = harvest_error_message parsed (rs_status response) in
       raise NodeExecutionError (''Harvest '' @ operation @ '' failed (HTTP '' @ show_int (rs_status response)
           @ ''): '' @ error))
     else Inr (mk_item result)))))"

definition harvest_execute :: "injection \<Rightarrow> network \<Rightarrow> exec_ctx \<Rightarrow> item list \<Rightarrow> item list list result" where
  "harvest_execute inject net ctx items =
     rbind (harvest_resolve_credentials ctx) (\<lambda>(injector, payload).
     let seed = (if items = [] then [mk_item []] else items) in
     rbind (each_item (\<lambda>i it. let client = net ''https://api.harvestapp.com'' i in
         harvest_dispatch_one inject ctx it client injector payload) seed) (\<lambda>results.
     Inr [results]))"

lemma harvest_resolve_credentials_ok: "prepares ctx (harvest_resolve_credentials ctx)"
  unfolding harvest_resolve_credentials_def by (rule prepares_rules)+

lemma harvest_dispatch_one_ok:
  "answers ctx it (injected inject (injector, creds) client) (shape_ok harvest_shape) (harvest_dispatch_one inject ctx it client injector creds)"
  unfolding harvest_dispatch_one_def prod.case
  by ((rule request_builder.answers_build [OF harvest.request_builder_axioms] answers_if answers_rules)+;
      (rule answers_return, assumption, assumption)?; simp add: mk_request_def Let_def dict_simps del: map_of_eq_Some_iff)

text \<open>What \<open>execute\<close> computes before its loop.\<close>

definition harvest_prepare where
  "harvest_prepare ctx =
     rbind (harvest_resolve_credentials ctx) (\<lambda>(injector, payload).
     Inr (''https://api.harvestapp.com'', injector, payload))"

lemma harvest_prepare_ok: "prepares ctx (harvest_prepare ctx)"
  unfolding harvest_prepare_def by (rule harvest_resolve_credentials_ok prepares_rules)+

interpretation harvest_node: http_node "harvest_execute inject" harvest_prepare
  "\<lambda>(address, injector, payload). address" "\<lambda>ctx (address, injector, payload) client it. harvest_dispatch_one
      inject ctx it client injector payload"
  "\<lambda>(address, injector, payload). injected inject (injector, payload)" "shape_ok harvest_shape" for inject
proof (rule http_node.intro, goal_cases)
  case 1 show ?case by (simp only: harvest_execute_def harvest_prepare_def prepare_simps)
next
  case 2 show ?case by (rule harvest_prepare_ok)
next
  case 3 show ?case by (simp add: harvest_dispatch_one_ok split: prod.split)
qed

section \<open>Hubspot\<close>

definition hubspot_resolve_token :: "exec_ctx \<Rightarrow> string result" where
  "hubspot_resolve_token ctx =
     rbind (load_credential ctx ''hubspot_api'') (\<lambda>credential.
     (case credential of
       None \<Rightarrow> raise NodeExecutionError ''HubSpot: a hubspot_private_app credential is required''
     | Some credential \<Rightarrow>
       let (unused, payload) = credential in
       let token = text_param (ctx_fr ctx) payload ''access_token'' in
       if token = [] then raise NodeExecutionError (''HubSpot: credential has an empty 'access_token'' @ [CHR
           0x27])
       else Inr token))"

definition hubspot_error_message :: "json \<Rightarrow> int \<Rightarrow> string" where
  "hubspot_error_message payload status_code =
     (if is_obj payload then (let message = dict_get (obj_of payload) ''message'' JNull in
       if is_str message \<and> py_bool message then str_of message
       else let category = dict_get (obj_of payload) ''category'' JNull in
       if is_str category \<and> py_bool category then str_of category
       else ''HTTP '' @ show_int status_code)
     else ''HTTP '' @ show_int status_code)"

definition hubspot_dispatch_one :: "exec_ctx \<Rightarrow> item \<Rightarrow> http_client \<Rightarrow> string \<Rightarrow> item result" where
  "hubspot_dispatch_one ctx it client token =
     rbind (resolved_params ctx (Some it)) (\<lambda>params.
     let operation = py_strip (py_str (ctx_fr ctx) (param_or params ''operation'' (JStr ''get_contact''))) in
     if operation \<notin> set [''create_contact'', ''update_contact'', ''get_contact'', ''delete_contact'',
         ''search_contacts''] then raise NodeExecutionError (''HubSpot: unsupported operation '' @ repr_str
         operation)
     else rbind (node_error_from ValueError (\<lambda>exc. exc)
         (hubspot_build_request (ctx_fr ctx) operation params)) (\<lambda>(method, path, body, query).
     rbind (node_error_from HTTPError (\<lambda>exc. ''HubSpot: network error on '' @ operation @ '': '' @ exc)
         (client ((mk_request method path)\<lparr>rq_params := (if query = [] then None else Some query), rq_json :=
             map_option JObj body, rq_headers := [(''Authorization'', JStr (''Bearer '' @ token)),
             (''Content-Type'', JStr ''application/json'')]\<rparr>))) (\<lambda>response.
     let payload = safe_json response in
     let result = [(''operation'', JStr operation), (''status'', JInt (rs_status response)), (''response'',
         payload)] in
     let result = (if operation = ''search_contacts'' \<and> is_obj payload then (let results_list = dict_get
         (obj_of payload) ''results'' (JArr []) in
       dict_set ''results'' (if is_arr results_list then results_list else JArr []) result) else result) in
     if 400 \<le> (rs_status response) then (let error = hubspot_error_message payload (rs_status response) in
       raise NodeExecutionError (''HubSpot '' @ operation @ '' failed (HTTP '' @ show_int (rs_status response)
           @ ''): '' @ error))
     else Inr (mk_item result))))"

definition hubspot_execute :: "network \<Rightarrow> exec_ctx \<Rightarrow> item list \<Rightarrow> item list list result" where
  "hubspot_execute net ctx items =
     rbind (hubspot_resolve_token ctx) (\<lambda>token.
     let seed = (if items = [] then [mk_item []] else items) in
     rbind (each_item (\<lambda>i it. let client = net ''https://api.hubapi.com'' i in
         hubspot_dispatch_one ctx it client token) seed) (\<lambda>results.
     Inr [results]))"

lemma hubspot_resolve_token_ok: "prepares ctx (hubspot_resolve_token ctx)"
  unfolding hubspot_resolve_token_def by (rule prepares_rules)+

lemma hubspot_dispatch_one_ok:
  "answers ctx it (client) (shape_ok hubspot_shape) (hubspot_dispatch_one ctx it client token)"
  unfolding hubspot_dispatch_one_def prod.case
  by ((rule request_builder.answers_build [OF hubspot.request_builder_axioms] answers_if answers_rules)+;
      (rule answers_return, assumption, assumption)?; simp add: mk_request_def Let_def dict_simps del: map_of_eq_Some_iff)

text \<open>What \<open>execute\<close> computes before its loop.\<close>

definition hubspot_prepare where
  "hubspot_prepare ctx =
     rbind (hubspot_resolve_token ctx) (\<lambda>token.
     Inr (''https://api.hubapi.com'', token))"

lemma hubspot_prepare_ok: "prepares ctx (hubspot_prepare ctx)"
  unfolding hubspot_prepare_def by (rule hubspot_resolve_token_ok prepares_rules)+

interpretation hubspot_node: http_node "hubspot_execute" hubspot_prepare
  "\<lambda>(address, token). address" "\<lambda>ctx (address, token) client it. hubspot_dispatch_one ctx it client token"
  "\<lambda>_ client. client" "shape_ok hubspot_shape"
proof (rule http_node.intro, goal_cases)
  case 1 show ?case by (simp only: hubspot_execute_def hubspot_prepare_def prepare_simps)
next
  case 2 show ?case by (rule hubspot_prepare_ok)
next
  case 3 show ?case by (simp add: hubspot_dispatch_one_ok split: prod.split)
qed

section \<open>Intercom\<close>

definition intercom_resolve_credentials :: "exec_ctx \<Rightarrow> (string \<times> string) result" where
  "intercom_resolve_credentials ctx =
     rbind (load_credential ctx ''intercom_api'') (\<lambda>credential.
     (case credential of
       None \<Rightarrow> raise NodeExecutionError ''Intercom: an intercom_api credential is required''
     | Some credential \<Rightarrow>
       let (unused, payload) = credential in
       let token = text_param (ctx_fr ctx) payload ''access_token'' in
       if token = [] then raise NodeExecutionError (''Intercom: credential has an empty 'access_token'' @ [CHR
           0x27])
       else let version = (if py_strip (py_str (ctx_fr ctx) (param_or payload ''api_version'' (JStr ''2.11'')))
           \<noteq> [] then py_strip (py_str (ctx_fr ctx) (param_or payload ''api_version'' (JStr ''2.11''))) else
           ''2.11'') in
       Inr (token, version)))"

definition intercom_error_message :: "(rat \<Rightarrow> string) \<Rightarrow> json \<Rightarrow> int \<Rightarrow> string" where
  "intercom_error_message fr payload status_code =
     (if is_obj payload then (let errors = dict_get (obj_of payload) ''errors'' JNull in
       if is_arr errors \<and> py_bool errors then (let parts = ([] :: string list) in
         let parts = foldl (\<lambda>parts err.
             (if is_obj err then (let code = dict_get (obj_of err) ''code'' JNull in
               let message = dict_get (obj_of err) ''message'' JNull in
               (if py_bool message then parts @ [(if py_bool code then py_str fr code @ '': '' @ py_str fr
                   message else py_str fr message)] else parts)) else parts)) parts (arr_of errors) in
         if parts \<noteq> [] then join ''; '' parts
         else let message = dict_get (obj_of payload) ''message'' JNull in
         if is_str message \<and> py_bool message then str_of message
         else ''HTTP '' @ show_int status_code)
       else (let message = dict_get (obj_of payload) ''message'' JNull in
         if is_str message \<and> py_bool message then str_of message
         else ''HTTP '' @ show_int status_code))
     else ''HTTP '' @ show_int status_code)"

definition intercom_dispatch_one :: "exec_ctx \<Rightarrow> item \<Rightarrow> http_client \<Rightarrow> string \<Rightarrow> string \<Rightarrow> item result" where
  "intercom_dispatch_one ctx it client token version =
     rbind (resolved_params ctx (Some it)) (\<lambda>params.
     let operation = py_strip (py_str (ctx_fr ctx) (param_or params ''operation'' (JStr ''get_contact''))) in
     if operation \<notin> set [''create_contact'', ''update_contact'', ''get_contact'', ''search_contacts'',
         ''create_conversation'', ''reply_conversation''] then raise NodeExecutionError
         (''Intercom: unsupported operation '' @ repr_str operation)
     else rbind (node_error_from ValueError (\<lambda>exc. exc)
         (intercom_build_request (ctx_fr ctx) operation params)) (\<lambda>(method, path, body, query).
     rbind (node_error_from HTTPError (\<lambda>exc. ''Intercom: network error on '' @ operation @ '': '' @ exc)
         (client ((mk_request method path)\<lparr>rq_params := (if query = [] then None else Some query), rq_json :=
             map_option JObj body, rq_headers := [(''Authorization'', JStr (''Bearer '' @ token)),
             (''Intercom-Version'', JStr version), (''Accept'', JStr ''application/json''), (''Content-Type'',
             JStr ''application/json'')]\<rparr>))) (\<lambda>response.
     let payload = safe_json response in
     let result = [(''operation'', JStr operation), (''status'', JInt (rs_status response)), (''response'',
         payload)] in
     let result = (if operation = ''search_contacts'' \<and> is_obj payload then (let data = dict_get (obj_of
         payload) ''data'' (JArr []) in
       dict_set ''data'' (if is_arr data then data else JArr []) result) else result) in
     if 400 \<le> (rs_status response) then (let error = intercom_error_message (ctx_fr ctx) payload (rs_status
         response) in
       raise NodeExecutionError (''Intercom '' @ operation @ '' failed (HTTP '' @ show_int (rs_status response)
           @ ''): '' @ error))
     else Inr (mk_item result))))"

definition intercom_execute :: "network \<Rightarrow> exec_ctx \<Rightarrow> item list \<Rightarrow> item list list result" where
  "intercom_execute net ctx items =
     rbind (intercom_resolve_credentials ctx) (\<lambda>(token, version).
     let seed = (if items = [] then [mk_item []] else items) in
     rbind (each_item (\<lambda>i it. let client = net ''https://api.intercom.io'' i in
         intercom_dispatch_one ctx it client token version) seed) (\<lambda>results.
     Inr [results]))"

lemma intercom_resolve_credentials_ok: "prepares ctx (intercom_resolve_credentials ctx)"
  unfolding intercom_resolve_credentials_def by (rule prepares_rules)+

lemma intercom_dispatch_one_ok:
  "answers ctx it (client) (shape_ok intercom_shape) (intercom_dispatch_one ctx it client token version)"
  unfolding intercom_dispatch_one_def prod.case
  by ((rule request_builder.answers_build [OF intercom.request_builder_axioms] answers_if answers_rules)+;
      (rule answers_return, assumption, assumption)?; simp add: mk_request_def Let_def dict_simps del: map_of_eq_Some_iff)

text \<open>What \<open>execute\<close> computes before its loop.\<close>

definition intercom_prepare where
  "intercom_prepare ctx =
     rbind (intercom_resolve_credentials ctx) (\<lambda>(token, version).
     Inr (''https://api.intercom.io'', token, version))"

lemma intercom_prepare_ok: "prepares ctx (intercom_prepare ctx)"
  unfolding intercom_prepare_def by (rule intercom_resolve_credentials_ok prepares_rules)+

interpretation intercom_node: http_node "intercom_execute" intercom_prepare
  "\<lambda>(address, token, version). address" "\<lambda>ctx (address, token, version) client it. intercom_dispatch_one ctx it
      client token version"
  "\<lambda>_ client. client" "shape_ok intercom_shape"
proof (rule http_node.intro, goal_cases)
  case 1 show ?case by (simp only: intercom_execute_def intercom_prepare_def prepare_simps)
next
  case 2 show ?case by (rule intercom_prepare_ok)
next
  case 3 show ?case by (simp add: intercom_dispatch_one_ok split: prod.split)
qed

section \<open>Jira\<close>

definition jira_resolve_credentials :: "exec_ctx \<Rightarrow> (string \<times> string) result" where
  "jira_resolve_credentials ctx =
     rbind (load_credential ctx ''jira_cloud'') (\<lambda>credential.
     (case credential of
       None \<Rightarrow> raise NodeExecutionError ''Jira: a jira_cloud credential is required''
     | Some credential \<Rightarrow>
       let (unused, payload) = credential in
       let site = text_param (ctx_fr ctx) payload ''site'' in
       let email = text_param (ctx_fr ctx) payload ''email'' in
       let token = text_param (ctx_fr ctx) payload ''api_token'' in
       if site = [] \<or> email = [] \<or> token = [] then raise NodeExecutionError
           (''Jira: credential must have 'site', 'email', and 'api_token'' @ [CHR 0x27])
       else let encoded = b64encode (email @ '':'' @ token) in
       Inr (site, ''Basic '' @ encoded)))"

definition jira_error_message :: "(rat \<Rightarrow> string) \<Rightarrow> json \<Rightarrow> int \<Rightarrow> string" where
  "jira_error_message fr payload status_code =
     (if is_obj payload then (let messages = dict_get (obj_of payload) ''errorMessages'' JNull in
       if is_arr messages \<and> py_bool messages then join ''; '' (map (\<lambda>m. py_str fr m) (arr_of messages))
       else let errors = dict_get (obj_of payload) ''errors'' JNull in
       if is_obj errors \<and> py_bool errors then join ''; '' (map (\<lambda>(k, v). k @ '': '' @ py_str fr v) (obj_of
           errors))
       else let message = dict_get (obj_of payload) ''message'' JNull in
       if is_str message \<and> py_bool message then str_of message
       else ''HTTP '' @ show_int status_code)
     else ''HTTP '' @ show_int status_code)"

definition jira_dispatch_one :: "exec_ctx \<Rightarrow> item \<Rightarrow> http_client \<Rightarrow> string \<Rightarrow> item result" where
  "jira_dispatch_one ctx it client auth_header =
     rbind (resolved_params ctx (Some it)) (\<lambda>params.
     let operation = py_strip (py_str (ctx_fr ctx) (param_or params ''operation'' (JStr ''get_issue''))) in
     if operation \<notin> set [''get_issue'', ''create_issue'', ''update_issue'', ''delete_issue'',
         ''search_issues'', ''add_comment''] then raise NodeExecutionError (''Jira: unsupported operation '' @
         repr_str operation)
     else rbind (node_error_from ValueError (\<lambda>exc. exc)
         (jira_build_request (ctx_fr ctx) operation params)) (\<lambda>(method, path, body, query).
     rbind (node_error_from HTTPError (\<lambda>exc. ''Jira: network error on '' @ operation @ '': '' @ exc)
         (client ((mk_request method path)\<lparr>rq_params := (if query = [] then None else Some query), rq_json :=
             map_option JObj body, rq_headers := [(''Authorization'', JStr auth_header), (''Accept'', JStr
             ''application/json''), (''Content-Type'', JStr ''application/json'')]\<rparr>))) (\<lambda>response.
     let payload = safe_json response in
     let result = [(''operation'', JStr operation), (''status'', JInt (rs_status response)), (''response'',
         payload)] in
     let result = (if operation = ''search_issues'' \<and> is_obj payload then (let issues = dict_get (obj_of
         payload) ''issues'' (JArr []) in
       dict_set ''issues'' (if is_arr issues then issues else JArr []) result) else result) in
     if 400 \<le> (rs_status response) then (let error = jira_error_message (ctx_fr ctx) payload (rs_status
         response) in
       raise NodeExecutionError (''Jira '' @ operation @ '' failed (HTTP '' @ show_int (rs_status response) @
           ''): '' @ error))
     else Inr (mk_item result))))"

definition jira_execute :: "network \<Rightarrow> exec_ctx \<Rightarrow> item list \<Rightarrow> item list list result" where
  "jira_execute net ctx items =
     rbind (jira_resolve_credentials ctx) (\<lambda>(site, auth_header).
     let seed = (if items = [] then [mk_item []] else items) in
     let base_url = ''https://'' @ site @ ''.atlassian.net'' in
     rbind (each_item (\<lambda>i it. let client = net base_url i in
         jira_dispatch_one ctx it client auth_header) seed) (\<lambda>results.
     Inr [results]))"

lemma jira_resolve_credentials_ok: "prepares ctx (jira_resolve_credentials ctx)"
  unfolding jira_resolve_credentials_def by (rule prepares_rules)+

lemma jira_dispatch_one_ok:
  "answers ctx it (client) (shape_ok jira_shape) (jira_dispatch_one ctx it client auth_header)"
  unfolding jira_dispatch_one_def prod.case
  by ((rule request_builder.answers_build [OF jira.request_builder_axioms] answers_if answers_rules)+;
      (rule answers_return, assumption, assumption)?; simp add: mk_request_def Let_def dict_simps del: map_of_eq_Some_iff)

text \<open>What \<open>execute\<close> computes before its loop.\<close>

definition jira_prepare where
  "jira_prepare ctx =
     rbind (jira_resolve_credentials ctx) (\<lambda>(site, auth_header).
     let base_url = ''https://'' @ site @ ''.atlassian.net'' in
     Inr (base_url, auth_header))"

lemma jira_prepare_ok: "prepares ctx (jira_prepare ctx)"
  unfolding jira_prepare_def by (rule jira_resolve_credentials_ok prepares_rules)+

interpretation jira_node: http_node "jira_execute" jira_prepare
  "\<lambda>(address, auth_header). address" "\<lambda>ctx (address, auth_header) client it. jira_dispatch_one ctx it client
      auth_header"
  "\<lambda>_ client. client" "shape_ok jira_shape"
proof (rule http_node.intro, goal_cases)
  case 1 show ?case by (simp only: jira_execute_def jira_prepare_def prepare_simps)
next
  case 2 show ?case by (rule jira_prepare_ok)
next
  case 3 show ?case by (simp add: jira_dispatch_one_ok split: prod.split)
qed

section \<open>Mapbox\<close>

definition mapbox_resolve_credentials :: "exec_ctx \<Rightarrow> (string \<times> jobj) result" where
  "mapbox_resolve_credentials ctx =
     rbind (load_credential ctx ''mapbox_api'') (\<lambda>credential.
     (case credential of
       None \<Rightarrow> raise NodeExecutionError ''Mapbox: a mapbox_api credential is required''
     | Some credential \<Rightarrow>
       let (injector, payload) = credential in
       let token = text_param (ctx_fr ctx) payload ''access_token'' in
       if token = [] then raise NodeExecutionError (''Mapbox: credential has an empty 'access_token'' @ [CHR
           0x27])
       else Inr (injector, payload)))"

definition mapbox_error_message :: "json \<Rightarrow> int \<Rightarrow> string" where
  "mapbox_error_message payload status_code =
     (if is_obj payload then (let message = dict_get (obj_of payload) ''message'' JNull in
       if is_str message \<and> py_bool message then str_of message
       else let error = dict_get (obj_of payload) ''error'' JNull in
       if is_str error \<and> py_bool error then str_of error
       else ''HTTP '' @ show_int status_code)
     else ''HTTP '' @ show_int status_code)"

definition mapbox_dispatch_one :: "injection \<Rightarrow> exec_ctx \<Rightarrow> item \<Rightarrow> http_client \<Rightarrow> string \<Rightarrow> jobj \<Rightarrow> item result"
    where
  "mapbox_dispatch_one inject ctx it client injector creds =
     rbind (resolved_params ctx (Some it)) (\<lambda>params.
     let operation = py_strip (py_str (ctx_fr ctx) (param_or params ''operation'' (JStr ''forward_geocode'')))
         in
     if operation \<notin> set [''forward_geocode'', ''reverse_geocode'', ''directions'', ''matrix'', ''isochrone'']
         then raise NodeExecutionError (''Mapbox: unsupported operation '' @ repr_str operation)
     else rbind (node_error_from ValueError (\<lambda>exc. exc)
         (mapbox_build_request (ctx_fr ctx) operation params)) (\<lambda>(method, path, body, query).
     let request_headers = [(''Accept'', JStr ''application/json'')] in
     let request_headers = (if body \<noteq> None then dict_set ''Content-Type'' (JStr ''application/json'')
         request_headers else request_headers) in
     let request = (mk_request method path)\<lparr>rq_params := (if query = [] then None else Some query), rq_json :=
         map_option JObj body, rq_headers := request_headers\<rparr> in
     rbind (inject injector creds request) (\<lambda>request.
     rbind (node_error_from HTTPError (\<lambda>exc. ''Mapbox: network error on '' @ operation @ '': '' @ exc)
         (client request)) (\<lambda>response.
     let payload = safe_json response in
     let result = [(''operation'', JStr operation), (''status'', JInt (rs_status response)), (''response'',
         payload)] in
     if 400 \<le> (rs_status response) then (let error = mapbox_error_message payload (rs_status response) in
       raise NodeExecutionError (''Mapbox '' @ operation @ '' failed (HTTP '' @ show_int (rs_status response) @
           ''): '' @ error))
     else Inr (mk_item result)))))"

definition mapbox_execute :: "injection \<Rightarrow> network \<Rightarrow> exec_ctx \<Rightarrow> item list \<Rightarrow> item list list result" where
  "mapbox_execute inject net ctx items =
     rbind (mapbox_resolve_credentials ctx) (\<lambda>(injector, payload).
     let seed = (if items = [] then [mk_item []] else items) in
     rbind (each_item (\<lambda>i it. let client = net ''https://api.mapbox.com'' i in
         mapbox_dispatch_one inject ctx it client injector payload) seed) (\<lambda>results.
     Inr [results]))"

lemma mapbox_resolve_credentials_ok: "prepares ctx (mapbox_resolve_credentials ctx)"
  unfolding mapbox_resolve_credentials_def by (rule prepares_rules)+

lemma mapbox_dispatch_one_ok:
  "answers ctx it (injected inject (injector, creds) client) (shape_ok mapbox_shape) (mapbox_dispatch_one inject ctx it client injector creds)"
  unfolding mapbox_dispatch_one_def prod.case
  by ((rule request_builder.answers_build [OF mapbox.request_builder_axioms] answers_if answers_rules)+;
      (rule answers_return, assumption, assumption)?; simp add: mk_request_def Let_def dict_simps del: map_of_eq_Some_iff)

text \<open>What \<open>execute\<close> computes before its loop.\<close>

definition mapbox_prepare where
  "mapbox_prepare ctx =
     rbind (mapbox_resolve_credentials ctx) (\<lambda>(injector, payload).
     Inr (''https://api.mapbox.com'', injector, payload))"

lemma mapbox_prepare_ok: "prepares ctx (mapbox_prepare ctx)"
  unfolding mapbox_prepare_def by (rule mapbox_resolve_credentials_ok prepares_rules)+

interpretation mapbox_node: http_node "mapbox_execute inject" mapbox_prepare
  "\<lambda>(address, injector, payload). address" "\<lambda>ctx (address, injector, payload) client it. mapbox_dispatch_one
      inject ctx it client injector payload"
  "\<lambda>(address, injector, payload). injected inject (injector, payload)" "shape_ok mapbox_shape" for inject
proof (rule http_node.intro, goal_cases)
  case 1 show ?case by (simp only: mapbox_execute_def mapbox_prepare_def prepare_simps)
next
  case 2 show ?case by (rule mapbox_prepare_ok)
next
  case 3 show ?case by (simp add: mapbox_dispatch_one_ok split: prod.split)
qed

section \<open>Mattermost\<close>

definition mattermost_resolve_credentials :: "exec_ctx \<Rightarrow> (string \<times> string) result" where
  "mattermost_resolve_credentials ctx =
     rbind (load_credential ctx ''mattermost_api'') (\<lambda>credential.
     (case credential of
       None \<Rightarrow> raise NodeExecutionError ''Mattermost: a mattermost_api credential is required''
     | Some credential \<Rightarrow>
       let (unused, payload) = credential in
       let token = text_param (ctx_fr ctx) payload ''access_token'' in
       if token = [] then raise NodeExecutionError (''Mattermost: credential has an empty 'access_token'' @
           [CHR 0x27])
       else let base_url = text_param (ctx_fr ctx) payload ''base_url'' in
       if base_url = [] then raise NodeExecutionError (''Mattermost: credential has an empty 'base_url'' @ [CHR
           0x27])
       else Inr (token, base_url)))"

definition mattermost_error_message :: "(rat \<Rightarrow> string) \<Rightarrow> json \<Rightarrow> int \<Rightarrow> string" where
  "mattermost_error_message fr payload status_code =
     (if is_obj payload then (let message = dict_get (obj_of payload) ''message'' JNull in
       if is_str message \<and> py_bool message then (let detailed = dict_get (obj_of payload) ''detailed_error''
           JNull in
         if is_str detailed \<and> py_bool detailed then py_str fr message @ '': '' @ py_str fr detailed
         else str_of message)
       else let detailed = dict_get (obj_of payload) ''detailed_error'' JNull in
       if is_str detailed \<and> py_bool detailed then str_of detailed
       else ''HTTP '' @ show_int status_code)
     else ''HTTP '' @ show_int status_code)"

definition mattermost_dispatch_one :: "exec_ctx \<Rightarrow> item \<Rightarrow> http_client \<Rightarrow> string \<Rightarrow> item result" where
  "mattermost_dispatch_one ctx it client token =
     rbind (resolved_params ctx (Some it)) (\<lambda>params.
     let operation = py_strip (py_str (ctx_fr ctx) (param_or params ''operation'' (JStr ''post_message''))) in
     if operation \<notin> set [''post_message'', ''update_post'', ''delete_post'', ''get_channel'',
         ''list_channels_for_user'', ''get_user_by_username''] then raise NodeExecutionError
         (''Mattermost: unsupported operation '' @ repr_str operation)
     else rbind (node_error_from ValueError (\<lambda>exc. exc)
         (mattermost_build_request (ctx_fr ctx) operation params)) (\<lambda>(method, path, body, query).
     rbind (node_error_from HTTPError (\<lambda>exc. ''Mattermost: network error on '' @ operation @ '': '' @ exc)
         (client ((mk_request method path)\<lparr>rq_params := (if query = [] then None else Some query), rq_json :=
             map_option JObj body, rq_headers := [(''Authorization'', JStr (''Bearer '' @ token)), (''Accept'',
             JStr ''application/json''), (''Content-Type'', JStr ''application/json'')]\<rparr>))) (\<lambda>response.
     let payload = safe_json response in
     let result = [(''operation'', JStr operation), (''status'', JInt (rs_status response)), (''response'',
         payload)] in
     if 400 \<le> (rs_status response) then (let error = mattermost_error_message (ctx_fr ctx) payload (rs_status
         response) in
       raise NodeExecutionError (''Mattermost '' @ operation @ '' failed (HTTP '' @ show_int (rs_status
           response) @ ''): '' @ error))
     else Inr (mk_item result))))"

definition mattermost_execute :: "network \<Rightarrow> exec_ctx \<Rightarrow> item list \<Rightarrow> item list list result" where
  "mattermost_execute net ctx items =
     rbind (mattermost_resolve_credentials ctx) (\<lambda>(token, base_url).
     rbind (node_error_from ValueError (\<lambda>exc. exc)
         (mattermost_api_base_url_from base_url)) (\<lambda>normalized_base.
     let seed = (if items = [] then [mk_item []] else items) in
     rbind (each_item (\<lambda>i it. let client = net normalized_base i in
         mattermost_dispatch_one ctx it client token) seed) (\<lambda>results.
     Inr [results])))"

lemma mattermost_resolve_credentials_ok: "prepares ctx (mattermost_resolve_credentials ctx)"
  unfolding mattermost_resolve_credentials_def by (rule mattermost_api_base_url_from_ok [THEN prepares_translated] prepares_rules)+

lemma mattermost_dispatch_one_ok:
  "answers ctx it (client) (shape_ok mattermost_shape) (mattermost_dispatch_one ctx it client token)"
  unfolding mattermost_dispatch_one_def prod.case
  by ((rule request_builder.answers_build [OF mattermost.request_builder_axioms] answers_if answers_rules)+;
      (rule answers_return, assumption, assumption)?; simp add: mk_request_def Let_def dict_simps del: map_of_eq_Some_iff)

text \<open>What \<open>execute\<close> computes before its loop.\<close>

definition mattermost_prepare where
  "mattermost_prepare ctx =
     rbind (mattermost_resolve_credentials ctx) (\<lambda>(token, base_url).
     rbind (node_error_from ValueError (\<lambda>exc. exc)
     (mattermost_api_base_url_from base_url)) (\<lambda>normalized_base.
     Inr (normalized_base, token)))"

lemma mattermost_prepare_ok: "prepares ctx (mattermost_prepare ctx)"
  unfolding mattermost_prepare_def by (rule mattermost_api_base_url_from_ok [THEN prepares_translated] mattermost_resolve_credentials_ok prepares_rules)+

interpretation mattermost_node: http_node "mattermost_execute" mattermost_prepare
  "\<lambda>(address, token). address" "\<lambda>ctx (address, token) client it. mattermost_dispatch_one ctx it client token"
  "\<lambda>_ client. client" "shape_ok mattermost_shape"
proof (rule http_node.intro, goal_cases)
  case 1 show ?case by (simp only: mattermost_execute_def mattermost_prepare_def prepare_simps)
next
  case 2 show ?case by (rule mattermost_prepare_ok)
next
  case 3 show ?case by (simp add: mattermost_dispatch_one_ok split: prod.split)
qed

section \<open>Notion\<close>

definition notion_resolve_credential :: "exec_ctx \<Rightarrow> (string \<times> string) result" where
  "notion_resolve_credential ctx =
     rbind (load_credential ctx ''notion_api'') (\<lambda>credential.
     (case credential of
       None \<Rightarrow> raise NodeExecutionError ''Notion: a Notion API credential is required''
     | Some credential \<Rightarrow>
       let (unused, payload) = credential in
       let token = text_param (ctx_fr ctx) payload ''access_token'' in
       if token = [] then raise NodeExecutionError (''Notion: credential has an empty 'access_token'' @ [CHR
           0x27])
       else let version = py_strip (py_str (ctx_fr ctx) (param_or payload ''notion_version'' (JStr
           ''2022-06-28''))) in
       Inr (token, (if version \<noteq> [] then version else ''2022-06-28''))))"

definition notion_error_message :: "json \<Rightarrow> int \<Rightarrow> string" where
  "notion_error_message payload status_code =
     (if is_obj payload then (let message = dict_get (obj_of payload) ''message'' JNull in
       if is_str message \<and> py_bool message then str_of message
       else ''HTTP '' @ show_int status_code)
     else ''HTTP '' @ show_int status_code)"

definition notion_dispatch_one :: "exec_ctx \<Rightarrow> item \<Rightarrow> http_client \<Rightarrow> string \<Rightarrow> string \<Rightarrow> item result" where
  "notion_dispatch_one ctx it client token notion_version =
     rbind (resolved_params ctx (Some it)) (\<lambda>params.
     let operation = py_strip (py_str (ctx_fr ctx) (param_or params ''operation'' (JStr ''query_database''))) in
     if operation \<notin> set [''query_database'', ''create_page'', ''retrieve_page''] then raise NodeExecutionError
         (''Notion: unsupported operation '' @ repr_str operation)
     else rbind (node_error_from ValueError (\<lambda>exc. exc)
         (notion_build_request (ctx_fr ctx) operation params)) (\<lambda>(method, path, body).
     rbind (node_error_from HTTPError (\<lambda>exc. ''Notion: network error on '' @ operation @ '': '' @ exc)
         (client ((mk_request method path)\<lparr>rq_json := map_option JObj body, rq_headers := [(''Authorization'',
             JStr (''Bearer '' @ token)), (''Notion-Version'', JStr notion_version), (''Content-Type'', JStr
             ''application/json'')]\<rparr>))) (\<lambda>response.
     let payload = safe_json_any response in
     let result = [(''operation'', JStr operation), (''status'', JInt (rs_status response)), (''response'',
         payload)] in
     let result = (if operation = ''query_database'' \<and> is_obj payload then (let value = dict_get (obj_of
         payload) ''results'' (JArr []) in
       dict_set ''results'' (if is_arr value then value else JArr []) result) else result) in
     if 400 \<le> (rs_status response) then (let error = notion_error_message payload (rs_status response) in
       raise NodeExecutionError (''Notion '' @ operation @ '' failed (HTTP '' @ show_int (rs_status response) @
           ''): '' @ error))
     else Inr (mk_item result))))"

definition notion_execute :: "network \<Rightarrow> exec_ctx \<Rightarrow> item list \<Rightarrow> item list list result" where
  "notion_execute net ctx items =
     rbind (notion_resolve_credential ctx) (\<lambda>(token, version).
     let seed = (if items = [] then [mk_item []] else items) in
     rbind (each_item (\<lambda>i it. let client = net ''https://api.notion.com'' i in
         notion_dispatch_one ctx it client token version) seed) (\<lambda>results.
     Inr [results]))"

lemma notion_resolve_credential_ok: "prepares ctx (notion_resolve_credential ctx)"
  unfolding notion_resolve_credential_def by (rule prepares_rules)+

lemma notion_dispatch_one_ok:
  "answers ctx it (client) (shape_ok notion_shape) (notion_dispatch_one ctx it client token notion_version)"
  unfolding notion_dispatch_one_def prod.case
  by ((rule request_builder.answers_build [OF notion.request_builder_axioms] answers_if answers_rules)+;
      (rule answers_return, assumption, assumption)?; simp add: mk_request_def Let_def dict_simps del: map_of_eq_Some_iff)

text \<open>What \<open>execute\<close> computes before its loop.\<close>

definition notion_prepare where
  "notion_prepare ctx =
     rbind (notion_resolve_credential ctx) (\<lambda>(token, version).
     Inr (''https://api.notion.com'', token, version))"

lemma notion_prepare_ok: "prepares ctx (notion_prepare ctx)"
  unfolding notion_prepare_def by (rule notion_resolve_credential_ok prepares_rules)+

interpretation notion_node: http_node "notion_execute" notion_prepare
  "\<lambda>(address, token, version). address" "\<lambda>ctx (address, token, version) client it. notion_dispatch_one ctx it
      client token version"
  "\<lambda>_ client. client" "shape_ok notion_shape"
proof (rule http_node.intro, goal_cases)
  case 1 show ?case by (simp only: notion_execute_def notion_prepare_def prepare_simps)
next
  case 2 show ?case by (rule notion_prepare_ok)
next
  case 3 show ?case by (simp add: notion_dispatch_one_ok split: prod.split)
qed

end
