(* ===== verification/Nodes_4.thy ===== *)
theory Nodes_4
  imports Http Builders_5 Builders_6 Credential_Types_3 Credential_Types_4
begin

text \<open>
  The integration nodes \<open>okta\<close>, \<open>pagerduty\<close>, \<open>pipedrive\<close>, \<open>plaid\<close>, \<open>quickbooks\<close>, \<open>shopify\<close>, \<open>snowflake\<close> (\<open>nodes/integrations/<name>/node.py\<close>), one definition per function: the
  resolution of credentials, the message of an error response, the dispatch of one item and
  \<open>execute\<close>. Log calls are left out. Each \<open><name>_dispatch_one_ok\<close> shows what a dispatch promises and
  the interpretation lifts it to the node.
\<close>

section \<open>Okta\<close>

definition okta_resolve_credentials :: "exec_ctx \<Rightarrow> (string \<times> string) result" where
  "okta_resolve_credentials ctx =
     rbind (load_credential ctx ''okta_api'') (\<lambda>credential.
     (case credential of
       None \<Rightarrow> raise NodeExecutionError ''Okta: an okta_api credential is required''
     | Some credential \<Rightarrow>
       let (unused, payload) = credential in
       let token = text_param (ctx_fr ctx) payload ''api_token'' in
       if token = [] then raise NodeExecutionError (''Okta: credential has an empty 'api_token'' @ [CHR 0x27])
       else let org_url = text_param (ctx_fr ctx) payload ''org_url'' in
       if org_url = [] then raise NodeExecutionError (''Okta: credential has an empty 'org_url'' @ [CHR 0x27])
       else Inr (token, org_url)))"

definition okta_error_message :: "(rat \<Rightarrow> string) \<Rightarrow> json \<Rightarrow> int \<Rightarrow> string" where
  "okta_error_message fr payload status_code =
     (if is_obj payload then (let summary = dict_get (obj_of payload) ''errorSummary'' JNull in
       let causes = dict_get (obj_of payload) ''errorCauses'' JNull in
       if is_str summary \<and> py_bool summary then (if is_arr causes \<and> py_bool causes then (let first = hd (arr_of
           causes) in
           if is_obj first then (let cause = dict_get (obj_of first) ''errorSummary'' JNull in
             if is_str cause \<and> py_bool cause then py_str fr summary @ '': '' @ py_str fr cause
             else str_of summary)
           else str_of summary)
         else str_of summary)
       else let message = dict_get (obj_of payload) ''message'' JNull in
       if is_str message \<and> py_bool message then str_of message
       else ''HTTP '' @ show_int status_code)
     else ''HTTP '' @ show_int status_code)"

definition okta_dispatch_one :: "exec_ctx \<Rightarrow> item \<Rightarrow> http_client \<Rightarrow> string \<Rightarrow> item result" where
  "okta_dispatch_one ctx it client auth_header =
     rbind (resolved_params ctx (Some it)) (\<lambda>params.
     let operation = py_strip (py_str (ctx_fr ctx) (param_or params ''operation'' (JStr ''list_users''))) in
     if operation \<notin> set [''list_users'', ''get_user'', ''create_user'', ''update_user'', ''deactivate_user'',
         ''list_groups''] then raise NodeExecutionError (''Okta: unsupported operation '' @ repr_str operation)
     else rbind (node_error_from ValueError (\<lambda>exc. exc)
         (okta_build_request (ctx_fr ctx) operation params)) (\<lambda>(method, path, body, query).
     rbind (node_error_from HTTPError (\<lambda>exc. ''Okta: network error on '' @ operation @ '': '' @ exc)
         (client ((mk_request method path)\<lparr>rq_params := (if query = [] then None else Some query), rq_json :=
             map_option JObj body, rq_headers := [(''Authorization'', JStr auth_header), (''Accept'', JStr
             ''application/json''), (''Content-Type'', JStr ''application/json'')]\<rparr>))) (\<lambda>response.
     let payload = safe_json response in
     let result = [(''operation'', JStr operation), (''status'', JInt (rs_status response)), (''response'',
         payload)] in
     if 400 \<le> (rs_status response) then (let error = okta_error_message (ctx_fr ctx) payload (rs_status
         response) in
       raise NodeExecutionError (''Okta '' @ operation @ '' failed (HTTP '' @ show_int (rs_status response) @
           ''): '' @ error))
     else Inr (mk_item result))))"

definition okta_execute :: "network \<Rightarrow> exec_ctx \<Rightarrow> item list \<Rightarrow> item list list result" where
  "okta_execute net ctx items =
     rbind (okta_resolve_credentials ctx) (\<lambda>(api_token, org_url).
     rbind (node_error_from ValueError (\<lambda>exc. exc)
         (okta_api_base_url_from org_url)) (\<lambda>base_url.
     let auth_header = okta_api_ssws_header api_token in
     let seed = (if items = [] then [mk_item []] else items) in
     rbind (each_item (\<lambda>i it. let client = net base_url i in
         okta_dispatch_one ctx it client auth_header) seed) (\<lambda>results.
     Inr [results])))"

lemma okta_resolve_credentials_ok: "prepares ctx (okta_resolve_credentials ctx)"
  unfolding okta_resolve_credentials_def by (rule okta_api_base_url_from_ok [THEN prepares_translated] prepares_rules)+

lemma okta_dispatch_one_ok:
  "answers ctx it (client) (shape_ok okta_shape) (okta_dispatch_one ctx it client auth_header)"
  unfolding okta_dispatch_one_def prod.case
  by ((rule request_builder.answers_build [OF okta.request_builder_axioms] answers_if answers_rules)+;
      (rule answers_return, assumption, assumption)?; simp add: mk_request_def Let_def dict_simps del: map_of_eq_Some_iff)

text \<open>What \<open>execute\<close> computes before its loop.\<close>

definition okta_prepare where
  "okta_prepare ctx =
     rbind (okta_resolve_credentials ctx) (\<lambda>(api_token, org_url).
     rbind (node_error_from ValueError (\<lambda>exc. exc)
     (okta_api_base_url_from org_url)) (\<lambda>base_url.
     let auth_header = okta_api_ssws_header api_token in
     Inr (base_url, auth_header)))"

lemma okta_prepare_ok: "prepares ctx (okta_prepare ctx)"
  unfolding okta_prepare_def by (rule okta_api_base_url_from_ok [THEN prepares_translated] okta_resolve_credentials_ok prepares_rules)+

interpretation okta_node: http_node "okta_execute" okta_prepare
  "\<lambda>(address, auth_header). address" "\<lambda>ctx (address, auth_header) client it. okta_dispatch_one ctx it client
      auth_header"
  "\<lambda>_ client. client" "shape_ok okta_shape"
proof (rule http_node.intro, goal_cases)
  case 1 show ?case by (simp only: okta_execute_def okta_prepare_def prepare_simps)
next
  case 2 show ?case by (rule okta_prepare_ok)
next
  case 3 show ?case by (simp add: okta_dispatch_one_ok split: prod.split)
qed

section \<open>Pagerduty\<close>

definition pagerduty_resolve_credentials :: "exec_ctx \<Rightarrow> (string \<times> string) result" where
  "pagerduty_resolve_credentials ctx =
     rbind (load_credential ctx ''pagerduty_api'') (\<lambda>credential.
     (case credential of
       None \<Rightarrow> raise NodeExecutionError ''PagerDuty: a pagerduty_api credential is required''
     | Some credential \<Rightarrow>
       let (unused, payload) = credential in
       let key = text_param (ctx_fr ctx) payload ''api_key'' in
       if key = [] then raise NodeExecutionError (''PagerDuty: credential has an empty 'api_key'' @ [CHR 0x27])
       else let default_from = text_param (ctx_fr ctx) payload ''from_email'' in
       Inr (key, default_from)))"

definition pagerduty_error_message :: "(rat \<Rightarrow> string) \<Rightarrow> json \<Rightarrow> int \<Rightarrow> string" where
  "pagerduty_error_message fr payload status_code =
     (if is_obj payload then (let error = dict_get (obj_of payload) ''error'' JNull in
       if is_obj error then (let message = dict_get (obj_of error) ''message'' JNull in
         let errors_list = dict_get (obj_of error) ''errors'' JNull in
         if is_arr errors_list \<and> py_bool errors_list then (let joined = join ''; '' (map (\<lambda>e. py_str fr e)
             (arr_of errors_list)) in
           (if py_bool message then py_str fr message @ '': '' @ joined else joined))
         else if is_str message \<and> py_bool message then str_of message
         else ''HTTP '' @ show_int status_code)
       else (if is_str error \<and> py_bool error then str_of error
         else ''HTTP '' @ show_int status_code))
     else ''HTTP '' @ show_int status_code)"

definition pagerduty_dispatch_one :: "exec_ctx \<Rightarrow> item \<Rightarrow> http_client \<Rightarrow> string \<Rightarrow> string \<Rightarrow> item result" where
  "pagerduty_dispatch_one ctx it client key default_from =
     rbind (resolved_params ctx (Some it)) (\<lambda>params.
     let operation = py_strip (py_str (ctx_fr ctx) (param_or params ''operation'' (JStr ''list_incidents''))) in
     if operation \<notin> set [''list_incidents'', ''get_incident'', ''create_incident'', ''update_incident'',
         ''add_note''] then raise NodeExecutionError (''PagerDuty: unsupported operation '' @ repr_str
         operation)
     else rbind (node_error_from ValueError (\<lambda>exc. exc)
         (pagerduty_build_request (ctx_fr ctx) operation params)) (\<lambda>(method, path, body, query).
     let headers = [(''Authorization'', JStr (''Token token='' @ key)), (''Accept'', JStr
         ''application/vnd.pagerduty+json;version=2''), (''Content-Type'', JStr ''application/json'')] in
     let override_from = text_param (ctx_fr ctx) params ''from_email'' in
     let from_email = (if override_from \<noteq> [] then override_from else default_from) in
     rbind (if operation \<in> set [''create_incident'', ''update_incident'', ''add_note''] then (if from_email =
         [] then raise NodeExecutionError ((''PagerDuty: '' @ [CHR 0x27]) @ operation @ ([CHR 0x27] @
         '' requires a 'from_email' (header or credential)''))
       else Inr (dict_set ''From'' (JStr from_email) headers)) else Inr (if from_email \<noteq> [] then dict_set
           ''From'' (JStr from_email) headers else headers)) (\<lambda>headers.
     rbind (node_error_from HTTPError (\<lambda>exc. ''PagerDuty: network error on '' @ operation @ '': '' @ exc)
         (client ((mk_request method path)\<lparr>rq_params := (if query = [] then None else Some query), rq_json :=
             map_option JObj body, rq_headers := headers\<rparr>))) (\<lambda>response.
     let payload = safe_json response in
     let result = [(''operation'', JStr operation), (''status'', JInt (rs_status response)), (''response'',
         payload)] in
     let result = (if operation = ''list_incidents'' \<and> is_obj payload then (let incidents = dict_get (obj_of
         payload) ''incidents'' (JArr []) in
       dict_set ''incidents'' (if is_arr incidents then incidents else JArr []) result) else result) in
     if 400 \<le> (rs_status response) then (let error = pagerduty_error_message (ctx_fr ctx) payload (rs_status
         response) in
       raise NodeExecutionError (''PagerDuty '' @ operation @ '' failed (HTTP '' @ show_int (rs_status
           response) @ ''): '' @ error))
     else Inr (mk_item result)))))"

definition pagerduty_execute :: "network \<Rightarrow> exec_ctx \<Rightarrow> item list \<Rightarrow> item list list result" where
  "pagerduty_execute net ctx items =
     rbind (pagerduty_resolve_credentials ctx) (\<lambda>(key, default_from).
     let seed = (if items = [] then [mk_item []] else items) in
     rbind (each_item (\<lambda>i it. let client = net ''https://api.pagerduty.com'' i in
         pagerduty_dispatch_one ctx it client key default_from) seed) (\<lambda>results.
     Inr [results]))"

lemma pagerduty_resolve_credentials_ok: "prepares ctx (pagerduty_resolve_credentials ctx)"
  unfolding pagerduty_resolve_credentials_def by (rule prepares_rules)+

lemma pagerduty_dispatch_one_ok:
  "answers ctx it (client) (shape_ok pagerduty_shape) (pagerduty_dispatch_one ctx it client key default_from)"
  unfolding pagerduty_dispatch_one_def prod.case
  by ((rule request_builder.answers_build [OF pagerduty.request_builder_axioms] answers_if answers_rules)+;
      (rule answers_return, assumption, assumption)?; simp add: mk_request_def Let_def dict_simps del: map_of_eq_Some_iff)

text \<open>What \<open>execute\<close> computes before its loop.\<close>

definition pagerduty_prepare where
  "pagerduty_prepare ctx =
     rbind (pagerduty_resolve_credentials ctx) (\<lambda>(key, default_from).
     Inr (''https://api.pagerduty.com'', key, default_from))"

lemma pagerduty_prepare_ok: "prepares ctx (pagerduty_prepare ctx)"
  unfolding pagerduty_prepare_def by (rule pagerduty_resolve_credentials_ok prepares_rules)+

interpretation pagerduty_node: http_node "pagerduty_execute" pagerduty_prepare
  "\<lambda>(address, key, default_from). address" "\<lambda>ctx (address, key, default_from) client it. pagerduty_dispatch_one
      ctx it client key default_from"
  "\<lambda>_ client. client" "shape_ok pagerduty_shape"
proof (rule http_node.intro, goal_cases)
  case 1 show ?case by (simp only: pagerduty_execute_def pagerduty_prepare_def prepare_simps)
next
  case 2 show ?case by (rule pagerduty_prepare_ok)
next
  case 3 show ?case by (simp add: pagerduty_dispatch_one_ok split: prod.split)
qed

section \<open>Pipedrive\<close>

definition pipedrive_resolve_credentials :: "exec_ctx \<Rightarrow> (string \<times> string) result" where
  "pipedrive_resolve_credentials ctx =
     rbind (load_credential ctx ''pipedrive_api'') (\<lambda>credential.
     (case credential of
       None \<Rightarrow> raise NodeExecutionError ''Pipedrive: a pipedrive_api credential is required''
     | Some credential \<Rightarrow>
       let (unused, payload) = credential in
       let token = text_param (ctx_fr ctx) payload ''api_token'' in
       if token = [] then raise NodeExecutionError (''Pipedrive: credential has an empty 'api_token'' @ [CHR
           0x27])
       else let company_domain = text_param (ctx_fr ctx) payload ''company_domain'' in
       if company_domain = [] then raise NodeExecutionError
           (''Pipedrive: credential has an empty 'company_domain'' @ [CHR 0x27])
       else Inr (token, company_domain)))"

definition pipedrive_error_message :: "(rat \<Rightarrow> string) \<Rightarrow> json \<Rightarrow> int \<Rightarrow> string" where
  "pipedrive_error_message fr payload status_code =
     (if is_obj payload then (let error = dict_get (obj_of payload) ''error'' JNull in
       if is_str error \<and> py_bool error then (let info = dict_get (obj_of payload) ''error_info'' JNull in
         (if py_bool info then py_str fr error @ '' ('' @ py_str fr info @ '')'' else str_of error))
       else let message = dict_get (obj_of payload) ''message'' JNull in
       if is_str message \<and> py_bool message then str_of message
       else ''HTTP '' @ show_int status_code)
     else ''HTTP '' @ show_int status_code)"

definition pipedrive_dispatch_one :: "exec_ctx \<Rightarrow> item \<Rightarrow> http_client \<Rightarrow> string \<Rightarrow> item result" where
  "pipedrive_dispatch_one ctx it client token =
     rbind (resolved_params ctx (Some it)) (\<lambda>params.
     let operation = py_strip (py_str (ctx_fr ctx) (param_or params ''operation'' (JStr ''list_deals''))) in
     if operation \<notin> set [''list_deals'', ''get_deal'', ''create_deal'', ''update_deal'', ''create_person'',
         ''create_activity''] then raise NodeExecutionError (''Pipedrive: unsupported operation '' @ repr_str
         operation)
     else rbind (node_error_from ValueError (\<lambda>exc. exc)
         (pipedrive_build_request (ctx_fr ctx) operation params)) (\<lambda>(method, path, body, query).
     let merged_query = query in
     let merged_query = dict_set ''api_token'' (JStr token) merged_query in
     rbind (node_error_from HTTPError (\<lambda>exc. ''Pipedrive: network error on '' @ operation @ '': '' @ exc)
         (client ((mk_request method path)\<lparr>rq_params := Some merged_query, rq_json := map_option JObj body,
             rq_headers := [(''Accept'', JStr ''application/json''), (''Content-Type'', JStr
             ''application/json'')]\<rparr>))) (\<lambda>response.
     let payload = safe_json response in
     let result = [(''operation'', JStr operation), (''status'', JInt (rs_status response)), (''response'',
         payload)] in
     let result = (if operation = ''list_deals'' \<and> is_obj payload then (let data = dict_get (obj_of payload)
         ''data'' JNull in
       dict_set ''data'' (if is_arr data then data else JArr []) result) else result) in
     if 400 \<le> (rs_status response) then (let error = pipedrive_error_message (ctx_fr ctx) payload (rs_status
         response) in
       raise NodeExecutionError (''Pipedrive '' @ operation @ '' failed (HTTP '' @ show_int (rs_status
           response) @ ''): '' @ error))
     else Inr (mk_item result))))"

definition pipedrive_execute :: "network \<Rightarrow> exec_ctx \<Rightarrow> item list \<Rightarrow> item list list result" where
  "pipedrive_execute net ctx items =
     rbind (pipedrive_resolve_credentials ctx) (\<lambda>(token, company_domain).
     rbind (node_error_from ValueError (\<lambda>exc. exc)
         (pipedrive_api_base_url_for company_domain)) (\<lambda>base.
     let seed = (if items = [] then [mk_item []] else items) in
     rbind (each_item (\<lambda>i it. let client = net base i in
         pipedrive_dispatch_one ctx it client token) seed) (\<lambda>results.
     Inr [results])))"

lemma pipedrive_resolve_credentials_ok: "prepares ctx (pipedrive_resolve_credentials ctx)"
  unfolding pipedrive_resolve_credentials_def by (rule pipedrive_api_base_url_for_ok [THEN prepares_translated] prepares_rules)+

lemma pipedrive_dispatch_one_ok:
  "answers ctx it (client) (shape_ok pipedrive_shape) (pipedrive_dispatch_one ctx it client token)"
  unfolding pipedrive_dispatch_one_def prod.case
  by ((rule request_builder.answers_build [OF pipedrive.request_builder_axioms] answers_if answers_rules)+;
      (rule answers_return, assumption, assumption)?; simp add: mk_request_def Let_def dict_simps del: map_of_eq_Some_iff)

text \<open>What \<open>execute\<close> computes before its loop.\<close>

definition pipedrive_prepare where
  "pipedrive_prepare ctx =
     rbind (pipedrive_resolve_credentials ctx) (\<lambda>(token, company_domain).
     rbind (node_error_from ValueError (\<lambda>exc. exc)
     (pipedrive_api_base_url_for company_domain)) (\<lambda>base.
     Inr (base, token)))"

lemma pipedrive_prepare_ok: "prepares ctx (pipedrive_prepare ctx)"
  unfolding pipedrive_prepare_def by (rule pipedrive_api_base_url_for_ok [THEN prepares_translated] pipedrive_resolve_credentials_ok prepares_rules)+

interpretation pipedrive_node: http_node "pipedrive_execute" pipedrive_prepare
  "\<lambda>(address, token). address" "\<lambda>ctx (address, token) client it. pipedrive_dispatch_one ctx it client token"
  "\<lambda>_ client. client" "shape_ok pipedrive_shape"
proof (rule http_node.intro, goal_cases)
  case 1 show ?case by (simp only: pipedrive_execute_def pipedrive_prepare_def prepare_simps)
next
  case 2 show ?case by (rule pipedrive_prepare_ok)
next
  case 3 show ?case by (simp add: pipedrive_dispatch_one_ok split: prod.split)
qed

section \<open>Plaid\<close>

definition plaid_resolve_credentials :: "exec_ctx \<Rightarrow> jobj result" where
  "plaid_resolve_credentials ctx =
     rbind (load_credential ctx ''plaid_api'') (\<lambda>credential.
     (case credential of
       None \<Rightarrow> raise NodeExecutionError ''Plaid: a plaid_api credential is required''
     | Some credential \<Rightarrow>
       let (injector, payload) = credential in
       let client_id = text_param (ctx_fr ctx) payload ''client_id'' in
       let secret = text_param (ctx_fr ctx) payload ''secret'' in
       if client_id = [] \<or> secret = [] then raise NodeExecutionError
           (''Plaid: credential has an empty 'client_id' or 'secret'' @ [CHR 0x27])
       else Inr payload))"

definition plaid_fold_credentials :: "(rat \<Rightarrow> string) \<Rightarrow> jobj \<Rightarrow> jobj \<Rightarrow> jobj" where
  "plaid_fold_credentials fr body creds =
     (let out = body in
     let out = dict_set ''client_id'' (JStr (text_param fr creds ''client_id'')) out in
     dict_set ''secret'' (JStr (text_param fr creds ''secret'')) out)"

definition plaid_error_message :: "json \<Rightarrow> int \<Rightarrow> string" where
  "plaid_error_message parsed status_code =
     (if is_obj parsed then (let value = dict_get (obj_of parsed) ''error_message'' JNull in
       if is_str value \<and> py_bool value then str_of value
       else let value = dict_get (obj_of parsed) ''display_message'' JNull in
       if is_str value \<and> py_bool value then str_of value
       else let value = dict_get (obj_of parsed) ''error_code'' JNull in
       if is_str value \<and> py_bool value then str_of value
       else ''HTTP '' @ show_int status_code)
     else ''HTTP '' @ show_int status_code)"

definition plaid_dispatch_one :: "exec_ctx \<Rightarrow> item \<Rightarrow> http_client \<Rightarrow> jobj \<Rightarrow> item result" where
  "plaid_dispatch_one ctx it client creds =
     rbind (resolved_params ctx (Some it)) (\<lambda>params.
     let operation = py_strip (py_str (ctx_fr ctx) (param_or params ''operation'' (JStr
         ''link_token_create''))) in
     if operation \<notin> set [''link_token_create'', ''item_get'', ''accounts_get'', ''transactions_sync''] then
         raise NodeExecutionError (''Plaid: unsupported operation '' @ repr_str operation)
     else rbind (node_error_from ValueError (\<lambda>exc. exc)
         (plaid_build_request (ctx_fr ctx) operation params)) (\<lambda>(method, path, body, query).
     let body = plaid_fold_credentials (ctx_fr ctx) body creds in
     let request = (mk_request method path)\<lparr>rq_params := (if query = [] then None else Some query), rq_json :=
         Some (JObj body), rq_headers := [(''Accept'', JStr ''application/json'')]\<rparr> in
     rbind (node_error_from HTTPError (\<lambda>exc. ''Plaid: network error on '' @ operation @ '': '' @ exc)
         (client request)) (\<lambda>response.
     let parsed = safe_json response in
     let result = [(''operation'', JStr operation), (''status'', JInt (rs_status response)), (''response'',
         parsed)] in
     if 400 \<le> (rs_status response) then (let error = plaid_error_message parsed (rs_status response) in
       raise NodeExecutionError (''Plaid '' @ operation @ '' failed (HTTP '' @ show_int (rs_status response) @
           ''): '' @ error))
     else Inr (mk_item result))))"

definition plaid_execute :: "network \<Rightarrow> exec_ctx \<Rightarrow> item list \<Rightarrow> item list list result" where
  "plaid_execute net ctx items =
     rbind (plaid_resolve_credentials ctx) (\<lambda>payload.
     let env = py_strip (py_str (ctx_fr ctx) (param_or payload ''environment'' (JStr ''sandbox''))) in
     let host = dict_get [(''sandbox'', ''https://sandbox.plaid.com''), (''development'',
         ''https://development.plaid.com''), (''production'', ''https://production.plaid.com'')] env
         ''https://sandbox.plaid.com'' in
     let seed = (if items = [] then [mk_item []] else items) in
     rbind (each_item (\<lambda>i it. let client = net host i in
         plaid_dispatch_one ctx it client payload) seed) (\<lambda>results.
     Inr [results]))"

lemma plaid_resolve_credentials_ok: "prepares ctx (plaid_resolve_credentials ctx)"
  unfolding plaid_resolve_credentials_def by (rule prepares_rules)+

lemma plaid_dispatch_one_ok:
  "answers ctx it (client) (shape_ok plaid_shape) (plaid_dispatch_one ctx it client creds)"
  unfolding plaid_dispatch_one_def prod.case
  by ((rule request_builder.answers_build [OF plaid.request_builder_axioms] answers_if answers_rules)+;
      (rule answers_return, assumption, assumption)?; simp add: mk_request_def Let_def dict_simps del: map_of_eq_Some_iff)

text \<open>What \<open>execute\<close> computes before its loop.\<close>

definition plaid_prepare where
  "plaid_prepare ctx =
     rbind (plaid_resolve_credentials ctx) (\<lambda>payload.
     let env = py_strip (py_str (ctx_fr ctx) (param_or payload ''environment'' (JStr ''sandbox''))) in
     let host = dict_get [(''sandbox'', ''https://sandbox.plaid.com''), (''development'',
         ''https://development.plaid.com''), (''production'', ''https://production.plaid.com'')] env
         ''https://sandbox.plaid.com'' in
     Inr (host, payload))"

lemma plaid_prepare_ok: "prepares ctx (plaid_prepare ctx)"
  unfolding plaid_prepare_def by (rule plaid_resolve_credentials_ok prepares_rules)+

interpretation plaid_node: http_node "plaid_execute" plaid_prepare
  "\<lambda>(address, payload). address" "\<lambda>ctx (address, payload) client it. plaid_dispatch_one ctx it client payload"
  "\<lambda>_ client. client" "shape_ok plaid_shape"
proof (rule http_node.intro, goal_cases)
  case 1 show ?case by (simp only: plaid_execute_def plaid_prepare_def prepare_simps)
next
  case 2 show ?case by (rule plaid_prepare_ok)
next
  case 3 show ?case by (simp add: plaid_dispatch_one_ok split: prod.split)
qed

section \<open>Quickbooks\<close>

definition quickbooks_resolve_credentials :: "exec_ctx \<Rightarrow> (string \<times> string \<times> string \<times> string) result" where
  "quickbooks_resolve_credentials ctx =
     rbind (load_credential ctx ''quickbooks_oauth2'') (\<lambda>credential.
     (case credential of
       None \<Rightarrow> raise NodeExecutionError ''QuickBooks: a quickbooks_oauth2 credential is required''
     | Some credential \<Rightarrow>
       let (unused, payload) = credential in
       let token = text_param (ctx_fr ctx) payload ''access_token'' in
       if token = [] then raise NodeExecutionError (''QuickBooks: credential has an empty 'access_token'' @
           [CHR 0x27])
       else let realm_id = text_param (ctx_fr ctx) payload ''realm_id'' in
       if realm_id = [] then raise NodeExecutionError (''QuickBooks: credential has an empty 'realm_id'' @ [CHR
           0x27])
       else let environment = py_strip (py_str (ctx_fr ctx) (param_or payload ''environment'' (JStr
           ''production''))) in
       rbind (node_error_from ValueError (\<lambda>exc. exc)
           (quickbooks_oauth2_host_from environment)) (\<lambda>host.
       let minor_version = text_param (ctx_fr ctx) payload ''minor_version'' in
       Inr (token, realm_id, host, minor_version))))"

definition quickbooks_error_message :: "json \<Rightarrow> int \<Rightarrow> string" where
  "quickbooks_error_message payload status_code =
     (if is_obj payload then (let fault = dict_get (obj_of payload) ''Fault'' JNull in
       if is_obj fault then (let errors = dict_get (obj_of fault) ''Error'' JNull in
         if is_arr errors \<and> py_bool errors then (let first = hd (arr_of errors) in
           if is_obj first then (let detail = param_or (obj_of first) ''Detail'' (dict_get (obj_of first)
               ''Message'' JNull) in
             if is_str detail \<and> py_bool detail then str_of detail
             else let message = dict_get (obj_of payload) ''message'' JNull in
             if is_str message \<and> py_bool message then str_of message
             else ''HTTP '' @ show_int status_code)
           else (let message = dict_get (obj_of payload) ''message'' JNull in
             if is_str message \<and> py_bool message then str_of message
             else ''HTTP '' @ show_int status_code))
         else (let message = dict_get (obj_of payload) ''message'' JNull in
           if is_str message \<and> py_bool message then str_of message
           else ''HTTP '' @ show_int status_code))
       else (let message = dict_get (obj_of payload) ''message'' JNull in
         if is_str message \<and> py_bool message then str_of message
         else ''HTTP '' @ show_int status_code))
     else ''HTTP '' @ show_int status_code)"

definition quickbooks_dispatch_one :: "exec_ctx \<Rightarrow> item \<Rightarrow> http_client \<Rightarrow> jobj \<Rightarrow> string \<Rightarrow> item result" where
  "quickbooks_dispatch_one ctx it client headers minor_version =
     rbind (resolved_params ctx (Some it)) (\<lambda>params.
     let operation = py_strip (py_str (ctx_fr ctx) (param_or params ''operation'' (JStr ''query''))) in
     if operation \<notin> set [''query'', ''get_invoice'', ''create_invoice'', ''get_customer'', ''create_customer'']
         then raise NodeExecutionError (''QuickBooks: unsupported operation '' @ repr_str operation)
     else rbind (node_error_from ValueError (\<lambda>exc. exc)
         (quickbooks_build_request (ctx_fr ctx) operation params)) (\<lambda>(method, path, body, query).
     let final_query = query in
     let final_query = (if minor_version \<noteq> [] then dict_setdefault ''minorversion'' (JStr minor_version)
         final_query else final_query) in
     let request_headers = headers in
     let request_headers = (if body \<noteq> None then dict_set ''Content-Type'' (JStr ''application/json'')
         request_headers else request_headers) in
     rbind (node_error_from HTTPError (\<lambda>exc. ''QuickBooks: network error on '' @ operation @ '': '' @ exc)
         (client ((mk_request method path)\<lparr>rq_params := (if final_query = [] then None else Some final_query),
             rq_json := map_option JObj body, rq_headers := request_headers\<rparr>))) (\<lambda>response.
     let payload = safe_json response in
     let result = [(''operation'', JStr operation), (''status'', JInt (rs_status response)), (''response'',
         payload)] in
     if 400 \<le> (rs_status response) then (let error = quickbooks_error_message payload (rs_status response) in
       raise NodeExecutionError (''QuickBooks '' @ operation @ '' failed (HTTP '' @ show_int (rs_status
           response) @ ''): '' @ error))
     else Inr (mk_item result))))"

definition quickbooks_execute :: "network \<Rightarrow> exec_ctx \<Rightarrow> item list \<Rightarrow> item list list result" where
  "quickbooks_execute net ctx items =
     rbind (quickbooks_resolve_credentials ctx) (\<lambda>(token, realm_id, host, minor_version).
     let base_url = ''https://'' @ host @ ''/v3/company/'' @ realm_id in
     let seed = (if items = [] then [mk_item []] else items) in
     let headers = [(''Authorization'', JStr (''Bearer '' @ token)), (''Accept'', JStr ''application/json'')] in
     rbind (each_item (\<lambda>i it. let client = net base_url i in
         quickbooks_dispatch_one ctx it client headers minor_version) seed) (\<lambda>results.
     Inr [results]))"

lemma quickbooks_resolve_credentials_ok: "prepares ctx (quickbooks_resolve_credentials ctx)"
  unfolding quickbooks_resolve_credentials_def by (rule quickbooks_oauth2_host_from_ok [THEN prepares_translated] prepares_rules)+

lemma quickbooks_dispatch_one_ok:
  "answers ctx it (client) (shape_ok quickbooks_shape) (quickbooks_dispatch_one ctx it client headers minor_version)"
  unfolding quickbooks_dispatch_one_def prod.case
  by ((rule request_builder.answers_build [OF quickbooks.request_builder_axioms] answers_if answers_rules)+;
      (rule answers_return, assumption, assumption)?; simp add: mk_request_def Let_def dict_simps del: map_of_eq_Some_iff)

text \<open>What \<open>execute\<close> computes before its loop.\<close>

definition quickbooks_prepare where
  "quickbooks_prepare ctx =
     rbind (quickbooks_resolve_credentials ctx) (\<lambda>(token, realm_id, host, minor_version).
     let base_url = ''https://'' @ host @ ''/v3/company/'' @ realm_id in
     let headers = [(''Authorization'', JStr (''Bearer '' @ token)), (''Accept'', JStr ''application/json'')] in
     Inr (base_url, headers, minor_version))"

lemma quickbooks_prepare_ok: "prepares ctx (quickbooks_prepare ctx)"
  unfolding quickbooks_prepare_def by (rule quickbooks_oauth2_host_from_ok [THEN prepares_translated] quickbooks_resolve_credentials_ok prepares_rules)+

interpretation quickbooks_node: http_node "quickbooks_execute" quickbooks_prepare
  "\<lambda>(address, headers, minor_version). address" "\<lambda>ctx (address, headers, minor_version) client it.
      quickbooks_dispatch_one ctx it client headers minor_version"
  "\<lambda>_ client. client" "shape_ok quickbooks_shape"
proof (rule http_node.intro, goal_cases)
  case 1 show ?case by (simp only: quickbooks_execute_def quickbooks_prepare_def prepare_simps)
next
  case 2 show ?case by (rule quickbooks_prepare_ok)
next
  case 3 show ?case by (simp add: quickbooks_dispatch_one_ok split: prod.split)
qed

section \<open>Shopify\<close>

definition shopify_resolve_credentials :: "exec_ctx \<Rightarrow> (string \<times> string \<times> string) result" where
  "shopify_resolve_credentials ctx =
     rbind (load_credential ctx ''shopify_admin'') (\<lambda>credential.
     (case credential of
       None \<Rightarrow> raise NodeExecutionError ''Shopify: a shopify_admin credential is required''
     | Some credential \<Rightarrow>
       let (unused, payload) = credential in
       let shop = text_param (ctx_fr ctx) payload ''shop'' in
       let token = text_param (ctx_fr ctx) payload ''access_token'' in
       let version = (if py_strip (py_str (ctx_fr ctx) (param_or payload ''api_version'' (JStr ''2024-07''))) \<noteq>
           [] then py_strip (py_str (ctx_fr ctx) (param_or payload ''api_version'' (JStr ''2024-07''))) else
           ''2024-07'') in
       if shop = [] \<or> token = [] then raise NodeExecutionError
           (''Shopify: credential must have 'shop' and 'access_token'' @ [CHR 0x27])
       else Inr (shop, token, version)))"

definition shopify_error_message :: "(rat \<Rightarrow> string) \<Rightarrow> json \<Rightarrow> int \<Rightarrow> string" where
  "shopify_error_message fr payload status_code =
     (if is_obj payload then (let errors = dict_get (obj_of payload) ''errors'' JNull in
       if is_str errors \<and> py_bool errors then str_of errors
       else if is_obj errors \<and> py_bool errors then join ''; '' (map (\<lambda>(k, v). k @ '': '' @ py_str fr v) (obj_of
           errors))
       else if is_arr errors \<and> py_bool errors then join ''; '' (map (\<lambda>e. py_str fr e) (arr_of errors))
       else ''HTTP '' @ show_int status_code)
     else ''HTTP '' @ show_int status_code)"

definition shopify_dispatch_one :: "exec_ctx \<Rightarrow> item \<Rightarrow> http_client \<Rightarrow> string \<Rightarrow> string \<Rightarrow> item result" where
  "shopify_dispatch_one ctx it client token api_prefix =
     rbind (resolved_params ctx (Some it)) (\<lambda>params.
     let operation = py_strip (py_str (ctx_fr ctx) (param_or params ''operation'' (JStr ''list_products''))) in
     if operation \<notin> set [''list_products'', ''get_product'', ''create_product'', ''update_product'',
         ''list_orders'', ''get_order''] then raise NodeExecutionError (''Shopify: unsupported operation '' @
         repr_str operation)
     else rbind (node_error_from ValueError (\<lambda>exc. exc)
         (shopify_build_request (ctx_fr ctx) operation params)) (\<lambda>(method, relative_path, body, query).
     let path = api_prefix @ relative_path in
     rbind (node_error_from HTTPError (\<lambda>exc. ''Shopify: network error on '' @ operation @ '': '' @ exc)
         (client ((mk_request method path)\<lparr>rq_params := (if query = [] then None else Some query), rq_json :=
             map_option JObj body, rq_headers := [(''X-Shopify-Access-Token'', JStr token), (''Accept'', JStr
             ''application/json''), (''Content-Type'', JStr ''application/json'')]\<rparr>))) (\<lambda>response.
     let payload = safe_json response in
     let result = [(''operation'', JStr operation), (''status'', JInt (rs_status response)), (''response'',
         payload)] in
     let result = (if operation = ''list_products'' \<and> is_obj payload then (let items_list = dict_get (obj_of
         payload) ''products'' (JArr []) in
       dict_set ''products'' (if is_arr items_list then items_list else JArr []) result) else ((if operation =
           ''list_orders'' \<and> is_obj payload then (let items_list = dict_get (obj_of payload) ''orders'' (JArr
           []) in
         dict_set ''orders'' (if is_arr items_list then items_list else JArr []) result) else result))) in
     if 400 \<le> (rs_status response) then (let error = shopify_error_message (ctx_fr ctx) payload (rs_status
         response) in
       raise NodeExecutionError (''Shopify '' @ operation @ '' failed (HTTP '' @ show_int (rs_status response)
           @ ''): '' @ error))
     else Inr (mk_item result))))"

definition shopify_execute :: "network \<Rightarrow> exec_ctx \<Rightarrow> item list \<Rightarrow> item list list result" where
  "shopify_execute net ctx items =
     rbind (shopify_resolve_credentials ctx) (\<lambda>(shop, token, version).
     let base_url = ''https://'' @ shop @ ''.myshopify.com'' in
     let api_prefix = ''/admin/api/'' @ version @ ''/'' in
     let seed = (if items = [] then [mk_item []] else items) in
     rbind (each_item (\<lambda>i it. let client = net base_url i in
         shopify_dispatch_one ctx it client token api_prefix) seed) (\<lambda>results.
     Inr [results]))"

lemma shopify_resolve_credentials_ok: "prepares ctx (shopify_resolve_credentials ctx)"
  unfolding shopify_resolve_credentials_def by (rule prepares_rules)+

lemma shopify_dispatch_one_ok:
  "answers ctx it (client) (prefixed_ok shopify_shape) (shopify_dispatch_one ctx it client token api_prefix)"
  unfolding shopify_dispatch_one_def prod.case
  by ((rule request_builder.answers_build [OF shopify.request_builder_axioms] answers_if answers_rules)+;
      (rule answers_return_prefixed, assumption, assumption)?; simp add: mk_request_def Let_def dict_simps del: map_of_eq_Some_iff)

text \<open>What \<open>execute\<close> computes before its loop.\<close>

definition shopify_prepare where
  "shopify_prepare ctx =
     rbind (shopify_resolve_credentials ctx) (\<lambda>(shop, token, version).
     let base_url = ''https://'' @ shop @ ''.myshopify.com'' in
     let api_prefix = ''/admin/api/'' @ version @ ''/'' in
     Inr (base_url, token, api_prefix))"

lemma shopify_prepare_ok: "prepares ctx (shopify_prepare ctx)"
  unfolding shopify_prepare_def by (rule shopify_resolve_credentials_ok prepares_rules)+

interpretation shopify_node: http_node "shopify_execute" shopify_prepare
  "\<lambda>(address, token, api_prefix). address" "\<lambda>ctx (address, token, api_prefix) client it. shopify_dispatch_one
      ctx it client token api_prefix"
  "\<lambda>_ client. client" "prefixed_ok shopify_shape"
proof (rule http_node.intro, goal_cases)
  case 1 show ?case by (simp only: shopify_execute_def shopify_prepare_def prepare_simps)
next
  case 2 show ?case by (rule shopify_prepare_ok)
next
  case 3 show ?case by (simp add: shopify_dispatch_one_ok split: prod.split)
qed

section \<open>Snowflake\<close>

definition snowflake_resolve_credentials :: "exec_ctx \<Rightarrow> (string \<times> string \<times> string) result" where
  "snowflake_resolve_credentials ctx =
     rbind (load_credential ctx ''snowflake_api'') (\<lambda>credential.
     (case credential of
       None \<Rightarrow> raise NodeExecutionError ''Snowflake: a snowflake_api credential is required''
     | Some credential \<Rightarrow>
       let (unused, payload) = credential in
       let token = text_param (ctx_fr ctx) payload ''token'' in
       if token = [] then raise NodeExecutionError (''Snowflake: credential has an empty 'token'' @ [CHR 0x27])
       else let token_type = py_upper (text_param (ctx_fr ctx) payload ''token_type'') in
       if token_type \<notin> set [''KEYPAIR_JWT'', ''OAUTH''] then raise NodeExecutionError
           (''Snowflake: credential 'token_type' must be 'KEYPAIR_JWT' or 'OAUTH'' @ [CHR 0x27])
       else let account = text_param (ctx_fr ctx) payload ''account'' in
       if account = [] then raise NodeExecutionError (''Snowflake: credential has an empty 'account'' @ [CHR
           0x27])
       else Inr (token, token_type, account)))"

definition snowflake_error_message :: "(rat \<Rightarrow> string) \<Rightarrow> json \<Rightarrow> int \<Rightarrow> string" where
  "snowflake_error_message fr payload status_code =
     (if is_obj payload then (let code = dict_get (obj_of payload) ''code'' JNull in
       let message = dict_get (obj_of payload) ''message'' JNull in
       if is_str code \<and> is_str message then py_str fr code @ '': '' @ py_str fr message
       else let sql_state = dict_get (obj_of payload) ''sqlState'' JNull in
       if is_str message \<and> is_str sql_state then ''SQLSTATE '' @ py_str fr sql_state @ '': '' @ py_str fr
           message
       else if is_str message \<and> py_bool message then str_of message
       else ''HTTP '' @ show_int status_code)
     else ''HTTP '' @ show_int status_code)"

definition snowflake_dispatch_one :: "exec_ctx \<Rightarrow> item \<Rightarrow> http_client \<Rightarrow> jobj \<Rightarrow> item result" where
  "snowflake_dispatch_one ctx it client headers =
     rbind (resolved_params ctx (Some it)) (\<lambda>params.
     let operation = py_strip (py_str (ctx_fr ctx) (param_or params ''operation'' (JStr ''execute''))) in
     if operation \<notin> set [''execute'', ''get_status'', ''cancel''] then raise NodeExecutionError
         (''Snowflake: unsupported operation '' @ repr_str operation)
     else rbind (node_error_from ValueError (\<lambda>exc. exc)
         (snowflake_build_request (ctx_fr ctx) operation params)) (\<lambda>(method, path, body, query).
     let request_headers = headers in
     let request_headers = (if body \<noteq> None then dict_set ''Content-Type'' (JStr ''application/json'')
         request_headers else request_headers) in
     rbind (node_error_from HTTPError (\<lambda>exc. ''Snowflake: network error on '' @ operation @ '': '' @ exc)
         (client ((mk_request method path)\<lparr>rq_params := (if query = [] then None else Some query), rq_json :=
             map_option JObj body, rq_headers := request_headers\<rparr>))) (\<lambda>response.
     let payload = safe_json response in
     let result = [(''operation'', JStr operation), (''status'', JInt (rs_status response)), (''response'',
         payload)] in
     if 400 \<le> (rs_status response) then (let error = snowflake_error_message (ctx_fr ctx) payload (rs_status
         response) in
       raise NodeExecutionError (''Snowflake '' @ operation @ '' failed (HTTP '' @ show_int (rs_status
           response) @ ''): '' @ error))
     else Inr (mk_item result))))"

definition snowflake_execute :: "network \<Rightarrow> exec_ctx \<Rightarrow> item list \<Rightarrow> item list list result" where
  "snowflake_execute net ctx items =
     rbind (snowflake_resolve_credentials ctx) (\<lambda>(token, token_type, raw_account).
     rbind (node_error_from ValueError (\<lambda>exc. exc)
         (snowflake_api_account_host_from raw_account)) (\<lambda>base_url.
     let seed = (if items = [] then [mk_item []] else items) in
     let headers = [(''Authorization'', JStr (''Bearer '' @ token)), (''X-Snowflake-Authorization-Token-Type'',
         JStr token_type), (''Accept'', JStr ''application/json'')] in
     rbind (each_item (\<lambda>i it. let client = net base_url i in
         snowflake_dispatch_one ctx it client headers) seed) (\<lambda>results.
     Inr [results])))"

lemma snowflake_resolve_credentials_ok: "prepares ctx (snowflake_resolve_credentials ctx)"
  unfolding snowflake_resolve_credentials_def by (rule snowflake_api_account_host_from_ok [THEN prepares_translated] prepares_rules)+

lemma snowflake_dispatch_one_ok:
  "answers ctx it (client) (shape_ok snowflake_shape) (snowflake_dispatch_one ctx it client headers)"
  unfolding snowflake_dispatch_one_def prod.case
  by ((rule request_builder.answers_build [OF snowflake.request_builder_axioms] answers_if answers_rules)+;
      (rule answers_return, assumption, assumption)?; simp add: mk_request_def Let_def dict_simps del: map_of_eq_Some_iff)

text \<open>What \<open>execute\<close> computes before its loop.\<close>

definition snowflake_prepare where
  "snowflake_prepare ctx =
     rbind (snowflake_resolve_credentials ctx) (\<lambda>(token, token_type, raw_account).
     rbind (node_error_from ValueError (\<lambda>exc. exc)
     (snowflake_api_account_host_from raw_account)) (\<lambda>base_url.
     let headers = [(''Authorization'', JStr (''Bearer '' @ token)), (''X-Snowflake-Authorization-Token-Type'',
         JStr token_type), (''Accept'', JStr ''application/json'')] in
     Inr (base_url, headers)))"

lemma snowflake_prepare_ok: "prepares ctx (snowflake_prepare ctx)"
  unfolding snowflake_prepare_def by (rule snowflake_api_account_host_from_ok [THEN prepares_translated] snowflake_resolve_credentials_ok prepares_rules)+

interpretation snowflake_node: http_node "snowflake_execute" snowflake_prepare
  "\<lambda>(address, headers). address" "\<lambda>ctx (address, headers) client it. snowflake_dispatch_one ctx it client
      headers"
  "\<lambda>_ client. client" "shape_ok snowflake_shape"
proof (rule http_node.intro, goal_cases)
  case 1 show ?case by (simp only: snowflake_execute_def snowflake_prepare_def prepare_simps)
next
  case 2 show ?case by (rule snowflake_prepare_ok)
next
  case 3 show ?case by (simp add: snowflake_dispatch_one_ok split: prod.split)
qed

end
