(* ===== verification/Nodes_5.thy ===== *)
theory Nodes_5
  imports Http Builders_7 Credential_Types_4
begin

text \<open>
  The integration nodes \<open>xero\<close>, \<open>zendesk\<close>, \<open>zoho_crm\<close>, \<open>zoom\<close> (\<open>nodes/integrations/<name>/node.py\<close>), one definition per function: the
  resolution of credentials, the message of an error response, the dispatch of one item and
  \<open>execute\<close>. Log calls are left out. Each \<open><name>_dispatch_one_ok\<close> shows what a dispatch promises and
  the interpretation lifts it to the node.
\<close>

section \<open>Xero\<close>

definition xero_resolve_credentials :: "exec_ctx \<Rightarrow> (string \<times> string) result" where
  "xero_resolve_credentials ctx =
     rbind (load_credential ctx ''xero_api'') (\<lambda>credential.
     (case credential of
       None \<Rightarrow> raise NodeExecutionError ''Xero: a xero_api credential is required''
     | Some credential \<Rightarrow>
       let (unused, payload) = credential in
       let token = text_param (ctx_fr ctx) payload ''access_token'' in
       if token = [] then raise NodeExecutionError (''Xero: credential has an empty 'access_token'' @ [CHR
           0x27])
       else let tenant_id = text_param (ctx_fr ctx) payload ''tenant_id'' in
       if tenant_id = [] then raise NodeExecutionError (''Xero: credential has an empty 'tenant_id'' @ [CHR
           0x27])
       else Inr (token, tenant_id)))"

definition xero_error_message :: "json \<Rightarrow> int \<Rightarrow> string" where
  "xero_error_message payload status_code =
     (if is_obj payload then (let detail = dict_get (obj_of payload) ''Detail'' JNull in
       if is_str detail \<and> py_bool detail then str_of detail
       else let message = dict_get (obj_of payload) ''Message'' JNull in
       if is_str message \<and> py_bool message then str_of message
       else let elements = dict_get (obj_of payload) ''Elements'' JNull in
       if is_arr elements \<and> py_bool elements then (let first = hd (arr_of elements) in
         if is_obj first then (let validation = dict_get (obj_of first) ''ValidationErrors'' JNull in
           if is_arr validation \<and> py_bool validation then (let err = hd (arr_of validation) in
             if is_obj err then (let err_msg = dict_get (obj_of err) ''Message'' JNull in
               if is_str err_msg \<and> py_bool err_msg then str_of err_msg
               else ''HTTP '' @ show_int status_code)
             else ''HTTP '' @ show_int status_code)
           else ''HTTP '' @ show_int status_code)
         else ''HTTP '' @ show_int status_code)
       else ''HTTP '' @ show_int status_code)
     else ''HTTP '' @ show_int status_code)"

definition xero_dispatch_one :: "exec_ctx \<Rightarrow> item \<Rightarrow> http_client \<Rightarrow> jobj \<Rightarrow> item result" where
  "xero_dispatch_one ctx it client headers =
     rbind (resolved_params ctx (Some it)) (\<lambda>params.
     let operation = py_strip (py_str (ctx_fr ctx) (param_or params ''operation'' (JStr ''list_invoices''))) in
     if operation \<notin> set [''list_invoices'', ''get_invoice'', ''create_invoice'', ''update_invoice'',
         ''list_contacts'', ''list_accounts''] then raise NodeExecutionError (''Xero: unsupported operation ''
         @ repr_str operation)
     else rbind (node_error_from ValueError (\<lambda>exc. exc)
         (xero_build_request (ctx_fr ctx) operation params)) (\<lambda>(method, path, body, query).
     let request_headers = headers in
     let request_headers = (if body \<noteq> None then dict_set ''Content-Type'' (JStr ''application/json'')
         request_headers else request_headers) in
     rbind (node_error_from HTTPError (\<lambda>exc. ''Xero: network error on '' @ operation @ '': '' @ exc)
         (client ((mk_request method path)\<lparr>rq_params := (if query = [] then None else Some query), rq_json :=
             map_option JObj body, rq_headers := request_headers\<rparr>))) (\<lambda>response.
     let payload = safe_json response in
     let result = [(''operation'', JStr operation), (''status'', JInt (rs_status response)), (''response'',
         payload)] in
     if 400 \<le> (rs_status response) then (let error = xero_error_message payload (rs_status response) in
       raise NodeExecutionError (''Xero '' @ operation @ '' failed (HTTP '' @ show_int (rs_status response) @
           ''): '' @ error))
     else Inr (mk_item result))))"

definition xero_execute :: "network \<Rightarrow> exec_ctx \<Rightarrow> item list \<Rightarrow> item list list result" where
  "xero_execute net ctx items =
     rbind (xero_resolve_credentials ctx) (\<lambda>(token, tenant_id).
     let seed = (if items = [] then [mk_item []] else items) in
     let headers = [(''Authorization'', JStr (''Bearer '' @ token)), (''xero-tenant-id'', JStr tenant_id),
         (''Accept'', JStr ''application/json'')] in
     rbind (each_item (\<lambda>i it. let client = net ''https://api.xero.com/api.xro/2.0'' i in
         xero_dispatch_one ctx it client headers) seed) (\<lambda>results.
     Inr [results]))"

lemma xero_resolve_credentials_ok: "prepares ctx (xero_resolve_credentials ctx)"
  unfolding xero_resolve_credentials_def by (rule prepares_rules)+

lemma xero_dispatch_one_ok:
  "answers ctx it (client) (shape_ok xero_shape) (xero_dispatch_one ctx it client headers)"
  unfolding xero_dispatch_one_def prod.case
  by ((rule request_builder.answers_build [OF xero.request_builder_axioms] answers_if answers_rules)+;
      (rule answers_return, assumption, assumption)?; simp add: mk_request_def Let_def dict_simps del: map_of_eq_Some_iff)

text \<open>What \<open>execute\<close> computes before its loop.\<close>

definition xero_prepare where
  "xero_prepare ctx =
     rbind (xero_resolve_credentials ctx) (\<lambda>(token, tenant_id).
     let headers = [(''Authorization'', JStr (''Bearer '' @ token)), (''xero-tenant-id'', JStr tenant_id),
         (''Accept'', JStr ''application/json'')] in
     Inr (''https://api.xero.com/api.xro/2.0'', headers))"

lemma xero_prepare_ok: "prepares ctx (xero_prepare ctx)"
  unfolding xero_prepare_def by (rule xero_resolve_credentials_ok prepares_rules)+

interpretation xero_node: http_node "xero_execute" xero_prepare
  "\<lambda>(address, headers). address" "\<lambda>ctx (address, headers) client it. xero_dispatch_one ctx it client headers"
  "\<lambda>_ client. client" "shape_ok xero_shape"
proof (rule http_node.intro, goal_cases)
  case 1 show ?case by (simp only: xero_execute_def xero_prepare_def prepare_simps)
next
  case 2 show ?case by (rule xero_prepare_ok)
next
  case 3 show ?case by (simp add: xero_dispatch_one_ok split: prod.split)
qed

section \<open>Zendesk\<close>

definition zendesk_resolve_credentials :: "exec_ctx \<Rightarrow> (string \<times> string) result" where
  "zendesk_resolve_credentials ctx =
     rbind (load_credential ctx ''zendesk_api'') (\<lambda>credential.
     (case credential of
       None \<Rightarrow> raise NodeExecutionError ''Zendesk: a zendesk_api credential is required''
     | Some credential \<Rightarrow>
       let (unused, payload) = credential in
       let subdomain = py_lower (text_param (ctx_fr ctx) payload ''subdomain'') in
       let email = text_param (ctx_fr ctx) payload ''email'' in
       let token = text_param (ctx_fr ctx) payload ''api_token'' in
       if subdomain = [] \<or> email = [] \<or> token = [] then raise NodeExecutionError
           (''Zendesk: credential must have 'subdomain', 'email', and 'api_token'' @ [CHR 0x27])
       else let encoded = b64encode (email @ ''/token:'' @ token) in
       Inr (subdomain, ''Basic '' @ encoded)))"

definition zendesk_error_message :: "(rat \<Rightarrow> string) \<Rightarrow> json \<Rightarrow> int \<Rightarrow> string" where
  "zendesk_error_message fr payload status_code =
     (if is_obj payload then (let description = dict_get (obj_of payload) ''description'' JNull in
       if is_str description \<and> py_bool description then str_of description
       else let details = dict_get (obj_of payload) ''details'' JNull in
       if is_obj details \<and> py_bool details then (let parts = ([] :: string list) in
         let parts = foldl (\<lambda>parts (field, entries).
             (if is_arr entries then (let parts = foldl (\<lambda>parts entry.
                   (if is_obj entry then (let message = param_or (obj_of entry) ''description'' (dict_get
                       (obj_of entry) ''message'' JNull) in
                     (if py_bool message then parts @ [field @ '': '' @ py_str fr message] else parts)) else
                         parts)) parts (arr_of entries) in
               parts) else parts)) parts (obj_of details) in
         if parts \<noteq> [] then join ''; '' parts
         else let error = dict_get (obj_of payload) ''error'' JNull in
         if is_str error \<and> py_bool error then str_of error
         else ''HTTP '' @ show_int status_code)
       else (let error = dict_get (obj_of payload) ''error'' JNull in
         if is_str error \<and> py_bool error then str_of error
         else ''HTTP '' @ show_int status_code))
     else ''HTTP '' @ show_int status_code)"

definition zendesk_dispatch_one :: "exec_ctx \<Rightarrow> item \<Rightarrow> http_client \<Rightarrow> string \<Rightarrow> item result" where
  "zendesk_dispatch_one ctx it client auth_header =
     rbind (resolved_params ctx (Some it)) (\<lambda>params.
     let operation = py_strip (py_str (ctx_fr ctx) (param_or params ''operation'' (JStr ''get_ticket''))) in
     if operation \<notin> set [''get_ticket'', ''create_ticket'', ''update_ticket'', ''list_tickets'',
         ''add_comment'', ''search''] then raise NodeExecutionError (''Zendesk: unsupported operation '' @
         repr_str operation)
     else rbind (node_error_from ValueError (\<lambda>exc. exc)
         (zendesk_build_request (ctx_fr ctx) operation params)) (\<lambda>(method, path, body, query).
     rbind (node_error_from HTTPError (\<lambda>exc. ''Zendesk: network error on '' @ operation @ '': '' @ exc)
         (client ((mk_request method path)\<lparr>rq_params := (if query = [] then None else Some query), rq_json :=
             map_option JObj body, rq_headers := [(''Authorization'', JStr auth_header), (''Accept'', JStr
             ''application/json''), (''Content-Type'', JStr ''application/json'')]\<rparr>))) (\<lambda>response.
     let payload = safe_json response in
     let result = [(''operation'', JStr operation), (''status'', JInt (rs_status response)), (''response'',
         payload)] in
     let result = (if operation = ''list_tickets'' \<and> is_obj payload then (let tickets = dict_get (obj_of
         payload) ''tickets'' (JArr []) in
       dict_set ''results'' (if is_arr tickets then tickets else JArr []) result) else ((if operation =
           ''search'' \<and> is_obj payload then (let hits = dict_get (obj_of payload) ''results'' (JArr []) in
         dict_set ''results'' (if is_arr hits then hits else JArr []) result) else result))) in
     if 400 \<le> (rs_status response) then (let error = zendesk_error_message (ctx_fr ctx) payload (rs_status
         response) in
       raise NodeExecutionError (''Zendesk '' @ operation @ '' failed (HTTP '' @ show_int (rs_status response)
           @ ''): '' @ error))
     else Inr (mk_item result))))"

definition zendesk_execute :: "network \<Rightarrow> exec_ctx \<Rightarrow> item list \<Rightarrow> item list list result" where
  "zendesk_execute net ctx items =
     rbind (zendesk_resolve_credentials ctx) (\<lambda>(subdomain, auth_header).
     let seed = (if items = [] then [mk_item []] else items) in
     let base_url = ''https://'' @ subdomain @ ''.zendesk.com'' in
     rbind (each_item (\<lambda>i it. let client = net base_url i in
         zendesk_dispatch_one ctx it client auth_header) seed) (\<lambda>results.
     Inr [results]))"

lemma zendesk_resolve_credentials_ok: "prepares ctx (zendesk_resolve_credentials ctx)"
  unfolding zendesk_resolve_credentials_def by (rule prepares_rules)+

lemma zendesk_dispatch_one_ok:
  "answers ctx it (client) (shape_ok zendesk_shape) (zendesk_dispatch_one ctx it client auth_header)"
  unfolding zendesk_dispatch_one_def prod.case
  by ((rule request_builder.answers_build [OF zendesk.request_builder_axioms] answers_if answers_rules)+;
      (rule answers_return, assumption, assumption)?; simp add: mk_request_def Let_def dict_simps del: map_of_eq_Some_iff)

text \<open>What \<open>execute\<close> computes before its loop.\<close>

definition zendesk_prepare where
  "zendesk_prepare ctx =
     rbind (zendesk_resolve_credentials ctx) (\<lambda>(subdomain, auth_header).
     let base_url = ''https://'' @ subdomain @ ''.zendesk.com'' in
     Inr (base_url, auth_header))"

lemma zendesk_prepare_ok: "prepares ctx (zendesk_prepare ctx)"
  unfolding zendesk_prepare_def by (rule zendesk_resolve_credentials_ok prepares_rules)+

interpretation zendesk_node: http_node "zendesk_execute" zendesk_prepare
  "\<lambda>(address, auth_header). address" "\<lambda>ctx (address, auth_header) client it. zendesk_dispatch_one ctx it client
      auth_header"
  "\<lambda>_ client. client" "shape_ok zendesk_shape"
proof (rule http_node.intro, goal_cases)
  case 1 show ?case by (simp only: zendesk_execute_def zendesk_prepare_def prepare_simps)
next
  case 2 show ?case by (rule zendesk_prepare_ok)
next
  case 3 show ?case by (simp add: zendesk_dispatch_one_ok split: prod.split)
qed

section \<open>Zoho crm\<close>

definition zoho_crm_resolve_credentials :: "exec_ctx \<Rightarrow> (string \<times> string) result" where
  "zoho_crm_resolve_credentials ctx =
     rbind (load_credential ctx ''zoho_crm_oauth2'') (\<lambda>credential.
     (case credential of
       None \<Rightarrow> raise NodeExecutionError ''Zoho: a zoho_crm_oauth2 credential is required''
     | Some credential \<Rightarrow>
       let (unused, payload) = credential in
       let token = text_param (ctx_fr ctx) payload ''access_token'' in
       if token = [] then raise NodeExecutionError (''Zoho: credential has an empty 'access_token'' @ [CHR
           0x27])
       else let datacenter = py_lower (py_strip (py_str (ctx_fr ctx) (param_or payload ''datacenter'' (JStr
           ''us'')))) in
       Inr (token, datacenter)))"

definition zoho_crm_normalize_fields_filter :: "jobj \<Rightarrow> jobj" where
  "zoho_crm_normalize_fields_filter params =
     (let fields_filter = dict_get params ''fields_filter'' JNull in
     if is_blank fields_filter then params
     else if dict_get params ''fields'' JNull \<noteq> JNull then params
     else let forwarded = params in
     dict_set ''fields'' fields_filter forwarded)"

definition zoho_crm_error_message :: "(rat \<Rightarrow> string) \<Rightarrow> json \<Rightarrow> int \<Rightarrow> string" where
  "zoho_crm_error_message fr payload status_code =
     (if is_obj payload then (let code = dict_get (obj_of payload) ''code'' JNull in
       let message = dict_get (obj_of payload) ''message'' JNull in
       if is_str message \<and> py_bool message then (if py_bool code then py_str fr code @ '': '' @ py_str fr
           message else str_of message)
       else ''HTTP '' @ show_int status_code)
     else ''HTTP '' @ show_int status_code)"

definition zoho_crm_dispatch_one :: "exec_ctx \<Rightarrow> item \<Rightarrow> http_client \<Rightarrow> string \<Rightarrow> item result" where
  "zoho_crm_dispatch_one ctx it client token =
     rbind (resolved_params ctx (Some it)) (\<lambda>params.
     let operation = py_strip (py_str (ctx_fr ctx) (param_or params ''operation'' (JStr ''list_records''))) in
     if operation \<notin> set [''list_records'', ''get_record'', ''create_record'', ''update_record'',
         ''delete_record'', ''search_records''] then raise NodeExecutionError (''Zoho: unsupported operation ''
         @ repr_str operation)
     else let forwarded = zoho_crm_normalize_fields_filter params in
     rbind (node_error_from ValueError (\<lambda>exc. exc)
         (zoho_crm_build_request (ctx_fr ctx) operation forwarded)) (\<lambda>(method, path, body, query).
     rbind (node_error_from HTTPError (\<lambda>exc. ''Zoho: network error on '' @ operation @ '': '' @ exc)
         (client ((mk_request method path)\<lparr>rq_params := (if query = [] then None else Some query), rq_json :=
             map_option JObj body, rq_headers := [(''Authorization'', JStr (''Zoho-oauthtoken '' @ token)),
             (''Accept'', JStr ''application/json''), (''Content-Type'', JStr ''application/json'')]\<rparr>)))
             (\<lambda>response.
     let payload = safe_json response in
     let result = [(''operation'', JStr operation), (''status'', JInt (rs_status response)), (''response'',
         payload)] in
     let result = (if operation \<in> set [''list_records'', ''search_records''] \<and> is_obj payload then (let data =
         dict_get (obj_of payload) ''data'' (JArr []) in
       dict_set ''data'' (if is_arr data then data else JArr []) result) else result) in
     if 400 \<le> (rs_status response) then (let error = zoho_crm_error_message (ctx_fr ctx) payload (rs_status
         response) in
       raise NodeExecutionError (''Zoho '' @ operation @ '' failed (HTTP '' @ show_int (rs_status response) @
           ''): '' @ error))
     else Inr (mk_item result))))"

definition zoho_crm_execute :: "network \<Rightarrow> exec_ctx \<Rightarrow> item list \<Rightarrow> item list list result" where
  "zoho_crm_execute net ctx items =
     rbind (zoho_crm_resolve_credentials ctx) (\<lambda>(token, datacenter).
     rbind (node_error_from ValueError (\<lambda>exc. exc)
         (zoho_crm_oauth2_host_for datacenter)) (\<lambda>host.
     let base_url = ''https://'' @ host in
     let seed = (if items = [] then [mk_item []] else items) in
     rbind (each_item (\<lambda>i it. let client = net base_url i in
         zoho_crm_dispatch_one ctx it client token) seed) (\<lambda>results.
     Inr [results])))"

lemma zoho_crm_resolve_credentials_ok: "prepares ctx (zoho_crm_resolve_credentials ctx)"
  unfolding zoho_crm_resolve_credentials_def by (rule zoho_crm_oauth2_host_for_ok [THEN prepares_translated] prepares_rules)+

lemma zoho_crm_dispatch_one_ok:
  "answers ctx it (client) (shape_ok zoho_crm_shape) (zoho_crm_dispatch_one ctx it client token)"
  unfolding zoho_crm_dispatch_one_def prod.case
  by ((rule request_builder.answers_build [OF zoho_crm.request_builder_axioms] answers_if answers_rules)+;
      (rule answers_return, assumption, assumption)?; simp add: mk_request_def Let_def dict_simps del: map_of_eq_Some_iff)

text \<open>What \<open>execute\<close> computes before its loop.\<close>

definition zoho_crm_prepare where
  "zoho_crm_prepare ctx =
     rbind (zoho_crm_resolve_credentials ctx) (\<lambda>(token, datacenter).
     rbind (node_error_from ValueError (\<lambda>exc. exc)
     (zoho_crm_oauth2_host_for datacenter)) (\<lambda>host.
     let base_url = ''https://'' @ host in
     Inr (base_url, token)))"

lemma zoho_crm_prepare_ok: "prepares ctx (zoho_crm_prepare ctx)"
  unfolding zoho_crm_prepare_def by (rule zoho_crm_oauth2_host_for_ok [THEN prepares_translated] zoho_crm_resolve_credentials_ok prepares_rules)+

interpretation zoho_crm_node: http_node "zoho_crm_execute" zoho_crm_prepare
  "\<lambda>(address, token). address" "\<lambda>ctx (address, token) client it. zoho_crm_dispatch_one ctx it client token"
  "\<lambda>_ client. client" "shape_ok zoho_crm_shape"
proof (rule http_node.intro, goal_cases)
  case 1 show ?case by (simp only: zoho_crm_execute_def zoho_crm_prepare_def prepare_simps)
next
  case 2 show ?case by (rule zoho_crm_prepare_ok)
next
  case 3 show ?case by (simp add: zoho_crm_dispatch_one_ok split: prod.split)
qed

section \<open>Zoom\<close>

definition zoom_resolve_credential :: "exec_ctx \<Rightarrow> string result" where
  "zoom_resolve_credential ctx =
     rbind (load_credential ctx ''zoom_api'') (\<lambda>credential.
     (case credential of
       None \<Rightarrow> raise NodeExecutionError ''Zoom: a zoom_api credential is required''
     | Some credential \<Rightarrow>
       let (unused, payload) = credential in
       let token = text_param (ctx_fr ctx) payload ''access_token'' in
       if token = [] then raise NodeExecutionError (''Zoom: credential has an empty 'access_token'' @ [CHR
           0x27])
       else Inr token))"

definition zoom_error_message :: "(rat \<Rightarrow> string) \<Rightarrow> json \<Rightarrow> int \<Rightarrow> string" where
  "zoom_error_message fr payload status_code =
     (if is_obj payload then (let message = dict_get (obj_of payload) ''message'' JNull in
       if is_str message \<and> py_bool message then (let code = dict_get (obj_of payload) ''code'' JNull in
         if is_int code then ''code '' @ py_str fr code @ '': '' @ py_str fr message
         else str_of message)
       else ''HTTP '' @ show_int status_code)
     else ''HTTP '' @ show_int status_code)"

definition zoom_dispatch_one :: "exec_ctx \<Rightarrow> item \<Rightarrow> http_client \<Rightarrow> jobj \<Rightarrow> item result" where
  "zoom_dispatch_one ctx it client headers =
     rbind (resolved_params ctx (Some it)) (\<lambda>params.
     let operation = py_strip (py_str (ctx_fr ctx) (param_or params ''operation'' (JStr ''list_meetings''))) in
     if operation \<notin> set [''list_meetings'', ''get_meeting'', ''create_meeting'', ''update_meeting'',
         ''delete_meeting'', ''list_past_participants''] then raise NodeExecutionError
         (''Zoom: unsupported operation '' @ repr_str operation)
     else rbind (node_error_from ValueError (\<lambda>exc. exc)
         (zoom_build_request (ctx_fr ctx) operation params)) (\<lambda>(method, path, body, query).
     let request_headers = headers in
     let request_headers = (if body \<noteq> None then dict_set ''Content-Type'' (JStr ''application/json'')
         request_headers else request_headers) in
     rbind (node_error_from HTTPError (\<lambda>exc. ''Zoom: network error on '' @ operation @ '': '' @ exc)
         (client ((mk_request method path)\<lparr>rq_params := (if query = [] then None else Some query), rq_json :=
             map_option JObj body, rq_headers := request_headers\<rparr>))) (\<lambda>response.
     let payload = safe_json response in
     let result = [(''operation'', JStr operation), (''status'', JInt (rs_status response)), (''response'',
         payload)] in
     if 400 \<le> (rs_status response) then (let error = zoom_error_message (ctx_fr ctx) payload (rs_status
         response) in
       raise NodeExecutionError (''Zoom '' @ operation @ '' failed (HTTP '' @ show_int (rs_status response) @
           ''): '' @ error))
     else Inr (mk_item result))))"

definition zoom_execute :: "network \<Rightarrow> exec_ctx \<Rightarrow> item list \<Rightarrow> item list list result" where
  "zoom_execute net ctx items =
     rbind (zoom_resolve_credential ctx) (\<lambda>access_token.
     let seed = (if items = [] then [mk_item []] else items) in
     let headers = [(''Authorization'', JStr (''Bearer '' @ access_token)), (''Accept'', JStr
         ''application/json'')] in
     rbind (each_item (\<lambda>i it. let client = net ''https://api.zoom.us/v2'' i in
         zoom_dispatch_one ctx it client headers) seed) (\<lambda>results.
     Inr [results]))"

lemma zoom_resolve_credential_ok: "prepares ctx (zoom_resolve_credential ctx)"
  unfolding zoom_resolve_credential_def by (rule prepares_rules)+

lemma zoom_dispatch_one_ok:
  "answers ctx it (client) (shape_ok zoom_shape) (zoom_dispatch_one ctx it client headers)"
  unfolding zoom_dispatch_one_def prod.case
  by ((rule request_builder.answers_build [OF zoom.request_builder_axioms] answers_if answers_rules)+;
      (rule answers_return, assumption, assumption)?; simp add: mk_request_def Let_def dict_simps del: map_of_eq_Some_iff)

text \<open>What \<open>execute\<close> computes before its loop.\<close>

definition zoom_prepare where
  "zoom_prepare ctx =
     rbind (zoom_resolve_credential ctx) (\<lambda>access_token.
     let headers = [(''Authorization'', JStr (''Bearer '' @ access_token)), (''Accept'', JStr
         ''application/json'')] in
     Inr (''https://api.zoom.us/v2'', headers))"

lemma zoom_prepare_ok: "prepares ctx (zoom_prepare ctx)"
  unfolding zoom_prepare_def by (rule zoom_resolve_credential_ok prepares_rules)+

interpretation zoom_node: http_node "zoom_execute" zoom_prepare
  "\<lambda>(address, headers). address" "\<lambda>ctx (address, headers) client it. zoom_dispatch_one ctx it client headers"
  "\<lambda>_ client. client" "shape_ok zoom_shape"
proof (rule http_node.intro, goal_cases)
  case 1 show ?case by (simp only: zoom_execute_def zoom_prepare_def prepare_simps)
next
  case 2 show ?case by (rule zoom_prepare_ok)
next
  case 3 show ?case by (simp add: zoom_dispatch_one_ok split: prod.split)
qed

end
