(* ===== verification/Integrations.thy ===== *)
theory Integrations
  imports Builders_1 Builders_2 Builders_3 Builders_4 Builders_5 Builders_6 Builders_7 Nodes_1 Nodes_2 Nodes_3 Nodes_4 Nodes_5
begin

text \<open>
  The integrations as a whole: the catalogue of their request builders and the catalogue of the nodes
  that are modelled in full, with what holds of every one of them. The catalogues collect the
  interpretations of \<open>request_builder\<close> and \<open>http_node\<close>.
\<close>

section \<open>Request builders\<close>

text \<open>
  One entry per integration: its name, the operations with the number of slashes of their paths
  (\<open>None\<close> where an identifier goes into the path as it is), and the builder with the body and the query
  left out. \<open>dflt\<close> is the default channel of Slack.
\<close>

definition target_of :: "(string \<times> string \<times> 'a) result \<Rightarrow> (string \<times> string) result" where
  "target_of r = rbind r (\<lambda>(meth, path, _). Inr (meth, path))"

definition request_builders :: "(rat \<Rightarrow> string) \<Rightarrow> string
    \<Rightarrow> (string \<times> (string, nat option) dict \<times> (string \<Rightarrow> jobj \<Rightarrow> (string \<times> string) result)) list" where
  "request_builders fr dflt =
     [(''activecampaign'', activecampaign_shape, \<lambda>operation params. target_of (activecampaign_build_request fr
         operation params)),
      (''airtable'', airtable_shape, \<lambda>operation params. target_of (airtable_build_request fr operation params)),
      (''algolia'', algolia_shape, \<lambda>operation params. target_of (algolia_build_request fr operation params)),
      (''alpaca'', alpaca_shape, \<lambda>operation params. target_of (alpaca_build_request fr operation params)),
      (''asana'', asana_shape, \<lambda>operation params. target_of (asana_build_request fr operation params)),
      (''asc'', asc_shape, \<lambda>operation params. target_of (asc_build_request fr operation params)),
      (''aws_s3'', aws_s3_shape, \<lambda>operation params. target_of (aws_s3_build_request fr operation params)),
      (''binance'', binance_shape, \<lambda>operation params. target_of (binance_build_request fr operation params)),
      (''box'', box_shape, \<lambda>operation params. target_of (box_build_request fr operation params)),
      (''brevo'', brevo_shape, \<lambda>operation params. target_of (brevo_build_request fr operation params)),
      (''clickup'', clickup_shape, \<lambda>operation params. target_of (clickup_build_request fr operation params)),
      (''coinbase'', coinbase_shape, \<lambda>operation params. target_of (coinbase_build_request fr operation params)),
      (''discord'', discord_shape, \<lambda>operation params. target_of (discord_build_request fr operation params)),
      (''facebook'', facebook_shape, \<lambda>operation params. target_of (facebook_build_request fr operation params)),
      (''ga4'', ga4_shape, \<lambda>operation params. target_of (ga4_build_request fr operation params)),
      (''gcs'', gcs_shape, \<lambda>operation params. target_of (gcs_build_request fr operation params)),
      (''ghost'', ghost_shape, \<lambda>operation params. target_of (ghost_build_request fr operation params)),
      (''github'', github_shape, \<lambda>operation params. target_of (github_build_request fr operation params)),
      (''gitlab'', gitlab_shape, \<lambda>operation params. target_of (gitlab_build_request fr operation params)),
      (''google_sheets'', google_sheets_shape, \<lambda>operation params. target_of (google_sheets_build_request fr
          operation params)),
      (''harvest'', harvest_shape, \<lambda>operation params. target_of (harvest_build_request fr operation params)),
      (''hubspot'', hubspot_shape, \<lambda>operation params. target_of (hubspot_build_request fr operation params)),
      (''intercom'', intercom_shape, \<lambda>operation params. target_of (intercom_build_request fr operation params)),
      (''jira'', jira_shape, \<lambda>operation params. target_of (jira_build_request fr operation params)),
      (''mapbox'', mapbox_shape, \<lambda>operation params. target_of (mapbox_build_request fr operation params)),
      (''mattermost'', mattermost_shape, \<lambda>operation params. target_of (mattermost_build_request fr operation
          params)),
      (''mongodb_atlas'', mongodb_atlas_shape, \<lambda>operation params. target_of (mongodb_atlas_build_request fr
          operation params)),
      (''netsuite'', netsuite_shape, \<lambda>operation params. target_of (netsuite_build_request fr operation params)),
      (''notion'', notion_shape, \<lambda>operation params. target_of (notion_build_request fr operation params)),
      (''okta'', okta_shape, \<lambda>operation params. target_of (okta_build_request fr operation params)),
      (''ollama'', ollama_shape, \<lambda>operation params. target_of (ollama_build_request fr operation params)),
      (''onedrive'', onedrive_shape, \<lambda>operation params. target_of (onedrive_build_request fr operation params)),
      (''pagerduty'', pagerduty_shape, \<lambda>operation params. target_of (pagerduty_build_request fr operation
          params)),
      (''pipedrive'', pipedrive_shape, \<lambda>operation params. target_of (pipedrive_build_request fr operation
          params)),
      (''plaid'', plaid_shape, \<lambda>operation params. target_of (plaid_build_request fr operation params)),
      (''quickbooks'', quickbooks_shape, \<lambda>operation params. target_of (quickbooks_build_request fr operation
          params)),
      (''reddit'', reddit_shape, \<lambda>operation params. target_of (reddit_build_request fr operation params)),
      (''rocket_chat'', rocket_chat_shape, \<lambda>operation params. target_of (rocket_chat_build_request fr operation
          params)),
      (''shopify'', shopify_shape, \<lambda>operation params. target_of (shopify_build_request fr operation params)),
      (''slack'', slack_shape, \<lambda>operation params. target_of (slack_build_request fr operation params dflt)),
      (''snowflake'', snowflake_shape, \<lambda>operation params. target_of (snowflake_build_request fr operation
          params)),
      (''twilio'', twilio_shape, \<lambda>operation params. target_of (twilio_build_request fr operation params)),
      (''xero'', xero_shape, \<lambda>operation params. target_of (xero_build_request fr operation params)),
      (''zendesk'', zendesk_shape, \<lambda>operation params. target_of (zendesk_build_request fr operation params)),
      (''zoho_crm'', zoho_crm_shape, \<lambda>operation params. target_of (zoho_crm_build_request fr operation params)),
      (''zoom'', zoom_shape, \<lambda>operation params. target_of (zoom_build_request fr operation params))]"

text \<open>What the catalogue promises of an entry.\<close>

definition builder_ok :: "(string, nat option) dict \<Rightarrow> (string \<Rightarrow> jobj \<Rightarrow> (string \<times> string) result) \<Rightarrow> bool" where
  "builder_ok shape build \<longleftrightarrow> (\<forall>operation params.
     (map_of shape operation = None \<longrightarrow> raises ValueError (build operation params))
     \<and> (\<forall>e. build operation params = Inl e \<longrightarrow> exn_cls e = ValueError)
     \<and> (\<forall>meth path. build operation params = Inr (meth, path) \<longrightarrow> shape_ok shape operation meth path))"

lemma builder_ok_target:
  assumes "request_builder build shape"
  shows "builder_ok shape (\<lambda>operation params. target_of (build operation params))"
  unfolding builder_ok_def
proof (intro allI conjI impI)
  fix operation params e meth path
  note u = request_builder.unsupported [OF assms, of operation params]
  note s = request_builder.supported [OF assms, of operation _ params]
  show "map_of shape operation = None \<Longrightarrow> raises ValueError (target_of (build operation params))"
    using u by (auto simp: target_of_def raises_code rbind_def split: sum.splits)
  show "target_of (build operation params) = Inl e \<Longrightarrow> exn_cls e = ValueError"
    using u s by (cases "map_of shape operation")
      (auto simp: target_of_def rbind_def raises_code ensures_def split: sum.splits prod.splits)
  show "target_of (build operation params) = Inr (meth, path) \<Longrightarrow> shape_ok shape operation meth path"
    using request_builder.built_shape [OF assms, of operation params]
    by (auto simp: target_of_def rbind_def split: sum.splits prod.splits)
qed

lemmas request_builder_laws =
  activecampaign.request_builder_axioms
  airtable.request_builder_axioms
  algolia.request_builder_axioms
  alpaca.request_builder_axioms
  asana.request_builder_axioms
  asc.request_builder_axioms
  aws_s3.request_builder_axioms
  binance.request_builder_axioms
  box.request_builder_axioms
  brevo.request_builder_axioms
  clickup.request_builder_axioms
  coinbase.request_builder_axioms
  discord.request_builder_axioms
  facebook.request_builder_axioms
  ga4.request_builder_axioms
  gcs.request_builder_axioms
  ghost.request_builder_axioms
  github.request_builder_axioms
  gitlab.request_builder_axioms
  google_sheets.request_builder_axioms
  harvest.request_builder_axioms
  hubspot.request_builder_axioms
  intercom.request_builder_axioms
  jira.request_builder_axioms
  mapbox.request_builder_axioms
  mattermost.request_builder_axioms
  mongodb_atlas.request_builder_axioms
  netsuite.request_builder_axioms
  notion.request_builder_axioms
  okta.request_builder_axioms
  ollama.request_builder_axioms
  onedrive.request_builder_axioms
  pagerduty.request_builder_axioms
  pipedrive.request_builder_axioms
  plaid.request_builder_axioms
  quickbooks.request_builder_axioms
  reddit.request_builder_axioms
  rocket_chat.request_builder_axioms
  shopify.request_builder_axioms
  slack.request_builder_axioms
  snowflake.request_builder_axioms
  twilio.request_builder_axioms
  xero.request_builder_axioms
  zendesk.request_builder_axioms
  zoho_crm.request_builder_axioms
  zoom.request_builder_axioms

lemma request_builders_ok: "list_all (\<lambda>(name, shape, build). builder_ok shape build) (request_builders fr dflt)"
  unfolding request_builders_def list.pred_inject prod.case
  by (intro conjI TrueI request_builder_laws [THEN builder_ok_target] list.pred_inject(1))




text \<open>An identifier that goes into a path as it is can name another endpoint.\<close>

lemma unquoted_order_id:
  "coinbase_build_request (\<lambda>_. []) ''cancel_order'' [(''order_id'', JStr ''../profiles/x'')]
     = Inr (''DELETE'', ''/orders/../profiles/x'', None, [])"
  by code_simp

section \<open>Nodes\<close>

text \<open>
  The nodes modelled in full, under their node type. \<open>inject\<close> stands for the credential types, \<open>net\<close> for
  the network.
\<close>

definition http_nodes :: "injection \<Rightarrow> network \<Rightarrow> (string \<times> (exec_ctx \<Rightarrow> item list \<Rightarrow> item list list result)) list"
    where
  "http_nodes inject net =
     [(''weftlyflow.activecampaign'', activecampaign_execute net),
      (''weftlyflow.airtable'', airtable_execute net),
      (''weftlyflow.asana'', asana_execute net),
      (''weftlyflow.asc'', asc_execute inject net),
      (''weftlyflow.box'', box_execute net),
      (''weftlyflow.brevo'', brevo_execute net),
      (''weftlyflow.clickup'', clickup_execute net),
      (''weftlyflow.coinbase'', coinbase_execute inject net),
      (''weftlyflow.discord'', discord_execute net),
      (''weftlyflow.facebook'', facebook_execute inject net),
      (''weftlyflow.ga4'', ga4_execute inject net),
      (''weftlyflow.ghost'', ghost_execute inject net),
      (''weftlyflow.github'', github_execute net),
      (''weftlyflow.gitlab'', gitlab_execute net),
      (''weftlyflow.harvest'', harvest_execute inject net),
      (''weftlyflow.hubspot'', hubspot_execute net),
      (''weftlyflow.intercom'', intercom_execute net),
      (''weftlyflow.jira'', jira_execute net),
      (''weftlyflow.mapbox'', mapbox_execute inject net),
      (''weftlyflow.mattermost'', mattermost_execute net),
      (''weftlyflow.notion'', notion_execute net),
      (''weftlyflow.okta'', okta_execute net),
      (''weftlyflow.pagerduty'', pagerduty_execute net),
      (''weftlyflow.pipedrive'', pipedrive_execute net),
      (''weftlyflow.plaid'', plaid_execute net),
      (''weftlyflow.quickbooks'', quickbooks_execute net),
      (''weftlyflow.shopify'', shopify_execute net),
      (''weftlyflow.snowflake'', snowflake_execute net),
      (''weftlyflow.xero'', xero_execute net),
      (''weftlyflow.zendesk'', zendesk_execute net),
      (''weftlyflow.zoho_crm'', zoho_crm_execute net),
      (''weftlyflow.zoom'', zoom_execute net)]"

text \<open>What the catalogue promises of a node; the request that was answered may have been changed by the credential.\<close>

definition node_ok :: "injection \<Rightarrow> network \<Rightarrow> (exec_ctx \<Rightarrow> item list \<Rightarrow> item list list result) \<Rightarrow> bool" where
  "node_ok inject net execute \<longleftrightarrow> (\<forall>ctx items.
     (\<forall>out. execute ctx items = Inr out \<longrightarrow>
        (\<exists>results address. out = [results] \<and> length results = max 1 (length items)
           \<and> (\<forall>i < length results. \<exists>operation rq rs. net address i rq = Inr rs \<and> rs_status rs < 400
                \<and> map_of (item_json (results ! i)) ''operation'' = Some (JStr operation)
                \<and> map_of (item_json (results ! i)) ''status'' = Some (JInt (rs_status rs)))))
     \<and> (\<forall>e. execute ctx items = Inl e \<longrightarrow> exn_cls e = NodeExecutionError
           \<or> (\<exists>slot. load_credential ctx slot = Inl e) \<or> (\<exists>it. resolved_params ctx (Some it) = Inl e)
           \<or> (\<exists>slug creds rq. inject slug creds rq = Inl e) \<or> (\<exists>address i rq. net address i rq = Inl e)))"

text \<open>How a node uses the client: directly, or after the injection of its credential.\<close>

definition reaches :: "injection \<Rightarrow> http_client \<Rightarrow> http_client \<Rightarrow> bool" where
  "reaches inject client send \<longleftrightarrow>
     (\<forall>rq rs. send rq = Inr rs \<longrightarrow> (\<exists>rq'. client rq' = Inr rs))
     \<and> (\<forall>rq e. send rq = Inl e \<longrightarrow> (\<exists>slug creds rq'. inject slug creds rq' = Inl e) \<or> (\<exists>rq'. client rq' = Inl e))"

lemma reaches_direct: "reaches inject client client"
  by (auto simp: reaches_def)

lemma reaches_injected: "reaches inject client (injected inject c client)"
  unfolding reaches_def injected_def by (auto simp: rbind_def split: sum.splits)

lemma node_ok_http_node:
  assumes node: "http_node execute prepare base dispatch via ok"
    and via: "\<And>c client. reaches inject client (via c client)"
  shows "node_ok inject net (execute net)"
  unfolding node_ok_def
proof (intro allI conjI impI)
  fix ctx items out e
  assume "execute net ctx items = Inr out"
  from http_node.execute_returns [OF node this] obtain c results where r: "out = [results]"
    "length results = max 1 (length items)"
    and rep: "\<And>i. i < length results \<Longrightarrow> reports (via c (net (base c) i)) ok (results ! i)" by blast
  have "\<exists>operation rq rs. net (base c) i rq = Inr rs \<and> rs_status rs < 400
      \<and> map_of (item_json (results ! i)) ''operation'' = Some (JStr operation)
      \<and> map_of (item_json (results ! i)) ''status'' = Some (JInt (rs_status rs))" if "i < length results" for i
    using rep [OF that] via [of "net (base c) i" c] unfolding reports_def reaches_def by metis
  with r show "\<exists>results address. out = [results] \<and> length results = max 1 (length items)
      \<and> (\<forall>i < length results. \<exists>operation rq rs. net address i rq = Inr rs \<and> rs_status rs < 400
           \<and> map_of (item_json (results ! i)) ''operation'' = Some (JStr operation)
           \<and> map_of (item_json (results ! i)) ''status'' = Some (JInt (rs_status rs)))"
    by (intro exI [of _ results] exI [of _ "base c"]) simp
next
  fix ctx items e
  assume e: "execute net ctx items = Inl e"
  show "exn_cls e = NodeExecutionError
      \<or> (\<exists>slot. load_credential ctx slot = Inl e) \<or> (\<exists>it. resolved_params ctx (Some it) = Inl e)
      \<or> (\<exists>slug creds rq. inject slug creds rq = Inl e) \<or> (\<exists>address i rq. net address i rq = Inl e)"
  proof (cases "exn_cls e = NodeExecutionError")
    case False
    from http_node.execute_errors [OF node e False] via show ?thesis unfolding reaches_def by metis
  qed simp
qed

lemmas http_node_laws =
  activecampaign_node.http_node_axioms
  airtable_node.http_node_axioms
  asana_node.http_node_axioms
  box_node.http_node_axioms
  brevo_node.http_node_axioms
  clickup_node.http_node_axioms
  discord_node.http_node_axioms
  github_node.http_node_axioms
  gitlab_node.http_node_axioms
  hubspot_node.http_node_axioms
  intercom_node.http_node_axioms
  jira_node.http_node_axioms
  mattermost_node.http_node_axioms
  notion_node.http_node_axioms
  okta_node.http_node_axioms
  pagerduty_node.http_node_axioms
  pipedrive_node.http_node_axioms
  plaid_node.http_node_axioms
  quickbooks_node.http_node_axioms
  shopify_node.http_node_axioms
  snowflake_node.http_node_axioms
  xero_node.http_node_axioms
  zendesk_node.http_node_axioms
  zoho_crm_node.http_node_axioms
  zoom_node.http_node_axioms

lemmas injecting_node_laws =
  asc_node.http_node_axioms
  coinbase_node.http_node_axioms
  facebook_node.http_node_axioms
  ga4_node.http_node_axioms
  ghost_node.http_node_axioms
  harvest_node.http_node_axioms
  mapbox_node.http_node_axioms

lemma http_nodes_ok: "list_all (\<lambda>(name, execute). node_ok inject net execute) (http_nodes inject net)"
  unfolding http_nodes_def list.pred_inject prod.case
  by (intro conjI TrueI list.pred_inject(1)
      http_node_laws [THEN node_ok_http_node, OF reaches_direct]
      injecting_node_laws [THEN node_ok_http_node])
    (simp_all add: reaches_injected split: prod.split)


text \<open>A run of the Asana node with a stored token, against a service that answers every request.\<close>

definition demo_asana :: exec_ctx where
  "demo_asana = \<lparr>ctx_workflow = mk_workflow ''w'' ''p'' ''W'' [] [], ctx_execution_id = ''ex_1'', ctx_mode = ModeManual,
     ctx_node = (mk_node ''n'' ''N'' ''weftlyflow.asana'')\<lparr>parameters := [(''operation'', JStr ''get_task''), (''task_id'', JStr ''7'')],
       credentials := [(''asana_api'', ''c1'')]\<rparr>,
     ctx_inputs = [], ctx_static_data = [], ctx_canceled = False,
     ctx_credential_resolver = Some (\<lambda>_ _. Inr (''weftlyflow.asana_api'', [(''access_token'', JStr ''t'')])),
     ctx_sub_workflow_runner = None,
     ctx_process = \<lparr>exposed_env = [], expr_eval = (\<lambda>_ _. Inr JNull), float_repr = (\<lambda>_. []), instants = (0, 0)\<rparr>\<rparr>"

definition demo_net :: network where
  "demo_net address i rq = Inr \<lparr>rs_status = 200, rs_content = ''x'', rs_text = ''x'', rs_json = Some (JObj [(''data'', JStr (rq_path rq))])\<rparr>"


end
