(* ===== verification/Credential_Catalogue.thy ===== *)
theory Credential_Catalogue
  imports Credentials Credential_Types_1 Credential_Types_2 Credential_Types_3 Credential_Types_4 Catalogue
begin

text \<open>
  The built-in credential types as a whole: the registry they form, the table of their \<open>inject\<close> methods,
  and that every credential slot of a built-in node names registered types.
\<close>

section \<open>The built-in types\<close>

definition BUILTIN_TYPES :: "string list" where
  "BUILTIN_TYPES = map (\<lambda>m. ''weftlyflow.credentials.types.'' @ m)
     [''bearer_token'', ''basic_auth'', ''api_key_header'', ''api_key_query'', ''oauth2_generic'',
         ''slack_api'', ''slack_oauth2'', ''notion_api'', ''google_sheets_oauth2'', ''discord_bot'',
         ''telegram_bot'', ''trello_api'', ''hubspot_private_app'', ''jira_cloud'', ''shopify_admin'',
         ''clickup_api'', ''twilio_api'', ''gitlab_token'', ''intercom_api'', ''monday_api'', ''zendesk_api'',
         ''brevo_api'', ''pagerduty_api'', ''algolia_api'', ''mailchimp_api'', ''pipedrive_api'',
         ''zoho_crm_oauth2'', ''mattermost_api'', ''cloudflare_api'', ''freshdesk_api'', ''supabase_api'',
         ''okta_api'', ''ollama_api'', ''linear_api'', ''pushover_api'', ''elasticsearch_api'',
         ''dropbox_api'', ''twitch_api'', ''salesforce_api'', ''zoom_api'', ''microsoft_graph'', ''asana_api'',
         ''box_api'', ''snowflake_api'', ''datadog_api'', ''activecampaign_api'', ''aws_s3'', ''openai_api'',
         ''xero_api'', ''netsuite_api'', ''quickbooks_oauth2'', ''square_api'', ''facebook_graph'',
         ''anthropic_api'', ''bitbucket_api'', ''paypal_api'', ''mapbox_api'', ''rocket_chat_api'',
         ''contentful_api'', ''hasura_api'', ''ghost_admin'', ''pinecone_api'', ''gmail_oauth2'',
         ''google_drive_oauth2'', ''segment_write_key'', ''mixpanel_api'', ''posthog_api'', ''plaid_api'',
         ''klaviyo_api'', ''harvest_api'', ''mongodb_atlas_api'', ''ga4_measurement'', ''reddit_oauth2'',
         ''coinbase_exchange'', ''binance_api'', ''alpaca_api'', ''asc_api'', ''docusign_jwt'',
         ''cloudinary_api'', ''gcp_service_account'', ''google_genai_api'', ''mistral_api'', ''postgres_dsn'',
         ''qdrant_api'', ''chroma_api'', ''azure_storage_shared_key'', ''backblaze_b2'']"

definition builtin_types :: "credential_type list" where
  "builtin_types =
     [bearer_token_type, basic_auth_type, api_key_header_type, api_key_query_type, oauth2_generic_type,
         slack_api_type, slack_oauth2_type, notion_api_type, google_sheets_oauth2_type, discord_bot_type,
         telegram_bot_type, trello_api_type, hubspot_private_app_type, jira_cloud_type, shopify_admin_type,
         clickup_api_type, twilio_api_type, gitlab_token_type, intercom_api_type, monday_api_type,
         zendesk_api_type, brevo_api_type, pagerduty_api_type, algolia_api_type, mailchimp_api_type,
         pipedrive_api_type, zoho_crm_oauth2_type, mattermost_api_type, cloudflare_api_type,
         freshdesk_api_type, supabase_api_type, okta_api_type, ollama_api_type, linear_api_type,
         pushover_api_type, elasticsearch_api_type, dropbox_api_type, twitch_api_type, salesforce_api_type,
         zoom_api_type, microsoft_graph_type, asana_api_type, box_api_type, snowflake_api_type,
         datadog_api_type, activecampaign_api_type, aws_s3_type, openai_api_type, xero_api_type,
         netsuite_api_type, quickbooks_oauth2_type, square_api_type, facebook_graph_type, anthropic_api_type,
         bitbucket_api_type, paypal_api_type, mapbox_api_type, rocket_chat_api_type, contentful_api_type,
         hasura_api_type, ghost_admin_type, pinecone_api_type, gmail_oauth2_type, google_drive_oauth2_type,
         segment_write_key_type, mixpanel_api_type, posthog_api_type, plaid_api_type, klaviyo_api_type,
         harvest_api_type, mongodb_atlas_api_type, ga4_measurement_type, reddit_oauth2_type,
         coinbase_exchange_type, binance_api_type, alpaca_api_type, asc_api_type, docusign_jwt_type,
         cloudinary_api_type, gcp_service_account_type, google_genai_api_type, mistral_api_type,
         postgres_dsn_type, qdrant_api_type, chroma_api_type, azure_storage_shared_key_type, backblaze_b2_type]"

lemma builtin_slugs:
  "map ct_slug builtin_types =
     [''weftlyflow.bearer_token'', ''weftlyflow.basic_auth'', ''weftlyflow.api_key_header'',
         ''weftlyflow.api_key_query'', ''weftlyflow.oauth2_generic'', ''weftlyflow.slack_api'',
         ''weftlyflow.slack_oauth2'', ''weftlyflow.notion_api'', ''weftlyflow.google_sheets_oauth2'',
         ''weftlyflow.discord_bot'', ''weftlyflow.telegram_bot'', ''weftlyflow.trello_api'',
         ''weftlyflow.hubspot_private_app'', ''weftlyflow.jira_cloud'', ''weftlyflow.shopify_admin'',
         ''weftlyflow.clickup_api'', ''weftlyflow.twilio_api'', ''weftlyflow.gitlab_token'',
         ''weftlyflow.intercom_api'', ''weftlyflow.monday_api'', ''weftlyflow.zendesk_api'',
         ''weftlyflow.brevo_api'', ''weftlyflow.pagerduty_api'', ''weftlyflow.algolia_api'',
         ''weftlyflow.mailchimp_api'', ''weftlyflow.pipedrive_api'', ''weftlyflow.zoho_crm_oauth2'',
         ''weftlyflow.mattermost_api'', ''weftlyflow.cloudflare_api'', ''weftlyflow.freshdesk_api'',
         ''weftlyflow.supabase_api'', ''weftlyflow.okta_api'', ''weftlyflow.ollama_api'',
         ''weftlyflow.linear_api'', ''weftlyflow.pushover_api'', ''weftlyflow.elasticsearch_api'',
         ''weftlyflow.dropbox_api'', ''weftlyflow.twitch_api'', ''weftlyflow.salesforce_api'',
         ''weftlyflow.zoom_api'', ''weftlyflow.microsoft_graph'', ''weftlyflow.asana_api'',
         ''weftlyflow.box_api'', ''weftlyflow.snowflake_api'', ''weftlyflow.datadog_api'',
         ''weftlyflow.activecampaign_api'', ''weftlyflow.aws_s3'', ''weftlyflow.openai_api'',
         ''weftlyflow.xero_api'', ''weftlyflow.netsuite_api'', ''weftlyflow.quickbooks_oauth2'',
         ''weftlyflow.square_api'', ''weftlyflow.facebook_graph'', ''weftlyflow.anthropic_api'',
         ''weftlyflow.bitbucket_api'', ''weftlyflow.paypal_api'', ''weftlyflow.mapbox_api'',
         ''weftlyflow.rocket_chat_api'', ''weftlyflow.contentful_api'', ''weftlyflow.hasura_api'',
         ''weftlyflow.ghost_admin'', ''weftlyflow.pinecone_api'', ''weftlyflow.gmail_oauth2'',
         ''weftlyflow.google_drive_oauth2'', ''weftlyflow.segment_write_key'', ''weftlyflow.mixpanel_api'',
         ''weftlyflow.posthog_api'', ''weftlyflow.plaid_api'', ''weftlyflow.klaviyo_api'',
         ''weftlyflow.harvest_api'', ''weftlyflow.mongodb_atlas_api'', ''weftlyflow.ga4_measurement'',
         ''weftlyflow.reddit_oauth2'', ''weftlyflow.coinbase_exchange'', ''weftlyflow.binance_api'',
         ''weftlyflow.alpaca_api'', ''weftlyflow.asc_api'', ''weftlyflow.docusign_jwt'',
         ''weftlyflow.cloudinary_api'', ''weftlyflow.gcp_service_account'', ''weftlyflow.google_genai_api'',
         ''weftlyflow.mistral_api'', ''weftlyflow.postgres_dsn'', ''weftlyflow.qdrant_api'',
         ''weftlyflow.chroma'', ''weftlyflow.azure_storage_shared_key'', ''weftlyflow.backblaze_b2'']"
  by code_simp

section \<open>Injection\<close>

text \<open>
  \<open>inject\<close> of the types that need no cryptography (a subclass of the generic OAuth2 type inherits its
  method); the signing types are a parameter.
\<close>

definition inject_table :: "(rat \<Rightarrow> string) \<Rightarrow> (string, jobj \<Rightarrow> http_request \<Rightarrow> http_request result) dict" where
  "inject_table fr =
     [(''weftlyflow.bearer_token'', bearer_token_inject fr),
      (''weftlyflow.basic_auth'', basic_auth_inject fr),
      (''weftlyflow.api_key_header'', api_key_header_inject fr),
      (''weftlyflow.api_key_query'', api_key_query_inject fr),
      (''weftlyflow.oauth2_generic'', oauth2_generic_inject fr),
      (''weftlyflow.slack_api'', slack_api_inject fr),
      (''weftlyflow.slack_oauth2'', oauth2_generic_inject fr),
      (''weftlyflow.notion_api'', notion_api_inject fr),
      (''weftlyflow.google_sheets_oauth2'', oauth2_generic_inject fr),
      (''weftlyflow.discord_bot'', discord_bot_inject fr),
      (''weftlyflow.telegram_bot'', telegram_bot_inject),
      (''weftlyflow.trello_api'', trello_api_inject fr),
      (''weftlyflow.hubspot_private_app'', hubspot_private_app_inject fr),
      (''weftlyflow.jira_cloud'', jira_cloud_inject fr),
      (''weftlyflow.shopify_admin'', shopify_admin_inject fr),
      (''weftlyflow.clickup_api'', clickup_api_inject fr),
      (''weftlyflow.twilio_api'', twilio_api_inject fr),
      (''weftlyflow.gitlab_token'', gitlab_token_inject fr),
      (''weftlyflow.intercom_api'', intercom_api_inject fr),
      (''weftlyflow.monday_api'', monday_api_inject fr),
      (''weftlyflow.zendesk_api'', zendesk_api_inject fr),
      (''weftlyflow.brevo_api'', brevo_api_inject fr),
      (''weftlyflow.pagerduty_api'', pagerduty_api_inject fr),
      (''weftlyflow.algolia_api'', algolia_api_inject fr),
      (''weftlyflow.mailchimp_api'', mailchimp_api_inject fr),
      (''weftlyflow.pipedrive_api'', pipedrive_api_inject fr),
      (''weftlyflow.zoho_crm_oauth2'', zoho_crm_oauth2_inject fr),
      (''weftlyflow.mattermost_api'', mattermost_api_inject fr),
      (''weftlyflow.cloudflare_api'', cloudflare_api_inject fr),
      (''weftlyflow.freshdesk_api'', freshdesk_api_inject fr),
      (''weftlyflow.supabase_api'', supabase_api_inject fr),
      (''weftlyflow.okta_api'', okta_api_inject fr),
      (''weftlyflow.ollama_api'', ollama_api_inject fr),
      (''weftlyflow.linear_api'', linear_api_inject fr),
      (''weftlyflow.pushover_api'', pushover_api_inject),
      (''weftlyflow.elasticsearch_api'', elasticsearch_api_inject fr),
      (''weftlyflow.dropbox_api'', dropbox_api_inject fr),
      (''weftlyflow.twitch_api'', twitch_api_inject fr),
      (''weftlyflow.salesforce_api'', salesforce_api_inject fr),
      (''weftlyflow.zoom_api'', zoom_api_inject fr),
      (''weftlyflow.microsoft_graph'', microsoft_graph_inject fr),
      (''weftlyflow.asana_api'', asana_api_inject fr),
      (''weftlyflow.box_api'', box_api_inject fr),
      (''weftlyflow.snowflake_api'', snowflake_api_inject fr),
      (''weftlyflow.datadog_api'', datadog_api_inject fr),
      (''weftlyflow.activecampaign_api'', activecampaign_api_inject fr),
      (''weftlyflow.openai_api'', openai_api_inject fr),
      (''weftlyflow.xero_api'', xero_api_inject fr),
      (''weftlyflow.quickbooks_oauth2'', quickbooks_oauth2_inject fr),
      (''weftlyflow.square_api'', square_api_inject fr),
      (''weftlyflow.anthropic_api'', anthropic_api_inject fr),
      (''weftlyflow.bitbucket_api'', bitbucket_api_inject fr),
      (''weftlyflow.paypal_api'', paypal_api_inject),
      (''weftlyflow.mapbox_api'', mapbox_api_inject fr),
      (''weftlyflow.rocket_chat_api'', rocket_chat_api_inject fr),
      (''weftlyflow.contentful_api'', contentful_api_inject fr),
      (''weftlyflow.hasura_api'', hasura_api_inject fr),
      (''weftlyflow.pinecone_api'', pinecone_api_inject fr),
      (''weftlyflow.gmail_oauth2'', oauth2_generic_inject fr),
      (''weftlyflow.google_drive_oauth2'', oauth2_generic_inject fr),
      (''weftlyflow.segment_write_key'', segment_write_key_inject fr),
      (''weftlyflow.mixpanel_api'', mixpanel_api_inject),
      (''weftlyflow.posthog_api'', posthog_api_inject),
      (''weftlyflow.plaid_api'', plaid_api_inject),
      (''weftlyflow.klaviyo_api'', klaviyo_api_inject fr),
      (''weftlyflow.harvest_api'', harvest_api_inject fr),
      (''weftlyflow.mongodb_atlas_api'', mongodb_atlas_api_inject),
      (''weftlyflow.ga4_measurement'', ga4_measurement_inject fr),
      (''weftlyflow.reddit_oauth2'', reddit_oauth2_inject fr),
      (''weftlyflow.binance_api'', binance_api_inject fr),
      (''weftlyflow.alpaca_api'', alpaca_api_inject fr),
      (''weftlyflow.docusign_jwt'', docusign_jwt_inject),
      (''weftlyflow.cloudinary_api'', cloudinary_api_inject fr),
      (''weftlyflow.gcp_service_account'', gcp_service_account_inject),
      (''weftlyflow.google_genai_api'', google_genai_api_inject fr),
      (''weftlyflow.mistral_api'', mistral_api_inject fr),
      (''weftlyflow.postgres_dsn'', postgres_dsn_inject),
      (''weftlyflow.qdrant_api'', qdrant_api_inject fr),
      (''weftlyflow.chroma'', chroma_api_inject fr),
      (''weftlyflow.backblaze_b2'', backblaze_b2_inject)]"

definition builtin_inject :: "(rat \<Rightarrow> string) \<Rightarrow> injection \<Rightarrow> injection" where
  "builtin_inject fr signing slug creds rq =
     (case map_of (inject_table fr) slug of Some f \<Rightarrow> f creds rq | None \<Rightarrow> signing slug creds rq)"

lemmas injects_ok =
  activecampaign_api_inject_ok algolia_api_inject_ok alpaca_api_inject_ok anthropic_api_inject_ok
  api_key_header_inject_ok api_key_query_inject_ok asana_api_inject_ok backblaze_b2_inject_ok
  basic_auth_inject_ok bearer_token_inject_ok binance_api_inject_ok bitbucket_api_inject_ok
  box_api_inject_ok brevo_api_inject_ok chroma_api_inject_ok clickup_api_inject_ok
  cloudflare_api_inject_ok cloudinary_api_inject_ok contentful_api_inject_ok datadog_api_inject_ok
  discord_bot_inject_ok docusign_jwt_inject_ok dropbox_api_inject_ok elasticsearch_api_inject_ok
  freshdesk_api_inject_ok ga4_measurement_inject_ok gcp_service_account_inject_ok gitlab_token_inject_ok
  google_genai_api_inject_ok harvest_api_inject_ok hasura_api_inject_ok hubspot_private_app_inject_ok
  intercom_api_inject_ok jira_cloud_inject_ok klaviyo_api_inject_ok linear_api_inject_ok
  mailchimp_api_inject_ok mapbox_api_inject_ok mattermost_api_inject_ok microsoft_graph_inject_ok
  mistral_api_inject_ok mixpanel_api_inject_ok monday_api_inject_ok mongodb_atlas_api_inject_ok
  notion_api_inject_ok oauth2_generic_inject_ok okta_api_inject_ok ollama_api_inject_ok
  openai_api_inject_ok pagerduty_api_inject_ok paypal_api_inject_ok pinecone_api_inject_ok
  pipedrive_api_inject_ok plaid_api_inject_ok postgres_dsn_inject_ok posthog_api_inject_ok
  pushover_api_inject_ok qdrant_api_inject_ok quickbooks_oauth2_inject_ok reddit_oauth2_inject_ok
  rocket_chat_api_inject_ok salesforce_api_inject_ok segment_write_key_inject_ok shopify_admin_inject_ok
  slack_api_inject_ok snowflake_api_inject_ok square_api_inject_ok supabase_api_inject_ok
  telegram_bot_inject_ok trello_api_inject_ok twilio_api_inject_ok twitch_api_inject_ok
  xero_api_inject_ok zendesk_api_inject_ok zoho_crm_oauth2_inject_ok zoom_api_inject_ok

lemma inject_table_ok: "list_all (\<lambda>(slug, f). \<forall>creds rq. keeps rq (f creds rq)) (inject_table fr)"
  unfolding inject_table_def list.pred_inject prod.case
  by (intro conjI TrueI allI list.pred_inject(1) injects_ok)

lemma builtin_inject_keeps:
  "(\<And>slug creds rq. keeps rq (signing slug creds rq)) \<Longrightarrow> keeps rq (builtin_inject fr signing slug creds rq)"
  using inject_table_ok [of fr] unfolding builtin_inject_def
  by (auto simp: list_all_iff dest!: map_of_SomeD split: option.split)



section \<open>The registry\<close>

lemmas catalog_slots = core_catalog_slots integration_catalog_1_slots integration_catalog_2_slots
  integration_catalog_3_slots integration_catalog_4_slots ai_catalog_slots

lemma builtin_slugs_distinct: "distinct (map ct_slug builtin_types)"
proof -
  have "distinct (map (drop 11) (map ct_slug builtin_types))" unfolding builtin_slugs by simp
  then show ?thesis by (simp only: distinct_map)
qed

lemma builtin_slugs_nonempty: "list_all (\<lambda>c. ct_slug c \<noteq> []) builtin_types"
proof -
  have "list_all (\<lambda>s. s \<noteq> []) (map ct_slug builtin_types)" unfolding builtin_slugs by simp
  then show ?thesis by (simp add: list_all_iff)
qed

lemma slots_covered: "set (concat (map slot_slugs (builtin_catalog b))) \<subseteq> set (map ct_slug builtin_types)"
proof -
  have "set (concat (map slot_slugs (builtin_catalog b))) \<subseteq> set (concat (map slot_slugs core_catalog)
    @ concat (map slot_slugs integration_catalog_1) @ concat (map slot_slugs integration_catalog_2)
    @ concat (map slot_slugs integration_catalog_3) @ concat (map slot_slugs integration_catalog_4)
    @ concat (map slot_slugs ai_catalog))"
    by (auto simp: builtin_catalog_def)
  also have "\<dots> \<subseteq> set (map ct_slug builtin_types)"
    unfolding catalog_slots builtin_slugs by simp
  finally show ?thesis .
qed

lemma builtin_types_length: "length BUILTIN_TYPES = 87" "length builtin_types = 87"
proof -
  show "length BUILTIN_TYPES = 87" by (simp add: BUILTIN_TYPES_def)
  have "length (map ct_slug builtin_types) = 87" unfolding builtin_slugs by simp
  then show "length builtin_types = 87" by simp
qed

text \<open>
  When the 87 built-in modules import and expose their types, loading them
  into an empty registry succeeds and reports 87 new types, each available under its slug; and every
  credential type named by a slot of a built-in node, core, integration or AI, is registered, so a
  credential a node asks for is never refused for its type.
\<close>
theorem credential_types_load:
  assumes "map import_type BUILTIN_TYPES = map (Inr \<circ> CredType) builtin_types"
  shows "\<exists>reg. cr_load_builtins import_type BUILTIN_TYPES [] = Inr (reg, 87)
    \<and> (\<forall>c \<in> set builtin_types. cr_get reg (ct_slug c) = Inr c)
    \<and> (\<forall>s \<in> set (builtin_catalog enable_code_node). \<forall>slug \<in> set (slot_slugs s).
         \<exists>c. cr_get reg slug = Inr c \<and> ct_slug c = slug)"
proof -
  let ?reg = "map (\<lambda>c. (ct_slug c, c)) builtin_types"
  have "distinct (map fst ([] :: credential_registry) @ map ct_slug builtin_types)"
    using builtin_slugs_distinct by simp
  from cr_load_new [OF assms this builtin_slugs_nonempty]
  have load: "cr_load_builtins import_type BUILTIN_TYPES [] = Inr (?reg, 87)"
    using builtin_types_length by (simp add: cr_load_builtins_def)
  have get: "cr_get ?reg (ct_slug c) = Inr c" if "c \<in> set builtin_types" for c
  proof -
    have "map_of ?reg (ct_slug c) = Some c"
      using that builtin_slugs_distinct by (intro map_of_is_SomeI) (auto simp: comp_def)
    then show ?thesis by (simp add: cr_get_def)
  qed
  moreover have "\<exists>c. cr_get ?reg slug = Inr c \<and> ct_slug c = slug"
    if "s \<in> set (builtin_catalog enable_code_node)" "slug \<in> set (slot_slugs s)" for s slug
  proof -
    have "slug \<in> set (map ct_slug builtin_types)" using slots_covered [of enable_code_node] that by auto
    then show ?thesis using get by auto
  qed
  ultimately show ?thesis using load by blast
qed

definition demo_import :: "string \<Rightarrow> type_attribute result" where
  "demo_import m = (case map_of (zip BUILTIN_TYPES builtin_types) m of Some c \<Rightarrow> Inr (CredType c) | None \<Rightarrow> Inr NoType)"

theorem credential_types_load_witness:
  "\<exists>reg. cr_load_builtins demo_import BUILTIN_TYPES [] = Inr (reg, 87) \<and> cr_get reg (ct_slug asana_api_type) = Inr asana_api_type"
proof -
  have d: "distinct BUILTIN_TYPES" unfolding BUILTIN_TYPES_def distinct_map by (auto simp: inj_on_def)
  have "map demo_import BUILTIN_TYPES = map (Inr \<circ> CredType) builtin_types"
  proof (rule nth_equalityI)
    fix i assume "i < length (map demo_import BUILTIN_TYPES)"
    then show "map demo_import BUILTIN_TYPES ! i = map (Inr \<circ> CredType) builtin_types ! i"
      using map_of_zip_nth [of BUILTIN_TYPES builtin_types i] d builtin_types_length by (simp add: demo_import_def)
  qed (simp add: builtin_types_length)
  moreover have "asana_api_type \<in> set builtin_types" by (simp add: builtin_types_def)
  ultimately show ?thesis using credential_types_load [of demo_import True] by blast
qed

end
