(* ===== verification/Operation_Menu.thy ===== *)
theory Operation_Menu
  imports Integrations Catalogue
begin

text \<open>
  The menu of operations a node specification offers (\<open>node.py\<close>) against the operations its request
  builder accepts (\<open>operations.py\<close>).
\<close>

definition operation_property :: "node_spec \<Rightarrow> property_schema option" where
  "operation_property s = find (\<lambda>p. prop_name p = ''operation'') (spec_properties s)"

text \<open>The menu has exactly the accepted operations and its default is one of them.\<close>

definition menu_matches :: "node_spec \<Rightarrow> (string, nat option) dict \<Rightarrow> bool" where
  "menu_matches s shape =
     (case operation_property s of
        None \<Rightarrow> False
      | Some p \<Rightarrow>
          (case (prop_options p, prop_default p) of
             (Some opts, JStr d) \<Rightarrow>
               list_all (\<lambda>o'. opt_value o' \<in> set (map fst shape)) opts
               \<and> list_all (\<lambda>k. k \<in> set (map opt_value opts)) (map fst shape) \<and> d \<in> set (map fst shape)
           | _ \<Rightarrow> False))"

definition menus :: "(string \<times> node_spec \<times> (string, nat option) dict) list" where
  "menus =
     [(''activecampaign'', activecampaign_spec, activecampaign_shape),
      (''airtable'', airtable_spec, airtable_shape),
      (''algolia'', algolia_spec, algolia_shape),
      (''alpaca'', alpaca_spec, alpaca_shape),
      (''asana'', asana_spec, asana_shape),
      (''asc'', asc_spec, asc_shape),
      (''aws_s3'', aws_s3_spec, aws_s3_shape),
      (''binance'', binance_spec, binance_shape),
      (''box'', box_spec, box_shape),
      (''brevo'', brevo_spec, brevo_shape),
      (''clickup'', clickup_spec, clickup_shape),
      (''coinbase'', coinbase_spec, coinbase_shape),
      (''discord'', discord_spec, discord_shape),
      (''facebook'', facebook_spec, facebook_shape),
      (''ga4'', ga4_spec, ga4_shape),
      (''gcs'', gcs_spec, gcs_shape),
      (''ghost'', ghost_spec, ghost_shape),
      (''github'', github_spec, github_shape),
      (''gitlab'', gitlab_spec, gitlab_shape),
      (''google_sheets'', google_sheets_spec, google_sheets_shape),
      (''harvest'', harvest_spec, harvest_shape),
      (''hubspot'', hubspot_spec, hubspot_shape),
      (''intercom'', intercom_spec, intercom_shape),
      (''jira'', jira_spec, jira_shape),
      (''mapbox'', mapbox_spec, mapbox_shape),
      (''mattermost'', mattermost_spec, mattermost_shape),
      (''mongodb_atlas'', mongodb_atlas_spec, mongodb_atlas_shape),
      (''netsuite'', netsuite_spec, netsuite_shape),
      (''notion'', notion_spec, notion_shape),
      (''okta'', okta_spec, okta_shape),
      (''ollama'', ollama_spec, ollama_shape),
      (''onedrive'', onedrive_spec, onedrive_shape),
      (''pagerduty'', pagerduty_spec, pagerduty_shape),
      (''pipedrive'', pipedrive_spec, pipedrive_shape),
      (''plaid'', plaid_spec, plaid_shape),
      (''quickbooks'', quickbooks_spec, quickbooks_shape),
      (''reddit'', reddit_spec, reddit_shape),
      (''rocket_chat'', rocket_chat_spec, rocket_chat_shape),
      (''shopify'', shopify_spec, shopify_shape),
      (''slack'', slack_spec, slack_shape),
      (''snowflake'', snowflake_spec, snowflake_shape),
      (''twilio'', twilio_spec, twilio_shape),
      (''xero'', xero_spec, xero_shape),
      (''zendesk'', zendesk_spec, zendesk_shape),
      (''zoho_crm'', zoho_crm_spec, zoho_crm_shape),
      (''zoom'', zoom_spec, zoom_shape)]"

lemma menus_match: "list_all (\<lambda>(name, s, shape). menu_matches s shape) menus"
  by code_simp

text \<open>The menus are those of the catalogue of builders.\<close>

lemma menus_builders: "map (\<lambda>(name, s, shape). (name, shape)) menus = map (\<lambda>(name, shape, build). (name, shape)) (request_builders fr dflt)"
  by (simp add: menus_def request_builders_def)

lemma menu_entry:
  assumes "(name, shape, build) \<in> set (request_builders fr dflt)"
  shows "\<exists>s. (name, s, shape) \<in> set menus"
proof -
  have "(name, shape) \<in> set (map (\<lambda>(name, shape, build). (name, shape)) (request_builders fr dflt))"
    using assms by force
  then have "(name, shape) \<in> set (map (\<lambda>(name, s, shape). (name, shape)) menus)"
    unfolding menus_builders [of fr dflt] .
  then show ?thesis by auto
qed



end
