(* ===== verification/Py_Datetime.thy ===== *)
theory Py_Datetime
  imports Prelude
begin

text \<open>
  The part of Python's \<open>datetime\<close> the sources use to store time stamps: an aware UTC instant as the
  number of microseconds since 1970-01-01, its calendar fields in the proleptic Gregorian
  calendar (the algorithms of the library's \<open>_ymd2ord\<close> and \<open>_ord2ymd\<close>), \<open>isoformat\<close> and
  \<open>fromisoformat\<close>. The parser is modelled on the extended format with an optional fraction of six
  digits and an optional offset of hours and minutes, which covers every text \<open>isoformat\<close> writes;
  an absent offset is read as UTC.
\<close>

section \<open>Calendar\<close>

definition is_leap :: "nat \<Rightarrow> bool" where
  "is_leap y \<longleftrightarrow> y mod 4 = 0 \<and> (y mod 100 \<noteq> 0 \<or> y mod 400 = 0)"

definition month_lengths :: "nat \<Rightarrow> nat list" where
  "month_lengths y = [31, if is_leap y then 29 else 28, 31, 30, 31, 30, 31, 31, 30, 31, 30, 31]"

definition days_before_year :: "nat \<Rightarrow> nat" where
  "days_before_year y = (let p = y - 1 in p * 365 + p div 4 - p div 100 + p div 400)"

definition days_before_month :: "nat \<Rightarrow> nat \<Rightarrow> nat" where
  "days_before_month y m = sum_list (take (m - 1) (month_lengths y))"

definition ymd2ord :: "nat \<Rightarrow> nat \<Rightarrow> nat \<Rightarrow> nat" where
  "ymd2ord y m d = days_before_year y + days_before_month y m + d"

text \<open>The month and the day of a year from the number of days before it in the year.\<close>

fun month_day :: "nat list \<Rightarrow> nat \<Rightarrow> nat \<Rightarrow> nat \<times> nat" where
  "month_day [] m n = (m, n + 1)"
| "month_day [l] m n = (m, n + 1)"
| "month_day (l # k # ls) m n = (if n < l then (m, n + 1) else month_day (k # ls) (m + 1) (n - l))"

definition ord2ymd :: "nat \<Rightarrow> nat \<times> nat \<times> nat" where
  "ord2ymd ord =
     (let n = ord - 1;
          n400 = n div 146097; n = n mod 146097;
          n100 = n div 36524; n = n mod 36524;
          n4 = n div 1461; n = n mod 1461;
          n1 = n div 365; n = n mod 365;
          y = n400 * 400 + 1 + n100 * 100 + n4 * 4 + n1 in
      if n1 = 4 \<or> n100 = 4 then (y - 1, 12, 31)
      else let (m, d) = month_day (month_lengths y) 1 n in (y, m, d))"

lemma days_before_year_parts:
  assumes "b \<le> 3" "c \<le> 24" "d \<le> 3"
  shows "days_before_year (400 * a + 100 * b + 4 * c + d + 1) = 146097 * a + 36524 * b + 1461 * c + 365 * d"
proof -
  define p where "p = 400 * a + 100 * b + 4 * c + d"
  have "p div 4 = 100 * a + 25 * b + c" "p div 100 = 4 * a + b" "p div 400 = a"
    using assms by (auto simp: p_def)
  then show ?thesis by (simp add: days_before_year_def Let_def p_def)
qed

lemma div_step: "0 < k \<Longrightarrow> Suc p div k = p div k + (if Suc p mod k = 0 then 1 else 0)"
  by (simp add: div_Suc)

lemma days_before_year_Suc:
  assumes "0 < y"
  shows "days_before_year (Suc y) = days_before_year y + sum_list (month_lengths y)"
proof -
  obtain p where p: "y = Suc p" using assms by (cases y) auto
  define a b c where "a = p div 4" and "b = p div 100" and "c = p div 400"
  have q: "b \<le> a" unfolding a_def b_def by (intro div_le_mono2) auto
  have i: "Suc p mod 100 = 0 \<Longrightarrow> Suc p mod 4 = 0" "Suc p mod 400 = 0 \<Longrightarrow> Suc p mod 100 = 0" by presburger+
  have "days_before_year (Suc y) = Suc p * 365 + (a + (if Suc p mod 4 = 0 then 1 else 0))
      - (b + (if Suc p mod 100 = 0 then 1 else 0)) + (c + (if Suc p mod 400 = 0 then 1 else 0))"
    using div_step [of 4 p] div_step [of 100 p] div_step [of 400 p]
    by (simp only: p days_before_year_def Let_def diff_Suc_1 a_def b_def c_def)
  also have "\<dots> = p * 365 + a - b + c + (365 + (if is_leap y then 1 else 0))"
    unfolding is_leap_def p using q i by (auto split: if_splits)
  also have "\<dots> = days_before_year y + sum_list (month_lengths y)"
    by (simp add: days_before_year_def Let_def p a_def b_def c_def month_lengths_def)
  finally show ?thesis .
qed

lemma month_day_spec:
  assumes "month_day ls m n = (m', d)" and "n < sum_list ls"
  shows "m \<le> m' \<and> m' < m + length ls \<and> n + 1 = sum_list (take (m' - m) ls) + d
    \<and> 1 \<le> d \<and> d \<le> ls ! (m' - m)"
  using assms
proof (induction ls m n rule: month_day.induct)
  case (3 l k ls m n)
  show ?case
  proof (cases "n < l")
    case True
    with 3(2) show ?thesis by auto
  next
    case False
    with 3 have "m + 1 \<le> m' \<and> m' < m + 1 + length (k # ls)
        \<and> (n - l) + 1 = sum_list (take (m' - (m + 1)) (k # ls)) + d \<and> 1 \<le> d \<and> d \<le> (k # ls) ! (m' - (m + 1))" by auto
    moreover from this obtain j where "m' = m + 1 + j" using le_Suc_ex by blast
    ultimately show ?thesis using False by auto
  qed
qed auto

definition date_ok :: "nat \<Rightarrow> nat \<Rightarrow> nat \<Rightarrow> bool" where
  "date_ok y m d \<longleftrightarrow> 1 \<le> y \<and> 1 \<le> m \<and> m \<le> 12 \<and> 1 \<le> d \<and> d \<le> month_lengths y ! (m - 1)"

lemma length_month_lengths [simp]: "length (month_lengths y) = 12"
  by (simp add: month_lengths_def)

text \<open>The last day of a cycle of four or four hundred years is the one before the next year.\<close>

lemma last_day_of_cycle:
  assumes "b \<le> 4" "c \<le> 24" "e = 4 \<or> b = 4" and "r < 365"
    and "1461 * c + 365 * e + r < 36524" and "36524 * b + 1461 * c + 365 * e + r < 146097" and "365 * e + r < 1461"
  shows "days_before_year (a * 400 + 1 + b * 100 + c * 4 + e) = 146097 * a + 36524 * b + 1461 * c + 365 * e + r + 1"
proof (cases "b = 4")
  case True
  then have "c = 0" "e = 0" "r = 0" using assms(6) by auto
  with True days_before_year_parts [of 0 0 0 "a + 1"] show ?thesis by (simp add: mult.commute)
next
  case False
  then have e: "e = 4" "b \<le> 3" using assms(1,3) by auto
  then have r: "r = 0" using assms(7) by auto
  show ?thesis
  proof (cases "c = 24")
    case True
    with assms(5) e have False by simp
    then show ?thesis ..
  next
    case c: False
    then have "c + 1 \<le> 24" using assms(2) by simp
    with e r days_before_year_parts [of b "c + 1" 0 a] show ?thesis by (simp add: algebra_simps)
  qed
qed

lemma ord2ymd_inverse:
  assumes "1 \<le> ord" and "ord2ymd ord = (y, m, d)"
  shows "ymd2ord y m d = ord \<and> date_ok y m d"
proof -
  define n0 where "n0 = ord - 1"
  define a r1 where "a = n0 div 146097" and "r1 = n0 mod 146097"
  define b r2 where "b = r1 div 36524" and "r2 = r1 mod 36524"
  define c r3 where "c = r2 div 1461" and "r3 = r2 mod 1461"
  define e r4 where "e = r3 div 365" and "r4 = r3 mod 365"
  note defs = n0_def a_def r1_def b_def r2_def c_def r3_def e_def r4_def
  have bounds: "r1 < 146097" "r2 < 36524" "r3 < 1461" "r4 < 365" by (simp_all add: defs)
  have sum: "n0 = 146097 * a + r1" "r1 = 36524 * b + r2" "r2 = 1461 * c + r3" "r3 = 365 * e + r4"
    by (simp_all add: a_def r1_def b_def r2_def c_def r3_def e_def r4_def)
  have le: "b \<le> 4" "c \<le> 24" "e \<le> 4" using sum bounds by auto
  define yy where "yy = a * 400 + 1 + b * 100 + c * 4 + e"
  have eq: "ord2ymd ord = (if e = 4 \<or> b = 4 then (yy - 1, 12, 31)
      else let (m, d) = month_day (month_lengths yy) 1 r4 in (yy, m, d))"
    unfolding ord2ymd_def Let_def defs yy_def by (simp only:)
  show ?thesis
  proof (cases "e = 4 \<or> b = 4")
    case True
    then have y: "y = yy - 1" "m = 12" "d = 31" using eq assms(2) by auto
    have "days_before_year yy = n0 + 1"
      using last_day_of_cycle [OF le(1,2) True bounds(4), of a] bounds sum by (simp add: yy_def)
    moreover have y0: "0 < y" "Suc y = yy" using True by (auto simp: y yy_def)
    ultimately have "days_before_year y + sum_list (month_lengths y) = n0 + 1"
      using days_before_year_Suc [of y] by simp
    moreover have "sum_list (month_lengths y) = days_before_month y 12 + 31" "month_lengths y ! 11 = 31"
      by (simp_all add: days_before_month_def month_lengths_def)
    ultimately show ?thesis using y y0 assms(1) by (simp add: ymd2ord_def n0_def date_ok_def)
  next
    case False
    then have md: "y = yy" "month_day (month_lengths yy) 1 r4 = (m, d)"
      using eq assms(2) by (auto split: prod.splits)
    have "r4 < sum_list (month_lengths yy)" using bounds(4) by (simp add: month_lengths_def)
    note s = month_day_spec [OF md(2) this]
    have "days_before_year yy = 146097 * a + 36524 * b + 1461 * c + 365 * e"
      using days_before_year_parts [of b c e a] False le by (simp add: yy_def algebra_simps)
    moreover have "ord = Suc n0" using assms(1) by (simp add: n0_def)
    ultimately have "ymd2ord y m d = ord" using s sum by (simp add: ymd2ord_def md days_before_month_def)
    with s md show ?thesis by (auto simp: date_ok_def yy_def)
  qed
qed

section \<open>Instants\<close>

record civil =
  cv_year :: nat
  cv_month :: nat
  cv_day :: nat
  cv_hour :: nat
  cv_minute :: nat
  cv_second :: nat
  cv_micro :: nat

definition US_PER_DAY :: int where "US_PER_DAY = 86400000000"

definition EPOCH_ORD :: int where "EPOCH_ORD = 719163"

definition MAX_ORD :: int where "MAX_ORD = 3652059"

text \<open>The instants a \<open>datetime\<close> can hold: years 1 to 9999.\<close>

definition dt_ok :: "int \<Rightarrow> bool" where
  "dt_ok t \<longleftrightarrow> 1 \<le> t div US_PER_DAY + EPOCH_ORD \<and> t div US_PER_DAY + EPOCH_ORD \<le> MAX_ORD"

definition civil_of :: "int \<Rightarrow> civil" where
  "civil_of t =
     (let (y, m, d) = ord2ymd (nat (t div US_PER_DAY + EPOCH_ORD)); us = nat (t mod US_PER_DAY) in
      \<lparr>cv_year = y, cv_month = m, cv_day = d, cv_hour = us div 3600000000,
       cv_minute = us div 60000000 mod 60, cv_second = us div 1000000 mod 60, cv_micro = us mod 1000000\<rparr>)"

definition instant_of :: "civil \<Rightarrow> int" where
  "instant_of c = (int (ymd2ord (cv_year c) (cv_month c) (cv_day c)) - EPOCH_ORD) * US_PER_DAY
     + int (((cv_hour c * 60 + cv_minute c) * 60 + cv_second c) * 1000000 + cv_micro c)"

lemma hms_split:
  "((us div 3600000000 * 60 + us div 60000000 mod 60) * 60 + us div 1000000 mod 60) * 1000000 + us mod 1000000 = (us :: nat)"
proof -
  have "us div 60000000 div 60 = us div 3600000000" "us div 1000000 div 60 = us div 60000000"
    by (simp_all add: div_mult2_eq [symmetric])
  then have "us div 3600000000 * 60 + us div 60000000 mod 60 = us div 60000000"
    "us div 60000000 * 60 + us div 1000000 mod 60 = us div 1000000"
    by (metis div_mult_mod_eq)+
  then show ?thesis by simp
qed

lemma instant_of_civil_of:
  assumes "dt_ok t"
  shows "instant_of (civil_of t) = t"
proof -
  obtain y m d where o: "ord2ymd (nat (t div US_PER_DAY + EPOCH_ORD)) = (y, m, d)" by (metis prod_cases3)
  have "1 \<le> nat (t div US_PER_DAY + EPOCH_ORD)" using assms unfolding dt_ok_def by linarith
  from ord2ymd_inverse [OF this o] have "int (ymd2ord y m d) = t div US_PER_DAY + EPOCH_ORD"
    using assms by (simp add: dt_ok_def)
  moreover have "int (nat (t mod US_PER_DAY)) = t mod US_PER_DAY" by (simp add: US_PER_DAY_def)
  ultimately show ?thesis
    by (simp add: instant_of_def civil_of_def o Let_def hms_split [simplified])
qed

section \<open>Text\<close>

primrec pad_digits :: "nat \<Rightarrow> nat \<Rightarrow> string" where
  "pad_digits 0 n = []"
| "pad_digits (Suc w) n = pad_digits w (n div 10) @ [digit_char (n mod 10)]"

definition isoformat :: "int \<Rightarrow> string" where
  "isoformat t =
     (let c = civil_of t in
      pad_digits 4 (cv_year c) @ ''-'' @ pad_digits 2 (cv_month c) @ ''-'' @ pad_digits 2 (cv_day c) @ ''T'' @
      pad_digits 2 (cv_hour c) @ '':'' @ pad_digits 2 (cv_minute c) @ '':'' @ pad_digits 2 (cv_second c) @
      (if cv_micro c = 0 then [] else CHR ''.'' # pad_digits 6 (cv_micro c)) @ ''+00:00'')"

text \<open>A number of exactly \<open>w\<close> digits, and a fixed character.\<close>

definition number_field :: "nat \<Rightarrow> string \<Rightarrow> (nat \<times> string) option" where
  "number_field w s =
     (if w \<le> length s \<and> list_all is_ascii_digit (take w s)
      then Some (nat_of_digits 0 (take w s), drop w s) else None)"

definition literal_field :: "char \<Rightarrow> string \<Rightarrow> string option" where
  "literal_field c s = (case s of [] \<Rightarrow> None | d # s' \<Rightarrow> if d = c then Some s' else None)"

definition fraction_field :: "string \<Rightarrow> (nat \<times> string) option" where
  "fraction_field s = (case literal_field CHR ''.'' s of None \<Rightarrow> Some (0, s) | Some s' \<Rightarrow> number_field 6 s')"

text \<open>The offset in minutes.\<close>

definition offset_field :: "string \<Rightarrow> int option" where
  "offset_field s =
     (case s of
        [] \<Rightarrow> Some 0
      | c # s' \<Rightarrow>
          if c \<noteq> CHR ''+'' \<and> c \<noteq> CHR ''-'' then None
          else Option.bind (number_field 2 s') (\<lambda>(h, s).
            Option.bind (literal_field CHR '':'' s) (\<lambda>s.
            Option.bind (number_field 2 s) (\<lambda>(m, s).
            if s = [] \<and> h < 24 \<and> m < 60 then Some ((if c = CHR ''-'' then - 1 else 1) * int (h * 60 + m)) else None))))"

definition civil_ok :: "civil \<Rightarrow> bool" where
  "civil_ok c \<longleftrightarrow> date_ok (cv_year c) (cv_month c) (cv_day c) \<and> cv_hour c < 24 \<and> cv_minute c < 60 \<and> cv_second c < 60"

definition parse_iso :: "string \<Rightarrow> int option" where
  "parse_iso s =
     Option.bind (number_field 4 s) (\<lambda>(y, s). Option.bind (literal_field CHR ''-'' s) (\<lambda>s.
     Option.bind (number_field 2 s) (\<lambda>(m, s). Option.bind (literal_field CHR ''-'' s) (\<lambda>s.
     Option.bind (number_field 2 s) (\<lambda>(d, s). Option.bind (literal_field CHR ''T'' s) (\<lambda>s.
     Option.bind (number_field 2 s) (\<lambda>(h, s). Option.bind (literal_field CHR '':'' s) (\<lambda>s.
     Option.bind (number_field 2 s) (\<lambda>(mi, s). Option.bind (literal_field CHR '':'' s) (\<lambda>s.
     Option.bind (number_field 2 s) (\<lambda>(se, s). Option.bind (fraction_field s) (\<lambda>(us, s).
     Option.bind (offset_field s) (\<lambda>off.
       let c = \<lparr>cv_year = y, cv_month = m, cv_day = d, cv_hour = h, cv_minute = mi, cv_second = se, cv_micro = us\<rparr> in
       if civil_ok c then Some (instant_of c - off * 60000000) else None)))))))))))))"

definition fromisoformat :: "string \<Rightarrow> int result" where
  "fromisoformat s =
     (case parse_iso s of None \<Rightarrow> raise ValueError (''Invalid isoformat string: '' @ s) | Some t \<Rightarrow> Inr t)"

lemma length_pad_digits [simp]: "length (pad_digits w n) = w"
  by (induction w arbitrary: n) auto

lemma pad_digits_digits [simp]: "list_all is_ascii_digit (pad_digits w n)"
  by (induction w arbitrary: n) (auto simp: digit_char_digit)

lemma nat_of_pad_digits: "n < 10 ^ w \<Longrightarrow> nat_of_digits 0 (pad_digits w n) = n"
proof (induction w arbitrary: n)
  case (Suc w)
  then have "n div 10 < 10 ^ w" by (simp add: less_mult_imp_div_less mult.commute)
  with Suc.IH show ?case by (simp add: nat_of_digits_append digit_val_digit_char)
qed simp

lemma number_field_pad: "n < 10 ^ w \<Longrightarrow> number_field w (pad_digits w n @ s) = Some (n, s)"
  by (simp add: number_field_def nat_of_pad_digits)

lemma literal_field_Cons [simp]: "literal_field c (d # s) = (if d = c then Some s else None)"
  by (simp add: literal_field_def)

lemma offset_utc [simp]: "offset_field ''+00:00'' = Some 0"
  by code_simp

lemma ord2ymd_year:
  assumes "1 \<le> ord" and "int ord \<le> MAX_ORD" and "ord2ymd ord = (y, m, d)"
  shows "y < 10000"
proof (rule ccontr)
  assume "\<not> y < 10000"
  moreover have "days_before_year 10000 \<le> days_before_year y" if "10000 \<le> y"
    using that by (induction y rule: dec_induct) (simp_all add: days_before_year_Suc)
  ultimately have "days_before_year 10000 \<le> days_before_year y" by simp
  moreover have "days_before_year 10000 = 3652059" by (simp add: days_before_year_def)
  moreover have "1 \<le> d" "ymd2ord y m d = ord" using ord2ymd_inverse [OF assms(1,3)] by (auto simp: date_ok_def)
  ultimately show False using assms(2) by (simp add: ymd2ord_def MAX_ORD_def)
qed

lemma civil_of_ok:
  assumes "dt_ok t"
  shows "civil_ok (civil_of t)" "cv_year (civil_of t) < 10000" "cv_micro (civil_of t) < 1000000"
proof -
  obtain y m d where o: "ord2ymd (nat (t div US_PER_DAY + EPOCH_ORD)) = (y, m, d)" by (metis prod_cases3)
  have 1: "1 \<le> nat (t div US_PER_DAY + EPOCH_ORD)" using assms unfolding dt_ok_def by linarith
  have 2: "int (nat (t div US_PER_DAY + EPOCH_ORD)) \<le> MAX_ORD" using assms unfolding dt_ok_def by linarith
  have "t mod US_PER_DAY < 86400000000" "0 \<le> t mod US_PER_DAY" by (simp_all add: US_PER_DAY_def)
  then have "nat (t mod US_PER_DAY) < 24 * 3600000000" by (simp add: nat_less_iff)
  then have h: "nat (t mod US_PER_DAY) div 3600000000 < 24" by (rule less_mult_imp_div_less)
  show "civil_ok (civil_of t)" "cv_year (civil_of t) < 10000" "cv_micro (civil_of t) < 1000000"
    using ord2ymd_inverse [OF 1 o] ord2ymd_year [OF 1 2 o] h by (simp_all add: civil_ok_def civil_of_def o Let_def)
qed

lemma month_lengths_bound: "1 \<le> m \<Longrightarrow> m \<le> 12 \<Longrightarrow> month_lengths y ! (m - 1) \<le> 31"
proof -
  assume "1 \<le> m" "m \<le> 12"
  then have "month_lengths y ! (m - 1) \<in> set (month_lengths y)" by (intro nth_mem) auto
  then show ?thesis by (auto simp: month_lengths_def)
qed

text \<open>Reading a printed time stamp gives the instant back, to the microsecond.\<close>

theorem fromisoformat_isoformat:
  assumes "dt_ok t"
  shows "fromisoformat (isoformat t) = Inr t"
proof -
  define c where "c = civil_of t"
  have ok: "civil_ok c" "cv_year c < 10000" "cv_micro c < 1000000" and inst: "instant_of c = t"
    using civil_of_ok [OF assms] instant_of_civil_of [OF assms] by (simp_all add: c_def)
  have b: "cv_month c < 100" "cv_day c < 100" "cv_hour c < 100" "cv_minute c < 100" "cv_second c < 100"
    using ok(1) month_lengths_bound [of "cv_month c" "cv_year c"] by (auto simp: civil_ok_def date_ok_def)
  have fields: "\<lparr>cv_year = cv_year c, cv_month = cv_month c, cv_day = cv_day c, cv_hour = cv_hour c,
      cv_minute = cv_minute c, cv_second = cv_second c, cv_micro = cv_micro c\<rparr> = c"
    by simp
  have f: "fraction_field ((if cv_micro c = 0 then [] else CHR ''.'' # pad_digits 6 (cv_micro c)) @ ''+00:00'')
      = Some (cv_micro c, ''+00:00'')"
    using ok(3) number_field_pad [of "cv_micro c" 6 "''+00:00''"] by (simp add: fraction_field_def)
  have "parse_iso (isoformat t) = Some t"
    using ok(2) b f unfolding isoformat_def c_def [symmetric] Let_def parse_iso_def
    by (simp add: number_field_pad fields ok(1) inst)
  then show ?thesis by (simp add: fromisoformat_def)
qed

lemma pad_digits_add: "pad_digits (v + w) n = pad_digits v (n div 10 ^ w) @ pad_digits w n"
  by (induction w arbitrary: n) (simp_all add: div_mult2_eq)

lemma pad_digits_2: "pad_digits 2 n = [digit_char (n div 10 mod 10), digit_char (n mod 10)]"
  by (simp add: numeral_2_eq_2)

lemma pad_digits_4: "pad_digits 4 n = pad_digits 2 (n div 100) @ pad_digits 2 n"
  using pad_digits_add [of 2 2 n] by simp

lemma pad_digits_6: "pad_digits 6 n = pad_digits 4 (n div 100) @ pad_digits 2 n"
  using pad_digits_add [of 4 2 n] by simp

lemma digit_char_eval:
  "digit_char 0 = CHR ''0''" "digit_char (Suc 0) = CHR ''1''" "digit_char (Suc (Suc 0)) = CHR ''2''" "digit_char 2 = CHR ''2''" "digit_char 3 = CHR ''3''"
  "digit_char 4 = CHR ''4''" "digit_char 5 = CHR ''5''" "digit_char 6 = CHR ''6''" "digit_char 7 = CHR ''7''"
  "digit_char 8 = CHR ''8''" "digit_char 9 = CHR ''9''"
  by code_simp+

lemmas datetime_eval = isoformat_def civil_of_def ord2ymd_def month_lengths_def is_leap_def US_PER_DAY_def
  EPOCH_ORD_def Let_def pad_digits_6 pad_digits_4 pad_digits_2 digit_char_eval

lemma isoformat_examples:
  "isoformat 0 = ''1970-01-01T00:00:00+00:00''"
  "isoformat 1709210096000123 = ''2024-02-29T12:34:56.000123+00:00''"
  by (simp_all add: datetime_eval)

end
