(* ===== verification/Db_Mappers.thy ===== *)
theory Db_Mappers
  imports Domain Requests Py_Datetime
begin

text \<open>
  The mappers between rows and domain objects (\<open>db/mappers/workflow.py\<close>, \<open>db/mappers/execution.py\<close>):
  the JSON documents of nodes, connections, settings, items and run data, and the defensive readers
  that fill absent keys with defaults.

  \<open>fr\<close> prints a float and \<open>pf\<close> reads one from text (\<open>float(s)\<close>). The dataclasses are typed in the
  model and not checked at run time by the code: a stored value outside the declared type of its
  field, which the code would carry along, is the outcome \<open>untyped\<close>.
\<close>

section \<open>Conversions\<close>

definition untyped :: "'a result" where "untyped = raise (Other ''untyped'') []"

definition no_attribute :: "json \<Rightarrow> string \<Rightarrow> 'a result" where
  "no_attribute v name = raise (Other ''AttributeError'')
     (repr_str (type_name v) @ '' object has no attribute '' @ repr_str name)"

text \<open>\<open>int(v)\<close> and \<open>float(v)\<close>.\<close>

definition py_int :: "json \<Rightarrow> int result" where
  "py_int v =
     (case int_of_json v of
        Some i \<Rightarrow> Inr i
      | None \<Rightarrow>
          if is_str v then raise ValueError (''invalid literal for int() with base 10: '' @ repr_str (str_of v))
          else raise TypeError (''int() argument must be a string, a bytes-like object or a real number, not ''
            @ repr_str (type_name v)))"

definition py_float :: "(string \<Rightarrow> rat option) \<Rightarrow> json \<Rightarrow> rat result" where
  "py_float pf v =
     (case v of
        JStr s \<Rightarrow> (case pf s of Some q \<Rightarrow> Inr q
          | None \<Rightarrow> raise ValueError (''could not convert string to float: '' @ repr_str s))
      | _ \<Rightarrow> (case num_of v of Some q \<Rightarrow> Inr q
          | None \<Rightarrow> raise TypeError (''float() argument must be a string or a real number, not ''
              @ repr_str (type_name v))))"

text \<open>Iteration over a value, as in \<open>list(v)\<close> and \<open>for x in v\<close>.\<close>

fun py_iter :: "json \<Rightarrow> json list result" where
  "py_iter (JArr xs) = Inr xs"
| "py_iter (JObj d) = Inr (map (\<lambda>p. JStr (fst p)) d)"
| "py_iter (JStr s) = Inr (map (\<lambda>c. JStr [c]) s)"
| "py_iter v = raise TypeError (repr_str (type_name v) @ '' object is not iterable'')"

text \<open>\<open>dict(v)\<close>: a mapping, or an iterable of pairs; a key that is not a string is untyped.\<close>

fun pair_of :: "json \<Rightarrow> (string \<times> json) result" where
  "pair_of (JArr [JStr k, v]) = Inr (k, v)"
| "pair_of (JArr [_, _]) = untyped"
| "pair_of (JStr [c, d]) = Inr ([c], JStr [d])"
| "pair_of (JObj [(k, _), (l, _)]) = Inr (k, JStr l)"
| "pair_of v = (if py_len v = None
     then raise TypeError ''cannot convert dictionary update sequence element to a sequence''
     else raise ValueError ''dictionary update sequence element has the wrong length; 2 is required'')"

definition py_dict :: "json \<Rightarrow> jobj result" where
  "py_dict v =
     (case v of
        JObj d \<Rightarrow> Inr d
      | _ \<Rightarrow> rbind (py_iter v) (\<lambda>xs. rbind (rmap pair_of xs) (\<lambda>ps. Inr (dict_of_pairs ps))))"

text \<open>Fields declared \<open>str\<close>, \<open>str | None\<close>, \<open>dict[str, str]\<close> and \<open>dict[str, Any]\<close>.\<close>

fun text_of :: "json \<Rightarrow> string result" where
  "text_of (JStr s) = Inr s"
| "text_of _ = untyped"

fun opt_text_of :: "json \<Rightarrow> string option result" where
  "opt_text_of JNull = Inr None"
| "opt_text_of (JStr s) = Inr (Some s)"
| "opt_text_of _ = untyped"

fun jobj_of :: "json \<Rightarrow> jobj result" where
  "jobj_of (JObj d) = Inr d"
| "jobj_of _ = untyped"

definition dict_values :: "('a \<Rightarrow> 'b result) \<Rightarrow> (string, 'a) dict \<Rightarrow> (string, 'b) dict result" where
  "dict_values f d = rmap (\<lambda>(k, v). rbind (f v) (\<lambda>x. Inr (k, x))) d"

definition opt_str_json :: "string option \<Rightarrow> json" where
  "opt_str_json s = (case s of None \<Rightarrow> JNull | Some t \<Rightarrow> JStr t)"

text \<open>The words of the literal types.\<close>

fun save_policy_str :: "save_policy \<Rightarrow> string" where
  "save_policy_str SaveAll = ''all''"
| "save_policy_str SaveOnError = ''error''"
| "save_policy_str SaveNone = ''none''"

fun caller_policy_str :: "caller_policy \<Rightarrow> string" where
  "caller_policy_str CallerAny = ''any''"
| "caller_policy_str CallerOwn = ''own''"
| "caller_policy_str CallerNone = ''none''"

fun exec_status_str :: "execution_status \<Rightarrow> string" where
  "exec_status_str ExecNew = ''new''"
| "exec_status_str ExecRunning = ''running''"
| "exec_status_str ExecSuccess = ''success''"
| "exec_status_str ExecError = ''error''"
| "exec_status_str ExecWaiting = ''waiting''"
| "exec_status_str ExecCanceled = ''canceled''"

fun node_status_str :: "node_status \<Rightarrow> string" where
  "node_status_str StatusSuccess = ''success''"
| "node_status_str StatusError = ''error''"
| "node_status_str StatusDisabled = ''disabled''"

fun data_storage_str :: "data_storage \<Rightarrow> string" where
  "data_storage_str StorageDb = ''db''"
| "data_storage_str StorageFs = ''fs''"
| "data_storage_str StorageS3 = ''s3''"

text \<open>The value of a literal type with a given word.\<close>

definition of_word :: "('a \<Rightarrow> string) \<Rightarrow> 'a list \<Rightarrow> string \<Rightarrow> 'a result" where
  "of_word str vs s = (case find (\<lambda>v. str v = s) vs of None \<Rightarrow> untyped | Some v \<Rightarrow> Inr v)"

definition save_policy_of :: "string \<Rightarrow> save_policy result" where
  "save_policy_of = of_word save_policy_str [SaveAll, SaveOnError, SaveNone]"

definition caller_policy_of :: "string \<Rightarrow> caller_policy result" where
  "caller_policy_of = of_word caller_policy_str [CallerAny, CallerOwn, CallerNone]"

definition exec_status_of :: "string \<Rightarrow> execution_status result" where
  "exec_status_of = of_word exec_status_str [ExecNew, ExecRunning, ExecSuccess, ExecError, ExecWaiting, ExecCanceled]"

definition exec_mode_of :: "string \<Rightarrow> execution_mode result" where
  "exec_mode_of = of_word mode_str [ModeManual, ModeTrigger, ModeWebhook, ModeRetry, ModeTest]"

definition node_status_of :: "string \<Rightarrow> node_status result" where
  "node_status_of = of_word node_status_str [StatusSuccess, StatusError, StatusDisabled]"

definition data_storage_of :: "string \<Rightarrow> data_storage result" where
  "data_storage_of = of_word data_storage_str [StorageDb, StorageFs, StorageS3]"

section \<open>Workflow documents\<close>

definition retry_to_json :: "retry_policy \<Rightarrow> jobj" where
  "retry_to_json retry =
     [(''max_attempts'', JInt (max_attempts retry)), (''backoff_factor'', JFloat (backoff_factor retry)),
      (''base_delay_ms'', JInt (base_delay_ms retry)), (''max_delay_ms'', JInt (max_delay_ms retry))]"

definition retry_from_json :: "(string \<Rightarrow> rat option) \<Rightarrow> jobj \<Rightarrow> retry_policy result" where
  "retry_from_json pf raw =
     rbind (py_int (dict_get raw ''max_attempts'' (JInt 1))) (\<lambda>a.
     rbind (py_float pf (dict_get raw ''backoff_factor'' (JFloat 2))) (\<lambda>f.
     rbind (py_int (dict_get raw ''base_delay_ms'' (JInt 1000))) (\<lambda>b.
     rbind (py_int (dict_get raw ''max_delay_ms'' (JInt 60000))) (\<lambda>m.
       Inr \<lparr>max_attempts = a, backoff_factor = f, base_delay_ms = b, max_delay_ms = m\<rparr>))))"

definition coerce_position :: "(string \<Rightarrow> rat option) \<Rightarrow> json \<Rightarrow> (rat \<times> rat) result" where
  "coerce_position pf raw =
     (case raw of
        JArr (x # y # _) \<Rightarrow> rbind (py_float pf x) (\<lambda>a. rbind (py_float pf y) (\<lambda>b. Inr (a, b)))
      | _ \<Rightarrow> Inr (0, 0))"

definition node_to_json :: "node \<Rightarrow> jobj" where
  "node_to_json nd =
     [(''id'', JStr (node_id nd)), (''name'', JStr (node_name nd)), (''type'', JStr (node_type nd)),
      (''type_version'', JInt (type_version nd)), (''parameters'', JObj (parameters nd)),
      (''credentials'', JObj (map (\<lambda>(k, v). (k, JStr v)) (credentials nd))),
      (''position'', JArr [JFloat (fst (position nd)), JFloat (snd (position nd))]),
      (''disabled'', JBool (disabled nd)), (''notes'', opt_str_json (node_notes nd)),
      (''continue_on_fail'', JBool (continue_on_fail nd))] @
     (case node_retry_policy nd of None \<Rightarrow> [] | Some retry \<Rightarrow> [(''retry_policy'', JObj (retry_to_json retry))])"

definition node_from_json :: "(rat \<Rightarrow> string) \<Rightarrow> (string \<Rightarrow> rat option) \<Rightarrow> json \<Rightarrow> node result" where
  "node_from_json fr pf v =
     (case v of
        JObj raw \<Rightarrow>
          rbind (case dict_get raw ''retry_policy'' JNull of
                   JObj r \<Rightarrow> rbind (retry_from_json pf r) (\<lambda>x. Inr (Some x)) | _ \<Rightarrow> Inr None) (\<lambda>retry.
          rbind (lookup raw ''id'') (\<lambda>i.
          rbind (lookup raw ''type'') (\<lambda>ty.
          rbind (py_int (dict_get raw ''type_version'' (JInt 1))) (\<lambda>ver.
          rbind (py_dict (dict_get raw ''parameters'' (JObj []))) (\<lambda>params.
          rbind (py_dict (dict_get raw ''credentials'' (JObj []))) (\<lambda>creds.
          rbind (dict_values text_of creds) (\<lambda>creds.
          rbind (coerce_position pf (dict_get raw ''position'' (JArr [JFloat 0, JFloat 0]))) (\<lambda>pos.
          rbind (opt_text_of (dict_get raw ''notes'' JNull)) (\<lambda>notes.
            Inr \<lparr>node_id = py_str fr i, node_name = py_str fr (dict_get raw ''name'' (JStr [])),
              node_type = py_str fr ty, type_version = ver, parameters = params, credentials = creds,
              position = pos, disabled = py_bool (dict_get raw ''disabled'' (JBool False)), node_notes = notes,
              continue_on_fail = py_bool (dict_get raw ''continue_on_fail'' (JBool False)),
              node_retry_policy = retry\<rparr>)))))))))
      | _ \<Rightarrow> no_attribute v ''get'')"

definition connection_to_json :: "connection \<Rightarrow> jobj" where
  "connection_to_json conn =
     [(''source_node'', JStr (source_node conn)), (''target_node'', JStr (target_node conn)),
      (''source_port'', JStr (source_port conn)), (''source_index'', JInt (source_index conn)),
      (''target_port'', JStr (target_port conn)), (''target_index'', JInt (target_index conn))]"

definition connection_from_json :: "(rat \<Rightarrow> string) \<Rightarrow> json \<Rightarrow> connection result" where
  "connection_from_json fr v =
     (case v of
        JObj raw \<Rightarrow>
          rbind (lookup raw ''source_node'') (\<lambda>s.
          rbind (lookup raw ''target_node'') (\<lambda>t.
          rbind (py_int (dict_get raw ''source_index'' (JInt 0))) (\<lambda>si.
          rbind (py_int (dict_get raw ''target_index'' (JInt 0))) (\<lambda>ti.
            Inr \<lparr>source_node = py_str fr s, target_node = py_str fr t,
              source_port = py_str fr (dict_get raw ''source_port'' (JStr ''main'')), source_index = si,
              target_port = py_str fr (dict_get raw ''target_port'' (JStr ''main'')), target_index = ti\<rparr>))))
      | _ \<Rightarrow> raise TypeError (repr_str (type_name v) @ '' object is not subscriptable''))"

definition settings_to_json :: "workflow_settings \<Rightarrow> jobj" where
  "settings_to_json s =
     [(''timezone'', JStr (timezone s)), (''timeout_seconds'', JInt (timeout_seconds s)),
      (''save_manual_executions'', JBool (save_manual_executions s)),
      (''save_trigger_executions_on'', JStr (save_policy_str (save_trigger_executions_on s))),
      (''error_workflow_id'', opt_str_json (error_workflow_id s)),
      (''caller_policy'', JStr (caller_policy_str (settings_caller_policy s)))]"

definition settings_from_json :: "(rat \<Rightarrow> string) \<Rightarrow> jobj \<Rightarrow> workflow_settings result" where
  "settings_from_json fr raw =
     rbind (py_int (dict_get raw ''timeout_seconds'' (JInt 3600))) (\<lambda>secs.
     rbind (rbind (text_of (dict_get raw ''save_trigger_executions_on'' (JStr ''all''))) save_policy_of) (\<lambda>sp.
     rbind (opt_text_of (dict_get raw ''error_workflow_id'' JNull)) (\<lambda>ew.
     rbind (rbind (text_of (dict_get raw ''caller_policy'' (JStr ''own''))) caller_policy_of) (\<lambda>cp.
       Inr \<lparr>timezone = py_str fr (dict_get raw ''timezone'' (JStr ''UTC'')), timeout_seconds = secs,
         save_manual_executions = py_bool (dict_get raw ''save_manual_executions'' (JBool True)),
         save_trigger_executions_on = sp, error_workflow_id = ew, settings_caller_policy = cp\<rparr>))))"

text \<open>The columns of a workflow row; the entity adds the time stamp of its last change.\<close>

record workflow_kwargs =
  we_id :: string
  we_project_id :: string
  we_name :: string
  we_nodes :: "json list"
  we_connections :: "json list"
  we_settings :: jobj
  we_static_data :: jobj
  we_pin_data :: "(string, jobj list) dict"
  we_tags :: "string list"
  we_active :: bool
  we_archived :: bool
  we_version_id :: "string option"

record workflow_entity = workflow_kwargs +
  we_updated_at :: int

definition workflow_to_domain :: "(rat \<Rightarrow> string) \<Rightarrow> (string \<Rightarrow> rat option) \<Rightarrow> 'x workflow_kwargs_scheme
    \<Rightarrow> workflow result" where
  "workflow_to_domain fr pf entity =
     rbind (rmap (node_from_json fr pf) (we_nodes entity)) (\<lambda>nodes.
     rbind (rmap (connection_from_json fr) (we_connections entity)) (\<lambda>conns.
     rbind (settings_from_json fr (we_settings entity)) (\<lambda>st.
       Inr \<lparr>wf_id = we_id entity, project_id = we_project_id entity, wf_name = we_name entity,
         wf_nodes = nodes, connections = conns, wf_settings = st, wf_static_data = we_static_data entity,
         pin_data = we_pin_data entity, active = we_active entity, archived = we_archived entity,
         tags = we_tags entity, version_id = we_version_id entity\<rparr>)))"

definition workflow_to_entity_kwargs :: "workflow \<Rightarrow> workflow_kwargs" where
  "workflow_to_entity_kwargs w =
     \<lparr>we_id = wf_id w, we_project_id = project_id w, we_name = wf_name w,
      we_nodes = map (\<lambda>nd. JObj (node_to_json nd)) (wf_nodes w),
      we_connections = map (\<lambda>c. JObj (connection_to_json c)) (connections w),
      we_settings = settings_to_json (wf_settings w), we_static_data = wf_static_data w,
      we_pin_data = pin_data w, we_tags = tags w, we_active = active w, we_archived = archived w,
      we_version_id = version_id w\<rparr>"

section \<open>Execution documents\<close>

definition error_to_json :: "node_error \<Rightarrow> jobj" where
  "error_to_json e = [(''message'', JStr (err_message e)), (''description'', opt_str_json (err_description e)),
     (''code'', opt_str_json (err_code e))]"

definition error_from_json :: "(rat \<Rightarrow> string) \<Rightarrow> jobj \<Rightarrow> node_error result" where
  "error_from_json fr raw =
     rbind (opt_text_of (dict_get raw ''description'' JNull)) (\<lambda>d.
     rbind (opt_text_of (dict_get raw ''code'' JNull)) (\<lambda>c.
       Inr \<lparr>err_message = py_str fr (dict_get raw ''message'' (JStr [])), err_description = d, err_code = c\<rparr>))"

definition opt_error_from_json :: "(rat \<Rightarrow> string) \<Rightarrow> json \<Rightarrow> node_error option result" where
  "opt_error_from_json fr v =
     (case v of JObj raw \<Rightarrow> rbind (error_from_json fr raw) (\<lambda>e. Inr (Some e)) | _ \<Rightarrow> Inr None)"

definition opt_error_json :: "node_error option \<Rightarrow> json" where
  "opt_error_json e = (case e of None \<Rightarrow> JNull | Some x \<Rightarrow> JObj (error_to_json x))"

definition item_to_json :: "item \<Rightarrow> jobj" where
  "item_to_json it = [(''json'', JObj (item_json it)), (''error'', opt_error_json (item_error it))]"

definition item_from_json :: "(rat \<Rightarrow> string) \<Rightarrow> json \<Rightarrow> item result" where
  "item_from_json fr v =
     (case v of
        JObj raw \<Rightarrow>
          rbind (opt_error_from_json fr (dict_get raw ''error'' JNull)) (\<lambda>err.
          rbind (py_dict (dict_get raw ''json'' (JObj []))) (\<lambda>d.
            Inr \<lparr>item_json = d, item_binary = [], item_paired = [], item_error = err\<rparr>))
      | _ \<Rightarrow> no_attribute v ''get'')"

definition node_run_data_to_json :: "node_run_data \<Rightarrow> jobj" where
  "node_run_data_to_json nrd =
     [(''items'', JArr (map (\<lambda>port. JArr (map (\<lambda>i. JObj (item_to_json i)) port)) (run_items nrd))),
      (''execution_time_ms'', JInt (execution_time_ms nrd)), (''started_at'', JStr (isoformat (run_started_at nrd))),
      (''status'', JStr (node_status_str (run_status nrd))), (''error'', opt_error_json (run_error nrd))]"

definition node_run_data_from_json :: "(rat \<Rightarrow> string) \<Rightarrow> json \<Rightarrow> node_run_data result" where
  "node_run_data_from_json fr v =
     (case v of
        JObj raw \<Rightarrow>
          rbind (py_iter (dict_get raw ''items'' (JArr []))) (\<lambda>ports.
          rbind (rmap (\<lambda>port. rbind (py_iter port) (rmap (item_from_json fr))) ports) (\<lambda>its.
          rbind (opt_error_from_json fr (dict_get raw ''error'' JNull)) (\<lambda>err.
          rbind (case dict_get raw ''started_at'' JNull of JStr s \<Rightarrow> fromisoformat s | _ \<Rightarrow> untyped) (\<lambda>started.
          rbind (py_int (dict_get raw ''execution_time_ms'' (JInt 0))) (\<lambda>ms.
          rbind (rbind (text_of (dict_get raw ''status'' (JStr ''success''))) node_status_of) (\<lambda>st.
            Inr \<lparr>run_items = its, execution_time_ms = ms, run_started_at = started, run_status = st,
              run_error = err\<rparr>))))))
      | _ \<Rightarrow> no_attribute v ''get'')"

type_synonym run_table = "(string, node_run_data list) dict"

definition run_data_to_json :: "run_table \<Rightarrow> jobj" where
  "run_data_to_json rd =
     [(''per_node'', JObj (map (\<lambda>(k, rs). (k, JArr (map (\<lambda>r. JObj (node_run_data_to_json r)) rs))) rd))]"

definition run_data_from_json :: "(rat \<Rightarrow> string) \<Rightarrow> jobj \<Rightarrow> run_table result" where
  "run_data_from_json fr raw =
     (case dict_get raw ''per_node'' (JObj []) of
        JObj d \<Rightarrow> dict_values (\<lambda>v. rbind (py_iter v) (rmap (node_run_data_from_json fr))) d
      | v \<Rightarrow> no_attribute v ''items'')"

text \<open>The snapshot is the dictionary of the column values.\<close>

definition kwargs_json :: "workflow_kwargs \<Rightarrow> jobj" where
  "kwargs_json k =
     [(''id'', JStr (we_id k)), (''project_id'', JStr (we_project_id k)), (''name'', JStr (we_name k)),
      (''nodes'', JArr (we_nodes k)), (''connections'', JArr (we_connections k)),
      (''settings'', JObj (we_settings k)), (''static_data'', JObj (we_static_data k)),
      (''pin_data'', JObj (map (\<lambda>(n, xs). (n, JArr (map JObj xs))) (we_pin_data k))),
      (''tags'', JArr (map JStr (we_tags k))), (''active'', JBool (we_active k)),
      (''archived'', JBool (we_archived k)), (''version_id'', opt_str_json (we_version_id k))]"

definition workflow_to_snapshot :: "workflow \<Rightarrow> jobj" where
  "workflow_to_snapshot w = kwargs_json (workflow_to_entity_kwargs w)"

definition workflow_from_snapshot :: "(rat \<Rightarrow> string) \<Rightarrow> (string \<Rightarrow> rat option) \<Rightarrow> jobj \<Rightarrow> workflow result" where
  "workflow_from_snapshot fr pf raw =
     rbind (rbind (py_iter (dict_get raw ''nodes'' (JArr []))) (rmap (node_from_json fr pf))) (\<lambda>nodes.
     rbind (rbind (py_iter (dict_get raw ''connections'' (JArr []))) (rmap (connection_from_json fr))) (\<lambda>conns.
     rbind (lookup raw ''id'') (\<lambda>i.
     rbind (case dict_get raw ''settings'' (JObj []) of
              JObj s \<Rightarrow> settings_from_json fr s | v \<Rightarrow> no_attribute v ''get'') (\<lambda>st.
     rbind (py_dict (dict_get raw ''static_data'' (JObj []))) (\<lambda>static.
     rbind (case dict_get raw ''pin_data'' (JObj []) of
              JObj d \<Rightarrow> dict_values (\<lambda>v. rbind (py_iter v) (rmap jobj_of)) d
            | v \<Rightarrow> no_attribute v ''items'') (\<lambda>pins.
     rbind (rbind (py_iter (dict_get raw ''tags'' (JArr []))) (rmap text_of)) (\<lambda>tgs.
     rbind (opt_text_of (dict_get raw ''version_id'' JNull)) (\<lambda>ver.
       Inr \<lparr>wf_id = py_str fr i, project_id = py_str fr (dict_get raw ''project_id'' (JStr [])),
         wf_name = py_str fr (dict_get raw ''name'' (JStr [])), wf_nodes = nodes, connections = conns,
         wf_settings = st, wf_static_data = static, pin_data = pins,
         active = py_bool (dict_get raw ''active'' (JBool False)),
         archived = py_bool (dict_get raw ''archived'' (JBool False)), tags = tgs, version_id = ver\<rparr>))))))))"

record stored_payload =
  sp_workflow_snapshot :: jobj
  sp_run_data :: jobj

record execution_entity =
  ee_id :: string
  ee_workflow_id :: string
  ee_project_id :: string
  ee_mode :: string
  ee_status :: string
  ee_started_at :: int
  ee_finished_at :: "int option"
  ee_wait_till :: "int option"
  ee_triggered_by :: "string option"

definition execution_to_entity_kwargs :: "execution \<Rightarrow> string \<Rightarrow> execution_entity" where
  "execution_to_entity_kwargs ex pid =
     \<lparr>ee_id = exec_id ex, ee_workflow_id = exec_workflow_id ex, ee_project_id = pid,
      ee_mode = mode_str (exec_mode ex), ee_status = exec_status_str (exec_status ex),
      ee_started_at = exec_started_at ex, ee_finished_at = finished_at ex, ee_wait_till = wait_till ex,
      ee_triggered_by = triggered_by ex\<rparr>"

definition execution_to_payload :: "execution \<Rightarrow> stored_payload" where
  "execution_to_payload ex =
     \<lparr>sp_workflow_snapshot = workflow_to_snapshot (workflow_snapshot ex),
      sp_run_data = run_data_to_json (run_data ex)\<rparr>"

definition execution_to_domain :: "(rat \<Rightarrow> string) \<Rightarrow> (string \<Rightarrow> rat option) \<Rightarrow> execution_entity \<Rightarrow> stored_payload
    \<Rightarrow> string \<Rightarrow> execution result" where
  "execution_to_domain fr pf entity payload storage =
     rbind (workflow_from_snapshot fr pf (sp_workflow_snapshot payload)) (\<lambda>snapshot.
     rbind (exec_mode_of (ee_mode entity)) (\<lambda>mode.
     rbind (exec_status_of (ee_status entity)) (\<lambda>st.
     rbind (run_data_from_json fr (sp_run_data payload)) (\<lambda>rd.
     rbind (data_storage_of storage) (\<lambda>ds.
       Inr \<lparr>exec_id = ee_id entity, exec_workflow_id = ee_workflow_id entity, workflow_snapshot = snapshot,
         exec_mode = mode, exec_status = st, exec_started_at = ee_started_at entity,
         finished_at = ee_finished_at entity, wait_till = ee_wait_till entity, run_data = rd,
         exec_data_storage = ds, triggered_by = ee_triggered_by entity\<rparr>)))))"

section \<open>Round trips\<close>

named_theorems mapper_simps "readers applied to what the writers produce"

lemma words_inverse [mapper_simps]:
  "save_policy_of (save_policy_str p) = Inr p" "caller_policy_of (caller_policy_str c) = Inr c"
  "exec_status_of (exec_status_str s) = Inr s" "exec_mode_of (mode_str m) = Inr m"
  "node_status_of (node_status_str n) = Inr n" "data_storage_of (data_storage_str d) = Inr d"
  by (cases p, simp_all add: save_policy_of_def of_word_def)
     (cases c, simp_all add: caller_policy_of_def of_word_def,
      cases s, simp_all add: exec_status_of_def of_word_def,
      cases m, simp_all add: exec_mode_of_def of_word_def,
      cases n, simp_all add: node_status_of_def of_word_def,
      cases d, simp_all add: data_storage_of_def of_word_def)

lemma scalars_inverse [mapper_simps]:
  "py_int (JInt i) = Inr i" "py_float pf (JFloat q) = Inr q" "py_dict (JObj d) = Inr d"
  "opt_text_of (opt_str_json s) = Inr s" "py_str fr (JStr t) = t"
  by (simp_all add: py_int_def py_float_def py_dict_def opt_str_json_def py_str_def split: option.splits)

lemma rmap_map: "(\<And>x. x \<in> set xs \<Longrightarrow> f (g x) = Inr (h x)) \<Longrightarrow> rmap f (map g xs) = Inr (map h xs)"
  by (induction xs) auto

lemma rmap_map_id: "(\<And>x. x \<in> set xs \<Longrightarrow> f (g x) = Inr x) \<Longrightarrow> rmap f (map g xs) = Inr xs"
  using rmap_map [of xs f g "\<lambda>x. x"] by simp

lemma dict_values_map:
  "(\<And>k v. (k, v) \<in> set d \<Longrightarrow> f (g v) = Inr (h v)) \<Longrightarrow>
   dict_values f (map (\<lambda>(k, v). (k, g v)) d) = Inr (map (\<lambda>(k, v). (k, h v)) d)"
  unfolding dict_values_def by (rule rmap_map) auto

lemma dict_values_map_id:
  "(\<And>k v. (k, v) \<in> set d \<Longrightarrow> f (g v) = Inr v) \<Longrightarrow> dict_values f (map (\<lambda>(k, v). (k, g v)) d) = Inr d"
  using dict_values_map [of d f g "\<lambda>x. x"] by simp

lemma retry_roundtrip [mapper_simps]: "retry_from_json pf (retry_to_json r) = Inr r"
  by (simp add: retry_from_json_def retry_to_json_def dict_get_def mapper_simps)

lemma connection_roundtrip [mapper_simps]: "connection_from_json fr (JObj (connection_to_json c)) = Inr c"
  by (simp add: connection_from_json_def connection_to_json_def dict_get_def lookup_def mapper_simps)

lemma settings_roundtrip [mapper_simps]: "settings_from_json fr (settings_to_json s) = Inr s"
  by (simp add: settings_from_json_def settings_to_json_def dict_get_def mapper_simps)

lemma credentials_roundtrip [mapper_simps]: "dict_values text_of (map (\<lambda>(k, v). (k, JStr v)) d) = Inr d"
  by (rule dict_values_map_id) simp

lemma node_roundtrip [mapper_simps]: "node_from_json fr pf (JObj (node_to_json nd)) = Inr nd"
  by (cases "node_retry_policy nd")
     (simp_all add: node_from_json_def node_to_json_def dict_get_def lookup_def coerce_position_def mapper_simps)

lemma nodes_roundtrip [mapper_simps]: "rmap (node_from_json fr pf) (map (\<lambda>nd. JObj (node_to_json nd)) ns) = Inr ns"
  by (rule rmap_map_id) (rule node_roundtrip)

lemma connections_roundtrip [mapper_simps]:
  "rmap (connection_from_json fr) (map (\<lambda>c. JObj (connection_to_json c)) cs) = Inr cs"
  by (rule rmap_map_id) (rule connection_roundtrip)

lemma pins_roundtrip [mapper_simps]:
  "dict_values (\<lambda>v. rbind (py_iter v) (rmap jobj_of)) (map (\<lambda>(n, xs). (n, JArr (map JObj xs))) d) = Inr d"
  by (rule dict_values_map_id) (simp add: rmap_map_id)

text \<open>Writing a workflow into a row and reading it gives the workflow back.\<close>

lemma workflow_row_roundtrip:
  "workflow_to_domain fr pf (workflow_kwargs.extend (workflow_to_entity_kwargs w) x) = Inr w"
  by (simp add: workflow_to_domain_def workflow_to_entity_kwargs_def workflow_kwargs.defs mapper_simps)

lemma snapshot_roundtrip [mapper_simps]: "workflow_from_snapshot fr pf (workflow_to_snapshot w) = Inr w"
  by (simp add: workflow_from_snapshot_def workflow_to_snapshot_def kwargs_json_def workflow_to_entity_kwargs_def
      dict_get_def lookup_def mapper_simps rmap_map_id)

text \<open>What a stored item, run and execution keep: everything but binary references and provenance.\<close>

definition stored_item :: "item \<Rightarrow> item" where
  "stored_item it = it\<lparr>item_binary := [], item_paired := []\<rparr>"

definition stored_run :: "node_run_data \<Rightarrow> node_run_data" where
  "stored_run r = r\<lparr>run_items := map (map stored_item) (run_items r)\<rparr>"

definition stored_execution :: "data_storage \<Rightarrow> execution \<Rightarrow> execution" where
  "stored_execution ds ex = ex\<lparr>run_data := map (\<lambda>(k, rs). (k, map stored_run rs)) (run_data ex), exec_data_storage := ds\<rparr>"

text \<open>Every recorded start time is one a \<open>datetime\<close> can hold.\<close>

definition times_ok :: "execution \<Rightarrow> bool" where
  "times_ok ex \<longleftrightarrow> list_all (\<lambda>(k, rs). list_all (\<lambda>r. dt_ok (run_started_at r)) rs) (run_data ex)"

lemma error_roundtrip [mapper_simps]: "opt_error_from_json fr (opt_error_json e) = Inr e"
  by (cases e) (simp_all add: opt_error_from_json_def opt_error_json_def error_from_json_def error_to_json_def
      dict_get_def mapper_simps)

lemma item_roundtrip [mapper_simps]: "item_from_json fr (JObj (item_to_json it)) = Inr (stored_item it)"
  by (simp add: item_from_json_def item_to_json_def dict_get_def mapper_simps stored_item_def)

lemma ports_roundtrip [mapper_simps]:
  "rmap (\<lambda>port. rbind (py_iter port) (rmap (item_from_json fr)))
     (map (\<lambda>port. JArr (map (\<lambda>i. JObj (item_to_json i)) port)) ps) = Inr (map (map stored_item) ps)"
  by (rule rmap_map) (simp add: rmap_map [where h = stored_item] item_roundtrip)

lemma run_roundtrip:
  "dt_ok (run_started_at r) \<Longrightarrow> node_run_data_from_json fr (JObj (node_run_data_to_json r)) = Inr (stored_run r)"
  by (simp add: node_run_data_from_json_def node_run_data_to_json_def dict_get_def mapper_simps
      fromisoformat_isoformat stored_run_def)

lemma run_data_roundtrip:
  "list_all (\<lambda>(k, rs). list_all (\<lambda>r. dt_ok (run_started_at r)) rs) rd \<Longrightarrow>
   run_data_from_json fr (run_data_to_json rd) = Inr (map (\<lambda>(k, rs). (k, map stored_run rs)) rd)"
  unfolding run_data_from_json_def run_data_to_json_def dict_get_def
  by (simp, intro dict_values_map) (fastforce simp: list_all_iff intro!: rmap_map run_roundtrip)

lemma execution_roundtrip:
  "times_ok ex \<Longrightarrow>
   execution_to_domain fr pf (execution_to_entity_kwargs ex pid) (execution_to_payload ex) (data_storage_str ds)
     = Inr (stored_execution ds ex)"
  by (simp add: execution_to_domain_def execution_to_entity_kwargs_def execution_to_payload_def mapper_simps
      run_data_roundtrip times_ok_def stored_execution_def)

end
