(* ===== verification/Database.thy ===== *)
theory Database
  imports Db_Mappers
begin

text \<open>
  The database layer: what the repositories rely on of the SQL toolkit, the storage of execution
  payloads (\<open>db/execution_storage.py\<close>) and the repositories of workflows and executions
  (\<open>db/repositories/workflow_repo.py\<close>, \<open>db/repositories/execution_repo.py\<close>).

  The toolkit is a parameter. A table is a record of operations on a session state of any type: the
  lookup by primary key, adding a row and flushing, flushing a changed row, selecting and deleting
  by a condition. \<open>sql_table_laws\<close> is the contract; adding or changing a row may fail at the flush,
  with an exception. \<open>sql_pair\<close> says that two tables of the same session do not interfere.
\<close>

section \<open>Tables\<close>

record ('r, 's) sql_table =
  t_get :: "string \<Rightarrow> 's \<Rightarrow> 'r option"
  t_add :: "'r \<Rightarrow> 's \<Rightarrow> exn option \<times> 's"
  t_put :: "'r \<Rightarrow> 's \<Rightarrow> exn option \<times> 's"
  t_select :: "('r \<Rightarrow> bool) \<Rightarrow> 's \<Rightarrow> 'r list"
  t_delete :: "('r \<Rightarrow> bool) \<Rightarrow> 's \<Rightarrow> nat \<times> 's"

lemma set_singleton_distinct: "set xs = {x} \<Longrightarrow> distinct xs \<Longrightarrow> xs = [x]"
  by (cases xs; cases "tl xs") auto

locale sql_table_laws =
  fixes T :: "('r, 's) sql_table" and key :: "'r \<Rightarrow> string"
  assumes get_key: "t_get T k s = Some r \<Longrightarrow> key r = k"
    and add_row: "t_add T r s = (None, s') \<Longrightarrow>
      t_get T (key r) s = None \<and> t_get T k s' = (if k = key r then Some r else t_get T k s)"
    and put_row: "t_put T r s = (None, s') \<Longrightarrow> t_get T k s' = (if k = key r then Some r else t_get T k s)"
    and select_rows: "set (t_select T p s) = {r. t_get T (key r) s = Some r \<and> p r}"
    and select_distinct: "distinct (map key (t_select T p s))"
    and delete_rows: "t_delete T p s = (n, s') \<Longrightarrow>
      n = length (t_select T p s) \<and> t_get T k s' = (case t_get T k s of Some r \<Rightarrow> if p r then None else Some r | None \<Rightarrow> None)"
begin

text \<open>A condition that fixes the key and more selects the row of that key or nothing.\<close>

lemma select_key:
  "t_select T (\<lambda>r. key r = k \<and> p r) s = (case t_get T k s of Some r \<Rightarrow> if p r then [r] else [] | None \<Rightarrow> [])"
proof -
  let ?rs = "t_select T (\<lambda>r. key r = k \<and> p r) s"
  have set: "set ?rs = {r. t_get T k s = Some r \<and> p r}"
    using select_rows [of "\<lambda>r. key r = k \<and> p r" s] get_key by auto
  have d: "distinct ?rs" using select_distinct by (metis distinct_map)
  show ?thesis
  proof (cases "\<exists>r. t_get T k s = Some r \<and> p r")
    case True
    then obtain r where r: "t_get T k s = Some r" "p r" by blast
    then have "set ?rs = {r}" using set by auto
    with d have "?rs = [r]" by (simp add: set_singleton_distinct)
    with r show ?thesis by simp
  next
    case False
    then have "set ?rs = {}" using set by auto
    with False show ?thesis by (auto split: option.splits)
  qed
qed

lemma select_member: "r \<in> set (t_select T p s) \<longleftrightarrow> t_get T (key r) s = Some r \<and> p r"
  using select_rows by auto

end

text \<open>An implementation of the contract: a dictionary of rows.\<close>

definition dict_rows :: "('r \<Rightarrow> string) \<Rightarrow> (string, 'r) dict \<Rightarrow> 'r list" where
  "dict_rows key d = map snd (filter (\<lambda>(k, r). key r = k) (AList.clearjunk d))"

definition dict_table :: "('r \<Rightarrow> string) \<Rightarrow> ('r, (string, 'r) dict) sql_table" where
  "dict_table key =
     \<lparr>t_get = (\<lambda>k d. case map_of d k of Some r \<Rightarrow> if key r = k then Some r else None | None \<Rightarrow> None),
      t_add = (\<lambda>r d. if (case map_of d (key r) of Some x \<Rightarrow> key x \<noteq> key r | None \<Rightarrow> True) then (None, dict_set (key r) r d)
        else (Some (Exn (Other ''IntegrityError'') (key r)), d)),
      t_put = (\<lambda>r d. (None, dict_set (key r) r d)),
      t_select = (\<lambda>p d. filter p (dict_rows key d)),
      t_delete = (\<lambda>p d. (length (filter p (dict_rows key d)), filter (\<lambda>(k, r). key r = k \<and> \<not> p r) (AList.clearjunk d)))\<rparr>"

lemma map_of_filter_distinct:
  "distinct (map fst e) \<Longrightarrow> map_of (filter (\<lambda>(k, r). P k r) e) k
     = (case map_of e k of Some r \<Rightarrow> if P k r then Some r else None | None \<Rightarrow> None)"
  by (induction e) (auto split: option.splits simp: map_of_eq_None_iff image_iff)

lemma dict_rows_set: "r \<in> set (dict_rows key d) \<longleftrightarrow> map_of d (key r) = Some r"
proof -
  have "r \<in> set (dict_rows key d) \<longleftrightarrow> (key r, r) \<in> set (AList.clearjunk d)"
    by (force simp: dict_rows_def)
  also have "\<dots> \<longleftrightarrow> map_of (AList.clearjunk d) (key r) = Some r"
    by (rule map_of_eq_Some_iff [symmetric]) simp
  finally show ?thesis by (simp add: map_of_clearjunk)
qed

lemma dict_rows_distinct: "distinct (map key (dict_rows key d))"
proof -
  have "map key (dict_rows key d) = map fst (filter (\<lambda>(k, r). key r = k) (AList.clearjunk d))"
    by (auto simp: dict_rows_def comp_def)
  then show ?thesis by (simp add: distinct_map_filter)
qed

lemma dict_table_ops [simp]:
  "t_get (dict_table key) k d = (case map_of d k of Some r \<Rightarrow> if key r = k then Some r else None | None \<Rightarrow> None)"
  "t_add (dict_table key) r d = (if (case map_of d (key r) of Some x \<Rightarrow> key x \<noteq> key r | None \<Rightarrow> True) then (None, dict_set (key r) r d)
     else (Some (Exn (Other ''IntegrityError'') (key r)), d))"
  "t_put (dict_table key) r d = (None, dict_set (key r) r d)"
  "t_select (dict_table key) p d = filter p (dict_rows key d)"
  "t_delete (dict_table key) p d = (length (filter p (dict_rows key d)),
     filter (\<lambda>(k, r). key r = k \<and> \<not> p r) (AList.clearjunk d))"
  by (simp_all add: dict_table_def)

interpretation dict_table: sql_table_laws "dict_table key" key
proof unfold_locales
  show "t_get (dict_table key) k s = Some r \<Longrightarrow> key r = k" for k s r
    by (auto split: option.splits if_splits)
  show "t_add (dict_table key) r s = (None, s') \<Longrightarrow> t_get (dict_table key) (key r) s = None \<and>
      t_get (dict_table key) k s' = (if k = key r then Some r else t_get (dict_table key) k s)" for r s s' k
    unfolding dict_table_ops
    by (cases "map_of s (key r)") (simp_all split: if_splits, (hypsubst, simp add: map_of_dict_set)+)
  show "t_put (dict_table key) r s = (None, s') \<Longrightarrow>
      t_get (dict_table key) k s' = (if k = key r then Some r else t_get (dict_table key) k s)" for r s s' k
    unfolding dict_table_ops by (simp, hypsubst, simp add: map_of_dict_set)
  show "set (t_select (dict_table key) p s) = {r. t_get (dict_table key) (key r) s = Some r \<and> p r}" for p s
    by (auto simp: dict_rows_set split: option.splits)
  show "distinct (map key (t_select (dict_table key) p s))" for p s
    using dict_rows_distinct [of key s] by (simp add: distinct_map_filter)
  show "t_delete (dict_table key) p s = (n, s') \<Longrightarrow> n = length (t_select (dict_table key) p s) \<and>
      t_get (dict_table key) k s' = (case t_get (dict_table key) k s of Some r \<Rightarrow> if p r then None else Some r | None \<Rightarrow> None)"
    for p s n s' k
  proof -
    have "map_of (filter (\<lambda>(k, r). key r = k \<and> \<not> p r) (AList.clearjunk s)) k
        = (case map_of s k of Some r \<Rightarrow> if key r = k \<and> \<not> p r then Some r else None | None \<Rightarrow> None)"
      using map_of_filter_distinct [of "AList.clearjunk s" "\<lambda>k r. key r = k \<and> \<not> p r" k] by (simp add: map_of_clearjunk)
    then show "t_delete (dict_table key) p s = (n, s') \<Longrightarrow> ?thesis"
      by (auto split: option.splits if_splits)
  qed
qed

section \<open>Tables of one session\<close>

text \<open>\<open>frame T U\<close>: no operation on \<open>T\<close> changes what \<open>U\<close> holds.\<close>

definition frame :: "('r, 's) sql_table \<Rightarrow> ('q, 's) sql_table \<Rightarrow> bool" where
  "frame T U \<longleftrightarrow>
     (\<forall>r s k. t_get U k (snd (t_add T r s)) = t_get U k s) \<and> (\<forall>r s k. t_get U k (snd (t_put T r s)) = t_get U k s)
     \<and> (\<forall>p s k. t_get U k (snd (t_delete T p s)) = t_get U k s)"

lemma frame_add: "frame T U \<Longrightarrow> t_add T r s = (e, s') \<Longrightarrow> t_get U k s' = t_get U k s"
  unfolding frame_def by (metis snd_conv)

lemma frame_put: "frame T U \<Longrightarrow> t_put T r s = (e, s') \<Longrightarrow> t_get U k s' = t_get U k s"
  unfolding frame_def by (metis snd_conv)

lemma frame_delete: "frame T U \<Longrightarrow> t_delete T p s = (n, s') \<Longrightarrow> t_get U k s' = t_get U k s"
  unfolding frame_def by (metis snd_conv)

text \<open>A table inside a larger state, read by \<open>g\<close> and written by \<open>u\<close>.\<close>

definition at_field :: "('t \<Rightarrow> 's) \<Rightarrow> ('s \<Rightarrow> 't \<Rightarrow> 't) \<Rightarrow> ('r, 's) sql_table \<Rightarrow> ('r, 't) sql_table" where
  "at_field g u T =
     \<lparr>t_get = (\<lambda>k t. t_get T k (g t)),
      t_add = (\<lambda>r t. let (e, s) = t_add T r (g t) in (e, u s t)),
      t_put = (\<lambda>r t. let (e, s) = t_put T r (g t) in (e, u s t)),
      t_select = (\<lambda>p t. t_select T p (g t)),
      t_delete = (\<lambda>p t. let (n, s) = t_delete T p (g t) in (n, u s t))\<rparr>"

lemma at_field_laws:
  assumes "sql_table_laws T key" and gu: "\<And>s t. g (u s t) = s"
  shows "sql_table_laws (at_field g u T) key"
proof -
  note laws = sql_table_laws.get_key [OF assms(1)] sql_table_laws.add_row [OF assms(1)]
    sql_table_laws.put_row [OF assms(1)] sql_table_laws.select_rows [OF assms(1)]
    sql_table_laws.select_distinct [OF assms(1)] sql_table_laws.delete_rows [OF assms(1)]
  show ?thesis
  proof unfold_locales
    show "t_get (at_field g u T) k s = Some r \<Longrightarrow> key r = k" for k s r
      using laws(1) by (simp add: at_field_def)
    show "t_add (at_field g u T) r s = (None, s') \<Longrightarrow> t_get (at_field g u T) (key r) s = None \<and>
        t_get (at_field g u T) k s' = (if k = key r then Some r else t_get (at_field g u T) k s)" for r s s' k
      using laws(2) [of r "g s" _ k] by (auto simp: at_field_def gu split: prod.splits)
    show "t_put (at_field g u T) r s = (None, s') \<Longrightarrow>
        t_get (at_field g u T) k s' = (if k = key r then Some r else t_get (at_field g u T) k s)" for r s s' k
      using laws(3) [of r "g s" _ k] by (auto simp: at_field_def gu split: prod.splits)
    show "set (t_select (at_field g u T) p s) = {r. t_get (at_field g u T) (key r) s = Some r \<and> p r}" for p s
      using laws(4) by (simp add: at_field_def)
    show "distinct (map key (t_select (at_field g u T) p s))" for p s
      using laws(5) by (simp add: at_field_def)
    show "t_delete (at_field g u T) p s = (n, s') \<Longrightarrow> n = length (t_select (at_field g u T) p s) \<and>
        t_get (at_field g u T) k s' = (case t_get (at_field g u T) k s of Some r \<Rightarrow> if p r then None else Some r | None \<Rightarrow> None)"
      for p s n s' k
      using laws(6) [of p "g s" n _ k] by (auto simp: at_field_def gu split: prod.splits)
  qed
qed

lemma at_field_frame:
  assumes "\<And>s t. h (u s t) = h t"
  shows "frame (at_field g u T) (at_field h v U)"
  by (simp add: frame_def at_field_def assms split: prod.splits)

text \<open>\<open>result.scalar_one_or_none()\<close>.\<close>

definition scalar_one_or_none :: "'r list \<Rightarrow> 'r option result" where
  "scalar_one_or_none rs =
     (case rs of [] \<Rightarrow> Inr None | [r] \<Rightarrow> Inr (Some r)
      | _ \<Rightarrow> raise (Other ''MultipleResultsFound'') ''Multiple rows were found when one or none was required'')"

lemma scalar_one_Some: "scalar_one_or_none rs = Inr (Some r) \<Longrightarrow> rs = [r]"
  by (cases rs; cases "tl rs") (simp_all add: scalar_one_or_none_def raise_def)

text \<open>\<open>order_by(f.desc()).limit(limit).offset(offset)\<close>.\<close>

definition page_desc :: "('r \<Rightarrow> int) \<Rightarrow> nat \<Rightarrow> nat \<Rightarrow> 'r list \<Rightarrow> 'r list" where
  "page_desc f limit offset rs = take limit (drop offset (sort_key (\<lambda>r. - f r) rs))"

lemma page_desc_set: "set (page_desc f limit offset rs) \<subseteq> set rs"
  unfolding page_desc_def by (metis order_trans set_drop_subset set_sort set_take_subset)

section \<open>Execution payloads\<close>

record stored_data_row =
  sd_storage_kind :: string
  sd_external_ref :: "string option"
  sd_workflow_snapshot :: jobj
  sd_run_data :: jobj

text \<open>
  A store reads and writes the files of its base directory: a dictionary from relative paths to JSON
  documents. The text encoding of a document (\<open>json.dumps\<close> and \<open>json.loads\<close>) is not modelled, nor are
  failures of the disk; the temporary file is replaced into place in one step.
\<close>

type_synonym file_tree = "(string, json) dict"

definition STORAGE_KIND_DB :: string where "STORAGE_KIND_DB = ''db''"

definition STORAGE_KIND_FS :: string where "STORAGE_KIND_FS = ''fs''"

definition db_store_write :: "string \<Rightarrow> stored_payload \<Rightarrow> file_tree \<Rightarrow> stored_data_row \<times> file_tree" where
  "db_store_write execution_id payload files =
     (\<lparr>sd_storage_kind = STORAGE_KIND_DB, sd_external_ref = None,
       sd_workflow_snapshot = sp_workflow_snapshot payload, sd_run_data = sp_run_data payload\<rparr>, files)"

definition db_store_read :: "string \<Rightarrow> stored_data_row \<Rightarrow> file_tree \<Rightarrow> stored_payload result" where
  "db_store_read execution_id row files =
     (if sd_storage_kind row \<noteq> STORAGE_KIND_DB
      then raise ValueError (''DbExecutionDataStore cannot read storage_kind='' @ repr_str (sd_storage_kind row))
      else Inr \<lparr>sp_workflow_snapshot = sd_workflow_snapshot row, sp_run_data = sd_run_data row\<rparr>)"

definition db_store_delete :: "string \<Rightarrow> stored_data_row \<Rightarrow> file_tree \<Rightarrow> file_tree" where
  "db_store_delete execution_id row files = files"

definition relpath_for :: "int \<Rightarrow> string \<Rightarrow> string" where
  "relpath_for now execution_id =
     pad_digits 4 (cv_year (civil_of now)) @ ''/'' @ pad_digits 2 (cv_month (civil_of now)) @ ''/'' @ execution_id @ ''.json''"

definition fs_store_write :: "int \<Rightarrow> string \<Rightarrow> stored_payload \<Rightarrow> file_tree \<Rightarrow> stored_data_row \<times> file_tree" where
  "fs_store_write now execution_id payload files =
     (let relpath = relpath_for now execution_id;
          body = JObj [(''workflow_snapshot'', JObj (sp_workflow_snapshot payload)), (''run_data'', JObj (sp_run_data payload))] in
      (\<lparr>sd_storage_kind = STORAGE_KIND_FS, sd_external_ref = Some relpath, sd_workflow_snapshot = [], sd_run_data = []\<rparr>,
       dict_set relpath body files))"

definition fs_store_read :: "string \<Rightarrow> stored_data_row \<Rightarrow> file_tree \<Rightarrow> stored_payload result" where
  "fs_store_read execution_id row files =
     (if sd_storage_kind row \<noteq> STORAGE_KIND_FS
      then raise ValueError (''FilesystemExecutionDataStore cannot read storage_kind='' @ repr_str (sd_storage_kind row))
      else case sd_external_ref row of
        None \<Rightarrow> raise ValueError (''execution '' @ repr_str execution_id @ '' has fs storage but no external_ref'')
      | Some ref \<Rightarrow>
          (case map_of files ref of
             None \<Rightarrow> raise (Other ''FileNotFoundError'') ref
           | Some (JObj data) \<Rightarrow>
               rbind (py_dict (dict_get data ''workflow_snapshot'' (JObj []))) (\<lambda>snap.
               rbind (py_dict (dict_get data ''run_data'' (JObj []))) (\<lambda>rd.
                 Inr \<lparr>sp_workflow_snapshot = snap, sp_run_data = rd\<rparr>))
           | Some _ \<Rightarrow> raise ValueError (''execution-data file '' @ ref @ '' is not a JSON object'')))"

definition fs_store_delete :: "string \<Rightarrow> stored_data_row \<Rightarrow> file_tree \<Rightarrow> file_tree" where
  "fs_store_delete execution_id row files =
     (case sd_external_ref row of
        None \<Rightarrow> files
      | Some ref \<Rightarrow> if sd_storage_kind row \<noteq> STORAGE_KIND_FS then files else dict_del ref files)"

text \<open>The store chosen by the settings.\<close>

record data_store =
  ds_kind :: data_storage
  ds_write :: "string \<Rightarrow> stored_payload \<Rightarrow> file_tree \<Rightarrow> stored_data_row \<times> file_tree"
  ds_read :: "string \<Rightarrow> stored_data_row \<Rightarrow> file_tree \<Rightarrow> stored_payload result"
  ds_delete :: "string \<Rightarrow> stored_data_row \<Rightarrow> file_tree \<Rightarrow> file_tree"

definition db_store :: data_store where
  "db_store = \<lparr>ds_kind = StorageDb, ds_write = db_store_write, ds_read = db_store_read, ds_delete = db_store_delete\<rparr>"

definition fs_store :: "int \<Rightarrow> data_store" where
  "fs_store now = \<lparr>ds_kind = StorageFs, ds_write = fs_store_write now, ds_read = fs_store_read, ds_delete = fs_store_delete\<rparr>"

definition build_default_store :: "int \<Rightarrow> string \<Rightarrow> string \<Rightarrow> data_store result" where
  "build_default_store now backend fs_path =
     (let b = py_lower backend in
      if b = STORAGE_KIND_FS
      then if fs_path = [] then raise ValueError (''execution_data_backend='' @ repr_str b @ '' but execution_data_fs_path is empty'') else Inr (fs_store now)
      else if b = STORAGE_KIND_DB then Inr db_store
      else raise ValueError (''unknown execution_data_backend '' @ repr_str b))"

text \<open>The contract of \<open>ExecutionDataStore\<close>: what was written is read back, and writing or deleting the
  payload of one execution leaves what is stored for the others.\<close>

locale execution_data_store =
  fixes st :: data_store
  assumes read_write: "ds_write st i p f = (row, f') \<Longrightarrow> ds_read st i row f' = Inr p"
    and write_kind: "ds_write st i p f = (row, f') \<Longrightarrow> sd_storage_kind row = data_storage_str (ds_kind st)"
    and write_other: "ds_write st i p f = (row, f') \<Longrightarrow> i \<noteq> j \<Longrightarrow> ds_write st j q g = (row', g') \<Longrightarrow>
      ds_read st i row g' = ds_read st i row g"
    and delete_missing: "ds_delete st i row (ds_delete st i row f) = ds_delete st i row f"
begin

text \<open>After two writes both payloads can be read.\<close>

lemma read_after_others:
  assumes "ds_write st i p f = (row, f')" and "i \<noteq> j" and "ds_write st j q f' = (row', f'')"
  shows "ds_read st i row f'' = Inr p" "ds_read st j row' f'' = Inr q"
  using read_write [OF assms(1)] write_other [OF assms] read_write [OF assms(3)] by simp_all

end

text \<open>The paths of two executions differ, whenever they were written.\<close>

lemma relpath_for_inj: "relpath_for t i = relpath_for t' j \<Longrightarrow> i = j"
proof -
  have cut: "drop 8 (relpath_for t i) = i @ ''.json''" for t i
    unfolding relpath_for_def by (simp add: drop_append)
  assume "relpath_for t i = relpath_for t' j"
  with cut [of t i] cut [of t' j] show ?thesis by simp
qed

interpretation db_payloads: execution_data_store db_store
  by unfold_locales (auto simp: db_store_def db_store_write_def db_store_read_def db_store_delete_def STORAGE_KIND_DB_def)

interpretation fs_payloads: execution_data_store "fs_store now"
proof unfold_locales
  fix i p f row f' j q g row' g'
  assume "ds_write (fs_store now) i p f = (row, f')" "i \<noteq> j" "ds_write (fs_store now) j q g = (row', g')"
  moreover from \<open>i \<noteq> j\<close> have "relpath_for now i \<noteq> relpath_for now j" using relpath_for_inj by blast
  ultimately show "ds_read (fs_store now) i row g' = ds_read (fs_store now) i row g"
    by (auto simp: fs_store_def fs_store_write_def fs_store_read_def Let_def map_of_dict_set)
qed (auto simp: fs_store_def fs_store_write_def fs_store_read_def fs_store_delete_def STORAGE_KIND_FS_def Let_def
       map_of_dict_set dict_get_def mapper_simps dict_del_def AList.delete_idem split: option.splits)

end
