(* ===== verification/Repositories.thy ===== *)
theory Repositories
  imports Database
begin

text \<open>
  The repositories of workflows and executions (\<open>db/repositories/workflow_repo.py\<close>,
  \<open>db/repositories/execution_repo.py\<close>) on the tables of \<open>Database\<close>, and what their callers rely on: a
  workflow is seen only by its project and read back as it was written; the execution repository
  is a map from identifiers to the last execution saved.
\<close>

section \<open>Workflows\<close>

type_synonym 's workflow_table = "(workflow_entity, 's) sql_table"

record 's workflow_repo =
  wr_table :: "'s workflow_table"
  wr_fr :: "rat \<Rightarrow> string"
  wr_pf :: "string \<Rightarrow> rat option"
  wr_now :: int

definition entity_of :: "workflow_kwargs \<Rightarrow> int \<Rightarrow> workflow_entity" where
  "entity_of kwargs t = workflow_kwargs.extend kwargs \<lparr>we_updated_at = t\<rparr>"

definition wrepo_create :: "'s workflow_repo \<Rightarrow> workflow \<Rightarrow> 's \<Rightarrow> workflow result \<times> 's" where
  "wrepo_create repo w s =
     (let entity = entity_of (workflow_to_entity_kwargs w) (wr_now repo) in
      case t_add (wr_table repo) entity s of
        (Some e, s') \<Rightarrow> (Inl e, s')
      | (None, s') \<Rightarrow> (workflow_to_domain (wr_fr repo) (wr_pf repo) entity, s'))"

definition wrepo_get_scoped :: "'s workflow_repo \<Rightarrow> string \<Rightarrow> string \<Rightarrow> 's \<Rightarrow> workflow_entity option result" where
  "wrepo_get_scoped repo wid pid s =
     scalar_one_or_none (t_select (wr_table repo) (\<lambda>r. we_id r = wid \<and> we_project_id r = pid) s)"

definition wrepo_get :: "'s workflow_repo \<Rightarrow> string \<Rightarrow> string \<Rightarrow> 's \<Rightarrow> workflow option result" where
  "wrepo_get repo wid pid s =
     rbind (wrepo_get_scoped repo wid pid s) (\<lambda>entity.
       case entity of
         None \<Rightarrow> Inr None
       | Some en \<Rightarrow> rbind (workflow_to_domain (wr_fr repo) (wr_pf repo) en) (\<lambda>w. Inr (Some w)))"

definition wrepo_list :: "'s workflow_repo \<Rightarrow> string \<Rightarrow> bool option \<Rightarrow> bool option \<Rightarrow> nat \<Rightarrow> nat \<Rightarrow> 's \<Rightarrow> workflow list result" where
  "wrepo_list repo pid arch act limit offset s =
     rmap (workflow_to_domain (wr_fr repo) (wr_pf repo))
       (page_desc we_updated_at limit offset
         (t_select (wr_table repo) (\<lambda>r. we_project_id r = pid
            \<and> (case arch of None \<Rightarrow> True | Some b \<Rightarrow> we_archived r = b)
            \<and> (case act of None \<Rightarrow> True | Some b \<Rightarrow> we_active r = b)) s))"

text \<open>The update time moves only when a column changed.\<close>

definition wrepo_update :: "'s workflow_repo \<Rightarrow> workflow \<Rightarrow> 's \<Rightarrow> workflow result \<times> 's" where
  "wrepo_update repo w s =
     (case wrepo_get_scoped repo (wf_id w) (project_id w) s of
        Inl e \<Rightarrow> (Inl e, s)
      | Inr None \<Rightarrow> (raise (Other ''LookupError'')
          (''workflow '' @ repr_str (wf_id w) @ '' not found in project '' @ repr_str (project_id w)), s)
      | Inr (Some entity) \<Rightarrow>
          (let kwargs = workflow_to_entity_kwargs w;
               entity' = entity_of kwargs
                 (if workflow_kwargs.truncate entity = kwargs then we_updated_at entity else wr_now repo) in
           case t_put (wr_table repo) entity' s of
             (Some e, s') \<Rightarrow> (Inl e, s')
           | (None, s') \<Rightarrow> (workflow_to_domain (wr_fr repo) (wr_pf repo) entity', s')))"

definition wrepo_delete :: "'s workflow_repo \<Rightarrow> string \<Rightarrow> string \<Rightarrow> 's \<Rightarrow> bool \<times> 's" where
  "wrepo_delete repo wid pid s =
     (let (n, s') = t_delete (wr_table repo) (\<lambda>r. we_id r = wid \<and> we_project_id r = pid) s in (n \<noteq> 0, s'))"

section \<open>Executions\<close>

record execution_data_entity =
  ed_execution_id :: string
  ed_row :: stored_data_row

text \<open>The state of the repository: the session and the files of the payload store.\<close>

record 's execution_repo =
  er_executions :: "(execution_entity, 's) sql_table"
  er_data :: "(execution_data_entity, 's) sql_table"
  er_store :: data_store
  er_fr :: "rat \<Rightarrow> string"
  er_pf :: "string \<Rightarrow> rat option"

text \<open>Inserts the row, or changes the row that has its key.\<close>

definition upsert :: "('r, 's) sql_table \<Rightarrow> string \<Rightarrow> 'r \<Rightarrow> 's \<Rightarrow> exn option \<times> 's" where
  "upsert T k r s = (case t_get T k s of None \<Rightarrow> t_add T r s | Some _ \<Rightarrow> t_put T r s)"

definition erepo_save :: "'s execution_repo \<Rightarrow> execution \<Rightarrow> string \<Rightarrow> 's \<times> file_tree \<Rightarrow> execution result \<times> 's \<times> file_tree" where
  "erepo_save repo ex pid st =
     (let (s, files) = st in
      case upsert (er_executions repo) (exec_id ex) (execution_to_entity_kwargs ex pid) s of
        (Some e, s1) \<Rightarrow> (Inl e, s1, files)
      | (None, s1) \<Rightarrow>
          (let (row, files') = ds_write (er_store repo) (exec_id ex) (execution_to_payload ex) files in
           case upsert (er_data repo) (exec_id ex) \<lparr>ed_execution_id = exec_id ex, ed_row = row\<rparr> s1 of
             (Some e, s2) \<Rightarrow> (Inl e, s2, files')
           | (None, s2) \<Rightarrow> (Inr ex, s2, files')))"

definition erepo_get :: "'s execution_repo \<Rightarrow> string \<Rightarrow> string \<Rightarrow> 's \<times> file_tree \<Rightarrow> execution option result" where
  "erepo_get repo eid pid st =
     (let (s, files) = st in
      case t_get (er_executions repo) eid s of
        None \<Rightarrow> Inr None
      | Some entity \<Rightarrow>
          if ee_project_id entity \<noteq> pid then Inr None
          else case t_get (er_data repo) eid s of
            None \<Rightarrow> Inr None
          | Some data \<Rightarrow>
              rbind (ds_read (er_store repo) eid (ed_row data) files) (\<lambda>payload.
              rbind (execution_to_domain (er_fr repo) (er_pf repo) entity payload (sd_storage_kind (ed_row data)))
                (\<lambda>ex. Inr (Some ex))))"

definition erepo_list :: "'s execution_repo \<Rightarrow> string \<Rightarrow> string option \<Rightarrow> string option \<Rightarrow> nat \<Rightarrow> nat \<Rightarrow> 's \<Rightarrow> execution_entity list" where
  "erepo_list repo pid wid st limit offset s =
     page_desc ee_started_at limit offset
       (t_select (er_executions repo) (\<lambda>r. ee_project_id r = pid
          \<and> (case wid of None \<Rightarrow> True | Some w \<Rightarrow> ee_workflow_id r = w)
          \<and> (case st of None \<Rightarrow> True | Some x \<Rightarrow> ee_status r = x)) s)"

section \<open>Project-scoped stores\<close>

text \<open>
  What a caller of a project-scoped repository relies on: \<open>find\<close> sees a value only under its own
  project; a value that was created or updated is found afterwards, and only there; \<open>del\<close> removes what
  \<open>find\<close> sees and says whether there was anything; nothing changes what is found under another key.
\<close>

definition found :: "('v \<Rightarrow> string) \<Rightarrow> ('v \<Rightarrow> string) \<Rightarrow> 'v \<Rightarrow> (string \<Rightarrow> string \<Rightarrow> 'v option result)
    \<Rightarrow> string \<Rightarrow> string \<Rightarrow> 'v option result" where
  "found key scope v old k p = (if k = key v then Inr (if p = scope v then Some v else None) else old k p)"

locale scoped_store =
  fixes find :: "string \<Rightarrow> string \<Rightarrow> 's \<Rightarrow> 'v option result" and key :: "'v \<Rightarrow> string" and scope :: "'v \<Rightarrow> string"
    and create :: "'v \<Rightarrow> 's \<Rightarrow> 'v result \<times> 's" and update :: "'v \<Rightarrow> 's \<Rightarrow> 'v result \<times> 's"
    and del :: "string \<Rightarrow> string \<Rightarrow> 's \<Rightarrow> bool \<times> 's"
  assumes find_scope: "find k p s = Inr (Some v) \<Longrightarrow> key v = k \<and> scope v = p"
    and find_create: "create v s = (Inr v', s') \<Longrightarrow> v' = v \<and> find k p s' = found key scope v (\<lambda>k p. find k p s) k p"
    and find_update: "update v s = (Inr v', s') \<Longrightarrow> v' = v \<and> find k p s' = found key scope v (\<lambda>k p. find k p s) k p"
    and find_del: "del k' p' s = (b, s') \<Longrightarrow>
      (b \<longleftrightarrow> find k' p' s \<noteq> Inr None) \<and> find k p s' = (if k = k' \<and> p = p' then Inr None else find k p s)"

text \<open>Sequences of operations (a refused one stops the sequence), and the map they implement.\<close>

datatype 'v store_op = Create 'v | Update 'v | Delete string string

definition stored_state :: "'v result \<times> 's \<Rightarrow> 's result" where
  "stored_state r = rbind (fst r) (\<lambda>_. Inr (snd r))"

fun run_ops :: "('v \<Rightarrow> 's \<Rightarrow> 'v result \<times> 's) \<Rightarrow> ('v \<Rightarrow> 's \<Rightarrow> 'v result \<times> 's) \<Rightarrow> (string \<Rightarrow> string \<Rightarrow> 's \<Rightarrow> bool \<times> 's)
    \<Rightarrow> 'v store_op list \<Rightarrow> 's \<Rightarrow> 's result" where
  "run_ops cr up del [] s = Inr s"
| "run_ops cr up del (Create v # ops) s = rbind (stored_state (cr v s)) (run_ops cr up del ops)"
| "run_ops cr up del (Update v # ops) s = rbind (stored_state (up v s)) (run_ops cr up del ops)"
| "run_ops cr up del (Delete k p # ops) s = run_ops cr up del ops (snd (del k p s))"

fun abs_ops :: "('v \<Rightarrow> string) \<Rightarrow> ('v \<Rightarrow> string) \<Rightarrow> 'v store_op list \<Rightarrow> (string \<rightharpoonup> 'v) \<Rightarrow> (string \<rightharpoonup> 'v)" where
  "abs_ops key scope [] m = m"
| "abs_ops key scope (Create v # ops) m = abs_ops key scope ops (m(key v \<mapsto> v))"
| "abs_ops key scope (Update v # ops) m = abs_ops key scope ops (m(key v \<mapsto> v))"
| "abs_ops key scope (Delete k p # ops) m =
     abs_ops key scope ops (case m k of Some v \<Rightarrow> if scope v = p then m(k := None) else m | None \<Rightarrow> m)"

definition scoped_lookup :: "('v \<Rightarrow> string) \<Rightarrow> (string \<rightharpoonup> 'v) \<Rightarrow> string \<Rightarrow> string \<Rightarrow> 'v option" where
  "scoped_lookup scope m k p = (case m k of Some v \<Rightarrow> if scope v = p then Some v else None | None \<Rightarrow> None)"

lemma stored_state_Inr: "stored_state r = Inr t \<longleftrightarrow> (\<exists>v. r = (Inr v, t))"
  by (cases r) (auto simp: stored_state_def result_simps)

context scoped_store
begin

definition implements :: "'s \<Rightarrow> (string \<rightharpoonup> 'v) \<Rightarrow> bool" where
  "implements s m \<longleftrightarrow> (\<forall>k p. find k p s = Inr (scoped_lookup scope m k p))"

lemma implements_found:
  "implements s m \<Longrightarrow> \<forall>k p. find k p t = found key scope v (\<lambda>k p. find k p s) k p \<Longrightarrow> implements t (m(key v \<mapsto> v))"
  by (simp add: implements_def scoped_lookup_def found_def)

lemma implements_ops:
  "implements s m \<Longrightarrow> run_ops create update del ops s = Inr s' \<Longrightarrow> implements s' (abs_ops key scope ops m)"
proof (induction ops arbitrary: s m)
  case (Cons op ops)
  show ?case
  proof (cases op)
    case (Create v)
    with Cons.prems(2) obtain v' t where st: "create v s = (Inr v', t)" "run_ops create update del ops t = Inr s'"
      by (auto simp: result_simps stored_state_Inr)
    then have "implements t (m(key v \<mapsto> v))" using find_create Cons.prems(1) by (blast intro: implements_found)
    from Cons.IH [OF this st(2)] show ?thesis unfolding Create by (simp only: abs_ops.simps)
  next
    case (Update v)
    with Cons.prems(2) obtain v' t where st: "update v s = (Inr v', t)" "run_ops create update del ops t = Inr s'"
      by (auto simp: result_simps stored_state_Inr)
    then have "implements t (m(key v \<mapsto> v))" using find_update Cons.prems(1) by (blast intro: implements_found)
    from Cons.IH [OF this st(2)] show ?thesis unfolding Update by (simp only: abs_ops.simps)
  next
    case (Delete k p)
    obtain b t where d: "del k p s = (b, t)" by fastforce
    have "implements t (case m k of Some v \<Rightarrow> if scope v = p then m(k := None) else m | None \<Rightarrow> m)"
      using find_del [OF d] Cons.prems(1) unfolding implements_def scoped_lookup_def
      by (simp split: option.splits)
    moreover have "run_ops create update del ops t = Inr s'" using Cons.prems(2) Delete d by simp
    ultimately show ?thesis unfolding Delete abs_ops.simps by (rule Cons.IH)
  qed
qed simp

end

section \<open>The workflow repository\<close>

definition table_ok :: "'s workflow_repo \<Rightarrow> bool" where
  "table_ok repo \<longleftrightarrow> sql_table_laws (wr_table repo) we_id"

lemma entity_of_simps [simp]:
  "we_id (entity_of (workflow_to_entity_kwargs w) t) = wf_id w"
  "we_project_id (entity_of (workflow_to_entity_kwargs w) t) = project_id w"
  by (simp_all add: entity_of_def workflow_to_entity_kwargs_def workflow_kwargs.defs)

lemma entity_to_domain [simp]: "workflow_to_domain fr pf (entity_of (workflow_to_entity_kwargs w) t) = Inr w"
  unfolding entity_of_def by (rule workflow_row_roundtrip)

lemma workflow_to_domain_keys:
  "workflow_to_domain fr pf r = Inr w \<Longrightarrow> wf_id w = we_id r \<and> project_id w = we_project_id r"
  by (auto simp: workflow_to_domain_def result_simps)

lemma get_scoped:
  assumes "table_ok repo"
  shows "wrepo_get_scoped repo wid pid s = Inr (case t_get (wr_table repo) wid s of
    Some r \<Rightarrow> if we_project_id r = pid then Some r else None | None \<Rightarrow> None)"
  using sql_table_laws.select_key [OF assms [unfolded table_ok_def], of wid "\<lambda>r. we_project_id r = pid" s]
  by (simp add: wrepo_get_scoped_def scalar_one_or_none_def split: option.splits)

lemma wrepo_get_eq:
  assumes "table_ok repo"
  shows "wrepo_get repo wid pid s = (case t_get (wr_table repo) wid s of
    Some r \<Rightarrow> if we_project_id r = pid
      then rbind (workflow_to_domain (wr_fr repo) (wr_pf repo) r) (\<lambda>w. Inr (Some w)) else Inr None
  | None \<Rightarrow> Inr None)"
  by (simp add: wrepo_get_def get_scoped [OF assms] split: option.splits)

lemma wrepo_get_scope:
  "table_ok repo \<Longrightarrow> wrepo_get repo wid pid s = Inr (Some w) \<Longrightarrow> wf_id w = wid \<and> project_id w = pid"
  using sql_table_laws.get_key [of "wr_table repo" we_id wid s]
  by (auto simp: wrepo_get_eq table_ok_def result_simps split: option.splits if_splits dest: workflow_to_domain_keys)

lemma wrepo_get_other: "table_ok repo \<Longrightarrow> t_get (wr_table repo) k s' = t_get (wr_table repo) k s \<Longrightarrow>
    wrepo_get repo k p s' = wrepo_get repo k p s"
  by (simp add: wrepo_get_eq)

lemma wrepo_create_spec:
  assumes ok: "table_ok repo" and c: "wrepo_create repo w s = (Inr w', s')"
  shows "w' = w \<and> wrepo_get repo k p s' = found wf_id project_id w (\<lambda>k p. wrepo_get repo k p s) k p"
proof -
  let ?e = "entity_of (workflow_to_entity_kwargs w) (wr_now repo)"
  have a: "t_add (wr_table repo) ?e s = (None, s')" and w: "w' = w"
    using c by (auto simp: wrepo_create_def Let_def split: prod.splits option.splits)
  note g = sql_table_laws.add_row [OF ok [unfolded table_ok_def] a]
  show ?thesis using g [of k] w by (simp add: wrepo_get_eq [OF ok] found_def)
qed

lemma wrepo_update_spec:
  assumes ok: "table_ok repo" and c: "wrepo_update repo w s = (Inr w', s')"
  shows "w' = w \<and> wrepo_get repo k p s' = found wf_id project_id w (\<lambda>k p. wrepo_get repo k p s) k p"
proof -
  obtain en where sc: "wrepo_get_scoped repo (wf_id w) (project_id w) s = Inr (Some en)"
    using c by (cases "wrepo_get_scoped repo (wf_id w) (project_id w) s") (simp_all add: wrepo_update_def raise_def split: option.splits)
  define t where "t = (if workflow_kwargs.truncate en = workflow_to_entity_kwargs w then we_updated_at en else wr_now repo)"
  have a: "t_put (wr_table repo) (entity_of (workflow_to_entity_kwargs w) t) s = (None, s')" and w: "w' = w"
    using c unfolding wrepo_update_def sc sum.case option.case Let_def t_def [symmetric]
    by (simp_all split: prod.splits option.splits)
  note g = sql_table_laws.put_row [OF ok [unfolded table_ok_def] a]
  show ?thesis using g [of k] w by (simp add: wrepo_get_eq [OF ok] found_def)
qed

text \<open>An update finds the workflow exactly when a read in its project does, or the row cannot be read.\<close>

lemma wrepo_update_missing:
  assumes "table_ok repo" and "wrepo_get repo (wf_id w) (project_id w) s = Inr None"
  shows "\<exists>m. wrepo_update repo w s = (raise (Other ''LookupError'') m, s)"
  using assms(2) by (auto simp: wrepo_get_eq [OF assms(1)] wrepo_update_def get_scoped [OF assms(1)] result_simps
      rbind_def split: option.splits if_splits sum.splits)

lemma wrepo_delete_spec:
  assumes ok: "table_ok repo" and d: "wrepo_delete repo k' p' s = (b, s')"
  shows "(b \<longleftrightarrow> wrepo_get repo k' p' s \<noteq> Inr None) \<and>
    wrepo_get repo k p s' = (if k = k' \<and> p = p' then Inr None else wrepo_get repo k p s)"
proof -
  let ?P = "\<lambda>r. we_id r = k' \<and> we_project_id r = p'"
  obtain n where del: "t_delete (wr_table repo) ?P s = (n, s')" and b: "b = (n \<noteq> 0)"
    using d by (auto simp: wrepo_delete_def split: prod.splits)
  note laws = ok [unfolded table_ok_def]
  have n: "n = length (t_select (wr_table repo) ?P s)" using sql_table_laws.delete_rows [OF laws del] by blast
  have get: "t_get (wr_table repo) k s' = (case t_get (wr_table repo) k s of
      Some r \<Rightarrow> if ?P r then None else Some r | None \<Rightarrow> None)" for k
    using sql_table_laws.delete_rows [OF laws del] by blast
  have "b \<longleftrightarrow> wrepo_get repo k' p' s \<noteq> Inr None"
    unfolding b n sql_table_laws.select_key [OF laws] by (auto simp: wrepo_get_eq [OF ok] rbind_def split: option.splits sum.splits)
  moreover have "wrepo_get repo k p s' = (if k = k' \<and> p = p' then Inr None else wrepo_get repo k p s)"
    using sql_table_laws.get_key [OF laws, of k s] by (auto simp: wrepo_get_eq [OF ok] get split: option.splits)
  ultimately show ?thesis by blast
qed

locale workflow_repository =
  fixes repo :: "'s workflow_repo"
  assumes table: "table_ok repo"

sublocale workflow_repository \<subseteq> scoped_store "wrepo_get repo" wf_id project_id "wrepo_create repo"
  "wrepo_update repo" "wrepo_delete repo"
  by unfold_locales
     (rule wrepo_get_scope [OF table] wrepo_create_spec [OF table] wrepo_update_spec [OF table]
        wrepo_delete_spec [OF table], assumption)+

context workflow_repository
begin

lemma repo_refines:
  assumes "\<forall>k. t_get (wr_table repo) k s = None"
    and "run_ops (wrepo_create repo) (wrepo_update repo) (wrepo_delete repo) ops s = Inr s'"
  shows "wrepo_get repo wid pid s' = Inr (scoped_lookup project_id (abs_ops wf_id project_id ops Map.empty) wid pid)"
proof -
  have "implements s Map.empty" using assms(1) by (simp add: implements_def wrepo_get_eq [OF table] scoped_lookup_def)
  from implements_ops [OF this assms(2)] show ?thesis by (simp add: implements_def)
qed

end

text \<open>The repository on a table kept as a dictionary.\<close>

definition dict_workflow_repo :: "int \<Rightarrow> (string, workflow_entity) dict workflow_repo" where
  "dict_workflow_repo t = \<lparr>wr_table = dict_table we_id, wr_fr = (\<lambda>_. []), wr_pf = (\<lambda>_. None), wr_now = t\<rparr>"

interpretation dict_workflows: workflow_repository "dict_workflow_repo t"
  by unfold_locales (simp add: table_ok_def dict_workflow_repo_def dict_table.sql_table_laws_axioms)

section \<open>The execution repository\<close>

definition save_all :: "'s execution_repo \<Rightarrow> (execution \<times> string) list \<Rightarrow> 's \<times> file_tree \<Rightarrow> ('s \<times> file_tree) result" where
  "save_all repo saves st =
     rfold (\<lambda>st (ex, pid). stored_state (erepo_save repo ex pid st)) st saves"

definition last_saved :: "(execution \<times> string) list \<Rightarrow> string \<Rightarrow> (execution \<times> string) option" where
  "last_saved saves i = map_of (rev (map (\<lambda>(ex, pid). (exec_id ex, ex, pid)) saves)) i"

locale execution_repository = execution_data_store "er_store repo" for repo :: "'s execution_repo" +
  assumes exec_table: "sql_table_laws (er_executions repo) ee_id"
    and data_table: "sql_table_laws (er_data repo) ed_execution_id"
    and exec_frame: "frame (er_executions repo) (er_data repo)"
    and data_frame: "frame (er_data repo) (er_executions repo)"
begin

text \<open>What is stored for an execution: its row, its data row, and the payload the store reads for it.\<close>

definition holds :: "'s \<times> file_tree \<Rightarrow> string \<Rightarrow> execution \<times> string \<Rightarrow> bool" where
  "holds st i v \<longleftrightarrow> (let (ex, pid) = v in
     exec_id ex = i \<and> t_get (er_executions repo) i (fst st) = Some (execution_to_entity_kwargs ex pid) \<and>
     (\<exists>p g row g'. t_get (er_data repo) i (fst st) = Some \<lparr>ed_execution_id = i, ed_row = row\<rparr> \<and>
        ds_write (er_store repo) i p g = (row, g') \<and>
        ds_read (er_store repo) i row (snd st) = Inr (execution_to_payload ex)))"

definition absent :: "'s \<times> file_tree \<Rightarrow> string \<Rightarrow> bool" where
  "absent st i \<longleftrightarrow> t_get (er_executions repo) i (fst st) = None"

lemma upsert_row:
  assumes "sql_table_laws T key" and "upsert T (key r) r s = (None, s')"
  shows "t_get T k s' = (if k = key r then Some r else t_get T k s)"
  using assms sql_table_laws.add_row [OF assms(1)] sql_table_laws.put_row [OF assms(1)]
  by (auto simp: upsert_def split: option.splits)

lemma upsert_frame: "frame T U \<Longrightarrow> upsert T k r s = (e, s') \<Longrightarrow> t_get U j s' = t_get U j s"
  by (auto simp: upsert_def frame_add frame_put split: option.splits)

lemma save_effect:
  assumes "erepo_save repo ex pid (s, f) = (Inr ex', s', f')"
  obtains row where "ex' = ex" "ds_write (er_store repo) (exec_id ex) (execution_to_payload ex) f = (row, f')"
    "\<And>k. t_get (er_executions repo) k s' =
      (if k = exec_id ex then Some (execution_to_entity_kwargs ex pid) else t_get (er_executions repo) k s)"
    "\<And>k. t_get (er_data repo) k s' =
      (if k = exec_id ex then Some \<lparr>ed_execution_id = exec_id ex, ed_row = row\<rparr> else t_get (er_data repo) k s)"
proof -
  obtain s1 row where u1: "upsert (er_executions repo) (exec_id ex) (execution_to_entity_kwargs ex pid) s = (None, s1)"
    and w: "ds_write (er_store repo) (exec_id ex) (execution_to_payload ex) f = (row, f')"
    and u2: "upsert (er_data repo) (exec_id ex) \<lparr>ed_execution_id = exec_id ex, ed_row = row\<rparr> s1 = (None, s')"
    and "ex' = ex"
    using assms by (auto simp: erepo_save_def Let_def split: prod.splits option.splits)
  have 1: "t_get (er_executions repo) k s1 =
      (if k = exec_id ex then Some (execution_to_entity_kwargs ex pid) else t_get (er_executions repo) k s)" for k
    using upsert_row [OF exec_table, of "execution_to_entity_kwargs ex pid" s s1 k] u1
    by (simp add: execution_to_entity_kwargs_def)
  have 2: "t_get (er_data repo) k s' =
      (if k = exec_id ex then Some \<lparr>ed_execution_id = exec_id ex, ed_row = row\<rparr> else t_get (er_data repo) k s1)" for k
    using upsert_row [OF data_table, of "\<lparr>ed_execution_id = exec_id ex, ed_row = row\<rparr>" s1 s' k] u2 by simp
  show ?thesis
    by (rule that [OF \<open>ex' = ex\<close> w])
       (use 1 2 upsert_frame [OF exec_frame u1] upsert_frame [OF data_frame u2] in auto)
qed

lemma save_holds:
  assumes "erepo_save repo ex pid (s, f) = (Inr ex', s', f')"
  shows "holds (s', f') (exec_id ex) (ex, pid)"
    and "i \<noteq> exec_id ex \<Longrightarrow> holds (s, f) i v \<Longrightarrow> holds (s', f') i v"
    and "i \<noteq> exec_id ex \<Longrightarrow> absent (s, f) i \<Longrightarrow> absent (s', f') i"
proof -
  obtain row where e: "ds_write (er_store repo) (exec_id ex) (execution_to_payload ex) f = (row, f')"
    "\<And>k. t_get (er_executions repo) k s' =
      (if k = exec_id ex then Some (execution_to_entity_kwargs ex pid) else t_get (er_executions repo) k s)"
    "\<And>k. t_get (er_data repo) k s' =
      (if k = exec_id ex then Some \<lparr>ed_execution_id = exec_id ex, ed_row = row\<rparr> else t_get (er_data repo) k s)"
    using save_effect [OF assms] by metis
  show "holds (s', f') (exec_id ex) (ex, pid)"
    using e read_write [OF e(1)] by (auto simp: holds_def)
  show "holds (s', f') i v" if "i \<noteq> exec_id ex" "holds (s, f) i v"
    using that write_other [OF _ that(1) e(1)] by (auto simp: holds_def e(2,3) Let_def split: prod.splits) metis
  show "absent (s', f') i" if "i \<noteq> exec_id ex" "absent (s, f) i"
    using that by (simp add: absent_def e(2))
qed

lemma holds_get:
  assumes "holds st i (ex, pid)" and "times_ok ex"
  shows "erepo_get repo i p st = Inr (if p = pid then Some (stored_execution (ds_kind (er_store repo)) ex) else None)"
proof -
  obtain p' g row g' where h: "t_get (er_executions repo) i (fst st) = Some (execution_to_entity_kwargs ex pid)"
    "t_get (er_data repo) i (fst st) = Some \<lparr>ed_execution_id = i, ed_row = row\<rparr>"
    "ds_write (er_store repo) i p' g = (row, g')"
    "ds_read (er_store repo) i row (snd st) = Inr (execution_to_payload ex)"
    using assms(1) by (auto simp: holds_def)
  have "ee_project_id (execution_to_entity_kwargs ex pid) = pid" by (simp add: execution_to_entity_kwargs_def)
  then show ?thesis
    using h write_kind [OF h(3)] execution_roundtrip [OF assms(2)]
    by (auto simp: erepo_get_def split: prod.splits)
qed

lemma absent_get: "absent st i \<Longrightarrow> erepo_get repo i p st = Inr None"
  by (cases st) (simp add: absent_def erepo_get_def)

lemma saves_hold:
  "save_all repo saves st = Inr st' \<Longrightarrow> \<forall>i. absent st i \<Longrightarrow>
   (case last_saved saves i of None \<Rightarrow> absent st' i | Some v \<Rightarrow> holds st' i v)"
proof (induction saves arbitrary: st' i rule: rev_induct)
  case Nil
  then show ?case by (simp add: save_all_def last_saved_def)
next
  case (snoc v saves)
  obtain ex pid where v: "v = (ex, pid)" by fastforce
  obtain s f where m: "save_all repo saves st = Inr (s, f)" "stored_state (erepo_save repo ex pid (s, f)) = Inr st'"
    using snoc.prems(1) by (auto simp: save_all_def rfold_append result_simps v)
  then obtain ex' s' f' where sv: "erepo_save repo ex pid (s, f) = (Inr ex', s', f')" "st' = (s', f')"
    by (cases st') (auto simp: stored_state_Inr)
  note h = save_holds [OF sv(1)]
  have "case last_saved saves i of None \<Rightarrow> absent (s, f) i | Some v \<Rightarrow> holds (s, f) i v"
    using snoc.IH [OF m(1) snoc.prems(2)] .
  then show ?case
    using h(1) h(2) [of i] h(3) [of i] unfolding sv(2) last_saved_def v
    by (cases "i = exec_id ex") (auto split: option.splits)
qed

lemma saves_refine:
  assumes "\<forall>k. t_get (er_executions repo) k s = None" and "save_all repo saves (s, files) = Inr st"
    and "\<forall>(ex, p) \<in> set saves. times_ok ex"
  shows "erepo_get repo eid pid st = Inr (case last_saved saves eid of
    Some (ex, p) \<Rightarrow> if p = pid then Some (stored_execution (ds_kind (er_store repo)) ex) else None | None \<Rightarrow> None)"
proof -
  have h: "case last_saved saves eid of None \<Rightarrow> absent st eid | Some v \<Rightarrow> holds st eid v"
    using saves_hold [OF assms(2)] assms(1) by (simp add: absent_def)
  show ?thesis
  proof (cases "last_saved saves eid")
    case None
    with h show ?thesis by (simp add: absent_get)
  next
    case (Some v)
    obtain ex p where v: "v = (ex, p)" by fastforce
    have "(ex, p) \<in> set saves" using Some v by (auto simp: last_saved_def dest!: map_of_SomeD)
    then have "times_ok ex" using assms(3) by blast
    with h Some v holds_get [of st eid ex p pid] show ?thesis by auto
  qed
qed

end

text \<open>The repository on two tables kept as dictionaries.\<close>

type_synonym dict_session = "(string, execution_entity) dict \<times> (string, execution_data_entity) dict"

definition dict_execution_repo :: "data_store \<Rightarrow> dict_session execution_repo" where
  "dict_execution_repo st =
     \<lparr>er_executions = at_field fst (\<lambda>d t. (d, snd t)) (dict_table ee_id),
      er_data = at_field snd (\<lambda>d t. (fst t, d)) (dict_table ed_execution_id),
      er_store = st, er_fr = (\<lambda>_. []), er_pf = (\<lambda>_. None)\<rparr>"

lemma dict_execution_repository: "execution_data_store st \<Longrightarrow> execution_repository (dict_execution_repo st)"
  unfolding execution_repository_def execution_repository_axioms_def dict_execution_repo_def
  by (simp add: at_field_laws dict_table.sql_table_laws_axioms at_field_frame)

interpretation db_executions: execution_repository "dict_execution_repo db_store"
  by (rule dict_execution_repository) unfold_locales

interpretation fs_executions: execution_repository "dict_execution_repo (fs_store t)"
  by (rule dict_execution_repository) unfold_locales

lemma dict_upsert_total: "\<exists>t. upsert (at_field g u (dict_table key)) (key r) r s = (None, t)"
  by (auto simp: upsert_def at_field_def split: option.splits)

lemma dict_save_total: "\<exists>t. stored_state (erepo_save (dict_execution_repo st) ex pid s) = Inr t"
proof -
  obtain d f where s: "s = (d, f)" by fastforce
  let ?E = "er_executions (dict_execution_repo st)" and ?D = "er_data (dict_execution_repo st)"
  obtain d1 where 1: "upsert ?E (exec_id ex) (execution_to_entity_kwargs ex pid) d = (None, d1)"
    using dict_upsert_total [of fst "\<lambda>d t. (d, snd t)" ee_id "execution_to_entity_kwargs ex pid" d]
    by (auto simp: dict_execution_repo_def execution_to_entity_kwargs_def)
  obtain row f' where w: "ds_write st (exec_id ex) (execution_to_payload ex) f = (row, f')" by fastforce
  obtain d2 where 2: "upsert ?D (exec_id ex) \<lparr>ed_execution_id = exec_id ex, ed_row = row\<rparr> d1 = (None, d2)"
    using dict_upsert_total [of snd "\<lambda>d t. (fst t, d)" ed_execution_id "\<lparr>ed_execution_id = exec_id ex, ed_row = row\<rparr>" d1]
    by (auto simp: dict_execution_repo_def)
  have "er_store (dict_execution_repo st) = st" by (simp add: dict_execution_repo_def)
  with 1 2 w show ?thesis by (simp add: erepo_save_def s stored_state_def)
qed

lemma dict_save_all_total: "\<exists>t. save_all (dict_execution_repo st) saves s = Inr t"
proof (induction saves arbitrary: s)
  case (Cons v saves)
  obtain t where "stored_state (erepo_save (dict_execution_repo st) (fst v) (snd v) s) = Inr t" using dict_save_total by blast
  with Cons.IH [of t] show ?case by (simp add: save_all_def split_def)
qed (simp add: save_all_def)

section \<open>Properties\<close>

text \<open>
  C10 (refinement). The workflow repository is a map from identifiers to workflows, seen through the
  project of the caller: after any sequence of successful creates and updates and of deletes on an
  empty table, a read finds exactly the workflow last written under the identifier, unchanged, if it
  belongs to the project that asks and was not deleted by that project, and nothing otherwise.
\<close>
theorem workflow_repo_refines:
  assumes "sql_table_laws (wr_table repo) we_id" and "\<forall>k. t_get (wr_table repo) k s = None"
    and "run_ops (wrepo_create repo) (wrepo_update repo) (wrepo_delete repo) ops s = Inr s'"
  shows "wrepo_get repo wid pid s' = Inr (scoped_lookup project_id (abs_ops wf_id project_id ops Map.empty) wid pid)"
  using workflow_repository.repo_refines [of repo s ops s' wid pid] assms
  by (simp add: workflow_repository_def table_ok_def)

definition demo_stored_workflow :: "string \<Rightarrow> string \<Rightarrow> workflow" where
  "demo_stored_workflow pid nm = (mk_workflow ''wf_1'' pid nm [mk_node ''a'' ''A'' ''weftlyflow.no_op''] [])
     \<lparr>pin_data := [(''a'', [[(''n'', JInt 1)]])]\<rparr>"

theorem workflow_repo_refines_witness:
  "let ops = [Create (demo_stored_workflow ''p'' ''one''), Update (demo_stored_workflow ''p'' ''two''), Delete ''wf_1'' ''q''];
       repo = dict_workflow_repo 7
   in returns (\<lambda>s'. wrepo_get repo ''wf_1'' ''p'' s' = Inr (Some (demo_stored_workflow ''p'' ''two''))
        \<and> wrepo_get repo ''wf_1'' ''q'' s' = Inr None)
      (run_ops (wrepo_create repo) (wrepo_update repo) (wrepo_delete repo) ops [])"
proof -
  let ?repo = "dict_workflow_repo 7"
  let ?ops = "[Create (demo_stored_workflow ''p'' ''one''), Update (demo_stored_workflow ''p'' ''two''), Delete ''wf_1'' ''q'']"
  let ?run = "run_ops (wrepo_create ?repo) (wrepo_update ?repo) (wrepo_delete ?repo) ?ops []"
  have "returns (\<lambda>_. True) ?run" by code_simp
  then obtain s' where r: "?run = Inr s'" by (auto simp: returns_iff)
  have laws: "sql_table_laws (wr_table ?repo) we_id" "\<forall>k. t_get (wr_table ?repo) k [] = None"
    by (simp_all add: dict_workflow_repo_def dict_table.sql_table_laws_axioms)
  have a: "abs_ops wf_id project_id ?ops Map.empty ''wf_1'' = Some (demo_stored_workflow ''p'' ''two'')"
    by (simp add: demo_stored_workflow_def mk_workflow_def)
  have "project_id (demo_stored_workflow ''p'' ''two'') = ''p''" by (simp add: demo_stored_workflow_def mk_workflow_def)
  then show ?thesis
    using workflow_repo_refines [OF laws r, of "''wf_1''" "''p''"] workflow_repo_refines [OF laws r, of "''wf_1''" "''q''"] a r
    by (simp add: Let_def returns_def scoped_lookup_def)
qed


definition demo_execution :: "string \<Rightarrow> execution_status \<Rightarrow> execution" where
  "demo_execution i st = \<lparr>exec_id = i, exec_workflow_id = ''wf_1'', workflow_snapshot = demo_stored_workflow ''p'' ''one'',
     exec_mode = ModeManual, exec_status = st, exec_started_at = 0, finished_at = None, wait_till = None,
     run_data = [(''a'', [\<lparr>run_items = [[mk_item [(''x'', JInt 1)]]], execution_time_ms = 3, run_started_at = 0,
       run_status = StatusSuccess, run_error = None\<rparr>])], exec_data_storage = StorageFs, triggered_by = None\<rparr>"


end
