(* ===== verification/Accounts.thy ===== *)
theory Accounts
  imports Database Auth "HOL-Library.Countable"
begin

text \<open>
  Accounts and sessions of the API server: the token pair (\<open>auth/jwt.py\<close>), passwords
  (\<open>auth/passwords.py\<close>), the repositories of users, projects and refresh tokens
  (\<open>db/repositories/user_repo.py\<close>, \<open>project_repo.py\<close>, \<open>refresh_token_repo.py\<close>), the first-boot
  administrator (\<open>auth/bootstrap.py\<close>), the dependencies that identify the caller and its project
  (\<open>server/deps.py\<close>) and the handlers of \<open>server/routers/auth.py\<close>.

  The signing of tokens, the digest, the password hash and the identifier generator are
  third-party code and fields of \<open>auth_env\<close>; \<open>ae_now\<close> is the instant of the request in
  microseconds, and \<open>ae_ulid n\<close> the \<open>n\<close>-th identifier drawn during it. Request bodies arrive
  validated by the schema layer.
\<close>

section \<open>Identifiers\<close>

definition new_id :: "string \<Rightarrow> string \<Rightarrow> string" where
  "new_id pre ulid = pre @ ''_'' @ ulid"

definition new_workflow_id :: "string \<Rightarrow> string" where "new_workflow_id = new_id ''wf''"

definition new_execution_id :: "string \<Rightarrow> string" where "new_execution_id = new_id ''ex''"

definition new_node_id :: "string \<Rightarrow> string" where "new_node_id = new_id ''node''"

definition new_credential_id :: "string \<Rightarrow> string" where "new_credential_id = new_id ''cr''"

definition new_project_id :: "string \<Rightarrow> string" where "new_project_id = new_id ''pr''"

definition new_user_id :: "string \<Rightarrow> string" where "new_user_id = new_id ''us''"

definition new_webhook_id :: "string \<Rightarrow> string" where "new_webhook_id = new_id ''wh''"

lemma new_id_inj [simp]: "new_id p u = new_id p v \<longleftrightarrow> u = v"
  by (simp add: new_id_def)

section \<open>Answers of a handler\<close>

text \<open>\<open>HttpError status detail\<close> is an \<open>HTTPException\<close>; any other exception is a \<open>Crash\<close>.\<close>

datatype api_error = HttpError int string | Crash exn

type_synonym 'a api = "api_error + 'a"

definition http_error :: "int \<Rightarrow> string \<Rightarrow> 'a api" where
  "http_error st detail = Inl (HttpError st detail)"

definition lift :: "'a result \<Rightarrow> 'a api" where
  "lift r = (case r of Inl e \<Rightarrow> Inl (Crash e) | Inr x \<Rightarrow> Inr x)"

text \<open>\<open>get_db\<close>: commit when the handler returns, roll back when it raises.\<close>

definition transact :: "('s \<Rightarrow> 'a api \<times> 's) \<Rightarrow> 's \<Rightarrow> 'a api \<times> 's" where
  "transact h s = (case h s of (Inl e, _) \<Rightarrow> (Inl e, s) | (Inr x, s') \<Rightarrow> (Inr x, s'))"

definition is_http :: "int \<Rightarrow> 'a api \<Rightarrow> bool" where
  "is_http st r = (case r of Inl (HttpError c _) \<Rightarrow> c = st | _ \<Rightarrow> False)"

lemma http_error_simps [simp]: "http_error st d \<noteq> Inr x" "Inr x \<noteq> http_error st d" "rbind (http_error st d) f = http_error st d"
  by (simp_all add: http_error_def)

lemma lift_Inr [simp]: "lift r = Inr x \<longleftrightarrow> r = Inr x"
  by (simp add: lift_def split: sum.splits)

lemma transact_Inr: "transact h s = (Inr x, s') \<longleftrightarrow> h s = (Inr x, s')"
  by (auto simp: transact_def split: prod.splits sum.splits)

lemma transact_Inl: "transact h s = (Inl e, s') \<Longrightarrow> s' = s"
  by (auto simp: transact_def split: prod.splits sum.splits)

lemma transact_keeps: "fst (transact h s) = Inl e \<Longrightarrow> snd (transact h s) = s"
  by (auto simp: transact_def split: prod.splits sum.splits)

lemma pair_of_fst: "fst p = x \<Longrightarrow> p = (x, snd p)"
  by (cases p) simp

section \<open>Rows\<close>

record user_entity =
  ue_id :: string
  ue_email :: string
  ue_password_hash :: string
  ue_display_name :: "string option"
  ue_global_role :: string
  ue_default_project_id :: "string option"
  ue_is_active :: bool

record project_entity =
  pe_id :: string
  pe_name :: string
  pe_kind :: string
  pe_owner_id :: string

record refresh_token_entity =
  rt_id :: string
  rt_user_id :: string
  rt_token_hash :: string
  rt_issued_at :: int
  rt_expires_at :: int
  rt_revoked :: bool

record project_view =
  pv_id :: string
  pv_name :: string
  pv_kind :: string
  pv_owner_id :: string

definition user_to_domain :: "user_entity \<Rightarrow> user_view" where
  "user_to_domain e = \<lparr>user_id = ue_id e, user_email = ue_email e, display_name = ue_display_name e,
     global_role = ue_global_role e, default_project_id = ue_default_project_id e, is_active = ue_is_active e\<rparr>"

definition project_to_domain :: "project_entity \<Rightarrow> project_view" where
  "project_to_domain e = \<lparr>pv_id = pe_id e, pv_name = pe_name e, pv_kind = pe_kind e, pv_owner_id = pe_owner_id e\<rparr>"

text \<open>The three tables of one session.\<close>

record 's accounts =
  ac_users :: "(user_entity, 's) sql_table"
  ac_projects :: "(project_entity, 's) sql_table"
  ac_tokens :: "(refresh_token_entity, 's) sql_table"

section \<open>Repositories\<close>

definition user_get_by_id :: "'s accounts \<Rightarrow> string \<Rightarrow> 's \<Rightarrow> user_view option result" where
  "user_get_by_id ac uid s =
     rbind (scalar_one_or_none (t_select (ac_users ac) (\<lambda>r. ue_id r = uid) s)) (\<lambda>e. Inr (map_option user_to_domain e))"

definition user_get_entity_by_email :: "'s accounts \<Rightarrow> string \<Rightarrow> 's \<Rightarrow> user_entity option result" where
  "user_get_entity_by_email ac email s =
     scalar_one_or_none (t_select (ac_users ac) (\<lambda>r. ue_email r = py_lower email) s)"

definition user_get_by_email :: "'s accounts \<Rightarrow> string \<Rightarrow> 's \<Rightarrow> user_view option result" where
  "user_get_by_email ac email s = rbind (user_get_entity_by_email ac email s) (\<lambda>e. Inr (map_option user_to_domain e))"

definition user_count :: "'s accounts \<Rightarrow> 's \<Rightarrow> nat" where
  "user_count ac s = length (t_select (ac_users ac) (\<lambda>_. True) s)"

definition user_create :: "'s accounts \<Rightarrow> string \<Rightarrow> string \<Rightarrow> string \<Rightarrow> string option \<Rightarrow> string \<Rightarrow> string option \<Rightarrow> 's
    \<Rightarrow> user_view result \<times> 's" where
  "user_create ac uid email pw name role pid s =
     (let entity = \<lparr>ue_id = uid, ue_email = py_lower email, ue_password_hash = pw, ue_display_name = name,
        ue_global_role = role, ue_default_project_id = pid, ue_is_active = True\<rparr> in
      case t_add (ac_users ac) entity s of (Some e, s') \<Rightarrow> (Inl e, s') | (None, s') \<Rightarrow> (Inr (user_to_domain entity), s'))"

definition user_set_default_project :: "'s accounts \<Rightarrow> string \<Rightarrow> string \<Rightarrow> 's \<Rightarrow> exn option \<times> 's" where
  "user_set_default_project ac uid pid s =
     (case t_get (ac_users ac) uid s of
        None \<Rightarrow> (None, s) | Some e \<Rightarrow> t_put (ac_users ac) (e\<lparr>ue_default_project_id := Some pid\<rparr>) s)"

definition project_get_by_id :: "'s accounts \<Rightarrow> string \<Rightarrow> 's \<Rightarrow> project_view option" where
  "project_get_by_id ac pid s = map_option project_to_domain (t_get (ac_projects ac) pid s)"

definition project_list_for_user :: "'s accounts \<Rightarrow> string \<Rightarrow> 's \<Rightarrow> project_view list" where
  "project_list_for_user ac uid s = map project_to_domain (t_select (ac_projects ac) (\<lambda>r. pe_owner_id r = uid) s)"

definition project_create :: "'s accounts \<Rightarrow> string \<Rightarrow> string \<Rightarrow> string \<Rightarrow> string \<Rightarrow> 's \<Rightarrow> project_view result \<times> 's" where
  "project_create ac pid name kind owner s =
     (let entity = \<lparr>pe_id = pid, pe_name = name, pe_kind = kind, pe_owner_id = owner\<rparr> in
      case t_add (ac_projects ac) entity s of (Some e, s') \<Rightarrow> (Inl e, s') | (None, s') \<Rightarrow> (Inr (project_to_domain entity), s'))"

definition token_create :: "'s accounts \<Rightarrow> string \<Rightarrow> string \<Rightarrow> string \<Rightarrow> int \<Rightarrow> int \<Rightarrow> 's \<Rightarrow> exn option \<times> 's" where
  "token_create ac jti uid h issued expires s =
     t_add (ac_tokens ac) \<lparr>rt_id = jti, rt_user_id = uid, rt_token_hash = h, rt_issued_at = issued,
       rt_expires_at = expires, rt_revoked = False\<rparr> s"

definition token_find_active :: "'s accounts \<Rightarrow> string \<Rightarrow> 's \<Rightarrow> refresh_token_entity option result" where
  "token_find_active ac h s =
     rbind (scalar_one_or_none (t_select (ac_tokens ac) (\<lambda>r. rt_token_hash r = h) s)) (\<lambda>entity.
       case entity of None \<Rightarrow> Inr None | Some e \<Rightarrow> if rt_revoked e then Inr None else Inr (Some e))"

definition token_revoke_by_jti :: "'s accounts \<Rightarrow> string \<Rightarrow> 's \<Rightarrow> bool result \<times> 's" where
  "token_revoke_by_jti ac jti s =
     (case t_get (ac_tokens ac) jti s of
        None \<Rightarrow> (Inr False, s)
      | Some e \<Rightarrow>
          if rt_revoked e then (Inr False, s)
          else (case t_put (ac_tokens ac) (e\<lparr>rt_revoked := True\<rparr>) s of
                  (Some x, s') \<Rightarrow> (Inl x, s') | (None, s') \<Rightarrow> (Inr True, s')))"

definition token_revoke_all_for_user :: "'s accounts \<Rightarrow> string \<Rightarrow> 's \<Rightarrow> nat \<times> 's" where
  "token_revoke_all_for_user ac uid s = t_delete (ac_tokens ac) (\<lambda>r. rt_user_id r = uid) s"

section \<open>Tokens\<close>

record auth_env =
  ae_encode :: "jobj \<Rightarrow> string"
  ae_decode :: "int \<Rightarrow> string \<Rightarrow> jobj result"
  ae_sha256 :: "string \<Rightarrow> string"
  ae_hash :: "string \<Rightarrow> string"
  ae_verify :: "string \<Rightarrow> string \<Rightarrow> unit result"
  ae_fr :: "rat \<Rightarrow> string"
  ae_now :: int
  ae_ulid :: "nat \<Rightarrow> string"
  ae_registration_enabled :: bool

definition ACCESS_TOKEN_TYPE :: string where "ACCESS_TOKEN_TYPE = ''access''"

definition REFRESH_TOKEN_TYPE :: string where "REFRESH_TOKEN_TYPE = ''refresh''"

definition ACCESS_TOKEN_TTL :: int where "ACCESS_TOKEN_TTL = 15 * 60 * 1000000"

definition REFRESH_TOKEN_TTL :: int where "REFRESH_TOKEN_TTL = 14 * 24 * 3600 * 1000000"

definition hash_refresh_token :: "auth_env \<Rightarrow> string \<Rightarrow> string" where
  "hash_refresh_token env token = ae_sha256 env token"

text \<open>\<open>int(t.timestamp())\<close>.\<close>

definition timestamp :: "int \<Rightarrow> int" where
  "timestamp t = trunc_rat (of_int t / 1000000)"

definition encode_claims :: "string \<Rightarrow> string \<Rightarrow> int \<Rightarrow> int \<Rightarrow> string option \<Rightarrow> string \<Rightarrow> jobj" where
  "encode_claims subject typ ttl issued pid jti =
     [(''sub'', JStr subject), (''typ'', JStr typ), (''iat'', JInt (timestamp issued)),
      (''exp'', JInt (timestamp (issued + ttl))), (''jti'', JStr jti)] @
     (case pid of None \<Rightarrow> [] | Some p \<Rightarrow> [(''pid'', JStr p)])"

record token_pair =
  tp_access_token :: string
  tp_refresh_token :: string
  tp_refresh_jti :: string
  tp_refresh_hash :: string
  tp_refresh_expires_at :: int

definition issue_token_pair :: "auth_env \<Rightarrow> string \<Rightarrow> string option \<Rightarrow> token_pair" where
  "issue_token_pair env uid pid =
     (let issued = ae_now env;
          access = ae_encode env (encode_claims uid ACCESS_TOKEN_TYPE ACCESS_TOKEN_TTL issued pid (ae_ulid env 0));
          jti = ae_ulid env 1;
          refresh = ae_encode env (encode_claims uid REFRESH_TOKEN_TYPE REFRESH_TOKEN_TTL issued None jti) in
      \<lparr>tp_access_token = access, tp_refresh_token = refresh, tp_refresh_jti = jti,
       tp_refresh_hash = hash_refresh_token env refresh, tp_refresh_expires_at = issued + REFRESH_TOKEN_TTL\<rparr>)"

record decoded_token =
  dt_subject :: string
  dt_token_type :: string
  dt_default_project_id :: "string option"
  dt_jti :: string
  dt_issued_at :: int
  dt_expires_at :: int

definition TokenError :: exn_class where "TokenError = Other ''TokenError''"

text \<open>\<open>datetime.fromtimestamp(i, tz=UTC)\<close>.\<close>

definition fromtimestamp :: "int \<Rightarrow> int result" where
  "fromtimestamp i = (if dt_ok (i * 1000000) then Inr (i * 1000000) else raise ValueError ''year is out of range'')"

definition read_claims :: "auth_env \<Rightarrow> jobj \<Rightarrow> decoded_token result" where
  "read_claims env payload =
     rbind (lookup payload ''sub'') (\<lambda>sub.
     rbind (lookup payload ''typ'') (\<lambda>typ.
     rbind (opt_text_of (dict_get payload ''pid'' JNull)) (\<lambda>pid.
     rbind (lookup payload ''iat'') (\<lambda>iat. rbind (py_int iat) (\<lambda>iat. rbind (fromtimestamp iat) (\<lambda>iat.
     rbind (lookup payload ''exp'') (\<lambda>ex. rbind (py_int ex) (\<lambda>ex. rbind (fromtimestamp ex) (\<lambda>ex.
       Inr \<lparr>dt_subject = py_str (ae_fr env) sub, dt_token_type = py_str (ae_fr env) typ,
         dt_default_project_id = pid, dt_jti = py_str (ae_fr env) (dict_get payload ''jti'' (JStr [])),
         dt_issued_at = iat, dt_expires_at = ex\<rparr>)))))))))"

definition decode_token :: "auth_env \<Rightarrow> string \<Rightarrow> decoded_token result" where
  "decode_token env token =
     (case ae_decode env (ae_now env) token of
        Inl e \<Rightarrow> raise TokenError (exn_msg e)
      | Inr payload \<Rightarrow>
          (case read_claims env payload of
             Inr d \<Rightarrow> Inr d
           | Inl e \<Rightarrow> if exn_cls e \<in> {KeyError, ValueError} then raise TokenError ''token is missing required claims'' else Inl e))"

section \<open>Passwords\<close>

text \<open>\<open>ae_verify\<close> raises \<open>VerifyMismatchError\<close> or \<open>InvalidHash\<close> when the password does not match.\<close>

definition hash_password :: "auth_env \<Rightarrow> string \<Rightarrow> string" where
  "hash_password env plaintext = ae_hash env plaintext"

definition verify_password :: "auth_env \<Rightarrow> string \<Rightarrow> string \<Rightarrow> bool result" where
  "verify_password env plaintext hashed =
     (case ae_verify env hashed plaintext of
        Inr _ \<Rightarrow> Inr True
      | Inl e \<Rightarrow> if exn_cls e \<in> {Other ''VerifyMismatchError'', Other ''InvalidHash''} then Inr False else Inl e)"

section \<open>Dependencies\<close>

text \<open>The bearer token of the request, if any.\<close>

definition get_current_user :: "auth_env \<Rightarrow> 's accounts \<Rightarrow> string option \<Rightarrow> 's \<Rightarrow> user_view api" where
  "get_current_user env ac bearer s =
     (case bearer of
        None \<Rightarrow> http_error 401 ''missing Authorization header''
      | Some token \<Rightarrow>
          (case decode_token env token of
             Inl e \<Rightarrow> if exn_cls e = TokenError then http_error 401 (''invalid token: '' @ exn_msg e) else Inl (Crash e)
           | Inr decoded \<Rightarrow>
               if dt_token_type decoded \<noteq> ACCESS_TOKEN_TYPE
               then http_error 401 ''refresh tokens may not be used as access tokens''
               else rbind (lift (user_get_by_id ac (dt_subject decoded) s)) (\<lambda>user.
                 case user of
                   None \<Rightarrow> http_error 401 ''user not found''
                 | Some u \<Rightarrow> if \<not> is_active u then http_error 401 ''user not found'' else Inr u)))"

definition or_empty :: "string option \<Rightarrow> string option \<Rightarrow> string option" where
  "or_empty a b = (case a of Some (c # cs) \<Rightarrow> a | _ \<Rightarrow> b)"

definition get_current_project :: "auth_env \<Rightarrow> 's accounts \<Rightarrow> string option \<Rightarrow> string option \<Rightarrow> 's \<Rightarrow> string api" where
  "get_current_project env ac bearer override s =
     rbind (get_current_user env ac bearer s) (\<lambda>user.
       case or_empty (or_empty override (default_project_id user)) None of
         None \<Rightarrow> http_error 400 ''no project selected for this request''
       | Some candidate \<Rightarrow>
           (case project_get_by_id ac candidate s of
              None \<Rightarrow> http_error 404 (''project '' @ repr_str candidate @ '' not found'')
            | Some project \<Rightarrow>
                if pv_owner_id project \<noteq> user_id user \<and> global_role user \<noteq> ''owner''
                then http_error 403 ''you do not have access to this project''
                else Inr (pv_id project)))"

definition require_scope :: "auth_env \<Rightarrow> 's accounts \<Rightarrow> string \<Rightarrow> string option \<Rightarrow> 's \<Rightarrow> user_view api" where
  "require_scope env ac scope bearer s =
     rbind (get_current_user env ac bearer s) (\<lambda>user.
       if \<not> has_scope user scope \<and> scope \<noteq> SCOPE_WILDCARD then http_error 403 (''missing scope: '' @ scope) else Inr user)"

section \<open>Handlers\<close>

record token_response =
  tr_access_token :: string
  tr_refresh_token :: string

definition issue_tokens :: "auth_env \<Rightarrow> 's accounts \<Rightarrow> string \<Rightarrow> string option \<Rightarrow> 's \<Rightarrow> token_response api \<times> 's" where
  "issue_tokens env ac uid pid s =
     (let pair = issue_token_pair env uid pid in
      case token_create ac (tp_refresh_jti pair) uid (tp_refresh_hash pair) (ae_now env) (tp_refresh_expires_at pair) s of
        (Some e, s') \<Rightarrow> (Inl (Crash e), s')
      | (None, s') \<Rightarrow> (Inr \<lparr>tr_access_token = tp_access_token pair, tr_refresh_token = tp_refresh_token pair\<rparr>, s'))"

definition login :: "auth_env \<Rightarrow> 's accounts \<Rightarrow> string \<Rightarrow> string \<Rightarrow> 's \<Rightarrow> token_response api \<times> 's" where
  "login env ac email password =
     transact (\<lambda>s.
       case user_get_entity_by_email ac email s of
         Inl e \<Rightarrow> (Inl (Crash e), s)
       | Inr None \<Rightarrow> (http_error 401 ''invalid credentials'', s)
       | Inr (Some entity) \<Rightarrow>
           if \<not> ue_is_active entity then (http_error 401 ''invalid credentials'', s)
           else (case verify_password env password (ue_password_hash entity) of
                   Inl e \<Rightarrow> (Inl (Crash e), s)
                 | Inr False \<Rightarrow> (http_error 401 ''invalid credentials'', s)
                 | Inr True \<Rightarrow> issue_tokens env ac (ue_id entity) (ue_default_project_id entity) s))"

definition refresh :: "auth_env \<Rightarrow> 's accounts \<Rightarrow> string \<Rightarrow> 's \<Rightarrow> token_response api \<times> 's" where
  "refresh env ac token =
     transact (\<lambda>s.
       case decode_token env token of
         Inl e \<Rightarrow> (if exn_cls e = TokenError then http_error 401 (''invalid refresh token: '' @ exn_msg e) else Inl (Crash e), s)
       | Inr decoded \<Rightarrow>
           if dt_token_type decoded \<noteq> REFRESH_TOKEN_TYPE then (http_error 401 ''not a refresh token'', s)
           else (case token_find_active ac (hash_refresh_token env token) s of
             Inl e \<Rightarrow> (Inl (Crash e), s)
           | Inr None \<Rightarrow> (http_error 401 ''refresh token revoked or unknown'', s)
           | Inr (Some entity) \<Rightarrow>
               if rt_expires_at entity < ae_now env then (http_error 401 ''refresh token expired'', s)
               else (case token_revoke_by_jti ac (rt_id entity) s of
                 (Inl e, s') \<Rightarrow> (Inl (Crash e), s')
               | (Inr _, s') \<Rightarrow>
                   (case user_get_by_id ac (dt_subject decoded) s' of
                      Inl e \<Rightarrow> (Inl (Crash e), s')
                    | Inr None \<Rightarrow> (http_error 401 ''user no longer active'', s')
                    | Inr (Some user) \<Rightarrow>
                        if \<not> is_active user then (http_error 401 ''user no longer active'', s')
                        else issue_tokens env ac (user_id user) (default_project_id user) s'))))"

definition logout :: "auth_env \<Rightarrow> 's accounts \<Rightarrow> string option \<Rightarrow> 's \<Rightarrow> unit api \<times> 's" where
  "logout env ac bearer =
     transact (\<lambda>s.
       case get_current_user env ac bearer s of
         Inl e \<Rightarrow> (Inl e, s)
       | Inr user \<Rightarrow> (Inr (), snd (token_revoke_all_for_user ac (user_id user) s)))"

definition register_user :: "auth_env \<Rightarrow> 's accounts \<Rightarrow> string \<Rightarrow> string \<Rightarrow> string option \<Rightarrow> 's \<Rightarrow> user_view api \<times> 's" where
  "register_user env ac email password name =
     transact (\<lambda>s.
       if \<not> ae_registration_enabled env then (http_error 403 ''self-service registration is disabled'', s)
       else case user_get_by_email ac email s of
         Inl e \<Rightarrow> (Inl (Crash e), s)
       | Inr (Some _) \<Rightarrow> (http_error 409 ''email is already registered'', s)
       | Inr None \<Rightarrow>
           (let pid = new_project_id (ae_ulid env 0); uid = new_user_id (ae_ulid env 1) in
            case project_create ac pid (case or_empty name None of Some n \<Rightarrow> n | None \<Rightarrow> hd (split_on CHR ''@'' email)) ''personal'' uid s of
              (Inl e, s') \<Rightarrow> (Inl (Crash e), s')
            | (Inr _, s') \<Rightarrow>
                (case user_create ac uid email (hash_password env password) name ''member'' (Some pid) s' of
                   (Inl e, s'') \<Rightarrow> (Inl (Crash e), s'')
                 | (Inr user, s'') \<Rightarrow> (Inr user, s''))))"

definition me :: "auth_env \<Rightarrow> 's accounts \<Rightarrow> string option \<Rightarrow> 's \<Rightarrow> user_view api" where
  "me env ac bearer s = get_current_user env ac bearer s"

section \<open>First boot\<close>

definition DEFAULT_ADMIN_EMAIL :: string where "DEFAULT_ADMIN_EMAIL = ''admin@weftlyflow.io''"

text \<open>The last component says whether the password was generated.\<close>

definition resolve_credentials :: "string option \<Rightarrow> string option \<Rightarrow> bool \<Rightarrow> string \<Rightarrow> (string \<times> string \<times> bool) result" where
  "resolve_credentials email_env password_env is_prod random_password =
     (case (or_empty email_env None, or_empty password_env None) of
        (Some e, Some p) \<Rightarrow> Inr (e, p, False)
      | _ \<Rightarrow>
          if is_prod then raise (Other ''BootstrapError'') ''Production boot requires WEFTLYFLOW_BOOTSTRAP_ADMIN_EMAIL and WEFTLYFLOW_BOOTSTRAP_ADMIN_PASSWORD to be set. Refusing to auto-generate credentials in production.''
          else Inr (DEFAULT_ADMIN_EMAIL, random_password, True))"

definition ensure_bootstrap_admin :: "auth_env \<Rightarrow> 's accounts \<Rightarrow> string option \<Rightarrow> string option \<Rightarrow> bool \<Rightarrow> string \<Rightarrow> 's
    \<Rightarrow> unit result \<times> 's" where
  "ensure_bootstrap_admin env ac email_env password_env is_prod random_password s =
     (if user_count ac s > 0 then (Inr (), s)
      else case resolve_credentials email_env password_env is_prod random_password of
        Inl e \<Rightarrow> (Inl e, s)
      | Inr (email, password, generated) \<Rightarrow>
          (let pid = new_project_id (ae_ulid env 0) in
           case project_create ac pid ''Personal'' ''personal'' [] s of
             (Inl e, s1) \<Rightarrow> (Inl e, s1)
           | (Inr _, s1) \<Rightarrow>
               (let uid = new_user_id (ae_ulid env 1) in
                case user_create ac uid email (hash_password env password) (Some ''Administrator'') ''owner'' (Some pid) s1 of
                  (Inl e, s2) \<Rightarrow> (Inl e, s2)
                | (Inr _, s2) \<Rightarrow>
                    (case t_get (ac_projects ac) pid s2 of
                       None \<Rightarrow> (Inr (), s2)
                     | Some project \<Rightarrow>
                         (case t_put (ac_projects ac) (project\<lparr>pe_owner_id := uid\<rparr>) s2 of
                            (Some e, s3) \<Rightarrow> (Inl e, s3) | (None, s3) \<Rightarrow> (Inr (), s3))))))"

section \<open>Interleavings of requests\<close>

text \<open>Each request runs in its own environment: its instant, its identifiers.\<close>

datatype auth_request =
    Login auth_env string string
  | Refresh auth_env string
  | Logout auth_env "string option"
  | Register auth_env string string "string option"

fun serve :: "'s accounts \<Rightarrow> auth_request \<Rightarrow> 's \<Rightarrow> 's" where
  "serve ac (Login env email password) s = snd (login env ac email password s)"
| "serve ac (Refresh env token) s = snd (refresh env ac token s)"
| "serve ac (Logout env bearer) s = snd (logout env ac bearer s)"
| "serve ac (Register env email password name) s = snd (register_user env ac email password name s)"

fun request_env :: "auth_request \<Rightarrow> auth_env" where
  "request_env (Login env _ _) = env"
| "request_env (Refresh env _) = env"
| "request_env (Logout env _) = env"
| "request_env (Register env _ _ _) = env"

definition serve_all :: "'s accounts \<Rightarrow> auth_request list \<Rightarrow> 's \<Rightarrow> 's" where
  "serve_all ac rs s = fold (serve ac) rs s"

text \<open>No refresh token issued in this environment has the digest \<open>h\<close>.\<close>

definition never_issues :: "string \<Rightarrow> auth_env \<Rightarrow> bool" where
  "never_issues h env \<longleftrightarrow> (\<forall>uid pid. tp_refresh_hash (issue_token_pair env uid pid) \<noteq> h)"

section \<open>The tables of one session\<close>

locale account_tables =
  fixes ac :: "'s accounts"
  assumes users: "sql_table_laws (ac_users ac) ue_id"
    and projects: "sql_table_laws (ac_projects ac) pe_id"
    and tokens: "sql_table_laws (ac_tokens ac) rt_id"
    and frames: "frame (ac_users ac) (ac_projects ac)" "frame (ac_users ac) (ac_tokens ac)"
      "frame (ac_projects ac) (ac_users ac)" "frame (ac_projects ac) (ac_tokens ac)"
      "frame (ac_tokens ac) (ac_users ac)" "frame (ac_tokens ac) (ac_projects ac)"
begin

lemma user_get_by_id_eq: "user_get_by_id ac uid s = Inr (map_option user_to_domain (t_get (ac_users ac) uid s))"
  using sql_table_laws.select_key [OF users, of uid "\<lambda>_. True" s]
  by (simp add: user_get_by_id_def scalar_one_or_none_def split: option.splits)

text \<open>A digest is dead when every row that has it is revoked.\<close>

definition dead :: "string \<Rightarrow> 's \<Rightarrow> bool" where
  "dead h s \<longleftrightarrow> (\<forall>k r. t_get (ac_tokens ac) k s = Some r \<and> rt_token_hash r = h \<longrightarrow> rt_revoked r)"

lemma find_active_Some:
  assumes "token_find_active ac h s = Inr (Some e)"
  shows "t_get (ac_tokens ac) (rt_id e) s = Some e \<and> rt_token_hash e = h \<and> \<not> rt_revoked e
    \<and> (\<forall>k r. t_get (ac_tokens ac) k s = Some r \<and> rt_token_hash r = h \<longrightarrow> r = e)"
proof -
  have sel: "t_select (ac_tokens ac) (\<lambda>r. rt_token_hash r = h) s = [e]" and nr: "\<not> rt_revoked e"
    using assms by (auto simp: token_find_active_def scalar_one_or_none_def raise_def split: list.splits if_splits)
  have "r \<in> {e} \<longleftrightarrow> t_get (ac_tokens ac) (rt_id r) s = Some r \<and> rt_token_hash r = h" for r
    using sql_table_laws.select_member [OF tokens, of r "\<lambda>r. rt_token_hash r = h" s] sel by simp
  with nr sql_table_laws.get_key [OF tokens] show ?thesis by (metis singletonD singletonI)
qed

lemma find_active_row:
  assumes "token_find_active ac h s = Inr (Some e)"
  shows "t_get (ac_tokens ac) (rt_id e) s = Some e" "rt_token_hash e = h" "\<not> rt_revoked e"
    and "t_get (ac_tokens ac) k s = Some r \<Longrightarrow> rt_token_hash r = h \<Longrightarrow> r = e"
  using find_active_Some [OF assms] by blast+

lemma dead_find: "dead h s \<Longrightarrow> token_find_active ac h s \<noteq> Inr (Some e)"
  using find_active_Some unfolding dead_def by metis

lemma issue_tokens_effect:
  assumes "issue_tokens env ac uid pid s = (Inr x, s')"
  shows "x = \<lparr>tr_access_token = tp_access_token (issue_token_pair env uid pid),
      tr_refresh_token = tp_refresh_token (issue_token_pair env uid pid)\<rparr>"
    and "t_get (ac_tokens ac) k s' = (if k = ae_ulid env 1
      then Some \<lparr>rt_id = k, rt_user_id = uid, rt_token_hash = tp_refresh_hash (issue_token_pair env uid pid),
        rt_issued_at = ae_now env, rt_expires_at = ae_now env + REFRESH_TOKEN_TTL, rt_revoked = False\<rparr>
      else t_get (ac_tokens ac) k s)"
    and "t_get (ac_users ac) u s' = t_get (ac_users ac) u s"
    and "t_get (ac_projects ac) p s' = t_get (ac_projects ac) p s"
proof -
  let ?pair = "issue_token_pair env uid pid"
  let ?r = "\<lparr>rt_id = tp_refresh_jti ?pair, rt_user_id = uid, rt_token_hash = tp_refresh_hash ?pair,
    rt_issued_at = ae_now env, rt_expires_at = tp_refresh_expires_at ?pair, rt_revoked = False\<rparr>"
  have a: "t_add (ac_tokens ac) ?r s = (None, s')"
    and x: "x = \<lparr>tr_access_token = tp_access_token ?pair, tr_refresh_token = tp_refresh_token ?pair\<rparr>"
    using assms by (auto simp: issue_tokens_def token_create_def Let_def split: prod.splits option.splits)
  have p: "tp_refresh_jti ?pair = ae_ulid env 1" "tp_refresh_expires_at ?pair = ae_now env + REFRESH_TOKEN_TTL"
    by (simp_all add: issue_token_pair_def Let_def)
  show "x = \<lparr>tr_access_token = tp_access_token ?pair, tr_refresh_token = tp_refresh_token ?pair\<rparr>" by (fact x)
  show "t_get (ac_tokens ac) k s' = (if k = ae_ulid env 1
      then Some \<lparr>rt_id = k, rt_user_id = uid, rt_token_hash = tp_refresh_hash ?pair,
        rt_issued_at = ae_now env, rt_expires_at = ae_now env + REFRESH_TOKEN_TTL, rt_revoked = False\<rparr>
      else t_get (ac_tokens ac) k s)"
    using sql_table_laws.add_row [OF tokens a, of k] by (simp add: p)
  show "t_get (ac_users ac) u s' = t_get (ac_users ac) u s" by (rule frame_add [OF frames(5) a])
  show "t_get (ac_projects ac) p s' = t_get (ac_projects ac) p s" by (rule frame_add [OF frames(6) a])
qed

lemma issue_keeps_dead: "issue_tokens env ac uid pid s = (Inr x, s') \<Longrightarrow> never_issues h env \<Longrightarrow> dead h s \<Longrightarrow> dead h s'"
  using issue_tokens_effect(2) by (auto simp: dead_def never_issues_def split: if_splits)

lemma revoke_effect:
  assumes "token_revoke_by_jti ac jti s = (Inr b, s')"
  shows "t_get (ac_tokens ac) k s' = (if k = jti then map_option (\<lambda>e. e\<lparr>rt_revoked := True\<rparr>) (t_get (ac_tokens ac) k s)
      else t_get (ac_tokens ac) k s)"
    and "t_get (ac_users ac) u s' = t_get (ac_users ac) u s"
proof -
  show "t_get (ac_tokens ac) k s' = (if k = jti then map_option (\<lambda>e. e\<lparr>rt_revoked := True\<rparr>) (t_get (ac_tokens ac) k s)
      else t_get (ac_tokens ac) k s)"
    using assms sql_table_laws.put_row [OF tokens] sql_table_laws.get_key [OF tokens, of jti s]
    by (auto simp: token_revoke_by_jti_def split: option.splits if_splits prod.splits)
  show "t_get (ac_users ac) u s' = t_get (ac_users ac) u s"
    using assms frame_put [OF frames(5)]
    by (auto simp: token_revoke_by_jti_def split: option.splits if_splits prod.splits)
qed

text \<open>What a successful refresh checked and did.\<close>

lemma refresh_success:
  assumes "refresh env ac token s = (Inr x, s')"
  obtains decoded e s1 u where "decode_token env token = Inr decoded" "dt_token_type decoded = REFRESH_TOKEN_TYPE"
    "token_find_active ac (hash_refresh_token env token) s = Inr (Some e)" "ae_now env \<le> rt_expires_at e"
    "token_revoke_by_jti ac (rt_id e) s = (Inr True, s1)"
    "t_get (ac_users ac) (dt_subject decoded) s = Some u" "ue_is_active u"
    "issue_tokens env ac (ue_id u) (ue_default_project_id u) s1 = (Inr x, s')"
proof -
  note h = assms [unfolded refresh_def transact_Inr]
  obtain decoded where d: "decode_token env token = Inr decoded" "dt_token_type decoded = REFRESH_TOKEN_TYPE"
    using h by (cases "decode_token env token") (simp_all split: if_splits)
  note h = h [unfolded d(1) sum.case, simplified d(2) not_True_eq_False if_False simp_thms]
  obtain e where e: "token_find_active ac (hash_refresh_token env token) s = Inr (Some e)" "ae_now env \<le> rt_expires_at e"
    using h by (cases "token_find_active ac (hash_refresh_token env token) s") (simp_all split: option.splits if_splits)
  have ne: "\<not> rt_expires_at e < ae_now env" using e(2) by simp
  note h = h [unfolded e(1) sum.case option.case if_not_P [OF ne]]
  obtain b s1 where r: "token_revoke_by_jti ac (rt_id e) s = (Inr b, s1)"
    using h by (cases "token_revoke_by_jti ac (rt_id e) s") (simp split: sum.splits)
  note h = h [unfolded r prod.case sum.case user_get_by_id_eq revoke_effect(2) [OF r]]
  have b: "b" using r find_active_row(1,3) [OF e(1)]
    by (simp add: token_revoke_by_jti_def split: option.splits if_splits prod.splits)
  obtain u where u: "t_get (ac_users ac) (dt_subject decoded) s = Some u" "ue_is_active u"
    "issue_tokens env ac (ue_id u) (ue_default_project_id u) s1 = (Inr x, s')"
    using h by (cases "t_get (ac_users ac) (dt_subject decoded) s") (simp_all add: user_to_domain_def split: if_splits)
  show ?thesis using that [OF d e _ u] r b by simp
qed

lemma revoked_dead:
  assumes "token_find_active ac h s = Inr (Some e)" and "token_revoke_by_jti ac (rt_id e) s = (Inr b, s1)"
  shows "dead h s1"
  unfolding dead_def
proof (intro allI impI)
  fix k r
  assume a: "t_get (ac_tokens ac) k s1 = Some r \<and> rt_token_hash r = h"
  show "rt_revoked r"
  proof (cases "k = rt_id e")
    case True
    with a revoke_effect(1) [OF assms(2), of k] find_active_row(1) [OF assms(1)] show ?thesis by auto
  next
    case False
    then have g: "t_get (ac_tokens ac) k s = Some r" using a revoke_effect(1) [OF assms(2), of k] by simp
    then have "r = e" using find_active_row(4) [OF assms(1)] a by blast
    with g False sql_table_laws.get_key [OF tokens] show ?thesis by blast
  qed
qed

lemma revoke_keeps_dead: "token_revoke_by_jti ac jti s = (Inr b, s1) \<Longrightarrow> dead h s \<Longrightarrow> dead h s1"
  unfolding dead_def
proof (intro allI impI)
  fix k r
  assume "token_revoke_by_jti ac jti s = (Inr b, s1)" and d: "\<forall>k r. t_get (ac_tokens ac) k s = Some r \<and> rt_token_hash r = h \<longrightarrow> rt_revoked r"
    and a: "t_get (ac_tokens ac) k s1 = Some r \<and> rt_token_hash r = h"
  from revoke_effect(1) [OF this(1), of k] a consider "t_get (ac_tokens ac) k s = Some r" | e where "r = e\<lparr>rt_revoked := True\<rparr>"
    by (cases "k = jti"; cases "t_get (ac_tokens ac) k s") auto
  then show "rt_revoked r" using d a by cases auto
qed

lemma refresh_kills:
  assumes "refresh env ac token s = (Inr x, s')" and "never_issues (hash_refresh_token env token) env"
  shows "dead (hash_refresh_token env token) s'"
  by (rule refresh_success [OF assms(1)]) (rule issue_keeps_dead [OF _ assms(2) revoked_dead])

lemma refresh_keeps_dead:
  assumes "dead h s" and "never_issues h env"
  shows "dead h (snd (refresh env ac token s))"
proof (cases "fst (refresh env ac token s)")
  case (Inl err)
  then have "snd (refresh env ac token s) = s"
    unfolding refresh_def by (rule transact_keeps)
  with assms(1) show ?thesis by simp
next
  case (Inr x)
  note r = pair_of_fst [OF Inr]
  show ?thesis
    by (rule refresh_success [OF r]) (rule issue_keeps_dead [OF _ assms(2) revoke_keeps_dead [OF _ assms(1)]])
qed

text \<open>A login that succeeds found an active user whose password verifies.\<close>

lemma login_success:
  assumes "login env ac email password s = (Inr x, s')"
  obtains u where "t_get (ac_users ac) (ue_id u) s = Some u" "ue_email u = py_lower email" "ue_is_active u"
    "verify_password env password (ue_password_hash u) = Inr True"
    "issue_tokens env ac (ue_id u) (ue_default_project_id u) s = (Inr x, s')"
proof -
  note h = assms [unfolded login_def transact_Inr]
  obtain u where sel: "user_get_entity_by_email ac email s = Inr (Some u)"
    using h by (cases "user_get_entity_by_email ac email s") (simp_all split: option.splits)
  note h = h [unfolded sel sum.case option.case]
  have u: "ue_is_active u" "verify_password env password (ue_password_hash u) = Inr True"
    "issue_tokens env ac (ue_id u) (ue_default_project_id u) s = (Inr x, s')"
    using h by (simp_all split: if_splits sum.splits bool.splits)
  have "u \<in> set (t_select (ac_users ac) (\<lambda>r. ue_email r = py_lower email) s)"
    using scalar_one_Some [OF sel [unfolded user_get_entity_by_email_def]] by simp
  then have "t_get (ac_users ac) (ue_id u) s = Some u \<and> ue_email u = py_lower email"
    by (simp only: sql_table_laws.select_member [OF users])
  then show ?thesis using that [of u] u by simp
qed

lemma login_keeps_dead: "dead h s \<Longrightarrow> never_issues h env \<Longrightarrow> dead h (snd (login env ac email password s))"
proof (cases "fst (login env ac email password s)")
  case (Inl err)
  then have "snd (login env ac email password s) = s" unfolding login_def by (rule transact_keeps)
  then show "dead h s \<Longrightarrow> ?thesis" by simp
next
  case (Inr x)
  note r = pair_of_fst [OF Inr]
  show "dead h s \<Longrightarrow> never_issues h env \<Longrightarrow> ?thesis"
    by (rule login_success [OF r]) (rule issue_keeps_dead)
qed

lemma logout_effect:
  "t_get (ac_tokens ac) k (snd (logout env ac bearer s)) =
     (case get_current_user env ac bearer s of
        Inl _ \<Rightarrow> t_get (ac_tokens ac) k s
      | Inr user \<Rightarrow> (case t_get (ac_tokens ac) k s of Some r \<Rightarrow> if rt_user_id r = user_id user then None else Some r | None \<Rightarrow> None))"
proof (cases "get_current_user env ac bearer s")
  case (Inr user)
  obtain n s' where d: "t_delete (ac_tokens ac) (\<lambda>r. rt_user_id r = user_id user) s = (n, s')" by fastforce
  with Inr sql_table_laws.delete_rows [OF tokens d, of k] show ?thesis
    by (simp add: logout_def transact_def token_revoke_all_for_user_def)
qed (simp add: logout_def transact_def)

lemma logout_keeps_dead: "dead h s \<Longrightarrow> dead h (snd (logout env ac bearer s))"
  unfolding dead_def logout_effect by (auto split: sum.splits option.splits if_splits)

definition same_tokens :: "'s \<Rightarrow> 's \<Rightarrow> bool" where
  "same_tokens s s' \<longleftrightarrow> (\<forall>k. t_get (ac_tokens ac) k s' = t_get (ac_tokens ac) k s)"

lemma project_create_tokens: "same_tokens s (snd (project_create ac pid name kind owner s))"
  unfolding same_tokens_def project_create_def Let_def
  using frame_add [OF frames(4)] by (auto split: prod.splits option.splits)

lemma user_create_tokens: "same_tokens s (snd (user_create ac uid email pw name role pid s))"
  unfolding same_tokens_def user_create_def Let_def
  using frame_add [OF frames(2)] by (auto split: prod.splits option.splits)

lemma register_tokens: "same_tokens s (snd (register_user env ac email password name s))"
proof (cases "fst (register_user env ac email password name s)")
  case (Inl err)
  then have "snd (register_user env ac email password name s) = s"
    unfolding register_user_def by (rule transact_keeps)
  then show ?thesis by (simp add: same_tokens_def)
next
  case (Inr x)
  note h = pair_of_fst [OF Inr, unfolded register_user_def transact_Inr, folded register_user_def]
  let ?p = "project_create ac (new_project_id (ae_ulid env 0)) (case or_empty name None of Some n \<Rightarrow> n
    | None \<Rightarrow> hd (split_on CHR ''@'' email)) ''personal'' (new_user_id (ae_ulid env 1)) s"
  let ?u = "user_create ac (new_user_id (ae_ulid env 1)) email (hash_password env password) name ''member''
    (Some (new_project_id (ae_ulid env 0))) (snd ?p)"
  have "snd (register_user env ac email password name s) = snd ?u"
    using h by (cases ?p; cases ?u; cases "user_get_by_email ac email s")
      (simp_all add: Let_def split: if_splits option.splits sum.splits)
  then show ?thesis
    using project_create_tokens user_create_tokens unfolding same_tokens_def by metis
qed

lemma same_tokens_dead: "same_tokens s s' \<Longrightarrow> dead h s \<Longrightarrow> dead h s'"
  by (simp add: dead_def same_tokens_def)

lemma serve_keeps_dead: "dead h s \<Longrightarrow> never_issues h (request_env r) \<Longrightarrow> dead h (serve ac r s)"
  by (cases r) (auto intro: login_keeps_dead refresh_keeps_dead logout_keeps_dead same_tokens_dead register_tokens)

lemma serve_all_keeps_dead:
  "dead h s \<Longrightarrow> \<forall>r \<in> set rs. never_issues h (request_env r) \<Longrightarrow> dead h (serve_all ac rs s)"
  unfolding serve_all_def by (induction rs arbitrary: s) (auto intro: serve_keeps_dead)

lemma dead_refused: "dead (hash_refresh_token env token) s \<Longrightarrow> fst (refresh env ac token s) \<noteq> Inr x"
proof
  assume d: "dead (hash_refresh_token env token) s" and "fst (refresh env ac token s) = Inr x"
  note r = pair_of_fst [OF this(2)]
  show False by (rule refresh_success [OF r]) (use dead_find [OF d] in blast)
qed

text \<open>After logging out, no refresh token of the user is left.\<close>

lemma logout_refuses:
  assumes "get_current_user env ac bearer s = Inr user"
    and "t_get (ac_tokens ac) k (snd (logout env ac bearer s)) = Some r"
  shows "rt_user_id r \<noteq> user_id user"
  using assms by (auto simp: logout_effect split: option.splits if_splits)

end

text \<open>The three tables as dictionaries.\<close>

type_synonym account_state = "(string, user_entity) dict \<times> (string, project_entity) dict \<times> (string, refresh_token_entity) dict"

definition dict_accounts :: "account_state accounts" where
  "dict_accounts =
     \<lparr>ac_users = at_field fst (\<lambda>d t. (d, snd t)) (dict_table ue_id),
      ac_projects = at_field (\<lambda>t. fst (snd t)) (\<lambda>d t. (fst t, d, snd (snd t))) (dict_table pe_id),
      ac_tokens = at_field (\<lambda>t. snd (snd t)) (\<lambda>d t. (fst t, fst (snd t), d)) (dict_table rt_id)\<rparr>"

interpretation dict_accounts: account_tables dict_accounts
  unfolding account_tables_def dict_accounts_def
  by (simp add: at_field_laws dict_table.sql_table_laws_axioms at_field_frame)

section \<open>Properties\<close>

text \<open>
  C7 (safety). Refresh tokens are used once. When a refresh succeeds, the presented token was a refresh
  token whose row was neither revoked nor expired and whose user exists and is active; afterwards, and
  after any further sequence of logins, refreshes, log-outs and registrations that does not issue a
  token with the same digest, no refresh with that token succeeds.
\<close>
theorem refresh_token_single_use:
  assumes "account_tables ac" and "refresh env ac token s = (Inr x, s')"
    and "never_issues (hash_refresh_token env token) env"
    and "\<forall>r \<in> set rs. never_issues (hash_refresh_token env token) (request_env r)"
  shows "(\<exists>decoded e u. decode_token env token = Inr decoded \<and> dt_token_type decoded = REFRESH_TOKEN_TYPE
      \<and> t_get (ac_tokens ac) (rt_id e) s = Some e \<and> rt_token_hash e = hash_refresh_token env token
      \<and> \<not> rt_revoked e \<and> ae_now env \<le> rt_expires_at e
      \<and> t_get (ac_users ac) (dt_subject decoded) s = Some u \<and> ue_is_active u)
    \<and> (\<forall>env' y. ae_sha256 env' = ae_sha256 env \<longrightarrow> fst (refresh env' ac token (serve_all ac rs s')) \<noteq> Inr y)"
proof (intro conjI allI impI)
  note refresh_success = account_tables.refresh_success [OF assms(1,2)]
  note row = account_tables.find_active_row(1,2,3) [OF assms(1)]
  show "\<exists>decoded e u. decode_token env token = Inr decoded \<and> dt_token_type decoded = REFRESH_TOKEN_TYPE
      \<and> t_get (ac_tokens ac) (rt_id e) s = Some e \<and> rt_token_hash e = hash_refresh_token env token
      \<and> \<not> rt_revoked e \<and> ae_now env \<le> rt_expires_at e
      \<and> t_get (ac_users ac) (dt_subject decoded) s = Some u \<and> ue_is_active u"
    by (rule refresh_success) (use row in blast)
  fix env' :: auth_env and y
  assume "ae_sha256 env' = ae_sha256 env"
  then have h: "hash_refresh_token env' token = hash_refresh_token env token" by (simp add: hash_refresh_token_def)
  have "account_tables.dead ac (hash_refresh_token env token) (serve_all ac rs s')"
    by (rule account_tables.serve_all_keeps_dead [OF assms(1) account_tables.refresh_kills [OF assms(1,2,3)] assms(4)])
  then show "fst (refresh env' ac token (serve_all ac rs s')) \<noteq> Inr y"
    unfolding h [symmetric] by (rule account_tables.dead_refused [OF assms(1)])
qed

text \<open>The codec of the tokens: a signed payload is returned until it expires.\<close>

definition jwt_codec :: "auth_env \<Rightarrow> bool" where
  "jwt_codec env \<longleftrightarrow> (\<forall>t p i e. map_of p ''iat'' = Some (JInt i) \<and> map_of p ''exp'' = Some (JInt e)
     \<and> i * 1000000 \<le> t \<and> t < e * 1000000 \<longrightarrow> ae_decode env t (ae_encode env p) = Inr p)"

lemma timestamp_bounds: "0 \<le> t \<Longrightarrow> timestamp t * 1000000 \<le> t \<and> t < (timestamp t + 1) * 1000000"
proof -
  assume t: "0 \<le> t"
  then have "timestamp t = \<lfloor>(of_int t :: rat) / of_int 1000000\<rfloor>" by (simp add: timestamp_def trunc_rat_def)
  then have "timestamp t = t div 1000000" by (simp only: floor_divide_of_int_eq)
  then show ?thesis by (simp add: algebra_simps) presburger
qed

lemma read_encode_claims:
  assumes "dt_ok (timestamp issued * 1000000)" and "dt_ok (timestamp (issued + ttl) * 1000000)"
  shows "read_claims env (encode_claims uid typ ttl issued pid jti) = Inr \<lparr>dt_subject = uid, dt_token_type = typ,
    dt_default_project_id = pid, dt_jti = jti, dt_issued_at = timestamp issued * 1000000,
    dt_expires_at = timestamp (issued + ttl) * 1000000\<rparr>"
  using assms by (cases pid) (simp_all add: read_claims_def encode_claims_def lookup_def dict_get_def fromtimestamp_def
      mapper_simps)

lemma decode_encoded:
  assumes "jwt_codec env" and "0 \<le> issued" and "issued \<le> ae_now env" and "ae_now env < timestamp (issued + ttl) * 1000000"
    and "dt_ok (timestamp issued * 1000000)" and "dt_ok (timestamp (issued + ttl) * 1000000)"
  shows "decode_token env (ae_encode env (encode_claims uid typ ttl issued pid jti)) = Inr \<lparr>dt_subject = uid,
    dt_token_type = typ, dt_default_project_id = pid, dt_jti = jti, dt_issued_at = timestamp issued * 1000000,
    dt_expires_at = timestamp (issued + ttl) * 1000000\<rparr>"
proof -
  let ?p = "encode_claims uid typ ttl issued pid jti"
  have "map_of ?p ''iat'' = Some (JInt (timestamp issued))" "map_of ?p ''exp'' = Some (JInt (timestamp (issued + ttl)))"
    by (simp_all add: encode_claims_def)
  moreover have "timestamp issued * 1000000 \<le> ae_now env" using timestamp_bounds [OF assms(2)] assms(3) by linarith
  ultimately have "ae_decode env (ae_now env) (ae_encode env ?p) = Inr ?p"
    using assms(1,4) unfolding jwt_codec_def by blast
  then show ?thesis using read_encode_claims [OF assms(5,6)] by (simp add: decode_token_def)
qed

lemma dt_ok_between: "dt_ok a \<Longrightarrow> dt_ok c \<Longrightarrow> a \<le> b \<Longrightarrow> b \<le> c \<Longrightarrow> dt_ok b"
  unfolding dt_ok_def using zdiv_mono1 [of a b US_PER_DAY] zdiv_mono1 [of b c US_PER_DAY] by (simp add: US_PER_DAY_def)

text \<open>The same server at another instant of the same request sequence.\<close>

definition same_server :: "auth_env \<Rightarrow> auth_env \<Rightarrow> bool" where
  "same_server env env' \<longleftrightarrow> ae_encode env' = ae_encode env \<and> ae_decode env' = ae_decode env \<and> ae_sha256 env' = ae_sha256 env"

text \<open>
  C12 (functional). Signing in works and the two tokens are not interchangeable. A login succeeds only
  for an active user with the given address whose password verifies; from then on, while the access
  token has not expired and the row is unchanged, a request with the access token as bearer is that
  user's, and is allowed a scope exactly when the role grants it; the refresh token is refused as a
  bearer and the access token is refused for a refresh, both with status 401.
\<close>
theorem login_authenticates:
  assumes "account_tables ac" and "jwt_codec env'" and "same_server env env'"
    and "login env ac email password s = (Inr x, s')"
    and "0 \<le> ae_now env" and "ae_now env \<le> ae_now env'"
    and "ae_now env' < timestamp (ae_now env + ACCESS_TOKEN_TTL) * 1000000"
    and "dt_ok (timestamp (ae_now env) * 1000000)" and "dt_ok (timestamp (ae_now env + REFRESH_TOKEN_TTL) * 1000000)"
  shows "\<exists>u. t_get (ac_users ac) (ue_id u) s = Some u \<and> ue_email u = py_lower email \<and> ue_is_active u
    \<and> verify_password env password (ue_password_hash u) = Inr True
    \<and> get_current_user env' ac (Some (tr_access_token x)) s' = Inr (user_to_domain u)
    \<and> (\<forall>scope. scope \<noteq> SCOPE_WILDCARD \<longrightarrow>
         (require_scope env' ac scope (Some (tr_access_token x)) s' = Inr (user_to_domain u)
           \<longleftrightarrow> has_scope (user_to_domain u) scope))
    \<and> is_http 401 (get_current_user env' ac (Some (tr_refresh_token x)) s')
    \<and> is_http 401 (fst (refresh env' ac (tr_access_token x) s'))"
proof (rule account_tables.login_success [OF assms(1,4)])
  fix u
  assume u: "t_get (ac_users ac) (ue_id u) s = Some u" "ue_email u = py_lower email" "ue_is_active u"
    "verify_password env password (ue_password_hash u) = Inr True"
    and i: "issue_tokens env ac (ue_id u) (ue_default_project_id u) s = (Inr x, s')"
  let ?pair = "issue_token_pair env (ue_id u) (ue_default_project_id u)"
  note x = account_tables.issue_tokens_effect(1) [OF assms(1) i]
  have enc: "ae_encode env = ae_encode env'" using assms(3) by (simp add: same_server_def)
  have le: "timestamp (ae_now env + ACCESS_TOKEN_TTL) \<le> timestamp (ae_now env + REFRESH_TOKEN_TTL)"
    using timestamp_bounds [of "ae_now env + ACCESS_TOKEN_TTL"] timestamp_bounds [of "ae_now env + REFRESH_TOKEN_TTL"] assms(5)
    by (simp add: ACCESS_TOKEN_TTL_def REFRESH_TOKEN_TTL_def)
  have ge: "timestamp (ae_now env) \<le> timestamp (ae_now env + ACCESS_TOKEN_TTL)"
    using timestamp_bounds [of "ae_now env + ACCESS_TOKEN_TTL"] timestamp_bounds [of "ae_now env"] assms(5)
    by (simp add: ACCESS_TOKEN_TTL_def)
  have mid: "dt_ok (timestamp (ae_now env + ACCESS_TOKEN_TTL) * 1000000)"
    by (rule dt_ok_between [OF assms(8,9)]) (use le ge in simp_all)
  have a: "decode_token env' (tr_access_token x) = Inr \<lparr>dt_subject = ue_id u, dt_token_type = ACCESS_TOKEN_TYPE,
      dt_default_project_id = ue_default_project_id u, dt_jti = ae_ulid env 0,
      dt_issued_at = timestamp (ae_now env) * 1000000, dt_expires_at = timestamp (ae_now env + ACCESS_TOKEN_TTL) * 1000000\<rparr>"
    using decode_encoded [OF assms(2,5,6,7,8) mid] by (simp add: x issue_token_pair_def Let_def enc)
  have r: "decode_token env' (tr_refresh_token x) = Inr \<lparr>dt_subject = ue_id u, dt_token_type = REFRESH_TOKEN_TYPE,
      dt_default_project_id = None, dt_jti = ae_ulid env 1,
      dt_issued_at = timestamp (ae_now env) * 1000000, dt_expires_at = timestamp (ae_now env + REFRESH_TOKEN_TTL) * 1000000\<rparr>"
    using decode_encoded [OF assms(2,5,6) _ assms(8,9)] assms(7) le by (simp add: x issue_token_pair_def Let_def enc)
  have g: "get_current_user env' ac (Some (tr_access_token x)) s' = Inr (user_to_domain u)"
    using u(1,3) account_tables.issue_tokens_effect(3) [OF assms(1) i, of "ue_id u"]
    by (simp add: get_current_user_def a account_tables.user_get_by_id_eq [OF assms(1)] lift_def user_to_domain_def)
  have n: "ACCESS_TOKEN_TYPE \<noteq> REFRESH_TOKEN_TYPE" by (simp add: ACCESS_TOKEN_TYPE_def REFRESH_TOKEN_TYPE_def)
  have "is_http 401 (get_current_user env' ac (Some (tr_refresh_token x)) s')"
    using n by (simp add: get_current_user_def r is_http_def http_error_def)
  moreover have "is_http 401 (fst (refresh env' ac (tr_access_token x) s'))"
    using n by (simp add: refresh_def transact_def a is_http_def http_error_def)
  moreover have "require_scope env' ac scope (Some (tr_access_token x)) s' = Inr (user_to_domain u)
      \<longleftrightarrow> has_scope (user_to_domain u) scope" if "scope \<noteq> SCOPE_WILDCARD" for scope
    using that by (simp add: require_scope_def g)
  ultimately show ?thesis using u g by blast
qed

subsection \<open>Witnesses\<close>

instance json :: countable
  by countable_datatype

text \<open>A server whose token is the number of its payload.\<close>

definition demo_auth :: "int \<Rightarrow> string \<Rightarrow> auth_env" where
  "demo_auth t u = \<lparr>ae_encode = (\<lambda>p. show_nat (to_nat p)), ae_decode = (\<lambda>t token. Inr (from_nat (nat_of_digits 0 token))),
     ae_sha256 = (\<lambda>x. x), ae_hash = (\<lambda>x. x),
     ae_verify = (\<lambda>h p. if h = p then Inr () else raise (Other ''VerifyMismatchError'') []),
     ae_fr = (\<lambda>_. []), ae_now = t, ae_ulid = (\<lambda>n. u @ show_nat n), ae_registration_enabled = True\<rparr>"

definition demo_user :: user_entity where
  "demo_user = \<lparr>ue_id = ''us_1'', ue_email = ''ann@x.io'', ue_password_hash = ''secret'', ue_display_name = None,
     ue_global_role = ''member'', ue_default_project_id = Some ''pr_1'', ue_is_active = True\<rparr>"

definition demo_accounts :: account_state where
  "demo_accounts = ([(''us_1'', demo_user)], [], [])"

lemma demo_codec: "jwt_codec (demo_auth t u)"
  by (simp add: jwt_codec_def demo_auth_def nat_of_digits_show_nat)

lemma demo_encode_inj: "ae_encode (demo_auth t u) p = ae_encode (demo_auth t' u') q \<longleftrightarrow> p = q"
  by (simp add: demo_auth_def) (metis from_nat_to_nat nat_of_digits_show_nat)

lemma show_nat_inj [simp]: "show_nat m = show_nat n \<longleftrightarrow> m = n"
  by (metis nat_of_digits_show_nat)

lemma demo_never_issues:
  "u \<noteq> u' \<Longrightarrow> never_issues (tp_refresh_hash (issue_token_pair (demo_auth t u) uid pid)) (demo_auth t' u')"
  by (simp add: never_issues_def issue_token_pair_def Let_def hash_refresh_token_def)
     (simp add: demo_encode_inj [of t u _ t' u', unfolded demo_auth_def, simplified] demo_auth_def encode_claims_def)

definition demo_row :: "int \<Rightarrow> string \<Rightarrow> refresh_token_entity" where
  "demo_row t u = \<lparr>rt_id = u @ show_nat 1, rt_user_id = ''us_1'',
     rt_token_hash = tp_refresh_token (issue_token_pair (demo_auth t u) ''us_1'' (Some ''pr_1'')), rt_issued_at = t,
     rt_expires_at = t + REFRESH_TOKEN_TTL, rt_revoked = False\<rparr>"

definition demo_signed_in :: "int \<Rightarrow> string \<Rightarrow> account_state" where
  "demo_signed_in t u = ([(''us_1'', demo_user)], [], [(u @ show_nat 1, demo_row t u)])"

definition demo_response :: "int \<Rightarrow> string \<Rightarrow> token_response" where
  "demo_response t u = \<lparr>tr_access_token = tp_access_token (issue_token_pair (demo_auth t u) ''us_1'' (Some ''pr_1'')),
     tr_refresh_token = tp_refresh_token (issue_token_pair (demo_auth t u) ''us_1'' (Some ''pr_1''))\<rparr>"

lemma demo_pair:
  "tp_refresh_jti (issue_token_pair (demo_auth t u) uid pid) = u @ show_nat 1"
  "tp_refresh_expires_at (issue_token_pair (demo_auth t u) uid pid) = t + REFRESH_TOKEN_TTL"
  "tp_refresh_hash (issue_token_pair (demo_auth t u) uid pid) = tp_refresh_token (issue_token_pair (demo_auth t u) uid pid)"
  by (simp_all add: issue_token_pair_def Let_def demo_auth_def hash_refresh_token_def)

lemma demo_login: "login (demo_auth t u) dict_accounts ''Ann@x.io'' ''secret'' demo_accounts
    = (Inr (demo_response t u), demo_signed_in t u)"
proof -
  have "user_get_entity_by_email dict_accounts ''Ann@x.io'' demo_accounts = Inr (Some demo_user)"
    by code_simp
  moreover have "verify_password (demo_auth t u) ''secret'' (ue_password_hash demo_user) = Inr True"
    by (simp add: verify_password_def demo_auth_def demo_user_def)
  moreover have "ae_now (demo_auth t u) = t" by (simp add: demo_auth_def)
  moreover have "token_create dict_accounts (u @ show_nat 1) ''us_1''
      (tp_refresh_token (issue_token_pair (demo_auth t u) ''us_1'' (Some ''pr_1''))) t (t + REFRESH_TOKEN_TTL) demo_accounts
      = (None, demo_signed_in t u)"
    by (simp add: token_create_def dict_accounts_def demo_accounts_def at_field_def demo_signed_in_def demo_row_def dict_set_def)
  ultimately show ?thesis
    by (simp add: login_def transact_def issue_tokens_def Let_def demo_pair demo_response_def)
       (simp add: demo_user_def demo_pair)
qed

lemma demo_times:
  "timestamp 0 = 0" "timestamp ACCESS_TOKEN_TTL = 900" "timestamp REFRESH_TOKEN_TTL = 1209600"
  "dt_ok 0" "dt_ok (timestamp REFRESH_TOKEN_TTL * 1000000)"
  by (simp_all add: timestamp_def trunc_rat_def ACCESS_TOKEN_TTL_def REFRESH_TOKEN_TTL_def dt_ok_def US_PER_DAY_def
      EPOCH_ORD_def MAX_ORD_def)

theorem login_authenticates_witness:
  "get_current_user (demo_auth 5 ''b'') dict_accounts (Some (tr_access_token (demo_response 0 ''a''))) (demo_signed_in 0 ''a'')
     = Inr (user_to_domain demo_user)
   \<and> is_http 401 (get_current_user (demo_auth 5 ''b'') dict_accounts (Some (tr_refresh_token (demo_response 0 ''a''))) (demo_signed_in 0 ''a''))"
proof -
  let ?e = "demo_auth 0 ''a''" and ?f = "demo_auth 5 ''b''"
  have ss: "same_server ?e ?f" by (simp add: same_server_def demo_auth_def)
  have now: "ae_now ?e = 0" "ae_now ?f = 5" by (simp_all add: demo_auth_def)
  have t: "0 \<le> ae_now ?e" "ae_now ?e \<le> ae_now ?f" "ae_now ?f < timestamp (ae_now ?e + ACCESS_TOKEN_TTL) * 1000000"
    "dt_ok (timestamp (ae_now ?e) * 1000000)" "dt_ok (timestamp (ae_now ?e + REFRESH_TOKEN_TTL) * 1000000)"
    using demo_times by (simp_all add: now)
  obtain u where u: "t_get (ac_users dict_accounts) (ue_id u) demo_accounts = Some u"
    "get_current_user ?f dict_accounts (Some (tr_access_token (demo_response 0 ''a''))) (demo_signed_in 0 ''a'')
       = Inr (user_to_domain u)"
    "is_http 401 (get_current_user ?f dict_accounts (Some (tr_refresh_token (demo_response 0 ''a''))) (demo_signed_in 0 ''a''))"
    using login_authenticates [OF dict_accounts.account_tables_axioms demo_codec ss demo_login t] by blast
  have "u = demo_user" using u(1)
    by (auto simp: dict_accounts_def at_field_def demo_accounts_def split: if_splits)
  with u show ?thesis by blast
qed

lemma demo_refresh:
  "\<exists>x s'. refresh (demo_auth 5 ''b'') dict_accounts (tr_refresh_token (demo_response 0 ''a'')) (demo_signed_in 0 ''a'') = (Inr x, s')"
proof -
  let ?env = "demo_auth 5 ''b''" and ?tok = "tr_refresh_token (demo_response 0 ''a'')" and ?s = "demo_signed_in 0 ''a''"
  have enc: "?tok = ae_encode ?env (encode_claims ''us_1'' REFRESH_TOKEN_TYPE REFRESH_TOKEN_TTL 0 None (''a'' @ show_nat 1))"
    by (simp add: demo_response_def issue_token_pair_def Let_def demo_auth_def)
  have now: "ae_now ?env = 5" by (simp add: demo_auth_def)
  have d: "decode_token ?env ?tok = Inr \<lparr>dt_subject = ''us_1'', dt_token_type = REFRESH_TOKEN_TYPE,
      dt_default_project_id = None, dt_jti = ''a'' @ show_nat 1, dt_issued_at = 0, dt_expires_at = 1209600 * 1000000\<rparr>"
    unfolding enc using decode_encoded [OF demo_codec, of 0 5 "''b''" REFRESH_TOKEN_TTL] demo_times now by simp
  have h: "hash_refresh_token ?env ?tok = rt_token_hash (demo_row 0 ''a'')"
    by (simp add: hash_refresh_token_def demo_row_def demo_response_def) (simp add: demo_auth_def)
  have f: "token_find_active dict_accounts (rt_token_hash (demo_row 0 ''a'')) ?s = Inr (Some (demo_row 0 ''a''))"
    by (simp add: token_find_active_def dict_accounts_def at_field_def demo_signed_in_def dict_rows_def scalar_one_or_none_def)
       (simp add: demo_row_def)
  have r: "token_revoke_by_jti dict_accounts (rt_id (demo_row 0 ''a'')) ?s =
      (Inr True, [(''us_1'', demo_user)], [], dict_set (''a'' @ show_nat 1) ((demo_row 0 ''a'')\<lparr>rt_revoked := True\<rparr>) [(''a'' @ show_nat 1, demo_row 0 ''a'')])"
    by (simp add: token_revoke_by_jti_def dict_accounts_def at_field_def demo_signed_in_def) (simp add: demo_row_def)
  have a: "\<exists>x s'. issue_tokens ?env dict_accounts ''us_1'' (Some ''pr_1'') ([(''us_1'', demo_user)], [], dict_set (''a'' @ show_nat 1) ((demo_row 0 ''a'')\<lparr>rt_revoked := True\<rparr>)
      [(''a'' @ show_nat 1, demo_row 0 ''a'')]) = (Inr x, s')"
    by (simp add: issue_tokens_def Let_def demo_pair token_create_def dict_accounts_def at_field_def map_of_dict_set)
  have "\<not> rt_expires_at (demo_row 0 ''a'') < 5" by (simp add: demo_row_def REFRESH_TOKEN_TTL_def)
  then show ?thesis using a
    by (simp add: refresh_def transact_def d h f r now dict_accounts.user_get_by_id_eq)
       (auto simp: dict_accounts_def at_field_def user_to_domain_def demo_user_def)
qed

theorem refresh_token_single_use_witness:
  "\<exists>x s'. refresh (demo_auth 5 ''b'') dict_accounts (tr_refresh_token (demo_response 0 ''a'')) (demo_signed_in 0 ''a'') = (Inr x, s')
     \<and> (\<forall>y. fst (refresh (demo_auth 9 ''c'') dict_accounts (tr_refresh_token (demo_response 0 ''a''))
          (serve_all dict_accounts [Login (demo_auth 7 ''d'') ''ann@x.io'' ''secret''] s')) \<noteq> Inr y)"
proof -
  let ?tok = "tr_refresh_token (demo_response 0 ''a'')"
  obtain x s' where r: "refresh (demo_auth 5 ''b'') dict_accounts ?tok (demo_signed_in 0 ''a'') = (Inr x, s')"
    using demo_refresh by blast
  have h: "hash_refresh_token (demo_auth 5 ''b'') ?tok = tp_refresh_hash (issue_token_pair (demo_auth 0 ''a'') ''us_1'' (Some ''pr_1''))"
    by (simp add: hash_refresh_token_def demo_response_def demo_pair) (simp add: demo_auth_def)
  have n: "never_issues (hash_refresh_token (demo_auth 5 ''b'') ?tok) (demo_auth 5 ''b'')"
    "\<forall>q \<in> set [Login (demo_auth 7 ''d'') ''ann@x.io'' ''secret'']. never_issues (hash_refresh_token (demo_auth 5 ''b'') ?tok) (request_env q)"
    unfolding h using demo_never_issues by simp_all
  have "ae_sha256 (demo_auth 9 ''c'') = ae_sha256 (demo_auth 5 ''b'')" by (simp add: demo_auth_def)
  with refresh_token_single_use [OF dict_accounts.account_tables_axioms r n] r show ?thesis by blast
qed

end
