(* ===== verification/Api.thy ===== *)
theory Api
  imports Accounts Repositories Triggers Executor_Props
begin

text \<open>
  The HTTP surface for workflows and executions: the wire formats and their mappers
  (\<open>server/schemas/workflows.py\<close>, \<open>server/schemas/executions.py\<close>, \<open>server/mappers/workflow.py\<close>,
  \<open>server/mappers/execution.py\<close>), the translation of domain errors (\<open>server/errors.py\<close>) and the
  handlers of \<open>server/routers/workflows.py\<close> and \<open>server/routers/executions.py\<close>. A handler runs in the
  session of its request, which is committed when it returns and rolled back when it raises;
  the trigger manager and the payload files are outside of that session. Bodies and query
  parameters arrive validated by the schema layer.
\<close>

section \<open>Wire formats\<close>

record retry_dto =
  rd_max_attempts :: int
  rd_backoff_factor :: rat
  rd_base_delay_ms :: int
  rd_max_delay_ms :: int

record node_dto =
  nd_id :: string
  nd_name :: string
  nd_type :: string
  nd_type_version :: int
  nd_parameters :: jobj
  nd_credentials :: "(string, string) dict"
  nd_position :: "rat list"
  nd_disabled :: bool
  nd_notes :: "string option"
  nd_continue_on_fail :: bool
  nd_retry_policy :: "retry_dto option"

record connection_dto =
  cd_source_node :: string
  cd_target_node :: string
  cd_source_port :: string
  cd_source_index :: int
  cd_target_port :: string
  cd_target_index :: int

record settings_dto =
  sd_timezone :: string
  sd_timeout_seconds :: int
  sd_save_manual_executions :: bool
  sd_save_trigger_executions_on :: string
  sd_error_workflow_id :: "string option"
  sd_caller_policy :: string

record workflow_create_request =
  wc_name :: string
  wc_nodes :: "node_dto list"
  wc_connections :: "connection_dto list"
  wc_settings :: settings_dto
  wc_tags :: "string list"

record workflow_update_request = workflow_create_request +
  wu_active :: bool
  wu_archived :: bool

record workflow_response =
  ws_id :: string
  ws_project_id :: string
  ws_name :: string
  ws_nodes :: "node_dto list"
  ws_connections :: "connection_dto list"
  ws_settings :: settings_dto
  ws_tags :: "string list"
  ws_active :: bool
  ws_archived :: bool

record execution_summary =
  es_id :: string
  es_workflow_id :: string
  es_mode :: string
  es_status :: string
  es_started_at :: int
  es_finished_at :: "int option"
  es_triggered_by :: "string option"

record node_run_dto =
  nr_items :: "jobj list list"
  nr_execution_time_ms :: int
  nr_started_at :: int
  nr_status :: string
  nr_error :: "jobj option"

record execution_response = execution_summary +
  es_run_data :: "(string, node_run_dto list) dict"

section \<open>Mappers\<close>

definition retry_from_dto :: "retry_dto \<Rightarrow> retry_policy" where
  "retry_from_dto d = \<lparr>max_attempts = rd_max_attempts d, backoff_factor = rd_backoff_factor d,
     base_delay_ms = rd_base_delay_ms d, max_delay_ms = rd_max_delay_ms d\<rparr>"

definition retry_to_dto :: "retry_policy \<Rightarrow> retry_dto" where
  "retry_to_dto r = \<lparr>rd_max_attempts = max_attempts r, rd_backoff_factor = backoff_factor r,
     rd_base_delay_ms = base_delay_ms r, rd_max_delay_ms = max_delay_ms r\<rparr>"

definition node_from_dto :: "node_dto \<Rightarrow> node" where
  "node_from_dto d =
     \<lparr>node_id = nd_id d, node_name = nd_name d, node_type = nd_type d, type_version = nd_type_version d,
      parameters = nd_parameters d, credentials = nd_credentials d,
      position = (if length (nd_position d) \<ge> 2 then (nd_position d ! 0, nd_position d ! 1) else (0, 0)),
      disabled = nd_disabled d, node_notes = nd_notes d, continue_on_fail = nd_continue_on_fail d,
      node_retry_policy = map_option retry_from_dto (nd_retry_policy d)\<rparr>"

definition node_to_dto :: "node \<Rightarrow> node_dto" where
  "node_to_dto n =
     \<lparr>nd_id = node_id n, nd_name = node_name n, nd_type = node_type n, nd_type_version = type_version n,
      nd_parameters = parameters n, nd_credentials = credentials n,
      nd_position = [fst (position n), snd (position n)], nd_disabled = disabled n, nd_notes = node_notes n,
      nd_continue_on_fail = continue_on_fail n, nd_retry_policy = map_option retry_to_dto (node_retry_policy n)\<rparr>"

definition connection_from_dto :: "connection_dto \<Rightarrow> connection" where
  "connection_from_dto d = \<lparr>source_node = cd_source_node d, target_node = cd_target_node d,
     source_port = cd_source_port d, source_index = cd_source_index d, target_port = cd_target_port d,
     target_index = cd_target_index d\<rparr>"

definition connection_to_dto :: "connection \<Rightarrow> connection_dto" where
  "connection_to_dto c = \<lparr>cd_source_node = source_node c, cd_target_node = target_node c,
     cd_source_port = source_port c, cd_source_index = source_index c, cd_target_port = target_port c,
     cd_target_index = target_index c\<rparr>"

text \<open>The two policies are plain strings on the wire.\<close>

definition settings_from_dto :: "settings_dto \<Rightarrow> workflow_settings result" where
  "settings_from_dto d =
     rbind (save_policy_of (sd_save_trigger_executions_on d)) (\<lambda>sp.
     rbind (caller_policy_of (sd_caller_policy d)) (\<lambda>cp.
       Inr \<lparr>timezone = sd_timezone d, timeout_seconds = sd_timeout_seconds d,
         save_manual_executions = sd_save_manual_executions d, save_trigger_executions_on = sp,
         error_workflow_id = sd_error_workflow_id d, settings_caller_policy = cp\<rparr>))"

definition settings_to_dto :: "workflow_settings \<Rightarrow> settings_dto" where
  "settings_to_dto s = \<lparr>sd_timezone = timezone s, sd_timeout_seconds = timeout_seconds s,
     sd_save_manual_executions = save_manual_executions s,
     sd_save_trigger_executions_on = save_policy_str (save_trigger_executions_on s),
     sd_error_workflow_id = error_workflow_id s, sd_caller_policy = caller_policy_str (settings_caller_policy s)\<rparr>"

definition workflow_create_to_domain :: "string \<Rightarrow> workflow_create_request \<Rightarrow> string \<Rightarrow> workflow result" where
  "workflow_create_to_domain fresh_id body pid =
     rbind (settings_from_dto (wc_settings body)) (\<lambda>st.
       Inr ((mk_workflow fresh_id pid (wc_name body) (map node_from_dto (wc_nodes body))
              (map connection_from_dto (wc_connections body)))\<lparr>wf_settings := st, tags := wc_tags body\<rparr>))"

definition workflow_update_to_domain :: "workflow_update_request \<Rightarrow> string \<Rightarrow> string \<Rightarrow> string option \<Rightarrow> workflow result" where
  "workflow_update_to_domain body wid pid ver =
     rbind (settings_from_dto (wc_settings body)) (\<lambda>st.
       Inr ((mk_workflow wid pid (wc_name body) (map node_from_dto (wc_nodes body))
              (map connection_from_dto (wc_connections body)))
            \<lparr>wf_settings := st, tags := wc_tags body, active := wu_active body, archived := wu_archived body,
             version_id := ver\<rparr>))"

definition workflow_to_response :: "workflow \<Rightarrow> workflow_response" where
  "workflow_to_response w = \<lparr>ws_id = wf_id w, ws_project_id = project_id w, ws_name = wf_name w,
     ws_nodes = map node_to_dto (wf_nodes w), ws_connections = map connection_to_dto (connections w),
     ws_settings = settings_to_dto (wf_settings w), ws_tags = tags w, ws_active = active w, ws_archived = archived w\<rparr>"

definition node_run_data_to_dto :: "node_run_data \<Rightarrow> node_run_dto" where
  "node_run_data_to_dto r = \<lparr>nr_items = map (map (\<lambda>i. [(''json'', JObj (item_json i))])) (run_items r),
     nr_execution_time_ms = execution_time_ms r, nr_started_at = run_started_at r,
     nr_status = node_status_str (run_status r), nr_error = map_option error_to_json (run_error r)\<rparr>"

definition execution_to_response :: "execution \<Rightarrow> execution_response" where
  "execution_to_response ex = \<lparr>es_id = exec_id ex, es_workflow_id = exec_workflow_id ex,
     es_mode = mode_str (exec_mode ex), es_status = exec_status_str (exec_status ex),
     es_started_at = exec_started_at ex, es_finished_at = finished_at ex, es_triggered_by = triggered_by ex,
     es_run_data = map (\<lambda>(k, rs). (k, map node_run_data_to_dto rs)) (run_data ex)\<rparr>"

definition entity_to_summary :: "execution_entity \<Rightarrow> execution_summary" where
  "entity_to_summary e = \<lparr>es_id = ee_id e, es_workflow_id = ee_workflow_id e, es_mode = ee_mode e,
     es_status = ee_status e, es_started_at = ee_started_at e, es_finished_at = ee_finished_at e,
     es_triggered_by = ee_triggered_by e\<rparr>"

section \<open>Errors\<close>

definition ERROR_CODE_BY_TYPE :: "(exn_class, string) dict" where
  "ERROR_CODE_BY_TYPE =
     [(WorkflowValidationError, ''workflow_validation''), (InvalidConnectionError, ''invalid_connection''),
      (CycleDetectedError, ''cycle_detected''), (NodeExecutionError, ''node_execution_error''),
      (CredentialNotFoundError, ''credential_not_found''), (CredentialDecryptError, ''credential_decrypt_error''),
      (ExpressionSyntaxError, ''expression_syntax_error''), (ExpressionEvalError, ''expression_eval_error''),
      (ExpressionTimeoutError, ''expression_timeout''), (NodeTypeNotFoundError, ''unknown_node_type'')]"

definition STATUS_BY_TYPE :: "(exn_class, int) dict" where
  "STATUS_BY_TYPE =
     [(WorkflowValidationError, 400), (InvalidConnectionError, 400), (CycleDetectedError, 400),
      (CredentialNotFoundError, 404), (NodeTypeNotFoundError, 400)]"

text \<open>The answer to a \<open>WeftlyflowError\<close>: the status, the code and the message of the envelope.\<close>

definition weftlyflow_handler :: "exn \<Rightarrow> int \<times> string \<times> string" where
  "weftlyflow_handler e =
     (dict_get STATUS_BY_TYPE (exn_cls e) 500, dict_get ERROR_CODE_BY_TYPE (exn_cls e) ''weftlyflow_error'', exn_msg e)"

section \<open>Handlers\<close>

text \<open>The caller: the bearer token and the project header.\<close>

record caller =
  cl_bearer :: "string option"
  cl_project :: "string option"

record 's server =
  api_auth :: auth_env
  api_accounts :: "'s accounts"
  api_workflows :: "'s workflow_repo"
  api_executions :: "'s execution_repo"
  api_executor :: executor

text \<open>\<open>dependencies=[require_scope(scope)]\<close>, then \<open>get_current_project\<close>.\<close>

definition authorize :: "'s server \<Rightarrow> string \<Rightarrow> caller \<Rightarrow> 's \<Rightarrow> string api" where
  "authorize a scope c s =
     rbind (require_scope (api_auth a) (api_accounts a) scope (cl_bearer c) s) (\<lambda>_.
       get_current_project (api_auth a) (api_accounts a) (cl_bearer c) (cl_project c) s)"

definition list_workflows :: "'s server \<Rightarrow> caller \<Rightarrow> nat \<Rightarrow> nat \<Rightarrow> bool \<Rightarrow> 's \<Rightarrow> workflow_response list api" where
  "list_workflows a c limit offset arch s =
     rbind (authorize a ''workflow:read'' c s) (\<lambda>pid.
     rbind (lift (wrepo_list (api_workflows a) pid (Some arch) None limit offset s)) (\<lambda>ws.
       Inr (map workflow_to_response ws)))"

definition create_workflow :: "'s server \<Rightarrow> caller \<Rightarrow> workflow_create_request \<Rightarrow> 's \<Rightarrow> workflow_response api \<times> 's" where
  "create_workflow a c body =
     transact (\<lambda>s.
       case authorize a ''workflow:write'' c s of
         Inl e \<Rightarrow> (Inl e, s)
       | Inr pid \<Rightarrow>
           (case workflow_create_to_domain (new_workflow_id (ae_ulid (api_auth a) 0)) body pid of
              Inl e \<Rightarrow> (Inl (Crash e), s)
            | Inr w \<Rightarrow>
                (case wrepo_create (api_workflows a) w s of
                   (Inl e, s') \<Rightarrow> (Inl (Crash e), s')
                 | (Inr created, s') \<Rightarrow> (Inr (workflow_to_response created), s'))))"

definition get_workflow :: "'s server \<Rightarrow> caller \<Rightarrow> string \<Rightarrow> 's \<Rightarrow> workflow_response api" where
  "get_workflow a c wid s =
     rbind (authorize a ''workflow:read'' c s) (\<lambda>pid.
     rbind (lift (wrepo_get (api_workflows a) wid pid s)) (\<lambda>w.
       case w of None \<Rightarrow> http_error 404 ''workflow not found'' | Some x \<Rightarrow> Inr (workflow_to_response x)))"

definition update_workflow :: "'s server \<Rightarrow> caller \<Rightarrow> string \<Rightarrow> workflow_update_request \<Rightarrow> 's \<Rightarrow> workflow_response api \<times> 's" where
  "update_workflow a c wid body =
     transact (\<lambda>s.
       case authorize a ''workflow:write'' c s of
         Inl e \<Rightarrow> (Inl e, s)
       | Inr pid \<Rightarrow>
           (case workflow_update_to_domain body wid pid None of
              Inl e \<Rightarrow> (Inl (Crash e), s)
            | Inr w \<Rightarrow>
                (case wrepo_update (api_workflows a) w s of
                   (Inl e, s') \<Rightarrow> (if exn_cls e = Other ''LookupError'' then http_error 404 ''workflow not found'' else Inl (Crash e), s')
                 | (Inr updated, s') \<Rightarrow> (Inr (workflow_to_response updated), s'))))"

definition delete_workflow :: "'s server \<Rightarrow> caller \<Rightarrow> string \<Rightarrow> 's \<Rightarrow> unit api \<times> 's" where
  "delete_workflow a c wid =
     transact (\<lambda>s.
       case authorize a ''workflow:write'' c s of
         Inl e \<Rightarrow> (Inl e, s)
       | Inr pid \<Rightarrow>
           (let (deleted, s') = wrepo_delete (api_workflows a) wid pid s in
            if \<not> deleted then (http_error 404 ''workflow not found'', s') else (Inr (), s')))"

text \<open>The trigger manager keeps its own sessions: a failed request does not undo what it committed.\<close>

definition transact_outer :: "('s \<times> 't \<Rightarrow> 'a api \<times> 's \<times> 't) \<Rightarrow> 's \<times> 't \<Rightarrow> 'a api \<times> 's \<times> 't" where
  "transact_outer h st = (case h st of (Inl e, _, t) \<Rightarrow> (Inl e, fst st, t) | r \<Rightarrow> r)"

text \<open>The detail of the 400 answer carries the list of errors.\<close>

definition activation_failed :: "string list \<Rightarrow> string" where
  "activation_failed errs = ''trigger_registration_failed: '' @ join ''; '' errs"

definition activate_workflow :: "'s server \<Rightarrow> 't trigger_env \<Rightarrow> caller \<Rightarrow> string \<Rightarrow> 's \<times> 't trigger_state
    \<Rightarrow> workflow_response api \<times> 's \<times> 't trigger_state" where
  "activate_workflow a env c wid =
     transact_outer (\<lambda>(s, t).
       case authorize a ''workflow:write'' c s of
         Inl e \<Rightarrow> (Inl e, s, t)
       | Inr pid \<Rightarrow>
           (case wrepo_get (api_workflows a) wid pid s of
              Inl e \<Rightarrow> (Inl (Crash e), s, t)
            | Inr None \<Rightarrow> (http_error 404 ''workflow not found'', s, t)
            | Inr (Some w) \<Rightarrow>
                (case deactivate env w t of
                   (Inl e, t1) \<Rightarrow> (Inl (Crash e), s, t1)
                 | (Inr _, t1) \<Rightarrow>
                     (case activate env w t1 of
                        (Inl e, t2) \<Rightarrow> (Inl (Crash e), s, t2)
                      | (Inr res, t2) \<Rightarrow>
                          if act_errors res \<noteq> [] then
                            (case deactivate env w t2 of
                               (Inl e, t3) \<Rightarrow> (Inl (Crash e), s, t3)
                             | (Inr _, t3) \<Rightarrow> (http_error 400 (activation_failed (act_errors res)), s, t3))
                          else
                            (case wrepo_update (api_workflows a) (w\<lparr>active := True\<rparr>) s of
                               (Inl e, s') \<Rightarrow> (Inl (Crash e), s', t2)
                             | (Inr updated, s') \<Rightarrow> (Inr (workflow_to_response updated), s', t2))))))"

definition deactivate_workflow :: "'s server \<Rightarrow> 't trigger_env \<Rightarrow> caller \<Rightarrow> string \<Rightarrow> 's \<times> 't trigger_state
    \<Rightarrow> workflow_response api \<times> 's \<times> 't trigger_state" where
  "deactivate_workflow a env c wid =
     transact_outer (\<lambda>(s, t).
       case authorize a ''workflow:write'' c s of
         Inl e \<Rightarrow> (Inl e, s, t)
       | Inr pid \<Rightarrow>
           (case wrepo_get (api_workflows a) wid pid s of
              Inl e \<Rightarrow> (Inl (Crash e), s, t)
            | Inr None \<Rightarrow> (http_error 404 ''workflow not found'', s, t)
            | Inr (Some w) \<Rightarrow>
                (case deactivate env w t of
                   (Inl e, t1) \<Rightarrow> (Inl (Crash e), s, t1)
                 | (Inr _, t1) \<Rightarrow>
                     (case wrepo_update (api_workflows a) (w\<lparr>active := False\<rparr>) s of
                        (Inl e, s') \<Rightarrow> (Inl (Crash e), s', t1)
                      | (Inr updated, s') \<Rightarrow> (Inr (workflow_to_response updated), s', t1)))))"

text \<open>\<open>save_execution\<close> is the save of the repository.\<close>

definition execute_workflow_now :: "'s server \<Rightarrow> caller \<Rightarrow> string \<Rightarrow> jobj list \<Rightarrow> 's \<times> file_tree
    \<Rightarrow> execution_response api \<times> 's \<times> file_tree" where
  "execute_workflow_now a c wid initial =
     transact_outer (\<lambda>(s, f).
       case authorize a ''workflow:execute'' c s of
         Inl e \<Rightarrow> (Inl e, s, f)
       | Inr pid \<Rightarrow>
           (case wrepo_get (api_workflows a) wid pid s of
              Inl e \<Rightarrow> (Inl (Crash e), s, f)
            | Inr None \<Rightarrow> (http_error 404 ''workflow not found'', s, f)
            | Inr (Some w) \<Rightarrow>
                (let items = map mk_item initial; items = (if items = [] then [mk_item []] else items) in
                 case run_workflow (api_executor a) w (Some items) ModeManual None (new_execution_id (ae_ulid (api_auth a) 0)) of
                   Inl e \<Rightarrow> (Inl (Crash e), s, f)
                 | Inr (execution, _) \<Rightarrow>
                     (case erepo_save (api_executions a) execution pid (s, f) of
                        (Inl e, st) \<Rightarrow> (Inl (Crash e), st)
                      | (Inr _, st) \<Rightarrow> (Inr (execution_to_response execution), st)))))"

definition list_executions :: "'s server \<Rightarrow> caller \<Rightarrow> string option \<Rightarrow> string option \<Rightarrow> nat \<Rightarrow> nat \<Rightarrow> 's
    \<Rightarrow> execution_summary list api" where
  "list_executions a c wid st limit offset s =
     rbind (authorize a ''execution:read'' c s) (\<lambda>pid.
       Inr (map entity_to_summary (erepo_list (api_executions a) pid wid st limit offset s)))"

definition get_execution :: "'s server \<Rightarrow> caller \<Rightarrow> string \<Rightarrow> 's \<times> file_tree \<Rightarrow> execution_response api" where
  "get_execution a c eid st =
     rbind (authorize a ''execution:read'' c (fst st)) (\<lambda>pid.
     rbind (lift (erepo_get (api_executions a) eid pid st)) (\<lambda>ex.
       case ex of None \<Rightarrow> http_error 404 ''execution not found'' | Some x \<Rightarrow> Inr (execution_to_response x)))"

section \<open>Who is let in\<close>

text \<open>A project the user may work in: its own, or any for a global owner.\<close>

definition may_use :: "'s server \<Rightarrow> caller \<Rightarrow> string \<Rightarrow> string \<Rightarrow> 's \<Rightarrow> bool" where
  "may_use a c scope pid s \<longleftrightarrow> (\<exists>user project. get_current_user (api_auth a) (api_accounts a) (cl_bearer c) s = Inr user
     \<and> is_active user \<and> has_scope user scope
     \<and> t_get (ac_projects (api_accounts a)) pid s = Some project
     \<and> (pe_owner_id project = user_id user \<or> global_role user = ''owner''))"

lemma get_current_user_active: "get_current_user env ac bearer s = Inr user \<Longrightarrow> is_active user"
  by (auto simp: get_current_user_def result_simps split: option.splits sum.splits if_splits)

lemma get_current_project_Inr:
  assumes "sql_table_laws (ac_projects ac) pe_id" and "get_current_project env ac bearer override s = Inr pid"
  shows "\<exists>user project. get_current_user env ac bearer s = Inr user \<and> t_get (ac_projects ac) pid s = Some project
    \<and> (pe_owner_id project = user_id user \<or> global_role user = ''owner'')"
proof -
  obtain user where u: "get_current_user env ac bearer s = Inr user"
    using assms(2) by (auto simp: get_current_project_def result_simps)
  obtain cand project where p: "t_get (ac_projects ac) cand s = Some project" "pe_id project = pid"
    "pe_owner_id project = user_id user \<or> global_role user = ''owner''"
    using assms(2) u by (auto simp: get_current_project_def project_get_by_id_def project_to_domain_def
        split: option.splits if_splits)
  with sql_table_laws.get_key [OF assms(1) p(1)] u show ?thesis by blast
qed

lemma authorize_may_use:
  assumes "sql_table_laws (ac_projects (api_accounts a)) pe_id" and "authorize a scope c s = Inr pid"
    and "scope \<noteq> SCOPE_WILDCARD"
  shows "may_use a c scope pid s"
proof -
  obtain user where u: "require_scope (api_auth a) (api_accounts a) scope (cl_bearer c) s = Inr user"
    and p: "get_current_project (api_auth a) (api_accounts a) (cl_bearer c) (cl_project c) s = Inr pid"
    using assms(2) by (auto simp: authorize_def result_simps)
  have g: "get_current_user (api_auth a) (api_accounts a) (cl_bearer c) s = Inr user" "has_scope user scope"
    using u assms(3) by (auto simp: require_scope_def result_simps split: if_splits)
  from get_current_project_Inr [OF assms(1) p] g get_current_user_active [OF g(1)] show ?thesis
    unfolding may_use_def by auto
qed

section \<open>Workflow requests\<close>

datatype workflow_request =
    ListWorkflows nat nat bool
  | CreateWorkflow workflow_create_request
  | GetWorkflow string
  | UpdateWorkflow string workflow_update_request
  | DeleteWorkflow string

text \<open>The workflows in the answer and the state afterwards.\<close>

definition one :: "'a api \<times> 's \<Rightarrow> 'a list api \<times> 's" where
  "one r = (rbind (fst r) (\<lambda>x. Inr [x]), snd r)"

fun serve_workflow :: "'s server \<Rightarrow> caller \<Rightarrow> workflow_request \<Rightarrow> 's \<Rightarrow> workflow_response list api \<times> 's" where
  "serve_workflow a c (ListWorkflows limit offset arch) s = (list_workflows a c limit offset arch s, s)"
| "serve_workflow a c (CreateWorkflow body) s = one (create_workflow a c body s)"
| "serve_workflow a c (GetWorkflow wid) s = one (get_workflow a c wid s, s)"
| "serve_workflow a c (UpdateWorkflow wid body) s = one (update_workflow a c wid body s)"
| "serve_workflow a c (DeleteWorkflow wid) s = (let (r, s') = delete_workflow a c wid s in (rbind r (\<lambda>_. Inr []), s'))"

fun request_scope :: "workflow_request \<Rightarrow> string" where
  "request_scope (ListWorkflows _ _ _) = ''workflow:read''"
| "request_scope (GetWorkflow _) = ''workflow:read''"
| "request_scope _ = ''workflow:write''"

text \<open>The rows of every project but one are the same.\<close>

definition others_same :: "'s workflow_table \<Rightarrow> string \<Rightarrow> 's \<Rightarrow> 's \<Rightarrow> bool" where
  "others_same T pid s s' \<longleftrightarrow> (\<forall>k r. we_project_id r \<noteq> pid \<longrightarrow> (t_get T k s = Some r \<longleftrightarrow> t_get T k s' = Some r))"

lemma others_same_refl [simp]: "others_same T pid s s"
  by (simp add: others_same_def)

lemma wrepo_create_rows:
  assumes "table_ok repo" and "wrepo_create repo w s = (Inr w', s')"
  shows "others_same (wr_table repo) (project_id w) s s'"
proof -
  let ?e = "entity_of (workflow_to_entity_kwargs w) (wr_now repo)"
  have a: "t_add (wr_table repo) ?e s = (None, s')"
    using assms(2) by (auto simp: wrepo_create_def Let_def split: prod.splits option.splits)
  show ?thesis
    using sql_table_laws.add_row [OF assms(1) [unfolded table_ok_def] a] by (auto simp: others_same_def)
qed

lemma wrepo_update_rows:
  assumes "table_ok repo" and "wrepo_update repo w s = (Inr w', s')"
  shows "others_same (wr_table repo) (project_id w) s s'"
proof -
  obtain en where sc: "wrepo_get_scoped repo (wf_id w) (project_id w) s = Inr (Some en)"
    using assms(2) by (cases "wrepo_get_scoped repo (wf_id w) (project_id w) s") (simp_all add: wrepo_update_def raise_def split: option.splits)
  define t where "t = (if workflow_kwargs.truncate en = workflow_to_entity_kwargs w then we_updated_at en else wr_now repo)"
  have a: "t_put (wr_table repo) (entity_of (workflow_to_entity_kwargs w) t) s = (None, s')"
    using assms(2) unfolding wrepo_update_def sc sum.case option.case Let_def t_def [symmetric]
    by (simp split: prod.splits option.splits)
  obtain old where old: "t_get (wr_table repo) (wf_id w) s = Some old" "we_project_id old = project_id w"
    using sc by (auto simp: get_scoped [OF assms(1)] split: option.splits if_splits)
  show ?thesis
    using sql_table_laws.put_row [OF assms(1) [unfolded table_ok_def] a] old by (auto simp: others_same_def)
qed

lemma wrepo_delete_rows:
  assumes "table_ok repo" and "wrepo_delete repo wid pid s = (b, s')"
  shows "others_same (wr_table repo) pid s s'"
proof -
  obtain n where d: "t_delete (wr_table repo) (\<lambda>r. we_id r = wid \<and> we_project_id r = pid) s = (n, s')"
    using assms(2) by (auto simp: wrepo_delete_def split: prod.splits)
  have "t_get (wr_table repo) k s' = (case t_get (wr_table repo) k s of
      Some r \<Rightarrow> if we_id r = wid \<and> we_project_id r = pid then None else Some r | None \<Rightarrow> None)" for k
    using sql_table_laws.delete_rows [OF assms(1) [unfolded table_ok_def] d] by blast
  then show ?thesis by (auto simp: others_same_def split: option.splits if_splits)
qed

text \<open>The outcome of a request that is confined to the project of its caller.\<close>

definition confined :: "'s server \<Rightarrow> caller \<Rightarrow> string \<Rightarrow> 's \<Rightarrow> workflow_response list api \<times> 's \<Rightarrow> bool" where
  "confined a c scope s r \<longleftrightarrow>
     (case fst r of
        Inl _ \<Rightarrow> snd r = s
      | Inr ws \<Rightarrow> \<exists>pid. may_use a c scope pid s \<and> others_same (wr_table (api_workflows a)) pid s (snd r)
          \<and> (\<forall>w \<in> set ws. ws_project_id w = pid))"

lemma response_project [simp]: "ws_project_id (workflow_to_response w) = project_id w" "ws_id (workflow_to_response w) = wf_id w"
  by (simp_all add: workflow_to_response_def)

lemma confinedI:
  assumes "\<And>ws. fst r = Inr ws \<Longrightarrow> \<exists>pid. authorize a scope c s = Inr pid \<and>
      others_same (wr_table (api_workflows a)) pid s (snd r) \<and> (\<forall>w \<in> set ws. ws_project_id w = pid)"
    and "\<And>e. fst r = Inl e \<Longrightarrow> snd r = s"
    and "sql_table_laws (ac_projects (api_accounts a)) pe_id" and "scope \<noteq> SCOPE_WILDCARD"
  shows "confined a c scope s r"
  using assms authorize_may_use [OF assms(3) _ assms(4)] unfolding confined_def
  by (cases "fst r") (fastforce)+

lemma create_domain_project: "workflow_create_to_domain i body pid = Inr w \<Longrightarrow> project_id w = pid"
  by (auto simp: workflow_create_to_domain_def mk_workflow_def result_simps)

lemma update_domain_keys: "workflow_update_to_domain body wid pid ver = Inr w \<Longrightarrow> wf_id w = wid \<and> project_id w = pid"
  by (auto simp: workflow_update_to_domain_def mk_workflow_def result_simps)

lemma create_workflow_success:
  assumes "create_workflow a c body s = (Inr x, s')" and "table_ok (api_workflows a)"
  obtains pid w where "authorize a ''workflow:write'' c s = Inr pid" "project_id w = pid"
    "wrepo_create (api_workflows a) w s = (Inr w, s')" "x = workflow_to_response w"
proof -
  note h = assms(1) [unfolded create_workflow_def transact_Inr]
  obtain pid where p: "authorize a ''workflow:write'' c s = Inr pid"
    using h by (cases "authorize a ''workflow:write'' c s") simp_all
  note h = h [unfolded p sum.case]
  let ?d = "workflow_create_to_domain (new_workflow_id (ae_ulid (api_auth a) 0)) body pid"
  obtain w where w: "?d = Inr w" using h by (cases ?d) simp_all
  note h = h [unfolded w sum.case]
  obtain w' where cr: "wrepo_create (api_workflows a) w s = (Inr w', s')" "x = workflow_to_response w'"
    using h by (cases "wrepo_create (api_workflows a) w s") (auto split: sum.splits)
  with wrepo_create_spec [OF assms(2) cr(1)] that p create_domain_project [OF w] show ?thesis by blast
qed

lemma update_workflow_success:
  assumes "update_workflow a c wid body s = (Inr x, s')" and "table_ok (api_workflows a)"
  obtains pid w where "authorize a ''workflow:write'' c s = Inr pid" "project_id w = pid" "wf_id w = wid"
    "workflow_update_to_domain body wid pid None = Inr w"
    "wrepo_update (api_workflows a) w s = (Inr w, s')" "x = workflow_to_response w"
proof -
  note h = assms(1) [unfolded update_workflow_def transact_Inr]
  obtain pid where p: "authorize a ''workflow:write'' c s = Inr pid"
    using h by (cases "authorize a ''workflow:write'' c s") simp_all
  note h = h [unfolded p sum.case]
  obtain w where w: "workflow_update_to_domain body wid pid None = Inr w"
    using h by (cases "workflow_update_to_domain body wid pid None") simp_all
  note h = h [unfolded w sum.case]
  obtain w' where cr: "wrepo_update (api_workflows a) w s = (Inr w', s')" "x = workflow_to_response w'"
    using h by (cases "wrepo_update (api_workflows a) w s") (auto split: sum.splits if_splits)
  with wrepo_update_spec [OF assms(2) cr(1)] that p w update_domain_keys [OF w] show ?thesis by blast
qed

lemma delete_workflow_success:
  assumes "delete_workflow a c wid s = (Inr x, s')"
  obtains pid where "authorize a ''workflow:write'' c s = Inr pid" "wrepo_delete (api_workflows a) wid pid s = (True, s')"
proof -
  note h = assms [unfolded delete_workflow_def transact_Inr]
  obtain pid where p: "authorize a ''workflow:write'' c s = Inr pid"
    using h by (cases "authorize a ''workflow:write'' c s") simp_all
  note h = h [unfolded p sum.case Let_def]
  have "wrepo_delete (api_workflows a) wid pid s = (True, s')"
    using h by (cases "wrepo_delete (api_workflows a) wid pid s") (simp split: if_splits)
  with p that show ?thesis by blast
qed

lemma wrepo_list_scope:
  assumes "table_ok repo" and "wrepo_list repo pid arch act limit offset s = Inr ws" and "w \<in> set ws"
  shows "project_id w = pid"
proof -
  let ?P = "\<lambda>r. we_project_id r = pid \<and> (case arch of None \<Rightarrow> True | Some b \<Rightarrow> we_archived r = b)
    \<and> (case act of None \<Rightarrow> True | Some b \<Rightarrow> we_active r = b)"
  let ?rs = "page_desc we_updated_at limit offset (t_select (wr_table repo) ?P s)"
  have m: "rmap (workflow_to_domain (wr_fr repo) (wr_pf repo)) ?rs = Inr ws" using assms(2) by (simp only: wrepo_list_def)
  obtain i where i: "i < length ws" "w = ws ! i" using assms(3) by (metis in_set_conv_nth)
  have d: "workflow_to_domain (wr_fr repo) (wr_pf repo) (?rs ! i) = Inr w"
    using rmap_Inr_nth [OF m, of i] rmap_Inr_length [OF m] i by simp
  have "?rs ! i \<in> set ?rs" using rmap_Inr_length [OF m] i by (intro nth_mem) simp
  then have "?rs ! i \<in> set (t_select (wr_table repo) ?P s)" by (rule subsetD [OF page_desc_set])
  then have "t_get (wr_table repo) (we_id (?rs ! i)) s = Some (?rs ! i) \<and> ?P (?rs ! i)"
    by (simp only: sql_table_laws.select_member [OF assms(1) [unfolded table_ok_def]])
  then have "we_project_id (?rs ! i) = pid" by (rule conjunct1 [OF conjunct2])
  with workflow_to_domain_keys [OF d] show ?thesis by simp
qed

text \<open>
  C6 (safety). Tenant isolation of the workflow endpoints: a request that is answered comes from an active
  user whose role has the scope of the endpoint and who owns the project it works in (or is a
  global owner); every workflow in the answer belongs to that project and no row of another
  project is added, changed or removed. A request that is refused or fails leaves the database as
  it was.
\<close>
theorem workflow_requests_confined:
  assumes "sql_table_laws (wr_table (api_workflows a)) we_id" and "sql_table_laws (ac_projects (api_accounts a)) pe_id"
  shows "confined a c (request_scope req) s (serve_workflow a c req s)"
proof -
  have ok: "table_ok (api_workflows a)" using assms(1) by (simp add: table_ok_def)
  have sc: "request_scope req \<noteq> SCOPE_WILDCARD" by (cases req) (simp_all add: SCOPE_WILDCARD_def)
  show ?thesis
  proof (rule confinedI [OF _ _ assms(2) sc])
    fix ws
    assume r: "fst (serve_workflow a c req s) = Inr ws"
    show "\<exists>pid. authorize a (request_scope req) c s = Inr pid \<and>
        others_same (wr_table (api_workflows a)) pid s (snd (serve_workflow a c req s)) \<and> (\<forall>w \<in> set ws. ws_project_id w = pid)"
    proof (cases req)
      case (ListWorkflows limit offset arch)
      with r obtain pid xs where "authorize a ''workflow:read'' c s = Inr pid"
        "wrepo_list (api_workflows a) pid (Some arch) None limit offset s = Inr xs" "ws = map workflow_to_response xs"
        by (auto simp: list_workflows_def result_simps)
      with ListWorkflows wrepo_list_scope [OF ok] show ?thesis by auto
    next
      case (GetWorkflow wid)
      with r obtain pid w where "authorize a ''workflow:read'' c s = Inr pid"
        "wrepo_get (api_workflows a) wid pid s = Inr (Some w)" "ws = [workflow_to_response w]"
        by (auto simp: get_workflow_def one_def result_simps split: option.splits)
      with GetWorkflow wrepo_get_scope [OF ok] show ?thesis by (auto simp: one_def)
    next
      case (CreateWorkflow body)
      with r obtain x where x: "fst (create_workflow a c body s) = Inr x" "ws = [x]"
        by (auto simp: one_def result_simps)
      show ?thesis
        by (rule create_workflow_success [OF pair_of_fst [OF x(1)] ok])
           (use wrepo_create_rows [OF ok] x(2) CreateWorkflow in \<open>auto simp: one_def\<close>)
    next
      case (UpdateWorkflow wid body)
      with r obtain x where x: "fst (update_workflow a c wid body s) = Inr x" "ws = [x]"
        by (auto simp: one_def result_simps)
      show ?thesis
        by (rule update_workflow_success [OF pair_of_fst [OF x(1)] ok])
           (use wrepo_update_rows [OF ok] x(2) UpdateWorkflow in \<open>auto simp: one_def\<close>)
    next
      case (DeleteWorkflow wid)
      with r obtain x where x: "fst (delete_workflow a c wid s) = Inr x" "ws = []"
        by (auto simp: Let_def result_simps split: prod.splits)
      show ?thesis
        by (rule delete_workflow_success [OF pair_of_fst [OF x(1)]])
           (use wrepo_delete_rows [OF ok] x(2) DeleteWorkflow in \<open>auto simp: Let_def split: prod.splits\<close>)
    qed
  next
    fix e
    assume r: "fst (serve_workflow a c req s) = Inl e"
    show "snd (serve_workflow a c req s) = s"
      by (cases req) (use r in \<open>auto simp: one_def rbind_def Let_def create_workflow_def update_workflow_def delete_workflow_def
        split: sum.splits prod.splits dest: transact_keeps transact_Inl\<close>)
  qed
qed

section \<open>A server on dictionaries\<close>

type_synonym server_state = "account_state \<times> (string, workflow_entity) dict \<times> dict_session"

text \<open>Every token is the access token of one user.\<close>

definition token_auth :: auth_env where
  "token_auth = \<lparr>ae_encode = (\<lambda>_. []),
     ae_decode = (\<lambda>t token. Inr [(''sub'', JStr ''us_1''), (''typ'', JStr ''access''), (''iat'', JInt 0), (''exp'', JInt 900)]),
     ae_sha256 = (\<lambda>x. x), ae_hash = (\<lambda>x. x), ae_verify = (\<lambda>h p. Inr ()), ae_fr = (\<lambda>_. []), ae_now = 0,
     ae_ulid = (\<lambda>n. ''u''), ae_registration_enabled = True\<rparr>"

definition dict_server :: "executor \<Rightarrow> server_state server" where
  "dict_server ex = \<lparr>api_auth = token_auth,
     api_accounts = \<lparr>ac_users = at_field fst (\<lambda>d t. (d, snd t)) (ac_users dict_accounts),
       ac_projects = at_field fst (\<lambda>d t. (d, snd t)) (ac_projects dict_accounts),
       ac_tokens = at_field fst (\<lambda>d t. (d, snd t)) (ac_tokens dict_accounts)\<rparr>,
     api_workflows = \<lparr>wr_table = at_field (\<lambda>t. fst (snd t)) (\<lambda>d t. (fst t, d, snd (snd t))) (dict_table we_id),
       wr_fr = (\<lambda>_. []), wr_pf = (\<lambda>_. None), wr_now = 7\<rparr>,
     api_executions = \<lparr>er_executions = at_field (\<lambda>t. snd (snd t)) (\<lambda>d t. (fst t, fst (snd t), d)) (er_executions (dict_execution_repo db_store)),
       er_data = at_field (\<lambda>t. snd (snd t)) (\<lambda>d t. (fst t, fst (snd t), d)) (er_data (dict_execution_repo db_store)),
       er_store = db_store, er_fr = (\<lambda>_. []), er_pf = (\<lambda>_. None)\<rparr>,
     api_executor = ex\<rparr>"

lemma dict_server_laws:
  "sql_table_laws (wr_table (api_workflows (dict_server ex))) we_id"
  "sql_table_laws (ac_projects (api_accounts (dict_server ex))) pe_id"
  by (simp_all add: dict_server_def dict_accounts_def at_field_laws dict_table.sql_table_laws_axioms)

lemma dict_server_executions: "execution_repository (api_executions (dict_server ex))"
proof -
  have "execution_data_store db_store" by unfold_locales
  then show ?thesis
    unfolding execution_repository_def execution_repository_axioms_def dict_server_def dict_execution_repo_def
    by (simp add: at_field_laws dict_table.sql_table_laws_axioms) (simp add: frame_def at_field_def split: prod.splits)
qed

text \<open>One member with a project of its own, a foreign project, and a workflow in each.\<close>

definition demo_projects :: "(string, project_entity) dict" where
  "demo_projects =
     [(''pr1'', \<lparr>pe_id = ''pr1'', pe_name = ''own'', pe_kind = ''personal'', pe_owner_id = ''us_1''\<rparr>),
      (''pr2'', \<lparr>pe_id = ''pr2'', pe_name = ''other'', pe_kind = ''personal'', pe_owner_id = ''us_2''\<rparr>)]"

definition demo_rows :: "workflow list \<Rightarrow> (string, workflow_entity) dict" where
  "demo_rows ws = map (\<lambda>w. (wf_id w, entity_of (workflow_to_entity_kwargs w) 0)) ws"

definition demo_server_state :: "workflow list \<Rightarrow> server_state" where
  "demo_server_state ws = (([(''us_1'', demo_user\<lparr>ue_default_project_id := Some ''pr1''\<rparr>)], demo_projects, []), demo_rows ws, [], [])"

definition demo_caller :: "string option \<Rightarrow> caller" where
  "demo_caller project = \<lparr>cl_bearer = Some ''t'', cl_project = project\<rparr>"

definition demo_tenants :: server_state where
  "demo_tenants = demo_server_state [mk_workflow ''wf1'' ''pr1'' ''mine'' [] [], mk_workflow ''wf2'' ''pr2'' ''theirs'' [] []]"

text \<open>The caller sees its own workflow, and neither the foreign one nor the foreign project.\<close>

theorem workflow_requests_confined_witness:
  "let a = dict_server demo_executor; c = demo_caller None; r = serve_workflow a c (ListWorkflows 50 0 False) demo_tenants in
     returns (\<lambda>ws. map ws_id ws = [''wf1'']) (case fst r of Inr ws \<Rightarrow> Inr ws | Inl _ \<Rightarrow> raise ValueError [])
     \<and> confined a c ''workflow:read'' demo_tenants r
     \<and> is_http 404 (fst (serve_workflow a c (GetWorkflow ''wf2'') demo_tenants))
     \<and> confined a (demo_caller (Some ''pr2'')) ''workflow:write'' demo_tenants
         (serve_workflow a (demo_caller (Some ''pr2'')) (DeleteWorkflow ''wf2'') demo_tenants)
     \<and> is_http 403 (fst (serve_workflow a (demo_caller (Some ''pr2'')) (DeleteWorkflow ''wf2'') demo_tenants))"
proof -
  note p = workflow_requests_confined [OF dict_server_laws, of demo_executor]
  have 1: "returns (\<lambda>ws. map ws_id ws = [''wf1'']) (case fst (serve_workflow (dict_server demo_executor) (demo_caller None)
      (ListWorkflows 50 0 False) demo_tenants) of Inr ws \<Rightarrow> Inr ws | Inl _ \<Rightarrow> raise ValueError [])"
    by code_simp
  have 2: "is_http 404 (fst (serve_workflow (dict_server demo_executor) (demo_caller None) (GetWorkflow ''wf2'') demo_tenants))"
    by code_simp
  have 3: "is_http 403 (fst (serve_workflow (dict_server demo_executor) (demo_caller (Some ''pr2'')) (DeleteWorkflow ''wf2'') demo_tenants))"
    by code_simp
  show ?thesis
    using 1 2 3 p [of "demo_caller None" "ListWorkflows 50 0 False" demo_tenants]
      p [of "demo_caller (Some ''pr2'')" "DeleteWorkflow ''wf2''" demo_tenants]
    by (simp add: Let_def)
qed

end
