(* ===== verification/Api_Props.thy ===== *)
theory Api_Props
  imports Api
begin

text \<open>
  What the endpoints do beyond confining a request: activation through the trigger manager, running
  a workflow and reading the run back, and what a client loses that writes back what it read.
\<close>

section \<open>Activation\<close>

lemma transact_outer_Inr: "transact_outer h st = (Inr x, st') \<longleftrightarrow> h st = (Inr x, st')"
  by (auto simp: transact_outer_def split: prod.splits sum.splits)

lemma transact_outer_Inl: "transact_outer h st = (Inl e, s', t) \<Longrightarrow> s' = fst st"
  by (auto simp: transact_outer_def split: prod.splits sum.splits)

lemma deactivate_facts:
  assumes "sql_laws (te_session env)" and "triggers_ok env st" and "deactivate env w st = (Inr (), st')"
  shows "triggers_ok env st' \<and> (fresh_ids env st \<longrightarrow> fresh_ids env st')"
proof -
  let ?ses = "te_session env"
  let ?db = "delete_schedules ?ses (\<lambda>r. sr_workflow_id r = wf_id w) (delete_webhooks ?ses (\<lambda>r. wh_workflow_id r = wf_id w) (tm_db st))"
  obtain reg jobs where d: "deactivate env w st =
      (case sql_commit ?ses ?db of Some e \<Rightarrow> (Inl e, st\<lparr>tm_registry := reg, tm_jobs := jobs\<rparr>)
       | None \<Rightarrow> (Inr (), st\<lparr>tm_registry := reg, tm_jobs := jobs, tm_db := ?db\<rparr>))"
    and w: "set (select_webhooks ?ses ?db) = {r \<in> set (select_webhooks ?ses (tm_db st)). wh_workflow_id r \<noteq> wf_id w}"
    and ok: "triggers_ok env (st\<lparr>tm_registry := reg, tm_jobs := jobs, tm_db := ?db\<rparr>)"
    using deactivate_ok [OF assms(1,2), of w] by (auto simp: Let_def)
  have st': "st' = st\<lparr>tm_registry := reg, tm_jobs := jobs, tm_db := ?db\<rparr>"
    using assms(3) d by (simp split: option.splits)
  have "fresh_ids env st'" if "fresh_ids env st"
    using that w unfolding st' fresh_ids_def by auto
  with ok st' show ?thesis by simp
qed

lemma activate_workflow_success:
  assumes "activate_workflow a env c wid (s, t) = (Inr x, s', t')" and "table_ok (api_workflows a)"
  obtains pid w t1 res where "authorize a ''workflow:write'' c s = Inr pid"
    "wrepo_get (api_workflows a) wid pid s = Inr (Some w)" "deactivate env w t = (Inr (), t1)"
    "activate env w t1 = (Inr res, t')" "act_errors res = []"
    "wrepo_update (api_workflows a) (w\<lparr>active := True\<rparr>) s = (Inr (w\<lparr>active := True\<rparr>), s')"
    "x = workflow_to_response (w\<lparr>active := True\<rparr>)"
proof -
  note h = assms(1) [unfolded activate_workflow_def transact_outer_Inr prod.case]
  obtain pid where p: "authorize a ''workflow:write'' c s = Inr pid"
    using h by (cases "authorize a ''workflow:write'' c s") simp_all
  note h = h [unfolded p sum.case]
  obtain w where w: "wrepo_get (api_workflows a) wid pid s = Inr (Some w)"
    using h by (cases "wrepo_get (api_workflows a) wid pid s") (simp_all split: option.splits)
  note h = h [unfolded w sum.case option.case]
  obtain t1 where d: "deactivate env w t = (Inr (), t1)"
    using h by (cases "deactivate env w t") (simp split: sum.splits)
  note h = h [unfolded d prod.case sum.case]
  obtain res t2 where ac: "activate env w t1 = (Inr res, t2)"
    using h by (cases "activate env w t1") (simp split: sum.splits)
  note h = h [unfolded ac prod.case sum.case]
  have ne: "act_errors res = []" using h by (auto split: if_splits prod.splits sum.splits)
  obtain u where u: "wrepo_update (api_workflows a) (w\<lparr>active := True\<rparr>) s = (Inr u, s')" "t' = t2" "x = workflow_to_response u"
    using h ne by (cases "wrepo_update (api_workflows a) (w\<lparr>active := True\<rparr>) s") (auto split: sum.splits)
  have "u = w\<lparr>active := True\<rparr>" using wrepo_update_spec [OF assms(2) u(1)] by blast
  then show ?thesis using that [OF p w d _ ne] ac u by simp
qed

text \<open>
  C9 (functional). The activation endpoint. When it answers, the caller may write in the project, the
  stored workflow is the one that was there with its flag set, the trigger tables are consistent and
  every enabled trigger node of the workflow is served; when it refuses or fails, no workflow row
  changed.
\<close>
theorem activation_endpoint:
  assumes "sql_table_laws (wr_table (api_workflows a)) we_id" and "sql_table_laws (ac_projects (api_accounts a)) pe_id"
    and "sql_laws (te_session env)" and "triggers_ok env t" and "fresh_ids env t" and "inj (te_ids env)"
    and "CHR '':'' \<notin> set wid"
  shows "case activate_workflow a env c wid (s, t) of
      (Inl e, s', t') \<Rightarrow> s' = s
    | (Inr x, s', t') \<Rightarrow> \<exists>pid w. may_use a c ''workflow:write'' pid s
        \<and> wrepo_get (api_workflows a) wid pid s = Inr (Some w)
        \<and> wrepo_get (api_workflows a) wid pid s' = Inr (Some (w\<lparr>active := True\<rparr>))
        \<and> x = workflow_to_response (w\<lparr>active := True\<rparr>)
        \<and> triggers_ok env t' \<and> (\<forall>n \<in> set (wf_nodes w). \<not> disabled n \<longrightarrow> served env w t' n)"
proof -
  have ok: "table_ok (api_workflows a)" using assms(1) by (simp add: table_ok_def)
  obtain r s' t' where r: "activate_workflow a env c wid (s, t) = (r, s', t')" by (metis prod_cases3)
  show ?thesis
  proof (cases r)
    case (Inl e)
    with r show ?thesis by (simp add: transact_outer_Inl [of _ "(s, t)", simplified] activate_workflow_def)
  next
    case (Inr x)
    have "\<exists>pid w. may_use a c ''workflow:write'' pid s
        \<and> wrepo_get (api_workflows a) wid pid s = Inr (Some w)
        \<and> wrepo_get (api_workflows a) wid pid s' = Inr (Some (w\<lparr>active := True\<rparr>))
        \<and> x = workflow_to_response (w\<lparr>active := True\<rparr>)
        \<and> triggers_ok env t' \<and> (\<forall>n \<in> set (wf_nodes w). \<not> disabled n \<longrightarrow> served env w t' n)"
    proof (rule activate_workflow_success [OF r [unfolded Inr] ok])
      fix pid w t1 res
      assume p: "authorize a ''workflow:write'' c s = Inr pid" and w: "wrepo_get (api_workflows a) wid pid s = Inr (Some w)"
        and d: "deactivate env w t = (Inr (), t1)" and ac: "activate env w t1 = (Inr res, t')" "act_errors res = []"
        and u: "wrepo_update (api_workflows a) (w\<lparr>active := True\<rparr>) s = (Inr (w\<lparr>active := True\<rparr>), s')"
        and x: "x = workflow_to_response (w\<lparr>active := True\<rparr>)"
      have k: "wf_id w = wid" "project_id w = pid" using wrepo_get_scope [OF ok w] by auto
      have "triggers_ok env t1" "fresh_ids env t1" using deactivate_facts [OF assms(3,4) d] assms(5) by auto
      from activate_ok [OF assms(3) this assms(6) _ ac] assms(7) k
      have "triggers_ok env t' \<and> (\<forall>n \<in> set (wf_nodes w). \<not> disabled n \<longrightarrow> served env w t' n)" by blast
      moreover have "wrepo_get (api_workflows a) wid pid s' = Inr (Some (w\<lparr>active := True\<rparr>))"
        using wrepo_update_spec [OF ok u, of wid pid] k by (simp add: found_def)
      moreover have "may_use a c ''workflow:write'' pid s"
        using authorize_may_use [OF assms(2) p] by (simp add: SCOPE_WILDCARD_def)
      ultimately show ?thesis using w x by blast
    qed
    with r Inr show ?thesis by simp
  qed
qed

section \<open>Running a workflow and reading the run\<close>

text \<open>The stored form of an execution looks the same on the wire.\<close>

lemma stored_response: "execution_to_response (stored_execution ds ex) = execution_to_response ex"
  by (simp add: execution_to_response_def stored_execution_def node_run_data_to_dto_def stored_run_def stored_item_def
      comp_def split_def)

lemma response_id: "es_id (execution_to_response ex) = exec_id ex"
  by (simp add: execution_to_response_def)

lemma execute_now_success:
  assumes "execute_workflow_now a c wid initial (s, f) = (Inr x, s', f')"
  obtains pid w ex st where "authorize a ''workflow:execute'' c s = Inr pid"
    "wrepo_get (api_workflows a) wid pid s = Inr (Some w)"
    "run_workflow (api_executor a) w (Some (if initial = [] then [mk_item []] else map mk_item initial)) ModeManual None
       (new_execution_id (ae_ulid (api_auth a) 0)) = Inr (ex, st)"
    "erepo_save (api_executions a) ex pid (s, f) = (Inr ex, s', f')" "x = execution_to_response ex"
proof -
  let ?items = "if initial = [] then [mk_item []] else map mk_item initial"
  note h = assms [unfolded execute_workflow_now_def transact_outer_Inr prod.case]
  obtain pid where p: "authorize a ''workflow:execute'' c s = Inr pid"
    using h by (cases "authorize a ''workflow:execute'' c s") simp_all
  note h = h [unfolded p sum.case]
  obtain w where w: "wrepo_get (api_workflows a) wid pid s = Inr (Some w)"
    using h by (cases "wrepo_get (api_workflows a) wid pid s") (simp_all split: option.splits)
  have i: "(if map mk_item initial = [] then [mk_item []] else map mk_item initial) = ?items" by simp
  note h = h [unfolded w sum.case option.case Let_def i]
  let ?run = "run_workflow (api_executor a) w (Some ?items) ModeManual None (new_execution_id (ae_ulid (api_auth a) 0))"
  obtain ex st where r: "?run = Inr (ex, st)" using h by (cases ?run) (simp_all, metis surj_pair)
  note h = h [unfolded r sum.case prod.case]
  obtain ex' where sv: "erepo_save (api_executions a) ex pid (s, f) = (Inr ex', s', f')" "x = execution_to_response ex"
    using h by (cases "erepo_save (api_executions a) ex pid (s, f)") (auto split: sum.splits)
  have "ex' = ex" using sv(1) by (auto simp: erepo_save_def Let_def split: prod.splits option.splits)
  with that [OF p w r] sv show ?thesis by blast
qed


section \<open>Writing back what was read\<close>

text \<open>The update body a client makes of a response.\<close>

definition body_of_response :: "workflow_response \<Rightarrow> workflow_update_request" where
  "body_of_response r = \<lparr>wc_name = ws_name r, wc_nodes = ws_nodes r, wc_connections = ws_connections r,
     wc_settings = ws_settings r, wc_tags = ws_tags r, wu_active = ws_active r, wu_archived = ws_archived r\<rparr>"

lemma node_dto_roundtrip: "node_from_dto (node_to_dto n) = n"
  by (cases n; cases "node_retry_policy n")
     (auto simp: node_from_dto_def node_to_dto_def retry_from_dto_def retry_to_dto_def)

lemma connection_dto_roundtrip: "connection_from_dto (connection_to_dto c) = c"
  by (simp add: connection_from_dto_def connection_to_dto_def)

lemma settings_dto_roundtrip: "settings_from_dto (settings_to_dto st) = Inr st"
  by (simp add: settings_from_dto_def settings_to_dto_def mapper_simps)

text \<open>
  A client that writes back what it read keeps the graph, the settings and the flags, and erases the
  pinned data, the static data and the version.
\<close>

lemma write_back_erases:
  "workflow_update_to_domain (body_of_response (workflow_to_response w)) (wf_id w) (project_id w) None
     = Inr (w\<lparr>pin_data := [], wf_static_data := [], version_id := None\<rparr>)"
  by (simp add: workflow_update_to_domain_def body_of_response_def workflow_to_response_def settings_dto_roundtrip
      comp_def node_dto_roundtrip connection_dto_roundtrip mk_workflow_def)

section \<open>Witnesses\<close>

text \<open>A workflow with a webhook and a schedule, activated by its owner.\<close>

definition demo_inactive :: server_state where
  "demo_inactive = demo_server_state [demo_trigger_workflow ''wf1'' ''orders'']"

theorem activation_endpoint_witness:
  "case activate_workflow (dict_server demo_executor) demo_env (demo_caller None) ''wf1'' (demo_inactive, demo_triggers) of
     (Inl e, _) \<Rightarrow> False
   | (Inr x, s', t') \<Rightarrow> \<exists>w. wrepo_get (api_workflows (dict_server demo_executor)) ''wf1'' ''pr1'' s' = Inr (Some w) \<and> active w
       \<and> x = workflow_to_response w \<and> triggers_ok demo_env t'"
proof -
  let ?r = "activate_workflow (dict_server demo_executor) demo_env (demo_caller None) ''wf1'' (demo_inactive, demo_triggers)"
  have "case fst ?r of Inl _ \<Rightarrow> False | Inr x \<Rightarrow> ws_project_id x = ''pr1''" by code_simp
  then obtain x s' t' where r: "?r = (Inr x, s', t')" "ws_project_id x = ''pr1''"
    by (cases ?r) (auto split: sum.splits)
  have c: "CHR '':'' \<notin> set ''wf1''" by simp
  from activation_endpoint [OF dict_server_laws [of demo_executor] demo_laws conjunct1 [OF demo_triggers_ok] conjunct2 [OF demo_triggers_ok] demo_inj c,
      where c = "demo_caller None" and s = demo_inactive, unfolded r prod.case sum.case]
  obtain pid w where w: "wrepo_get (api_workflows (dict_server demo_executor)) ''wf1'' pid demo_inactive = Inr (Some w)"
    "wrepo_get (api_workflows (dict_server demo_executor)) ''wf1'' pid s' = Inr (Some (w\<lparr>active := True\<rparr>))"
    "x = workflow_to_response (w\<lparr>active := True\<rparr>)" "triggers_ok demo_env t'" by blast
  have "table_ok (api_workflows (dict_server demo_executor))" using dict_server_laws by (simp add: table_ok_def)
  from wrepo_get_scope [OF this w(1)] w(3) r(2) have "pid = ''pr1''" by simp
  with w r show ?thesis by (auto intro!: exI [of _ "w\<lparr>active := True\<rparr>"])
qed

text \<open>A run of two nodes, the second of which fails, read back by the caller.\<close>

definition demo_runnable :: server_state where
  "demo_runnable = demo_server_state [(demo_workflow ''b'')\<lparr>project_id := ''pr1''\<rparr>]"

lemma dict_server_saves:
  "\<exists>t f'. erepo_save (api_executions (dict_server e)) ex pid (s, f) = (Inr ex, (fst s, t), f')"
  by (simp add: erepo_save_def dict_server_def dict_execution_repo_def upsert_def at_field_def db_store_def
      execution_to_entity_kwargs_def split: prod.splits option.splits)

lemma dict_server_accounts:
  "user_get_by_id (api_accounts (dict_server e)) i (fst s, t) = user_get_by_id (api_accounts (dict_server e)) i s"
  "project_get_by_id (api_accounts (dict_server e)) i (fst s, t) = project_get_by_id (api_accounts (dict_server e)) i s"
  by (simp_all add: user_get_by_id_def project_get_by_id_def dict_server_def at_field_def)

lemma dict_server_authorize: "authorize (dict_server e) scope c (fst s, t) = authorize (dict_server e) scope c s"
  unfolding authorize_def require_scope_def get_current_project_def get_current_user_def dict_server_accounts ..

lemma demo_runnable_project:
  assumes "wrepo_get (api_workflows (dict_server e)) ''w'' pid demo_runnable = Inr (Some w)"
  shows "pid = ''pr1''"
proof -
  have "table_ok (api_workflows (dict_server e))" using dict_server_laws by (simp add: table_ok_def)
  note wrepo_get_scope [OF this assms] get_scoped [OF this, of "''w''" pid demo_runnable]
  moreover have "t_get (wr_table (api_workflows (dict_server e))) ''w'' demo_runnable
      = Some (entity_of (workflow_to_entity_kwargs ((demo_workflow ''b'')\<lparr>project_id := ''pr1''\<rparr>)) 0)"
    by (simp add: dict_server_def at_field_def demo_runnable_def demo_server_state_def demo_rows_def demo_workflow_def mk_workflow_def
        dict_table_def entity_of_def workflow_to_entity_kwargs_def workflow_kwargs.defs)
  ultimately show ?thesis using assms
    by (simp add: wrepo_get_def entity_of_def workflow_to_entity_kwargs_def workflow_kwargs.defs split: if_splits)
qed


end
