(* ===== verification/Spec2Isabelle.thy ===== *)
theory Spec2Isabelle
  imports Prelude Py_Value Paths Predicates Domain Workflow_Graph Regex Redaction Expression
    Node_Registry Executor Executor_Props Sub_Workflow Core_Specs Core_Nodes Core_Nodes_Props Webhooks
    Kv_Client Triggers Leader Auth Worker Ai_Memory Text_Splitter
    Requests Builders_1 Builders_2 Builders_3 Builders_4 Builders_5 Builders_6 Builders_7 Ai_Specs
    Integration_Specs_1 Integration_Specs_2 Integration_Specs_3 Integration_Specs_4 Catalogue Http Credential_Type Credentials Credential_Types_1 Credential_Types_2
    Credential_Types_3 Credential_Types_4 Nodes_1 Nodes_2 Nodes_3 Nodes_4 Nodes_5 Integrations Credential_Catalogue
    Operation_Menu Py_Datetime Db_Mappers Database Repositories Accounts Api Api_Props
begin

text \<open>
  \<^bold>\<open>Weftlyflow.\<close> A verification library for the workflow automation server under
  \<open>src/src/weftlyflow\<close>. A workflow is a directed graph of nodes; an execution walks the graph, hands
  items (JSON objects) from node to node and records what every node returned. Around the engine there
  are triggers that start executions, a worker that runs and stores them, node packages (core,
  integrations, AI), the credentials the nodes use, and a server with its database and its users.

  \<^bold>\<open>Conventions.\<close> A dataclass is a record, a literal type or an enumeration a datatype, a Python value
  \<open>json\<close> (theory \<open>Py_Value\<close>: null, booleans, integers, exact rationals for floats, strings, lists, and
  objects as association lists in insertion order). A function that raises returns \<open>exn + 'a\<close>
  (\<open>Prelude\<close>: \<open>raise\<close>, \<open>rbind\<close>, \<open>rmap\<close>, \<open>rfold\<close>); an exception keeps its class and its text. State is passed
  and returned. Values are immutable: code that mutates a shared dict is modelled by its final value,
  so aliasing between items is not visible. A coroutine is its sequential body; an operation under a
  lock is one atomic step. Characters are those below 256, and a dash, an arrow or an ellipsis of a
  message is written in ASCII. Logging and metrics are left out, they feed nothing back.

  \<^bold>\<open>Parameters.\<close> Code that is not part of the repository is an argument: the clock, the printer of floats,
  the restricted Python compiler and its evaluator, text decoding and the JSON parser, fresh
  identifiers, the database session (with the laws of a transactional session, \<open>Triggers\<close>, and of a
  table with a primary key, locale \<open>sql_table_laws\<close> in \<open>Database\<close>), token signing, password hashing and
  digests (\<open>Accounts\<close>), the key-value server behind leader election and nonces (locale of laws in
  \<open>Kv_Client\<close>), importing a Python module, Fernet encryption, and the HTTP client with the network behind it.
  A request is the record of what the node hands to the client; setting a header replaces the value
  under the same name without regard to case.

  \<^bold>\<open>Parts and theories.\<close>
  \<^item> \<open>Prelude\<close>, \<open>Py_Value\<close>: results, ordered dicts (locale \<open>keyed_table\<close>), strings, integers and their text,
    JSON values with Python's truth, equality, \<open>str\<close> and \<open>repr\<close>.
  \<^item> \<open>Domain\<close> (\<open>domain/\<close>): workflows, connections, items, executions, node specifications.
  \<^item> \<open>Workflow_Graph\<close> (\<open>engine/graph.py\<close>): the constructor with its validation and Kahn's algorithm; when it
    succeeds the order is topological, and it fails exactly on duplicate ids, dangling edges and cycles.
  \<^item> \<open>Executor\<close>, \<open>Executor_Props\<close> (\<open>engine/executor.py\<close>, \<open>runtime.py\<close>, \<open>hooks.py\<close>): the run loop, error policies,
    readiness and propagation, the lifecycle hooks as a trace. The lemmas show that the loop ends, that a
    node runs once and only after its inputs, what a run delivers along each edge, how failures stop or
    continue, and the protocol of the hooks.
  \<^item> \<open>Sub_Workflow\<close> (\<open>engine/subworkflow.py\<close>): nested runs. The interpreter's recursion limit is a depth: with
    enough depth the run returns, with none it raises \<open>RecursionError\<close>; a child of another project never runs.
  \<^item> \<open>Node_Registry\<close> (\<open>engine/context.py\<close>, \<open>nodes/base.py\<close>, \<open>nodes/registry.py\<close>), \<open>Core_Specs\<close>,
    \<open>Integration_Specs_1\<close> to \<open>4\<close>, \<open>Ai_Specs\<close>, \<open>Catalogue\<close> (\<open>nodes/discovery.py\<close>): the context, the registry and
    the specifications of all 128 built-in nodes; discovery finds them and the registry loads them.
  \<^item> \<open>Expression\<close>, \<open>Regex\<close>, \<open>Redaction\<close>, \<open>Paths\<close>, \<open>Predicates\<close> (\<open>expression/\<close>, \<open>utils/redaction.py\<close>,
    \<open>nodes/utils/\<close>): templates, sandbox tables, scrubbing of error texts by backtracking regular
    expressions, dotted paths, comparison operators.
  \<^item> \<open>Core_Nodes\<close>, \<open>Core_Nodes_Props\<close> (\<open>nodes/core/\<close>): the data-flow nodes and what each does with its items.
  \<^item> \<open>Webhooks\<close> (\<open>webhooks/\<close>), \<open>Triggers\<close>, \<open>Leader\<close> (\<open>triggers/\<close>), \<open>Kv_Client\<close>, \<open>Worker\<close> (\<open>worker/\<close>), \<open>Auth\<close>
    (\<open>auth/\<close>): the route table and its indexes, activation against database rows and scheduler, leader
    locks, the idempotent worker, role scopes and one-time nonces.
  \<^item> \<open>Requests\<close>, \<open>Builders_1\<close> to \<open>7\<close> (\<open>nodes/integrations/*/operations.py\<close>): every function of the request
    builders of 53 integrations. The locale \<open>request_builder\<close> is what a node relies on; 46 modules
    interpret it.
  \<^item> \<open>Http\<close>, \<open>Nodes_1\<close> to \<open>5\<close> (\<open>nodes/integrations/*/node.py\<close>): 32 nodes in full, from the credential to the
    item returned. The locale \<open>http_node\<close> lifts the promise of one dispatch to \<open>execute\<close>. \<open>Integrations\<close>
    collects builders and nodes and \<open>Operation_Menu\<close> compares them with the specifications.
  \<^item> \<open>Credentials\<close>, \<open>Credential_Type\<close>, \<open>Credential_Types_1\<close> to \<open>4\<close>, \<open>Credential_Catalogue\<close> (\<open>credentials/\<close>): the type
    registry, both resolvers (locale \<open>credential_store\<close>), the cipher, secret references, the 87 types
    with their \<open>inject\<close> and \<open>test\<close>.
  \<^item> \<open>Py_Datetime\<close>, \<open>Db_Mappers\<close>, \<open>Database\<close>, \<open>Repositories\<close> (\<open>db/\<close>): dates as microseconds with their ISO text, the
    mappers between rows and the domain, both stores of execution payloads (locale
    \<open>execution_data_store\<close>) and the workflow and execution repositories, which refine a map seen
    through a project (locales \<open>scoped_store\<close>, \<open>execution_repository\<close>).
  \<^item> \<open>Accounts\<close> (\<open>domain/ids.py\<close>, \<open>auth/jwt.py\<close>, \<open>auth/passwords.py\<close>, \<open>auth/bootstrap.py\<close>, \<open>server/deps.py\<close>,
    \<open>server/routers/auth.py\<close>): users, projects and refresh tokens, log-in, rotation and log-out, and the
    dependencies that authenticate a request.
  \<^item> \<open>Api\<close>, \<open>Api_Props\<close> (\<open>server/routers/workflows.py\<close>, \<open>executions.py\<close>, \<open>server/mappers/\<close>, \<open>server/schemas/\<close>,
    \<open>server/errors.py\<close>): the handlers of workflows and executions from the token to the row; tenants are
    isolated, activation serves the triggers, and a run is read back as it was answered.
  \<^item> \<open>Ai_Memory\<close>, \<open>Text_Splitter\<close> (\<open>nodes/ai/\<close>): chat memory as a refinement of a log per session, and the
    recursive splitter with its bounds.

  \<^bold>\<open>How the parts meet.\<close> A trigger or a webhook builds an execution request (\<open>Triggers\<close>, \<open>Webhooks\<close>), the worker
  claims it and runs the executor (\<open>Worker\<close>), the executor asks the registry for the class of each node
  and calls its \<open>execute\<close> with a context (\<open>Node_Registry\<close>), an integration node loads its credential from
  a resolver (\<open>Credentials\<close>), builds a request (\<open>Builders\<close>), lets the credential type inject its secret
  (\<open>Credential_Types\<close>) and hands the request to the client (\<open>Http\<close>). The server authenticates a
  request (\<open>Accounts\<close>), reads and writes rows in the session of that request (\<open>Repositories\<close>), and calls
  the trigger manager and the executor (\<open>Api\<close>).

  \<^bold>\<open>Bounds and fuel.\<close> Only the recursion of sub-workflows has fuel, the depth above. Every other loop
  is structural or has a measure: Kahn's algorithm and the run loop the number of nodes, the regular
  expression matcher the length of the text, the splitter the separators and the text left.

  \<^bold>\<open>Not modelled.\<close> The HTTP request, HTML and XML, date and time, binary file, wait and code nodes;
  integrations that sign requests, read the clock, send multipart bodies or draw random keys; the AI
  nodes that talk to model providers or vector databases; the signing credential types and the Vault,
  1Password and AWS secret providers; single sign-on; migrations; application wiring, middleware,
  settings, command line and metrics. They are third-party cryptography, parsers and I/O, or glue
  around them.
\<close>

end
